(* ===== verification/Prelude.thy ===== *)
theory Prelude
  imports Complex_Main "HOL-Library.AList"
begin

text \<open>
  Shared vocabulary of the development: results with errors, the JSON values the
  program stores, Python dictionaries as association lists in insertion order,
  sliding windows of timestamps, and the string operations the components use.
  A Python \<open>str\<close> is a \<^typ>\<open>string\<close>, one \<^typ>\<open>char\<close> per code point (so the model
  covers the code points below 256); a float number of seconds is a \<^typ>\<open>real\<close>.
\<close>

named_theorems component_simps
  "unfolding rules for the small accessors of the components"

section \<open>Errors as values\<close>

datatype py_error =
    ValueError string
  | RuntimeError string
  | PermissionError string
  | KeyError string
  | OSError string
  | CredentialNotDecryptable string
  | IntegrityError string
  | HTTPException int string
  | OtherError string

type_synonym 'a res = "py_error + 'a"

fun rbind :: "'a res \<Rightarrow> ('a \<Rightarrow> 'b res) \<Rightarrow> 'b res" where
  "rbind (Inl e) f = Inl e"
| "rbind (Inr x) f = f x"

lemma rbind_Inr_iff [simp]: "rbind r f = Inr y \<longleftrightarrow> (\<exists>x. r = Inr x \<and> f x = Inr y)"
  by (cases r) auto

lemma rbind_Inl_iff: "rbind r f = Inl e \<longleftrightarrow> r = Inl e \<or> (\<exists>x. r = Inr x \<and> f x = Inl e)"
  by (cases r) auto

text \<open>Running an operation over a list, stopping at the first error (a Python loop that raises).\<close>

fun rmap :: "('a \<Rightarrow> 'b res) \<Rightarrow> 'a list \<Rightarrow> 'b list res" where
  "rmap f [] = Inr []"
| "rmap f (x # xs) = rbind (f x) (\<lambda>y. rbind (rmap f xs) (\<lambda>ys. Inr (y # ys)))"

fun rfold :: "('a \<Rightarrow> 's \<Rightarrow> 's res) \<Rightarrow> 'a list \<Rightarrow> 's \<Rightarrow> 's res" where
  "rfold f [] s = Inr s"
| "rfold f (x # xs) s = rbind (f x s) (rfold f xs)"

lemma rmap_Inr_iff: "rmap f xs = Inr ys \<longleftrightarrow> list_all2 (\<lambda>x y. f x = Inr y) xs ys"
  by (induction xs arbitrary: ys) (auto simp: list_all2_Cons1)

lemma rmap_raises: "x \<in> set xs \<Longrightarrow> f x = Inl e \<Longrightarrow> \<exists>e'. rmap f xs = Inl e'"
proof (induction xs)
  case Nil
  then show ?case by simp
next
  case (Cons a xs)
  then show ?case by (cases "f a"; cases "rmap f xs") auto
qed

lemma rmap_member: "rmap f xs = Inr ys \<Longrightarrow> y \<in> set ys \<Longrightarrow> \<exists>x \<in> set xs. f x = Inr y"
  by (induction xs arbitrary: ys) auto

section \<open>JSON documents and dictionaries\<close>

datatype json =
    JNull
  | JBool bool
  | JInt int
  | JReal real
  | JStr string
  | JArr "json list"
  | JObj "(string \<times> json) list"

type_synonym jdict = "(string \<times> json) list"

text \<open>Python truthiness of a JSON value.\<close>

fun jtruthy :: "json \<Rightarrow> bool" where
  "jtruthy JNull = False"
| "jtruthy (JBool b) = b"
| "jtruthy (JInt i) = (i \<noteq> 0)"
| "jtruthy (JReal r) = (r \<noteq> 0)"
| "jtruthy (JStr s) = (s \<noteq> [])"
| "jtruthy (JArr xs) = (xs \<noteq> [])"
| "jtruthy (JObj d) = (d \<noteq> [])"

text \<open>\<open>d.get(k, default)\<close> on a dictionary kept as an association list.\<close>

definition dget :: "(string \<times> 'v) list \<Rightarrow> string \<Rightarrow> 'v \<Rightarrow> 'v" where
  "dget d k dflt = (case map_of d k of None \<Rightarrow> dflt | Some v \<Rightarrow> v)"

lemma dget_Cons [simp]: "dget ((a, v) # d) k x = (if k = a then v else dget d k x)"
  by (simp add: dget_def)

lemma dget_Nil [simp]: "dget [] k x = x"
  by (simp add: dget_def)

lemma map_of_update [simp]: "map_of (AList.update k v d) k' = (if k' = k then Some v else map_of d k')"
  by (simp add: update_conv')

lemma map_of_delete [simp]: "map_of (AList.delete k d) k' = (if k' = k then None else map_of d k')"
  by (simp add: delete_conv')

lemma dget_update [simp]: "dget (AList.update k v d) k' x = (if k' = k then v else dget d k' x)"
  by (simp add: dget_def)

text \<open>\<open>k in d\<close>.\<close>

definition has_key :: "('k \<times> 'v) list \<Rightarrow> 'k \<Rightarrow> bool" where
  "has_key d k \<longleftrightarrow> map_of d k \<noteq> None"

declare map_of_eq_Some_iff [simp del]

lemma has_key_Nil [simp]: "\<not> has_key [] k"
  by (simp add: has_key_def)

lemma has_key_Cons [simp]: "has_key ((a, v) # d) k \<longleftrightarrow> k = a \<or> has_key d k"
  by (simp add: has_key_def)

lemma has_key_update [simp]: "has_key (AList.update k v d) k' \<longleftrightarrow> k' = k \<or> has_key d k'"
  by (simp add: has_key_def)

lemma has_key_delete [simp]: "has_key (AList.delete k d) k' \<longleftrightarrow> k' \<noteq> k \<and> has_key d k'"
  by (simp add: has_key_def)

lemma has_key_iff_fst: "has_key d k \<longleftrightarrow> k \<in> fst ` set d"
  by (simp add: has_key_def map_of_eq_None_iff)

text \<open>\<open>d.update(e)\<close>.\<close>

definition dict_update :: "('k \<times> 'v) list \<Rightarrow> ('k \<times> 'v) list \<Rightarrow> ('k \<times> 'v) list" where
  "dict_update d e = fold (\<lambda>(k, v). AList.update k v) e d"

lemma distinct_dict_update: "distinct (map fst d) \<Longrightarrow> distinct (map fst (dict_update d e))"
  by (induction e arbitrary: d) (auto simp: dict_update_def distinct_update)

lemma map_of_dict_update:
  "distinct (map fst e) \<Longrightarrow>
   map_of (dict_update d e) k = (case map_of e k of Some v \<Rightarrow> Some v | None \<Rightarrow> map_of d k)"
proof (induction e arbitrary: d)
  case Nil
  then show ?case by (simp add: dict_update_def)
next
  case (Cons kv e)
  obtain a v where kv: "kv = (a, v)" by (cases kv)
  with Cons.prems have none: "map_of e a = None" by (simp add: map_of_eq_None_iff)
  have step: "dict_update d (kv # e) = dict_update (AList.update a v d) e"
    by (simp add: dict_update_def kv)
  from Cons.prems have "distinct (map fst e)" by simp
  from Cons.IH [OF this, of "AList.update a v d"] show ?case
    unfolding step by (cases "k = a") (simp_all add: kv none split: option.split)
qed

lemma has_key_dict_update [simp]: "has_key (dict_update d e) k \<longleftrightarrow> has_key d k \<or> has_key e k"
proof (induction e arbitrary: d)
  case Nil
  then show ?case by (simp add: dict_update_def)
next
  case (Cons kv e)
  obtain a v where kv: "kv = (a, v)" by (cases kv)
  have "dict_update d (kv # e) = dict_update (AList.update a v d) e"
    by (simp add: dict_update_def kv)
  with Cons.IH [of "AList.update a v d"] show ?case by (simp add: kv disj_commute disj_left_commute)
qed

section \<open>Sliding windows of timestamps\<close>

text \<open>\<open>[t for t in ts if t > cutoff]\<close>.\<close>

definition recent :: "real \<Rightarrow> real list \<Rightarrow> real list" where
  "recent cutoff ts = filter (\<lambda>t. t > cutoff) ts"

lemma recent_append [simp]: "recent c (xs @ ys) = recent c xs @ recent c ys"
  by (simp add: recent_def)

lemma recent_Nil [simp]: "recent c [] = []"
  by (simp add: recent_def)

lemma recent_Cons [simp]: "recent c (t # ts) = (if t > c then t # recent c ts else recent c ts)"
  by (simp add: recent_def)

lemma recent_recent: "c \<le> c' \<Longrightarrow> recent c' (recent c ts) = recent c' ts"
  by (induction ts) (auto simp: recent_def)

lemma set_recent [simp]: "set (recent c ts) = {t \<in> set ts. t > c}"
  by (auto simp: recent_def)

lemma length_recent_le: "length (recent c ts) \<le> length ts"
  by (simp add: recent_def)

lemma length_recent_mono: "c \<le> c' \<Longrightarrow> length (recent c' ts) \<le> length (recent c ts)"
  by (induction ts) auto

lemma recent_all: "\<forall>t \<in> set ts. t > c \<Longrightarrow> recent c ts = ts"
  by (simp add: recent_def)

lemma recent_none: "\<forall>t \<in> set ts. t \<le> c \<Longrightarrow> recent c ts = []"
  by (auto simp: recent_def filter_empty_conv)

section \<open>Generic facts\<close>

lemma map_of_filter_values:
  "distinct (map fst d) \<Longrightarrow>
   map_of (filter (\<lambda>(k, v). P v) d) k =
     (case map_of d k of Some v \<Rightarrow> (if P v then Some v else None) | None \<Rightarrow> None)"
proof (induction d)
  case Nil
  then show ?case by simp
next
  case (Cons kv d)
  obtain a v where kv: "kv = (a, v)" by (cases kv)
  with Cons.prems have "map_of d a = None" by (simp add: map_of_eq_None_iff)
  with Cons kv show ?case by (cases "k = a") auto
qed

lemma sorted_le_last: "sorted ts \<Longrightarrow> t \<in> set ts \<Longrightarrow> t \<le> last ts"
  by (induction ts) auto

lemma distinct_map_fst_filter:
  "distinct (map fst d) \<Longrightarrow> distinct (map fst (filter P d))"
  by (simp add: distinct_map_filter)

end
