(* ===== verification/Rbac.thy ===== *)
theory Rbac
  imports Prelude
begin

text \<open>
  Role-based access control, \<open>src/brain/security/rbac.py\<close>: the permissions, the two
  role tables (what a tier offers, what a user role may use of it) and the checks of
  \<open>RBACPolicy\<close>. The lemmas show that the tables are ordered the way the tiers are sold
  and that no tier, not even a custom one, lifts a restricted user role.
\<close>

section \<open>Permissions and role tables\<close>

datatype permission =
    READ_BRONZE | READ_SILVER | READ_GOLD | WRITE_BRONZE
  | RUN_PIPELINE | VIEW_PIPELINE_RUNS
  | MANAGE_TENANT | VIEW_TENANT
  | MANAGE_USERS | INVITE_USERS
  | GENERATE_DIGEST | USE_LLM | USE_PREMIUM_LLM | USE_RAG | USE_LOCAL_LLM
  | MANAGE_API_KEYS
  | ADMIN_ALL

fun permission_value :: "permission \<Rightarrow> string" where
  "permission_value READ_BRONZE = ''read:bronze''"
| "permission_value READ_SILVER = ''read:silver''"
| "permission_value READ_GOLD = ''read:gold''"
| "permission_value WRITE_BRONZE = ''write:bronze''"
| "permission_value RUN_PIPELINE = ''run:pipeline''"
| "permission_value VIEW_PIPELINE_RUNS = ''view:pipeline_runs''"
| "permission_value MANAGE_TENANT = ''manage:tenant''"
| "permission_value VIEW_TENANT = ''view:tenant''"
| "permission_value MANAGE_USERS = ''manage:users''"
| "permission_value INVITE_USERS = ''invite:users''"
| "permission_value GENERATE_DIGEST = ''generate:digest''"
| "permission_value USE_LLM = ''use:llm''"
| "permission_value USE_PREMIUM_LLM = ''use:premium_llm''"
| "permission_value USE_RAG = ''use:rag''"
| "permission_value USE_LOCAL_LLM = ''use:local_llm''"
| "permission_value MANAGE_API_KEYS = ''manage:api_keys''"
| "permission_value ADMIN_ALL = ''admin:all''"

definition all_permissions :: "permission list" where
  "all_permissions =
     [READ_BRONZE, READ_SILVER, READ_GOLD, WRITE_BRONZE,
      RUN_PIPELINE, VIEW_PIPELINE_RUNS, MANAGE_TENANT, VIEW_TENANT,
      MANAGE_USERS, INVITE_USERS, GENERATE_DIGEST, USE_LLM, USE_PREMIUM_LLM,
      USE_RAG, USE_LOCAL_LLM, MANAGE_API_KEYS, ADMIN_ALL]"

definition tier_roles :: "(string \<times> permission list) list" where
  "tier_roles =
    [(''free'', [READ_GOLD, VIEW_TENANT, RUN_PIPELINE, VIEW_PIPELINE_RUNS,
                 GENERATE_DIGEST, MANAGE_API_KEYS]),
     (''standard'', [READ_BRONZE, READ_SILVER, READ_GOLD, WRITE_BRONZE, VIEW_TENANT,
                     RUN_PIPELINE, VIEW_PIPELINE_RUNS, GENERATE_DIGEST, USE_LLM,
                     MANAGE_API_KEYS]),
     (''premium'', [READ_BRONZE, READ_SILVER, READ_GOLD, WRITE_BRONZE, VIEW_TENANT,
                    MANAGE_TENANT, RUN_PIPELINE, VIEW_PIPELINE_RUNS, GENERATE_DIGEST,
                    USE_LLM, USE_PREMIUM_LLM, USE_LOCAL_LLM, MANAGE_API_KEYS,
                    MANAGE_USERS, INVITE_USERS]),
     (''vip'', all_permissions),
     (''demo'', [READ_BRONZE, READ_SILVER, READ_GOLD, WRITE_BRONZE, VIEW_TENANT,
                 RUN_PIPELINE, VIEW_PIPELINE_RUNS, GENERATE_DIGEST, USE_LLM,
                 USE_PREMIUM_LLM, USE_RAG, USE_LOCAL_LLM, MANAGE_API_KEYS]),
     (''admin'', all_permissions)]"

definition user_role_perms :: "(string \<times> permission list) list" where
  "user_role_perms =
    [(''owner'', all_permissions),
     (''admin'', [READ_BRONZE, READ_SILVER, READ_GOLD, WRITE_BRONZE, RUN_PIPELINE,
                  VIEW_PIPELINE_RUNS, MANAGE_TENANT, VIEW_TENANT, MANAGE_USERS,
                  INVITE_USERS, GENERATE_DIGEST, USE_LLM, USE_PREMIUM_LLM,
                  MANAGE_API_KEYS]),
     (''member'', [READ_BRONZE, READ_SILVER, READ_GOLD, WRITE_BRONZE, RUN_PIPELINE,
                   VIEW_PIPELINE_RUNS, VIEW_TENANT, GENERATE_DIGEST, USE_LLM,
                   MANAGE_API_KEYS]),
     (''viewer'', [READ_GOLD, VIEW_TENANT, VIEW_PIPELINE_RUNS, GENERATE_DIGEST]),
     (''demo'', [READ_GOLD, VIEW_TENANT, VIEW_PIPELINE_RUNS])]"

section \<open>The policy\<close>

record rbac_policy =
  custom_roles :: "(string \<times> permission list) list"

definition get_permissions :: "rbac_policy \<Rightarrow> string \<Rightarrow> permission list" where
  "get_permissions pol role =
     (case map_of (custom_roles pol) role of
        Some ps \<Rightarrow> ps
      | None \<Rightarrow> dget tier_roles role [])"

definition get_user_permissions :: "rbac_policy \<Rightarrow> string \<Rightarrow> permission list" where
  "get_user_permissions pol user_role = dget user_role_perms user_role []"

definition has_permission :: "rbac_policy \<Rightarrow> string \<Rightarrow> permission \<Rightarrow> bool" where
  "has_permission pol role p =
     (let ps = get_permissions pol role in ADMIN_ALL \<in> set ps \<or> p \<in> set ps)"

definition has_user_permission :: "rbac_policy \<Rightarrow> string \<Rightarrow> permission \<Rightarrow> bool" where
  "has_user_permission pol user_role p =
     (let ps = get_user_permissions pol user_role in ADMIN_ALL \<in> set ps \<or> p \<in> set ps)"

definition check_access :: "rbac_policy \<Rightarrow> string \<Rightarrow> string \<Rightarrow> permission \<Rightarrow> bool" where
  "check_access pol tier_role user_role p =
     (if \<not> has_permission pol tier_role p then False
      else if user_role = [] then True
      else has_user_permission pol user_role p)"

definition require_permission :: "rbac_policy \<Rightarrow> string \<Rightarrow> permission \<Rightarrow> unit res" where
  "require_permission pol role p =
     (if \<not> has_permission pol role p
      then Inl (PermissionError
             (''Role '' @ [CHR 0x27] @ role @ [CHR 0x27] @
              '' lacks required permission: '' @ permission_value p))
      else Inr ())"

definition available_roles :: "string list" where
  "available_roles = map fst tier_roles"

definition available_user_roles :: "string list" where
  "available_user_roles = map fst user_role_perms"

section \<open>Facts about the tables\<close>

lemma get_user_permissions_cases:
  "get_user_permissions pol u =
     (if u = ''owner'' then all_permissions
      else if u = ''admin'' then
        [READ_BRONZE, READ_SILVER, READ_GOLD, WRITE_BRONZE, RUN_PIPELINE,
         VIEW_PIPELINE_RUNS, MANAGE_TENANT, VIEW_TENANT, MANAGE_USERS,
         INVITE_USERS, GENERATE_DIGEST, USE_LLM, USE_PREMIUM_LLM, MANAGE_API_KEYS]
      else if u = ''member'' then
        [READ_BRONZE, READ_SILVER, READ_GOLD, WRITE_BRONZE, RUN_PIPELINE,
         VIEW_PIPELINE_RUNS, VIEW_TENANT, GENERATE_DIGEST, USE_LLM, MANAGE_API_KEYS]
      else if u = ''viewer'' then
        [READ_GOLD, VIEW_TENANT, VIEW_PIPELINE_RUNS, GENERATE_DIGEST]
      else if u = ''demo'' then [READ_GOLD, VIEW_TENANT, VIEW_PIPELINE_RUNS]
      else [])"
  by (simp add: get_user_permissions_def user_role_perms_def)

lemma owner_has_all: "has_user_permission pol ''owner'' p"
  by (simp add: has_user_permission_def get_user_permissions_cases all_permissions_def)

lemma unknown_user_role_has_none:
  "u \<notin> set available_user_roles \<Longrightarrow> \<not> has_user_permission pol u p"
  by (simp add: available_user_roles_def user_role_perms_def has_user_permission_def
        get_user_permissions_cases)

lemma unknown_tier_has_none:
  "custom_roles pol = [] \<Longrightarrow> t \<notin> set available_roles \<Longrightarrow> \<not> has_permission pol t p"
  by (simp add: available_roles_def tier_roles_def has_permission_def get_permissions_def)

lemma check_access_D:
  "check_access pol t u p \<Longrightarrow> has_permission pol t p \<and> (u = [] \<or> has_user_permission pol u p)"
  by (simp add: check_access_def split: if_splits)

lemma require_permission_ok: "require_permission pol r p = Inr () \<longleftrightarrow> has_permission pol r p"
  by (simp add: require_permission_def)

section \<open>Properties\<close>

text \<open>A restricted user role stays restricted whatever tier or custom role it is combined
with: nobody but the owner obtains the admin permission or the on-box RAG and local-model
features, viewers and demo users only read, and only a tenant admin manages users or the tenant.\<close>

theorem restricted_roles_cannot_escalate:
  assumes "u \<noteq> []" and "u \<noteq> ''owner''" and "check_access pol t u p"
  shows "p \<notin> {ADMIN_ALL, USE_RAG, USE_LOCAL_LLM}
    \<and> (u \<in> {''viewer'', ''demo''} \<longrightarrow>
         p \<in> {READ_GOLD, VIEW_TENANT, VIEW_PIPELINE_RUNS, GENERATE_DIGEST})
    \<and> (p \<in> {MANAGE_USERS, INVITE_USERS, MANAGE_TENANT} \<longrightarrow> u = ''admin'')
    \<and> u \<in> set available_user_roles"
proof -
  from assms have "has_user_permission pol u p" by (auto dest: check_access_D)
  with assms(2) show ?thesis
    by (auto simp: has_user_permission_def get_user_permissions_cases available_user_roles_def
          user_role_perms_def split: if_splits)
qed

theorem restricted_roles_cannot_escalate_witness:
  "check_access \<lparr>custom_roles = []\<rparr> ''premium'' ''admin'' MANAGE_USERS
   \<and> MANAGE_USERS \<notin> {ADMIN_ALL, USE_RAG, USE_LOCAL_LLM}
   \<and> ''admin'' \<in> set available_user_roles"
proof -
  have h: "check_access \<lparr>custom_roles = []\<rparr> ''premium'' ''admin'' MANAGE_USERS"
    by (simp add: check_access_def has_permission_def get_permissions_def tier_roles_def
          has_user_permission_def get_user_permissions_cases)
  have "(''admin'' :: string) \<noteq> []" "''admin'' \<noteq> ''owner''" by simp_all
  from restricted_roles_cannot_escalate [OF this h] h show ?thesis by simp
qed

text \<open>With the built-in tiers a paid upgrade never takes a feature away: what the free tier
may do the standard tier may do, then premium, then VIP; and a user who passes the combined check
on a tier passes it on every higher tier.\<close>

theorem tier_upgrade_keeps_access:
  assumes "custom_roles pol = []"
    and "(lo, hi) \<in> {(''free'', ''standard''), (''standard'', ''premium''), (''premium'', ''vip'')}"
    and "check_access pol lo u p"
  shows "check_access pol hi u p"
  using assms
  by (auto simp: check_access_def has_permission_def get_permissions_def tier_roles_def
        all_permissions_def split: if_splits)

theorem tier_upgrade_keeps_access_witness:
  "check_access \<lparr>custom_roles = []\<rparr> ''standard'' ''member'' RUN_PIPELINE"
proof -
  have "check_access \<lparr>custom_roles = []\<rparr> ''free'' ''member'' RUN_PIPELINE"
    by (simp add: check_access_def has_permission_def get_permissions_def tier_roles_def
          has_user_permission_def get_user_permissions_cases)
  then show ?thesis
    by (rule tier_upgrade_keeps_access [rotated 2]) simp_all
qed

end
