(* ===== verification/Breaker.thy ===== *)
theory Breaker
  imports Prelude
begin

text \<open>
  \<open>src/brain/security/circuit_breaker.py\<close>: the circuit breaker that guards the external
  services, the registry of named breakers, the service health registry and the retry
  loop with exponential backoff. Each method takes the reading \<open>now\<close> of
  \<open>time.monotonic()\<close> it makes. The retry loop talks to the breaker through the interface
  \<open>call_gate\<close>; it runs in a world \<open>'w\<close> that holds whatever the wrapped function,
  the clock and \<open>time.sleep\<close> act on.
\<close>

section \<open>The circuit breaker\<close>

datatype circuit_state = CLOSED | OPEN | HALF_OPEN

fun circuit_state_value :: "circuit_state \<Rightarrow> string" where
  "circuit_state_value CLOSED = ''closed''"
| "circuit_state_value OPEN = ''open''"
| "circuit_state_value HALF_OPEN = ''half_open''"

record cb_config =
  failure_threshold :: int
  recovery_timeout :: real
  half_open_max_calls :: int
  success_threshold :: int

definition default_cb_config :: cb_config where
  "default_cb_config =
     \<lparr>failure_threshold = 5, recovery_timeout = 60, half_open_max_calls = 1,
      success_threshold = 2\<rparr>"

record circuit_breaker =
  cb_name :: string
  cb_config :: cb_config
  cb_state :: circuit_state
  failure_count :: int
  success_count :: int
  last_failure_time :: real
  half_open_calls :: int

definition new_circuit_breaker :: "string \<Rightarrow> cb_config option \<Rightarrow> circuit_breaker" where
  "new_circuit_breaker name cfg =
     \<lparr>cb_name = name,
      cb_config = (case cfg of None \<Rightarrow> default_cb_config | Some c \<Rightarrow> c),
      cb_state = CLOSED, failure_count = 0, success_count = 0,
      last_failure_time = 0, half_open_calls = 0\<rparr>"

definition check_recovery :: "real \<Rightarrow> circuit_breaker \<Rightarrow> circuit_breaker" where
  "check_recovery now cb =
     (if cb_state cb \<noteq> OPEN then cb
      else if now - last_failure_time cb \<ge> recovery_timeout (cb_config cb)
      then cb\<lparr>cb_state := HALF_OPEN, half_open_calls := 0, success_count := 0\<rparr>
      else cb)"

definition cb_read_state :: "real \<Rightarrow> circuit_breaker \<Rightarrow> circuit_state \<times> circuit_breaker" where
  "cb_read_state now cb = (let cb = check_recovery now cb in (cb_state cb, cb))"

definition can_execute :: "real \<Rightarrow> circuit_breaker \<Rightarrow> bool \<times> circuit_breaker" where
  "can_execute now cb =
     (let cb = check_recovery now cb in
      case cb_state cb of
        CLOSED \<Rightarrow> (True, cb)
      | HALF_OPEN \<Rightarrow>
          (if half_open_calls cb < half_open_max_calls (cb_config cb)
           then (True, cb\<lparr>half_open_calls := half_open_calls cb + 1\<rparr>)
           else (False, cb))
      | OPEN \<Rightarrow> (False, cb))"

definition record_success :: "circuit_breaker \<Rightarrow> circuit_breaker" where
  "record_success cb =
     (if cb_state cb = HALF_OPEN
      then let n = success_count cb + 1 in
           (if n \<ge> success_threshold (cb_config cb)
            then cb\<lparr>cb_state := CLOSED, failure_count := 0, success_count := 0\<rparr>
            else cb\<lparr>success_count := n\<rparr>)
      else cb\<lparr>failure_count := 0\<rparr>)"

definition record_failure :: "real \<Rightarrow> circuit_breaker \<Rightarrow> circuit_breaker" where
  "record_failure now cb =
     (let cb = cb\<lparr>failure_count := failure_count cb + 1, last_failure_time := now\<rparr> in
      if cb_state cb = HALF_OPEN
      then cb\<lparr>cb_state := OPEN, half_open_calls := 0, success_count := 0\<rparr>
      else if failure_count cb \<ge> failure_threshold (cb_config cb)
      then cb\<lparr>cb_state := OPEN\<rparr>
      else cb)"

record cb_status =
  st_name :: string
  st_state :: string
  st_failure_count :: int
  st_last_failure_age :: "real option"

text \<open>\<open>get_status\<close> reads the clock twice: once in the recovery check, once for the age.\<close>

definition cb_get_status :: "real \<Rightarrow> real \<Rightarrow> circuit_breaker \<Rightarrow> cb_status \<times> circuit_breaker" where
  "cb_get_status now now' cb =
     (let cb = check_recovery now cb in
      (\<lparr>st_name = cb_name cb, st_state = circuit_state_value (cb_state cb),
        st_failure_count = failure_count cb,
        st_last_failure_age =
          (if last_failure_time cb > 0 then Some (now' - last_failure_time cb) else None)\<rparr>,
       cb))"

section \<open>The registry of breakers\<close>

type_synonym breakers = "(string \<times> circuit_breaker) list"

definition get_circuit_breaker :: "string \<Rightarrow> breakers \<Rightarrow> circuit_breaker \<times> breakers" where
  "get_circuit_breaker name bs =
     (case map_of bs name of
        Some cb \<Rightarrow> (cb, bs)
      | None \<Rightarrow> (let cb = new_circuit_breaker name None in (cb, AList.update name cb bs)))"

fun get_all_circuit_breaker_status ::
    "(nat \<Rightarrow> real) \<Rightarrow> breakers \<Rightarrow> cb_status list \<times> breakers" where
  "get_all_circuit_breaker_status clk [] = ([], [])"
| "get_all_circuit_breaker_status clk ((n, cb) # bs) =
     (let (st, cb') = cb_get_status (clk 0) (clk 1) cb;
          (sts, bs') = get_all_circuit_breaker_status (\<lambda>i. clk (i + 2)) bs
      in (st # sts, (n, cb') # bs'))"

section \<open>Service health\<close>

record service_health =
  sh_name :: string
  sh_healthy :: bool
  sh_last_check :: real
  sh_error :: string
  sh_latency_ms :: real

type_synonym health_registry = "(string \<times> service_health) list"

definition health_update ::
    "real \<Rightarrow> string \<Rightarrow> bool \<Rightarrow> string \<Rightarrow> real \<Rightarrow> health_registry \<Rightarrow> health_registry" where
  "health_update now name healthy err latency reg =
     AList.update name
       \<lparr>sh_name = name, sh_healthy = healthy, sh_last_check = now, sh_error = err,
        sh_latency_ms = latency\<rparr> reg"

fun is_ready :: "health_registry \<Rightarrow> bool" where
  "is_ready [] = True"
| "is_ready ((_, svc) # reg) = (if \<not> sh_healthy svc then False else is_ready reg)"

record health_status =
  hs_ready :: bool
  hs_services :: "(string \<times> bool \<times> string \<times> real) list"
  hs_breakers :: "cb_status list"

definition health_get_status ::
    "(nat \<Rightarrow> real) \<Rightarrow> health_registry \<Rightarrow> breakers \<Rightarrow> health_status \<times> breakers" where
  "health_get_status clk reg bs =
     (let (sts, bs') = get_all_circuit_breaker_status clk bs in
      (\<lparr>hs_ready = is_ready reg,
        hs_services = map (\<lambda>(n, svc). (n, sh_healthy svc, sh_error svc, sh_latency_ms svc)) reg,
        hs_breakers = sts\<rparr>, bs'))"

section \<open>Retry with exponential backoff\<close>

text \<open>
  \<open>retry_loop\<close> is the body of the \<open>for attempt in range(max_retries + 1)\<close> loop:
  \<open>k\<close> attempts are left, \<open>att\<close> is the number of the next one. The wrapped function
  \<open>fn\<close> returns or raises (with a message); \<open>clk\<close> reads the clock; \<open>slp\<close> is
  \<open>time.sleep\<close>. The fourth component of the result lists the delays slept, in order.
\<close>

datatype 'a retry_outcome = Returned 'a | Exhausted "string option"

definition backoff_delay :: "real \<Rightarrow> real \<Rightarrow> nat \<Rightarrow> real" where
  "backoff_delay base_delay max_delay att = min (base_delay * 2 ^ att) max_delay"

fun retry_loop ::
    "('w \<Rightarrow> (string + 'a) \<times> 'w) \<Rightarrow> ('w \<Rightarrow> real) \<Rightarrow> (real \<Rightarrow> 'w \<Rightarrow> 'w) \<Rightarrow> real \<Rightarrow> real \<Rightarrow>
     nat \<Rightarrow> nat \<Rightarrow> string option \<Rightarrow> circuit_breaker option \<Rightarrow> 'w \<Rightarrow>
     'a retry_outcome \<times> circuit_breaker option \<times> 'w \<times> real list" where
  "retry_loop fn clk slp base mx 0 att err cb w = (Exhausted err, cb, w, [])"
| "retry_loop fn clk slp base mx (Suc k) att err cb w =
     (case (case cb of None \<Rightarrow> (True, None)
                     | Some b \<Rightarrow> (let (ok, b') = can_execute (clk w) b in (ok, Some b'))) of
        (False, cb') \<Rightarrow> (Exhausted err, cb', w, [])
      | (True, cb') \<Rightarrow>
          (case fn w of
             (Inr r, w') \<Rightarrow> (Returned r, map_option record_success cb', w', [])
           | (Inl e, w') \<Rightarrow>
               (let cb'' = map_option (record_failure (clk w')) cb' in
                if k = 0 then (Exhausted (Some e), cb'', w', [])
                else let d = backoff_delay base mx att;
                         (out, cb3, w3, ds) =
                           retry_loop fn clk slp base mx k (Suc att) (Some e) cb'' (slp d w')
                     in (out, cb3, w3, d # ds))))"

definition retry_with_backoff ::
    "('w \<Rightarrow> (string + 'a) \<times> 'w) \<Rightarrow> ('w \<Rightarrow> real) \<Rightarrow> (real \<Rightarrow> 'w \<Rightarrow> 'w) \<Rightarrow> int \<Rightarrow> real \<Rightarrow> real \<Rightarrow>
     circuit_breaker option \<Rightarrow> ('w \<Rightarrow> (string + 'a) \<times> 'w) option \<Rightarrow> 'w \<Rightarrow>
     (string + 'a) \<times> circuit_breaker option \<times> 'w" where
  "retry_with_backoff fn clk slp max_retries base mx cb fallback w =
     (case retry_loop fn clk slp base mx (nat (max_retries + 1)) 0 None cb w of
        (Returned r, cb', w', _) \<Rightarrow> (Inr r, cb', w')
      | (Exhausted err, cb', w', _) \<Rightarrow>
          (case fallback of
             Some fb \<Rightarrow> (let (r, w'') = fb w' in (r, cb', w''))
           | None \<Rightarrow>
               (Inl (case err of Some e \<Rightarrow> e
                      | None \<Rightarrow> ''All retries exhausted with no error captured''), cb', w')))"

section \<open>The interface the callers rely on\<close>

text \<open>
  A gate in front of a service: callers ask it before a call and report the outcome. While
  it is blocked it refuses and does not change; once the block is over it lets a probe pass.
  \<open>run_polls\<close> is a caller that asks at each of a list of times.
\<close>

fun run_polls :: "(real \<Rightarrow> 's \<Rightarrow> bool \<times> 's) \<Rightarrow> real list \<Rightarrow> 's \<Rightarrow> bool list \<times> 's" where
  "run_polls enter [] s = ([], s)"
| "run_polls enter (t # ts) s =
     (let (ok, s') = enter t s; (oks, s'') = run_polls enter ts s' in (ok # oks, s''))"

locale call_gate =
  fixes enter :: "real \<Rightarrow> 's \<Rightarrow> bool \<times> 's"
    and blocked_until :: "'s \<Rightarrow> real option"
    and gate_ok :: "'s \<Rightarrow> bool"
  assumes refuses: "blocked_until s = Some t \<Longrightarrow> now < t \<Longrightarrow> enter now s = (False, s)"
    and probes: "blocked_until s = Some t \<Longrightarrow> gate_ok s \<Longrightarrow> t \<le> now \<Longrightarrow> fst (enter now s)"
begin

lemma polls_refused:
  "blocked_until s = Some t \<Longrightarrow> \<forall>x \<in> set ts. x < t \<Longrightarrow>
   run_polls enter ts s = (replicate (length ts) False, s)"
  by (induction ts) (auto simp: refuses)

lemma polls_until_probe:
  assumes "blocked_until s = Some t" and "gate_ok s" and "\<forall>x \<in> set ts. x < t" and "t \<le> now"
  shows "fst (run_polls enter (ts @ [now]) s) = replicate (length ts) False @ [True]"
  using assms
proof (induction ts)
  case Nil
  then show ?case using probes [of s t now] by (auto split: prod.splits)
next
  case (Cons x xs)
  then show ?case by (auto simp: refuses split: prod.splits)
qed

end

definition cb_blocked_until :: "circuit_breaker \<Rightarrow> real option" where
  "cb_blocked_until cb =
     (if cb_state cb = OPEN
      then Some (last_failure_time cb + recovery_timeout (cb_config cb)) else None)"

interpretation cb_gate: call_gate can_execute cb_blocked_until
    "\<lambda>cb. 0 < half_open_max_calls (cb_config cb)"
  by unfold_locales
    (auto simp: cb_blocked_until_def can_execute_def check_recovery_def Let_def split: if_splits)

section \<open>Opening and recovering\<close>

lemma record_failure_config [simp]: "cb_config (record_failure now cb) = cb_config cb"
  by (simp add: record_failure_def Let_def)

lemma record_success_config [simp]: "cb_config (record_success cb) = cb_config cb"
  by (simp add: record_success_def Let_def)

lemma check_recovery_config [simp]: "cb_config (check_recovery now cb) = cb_config cb"
  by (simp add: check_recovery_def)

lemma can_execute_config: "can_execute now cb = (ok, cb') \<Longrightarrow> cb_config cb' = cb_config cb"
  by (auto simp: can_execute_def Let_def split: circuit_state.splits if_splits)

lemma failures_count:
  assumes "cb_state cb = CLOSED" and "0 \<le> failure_count cb"
    and "failure_count cb + int (length ts) \<le> failure_threshold (cb_config cb)"
    and "failure_count cb < failure_threshold (cb_config cb)"
  shows "failure_count (fold record_failure ts cb) = failure_count cb + int (length ts)
    \<and> (cb_state (fold record_failure ts cb) = OPEN \<longleftrightarrow>
         failure_count cb + int (length ts) = failure_threshold (cb_config cb))
    \<and> cb_state (fold record_failure ts cb) \<noteq> HALF_OPEN"
  using assms
proof (induction ts arbitrary: cb)
  case Nil
  then show ?case by simp
next
  case (Cons t ts)
  show ?case
  proof (cases "ts = []")
    case True
    with Cons.prems show ?thesis by (auto simp: record_failure_def Let_def)
  next
    case False
    then have pos: "1 \<le> int (length ts)" by (cases ts) auto
    with Cons.prems(3) have lt: "failure_count cb + 1 < failure_threshold (cb_config cb)"
      unfolding list.size of_nat_add by linarith
    with Cons.prems have "cb_state (record_failure t cb) = CLOSED"
      and "failure_count (record_failure t cb) = failure_count cb + 1"
      by (auto simp: record_failure_def Let_def)
    with Cons.prems Cons.IH [of "record_failure t cb"] lt show ?thesis by (simp add: algebra_simps)
  qed
qed

section \<open>Runs of a disciplined caller\<close>

text \<open>
  The states a breaker goes through together with the number of calls in flight: a call is
  entered only after \<open>can_execute\<close> said yes, and each entered call reports once.
\<close>

inductive cb_step :: "circuit_breaker \<times> nat \<Rightarrow> circuit_breaker \<times> nat \<Rightarrow> bool" where
  enter: "can_execute now cb = (True, cb') \<Longrightarrow> cb_step (cb, n) (cb', Suc n)"
| refuse: "can_execute now cb = (False, cb') \<Longrightarrow> cb_step (cb, n) (cb', n)"
| observe: "cb_read_state now cb = (st, cb') \<Longrightarrow> cb_step (cb, n) (cb', n)"
| success: "cb_step (cb, Suc n) (record_success cb, n)"
| failure: "cb_step (cb, Suc n) (record_failure now cb, n)"

inductive_cases cb_stepE: "cb_step (cb, n) s'"

definition cb_invariant :: "circuit_breaker \<Rightarrow> bool" where
  "cb_invariant cb \<longleftrightarrow>
     0 \<le> failure_count cb \<and> 0 \<le> success_count cb
   \<and> 0 \<le> half_open_calls cb \<and> half_open_calls cb \<le> half_open_max_calls (cb_config cb)
   \<and> (cb_state cb = CLOSED \<longrightarrow> failure_count cb < failure_threshold (cb_config cb))
   \<and> (cb_state cb = HALF_OPEN \<longrightarrow> success_count cb < success_threshold (cb_config cb))"

definition config_positive :: "cb_config \<Rightarrow> bool" where
  "config_positive c \<longleftrightarrow> 0 < failure_threshold c \<and> 0 < success_threshold c \<and> 0 \<le> half_open_max_calls c"

lemma cb_invariant_new:
  "config_positive (case cfg of None \<Rightarrow> default_cb_config | Some c \<Rightarrow> c) \<Longrightarrow>
   cb_invariant (new_circuit_breaker name cfg)"
  by (simp add: cb_invariant_def new_circuit_breaker_def config_positive_def)

lemma cb_invariant_check_recovery:
  "config_positive (cb_config cb) \<Longrightarrow> cb_invariant cb \<Longrightarrow> cb_invariant (check_recovery now cb)"
  by (auto simp: cb_invariant_def check_recovery_def config_positive_def)

lemma cb_invariant_can_execute:
  assumes "config_positive (cb_config cb)" and "cb_invariant cb" and "can_execute now cb = (ok, cb')"
  shows "cb_invariant cb'"
proof -
  have "cb_invariant (check_recovery now cb)" using assms by (simp add: cb_invariant_check_recovery)
  with assms(3) show ?thesis
    by (auto simp: can_execute_def Let_def cb_invariant_def split: circuit_state.splits if_splits)
qed

lemma cb_invariant_record_success:
  "config_positive (cb_config cb) \<Longrightarrow> cb_invariant cb \<Longrightarrow> cb_invariant (record_success cb)"
  by (auto simp: cb_invariant_def record_success_def Let_def config_positive_def)

lemma cb_invariant_record_failure:
  "config_positive (cb_config cb) \<Longrightarrow> cb_invariant cb \<Longrightarrow> cb_invariant (record_failure now cb)"
  by (auto simp: cb_invariant_def record_failure_def Let_def config_positive_def)

lemma cb_step_invariant:
  "cb_step s s' \<Longrightarrow> config_positive (cb_config (fst s)) \<Longrightarrow> cb_invariant (fst s) \<Longrightarrow>
   cb_config (fst s') = cb_config (fst s) \<and> cb_invariant (fst s')"
proof (induction rule: cb_step.induct)
  case (observe now cb st cb' n)
  then show ?case
    by (auto simp: cb_read_state_def Let_def cb_invariant_check_recovery)
qed (auto simp: cb_invariant_can_execute cb_invariant_record_success cb_invariant_record_failure
      dest: can_execute_config)

lemma cb_steps_invariant:
  assumes "cb_step\<^sup>*\<^sup>* s s'" and "config_positive (cb_config (fst s))" and "cb_invariant (fst s)"
  shows "cb_config (fst s') = cb_config (fst s) \<and> cb_invariant (fst s')"
  using assms
proof (induction rule: rtranclp_induct)
  case base
  then show ?case by simp
next
  case (step y z)
  then show ?case using cb_step_invariant [of y z] by auto
qed

lemma wedged_step:
  assumes "cb_step (cb, 0) s'" and "cb_state cb = HALF_OPEN"
    and "half_open_max_calls (cb_config cb) \<le> half_open_calls cb"
  shows "s' = (cb, 0)"
  using assms
  by (auto elim!: cb_stepE simp: can_execute_def cb_read_state_def check_recovery_def Let_def
        split: if_splits)

lemma wedged_steps:
  assumes "cb_step\<^sup>*\<^sup>* (cb, 0) s'" and "cb_state cb = HALF_OPEN"
    and "half_open_max_calls (cb_config cb) \<le> half_open_calls cb"
  shows "s' = (cb, 0)"
  using assms(1)
proof (induction rule: rtranclp_induct)
  case base
  then show ?case by simp
next
  case (step y z)
  with wedged_step assms(2,3) show ?case by blast
qed

lemma failures_steps:
  assumes "cb_state cb = CLOSED"
    and "failure_count cb + int (length ts) \<le> failure_threshold (cb_config cb)"
  shows "cb_step\<^sup>*\<^sup>* (cb, 0) (fold record_failure ts cb, 0)"
  using assms
proof (induction ts arbitrary: cb)
  case Nil
  then show ?case by simp
next
  case (Cons t ts)
  have "can_execute t cb = (True, cb)"
    using Cons.prems(1) by (simp add: can_execute_def check_recovery_def)
  then have one: "cb_step\<^sup>*\<^sup>* (cb, 0) (record_failure t cb, 0)"
    by (meson cb_step.enter cb_step.failure converse_rtranclp_into_rtranclp r_into_rtranclp)
  show ?case
  proof (cases "ts = []")
    case False
    then have "1 \<le> int (length ts)" by (cases ts) auto
    with Cons.prems(2) have "failure_count cb + 1 < failure_threshold (cb_config cb)"
      unfolding list.size of_nat_add by linarith
    with Cons.prems have "cb_step\<^sup>*\<^sup>* (record_failure t cb, 0) (fold record_failure ts (record_failure t cb), 0)"
      by (intro Cons.IH) (auto simp: record_failure_def Let_def)
    with one show ?thesis by (auto intro: rtranclp_trans)
  qed (use one in simp)
qed

text \<open>A successful call costs two steps: the admission and the report.\<close>

definition call_ok :: "real \<Rightarrow> circuit_breaker \<Rightarrow> circuit_breaker" where
  "call_ok now cb = record_success (snd (can_execute now cb))"

lemma call_ok_steps:
  "fst (can_execute now cb) \<Longrightarrow> cb_step\<^sup>*\<^sup>* (cb, 0) (call_ok now cb, 0)"
  unfolding call_ok_def
  by (metis (full_types) cb_step.enter cb_step.success converse_rtranclp_into_rtranclp prod.collapse
      r_into_rtranclp)

lemma half_open_call_ok:
  assumes "cb_state cb = HALF_OPEN" and "half_open_calls cb < half_open_max_calls (cb_config cb)"
  shows "fst (can_execute now cb)"
    and "success_count cb + 1 < success_threshold (cb_config cb) \<Longrightarrow>
         call_ok now cb = cb\<lparr>half_open_calls := half_open_calls cb + 1,
                             success_count := success_count cb + 1\<rparr>"
    and "success_threshold (cb_config cb) \<le> success_count cb + 1 \<Longrightarrow>
         cb_state (call_ok now cb) = CLOSED \<and> failure_count (call_ok now cb) = 0"
  using assms
  by (auto simp: call_ok_def can_execute_def check_recovery_def record_success_def Let_def)

lemma half_open_recovers:
  assumes "cb_state cb = HALF_OPEN"
    and "success_count cb + int (length ts) = success_threshold (cb_config cb)"
    and "half_open_calls cb + int (length ts) \<le> half_open_max_calls (cb_config cb)"
    and "ts \<noteq> []"
  shows "cb_state (fold call_ok ts cb) = CLOSED \<and> failure_count (fold call_ok ts cb) = 0
       \<and> cb_step\<^sup>*\<^sup>* (cb, 0) (fold call_ok ts cb, 0)"
  using assms
proof (induction ts arbitrary: cb)
  case Nil
  then show ?case by simp
next
  case (Cons t ts)
  have adm: "fst (can_execute t cb)"
    using Cons.prems by (intro half_open_call_ok) auto
  show ?case
  proof (cases "ts = []")
    case True
    with Cons.prems half_open_call_ok(3) [of cb t] call_ok_steps [OF adm] show ?thesis by simp
  next
    case False
    then have pos: "1 \<le> int (length ts)" by (cases ts) auto
    with Cons.prems(2) have lt: "success_count cb + 1 < success_threshold (cb_config cb)"
      unfolding list.size of_nat_add by linarith
    from Cons.prems have "half_open_calls cb < half_open_max_calls (cb_config cb)" by auto
    with Cons.prems lt have eq: "call_ok t cb = cb\<lparr>half_open_calls := half_open_calls cb + 1,
                             success_count := success_count cb + 1\<rparr>"
      by (intro half_open_call_ok(2)) auto
    have "cb_step\<^sup>*\<^sup>* (call_ok t cb, 0) (fold call_ok ts (call_ok t cb), 0) \<and>
      cb_state (fold call_ok ts (call_ok t cb)) = CLOSED \<and>
      failure_count (fold call_ok ts (call_ok t cb)) = 0"
      using Cons.IH [of "call_ok t cb"] Cons.prems False by (simp add: eq)
    with call_ok_steps [OF adm] show ?thesis by (auto intro: rtranclp_trans)
  qed
qed

section \<open>The retry loop\<close>

lemma backoff_delay_le: "backoff_delay base mx att \<le> mx"
  by (simp add: backoff_delay_def)

lemma retry_loop_delays:
  "retry_loop fn clk slp base mx k att err cb w = (out, cb', w', ds) \<Longrightarrow>
   length ds \<le> k - 1 \<and> (\<forall>i < length ds. ds ! i = backoff_delay base mx (att + i))"
proof (induction k arbitrary: att err cb w out cb' w' ds)
  case 0
  then show ?case by simp
next
  case (Suc k)
  show ?case
  proof (cases ds)
    case Nil
    then show ?thesis by simp
  next
    case (Cons d ds')
    with Suc.prems obtain e cb1 cb3 w1 w3 where k: "k \<noteq> 0" and d: "d = backoff_delay base mx att"
      and rec: "retry_loop fn clk slp base mx k (Suc att) (Some e) cb1 (slp d w1) = (out, cb3, w3, ds')"
      by (auto simp: Let_def split: prod.splits bool.splits sum.splits if_splits)
    from Suc.IH [OF rec] k Cons d show ?thesis by (auto simp: nth_Cons split: nat.splits)
  qed
qed

lemma retry_loop_calls:
  assumes "\<And>w. cnt (snd (fn w)) = Suc (cnt w)" and "\<And>d w. cnt (slp d w) = cnt w"
    and "retry_loop fn clk slp base mx k att err cb w = (out, cb', w', ds)"
  shows "cnt w \<le> cnt w' \<and> cnt w' \<le> cnt w + k \<and> (\<forall>r. out = Returned r \<longrightarrow> cnt w < cnt w')"
  using assms(3)
proof (induction k arbitrary: att err cb w out cb' w' ds)
  case 0
  then show ?case by auto
next
  case (Suc k)
  obtain x0 w0 where fn: "fn w = (x0, w0)" and w0: "cnt w0 = Suc (cnt w)"
    using assms(1) [of w] by (cases "fn w") simp
  obtain ok cb1 where gate: "(case cb of None \<Rightarrow> (True, None)
      | Some b \<Rightarrow> (let (ok, b') = can_execute (clk w) b in (ok, Some b'))) = (ok, cb1)"
    by (cases "case cb of None \<Rightarrow> (True, None)
      | Some b \<Rightarrow> (let (ok, b') = can_execute (clk w) b in (ok, Some b'))") blast
  show ?case
  proof (cases "ok \<and> k \<noteq> 0 \<and> (\<exists>e. x0 = Inl e)")
    case False
    with Suc.prems gate fn w0 show ?thesis
      by (auto simp: Let_def split: bool.splits sum.splits if_splits)
  next
    case True
    with Suc.prems gate fn obtain e cb2 ds' where
      "retry_loop fn clk slp base mx k (Suc att) (Some e) cb2
         (slp (backoff_delay base mx att) w0) = (out, cb', w', ds')"
      by (auto simp: Let_def split: prod.splits)
    from Suc.IH [OF this] assms(2) w0 show ?thesis by auto
  qed
qed

lemma retry_loop_refused:
  "can_execute (clk w) b = (False, b') \<Longrightarrow>
   retry_loop fn clk slp base mx (Suc k) att err (Some b) w = (Exhausted err, Some b', w, [])"
  by simp

section \<open>Properties\<close>

text \<open>An open breaker refuses every call until the recovery timeout has passed since the last
failure, however often it is asked and without changing, and admits the first call after it.\<close>

theorem open_breaker_refuses_until_recovery:
  assumes "cb_state cb = OPEN" and "0 < half_open_max_calls (cb_config cb)"
    and "\<forall>t \<in> set ts. t < last_failure_time cb + recovery_timeout (cb_config cb)"
    and "last_failure_time cb + recovery_timeout (cb_config cb) \<le> now"
  shows "run_polls can_execute ts cb = (replicate (length ts) False, cb)
       \<and> fst (run_polls can_execute (ts @ [now]) cb) = replicate (length ts) False @ [True]"
  using assms
  by (intro conjI cb_gate.polls_refused cb_gate.polls_until_probe) (auto simp: cb_blocked_until_def)

theorem open_breaker_refuses_until_recovery_witness:
  "fst (run_polls can_execute [11, 69, 70]
     (fold record_failure [1, 2, 3, 4, 10] (new_circuit_breaker ''todoist'' None)))
   = [False, False, True]"
proof -
  let ?cb = "fold record_failure [1, 2, 3, 4, 10] (new_circuit_breaker ''todoist'' None)"
  have "cb_state ?cb = OPEN" and "last_failure_time ?cb = 10"
    and "cb_config ?cb = default_cb_config"
    by (simp_all add: new_circuit_breaker_def record_failure_def Let_def default_cb_config_def)
  with open_breaker_refuses_until_recovery [of ?cb "[11, 69]" 70] show ?thesis
    by (simp add: default_cb_config_def)
qed

text \<open>A new breaker opens exactly when the number of consecutive failures reaches the configured
threshold: before that it is closed, whatever the times of the failures.\<close>

theorem opens_exactly_at_threshold:
  assumes "0 < failure_threshold c" and "int (length ts) \<le> failure_threshold c"
  shows "cb_state (fold record_failure ts (new_circuit_breaker name (Some c)))
       = (if int (length ts) = failure_threshold c then OPEN else CLOSED)"
  using failures_count [of "new_circuit_breaker name (Some c)" ts] assms
  by (auto simp: new_circuit_breaker_def intro: circuit_state.exhaust)

theorem opens_exactly_at_threshold_witness:
  "cb_state (fold record_failure [1, 2, 3, 4] (new_circuit_breaker ''notion'' (Some default_cb_config))) = CLOSED
   \<and> cb_state (fold record_failure [1, 2, 3, 4, 5] (new_circuit_breaker ''notion'' (Some default_cb_config))) = OPEN"
  using opens_exactly_at_threshold [of default_cb_config "[1, 2, 3, 4]" "''notion''"]
    opens_exactly_at_threshold [of default_cb_config "[1, 2, 3, 4, 5]" "''notion''"]
  by (simp add: default_cb_config_def)

text \<open>In every state that disciplined callers can bring a breaker to, in any interleaving of their
calls and reports, the half-open state never admits more than the configured number of probes, a
closed breaker has fewer failures than the threshold and a half-open one fewer successes than it
needs to close.\<close>

theorem breaker_counters_bounded:
  assumes "config_positive c" and "cb_step\<^sup>*\<^sup>* (new_circuit_breaker name (Some c), 0) (cb, n)"
  shows "cb_config cb = c \<and> cb_invariant cb"
  using cb_steps_invariant [OF assms(2)] assms(1) cb_invariant_new [of "Some c" name]
  by (simp add: new_circuit_breaker_def)

theorem breaker_counters_bounded_witness:
  "cb_invariant (record_failure 3 (new_circuit_breaker ''notion'' (Some default_cb_config)))"
proof -
  let ?cb = "new_circuit_breaker ''notion'' (Some default_cb_config)"
  have "can_execute 2 ?cb = (True, ?cb)"
    by (simp add: can_execute_def check_recovery_def new_circuit_breaker_def)
  then have "cb_step\<^sup>*\<^sup>* (?cb, 0) (record_failure 3 ?cb, 0)"
    by (meson cb_step.enter cb_step.failure converse_rtranclp_into_rtranclp r_into_rtranclp)
  moreover have "config_positive default_cb_config"
    by (simp add: config_positive_def default_cb_config_def)
  ultimately show ?thesis using breaker_counters_bounded by blast
qed

text \<open>When as many probes are allowed as successes are needed, a half-open breaker closes, with its
failure count reset, after that many successful probes.\<close>

theorem half_open_closes_after_successes:
  assumes "cb_state cb = HALF_OPEN" and "success_count cb = 0" and "half_open_calls cb = 0"
    and "success_threshold (cb_config cb) \<le> half_open_max_calls (cb_config cb)"
    and "int (length ts) = success_threshold (cb_config cb)" and "ts \<noteq> []"
  shows "cb_state (fold call_ok ts cb) = CLOSED \<and> failure_count (fold call_ok ts cb) = 0"
  using half_open_recovers [of cb ts] assms by simp

theorem half_open_closes_after_successes_witness:
  "cb_state (fold call_ok [70, 71]
     \<lparr>cb_name = ''groq'', cb_config = default_cb_config\<lparr>half_open_max_calls := 2\<rparr>,
      cb_state = HALF_OPEN, failure_count = 5, success_count = 0, last_failure_time = 10,
      half_open_calls = 0\<rparr>) = CLOSED"
  by (rule half_open_closes_after_successes [THEN conjunct1]) (simp_all add: default_cb_config_def)

text \<open>With the default configuration (one half-open probe, two successes to close) the breaker never
closes again once it has opened and its one probe has succeeded: disciplined callers reach, from a new
breaker, a half-open state that no later call, refusal, observation or passage of time leaves, in which
every call is refused.\<close>

theorem default_breaker_wedges:
  "\<exists>cb. cb_step\<^sup>*\<^sup>* (new_circuit_breaker name None, 0) (cb, 0)
      \<and> cb_state cb = HALF_OPEN
      \<and> (\<forall>s. cb_step\<^sup>*\<^sup>* (cb, 0) s \<longrightarrow> s = (cb, 0))
      \<and> (\<forall>now. \<not> fst (can_execute now cb))"
proof -
  let ?new = "new_circuit_breaker name None"
  let ?open = "fold record_failure [1, 1, 1, 1, 1] ?new"
  let ?cb = "call_ok 61 ?open"
  have run1: "cb_step\<^sup>*\<^sup>* (?new, 0) (?open, 0)"
    by (rule failures_steps) (simp_all add: new_circuit_breaker_def default_cb_config_def)
  have opened: "?open = ?new\<lparr>cb_state := OPEN, failure_count := 5, last_failure_time := 1\<rparr>"
    by (simp add: record_failure_def new_circuit_breaker_def default_cb_config_def)
  have "fst (can_execute 61 ?open)"
    unfolding opened
    by (simp add: can_execute_def check_recovery_def new_circuit_breaker_def default_cb_config_def Let_def)
  from rtranclp_trans [OF run1 call_ok_steps [OF this]]
  have run: "cb_step\<^sup>*\<^sup>* (?new, 0) (?cb, 0)" .
  have st: "cb_state ?cb = HALF_OPEN" "half_open_calls ?cb = 1"
    "cb_config ?cb = default_cb_config"
    unfolding opened
    by (simp_all add: call_ok_def can_execute_def check_recovery_def new_circuit_breaker_def
          record_success_def default_cb_config_def Let_def)
  then have full: "half_open_max_calls (cb_config ?cb) \<le> half_open_calls ?cb"
    by (simp add: default_cb_config_def)
  have "\<not> fst (can_execute now ?cb)" for now
    using st full by (simp add: can_execute_def check_recovery_def)
  with run st(1) full show ?thesis by (blast dest: wedged_steps)
qed

theorem default_breaker_wedges_witness:
  "\<exists>cb. cb_step\<^sup>*\<^sup>* (new_circuit_breaker ''todoist'' None, 0) (cb, 0) \<and> \<not> fst (can_execute 1000000 cb)"
  using default_breaker_wedges [of "''todoist''"] by blast

text \<open>The retry loop calls the wrapped function at most \<open>max_retries + 1\<close> times, sleeps at most
\<open>max_retries\<close> times with delays that double from the base and never exceed the maximum, and only
returns a value it got from a call; when the breaker refuses the first attempt there is no call.\<close>

theorem retry_budget:
  assumes "\<And>w. cnt (snd (fn w)) = Suc (cnt w)" and "\<And>d w. cnt (slp d w) = cnt w"
    and "retry_loop fn clk slp base mx (nat (max_retries + 1)) 0 None cb w = (out, cb', w', ds)"
    and "0 \<le> max_retries"
  shows "cnt w' \<le> cnt w + nat (max_retries + 1)
    \<and> length ds \<le> nat max_retries
    \<and> (\<forall>i < length ds. ds ! i = min (base * 2 ^ i) mx)
    \<and> ((\<exists>r. out = Returned r) \<longrightarrow> cnt w < cnt w')
    \<and> (\<forall>b. cb = Some b \<and> \<not> fst (can_execute (clk w) b) \<longrightarrow> w' = w \<and> out = Exhausted None)"
proof -
  have "nat (max_retries + 1) = Suc (nat max_retries)" using assms(4) by simp
  with assms(3) show ?thesis
    using retry_loop_calls [of cnt fn slp, OF assms(1,2) assms(3)] retry_loop_delays [OF assms(3)]
    by (auto simp: backoff_delay_def split: prod.splits)
qed

theorem retry_budget_witness:
  "retry_loop (\<lambda>w :: nat. (Inl ''timeout'' :: string + nat, Suc w)) (\<lambda>_. 0) (\<lambda>_ w. w) 1 30 3 0 None None 0
     = (Exhausted (Some ''timeout''), None, 3, [1, 2])
   \<and> length [1 :: real, 2] \<le> nat 2"
proof -
  have run: "retry_loop (\<lambda>w :: nat. (Inl ''timeout'' :: string + nat, Suc w)) (\<lambda>_. 0) (\<lambda>_ w. w) 1 30
      (nat (2 + 1)) 0 None None 0 = (Exhausted (Some ''timeout''), None, 3, [1, 2])"
    by (simp add: numeral_eq_Suc backoff_delay_def)
  have "length [1 :: real, 2] \<le> nat 2"
    using retry_budget [where cnt = "\<lambda>w. w", OF _ _ run] by simp
  with run show ?thesis by simp
qed

end
