(* ===== verification/Resilience.thy ===== *)
theory Resilience
  imports Breaker
begin

text \<open>
  \<open>src/brain/security/resilience.py\<close>: the lightweight circuit breaker, the retry
  decorator, the sliding-window rate limiter and the graceful degrader. Wrapped functions
  act on a world \<open>'w\<close>, as in \<open>Breaker\<close>. The lock of the breaker is released while
  the wrapped function runs, so besides \<open>rb_call\<close> (one call, nothing in between) the
  relation \<open>rb_step\<close> interleaves the guards and the reports of several callers.
\<close>

section \<open>The lightweight breaker\<close>

record res_breaker =
  rb_name :: string
  rb_failure_threshold :: int
  rb_reset_timeout :: real
  rb_state :: circuit_state
  rb_failure_count :: int
  rb_last_failure_time :: real

definition new_res_breaker :: "string \<Rightarrow> int \<Rightarrow> real \<Rightarrow> res_breaker" where
  "new_res_breaker name thr tmo =
     \<lparr>rb_name = name, rb_failure_threshold = thr, rb_reset_timeout = tmo, rb_state = CLOSED,
      rb_failure_count = 0, rb_last_failure_time = 0\<rparr>"

text \<open>The error of a refused call carries the name of the breaker; its message is left out.\<close>

datatype call_error = CircuitOpenError string | FuncError string

text \<open>The guard of \<open>call\<close>: the part under the lock before the function runs.\<close>

definition rb_enter :: "real \<Rightarrow> res_breaker \<Rightarrow> bool \<times> res_breaker" where
  "rb_enter now cb =
     (if rb_state cb = OPEN
      then if now - rb_last_failure_time cb \<ge> rb_reset_timeout cb
           then (True, cb\<lparr>rb_state := HALF_OPEN\<rparr>)
           else (False, cb)
      else (True, cb))"

definition rb_record_failure :: "real \<Rightarrow> res_breaker \<Rightarrow> res_breaker" where
  "rb_record_failure now cb =
     (let cb = cb\<lparr>rb_failure_count := rb_failure_count cb + 1, rb_last_failure_time := now\<rparr> in
      if rb_failure_count cb \<ge> rb_failure_threshold cb then cb\<lparr>rb_state := OPEN\<rparr> else cb)"

definition rb_record_success :: "res_breaker \<Rightarrow> res_breaker" where
  "rb_record_success cb =
     (let cb = cb\<lparr>rb_failure_count := 0\<rparr> in
      if rb_state cb = HALF_OPEN then cb\<lparr>rb_state := CLOSED\<rparr> else cb)"

definition rb_call ::
    "('w \<Rightarrow> (string + 'a) \<times> 'w) \<Rightarrow> ('w \<Rightarrow> real) \<Rightarrow> res_breaker \<Rightarrow> 'w \<Rightarrow>
     (call_error + 'a) \<times> res_breaker \<times> 'w" where
  "rb_call func clk cb w =
     (case rb_enter (clk w) cb of
        (False, cb') \<Rightarrow>
          (Inl (CircuitOpenError (rb_name cb)), cb', w)
      | (True, cb') \<Rightarrow>
          (case func w of
             (Inl e, w') \<Rightarrow> (Inl (FuncError e), rb_record_failure (clk w') cb', w')
           | (Inr r, w') \<Rightarrow> (Inr r, rb_record_success cb', w')))"

definition rb_reset :: "res_breaker \<Rightarrow> res_breaker" where
  "rb_reset cb = cb\<lparr>rb_state := CLOSED, rb_failure_count := 0, rb_last_failure_time := 0\<rparr>"

definition rb_blocked_until :: "res_breaker \<Rightarrow> real option" where
  "rb_blocked_until cb =
     (if rb_state cb = OPEN then Some (rb_last_failure_time cb + rb_reset_timeout cb) else None)"

interpretation rb_gate: call_gate rb_enter rb_blocked_until "\<lambda>_. True"
  by unfold_locales (auto simp: rb_enter_def rb_blocked_until_def split: if_splits)

text \<open>With one caller at a time, a breaker that is not closed remembers a full count of failures,
so a failed probe opens it again at once.\<close>

definition rb_invariant :: "res_breaker \<Rightarrow> bool" where
  "rb_invariant cb \<longleftrightarrow>
     (rb_state cb \<noteq> CLOSED \<longrightarrow> rb_failure_threshold cb \<le> rb_failure_count cb)
   \<and> (rb_state cb = CLOSED \<longrightarrow> rb_failure_count cb < rb_failure_threshold cb)"

lemma rb_call_invariant:
  assumes "rb_invariant cb" and "0 < rb_failure_threshold cb"
    and "rb_call func clk cb w = (r, cb', w')"
  shows "rb_invariant cb' \<and> rb_failure_threshold cb' = rb_failure_threshold cb
    \<and> rb_state cb' \<noteq> HALF_OPEN"
  using assms
  by (cases "rb_state cb")
    (auto simp: rb_call_def rb_enter_def rb_record_failure_def rb_record_success_def
      rb_invariant_def Let_def split: prod.splits sum.splits if_splits)

lemma rb_call_cases:
  assumes "rb_call func clk cb w = (r, cb', w')"
  obtains (refused) m where "rb_state cb = OPEN"
      "\<not> rb_reset_timeout cb \<le> clk w - rb_last_failure_time cb"
      "r = Inl (CircuitOpenError m)" "cb' = cb" "w' = w"
  | (failed) cb1 e where "rb_enter (clk w) cb = (True, cb1)" "func w = (Inl e, w')"
      "r = Inl (FuncError e)" "cb' = rb_record_failure (clk w') cb1"
  | (returned) cb1 x where "rb_enter (clk w) cb = (True, cb1)" "func w = (Inr x, w')"
      "r = Inr x" "cb' = rb_record_success cb1"
proof (cases "fst (rb_enter (clk w) cb)")
  case False
  then have "rb_enter (clk w) cb = (False, cb)" and o: "rb_state cb = OPEN"
      "\<not> rb_reset_timeout cb \<le> clk w - rb_last_failure_time cb"
    by (simp_all add: rb_enter_def split: if_splits)
  then have "(r, cb', w') = (Inl (CircuitOpenError (rb_name cb)), cb, w)"
    unfolding assms [symmetric] by (simp add: rb_call_def)
  then show ?thesis using o by (intro refused) auto
next
  case True
  then obtain cb1 where cb1: "rb_enter (clk w) cb = (True, cb1)"
    by (cases "rb_enter (clk w) cb") simp
  obtain x w1 where fw: "func w = (x, w1)" by (cases "func w")
  show ?thesis
  proof (cases x)
    case (Inl e)
    with cb1 fw have "(r, cb', w') = (Inl (FuncError e), rb_record_failure (clk w1) cb1, w1)"
      unfolding assms [symmetric] by (simp add: rb_call_def)
    then have r: "r = Inl (FuncError e)" "cb' = rb_record_failure (clk w') cb1" "w1 = w'"
      by simp_all
    with fw Inl have "func w = (Inl e, w')" by simp
    from failed [OF cb1 this r(1,2)] show ?thesis .
  next
    case (Inr y)
    with cb1 fw have "(r, cb', w') = (Inr y, rb_record_success cb1, w1)"
      unfolding assms [symmetric] by (simp add: rb_call_def)
    then have r: "r = Inr y" "cb' = rb_record_success cb1" "w1 = w'"
      by simp_all
    with fw Inr have "func w = (Inr y, w')" by simp
    from returned [OF cb1 this r(1,2)] show ?thesis .
  qed
qed

text \<open>Interleaved callers: guards and reports in any order, with the number of calls in flight.\<close>

inductive rb_step :: "res_breaker \<times> nat \<Rightarrow> res_breaker \<times> nat \<Rightarrow> bool" where
  rb_admit: "rb_enter now cb = (True, cb') \<Longrightarrow> rb_step (cb, n) (cb', Suc n)"
| rb_refuse: "rb_enter now cb = (False, cb') \<Longrightarrow> rb_step (cb, n) (cb', n)"
| rb_succeed: "rb_step (cb, Suc n) (rb_record_success cb, n)"
| rb_fail: "rb_step (cb, Suc n) (rb_record_failure now cb, n)"

section \<open>The retry decorator\<close>

text \<open>
  \<open>retryable\<close> says which exceptions the decorator was told to retry. \<open>k\<close> attempts are
  left after the current one. With a negative \<open>max_retries\<close> the loop body never runs and
  \<open>raise None\<close> is a TypeError.
\<close>

fun decorated_attempts ::
    "('w \<Rightarrow> (string + 'a) \<times> 'w) \<Rightarrow> (string \<Rightarrow> bool) \<Rightarrow> (real \<Rightarrow> 'w \<Rightarrow> 'w) \<Rightarrow> real \<Rightarrow> real \<Rightarrow> real \<Rightarrow>
     nat \<Rightarrow> nat \<Rightarrow> 'w \<Rightarrow> (string + 'a) \<times> 'w \<times> real list" where
  "decorated_attempts fn retryable slp base mx factor 0 att w =
     (let (r, w') = fn w in (r, w', []))"
| "decorated_attempts fn retryable slp base mx factor (Suc k) att w =
     (case fn w of
        (Inr r, w') \<Rightarrow> (Inr r, w', [])
      | (Inl e, w') \<Rightarrow>
          (if \<not> retryable e then (Inl e, w', [])
           else let d = min (base * factor ^ att) mx;
                    (r, w'', ds) =
                      decorated_attempts fn retryable slp base mx factor k (Suc att) (slp d w')
                in (r, w'', d # ds)))"

definition retry_decorator ::
    "('w \<Rightarrow> (string + 'a) \<times> 'w) \<Rightarrow> (string \<Rightarrow> bool) \<Rightarrow> (real \<Rightarrow> 'w \<Rightarrow> 'w) \<Rightarrow> int \<Rightarrow> real \<Rightarrow> real \<Rightarrow> real \<Rightarrow>
     'w \<Rightarrow> (string + 'a) \<times> 'w \<times> real list" where
  "retry_decorator fn retryable slp max_retries base mx factor w =
     (if max_retries < 0 then (Inl ''TypeError'', w, [])
      else decorated_attempts fn retryable slp base mx factor (nat max_retries) 0 w)"

section \<open>The rate limiter\<close>

record rate_limiter =
  rl_max_requests :: int
  rl_window :: real
  rl_requests :: "(string \<times> real list) list"
  rl_last_prune :: real
  rl_prune_interval :: real

definition new_rate_limiter :: "int \<Rightarrow> real \<Rightarrow> rate_limiter" where
  "new_rate_limiter mx w =
     \<lparr>rl_max_requests = mx, rl_window = w, rl_requests = [], rl_last_prune = 0,
      rl_prune_interval = w * 5\<rparr>"

definition rl_idle :: "real \<Rightarrow> real list \<Rightarrow> bool" where
  "rl_idle cutoff ts \<longleftrightarrow> ts = [] \<or> last ts \<le> cutoff"

definition prune_idle_keys :: "real \<Rightarrow> rate_limiter \<Rightarrow> rate_limiter" where
  "prune_idle_keys now rl =
     (if now - rl_last_prune rl < rl_prune_interval rl then rl
      else rl\<lparr>rl_last_prune := now,
              rl_requests := filter (\<lambda>(k, ts). \<not> rl_idle (now - rl_window rl) ts) (rl_requests rl)\<rparr>)"

definition rl_allow :: "real \<Rightarrow> string \<Rightarrow> rate_limiter \<Rightarrow> bool \<times> rate_limiter" where
  "rl_allow now key rl =
     (let rl = prune_idle_keys now rl;
          active = recent (now - rl_window rl) (dget (rl_requests rl) key []);
          rl' = rl\<lparr>rl_requests := AList.update key active (rl_requests rl)\<rparr>
      in if int (length active) \<ge> rl_max_requests rl then (False, rl')
         else (True, rl\<lparr>rl_requests := AList.update key (active @ [now]) (rl_requests rl)\<rparr>))"

text \<open>Reading \<open>self._requests[key]\<close> of a \<open>defaultdict\<close> creates the missing entry.\<close>

definition rl_remaining :: "real \<Rightarrow> string \<Rightarrow> rate_limiter \<Rightarrow> int \<times> rate_limiter" where
  "rl_remaining now key rl =
     (let ts = dget (rl_requests rl) key [];
          rl' = rl\<lparr>rl_requests := AList.update key ts (rl_requests rl)\<rparr>;
          active = recent (now - rl_window rl) ts
      in (max 0 (rl_max_requests rl - int (length active)), rl'))"

fun rl_run :: "(real \<times> string) list \<Rightarrow> rate_limiter \<Rightarrow> bool list" where
  "rl_run [] rl = []"
| "rl_run ((t, k) # evs) rl = (let (ok, rl') = rl_allow t k rl in ok # rl_run evs rl')"

section \<open>Graceful degradation\<close>

type_synonym degrader = "(string \<times> string) list"

definition degrader_execute ::
    "('w \<Rightarrow> (string + 'a) \<times> 'w) \<Rightarrow> 'a \<Rightarrow> string \<Rightarrow> degrader \<Rightarrow> 'w \<Rightarrow> 'a \<times> degrader \<times> 'w" where
  "degrader_execute primary fallback operation deg w =
     (case primary w of
        (Inr r, w') \<Rightarrow> (r, AList.delete operation deg, w')
      | (Inl e, w') \<Rightarrow> (fallback, AList.update operation e deg, w'))"

definition is_degraded :: "degrader \<Rightarrow> bool" where
  "is_degraded deg \<longleftrightarrow> length deg > 0"

section \<open>What the rate limiter promises\<close>

text \<open>
  The specification keeps, for each key, every admitted request ever made and counts those of the
  last window; nothing is forgotten or pruned.
\<close>

type_synonym rl_history = "string \<Rightarrow> real list"

definition spec_allow :: "int \<Rightarrow> real \<Rightarrow> real \<Rightarrow> string \<Rightarrow> rl_history \<Rightarrow> bool \<times> rl_history" where
  "spec_allow mx win now key h =
     (if int (length (recent (now - win) (h key))) \<ge> mx then (False, h)
      else (True, h(key := h key @ [now])))"

fun spec_run :: "int \<Rightarrow> real \<Rightarrow> (real \<times> string) list \<Rightarrow> rl_history \<Rightarrow> bool list \<times> rl_history" where
  "spec_run mx win [] h = ([], h)"
| "spec_run mx win ((t, k) # evs) h =
     (let (ok, h') = spec_allow mx win t k h; (oks, h'') = spec_run mx win evs h'
      in (ok # oks, h''))"

text \<open>The limiter at time \<open>now\<close> represents a history when it agrees with it on the last window,
and its lists are in time order.\<close>

definition rl_represents :: "real \<Rightarrow> rate_limiter \<Rightarrow> rl_history \<Rightarrow> bool" where
  "rl_represents now rl h \<longleftrightarrow>
     (\<forall>k. recent (now - rl_window rl) (dget (rl_requests rl) k []) = recent (now - rl_window rl) (h k)
        \<and> sorted (dget (rl_requests rl) k []) \<and> (\<forall>t \<in> set (dget (rl_requests rl) k []). t \<le> now))
   \<and> distinct (map fst (rl_requests rl))"

lemma rl_represents_later:
  assumes "rl_represents now rl h" and "now \<le> now'"
  shows "rl_represents now' rl h"
proof -
  have "now - rl_window rl \<le> now' - rl_window rl" using assms(2) by simp
  with assms show ?thesis
    unfolding rl_represents_def by (metis (no_types, lifting) order_trans recent_recent)
qed

lemma recent_idle: "rl_idle c ts \<Longrightarrow> sorted ts \<Longrightarrow> recent c ts = []"
  by (rule recent_none) (auto simp: rl_idle_def dest: sorted_le_last order_trans)

lemma prune_represents:
  assumes "rl_represents now rl h"
  shows "rl_represents now (prune_idle_keys now rl) h"
proof (cases "now - rl_last_prune rl < rl_prune_interval rl")
  case True
  with assms show ?thesis by (simp add: prune_idle_keys_def)
next
  case False
  let ?c = "now - rl_window rl"
  have dg: "dget (rl_requests (prune_idle_keys now rl)) k [] =
      (if rl_idle ?c (dget (rl_requests rl) k []) then [] else dget (rl_requests rl) k [])" for k
    using False assms map_of_filter_values [of "rl_requests rl" "\<lambda>ts. \<not> rl_idle ?c ts" k]
    by (auto simp: prune_idle_keys_def rl_represents_def dget_def rl_idle_def split: option.splits)
  have "distinct (map fst (rl_requests (prune_idle_keys now rl)))"
    using False assms by (simp add: prune_idle_keys_def rl_represents_def distinct_map_filter)
  moreover have "rl_window (prune_idle_keys now rl) = rl_window rl"
    by (simp add: prune_idle_keys_def)
  ultimately show ?thesis
    using assms unfolding rl_represents_def by (simp add: dg) (metis recent_idle)
qed

lemma allow_simulates:
  assumes rep: "rl_represents now rl h" and run: "rl_allow now k rl = (ok, rl')"
  shows "\<exists>h'. spec_allow (rl_max_requests rl) (rl_window rl) now k h = (ok, h')
      \<and> rl_represents now rl' h' \<and> rl_max_requests rl' = rl_max_requests rl
      \<and> rl_window rl' = rl_window rl"
proof -
  let ?p = "prune_idle_keys now rl" and ?c = "now - rl_window rl"
  have par: "rl_max_requests ?p = rl_max_requests rl" "rl_window ?p = rl_window rl"
    by (simp_all add: prune_idle_keys_def)
  have rp: "rl_represents now ?p h" using rep by (rule prune_represents)
  define act where "act = recent ?c (dget (rl_requests ?p) k [])"
  have act_h: "act = recent ?c (h k)"
    using rp by (simp add: rl_represents_def act_def par)
  have act_sorted: "sorted act" "\<forall>t \<in> set act. t \<le> now"
    using rp by (auto simp: rl_represents_def act_def recent_def sorted_wrt_filter)
  have rc: "recent ?c act = recent ?c (h k)"
    by (simp add: act_h recent_recent)
  show ?thesis
  proof (cases "int (length act) \<ge> rl_max_requests rl")
    case True
    with run have eq: "ok = False" "rl' = ?p\<lparr>rl_requests := AList.update k act (rl_requests ?p)\<rparr>"
      by (auto simp: rl_allow_def Let_def par act_def)
    have "rl_represents now rl' h"
      using rp rc act_sorted unfolding rl_represents_def eq
      by (auto simp: par distinct_update)
    with True show ?thesis by (simp add: spec_allow_def act_h [symmetric] eq par)
  next
    case False
    with run have eq: "ok = True"
        "rl' = ?p\<lparr>rl_requests := AList.update k (act @ [now]) (rl_requests ?p)\<rparr>"
      by (auto simp: rl_allow_def Let_def par act_def)
    have "rl_represents now rl' (h(k := h k @ [now]))"
      using rp rc act_sorted unfolding rl_represents_def eq
      by (auto simp: par distinct_update sorted_append)
    with False show ?thesis by (simp add: spec_allow_def act_h [symmetric] eq par)
  qed
qed

lemma run_simulates:
  assumes "rl_represents now rl h" and "sorted (now # map fst evs)"
  shows "rl_run evs rl = fst (spec_run (rl_max_requests rl) (rl_window rl) evs h)"
  using assms
proof (induction evs arbitrary: now rl h)
  case Nil
  then show ?case by simp
next
  case (Cons ev evs)
  obtain t k where ev: "ev = (t, k)" by (cases ev)
  obtain ok rl' where step: "rl_allow t k rl = (ok, rl')" by (cases "rl_allow t k rl")
  from Cons.prems ev have "rl_represents t rl h" and srt: "sorted (t # map fst evs)"
    by (auto intro: rl_represents_later)
  from allow_simulates [OF this(1) step] obtain h' where
    "spec_allow (rl_max_requests rl) (rl_window rl) t k h = (ok, h')" "rl_represents t rl' h'"
    "rl_max_requests rl' = rl_max_requests rl" "rl_window rl' = rl_window rl" by blast
  with Cons.IH [OF this(2) srt] show ?case by (simp add: ev step split: prod.splits)
qed

text \<open>The times at which requests of key \<open>k\<close> were admitted.\<close>

fun admitted :: "string \<Rightarrow> (real \<times> string) list \<Rightarrow> bool list \<Rightarrow> real list" where
  "admitted k ((t, k') # evs) (ok # oks) =
     (if ok \<and> k' = k then t # admitted k evs oks else admitted k evs oks)"
| "admitted k _ _ = []"

lemma spec_history:
  "snd (spec_run mx win evs h) k = h k @ admitted k evs (fst (spec_run mx win evs h))"
proof (induction evs arbitrary: h)
  case Nil
  then show ?case by simp
next
  case (Cons ev evs)
  obtain t k' where ev: "ev = (t, k')" by (cases ev)
  obtain ok h' where step: "spec_allow mx win t k' h = (ok, h')" by (cases "spec_allow mx win t k' h")
  then have "h' k = h k @ (if ok \<and> k' = k then [t] else [])"
    by (auto simp: spec_allow_def split: if_splits)
  with Cons.IH [of h'] show ?case by (auto simp: ev step split: prod.splits)
qed

definition in_window :: "real \<Rightarrow> real \<Rightarrow> real list \<Rightarrow> real list" where
  "in_window c win ts = filter (\<lambda>t. c < t \<and> t \<le> c + win) ts"

definition window_bounded :: "int \<Rightarrow> real \<Rightarrow> real \<Rightarrow> rl_history \<Rightarrow> bool" where
  "window_bounded mx win now h \<longleftrightarrow>
     (\<forall>k c. int (length (in_window c win (h k))) \<le> mx) \<and> (\<forall>k. \<forall>t \<in> set (h k). t \<le> now)"

lemma in_window_le_recent:
  assumes "now - win \<le> c" and "\<forall>t \<in> set ts. t \<le> now"
  shows "length (in_window c win ts) \<le> length (recent (now - win) ts)"
  using assms by (induction ts) (auto simp: in_window_def)

lemma spec_allow_bounded:
  assumes "window_bounded mx win now h" and "now \<le> t" and "spec_allow mx win t k h = (ok, h')"
  shows "window_bounded mx win t h'"
proof -
  have past: "\<forall>k. \<forall>x \<in> set (h k). x \<le> t"
    using assms(1,2) by (force simp: window_bounded_def)
  show ?thesis
  proof (cases ok)
    case False
    with assms(1,3) past show ?thesis
      by (auto simp: spec_allow_def window_bounded_def split: if_splits)
  next
    case True
    with assms(3) have h': "h' = h(k := h k @ [t])"
      and room: "int (length (recent (t - win) (h k))) < mx"
      by (auto simp: spec_allow_def split: if_splits)
    have "int (length (in_window c win (h k @ [t]))) \<le> mx" for c
    proof (cases "c < t \<and> t \<le> c + win")
      case False
      with assms(1) show ?thesis by (auto simp: window_bounded_def in_window_def)
    next
      case True
      with past in_window_le_recent [of t win c "h k"] room show ?thesis
        by (simp add: in_window_def)
    qed
    with assms(1) past show ?thesis by (auto simp: h' window_bounded_def)
  qed
qed

lemma spec_run_bounded:
  assumes "window_bounded mx win now h" and "sorted (now # map fst evs)"
  shows "\<exists>t. window_bounded mx win t (snd (spec_run mx win evs h))"
  using assms
proof (induction evs arbitrary: now h)
  case Nil
  then show ?case by auto
next
  case (Cons ev evs)
  obtain t k where ev: "ev = (t, k)" by (cases ev)
  obtain ok h' where step: "spec_allow mx win t k h = (ok, h')" by (cases "spec_allow mx win t k h")
  from Cons.prems ev step have "window_bounded mx win t h'"
    by (auto intro: spec_allow_bounded)
  from Cons.IH [OF this] Cons.prems ev show ?case by (auto simp: step split: prod.splits)
qed

section \<open>Properties\<close>

text \<open>Over any sequence of requests in time order, the rate limiter takes exactly the decisions of
the specification that remembers every admitted request (so pruning expired and idle entries never
changes an answer), and in no window of \<open>window_seconds\<close> does a key get more than
\<open>max_requests\<close> requests admitted, whatever the other keys do.\<close>

theorem rate_limit_enforced:
  assumes "sorted (map fst evs)" and "0 \<le> mx"
  shows "rl_run evs (new_rate_limiter mx win) = fst (spec_run mx win evs (\<lambda>_. []))
    \<and> int (length (in_window c win (admitted k evs (rl_run evs (new_rate_limiter mx win))))) \<le> mx"
proof -
  define now where "now = (case evs of [] \<Rightarrow> 0 | ev # _ \<Rightarrow> fst ev)"
  have srt: "sorted (now # map fst evs)"
    using assms(1) by (cases evs) (auto simp: now_def)
  have "rl_represents now (new_rate_limiter mx win) (\<lambda>_. [])"
    by (simp add: rl_represents_def new_rate_limiter_def)
  from run_simulates [OF this srt]
  have eq: "rl_run evs (new_rate_limiter mx win) = fst (spec_run mx win evs (\<lambda>_. []))"
    by (simp add: new_rate_limiter_def)
  have "window_bounded mx win now (\<lambda>_. [])"
    using assms(2) by (simp add: window_bounded_def in_window_def)
  from spec_run_bounded [OF this srt]
  have "int (length (in_window c win (snd (spec_run mx win evs (\<lambda>_. [])) k))) \<le> mx"
    by (auto simp: window_bounded_def)
  with eq show ?thesis by (simp add: spec_history [of mx win evs "\<lambda>_. []" k])
qed

theorem rate_limit_enforced_witness:
  "rl_run [(1, ''a''), (2, ''a''), (2, ''b''), (3, ''a''), (62, ''a'')] (new_rate_limiter 2 60)
     = [True, True, True, False, True]
   \<and> length (in_window 0 60 [1, 2]) \<le> 2"
proof -
  let ?evs = "[(1, ''a''), (2, ''a''), (2, ''b''), (3, ''a''), (62, ''a'')] :: (real \<times> string) list"
  have run: "rl_run ?evs (new_rate_limiter 2 60) = [True, True, True, False, True]"
    by (simp add: new_rate_limiter_def rl_allow_def prune_idle_keys_def)
  have "int (length (in_window 0 60 (admitted ''a'' ?evs (rl_run ?evs (new_rate_limiter 2 60))))) \<le> 2"
    by (rule rate_limit_enforced [THEN conjunct2]) simp_all
  then have "int (length (in_window 0 60 [1, 2])) \<le> 2"
    unfolding run by (simp add: in_window_def)
  with run show ?thesis by simp
qed

text \<open>Used by one caller at a time, the lightweight breaker is open after a failed call exactly when
the failures since the last success reach the threshold, a failed half-open probe opens it again, a
success closes it, and while it is open and the timeout has not passed the function is not called.\<close>

theorem sequential_breaker_protects:
  assumes "rb_invariant cb" and "0 < rb_failure_threshold cb"
    and "rb_call func clk cb w = (r, cb', w')"
  shows "rb_invariant cb'
    \<and> (\<forall>x. r = Inr x \<longrightarrow> rb_state cb' = CLOSED)
    \<and> (\<forall>e. r = Inl (FuncError e) \<and> rb_state cb \<noteq> CLOSED \<longrightarrow> rb_state cb' = OPEN)
    \<and> (rb_state cb = OPEN \<and> clk w < rb_last_failure_time cb + rb_reset_timeout cb \<longrightarrow>
         w' = w \<and> cb' = cb \<and> (\<exists>m. r = Inl (CircuitOpenError m)))"
proof -
  have inv: "rb_invariant cb'" using rb_call_invariant [OF assms] by simp
  from assms(3) show ?thesis
  proof (cases rule: rb_call_cases)
    case (refused m)
    with inv show ?thesis by auto
  next
    case (failed cb1 e)
    then have "rb_state cb \<noteq> CLOSED \<longrightarrow> rb_state cb' = OPEN"
      using assms(1) by (auto simp: rb_enter_def rb_record_failure_def rb_invariant_def Let_def
          split: if_splits)
    with failed inv show ?thesis by (auto simp: rb_enter_def)
  next
    case (returned cb1 x)
    then have "rb_state cb' = CLOSED"
      by (cases "rb_state cb") (auto simp: rb_enter_def rb_record_success_def split: if_splits)
    with returned inv show ?thesis by (auto simp: rb_enter_def)
  qed
qed

theorem sequential_breaker_protects_witness:
  "\<exists>cb. rb_state cb = OPEN \<and>
     snd (snd (rb_call (\<lambda>w :: nat. (Inl ''timeout'' :: string + nat, Suc w)) (\<lambda>_. 5) cb 7)) = 7"
proof -
  let ?fn = "\<lambda>w :: nat. (Inl ''timeout'' :: string + nat, Suc w)"
  let ?cb = "\<lparr>rb_name = ''llm'', rb_failure_threshold = 3, rb_reset_timeout = 60, rb_state = OPEN,
    rb_failure_count = 3, rb_last_failure_time = 4\<rparr>"
  obtain r cb' w' where call: "rb_call ?fn (\<lambda>_. 5) ?cb 7 = (r, cb', w')"
    by (cases "rb_call ?fn (\<lambda>_. 5) ?cb 7") auto
  have "w' = 7"
    using sequential_breaker_protects [OF _ _ call] by (simp add: rb_invariant_def)
  with call show ?thesis by (intro exI [of _ ?cb]) simp
qed

text \<open>With concurrent callers that is no longer so: a call that was in flight when the breaker opened
and then succeeds clears the failure count of the open breaker, and afterwards a failed half-open
probe leaves the breaker half-open, admitting every call.\<close>

theorem interleaved_breaker_stays_half_open:
  "\<exists>cb. rb_step\<^sup>*\<^sup>* (new_res_breaker name 3 60, 0) (cb, 0)
      \<and> rb_state cb = HALF_OPEN
      \<and> (let cb' = rb_record_failure 100 (snd (rb_enter 100 cb)) in
           rb_state cb' = HALF_OPEN \<and> fst (rb_enter 100 cb'))"
proof -
  let ?new = "new_res_breaker name 3 60"
  let ?open = "rb_record_failure 1 (rb_record_failure 1 (rb_record_failure 1 ?new))"
  let ?cleared = "rb_record_success ?open"
  let ?half = "?cleared\<lparr>rb_state := HALF_OPEN\<rparr>"
  let ?fin = "rb_record_failure 61 ?half"
  have open_eq: "?open = ?new\<lparr>rb_state := OPEN, rb_failure_count := 3, rb_last_failure_time := 1\<rparr>"
    by (simp add: rb_record_failure_def new_res_breaker_def)
  have "rb_enter 0 ?new = (True, ?new)" by (simp add: rb_enter_def new_res_breaker_def)
  then have admit: "rb_step (?new, n) (?new, Suc n)" for n by (rule rb_admit)
  have "rb_step\<^sup>*\<^sup>* (?new, 0) (?new, n)" for n
    by (induction n) (auto intro: rtranclp.rtrancl_into_rtrancl admit)
  then have four: "rb_step\<^sup>*\<^sup>* (?new, 0) (?new, Suc (Suc (Suc (Suc 0))))" .
  have opened: "rb_step\<^sup>*\<^sup>* (?new, 0) (?open, Suc 0)"
    by (rule rtranclp.rtrancl_into_rtrancl [OF rtranclp.rtrancl_into_rtrancl
          [OF rtranclp.rtrancl_into_rtrancl [OF four rb_fail] rb_fail] rb_fail])
  have clear: "rb_step (?open, Suc 0) (?cleared, 0)" by (rule rb_succeed)
  have "rb_enter 61 ?cleared = (True, ?half)"
    unfolding open_eq by (simp add: rb_enter_def rb_record_success_def new_res_breaker_def)
  then have probe: "rb_step (?cleared, 0) (?half, Suc 0)" by (rule rb_admit)
  have failed: "rb_step (?half, Suc 0) (?fin, 0)" by (rule rb_fail)
  have "rb_step\<^sup>*\<^sup>* (?new, 0) (?fin, 0)"
    by (rule rtranclp.rtrancl_into_rtrancl [OF rtranclp.rtrancl_into_rtrancl
          [OF rtranclp.rtrancl_into_rtrancl [OF opened clear] probe] failed])
  moreover have "rb_state ?fin = HALF_OPEN \<and> (let cb' = rb_record_failure 100 (snd (rb_enter 100 ?fin)) in
      rb_state cb' = HALF_OPEN \<and> fst (rb_enter 100 cb'))"
    unfolding open_eq
    by (simp add: rb_enter_def rb_record_failure_def rb_record_success_def new_res_breaker_def Let_def)
  ultimately show ?thesis by blast
qed

end
