(* ===== verification/Ban.thy ===== *)
theory Ban
  imports Prelude
begin

text \<open>
  \<open>src/brain/security/ban.py\<close>: escalating bans after failed authentications. A manager
  holds one record per key, the permanent bans with their reasons, and the file that keeps
  them across restarts: \<open>bm_file\<close> is the parsed content of that file (None when there is none
  or it does not parse). \<open>now\<close> is \<open>time.monotonic()\<close>; \<open>wr\<close> says whether writing the file
  succeeds (a failing write is logged and swallowed). The lock makes each method one step.
\<close>

section \<open>Stages, rules and records\<close>

datatype ban_stage = NONE | SOFT | MEDIUM | HARD

fun stage_value :: "ban_stage \<Rightarrow> nat" where
  "stage_value NONE = 0"
| "stage_value SOFT = 1"
| "stage_value MEDIUM = 2"
| "stage_value HARD = 3"

lemma stage_value_inj: "stage_value a = stage_value b \<longleftrightarrow> a = b"
  by (cases a; cases b) simp_all

instantiation ban_stage :: linorder
begin
definition less_eq_ban_stage :: "ban_stage \<Rightarrow> ban_stage \<Rightarrow> bool" where
  "less_eq_ban_stage a b \<longleftrightarrow> stage_value a \<le> stage_value b"
definition less_ban_stage :: "ban_stage \<Rightarrow> ban_stage \<Rightarrow> bool" where
  "less_ban_stage a b \<longleftrightarrow> stage_value a < stage_value b"
instance
  by standard (auto simp: less_eq_ban_stage_def less_ban_stage_def stage_value_inj)
end

fun stage_name :: "ban_stage \<Rightarrow> string" where
  "stage_name NONE = ''NONE''"
| "stage_name SOFT = ''SOFT''"
| "stage_name MEDIUM = ''MEDIUM''"
| "stage_name HARD = ''HARD''"

text \<open>\<open>_ESCALATION_RULES\<close>, each with its stage \<open>BanStage(stage_idx + 1)\<close>.\<close>

definition escalation_rules :: "(ban_stage \<times> int \<times> real \<times> real) list" where
  "escalation_rules =
     [(SOFT, 5, 300, 300), (MEDIUM, 10, 900, 1800), (HARD, 20, 3600, 86400)]"

record ban_record =
  br_failures :: "real list"
  br_banned_until :: real
  br_stage :: ban_stage
  br_is_permanent :: bool

definition new_ban_record :: ban_record where
  "new_ban_record =
     \<lparr>br_failures = [], br_banned_until = 0, br_stage = NONE, br_is_permanent = False\<rparr>"

record ban_manager =
  bm_records :: "(string \<times> ban_record) list"
  bm_permanent_stage3 :: bool
  bm_permanent_bans :: jdict
  bm_persist_path :: "string option"
  bm_file :: "json option"

section \<open>Persistence\<close>

definition load_persistent_bans :: "ban_manager \<Rightarrow> ban_manager" where
  "load_persistent_bans bm =
     (case (bm_persist_path bm, bm_file bm) of
        (Some _, Some (JObj d)) \<Rightarrow>
          bm\<lparr>bm_permanent_bans := dict_update (bm_permanent_bans bm) d\<rparr>
      | _ \<Rightarrow> bm)"

definition save_persistent_bans :: "bool \<Rightarrow> ban_manager \<Rightarrow> ban_manager" where
  "save_persistent_bans wr bm =
     (if bm_persist_path bm = None \<or> \<not> wr then bm
      else bm\<lparr>bm_file := Some (JObj (bm_permanent_bans bm))\<rparr>)"

definition new_ban_manager :: "bool \<Rightarrow> string option \<Rightarrow> json option \<Rightarrow> ban_manager" where
  "new_ban_manager stage3 path file =
     load_persistent_bans
       \<lparr>bm_records = [], bm_permanent_stage3 = stage3, bm_permanent_bans = [],
        bm_persist_path = path, bm_file = file\<rparr>"

section \<open>The operations\<close>

definition is_banned :: "real \<Rightarrow> string \<Rightarrow> ban_manager \<Rightarrow> bool" where
  "is_banned now key bm =
     (if has_key (bm_permanent_bans bm) key then True
      else case map_of (bm_records bm) key of
             None \<Rightarrow> False
           | Some r \<Rightarrow> br_is_permanent r \<or> (br_banned_until r > 0 \<and> now < br_banned_until r))"

datatype ban_remaining = Forever | Seconds real

definition get_ban_remaining :: "real \<Rightarrow> string \<Rightarrow> ban_manager \<Rightarrow> ban_remaining" where
  "get_ban_remaining now key bm =
     (if has_key (bm_permanent_bans bm) key then Forever
      else case map_of (bm_records bm) key of
             None \<Rightarrow> Seconds 0
           | Some r \<Rightarrow> if br_is_permanent r then Forever
                       else Seconds (max 0 (br_banned_until r - now)))"

text \<open>One pass of the loop of \<open>_evaluate_escalation\<close> per rule.\<close>

fun evaluate_rules ::
    "bool \<Rightarrow> real \<Rightarrow> string \<Rightarrow> (ban_stage \<times> int \<times> real \<times> real) list \<Rightarrow> ban_record \<Rightarrow> ban_manager \<Rightarrow>
     ban_record \<times> ban_manager" where
  "evaluate_rules wr now key [] r bm = (r, bm)"
| "evaluate_rules wr now key ((stage, threshold, window, ban_duration) # rules) r bm =
     (if br_stage r \<ge> stage then evaluate_rules wr now key rules r bm
      else if int (length (recent (now - window) (br_failures r))) \<ge> threshold
      then (let r = r\<lparr>br_stage := stage\<rparr> in
            if stage = HARD \<and> bm_permanent_stage3 bm
            then evaluate_rules wr now key rules (r\<lparr>br_is_permanent := True, br_banned_until := 0\<rparr>)
                   (save_persistent_bans wr
                      (bm\<lparr>bm_permanent_bans :=
                         AList.update key (JStr ''Stage 3 auto-escalation'') (bm_permanent_bans bm)\<rparr>))
            else evaluate_rules wr now key rules (r\<lparr>br_banned_until := now + ban_duration\<rparr>) bm)
      else evaluate_rules wr now key rules r bm)"

definition evaluate_escalation ::
    "bool \<Rightarrow> real \<Rightarrow> string \<Rightarrow> ban_record \<Rightarrow> ban_manager \<Rightarrow> ban_record \<times> ban_manager" where
  "evaluate_escalation wr now key r bm = evaluate_rules wr now key escalation_rules r bm"

definition ban_record_failure :: "bool \<Rightarrow> real \<Rightarrow> string \<Rightarrow> ban_manager \<Rightarrow> ban_manager" where
  "ban_record_failure wr now key bm =
     (let r = dget (bm_records bm) key new_ban_record;
          r = r\<lparr>br_failures := br_failures r @ [now]\<rparr>;
          (r, bm) = evaluate_escalation wr now key r bm
      in bm\<lparr>bm_records := AList.update key r (bm_records bm)\<rparr>)"

definition ban_record_success :: "string \<Rightarrow> ban_manager \<Rightarrow> ban_manager" where
  "ban_record_success key bm =
     (case map_of (bm_records bm) key of
        Some r \<Rightarrow> if \<not> br_is_permanent r
                  then bm\<lparr>bm_records := AList.delete key (bm_records bm)\<rparr> else bm
      | None \<Rightarrow> bm)"

definition ban_permanent :: "bool \<Rightarrow> string \<Rightarrow> string \<Rightarrow> ban_manager \<Rightarrow> ban_manager" where
  "ban_permanent wr key reason bm =
     save_persistent_bans wr
       (bm\<lparr>bm_permanent_bans :=
             AList.update key (JStr (if reason \<noteq> [] then reason else ''Manual admin ban''))
               (bm_permanent_bans bm)\<rparr>)"

definition unban :: "bool \<Rightarrow> string \<Rightarrow> ban_manager \<Rightarrow> bool \<times> ban_manager" where
  "unban wr key bm =
     (let p = (has_key (bm_permanent_bans bm) key);
          bm = (if p then save_persistent_bans wr
                            (bm\<lparr>bm_permanent_bans := AList.delete key (bm_permanent_bans bm)\<rparr>)
                else bm);
          q = (has_key (bm_records bm) key);
          bm = (if q then bm\<lparr>bm_records := AList.delete key (bm_records bm)\<rparr> else bm)
      in (p \<or> q, bm))"

datatype ban_info =
    PermanentBan json
  | TemporaryBan string ban_remaining int

definition record_info :: "real \<Rightarrow> ban_record \<Rightarrow> ban_info option" where
  "record_info now r =
     (if br_is_permanent r \<or> (br_banned_until r > 0 \<and> now < br_banned_until r)
      then Some (TemporaryBan (stage_name (br_stage r))
                   (if br_is_permanent r then Forever else Seconds (br_banned_until r - now))
                   (int (length (br_failures r))))
      else None)"

definition list_bans :: "real \<Rightarrow> ban_manager \<Rightarrow> (string \<times> ban_info) list" where
  "list_bans now bm =
     fold (\<lambda>(key, r) result.
             if has_key result key then result
             else case record_info now r of
                    Some info \<Rightarrow> AList.update key info result
                  | None \<Rightarrow> result)
       (bm_records bm)
       (fold (\<lambda>(key, reason). AList.update key (PermanentBan reason)) (bm_permanent_bans bm) [])"

section \<open>The rules as a specification\<close>

definition rule_met :: "real \<Rightarrow> real list \<Rightarrow> ban_stage \<times> int \<times> real \<times> real \<Rightarrow> bool" where
  "rule_met now fs = (\<lambda>(stage, threshold, window, ban_duration).
     int (length (recent (now - window) fs)) \<ge> threshold)"

text \<open>The highest stage whose rule is met, or the old one.\<close>

definition spec_stage :: "real \<Rightarrow> real list \<Rightarrow> ban_stage \<Rightarrow> ban_stage" where
  "spec_stage now fs old = foldl max old (map fst (filter (rule_met now fs) escalation_rules))"

fun stage_duration :: "ban_stage \<Rightarrow> real" where
  "stage_duration NONE = 0"
| "stage_duration SOFT = 5 * 60"
| "stage_duration MEDIUM = 30 * 60"
| "stage_duration HARD = 24 * 60 * 60"

definition spec_escalate :: "bool \<Rightarrow> real \<Rightarrow> ban_record \<Rightarrow> ban_record" where
  "spec_escalate stage3 now r =
     (let s = spec_stage now (br_failures r) (br_stage r) in
      if s = br_stage r then r
      else if s = HARD \<and> stage3 then r\<lparr>br_stage := HARD, br_is_permanent := True, br_banned_until := 0\<rparr>
      else r\<lparr>br_stage := s, br_banned_until := now + stage_duration s\<rparr>)"

definition becomes_permanent :: "bool \<Rightarrow> real \<Rightarrow> ban_record \<Rightarrow> bool" where
  "becomes_permanent stage3 now r \<longleftrightarrow>
     stage3 \<and> br_stage r \<noteq> HARD \<and> spec_stage now (br_failures r) (br_stage r) = HARD"

lemma evaluate_escalation_eq:
  "evaluate_escalation wr now key r bm =
     (spec_escalate (bm_permanent_stage3 bm) now r,
      if becomes_permanent (bm_permanent_stage3 bm) now r
      then save_persistent_bans wr
             (bm\<lparr>bm_permanent_bans :=
                AList.update key (JStr ''Stage 3 auto-escalation'') (bm_permanent_bans bm)\<rparr>)
      else bm)"
  by (cases "br_stage r")
    (simp_all add: evaluate_escalation_def escalation_rules_def spec_escalate_def spec_stage_def
      becomes_permanent_def rule_met_def less_eq_ban_stage_def max_def Let_def)

lemma save_persistent_bans_simps [simp]:
  "bm_records (save_persistent_bans wr bm) = bm_records bm"
  "bm_permanent_stage3 (save_persistent_bans wr bm) = bm_permanent_stage3 bm"
  "bm_permanent_bans (save_persistent_bans wr bm) = bm_permanent_bans bm"
  "bm_persist_path (save_persistent_bans wr bm) = bm_persist_path bm"
  by (simp_all add: save_persistent_bans_def)

text \<open>What one failure does to the manager.\<close>

definition failed_record :: "real \<Rightarrow> string \<Rightarrow> ban_manager \<Rightarrow> ban_record" where
  "failed_record now key bm =
     (let r = dget (bm_records bm) key new_ban_record in r\<lparr>br_failures := br_failures r @ [now]\<rparr>)"

lemma ban_record_failure_simps:
  "bm_records (ban_record_failure wr now key bm) =
     AList.update key (spec_escalate (bm_permanent_stage3 bm) now (failed_record now key bm))
       (bm_records bm)"
  "bm_permanent_bans (ban_record_failure wr now key bm) =
     (if becomes_permanent (bm_permanent_stage3 bm) now (failed_record now key bm)
      then AList.update key (JStr ''Stage 3 auto-escalation'') (bm_permanent_bans bm)
      else bm_permanent_bans bm)"
  "bm_permanent_stage3 (ban_record_failure wr now key bm) = bm_permanent_stage3 bm"
  "bm_persist_path (ban_record_failure wr now key bm) = bm_persist_path bm"
  by (simp_all add: ban_record_failure_def evaluate_escalation_eq failed_record_def Let_def)

lemma ban_record_failure_file:
  "bm_file (ban_record_failure wr now key bm) =
     (if becomes_permanent (bm_permanent_stage3 bm) now (failed_record now key bm)
         \<and> bm_persist_path bm \<noteq> None \<and> wr
      then Some (JObj (AList.update key (JStr ''Stage 3 auto-escalation'') (bm_permanent_bans bm)))
      else bm_file bm)"
  by (simp add: ban_record_failure_def evaluate_escalation_eq failed_record_def Let_def
      save_persistent_bans_def)

section \<open>Runs of the manager\<close>

datatype ban_event =
    Fail bool real string
  | Succeed string
  | BanForever bool string string
  | Unban bool string
  | Restart

fun ban_apply :: "ban_event \<Rightarrow> ban_manager \<Rightarrow> ban_manager" where
  "ban_apply (Fail wr now key) bm = ban_record_failure wr now key bm"
| "ban_apply (Succeed key) bm = ban_record_success key bm"
| "ban_apply (BanForever wr key reason) bm = ban_permanent wr key reason bm"
| "ban_apply (Unban wr key) bm = snd (unban wr key bm)"
| "ban_apply Restart bm = new_ban_manager (bm_permanent_stage3 bm) (bm_persist_path bm) (bm_file bm)"

fun event_keys :: "ban_event \<Rightarrow> string set" where
  "event_keys (Fail wr now key) = {key}"
| "event_keys (Succeed key) = {key}"
| "event_keys (BanForever wr key reason) = {key}"
| "event_keys (Unban wr key) = {key}"
| "event_keys Restart = {}"

text \<open>Every write of the ban file in the event succeeds.\<close>

fun event_writes :: "ban_event \<Rightarrow> bool" where
  "event_writes (Fail wr now key) = wr"
| "event_writes (BanForever wr key reason) = wr"
| "event_writes (Unban wr key) = wr"
| "event_writes _ = True"

definition ban_run :: "ban_event list \<Rightarrow> ban_manager \<Rightarrow> ban_manager" where
  "ban_run evs bm = fold ban_apply evs bm"

definition ban_wf :: "ban_manager \<Rightarrow> bool" where
  "ban_wf bm \<longleftrightarrow> distinct (map fst (bm_records bm)) \<and> distinct (map fst (bm_permanent_bans bm))
     \<and> (\<forall>key r. map_of (bm_records bm) key = Some r \<and> br_is_permanent r \<longrightarrow>
          has_key (bm_permanent_bans bm) key)"

lemma spec_escalate_permanent:
  "br_is_permanent (spec_escalate stage3 now r) \<longleftrightarrow> br_is_permanent r \<or> becomes_permanent stage3 now r"
  by (auto simp: spec_escalate_def becomes_permanent_def Let_def)

lemma new_ban_manager_wf: "ban_wf (new_ban_manager stage3 path file)"
  by (auto simp: ban_wf_def new_ban_manager_def load_persistent_bans_def distinct_dict_update
      split: option.splits json.splits)

lemma ban_apply_wf: "ban_wf bm \<Longrightarrow> ban_wf (ban_apply ev bm)"
proof (cases ev)
  case (Fail wr now key)
  assume wf: "ban_wf bm"
  then have "br_is_permanent (failed_record now key bm) \<Longrightarrow> has_key (bm_permanent_bans bm) key"
    by (auto simp: failed_record_def ban_wf_def dget_def Let_def new_ban_record_def
        split: option.splits)
  with wf show ?thesis
    by (auto simp: Fail ban_wf_def ban_record_failure_simps spec_escalate_permanent distinct_update)
next
  case (Succeed key)
  assume "ban_wf bm"
  then show ?thesis
    by (auto simp: Succeed ban_wf_def ban_record_success_def distinct_delete split: option.splits)
next
  case (BanForever wr key reason)
  assume "ban_wf bm"
  then show ?thesis by (auto simp: BanForever ban_wf_def ban_permanent_def distinct_update)
next
  case (Unban wr key)
  assume "ban_wf bm"
  then show ?thesis by (auto simp: Unban ban_wf_def unban_def Let_def distinct_delete has_key_def)
next
  case Restart
  then show ?thesis by (simp add: new_ban_manager_wf)
qed

lemma ban_run_wf: "ban_wf bm \<Longrightarrow> ban_wf (ban_run evs bm)"
  unfolding ban_run_def by (induction evs arbitrary: bm) (simp_all add: ban_apply_wf)

text \<open>The ban file holds the keys of the permanent bans.\<close>

definition ban_synced :: "ban_manager \<Rightarrow> bool" where
  "ban_synced bm \<longleftrightarrow>
     bm_persist_path bm \<noteq> None \<longrightarrow>
       (case bm_file bm of
          Some (JObj d) \<Rightarrow> \<forall>k. has_key d k \<longleftrightarrow> has_key (bm_permanent_bans bm) k
        | _ \<Rightarrow> bm_permanent_bans bm = [])"

lemma new_ban_manager_synced: "ban_synced (new_ban_manager stage3 path file)"
  by (auto simp: ban_synced_def new_ban_manager_def load_persistent_bans_def
      split: option.splits json.splits)

lemma saved_synced: "wr \<Longrightarrow> ban_synced (save_persistent_bans wr bm)"
  by (auto simp: ban_synced_def save_persistent_bans_def)

lemma synced_cong:
  "ban_synced bm \<Longrightarrow> bm_persist_path bm' = bm_persist_path bm \<Longrightarrow> bm_file bm' = bm_file bm \<Longrightarrow>
   bm_permanent_bans bm' = bm_permanent_bans bm \<Longrightarrow> ban_synced bm'"
  by (simp only: ban_synced_def)

lemma ban_apply_synced:
  assumes "ban_synced bm" and "event_writes ev"
  shows "ban_synced (ban_apply ev bm)"
proof (cases ev)
  case (Fail wr now key)
  show ?thesis
  proof (cases "becomes_permanent (bm_permanent_stage3 bm) now (failed_record now key bm)")
    case True
    with Fail assms(2) show ?thesis
      by (simp add: ban_synced_def ban_record_failure_simps ban_record_failure_file)
  next
    case False
    with Fail show ?thesis
      by (auto intro: synced_cong [OF assms(1)]
          simp: ban_record_failure_simps ban_record_failure_file)
  qed
next
  case (Succeed key)
  then show ?thesis
    by (auto intro: synced_cong [OF assms(1)] simp: ban_record_success_def split: option.splits)
next
  case (BanForever wr key reason)
  with assms(2) show ?thesis by (simp add: ban_permanent_def saved_synced)
next
  case (Unban wr key)
  show ?thesis
  proof (cases "has_key (bm_permanent_bans bm) key")
    case True
    let ?bm = "save_persistent_bans wr
      (bm\<lparr>bm_permanent_bans := AList.delete key (bm_permanent_bans bm)\<rparr>)"
    have "ban_synced ?bm" using Unban assms(2) by (simp add: saved_synced)
    with True Unban show ?thesis by (auto intro: synced_cong [of ?bm] simp: unban_def Let_def)
  next
    case False
    with Unban show ?thesis by (auto intro: synced_cong [OF assms(1)] simp: unban_def Let_def)
  qed
next
  case Restart
  then show ?thesis by (simp add: new_ban_manager_synced)
qed

lemma ban_run_synced:
  "ban_synced bm \<Longrightarrow> \<forall>ev \<in> set evs. event_writes ev \<Longrightarrow> ban_synced (ban_run evs bm)"
  unfolding ban_run_def by (induction evs arbitrary: bm) (simp_all add: ban_apply_synced)

lemma ban_apply_path: "bm_persist_path (ban_apply ev bm) = bm_persist_path bm"
  by (cases ev) (auto simp: ban_record_failure_simps ban_record_success_def ban_permanent_def
      unban_def new_ban_manager_def load_persistent_bans_def Let_def
      split: option.splits json.splits)

lemma restart_keeps_bans:
  assumes "ban_synced bm" and "bm_persist_path bm \<noteq> None"
  shows "has_key (bm_permanent_bans (ban_apply Restart bm)) k \<longleftrightarrow> has_key (bm_permanent_bans bm) k"
  using assms
  by (auto simp: ban_synced_def new_ban_manager_def load_persistent_bans_def
      split: option.splits json.splits)

lemma ban_apply_keeps_permanent:
  assumes "has_key (bm_permanent_bans bm) key" and "ban_synced bm"
    and "\<forall>wr. ev \<noteq> Unban wr key" and "ev = Restart \<Longrightarrow> bm_persist_path bm \<noteq> None"
  shows "has_key (bm_permanent_bans (ban_apply ev bm)) key"
proof (cases "ev = Restart")
  case True
  with assms restart_keeps_bans [of bm key] show ?thesis by blast
next
  case False
  with assms(1,3) show ?thesis
    by (cases ev) (auto simp: ban_record_failure_simps ban_record_success_def ban_permanent_def
        unban_def Let_def split: option.splits)
qed

lemma ban_run_keeps_permanent:
  assumes "has_key (bm_permanent_bans bm) key" and "ban_synced bm"
    and "\<forall>ev \<in> set evs. event_writes ev \<and> (\<forall>wr. ev \<noteq> Unban wr key)"
    and "bm_persist_path bm = None \<Longrightarrow> Restart \<notin> set evs"
  shows "has_key (bm_permanent_bans (ban_run evs bm)) key"
  using assms
proof (induction evs arbitrary: bm)
  case Nil
  then show ?case by (simp add: ban_run_def)
next
  case (Cons ev evs)
  have "has_key (bm_permanent_bans (ban_apply ev bm)) key"
    using Cons.prems by (intro ban_apply_keeps_permanent) auto
  moreover have "ban_synced (ban_apply ev bm)" using Cons.prems by (simp add: ban_apply_synced)
  ultimately have "has_key (bm_permanent_bans (ban_run evs (ban_apply ev bm))) key"
    using Cons.prems(3,4) by (intro Cons.IH) (auto simp: ban_apply_path)
  then show ?case by (simp add: ban_run_def)
qed

section \<open>Isolation of keys, runs of failures, and the list of bans\<close>

lemma ban_apply_other_key:
  "ev \<noteq> Restart \<Longrightarrow> key \<notin> event_keys ev \<Longrightarrow>
   map_of (bm_records (ban_apply ev bm)) key = map_of (bm_records bm) key
   \<and> map_of (bm_permanent_bans (ban_apply ev bm)) key = map_of (bm_permanent_bans bm) key"
  by (cases ev) (auto simp: ban_record_failure_simps ban_record_success_def ban_permanent_def
      unban_def Let_def split: option.splits)

lemma is_banned_cong:
  "map_of (bm_records bm) key = map_of (bm_records bm') key \<Longrightarrow>
   map_of (bm_permanent_bans bm) key = map_of (bm_permanent_bans bm') key \<Longrightarrow>
   is_banned now key bm = is_banned now key bm'"
  by (simp add: is_banned_def has_key_def)

abbreviation fail_run :: "bool \<Rightarrow> string \<Rightarrow> real list \<Rightarrow> ban_manager \<Rightarrow> ban_manager" where
  "fail_run wr key ts bm \<equiv> fold (\<lambda>t. ban_record_failure wr t key) ts bm"

lemma hard_record_fail_run:
  assumes "map_of (bm_records bm) key = Some r" and "br_stage r = HARD"
  shows "\<exists>r'. map_of (bm_records (fail_run wr key ts bm)) key = Some r' \<and> br_stage r' = HARD
     \<and> br_banned_until r' = br_banned_until r \<and> br_is_permanent r' = br_is_permanent r
     \<and> bm_permanent_bans (fail_run wr key ts bm) = bm_permanent_bans bm"
  using assms
proof (induction ts arbitrary: bm r)
  case Nil
  then show ?case by auto
next
  case (Cons t ts)
  let ?r = "r\<lparr>br_failures := br_failures r @ [t]\<rparr>" and ?bm = "ban_record_failure wr t key bm"
  have rec: "failed_record t key bm = ?r"
    using Cons.prems by (simp add: failed_record_def dget_def)
  have top: "spec_stage t fs HARD = HARD" for fs
    by (simp add: spec_stage_def escalation_rules_def max_def less_eq_ban_stage_def)
  have "map_of (bm_records ?bm) key = Some ?r"
    using Cons.prems top by (simp add: ban_record_failure_simps rec spec_escalate_def)
  moreover have "bm_permanent_bans ?bm = bm_permanent_bans bm"
    using Cons.prems by (simp add: ban_record_failure_simps rec becomes_permanent_def)
  ultimately show ?case using Cons.IH [of ?bm ?r] Cons.prems(2) by simp
qed

lemma has_key_list_bans:
  "has_key (list_bans now bm) key \<longleftrightarrow>
     has_key (bm_permanent_bans bm) key
     \<or> (\<exists>r. (key, r) \<in> set (bm_records bm) \<and> record_info now r \<noteq> None)"
proof -
  have inner: "has_key (fold (\<lambda>(key, reason). AList.update key (PermanentBan reason)) d res) key
      \<longleftrightarrow> has_key d key \<or> has_key res key" for d res
    by (induction d arbitrary: res) (auto split: prod.splits)
  have outer: "has_key (fold (\<lambda>(key, r) result.
             if has_key result key then result
             else case record_info now r of
                    Some info \<Rightarrow> AList.update key info result
                  | None \<Rightarrow> result) rs res) key
      \<longleftrightarrow> has_key res key \<or> (\<exists>r. (key, r) \<in> set rs \<and> record_info now r \<noteq> None)" for rs res
    by (induction rs arbitrary: res) (auto split: prod.splits option.splits)
  show ?thesis unfolding list_bans_def outer inner by simp
qed

section \<open>Properties\<close>

text \<open>A permanent ban outlives everything but an explicit unban: once a key is permanently banned,
after any further failures, successes, bans and unbans of other keys and restarts (of a manager with
a ban file whose writes succeed) it is still banned at every time, for ever, and is listed.\<close>

theorem permanent_ban_survives:
  assumes "bm = ban_run evs0 (new_ban_manager stage3 path file)"
    and "has_key (bm_permanent_bans bm) key"
    and "\<forall>ev \<in> set evs0. event_writes ev"
    and "\<forall>ev \<in> set evs. event_writes ev \<and> (\<forall>wr. ev \<noteq> Unban wr key)"
    and "path = None \<Longrightarrow> Restart \<notin> set evs"
  shows "is_banned now key (ban_run evs bm)
    \<and> get_ban_remaining now key (ban_run evs bm) = Forever
    \<and> has_key (list_bans now (ban_run evs bm)) key"
proof -
  have "ban_synced bm"
    using assms(1,3) by (simp add: ban_run_synced new_ban_manager_synced)
  moreover have "bm_persist_path (ban_run es b) = bm_persist_path b" for es b
    unfolding ban_run_def by (induction es arbitrary: b) (simp_all add: ban_apply_path)
  then have "bm_persist_path bm = path"
    by (auto simp: assms(1) new_ban_manager_def load_persistent_bans_def
        split: option.splits json.splits)
  ultimately have "has_key (bm_permanent_bans (ban_run evs bm)) key"
    using assms by (intro ban_run_keeps_permanent) auto
  then show ?thesis by (simp add: is_banned_def get_ban_remaining_def has_key_list_bans)
qed

theorem permanent_ban_survives_witness:
  "is_banned 99 ''ip'' (ban_run [Succeed ''ip'', Restart, Unban True ''other'']
     (ban_run [BanForever True ''ip'' ''attack''] (new_ban_manager False (Some ''bans.json'') None)))"
proof -
  let ?bm = "ban_run [BanForever True ''ip'' ''attack'']
    (new_ban_manager False (Some ''bans.json'') None)"
  have "has_key (bm_permanent_bans ?bm) ''ip''"
    by (simp add: ban_run_def ban_permanent_def)
  from permanent_ban_survives [OF refl this, of "[Succeed ''ip'', Restart, Unban True ''other'']" 99]
  show ?thesis by simp
qed

text \<open>A failure moves a key to the highest stage whose rule its failures meet (5 in 5 minutes, 10 in 15,
20 in 60) and never to a lower one: a newly reached stage bans it for exactly the duration of the
stage, or for ever when stage 3 is configured to be permanent; with no new stage nothing changes.\<close>

theorem failure_bans_by_stage:
  assumes "ban_wf bm" and "\<not> has_key (bm_permanent_bans bm) key" and "0 \<le> now"
    and "old = br_stage (dget (bm_records bm) key new_ban_record)"
    and "s = spec_stage now (br_failures (dget (bm_records bm) key new_ban_record) @ [now]) old"
    and "bm' = ban_record_failure wr now key bm"
  shows "old \<le> s
    \<and> br_stage (dget (bm_records bm') key new_ban_record) = s
    \<and> (s = old \<longrightarrow> is_banned t key bm' = is_banned t key bm)
    \<and> (s \<noteq> old \<and> s = HARD \<and> bm_permanent_stage3 bm \<longrightarrow> is_banned t key bm')
    \<and> (s \<noteq> old \<and> \<not> (s = HARD \<and> bm_permanent_stage3 bm) \<longrightarrow>
         (is_banned t key bm' \<longleftrightarrow> t < now + stage_duration s))"
proof -
  let ?r = "failed_record now key bm"
  have r: "br_stage ?r = old"
      "br_failures ?r = br_failures (dget (bm_records bm) key new_ban_record) @ [now]"
      "br_banned_until ?r = br_banned_until (dget (bm_records bm) key new_ban_record)"
      "br_is_permanent ?r = br_is_permanent (dget (bm_records bm) key new_ban_record)"
    by (simp_all add: failed_record_def Let_def assms(4))
  have perm: "\<not> br_is_permanent (dget (bm_records bm) key new_ban_record)"
    using assms(1,2) by (auto simp: ban_wf_def dget_def new_ban_record_def split: option.splits)
  have s: "s = spec_stage now (br_failures ?r) old" by (simp add: assms(5) r)
  have le: "old \<le> s"
    by (auto simp: s spec_stage_def escalation_rules_def le_max_iff_disj)
  have dur: "s \<noteq> old \<Longrightarrow> 0 < now + stage_duration s"
    using le assms(3) by (cases s; cases old) (auto simp: less_eq_ban_stage_def)
  have rec: "map_of (bm_records bm') key = Some (spec_escalate (bm_permanent_stage3 bm) now ?r)"
    by (simp add: assms(6) ban_record_failure_simps)
  have before: "is_banned t key bm \<longleftrightarrow> br_banned_until ?r > 0 \<and> t < br_banned_until ?r"
    using perm assms(2)
    by (auto simp: is_banned_def r dget_def new_ban_record_def split: option.splits)
  have keys: "has_key (bm_permanent_bans bm') key \<longleftrightarrow> s \<noteq> old \<and> s = HARD \<and> bm_permanent_stage3 bm"
    using assms(2) by (auto simp: assms(6) ban_record_failure_simps becomes_permanent_def r s)
  have esc: "spec_escalate (bm_permanent_stage3 bm) now ?r =
      (if s = old then ?r
       else if s = HARD \<and> bm_permanent_stage3 bm
            then ?r\<lparr>br_stage := HARD, br_is_permanent := True, br_banned_until := 0\<rparr>
            else ?r\<lparr>br_stage := s, br_banned_until := now + stage_duration s\<rparr>)"
    by (simp add: spec_escalate_def r(1) s Let_def)
  have st: "br_stage (dget (bm_records bm') key new_ban_record) = s"
    by (simp add: dget_def rec esc r(1))
  have after: "is_banned t key bm' \<longleftrightarrow>
      (if s = old then 0 < br_banned_until ?r \<and> t < br_banned_until ?r
       else s = HARD \<and> bm_permanent_stage3 bm \<or> t < now + stage_duration s)"
    using dur perm by (auto simp add: is_banned_def keys rec esc r(4))
  show ?thesis unfolding before after using le st by auto
qed

theorem failure_bans_by_stage_witness:
  "is_banned 304 ''ip''
     (ban_record_failure True 5 ''ip'' (fail_run True ''ip'' [1, 2, 3, 4] (new_ban_manager False None None)))
   \<and> \<not> is_banned 305 ''ip''
     (ban_record_failure True 5 ''ip'' (fail_run True ''ip'' [1, 2, 3, 4] (new_ban_manager False None None)))"
proof -
  define b where "b = fail_run True ''ip'' [1, 2, 3, 4] (new_ban_manager False None None)"
  have bm: "b = \<lparr>bm_records = [(''ip'', \<lparr>br_failures = [1, 2, 3, 4], br_banned_until = 0,
      br_stage = NONE, br_is_permanent = False\<rparr>)], bm_permanent_stage3 = False,
      bm_permanent_bans = [], bm_persist_path = None, bm_file = None\<rparr>"
    by (simp add: b_def ban_record_failure_def evaluate_escalation_def escalation_rules_def
        new_ban_manager_def load_persistent_bans_def new_ban_record_def less_eq_ban_stage_def)
  have "ban_wf b" by (simp add: bm ban_wf_def)
  moreover have "\<not> has_key (bm_permanent_bans b) ''ip''" by (simp add: bm)
  moreover have "br_stage (dget (bm_records b) ''ip'' new_ban_record) = NONE" by (simp add: bm)
  moreover have "spec_stage 5 (br_failures (dget (bm_records b) ''ip'' new_ban_record) @ [5]) NONE = SOFT"
    by (simp add: bm spec_stage_def escalation_rules_def rule_met_def max_def less_eq_ban_stage_def)
  ultimately have "is_banned t ''ip'' (ban_record_failure True 5 ''ip'' b) \<longleftrightarrow> t < 305" for t
    using failure_bans_by_stage [of b "''ip''" 5 NONE SOFT _ True t] by simp
  then show ?thesis unfolding b_def by simp
qed

lemma spec_stage_few: "length fs < 5 \<Longrightarrow> spec_stage now fs old = old"
proof -
  assume "length fs < 5"
  then have "length (recent c fs) < 5" for c
    using length_recent_le [of c fs] by simp
  then have "int (length (recent c fs)) < 5" for c
    by (metis of_nat_less_iff of_nat_numeral)
  then have "\<not> 5 \<le> int (length (recent c fs))" "\<not> 10 \<le> int (length (recent c fs))"
      "\<not> 20 \<le> int (length (recent c fs))" for c
    by (smt (verit))+
  then show ?thesis by (simp add: spec_stage_def escalation_rules_def rule_met_def)
qed

lemma few_failures_are_quiet:
  assumes "dget (bm_records bm) key new_ban_record = new_ban_record\<lparr>br_failures := us\<rparr>"
    and "length (us @ ts) < 5"
  shows "dget (bm_records (fail_run wr key ts bm)) key new_ban_record
      = new_ban_record\<lparr>br_failures := us @ ts\<rparr>
    \<and> bm_permanent_bans (fail_run wr key ts bm) = bm_permanent_bans bm
    \<and> bm_permanent_stage3 (fail_run wr key ts bm) = bm_permanent_stage3 bm"
  using assms
proof (induction ts arbitrary: bm us)
  case Nil
  then show ?case by simp
next
  case (Cons t ts)
  let ?bm = "ban_record_failure wr t key bm"
  have rec: "failed_record t key bm = new_ban_record\<lparr>br_failures := us @ [t]\<rparr>"
    using Cons.prems(1) by (simp add: failed_record_def new_ban_record_def)
  have "spec_stage t (us @ [t]) NONE = NONE"
    using Cons.prems(2) by (intro spec_stage_few) simp
  then have "bm_permanent_bans ?bm = bm_permanent_bans bm"
      "dget (bm_records ?bm) key new_ban_record = new_ban_record\<lparr>br_failures := us @ [t]\<rparr>"
    by (simp_all add: ban_record_failure_simps rec becomes_permanent_def spec_escalate_def
        new_ban_record_def)
  with Cons.IH [of ?bm "us @ [t]"] Cons.prems(2) show ?case
    by (simp add: ban_record_failure_simps)
qed

text \<open>The first ban of a key: up to five failures at times in order ban it exactly when there were five and
the first is less than 300 seconds before the last, and then exactly until 300 seconds after the
last; fewer failures never ban.\<close>

theorem first_ban_after_five_failures:
  assumes "map_of (bm_records bm) key = None" and "\<not> has_key (bm_permanent_bans bm) key"
    and "sorted (t # ts)" and "0 \<le> t" and "length (t # ts) \<le> 5"
  shows "is_banned now key (fail_run wr key (t # ts) bm) \<longleftrightarrow>
    length (t # ts) = 5 \<and> last (t # ts) - 300 < t \<and> now < last (t # ts) + 300"
proof (cases "length (t # ts) < 5")
  case True
  have "dget (bm_records bm) key new_ban_record = new_ban_record\<lparr>br_failures := []\<rparr>"
    using assms(1) by (simp add: dget_def new_ban_record_def)
  from few_failures_are_quiet [OF this, of "t # ts" wr] True assms(2)
  show ?thesis
    by (auto simp: is_banned_def dget_def new_ban_record_def simp del: fold_simps
        split: option.splits)
next
  case False
  with assms(5) obtain us u where us: "t # ts = us @ [u]" "length us = 4"
    by (cases "t # ts" rule: rev_cases) auto
  let ?bm = "fail_run wr key us bm"
  have "dget (bm_records bm) key new_ban_record = new_ban_record\<lparr>br_failures := []\<rparr>"
    using assms(1) by (simp add: dget_def new_ban_record_def)
  from few_failures_are_quiet [OF this, of us wr] us(2)
  have q: "dget (bm_records ?bm) key new_ban_record = new_ban_record\<lparr>br_failures := us\<rparr>"
      "bm_permanent_bans ?bm = bm_permanent_bans bm" by simp_all
  have rec: "failed_record u key ?bm = new_ban_record\<lparr>br_failures := us @ [u]\<rparr>"
    using q(1) by (simp add: failed_record_def new_ban_record_def)
  have srt: "sorted (us @ [u])" and t: "\<forall>x \<in> set (us @ [u]). t \<le> x" and tin: "t \<in> set (us @ [u])"
    using assms(3) us(1) by (metis, metis set_ConsD order_refl sorted_simps(2), metis list.set_intros(1))
  have all: "5 \<le> int (length (recent (u - 300) (us @ [u]))) \<longleftrightarrow> u - 300 < t"
  proof
    assume "u - 300 < t"
    with t have "recent (u - 300) (us @ [u]) = us @ [u]" by (intro recent_all) force
    with us(2) show "5 \<le> int (length (recent (u - 300) (us @ [u])))" by simp
  next
    assume *: "5 \<le> int (length (recent (u - 300) (us @ [u])))"
    show "u - 300 < t"
    proof (rule ccontr)
      assume "\<not> u - 300 < t"
      with tin have "length (recent (u - 300) (us @ [u])) < length (us @ [u])"
        unfolding recent_def by (intro length_filter_less) auto
      with * us(2) show False by simp
    qed
  qed
  have few: "length (recent c (us @ [u])) \<le> 5" for c
    using length_recent_le [of c "us @ [u]"] us(2) by simp
  have st: "spec_stage u (us @ [u]) NONE = (if u - 300 < t then SOFT else NONE)"
    using few [of "u - 900"] few [of "u - 3600"] all
    by (simp add: spec_stage_def escalation_rules_def rule_met_def max_def less_eq_ban_stage_def
        del: recent_append)
  have u: "0 \<le> u" using assms(4) t by force
  have fr: "fail_run wr key (t # ts) bm = ban_record_failure wr u key ?bm"
    unfolding us(1) by simp
  have len: "length (t # ts) = 5" "last (t # ts) = u" unfolding us(1) using us(2) by simp_all
  show ?thesis
    unfolding fr len
    using assms(2) u st
    by (simp add: is_banned_def ban_record_failure_simps rec q(2) becomes_permanent_def
        spec_escalate_def new_ban_record_def)
qed

theorem first_ban_after_five_failures_witness:
  "is_banned 309 ''ip'' (fail_run True ''ip'' [0, 1, 2, 3, 10] (new_ban_manager False None None))
   \<and> \<not> is_banned 310 ''ip'' (fail_run True ''ip'' [0, 1, 2, 3, 10] (new_ban_manager False None None))
   \<and> \<not> is_banned 301 ''ip'' (fail_run True ''ip'' [0, 1, 2, 3, 300] (new_ban_manager False None None))"
  using first_ban_after_five_failures [of "new_ban_manager False None None" "''ip''" 0 "[1, 2, 3, 10]"]
    first_ban_after_five_failures [of "new_ban_manager False None None" "''ip''" 0 "[1, 2, 3, 300]"]
  by (simp add: new_ban_manager_def load_persistent_bans_def del: fold_simps)

text \<open>A key that served a (non-permanent) stage 3 ban is never banned again by failures: its stage stays
HARD, no rule applies any more, and however many failures follow, at whatever times, it is let in.\<close>

theorem expired_hard_ban_is_final:
  assumes "map_of (bm_records bm) key = Some r" and "br_stage r = HARD"
    and "\<not> br_is_permanent r" and "\<not> has_key (bm_permanent_bans bm) key"
    and "br_banned_until r \<le> now"
  shows "\<not> is_banned now key (fail_run wr key ts bm)"
proof -
  from hard_record_fail_run [OF assms(1,2), of wr ts] obtain r' where
    "map_of (bm_records (fail_run wr key ts bm)) key = Some r'"
    "br_banned_until r' = br_banned_until r" "br_is_permanent r' = br_is_permanent r"
    "bm_permanent_bans (fail_run wr key ts bm) = bm_permanent_bans bm" by blast
  with assms show ?thesis by (simp add: is_banned_def)
qed

theorem expired_hard_ban_is_final_witness:
  "\<exists>bm. bm = fail_run True ''ip'' (replicate 20 5) (new_ban_manager False None None)
     \<and> is_banned 86404 ''ip'' bm
     \<and> \<not> is_banned 86405 ''ip'' (fail_run True ''ip'' (replicate 1000 86405) bm)"
proof -
  let ?bm = "fail_run True ''ip'' (replicate 20 5) (new_ban_manager False None None)"
  let ?r = "\<lparr>br_failures = replicate 20 5, br_banned_until = 86405, br_stage = HARD, br_is_permanent = False\<rparr>"
  have bm: "?bm = \<lparr>bm_records = [(''ip'', ?r)], bm_permanent_stage3 = False,
      bm_permanent_bans = [], bm_persist_path = None, bm_file = None\<rparr>"
    by (simp add: ban_record_failure_def evaluate_escalation_def escalation_rules_def
        new_ban_manager_def load_persistent_bans_def new_ban_record_def less_eq_ban_stage_def
        numeral_eq_Suc)
  have "\<not> is_banned 86405 ''ip'' (fail_run True ''ip'' (replicate 1000 86405) ?bm)"
    by (rule expired_hard_ban_is_final [of _ _ ?r]) (simp_all only: bm, simp_all)
  moreover have "is_banned 86404 ''ip'' ?bm" by (simp only: bm) (simp add: is_banned_def)
  ultimately show ?thesis by blast
qed

text \<open>The three views of the bans agree in every reachable state, and no event on one key changes
whether another is banned.\<close>

theorem ban_views_agree_and_keys_are_isolated:
  assumes "bm = ban_run evs (new_ban_manager stage3 path file)" and "0 \<le> now"
  shows "(is_banned now key bm \<longleftrightarrow> has_key (list_bans now bm) key)
    \<and> (is_banned now key bm \<longleftrightarrow> get_ban_remaining now key bm \<noteq> Seconds 0)
    \<and> (ev \<noteq> Restart \<and> key \<notin> event_keys ev \<longrightarrow>
         is_banned now key (ban_apply ev bm) = is_banned now key bm)"
proof -
  have "ban_wf bm" unfolding assms(1) by (rule ban_run_wf [OF new_ban_manager_wf])
  then have "distinct (map fst (bm_records bm))" by (simp add: ban_wf_def)
  then have "(\<exists>r. (key, r) \<in> set (bm_records bm) \<and> record_info now r \<noteq> None) \<longleftrightarrow>
      (\<exists>r. map_of (bm_records bm) key = Some r \<and> record_info now r \<noteq> None)"
    by (simp add: map_of_eq_Some_iff)
  then have "is_banned now key bm \<longleftrightarrow> has_key (list_bans now bm) key"
    by (auto simp: has_key_list_bans is_banned_def record_info_def split: option.splits if_splits)
  moreover have "is_banned now key bm \<longleftrightarrow> get_ban_remaining now key bm \<noteq> Seconds 0"
    using assms(2) by (auto simp: is_banned_def get_ban_remaining_def max_def split: option.splits)
  ultimately show ?thesis using ban_apply_other_key is_banned_cong by blast
qed

theorem ban_views_agree_and_keys_are_isolated_witness:
  "\<exists>bm. is_banned 1 ''a'' bm \<and> has_key (list_bans 1 bm) ''a''
     \<and> is_banned 1 ''a'' (ban_apply (Succeed ''b'') bm)"
proof -
  let ?bm = "ban_run [BanForever True ''a'' ''x''] (new_ban_manager False None None)"
  have "is_banned 1 ''a'' ?bm" by (simp add: ban_run_def is_banned_def ban_permanent_def)
  with ban_views_agree_and_keys_are_isolated [OF refl, of 1 "''a''" "[BanForever True ''a'' ''x'']"
      False None None "Succeed ''b''"]
  show ?thesis by (intro exI [of _ ?bm]) simp
qed

end
