(* ===== verification/PyText.thy ===== *)
theory PyText
  imports Prelude "HOL-Library.Char_ord" "HOL-Library.List_Lexorder" "HOL-Library.Sublist"
begin

text \<open>
  The string and JSON operations of Python's standard library the components use: case folding,
  stripping, splitting, searching, decimal numerals, slices, and the key order that
  \<open>json.dumps(..., sort_keys=True)\<close> gives a document. Letters are folded in the ASCII range.
\<close>

section \<open>Strings\<close>

definition lower_char :: "char \<Rightarrow> char" where
  "lower_char c = (if CHR ''A'' \<le> c \<and> c \<le> CHR ''Z'' then char_of (of_char c + 32 :: nat) else c)"

definition py_lower :: "string \<Rightarrow> string" where
  "py_lower s = map lower_char s"

text \<open>\<open>s.lower()\<close> on all code points below 256, where the letters of Latin-1 have cases too.\<close>

definition lower_latin :: "char \<Rightarrow> char" where
  "lower_latin c =
     (if (CHR ''A'' \<le> c \<and> c \<le> CHR ''Z'') \<or> (CHR 0xC0 \<le> c \<and> c \<le> CHR 0xDE \<and> c \<noteq> CHR 0xD7)
      then char_of (of_char c + 32 :: nat) else c)"

definition is_space :: "char \<Rightarrow> bool" where
  "is_space c \<longleftrightarrow> c \<in> {CHR '' '', CHR 0x09, CHR 0x0A, CHR 0x0B, CHR 0x0C, CHR 0x0D}"

definition py_strip :: "string \<Rightarrow> string" where
  "py_strip s = rev (dropWhile is_space (rev (dropWhile is_space s)))"

text \<open>\<open>sub in s\<close>, \<open>s.startswith(p)\<close>, \<open>s.endswith(p)\<close>.\<close>

fun py_contains :: "string \<Rightarrow> string \<Rightarrow> bool" where
  "py_contains sub [] = (sub = [])"
| "py_contains sub (c # s) = (prefix sub (c # s) \<or> py_contains sub s)"

lemma py_contains_iff: "py_contains sub s \<longleftrightarrow> (\<exists>u v. s = u @ sub @ v)"
proof (induction s)
  case Nil
  then show ?case by auto
next
  case (Cons c s)
  show ?case (is "?l \<longleftrightarrow> ?r")
  proof
    assume ?l
    then show ?r
    proof (cases "prefix sub (c # s)")
      case True
      then obtain v where "c # s = [] @ sub @ v" by (auto simp: prefix_def)
      then show ?thesis by blast
    next
      case False
      with \<open>?l\<close> Cons.IH obtain u v where "s = u @ sub @ v" by auto
      then have "c # s = (c # u) @ sub @ v" by simp
      then show ?thesis by blast
    qed
  next
    assume ?r
    then obtain u v where uv: "c # s = u @ sub @ v" by blast
    then show ?l
    proof (cases u)
      case Nil
      with uv have "prefix sub (c # s)" by (metis append_Nil prefixI)
      then show ?thesis by simp
    next
      case (Cons a w)
      with uv have "s = w @ sub @ v" by simp
      with Cons.IH show ?thesis by auto
    qed
  qed
qed

text \<open>\<open>s.split(c)\<close> for a one-character separator.\<close>

fun py_split :: "char \<Rightarrow> string \<Rightarrow> string list" where
  "py_split c [] = [[]]"
| "py_split c (x # s) =
     (if x = c then [] # py_split c s
      else case py_split c s of w # ws \<Rightarrow> (x # w) # ws | [] \<Rightarrow> [[x]])"

lemma py_split_not_Nil [simp]: "py_split c s \<noteq> []"
  by (induction s) (auto split: list.splits)

lemma py_split_no_sep: "c \<notin> set s \<Longrightarrow> py_split c s = [s]"
  by (induction s) auto

lemma py_split_sep: "c \<notin> set u \<Longrightarrow> py_split c (u @ c # v) = u # py_split c v"
  by (induction u) auto

lemma sep_inj:
  "c \<notin> set u \<Longrightarrow> c \<notin> set v \<Longrightarrow> u @ c # x = v @ c # y \<longleftrightarrow> u = v \<and> x = y"
proof (induction u arbitrary: v)
  case Nil
  then show ?case by (cases v) auto
next
  case (Cons a u)
  then show ?case by (cases v) auto
qed

text \<open>\<open>sep.join(ws)\<close>.\<close>

fun py_join :: "string \<Rightarrow> string list \<Rightarrow> string" where
  "py_join sep [] = []"
| "py_join sep [w] = w"
| "py_join sep (w # ws) = w @ sep @ py_join sep ws"

text \<open>\<open>str(n)\<close>.\<close>

definition digit_char :: "nat \<Rightarrow> char" where
  "digit_char d = char_of (d + 48)"

fun nat_text :: "nat \<Rightarrow> string" where
  "nat_text n = (if n < 10 then [digit_char n] else nat_text (n div 10) @ [digit_char (n mod 10)])"

declare nat_text.simps [simp del]

definition int_text :: "int \<Rightarrow> string" where
  "int_text i = (if i < 0 then ''-'' @ nat_text (nat (- i)) else nat_text (nat i))"

lemma nat_text_digits: "c \<in> set (nat_text n) \<Longrightarrow> 48 \<le> (of_char c :: nat) \<and> (of_char c :: nat) < 58"
proof (induction n rule: nat_text.induct)
  case (1 n)
  have d: "(of_char (digit_char d) :: nat) = d + 48" if "d < 10" for d
    using that by (simp add: digit_char_def of_char_of)
  show ?case
  proof (cases "n < 10")
    case True
    with 1(2) d [of n] show ?thesis by (simp add: nat_text.simps [of n])
  next
    case False
    with 1(2) have "c \<in> set (nat_text (n div 10)) \<or> c = digit_char (n mod 10)"
      by (auto simp add: nat_text.simps [of n])
    with 1(1) [OF False] d [of "n mod 10"] show ?thesis by auto
  qed
qed

lemma set_py_join: "set (py_join sep ws) \<subseteq> set sep \<union> \<Union> (set ` set ws)"
  by (induction sep ws rule: py_join.induct) auto

text \<open>Slices: \<open>xs[-n:]\<close> and \<open>xs[offset:offset+limit]\<close> for a non-negative offset and limit.\<close>

definition last_n :: "int \<Rightarrow> 'a list \<Rightarrow> 'a list" where
  "last_n n xs = (if n > 0 then drop (length xs - nat n) xs
                  else if n = 0 then xs else drop (nat (- n)) xs)"

section \<open>Key order of JSON text\<close>

fun sort_keys :: "json \<Rightarrow> json" and
    sort_keys_list :: "json list \<Rightarrow> json list" and
    sort_keys_dict :: "jdict \<Rightarrow> jdict" where
  "sort_keys (JObj d) = JObj (sort_key fst (sort_keys_dict d))"
| "sort_keys (JArr xs) = JArr (sort_keys_list xs)"
| "sort_keys v = v"
| "sort_keys_list [] = []"
| "sort_keys_list (x # xs) = sort_keys x # sort_keys_list xs"
| "sort_keys_dict [] = []"
| "sort_keys_dict ((k, v) # d) = (k, sort_keys v) # sort_keys_dict d"

lemma map_of_filter_key: "map_of (filter (\<lambda>kv. fst kv = k) d) k = map_of d k"
  by (induction d) auto

lemma map_of_sort_key: "map_of (sort_key fst d) k = map_of (d :: jdict) k"
  using map_of_filter_key [of k "sort_key fst d"] map_of_filter_key [of k d]
  by (simp add: sort_key_stable)

lemma map_of_sort_keys_dict: "map_of (sort_keys_dict d) k = map_option sort_keys (map_of d k)"
  by (induction d) auto

end
