(* ===== verification/HashChain.thy ===== *)
theory HashChain
  imports PyText
begin

text \<open>
  The contract the two hash-chained logs share: an entry names the hash of the entry before it,
  carries its own hash, and its hash is a digest of its content, the previous hash included. The
  lemmas say what verifying such a chain guarantees. Both \<open>ActionLedger\<close> and \<open>AuditLog\<close>
  interpret the locale on their own entries.
\<close>

locale hash_chain =
  fixes prev_of :: "'e \<Rightarrow> 'h"
    and hash_of :: "'e \<Rightarrow> 'h"
    and content :: "'e \<Rightarrow> 'c"
    and digest :: "'e \<Rightarrow> 'h"
    and plain :: "'h \<Rightarrow> bool"
  assumes digest_of_content: "content e = content e' \<Longrightarrow> digest e = digest e'"
    and content_fixes_prev:
      "content e = content e' \<Longrightarrow> plain (prev_of e) \<Longrightarrow> plain (prev_of e') \<Longrightarrow> prev_of e = prev_of e'"
begin

fun chained :: "'h \<Rightarrow> 'e list \<Rightarrow> bool" where
  "chained p [] = True"
| "chained p (e # es) \<longleftrightarrow> prev_of e = p \<and> hash_of e = digest e \<and> chained (hash_of e) es"

definition chain_end :: "'h \<Rightarrow> 'e list \<Rightarrow> 'h" where
  "chain_end p es = (if es = [] then p else hash_of (last es))"

lemma chain_end_Cons: "chain_end p (e # es) = chain_end (hash_of e) es"
  by (simp add: chain_end_def)

lemma chained_append: "chained p (es @ fs) \<longleftrightarrow> chained p es \<and> chained (chain_end p es) fs"
  by (induction es arbitrary: p) (auto simp: chain_end_Cons, simp_all add: chain_end_def)

lemma chained_snoc:
  "chained p (es @ [e]) \<longleftrightarrow> chained p es \<and> prev_of e = chain_end p es \<and> hash_of e = digest e"
  by (simp add: chained_append)

lemma chained_take: "chained p es \<Longrightarrow> chained p (take n es)"
  using chained_append [of p "take n es" "drop n es"] by simp

lemma chained_hashes: "chained p es \<Longrightarrow> e \<in> set es \<Longrightarrow> hash_of e = digest e"
  by (induction es arbitrary: p) auto

lemma chained_plain:
  "chained p es \<Longrightarrow> plain p \<Longrightarrow> (\<And>e. plain (digest e)) \<Longrightarrow> e \<in> set es \<Longrightarrow> plain (prev_of e)"
proof (induction es arbitrary: p)
  case Nil
  then show ?case by simp
next
  case (Cons a es)
  from Cons.prems have "plain (hash_of a)" by simp
  with Cons show ?case by auto
qed

text \<open>Without collisions between their entries the last hash pins down the content of a whole verified chain: two
verified chains of one length that end in the same hash hold the same content.\<close>

lemma same_end_same_content:
  assumes "\<And>e e'. e \<in> set es \<Longrightarrow> e' \<in> set es' \<Longrightarrow> digest e = digest e' \<Longrightarrow> content e = content e'"
    and "\<And>e. plain (digest e)"
    and "chained p es" and "chained p' es'" and "plain p" and "plain p'"
    and "length es = length es'" and "chain_end p es = chain_end p' es'"
  shows "map content es = map content es' \<and> p = p'"
  using assms(1,3-8)
proof (induction es arbitrary: es' rule: rev_induct)
  case Nil
  then show ?case by (simp add: chain_end_def)
next
  case (snoc e es)
  then obtain fs f where es': "es' = fs @ [f]" by (cases es' rule: rev_cases) auto
  from snoc.prems(2) have e: "chained p es" "prev_of e = chain_end p es" "hash_of e = digest e"
    by (simp_all add: chained_snoc)
  from snoc.prems(3) have f: "chained p' fs" "prev_of f = chain_end p' fs" "hash_of f = digest f"
    by (simp_all add: es' chained_snoc)
  have len: "length es = length fs" using snoc.prems(6) es' by simp
  have "hash_of e = hash_of f" using snoc.prems(7) by (simp add: chain_end_def es')
  with e(3) f(3) have "digest e = digest f" by simp
  then have c: "content e = content f" by (intro snoc.prems(1)) (simp_all add: es')
  have inj: "digest a = digest b \<Longrightarrow> content a = content b" if "a \<in> set es" "b \<in> set fs" for a b
    using that by (intro snoc.prems(1)) (simp_all add: es')
  have pe: "plain (prev_of e)"
    by (rule chained_plain [OF snoc.prems(2,4) assms(2)]) simp
  have pf: "plain (prev_of f)"
    by (rule chained_plain [OF snoc.prems(3,5) assms(2)]) (simp add: es')
  from content_fixes_prev [OF c pe pf] have ends: "chain_end p es = chain_end p' fs"
    unfolding e(2) f(2) .
  have "map content es = map content fs \<and> p = p'"
    by (rule snoc.IH [OF _ e(1) f(1) snoc.prems(4,5) len ends]) (rule inj)
  with c es' show ?case by simp
qed

text \<open>An entry whose content was changed, or that was removed or inserted before others, does not
verify with the rest of the chain unchanged.\<close>

lemma changed_entry_breaks_chain:
  assumes "digest e = digest e' \<Longrightarrow> content e = content e'"
    and "chained p (es @ e # fs)" and "content e' \<noteq> content e"
    and "fs \<noteq> [] \<or> hash_of e' = hash_of e"
  shows "\<not> chained p (es @ e' # fs)"
proof
  assume *: "chained p (es @ e' # fs)"
  from * assms(2) have h: "hash_of e = digest e" "hash_of e' = digest e'"
    by (auto intro: chained_hashes)
  have "hash_of e' = hash_of e"
  proof (cases fs)
    case Nil
    with assms(4) show ?thesis by simp
  next
    case (Cons f gs)
    with * assms(2) show ?thesis by (auto simp: chained_append)
  qed
  with h assms(1,3) show False by metis
qed

end

end
