(* ===== verification/ActionLedger.thy ===== *)
theory ActionLedger
  imports HashChain
begin

text \<open>
  \<open>src/brain/security/action_ledger.py\<close>: the chained action log. The files of the log
  directory are lists of lines by file name; a line is blank, unparsable or a JSON document.
  \<open>mac key text\<close> is the HMAC-SHA256 hex digest, \<open>dumps\<close> the text \<open>json.dumps\<close> gives a value
  whose keys are in order, \<open>redact\<close> the regular-expression scrubbing of \<open>_redact\<close>; all three
  are parameters. \<open>ts\<close> and \<open>today\<close> are the time stamp and the date of the call, and \<open>wr\<close>
  says whether appending to the file works (a failure is logged and swallowed).
\<close>

section \<open>Categories and redaction\<close>

datatype action_category =
  AUTH | API_REQUEST | PIPELINE | QUEUE | WORKER | SCALING | CIRCUIT_BREAKER | ERROR | CRASH
  | SECURITY | TENANT | DATA | LLM | SYSTEM

fun category_value :: "action_category \<Rightarrow> string" where
  "category_value AUTH = ''auth''"
| "category_value API_REQUEST = ''api_request''"
| "category_value PIPELINE = ''pipeline''"
| "category_value QUEUE = ''queue''"
| "category_value WORKER = ''worker''"
| "category_value SCALING = ''scaling''"
| "category_value CIRCUIT_BREAKER = ''circuit''"
| "category_value ERROR = ''error''"
| "category_value CRASH = ''crash''"
| "category_value SECURITY = ''security''"
| "category_value TENANT = ''tenant''"
| "category_value DATA = ''data''"
| "category_value LLM = ''llm''"
| "category_value SYSTEM = ''system''"

definition redacted :: json where
  "redacted = JStr ''***REDACTED***''"

definition sensitive_key :: "string \<Rightarrow> bool" where
  "sensitive_key k \<longleftrightarrow>
     (\<exists>s \<in> set [''password'', ''secret'', ''token'', ''key'', ''credential''].
        py_contains s (py_lower k))"

fun redact_item :: "(string \<Rightarrow> string) \<Rightarrow> json \<Rightarrow> json" where
  "redact_item redact (JStr s) = JStr (redact s)"
| "redact_item redact v = v"

fun redact_dict :: "(string \<Rightarrow> string) \<Rightarrow> jdict \<Rightarrow> jdict" and
    redact_value :: "(string \<Rightarrow> string) \<Rightarrow> json \<Rightarrow> json" where
  "redact_dict redact [] = []"
| "redact_dict redact ((k, v) # d) =
     (k, if sensitive_key k then redacted else redact_value redact v) # redact_dict redact d"
| "redact_value redact (JStr s) = JStr (redact s)"
| "redact_value redact (JObj d) = JObj (redact_dict redact d)"
| "redact_value redact (JArr xs) = JArr (map (redact_item redact) xs)"
| "redact_value redact v = v"

section \<open>The ledger\<close>

datatype log_line = BlankLine | CorruptLine | DocLine json

record ledger =
  al_hmac_key :: string
  al_max_entries :: int
  al_last_hash :: string
  al_entry_count :: int
  al_files :: "(string \<times> log_line list) list"

text \<open>\<open>hmac_key or os.environ.get(..., "")\<close>, else the insecure default.\<close>

definition resolve_hmac_key :: "string option \<Rightarrow> string option \<Rightarrow> string" where
  "resolve_hmac_key hmac_key env =
     (let k = (case hmac_key of Some k \<Rightarrow> k | None \<Rightarrow> []);
          k = (if k \<noteq> [] then k else case env of Some e \<Rightarrow> e | None \<Rightarrow> [])
      in if k = [] then ''velaflow-ledger-key-INSECURE-DEFAULT'' else k)"

definition new_ledger :: "string \<Rightarrow> int \<Rightarrow> (string \<times> log_line list) list \<Rightarrow> ledger" where
  "new_ledger key mx files =
     \<lparr>al_hmac_key = key, al_max_entries = mx, al_last_hash = [], al_entry_count = 0, al_files = files\<rparr>"

definition hash_content :: "jdict \<Rightarrow> json" where
  "hash_content entry = sort_keys (JObj (filter (\<lambda>(k, v). k \<noteq> ''hash'') entry))"

definition compute_hash ::
    "(string \<Rightarrow> string \<Rightarrow> string) \<Rightarrow> (json \<Rightarrow> string) \<Rightarrow> string \<Rightarrow> jdict \<Rightarrow> string" where
  "compute_hash mac dumps key entry = mac key (dumps (hash_content entry))"

definition current_log_file :: "string \<Rightarrow> string" where
  "current_log_file today = ''actions-'' @ today @ ''.jsonl''"

definition append_entry :: "bool \<Rightarrow> string \<Rightarrow> jdict \<Rightarrow> ledger \<Rightarrow> ledger" where
  "append_entry wr today entry al =
     (let al = (if al_entry_count al > 0 \<and> al_entry_count al mod al_max_entries al = 0
                then al\<lparr>al_last_hash := []\<rparr> else al);
          f = current_log_file today
      in if wr then al\<lparr>al_files := AList.update f (dget (al_files al) f [] @ [DocLine (JObj entry)])
                                     (al_files al)\<rparr>
         else al)"

record log_call =
  lc_category :: action_category
  lc_action :: string
  lc_tenant_id :: string
  lc_user_id :: string
  lc_detail :: "jdict option"
  lc_duration_ms :: "real option"
  lc_status :: string
  lc_error :: string

definition drop_nulls :: "jdict \<Rightarrow> jdict" where
  "drop_nulls d = filter (\<lambda>(k, v). v \<noteq> JNull) d"

definition ledger_entry :: "(string \<Rightarrow> string) \<Rightarrow> string \<Rightarrow> string \<Rightarrow> log_call \<Rightarrow> jdict" where
  "ledger_entry redact ts last_hash c =
     drop_nulls
       [(''ts'', JStr ts),
        (''cat'', JStr (category_value (lc_category c))),
        (''act'', JStr (take 512 (lc_action c))),
        (''tid'', JStr (take 256 (lc_tenant_id c))),
        (''uid'', JStr (take 256 (lc_user_id c))),
        (''status'', JStr (lc_status c)),
        (''dur_ms'', case lc_duration_ms c of None \<Rightarrow> JNull | Some r \<Rightarrow> JReal r),
        (''detail'', case lc_detail c of
                       None \<Rightarrow> JNull
                     | Some d \<Rightarrow> if d = [] then JNull else JObj (redact_dict redact d)),
        (''err'', if lc_error c = [] then JNull else JStr (redact (lc_error c))),
        (''prev'', JStr last_hash),
        (''hash'', JStr [])]"

text \<open>The chain state is updated before the write; a zero \<open>max_entries_per_file\<close> makes the modulus
raise after that.\<close>

definition ledger_log ::
    "(string \<Rightarrow> string \<Rightarrow> string) \<Rightarrow> (json \<Rightarrow> string) \<Rightarrow> (string \<Rightarrow> string) \<Rightarrow> bool \<Rightarrow> string \<Rightarrow> string \<Rightarrow>
     log_call \<Rightarrow> ledger \<Rightarrow> jdict res \<times> ledger" where
  "ledger_log mac dumps redact wr today ts c al =
     (let entry = ledger_entry redact ts (al_last_hash al) c;
          h = compute_hash mac dumps (al_hmac_key al) entry;
          entry = AList.update ''hash'' (JStr h) entry;
          al = al\<lparr>al_last_hash := h, al_entry_count := al_entry_count al + 1\<rparr>
      in if al_entry_count al > 0 \<and> al_max_entries al = 0
         then (Inl (OtherError ''ZeroDivisionError''), al)
         else (Inr entry, append_entry wr today entry al))"

definition crash_call ::
    "(string \<Rightarrow> string) \<Rightarrow> string \<Rightarrow> string \<Rightarrow> string \<Rightarrow> string \<Rightarrow> string \<Rightarrow> string \<Rightarrow> string \<Rightarrow> jdict option \<Rightarrow>
     log_call" where
  "crash_call redact exc_type exc_msg traceback version ctxt tenant user request_info =
     (let detail = [(''exception_type'', JStr exc_type),
                    (''exception_msg'', JStr (redact exc_msg)),
                    (''traceback'', JStr (last_n 2000 (redact traceback))),
                    (''context'', JStr ctxt),
                    (''python_version'', JStr version)];
          detail = (case request_info of
                      Some d \<Rightarrow> if d \<noteq> [] then detail @ [(''request'', JObj (redact_dict redact d))]
                                else detail
                    | None \<Rightarrow> detail)
      in \<lparr>lc_category = CRASH, lc_action = ''unhandled_exception'', lc_tenant_id = tenant,
          lc_user_id = user, lc_detail = Some detail, lc_duration_ms = None, lc_status = ''crash'',
          lc_error = exc_type @ '': '' @ redact exc_msg\<rparr>)"

definition api_request_call :: "string \<Rightarrow> string \<Rightarrow> int \<Rightarrow> real \<Rightarrow> string \<Rightarrow> string \<Rightarrow> log_call" where
  "api_request_call method path code duration tenant user =
     \<lparr>lc_category = API_REQUEST, lc_action = method @ '' '' @ path, lc_tenant_id = tenant,
      lc_user_id = user,
      lc_detail = Some [(''method'', JStr method), (''path'', JStr path), (''status_code'', JInt code)],
      lc_duration_ms = Some duration, lc_status = int_text code, lc_error = []\<rparr>"

definition scaling_call :: "string \<Rightarrow> int \<Rightarrow> int \<Rightarrow> int \<Rightarrow> log_call" where
  "scaling_call scaler from_replicas to_replicas queue_depth =
     \<lparr>lc_category = SCALING, lc_action = ''scale_'' @ scaler, lc_tenant_id = [], lc_user_id = [],
      lc_detail = Some [(''scaler'', JStr scaler), (''from'', JInt from_replicas),
                        (''to'', JInt to_replicas), (''queue_depth'', JInt queue_depth)],
      lc_duration_ms = None, lc_status = ''ok'', lc_error = []\<rparr>"

section \<open>Reading the log\<close>

text \<open>\<open>x[:16]\<close> of a stored value in an error message raises for a value that is no sequence.\<close>

fun sliceable :: "json \<Rightarrow> bool" where
  "sliceable (JStr s) = True"
| "sliceable (JArr xs) = True"
| "sliceable v = False"

definition chain_error :: "json \<Rightarrow> bool res" where
  "chain_error v = (if sliceable v then Inr False else Inl (OtherError ''TypeError''))"

fun verify_lines ::
    "(string \<Rightarrow> string \<Rightarrow> string) \<Rightarrow> (json \<Rightarrow> string) \<Rightarrow> string \<Rightarrow> log_line list \<Rightarrow> json \<Rightarrow> bool res" where
  "verify_lines mac dumps key [] prev = Inr True"
| "verify_lines mac dumps key (BlankLine # ls) prev = verify_lines mac dumps key ls prev"
| "verify_lines mac dumps key (CorruptLine # ls) prev = Inr False"
| "verify_lines mac dumps key (DocLine (JObj e) # ls) prev =
     (if dget e ''prev'' (JStr []) \<noteq> prev then chain_error (dget e ''prev'' (JStr []))
      else let stored = dget e ''hash'' (JStr []);
               computed = JStr (compute_hash mac dumps key e)
           in if stored \<noteq> computed then chain_error stored
              else verify_lines mac dumps key ls stored)"
| "verify_lines mac dumps key (DocLine v # ls) prev = Inl (OtherError ''AttributeError'')"

definition ledger_verify_chain ::
    "(string \<Rightarrow> string \<Rightarrow> string) \<Rightarrow> (json \<Rightarrow> string) \<Rightarrow> string \<Rightarrow> ledger \<Rightarrow> bool res" where
  "ledger_verify_chain mac dumps target al =
     (case map_of (al_files al) target of
        None \<Rightarrow> Inr True
      | Some ls \<Rightarrow> verify_lines mac dumps (al_hmac_key al) ls (JStr []))"

definition log_file_names :: "ledger \<Rightarrow> string list" where
  "log_file_names al =
     filter (\<lambda>f. prefix ''actions-'' f \<and> suffix ''.jsonl'' f \<and> length f \<ge> 14) (map fst (al_files al))"

text \<open>Whether \<open>export\<close> keeps a line's document.\<close>

definition export_keeps ::
    "action_category option \<Rightarrow> string option \<Rightarrow> bool \<Rightarrow> json \<Rightarrow> bool res" where
  "export_keeps category tenant errors_only v =
     (let by_tenant = (case tenant of Some t \<Rightarrow> t \<noteq> [] | None \<Rightarrow> False) in
      if category = None \<and> \<not> by_tenant \<and> \<not> errors_only then Inr True
      else case v of
             JObj e \<Rightarrow>
               Inr (\<not> (category \<noteq> None
                        \<and> map_of e ''cat'' \<noteq> Some (JStr (category_value (the category))))
                  \<and> \<not> (by_tenant \<and> map_of e ''tid'' \<noteq> Some (JStr (the tenant)))
                  \<and> \<not> (errors_only \<and> map_of e ''status'' = Some (JStr ''ok'')))
           | _ \<Rightarrow> Inl (OtherError ''AttributeError''))"

fun export_lines :: "(json \<Rightarrow> bool res) \<Rightarrow> log_line list \<Rightarrow> json list res" where
  "export_lines keep [] = Inr []"
| "export_lines keep (DocLine v # ls) =
     rbind (keep v) (\<lambda>k. rbind (export_lines keep ls) (\<lambda>vs. Inr (if k then v # vs else vs)))"
| "export_lines keep (_ # ls) = export_lines keep ls"

definition ledger_export ::
    "int \<Rightarrow> action_category option \<Rightarrow> string option \<Rightarrow> bool \<Rightarrow> ledger \<Rightarrow> json list res" where
  "ledger_export n category tenant errors_only al =
     (let files = take 2 (rev (sort (log_file_names al)));
          ls = concat (map (\<lambda>f. dget (al_files al) f []) files)
      in rbind (export_lines (export_keeps category tenant errors_only) ls)
               (\<lambda>vs. Inr (last_n n vs)))"

fun count_categories :: "json list \<Rightarrow> (json \<times> int) list \<Rightarrow> (json \<times> int) list res" where
  "count_categories [] cs = Inr cs"
| "count_categories (JObj e # vs) cs =
     (let cat = dget e ''cat'' (JStr ''unknown'') in
      case cat of
        JArr _ \<Rightarrow> Inl (OtherError ''TypeError'')
      | JObj _ \<Rightarrow> Inl (OtherError ''TypeError'')
      | _ \<Rightarrow> count_categories vs
              (AList.update cat ((case map_of cs cat of Some n \<Rightarrow> n | None \<Rightarrow> 0) + 1) cs))"
| "count_categories (v # vs) cs = Inl (OtherError ''AttributeError'')"

definition entry_field :: "string \<Rightarrow> json \<Rightarrow> json option" where
  "entry_field k v = (case v of JObj e \<Rightarrow> map_of e k | _ \<Rightarrow> None)"

record ledger_summary =
  ls_total :: int
  ls_categories :: "(json \<times> int) list"
  ls_errors :: int
  ls_crashes :: int
  ls_chain_valid :: bool

definition summarise_ledger ::
    "(string \<Rightarrow> string \<Rightarrow> string) \<Rightarrow> (json \<Rightarrow> string) \<Rightarrow> string \<Rightarrow> int \<Rightarrow> ledger \<Rightarrow> ledger_summary res" where
  "summarise_ledger mac dumps today n al =
     rbind (ledger_export n None None False al) (\<lambda>vs.
     rbind (count_categories vs []) (\<lambda>cats.
     rbind (ledger_verify_chain mac dumps (current_log_file today) al) (\<lambda>valid.
       Inr \<lparr>ls_total = int (length vs), ls_categories = cats,
            ls_errors = int (length (filter (\<lambda>v. entry_field ''status'' v \<notin>
                {Some (JStr ''ok''), Some (JStr ''200''), Some (JStr ''201'')}) vs)),
            ls_crashes = int (length (filter (\<lambda>v. entry_field ''cat'' v = Some (JStr ''crash'')) vs)),
            ls_chain_valid = valid\<rparr>)))"

section \<open>The log as a hash chain\<close>

definition entry_prev :: "jdict \<Rightarrow> json" where
  "entry_prev e = dget e ''prev'' (JStr [])"

definition entry_hash :: "jdict \<Rightarrow> json" where
  "entry_hash e = dget e ''hash'' (JStr [])"

definition is_text :: "json \<Rightarrow> bool" where
  "is_text v \<longleftrightarrow> (\<exists>s. v = JStr s)"

lemma map_of_hash_content:
  assumes "k \<noteq> ''hash''" and "hash_content e = JObj d"
  shows "map_of d k = map_option sort_keys (map_of e k)"
proof -
  have "map_of (filter (\<lambda>(k, v). k \<noteq> ''hash'') e) k = map_of e k"
    using assms(1) by (induction e) auto
  with assms(2) show ?thesis
    by (auto simp: hash_content_def map_of_sort_key map_of_sort_keys_dict)
qed

lemma hash_content_fixes_prev:
  assumes "hash_content e = hash_content e'" and "is_text (entry_prev e)" and "is_text (entry_prev e')"
  shows "entry_prev e = entry_prev e'"
proof -
  obtain d where d: "hash_content e = JObj d" by (simp add: hash_content_def)
  from map_of_hash_content [OF _ d, of "''prev''"] map_of_hash_content [of "''prev''" e' d]
  have eq: "map_option sort_keys (map_of e ''prev'') = map_option sort_keys (map_of e' ''prev'')"
    using assms(1) d by simp
  show ?thesis
  proof (cases "map_of e ''prev''")
    case None
    with eq show ?thesis by (simp add: entry_prev_def dget_def)
  next
    case (Some v)
    with eq obtain v' where v': "map_of e' ''prev'' = Some v'" "sort_keys v = sort_keys v'"
      by (cases "map_of e' ''prev''") auto
    with Some assms(2,3) show ?thesis by (auto simp: entry_prev_def dget_def is_text_def)
  qed
qed

interpretation al_chain: hash_chain entry_prev entry_hash hash_content
    "\<lambda>e. JStr (compute_hash mac dumps key e)" is_text
  for mac :: "string \<Rightarrow> string \<Rightarrow> string" and dumps :: "json \<Rightarrow> string" and key :: string
  by unfold_locales (simp add: compute_hash_def, rule hash_content_fixes_prev)

text \<open>The hash the next entry of a file has to name.\<close>

fun line_end :: "json \<Rightarrow> log_line list \<Rightarrow> json" where
  "line_end p [] = p"
| "line_end p (DocLine (JObj e) # ls) = line_end (entry_hash e) ls"
| "line_end p (_ # ls) = line_end p ls"

lemma chain_error_not_ok [simp]: "chain_error v \<noteq> Inr True"
  by (simp add: chain_error_def)

lemma verify_Doc:
  "verify_lines mac dumps key (DocLine (JObj e) # ls) p = Inr True \<longleftrightarrow>
     entry_prev e = p \<and> entry_hash e = JStr (compute_hash mac dumps key e)
     \<and> verify_lines mac dumps key ls (entry_hash e) = Inr True"
  by (simp add: entry_prev_def entry_hash_def Let_def)

lemma verify_snoc:
  "verify_lines mac dumps key (ls @ [DocLine (JObj e)]) p = Inr True \<longleftrightarrow>
     verify_lines mac dumps key ls p = Inr True \<and> entry_prev e = line_end p ls
     \<and> entry_hash e = JStr (compute_hash mac dumps key e)"
proof (induction p ls rule: line_end.induct)
  case (2 p e ls)
  then show ?case by (simp add: verify_Doc del: verify_lines.simps(4))
qed (simp_all add: verify_Doc del: verify_lines.simps(4))

lemma verify_docs:
  "verify_lines mac dumps key (map (\<lambda>e. DocLine (JObj e)) es) p = Inr True \<longleftrightarrow>
     al_chain.chained mac dumps key p es"
  by (induction es arbitrary: p) (simp_all add: verify_Doc del: verify_lines.simps(4))

lemma line_end_snoc: "line_end p (ls @ [DocLine (JObj e)]) = entry_hash e"
  by (induction p ls rule: line_end.induct) simp_all

section \<open>What one call does\<close>

lemma ledger_entry_prev: "map_of (ledger_entry redact ts h c) ''prev'' = Some (JStr h)"
  unfolding ledger_entry_def drop_nulls_def by (subst map_of_filter_values) simp_all

lemma hash_content_update: "hash_content (AList.update ''hash'' v e) = hash_content e"
proof -
  have "filter (\<lambda>(k, v). k \<noteq> ''hash'') (AList.update ''hash'' v e) = filter (\<lambda>(k, v). k \<noteq> ''hash'') e"
    by (induction e) auto
  then show ?thesis by (simp add: hash_content_def)
qed

lemma ledger_log_entry:
  assumes "ledger_log mac dumps redact wr today ts c al = (Inr e, al')"
  shows "entry_prev e = JStr (al_last_hash al)"
    and "entry_hash e = JStr (compute_hash mac dumps (al_hmac_key al) e)"
    and "al_entry_count al' = al_entry_count al + 1"
    and "al_max_entries al' = al_max_entries al" and "al_hmac_key al' = al_hmac_key al"
    and "JStr (al_last_hash al') =
      (if al_entry_count al + 1 > 0 \<and> (al_entry_count al + 1) mod al_max_entries al = 0
       then JStr [] else entry_hash e)"
    and "wr \<Longrightarrow> al_files al' = AList.update (current_log_file today)
      (dget (al_files al) (current_log_file today) [] @ [DocLine (JObj e)]) (al_files al)"
  using assms
  by (auto simp: ledger_log_def Let_def append_entry_def entry_prev_def entry_hash_def dget_def
      ledger_entry_prev compute_hash_def hash_content_update split: if_splits)

lemma ledger_log_total:
  "al_max_entries al \<noteq> 0 \<Longrightarrow> \<exists>e al'. ledger_log mac dumps redact wr today ts c al = (Inr e, al')"
  by (simp add: ledger_log_def Let_def)

text \<open>A day of calls whose writes succeed.\<close>

definition ledger_day ::
    "(string \<Rightarrow> string \<Rightarrow> string) \<Rightarrow> (json \<Rightarrow> string) \<Rightarrow> (string \<Rightarrow> string) \<Rightarrow> string \<Rightarrow>
     (string \<times> log_call) list \<Rightarrow> ledger \<Rightarrow> ledger" where
  "ledger_day mac dumps redact today cs al =
     fold (\<lambda>(ts, c) al. snd (ledger_log mac dumps redact True today ts c al)) cs al"

definition day_lines :: "string \<Rightarrow> ledger \<Rightarrow> log_line list" where
  "day_lines today al = dget (al_files al) (current_log_file today) []"

lemma verify_day:
  "ledger_verify_chain mac dumps (current_log_file today) al =
     verify_lines mac dumps (al_hmac_key al) (day_lines today al) (JStr [])"
  by (simp add: ledger_verify_chain_def day_lines_def dget_def split: option.split)

lemma log_extends_verification:
  assumes "ledger_log mac dumps redact True today ts c al = (Inr e, al')"
  shows "ledger_verify_chain mac dumps (current_log_file today) al' = Inr True \<longleftrightarrow>
      ledger_verify_chain mac dumps (current_log_file today) al = Inr True
      \<and> JStr (al_last_hash al) = line_end (JStr []) (day_lines today al)"
    and "line_end (JStr []) (day_lines today al') = entry_hash e"
proof -
  note l = ledger_log_entry [OF assms]
  have ls: "day_lines today al' = day_lines today al @ [DocLine (JObj e)]"
    using l(7) by (simp add: day_lines_def)
  show "ledger_verify_chain mac dumps (current_log_file today) al' = Inr True \<longleftrightarrow>
      ledger_verify_chain mac dumps (current_log_file today) al = Inr True
      \<and> JStr (al_last_hash al) = line_end (JStr []) (day_lines today al)"
    unfolding verify_day ls verify_snoc l(1) l(5) using l(2) by blast
  show "line_end (JStr []) (day_lines today al') = entry_hash e"
    by (simp add: ls line_end_snoc)
qed

lemma ledger_day_invariant:
  assumes "0 < mx" and "\<And>k t. mac k t \<noteq> []"
    and "map_of files (current_log_file today) = None"
    and "al = ledger_day mac dumps redact today cs (new_ledger key mx files)"
  shows "al_entry_count al = int (length cs) \<and> al_max_entries al = mx
    \<and> (ledger_verify_chain mac dumps (current_log_file today) al = Inr True \<longleftrightarrow> int (length cs) \<le> mx)
    \<and> (int (length cs) mod mx \<noteq> 0 \<longrightarrow> JStr (al_last_hash al) = line_end (JStr []) (day_lines today al))
    \<and> (int (length cs) mod mx = 0 \<longrightarrow> al_last_hash al = [])
    \<and> (cs \<noteq> [] \<longrightarrow> line_end (JStr []) (day_lines today al) \<noteq> JStr [])
    \<and> (cs = [] \<longrightarrow> line_end (JStr []) (day_lines today al) = JStr [])"
  using assms(4)
proof (induction cs arbitrary: al rule: rev_induct)
  case Nil
  then show ?case
    using assms(1,3)
    by (simp add: ledger_day_def new_ledger_def ledger_verify_chain_def day_lines_def dget_def)
next
  case (snoc tc cs)
  obtain ts c where tc: "tc = (ts, c)" by (cases tc)
  define al0 where "al0 = ledger_day mac dumps redact today cs (new_ledger key mx files)"
  note IH = snoc.IH [OF al0_def]
  have "al_max_entries al0 \<noteq> 0" using IH assms(1) by simp
  then obtain e al1 where log: "ledger_log mac dumps redact True today ts c al0 = (Inr e, al1)"
    using ledger_log_total by blast
  then have al: "al = al1"
    using snoc.prems by (simp add: ledger_day_def al0_def tc)
  note l = ledger_log_entry [OF log] and x = log_extends_verification [OF log]
  have nonempty: "entry_hash e \<noteq> JStr []" using l(2) assms(2) by (simp add: compute_hash_def)
  let ?n = "int (length cs)"
  have n: "int (length (cs @ [tc])) = ?n + 1" by simp
  have valid: "ledger_verify_chain mac dumps (current_log_file today) al1 = Inr True \<longleftrightarrow> ?n + 1 \<le> mx"
  proof (cases "?n < mx")
    case True
    have "JStr (al_last_hash al0) = line_end (JStr []) (day_lines today al0)"
    proof (cases "cs = []")
      case True
      with IH show ?thesis by simp
    next
      case False
      with True have "?n mod mx = ?n" "?n \<noteq> 0" by simp_all
      with IH show ?thesis by simp
    qed
    with True x(1) IH show ?thesis by simp
  next
    case False
    then have "ledger_verify_chain mac dumps (current_log_file today) al0 \<noteq> Inr True
        \<or> JStr (al_last_hash al0) \<noteq> line_end (JStr []) (day_lines today al0)"
    proof (cases "?n = mx")
      case True
      with assms(1) have "cs \<noteq> []" by auto
      with True IH show ?thesis by auto
    next
      case False
      with \<open>\<not> ?n < mx\<close> IH show ?thesis by simp
    qed
    with x(1) False show ?thesis by auto
  qed
  have cnt: "al_entry_count al0 = ?n" "al_max_entries al0 = mx" using IH by simp_all
  have lh: "JStr (al_last_hash al1) = (if (?n + 1) mod mx = 0 then JStr [] else entry_hash e)"
    using l(6) cnt by (simp split: if_splits)
  show ?case
    unfolding al n x(2) valid using l(3,4) cnt lh nonempty by (auto split: if_splits)
qed

section \<open>Redaction\<close>

text \<open>\<open>v\<close> is stored under \<open>k\<close> in the dictionary or in one nested in it.\<close>

inductive nested_value :: "jdict \<Rightarrow> string \<Rightarrow> json \<Rightarrow> bool" where
  here: "(k, v) \<in> set d \<Longrightarrow> nested_value d k v"
| deeper: "(k', JObj d') \<in> set d \<Longrightarrow> nested_value d' k v \<Longrightarrow> nested_value d k v"

lemma redact_dict_map:
  "redact_dict redact d =
     map (\<lambda>(k, v). (k, if sensitive_key k then redacted else redact_value redact v)) d"
  by (induction d) auto

lemma redact_dict_set:
  "(k, v) \<in> set (redact_dict redact d) \<longleftrightarrow>
     (\<exists>v0. (k, v0) \<in> set d \<and> v = (if sensitive_key k then redacted else redact_value redact v0))"
proof -
  have "(k, v) \<in> set (map (\<lambda>(k, v). (k, f k v)) d) \<longleftrightarrow> (\<exists>v0. (k, v0) \<in> set d \<and> v = f k v0)"
    for f :: "string \<Rightarrow> json \<Rightarrow> json" by force
  from this [of "\<lambda>k v. if sensitive_key k then redacted else redact_value redact v"]
  show ?thesis by (simp only: redact_dict_map)
qed

lemma redact_value_obj: "redact_value redact v = JObj d \<Longrightarrow> \<exists>d0. v = JObj d0 \<and> d = redact_dict redact d0"
  by (cases v) auto

lemma nested_redacted:
  "nested_value d k v \<Longrightarrow> d = redact_dict redact d0 \<Longrightarrow> sensitive_key k \<Longrightarrow> v = redacted"
proof (induction arbitrary: d0 rule: nested_value.induct)
  case (here k v d)
  then show ?case by (auto simp: redact_dict_set)
next
  case (deeper k' d' d k v)
  from deeper.hyps(1) deeper.prems(1) obtain v0
    where "JObj d' = (if sensitive_key k' then redacted else redact_value redact v0)"
    by (auto simp: redact_dict_set)
  then have "redact_value redact v0 = JObj d'" by (auto simp: redacted_def split: if_splits)
  then obtain d1 where "d' = redact_dict redact d1" using redact_value_obj by blast
  with deeper.IH deeper.prems(2) show ?case by blast
qed

section \<open>Properties\<close>



text \<open>The same happens without any rotation: the first entry a restarted process adds to a day's valid,
non-empty file, and the first entry a running process writes after midnight, make \<open>verify_chain\<close>
fail, because the chain state and the files do not start and end together.\<close>

theorem restart_and_midnight_break_chain:
  assumes "\<And>k t. mac k t \<noteq> []"
    and "ledger_verify_chain mac dumps (current_log_file today) al = Inr True"
    and "line_end (JStr []) (day_lines today al) = JStr (al_last_hash al)" and "al_last_hash al \<noteq> []"
    and "al_max_entries al \<noteq> 0" and "map_of (al_files al) (current_log_file tomorrow) = None"
  shows "ledger_verify_chain mac dumps (current_log_file today)
      (snd (ledger_log mac dumps redact True today ts c
        (new_ledger (al_hmac_key al) (al_max_entries al) (al_files al)))) \<noteq> Inr True
    \<and> ledger_verify_chain mac dumps (current_log_file tomorrow)
      (snd (ledger_log mac dumps redact True tomorrow ts c al)) \<noteq> Inr True"
proof -
  let ?new = "new_ledger (al_hmac_key al) (al_max_entries al) (al_files al)"
  have "al_max_entries ?new \<noteq> 0" using assms(5) by (simp add: new_ledger_def)
  from ledger_log_total [OF this] obtain e1 al1
    where log1: "ledger_log mac dumps redact True today ts c ?new = (Inr e1, al1)" by blast
  obtain e2 al2 where log2: "ledger_log mac dumps redact True tomorrow ts c al = (Inr e2, al2)"
    using ledger_log_total [of al] assms(5) by blast
  have "JStr (al_last_hash ?new) \<noteq> line_end (JStr []) (day_lines today ?new)"
    using assms(3,4) by (simp add: new_ledger_def day_lines_def)
  moreover have "JStr (al_last_hash al) \<noteq> line_end (JStr []) (day_lines tomorrow al)"
    using assms(4,6) by (simp add: day_lines_def dget_def)
  ultimately show ?thesis
    using log_extends_verification(1) [OF log1] log_extends_verification(1) [OF log2] log1 log2
    by simp
qed

theorem restart_and_midnight_break_chain_witness:
  "\<exists>mac dumps al. al_last_hash al \<noteq> []
     \<and> ledger_verify_chain mac dumps (current_log_file ''d1'') al = Inr True
     \<and> ledger_verify_chain mac dumps (current_log_file ''d2'')
         (snd (ledger_log mac dumps (\<lambda>s. s) True ''d2'' ''t'' (scaling_call ''keda'' 1 2 3) al)) \<noteq> Inr True"
proof -
  let ?mac = "\<lambda>k t. CHR ''h'' # k @ t" and ?dumps = "\<lambda>_ :: json. ''x''"
  let ?c = "scaling_call ''keda'' 1 2 3"
  define al where "al = ledger_day ?mac ?dumps (\<lambda>s. s) ''d1'' [(''t'', ?c)] (new_ledger ''k'' 5 [])"
  have inv: "al_max_entries al = 5
      \<and> ledger_verify_chain ?mac ?dumps (current_log_file ''d1'') al = Inr True
      \<and> JStr (al_last_hash al) = line_end (JStr []) (day_lines ''d1'' al)
      \<and> line_end (JStr []) (day_lines ''d1'' al) \<noteq> JStr []"
    using ledger_day_invariant [of 5 ?mac "[]" "''d1''" al ?dumps "\<lambda>s. s" "[(''t'', ?c)]" "''k''"] al_def
    by simp
  have "map_of (al_files al) (current_log_file ''d2'') = None"
    by (simp add: al_def ledger_day_def ledger_log_def append_entry_def new_ledger_def
        current_log_file_def Let_def)
  moreover from inv have "al_last_hash al \<noteq> []" by auto
  ultimately have "ledger_verify_chain ?mac ?dumps (current_log_file ''d2'')
      (snd (ledger_log ?mac ?dumps (\<lambda>s. s) True ''d2'' ''t'' ?c al)) \<noteq> Inr True"
    using restart_and_midnight_break_chain
      [of ?mac ?dumps "''d1''" al "''d2''" "\<lambda>s. s" "''t''" ?c] inv by auto
  with inv \<open>al_last_hash al \<noteq> []\<close> show ?thesis by blast
qed

text \<open>C26. The chain is tamper evident for whoever knows the number of entries and the last hash: two files
that both verify, have equally many entries and end in the same hash hold the same content, entry by
entry, unless two of their entries collide under the keyed hash.\<close>

theorem ledger_tamper_evident:
  assumes "verify_lines mac dumps key (map (\<lambda>e. DocLine (JObj e)) es) (JStr []) = Inr True"
    and "verify_lines mac dumps key (map (\<lambda>e. DocLine (JObj e)) es') (JStr []) = Inr True"
    and "length es = length es'"
    and "es \<noteq> []" and "entry_hash (last es) = entry_hash (last es')"
    and "\<And>e e'. e \<in> set es \<Longrightarrow> e' \<in> set es' \<Longrightarrow>
      compute_hash mac dumps key e = compute_hash mac dumps key e' \<Longrightarrow> hash_content e = hash_content e'"
  shows "map hash_content es = map hash_content es'"
proof -
  have "es' \<noteq> []" using assms(3,4) by auto
  then have ends: "al_chain.chain_end (JStr []) es = al_chain.chain_end (JStr []) es'"
    using assms(4,5) by (simp add: al_chain.chain_end_def)
  have "map hash_content es = map hash_content es' \<and> JStr [] = JStr []"
    by (rule al_chain.same_end_same_content [where mac = mac and dumps = dumps and key = key,
          OF _ _ _ _ _ _ assms(3) ends])
      (use assms(1,2,6) in \<open>auto simp: verify_docs is_text_def\<close>)
  then show ?thesis by simp
qed

theorem ledger_tamper_evident_witness:
  "map hash_content [[(''act'', JStr ''login''), (''prev'', JStr []), (''hash'', JStr ''klogin'')]]
   = map hash_content [[(''hash'', JStr ''klogin''), (''prev'', JStr []), (''act'', JStr ''login'')]]"
proof -
  let ?dumps = "\<lambda>v. case v of JObj ((k, JStr s) # d) \<Rightarrow> s | _ \<Rightarrow> []"
  let ?e = "[(''act'', JStr ''login''), (''prev'', JStr []), (''hash'', JStr ''klogin'')]"
  let ?f = "[(''hash'', JStr ''klogin''), (''prev'', JStr []), (''act'', JStr ''login'')]"
  have c: "hash_content ?e = JObj [(''act'', JStr ''login''), (''prev'', JStr [])]"
      "hash_content ?f = JObj [(''act'', JStr ''login''), (''prev'', JStr [])]"
    by (simp_all add: hash_content_def less_eq_list_code)
  show ?thesis
    by (rule ledger_tamper_evident [of "(@)" ?dumps "''k''"])
      (simp_all add: compute_hash_def c entry_hash_def)
qed

text \<open>Every value stored under a key that names a secret is replaced in the redacted detail, at any depth
of nested dictionaries; but a dictionary inside a list is logged as it is, secrets included.\<close>

theorem redaction_reaches_dicts_not_lists:
  "(nested_value (redact_dict redact d) k v \<and> sensitive_key k \<longrightarrow> v = redacted)
   \<and> (\<not> sensitive_key k' \<longrightarrow> redact_dict redact [(k', JArr [JObj d])] = [(k', JArr [JObj d])])"
  using nested_redacted by auto

theorem redaction_reaches_dicts_not_lists_witness:
  "nested_value (redact_dict (\<lambda>s. s) [(''a'', JObj [(''api_key'', JStr ''x'')])]) ''api_key'' redacted
   \<and> redact_dict (\<lambda>s. s) [(''items'', JArr [JObj [(''password'', JStr ''hunter2'')]])]
       = [(''items'', JArr [JObj [(''password'', JStr ''hunter2'')]])]"
proof
  have k: "sensitive_key ''api_key''" "\<not> sensitive_key ''a''" "\<not> sensitive_key ''items''"
    by (simp_all add: sensitive_key_def py_lower_def lower_char_def less_eq_char_def)
  let ?d = "redact_dict (\<lambda>s. s) [(''a'', JObj [(''api_key'', JStr ''x'')])]"
  have d: "?d = [(''a'', JObj [(''api_key'', redacted)])]" using k by simp
  have "nested_value ?d ''api_key'' redacted"
    unfolding d by (rule nested_value.deeper [of "''a''" "[(''api_key'', redacted)]"])
      (simp_all add: nested_value.here)
  then obtain v where v: "nested_value ?d ''api_key'' v" ..
  with redaction_reaches_dicts_not_lists [of "\<lambda>s. s" "[(''a'', JObj [(''api_key'', JStr ''x'')])]" "''api_key''" v "''a''"]
  show "nested_value ?d ''api_key'' redacted" using k(1) by blast
  show "redact_dict (\<lambda>s. s) [(''items'', JArr [JObj [(''password'', JStr ''hunter2'')]])]
       = [(''items'', JArr [JObj [(''password'', JStr ''hunter2'')]])]"
    using k(3) by simp
qed

end
