(* ===== verification/Encryption.thy ===== *)
theory Encryption
  imports PyText
begin

text \<open>
  \<open>src/brain/security/encryption.py\<close>: authenticated encryption of fields. Bytes are
  strings of characters 0 to 255. Base64 (the URL-safe alphabet, the lenient decoder of Python's
  \<open>binascii\<close>) and UTF-8 are written out. AES-GCM (the \<open>cryptography\<close> package) is the pair of
  parameters \<open>seal key nonce aad plaintext\<close> and \<open>open_ key nonce aad ciphertext\<close>; the key
  derivations (PBKDF2, HKDF, SHA-256) are parameters too. A random nonce is an argument.
\<close>

section \<open>UTF-8\<close>

type_synonym bytes = string

definition byte :: "nat \<Rightarrow> char" where
  "byte n = char_of n"

definition utf8_char :: "char \<Rightarrow> bytes" where
  "utf8_char c =
     (let n = (of_char c :: nat) in
      if n < 128 then [c] else [byte (192 + n div 64), byte (128 + n mod 64)])"

definition utf8_encode :: "string \<Rightarrow> bytes" where
  "utf8_encode s = concat (map utf8_char s)"

text \<open>Decoding, for the code points below 256; everything else is an error here.\<close>

fun utf8_decode :: "bytes \<Rightarrow> string res" where
  "utf8_decode [] = Inr []"
| "utf8_decode (b # bs) =
     (if (of_char b :: nat) < 128 then rbind (utf8_decode bs) (\<lambda>s. Inr (b # s))
      else case bs of
             [] \<Rightarrow> Inl (ValueError ''UnicodeDecodeError'')
           | b' # bs' \<Rightarrow>
               (let n = (of_char b :: nat); n' = (of_char b' :: nat) in
                if 194 \<le> n \<and> n \<le> 195 \<and> 128 \<le> n' \<and> n' < 192
                then rbind (utf8_decode bs') (\<lambda>s. Inr (byte ((n - 192) * 64 + (n' - 128)) # s))
                else Inl (ValueError ''UnicodeDecodeError'')))"

lemma utf8_round_trip: "utf8_decode (utf8_encode s) = Inr s"
proof (induction s)
  case Nil
  then show ?case by (simp add: utf8_encode_def)
next
  case (Cons c s)
  define n where "n = (of_char c :: nat)"
  have n: "n < 256" by (simp add: n_def)
  have step: "utf8_encode (c # s) = utf8_char c @ utf8_encode s"
    by (simp add: utf8_encode_def)
  show ?case
  proof (cases "n < 128")
    case True
    then show ?thesis unfolding step by (simp add: utf8_char_def n_def Cons.IH)
  next
    case False
    have d: "2 \<le> n div 64" "n div 64 \<le> 3" using False n by simp_all
    have m: "n mod 64 < 64" by simp
    have a: "(of_char (byte (192 + n div 64)) :: nat) = 192 + n div 64"
      using d by (simp add: byte_def of_char_of)
    have b: "(of_char (byte (128 + n mod 64)) :: nat) = 128 + n mod 64"
      using m by (simp add: byte_def of_char_of)
    have c: "byte n = c"
      unfolding byte_def by (simp add: n_def)
    show ?thesis
      unfolding step using False d m
      by (simp add: utf8_char_def n_def [symmetric] Let_def a b Cons.IH c)
  qed
qed

section \<open>Base64\<close>

definition b64_alphabet :: string where
  "b64_alphabet = ''ABCDEFGHIJKLMNOPQRSTUVWXYZabcdefghijklmnopqrstuvwxyz0123456789-_''"

definition b64_char :: "nat \<Rightarrow> char" where
  "b64_char v = b64_alphabet ! v"

fun index_of :: "char \<Rightarrow> string \<Rightarrow> nat option" where
  "index_of c [] = None"
| "index_of c (x # xs) = (if x = c then Some 0 else map_option Suc (index_of c xs))"

text \<open>The URL-safe decoder first maps \<open>-\<close> and \<open>_\<close> to \<open>+\<close> and \<open>/\<close>, so all four stand for 62 and 63.\<close>

definition b64_value :: "char \<Rightarrow> nat option" where
  "b64_value c = (if c = CHR ''+'' then Some 62 else if c = CHR ''/'' then Some 63
                  else index_of c b64_alphabet)"

fun b64_encode :: "bytes \<Rightarrow> string" where
  "b64_encode [] = []"
| "b64_encode [x] =
     (let a = of_char x in [b64_char (a div 4), b64_char (a mod 4 * 16), CHR ''='', CHR ''=''])"
| "b64_encode [x, y] =
     (let a = of_char x; b = of_char y
      in [b64_char (a div 4), b64_char (a mod 4 * 16 + b div 16), b64_char (b mod 16 * 4), CHR ''=''])"
| "b64_encode (x # y # z # bs) =
     (let a = of_char x; b = of_char y; c = of_char z
      in [b64_char (a div 4), b64_char (a mod 4 * 16 + b div 16),
          b64_char (b mod 16 * 4 + c div 64), b64_char (c mod 64)] @ b64_encode bs)"

text \<open>
  The state machine of \<open>binascii.a2b_base64\<close> in its lenient mode: the position in the quad, the
  bits left over from the last character, the pads seen. Characters outside the alphabet are skipped.
\<close>

fun b64_scan :: "nat \<Rightarrow> nat \<Rightarrow> nat \<Rightarrow> string \<Rightarrow> bytes res" where
  "b64_scan quad left pads [] =
     (if quad \<noteq> 0 then Inl (ValueError ''Incorrect padding'') else Inr [])"
| "b64_scan quad left pads (c # cs) =
     (if c = CHR ''='' then
        (if quad \<ge> 2 \<and> quad + (pads + 1) \<ge> 4 then Inr []
         else b64_scan quad left (if quad \<ge> 2 then pads + 1 else pads) cs)
      else case b64_value c of
             None \<Rightarrow> b64_scan quad left pads cs
           | Some v \<Rightarrow>
               (if quad = 0 then b64_scan 1 v 0 cs
                else if quad = 1 then
                  rbind (b64_scan 2 (v mod 16) 0 cs) (\<lambda>bs. Inr (byte (left * 4 + v div 16) # bs))
                else if quad = 2 then
                  rbind (b64_scan 3 (v mod 4) 0 cs) (\<lambda>bs. Inr (byte (left * 16 + v div 4) # bs))
                else
                  rbind (b64_scan 0 0 0 cs) (\<lambda>bs. Inr (byte (left * 64 + v) # bs))))"

definition b64_decode :: "string \<Rightarrow> bytes res" where
  "b64_decode s =
     (if \<exists>c \<in> set s. (of_char c :: nat) \<ge> 128 then Inl (ValueError ''non-ASCII'')
      else b64_scan 0 0 0 s)"

lemma b64_alphabet_length: "length b64_alphabet = 64"
  by (simp add: b64_alphabet_def)

lemma index_of_nth: "distinct xs \<Longrightarrow> v < length xs \<Longrightarrow> index_of (xs ! v) xs = Some v"
proof (induction xs arbitrary: v)
  case Nil
  then show ?case by simp
next
  case (Cons x xs)
  then show ?case by (cases v) auto
qed

lemma b64_alphabet_ok:
  "distinct b64_alphabet \<and> CHR ''='' \<notin> set b64_alphabet \<and> CHR ''+'' \<notin> set b64_alphabet
   \<and> CHR ''/'' \<notin> set b64_alphabet \<and> list_all (\<lambda>c. (of_char c :: nat) < 128) b64_alphabet"
  by code_simp

lemma b64_char_props:
  assumes "v < 64"
  shows "b64_value (b64_char v) = Some v" and "b64_char v \<noteq> CHR ''=''"
    and "(of_char (b64_char v) :: nat) < 128"
proof -
  have mem: "b64_char v \<in> set b64_alphabet"
    using assms by (simp add: b64_char_def b64_alphabet_length)
  have "index_of (b64_char v) b64_alphabet = Some v"
    unfolding b64_char_def using assms b64_alphabet_ok
    by (intro index_of_nth) (simp_all add: b64_alphabet_length)
  moreover have "b64_char v \<noteq> CHR ''+''" "b64_char v \<noteq> CHR ''/''"
    using mem b64_alphabet_ok by auto
  ultimately show "b64_value (b64_char v) = Some v" by (simp add: b64_value_def)
  show "b64_char v \<noteq> CHR ''=''" using mem b64_alphabet_ok by auto
  show "(of_char (b64_char v) :: nat) < 128" using mem b64_alphabet_ok by (simp add: list_all_iff)
qed

lemma b64_scan_char:
  assumes "v < 64"
  shows "b64_scan 0 l p (b64_char v # cs) = b64_scan 1 v 0 cs"
    and "b64_scan 1 l p (b64_char v # cs) =
      rbind (b64_scan 2 (v mod 16) 0 cs) (\<lambda>bs. Inr (byte (l * 4 + v div 16) # bs))"
    and "b64_scan 2 l p (b64_char v # cs) =
      rbind (b64_scan 3 (v mod 4) 0 cs) (\<lambda>bs. Inr (byte (l * 16 + v div 4) # bs))"
    and "b64_scan 3 l p (b64_char v # cs) =
      rbind (b64_scan 0 0 0 cs) (\<lambda>bs. Inr (byte (l * 64 + v) # bs))"
  using b64_char_props [OF assms] by simp_all

lemma b64_scan_pads:
  "b64_scan 2 l 0 ''=='' = Inr []" "b64_scan 3 l 0 ''='' = Inr []" "b64_scan 0 l p [] = Inr []"
  by simp_all

lemma byte_of_char: "byte (of_char c) = c"
  by (simp add: byte_def)

lemma b64_scan_encode: "b64_scan 0 0 0 (b64_encode bs) = Inr bs"
proof (induction bs rule: b64_encode.induct)
  case 1
  then show ?case by simp
next
  case (2 x)
  define a where "a = (of_char x :: nat)"
  have a: "a < 256" by (simp add: a_def)
  then have v: "a div 4 < 64" "a mod 4 * 16 < 64" by auto
  have bx: "byte a = x" unfolding a_def by (rule byte_of_char)
  have "a div 4 * 4 + a mod 4 * 16 div 16 = a" by simp
  then have x: "byte (a div 4 * 4 + a mod 4 * 16 div 16) = x" by (simp only: bx)
  show ?case
    by (simp only: b64_encode.simps Let_def a_def [symmetric] b64_scan_char [OF v(1)]
        b64_scan_char [OF v(2)] b64_scan_pads mult_mod_right) (simp add: bx)
next
  case (3 x y)
  define a b where "a = (of_char x :: nat)" and "b = (of_char y :: nat)"
  have ab: "a < 256" "b < 256" by (simp_all add: a_def b_def)
  then have v: "a div 4 < 64" "a mod 4 * 16 + b div 16 < 64" "b mod 16 * 4 < 64" by auto
  have "(a mod 4 * 16 + b div 16) div 16 = a mod 4" "(a mod 4 * 16 + b div 16) mod 16 = b div 16"
    using ab by auto
  then have eqs: "a div 4 * 4 + (a mod 4 * 16 + b div 16) div 16 = a"
      "(a mod 4 * 16 + b div 16) mod 16 * 16 + b mod 16 * 4 div 4 = b"
    by simp_all
  have x: "byte (a div 4 * 4 + (a mod 4 * 16 + b div 16) div 16) = x"
    and y: "byte ((a mod 4 * 16 + b div 16) mod 16 * 16 + b mod 16 * 4 div 4) = y"
    unfolding eqs by (simp_all only: a_def b_def byte_of_char)
  show ?case
    by (simp only: b64_encode.simps Let_def a_def [symmetric] b_def [symmetric]
        b64_scan_char [OF v(1)] b64_scan_char [OF v(2)] b64_scan_char [OF v(3)]
        b64_scan_pads rbind.simps x y)
next
  case (4 x y z bs)
  define a b c where "a = (of_char x :: nat)" and "b = (of_char y :: nat)" and "c = (of_char z :: nat)"
  have abc: "a < 256" "b < 256" "c < 256" by (simp_all add: a_def b_def c_def)
  then have v: "a div 4 < 64" "a mod 4 * 16 + b div 16 < 64" "b mod 16 * 4 + c div 64 < 64"
      "c mod 64 < 64" by auto
  have "(a mod 4 * 16 + b div 16) div 16 = a mod 4" "(a mod 4 * 16 + b div 16) mod 16 = b div 16"
      "(b mod 16 * 4 + c div 64) div 4 = b mod 16" "(b mod 16 * 4 + c div 64) mod 4 = c div 64"
    using abc by auto
  then have eqs: "a div 4 * 4 + (a mod 4 * 16 + b div 16) div 16 = a"
      "(a mod 4 * 16 + b div 16) mod 16 * 16 + (b mod 16 * 4 + c div 64) div 4 = b"
      "(b mod 16 * 4 + c div 64) mod 4 * 64 + c mod 64 = c"
    by simp_all
  have x: "byte (a div 4 * 4 + (a mod 4 * 16 + b div 16) div 16) = x"
    and y: "byte ((a mod 4 * 16 + b div 16) mod 16 * 16 + (b mod 16 * 4 + c div 64) div 4) = y"
    and z: "byte ((b mod 16 * 4 + c div 64) mod 4 * 64 + c mod 64) = z"
    unfolding eqs by (simp_all only: a_def b_def c_def byte_of_char)
  show ?case
    by (simp only: b64_encode.simps Let_def a_def [symmetric] b_def [symmetric] c_def [symmetric]
        append_Cons append_Nil b64_scan_char [OF v(1)] b64_scan_char [OF v(2)]
        b64_scan_char [OF v(3)] b64_scan_char [OF v(4)] 4 rbind.simps x y z)
qed

lemma sextet_bounds:
  assumes "a < 256" and "b < (256 :: nat)" and "c < (256 :: nat)"
  shows "a div 4 < (64 :: nat)" "a mod 4 * 16 < (64 :: nat)" "a mod 4 * 16 + b div 16 < 64"
    "b mod 16 * 4 < 64" "b mod 16 * 4 + c div 64 < 64" "c mod 64 < 64"
  using assms by auto

lemma b64_encode_ascii: "c \<in> set (b64_encode bs) \<Longrightarrow> (of_char c :: nat) < 128"
proof (induction bs rule: b64_encode.induct)
  case (2 x)
  note v = sextet_bounds [OF nat_of_char_less_256 [of x] nat_of_char_less_256 nat_of_char_less_256]
  from 2 show ?case using b64_char_props(3) [OF v(1)] b64_char_props(3) [OF v(2)] by (auto simp: Let_def)
next
  case (3 x y)
  note v = sextet_bounds [OF nat_of_char_less_256 [of x] nat_of_char_less_256 [of y] nat_of_char_less_256]
  from 3 show ?case
    using b64_char_props(3) [OF v(1)] b64_char_props(3) [OF v(3)] b64_char_props(3) [OF v(4)]
    by (auto simp: Let_def)
next
  case (4 x y z bs)
  note v = sextet_bounds [OF nat_of_char_less_256 [of x] nat_of_char_less_256 [of y]
      nat_of_char_less_256 [of z]]
  from 4 show ?case
    using b64_char_props(3) [OF v(1)] b64_char_props(3) [OF v(3)] b64_char_props(3) [OF v(5)]
      b64_char_props(3) [OF v(6)]
    by (auto simp: Let_def)
qed simp

lemma b64_char_alphabet: "v < 64 \<Longrightarrow> b64_char v \<in> set b64_alphabet"
  by (simp add: b64_char_def b64_alphabet_length)

lemma b64_encode_chars: "set (b64_encode bs) \<subseteq> insert (CHR ''='') (set b64_alphabet)"
proof (induction bs rule: b64_encode.induct)
  case (2 x)
  note v = sextet_bounds [OF nat_of_char_less_256 [of x] nat_of_char_less_256 nat_of_char_less_256]
  show ?case using v(1,2) [THEN b64_char_alphabet] by (simp add: Let_def)
next
  case (3 x y)
  note v = sextet_bounds [OF nat_of_char_less_256 [of x] nat_of_char_less_256 [of y] nat_of_char_less_256]
  show ?case using v(1,3,4) [THEN b64_char_alphabet] by (simp add: Let_def)
next
  case (4 x y z bs)
  note v = sextet_bounds [OF nat_of_char_less_256 [of x] nat_of_char_less_256 [of y]
      nat_of_char_less_256 [of z]]
  show ?case using v(1,3,5,6) [THEN b64_char_alphabet] 4 by (simp add: Let_def)
qed simp

lemma b64_encode_no_space: "c \<in> set (b64_encode bs) \<Longrightarrow> \<not> is_space c"
proof -
  have "list_all (\<lambda>c. \<not> is_space c) (CHR ''='' # b64_alphabet)" by code_simp
  then show "c \<in> set (b64_encode bs) \<Longrightarrow> ?thesis"
    using b64_encode_chars [of bs] by (auto simp: list_all_iff)
qed

lemma b64_round_trip: "b64_decode (b64_encode bs) = Inr bs"
  using b64_encode_ascii [of _ bs] by (force simp: b64_decode_def b64_scan_encode)

lemma b64_encode_length: "length (b64_encode bs) mod 4 = 0"
  by (induction bs rule: b64_encode.induct) (simp_all add: Let_def)

lemma b64_encode_Nil [simp]: "b64_encode bs = [] \<longleftrightarrow> bs = []"
  by (cases bs rule: b64_encode.cases) (simp_all add: Let_def)

section \<open>The primitives\<close>

text \<open>
  The third-party primitives the module calls: AES-GCM, PBKDF2 (with the 100000 iterations and 32
  bytes the code asks for), HKDF-SHA256 with the module's info string, SHA-256.
\<close>

record crypto =
  cr_seal :: "bytes \<Rightarrow> bytes \<Rightarrow> bytes option \<Rightarrow> bytes \<Rightarrow> bytes"
  cr_open :: "bytes \<Rightarrow> bytes \<Rightarrow> bytes option \<Rightarrow> bytes \<Rightarrow> bytes option"
  cr_pbkdf2 :: "bytes \<Rightarrow> bytes \<Rightarrow> bytes"
  cr_hkdf :: "bytes \<Rightarrow> bytes \<Rightarrow> bytes"
  cr_sha256 :: "bytes \<Rightarrow> bytes"

text \<open>What is documented of them: decryption inverts encryption; a ciphertext opens only under the
key, the nonce and the associated data it was made with; it carries a tag of at
least 16 bytes.\<close>

definition aead_correct :: "crypto \<Rightarrow> bool" where
  "aead_correct cr \<longleftrightarrow> (\<forall>k n a p. cr_open cr k n a (cr_seal cr k n a p) = Some p)"

definition aead_binding :: "crypto \<Rightarrow> bool" where
  "aead_binding cr \<longleftrightarrow>
     (\<forall>k n a p k' n' a'. cr_open cr k' n' a' (cr_seal cr k n a p) \<noteq> None \<longrightarrow> k' = k \<and> n' = n \<and> a' = a)"

definition aead_tagged :: "crypto \<Rightarrow> bool" where
  "aead_tagged cr \<longleftrightarrow> (\<forall>k n a p. length p + 16 \<le> length (cr_seal cr k n a p))"

section \<open>Field encryption\<close>

definition new_field_encryptor :: "string option \<Rightarrow> bytes res" where
  "new_field_encryptor master_key =
     (case master_key of
        None \<Rightarrow> Inl (RuntimeError ''VELAFLOW_MASTER_KEY is required.'')
      | Some k \<Rightarrow> if k = [] then Inl (RuntimeError ''VELAFLOW_MASTER_KEY is required.'')
                  else b64_decode k)"

definition derive_tenant_key :: "crypto \<Rightarrow> bytes \<Rightarrow> string \<Rightarrow> bytes" where
  "derive_tenant_key cr master tenant_id = cr_pbkdf2 cr master (utf8_encode tenant_id)"

definition field_aad :: "string \<Rightarrow> bytes option" where
  "field_aad field_name = (if field_name \<noteq> [] then Some (utf8_encode field_name) else None)"

definition field_encrypt :: "crypto \<Rightarrow> bytes \<Rightarrow> bytes \<Rightarrow> string \<Rightarrow> string \<Rightarrow> string \<Rightarrow> string" where
  "field_encrypt cr master nonce plaintext tenant_id field_name =
     (let key = derive_tenant_key cr master tenant_id;
          ciphertext = cr_seal cr key nonce (field_aad field_name) (utf8_encode plaintext)
      in b64_encode (nonce @ ciphertext))"

definition field_decrypt :: "crypto \<Rightarrow> bytes \<Rightarrow> string \<Rightarrow> string \<Rightarrow> string \<Rightarrow> string res" where
  "field_decrypt cr master encrypted tenant_id field_name =
     (let key = derive_tenant_key cr master tenant_id in
      rbind (b64_decode encrypted) (\<lambda>packed.
        case cr_open cr key (take 12 packed) (field_aad field_name) (drop 12 packed) of
          None \<Rightarrow> Inl (OtherError ''InvalidTag'')
        | Some pt \<Rightarrow> utf8_decode pt))"

definition generate_master_key :: "bytes \<Rightarrow> string" where
  "generate_master_key random32 = b64_encode random32"

section \<open>Credential encryption\<close>

text \<open>\<open>s + "=" * (-len(s) % 4)\<close>.\<close>

definition pad_b64 :: "string \<Rightarrow> string" where
  "pad_b64 s = s @ replicate (nat ((- int (length s)) mod 4)) (CHR ''='')"

definition new_credential_encryptor :: "string option \<Rightarrow> bytes res" where
  "new_credential_encryptor pepper =
     (case pepper of
        None \<Rightarrow> Inl (RuntimeError ''VELAFLOW_CREDENTIAL_PEPPER is required'')
      | Some p \<Rightarrow>
          if p = [] then Inl (RuntimeError ''VELAFLOW_CREDENTIAL_PEPPER is required'')
          else case b64_decode (pad_b64 p) of
                 Inl e \<Rightarrow> Inl (RuntimeError ''VELAFLOW_CREDENTIAL_PEPPER is not valid base64url'')
               | Inr material \<Rightarrow>
                   if length material < 32
                   then Inl (RuntimeError ''VELAFLOW_CREDENTIAL_PEPPER decoded to too few bytes'')
                   else Inr material)"

definition cred_derive :: "crypto \<Rightarrow> bytes \<Rightarrow> string \<Rightarrow> string \<Rightarrow> bytes res" where
  "cred_derive cr pepper tenant_id owner_sub =
     (if tenant_id = [] \<or> owner_sub = []
      then Inl (CredentialNotDecryptable ''tenant_id and owner_google_sub must both be set'')
      else Inr (cr_hkdf cr pepper
                  (cr_sha256 cr (utf8_encode (tenant_id @ CHR 0x1F # owner_sub)))))"

definition cred_schema_v2 :: bytes where
  "cred_schema_v2 = [CHR 0x02]"

definition cred_encrypt ::
    "crypto \<Rightarrow> bytes \<Rightarrow> bytes \<Rightarrow> string \<Rightarrow> string \<Rightarrow> string \<Rightarrow> string \<Rightarrow> string res" where
  "cred_encrypt cr pepper nonce plaintext tenant_id owner_sub field_name =
     (if field_name = [] then Inl (ValueError ''field_name is mandatory'')
      else rbind (cred_derive cr pepper tenant_id owner_sub) (\<lambda>key.
        Inr (b64_encode (cred_schema_v2 @ nonce
               @ cr_seal cr key nonce (Some (utf8_encode field_name)) (utf8_encode plaintext)))))"

definition cred_decrypt ::
    "crypto \<Rightarrow> bytes \<Rightarrow> string \<Rightarrow> string \<Rightarrow> string \<Rightarrow> string \<Rightarrow> string res" where
  "cred_decrypt cr pepper encrypted tenant_id owner_sub field_name =
     (if encrypted = [] then Inr []
      else case b64_decode (pad_b64 encrypted) of
             Inl e \<Rightarrow> Inl (CredentialNotDecryptable ''ciphertext is not valid base64url'')
           | Inr packed \<Rightarrow>
               if length packed < 1 + 12 + 16 \<or> take 1 packed \<noteq> cred_schema_v2
               then Inl (CredentialNotDecryptable ''unrecognised credential schema version'')
               else rbind (cred_derive cr pepper tenant_id owner_sub) (\<lambda>key.
                      case cr_open cr key (take 12 (drop 1 packed)) (field_aad field_name)
                             (drop 13 packed) of
                        None \<Rightarrow> Inl (CredentialNotDecryptable ''authenticated decryption failed'')
                      | Some pt \<Rightarrow> utf8_decode pt))"

section \<open>Lemmas\<close>

lemma utf8_inj: "utf8_encode s = utf8_encode t \<longleftrightarrow> s = t"
  using utf8_round_trip by (metis sum.inject(2))

lemma field_aad_inj: "field_aad f = field_aad g \<longleftrightarrow> f = g"
  by (auto simp: field_aad_def utf8_inj)

lemma pad_b64_encode: "pad_b64 (b64_encode bs) = b64_encode bs"
proof -
  have "(- int (length (b64_encode bs))) mod 4 = 0"
    using b64_encode_length [of bs] by presburger
  then show ?thesis by (simp add: pad_b64_def)
qed

lemma field_decrypt_encrypt:
  assumes "length nonce = 12" and "aead_correct cr" and "aead_binding cr"
  shows "field_decrypt cr master (field_encrypt cr master nonce pt tid f) tid' f' = Inr q \<longleftrightarrow>
    derive_tenant_key cr master tid' = derive_tenant_key cr master tid \<and> f' = f \<and> q = pt"
proof -
  let ?k = "derive_tenant_key cr master tid" and ?k' = "derive_tenant_key cr master tid'"
  let ?c = "cr_seal cr ?k nonce (field_aad f) (utf8_encode pt)"
  have dec: "field_decrypt cr master (field_encrypt cr master nonce pt tid f) tid' f' =
      (case cr_open cr ?k' nonce (field_aad f') ?c of
         None \<Rightarrow> Inl (OtherError ''InvalidTag'') | Some p \<Rightarrow> utf8_decode p)"
    using assms(1) by (simp add: field_decrypt_def field_encrypt_def Let_def b64_round_trip)
  show ?thesis
  proof (cases "?k' = ?k \<and> f' = f")
    case True
    with assms(2) have "cr_open cr ?k' nonce (field_aad f') ?c = Some (utf8_encode pt)"
      by (simp add: aead_correct_def)
    with True show ?thesis unfolding dec by (auto simp: utf8_round_trip)
  next
    case False
    with assms(3) have "cr_open cr ?k' nonce (field_aad f') ?c = None"
      unfolding aead_binding_def by (metis field_aad_inj)
    with False show ?thesis unfolding dec by auto
  qed
qed

lemma cred_encrypt_Inr:
  "cred_encrypt cr pepper nonce pt tid sub f = Inr c \<longleftrightarrow>
     f \<noteq> [] \<and> tid \<noteq> [] \<and> sub \<noteq> []
     \<and> c = b64_encode (cred_schema_v2 @ nonce
          @ cr_seal cr (cr_hkdf cr pepper (cr_sha256 cr (utf8_encode (tid @ CHR 0x1F # sub)))) nonce
              (Some (utf8_encode f)) (utf8_encode pt))"
  by (auto simp: cred_encrypt_def cred_derive_def)

lemma cred_decrypt_encrypt:
  assumes "cred_encrypt cr pepper nonce pt tid sub f = Inr c"
    and "length nonce = 12" and "aead_correct cr" and "aead_binding cr" and "aead_tagged cr"
    and "\<And>s s'. cr_hkdf cr pepper (cr_sha256 cr s) = cr_hkdf cr pepper (cr_sha256 cr s') \<Longrightarrow> s = s'"
    and "CHR 0x1F \<notin> set tid" and "CHR 0x1F \<notin> set tid'"
  shows "cred_decrypt cr pepper c tid' sub' f' = Inr q \<longleftrightarrow>
    tid' = tid \<and> sub' = sub \<and> f' = f \<and> q = pt"
proof -
  define key where "key = (\<lambda>t s. cr_hkdf cr pepper (cr_sha256 cr (utf8_encode (t @ CHR 0x1F # s))))"
  let ?ct = "cr_seal cr (key tid sub) nonce (Some (utf8_encode f)) (utf8_encode pt)"
  from assms(1) have ne: "f \<noteq> []" "tid \<noteq> []" "sub \<noteq> []"
    and c: "c = b64_encode (cred_schema_v2 @ nonce @ ?ct)"
    by (auto simp: cred_encrypt_Inr key_def)
  have "length (utf8_encode pt) + 16 \<le> length ?ct"
    using assms(5) unfolding aead_tagged_def by blast
  then have len: "16 \<le> length ?ct" by simp
  have key_inj: "key tid' sub' = key tid sub \<longleftrightarrow> tid' = tid \<and> sub' = sub"
    using assms(6) sep_inj [OF assms(8,7)] unfolding key_def by (metis utf8_inj)
  have "cred_decrypt cr pepper c tid' sub' f' =
      (if tid' = [] \<or> sub' = [] then Inl (CredentialNotDecryptable ''tenant_id and owner_google_sub must both be set'')
       else case cr_open cr (key tid' sub') nonce (field_aad f') ?ct of
              None \<Rightarrow> Inl (CredentialNotDecryptable ''authenticated decryption failed'')
            | Some p \<Rightarrow> utf8_decode p)"
    using assms(2) len
    by (simp add: cred_decrypt_def c pad_b64_encode b64_round_trip cred_derive_def key_def
        cred_schema_v2_def)
  also have "\<dots> = Inr q \<longleftrightarrow> tid' = tid \<and> sub' = sub \<and> f' = f \<and> q = pt"
  proof (cases "tid' = tid \<and> sub' = sub \<and> f' = f")
    case True
    with assms(3) ne have "cr_open cr (key tid' sub') nonce (field_aad f') ?ct = Some (utf8_encode pt)"
      by (simp add: aead_correct_def field_aad_def)
    with True ne show ?thesis by (auto simp: utf8_round_trip)
  next
    case False
    have "cr_open cr (key tid' sub') nonce (field_aad f') ?ct = None"
    proof (rule ccontr)
      assume "cr_open cr (key tid' sub') nonce (field_aad f') ?ct \<noteq> None"
      with assms(4) have "key tid' sub' = key tid sub" "field_aad f' = Some (utf8_encode f)"
        unfolding aead_binding_def by blast+
      moreover have "Some (utf8_encode f) = field_aad f" using ne by (simp add: field_aad_def)
      ultimately show False using False key_inj field_aad_inj by metis
    qed
    with False show ?thesis by auto
  qed
  finally show ?thesis .
qed

section \<open>A concrete scheme that meets the documented behaviour\<close>

text \<open>Keys, nonces and data are framed so that no frame is a prefix of another: an instance of the
hypotheses, used to evaluate the properties on concrete inputs.\<close>

definition frame :: "bytes \<Rightarrow> bytes" where
  "frame s = concat (map (\<lambda>c. [CHR 0x00, c]) s) @ [CHR 0x01]"

definition frame_tag :: "bytes \<Rightarrow> bytes \<Rightarrow> bytes option \<Rightarrow> bytes" where
  "frame_tag k n a = replicate 16 CHR 0x00 @ frame k @ frame n
     @ (case a of None \<Rightarrow> [CHR 0x00] | Some x \<Rightarrow> CHR 0x01 # frame x)"

definition framing_crypto :: crypto where
  "framing_crypto =
     \<lparr>cr_seal = (\<lambda>k n a p. frame_tag k n a @ p),
      cr_open = (\<lambda>k n a c. if prefix (frame_tag k n a) c then Some (drop (length (frame_tag k n a)) c)
                           else None),
      cr_pbkdf2 = (\<lambda>m s. frame m @ frame s), cr_hkdf = (\<lambda>m s. frame m @ frame s),
      cr_sha256 = (\<lambda>s. s)\<rparr>"

lemma frame_append_inj: "frame s @ x = frame t @ y \<longleftrightarrow> s = t \<and> x = y"
proof (induction s arbitrary: t)
  case Nil
  then show ?case by (cases t) (auto simp: frame_def)
next
  case (Cons c s)
  show ?case
  proof (cases t)
    case Nil
    then show ?thesis by (simp add: frame_def)
  next
    case (Cons d t')
    with Cons.IH [of t'] show ?thesis by (auto simp: frame_def)
  qed
qed

lemma frame_inj: "frame s = frame t \<longleftrightarrow> s = t"
  using frame_append_inj [of s "[]" t "[]"] by simp

lemma frame_tag_inj: "frame_tag k n a @ x = frame_tag k' n' a' @ y \<Longrightarrow> k = k' \<and> n = n' \<and> a = a'"
  by (cases a; cases a') (simp_all add: frame_tag_def frame_append_inj)

lemma framing_crypto_ok:
  shows "aead_correct framing_crypto" and "aead_binding framing_crypto" and "aead_tagged framing_crypto"
proof -
  show "aead_correct framing_crypto" by (simp add: aead_correct_def framing_crypto_def)
  show "aead_tagged framing_crypto" by (simp add: aead_tagged_def framing_crypto_def frame_tag_def)
  show "aead_binding framing_crypto"
    unfolding aead_binding_def
  proof (intro allI impI)
    fix k n a p k' n' a'
    assume "cr_open framing_crypto k' n' a' (cr_seal framing_crypto k n a p) \<noteq> None"
    then obtain z where "frame_tag k n a @ p = frame_tag k' n' a' @ z"
      by (auto simp: framing_crypto_def prefix_def split: if_splits)
    then show "k' = k \<and> n' = n \<and> a' = a" by (auto dest: frame_tag_inj)
  qed
qed

section \<open>Properties\<close>

text \<open>C4. A credential is bound to its tenant, its owner and its field: what was encrypted decrypts, under
the same pepper, for exactly the tenant id, owner sub and field name it was encrypted with, and then
to exactly the plaintext, given authenticated encryption, an injective key derivation and tenant ids
without the separator character.\<close>

theorem credential_bound_to_owner:
  assumes "cred_encrypt cr pepper nonce pt tid sub f = Inr c"
    and "length nonce = 12" and "aead_correct cr" and "aead_binding cr" and "aead_tagged cr"
    and "\<And>s s'. cr_hkdf cr pepper (cr_sha256 cr s) = cr_hkdf cr pepper (cr_sha256 cr s') \<Longrightarrow> s = s'"
    and "CHR 0x1F \<notin> set tid" and "CHR 0x1F \<notin> set tid'"
  shows "cred_decrypt cr pepper c tid' sub' f' = Inr q \<longleftrightarrow>
    tid' = tid \<and> sub' = sub \<and> f' = f \<and> q = pt"
  using cred_decrypt_encrypt [OF assms] .

theorem credential_bound_to_owner_witness:
  "\<exists>c. cred_encrypt framing_crypto ''pepper'' ''nonce1234567'' ''s3cret'' ''tn_1'' ''sub1'' ''todoist'' = Inr c
     \<and> cred_decrypt framing_crypto ''pepper'' c ''tn_1'' ''sub1'' ''todoist'' = Inr ''s3cret''
     \<and> cred_decrypt framing_crypto ''pepper'' c ''tn_2'' ''sub1'' ''todoist'' \<noteq> Inr ''s3cret''
     \<and> cred_decrypt framing_crypto ''pepper'' c ''tn_1'' ''sub1'' ''gemini'' \<noteq> Inr ''s3cret''"
proof -
  obtain c where c: "cred_encrypt framing_crypto ''pepper'' ''nonce1234567'' ''s3cret'' ''tn_1'' ''sub1''
      ''todoist'' = Inr c"
    by (simp add: cred_encrypt_Inr)
  have kdf: "cr_hkdf framing_crypto ''pepper'' (cr_sha256 framing_crypto s) =
      cr_hkdf framing_crypto ''pepper'' (cr_sha256 framing_crypto s') \<Longrightarrow> s = s'" for s s'
    by (simp add: framing_crypto_def frame_append_inj frame_inj)
  have "cred_decrypt framing_crypto ''pepper'' c tid' ''sub1'' f' = Inr ''s3cret'' \<longleftrightarrow>
      tid' = ''tn_1'' \<and> f' = ''todoist''" if "CHR 0x1F \<notin> set tid'" for tid' f'
    using credential_bound_to_owner [OF c _ framing_crypto_ok kdf _ that] by simp
  with c show ?thesis by simp
qed

text \<open>Base64 and field encryption round trip: decoding inverts encoding, and a field encrypted for a
tenant decrypts exactly with that tenant's derived key and the same field name, to its plaintext.\<close>

theorem field_encryption_round_trip:
  assumes "length nonce = 12" and "aead_correct cr" and "aead_binding cr"
  shows "b64_decode (b64_encode bs) = Inr bs
    \<and> (field_decrypt cr master (field_encrypt cr master nonce pt tid f) tid' f' = Inr q \<longleftrightarrow>
         derive_tenant_key cr master tid' = derive_tenant_key cr master tid \<and> f' = f \<and> q = pt)"
  using field_decrypt_encrypt [OF assms] b64_round_trip by blast

theorem field_encryption_round_trip_witness:
  "field_decrypt framing_crypto ''m''
     (field_encrypt framing_crypto ''m'' ''nonce1234567'' ''hello'' ''tn_1'' ''audit_log'') ''tn_1'' ''audit_log''
     = Inr ''hello''
   \<and> field_decrypt framing_crypto ''m''
     (field_encrypt framing_crypto ''m'' ''nonce1234567'' ''hello'' ''tn_1'' ''audit_log'') ''tn_1'' ''x''
     \<noteq> Inr ''hello''"
  using field_encryption_round_trip [of "''nonce1234567''" framing_crypto] framing_crypto_ok by simp

end
