(* ===== verification/SafePath.thy ===== *)
theory SafePath
  imports PyText
begin

text \<open>
  POSIX paths as \<open>pathlib\<close> and \<open>os.path\<close> treat them, and
  \<open>src/brain/security/safe_path.py\<close>, the sanitizer for untrusted paths. The Windows branches
  are left out; \<open>cwd\<close> is the absolute working directory, \<open>ex\<close> says which paths exist.
\<close>

section \<open>POSIX paths\<close>

datatype path_root = NoRoot | Slash | DoubleSlash

record ppath =
  pp_root :: path_root
  pp_parts :: "string list"

fun root_text :: "path_root \<Rightarrow> string" where
  "root_text NoRoot = []"
| "root_text Slash = ''/''"
| "root_text DoubleSlash = ''//''"

definition leading_slashes :: "string \<Rightarrow> nat" where
  "leading_slashes s = length (takeWhile (\<lambda>c. c = CHR ''/'') s)"

text \<open>\<open>Path(s)\<close>: empty components and single dots disappear; exactly two leading slashes stay.\<close>

definition py_path :: "string \<Rightarrow> ppath" where
  "py_path s =
     \<lparr>pp_root = (let n = leading_slashes s in
                 if n = 0 then NoRoot else if n = 2 then DoubleSlash else Slash),
      pp_parts = filter (\<lambda>w. w \<noteq> [] \<and> w \<noteq> ''.'') (py_split (CHR ''/'') s)\<rparr>"

definition path_text :: "ppath \<Rightarrow> string" where
  "path_text p =
     (if pp_root p = NoRoot \<and> pp_parts p = [] then ''.''
      else root_text (pp_root p) @ py_join ''/'' (pp_parts p))"

text \<open>\<open>a / b\<close>: an absolute right operand replaces the left one.\<close>

definition path_join :: "ppath \<Rightarrow> ppath \<Rightarrow> ppath" where
  "path_join a b = (if pp_root b \<noteq> NoRoot then b else a\<lparr>pp_parts := pp_parts a @ pp_parts b\<rparr>)"

text \<open>\<open>os.path.normpath\<close> on an absolute path: a double dot removes the component before it.\<close>

definition norm_parts :: "string list \<Rightarrow> string list" where
  "norm_parts ws = foldl (\<lambda>acc w. if w = ''..'' then butlast acc else acc @ [w]) [] ws"

definition normalize_path :: "ppath \<Rightarrow> ppath \<Rightarrow> ppath" where
  "normalize_path cwd p =
     (let q = path_join cwd p in q\<lparr>pp_parts := norm_parts (pp_parts q)\<rparr>)"

section \<open>The sanitizer\<close>

definition assert_within :: "ppath \<Rightarrow> ppath \<Rightarrow> bool" where
  "assert_within candidate base \<longleftrightarrow>
     pp_root candidate = pp_root base \<and> prefix (pp_parts base) (pp_parts candidate)"

text \<open>The result is the path with the directory that was created (\<open>create_parents\<close>), if any.\<close>

definition safe_resolve ::
    "ppath \<Rightarrow> (ppath \<Rightarrow> bool) \<Rightarrow> string option \<Rightarrow> ppath list \<Rightarrow> bool \<Rightarrow> bool \<Rightarrow>
     (ppath \<times> ppath option) res" where
  "safe_resolve cwd ex untrusted allowed_bases must_exist create_parents =
     (case untrusted of
        None \<Rightarrow> Inl (ValueError ''refusing empty path from untrusted source'')
      | Some s \<Rightarrow>
          if py_strip s = [] then Inl (ValueError ''refusing empty path from untrusted source'')
          else
            (let candidate = normalize_path cwd (py_path s);
                 bases = map (normalize_path cwd) allowed_bases
             in if bases = [] then Inl (ValueError ''no allowed bases configured'')
                else if \<not> (\<exists>b \<in> set bases. assert_within candidate b)
                then Inl (ValueError ''path escapes every allowed base directory'')
                else if must_exist \<and> \<not> ex candidate
                then Inl (ValueError ''resolved path does not exist'')
                else Inr (candidate,
                          if create_parents
                          then Some (candidate\<lparr>pp_parts := butlast (pp_parts candidate)\<rparr>)
                          else None)))"

definition default_bases :: "ppath \<Rightarrow> string option \<Rightarrow> string \<Rightarrow> string \<Rightarrow> ppath list" where
  "default_bases cwd data_dir home tmp =
     map (normalize_path cwd)
       [py_path (case data_dir of Some d \<Rightarrow> d | None \<Rightarrow> ''./data''), py_path home, cwd,
        py_path ''/var/log/brain'', py_path tmp]"

section \<open>Lemmas\<close>

lemma norm_parts_no_dotdot: "''..'' \<notin> set (norm_parts ws)"
proof -
  have "''..'' \<notin> set acc \<Longrightarrow>
      ''..'' \<notin> set (foldl (\<lambda>acc w. if w = ''..'' then butlast acc else acc @ [w]) acc ws)" for acc
    by (induction ws arbitrary: acc) (auto dest: in_set_butlastD)
  from this [of "[]"] show ?thesis by (simp add: norm_parts_def)
qed

lemma norm_parts_id: "''..'' \<notin> set ws \<Longrightarrow> norm_parts ws = ws"
proof -
  have "''..'' \<notin> set ws \<Longrightarrow>
      foldl (\<lambda>acc w. if w = ''..'' then butlast acc else acc @ [w]) acc ws = acc @ ws" for acc
    by (induction ws arbitrary: acc) auto
  from this [of "[]"] show "''..'' \<notin> set ws \<Longrightarrow> ?thesis" by (simp add: norm_parts_def)
qed

section \<open>Properties\<close>

text \<open>What the sanitizer returns is absolute, free of double dots, and inside one of the allowed
directories; and every existing path inside an allowed directory is accepted.\<close>

theorem safe_resolve_contained:
  assumes "pp_root cwd \<noteq> NoRoot"
  shows "(safe_resolve cwd ex (Some s) bases must cp = Inr (p, d) \<longrightarrow>
      pp_root p \<noteq> NoRoot \<and> ''..'' \<notin> set (pp_parts p)
      \<and> (\<exists>b \<in> set bases. assert_within p (normalize_path cwd b)))
    \<and> (py_strip s \<noteq> [] \<and> b \<in> set bases \<and> ex (normalize_path cwd (py_path s))
        \<and> assert_within (normalize_path cwd (py_path s)) (normalize_path cwd b) \<longrightarrow>
       (\<exists>d. safe_resolve cwd ex (Some s) bases must cp = Inr (normalize_path cwd (py_path s), d)))"
proof -
  have abs: "pp_root (normalize_path cwd q) \<noteq> NoRoot" "''..'' \<notin> set (pp_parts (normalize_path cwd q))" for q
    using assms by (simp_all add: normalize_path_def path_join_def Let_def norm_parts_no_dotdot)
  show ?thesis
  proof (intro conjI impI)
    assume r: "safe_resolve cwd ex (Some s) bases must cp = Inr (p, d)"
    then have "p = normalize_path cwd (py_path s)"
      by (auto simp: safe_resolve_def Let_def split: if_splits)
    with abs show "pp_root p \<noteq> NoRoot" "''..'' \<notin> set (pp_parts p)" by simp_all
    from r show "\<exists>b \<in> set bases. assert_within p (normalize_path cwd b)"
      by (auto simp: safe_resolve_def Let_def split: if_splits)
  next
    assume "py_strip s \<noteq> [] \<and> b \<in> set bases \<and> ex (normalize_path cwd (py_path s))
        \<and> assert_within (normalize_path cwd (py_path s)) (normalize_path cwd b)"
    then show "\<exists>d. safe_resolve cwd ex (Some s) bases must cp = Inr (normalize_path cwd (py_path s), d)"
      by (auto simp: safe_resolve_def Let_def)
  qed
qed

theorem safe_resolve_contained_witness:
  "\<exists>b \<in> {py_path ''/srv/app''}.
     assert_within (py_path ''/srv/app/data'') (normalize_path (py_path ''/srv/app'') b)"
proof -
  have "pp_root (py_path ''/srv/app'') \<noteq> NoRoot" by (simp add: py_path_def leading_slashes_def)
  note safe = safe_resolve_contained [OF this, THEN conjunct1, THEN mp]
  have "safe_resolve (py_path ''/srv/app'') (\<lambda>_. False) (Some ''logs/../data'') [py_path ''/srv/app'']
      False False = Inr (py_path ''/srv/app/data'', None)"
    by (simp add: safe_resolve_def py_path_def leading_slashes_def normalize_path_def path_join_def
        norm_parts_def assert_within_def py_strip_def is_space_def)
  from safe [OF this] show ?thesis by simp
qed

end
