(* ===== verification/Storage.thy ===== *)
theory Storage
  imports SafePath Encryption
begin

text \<open>
  The storage layer: the interface of \<open>src/brain/storage/base.py\<close> as a record of operations,
  the local file system backend of \<open>local.py\<close> and the encrypting wrapper of
  \<open>encrypted.py\<close>. The contract of the interface is the locale \<open>storage_backend\<close>.
\<close>

section \<open>The interface\<close>

record 's backend =
  be_write_json :: "string \<Rightarrow> json \<Rightarrow> 's \<Rightarrow> unit res \<times> 's"
  be_read_json :: "string \<Rightarrow> 's \<Rightarrow> json option res"
  be_list_keys :: "string \<Rightarrow> 's \<Rightarrow> string list res"
  be_delete :: "string \<Rightarrow> 's \<Rightarrow> bool res \<times> 's"
  be_exists :: "string \<Rightarrow> 's \<Rightarrow> bool res"
  be_write_text :: "string \<Rightarrow> string \<Rightarrow> 's \<Rightarrow> unit res \<times> 's"
  be_read_text :: "string \<Rightarrow> 's \<Rightarrow> string option res"

text \<open>
  What clients rely on: a document written under a key is the one read back, the other keys keep
  theirs, a failing write changes nothing that is read, a deleted key reads as missing. \<open>good\<close> is the backend's invariant, \<open>key_ok\<close> the keys
  and \<open>doc_ok\<close> the documents it promises this for.
\<close>

locale storage_backend =
  fixes be :: "'s backend" and good :: "'s \<Rightarrow> bool" and key_ok :: "string \<Rightarrow> bool"
    and doc_ok :: "json \<Rightarrow> bool"
  assumes write_good:
      "good s \<Longrightarrow> key_ok k \<Longrightarrow> doc_ok v \<Longrightarrow> be_write_json be k v s = (Inr (), s') \<Longrightarrow> good s'"
    and write_read:
      "good s \<Longrightarrow> key_ok k \<Longrightarrow> doc_ok v \<Longrightarrow> be_write_json be k v s = (Inr (), s') \<Longrightarrow>
       be_read_json be k s' = Inr (Some v)"
    and write_frame:
      "good s \<Longrightarrow> key_ok k \<Longrightarrow> doc_ok v \<Longrightarrow> be_write_json be k v s = (r, s') \<Longrightarrow> key_ok k' \<Longrightarrow>
       k' \<noteq> k \<Longrightarrow> be_read_json be k' s' = be_read_json be k' s"
    and write_error:
      "good s \<Longrightarrow> key_ok k \<Longrightarrow> doc_ok v \<Longrightarrow> be_write_json be k v s = (Inl e, s') \<Longrightarrow>
       good s' \<and> be_read_json be k s' = be_read_json be k s"
    and delete_good: "good s \<Longrightarrow> key_ok k \<Longrightarrow> be_delete be k s = (Inr b, s') \<Longrightarrow> good s'"
    and delete_read:
      "good s \<Longrightarrow> key_ok k \<Longrightarrow> be_delete be k s = (Inr b, s') \<Longrightarrow> be_read_json be k s' = Inr None"
    and delete_frame:
      "good s \<Longrightarrow> key_ok k \<Longrightarrow> be_delete be k s = (d, s') \<Longrightarrow> key_ok k' \<Longrightarrow> k' \<noteq> k \<Longrightarrow>
       be_read_json be k' s' = be_read_json be k' s"
begin

text \<open>Writing a list of documents: the last one of each key is read back.\<close>

fun write_all :: "(string \<times> json) list \<Rightarrow> 's \<Rightarrow> unit res \<times> 's" where
  "write_all [] s = (Inr (), s)"
| "write_all ((k, v) # kvs) s =
     (case be_write_json be k v s of
        (Inl e, s') \<Rightarrow> (Inl e, s')
      | (Inr _, s') \<Rightarrow> write_all kvs s')"

lemma write_all_read:
  assumes "good s" and "\<forall>(k, v) \<in> set kvs. key_ok k \<and> doc_ok v"
    and "write_all kvs s = (Inr (), s')" and "key_ok k"
  shows "be_read_json be k s' =
    (case map_of (rev kvs) k of Some v \<Rightarrow> Inr (Some v) | None \<Rightarrow> be_read_json be k s)"
  using assms(1-3)
proof (induction kvs arbitrary: s)
  case Nil
  then show ?case by simp
next
  case (Cons kv kvs)
  obtain k0 v0 where kv: "kv = (k0, v0)" by (cases kv)
  obtain r s1 where w: "be_write_json be k0 v0 s = (r, s1)" by (cases "be_write_json be k0 v0 s")
  with Cons.prems(3) kv have r: "r = Inr ()" and rest: "write_all kvs s1 = (Inr (), s')"
    by (auto split: sum.splits)
  have ok: "key_ok k0" "doc_ok v0" using Cons.prems(2) kv by auto
  note w' = w [unfolded r]
  have g: "good s1" by (rule write_good [OF Cons.prems(1) ok w'])
  have IH: "be_read_json be k s' =
      (case map_of (rev kvs) k of Some v \<Rightarrow> Inr (Some v) | None \<Rightarrow> be_read_json be k s1)"
    using Cons.IH [OF g _ rest] Cons.prems(2) by auto
  show ?case
  proof (cases "k = k0")
    case True
    with write_read [OF Cons.prems(1) ok w'] IH show ?thesis
      by (auto simp: kv map_of_append map_add_def split: option.splits)
  next
    case False
    with write_frame [OF Cons.prems(1) ok w' assms(4)] IH show ?thesis
      by (auto simp: kv map_of_append map_add_def split: option.splits)
  qed
qed

end

section \<open>The local backend\<close>

text \<open>
  The file system is the list of its files; \<open>base\<close> is the resolved base directory. There are no
  symbolic links, so resolving a path without double dots changes nothing. A JSON file is kept as
  its value; \<open>parse\<close> and \<open>render\<close> stand for \<open>json.load\<close> of a text file and the text of a JSON
  file. A directory is a proper prefix of the path of a file, of the base, or the base itself.
\<close>

datatype file_content = JsonFile json | TextFile string

type_synonym files = "(ppath \<times> file_content) list"

definition resolve_key :: "ppath \<Rightarrow> string \<Rightarrow> ppath res" where
  "resolve_key base key =
     (let clean = py_path (map (\<lambda>c. if c = CHR 0x5C then CHR ''/'' else c) key) in
      if ''..'' \<in> set (pp_parts clean) then Inl (ValueError ''Path traversal detected'')
      else let resolved = path_join base clean in
           if \<not> prefix (path_text base) (path_text resolved)
           then Inl (ValueError ''Path escapes base directory'')
           else Inr resolved)"

definition strictly_under :: "ppath \<Rightarrow> ppath \<Rightarrow> bool" where
  "strictly_under d p \<longleftrightarrow> pp_root p = pp_root d \<and> strict_prefix (pp_parts d) (pp_parts p)"

definition is_dir :: "ppath \<Rightarrow> files \<Rightarrow> ppath \<Rightarrow> bool" where
  "is_dir base fs d \<longleftrightarrow> d = base \<or> strictly_under d base \<or> (\<exists>p \<in> fst ` set fs. strictly_under d p)"

definition is_file :: "files \<Rightarrow> ppath \<Rightarrow> bool" where
  "is_file fs p \<longleftrightarrow> has_key fs p"

text \<open>\<open>path.with_suffix(".tmp")\<close>.\<close>

definition name_stem :: "string \<Rightarrow> string" where
  "name_stem name =
     (let v = takeWhile (\<lambda>c. c \<noteq> CHR ''.'') (rev name);
          r = dropWhile (\<lambda>c. c \<noteq> CHR ''.'') (rev name)
      in if r = [] \<or> tl r = [] \<or> v = [] then name else rev (tl r))"

definition tmp_path :: "ppath \<Rightarrow> ppath" where
  "tmp_path p = p\<lparr>pp_parts := butlast (pp_parts p) @ [name_stem (last (pp_parts p)) @ ''.tmp'']\<rparr>"

text \<open>Creating the parents and replacing the file fails when a directory is in the place of a file
or a file in the place of a directory.\<close>

definition can_write :: "ppath \<Rightarrow> files \<Rightarrow> ppath \<Rightarrow> bool" where
  "can_write base fs p \<longleftrightarrow>
     \<not> is_dir base fs p \<and> \<not> is_dir base fs (tmp_path p) \<and> (\<forall>q \<in> fst ` set fs. \<not> strictly_under q p)"

definition put_file :: "ppath \<Rightarrow> file_content \<Rightarrow> files \<Rightarrow> files" where
  "put_file p c fs = AList.update p c (AList.delete (tmp_path p) fs)"

definition local_write :: "ppath \<Rightarrow> string \<Rightarrow> file_content \<Rightarrow> files \<Rightarrow> unit res \<times> files" where
  "local_write base key c fs =
     (case resolve_key base key of
        Inl e \<Rightarrow> (Inl e, fs)
      | Inr p \<Rightarrow> if can_write base fs p then (Inr (), put_file p c fs)
                 else (Inl (OSError ''not a file''), fs))"

definition local_write_json :: "ppath \<Rightarrow> string \<Rightarrow> json \<Rightarrow> files \<Rightarrow> unit res \<times> files" where
  "local_write_json base key data fs = local_write base key (JsonFile data) fs"

definition local_write_text :: "ppath \<Rightarrow> string \<Rightarrow> string \<Rightarrow> files \<Rightarrow> unit res \<times> files" where
  "local_write_text base key text fs = local_write base key (TextFile text) fs"

definition local_read_json :: "(string \<Rightarrow> json option) \<Rightarrow> ppath \<Rightarrow> string \<Rightarrow> files \<Rightarrow> json option res" where
  "local_read_json parse base key fs =
     rbind (resolve_key base key) (\<lambda>p.
       case map_of fs p of
         None \<Rightarrow> Inr None
       | Some (JsonFile v) \<Rightarrow> Inr (Some v)
       | Some (TextFile s) \<Rightarrow> (case parse s of None \<Rightarrow> Inl (ValueError ''JSONDecodeError'')
                                            | Some v \<Rightarrow> Inr (Some v)))"

definition local_read_text :: "(json \<Rightarrow> string) \<Rightarrow> ppath \<Rightarrow> string \<Rightarrow> files \<Rightarrow> string option res" where
  "local_read_text render base key fs =
     rbind (resolve_key base key) (\<lambda>p.
       case map_of fs p of
         None \<Rightarrow> Inr None
       | Some (JsonFile v) \<Rightarrow> Inr (Some (render v))
       | Some (TextFile s) \<Rightarrow> Inr (Some s))"

definition local_exists :: "ppath \<Rightarrow> string \<Rightarrow> files \<Rightarrow> bool res" where
  "local_exists base key fs = rbind (resolve_key base key) (\<lambda>p. Inr (is_file fs p))"

definition local_delete :: "ppath \<Rightarrow> string \<Rightarrow> files \<Rightarrow> bool res \<times> files" where
  "local_delete base key fs =
     (case resolve_key base key of
        Inl e \<Rightarrow> (Inl e, fs)
      | Inr p \<Rightarrow> if is_file fs p then (Inr True, AList.delete p fs) else (Inr False, fs))"

text \<open>The JSON files below a directory, in path order; \<open>relative_to\<close> raises outside the base.\<close>

definition json_files_under :: "files \<Rightarrow> ppath \<Rightarrow> string list list" where
  "json_files_under fs d =
     sort (map pp_parts (filter (\<lambda>p. strictly_under d p \<and> suffix ''.json'' (last (pp_parts p)))
                           (map fst fs)))"

definition relative_key :: "ppath \<Rightarrow> path_root \<Rightarrow> string list \<Rightarrow> string res" where
  "relative_key base rt parts =
     (if rt = pp_root base \<and> prefix (pp_parts base) parts
      then Inr (py_join ''/'' (drop (length (pp_parts base)) parts))
      else Inl (ValueError ''not in the subpath''))"

definition rstrip_slash :: "string \<Rightarrow> string" where
  "rstrip_slash s = rev (dropWhile (\<lambda>c. c = CHR ''/'') (rev s))"

definition local_list_keys :: "ppath \<Rightarrow> string \<Rightarrow> files \<Rightarrow> string list res" where
  "local_list_keys base pre fs =
     rbind (resolve_key base pre) (\<lambda>d.
       if is_dir base fs d
       then rmap (relative_key base (pp_root d)) (json_files_under fs d)
       else if is_file fs d
       then rbind (rmap (relative_key base (pp_root d))
                     (json_files_under fs (d\<lparr>pp_parts := butlast (pp_parts d)\<rparr>)))
              (\<lambda>rels. Inr (filter (prefix (rstrip_slash pre)) rels))
       else Inr [])"

definition local_backend ::
    "(string \<Rightarrow> json option) \<Rightarrow> (json \<Rightarrow> string) \<Rightarrow> ppath \<Rightarrow> files backend" where
  "local_backend parse render base =
     \<lparr>be_write_json = local_write_json base, be_read_json = local_read_json parse base,
      be_list_keys = local_list_keys base, be_delete = local_delete base,
      be_exists = local_exists base, be_write_text = local_write_text base,
      be_read_text = local_read_text render base\<rparr>"

section \<open>The encrypting wrapper\<close>

definition encrypted_layers :: "string list" where
  "encrypted_layers = [''bronze'', ''silver'', ''gold'', ''runs'', ''vault'', ''users'', ''invites'']"

text \<open>The pattern: a layer, a tenant and something more; or \<open>tenants/<id>.json\<close>, where the id has
neither a slash nor a dot (the dollar sign also matches before a final newline).\<close>

definition extract_tenant_id :: "string \<Rightarrow> string option" where
  "extract_tenant_id key =
     (case py_split (CHR ''/'') key of
        [l, t] \<Rightarrow>
          (let t = (if suffix [CHR 0x0A] t then butlast t else t);
               i = take (length t - 5) t
           in if l = ''tenants'' \<and> suffix ''.json'' t \<and> i \<noteq> [] \<and> CHR ''.'' \<notin> set i then Some i else None)
      | l # t # r # rest \<Rightarrow> if l \<in> set encrypted_layers \<and> t \<noteq> [] then Some t else None
      | _ \<Rightarrow> None)"

text \<open>The state adds the number of random nonces drawn; \<open>rnd n\<close> is the n-th one.\<close>

definition encrypted_write_json ::
    "crypto \<Rightarrow> bytes \<Rightarrow> (nat \<Rightarrow> bytes) \<Rightarrow> (json \<Rightarrow> string) \<Rightarrow> 's backend \<Rightarrow>
     string \<Rightarrow> json \<Rightarrow> nat \<times> 's \<Rightarrow> unit res \<times> nat \<times> 's" where
  "encrypted_write_json cr master rnd dumps inner key data = (\<lambda>(n, s).
     case extract_tenant_id key of
       Some tid \<Rightarrow>
         if \<not> suffix ''.partition'' key
         then let ciphertext = field_encrypt cr master (rnd n) (dumps data) tid (''storage:'' @ key);
                  envelope = JObj [(''_encrypted'', JBool True), (''_version'', JInt 1),
                                   (''_tenant_id'', JStr tid), (''_ciphertext'', JStr ciphertext)];
                  (r, s') = be_write_json inner key envelope s
              in (r, Suc n, s')
         else let (r, s') = be_write_json inner key data s in (r, n, s')
     | None \<Rightarrow> let (r, s') = be_write_json inner key data s in (r, n, s'))"

text \<open>Every failure while decrypting is logged and gives None.\<close>

definition decrypt_envelope ::
    "crypto \<Rightarrow> bytes \<Rightarrow> (string \<Rightarrow> json option) \<Rightarrow> string \<Rightarrow> jdict \<Rightarrow> json option" where
  "decrypt_envelope cr master loads key raw =
     (let tid = dget raw ''_tenant_id'' JNull;
          tid = (if jtruthy tid then Some tid else map_option JStr (extract_tenant_id key))
      in case tid of
           Some (JStr t) \<Rightarrow>
             (case map_of raw ''_ciphertext'' of
                Some (JStr c) \<Rightarrow>
                  (case field_decrypt cr master c t (''storage:'' @ key) of
                     Inr plaintext \<Rightarrow> loads plaintext
                   | Inl e \<Rightarrow> None)
              | _ \<Rightarrow> None)
         | _ \<Rightarrow> None)"

definition encrypted_read_json ::
    "crypto \<Rightarrow> bytes \<Rightarrow> (string \<Rightarrow> json option) \<Rightarrow> 's backend \<Rightarrow> string \<Rightarrow> nat \<times> 's \<Rightarrow>
     json option res" where
  "encrypted_read_json cr master loads inner key ns =
     rbind (be_read_json inner key (snd ns)) (\<lambda>raw.
       case raw of
         None \<Rightarrow> Inr None
       | Some (JObj d) \<Rightarrow>
           if jtruthy (dget d ''_encrypted'' JNull) then Inr (decrypt_envelope cr master loads key d)
           else Inr (Some (JObj d))
       | Some _ \<Rightarrow> Inl (OtherError ''AttributeError''))"

definition encrypted_backend ::
    "crypto \<Rightarrow> bytes \<Rightarrow> (nat \<Rightarrow> bytes) \<Rightarrow> (json \<Rightarrow> string) \<Rightarrow> (string \<Rightarrow> json option) \<Rightarrow>
     's backend \<Rightarrow> (nat \<times> 's) backend" where
  "encrypted_backend cr master rnd dumps loads inner =
     \<lparr>be_write_json = encrypted_write_json cr master rnd dumps inner,
      be_read_json = encrypted_read_json cr master loads inner,
      be_list_keys = (\<lambda>pre (n, s). be_list_keys inner pre s),
      be_delete = (\<lambda>key (n, s). let (r, s') = be_delete inner key s in (r, n, s')),
      be_exists = (\<lambda>key (n, s). be_exists inner key s),
      be_write_text = (\<lambda>key text (n, s). let (r, s') = be_write_text inner key text s in (r, n, s')),
      be_read_text = (\<lambda>key (n, s). be_read_text inner key s)\<rparr>"

section \<open>The local backend keeps the contract\<close>

definition canonical_key :: "string \<Rightarrow> bool" where
  "canonical_key k \<longleftrightarrow>
     CHR 0x5C \<notin> set k \<and> (\<forall>w \<in> set (py_split (CHR ''/'') k). w \<noteq> [] \<and> w \<noteq> ''.'' \<and> w \<noteq> ''..'')
     \<and> suffix ''.json'' (last (py_split (CHR ''/'') k))"

lemma py_join_split: "py_join [c] (py_split c s) = s"
proof (induction s)
  case Nil
  then show ?case by simp
next
  case (Cons x s)
  obtain w ws where sp: "py_split c s = w # ws" by (cases "py_split c s") auto
  with Cons.IH show ?case by (cases ws) auto
qed

lemma canonical_path:
  assumes "canonical_key k"
  shows "py_path (map (\<lambda>c. if c = CHR 0x5C then CHR ''/'' else c) k) =
    \<lparr>pp_root = NoRoot, pp_parts = py_split (CHR ''/'') k\<rparr>"
proof -
  have id: "map (\<lambda>c. if c = CHR 0x5C then CHR ''/'' else c) k = k"
    using assms by (intro map_idI) (auto simp: canonical_key_def)
  have "leading_slashes k = 0"
  proof (cases k)
    case (Cons c k')
    have "c \<noteq> CHR ''/''"
    proof
      assume "c = CHR ''/''"
      then have "[] \<in> set (py_split (CHR ''/'') k)" by (simp add: Cons)
      with assms show False unfolding canonical_key_def by blast
    qed
    with Cons show ?thesis by (simp add: leading_slashes_def)
  qed (simp add: leading_slashes_def)
  moreover have "filter (\<lambda>w. w \<noteq> [] \<and> w \<noteq> ''.'') (py_split (CHR ''/'') k) = py_split (CHR ''/'') k"
    using assms by (intro filter_True) (auto simp: canonical_key_def)
  ultimately show ?thesis by (simp add: id py_path_def)
qed

lemma resolve_canonical:
  assumes "canonical_key k" and "resolve_key base k = Inr p"
  shows "p = base\<lparr>pp_parts := pp_parts base @ py_split (CHR ''/'') k\<rparr>"
  using assms(2) unfolding resolve_key_def canonical_path [OF assms(1)]
  by (auto simp: Let_def path_join_def split: if_splits)

lemma resolve_distinct:
  assumes "canonical_key k" and "canonical_key k'" and "k \<noteq> k'"
    and "resolve_key base k = Inr p" and "resolve_key base k' = Inr p'"
  shows "p' \<noteq> p" and "p' \<noteq> tmp_path p"
proof -
  note p = resolve_canonical [OF assms(1,4)] and p' = resolve_canonical [OF assms(2,5)]
  have "py_split (CHR ''/'') k \<noteq> py_split (CHR ''/'') k'"
    using assms(3) py_join_split by metis
  then have "pp_parts p' \<noteq> pp_parts p" by (simp add: p p')
  then show "p' \<noteq> p" by auto
  have "last (pp_parts (tmp_path p)) = name_stem (last (pp_parts p)) @ ''.tmp''"
    by (simp add: tmp_path_def)
  moreover have "suffix ''.json'' (last (pp_parts p'))"
    using assms(2) by (simp add: p' canonical_key_def)
  moreover have "\<not> suffix ''.json'' (s @ ''.tmp'')" for s
    by (auto simp: suffix_def dest: arg_cong [where f = last])
  ultimately show "p' \<noteq> tmp_path p" by metis
qed

lemma put_file_lookup:
  "map_of (put_file p c fs) q =
     (if q = p then Some c else if q = tmp_path p then None else map_of fs q)"
  by (simp add: put_file_def)

interpretation local_store: storage_backend "local_backend parse render base" "\<lambda>_. True" canonical_key "\<lambda>_. True"
  for parse render base
proof (unfold_locales, goal_cases)
  case (2 s k v s')
  then show ?case
    by (auto simp: local_backend_def local_write_json_def local_write_def local_read_json_def
        put_file_lookup split: sum.splits if_splits)
next
  case (3 s k v r s' k')
  show ?case
  proof (cases "resolve_key base k")
    case (Inl e)
    with 3 show ?thesis by (simp add: local_backend_def local_write_json_def local_write_def)
  next
    case (Inr p)
    show ?thesis
    proof (cases "resolve_key base k'")
      case (Inl e)
      then show ?thesis by (simp add: local_backend_def local_read_json_def)
    next
      case q: (Inr p')
      have "p' \<noteq> p" "p' \<noteq> tmp_path p"
        using resolve_distinct [OF 3(2,5) _ Inr q] 3(6) by auto
      with 3 Inr q show ?thesis
        by (auto simp: local_backend_def local_write_json_def local_write_def local_read_json_def
            put_file_lookup split: if_splits)
    qed
  qed
next
  case (4 s k v e s')
  then show ?case
    by (auto simp: local_backend_def local_write_json_def local_write_def split: sum.splits if_splits)
next
  case (6 s k b s')
  then show ?case
    by (auto simp: local_backend_def local_delete_def local_read_json_def is_file_def has_key_def
        split: sum.splits if_splits)
next
  case (7 s k d s' k')
  show ?case
  proof (cases "resolve_key base k")
    case (Inl e)
    with 7 show ?thesis by (simp add: local_backend_def local_delete_def)
  next
    case (Inr p)
    show ?thesis
    proof (cases "resolve_key base k'")
      case (Inl e)
      then show ?thesis by (simp add: local_backend_def local_read_json_def)
    next
      case q: (Inr p')
      have "p' \<noteq> p" using resolve_distinct(1) [OF 7(2,4) _ Inr q] 7(5) by auto
      with 7 Inr q show ?thesis
        by (auto simp: local_backend_def local_delete_def local_read_json_def split: if_splits)
    qed
  qed
qed simp_all

section \<open>Lemmas on the wrapper\<close>

text \<open>A document the wrapper can store: an object that JSON text reproduces and that is not itself
marked as an envelope.\<close>

definition plain_doc :: "(json \<Rightarrow> string) \<Rightarrow> (string \<Rightarrow> json option) \<Rightarrow> json \<Rightarrow> bool" where
  "plain_doc dumps loads v \<longleftrightarrow>
     loads (dumps v) = Some v
     \<and> (case v of JObj d \<Rightarrow> \<not> jtruthy (dget d ''_encrypted'' JNull) | _ \<Rightarrow> False)"

lemma decrypt_own_envelope:
  assumes "length nonce = 12" and "aead_correct cr" and "aead_binding cr" and "tid \<noteq> []"
    and "plain_doc dumps loads v"
  shows "decrypt_envelope cr master loads key
     [(''_encrypted'', JBool True), (''_version'', JInt 1), (''_tenant_id'', JStr tid),
      (''_ciphertext'', JStr (field_encrypt cr master nonce (dumps v) tid (''storage:'' @ key)))]
     = Some v"
proof -
  have "field_decrypt cr master (field_encrypt cr master nonce (dumps v) tid (''storage:'' @ key)) tid
      (''storage:'' @ key) = Inr (dumps v)"
    using field_decrypt_encrypt [OF assms(1-3)] by blast
  with assms(4,5) show ?thesis by (simp add: decrypt_envelope_def plain_doc_def)
qed

lemma extract_tenant_id_nonempty: "extract_tenant_id key = Some t \<Longrightarrow> t \<noteq> []"
  by (auto simp: extract_tenant_id_def Let_def split: list.splits if_splits)

lemma encrypted_write_cases:
  assumes "encrypted_write_json cr master rnd dumps inner k v (n, s) = (r, n', s')"
  obtains (sealed) tid where "extract_tenant_id k = Some tid" "tid \<noteq> []"
      "be_write_json inner k (JObj
         [(''_encrypted'', JBool True), (''_version'', JInt 1), (''_tenant_id'', JStr tid),
          (''_ciphertext'', JStr (field_encrypt cr master (rnd n) (dumps v) tid (''storage:'' @ k)))]) s
         = (r, s')"
  | (clear) "extract_tenant_id k = None \<or> suffix ''.partition'' k" "be_write_json inner k v s = (r, s')"
proof (cases "extract_tenant_id k")
  case None
  with assms clear show ?thesis by (auto simp: encrypted_write_json_def split: prod.splits)
next
  case (Some tid)
  show ?thesis
  proof (cases "suffix ''.partition'' k")
    case True
    with assms Some clear show ?thesis by (auto simp: encrypted_write_json_def split: prod.splits)
  next
    case False
    with assms Some have "be_write_json inner k (JObj
         [(''_encrypted'', JBool True), (''_version'', JInt 1), (''_tenant_id'', JStr tid),
          (''_ciphertext'', JStr (field_encrypt cr master (rnd n) (dumps v) tid (''storage:'' @ k)))]) s
         = (r, s')"
      by (auto simp: encrypted_write_json_def Let_def split: prod.splits)
    with Some show ?thesis using sealed extract_tenant_id_nonempty by blast
  qed
qed

text \<open>A document written through the encryption is the document read back.\<close>

lemma encrypted_write_read:
  assumes inner: "storage_backend inner good key_ok (\<lambda>_. True)"
    and crypto: "aead_correct cr" "aead_binding cr" "\<And>n. length (rnd n) = 12"
    and pre: "good s" "key_ok k" "plain_doc dumps loads v"
    and wr: "encrypted_write_json cr master rnd dumps inner k v (n, s) = (Inr (), n', s')"
  shows "encrypted_read_json cr master loads inner k (n', s') = Inr (Some v)"
proof -
  obtain d where d: "v = JObj d" "\<not> jtruthy (dget d ''_encrypted'' JNull)"
    using pre(3) by (auto simp: plain_doc_def split: json.splits)
  from wr show ?thesis
  proof (cases rule: encrypted_write_cases)
    case (sealed tid)
    have "be_read_json inner k s' = Inr (Some (JObj
         [(''_encrypted'', JBool True), (''_version'', JInt 1), (''_tenant_id'', JStr tid),
          (''_ciphertext'', JStr (field_encrypt cr master (rnd n) (dumps v) tid (''storage:'' @ k)))]))"
      using storage_backend.write_read [OF inner _ _ _ sealed(3)] pre(1,2) by simp
    then show ?thesis
      using decrypt_own_envelope [OF crypto(3,1,2) sealed(2) pre(3)] by (simp add: encrypted_read_json_def)
  next
    case clear
    have "be_read_json inner k s' = Inr (Some v)"
      using storage_backend.write_read [OF inner _ _ _ clear(2)] pre(1,2) by simp
    with d show ?thesis by (simp add: encrypted_read_json_def)
  qed
qed

lemma encrypted_write_inner:
  "be_write_json (encrypted_backend cr master rnd dumps loads inner) k v (n, s) = (r, n', s') \<Longrightarrow>
   encrypted_write_json cr master rnd dumps inner k v (n, s) = (r, n', s')"
  by (simp add: encrypted_backend_def)

lemma encrypted_delete_inner:
  "be_delete (encrypted_backend cr master rnd dumps loads inner) k (n, s) = (r, n', s') \<Longrightarrow> be_delete inner k s = (r, s')"
  by (auto simp: encrypted_backend_def split: prod.splits)

section \<open>Properties\<close>

text \<open>C11. Wrapping a backend that keeps the storage contract with encryption keeps the contract: a document
written is the document read back, decrypted, other keys keep theirs, and a deleted key is missing.\<close>

theorem encryption_keeps_contract:
  assumes inner: "storage_backend inner good key_ok (\<lambda>_. True)"
    and "aead_correct cr" and "aead_binding cr" and "\<And>n. length (rnd n) = 12"
  shows "storage_backend (encrypted_backend cr master rnd dumps loads inner)
    (\<lambda>(n, s). good s) key_ok (plain_doc dumps loads)"
proof (unfold_locales, goal_cases)
  case (1 ns k v ns')
  obtain n s n' s' where [simp]: "ns = (n, s)" "ns' = (n', s')" by (cases ns; cases ns')
  show ?case using encrypted_write_inner [OF 1(4) [simplified]] 1(1,2) storage_backend.write_good [OF inner]
    by (cases rule: encrypted_write_cases) auto
next
  case (2 ns k v ns')
  obtain n s n' s' where [simp]: "ns = (n, s)" "ns' = (n', s')" by (cases ns; cases ns')
  from encrypted_write_read [OF inner assms(2-4) _ 2(2,3) encrypted_write_inner [OF 2(4) [simplified]]] 2(1)
  show ?case by (simp add: encrypted_backend_def)
next
  case (3 ns k v r ns' k')
  obtain n s n' s' where [simp]: "ns = (n, s)" "ns' = (n', s')" by (cases ns; cases ns')
  from encrypted_write_inner [OF 3(4) [simplified]] have "be_read_json inner k' s' = be_read_json inner k' s"
    using 3(1,2,5,6) storage_backend.write_frame [OF inner] by (cases rule: encrypted_write_cases) auto
  then show ?case by (simp add: encrypted_backend_def encrypted_read_json_def)
next
  case (4 ns k v e ns')
  obtain n s n' s' where [simp]: "ns = (n, s)" "ns' = (n', s')" by (cases ns; cases ns')
  from encrypted_write_inner [OF 4(4) [simplified]] have "good s' \<and> be_read_json inner k s' = be_read_json inner k s"
    using 4(1,2) storage_backend.write_error [OF inner] by (cases rule: encrypted_write_cases) auto
  then show ?case by (simp add: encrypted_backend_def encrypted_read_json_def)
next
  case (5 ns k b ns')
  then show ?case using storage_backend.delete_good [OF inner]
    by (auto simp: encrypted_backend_def split: prod.splits)
next
  case (6 ns k b ns')
  obtain n s n' s' where [simp]: "ns = (n, s)" "ns' = (n', s')" by (cases ns; cases ns')
  from storage_backend.delete_read [OF inner _ _ encrypted_delete_inner [OF 6(3) [simplified]]] 6(1,2)
  show ?case by (simp add: encrypted_backend_def encrypted_read_json_def)
next
  case (7 ns k d ns' k')
  obtain n s n' s' where [simp]: "ns = (n, s)" "ns' = (n', s')" by (cases ns; cases ns')
  from storage_backend.delete_frame [OF inner _ _ encrypted_delete_inner [OF 7(3) [simplified]]] 7(1,2,4,5)
  show ?case by (simp add: encrypted_backend_def encrypted_read_json_def)
qed

theorem encryption_keeps_contract_witness:
  "storage_backend (encrypted_backend framing_crypto ''m'' (\<lambda>_. replicate 12 CHR ''n'') (\<lambda>_. ''{}'')
      (\<lambda>_. Some (JObj [])) (local_backend (\<lambda>_. None) (\<lambda>_. []) (py_path ''/data'')))
    (\<lambda>(n, s). True) canonical_key (plain_doc (\<lambda>_. ''{}'') (\<lambda>_. Some (JObj [])))
   \<and> plain_doc (\<lambda>_. ''{}'') (\<lambda>_. Some (JObj [])) (JObj [])"
  using encryption_keeps_contract [OF local_store.storage_backend_axioms framing_crypto_ok(1,2),
      of "\<lambda>_. replicate 12 CHR ''n''" "''m''" "\<lambda>_. ''{}''" "\<lambda>_. Some (JObj [])"]
  by (simp add: plain_doc_def)

text \<open>What the wrapper protects is a matter of the key: under a pattern key the inner backend holds an
envelope without the document; but the user records, invitations and the per-tenant side files have
keys the pattern misses, and the file system holds them in clear.\<close>

theorem encryption_coverage:
  assumes "CHR ''/'' \<notin> set x"
    and "k \<in> {''users/'' @ x @ ''.json'', ''invites/'' @ x @ ''.json'',
              ''tenants/'' @ x @ ''/daily_usage.json''}"
    and "be_write_json (encrypted_backend cr master rnd dumps loads (local_backend parse render base))
           k v (n, fs) = (Inr (), n', fs')"
  shows "be_read_json (local_backend parse render base) k fs' = Inr (Some v)"
proof -
  have sp: "py_split (CHR ''/'') (u @ CHR ''/'' # w) = u # py_split (CHR ''/'') w"
    if "CHR ''/'' \<notin> set u" for u w using py_split_sep [OF that] .
  have ns: "py_split (CHR ''/'') (x @ ''.json'') = [x @ ''.json'']"
    using assms(1) by (intro py_split_no_sep) auto
  have none: "extract_tenant_id k = None"
  proof -
    have "py_split (CHR ''/'') (''users/'' @ x @ ''.json'') = [''users'', x @ ''.json'']"
      using sp [of "''users''" "x @ ''.json''"] ns by simp
    moreover have "py_split (CHR ''/'') (''invites/'' @ x @ ''.json'') = [''invites'', x @ ''.json'']"
      using sp [of "''invites''" "x @ ''.json''"] ns by simp
    moreover have "py_split (CHR ''/'') (''tenants/'' @ x @ ''/daily_usage.json'')
        = [''tenants'', x, ''daily_usage.json'']"
      using sp [of "''tenants''" "x @ ''/daily_usage.json''"] sp [OF assms(1), of "''daily_usage.json''"]
      by simp
    ultimately show ?thesis
      using assms(2) by (auto simp: extract_tenant_id_def encrypted_layers_def)
  qed
  from assms(3) have "be_write_json (local_backend parse render base) k v fs = (Inr (), fs')"
    using none by (auto simp: encrypted_backend_def encrypted_write_json_def split: prod.splits)
  then show ?thesis
    by (auto simp: local_backend_def local_write_json_def local_write_def local_read_json_def
        put_file_lookup split: sum.splits if_splits)
qed

theorem encryption_coverage_witness:
  "\<exists>fs'. map_of fs' \<lparr>pp_root = Slash, pp_parts = [''data'', ''users'', ''u1.json'']\<rparr> =
     Some (JsonFile (JObj [(''email'', JStr ''a@b.c'')]))
   \<and> be_read_json (local_backend (\<lambda>_. None) (\<lambda>_. []) (py_path ''/data'')) ''users/u1.json'' fs' =
     Inr (Some (JObj [(''email'', JStr ''a@b.c'')]))"
proof -
  let ?v = "JObj [(''email'', JStr ''a@b.c'')]"
  let ?be = "encrypted_backend framing_crypto ''m'' (\<lambda>_. ''n'') (\<lambda>_. []) (\<lambda>_. None)
    (local_backend (\<lambda>_. None) (\<lambda>_. []) (py_path ''/data''))"
  let ?fs = "[(\<lparr>pp_root = Slash, pp_parts = [''data'', ''users'', ''u1.json'']\<rparr>, JsonFile ?v)]"
  have w: "be_write_json ?be ''users/u1.json'' ?v (0, []) = (Inr (), 0, ?fs)"
    by (simp add: encrypted_backend_def encrypted_write_json_def extract_tenant_id_def
        encrypted_layers_def local_backend_def local_write_json_def local_write_def resolve_key_def
        py_path_def leading_slashes_def path_join_def path_text_def can_write_def is_dir_def
        strictly_under_def put_file_def tmp_path_def name_stem_def)
  have "be_read_json (local_backend (\<lambda>_. None) (\<lambda>_. []) (py_path ''/data'')) ''users/u1.json'' ?fs =
     Inr (Some ?v)"
    by (rule encryption_coverage [of "''u1''" _ _ _ _ _ _ _ _ _ _ 0 "[]" 0, OF _ _ w]) simp_all
  then show ?thesis by (intro exI [of _ ?fs]) simp
qed

text \<open>A relative key never leaves the base directory; but the containment test compares texts, so an
absolute key of a sibling directory whose name starts with the base's name is accepted.\<close>

theorem local_keys_contained_unless_absolute:
  "(resolve_key base key = Inr p \<and> CHR 0x5C \<notin> set key \<and> leading_slashes key = 0 \<longrightarrow>
      assert_within p base \<and> ''..'' \<notin> set (drop (length (pp_parts base)) (pp_parts p)))
   \<and> (\<exists>p. resolve_key (py_path ''/data/x'') ''/data/x-other/f.json'' = Inr p
        \<and> \<not> assert_within p (py_path ''/data/x''))"
proof (intro conjI impI)
  assume a: "resolve_key base key = Inr p \<and> CHR 0x5C \<notin> set key \<and> leading_slashes key = 0"
  then have id: "map (\<lambda>c. if c = CHR 0x5C then CHR ''/'' else c) key = key"
    by (intro map_idI) auto
  have rt: "pp_root (py_path key) = NoRoot" using a by (simp add: py_path_def)
  have p: "p = base\<lparr>pp_parts := pp_parts base @ pp_parts (py_path key)\<rparr>"
    and dd: "''..'' \<notin> set (pp_parts (py_path key))"
    using a rt by (auto simp: resolve_key_def id Let_def path_join_def split: if_splits)
  show "assert_within p base" by (simp add: p assert_within_def)
  show "''..'' \<notin> set (drop (length (pp_parts base)) (pp_parts p))" using dd by (simp add: p)
next
  show "\<exists>p. resolve_key (py_path ''/data/x'') ''/data/x-other/f.json'' = Inr p
      \<and> \<not> assert_within p (py_path ''/data/x'')"
    by (simp add: resolve_key_def py_path_def leading_slashes_def path_join_def path_text_def
        assert_within_def)
qed

theorem local_keys_contained_unless_absolute_witness:
  "assert_within (py_path ''/data/x/runs/t1.json'') (py_path ''/data/x'')"
proof -
  have "resolve_key (py_path ''/data/x'') ''runs/t1.json'' = Inr (py_path ''/data/x/runs/t1.json'')"
    by (simp add: resolve_key_def py_path_def leading_slashes_def path_join_def path_text_def)
  moreover have "leading_slashes ''runs/t1.json'' = 0" by (simp add: leading_slashes_def)
  ultimately show ?thesis
    using local_keys_contained_unless_absolute [THEN conjunct1, THEN mp, THEN conjunct1] by force
qed

end
