(* ===== verification/ZeroTrust.thy ===== *)
theory ZeroTrust
  imports Encryption
begin

text \<open>
  \<open>src/brain/security/zero_trust.py\<close>: request signing with a replay cache, the security event
  log and the input validators. \<open>mac secret message\<close> is the HMAC-SHA256 hex digest and \<open>sha\<close>
  the SHA-256 hex digest, both parameters; the clock and the random nonce are arguments.
\<close>

section \<open>Request signing\<close>

record signed_request =
  sr_method :: string
  sr_path :: string
  sr_timestamp :: int
  sr_nonce :: string
  sr_signature :: string
  sr_component_id :: string

record request_signer =
  rs_secret :: bytes
  rs_seen_nonces :: "(string \<times> real) list"

definition new_request_signer :: "string option \<Rightarrow> string option \<Rightarrow> string \<Rightarrow> request_signer" where
  "new_request_signer shared_secret env random_hex =
     (let secret = (case shared_secret of Some s \<Rightarrow> s | None \<Rightarrow> []);
          secret = (if secret \<noteq> [] then secret else case env of Some e \<Rightarrow> e | None \<Rightarrow> []);
          secret = (if secret = [] then random_hex else secret)
      in \<lparr>rs_secret = utf8_encode secret, rs_seen_nonces = []\<rparr>)"

definition build_message ::
    "(bytes \<Rightarrow> string) \<Rightarrow> string \<Rightarrow> string \<Rightarrow> bytes \<Rightarrow> int \<Rightarrow> string \<Rightarrow> string \<Rightarrow> bytes" where
  "build_message sha method path body timestamp nonce component_id =
     utf8_encode (py_join [CHR 0x0A] [method, path, int_text timestamp, nonce, component_id, sha body])"

definition sign_request ::
    "(bytes \<Rightarrow> bytes \<Rightarrow> string) \<Rightarrow> (bytes \<Rightarrow> string) \<Rightarrow> real \<Rightarrow> string \<Rightarrow> string \<Rightarrow> string \<Rightarrow> bytes \<Rightarrow> string \<Rightarrow>
     request_signer \<Rightarrow> signed_request" where
  "sign_request mac sha now nonce method path body component_id rs =
     (let timestamp = \<lfloor>now\<rfloor>;
          message = build_message sha method path body timestamp nonce component_id
      in \<lparr>sr_method = method, sr_path = path, sr_timestamp = timestamp, sr_nonce = nonce,
          sr_signature = mac (rs_secret rs) message, sr_component_id = component_id\<rparr>)"

text \<open>Recording a nonce; beyond 10000 entries the oldest 5000 go.\<close>

definition record_nonce :: "string \<Rightarrow> real \<Rightarrow> (string \<times> real) list \<Rightarrow> (string \<times> real) list" where
  "record_nonce nonce now seen =
     (let seen = AList.update nonce now seen in
      if length seen > 10000 then drop 5000 seen else seen)"

text \<open>\<open>secrets.compare_digest\<close> raises on a string with a non-ASCII character.\<close>

definition verify_request ::
    "(bytes \<Rightarrow> bytes \<Rightarrow> string) \<Rightarrow> (bytes \<Rightarrow> string) \<Rightarrow> real \<Rightarrow> string \<Rightarrow> string \<Rightarrow> bytes \<Rightarrow> signed_request \<Rightarrow>
     request_signer \<Rightarrow> bool res \<times> request_signer" where
  "verify_request mac sha now method path body signed rs =
     (if \<bar>\<lfloor>now\<rfloor> - sr_timestamp signed\<bar> > 300 then (Inr False, rs)
      else if has_key (rs_seen_nonces rs) (sr_nonce signed) then (Inr False, rs)
      else let message = build_message sha method path body (sr_timestamp signed) (sr_nonce signed)
                           (sr_component_id signed);
               expected = mac (rs_secret rs) message
           in if \<exists>c \<in> set expected \<union> set (sr_signature signed). (of_char c :: nat) \<ge> 128
              then (Inl (OtherError ''TypeError''), rs)
              else if expected \<noteq> sr_signature signed then (Inr False, rs)
              else (Inr True,
                    rs\<lparr>rs_seen_nonces := record_nonce (sr_nonce signed) now (rs_seen_nonces rs)\<rparr>))"

section \<open>The security event log\<close>

definition log_control_char :: "char \<Rightarrow> bool" where
  "log_control_char c \<longleftrightarrow> (let n = (of_char c :: nat) in n < 32 \<and> n \<noteq> 9)"

definition sanitize_log :: "string \<Rightarrow> string" where
  "sanitize_log v = take 512 (map (\<lambda>c. if log_control_char c then CHR ''_'' else c) v)"

text \<open>The format strings, as label and value pairs; the last field is the component.\<close>

definition event_line :: "string \<Rightarrow> (string \<times> string) list \<Rightarrow> string \<Rightarrow> string" where
  "event_line event pairs component =
     py_join '' '' (event # map (\<lambda>(k, v). k @ ''='' @ v) (pairs @ [(''component'', component)]))"

definition log_auth_success :: "string \<Rightarrow> string \<Rightarrow> string \<Rightarrow> string \<Rightarrow> string" where
  "log_auth_success component tenant role endpoint =
     event_line ''AUTH_SUCCESS'' [(''tenant'', sanitize_log tenant), (''role'', sanitize_log role),
       (''endpoint'', sanitize_log endpoint)] (sanitize_log component)"

definition log_auth_failure :: "string \<Rightarrow> string \<Rightarrow> string \<Rightarrow> string \<Rightarrow> string" where
  "log_auth_failure component reason endpoint ip =
     event_line ''AUTH_FAILURE'' [(''reason'', sanitize_log reason), (''endpoint'', sanitize_log endpoint),
       (''ip'', sanitize_log ip)] (sanitize_log component)"

definition log_permission_denied :: "string \<Rightarrow> string \<Rightarrow> string \<Rightarrow> string \<Rightarrow> string \<Rightarrow> string" where
  "log_permission_denied component tenant role permission endpoint =
     event_line ''PERMISSION_DENIED'' [(''tenant'', sanitize_log tenant), (''role'', sanitize_log role),
       (''permission'', sanitize_log permission), (''endpoint'', sanitize_log endpoint)]
       (sanitize_log component)"

definition log_data_access :: "string \<Rightarrow> string \<Rightarrow> string \<Rightarrow> string \<Rightarrow> int \<Rightarrow> string" where
  "log_data_access component tenant layer operation record_count =
     event_line ''DATA_ACCESS'' [(''tenant'', sanitize_log tenant), (''layer'', sanitize_log layer),
       (''operation'', sanitize_log operation), (''records'', int_text record_count)]
       (sanitize_log component)"

definition log_pipeline_event :: "string \<Rightarrow> string \<Rightarrow> string \<Rightarrow> string \<Rightarrow> int \<Rightarrow> string" where
  "log_pipeline_event component tenant stage status duration_ms =
     event_line ''PIPELINE_EVENT'' [(''tenant'', sanitize_log tenant), (''stage'', sanitize_log stage),
       (''status'', sanitize_log status), (''duration_ms'', int_text duration_ms)]
       (sanitize_log component)"

definition log_security_event :: "string \<Rightarrow> string \<Rightarrow> string \<Rightarrow> string" where
  "log_security_event component event_type details =
     event_line ''SECURITY_EVENT'' [(''type'', sanitize_log event_type),
       (''details'', sanitize_log details)] (sanitize_log component)"

section \<open>Input validation\<close>

definition identifier_char :: "char \<Rightarrow> bool" where
  "identifier_char c \<longleftrightarrow>
     (CHR ''a'' \<le> c \<and> c \<le> CHR ''z'') \<or> (CHR ''A'' \<le> c \<and> c \<le> CHR ''Z'')
     \<or> (CHR ''0'' \<le> c \<and> c \<le> CHR ''9'') \<or> c = CHR ''_'' \<or> c = CHR ''-''"

text \<open>The final dollar of the pattern also matches before a final newline.\<close>

definition safe_identifier :: "string \<Rightarrow> bool" where
  "safe_identifier s =
     (let core = (if s \<noteq> [] \<and> last s = CHR 0x0A then butlast s else s)
      in core \<noteq> [] \<and> list_all identifier_char core)"

definition validate_tenant_id :: "string \<Rightarrow> string res" where
  "validate_tenant_id t =
     (if t = [] \<or> length t > 64 then Inl (ValueError ''Invalid tenant ID length (max 64)'')
      else if \<not> safe_identifier t then Inl (ValueError ''Tenant ID contains invalid characters'')
      else Inr t)"

definition validate_content :: "string \<Rightarrow> string res" where
  "validate_content c =
     (if length c > 10000 then Inl (ValueError ''Content exceeds maximum length (10000)'') else Inr c)"

definition validate_identifier :: "string \<Rightarrow> string \<Rightarrow> string res" where
  "validate_identifier name field_name =
     (if name = [] \<or> length name > 128 then Inl (ValueError (''Invalid '' @ field_name @ '' length''))
      else if \<not> safe_identifier name
      then Inl (ValueError (field_name @ '' contains invalid characters''))
      else Inr name)"

definition validate_labels :: "json list \<Rightarrow> string list res" where
  "validate_labels labels =
     (if length labels > 50 then Inl (ValueError ''Too many labels (max 50)'')
      else Inr (concat (map (\<lambda>l. case l of JStr s \<Rightarrow> [take 100 s] | _ \<Rightarrow> []) labels)))"

definition has_dangerous_patterns :: "string \<Rightarrow> bool" where
  "has_dangerous_patterns t =
     ((\<exists>c \<in> set t. c \<in> {CHR '';'', CHR ''-'', CHR 0x27, CHR 0x22, CHR 0x5C})
      \<or> py_contains ''../'' t \<or> py_contains ''<script'' (py_lower t))"

section \<open>Lemmas on the replay cache\<close>

lemma update_fresh: "\<not> has_key d k \<Longrightarrow> AList.update k v d = d @ [(k, v)]"
  by (induction d) auto

lemma record_nonce_fresh:
  "\<not> has_key seen n \<Longrightarrow> record_nonce n t seen =
     (if length seen \<ge> 10000 then drop 5000 (seen @ [(n, t)]) else seen @ [(n, t)])"
  by (simp add: record_nonce_def update_fresh Let_def)

lemma has_key_append [simp]: "has_key (xs @ ys) k \<longleftrightarrow> has_key xs k \<or> has_key ys k"
  by (auto simp: has_key_iff_fst)

text \<open>The accepted nonces of a run of verifications.\<close>

type_synonym verify_call = "real \<times> string \<times> string \<times> bytes \<times> signed_request"

fun verify_run ::
    "(bytes \<Rightarrow> bytes \<Rightarrow> string) \<Rightarrow> (bytes \<Rightarrow> string) \<Rightarrow> verify_call list \<Rightarrow> request_signer \<Rightarrow>
     bool res list \<times> request_signer" where
  "verify_run mac sha [] rs = ([], rs)"
| "verify_run mac sha ((now, m, p, b, sr) # cs) rs =
     (let (r, rs') = verify_request mac sha now m p b sr rs;
          (out, rs'') = verify_run mac sha cs rs'
      in (r # out, rs''))"

lemma verify_request_state:
  assumes "verify_request mac sha now m p b sr rs = (r, rs')"
  shows "(r = Inr True \<and> \<not> has_key (rs_seen_nonces rs) (sr_nonce sr)
        \<and> rs_seen_nonces rs' = record_nonce (sr_nonce sr) now (rs_seen_nonces rs))
    \<or> (r \<noteq> Inr True \<and> rs' = rs)"
    and "rs_secret rs' = rs_secret rs"
  using assms by (auto simp: verify_request_def Let_def split: if_splits)

definition recently_seen :: "string \<Rightarrow> nat \<Rightarrow> request_signer \<Rightarrow> bool" where
  "recently_seen n j rs \<longleftrightarrow>
     length (rs_seen_nonces rs) \<le> 10000
     \<and> (\<exists>pre t post. rs_seen_nonces rs = pre @ (n, t) # post \<and> length post \<le> j)"

lemma record_nonce_length:
  "length seen \<le> 10000 \<Longrightarrow> \<not> has_key seen n \<Longrightarrow> length (record_nonce n t seen) \<le> 10000"
  by (simp add: record_nonce_fresh)

lemma recently_seen_step:
  assumes "recently_seen n j rs" and "j < 5000"
    and "verify_request mac sha now m p b sr rs = (r, rs')"
  shows "recently_seen n (if r = Inr True then Suc j else j) rs'"
proof (cases "r = Inr True")
  case False
  with verify_request_state(1) [OF assms(3)] assms(1) show ?thesis by simp
next
  case True
  let ?x = "(sr_nonce sr, now)"
  from verify_request_state(1) [OF assms(3)] True
  have fresh: "\<not> has_key (rs_seen_nonces rs) (sr_nonce sr)"
    and seen': "rs_seen_nonces rs' = record_nonce (sr_nonce sr) now (rs_seen_nonces rs)" by auto
  from assms(1) obtain pre t post where seen: "rs_seen_nonces rs = pre @ (n, t) # post"
    and len: "length post \<le> j" "length (rs_seen_nonces rs) \<le> 10000"
    by (auto simp: recently_seen_def)
  have "length (rs_seen_nonces rs') \<le> 10000"
    unfolding seen' by (rule record_nonce_length [OF len(2) fresh])
  moreover have "\<exists>pre' post'. rs_seen_nonces rs' = pre' @ (n, t) # post' \<and> length post' \<le> Suc j"
  proof (cases "length (rs_seen_nonces rs) \<ge> 10000")
    case False
    then show ?thesis
      using len(1) fresh seen' seen by (intro exI [of _ pre] exI [of _ "post @ [?x]"])
        (simp add: record_nonce_fresh)
  next
    case True
    with len seen assms(2) have "5000 \<le> length pre" by simp
    then show ?thesis
      using True len(1) fresh seen' seen by (intro exI [of _ "drop 5000 pre"] exI [of _ "post @ [?x]"])
        (simp add: record_nonce_fresh)
  qed
  ultimately show ?thesis using True by (auto simp: recently_seen_def)
qed

lemma recently_seen_run:
  assumes "recently_seen n j rs" and "verify_run mac sha cs rs = (out, rs')"
    and "j + length (filter (\<lambda>r. r = Inr True) out) \<le> 5000"
  shows "\<exists>j'. recently_seen n j' rs'"
  using assms
proof (induction cs arbitrary: j rs out)
  case Nil
  then show ?case by auto
next
  case (Cons c cs)
  obtain now m p b sr where c: "c = (now, m, p, b, sr)" by (cases c)
  obtain r rs1 where v: "verify_request mac sha now m p b sr rs = (r, rs1)"
    by (cases "verify_request mac sha now m p b sr rs")
  obtain out1 rs2 where w: "verify_run mac sha cs rs1 = (out1, rs2)" by (cases "verify_run mac sha cs rs1")
  from Cons.prems(2) c v w have out: "out = r # out1" and rs2: "rs2 = rs'" by auto
  show ?case
  proof (cases "r = Inr True")
    case True
    with Cons.prems(3) out have "j < 5000" "Suc j + length (filter (\<lambda>r. r = Inr True) out1) \<le> 5000"
      by simp_all
    with recently_seen_step [OF Cons.prems(1) _ v] True Cons.IH [of "Suc j" rs1 out1] w rs2
    show ?thesis by simp
  next
    case False
    with verify_request_state(1) [OF v] Cons.prems out w rs2 Cons.IH [of j rs1 out1]
    show ?thesis by simp
  qed
qed

text \<open>A hexadecimal digest is ASCII.\<close>

definition ascii_mac :: "(bytes \<Rightarrow> bytes \<Rightarrow> string) \<Rightarrow> bool" where
  "ascii_mac mac \<longleftrightarrow> (\<forall>k t. \<forall>c \<in> set (mac k t). (of_char c :: nat) < 128)"

text \<open>A request signed for the call, verified while its time stamp is fresh and its nonce unseen.\<close>

lemma verify_signed:
  assumes "\<bar>\<lfloor>now'\<rfloor> - \<lfloor>now\<rfloor>\<bar> \<le> 300" and "\<not> has_key (rs_seen_nonces rs') n"
    and "rs_secret rs' = rs_secret rs" and "ascii_mac mac"
  shows "verify_request mac sha now' m p b (sign_request mac sha now n m p b cid rs) rs' =
    (Inr True, rs'\<lparr>rs_seen_nonces := record_nonce n now' (rs_seen_nonces rs')\<rparr>)"
proof -
  have "\<not> (\<exists>c \<in> set (mac k t) \<union> set (mac k t). 128 \<le> (of_char c :: nat))" for k t
    using assms(4) by (auto simp: ascii_mac_def not_le)
  then show ?thesis
    using assms(1-3) by (simp add: verify_request_def sign_request_def Let_def del: Un_absorb)
qed

lemma signed_run:
  assumes "distinct ns" and "\<forall>n \<in> set ns. \<not> has_key (rs_seen_nonces rs) n"
    and "length (rs_seen_nonces rs) + length ns \<le> 10000"
    and "rs_secret rs = rs_secret rs0" and "ascii_mac mac"
  shows "verify_run mac sha (map (\<lambda>n. (now, m, p, b, sign_request mac sha now n m p b cid rs0)) ns) rs =
    (replicate (length ns) (Inr True),
     rs\<lparr>rs_seen_nonces := rs_seen_nonces rs @ map (\<lambda>n. (n, now)) ns\<rparr>)"
  using assms(1-4)
proof (induction ns arbitrary: rs)
  case Nil
  then show ?case by simp
next
  case (Cons n ns)
  let ?rs = "rs\<lparr>rs_seen_nonces := rs_seen_nonces rs @ [(n, now)]\<rparr>"
  have fresh: "\<not> has_key (rs_seen_nonces rs) n" using Cons.prems(2) by simp
  have "verify_request mac sha now m p b (sign_request mac sha now n m p b cid rs0) rs =
      (Inr True, ?rs)"
    using verify_signed [OF _ fresh Cons.prems(4) assms(5), of now now] Cons.prems(3)
    by (simp add: record_nonce_fresh [OF fresh])
  moreover have "verify_run mac sha
      (map (\<lambda>n. (now, m, p, b, sign_request mac sha now n m p b cid rs0)) ns) ?rs =
    (replicate (length ns) (Inr True),
     ?rs\<lparr>rs_seen_nonces := rs_seen_nonces ?rs @ map (\<lambda>n. (n, now)) ns\<rparr>)"
    using Cons.prems by (intro Cons.IH) auto
  ultimately show ?case by simp
qed

lemma verify_run_append:
  "verify_run mac sha (cs @ ds) rs =
     (let (out, rs') = verify_run mac sha cs rs; (out', rs'') = verify_run mac sha ds rs'
      in (out @ out', rs''))"
  by (induction cs arbitrary: rs) (auto split: prod.splits)

lemma sanitize_log_clean: "c \<in> set (sanitize_log v) \<Longrightarrow> \<not> log_control_char c"
proof -
  assume "c \<in> set (sanitize_log v)"
  then have "c \<in> set (map (\<lambda>c. if log_control_char c then CHR ''_'' else c) v)"
    unfolding sanitize_log_def by (rule in_set_takeD)
  then show ?thesis by (auto simp: log_control_char_def split: if_splits)
qed

lemma int_text_clean: "c \<in> set (int_text i) \<Longrightarrow> \<not> log_control_char c"
  using nat_text_digits [of c] by (fastforce simp: int_text_def log_control_char_def split: if_splits)

lemma event_line_clean:
  assumes "\<forall>c \<in> set event. \<not> log_control_char c"
    and "\<forall>(k, v) \<in> set pairs. \<forall>c \<in> set k \<union> set v. \<not> log_control_char c"
    and "\<forall>c \<in> set component. \<not> log_control_char c"
  shows "\<forall>c \<in> set (event_line event pairs component). \<not> log_control_char c"
proof
  fix c assume "c \<in> set (event_line event pairs component)"
  then have "c = CHR '' '' \<or> c \<in> set event \<or> c \<in> set ''component=''  \<or> c \<in> set component
      \<or> (\<exists>(k, v) \<in> set pairs. c \<in> set k \<union> set v \<or> c = CHR ''='')"
    using set_py_join [of "'' ''" "event # map (\<lambda>(k, v). k @ ''='' @ v) (pairs @ [(''component'', component)])"]
    unfolding event_line_def by fastforce
  with assms show "\<not> log_control_char c" by (auto simp: log_control_char_def)
qed

text \<open>A tenant id that ends in a newline passes the validation: the dollar sign of the pattern
matches before it.\<close>

lemma tenant_id_newline_accepted: "validate_tenant_id (''tn_1'' @ [CHR 0x0A]) = Inr (''tn_1'' @ [CHR 0x0A])"
  by (simp add: validate_tenant_id_def safe_identifier_def identifier_char_def less_eq_char_def)

section \<open>Properties\<close>

text \<open>No log injection: whatever the tenant, role, endpoint, reason and other values are, a line of the
security event log holds no newline, carriage return or other control character (tab excepted).\<close>

theorem audit_lines_injection_free:
  "\<forall>line \<in> {log_auth_success comp0 t r e, log_auth_failure comp0 why e ip, log_permission_denied comp0 t r p e,
     log_data_access comp0 t l oper n, log_pipeline_event comp0 t st stat n, log_security_event comp0 ty d}.
   \<forall>c \<in> set line. \<not> log_control_char c"
proof -
  note clean = sanitize_log_clean int_text_clean
  have lit: "\<not> log_control_char c" if "c \<in> set ''AUTH_SUCCESSFAILUREPERMISSION_DENIEDATA_ACCESSPIPELINE_EVENTSECURITY_EVENTtenantroleendpointreasonippermissionlayeroperationrecordsstagestatusduration_mstypedetails''" for c
    using that by (auto simp: log_control_char_def)
  show ?thesis
    unfolding log_auth_success_def log_auth_failure_def log_permission_denied_def
      log_data_access_def log_pipeline_event_def log_security_event_def ball_simps
    by (intro conjI event_line_clean) (use clean lit in auto)
qed

theorem audit_lines_injection_free_witness:
  "\<not> (\<exists>c \<in> set (log_auth_failure ''api'' (''x'' @ [CHR 0x0A] @ ''AUTH_SUCCESS tenant=admin'') ''/login'' ''1.2.3.4'').
      log_control_char c)"
  using audit_lines_injection_free by blast



text \<open>No replay: after a request was accepted, no request with its nonce is accepted again, at any time,
as long as at most 5000 other requests were accepted in between.\<close>

theorem replay_rejected:
  assumes "length (rs_seen_nonces rs) \<le> 10000"
    and "verify_request mac sha now m p b sr rs = (Inr True, rs1)"
    and "verify_run mac sha cs rs1 = (out, rs2)"
    and "length (filter (\<lambda>r. r = Inr True) out) \<le> 5000"
    and "sr_nonce sr' = sr_nonce sr"
  shows "fst (verify_request mac sha now' m' p' b' sr' rs2) = Inr False"
proof -
  from verify_request_state(1) [OF assms(2)]
  have fresh: "\<not> has_key (rs_seen_nonces rs) (sr_nonce sr)"
    and seen: "rs_seen_nonces rs1 = record_nonce (sr_nonce sr) now (rs_seen_nonces rs)" by auto
  have "\<exists>pre t post. rs_seen_nonces rs1 = pre @ (sr_nonce sr, t) # post \<and> length post \<le> 0"
    by (cases "length (rs_seen_nonces rs) \<ge> 10000")
      (auto simp: seen record_nonce_fresh [OF fresh])
  then have "recently_seen (sr_nonce sr) 0 rs1"
    using record_nonce_length [OF assms(1) fresh] by (auto simp: recently_seen_def seen)
  from recently_seen_run [OF this assms(3)] assms(4)
  have "has_key (rs_seen_nonces rs2) (sr_nonce sr)" by (auto simp: recently_seen_def)
  with assms(5) show ?thesis by (simp add: verify_request_def)
qed

theorem replay_rejected_witness:
  "\<exists>sr rs1. verify_request (\<lambda>k t. ''h'') (\<lambda>_. ''b'') 1000 ''GET'' ''/x'' [] sr
       (new_request_signer (Some ''s'') None []) = (Inr True, rs1)
     \<and> fst (verify_request (\<lambda>k t. ''h'') (\<lambda>_. ''b'') 1001 ''GET'' ''/x'' [] sr rs1) = Inr False"
proof -
  let ?rs = "new_request_signer (Some ''s'') None []"
  let ?sr = "sign_request (\<lambda>k t. ''h'') (\<lambda>_. ''b'') 1000 ''n'' ''GET'' ''/x'' [] ''api'' ?rs"
  have e: "rs_seen_nonces ?rs = []" by (simp add: new_request_signer_def)
  have "verify_request (\<lambda>k t. ''h'') (\<lambda>_. ''b'') 1000 ''GET'' ''/x'' [] ?sr ?rs =
      (Inr True, ?rs\<lparr>rs_seen_nonces := record_nonce ''n'' 1000 (rs_seen_nonces ?rs)\<rparr>)"
    by (rule verify_signed) (simp_all add: e ascii_mac_def)
  then obtain rs1 where v: "verify_request (\<lambda>k t. ''h'') (\<lambda>_. ''b'') 1000 ''GET'' ''/x'' [] ?sr ?rs = (Inr True, rs1)"
    by blast
  have "fst (verify_request (\<lambda>k t. ''h'') (\<lambda>_. ''b'') 1001 ''GET'' ''/x'' [] ?sr rs1) = Inr False"
    by (rule replay_rejected [OF _ v, of "[]" "[]"]) (simp_all add: e)
  with v show ?thesis by blast
qed

text \<open>Beyond that the cache forgets inside the time window: when 10001 requests with different nonces
are accepted in the same second, the first of them is accepted a second time.\<close>

theorem replay_accepted_after_eviction:
  assumes "distinct ns" and "length ns = 10001" and "rs_seen_nonces rs = []"
    and "ascii_mac mac"
  shows "\<exists>rs'. verify_run mac sha
        (map (\<lambda>n. (now, m, p, b, sign_request mac sha now n m p b cid rs)) ns) rs =
      (replicate 10001 (Inr True), rs')
    \<and> fst (verify_request mac sha now m p b (sign_request mac sha now (hd ns) m p b cid rs) rs') = Inr True"
proof -
  obtain us u where ns: "ns = us @ [u]" and us: "length us = 10000"
    using assms(2) by (cases ns rule: rev_cases) auto
  from us obtain v vs where vs: "us = v # vs" by (cases us) auto
  let ?call = "\<lambda>n. (now, m, p, b, sign_request mac sha now n m p b cid rs)"
  let ?rs1 = "rs\<lparr>rs_seen_nonces := map (\<lambda>n. (n, now)) us\<rparr>"
  let ?rs2 = "rs\<lparr>rs_seen_nonces := drop 5000 (map (\<lambda>n. (n, now)) ns)\<rparr>"
  have run1: "verify_run mac sha (map ?call us) rs = (replicate 10000 (Inr True), ?rs1)"
    using signed_run [of us rs rs mac sha now m p b cid] assms us ns by simp
  have fresh: "\<not> has_key (rs_seen_nonces ?rs1) u"
    using assms(1) by (auto simp: ns has_key_iff_fst)
  have rn: "record_nonce u now (map (\<lambda>n. (n, now)) us) = drop 5000 (map (\<lambda>n. (n, now)) us) @ [(u, now)]"
    using record_nonce_fresh [of "map (\<lambda>n. (n, now)) us" u now] fresh us by simp
  have "verify_request mac sha now m p b (sign_request mac sha now u m p b cid rs) ?rs1 = (Inr True, ?rs2)"
    using verify_signed [OF _ fresh _ assms(4), of now now rs] us
    by (simp add: rn ns)
  then have run: "verify_run mac sha (map ?call ns) rs = (replicate 10000 (Inr True) @ [Inr True], ?rs2)"
    unfolding ns map_append verify_run_append run1 by simp
  have "\<not> has_key (rs_seen_nonces ?rs2) v"
  proof
    assume "has_key (rs_seen_nonces ?rs2) v"
    then have "v \<in> set (drop 5000 ns)" by (auto simp: has_key_iff_fst drop_map)
    then have "v \<in> set (drop 4999 (vs @ [u]))" by (simp add: ns vs drop_Cons')
    then have "v \<in> set (vs @ [u])" by (rule in_set_dropD)
    with assms(1) show False by (simp add: ns vs)
  qed
  from verify_signed [OF _ this _ assms(4), of now now rs]
  have "fst (verify_request mac sha now m p b (sign_request mac sha now (hd ns) m p b cid rs) ?rs2) = Inr True"
    by (simp add: ns vs)
  moreover have "replicate 10000 (Inr True) @ [Inr True] = replicate 10001 (Inr True :: bool res)"
    using replicate_append_same [of 10000 "Inr True :: bool res"] by (metis Suc_numeral semiring_norm(2) replicate_Suc semiring_norm(5))
  ultimately show ?thesis using run by auto
qed

theorem replay_accepted_after_eviction_witness:
  "\<exists>ns rs rs'. length ns = 10001 \<and> fst (verify_run (\<lambda>k t. ''h'') (\<lambda>_. ''b'')
       (map (\<lambda>n. (5, ''GET'', ''/x'', [], sign_request (\<lambda>k t. ''h'') (\<lambda>_. ''b'') 5 n ''GET'' ''/x'' [] ''api'' rs)) ns) rs)
     = replicate 10001 (Inr True)
     \<and> fst (verify_request (\<lambda>k t. ''h'') (\<lambda>_. ''b'') 5 ''GET'' ''/x'' []
        (sign_request (\<lambda>k t. ''h'') (\<lambda>_. ''b'') 5 (hd ns) ''GET'' ''/x'' [] ''api'' rs) rs') = Inr True"
proof -
  let ?ns = "map (\<lambda>i. replicate i CHR ''n'') [0..<10001]"
  let ?rs = "new_request_signer (Some ''s'') None []"
  have d: "distinct ?ns" by (auto simp: distinct_map inj_on_def dest: arg_cong [where f = length])
  have l: "length ?ns = 10001" by simp
  have e: "rs_seen_nonces ?rs = []" by (simp add: new_request_signer_def)
  have a: "ascii_mac (\<lambda>k t. ''h'')" by (simp add: ascii_mac_def)
  from replay_accepted_after_eviction [where mac = "\<lambda>k t. ''h''" and sha = "\<lambda>_. ''b''" and now = 5
      and m = "''GET''" and p = "''/x''" and b = "[]" and cid = "''api''", OF d l e a]
  obtain rs' where r: "verify_run (\<lambda>k t. ''h'') (\<lambda>_. ''b'')
       (map (\<lambda>n. (5, ''GET'', ''/x'', [], sign_request (\<lambda>k t. ''h'') (\<lambda>_. ''b'') 5 n ''GET'' ''/x'' [] ''api'' ?rs)) ?ns) ?rs
     = (replicate 10001 (Inr True), rs')"
     "fst (verify_request (\<lambda>k t. ''h'') (\<lambda>_. ''b'') 5 ''GET'' ''/x'' []
        (sign_request (\<lambda>k t. ''h'') (\<lambda>_. ''b'') 5 (hd ?ns) ''GET'' ''/x'' [] ''api'' ?rs) rs') = Inr True"
    by (elim exE conjE)
  have "fst (verify_run (\<lambda>k t. ''h'') (\<lambda>_. ''b'')
       (map (\<lambda>n. (5, ''GET'', ''/x'', [], sign_request (\<lambda>k t. ''h'') (\<lambda>_. ''b'') 5 n ''GET'' ''/x'' [] ''api'' ?rs)) ?ns) ?rs)
     = replicate 10001 (Inr True)" unfolding r(1) by (rule fst_conv)
  with l r(2) show ?thesis by (intro exI conjI)
qed

end
