(* ===== verification/AuditLog.thy ===== *)
theory AuditLog
  imports HashChain Storage
begin

text \<open>
  \<open>src/brain/security/audit_log.py\<close>: the encrypted, chained audit log of a tenant, on a
  storage backend. The environment holds the primitives: encryption, the random nonces, the SHA-256
  hex digest, and the text of a JSON document with its inverse. \<open>month\<close> is the current month
  (\<open>%Y-%m\<close>), which names the file; \<open>ts\<close> the time stamp of the call.
\<close>

section \<open>Entries\<close>

record audit_entry =
  ae_timestamp :: string
  ae_tenant_id :: string
  ae_user_id :: string
  ae_action :: string
  ae_resource :: string
  ae_detail :: jdict
  ae_chain_hash :: string
  ae_previous_hash :: string

record audit_env =
  en_crypto :: crypto
  en_master :: bytes
  en_rnd :: "nat \<Rightarrow> bytes"
  en_sha :: "bytes \<Rightarrow> string"
  en_dumps :: "json \<Rightarrow> string"
  en_loads :: "string \<Rightarrow> json option"

definition entry_payload :: "audit_env \<Rightarrow> audit_entry \<Rightarrow> string" where
  "entry_payload env e =
     py_join ''|'' [ae_timestamp e, ae_tenant_id e, ae_user_id e, ae_action e, ae_resource e,
       en_dumps env (sort_keys (JObj (ae_detail e))), ae_previous_hash e]"

definition entry_compute_hash :: "audit_env \<Rightarrow> audit_entry \<Rightarrow> string" where
  "entry_compute_hash env e = en_sha env (utf8_encode (entry_payload env e))"

definition new_audit_entry ::
    "audit_env \<Rightarrow> string \<Rightarrow> string \<Rightarrow> string \<Rightarrow> string \<Rightarrow> jdict option \<Rightarrow> string \<Rightarrow> string \<Rightarrow> audit_entry" where
  "new_audit_entry env ts tenant action resource detail user prev =
     (let e = \<lparr>ae_timestamp = ts, ae_tenant_id = tenant, ae_user_id = user, ae_action = action,
               ae_resource = resource, ae_detail = (case detail of Some d \<Rightarrow> d | None \<Rightarrow> []),
               ae_chain_hash = [], ae_previous_hash = prev\<rparr>
      in e\<lparr>ae_chain_hash := entry_compute_hash env e\<rparr>)"

definition audit_to_dict :: "audit_entry \<Rightarrow> jdict" where
  "audit_to_dict e =
     [(''timestamp'', JStr (ae_timestamp e)), (''tenant_id'', JStr (ae_tenant_id e)),
      (''user_id'', JStr (ae_user_id e)), (''action'', JStr (ae_action e)),
      (''resource'', JStr (ae_resource e)), (''detail'', JObj (ae_detail e)),
      (''chain_hash'', JStr (ae_chain_hash e)), (''previous_hash'', JStr (ae_previous_hash e))]"

text \<open>\<open>from_dict\<close> raises on a missing field; a field of another type than the writer's is an error here.\<close>

definition text_field :: "jdict \<Rightarrow> string \<Rightarrow> string option \<Rightarrow> string res" where
  "text_field d k dflt =
     (case map_of d k of
        Some (JStr s) \<Rightarrow> Inr s
      | Some _ \<Rightarrow> Inl (OtherError ''TypeError'')
      | None \<Rightarrow> (case dflt of Some s \<Rightarrow> Inr s | None \<Rightarrow> Inl (KeyError k)))"

definition audit_from_dict :: "jdict \<Rightarrow> audit_entry res" where
  "audit_from_dict d =
     rbind (text_field d ''timestamp'' None) (\<lambda>ts.
     rbind (text_field d ''tenant_id'' None) (\<lambda>tenant.
     rbind (text_field d ''user_id'' (Some [])) (\<lambda>user.
     rbind (text_field d ''action'' None) (\<lambda>action.
     rbind (text_field d ''resource'' (Some [])) (\<lambda>resource.
     rbind (case map_of d ''detail'' of
              None \<Rightarrow> Inr [] | Some (JObj x) \<Rightarrow> Inr x | Some _ \<Rightarrow> Inl (OtherError ''TypeError'')) (\<lambda>detail.
     rbind (text_field d ''chain_hash'' None) (\<lambda>chain_hash.
     rbind (text_field d ''previous_hash'' (Some [])) (\<lambda>prev.
       Inr \<lparr>ae_timestamp = ts, ae_tenant_id = tenant, ae_user_id = user, ae_action = action,
            ae_resource = resource, ae_detail = detail, ae_chain_hash = chain_hash,
            ae_previous_hash = prev\<rparr>))))))))"

section \<open>The log\<close>

type_synonym 's audit_state = "(string \<times> string) list \<times> nat \<times> 's"

definition audit_log_path :: "string \<Rightarrow> string \<Rightarrow> string" where
  "audit_log_path month tenant = ''tenants/'' @ tenant @ ''/audit/'' @ month @ ''.log''"

record audit_call =
  ac_ts :: string
  ac_action :: string
  ac_resource :: string
  ac_detail :: "jdict option"
  ac_user :: string

text \<open>The chain state moves on before the write; a failing read counts as an empty log.\<close>

definition audit_log ::
    "audit_env \<Rightarrow> 's backend \<Rightarrow> string \<Rightarrow> string \<Rightarrow> audit_call \<Rightarrow> 's audit_state \<Rightarrow>
     audit_entry res \<times> 's audit_state" where
  "audit_log env be month tenant c st =
     (case st of (last_hash, n, s) \<Rightarrow>
        let previous = dget last_hash tenant [];
            entry = new_audit_entry env (ac_ts c) tenant (ac_action c) (ac_resource c) (ac_detail c)
                      (ac_user c) previous;
            last_hash = AList.update tenant (ae_chain_hash entry) last_hash;
            encrypted = field_encrypt (en_crypto env) (en_master env) (en_rnd env n)
                          (en_dumps env (JObj (audit_to_dict entry))) tenant ''audit_log'';
            path = audit_log_path month tenant;
            existing = (case be_read_text be path s of Inr (Some t) \<Rightarrow> t | _ \<Rightarrow> []);
            (r, s') = be_write_text be path (existing @ encrypted @ [CHR 0x0A]) s
        in ((case r of Inl e \<Rightarrow> Inl e | Inr _ \<Rightarrow> Inr entry), (last_hash, Suc n, s')))"

text \<open>The entry of one line, if it can be read: anything that fails is logged and skipped.\<close>

definition read_line :: "audit_env \<Rightarrow> string \<Rightarrow> string \<Rightarrow> audit_entry option" where
  "read_line env tenant line =
     (case field_decrypt (en_crypto env) (en_master env) (py_strip line) tenant ''audit_log'' of
        Inl e \<Rightarrow> None
      | Inr text \<Rightarrow>
          (case en_loads env text of
             Some (JObj d) \<Rightarrow> (case audit_from_dict d of Inr e \<Rightarrow> Some e | Inl _ \<Rightarrow> None)
           | _ \<Rightarrow> None))"

fun read_lines :: "audit_env \<Rightarrow> string \<Rightarrow> string list \<Rightarrow> audit_entry list" where
  "read_lines env tenant [] = []"
| "read_lines env tenant (l # ls) =
     (if py_strip l = [] then read_lines env tenant ls
      else case read_line env tenant l of
             None \<Rightarrow> read_lines env tenant ls
           | Some e \<Rightarrow> e # read_lines env tenant ls)"

definition raw_lines :: "string \<Rightarrow> string list" where
  "raw_lines raw = (if raw = [] then [] else py_split (CHR 0x0A) (py_strip raw))"

definition audit_raw :: "'s backend \<Rightarrow> string \<Rightarrow> string \<Rightarrow> 's audit_state \<Rightarrow> string" where
  "audit_raw be month tenant st =
     (case be_read_text be (audit_log_path month tenant) (snd (snd st)) of
        Inr (Some t) \<Rightarrow> t | _ \<Rightarrow> [])"

definition audit_read ::
    "audit_env \<Rightarrow> 's backend \<Rightarrow> string \<Rightarrow> string \<Rightarrow> nat \<Rightarrow> nat \<Rightarrow> 's audit_state \<Rightarrow> audit_entry list" where
  "audit_read env be month tenant limit offset st =
     read_lines env tenant (take limit (drop offset (raw_lines (audit_raw be month tenant st))))"

fun verify_entries :: "audit_env \<Rightarrow> string \<Rightarrow> audit_entry list \<Rightarrow> bool" where
  "verify_entries env prev [] = True"
| "verify_entries env prev (e # es) =
     (if ae_previous_hash e \<noteq> prev then False
      else if ae_chain_hash e \<noteq> entry_compute_hash env e then False
      else verify_entries env (ae_chain_hash e) es)"

definition audit_verify_chain :: "audit_env \<Rightarrow> 's backend \<Rightarrow> string \<Rightarrow> string \<Rightarrow> 's audit_state \<Rightarrow> bool" where
  "audit_verify_chain env be month tenant st =
     verify_entries env [] (audit_read env be month tenant 10000 0 st)"

definition audit_count :: "'s backend \<Rightarrow> string \<Rightarrow> string \<Rightarrow> 's audit_state \<Rightarrow> nat" where
  "audit_count be month tenant st =
     length (filter (\<lambda>l. py_strip l \<noteq> []) (raw_lines (audit_raw be month tenant st)))"

definition audit_purge :: "'s backend \<Rightarrow> string \<Rightarrow> string \<Rightarrow> 's audit_state \<Rightarrow> 's audit_state" where
  "audit_purge be month tenant st =
     (case st of (last_hash, n, s) \<Rightarrow>
        case be_write_text be (audit_log_path month tenant) [] s of
          (Inr _, s') \<Rightarrow> (AList.delete tenant last_hash, n, s')
        | (Inl e, s') \<Rightarrow> (last_hash, n, s'))"

section \<open>The entries as a hash chain\<close>

lemma entry_payload_end:
  "\<exists>u. entry_payload env e = u @ CHR ''|'' # ae_previous_hash e"
  unfolding entry_payload_def
  by (rule exI [of _ "py_join ''|'' [ae_timestamp e, ae_tenant_id e, ae_user_id e, ae_action e,
        ae_resource e, en_dumps env (sort_keys (JObj (ae_detail e)))]"]) simp

lemma payload_fixes_prev:
  assumes "entry_payload env e = entry_payload env e'"
    and "CHR ''|'' \<notin> set (ae_previous_hash e)" and "CHR ''|'' \<notin> set (ae_previous_hash e')"
  shows "ae_previous_hash e = ae_previous_hash e'"
proof -
  obtain u v where "entry_payload env e = u @ CHR ''|'' # ae_previous_hash e"
      "entry_payload env e' = v @ CHR ''|'' # ae_previous_hash e'"
    using entry_payload_end by metis
  with assms(1) have "u @ CHR ''|'' # ae_previous_hash e = v @ CHR ''|'' # ae_previous_hash e'" by simp
  then have "rev (ae_previous_hash e) @ CHR ''|'' # rev u = rev (ae_previous_hash e') @ CHR ''|'' # rev v"
    by (metis append.assoc append_Cons append_Nil rev.simps(2) rev_append)
  with assms(2,3) show ?thesis by (simp add: sep_inj)
qed

interpretation audit_chain: hash_chain ae_previous_hash ae_chain_hash "entry_payload env"
    "entry_compute_hash env" "\<lambda>h. CHR ''|'' \<notin> set h"
  for env
  by unfold_locales (simp add: entry_compute_hash_def, rule payload_fixes_prev)

lemma verify_entries_chained: "verify_entries env p es \<longleftrightarrow> audit_chain.chained env p es"
  by (induction es arbitrary: p) auto

section \<open>Lines and text\<close>

definition clean_line :: "string \<Rightarrow> bool" where
  "clean_line l \<longleftrightarrow> l \<noteq> [] \<and> (\<forall>c \<in> set l. \<not> is_space c)"

definition lines_text :: "string list \<Rightarrow> string" where
  "lines_text ls = concat (map (\<lambda>l. l @ [CHR 0x0A]) ls)"

lemma dropWhile_clean: "clean_line l \<Longrightarrow> dropWhile is_space (l @ s) = l @ s"
  by (cases l) (auto simp: clean_line_def)

lemma dropWhile_clean_rev: "clean_line l \<Longrightarrow> dropWhile is_space (rev l @ s) = rev l @ s"
  by (cases l rule: rev_cases) (auto simp: clean_line_def)

lemma strip_clean: "clean_line l \<Longrightarrow> py_strip l = l"
  using dropWhile_clean [of l "[]"] dropWhile_clean_rev [of l "[]"] by (simp add: py_strip_def)

lemma split_lines_text:
  "\<forall>l \<in> set (us @ [l0]). clean_line l \<Longrightarrow> py_split (CHR 0x0A) (lines_text us @ l0) = us @ [l0]"
proof (induction us)
  case Nil
  then have "CHR 0x0A \<notin> set l0" by (auto simp: clean_line_def is_space_def)
  then show ?case by (simp add: lines_text_def py_split_no_sep)
next
  case (Cons u us)
  then have "CHR 0x0A \<notin> set u" by (auto simp: clean_line_def is_space_def)
  with Cons show ?case by (simp add: lines_text_def py_split_sep)
qed

lemma raw_lines_text: "\<forall>l \<in> set ls. clean_line l \<Longrightarrow> raw_lines (lines_text ls) = ls"
proof (cases ls rule: rev_cases)
  case Nil
  then show ?thesis by (simp add: raw_lines_def lines_text_def)
next
  case (snoc us l0)
  assume all: "\<forall>l \<in> set ls. clean_line l"
  then have l0: "clean_line l0" by (simp add: snoc)
  have tx: "lines_text ls = (lines_text us @ l0) @ [CHR 0x0A]" by (simp add: snoc lines_text_def)
  have front: "dropWhile is_space (lines_text ls) = lines_text ls"
  proof (cases us)
    case Nil
    then show ?thesis using dropWhile_clean [OF l0, of "[CHR 0x0A]"] by (simp add: snoc lines_text_def)
  next
    case (Cons u us')
    with all have "clean_line u" by (simp add: snoc)
    from dropWhile_clean [OF this] show ?thesis by (simp add: snoc lines_text_def Cons)
  qed
  have "dropWhile is_space (rev (lines_text ls)) = rev (lines_text us @ l0)"
    unfolding tx using dropWhile_clean_rev [OF l0] by (simp add: is_space_def)
  then have "py_strip (lines_text ls) = lines_text us @ l0"
    unfolding py_strip_def front by simp
  moreover have "lines_text ls \<noteq> []" by (simp add: tx)
  ultimately show ?thesis
    using split_lines_text [of us l0] all by (simp add: raw_lines_def snoc)
qed

lemma lines_text_snoc: "lines_text (ls @ [l]) = lines_text ls @ l @ [CHR 0x0A]"
  by (simp add: lines_text_def)

lemma read_lines_all:
  "\<forall>l \<in> set ls. clean_line l \<Longrightarrow> map (read_line env tenant) ls = map Some es \<Longrightarrow>
   read_lines env tenant ls = es"
proof (induction ls arbitrary: es)
  case Nil
  then show ?case by simp
next
  case (Cons l ls)
  then obtain e es' where es: "es = e # es'" by (cases es) auto
  have "py_strip l \<noteq> []" using Cons.prems(1) strip_clean [of l] by (auto simp: clean_line_def)
  with Cons es show ?case by simp
qed

lemma audit_dict_round_trip: "audit_from_dict (audit_to_dict e) = Inr e"
  by (simp add: audit_from_dict_def audit_to_dict_def text_field_def)

section \<open>What one call does\<close>

text \<open>The primitives behave as documented, and JSON text reproduces the entry.\<close>

definition env_ok :: "audit_env \<Rightarrow> bool" where
  "env_ok env \<longleftrightarrow> aead_correct (en_crypto env) \<and> aead_binding (en_crypto env)
     \<and> (\<forall>n. length (en_rnd env n) = 12)"

definition stores_entry :: "audit_env \<Rightarrow> audit_entry \<Rightarrow> bool" where
  "stores_entry env e \<longleftrightarrow>
     en_loads env (en_dumps env (JObj (audit_to_dict e))) = Some (JObj (audit_to_dict e))"

text \<open>The file holds the lines \<open>ls\<close>, which read as the entries \<open>es\<close>.\<close>

definition log_holds :: "audit_env \<Rightarrow> string \<Rightarrow> string \<Rightarrow> string list \<Rightarrow> audit_entry list \<Rightarrow> bool" where
  "log_holds env tenant raw ls es \<longleftrightarrow>
     raw = lines_text ls \<and> (\<forall>l \<in> set ls. clean_line l) \<and> map (read_line env tenant) ls = map Some es"

lemma local_text_read:
  "be_write_text (local_backend parse render base) k t fs = (Inr (), fs') \<Longrightarrow>
   be_read_text (local_backend parse render base) k fs' = Inr (Some t)"
  by (auto simp: local_backend_def local_write_text_def local_write_def local_read_text_def
      put_file_lookup split: sum.splits if_splits)

lemma audit_log_step:
  fixes be :: "files backend"
  assumes "be = local_backend parse render base" and "env_ok env"
    and "audit_log env be month tenant c st = (Inr e, st')" and "stores_entry env e"
    and "log_holds env tenant (audit_raw be month tenant st) ls es"
  shows "ae_previous_hash e = dget (fst st) tenant []"
    and "ae_chain_hash e = entry_compute_hash env e"
    and "fst st' = AList.update tenant (ae_chain_hash e) (fst st)"
    and "\<exists>l. log_holds env tenant (audit_raw be month tenant st') (ls @ [l]) (es @ [e])"
proof -
  obtain last_hash n s where st: "st = (last_hash, n, s)" by (cases st)
  let ?path = "audit_log_path month tenant"
  define ent where "ent = new_audit_entry env (ac_ts c) tenant (ac_action c) (ac_resource c) (ac_detail c)
      (ac_user c) (dget last_hash tenant [])"
  define enc where "enc = field_encrypt (en_crypto env) (en_master env) (en_rnd env n)
      (en_dumps env (JObj (audit_to_dict ent))) tenant ''audit_log''"
  let ?raw = "audit_raw be month tenant st"
  obtain r s' where w: "be_write_text be ?path (?raw @ enc @ [CHR 0x0A]) s = (r, s')"
    by (cases "be_write_text be ?path (?raw @ enc @ [CHR 0x0A]) s")
  have raw: "(case be_read_text be ?path s of Inr (Some t) \<Rightarrow> t | _ \<Rightarrow> []) = ?raw"
    by (simp add: audit_raw_def st)
  have log: "audit_log env be month tenant c st =
      ((case r of Inl e \<Rightarrow> Inl e | Inr _ \<Rightarrow> Inr ent),
       (AList.update tenant (ae_chain_hash ent) last_hash, Suc n, s'))"
    unfolding audit_log_def st prod.case Let_def ent_def [symmetric] enc_def [symmetric] raw [unfolded st]
    using w [unfolded st] by simp
  from assms(3) have r: "r = Inr ()" and e: "e = ent"
    and st': "st' = (AList.update tenant (ae_chain_hash ent) last_hash, Suc n, s')"
    unfolding log by (auto split: sum.splits)
  show "ae_previous_hash e = dget (fst st) tenant []"
    by (simp add: e ent_def new_audit_entry_def Let_def st)
  show "ae_chain_hash e = entry_compute_hash env e"
    by (simp add: e ent_def new_audit_entry_def Let_def entry_compute_hash_def entry_payload_def)
  show "fst st' = AList.update tenant (ae_chain_hash e) (fst st)" by (simp add: st' e st)
  have raw': "audit_raw be month tenant st' = ?raw @ enc @ [CHR 0x0A]"
    using local_text_read [OF w [unfolded r, unfolded assms(1)]] by (simp add: audit_raw_def st' assms(1))
  have "length (en_rnd env n) = 12" using assms(2) by (simp add: env_ok_def)
  then have "en_rnd env n \<noteq> []" by auto
  then have clean: "clean_line enc"
    using b64_encode_no_space by (auto simp: clean_line_def enc_def field_encrypt_def Let_def)
  have "field_decrypt (en_crypto env) (en_master env) enc tenant ''audit_log'' =
      Inr (en_dumps env (JObj (audit_to_dict ent)))"
    unfolding enc_def using assms(2) field_decrypt_encrypt unfolding env_ok_def by blast
  then have "read_line env tenant enc = Some ent"
    using assms(4) by (simp add: read_line_def strip_clean [OF clean] e stores_entry_def audit_dict_round_trip)
  with assms(5) clean have "log_holds env tenant (audit_raw be month tenant st') (ls @ [enc]) (es @ [e])"
    by (simp add: log_holds_def raw' lines_text_snoc e)
  then show "\<exists>l. log_holds env tenant (audit_raw be month tenant st') (ls @ [l]) (es @ [e])" ..
qed

lemma verify_log_holds:
  assumes "log_holds env tenant (audit_raw be month tenant st) ls es"
  shows "audit_verify_chain env be month tenant st \<longleftrightarrow> audit_chain.chained env [] (take 10000 es)"
    and "audit_read env be month tenant limit 0 st = take limit es"
    and "audit_count be month tenant st = length es"
proof -
  have ls: "raw_lines (audit_raw be month tenant st) = ls"
    using assms raw_lines_text by (auto simp: log_holds_def)
  have "read_lines env tenant (take k ls) = take k es" for k
    using assms by (intro read_lines_all)
      (auto simp: log_holds_def take_map [symmetric] dest: in_set_takeD)
  then show "audit_read env be month tenant limit 0 st = take limit es" for limit
    by (simp add: audit_read_def ls)
  then show "audit_verify_chain env be month tenant st \<longleftrightarrow> audit_chain.chained env [] (take 10000 es)"
    by (simp add: audit_verify_chain_def verify_entries_chained)
  have "filter (\<lambda>l. py_strip l \<noteq> []) ls = ls"
    using assms strip_clean by (intro filter_True) (auto simp: log_holds_def clean_line_def)
  moreover have "length ls = length es"
    using assms by (auto simp: log_holds_def dest: arg_cong [where f = length])
  ultimately show "audit_count be month tenant st = length es" by (simp add: audit_count_def ls)
qed

text \<open>Logging a list of calls, stopping at the first that raises.\<close>

fun audit_run ::
    "audit_env \<Rightarrow> 's backend \<Rightarrow> string \<Rightarrow> string \<Rightarrow> audit_call list \<Rightarrow> 's audit_state \<Rightarrow>
     audit_entry list res \<times> 's audit_state" where
  "audit_run env be month tenant [] st = (Inr [], st)"
| "audit_run env be month tenant (c # cs) st =
     (case audit_log env be month tenant c st of
        (Inl e, st') \<Rightarrow> (Inl e, st')
      | (Inr e, st') \<Rightarrow>
          (case audit_run env be month tenant cs st' of
             (Inl x, st'') \<Rightarrow> (Inl x, st'')
           | (Inr es, st'') \<Rightarrow> (Inr (e # es), st'')))"

definition chain_state :: "audit_env \<Rightarrow> 's backend \<Rightarrow> string \<Rightarrow> string \<Rightarrow> 's audit_state \<Rightarrow> audit_entry list \<Rightarrow> bool" where
  "chain_state env be month tenant st es \<longleftrightarrow>
     (\<exists>ls. log_holds env tenant (audit_raw be month tenant st) ls es)
     \<and> audit_chain.chained env [] es \<and> dget (fst st) tenant [] = audit_chain.chain_end [] es"

lemma chain_state_step:
  assumes "be = local_backend parse render base" and "env_ok env"
    and "audit_log env be month tenant c st = (Inr e, st')" and "stores_entry env e"
    and "chain_state env be month tenant st es"
  shows "chain_state env be month tenant st' (es @ [e])"
proof -
  from assms(5) obtain ls where h: "log_holds env tenant (audit_raw be month tenant st) ls es"
    and ch: "audit_chain.chained env [] es" "dget (fst st) tenant [] = audit_chain.chain_end [] es"
    by (auto simp: chain_state_def)
  note step = audit_log_step [OF assms(1-4) h]
  show ?thesis
    using step(4) ch
    by (auto simp add: chain_state_def audit_chain.chained_snoc step(1-3) audit_chain.chain_end_def)
qed

lemma chain_state_run:
  assumes "be = local_backend parse render base" and "env_ok env"
    and "audit_run env be month tenant cs st = (Inr fs, st')" and "\<forall>e \<in> set fs. stores_entry env e"
    and "chain_state env be month tenant st es"
  shows "chain_state env be month tenant st' (es @ fs)"
  using assms(3-5)
proof (induction cs arbitrary: st es fs)
  case Nil
  then show ?case by simp
next
  case (Cons c cs)
  obtain r st1 where log: "audit_log env be month tenant c st = (r, st1)"
    by (cases "audit_log env be month tenant c st")
  with Cons.prems(1) obtain e where r: "r = Inr e" by (cases r) auto
  obtain r2 st2 where run: "audit_run env be month tenant cs st1 = (r2, st2)"
    by (cases "audit_run env be month tenant cs st1")
  with Cons.prems(1) log r obtain gs where r2: "r2 = Inr gs" "fs = e # gs" "st2 = st'"
    by (cases r2) auto
  have "chain_state env be month tenant st1 (es @ [e])"
    using chain_state_step [OF assms(1,2) log [unfolded r] _ Cons.prems(3)] Cons.prems(2) r2 by simp
  from Cons.IH [OF run [unfolded r2] _ this] Cons.prems(2) r2 show ?case by simp
qed

text \<open>A small environment for the examples: two documents with texts of their own, a constant hash.\<close>

definition demo_env :: "json \<Rightarrow> json \<Rightarrow> audit_env" where
  "demo_env d1 d2 =
     \<lparr>en_crypto = framing_crypto, en_master = ''m'', en_rnd = (\<lambda>_. replicate 12 CHR ''n''),
      en_sha = (\<lambda>_. ''h''), en_dumps = (\<lambda>v. if v = d1 then ''1'' else ''2''),
      en_loads = (\<lambda>s. Some (if s = ''1'' then d1 else d2))\<rparr>"

lemma demo_env_ok: "env_ok (demo_env d1 d2)"
  by (simp add: env_ok_def demo_env_def framing_crypto_ok)

definition demo_call :: audit_call where
  "demo_call = \<lparr>ac_ts = ''t'', ac_action = ''run'', ac_resource = [], ac_detail = None, ac_user = []\<rparr>"

definition demo_entry :: "string \<Rightarrow> audit_entry" where
  "demo_entry prev =
     \<lparr>ae_timestamp = ''t'', ae_tenant_id = ''t1'', ae_user_id = [], ae_action = ''run'', ae_resource = [],
      ae_detail = [], ae_chain_hash = ''h'', ae_previous_hash = prev\<rparr>"

definition demo1 :: audit_env where
  "demo1 = demo_env (JObj (audit_to_dict (demo_entry []))) (JObj (audit_to_dict (demo_entry ''h'')))"

abbreviation demo_store :: "files backend" where
  "demo_store \<equiv> local_backend (\<lambda>_. None) (\<lambda>_. []) (py_path ''/data'')"

lemma demo_stores: "prev = [] \<or> prev = ''h'' \<Longrightarrow> stores_entry demo1 (demo_entry prev)"
  by (auto simp: stores_entry_def demo1_def demo_env_def audit_to_dict_def demo_entry_def)

lemma demo_write:
  "be_write_text demo_store (audit_log_path ''m1'' ''t1'') t [] =
     (Inr (), [(py_path ''/data/tenants/t1/audit/m1.log'', TextFile t)])"
  "be_write_text demo_store (audit_log_path ''m1'' ''t1'') t
      [(py_path ''/data/tenants/t1/audit/m1.log'', TextFile u)] =
     (Inr (), [(py_path ''/data/tenants/t1/audit/m1.log'', TextFile t)])"
  "be_write_text demo_store (audit_log_path ''m2'' ''t1'') t
      [(py_path ''/data/tenants/t1/audit/m1.log'', TextFile u)] =
     (Inr (), [(py_path ''/data/tenants/t1/audit/m1.log'', TextFile u),
               (py_path ''/data/tenants/t1/audit/m2.log'', TextFile t)])"
  by (simp_all add: local_backend_def local_write_text_def local_write_def audit_log_path_def
      resolve_key_def py_path_def leading_slashes_def path_join_def path_text_def can_write_def
      is_dir_def strictly_under_def put_file_def tmp_path_def name_stem_def)

lemma demo_entry_made: "new_audit_entry demo1 ''t'' ''t1'' ''run'' [] None [] prev = demo_entry prev"
  by (simp add: new_audit_entry_def entry_compute_hash_def demo1_def demo_env_def demo_entry_def Let_def)

lemma demo_log:
  "\<exists>t. audit_log demo1 demo_store ''m1'' ''t1'' demo_call ([], 0, []) =
    (Inr (demo_entry []), ([(''t1'', ''h'')], 1, [(py_path ''/data/tenants/t1/audit/m1.log'', TextFile t)]))"
  by (simp add: audit_log_def demo_call_def demo_entry_made demo_write Let_def)
    (simp add: demo_entry_def)

lemma demo_raw:
  "audit_raw demo_store ''m1'' ''t1'' (l, n, []) = []"
  "audit_raw demo_store ''m1'' ''t1'' (l, n, [(py_path ''/data/tenants/t1/audit/m1.log'', TextFile t)]) = t"
  "audit_raw demo_store ''m2'' ''t1'' (l, n, [(py_path ''/data/tenants/t1/audit/m1.log'', TextFile t)]) = []"
  by (simp_all add: audit_raw_def local_backend_def local_read_text_def audit_log_path_def
      resolve_key_def py_path_def leading_slashes_def path_join_def path_text_def)

section \<open>Properties\<close>

text \<open>Everything logged for a tenant in one month by one process is read back, decrypted, in order, is
counted, and verifies.\<close>

theorem audit_log_reads_back_and_verifies:
  assumes "be = local_backend parse render base" and "env_ok env"
    and "audit_raw be month tenant st = []" and "dget (fst st) tenant [] = []"
    and "audit_run env be month tenant cs st = (Inr es, st')" and "\<forall>e \<in> set es. stores_entry env e"
  shows "audit_verify_chain env be month tenant st' \<and> audit_count be month tenant st' = length cs
    \<and> audit_read env be month tenant limit 0 st' = take limit es"
proof -
  have "chain_state env be month tenant st []"
    using assms(3,4) by (simp add: chain_state_def log_holds_def lines_text_def audit_chain.chain_end_def)
  from chain_state_run [OF assms(1,2,5,6) this]
  obtain ls where h: "log_holds env tenant (audit_raw be month tenant st') ls es"
    and ch: "audit_chain.chained env [] es" by (auto simp: chain_state_def)
  have "length es = length cs"
    using assms(5)
  proof (induction cs arbitrary: st es)
    case Nil
    then show ?case by simp
  next
    case (Cons c cs)
    then show ?case by (force split: prod.splits sum.splits)
  qed
  with verify_log_holds [OF h] audit_chain.chained_take [OF ch] show ?thesis by simp
qed

theorem audit_log_reads_back_and_verifies_witness:
  "\<exists>st'. audit_run demo1 demo_store ''m1'' ''t1'' [demo_call] ([], 0, []) = (Inr [demo_entry []], st')
     \<and> audit_verify_chain demo1 demo_store ''m1'' ''t1'' st'
     \<and> audit_read demo1 demo_store ''m1'' ''t1'' 100 0 st' = [demo_entry []]"
proof -
  obtain st' where run: "audit_run demo1 demo_store ''m1'' ''t1'' [demo_call] ([], 0, [])
      = (Inr [demo_entry []], st')"
    using demo_log by auto
  have "env_ok demo1" by (simp add: demo1_def demo_env_ok)
  from audit_log_reads_back_and_verifies [OF refl this _ _ run, of 100] demo_stores run
  show ?thesis by (simp add: demo_raw)
qed

text \<open>A log that verifies stops verifying, with no tampering, at its first entry of a new month and at the
first entry after a restart: the one names the last hash of the old file, the other the empty hash.\<close>

theorem audit_rollover_breaks_chain:
  assumes "be = local_backend parse render base" and "env_ok env"
    and "chain_state env be month tenant st es" and "es \<noteq> []" and "length es < 10000"
    and "\<And>p. en_sha env p \<noteq> []"
    and "audit_raw be month' tenant st = []"
    and "audit_log env be month' tenant c st = (Inr e1, st1)" and "stores_entry env e1"
    and "audit_log env be month tenant c ([], n, snd (snd st)) = (Inr e2, st2)" and "stores_entry env e2"
  shows "\<not> audit_verify_chain env be month' tenant st1 \<and> \<not> audit_verify_chain env be month tenant st2"
proof -
  from assms(3) obtain ls where h: "log_holds env tenant (audit_raw be month tenant st) ls es"
    and ch: "audit_chain.chained env [] es" "dget (fst st) tenant [] = audit_chain.chain_end [] es"
    by (auto simp: chain_state_def)
  have "last es \<in> set es" using assms(4) by simp
  then have "ae_chain_hash (last es) = entry_compute_hash env (last es)"
    using ch(1) audit_chain.chained_hashes by blast
  then have ne: "audit_chain.chain_end [] es \<noteq> []"
    using assms(4,6) by (simp add: audit_chain.chain_end_def entry_compute_hash_def)
  have "log_holds env tenant (audit_raw be month' tenant st) [] []"
    using assms(7) by (simp add: log_holds_def lines_text_def)
  note a = audit_log_step [OF assms(1,2,8,9) this]
  obtain l1 where h1: "log_holds env tenant (audit_raw be month' tenant st1) [l1] [e1]" using a(4) by auto
  have "\<not> audit_chain.chained env [] (take 10000 [e1])" using a(1) ne ch(2) by simp
  then have first: "\<not> audit_verify_chain env be month' tenant st1" using verify_log_holds(1) [OF h1] by simp
  have "audit_raw be month tenant ([], n, snd (snd st)) = audit_raw be month tenant st"
    by (simp add: audit_raw_def)
  with h have "log_holds env tenant (audit_raw be month tenant ([], n, snd (snd st))) ls es" by simp
  note b = audit_log_step [OF assms(1,2,10,11) this]
  obtain l2 where h2: "log_holds env tenant (audit_raw be month tenant st2) (ls @ [l2]) (es @ [e2])"
    using b(4) by auto
  have "take 10000 (es @ [e2]) = es @ [e2]" using assms(5) by simp
  moreover have "\<not> audit_chain.chained env [] (es @ [e2])"
    using b(1) ne by (simp add: audit_chain.chained_snoc)
  ultimately have "\<not> audit_verify_chain env be month tenant st2"
    using verify_log_holds(1) [OF h2] by simp
  with first show ?thesis ..
qed

theorem audit_rollover_breaks_chain_witness:
  "\<exists>st st1 e1. audit_verify_chain demo1 demo_store ''m1'' ''t1'' st
     \<and> audit_log demo1 demo_store ''m2'' ''t1'' demo_call st = (Inr e1, st1)
     \<and> \<not> audit_verify_chain demo1 demo_store ''m2'' ''t1'' st1"
proof -
  obtain t where log: "audit_log demo1 demo_store ''m1'' ''t1'' demo_call ([], 0, []) =
      (Inr (demo_entry []), ([(''t1'', ''h'')], 1, [(py_path ''/data/tenants/t1/audit/m1.log'', TextFile t)]))"
    using demo_log by blast
  let ?fs = "[(py_path ''/data/tenants/t1/audit/m1.log'', TextFile t)]"
  let ?st = "([(''t1'', ''h'')], 1, ?fs) :: files audit_state"
  have ok: "env_ok demo1" by (simp add: demo1_def demo_env_ok)
  have "chain_state demo1 demo_store ''m1'' ''t1'' ([], 0, []) []"
    by (simp add: chain_state_def log_holds_def lines_text_def demo_raw audit_chain.chain_end_def)
  from chain_state_step [OF refl ok log demo_stores this]
  have cs: "chain_state demo1 demo_store ''m1'' ''t1'' ?st [demo_entry []]" by simp
  then have v: "audit_verify_chain demo1 demo_store ''m1'' ''t1'' ?st"
    using verify_log_holds(1) by (fastforce simp: chain_state_def)
  obtain st1 where log1: "audit_log demo1 demo_store ''m2'' ''t1'' demo_call ?st = (Inr (demo_entry ''h''), st1)"
    by (simp add: audit_log_def demo_call_def demo_entry_made demo_write Let_def)
  obtain st2 where log2: "audit_log demo1 demo_store ''m1'' ''t1'' demo_call ([], 1, snd (snd ?st))
      = (Inr (demo_entry []), st2)"
    by (simp add: audit_log_def demo_call_def demo_entry_made demo_write Let_def)
  have "\<And>p. en_sha demo1 p \<noteq> []" by (simp add: demo1_def demo_env_def)
  then have "\<not> audit_verify_chain demo1 demo_store ''m2'' ''t1'' st1"
    using audit_rollover_breaks_chain [OF refl ok cs _ _ _ _ log1 _ log2] demo_stores demo_raw by simp
  with v log1 show ?thesis by blast
qed

lemma read_lines_append: "read_lines env tenant (xs @ ys) = read_lines env tenant xs @ read_lines env tenant ys"
  by (induction xs) (auto split: option.splits)

text \<open>Damage at the end goes unnoticed: when any number of the last lines of a verifying log are cut off
or overwritten by lines that do not decrypt, the log still verifies, because unreadable lines are
skipped and no end is recorded.\<close>

theorem audit_tail_damage_undetected:
  assumes "log_holds env tenant (audit_raw be month tenant st) ls es"
    and "verify_entries env [] es"
    and "audit_raw be month tenant st' = lines_text (take k ls @ gs)"
    and "\<forall>g \<in> set gs. clean_line g \<and> read_line env tenant g = None"
  shows "audit_verify_chain env be month tenant st'"
proof -
  have cl: "\<forall>l \<in> set (take k ls @ gs). clean_line l"
    using assms(1,4) by (auto simp: log_holds_def dest: in_set_takeD)
  have "read_lines env tenant xs = []" if "set xs \<subseteq> set gs" for xs
    using that assms(4) by (induction xs) auto
  then have g: "read_lines env tenant (take j gs) = []" for j
    by (simp add: set_take_subset)
  have t: "read_lines env tenant (take j ls) = take j es" for j
    using assms(1) by (intro read_lines_all)
      (auto simp: log_holds_def take_map [symmetric] dest: in_set_takeD)
  have "audit_read env be month tenant 10000 0 st' = take (min 10000 k) es"
    by (simp add: audit_read_def assms(3) raw_lines_text [OF cl] read_lines_append g t)
  with assms(2) show ?thesis
    by (simp add: audit_verify_chain_def verify_entries_chained audit_chain.chained_take)
qed

theorem audit_tail_damage_undetected_witness:
  "\<exists>st. audit_count demo_store ''m1'' ''t1'' st = 1 \<and> audit_read demo1 demo_store ''m1'' ''t1'' 9 0 st = [demo_entry []]
     \<and> audit_verify_chain demo1 demo_store ''m1'' ''t1''
         ([], 0, [(py_path ''/data/tenants/t1/audit/m1.log'', TextFile (''x'' @ [CHR 0x0A]))])"
proof -
  obtain t where log: "audit_log demo1 demo_store ''m1'' ''t1'' demo_call ([], 0, []) =
      (Inr (demo_entry []), ([(''t1'', ''h'')], 1, [(py_path ''/data/tenants/t1/audit/m1.log'', TextFile t)]))"
    using demo_log by blast
  let ?st = "([(''t1'', ''h'')], 1, [(py_path ''/data/tenants/t1/audit/m1.log'', TextFile t)]) :: files audit_state"
  have ok: "env_ok demo1" by (simp add: demo1_def demo_env_ok)
  have "chain_state demo1 demo_store ''m1'' ''t1'' ([], 0, []) []"
    by (simp add: chain_state_def log_holds_def lines_text_def demo_raw audit_chain.chain_end_def)
  from chain_state_step [OF refl ok log demo_stores this]
  obtain ls where h: "log_holds demo1 ''t1'' (audit_raw demo_store ''m1'' ''t1'' ?st) ls [demo_entry []]"
    and ch: "verify_entries demo1 [] [demo_entry []]"
    by (auto simp: chain_state_def verify_entries_chained)
  have "read_line demo1 ''t1'' ''x'' = None"
    by (simp add: read_line_def field_decrypt_def b64_decode_def b64_value_def b64_alphabet_def Let_def
        py_strip_def is_space_def)
  then have "audit_verify_chain demo1 demo_store ''m1'' ''t1''
      ([], 0, [(py_path ''/data/tenants/t1/audit/m1.log'', TextFile (''x'' @ [CHR 0x0A]))])"
    by (intro audit_tail_damage_undetected [OF h ch, of _ 0 "[''x'']"])
      (simp_all add: demo_raw lines_text_def clean_line_def is_space_def)
  then show ?thesis
    using verify_log_holds(2,3) [OF h] by (intro exI [of _ ?st]) simp
qed

text \<open>The payload does not separate its fields: moving a vertical bar between the user and the action
leaves the hash as it is.\<close>

lemma payload_ambiguous:
  "entry_compute_hash env (e\<lparr>ae_user_id := u @ ''|'' @ x, ae_action := a\<rparr>) =
   entry_compute_hash env (e\<lparr>ae_user_id := u, ae_action := x @ ''|'' @ a\<rparr>)"
  by (simp add: entry_compute_hash_def entry_payload_def)

end
