(* ===== verification/TaskQueue.thy ===== *)
theory TaskQueue
  imports PyText
begin

text \<open>
  \<open>src/brain/queue/tasks.py\<close>: messages and the in-process task queue. A \<open>datetime\<close> is its
  number of microseconds since the epoch and whether it carries a time zone; its ISO text and the
  parsing of that text are the parameters \<open>to_iso\<close> and \<open>from_iso\<close>. \<open>dumps\<close> and \<open>loads\<close> are
  the text of a JSON document and its parsing. \<open>queue.Queue\<close> is the list of its items with the
  counter of unfinished tasks that \<open>task_done\<close> lowers; its locks make each method one step.
\<close>

section \<open>Messages\<close>

record datetime =
  dt_micros :: int
  dt_aware :: bool

datatype message_type =
  PIPELINE_RUN | DIGEST_GENERATE | LLM_GENERATE | NOTION_SYNC | BOARD_ANALYSIS | SCORING_CONFIG
  | TENANT_OPERATION | NOTEBOOKLM_EXTRACT | RAG_QUERY

fun message_type_value :: "message_type \<Rightarrow> string" where
  "message_type_value PIPELINE_RUN = ''pipeline_run''"
| "message_type_value DIGEST_GENERATE = ''digest_generate''"
| "message_type_value LLM_GENERATE = ''llm_generate''"
| "message_type_value NOTION_SYNC = ''notion_sync''"
| "message_type_value BOARD_ANALYSIS = ''board_analysis''"
| "message_type_value SCORING_CONFIG = ''scoring_config''"
| "message_type_value TENANT_OPERATION = ''tenant_operation''"
| "message_type_value NOTEBOOKLM_EXTRACT = ''notebooklm_extract''"
| "message_type_value RAG_QUERY = ''rag_query''"

definition all_message_types :: "message_type list" where
  "all_message_types =
     [PIPELINE_RUN, DIGEST_GENERATE, LLM_GENERATE, NOTION_SYNC, BOARD_ANALYSIS, SCORING_CONFIG,
      TENANT_OPERATION, NOTEBOOKLM_EXTRACT, RAG_QUERY]"

definition message_type_of :: "string \<Rightarrow> message_type res" where
  "message_type_of s =
     (case map_of (map (\<lambda>t. (message_type_value t, t)) all_message_types) s of
        Some t \<Rightarrow> Inr t
      | None \<Rightarrow> Inl (ValueError ''is not a valid MessageType''))"

record queue_message =
  qm_message_id :: string
  qm_message_type :: message_type
  qm_tenant_id :: string
  qm_payload :: jdict
  qm_created_at :: datetime
  qm_retry_count :: int
  qm_max_retries :: int

definition new_message :: "string \<Rightarrow> message_type \<Rightarrow> string \<Rightarrow> jdict \<Rightarrow> datetime \<Rightarrow> queue_message" where
  "new_message mid typ tenant payload now =
     \<lparr>qm_message_id = mid, qm_message_type = typ, qm_tenant_id = tenant, qm_payload = payload,
      qm_created_at = now, qm_retry_count = 0, qm_max_retries = 3\<rparr>"

definition message_dict :: "(datetime \<Rightarrow> string) \<Rightarrow> queue_message \<Rightarrow> jdict" where
  "message_dict to_iso m =
     [(''message_id'', JStr (qm_message_id m)),
      (''message_type'', JStr (message_type_value (qm_message_type m))),
      (''tenant_id'', JStr (qm_tenant_id m)), (''payload'', JObj (qm_payload m)),
      (''created_at'', JStr (to_iso (qm_created_at m))),
      (''retry_count'', JInt (qm_retry_count m)), (''max_retries'', JInt (qm_max_retries m))]"

definition message_to_json :: "(json \<Rightarrow> string) \<Rightarrow> (datetime \<Rightarrow> string) \<Rightarrow> queue_message \<Rightarrow> string" where
  "message_to_json dumps to_iso m = dumps (JObj (message_dict to_iso m))"

text \<open>Reading typed fields: \<open>d[k]\<close> (no default) or \<open>d.get(k, default)\<close>; a value of another type
than the writer's is an error here.\<close>

definition str_field :: "jdict \<Rightarrow> string \<Rightarrow> string option \<Rightarrow> string res" where
  "str_field d k dflt =
     (case map_of d k of
        Some (JStr s) \<Rightarrow> Inr s | Some _ \<Rightarrow> Inl (OtherError ''TypeError'')
      | None \<Rightarrow> (case dflt of Some s \<Rightarrow> Inr s | None \<Rightarrow> Inl (KeyError k)))"

definition int_field :: "jdict \<Rightarrow> string \<Rightarrow> int \<Rightarrow> int res" where
  "int_field d k dflt =
     (case map_of d k of
        Some (JInt i) \<Rightarrow> Inr i | Some _ \<Rightarrow> Inl (OtherError ''TypeError'') | None \<Rightarrow> Inr dflt)"

definition bool_field :: "jdict \<Rightarrow> string \<Rightarrow> bool \<Rightarrow> bool res" where
  "bool_field d k dflt =
     (case map_of d k of
        Some (JBool b) \<Rightarrow> Inr b | Some _ \<Rightarrow> Inl (OtherError ''TypeError'') | None \<Rightarrow> Inr dflt)"

definition dict_field :: "jdict \<Rightarrow> string \<Rightarrow> jdict res" where
  "dict_field d k =
     (case map_of d k of
        Some (JObj x) \<Rightarrow> Inr x | Some _ \<Rightarrow> Inl (OtherError ''TypeError'') | None \<Rightarrow> Inr [])"

lemma field_Cons [simp]:
  "str_field ((a, v) # d) k x =
     (if k = a then (case v of JStr s \<Rightarrow> Inr s | _ \<Rightarrow> Inl (OtherError ''TypeError'')) else str_field d k x)"
  "int_field ((a, v) # d) k i =
     (if k = a then (case v of JInt s \<Rightarrow> Inr s | _ \<Rightarrow> Inl (OtherError ''TypeError'')) else int_field d k i)"
  "bool_field ((a, v) # d) k b =
     (if k = a then (case v of JBool s \<Rightarrow> Inr s | _ \<Rightarrow> Inl (OtherError ''TypeError'')) else bool_field d k b)"
  "dict_field ((a, v) # d) k =
     (if k = a then (case v of JObj s \<Rightarrow> Inr s | _ \<Rightarrow> Inl (OtherError ''TypeError'')) else dict_field d k)"
  by (simp_all add: str_field_def int_field_def bool_field_def dict_field_def)

definition iso_res :: "(string \<Rightarrow> datetime option) \<Rightarrow> string \<Rightarrow> datetime res" where
  "iso_res from_iso s =
     (case from_iso s of Some t \<Rightarrow> Inr t | None \<Rightarrow> Inl (ValueError ''Invalid isoformat string''))"

definition message_from_dict :: "(string \<Rightarrow> datetime option) \<Rightarrow> jdict \<Rightarrow> queue_message res" where
  "message_from_dict from_iso d =
     rbind (str_field d ''message_id'' None) (\<lambda>mid.
     rbind (rbind (str_field d ''message_type'' None) message_type_of) (\<lambda>typ.
     rbind (str_field d ''tenant_id'' None) (\<lambda>tenant.
     rbind (dict_field d ''payload'') (\<lambda>payload.
     rbind (rbind (str_field d ''created_at'' None) (iso_res from_iso)) (\<lambda>created.
     rbind (int_field d ''retry_count'' 0) (\<lambda>retry.
     rbind (int_field d ''max_retries'' 3) (\<lambda>mx.
       Inr \<lparr>qm_message_id = mid, qm_message_type = typ, qm_tenant_id = tenant, qm_payload = payload,
            qm_created_at = created, qm_retry_count = retry, qm_max_retries = mx\<rparr>)))))))"

definition message_from_json ::
    "(string \<Rightarrow> json option) \<Rightarrow> (string \<Rightarrow> datetime option) \<Rightarrow> string \<Rightarrow> queue_message res" where
  "message_from_json loads from_iso s =
     (case loads s of
        None \<Rightarrow> Inl (ValueError ''JSONDecodeError'')
      | Some (JObj d) \<Rightarrow> message_from_dict from_iso d
      | Some _ \<Rightarrow> Inl (OtherError ''TypeError''))"

section \<open>The queue\<close>

record task_queue =
  tq_queue :: "queue_message list"
  tq_unfinished :: int
  tq_dead_letter :: "queue_message list"
  tq_dead_letter_dropped :: int
  tq_processed_count :: int

definition new_task_queue :: task_queue where
  "new_task_queue =
     \<lparr>tq_queue = [], tq_unfinished = 0, tq_dead_letter = [], tq_dead_letter_dropped = 0,
      tq_processed_count = 0\<rparr>"

definition dead_letter_max_size :: nat where
  "dead_letter_max_size = 10000"

definition enqueue :: "queue_message \<Rightarrow> task_queue \<Rightarrow> task_queue" where
  "enqueue m q = q\<lparr>tq_queue := tq_queue q @ [m], tq_unfinished := tq_unfinished q + 1\<rparr>"

definition dequeue :: "task_queue \<Rightarrow> queue_message option \<times> task_queue" where
  "dequeue q =
     (case tq_queue q of
        [] \<Rightarrow> (None, q)
      | m # ms \<Rightarrow> (Some m, q\<lparr>tq_queue := ms\<rparr>))"

text \<open>\<open>deque(maxlen).append\<close>: the oldest goes when it is full.\<close>

definition bounded_append :: "nat \<Rightarrow> 'a \<Rightarrow> 'a list \<Rightarrow> 'a list" where
  "bounded_append mx x xs = drop (Suc (length xs) - mx) (xs @ [x])"

definition requeue :: "queue_message \<Rightarrow> task_queue \<Rightarrow> bool \<times> queue_message \<times> task_queue" where
  "requeue m q =
     (if qm_retry_count m \<ge> qm_max_retries m then
        (let q = (if length (tq_dead_letter q) \<ge> dead_letter_max_size
                  then q\<lparr>tq_dead_letter_dropped := tq_dead_letter_dropped q + 1\<rparr> else q)
         in (False, m, q\<lparr>tq_dead_letter := bounded_append dead_letter_max_size m (tq_dead_letter q)\<rparr>))
      else
        (let m = m\<lparr>qm_retry_count := qm_retry_count m + 1\<rparr>
         in (True, m, enqueue m q)))"

text \<open>\<open>task_done\<close> raises when it is called more often than items were put.\<close>

definition mark_done :: "task_queue \<Rightarrow> unit res \<times> task_queue" where
  "mark_done q =
     (let q = q\<lparr>tq_processed_count := tq_processed_count q + 1\<rparr> in
      if tq_unfinished q \<le> 0 then (Inl (ValueError ''task_done() called too many times''), q)
      else (Inr (), q\<lparr>tq_unfinished := tq_unfinished q - 1\<rparr>))"

definition queue_depth :: "task_queue \<Rightarrow> nat" where
  "queue_depth q = length (tq_queue q)"

definition dead_letter_count :: "task_queue \<Rightarrow> nat" where
  "dead_letter_count q = length (tq_dead_letter q)"

text \<open>The module-level default queue.\<close>

definition get_default_queue :: "task_queue option \<Rightarrow> task_queue \<times> task_queue option" where
  "get_default_queue dq = (case dq of Some q \<Rightarrow> (q, dq) | None \<Rightarrow> (new_task_queue, Some new_task_queue))"

section \<open>First in, first out\<close>

locale fifo =
  fixes put :: "'m \<Rightarrow> 'q \<Rightarrow> 'q" and pick :: "'q \<Rightarrow> 'm option \<times> 'q" and items :: "'q \<Rightarrow> 'm list"
  assumes items_put: "items (put m q) = items q @ [m]"
    and pick_empty: "items q = [] \<Longrightarrow> pick q = (None, q)"
    and pick_first: "items q = m # ms \<Longrightarrow> \<exists>q'. pick q = (Some m, q') \<and> items q' = ms"
begin

fun take_many :: "nat \<Rightarrow> 'q \<Rightarrow> 'm list \<times> 'q" where
  "take_many 0 q = ([], q)"
| "take_many (Suc n) q =
     (case pick q of
        (None, q') \<Rightarrow> ([], q')
      | (Some m, q') \<Rightarrow> let (ms, q'') = take_many n q' in (m # ms, q''))"

lemma items_put_all: "items (fold put ms q) = items q @ ms"
  by (induction ms arbitrary: q) (simp_all add: items_put)

lemma take_many_items: "fst (take_many n q) = take n (items q) \<and> items (snd (take_many n q)) = drop n (items q)"
proof (induction n arbitrary: q)
  case 0
  then show ?case by simp
next
  case (Suc n)
  show ?case
  proof (cases "items q")
    case Nil
    with pick_empty [of q] show ?thesis by simp
  next
    case (Cons m ms)
    from pick_first [OF this] obtain q' where "pick q = (Some m, q')" "items q' = ms" by blast
    with Suc.IH [of q'] Cons show ?thesis by (auto split: prod.splits)
  qed
qed

lemma in_order: "items q = [] \<Longrightarrow> fst (take_many (length ms) (fold put ms q)) = ms"
  using take_many_items [of "length ms" "fold put ms q"] by (simp add: items_put_all)

end

interpretation tq_fifo: fifo enqueue dequeue tq_queue
  by unfold_locales (auto simp: enqueue_def dequeue_def)

section \<open>Lemmas\<close>

lemma message_type_round_trip: "message_type_of (message_type_value t) = Inr t"
  by (cases t) (simp_all add: message_type_of_def all_message_types_def)

lemma bounded_append_length: "length (bounded_append mx x xs) \<le> mx"
  by (simp add: bounded_append_def)

lemma bounded_append_room: "length xs < mx \<Longrightarrow> bounded_append mx x xs = xs @ [x]"
  by (simp add: bounded_append_def)

section \<open>Properties\<close>

text \<open>A message survives its JSON text unchanged, and the queue hands messages out in the order they
were put in.\<close>

theorem message_round_trip_and_order:
  assumes "loads (dumps (JObj (message_dict to_iso m))) = Some (JObj (message_dict to_iso m))"
    and "from_iso (to_iso (qm_created_at m)) = Some (qm_created_at m)"
  shows "message_from_json loads from_iso (message_to_json dumps to_iso m) = Inr m
    \<and> fst (tq_fifo.take_many (length ms) (fold enqueue ms new_task_queue)) = ms"
proof -
  have "tq_queue new_task_queue = []" by (simp add: new_task_queue_def)
  with assms show ?thesis
    by (simp add: message_from_json_def message_to_json_def message_dict_def message_from_dict_def
        message_type_round_trip iso_res_def tq_fifo.in_order)
qed

theorem message_round_trip_and_order_witness:
  "\<exists>loads dumps from_iso to_iso. let m = new_message ''m1'' RAG_QUERY ''t1'' [] \<lparr>dt_micros = 5, dt_aware = True\<rparr> in
     message_from_json loads from_iso (message_to_json dumps to_iso m) = Inr m"
proof -
  let ?t = "\<lparr>dt_micros = 5, dt_aware = True\<rparr>"
  let ?m = "new_message ''m1'' RAG_QUERY ''t1'' [] ?t"
  let ?to_iso = "\<lambda>_. ''1970''" and ?from = "\<lambda>_. Some ?t"
  let ?dumps = "\<lambda>_. ''{}''" and ?loads = "\<lambda>_. Some (JObj (message_dict ?to_iso ?m))"
  have "message_from_json ?loads ?from (message_to_json ?dumps ?to_iso ?m) = Inr ?m"
    using message_round_trip_and_order [of ?loads ?dumps ?to_iso ?m ?from "[]"]
    by (simp add: new_message_def)
  then show ?thesis by (simp only: Let_def) (rule exI)+
qed

end
