(* ===== verification/TenantModels.thy ===== *)
theory TenantModels
  imports TaskQueue
begin

text \<open>
  \<open>src/brain/tenant/models.py\<close>: tiers, user roles, the configuration, quota and account
  records of a tenant, and the user record. A tenant's quota and role follow from its tier when the
  record is made (\<open>__post_init__\<close>).
\<close>

section \<open>Tiers, roles, configuration\<close>

datatype tenant_tier = FREE | STANDARD | PREMIUM | VIP

fun tier_value :: "tenant_tier \<Rightarrow> string" where
  "tier_value FREE = ''free''"
| "tier_value STANDARD = ''standard''"
| "tier_value PREMIUM = ''premium''"
| "tier_value VIP = ''vip''"

definition tier_of :: "string \<Rightarrow> tenant_tier res" where
  "tier_of s =
     (case map_of (map (\<lambda>t. (tier_value t, t)) [FREE, STANDARD, PREMIUM, VIP]) s of
        Some t \<Rightarrow> Inr t
      | None \<Rightarrow> Inl (ValueError ''is not a valid TenantTier''))"

datatype user_role = OWNER | ADMIN | MEMBER | VIEWER | DEMO

fun role_value :: "user_role \<Rightarrow> string" where
  "role_value OWNER = ''owner''"
| "role_value ADMIN = ''admin''"
| "role_value MEMBER = ''member''"
| "role_value VIEWER = ''viewer''"
| "role_value DEMO = ''demo''"

definition role_of :: "string \<Rightarrow> user_role res" where
  "role_of s =
     (case map_of (map (\<lambda>r. (role_value r, r)) [OWNER, ADMIN, MEMBER, VIEWER, DEMO]) s of
        Some r \<Rightarrow> Inr r
      | None \<Rightarrow> Inl (ValueError ''is not a valid UserRole''))"

record tenant_config =
  tc_todoist_api_token_encrypted :: string
  tc_notion_api_token_encrypted :: string
  tc_google_oauth_token_encrypted :: string
  tc_gmail_imap_password_encrypted :: string
  tc_litellm_proxy_token_encrypted :: string
  tc_gemini_api_key_encrypted :: string
  tc_timezone :: string
  tc_daily_top_task_limit :: int
  tc_workday_start_hour :: int
  tc_workday_end_hour :: int
  tc_daily_digest_time :: string
  tc_daily_digest_days :: string
  tc_overdue_alert_enabled :: bool
  tc_overdue_alert_interval_hours :: int
  tc_weekend_planner_enabled :: bool
  tc_weekly_review_enabled :: bool
  tc_delivery_email :: bool
  tc_delivery_whatsapp :: bool
  tc_delivery_notion :: bool
  tc_whatsapp_phone :: string
  tc_source_todoist :: bool
  tc_source_google_calendar :: bool
  tc_source_gmail :: bool
  tc_use_local_llm :: bool
  tc_rag_enabled :: bool
  tc_rag_collection :: string

definition default_tenant_config :: tenant_config where
  "default_tenant_config =
     \<lparr>tc_todoist_api_token_encrypted = [], tc_notion_api_token_encrypted = [],
      tc_google_oauth_token_encrypted = [], tc_gmail_imap_password_encrypted = [],
      tc_litellm_proxy_token_encrypted = [], tc_gemini_api_key_encrypted = [],
      tc_timezone = ''Europe/Lisbon'', tc_daily_top_task_limit = 5, tc_workday_start_hour = 9,
      tc_workday_end_hour = 18, tc_daily_digest_time = ''07:00'',
      tc_daily_digest_days = ''mon,tue,wed,thu,fri'', tc_overdue_alert_enabled = False,
      tc_overdue_alert_interval_hours = 4, tc_weekend_planner_enabled = False,
      tc_weekly_review_enabled = False, tc_delivery_email = True, tc_delivery_whatsapp = False,
      tc_delivery_notion = False, tc_whatsapp_phone = [], tc_source_todoist = True,
      tc_source_google_calendar = False, tc_source_gmail = False, tc_use_local_llm = False,
      tc_rag_enabled = False, tc_rag_collection = []\<rparr>"

section \<open>Quotas and accounts\<close>

record tenant_quota =
  max_pipeline_runs_per_day :: int
  max_tasks :: int
  max_llm_calls_per_day :: int
  max_storage_mb :: int
  premium_llm_enabled :: bool
  quota_rag_enabled :: bool
  local_llm_enabled :: bool
  max_rag_documents :: int
  max_rag_queries_per_day :: int

definition quota_for_tier :: "tenant_tier \<Rightarrow> tenant_quota" where
  "quota_for_tier tier =
     (case tier of
        FREE \<Rightarrow>
          \<lparr>max_pipeline_runs_per_day = 3, max_tasks = 100, max_llm_calls_per_day = 5,
           max_storage_mb = 50, premium_llm_enabled = False, quota_rag_enabled = False,
           local_llm_enabled = False, max_rag_documents = 0, max_rag_queries_per_day = 0\<rparr>
      | STANDARD \<Rightarrow>
          \<lparr>max_pipeline_runs_per_day = 20, max_tasks = 1000, max_llm_calls_per_day = 50,
           max_storage_mb = 500, premium_llm_enabled = False, quota_rag_enabled = False,
           local_llm_enabled = False, max_rag_documents = 0, max_rag_queries_per_day = 0\<rparr>
      | PREMIUM \<Rightarrow>
          \<lparr>max_pipeline_runs_per_day = 100, max_tasks = 10000, max_llm_calls_per_day = 200,
           max_storage_mb = 5000, premium_llm_enabled = True, quota_rag_enabled = True,
           local_llm_enabled = True, max_rag_documents = 500, max_rag_queries_per_day = 50\<rparr>
      | VIP \<Rightarrow>
          \<lparr>max_pipeline_runs_per_day = 999, max_tasks = 50000, max_llm_calls_per_day = 999,
           max_storage_mb = 10000, premium_llm_enabled = True, quota_rag_enabled = True,
           local_llm_enabled = True, max_rag_documents = 5000, max_rag_queries_per_day = 500\<rparr>)"

record tenant =
  tn_tenant_id :: string
  tn_name :: string
  tn_email :: string
  tn_tier :: tenant_tier
  tn_role :: string
  tn_api_key :: string
  tn_config :: tenant_config
  tn_quota :: tenant_quota
  tn_created_at :: datetime
  tn_is_active :: bool
  tn_stripe_customer_id :: string
  tn_stripe_subscription_id :: string
  tn_owner_google_sub :: string
  tn_credential_schema_version :: int
  tn_is_demo :: bool
  tn_demo_expires_at :: "datetime option"
  tn_demo_cost_cap_pipeline :: int
  tn_demo_cost_cap_llm :: int
  tn_demo_created_by :: string

definition tenant_post_init :: "tenant \<Rightarrow> tenant" where
  "tenant_post_init t =
     (let t = t\<lparr>tn_quota := quota_for_tier (tn_tier t)\<rparr> in
      if tn_role t = ''free'' \<and> tn_tier t \<noteq> FREE then t\<lparr>tn_role := tier_value (tn_tier t)\<rparr> else t)"

text \<open>A new tenant with the defaults of the class.\<close>

definition make_tenant :: "string \<Rightarrow> string \<Rightarrow> string \<Rightarrow> tenant_tier \<Rightarrow> string \<Rightarrow> string \<Rightarrow> datetime \<Rightarrow> tenant" where
  "make_tenant tid name email tier role api_key now =
     tenant_post_init
       \<lparr>tn_tenant_id = tid, tn_name = name, tn_email = email, tn_tier = tier, tn_role = role,
        tn_api_key = api_key, tn_config = default_tenant_config, tn_quota = quota_for_tier FREE,
        tn_created_at = now, tn_is_active = True, tn_stripe_customer_id = [],
        tn_stripe_subscription_id = [], tn_owner_google_sub = [], tn_credential_schema_version = 2,
        tn_is_demo = False, tn_demo_expires_at = None, tn_demo_cost_cap_pipeline = 50,
        tn_demo_cost_cap_llm = 100, tn_demo_created_by = []\<rparr>"

record user =
  us_user_id :: string
  us_tenant_id :: string
  us_google_sub :: string
  us_email :: string
  us_name :: string
  us_picture_url :: string
  us_user_role :: user_role
  us_is_active :: bool
  us_created_at :: datetime
  us_last_login :: "datetime option"
  us_login_count :: int

section \<open>Lemmas\<close>

lemma tier_round_trip: "tier_of (tier_value t) = Inr t"
  by (cases t) (simp_all add: tier_of_def)

lemma role_round_trip: "role_of (role_value r) = Inr r"
  by (cases r) (simp_all add: role_of_def)

text \<open>A record whose quota and role agree with its tier, as every constructed one does.\<close>

definition tenant_ok :: "tenant \<Rightarrow> bool" where
  "tenant_ok t \<longleftrightarrow> tn_quota t = quota_for_tier (tn_tier t) \<and> (tn_role t = ''free'' \<longrightarrow> tn_tier t = FREE)"

lemma tenant_post_init_ok: "tenant_ok (tenant_post_init t)"
  by (cases "tn_tier t") (simp_all add: tenant_post_init_def tenant_ok_def Let_def)

lemma tenant_post_init_id: "tenant_ok t \<Longrightarrow> tenant_post_init t = t"
  by (auto simp: tenant_post_init_def tenant_ok_def Let_def)

end
