(* ===== verification/StoreIO.thy ===== *)
theory StoreIO
  imports Storage
begin

text \<open>
  Operations that may fail and change the state, run one after the other: what the storage clients
  (tenant, user and demo managers, the worker, the pipeline) are written in. The state is the number
  of random nonces drawn so far and the storage. An exception leaves the state as it is when raised.
\<close>

type_synonym ('s, 'a) io = "nat \<times> 's \<Rightarrow> 'a res \<times> nat \<times> 's"

definition io_ret :: "'a \<Rightarrow> ('s, 'a) io" where
  "io_ret x = (\<lambda>st. (Inr x, st))"

definition io_raise :: "py_error \<Rightarrow> ('s, 'a) io" where
  "io_raise e = (\<lambda>st. (Inl e, st))"

definition io_res :: "'a res \<Rightarrow> ('s, 'a) io" where
  "io_res r = (\<lambda>st. (r, st))"

definition io_bind :: "('s, 'a) io \<Rightarrow> ('a \<Rightarrow> ('s, 'b) io) \<Rightarrow> ('s, 'b) io" where
  "io_bind m f = (\<lambda>st. case m st of (Inl e, st') \<Rightarrow> (Inl e, st') | (Inr x, st') \<Rightarrow> f x st')"

fun io_each :: "('a \<Rightarrow> ('s, unit) io) \<Rightarrow> 'a list \<Rightarrow> ('s, unit) io" where
  "io_each f [] = io_ret ()"
| "io_each f (x # xs) = io_bind (f x) (\<lambda>_. io_each f xs)"

fun io_map :: "('a \<Rightarrow> ('s, 'b) io) \<Rightarrow> 'a list \<Rightarrow> ('s, 'b list) io" where
  "io_map f [] = io_ret []"
| "io_map f (x # xs) = io_bind (f x) (\<lambda>y. io_bind (io_map f xs) (\<lambda>ys. io_ret (y # ys)))"

text \<open>\<open>try: m except Exception: h\<close>: the state changes made before the exception stay.\<close>

definition io_catch :: "('s, 'a) io \<Rightarrow> (py_error \<Rightarrow> ('s, 'a) io) \<Rightarrow> ('s, 'a) io" where
  "io_catch m h = (\<lambda>st. case m st of (Inl e, st') \<Rightarrow> h e st' | (Inr x, st') \<Rightarrow> (Inr x, st'))"

definition io_draw :: "(nat \<Rightarrow> bytes) \<Rightarrow> ('s, bytes) io" where
  "io_draw rnd = (\<lambda>(n, s). (Inr (rnd n), Suc n, s))"

definition io_write :: "'s backend \<Rightarrow> string \<Rightarrow> json \<Rightarrow> ('s, unit) io" where
  "io_write be k v = (\<lambda>(n, s). let (r, s') = be_write_json be k v s in (r, n, s'))"

definition io_read :: "'s backend \<Rightarrow> string \<Rightarrow> ('s, json option) io" where
  "io_read be k = (\<lambda>(n, s). (be_read_json be k s, n, s))"

definition io_list :: "'s backend \<Rightarrow> string \<Rightarrow> ('s, string list) io" where
  "io_list be k = (\<lambda>(n, s). (be_list_keys be k s, n, s))"

definition io_delete :: "'s backend \<Rightarrow> string \<Rightarrow> ('s, bool) io" where
  "io_delete be k = (\<lambda>(n, s). let (r, s') = be_delete be k s in (r, n, s'))"

section \<open>Running them\<close>

lemma io_bind_ret [simp]: "io_bind (io_ret x) f = f x"
  by (simp add: io_bind_def io_ret_def)

lemma io_bind_raise [simp]: "io_bind (io_raise e) f = io_raise e"
  by (simp add: io_bind_def io_raise_def)

lemma io_bind_res [simp]: "io_bind (io_res (Inr x)) f = f x" "io_bind (io_res (Inl e)) f = io_raise e"
  by (simp_all add: io_bind_def io_res_def io_raise_def)

lemma io_ret_run [simp]: "io_ret x st = (Inr x, st)"
  by (simp add: io_ret_def)

lemma io_raise_run [simp]: "io_raise e st = (Inl e, st)"
  by (simp add: io_raise_def)

lemma io_res_run [simp]: "io_res r st = (r, st)"
  by (simp add: io_res_def)

lemma io_bind_run:
  "io_bind m f st = (case m st of (Inl e, st') \<Rightarrow> (Inl e, st') | (Inr x, st') \<Rightarrow> f x st')"
  by (simp add: io_bind_def)

lemma io_bind_assoc: "io_bind (io_bind m f) g = io_bind m (\<lambda>x. io_bind (f x) g)"
  by (auto simp: io_bind_def split: prod.splits sum.splits)

lemma io_bind_Inr:
  "io_bind m f st = (Inr y, st') \<longleftrightarrow> (\<exists>x st1. m st = (Inr x, st1) \<and> f x st1 = (Inr y, st'))"
  by (auto simp: io_bind_def split: prod.splits sum.splits)

lemma io_read_run [simp]: "io_read be k (n, s) = (be_read_json be k s, n, s)"
  by (simp add: io_read_def)

lemma io_draw_run [simp]: "io_draw rnd (n, s) = (Inr (rnd n), Suc n, s)"
  by (simp add: io_draw_def)

lemma io_write_run: "io_write be k v (n, s) = (Inr (), n', s') \<longleftrightarrow>
    n' = n \<and> be_write_json be k v s = (Inr (), s')"
  by (auto simp: io_write_def split: prod.splits)

text \<open>A property of the storage that every step of an operation keeps.\<close>

definition io_keeps :: "('s \<Rightarrow> bool) \<Rightarrow> ('s, 'a) io \<Rightarrow> bool" where
  "io_keeps P m \<longleftrightarrow> (\<forall>n s r n' s'. P s \<longrightarrow> m (n, s) = (r, n', s') \<longrightarrow> P s')"

lemma io_keeps_ret [intro]: "io_keeps P (io_ret x)"
  by (simp add: io_keeps_def)

lemma io_keeps_raise [intro]: "io_keeps P (io_raise e)"
  by (simp add: io_keeps_def)

lemma io_keeps_res [intro]: "io_keeps P (io_res r)"
  by (simp add: io_keeps_def)

lemma io_keeps_read [intro]: "io_keeps P (io_read be k)"
  by (simp add: io_keeps_def)

lemma io_keeps_list [intro]: "io_keeps P (io_list be k)"
  by (simp add: io_keeps_def io_list_def)

lemma io_keeps_draw [intro]: "io_keeps P (io_draw rnd)"
  by (simp add: io_keeps_def)

lemma io_keeps_bind [intro]: "io_keeps P m \<Longrightarrow> (\<And>x. io_keeps P (f x)) \<Longrightarrow> io_keeps P (io_bind m f)"
proof -
  assume m: "io_keeps P m" and f: "\<And>x. io_keeps P (f x)"
  show ?thesis
    unfolding io_keeps_def
  proof (intro allI impI)
    fix n s r n' s'
    assume P: "P s" and run: "io_bind m f (n, s) = (r, n', s')"
    obtain r1 n1 s1 where r1: "m (n, s) = (r1, n1, s1)" by (cases "m (n, s)")
    with m P have P1: "P s1" unfolding io_keeps_def by blast
    show "P s'"
    proof (cases r1)
      case (Inl e)
      with run r1 P1 show ?thesis by (simp add: io_bind_run)
    next
      case (Inr x)
      with run r1 have "f x (n1, s1) = (r, n', s')" by (simp add: io_bind_run)
      with f P1 show ?thesis unfolding io_keeps_def by blast
    qed
  qed
qed

lemma io_keeps_each [intro]: "(\<And>x. x \<in> set xs \<Longrightarrow> io_keeps P (f x)) \<Longrightarrow> io_keeps P (io_each f xs)"
proof (induction xs)
  case Nil
  show ?case unfolding io_each.simps by (rule io_keeps_ret)
next
  case (Cons x xs)
  then show ?case unfolding io_each.simps by (intro io_keeps_bind) simp_all
qed

end
