(* ===== verification/TenantManager.thy ===== *)
theory TenantManager
  imports StoreIO TenantModels
begin

text \<open>
  \<open>src/brain/tenant/manager.py\<close>: the tenants on a storage backend. The environment holds the
  backend and the encryptors with their primitives; new ids, keys and the current time are
  arguments. A stored document whose values have other types than the writer's counts as an error.
\<close>

section \<open>The stored document\<close>

definition config_to_dict :: "tenant_config \<Rightarrow> jdict" where
  "config_to_dict c =
     [(''todoist_api_token_encrypted'', JStr (tc_todoist_api_token_encrypted c)),
      (''notion_api_token_encrypted'', JStr (tc_notion_api_token_encrypted c)),
      (''google_oauth_token_encrypted'', JStr (tc_google_oauth_token_encrypted c)),
      (''gmail_imap_password_encrypted'', JStr (tc_gmail_imap_password_encrypted c)),
      (''litellm_proxy_token_encrypted'', JStr (tc_litellm_proxy_token_encrypted c)),
      (''gemini_api_key_encrypted'', JStr (tc_gemini_api_key_encrypted c)),
      (''timezone'', JStr (tc_timezone c)),
      (''daily_top_task_limit'', JInt (tc_daily_top_task_limit c)),
      (''workday_start_hour'', JInt (tc_workday_start_hour c)),
      (''workday_end_hour'', JInt (tc_workday_end_hour c)),
      (''daily_digest_time'', JStr (tc_daily_digest_time c)),
      (''daily_digest_days'', JStr (tc_daily_digest_days c)),
      (''overdue_alert_enabled'', JBool (tc_overdue_alert_enabled c)),
      (''overdue_alert_interval_hours'', JInt (tc_overdue_alert_interval_hours c)),
      (''weekend_planner_enabled'', JBool (tc_weekend_planner_enabled c)),
      (''weekly_review_enabled'', JBool (tc_weekly_review_enabled c)),
      (''delivery_email'', JBool (tc_delivery_email c)),
      (''delivery_whatsapp'', JBool (tc_delivery_whatsapp c)),
      (''delivery_notion'', JBool (tc_delivery_notion c)),
      (''whatsapp_phone'', JStr (tc_whatsapp_phone c)),
      (''source_todoist'', JBool (tc_source_todoist c)),
      (''source_google_calendar'', JBool (tc_source_google_calendar c)),
      (''source_gmail'', JBool (tc_source_gmail c)),
      (''use_local_llm'', JBool (tc_use_local_llm c)),
      (''rag_enabled'', JBool (tc_rag_enabled c)),
      (''rag_collection'', JStr (tc_rag_collection c))]"

definition config_from_dict :: "jdict \<Rightarrow> tenant_config res" where
  "config_from_dict d =
     rbind (str_field d ''todoist_api_token_encrypted'' (Some [])) (\<lambda>v0.
     rbind (str_field d ''notion_api_token_encrypted'' (Some [])) (\<lambda>v1.
     rbind (str_field d ''google_oauth_token_encrypted'' (Some [])) (\<lambda>v2.
     rbind (str_field d ''gmail_imap_password_encrypted'' (Some [])) (\<lambda>v3.
     rbind (str_field d ''litellm_proxy_token_encrypted'' (Some [])) (\<lambda>v4.
     rbind (str_field d ''gemini_api_key_encrypted'' (Some [])) (\<lambda>v5.
     rbind (str_field d ''timezone'' (Some ''Europe/Lisbon'')) (\<lambda>v6.
     rbind (int_field d ''daily_top_task_limit'' 5) (\<lambda>v7.
     rbind (int_field d ''workday_start_hour'' 9) (\<lambda>v8.
     rbind (int_field d ''workday_end_hour'' 18) (\<lambda>v9.
     rbind (str_field d ''daily_digest_time'' (Some ''07:00'')) (\<lambda>v10.
     rbind (str_field d ''daily_digest_days'' (Some ''mon,tue,wed,thu,fri'')) (\<lambda>v11.
     rbind (bool_field d ''overdue_alert_enabled'' False) (\<lambda>v12.
     rbind (int_field d ''overdue_alert_interval_hours'' 4) (\<lambda>v13.
     rbind (bool_field d ''weekend_planner_enabled'' False) (\<lambda>v14.
     rbind (bool_field d ''weekly_review_enabled'' False) (\<lambda>v15.
     rbind (bool_field d ''delivery_email'' True) (\<lambda>v16.
     rbind (bool_field d ''delivery_whatsapp'' False) (\<lambda>v17.
     rbind (bool_field d ''delivery_notion'' False) (\<lambda>v18.
     rbind (str_field d ''whatsapp_phone'' (Some [])) (\<lambda>v19.
     rbind (bool_field d ''source_todoist'' True) (\<lambda>v20.
     rbind (bool_field d ''source_google_calendar'' False) (\<lambda>v21.
     rbind (bool_field d ''source_gmail'' False) (\<lambda>v22.
     rbind (bool_field d ''use_local_llm'' False) (\<lambda>v23.
     rbind (bool_field d ''rag_enabled'' False) (\<lambda>v24.
     rbind (str_field d ''rag_collection'' (Some [])) (\<lambda>v25.
       Inr \<lparr>tc_todoist_api_token_encrypted = v0, tc_notion_api_token_encrypted = v1,
            tc_google_oauth_token_encrypted = v2, tc_gmail_imap_password_encrypted = v3,
            tc_litellm_proxy_token_encrypted = v4, tc_gemini_api_key_encrypted = v5,
            tc_timezone = v6, tc_daily_top_task_limit = v7, tc_workday_start_hour = v8,
            tc_workday_end_hour = v9, tc_daily_digest_time = v10, tc_daily_digest_days = v11,
            tc_overdue_alert_enabled = v12, tc_overdue_alert_interval_hours = v13,
            tc_weekend_planner_enabled = v14, tc_weekly_review_enabled = v15,
            tc_delivery_email = v16, tc_delivery_whatsapp = v17, tc_delivery_notion = v18,
            tc_whatsapp_phone = v19, tc_source_todoist = v20, tc_source_google_calendar = v21,
            tc_source_gmail = v22, tc_use_local_llm = v23, tc_rag_enabled = v24,
            tc_rag_collection = v25\<rparr>))))))))))))))))))))))))))"

record 's tm_env =
  te_be :: "'s backend"
  te_crypto :: crypto
  te_master :: bytes
  te_pepper :: "bytes option"
  te_rnd :: "nat \<Rightarrow> bytes"
  te_sha256hex :: "bytes \<Rightarrow> string"
  te_iso :: "datetime \<Rightarrow> string"
  te_from_iso :: "string \<Rightarrow> datetime option"

definition tenants_prefix :: string where
  "tenants_prefix = ''tenants/''"

definition tenant_path :: "string \<Rightarrow> string" where
  "tenant_path tid = tenants_prefix @ tid @ ''.json''"

definition tenant_dict :: "'s tm_env \<Rightarrow> string \<Rightarrow> string \<Rightarrow> tenant \<Rightarrow> jdict" where
  "tenant_dict env api_key_encrypted api_key_hash t =
     [(''tenant_id'', JStr (tn_tenant_id t)), (''name'', JStr (tn_name t)),
      (''email'', JStr (tn_email t)), (''tier'', JStr (tier_value (tn_tier t))),
      (''role'', JStr (tn_role t)), (''api_key_encrypted'', JStr api_key_encrypted),
      (''api_key_hash'', JStr api_key_hash), (''is_active'', JBool (tn_is_active t)),
      (''created_at'', JStr (te_iso env (tn_created_at t))),
      (''config'', JObj (config_to_dict (tn_config t))),
      (''stripe_customer_id'', JStr (tn_stripe_customer_id t)),
      (''stripe_subscription_id'', JStr (tn_stripe_subscription_id t)),
      (''owner_google_sub'', JStr (tn_owner_google_sub t)),
      (''credential_schema_version'', JInt (tn_credential_schema_version t)),
      (''is_demo'', JBool (tn_is_demo t)),
      (''demo_expires_at'', JStr (case tn_demo_expires_at t of Some x \<Rightarrow> te_iso env x | None \<Rightarrow> [])),
      (''demo_cost_cap_pipeline'', JInt (tn_demo_cost_cap_pipeline t)),
      (''demo_cost_cap_llm'', JInt (tn_demo_cost_cap_llm t)),
      (''demo_created_by'', JStr (tn_demo_created_by t))]"

text \<open>\<open>_to_dict\<close> draws a nonce for the API key, when there is one.\<close>

definition tenant_to_dict :: "'s tm_env \<Rightarrow> tenant \<Rightarrow> ('s, json) io" where
  "tenant_to_dict env t =
     (if tn_api_key t = [] then io_ret (JObj (tenant_dict env [] [] t))
      else io_bind (io_draw (te_rnd env)) (\<lambda>nonce.
        io_ret (JObj (tenant_dict env
          (field_encrypt (te_crypto env) (te_master env) nonce (tn_api_key t) (tn_tenant_id t) ''api_key'')
          (te_sha256hex env (utf8_encode (tn_api_key t))) t))))"

definition stored_api_key :: "'s tm_env \<Rightarrow> jdict \<Rightarrow> string res" where
  "stored_api_key env d =
     rbind (str_field d ''api_key_encrypted'' (Some [])) (\<lambda>enc.
       if enc \<noteq> [] then
         (case rbind (str_field d ''tenant_id'' None) (\<lambda>tid.
                 field_decrypt (te_crypto env) (te_master env) enc tid ''api_key'') of
            Inr k \<Rightarrow> Inr k
          | Inl _ \<Rightarrow> Inr [])
       else str_field d ''api_key'' (Some []))"

definition tenant_from_dict :: "'s tm_env \<Rightarrow> datetime \<Rightarrow> jdict \<Rightarrow> tenant res" where
  "tenant_from_dict env now d =
     rbind (dict_field d ''config'') (\<lambda>cfg.
     rbind (stored_api_key env d) (\<lambda>api_key.
     rbind (str_field d ''tenant_id'' None) (\<lambda>tid.
     rbind (str_field d ''name'' None) (\<lambda>name.
     rbind (str_field d ''email'' None) (\<lambda>email.
     rbind (rbind (str_field d ''tier'' (Some ''free'')) tier_of) (\<lambda>tier.
     rbind (str_field d ''role'' (Some ''free'')) (\<lambda>role.
     rbind (bool_field d ''is_active'' True) (\<lambda>active.
     rbind (if has_key d ''created_at''
            then rbind (str_field d ''created_at'' None) (iso_res (te_from_iso env))
            else Inr now) (\<lambda>created.
     rbind (str_field d ''stripe_customer_id'' (Some [])) (\<lambda>customer.
     rbind (str_field d ''stripe_subscription_id'' (Some [])) (\<lambda>subscription.
     rbind (str_field d ''owner_google_sub'' (Some [])) (\<lambda>owner.
     rbind (int_field d ''credential_schema_version'' 2) (\<lambda>version.
     rbind (bool_field d ''is_demo'' False) (\<lambda>demo.
     rbind (rbind (str_field d ''demo_expires_at'' (Some [])) (\<lambda>e.
              if e \<noteq> [] then rbind (iso_res (te_from_iso env) e) (\<lambda>x. Inr (Some x)) else Inr None)) (\<lambda>expires.
     rbind (int_field d ''demo_cost_cap_pipeline'' 50) (\<lambda>cap_pipeline.
     rbind (int_field d ''demo_cost_cap_llm'' 100) (\<lambda>cap_llm.
     rbind (str_field d ''demo_created_by'' (Some [])) (\<lambda>created_by.
     rbind (config_from_dict cfg) (\<lambda>config.
       Inr (tenant_post_init
         \<lparr>tn_tenant_id = tid, tn_name = name, tn_email = email, tn_tier = tier, tn_role = role,
          tn_api_key = api_key, tn_config = config, tn_quota = quota_for_tier FREE,
          tn_created_at = created, tn_is_active = active, tn_stripe_customer_id = customer,
          tn_stripe_subscription_id = subscription, tn_owner_google_sub = owner,
          tn_credential_schema_version = version, tn_is_demo = demo, tn_demo_expires_at = expires,
          tn_demo_cost_cap_pipeline = cap_pipeline, tn_demo_cost_cap_llm = cap_llm,
          tn_demo_created_by = created_by\<rparr>))))))))))))))))))))"

definition tenant_from_json :: "'s tm_env \<Rightarrow> datetime \<Rightarrow> json \<Rightarrow> tenant res" where
  "tenant_from_json env now v =
     (case v of JObj d \<Rightarrow> tenant_from_dict env now d | _ \<Rightarrow> Inl (OtherError ''AttributeError''))"

section \<open>The operations\<close>

definition save_tenant :: "'s tm_env \<Rightarrow> tenant \<Rightarrow> ('s, unit) io" where
  "save_tenant env t =
     io_bind (tenant_to_dict env t) (\<lambda>v. io_write (te_be env) (tenant_path (tn_tenant_id t)) v)"

definition new_tenant_manager :: "bytes option \<Rightarrow> bytes option \<Rightarrow> string option \<Rightarrow> (bytes \<times> bytes) res" where
  "new_tenant_manager encryptor credential_encryptor env_pepper =
     (case encryptor of
        None \<Rightarrow> Inl (RuntimeError ''TenantManager requires a FieldEncryptor instance.'')
      | Some master \<Rightarrow>
          (case credential_encryptor of
             Some pepper \<Rightarrow> Inr (master, pepper)
           | None \<Rightarrow> rbind (new_credential_encryptor env_pepper) (\<lambda>pepper. Inr (master, pepper))))"

definition create_tenant ::
    "'s tm_env \<Rightarrow> string \<Rightarrow> string \<Rightarrow> datetime \<Rightarrow> string \<Rightarrow> string \<Rightarrow> tenant_tier \<Rightarrow> ('s, tenant) io" where
  "create_tenant env random_hex api_key now name email tier =
     (let tid = ''tn_'' @ random_hex;
          t = make_tenant tid name email tier (tier_value tier) api_key now
      in io_bind (io_each (\<lambda>layer.
                     io_write (te_be env) (layer @ ''/'' @ tid @ ''/.partition'')
                       (JObj [(''tenant_id'', JStr tid), (''layer'', JStr layer),
                              (''created_at'', JStr (te_iso env now))]))
                   [''bronze'', ''silver'', ''gold'', ''runs'']) (\<lambda>_.
         io_bind (save_tenant env t) (\<lambda>_. io_ret t)))"

definition get_tenant :: "'s tm_env \<Rightarrow> datetime \<Rightarrow> string \<Rightarrow> ('s, tenant option) io" where
  "get_tenant env now tid =
     io_bind (io_read (te_be env) (tenant_path tid)) (\<lambda>data.
       case data of
         None \<Rightarrow> io_ret None
       | Some v \<Rightarrow> io_bind (io_res (tenant_from_json env now v)) (\<lambda>t. io_ret (Some t)))"

fun load_tenants :: "'s tm_env \<Rightarrow> datetime \<Rightarrow> string list \<Rightarrow> ('s, tenant list) io" where
  "load_tenants env now [] = io_ret []"
| "load_tenants env now (key # keys) =
     (if suffix ''.partition'' key then load_tenants env now keys
      else io_bind (io_read (te_be env) key) (\<lambda>data.
             case data of
               None \<Rightarrow> load_tenants env now keys
             | Some v \<Rightarrow>
                 if jtruthy v
                 then io_bind (io_res (tenant_from_json env now v)) (\<lambda>t.
                      io_bind (load_tenants env now keys) (\<lambda>ts. io_ret (t # ts)))
                 else load_tenants env now keys))"

definition list_tenants :: "'s tm_env \<Rightarrow> datetime \<Rightarrow> ('s, tenant list) io" where
  "list_tenants env now = io_bind (io_list (te_be env) tenants_prefix) (load_tenants env now)"

text \<open>The operations that change one tenant: look it up, change it, save it.\<close>

definition update_tier :: "'s tm_env \<Rightarrow> datetime \<Rightarrow> string \<Rightarrow> tenant_tier \<Rightarrow> ('s, tenant option) io" where
  "update_tier env now tid new_tier =
     io_bind (get_tenant env now tid) (\<lambda>found.
       case found of
         None \<Rightarrow> io_ret None
       | Some t \<Rightarrow>
           (let t = t\<lparr>tn_tier := new_tier, tn_role := tier_value new_tier,
                      tn_quota := quota_for_tier new_tier\<rparr>
            in io_bind (save_tenant env t) (\<lambda>_. io_ret (Some t))))"

definition opt_or :: "'a option \<Rightarrow> 'a \<Rightarrow> 'a" where
  "opt_or x y = (case x of Some v \<Rightarrow> v | None \<Rightarrow> y)"

record config_update =
  cu_todoist_api_token :: "string option"
  cu_notion_api_token :: "string option"
  cu_litellm_proxy_token :: "string option"
  cu_gmail_imap_password :: "string option"
  cu_google_oauth_token :: "string option"
  cu_gemini_api_key :: "string option"
  cu_timezone :: "string option"
  cu_daily_top_task_limit :: "int option"
  cu_workday_start_hour :: "int option"
  cu_workday_end_hour :: "int option"
  cu_daily_digest_time :: "string option"
  cu_daily_digest_days :: "string option"
  cu_overdue_alert_enabled :: "bool option"
  cu_overdue_alert_interval_hours :: "int option"
  cu_weekend_planner_enabled :: "bool option"
  cu_weekly_review_enabled :: "bool option"
  cu_delivery_email :: "bool option"
  cu_delivery_whatsapp :: "bool option"
  cu_delivery_notion :: "bool option"
  cu_whatsapp_phone :: "string option"
  cu_source_todoist :: "bool option"
  cu_source_google_calendar :: "bool option"
  cu_source_gmail :: "bool option"
  cu_use_local_llm :: "bool option"
  cu_rag_enabled :: "bool option"

definition secret_fields :: "config_update \<Rightarrow> (string \<times> string option) list" where
  "secret_fields u =
     [(''todoist_api_token'', cu_todoist_api_token u),
      (''notion_api_token'', cu_notion_api_token u),
      (''litellm_proxy_token'', cu_litellm_proxy_token u),
      (''gmail_imap_password'', cu_gmail_imap_password u),
      (''google_oauth_token'', cu_google_oauth_token u),
      (''gemini_api_key'', cu_gemini_api_key u)]"

definition set_secret_field :: "string \<Rightarrow> string \<Rightarrow> tenant_config \<Rightarrow> tenant_config" where
  "set_secret_field name v c =
     (if name = ''todoist_api_token'' then c\<lparr>tc_todoist_api_token_encrypted := v\<rparr>
      else if name = ''notion_api_token'' then c\<lparr>tc_notion_api_token_encrypted := v\<rparr>
      else if name = ''litellm_proxy_token'' then c\<lparr>tc_litellm_proxy_token_encrypted := v\<rparr>
      else if name = ''gmail_imap_password'' then c\<lparr>tc_gmail_imap_password_encrypted := v\<rparr>
      else if name = ''google_oauth_token'' then c\<lparr>tc_google_oauth_token_encrypted := v\<rparr>
      else if name = ''gemini_api_key'' then c\<lparr>tc_gemini_api_key_encrypted := v\<rparr>
      else c)"

definition set_plain_fields :: "config_update \<Rightarrow> tenant_config \<Rightarrow> tenant_config" where
  "set_plain_fields u c =
     c\<lparr>tc_timezone := opt_or (cu_timezone u) (tc_timezone c),
       tc_daily_top_task_limit := opt_or (cu_daily_top_task_limit u) (tc_daily_top_task_limit c),
       tc_workday_start_hour := opt_or (cu_workday_start_hour u) (tc_workday_start_hour c),
       tc_workday_end_hour := opt_or (cu_workday_end_hour u) (tc_workday_end_hour c),
       tc_daily_digest_time := opt_or (cu_daily_digest_time u) (tc_daily_digest_time c),
       tc_daily_digest_days := opt_or (cu_daily_digest_days u) (tc_daily_digest_days c),
       tc_overdue_alert_enabled := opt_or (cu_overdue_alert_enabled u) (tc_overdue_alert_enabled c),
       tc_overdue_alert_interval_hours := opt_or (cu_overdue_alert_interval_hours u) (tc_overdue_alert_interval_hours c),
       tc_weekend_planner_enabled := opt_or (cu_weekend_planner_enabled u) (tc_weekend_planner_enabled c),
       tc_weekly_review_enabled := opt_or (cu_weekly_review_enabled u) (tc_weekly_review_enabled c),
       tc_delivery_email := opt_or (cu_delivery_email u) (tc_delivery_email c),
       tc_delivery_whatsapp := opt_or (cu_delivery_whatsapp u) (tc_delivery_whatsapp c),
       tc_delivery_notion := opt_or (cu_delivery_notion u) (tc_delivery_notion c),
       tc_whatsapp_phone := opt_or (cu_whatsapp_phone u) (tc_whatsapp_phone c),
       tc_source_todoist := opt_or (cu_source_todoist u) (tc_source_todoist c),
       tc_source_google_calendar := opt_or (cu_source_google_calendar u) (tc_source_google_calendar c),
       tc_source_gmail := opt_or (cu_source_gmail u) (tc_source_gmail c),
       tc_use_local_llm := opt_or (cu_use_local_llm u) (tc_use_local_llm c),
       tc_rag_enabled := opt_or (cu_rag_enabled u) (tc_rag_enabled c)\<rparr>"

definition no_update :: config_update where
  "no_update =
     \<lparr>cu_todoist_api_token = None, cu_notion_api_token = None, cu_litellm_proxy_token = None,
      cu_gmail_imap_password = None, cu_google_oauth_token = None, cu_gemini_api_key = None,
      cu_timezone = None, cu_daily_top_task_limit = None, cu_workday_start_hour = None,
      cu_workday_end_hour = None, cu_daily_digest_time = None, cu_daily_digest_days = None,
      cu_overdue_alert_enabled = None, cu_overdue_alert_interval_hours = None,
      cu_weekend_planner_enabled = None, cu_weekly_review_enabled = None,
      cu_delivery_email = None, cu_delivery_whatsapp = None, cu_delivery_notion = None,
      cu_whatsapp_phone = None, cu_source_todoist = None, cu_source_google_calendar = None,
      cu_source_gmail = None, cu_use_local_llm = None, cu_rag_enabled = None\<rparr>"

text \<open>Encrypting the given secrets one after the other.\<close>

fun encrypt_secrets ::
    "'s tm_env \<Rightarrow> bytes \<Rightarrow> string \<Rightarrow> string \<Rightarrow> (string \<times> string option) list \<Rightarrow> tenant_config \<Rightarrow>
     ('s, tenant_config) io" where
  "encrypt_secrets env pepper tid owner [] c = io_ret c"
| "encrypt_secrets env pepper tid owner ((name, v) # rest) c =
     (case v of
        None \<Rightarrow> encrypt_secrets env pepper tid owner rest c
      | Some secret \<Rightarrow>
          io_bind (io_draw (te_rnd env)) (\<lambda>nonce.
          io_bind (io_res (cred_encrypt (te_crypto env) pepper nonce secret tid owner name)) (\<lambda>enc.
            encrypt_secrets env pepper tid owner rest (set_secret_field name enc c))))"

definition gives_secret :: "config_update \<Rightarrow> bool" where
  "gives_secret u \<longleftrightarrow> (\<exists>(n, v) \<in> set (secret_fields u). v \<noteq> None)"

definition update_config ::
    "'s tm_env \<Rightarrow> datetime \<Rightarrow> string \<Rightarrow> config_update \<Rightarrow> ('s, tenant option) io" where
  "update_config env now tid u =
     io_bind (get_tenant env now tid) (\<lambda>found.
       case found of
         None \<Rightarrow> io_ret None
       | Some t \<Rightarrow>
           if gives_secret u \<and> te_pepper env = None
           then io_raise (RuntimeError ''CredentialEncryptor is not configured'')
           else if gives_secret u \<and> tn_owner_google_sub t = []
           then io_raise (RuntimeError ''Tenant has not completed Google OAuth yet'')
           else io_bind (if gives_secret u
                         then encrypt_secrets env (the (te_pepper env)) tid (tn_owner_google_sub t)
                                (secret_fields u) (tn_config t)
                         else io_ret (tn_config t)) (\<lambda>c.
                (let t = t\<lparr>tn_config := set_plain_fields u c\<rparr>
                 in io_bind (save_tenant env t) (\<lambda>_. io_ret (Some t)))))"

definition wipe_secrets :: "tenant_config \<Rightarrow> tenant_config" where
  "wipe_secrets c =
     c\<lparr>tc_todoist_api_token_encrypted := [], tc_notion_api_token_encrypted := [],
       tc_google_oauth_token_encrypted := [], tc_gmail_imap_password_encrypted := [],
       tc_litellm_proxy_token_encrypted := [], tc_gemini_api_key_encrypted := []\<rparr>"

definition tenant_layers :: "string list" where
  "tenant_layers = [''bronze'', ''silver'', ''gold'', ''runs'', ''vault'', ''users'', ''invites'']"

definition delete_prefix :: "'s backend \<Rightarrow> string \<Rightarrow> ('s, unit) io" where
  "delete_prefix be pre =
     io_bind (io_list be pre) (io_each (\<lambda>key. io_bind (io_delete be key) (\<lambda>_. io_ret ())))"

definition deactivate_tenant :: "'s tm_env \<Rightarrow> datetime \<Rightarrow> string \<Rightarrow> ('s, bool) io" where
  "deactivate_tenant env now tid =
     io_bind (get_tenant env now tid) (\<lambda>found.
       case found of
         None \<Rightarrow> io_ret False
       | Some t \<Rightarrow>
           (let t = t\<lparr>tn_is_active := False, tn_config := wipe_secrets (tn_config t)\<rparr>
            in io_bind (save_tenant env t) (\<lambda>_.
               io_bind (io_each (\<lambda>layer. delete_prefix (te_be env) (layer @ ''/'' @ tid @ ''/''))
                          tenant_layers) (\<lambda>_. io_ret True))))"

definition decrypt_token :: "'s tm_env \<Rightarrow> string \<Rightarrow> string \<Rightarrow> string \<Rightarrow> string res" where
  "decrypt_token env tid token field_name =
     field_decrypt (te_crypto env) (te_master env) token tid field_name"

definition decrypt_credential :: "'s tm_env \<Rightarrow> tenant \<Rightarrow> string \<Rightarrow> string \<Rightarrow> string res" where
  "decrypt_credential env t encrypted field_name =
     (if encrypted = [] then Inr []
      else case te_pepper env of
             None \<Rightarrow> Inl (RuntimeError ''CredentialEncryptor not configured; cannot decrypt credentials.'')
           | Some pepper \<Rightarrow>
               if tn_owner_google_sub t = []
               then Inl (CredentialNotDecryptable ''no owner_google_sub bound'')
               else cred_decrypt (te_crypto env) pepper encrypted (tn_tenant_id t)
                      (tn_owner_google_sub t) field_name)"

definition bind_owner_sub :: "'s tm_env \<Rightarrow> datetime \<Rightarrow> string \<Rightarrow> string \<Rightarrow> ('s, tenant option) io" where
  "bind_owner_sub env now tid google_sub =
     (if google_sub = [] then io_raise (ValueError ''google_sub is required'')
      else io_bind (get_tenant env now tid) (\<lambda>found.
        case found of
          None \<Rightarrow> io_ret None
        | Some t \<Rightarrow>
            if tn_owner_google_sub t \<noteq> [] \<and> tn_owner_google_sub t \<noteq> google_sub
            then io_raise (RuntimeError ''already bound to a different owner_sub'')
            else if tn_owner_google_sub t = []
            then (let t = t\<lparr>tn_owner_google_sub := google_sub\<rparr>
                  in io_bind (save_tenant env t) (\<lambda>_. io_ret (Some t)))
            else io_ret (Some t)))"

section \<open>The stored document reads back\<close>

text \<open>The primitives behave as documented, and ISO text parses back.\<close>

definition env_good :: "'s tm_env \<Rightarrow> bool" where
  "env_good env \<longleftrightarrow> aead_correct (te_crypto env) \<and> aead_binding (te_crypto env)
     \<and> aead_tagged (te_crypto env) \<and> (\<forall>n. length (te_rnd env n) = 12)
     \<and> (\<forall>x. te_from_iso env (te_iso env x) = Some x \<and> te_iso env x \<noteq> [])"

lemma config_round_trip: "config_from_dict (config_to_dict c) = Inr c"
  unfolding config_from_dict_def config_to_dict_def by simp

lemma stored_api_key_encrypted:
  assumes "env_good env"
  shows "stored_api_key env (tenant_dict env
      (field_encrypt (te_crypto env) (te_master env) (te_rnd env n) k (tn_tenant_id t) ''api_key'') h t)
    = Inr k"
proof -
  have len: "length (te_rnd env n) = 12" using assms by (simp add: env_good_def)
  then have "te_rnd env n \<noteq> []" by auto
  then have ne: "field_encrypt (te_crypto env) (te_master env) (te_rnd env n) k (tn_tenant_id t) ''api_key'' \<noteq> []"
    by (simp add: field_encrypt_def Let_def)
  have "field_decrypt (te_crypto env) (te_master env)
      (field_encrypt (te_crypto env) (te_master env) (te_rnd env n) k (tn_tenant_id t) ''api_key'')
      (tn_tenant_id t) ''api_key'' = Inr k"
    using assms len field_decrypt_encrypt unfolding env_good_def by blast
  with ne show ?thesis by (simp add: stored_api_key_def tenant_dict_def)
qed

lemma stored_api_key_none: "stored_api_key env (tenant_dict env [] [] t) = Inr []"
  by (simp add: stored_api_key_def tenant_dict_def str_field_def)

lemma tenant_dict_round_trip:
  assumes "env_good env" and "tenant_ok t" and "stored_api_key env (tenant_dict env enc h t) = Inr (tn_api_key t)"
  shows "tenant_from_dict env now (tenant_dict env enc h t) = Inr t"
proof -
  have iso: "te_from_iso env (te_iso env x) = Some x" "te_iso env x \<noteq> []" for x
    using assms(1) by (simp_all add: env_good_def)
  have made: "tenant_post_init
      \<lparr>tn_tenant_id = tn_tenant_id t, tn_name = tn_name t, tn_email = tn_email t, tn_tier = tn_tier t,
       tn_role = tn_role t, tn_api_key = tn_api_key t, tn_config = tn_config t,
       tn_quota = quota_for_tier FREE, tn_created_at = tn_created_at t, tn_is_active = tn_is_active t,
       tn_stripe_customer_id = tn_stripe_customer_id t,
       tn_stripe_subscription_id = tn_stripe_subscription_id t,
       tn_owner_google_sub = tn_owner_google_sub t,
       tn_credential_schema_version = tn_credential_schema_version t, tn_is_demo = tn_is_demo t,
       tn_demo_expires_at = x, tn_demo_cost_cap_pipeline = tn_demo_cost_cap_pipeline t,
       tn_demo_cost_cap_llm = tn_demo_cost_cap_llm t, tn_demo_created_by = tn_demo_created_by t\<rparr> = t"
    if "tn_demo_expires_at t = x" for x
    using assms(2) that by (cases t) (auto simp: tenant_post_init_def tenant_ok_def Let_def)
  show ?thesis
    unfolding tenant_from_dict_def assms(3)
    unfolding tenant_dict_def
    by (cases "tn_demo_expires_at t")
      (simp_all add: made config_round_trip tier_round_trip iso iso_res_def)
qed

end
