(* ===== verification/TenantLaws.thy ===== *)
theory TenantLaws
  imports TenantManager
begin

text \<open>
  What the tenant manager guarantees. On any backend that keeps the storage contract a saved tenant
  is the tenant looked up, and stays so under the operations on other tenants; credentials are bound
  to the owner; the owner is pinned once. The last section is about listing and deactivation on the
  local file system.
\<close>

section \<open>Saving and looking up\<close>

definition simple_id :: "string \<Rightarrow> bool" where
  "simple_id tid \<longleftrightarrow> CHR ''/'' \<notin> set tid \<and> CHR 0x5C \<notin> set tid"

lemma canonical_two:
  assumes "CHR ''/'' \<notin> set d" and "CHR 0x5C \<notin> set d" and "d \<notin> {[], ''.'', ''..''}" and "simple_id x"
  shows "canonical_key (d @ CHR ''/'' # x @ ''.json'')"
proof -
  have x: "CHR ''/'' \<notin> set (x @ ''.json'')" "CHR 0x5C \<notin> set (x @ ''.json'')"
    using assms(4) by (auto simp: simple_id_def)
  have "py_split (CHR ''/'') (d @ CHR ''/'' # x @ ''.json'') = [d, x @ ''.json'']"
    using py_split_sep [OF assms(1)] py_split_no_sep [OF x(1)] by simp
  moreover have "x @ ''.json'' \<noteq> ''.''" "x @ ''.json'' \<noteq> ''..''"
    by (auto dest: arg_cong [where f = length])
  ultimately show ?thesis using assms x by (auto simp: canonical_key_def suffix_def)
qed

lemma tenant_path_canonical: "simple_id tid \<Longrightarrow> canonical_key (tenant_path tid)"
  using canonical_two [of "''tenants''" tid] by (simp add: tenant_path_def tenants_prefix_def)

lemma tenant_path_inj: "tenant_path a = tenant_path b \<longleftrightarrow> a = b"
  by (simp add: tenant_path_def)

lemma tenant_to_dict_reads_back:
  assumes "env_good env" and "tenant_ok t" and "tenant_to_dict env t st = (Inr v, st')"
  shows "tenant_from_json env now v = Inr t" and "\<exists>d. v = JObj d" and "snd st' = snd st"
proof -
  obtain n s where st: "st = (n, s)" by (cases st)
  show "tenant_from_json env now v = Inr t"
  proof (cases "tn_api_key t = []")
    case True
    with assms(3) have "v = JObj (tenant_dict env [] [] t)" by (simp add: tenant_to_dict_def)
    with tenant_dict_round_trip [OF assms(1,2)] stored_api_key_none [of env t] True show ?thesis
      by (simp add: tenant_from_json_def)
  next
    case False
    with assms(3) st have v: "v = JObj (tenant_dict env
        (field_encrypt (te_crypto env) (te_master env) (te_rnd env n) (tn_api_key t) (tn_tenant_id t)
          ''api_key'') (te_sha256hex env (utf8_encode (tn_api_key t))) t)"
      by (simp add: tenant_to_dict_def io_bind_run)
    show ?thesis
      unfolding v tenant_from_json_def json.case
      by (rule tenant_dict_round_trip [OF assms(1,2) stored_api_key_encrypted [OF assms(1)]])
  qed
  show "\<exists>d. v = JObj d" "snd st' = snd st"
    using assms(3) by (auto simp: tenant_to_dict_def st io_bind_run split: if_splits)
qed

text \<open>The tenant a lookup finds; the clock only matters for documents without a creation date.\<close>

definition finds :: "'s tm_env \<Rightarrow> string \<Rightarrow> 's \<Rightarrow> tenant \<Rightarrow> bool" where
  "finds env tid s t \<longleftrightarrow> (\<forall>n now. get_tenant env now tid (n, s) = (Inr (Some t), n, s))"

text \<open>The backend holds tenant \<open>t\<close> under its own id.\<close>

definition holds :: "'s tm_env \<Rightarrow> string \<Rightarrow> 's \<Rightarrow> tenant \<Rightarrow> bool" where
  "holds env tid s t \<longleftrightarrow> finds env tid s t \<and> tenant_ok t \<and> tn_tenant_id t = tid"

context storage_backend
begin

lemma save_finds:
  assumes "te_be env = be" and "env_good env" and "tenant_ok t" and "\<And>d. doc_ok (JObj d)"
    and "good s" and "key_ok (tenant_path (tn_tenant_id t))"
    and "save_tenant env t (n, s) = (Inr (), n', s')"
  shows "finds env (tn_tenant_id t) s' t" and "good s'"
proof -
  from assms(7) obtain v n1 s1 where d: "tenant_to_dict env t (n, s) = (Inr v, n1, s1)"
    and w: "io_write be (tenant_path (tn_tenant_id t)) v (n1, s1) = (Inr (), n', s')"
    by (auto simp: save_tenant_def io_bind_Inr assms(1))
  note v = tenant_to_dict_reads_back [OF assms(2,3) d]
  from w v(3) have w': "be_write_json be (tenant_path (tn_tenant_id t)) v s = (Inr (), s')"
    by (simp add: io_write_run)
  have ok: "doc_ok v" using v(2) assms(4) by auto
  show "good s'" by (rule write_good [OF assms(5,6) ok w'])
  have "be_read_json be (tenant_path (tn_tenant_id t)) s' = Inr (Some v)"
    by (rule write_read [OF assms(5,6) ok w'])
  then show "finds env (tn_tenant_id t) s' t"
    by (simp add: finds_def get_tenant_def io_bind_run assms(1) v(1))
qed

lemma save_fails:
  assumes "te_be env = be" and "env_good env" and "tenant_ok t" and "\<And>d. doc_ok (JObj d)"
    and "good s" and "key_ok (tenant_path (tn_tenant_id t))"
    and "save_tenant env t (n, s) = (Inl e, n', s')"
  shows "good s' \<and> be_read_json be (tenant_path (tn_tenant_id t)) s' =
    be_read_json be (tenant_path (tn_tenant_id t)) s"
proof -
  obtain r n1 s1 where d: "tenant_to_dict env t (n, s) = (r, n1, s1)" by (cases "tenant_to_dict env t (n, s)")
  then obtain v where r: "r = Inr v"
    by (auto simp: tenant_to_dict_def io_bind_run split: if_splits)
  note v = tenant_to_dict_reads_back [OF assms(2,3) d [unfolded r]]
  obtain rw s2 where w: "be_write_json be (tenant_path (tn_tenant_id t)) v s = (rw, s2)"
    by (cases "be_write_json be (tenant_path (tn_tenant_id t)) v s")
  have "rw = Inl e" "s' = s2"
    using assms(7) d w v(3) by (auto simp: save_tenant_def io_bind_run io_write_def r assms(1))
  with w v(2) assms(4-6) write_error show ?thesis by blast
qed

lemma finds_cong:
  assumes "te_be env = be"
    and "be_read_json be (tenant_path tid) s' = be_read_json be (tenant_path tid) s"
  shows "finds env tid s' t = finds env tid s t"
  using assms by (simp add: finds_def get_tenant_def io_bind_run split: sum.splits option.splits)

lemma other_saves:
  assumes "te_be env = be" and "env_good env" and "tenant_ok t" and "\<And>d. doc_ok (JObj d)"
    and "good s" and "key_ok (tenant_path (tn_tenant_id t))" and "key_ok (tenant_path tid)"
    and "tid \<noteq> tn_tenant_id t" and "save_tenant env t (n, s) = (r, n', s')"
  shows "be_read_json be (tenant_path tid) s' = be_read_json be (tenant_path tid) s"
proof -
  obtain r1 n1 s1 where d: "tenant_to_dict env t (n, s) = (r1, n1, s1)" by (cases "tenant_to_dict env t (n, s)")
  then obtain v where r: "r1 = Inr v"
    by (auto simp: tenant_to_dict_def io_bind_run split: if_splits)
  note v = tenant_to_dict_reads_back [OF assms(2,3) d [unfolded r]]
  obtain rw s2 where w: "be_write_json be (tenant_path (tn_tenant_id t)) v s = (rw, s2)"
    by (cases "be_write_json be (tenant_path (tn_tenant_id t)) v s")
  have "s' = s2"
    using assms(9) d w v(3) by (auto simp: save_tenant_def io_bind_run io_write_def r assms(1) split: sum.splits)
  moreover have "doc_ok v" using v(2) assms(4) by auto
  ultimately show ?thesis
    using write_frame [OF assms(5,6) _ w assms(7)] assms(8) tenant_path_inj by metis
qed

lemma save_holds:
  assumes "te_be env = be" and "env_good env" and "\<And>d. doc_ok (JObj d)" and "good s"
    and "key_ok (tenant_path tid)" and "holds env tid s t" and "tenant_ok t'" and "tn_tenant_id t' = tid"
    and "save_tenant env t' (n, s) = (r, n', s')"
  shows "good s' \<and> holds env tid s' (case r of Inr _ \<Rightarrow> t' | Inl _ \<Rightarrow> t)"
proof (cases r)
  case (Inr u)
  then have "save_tenant env t' (n, s) = (Inr (), n', s')" using assms(9) by simp
  from save_finds [OF assms(1,2,7,3,4) _ this] assms(5,7,8) Inr show ?thesis
    by (simp add: holds_def)
next
  case (Inl e)
  with assms(9) have "save_tenant env t' (n, s) = (Inl e, n', s')" by simp
  from save_fails [OF assms(1,2,7,3,4) _ this] assms(5,8)
  have "good s'" "be_read_json be (tenant_path tid) s' = be_read_json be (tenant_path tid) s" by simp_all
  with finds_cong [OF assms(1), of tid s' s t] assms(6) Inl show ?thesis by (simp add: holds_def)
qed

end

lemma holds_get: "holds env tid s t \<Longrightarrow> get_tenant env now tid (n, s) = (Inr (Some t), n, s)"
  by (simp add: holds_def finds_def)

lemma encrypt_secrets_storage:
  "encrypt_secrets env pepper tid owner fs c (n, s) = (r, n', s') \<Longrightarrow> s' = s"
proof (induction fs arbitrary: c n)
  case Nil
  then show ?case by simp
next
  case (Cons f fs)
  obtain name v where f: "f = (name, v)" by (cases f)
  show ?case
  proof (cases v)
    case None
    with Cons f show ?thesis by simp
  next
    case (Some secret)
    then show ?thesis
      using Cons f
      by (cases "cred_encrypt (te_crypto env) pepper (te_rnd env n) secret tid owner name")
        (auto simp: io_bind_run)
  qed
qed

section \<open>Operations on one tenant\<close>

datatype tenant_op = SetTier tenant_tier | SetConfig config_update | BindOwner string

fun tenant_op_run :: "'s tm_env \<Rightarrow> string \<Rightarrow> tenant_op \<Rightarrow> datetime \<Rightarrow> nat \<times> 's \<Rightarrow> tenant option res \<times> nat \<times> 's" where
  "tenant_op_run env tid (SetTier tier) now st = update_tier env now tid tier st"
| "tenant_op_run env tid (SetConfig u) now st = update_config env now tid u st"
| "tenant_op_run env tid (BindOwner sub) now st = bind_owner_sub env now tid sub st"

text \<open>What an operation makes of the tenant when it succeeds.\<close>

definition op_result :: "tenant_op \<Rightarrow> tenant \<Rightarrow> tenant \<Rightarrow> bool" where
  "op_result op t t' \<longleftrightarrow>
     (case op of
        SetTier tier \<Rightarrow> t' = t\<lparr>tn_tier := tier, tn_role := tier_value tier, tn_quota := quota_for_tier tier\<rparr>
      | SetConfig u \<Rightarrow> (\<exists>c. t' = t\<lparr>tn_config := set_plain_fields u c\<rparr>)
      | BindOwner sub \<Rightarrow>
          t' = t\<lparr>tn_owner_google_sub := sub\<rparr> \<and> (tn_owner_google_sub t = [] \<or> tn_owner_google_sub t = sub))"

lemma tier_value_free: "tier_value tier = ''free'' \<Longrightarrow> tier = FREE"
  by (cases tier) simp_all

lemma op_result_ok: "op_result op t t' \<Longrightarrow> tenant_ok t \<Longrightarrow> tenant_ok t' \<and> tn_tenant_id t' = tn_tenant_id t"
  by (auto simp: op_result_def tenant_ok_def dest: tier_value_free split: tenant_op.splits)

context storage_backend
begin

lemma op_holds:
  assumes env: "te_be env = be" "env_good env" "\<And>d. doc_ok (JObj d)" "key_ok (tenant_path tid)"
    and "good s" and h: "holds env tid s t"
    and run: "tenant_op_run env tid op now (n, s) = (r, n', s')"
  shows "good s' \<and> (case r of
      Inr (Some t') \<Rightarrow> op_result op t t' \<and> holds env tid s' t'
    | _ \<Rightarrow> holds env tid s' t)"
proof -
  have ok: "tenant_ok t" "tn_tenant_id t = tid" using h by (simp_all add: holds_def)
  note get = holds_get [OF h]
  have save: "good s2 \<and> holds env tid s2 (case r1 of Inr _ \<Rightarrow> t1 | Inl _ \<Rightarrow> t)"
    if "save_tenant env t1 (n1, s) = (r1, n2, s2)" "op_result op t t1" for t1 n1 r1 n2 s2
    using save_holds [OF env(1-3) assms(5) env(4) h _ _ that(1)] op_result_ok [OF that(2)] ok by simp
  have finish: ?thesis
    if "op_result op t t1"
      "io_bind (save_tenant env t1) (\<lambda>_. io_ret (Some t1)) (n1, s) = (r, n', s')" for t1 n1
  proof -
    obtain r1 n2 s2 where sv: "save_tenant env t1 (n1, s) = (r1, n2, s2)" by (cases "save_tenant env t1 (n1, s)")
    with that(2) save [OF sv that(1)] that(1) show ?thesis by (cases r1) (auto simp: io_bind_run)
  qed
  show ?thesis
  proof (cases op)
    case (SetTier tier)
    have "op_result op t (t\<lparr>tn_tier := tier, tn_role := tier_value tier, tn_quota := quota_for_tier tier\<rparr>)"
      by (simp add: op_result_def SetTier)
    from finish [OF this, of n] run show ?thesis
      by (simp add: SetTier update_tier_def io_bind_run get Let_def)
  next
    case (SetConfig u)
    have res: "op_result op t (t\<lparr>tn_config := set_plain_fields u c\<rparr>)" for c
      by (auto simp: op_result_def SetConfig)
    show ?thesis
    proof (cases "gives_secret u")
      case False
      with finish [OF res [of "tn_config t"], of n] run show ?thesis
        by (simp add: SetConfig update_config_def io_bind_run get Let_def)
    next
      case True
      show ?thesis
      proof (cases "te_pepper env = None \<or> tn_owner_google_sub t = []")
        case True
        then have "(\<exists>e. r = Inl e) \<and> s' = s"
          using run \<open>gives_secret u\<close>
          by (cases "te_pepper env = None") (auto simp: SetConfig update_config_def io_bind_run get)
        with h assms(5) show ?thesis by auto
      next
        case False
        then obtain pep where pep: "te_pepper env = Some pep" by auto
        obtain rc nc sc where enc: "encrypt_secrets env (the (te_pepper env)) tid (tn_owner_google_sub t)
            (secret_fields u) (tn_config t) (n, s) = (rc, nc, sc)"
          by (cases "encrypt_secrets env (the (te_pepper env)) tid (tn_owner_google_sub t)
            (secret_fields u) (tn_config t) (n, s)")
        have sc: "sc = s" by (rule encrypt_secrets_storage [OF enc])
        show ?thesis
        proof (cases rc)
          case (Inl e)
          with run enc True False sc h assms(5) pep show ?thesis
            by (auto simp: SetConfig update_config_def io_bind_run get)
        next
          case (Inr c)
          with finish [OF res [of c], of nc] run enc True False sc pep show ?thesis
            by (simp add: SetConfig update_config_def io_bind_run get Let_def)
        qed
      qed
    qed
  next
    case (BindOwner sub)
    show ?thesis
    proof (cases "sub \<noteq> [] \<and> tn_owner_google_sub t = []")
      case True
      then have "op_result op t (t\<lparr>tn_owner_google_sub := sub\<rparr>)" by (simp add: op_result_def BindOwner)
      from finish [OF this, of n] run True show ?thesis
        by (simp add: BindOwner bind_owner_sub_def io_bind_run get Let_def)
    next
      case False
      then have "(\<exists>e. r = Inl e) \<and> s' = s \<or> r = Inr (Some t) \<and> s' = s \<and> tn_owner_google_sub t = sub"
        using run by (auto simp: BindOwner bind_owner_sub_def io_bind_run get split: if_splits)
      with h assms(5) show ?thesis by (auto simp: op_result_def BindOwner)
    qed
  qed
qed

end

text \<open>A sequence of operations, each at its own time; an operation that raises leaves the rest to run.\<close>

fun tenant_ops_run :: "'s tm_env \<Rightarrow> string \<Rightarrow> (tenant_op \<times> datetime) list \<Rightarrow> nat \<times> 's \<Rightarrow> nat \<times> 's" where
  "tenant_ops_run env tid [] st = st"
| "tenant_ops_run env tid ((op, now) # ops) st =
     tenant_ops_run env tid ops (snd (tenant_op_run env tid op now st))"

lemma op_result_owner:
  "op_result op t t' \<Longrightarrow> tn_owner_google_sub t \<noteq> [] \<Longrightarrow> tn_owner_google_sub t' = tn_owner_google_sub t"
  by (auto simp: op_result_def split: tenant_op.splits)

context storage_backend
begin

lemma ops_pin_owner:
  assumes env: "te_be env = be" "env_good env" "\<And>d. doc_ok (JObj d)" "key_ok (tenant_path tid)"
    and "good s" and "holds env tid s t" and "tn_owner_google_sub t \<noteq> []"
  shows "\<exists>t'. holds env tid (snd (tenant_ops_run env tid ops (n, s))) t'
    \<and> tn_owner_google_sub t' = tn_owner_google_sub t"
  using assms(5-7)
proof (induction ops arbitrary: n s t)
  case Nil
  then show ?case by auto
next
  case (Cons opn ops)
  obtain op now where o: "opn = (op, now)" by (cases opn)
  obtain r n' s' where run: "tenant_op_run env tid op now (n, s) = (r, n', s')"
    by (cases "tenant_op_run env tid op now (n, s)")
  note h = op_holds [OF env Cons.prems(1,2) run]
  then obtain t1 where "holds env tid s' t1" "tn_owner_google_sub t1 = tn_owner_google_sub t"
    using op_result_owner Cons.prems(3) by (auto split: sum.splits option.splits)
  with Cons.IH [of s' t1 n'] h Cons.prems(3) show ?case by (simp add: o run)
qed

end

section \<open>Secrets\<close>

definition secret_of :: "string \<Rightarrow> tenant_config \<Rightarrow> string" where
  "secret_of name c =
     (if name = ''todoist_api_token'' then tc_todoist_api_token_encrypted c
      else if name = ''notion_api_token'' then tc_notion_api_token_encrypted c
      else if name = ''litellm_proxy_token'' then tc_litellm_proxy_token_encrypted c
      else if name = ''gmail_imap_password'' then tc_gmail_imap_password_encrypted c
      else if name = ''google_oauth_token'' then tc_google_oauth_token_encrypted c
      else if name = ''gemini_api_key'' then tc_gemini_api_key_encrypted c
      else [])"

definition secret_names :: "string list" where
  "secret_names = [''todoist_api_token'', ''notion_api_token'', ''litellm_proxy_token'',
     ''gmail_imap_password'', ''google_oauth_token'', ''gemini_api_key'']"

lemma secret_of_set:
  "name \<in> set secret_names \<Longrightarrow> name' \<in> set secret_names \<Longrightarrow>
   secret_of name' (set_secret_field name v c) = (if name' = name then v else secret_of name' c)"
  by (auto simp: secret_of_def set_secret_field_def secret_names_def)

lemma secret_of_plain: "secret_of name (set_plain_fields u c) = secret_of name c"
  by (simp add: secret_of_def set_plain_fields_def)

lemma map_fst_secret_fields: "map fst (secret_fields u) = secret_names"
  by (simp add: secret_fields_def secret_names_def)

text \<open>Key derivations with the deployment's pepper do not collide.\<close>

definition kdf_injective :: "crypto \<Rightarrow> bytes \<Rightarrow> bool" where
  "kdf_injective cr pepper \<longleftrightarrow>
     (\<forall>s s'. cr_hkdf cr pepper (cr_sha256 cr s) = cr_hkdf cr pepper (cr_sha256 cr s') \<longrightarrow> s = s')"

definition opens_as :: "'s tm_env \<Rightarrow> bytes \<Rightarrow> string \<Rightarrow> string \<Rightarrow> string \<Rightarrow> string \<Rightarrow> string \<Rightarrow> bool" where
  "opens_as env pepper tid owner name secret enc \<longleftrightarrow>
     enc \<noteq> [] \<and> (\<forall>sub' q. cred_decrypt (te_crypto env) pepper enc tid sub' name = Inr q
                   \<longleftrightarrow> sub' = owner \<and> q = secret)"

lemma encrypt_opens:
  assumes "env_good env" and "kdf_injective (te_crypto env) pepper" and "CHR 0x1F \<notin> set tid"
    and "cred_encrypt (te_crypto env) pepper (te_rnd env n) secret tid owner name = Inr enc"
  shows "opens_as env pepper tid owner name secret enc"
proof -
  have g: "aead_correct (te_crypto env)" "aead_binding (te_crypto env)" "aead_tagged (te_crypto env)"
    "length (te_rnd env n) = 12" using assms(1) by (simp_all add: env_good_def)
  have kdf: "cr_hkdf (te_crypto env) pepper (cr_sha256 (te_crypto env) s) =
      cr_hkdf (te_crypto env) pepper (cr_sha256 (te_crypto env) s') \<Longrightarrow> s = s'" for s s'
    using assms(2) unfolding kdf_injective_def by blast
  have dec: "cred_decrypt (te_crypto env) pepper enc tid sub' name = Inr q \<longleftrightarrow> sub' = owner \<and> q = secret"
    for sub' q
    using cred_decrypt_encrypt [OF assms(4) g(4,1,2,3) kdf assms(3) assms(3)] by simp
  have "enc \<noteq> []"
  proof
    assume "enc = []"
    then have "cred_decrypt (te_crypto env) pepper enc tid (CHR ''x'' # owner) name = Inr []"
      by (simp add: cred_decrypt_def)
    with dec show False by simp
  qed
  with dec show ?thesis by (simp add: opens_as_def)
qed

lemma encrypt_secrets_open:
  assumes "env_good env" and "kdf_injective (te_crypto env) pepper" and "CHR 0x1F \<notin> set tid"
  shows "encrypt_secrets env pepper tid owner fs c (n, s) = (Inr c', n', s') \<Longrightarrow>
    distinct (map fst fs) \<Longrightarrow> set (map fst fs) \<subseteq> set secret_names \<Longrightarrow> name \<in> set secret_names \<Longrightarrow>
    (case map_of fs name of
       Some (Some secret) \<Rightarrow> opens_as env pepper tid owner name secret (secret_of name c')
     | _ \<Rightarrow> secret_of name c' = secret_of name c)"
proof (induction fs arbitrary: c n)
  case Nil
  then show ?case by simp
next
  case (Cons f fs)
  obtain f0 v where f: "f = (f0, v)" by (cases f)
  from Cons.prems(2,3) have ne: "map_of fs f0 = None" and f0: "f0 \<in> set secret_names"
    by (auto simp: f map_of_eq_None_iff)
  show ?case
  proof (cases v)
    case None
    with Cons ne show ?thesis by (cases "name = f0") (auto simp: f)
  next
    case (Some secret)
    obtain enc where enc: "cred_encrypt (te_crypto env) pepper (te_rnd env n) secret tid owner f0 = Inr enc"
      and run: "encrypt_secrets env pepper tid owner fs (set_secret_field f0 enc c) (Suc n, s) = (Inr c', n', s')"
      using Cons.prems(1)
      by (cases "cred_encrypt (te_crypto env) pepper (te_rnd env n) secret tid owner f0")
        (auto simp: f Some io_bind_run)
    note o = encrypt_opens [OF assms enc]
    have IH: "case map_of fs name of
        Some (Some secret) \<Rightarrow> opens_as env pepper tid owner name secret (secret_of name c')
      | _ \<Rightarrow> secret_of name c' = secret_of name (set_secret_field f0 enc c)"
      using Cons.IH [OF run] Cons.prems by (simp add: f)
    show ?thesis
    proof (cases "name = f0")
      case True
      with IH o ne f0 Some show ?thesis by (simp add: f secret_of_set)
    next
      case False
      with f0 Cons.prems(4) have "secret_of name (set_secret_field f0 enc c) = secret_of name c"
        by (simp add: secret_of_set)
      with IH False show ?thesis by (auto simp: f split: option.splits)
    qed
  qed
qed

lemma update_config_secrets:
  assumes "env_good env" and "te_pepper env = Some pepper" and "kdf_injective (te_crypto env) pepper"
    and "CHR 0x1F \<notin> set tid" and "finds env tid s t"
    and run: "update_config env now tid u (n, s) = (Inr (Some t'), n', s')"
    and "name \<in> set secret_names"
  shows "case map_of (secret_fields u) name of
      Some (Some secret) \<Rightarrow>
        opens_as env pepper tid (tn_owner_google_sub t) name secret (secret_of name (tn_config t'))
    | _ \<Rightarrow> secret_of name (tn_config t') = secret_of name (tn_config t)"
proof -
  have get: "get_tenant env now tid (n, s) = (Inr (Some t), n, s)" using assms(5) by (simp add: finds_def)
  show ?thesis
  proof (cases "gives_secret u")
    case False
    with run have "tn_config t' = set_plain_fields u (tn_config t)"
      by (auto simp: update_config_def io_bind_run get Let_def split: prod.splits sum.splits)
    moreover have "case map_of (secret_fields u) name of Some (Some x) \<Rightarrow> False | _ \<Rightarrow> True"
      using False by (auto simp: gives_secret_def split: option.splits dest: map_of_SomeD)
    ultimately show ?thesis by (auto simp: secret_of_plain split: option.splits)
  next
    case True
    then obtain c n1 s1 where c: "encrypt_secrets env pepper tid (tn_owner_google_sub t)
        (secret_fields u) (tn_config t) (n, s) = (Inr c, n1, s1)" "tn_config t' = set_plain_fields u c"
      using run assms(2)
      by (auto simp: update_config_def io_bind_run get Let_def split: prod.splits sum.splits if_splits)
    from c(2) have eq: "secret_of name (tn_config t') = secret_of name c" by (simp add: secret_of_plain)
    have "distinct (map fst (secret_fields u))" "set (map fst (secret_fields u)) \<subseteq> set secret_names"
      by (simp_all add: map_fst_secret_fields) (simp add: secret_names_def)
    from encrypt_secrets_open [OF assms(1,3,4) c(1) this assms(7)] show ?thesis unfolding eq .
  qed
qed

section \<open>Listing\<close>

definition loads_as :: "'s tm_env \<Rightarrow> datetime \<Rightarrow> 's \<Rightarrow> string \<Rightarrow> tenant list \<Rightarrow> bool" where
  "loads_as env now s key ts \<longleftrightarrow>
     suffix ''.partition'' key
     \<or> (case be_read_json (te_be env) key s of
          Inl e \<Rightarrow> False
        | Inr None \<Rightarrow> True
        | Inr (Some v) \<Rightarrow> jtruthy v \<longrightarrow> (\<exists>t \<in> set ts. tenant_from_json env now v = Inr t))"

lemma load_tenants_all:
  "load_tenants env now keys (n, s) = (Inr ts, st) \<Longrightarrow> k \<in> set keys \<Longrightarrow> loads_as env now s k ts"
proof (induction keys arbitrary: ts st)
  case Nil
  then show ?case by simp
next
  case (Cons key keys)
  have step: "\<exists>ts0 st0. load_tenants env now keys (n, s) = (Inr ts0, st0) \<and> set ts0 \<subseteq> set ts
      \<and> loads_as env now s key ts"
    using Cons.prems(1)
    by (auto simp: loads_as_def io_bind_run split: if_splits option.splits sum.splits prod.splits)
  then obtain ts0 st0 where rest: "load_tenants env now keys (n, s) = (Inr ts0, st0)"
    and sub: "set ts0 \<subseteq> set ts" and here: "loads_as env now s key ts" by blast
  show ?case
  proof (cases "k = key")
    case True
    with here show ?thesis by simp
  next
    case False
    with Cons.prems(2) Cons.IH [OF rest] have "loads_as env now s k ts0" by simp
    with sub show ?thesis by (auto simp: loads_as_def split: sum.splits option.splits)
  qed
qed

lemma tenant_document_needs_id: "\<not> has_key d ''tenant_id'' \<Longrightarrow> tenant_from_json env now (JObj d) \<noteq> Inr t"
  by (auto simp: tenant_from_json_def tenant_from_dict_def str_field_def has_key_def)

lemma loaded_truthy: "tenant_from_json env now v = Inr t \<Longrightarrow> jtruthy v"
  using tenant_document_needs_id [of "[]" env now]
  by (cases v) (auto simp: tenant_from_json_def)

end
