(* ===== verification/TenantGuarantees.thy ===== *)
theory TenantGuarantees
  imports TenantLaws
begin

text \<open>
  Deactivation on the local backend, and the properties of the tenant manager. The concrete
  environment of the witnesses uses the framing cipher and a unary time text.
\<close>

section \<open>Deactivation\<close>

lemma first_part:
  assumes "c \<notin> {CHR ''/'', CHR ''.''}"
  shows "\<exists>w ws. pp_parts (py_path (c # r)) = (c # w) # ws \<and> pp_root (py_path (c # r)) = NoRoot"
proof -
  obtain w ws where "py_split (CHR ''/'') r = w # ws" by (cases "py_split (CHR ''/'') r") auto
  with assms show ?thesis by (simp add: py_path_def leading_slashes_def)
qed

lemma resolve_first:
  assumes "c \<notin> {CHR ''/'', CHR ''.'', CHR 0x5C}" and "resolve_key base (c # r) = Inr p"
  shows "\<exists>w ws. p = base\<lparr>pp_parts := pp_parts base @ (c # w) # ws\<rparr>"
proof -
  let ?r = "map (\<lambda>c. if c = CHR 0x5C then CHR ''/'' else c) r"
  have c: "c \<notin> {CHR ''/'', CHR ''.''}" using assms(1) by simp
  from first_part [OF c, of ?r] obtain w ws
    where parts: "pp_parts (py_path (c # ?r)) = (c # w) # ws" and rt: "pp_root (py_path (c # ?r)) = NoRoot"
    by blast
  have "map (\<lambda>c. if c = CHR 0x5C then CHR ''/'' else c) (c # r) = c # ?r" using assms(1) by simp
  with assms(2) have "p = path_join base (py_path (c # ?r))"
    by (simp add: resolve_key_def Let_def split: if_splits)
  with parts rt show ?thesis by (auto simp: path_join_def)
qed

lemma py_join_first: "\<exists>r. py_join sep ((c # w) # ws) = c # r"
  by (cases ws) auto

lemma listed_first:
  assumes "c \<notin> {CHR ''/'', CHR ''.'', CHR 0x5C}" and "local_list_keys base (c # r) fs = Inr keys"
    and "key \<in> set keys"
  shows "\<exists>r'. key = c # r'"
proof -
  obtain d where d: "resolve_key base (c # r) = Inr d" using assms(2) by (auto simp: local_list_keys_def)
  from resolve_first [OF assms(1) d] obtain w ws
    where dp: "d = base\<lparr>pp_parts := pp_parts base @ (c # w) # ws\<rparr>" by blast
  show ?thesis
  proof (cases "is_dir base fs d")
    case True
    with assms(2) d have "rmap (relative_key base (pp_root d)) (json_files_under fs d) = Inr keys"
      by (simp add: local_list_keys_def)
    from rmap_member [OF this assms(3)] obtain parts
      where "parts \<in> set (json_files_under fs d)" and rel: "relative_key base (pp_root d) parts = Inr key"
      by blast
    then obtain zs where "parts = pp_parts d @ zs"
      by (auto simp: json_files_under_def strictly_under_def strict_prefix_def prefix_def)
    with rel dp have "key = py_join ''/'' ((c # w) # ws @ zs)"
      by (auto simp: relative_key_def split: if_splits)
    with py_join_first show ?thesis by metis
  next
    case False
    with assms(2,3) d have "prefix (rstrip_slash (c # r)) key"
      by (auto simp: local_list_keys_def split: if_splits)
    moreover have "rstrip_slash (c # r) = c # rev (dropWhile (\<lambda>c. c = CHR ''/'') (rev r))"
      using assms(1) by (auto simp: rstrip_slash_def dropWhile_append dropWhile_eq_Nil_conv)
    ultimately show ?thesis by (auto simp: prefix_def)
  qed
qed


text \<open>Deleting what is listed below a layer leaves the keys of other first characters alone.\<close>

lemma delete_other:
  assumes "c \<notin> {CHR ''/'', CHR ''.'', CHR 0x5C}" and "c' \<notin> {CHR ''/'', CHR ''.'', CHR 0x5C}" and "c' \<noteq> c"
    and "io_delete (local_backend parse render base) (c # r) (n, fs) = (x, n', fs')"
  shows "be_read_json (local_backend parse render base) (c' # q) fs' =
    be_read_json (local_backend parse render base) (c' # q) fs"
proof (cases "resolve_key base (c # r)")
  case (Inl e)
  with assms(4) show ?thesis by (auto simp: io_delete_def local_backend_def local_delete_def)
next
  case (Inr p)
  show ?thesis
  proof (cases "resolve_key base (c' # q)")
    case (Inl e)
    then show ?thesis by (simp add: local_backend_def local_read_json_def)
  next
    case q: (Inr p')
    from resolve_first [OF assms(1) Inr] resolve_first [OF assms(2) q] assms(3) have "p' \<noteq> p"
      by (auto dest!: arg_cong [where f = pp_parts])
    with assms(4) Inr q show ?thesis
      by (auto simp: io_delete_def local_backend_def local_delete_def local_read_json_def
          split: if_splits)
  qed
qed

lemma delete_prefix_other:
  assumes "c \<notin> {CHR ''/'', CHR ''.'', CHR 0x5C}" and "c' \<notin> {CHR ''/'', CHR ''.'', CHR 0x5C}" and "c' \<noteq> c"
  shows "io_keeps (\<lambda>fs. be_read_json (local_backend parse render base) (c' # q) fs = v)
    (delete_prefix (local_backend parse render base) (c # r))"
  unfolding io_keeps_def
proof (intro allI impI)
  fix n fs x n' fs'
  let ?be = "local_backend parse render base"
  let ?P = "\<lambda>fs. be_read_json ?be (c' # q) fs = v"
  assume P: "?P fs" and run: "delete_prefix ?be (c # r) (n, fs) = (x, n', fs')"
  show "?P fs'"
  proof (cases "local_list_keys base (c # r) fs")
    case (Inl e)
    with P run show ?thesis by (simp add: delete_prefix_def io_bind_run io_list_def local_backend_def)
  next
    case (Inr keys)
    have each: "io_keeps ?P (io_bind (io_delete ?be key) (\<lambda>_. io_ret ()))" if "key \<in> set keys" for key
    proof -
      from listed_first [OF assms(1) Inr that] obtain r' where "key = c # r'" by blast
      then have "io_keeps ?P (io_delete ?be key)"
        using delete_other [OF assms] unfolding io_keeps_def by metis
      then show ?thesis by (intro io_keeps_bind) (auto simp: io_keeps_def)
    qed
    have "io_keeps ?P (io_each (\<lambda>key. io_bind (io_delete ?be key) (\<lambda>_. io_ret ())) keys)"
      by (rule io_keeps_each [OF each])
    moreover have "io_each (\<lambda>key. io_bind (io_delete ?be key) (\<lambda>_. io_ret ())) keys (n, fs) = (x, n', fs')"
      using run Inr by (simp add: delete_prefix_def io_bind_run io_list_def local_backend_def)
    ultimately show ?thesis using P unfolding io_keeps_def by blast
  qed
qed

lemma deactivate_record:
  assumes "te_be env = local_backend parse render base" and "env_good env" and "simple_id tid"
    and "holds env tid fs t" and "deactivate_tenant env now tid (n, fs) = (Inr True, n', fs')"
  shows "finds env tid fs' (t\<lparr>tn_is_active := False, tn_config := wipe_secrets (tn_config t)\<rparr>)"
proof -
  let ?be = "local_backend parse render base"
  define t' where "t' = t\<lparr>tn_is_active := False, tn_config := wipe_secrets (tn_config t)\<rparr>"
  define purge where "purge = io_each (\<lambda>layer. delete_prefix ?be (layer @ ''/'' @ tid @ ''/'')) tenant_layers"
  have ok: "tenant_ok t'" "tn_tenant_id t' = tid" using assms(4) by (auto simp: t'_def holds_def tenant_ok_def)
  from assms(5) obtain n1 fs1 where sv: "save_tenant env t' (n, fs) = (Inr (), n1, fs1)"
    and pg: "purge (n1, fs1) = (Inr (), n', fs')"
    by (auto simp: deactivate_tenant_def holds_get [OF assms(4)] io_bind_run assms(1) Let_def
        t'_def [symmetric] purge_def split: sum.splits prod.splits)
  have "finds env (tn_tenant_id t') fs1 t'"
    by (rule local_store.save_finds(1) [OF assms(1,2) ok(1) _ _ _ sv])
      (simp_all add: ok tenant_path_canonical assms(3))
  then have found: "finds env tid fs1 t'" unfolding ok(2) .
  obtain q where q: "tenant_path tid = CHR ''t'' # q" by (simp add: tenant_path_def tenants_prefix_def)
  have "io_keeps (\<lambda>fs. be_read_json ?be (CHR ''t'' # q) fs = be_read_json ?be (CHR ''t'' # q) fs1) purge"
    unfolding purge_def
  proof (rule io_keeps_each)
    fix layer assume "layer \<in> set tenant_layers"
    then show "io_keeps (\<lambda>fs. be_read_json ?be (CHR ''t'' # q) fs = be_read_json ?be (CHR ''t'' # q) fs1)
        (delete_prefix ?be (layer @ ''/'' @ tid @ ''/''))"
      by (auto simp: tenant_layers_def intro!: delete_prefix_other)
  qed
  then have rd: "be_read_json ?be (tenant_path tid) fs' = be_read_json ?be (tenant_path tid) fs1"
    using pg unfolding q io_keeps_def by blast
  show ?thesis
    using found unfolding local_store.finds_cong [OF assms(1) rd, symmetric] t'_def .
qed


section \<open>An environment to evaluate in\<close>

definition unary_iso :: "datetime \<Rightarrow> string" where
  "unary_iso d =
     (if dt_aware d then CHR ''+'' else CHR ''-'') # (if dt_micros d < 0 then CHR ''-'' else CHR ''+'')
       # replicate (nat \<bar>dt_micros d\<bar>) CHR ''x''"

definition unary_from_iso :: "string \<Rightarrow> datetime option" where
  "unary_from_iso s =
     (case s of
        a # b # xs \<Rightarrow> Some \<lparr>dt_micros = (if b = CHR ''-'' then - int (length xs) else int (length xs)),
                            dt_aware = (a = CHR ''+'')\<rparr>
      | _ \<Rightarrow> None)"

lemma unary_iso_round_trip: "unary_from_iso (unary_iso d) = Some d"
  by (cases "dt_micros d < 0"; cases "dt_aware d") (simp_all add: unary_iso_def unary_from_iso_def)

lemma unary_iso_nonempty: "unary_iso d \<noteq> []"
  by (simp add: unary_iso_def)

definition sample_backend :: "files backend" where
  "sample_backend = local_backend (\<lambda>_. None) (\<lambda>_. []) (py_path ''/data'')"

definition sample_env :: "files tm_env" where
  "sample_env =
     \<lparr>te_be = sample_backend, te_crypto = framing_crypto, te_master = ''m'', te_pepper = Some ''pepper'',
      te_rnd = (\<lambda>_. ''nonce1234567''), te_sha256hex = (\<lambda>_. ''00''), te_iso = unary_iso,
      te_from_iso = unary_from_iso\<rparr>"

lemma sample_env_good: "env_good sample_env"
  using unary_iso_round_trip unary_iso_nonempty framing_crypto_ok
  by (simp add: env_good_def sample_env_def)

lemma sample_env_be: "te_be sample_env = local_backend (\<lambda>_. None) (\<lambda>_. []) (py_path ''/data'')"
  by (simp add: sample_env_def sample_backend_def)

lemma sample_kdf: "te_pepper sample_env = Some ''pepper''" "kdf_injective (te_crypto sample_env) ''pepper''"
  by (simp_all add: sample_env_def kdf_injective_def framing_crypto_def frame_append_inj frame_inj)

definition sample_time :: datetime where
  "sample_time = \<lparr>dt_micros = 3, dt_aware = True\<rparr>"

text \<open>A tenant on disk: the file holds its document.\<close>

definition sample_tenant :: tenant where
  "sample_tenant =
     (make_tenant ''tn_1'' ''Ada'' ''ada@b.c'' PREMIUM ''premium'' [] sample_time)\<lparr>tn_owner_google_sub := ''sub1''\<rparr>"

definition sample_files :: files where
  "sample_files =
     [(\<lparr>pp_root = Slash, pp_parts = [''data'', ''tenants'', ''tn_1.json'']\<rparr>,
       JsonFile (JObj (tenant_dict sample_env [] [] sample_tenant)))]"

lemma sample_simple: "simple_id ''tn_1''"
  by (simp add: simple_id_def)

lemma sample_tenant_ok: "tenant_ok sample_tenant" "tn_tenant_id sample_tenant = ''tn_1''"
    "tn_api_key sample_tenant = []" "tn_owner_google_sub sample_tenant = ''sub1''"
  by (simp_all add: sample_tenant_def make_tenant_def tenant_post_init_def tenant_ok_def Let_def)

lemma sample_resolve:
  "resolve_key (py_path ''/data'') ''tenants/tn_1.json'' =
     Inr \<lparr>pp_root = Slash, pp_parts = [''data'', ''tenants'', ''tn_1.json'']\<rparr>"
  by (simp add: resolve_key_def py_path_def leading_slashes_def path_join_def path_text_def)

lemma sample_holds: "holds sample_env ''tn_1'' sample_files sample_tenant"
proof -
  have "tenant_from_dict sample_env now (tenant_dict sample_env [] [] sample_tenant) = Inr sample_tenant" for now
    by (rule tenant_dict_round_trip [OF sample_env_good sample_tenant_ok(1)])
      (simp add: stored_api_key_none sample_tenant_ok(3))
  then show ?thesis
    by (simp add: holds_def finds_def get_tenant_def io_bind_run sample_env_be sample_tenant_ok
        tenant_path_def tenants_prefix_def local_backend_def local_read_json_def sample_resolve
        sample_files_def tenant_from_json_def)
qed


lemma sample_save_over:
  assumes "tn_tenant_id t = ''tn_1''" and "tn_api_key t = []"
  shows "save_tenant sample_env t
      (k, [(\<lparr>pp_root = Slash, pp_parts = [''data'', ''tenants'', ''tn_1.json'']\<rparr>, JsonFile v)]) =
    (Inr (), k, [(\<lparr>pp_root = Slash, pp_parts = [''data'', ''tenants'', ''tn_1.json'']\<rparr>,
                  JsonFile (JObj (tenant_dict sample_env [] [] t)))])"
proof -
  have base: "py_path ''/data'' = \<lparr>pp_root = Slash, pp_parts = [''data'']\<rparr>"
    by (simp add: py_path_def leading_slashes_def)
  note res = sample_resolve [unfolded base]
  show ?thesis
    by (simp add: save_tenant_def tenant_to_dict_def assms io_write_def sample_env_be base
        local_backend_def local_write_json_def local_write_def tenant_path_def tenants_prefix_def res
        can_write_def is_dir_def strictly_under_def tmp_path_def name_stem_def put_file_def)
qed

lemma sample_save:
  assumes "tn_tenant_id t = ''tn_1''" and "tn_api_key t = []"
  shows "save_tenant sample_env t (k, sample_files) =
    (Inr (), k, [(\<lparr>pp_root = Slash, pp_parts = [''data'', ''tenants'', ''tn_1.json'']\<rparr>,
                  JsonFile (JObj (tenant_dict sample_env [] [] t)))])"
  unfolding sample_files_def by (rule sample_save_over [OF assms])

lemma sample_purge:
  "layer \<in> set tenant_layers \<Longrightarrow>
   delete_prefix (te_be sample_env) (layer @ ''/tn_1/'')
     (k, [(\<lparr>pp_root = Slash, pp_parts = [''data'', ''tenants'', ''tn_1.json'']\<rparr>, c)]) =
   (Inr (), k, [(\<lparr>pp_root = Slash, pp_parts = [''data'', ''tenants'', ''tn_1.json'']\<rparr>, c)])"
proof -
  let ?fs = "[(\<lparr>pp_root = Slash, pp_parts = [''data'', ''tenants'', ''tn_1.json'']\<rparr>, c)]"
  have base: "py_path ''/data'' = \<lparr>pp_root = Slash, pp_parts = [''data'']\<rparr>"
    by (simp add: py_path_def leading_slashes_def)
  assume layer: "layer \<in> set tenant_layers"
  then have "resolve_key (py_path ''/data'') (layer @ ''/tn_1/'') =
      Inr \<lparr>pp_root = Slash, pp_parts = [''data'', layer, ''tn_1'']\<rparr>"
    unfolding tenant_layers_def set_simps insert_iff empty_iff
    by (elim disjE; simp add: resolve_key_def py_path_def leading_slashes_def path_join_def path_text_def)
  moreover have "layer \<noteq> ''tenants''" using layer by (auto simp: tenant_layers_def)
  ultimately have "local_list_keys (py_path ''/data'') (layer @ ''/tn_1/'') ?fs = Inr []"
    by (auto simp: local_list_keys_def base is_dir_def strictly_under_def is_file_def json_files_under_def
        strict_prefix_def)
  then show ?thesis
    by (simp add: delete_prefix_def io_bind_run io_list_def sample_env_be local_backend_def)
qed

section \<open>Properties\<close>

text \<open>C12. A tenant made by create_tenant is the tenant that get_tenant returns from then on, active, with
the tier's quota, without owner or credentials, and not a demo.\<close>

theorem created_tenant_is_found:
  assumes "te_be env = local_backend parse render base" and "env_good env" and "simple_id (''tn_'' @ hex)"
    and "create_tenant env hex key now name email tier (n, fs) = (Inr t, n', fs')"
  shows "finds env (''tn_'' @ hex) fs' t \<and> tn_tenant_id t = ''tn_'' @ hex \<and> tn_is_active t
    \<and> tn_tier t = tier \<and> tn_quota t = quota_for_tier tier \<and> tn_role t = tier_value tier
    \<and> tn_owner_google_sub t = [] \<and> tn_config t = default_tenant_config \<and> \<not> tn_is_demo t"
proof -
  let ?t = "make_tenant (''tn_'' @ hex) name email tier (tier_value tier) key now"
  from assms(4) obtain n1 fs1 where sv: "save_tenant env ?t (n1, fs1) = (Inr (), n', fs')" and t: "t = ?t"
    by (auto simp: create_tenant_def Let_def io_bind_Inr)
  have ok: "tenant_ok ?t" unfolding make_tenant_def by (rule tenant_post_init_ok)
  have id: "tn_tenant_id ?t = ''tn_'' @ hex" by (simp add: make_tenant_def tenant_post_init_def Let_def)
  have key: "canonical_key (tenant_path (tn_tenant_id ?t))"
    unfolding id by (rule tenant_path_canonical [OF assms(3)])
  have "finds env (tn_tenant_id ?t) fs' ?t"
    by (rule local_store.save_finds(1) [OF assms(1,2) ok TrueI TrueI key sv])
  then have "finds env (''tn_'' @ hex) fs' ?t" unfolding id .
  with t show ?thesis by (cases tier) (simp_all add: make_tenant_def tenant_post_init_def Let_def)
qed

theorem created_tenant_is_found_witness:
  "\<exists>n fs t. create_tenant sample_env ''07'' [] sample_time ''Ada'' ''a@b.c'' VIP (0, []) = (Inr t, n, fs)
     \<and> finds sample_env ''tn_07'' fs t"
proof -
  have "\<exists>n fs t. create_tenant sample_env ''07'' [] sample_time ''Ada'' ''a@b.c'' VIP (0, []) = (Inr t, n, fs)"
    by (simp add: create_tenant_def Let_def io_bind_run io_write_def sample_env_be local_backend_def
        local_write_json_def local_write_def resolve_key_def py_path_def leading_slashes_def
        path_join_def path_text_def can_write_def is_dir_def strictly_under_def put_file_def
        tmp_path_def name_stem_def save_tenant_def tenant_to_dict_def make_tenant_def
        tenant_post_init_def tenant_path_def tenants_prefix_def)
  then obtain n fs t where run: "create_tenant sample_env ''07'' [] sample_time ''Ada'' ''a@b.c'' VIP (0, [])
      = (Inr t, n, fs)" by blast
  moreover have "simple_id (''tn_'' @ ''07'')" by (simp add: simple_id_def)
  from created_tenant_is_found [OF sample_env_be sample_env_good this run]
  have "finds sample_env ''tn_07'' fs t" by simp
  ultimately show ?thesis by blast
qed


text \<open>C27. The owner of a tenant is pinned at its first binding: whatever tier changes, configuration updates and
owner bindings follow, failing or not, the tenant is found with the same owner.\<close>

theorem owner_is_pinned:
  assumes "te_be env = local_backend parse render base" and "env_good env" and "simple_id tid"
    and "holds env tid fs t" and "tn_owner_google_sub t \<noteq> []"
  shows "\<exists>t'. holds env tid (snd (tenant_ops_run env tid ops (n, fs))) t'
    \<and> tn_owner_google_sub t' = tn_owner_google_sub t"
  by (rule local_store.ops_pin_owner [OF assms(1,2) TrueI tenant_path_canonical [OF assms(3)] TrueI assms(4,5)])

theorem owner_is_pinned_witness:
  "\<exists>t'. holds sample_env ''tn_1'' (snd (tenant_ops_run sample_env ''tn_1''
      [(BindOwner ''thief'', sample_time), (SetTier FREE, sample_time)] (0, sample_files))) t'
    \<and> tn_owner_google_sub t' = ''sub1''"
  using owner_is_pinned [OF sample_env_be sample_env_good sample_simple sample_holds]
  by (simp add: sample_tenant_ok del: tenant_ops_run.simps)



text \<open>Deactivating a tenant succeeds only with its record marked inactive and all six stored credentials
erased: that record is found afterwards, and purging the tenant's layers does not touch it.\<close>

theorem deactivated_record:
  assumes "te_be env = local_backend parse render base" and "env_good env" and "simple_id tid"
    and "holds env tid fs t" and "deactivate_tenant env now tid (n, fs) = (Inr True, n', fs')"
  shows "\<exists>t'. finds env tid fs' t' \<and> \<not> tn_is_active t' \<and> tn_owner_google_sub t' = tn_owner_google_sub t
    \<and> (\<forall>name. secret_of name (tn_config t') = [])"
  using deactivate_record [OF assms]
  by (intro exI conjI) (assumption, simp_all add: secret_of_def wipe_secrets_def)

theorem deactivated_record_witness:
  "\<exists>n' fs' t'. deactivate_tenant sample_env sample_time ''tn_1'' (0, sample_files) = (Inr True, n', fs')
     \<and> finds sample_env ''tn_1'' fs' t' \<and> \<not> tn_is_active t'"
proof -
  have get: "get_tenant sample_env now ''tn_1'' (k, sample_files) = (Inr (Some sample_tenant), k, sample_files)" for now k
    by (rule holds_get [OF sample_holds])
  define t where "t = sample_tenant\<lparr>tn_is_active := False, tn_config := wipe_secrets (tn_config sample_tenant)\<rparr>"
  have t: "tn_tenant_id t = ''tn_1''" "tn_api_key t = []" by (simp_all add: t_def sample_tenant_ok)
  have purge: "io_each (\<lambda>layer. delete_prefix (te_be sample_env) (layer @ ''/tn_1/'')) layers
      (k, [(\<lparr>pp_root = Slash, pp_parts = [''data'', ''tenants'', ''tn_1.json'']\<rparr>, c)]) =
      (Inr (), k, [(\<lparr>pp_root = Slash, pp_parts = [''data'', ''tenants'', ''tn_1.json'']\<rparr>, c)])"
    if "set layers \<subseteq> set tenant_layers" for layers k c
    using that by (induction layers) (simp_all add: io_bind_run sample_purge)
  obtain n' fs' where run: "deactivate_tenant sample_env sample_time ''tn_1'' (0, sample_files)
      = (Inr True, n', fs')"
    using purge [OF order_refl] sample_save [OF t]
    by (simp add: deactivate_tenant_def io_bind_run get Let_def t_def)
  with deactivated_record [OF sample_env_be sample_env_good sample_simple sample_holds run]
  show ?thesis by blast
qed

text \<open>list_tenants is all or nothing: when it returns, every document listed under the prefix is missing, empty
or one of the returned tenants; so one document without a tenant id, such as a tenant's daily usage
or scoring file in the same directory, makes the listing of all tenants raise.\<close>

theorem listing_all_or_nothing:
  assumes "be_list_keys (te_be env) tenants_prefix s = Inr keys"
  shows "(list_tenants env now (n, s) = (Inr ts, st) \<longrightarrow> (\<forall>k \<in> set keys. loads_as env now s k ts))
    \<and> (k \<in> set keys \<and> \<not> suffix ''.partition'' k \<and> be_read_json (te_be env) k s = Inr (Some (JObj d))
        \<and> d \<noteq> [] \<and> \<not> has_key d ''tenant_id'' \<longrightarrow> (\<exists>e. fst (list_tenants env now (n, s)) = Inl e))"
proof -
  have run: "list_tenants env now (n, s) = load_tenants env now keys (n, s)"
    using assms by (simp add: list_tenants_def io_bind_run io_list_def)
  have "\<exists>e. fst (load_tenants env now keys (n, s)) = Inl e"
    if "k \<in> set keys" "\<not> suffix ''.partition'' k" "be_read_json (te_be env) k s = Inr (Some (JObj d))"
      "d \<noteq> []" "\<not> has_key d ''tenant_id''"
  proof -
    obtain r st where res: "load_tenants env now keys (n, s) = (r, st)"
      by (cases "load_tenants env now keys (n, s)")
    have "r \<noteq> Inr ts" for ts
      using load_tenants_all [of env now keys n s ts st, OF _ that(1)] res that(2-4)
        tenant_document_needs_id [OF that(5)]
      by (auto simp: loads_as_def)
    then obtain e where "r = Inl e" by (cases r) auto
    with res show ?thesis by simp
  qed
  with run load_tenants_all show ?thesis by metis
qed

theorem listing_all_or_nothing_witness:
  "\<exists>e. fst (list_tenants sample_env sample_time (0,
      [(\<lparr>pp_root = Slash, pp_parts = [''data'', ''tenants'', ''tn_1'', ''daily_usage.json'']\<rparr>,
        JsonFile (JObj [(''date'', JStr ''2026-01-01'')]))])) = Inl e"
proof -
  define fs where "fs = [(\<lparr>pp_root = Slash, pp_parts = [''data'', ''tenants'', ''tn_1'', ''daily_usage.json'']\<rparr>,
        JsonFile (JObj [(''date'', JStr ''2026-01-01'')]))]"
  have keys: "be_list_keys (te_be sample_env) tenants_prefix fs = Inr [''tenants/tn_1/daily_usage.json'']"
    by (simp add: sample_env_be local_backend_def local_list_keys_def tenants_prefix_def resolve_key_def
        py_path_def leading_slashes_def path_join_def path_text_def is_dir_def strictly_under_def
        json_files_under_def fs_def relative_key_def suffix_def)
  have "be_read_json (te_be sample_env) ''tenants/tn_1/daily_usage.json'' fs =
      Inr (Some (JObj [(''date'', JStr ''2026-01-01'')]))"
    by (simp add: sample_env_be local_backend_def local_read_json_def resolve_key_def
        py_path_def leading_slashes_def path_join_def path_text_def fs_def)
  with listing_all_or_nothing [OF keys] show ?thesis
    unfolding fs_def by (force simp: suffix_def)
qed

end
