(* ===== verification/Dates.thy ===== *)
theory Dates
  imports PyText
begin

text \<open>
  Python's \<open>datetime\<close> as the planner, the silver layer and the scheduler use it. A date is its
  proleptic Gregorian ordinal (day 1 is 0001-01-01); a \<open>datetime\<close> is its wall clock in microseconds
  since that day's midnight and the UTC offset it carries, when it carries one. \<open>strftime\<close> covers the
  directives the program uses, in the C locale.
\<close>

section \<open>Calendar dates\<close>

type_synonym date = int

definition date_max :: date where
  "date_max = 3652059"

text \<open>\<open>date.weekday()\<close>: Monday is 0.\<close>

definition weekday :: "date \<Rightarrow> int" where
  "weekday d = (d + 6) mod 7"

definition is_leap :: "int \<Rightarrow> bool" where
  "is_leap y \<longleftrightarrow> y mod 4 = 0 \<and> (y mod 100 \<noteq> 0 \<or> y mod 400 = 0)"

text \<open>The days before the first of January of a year, and the lengths of the months.\<close>

definition days_before_year :: "int \<Rightarrow> int" where
  "days_before_year y = (y - 1) * 365 + (y - 1) div 4 - (y - 1) div 100 + (y - 1) div 400"

definition month_lengths :: "int \<Rightarrow> int list" where
  "month_lengths y = [31, if is_leap y then 29 else 28, 31, 30, 31, 30, 31, 31, 30, 31, 30, 31]"

definition days_before_month :: "int \<Rightarrow> nat \<Rightarrow> int" where
  "days_before_month y m = sum_list (take (m - 1) (month_lengths y))"

definition ordinal_of :: "int \<Rightarrow> nat \<Rightarrow> int \<Rightarrow> date" where
  "ordinal_of y m d = days_before_year y + days_before_month y m + d"

text \<open>\<open>_ord2ymd\<close>: whole cycles of 400, 100, 4 and 1 years, then the months.\<close>

definition year_of :: "date \<Rightarrow> int" where
  "year_of n =
     (let n0 = n - 1;
          n400 = n0 div 146097; r400 = n0 mod 146097;
          n100 = r400 div 36524; r100 = r400 mod 36524;
          n4 = r100 div 1461; r4 = r100 mod 1461;
          n1 = r4 div 365;
          y = n400 * 400 + n100 * 100 + n4 * 4 + n1 + 1
      in if n1 = 4 \<or> n100 = 4 then y - 1 else y)"

fun month_day :: "nat \<Rightarrow> int \<Rightarrow> int list \<Rightarrow> nat \<times> int" where
  "month_day m d [] = (m, d)"
| "month_day m d (l # ls) = (if d \<le> l then (m, d) else month_day (Suc m) (d - l) ls)"

definition civil :: "date \<Rightarrow> int \<times> nat \<times> int" where
  "civil n = (let y = year_of n in (y, month_day 1 (n - days_before_year y) (month_lengths y)))"

text \<open>The constructor's range check.\<close>

definition valid_date :: "int \<Rightarrow> nat \<Rightarrow> int \<Rightarrow> bool" where
  "valid_date y m d \<longleftrightarrow> 1 \<le> y \<and> y \<le> 9999 \<and> 1 \<le> m \<and> m \<le> 12 \<and> 1 \<le> d \<and> d \<le> month_lengths y ! (m - 1)"

section \<open>Texts\<close>

definition day_names :: "string list" where
  "day_names = [''Monday'', ''Tuesday'', ''Wednesday'', ''Thursday'', ''Friday'', ''Saturday'', ''Sunday'']"

definition month_names :: "string list" where
  "month_names = [''January'', ''February'', ''March'', ''April'', ''May'', ''June'', ''July'', ''August'',
     ''September'', ''October'', ''November'', ''December'']"

text \<open>A numeral padded with zeros to a width.\<close>

definition padded :: "nat \<Rightarrow> int \<Rightarrow> string" where
  "padded w i = (let s = int_text i in replicate (w - length s) CHR ''0'' @ s)"

fun py_strftime :: "string \<Rightarrow> date \<Rightarrow> int \<Rightarrow> string" where
  "py_strftime [] d secs = []"
| "py_strftime [c] d secs = [c]"
| "py_strftime (c # k # s) d secs =
     (if c \<noteq> CHR ''%'' then c # py_strftime (k # s) d secs
      else (let (y, m, dd) = civil d in
              if k = CHR ''A'' then day_names ! nat (weekday d)
              else if k = CHR ''a'' then take 3 (day_names ! nat (weekday d))
              else if k = CHR ''B'' then month_names ! (m - 1)
              else if k = CHR ''b'' then take 3 (month_names ! (m - 1))
              else if k = CHR ''d'' then padded 2 dd
              else if k = CHR ''m'' then padded 2 (int m)
              else if k = CHR ''Y'' then padded 4 y
              else if k = CHR ''H'' then padded 2 (secs div 3600)
              else if k = CHR ''M'' then padded 2 (secs div 60 mod 60)
              else if k = CHR ''S'' then padded 2 (secs mod 60)
              else [c, k]) @ py_strftime s d secs)"

definition date_text :: "string \<Rightarrow> date \<Rightarrow> string" where
  "date_text fmt d = py_strftime fmt d 0"

definition date_iso :: "date \<Rightarrow> string" where
  "date_iso d = date_text ''%Y-%m-%d'' d"

section \<open>Date and time\<close>

record wall_time =
  wt_micros :: int
  wt_offset :: "int option"

abbreviation day_micros :: int where
  "day_micros \<equiv> 86400000000"

definition wall_date :: "wall_time \<Rightarrow> date" where
  "wall_date t = wt_micros t div day_micros + 1"

definition wall_secs :: "wall_time \<Rightarrow> int" where
  "wall_secs t = wt_micros t mod day_micros div 1000000"

definition wall_text :: "string \<Rightarrow> wall_time \<Rightarrow> string" where
  "wall_text fmt t = py_strftime fmt (wall_date t) (wall_secs t)"

text \<open>\<open>b - a\<close>: mixing values with and without an offset raises.\<close>

definition wall_diff :: "wall_time \<Rightarrow> wall_time \<Rightarrow> int res" where
  "wall_diff b a =
     (case (wt_offset b, wt_offset a) of
        (None, None) \<Rightarrow> Inr (wt_micros b - wt_micros a)
      | (Some ob, Some oa) \<Rightarrow> Inr ((wt_micros b - ob) - (wt_micros a - oa))
      | _ \<Rightarrow> Inl (OtherError ''TypeError''))"

text \<open>\<open>int(x / n)\<close> rounds towards zero.\<close>

definition trunc_div :: "int \<Rightarrow> int \<Rightarrow> int" where
  "trunc_div x n = (if x \<ge> 0 then x div n else - ((- x) div n))"

section \<open>Slices and texts of lists\<close>

text \<open>\<open>xs[:n]\<close>.\<close>

definition slice_to :: "int \<Rightarrow> 'a list \<Rightarrow> 'a list" where
  "slice_to n xs = (if n \<ge> 0 then take (nat n) xs else take (length xs - nat (- n)) xs)"

lemma set_slice_to: "set (slice_to n xs) \<subseteq> set xs"
  by (simp add: slice_to_def set_take_subset)

lemma length_slice_to: "n \<ge> 0 \<Longrightarrow> length (slice_to n xs) = min (length xs) (nat n)"
  by (simp add: slice_to_def)

section \<open>Weekdays\<close>

lemma weekday_range: "0 \<le> weekday d" "weekday d < 7"
  by (simp_all add: weekday_def)

lemma weekday_add: "weekday (d + k) = (weekday d + k) mod 7"
  by (simp add: weekday_def mod_simps algebra_simps)

end
