(* ===== verification/PyParse.thy ===== *)
theory PyParse
  imports PyText
begin

text \<open>
  \<open>int(text)\<close>: surrounding white space, a sign, decimal digits with single underscores between them.
  Decimal texts read back.
\<close>

definition is_digit :: "char \<Rightarrow> bool" where
  "is_digit c \<longleftrightarrow> 48 \<le> (of_char c :: nat) \<and> (of_char c :: nat) < 58"

fun parse_digits :: "nat \<Rightarrow> bool \<Rightarrow> string \<Rightarrow> nat option" where
  "parse_digits acc prev [] = (if prev then Some acc else None)"
| "parse_digits acc prev (c # s) =
     (if is_digit c then parse_digits (10 * acc + (of_char c - 48)) True s
      else if c = CHR ''_'' \<and> prev then parse_digits acc False s
      else None)"

definition py_int :: "string \<Rightarrow> int option" where
  "py_int text =
     (case py_strip text of
        [] \<Rightarrow> None
      | c # s \<Rightarrow>
          if c = CHR ''-'' then map_option (\<lambda>n. - int n) (parse_digits 0 False s)
          else if c = CHR ''+'' then map_option int (parse_digits 0 False s)
          else map_option int (parse_digits 0 False (c # s)))"

definition int_of_text :: "string \<Rightarrow> int res" where
  "int_of_text text =
     (case py_int text of Some i \<Rightarrow> Inr i | None \<Rightarrow> Inl (ValueError ''invalid literal for int() with base 10''))"

lemma digit_char_value: "d < 10 \<Longrightarrow> is_digit (digit_char d) \<and> of_char (digit_char d) = d + 48"
  by (simp add: is_digit_def digit_char_def of_char_of)

lemma parse_nat_text:
  "parse_digits acc prev (nat_text n @ s) = parse_digits (acc * 10 ^ length (nat_text n) + n) True s"
proof (induction n arbitrary: acc prev s rule: nat_text.induct)
  case (1 n)
  show ?case
  proof (cases "n < 10")
    case True
    then show ?thesis using digit_char_value [of n] by (simp add: nat_text.simps [of n] mult.commute)
  next
    case False
    have d: "is_digit (digit_char (n mod 10)) \<and> of_char (digit_char (n mod 10)) = n mod 10 + 48"
      by (rule digit_char_value) simp
    show ?thesis
      using 1 [OF False, of acc prev "digit_char (n mod 10) # s"] d False
      by (simp add: nat_text.simps [of n] ac_simps)
  qed
qed

lemma nat_text_not_space: "c \<in> set (nat_text n) \<Longrightarrow> \<not> is_space c \<and> c \<noteq> CHR ''-'' \<and> c \<noteq> CHR ''+''"
  using nat_text_digits [of c n] by (auto simp: is_space_def)

lemma nat_text_nonempty: "nat_text n \<noteq> []"
  by (subst nat_text.simps) simp

lemma strip_no_space: "\<forall>c \<in> set s. \<not> is_space c \<Longrightarrow> py_strip s = s"
proof -
  assume a: "\<forall>c \<in> set s. \<not> is_space c"
  have d: "dropWhile is_space xs = xs" if "\<forall>c \<in> set xs. \<not> is_space c" for xs
    using that by (cases xs) auto
  from a show ?thesis by (simp add: py_strip_def d)
qed

lemma py_int_text: "py_int (int_text i) = Some i"
proof (cases "i < 0")
  case True
  have "py_strip (CHR ''-'' # nat_text (nat (- i))) = CHR ''-'' # nat_text (nat (- i))"
    by (rule strip_no_space) (auto dest: nat_text_not_space simp: is_space_def)
  with True parse_nat_text [of 0 False "nat (- i)" "[]"] show ?thesis
    by (simp add: py_int_def int_text_def)
next
  case False
  obtain c s where cs: "nat_text (nat i) = c # s" using nat_text_nonempty by (cases "nat_text (nat i)") auto
  have "py_strip (nat_text (nat i)) = nat_text (nat i)"
    by (rule strip_no_space) (auto dest: nat_text_not_space)
  moreover have "c \<noteq> CHR ''-''" "c \<noteq> CHR ''+''" using nat_text_not_space [of c "nat i"] cs by simp_all
  ultimately show ?thesis
    using False parse_nat_text [of 0 False "nat i" "[]"] cs by (simp add: py_int_def int_text_def)
qed

end
