(* ===== verification/Config.thy ===== *)
theory Config
  imports PyParse
begin

text \<open>
  \<open>src/brain/config.py\<close>: the settings, their defaults, and reading them from the environment. The
  environment is an association list; loading a \<open>.env\<close> file into it is the third-party
  \<open>load_dotenv\<close>, the parameter \<open>dotenv\<close>.
\<close>

section \<open>The settings\<close>

record settings =
  cf_todoist_api_token :: string
  cf_smtp_host :: string
  cf_smtp_port :: int
  cf_smtp_username :: string
  cf_smtp_password :: string
  cf_digest_from_email :: string
  cf_digest_to_email :: string
  cf_groq_api_key :: string
  cf_groq_model :: string
  cf_google_ai_api_key :: string
  cf_google_ai_model :: string
  cf_google_ai_fallback_model :: string
  cf_google_ai_lite_model :: string
  cf_callmebot_phone :: string
  cf_callmebot_api_key :: string
  cf_callmebot_secondary_phone :: string
  cf_callmebot_secondary_api_key :: string
  cf_gmail_imap_host :: string
  cf_gmail_imap_port :: int
  cf_gmail_imap_username :: string
  cf_gmail_imap_password :: string
  cf_gmail_important_query :: string
  cf_google_oauth_client_secrets_file :: string
  cf_google_oauth_token_file :: string
  cf_todoist_focus_label :: string
  cf_todoist_weekend_label :: string
  cf_todoist_kanban_project_id :: string
  cf_todoist_daily_planner_section_id :: string
  cf_todoist_weekly_planner_section_id :: string
  cf_todoist_weekend_planner_section_id :: string
  cf_notion_api_token :: string
  cf_notion_root_page_id :: string
  cf_notion_command_center_id :: string
  cf_notion_daily_planner_db_id :: string
  cf_notion_weekly_planner_db_id :: string
  cf_notion_weekend_planner_db_id :: string
  cf_notion_board_db_id :: string
  cf_notebooklm_notebook_id :: string
  cf_notebooklm_notebook_name :: string
  cf_litellm_proxy_url :: string
  cf_litellm_proxy_token :: string
  cf_litellm_proxy_model :: string
  cf_demo_mode :: bool
  cf_brain_read_only :: bool
  cf_ollama_base_url :: string
  cf_ollama_cpu_model :: string
  cf_ollama_gpu_model :: string
  cf_rag_duckdb_path :: string
  cf_rag_chunk_size :: int
  cf_rag_chunk_overlap :: int
  cf_google_oauth_client_id :: string
  cf_google_oauth_client_secret :: string
  cf_velaflow_owner_email :: string
  cf_workday_start_hour :: int
  cf_workday_end_hour :: int
  cf_weekend_day_start_hour :: int
  cf_weekend_day_end_hour :: int
  cf_default_task_duration_minutes :: int
  cf_weekend_capacity_hours :: int
  cf_daily_top_task_limit :: int
  cf_overdue_section_limit :: int
  cf_weekend_task_limit :: int
  cf_tz :: string
  cf_velaflow_domain :: string
  cf_velaflow_api_port :: int
  cf_log_level :: string
  cf_log_dir :: string
  cf_log_max_size_mb :: int
  cf_log_retention_days :: int

definition default_settings :: settings where
  "default_settings =
     \<lparr>cf_todoist_api_token = [], cf_smtp_host = ''smtp.gmail.com'', cf_smtp_port = 587,
      cf_smtp_username = [], cf_smtp_password = [], cf_digest_from_email = [],
      cf_digest_to_email = [], cf_groq_api_key = [],
      cf_groq_model = ''llama-3.3-70b-versatile'', cf_google_ai_api_key = [],
      cf_google_ai_model = ''gemini-2.5-pro'',
      cf_google_ai_fallback_model = ''gemini-2.5-flash'',
      cf_google_ai_lite_model = ''gemini-2.5-flash-lite'', cf_callmebot_phone = [],
      cf_callmebot_api_key = [], cf_callmebot_secondary_phone = [],
      cf_callmebot_secondary_api_key = [], cf_gmail_imap_host = ''imap.gmail.com'',
      cf_gmail_imap_port = 993, cf_gmail_imap_username = [], cf_gmail_imap_password = [],
      cf_gmail_important_query = (''X-GM-RAW '' @ [CHR 0x22] @ ''label:important is:unread newer_than:1d'' @ [CHR 0x22]),
      cf_google_oauth_client_secrets_file = ''credentials.json'',
      cf_google_oauth_token_file = ''.google-token.json'', cf_todoist_focus_label = ''focus'',
      cf_todoist_weekend_label = ''weekend'', cf_todoist_kanban_project_id = [],
      cf_todoist_daily_planner_section_id = [], cf_todoist_weekly_planner_section_id = [],
      cf_todoist_weekend_planner_section_id = [], cf_notion_api_token = [],
      cf_notion_root_page_id = [], cf_notion_command_center_id = [],
      cf_notion_daily_planner_db_id = [], cf_notion_weekly_planner_db_id = [],
      cf_notion_weekend_planner_db_id = [], cf_notion_board_db_id = [],
      cf_notebooklm_notebook_id = [], cf_notebooklm_notebook_name = ''VelaFlow'',
      cf_litellm_proxy_url = [], cf_litellm_proxy_token = [],
      cf_litellm_proxy_model = ''gemini/gemini-2.5-flash'', cf_demo_mode = False,
      cf_brain_read_only = False, cf_ollama_base_url = ''http://localhost:11434'',
      cf_ollama_cpu_model = ''qwen2:1.5b'', cf_ollama_gpu_model = ''qwen2:7b'',
      cf_rag_duckdb_path = [], cf_rag_chunk_size = 512, cf_rag_chunk_overlap = 64,
      cf_google_oauth_client_id = [], cf_google_oauth_client_secret = [],
      cf_velaflow_owner_email = [], cf_workday_start_hour = 9, cf_workday_end_hour = 18,
      cf_weekend_day_start_hour = 9, cf_weekend_day_end_hour = 18,
      cf_default_task_duration_minutes = 30, cf_weekend_capacity_hours = 3,
      cf_daily_top_task_limit = 5, cf_overdue_section_limit = 7, cf_weekend_task_limit = 8,
      cf_tz = ''Europe/Lisbon'', cf_velaflow_domain = ''localhost'',
      cf_velaflow_api_port = 8000, cf_log_level = ''INFO'', cf_log_dir = ''logs'',
      cf_log_max_size_mb = 50, cf_log_retention_days = 30\<rparr>"

section \<open>Reading the environment\<close>

definition find_env_file :: "(string \<Rightarrow> bool) \<Rightarrow> string \<Rightarrow> string \<Rightarrow> string option" where
  "find_env_file is_file cwd project =
     List.find is_file [cwd @ ''/config/.env'', cwd @ ''/.env'', project @ ''/config/.env'']"

definition env_get :: "(string \<times> string) list \<Rightarrow> string \<Rightarrow> string \<Rightarrow> string" where
  "env_get env key dflt = (case map_of env key of Some v \<Rightarrow> v | None \<Rightarrow> dflt)"

definition env_int :: "(string \<times> string) list \<Rightarrow> string \<Rightarrow> int \<Rightarrow> int res" where
  "env_int env key dflt =
     (let val = env_get env key [] in if py_strip val \<noteq> [] then int_of_text val else Inr dflt)"

definition env_flag :: "(string \<times> string) list \<Rightarrow> string \<Rightarrow> bool" where
  "env_flag env key \<longleftrightarrow> py_lower (env_get env key []) \<in> {''1'', ''true'', ''yes''}"

text \<open>The keyword arguments are evaluated in order; those that can raise are the integers.\<close>

definition settings_from_env :: "(string \<times> string) list \<Rightarrow> settings res" where
  "settings_from_env env =
     rbind (env_int env ''SMTP_PORT'' 587) (\<lambda>v0.
     rbind (env_int env ''GMAIL_IMAP_PORT'' 993) (\<lambda>v1.
     rbind (int_of_text (env_get env ''RAG_CHUNK_SIZE'' ''512'')) (\<lambda>v2.
     rbind (int_of_text (env_get env ''RAG_CHUNK_OVERLAP'' ''64'')) (\<lambda>v3.
     rbind (env_int env ''WORKDAY_START_HOUR'' 9) (\<lambda>v4.
     rbind (env_int env ''WORKDAY_END_HOUR'' 18) (\<lambda>v5.
     rbind (env_int env ''WEEKEND_DAY_START_HOUR'' 9) (\<lambda>v6.
     rbind (env_int env ''WEEKEND_DAY_END_HOUR'' 18) (\<lambda>v7.
     rbind (env_int env ''DEFAULT_TASK_DURATION_MINUTES'' 30) (\<lambda>v8.
     rbind (env_int env ''WEEKEND_CAPACITY_HOURS'' 3) (\<lambda>v9.
     rbind (env_int env ''DAILY_TOP_TASK_LIMIT'' 5) (\<lambda>v10.
     rbind (env_int env ''OVERDUE_SECTION_LIMIT'' 7) (\<lambda>v11.
     rbind (env_int env ''WEEKEND_TASK_LIMIT'' 8) (\<lambda>v12.
     rbind (env_int env ''VELAFLOW_API_PORT'' 8000) (\<lambda>v13.
     rbind (env_int env ''LOG_MAX_SIZE_MB'' 50) (\<lambda>v14.
     rbind (env_int env ''LOG_RETENTION_DAYS'' 30) (\<lambda>v15.
       Inr \<lparr>cf_todoist_api_token = env_get env ''TODOIST_API_TOKEN'' [],
            cf_smtp_host = env_get env ''SMTP_HOST'' ''smtp.gmail.com'', cf_smtp_port = v0,
            cf_smtp_username = env_get env ''SMTP_USERNAME'' [],
            cf_smtp_password = env_get env ''SMTP_PASSWORD'' [],
            cf_digest_from_email = env_get env ''DIGEST_FROM_EMAIL'' [],
            cf_digest_to_email = env_get env ''DIGEST_TO_EMAIL'' [],
            cf_groq_api_key = env_get env ''GROQ_API_KEY'' [],
            cf_groq_model = env_get env ''GROQ_MODEL'' ''llama-3.3-70b-versatile'',
            cf_google_ai_api_key = env_get env ''GOOGLE_AI_API_KEY'' [],
            cf_google_ai_model = env_get env ''GOOGLE_AI_MODEL'' ''gemini-2.5-pro'',
            cf_google_ai_fallback_model = env_get env ''GOOGLE_AI_FALLBACK_MODEL'' ''gemini-2.5-flash'',
            cf_google_ai_lite_model = env_get env ''GOOGLE_AI_LITE_MODEL'' ''gemini-2.5-flash-lite'',
            cf_callmebot_phone = env_get env ''CALLMEBOT_PHONE'' [],
            cf_callmebot_api_key = env_get env ''CALLMEBOT_API_KEY'' [],
            cf_callmebot_secondary_phone = env_get env ''CALLMEBOT_SECONDARY_PHONE'' [],
            cf_callmebot_secondary_api_key = env_get env ''CALLMEBOT_SECONDARY_API_KEY'' [],
            cf_gmail_imap_host = env_get env ''GMAIL_IMAP_HOST'' ''imap.gmail.com'',
            cf_gmail_imap_port = v1,
            cf_gmail_imap_username = env_get env ''GMAIL_IMAP_USERNAME'' [],
            cf_gmail_imap_password = env_get env ''GMAIL_IMAP_PASSWORD'' [],
            cf_gmail_important_query = env_get env ''GMAIL_IMPORTANT_QUERY'' (''X-GM-RAW '' @ [CHR 0x22] @ ''label:important is:unread newer_than:1d'' @ [CHR 0x22]),
            cf_google_oauth_client_secrets_file = env_get env ''GOOGLE_OAUTH_CLIENT_SECRETS_FILE'' ''credentials.json'',
            cf_google_oauth_token_file = env_get env ''GOOGLE_OAUTH_TOKEN_FILE'' ''.google-token.json'',
            cf_todoist_focus_label = env_get env ''TODOIST_FOCUS_LABEL'' ''focus'',
            cf_todoist_weekend_label = env_get env ''TODOIST_WEEKEND_LABEL'' ''weekend'',
            cf_todoist_kanban_project_id = env_get env ''TODOIST_KANBAN_PROJECT_ID'' [],
            cf_todoist_daily_planner_section_id = env_get env ''TODOIST_DAILY_PLANNER_SECTION_ID'' [],
            cf_todoist_weekly_planner_section_id = env_get env ''TODOIST_WEEKLY_PLANNER_SECTION_ID'' [],
            cf_todoist_weekend_planner_section_id = env_get env ''TODOIST_WEEKEND_PLANNER_SECTION_ID'' [],
            cf_notion_api_token = env_get env ''NOTION_API_TOKEN'' [],
            cf_notion_root_page_id = env_get env ''NOTION_ROOT_PAGE_ID'' [],
            cf_notion_command_center_id = env_get env ''NOTION_COMMAND_CENTER_ID'' [],
            cf_notion_daily_planner_db_id = env_get env ''NOTION_DAILY_PLANNER_DB_ID'' [],
            cf_notion_weekly_planner_db_id = env_get env ''NOTION_WEEKLY_PLANNER_DB_ID'' [],
            cf_notion_weekend_planner_db_id = env_get env ''NOTION_WEEKEND_PLANNER_DB_ID'' [],
            cf_notion_board_db_id = env_get env ''NOTION_BOARD_DB_ID'' [],
            cf_notebooklm_notebook_id = env_get env ''NOTEBOOKLM_NOTEBOOK_ID'' [],
            cf_notebooklm_notebook_name = env_get env ''NOTEBOOKLM_NOTEBOOK_NAME'' ''VelaFlow'',
            cf_litellm_proxy_url = env_get env ''LITELLM_PROXY_URL'' [],
            cf_litellm_proxy_token = env_get env ''LITELLM_PROXY_TOKEN'' [],
            cf_litellm_proxy_model = env_get env ''LITELLM_PROXY_MODEL'' ''gemini/gemini-2.5-flash'',
            cf_demo_mode = env_flag env ''DEMO_MODE'',
            cf_brain_read_only = env_flag env ''BRAIN_READ_ONLY'',
            cf_ollama_base_url = env_get env ''OLLAMA_BASE_URL'' ''http://localhost:11434'',
            cf_ollama_cpu_model = env_get env ''OLLAMA_CPU_MODEL'' ''qwen2:1.5b'',
            cf_ollama_gpu_model = env_get env ''OLLAMA_GPU_MODEL'' ''qwen2:7b'',
            cf_rag_duckdb_path = env_get env ''RAG_DUCKDB_PATH'' [], cf_rag_chunk_size = v2,
            cf_rag_chunk_overlap = v3,
            cf_google_oauth_client_id = env_get env ''GOOGLE_OAUTH_CLIENT_ID'' [],
            cf_google_oauth_client_secret = env_get env ''GOOGLE_OAUTH_CLIENT_SECRET'' [],
            cf_velaflow_owner_email = env_get env ''VELAFLOW_OWNER_EMAIL'' [],
            cf_workday_start_hour = v4, cf_workday_end_hour = v5,
            cf_weekend_day_start_hour = v6, cf_weekend_day_end_hour = v7,
            cf_default_task_duration_minutes = v8, cf_weekend_capacity_hours = v9,
            cf_daily_top_task_limit = v10, cf_overdue_section_limit = v11,
            cf_weekend_task_limit = v12, cf_tz = env_get env ''TZ'' ''Europe/Lisbon'',
            cf_velaflow_domain = env_get env ''VELAFLOW_DOMAIN'' ''localhost'',
            cf_velaflow_api_port = v13, cf_log_level = env_get env ''LOG_LEVEL'' ''INFO'',
            cf_log_dir = env_get env ''LOG_DIR'' ''logs'', cf_log_max_size_mb = v14,
            cf_log_retention_days = v15\<rparr>))))))))))))))))"

definition load_settings ::
    "(string \<Rightarrow> bool) \<Rightarrow> string \<Rightarrow> string \<Rightarrow> (string \<Rightarrow> (string \<times> string) list \<Rightarrow> (string \<times> string) list) \<Rightarrow>
     (string \<times> string) list \<Rightarrow> settings res" where
  "load_settings is_file cwd project dotenv env =
     settings_from_env (case find_env_file is_file cwd project of
                          Some path \<Rightarrow> dotenv path env
                        | None \<Rightarrow> env)"

section \<open>Lemmas\<close>

text \<open>The keys read with a fallback for blank text, and the two read without it.\<close>

definition int_keys :: "string list" where
  "int_keys = [''SMTP_PORT'', ''GMAIL_IMAP_PORT'', ''WORKDAY_START_HOUR'', ''WORKDAY_END_HOUR'',
     ''WEEKEND_DAY_START_HOUR'', ''WEEKEND_DAY_END_HOUR'', ''DEFAULT_TASK_DURATION_MINUTES'',
     ''WEEKEND_CAPACITY_HOURS'', ''DAILY_TOP_TASK_LIMIT'', ''OVERDUE_SECTION_LIMIT'',
     ''WEEKEND_TASK_LIMIT'', ''VELAFLOW_API_PORT'', ''LOG_MAX_SIZE_MB'', ''LOG_RETENTION_DAYS'']"

definition strict_int_keys :: "string list" where
  "strict_int_keys = [''RAG_CHUNK_SIZE'', ''RAG_CHUNK_OVERLAP'']"

definition bad_int :: "(string \<times> string) list \<Rightarrow> string \<Rightarrow> bool" where
  "bad_int env key \<longleftrightarrow> (\<exists>v. map_of env key = Some v \<and> py_strip v \<noteq> [] \<and> py_int v = None)"

definition bad_strict_int :: "(string \<times> string) list \<Rightarrow> string \<Rightarrow> bool" where
  "bad_strict_int env key \<longleftrightarrow> (\<exists>v. map_of env key = Some v \<and> py_int v = None)"

lemma env_int_error: "isl (env_int env key d) \<longleftrightarrow> bad_int env key"
  by (auto simp: env_int_def env_get_def bad_int_def int_of_text_def Let_def py_strip_def split: option.splits)

lemma strict_int_error: "py_int d \<noteq> None \<Longrightarrow>
    isl (int_of_text (env_get env key d)) \<longleftrightarrow> bad_strict_int env key"
  by (auto simp: env_get_def bad_strict_int_def int_of_text_def split: option.splits)

lemma isl_rbind: "isl (rbind r f) \<longleftrightarrow> isl r \<or> isl (f (projr r))"
  by (cases r) auto

lemma int_literals: "py_int ''512'' = Some 512" "py_int ''64'' = Some 64"
  by (simp_all add: py_int_def py_strip_def is_space_def is_digit_def)

lemma settings_error: "isl (settings_from_env env) \<longleftrightarrow>
    (\<exists>key \<in> set int_keys. bad_int env key) \<or> (\<exists>key \<in> set strict_int_keys. bad_strict_int env key)"
  unfolding settings_from_env_def
  by (simp add: isl_rbind env_int_error strict_int_error int_literals int_keys_def strict_int_keys_def) blast

lemma settings_empty: "settings_from_env [] = Inr default_settings"
  by (simp add: settings_from_env_def default_settings_def env_int_def env_get_def env_flag_def
      py_strip_def py_lower_def int_of_text_def int_literals)

section \<open>Properties\<close>

text \<open>With an empty environment the settings are the defaults of the class, and reading the environment
raises exactly when an integer key has a text that is no integer: blank text falls back to the default
for every key except the two chunking keys, where it raises.\<close>

theorem settings_from_environment:
  "settings_from_env [] = Inr default_settings
   \<and> ((\<exists>e. settings_from_env env = Inl e) \<longleftrightarrow>
        (\<exists>key \<in> set int_keys. bad_int env key) \<or> (\<exists>key \<in> set strict_int_keys. bad_strict_int env key))
   \<and> (map_of env ''RAG_CHUNK_SIZE'' = Some [] \<longrightarrow> (\<exists>e. settings_from_env env = Inl e))"
proof -
  have "bad_strict_int env ''RAG_CHUNK_SIZE''" if "map_of env ''RAG_CHUNK_SIZE'' = Some []"
    using that by (simp add: bad_strict_int_def py_int_def py_strip_def)
  then show ?thesis
    using settings_empty settings_error [of env] unfolding isl_def by (auto simp: strict_int_keys_def)
qed

theorem settings_from_environment_witness:
  "\<exists>e. settings_from_env [(''RAG_CHUNK_SIZE'', [])] = Inl e"
  by (rule settings_from_environment [THEN conjunct2, THEN conjunct2, THEN mp]) simp

end
