(* ===== verification/Planner.thy ===== *)
theory Planner
  imports Dates Config "HOL-Library.Product_Lexorder" "HOL-Library.Multiset"
begin

text \<open>
  \<open>src/brain/models.py\<close> and the scoring, ranking and daily digest of \<open>src/brain/planner.py\<close>. A text
  here is its UTF-8 bytes, so that the symbols the digests use can be written down; \<open>today\<close> is
  \<open>date.today()\<close>, read once per call.
\<close>

section \<open>Data\<close>

record task =
  tk_id :: string
  tk_content :: string
  tk_description :: string
  tk_project_id :: string
  tk_project_name :: string
  tk_section_id :: string
  tk_section_name :: string
  tk_priority :: int
  tk_labels :: "string list"
  tk_due_date :: "date option"
  tk_due_datetime :: "wall_time option"
  tk_due_has_time :: bool
  tk_duration_minutes :: "int option"
  tk_url :: string
  tk_is_recurring :: bool
  tk_added_at :: "wall_time option"
  tk_parent_id :: "string option"

definition new_task :: "string \<Rightarrow> string \<Rightarrow> task" where
  "new_task i content =
     \<lparr>tk_id = i, tk_content = content, tk_description = [], tk_project_id = [], tk_project_name = [],
      tk_section_id = [], tk_section_name = [], tk_priority = 1, tk_labels = [], tk_due_date = None,
      tk_due_datetime = None, tk_due_has_time = False, tk_duration_minutes = None, tk_url = [],
      tk_is_recurring = False, tk_added_at = None, tk_parent_id = None\<rparr>"

record scored_task =
  st_task :: task
  st_score :: int
  st_reasons :: "string list"

record calendar_event =
  ev_summary :: string
  ev_start :: "wall_time option"
  ev_end :: "wall_time option"
  ev_all_day :: bool

definition event_duration :: "calendar_event \<Rightarrow> int res" where
  "event_duration e =
     (case (ev_start e, ev_end e) of
        (Some a, Some b) \<Rightarrow> rbind (wall_diff b a) (\<lambda>us. Inr (trunc_div us 60000000))
      | _ \<Rightarrow> Inr 0)"

record email_alert =
  em_subject :: string
  em_sender :: string
  em_sent_at :: "wall_time option"

record digest_result =
  dg_subject :: string
  dg_body_text :: string

section \<open>Symbols\<close>

definition u_arrow :: string where
  "u_arrow = [CHR 0xE2, CHR 0x86, CHR 0x92]"

definition u_clipboard :: string where
  "u_clipboard = [CHR 0xF0, CHR 0x9F, CHR 0x93, CHR 0x8B]"

definition u_emdash :: string where
  "u_emdash = [CHR 0xE2, CHR 0x80, CHR 0x94]"

definition u_chart :: string where
  "u_chart = [CHR 0xF0, CHR 0x9F, CHR 0x93, CHR 0x8A]"

definition u_target :: string where
  "u_target = [CHR 0xF0, CHR 0x9F, CHR 0x8E, CHR 0xAF]"

definition u_warn :: string where
  "u_warn = [CHR 0xE2, CHR 0x9A, CHR 0xA0, CHR 0xEF, CHR 0xB8, CHR 0x8F]"

definition u_cal :: string where
  "u_cal = [CHR 0xF0, CHR 0x9F, CHR 0x93, CHR 0x85]"

definition u_cal2 :: string where
  "u_cal2 = [CHR 0xF0, CHR 0x9F, CHR 0x93, CHR 0x86]"

definition u_clock :: string where
  "u_clock = [CHR 0xF0, CHR 0x9F, CHR 0x95, CHR 0x90]"

definition u_mailbox :: string where
  "u_mailbox = [CHR 0xF0, CHR 0x9F, CHR 0x93, CHR 0xA7]"

definition u_mail :: string where
  "u_mail = [CHR 0xF0, CHR 0x9F, CHR 0x93, CHR 0xA9]"

definition u_brain :: string where
  "u_brain = [CHR 0xF0, CHR 0x9F, CHR 0xA7, CHR 0xA0]"

definition u_red :: string where
  "u_red = [CHR 0xF0, CHR 0x9F, CHR 0x94, CHR 0xB4]"

definition u_orange :: string where
  "u_orange = [CHR 0xF0, CHR 0x9F, CHR 0x9F, CHR 0xA0]"

definition u_yellow :: string where
  "u_yellow = [CHR 0xF0, CHR 0x9F, CHR 0x9F, CHR 0xA1]"

definition u_white :: string where
  "u_white = [CHR 0xE2, CHR 0x9A, CHR 0xAA]"

definition u_timer :: string where
  "u_timer = [CHR 0xE2, CHR 0x8F, CHR 0xB1, CHR 0xEF, CHR 0xB8, CHR 0x8F]"

definition u_sect :: string where
  "u_sect = [CHR 0xC2, CHR 0xA7]"

definition u_le :: string where
  "u_le = [CHR 0xE2, CHR 0x89, CHR 0xA4]"

definition u_ge :: string where
  "u_ge = [CHR 0xE2, CHR 0x89, CHR 0xA5]"

definition u_bulb :: string where
  "u_bulb = [CHR 0xF0, CHR 0x9F, CHR 0x92, CHR 0xA1]"

section \<open>Scoring\<close>

text \<open>Each rule yields its points and its reasons.\<close>

type_synonym points = "int \<times> string list"

definition due_points :: "date \<Rightarrow> task \<Rightarrow> points" where
  "due_points today t =
     (case tk_due_date t of
        None \<Rightarrow> (0, [])
      | Some due \<Rightarrow>
          if due < today then
            (let days_overdue = today - due; pts = min days_overdue 7 * 20
             in (pts, [''Overdue '' @ int_text days_overdue @ ''d '' @ u_arrow @ '' +'' @ int_text pts]))
          else if due = today then (25, [''Due today '' @ u_arrow @ '' +25''])
          else if due - today = 1 then (16, [''Due tomorrow '' @ u_arrow @ '' +16''])
          else if due - today = 2 then (8, [''Due in 2 days '' @ u_arrow @ '' +8''])
          else if due - today = 3 then (4, [''Due in 3 days '' @ u_arrow @ '' +4''])
          else (0, []))"

definition priority_points :: "int \<Rightarrow> int" where
  "priority_points p = (if p = 4 then 18 else if p = 3 then 10 else if p = 2 then 4 else 0)"

definition priority_rule :: "task \<Rightarrow> points" where
  "priority_rule t =
     (let pp = priority_points (tk_priority t)
      in if pp \<noteq> 0
         then (pp, [''Priority p'' @ int_text (5 - tk_priority t) @ '' '' @ u_arrow @ '' +'' @ int_text pp])
         else (0, []))"

definition focus_points :: "settings \<Rightarrow> task \<Rightarrow> points" where
  "focus_points cf t =
     (if cf_todoist_focus_label cf \<in> set (tk_labels t)
      then (14, [''@'' @ cf_todoist_focus_label cf @ '' '' @ u_arrow @ '' +14'']) else (0, []))"

definition weekend_points :: "settings \<Rightarrow> bool \<Rightarrow> task \<Rightarrow> points" where
  "weekend_points cf weekend_mode t =
     (if weekend_mode \<and> cf_todoist_weekend_label cf \<in> set (tk_labels t)
      then (10, [''@'' @ cf_todoist_weekend_label cf @ '' '' @ u_arrow @ '' +10'']) else (0, []))"

text \<open>\<open>task.duration_minutes or settings.default_task_duration_minutes\<close>.\<close>

definition task_duration :: "settings \<Rightarrow> task \<Rightarrow> int" where
  "task_duration cf t =
     (case tk_duration_minutes t of
        Some d \<Rightarrow> if d \<noteq> 0 then d else cf_default_task_duration_minutes cf
      | None \<Rightarrow> cf_default_task_duration_minutes cf)"

definition duration_points :: "settings \<Rightarrow> task \<Rightarrow> points" where
  "duration_points cf t =
     (let duration = task_duration cf t
      in if duration \<le> 30 then (4, [''Quick win ('' @ u_le @ ''30min) '' @ u_arrow @ '' +4''])
         else if duration \<ge> 120 then (-6, [''Long task ('' @ u_ge @ ''2h) '' @ u_arrow @ '' -6''])
         else (0, []))"

definition undated_points :: "settings \<Rightarrow> task \<Rightarrow> points" where
  "undated_points cf t =
     (if tk_due_date t = None \<and> cf_todoist_focus_label cf \<notin> set (tk_labels t)
      then (-4, [''No due date, no @focus '' @ u_arrow @ '' -4'']) else (0, []))"

definition section_points :: "task \<Rightarrow> points" where
  "section_points t =
     (let sec = py_lower (tk_section_name t)
      in if py_contains ''urgent'' sec \<or> py_contains ''today'' sec
         then (12, [''Section: Urgent/Today '' @ u_arrow @ '' +12''])
         else if py_contains ''doing'' sec then (10, [''Section: Doing '' @ u_arrow @ '' +10''])
         else if py_contains ''high'' sec then (6, [''Section: High '' @ u_arrow @ '' +6''])
         else if py_contains ''blocked'' sec then (-20, [''Section: Blocked '' @ u_arrow @ '' -20''])
         else if py_contains ''rejected'' sec then (-30, [''Section: Rejected '' @ u_arrow @ '' -30''])
         else if py_contains ''backlog'' sec
         then (if tk_priority t \<ge> 3 then (5, [''Backlog high-pri discovery '' @ u_arrow @ '' +5''])
               else (-2, [''Section: Backlog '' @ u_arrow @ '' -2'']))
         else (0, []))"

definition score_task :: "date \<Rightarrow> settings \<Rightarrow> bool \<Rightarrow> task \<Rightarrow> scored_task" where
  "score_task today cf weekend_mode t =
     (let rules = [due_points today t, priority_rule t, focus_points cf t, weekend_points cf weekend_mode t,
                   duration_points cf t, undated_points cf t, section_points t]
      in \<lparr>st_task = t, st_score = sum_list (map fst rules), st_reasons = concat (map snd rules)\<rparr>)"

text \<open>The sort key of the ranking; Python's sort is stable.\<close>

definition rank_key :: "scored_task \<Rightarrow> int \<times> date \<times> int \<times> string" where
  "rank_key s =
     (- st_score s, case tk_due_date (st_task s) of Some d \<Rightarrow> d | None \<Rightarrow> date_max,
      - tk_priority (st_task s), py_lower (tk_content (st_task s)))"

definition rank_tasks :: "date \<Rightarrow> settings \<Rightarrow> bool \<Rightarrow> task list \<Rightarrow> scored_task list" where
  "rank_tasks today cf weekend_mode tasks =
     sort_key rank_key (map (score_task today cf weekend_mode) tasks)"

section \<open>Lines\<close>

definition priority_icon :: "int \<Rightarrow> string" where
  "priority_icon p = (if p = 4 then u_red else if p = 3 then u_orange else if p = 2 then u_yellow else u_white)"

definition due_text :: "date \<Rightarrow> task \<Rightarrow> string" where
  "due_text today t =
     (case tk_due_date t of
        None \<Rightarrow> []
      | Some due \<Rightarrow>
          if due < today then '' '' @ u_warn @ '' '' @ int_text (today - due) @ ''d overdue''
          else if due = today then '' '' @ u_cal @ '' today''
          else '' '' @ u_cal @ '' '' @ date_text ''%a %d'' due)"

definition duration_text :: "task \<Rightarrow> string" where
  "duration_text t =
     (case tk_duration_minutes t of
        None \<Rightarrow> []
      | Some d \<Rightarrow>
          if d = 0 then []
          else if d \<ge> 60 then
            (let h = d div 60; m = d mod 60
             in if m \<noteq> 0 then '' '' @ u_timer @ '' '' @ int_text h @ ''h'' @ padded 2 m @ ''m''
                else '' '' @ u_timer @ '' '' @ int_text h @ ''h'')
          else '' '' @ u_timer @ '' '' @ int_text d @ ''min'')"

definition format_task_line :: "date \<Rightarrow> bool \<Rightarrow> scored_task \<Rightarrow> string" where
  "format_task_line today show_score s =
     (let t = st_task s;
          project = (if tk_project_name t \<noteq> [] then '' ['' @ tk_project_name t @ '']'' else []);
          sect = (if tk_section_name t \<noteq> [] then '' '' @ u_sect @ tk_section_name t else []);
          score_str = (if show_score then '' (score: '' @ int_text (st_score s) @ '')'' else [])
      in ''  '' @ priority_icon (tk_priority t) @ '' '' @ tk_content t @ project @ sect
         @ due_text today t @ duration_text t @ score_str)"

definition rule_line :: "nat \<Rightarrow> char \<Rightarrow> string" where
  "rule_line n c = replicate n c"

definition section_head :: "string \<Rightarrow> string list" where
  "section_head title = [CHR 0x0A # title, rule_line 30 CHR ''-'']"

section \<open>The daily digest\<close>

definition due_before :: "date \<Rightarrow> scored_task \<Rightarrow> bool" where
  "due_before today s \<longleftrightarrow> (case tk_due_date (st_task s) of Some d \<Rightarrow> d < today | None \<Rightarrow> False)"

definition due_on :: "date \<Rightarrow> scored_task \<Rightarrow> bool" where
  "due_on today s \<longleftrightarrow> tk_due_date (st_task s) = Some today"

definition due_after :: "date \<Rightarrow> scored_task \<Rightarrow> bool" where
  "due_after today s \<longleftrightarrow> (case tk_due_date (st_task s) of Some d \<Rightarrow> d > today | None \<Rightarrow> False)"

record daily_parts =
  dp_overdue :: "scored_task list"
  dp_due_today :: "scored_task list"
  dp_focus :: "scored_task list"
  dp_upcoming :: "scored_task list"
  dp_top :: "scored_task list"

text \<open>The loop that collects the top priorities.\<close>

fun top_priorities :: "int \<Rightarrow> scored_task list \<Rightarrow> string set \<Rightarrow> scored_task list \<Rightarrow> scored_task list" where
  "top_priorities limit [] seen acc = acc"
| "top_priorities limit (s # ss) seen acc =
     (if tk_id (st_task s) \<notin> seen \<and> int (length acc) < limit
      then top_priorities limit ss (insert (tk_id (st_task s)) seen) (acc @ [s])
      else top_priorities limit ss seen acc)"

definition daily_parts :: "date \<Rightarrow> settings \<Rightarrow> scored_task list \<Rightarrow> daily_parts" where
  "daily_parts today cf ranked =
     (let overdue = filter (due_before today) ranked;
          due_today = filter (due_on today) ranked;
          focus = filter (\<lambda>s. cf_todoist_focus_label cf \<in> set (tk_labels (st_task s))
                              \<and> s \<notin> set overdue \<and> s \<notin> set due_today) ranked;
          upcoming = slice_to 7 (filter (\<lambda>s. due_after today s \<and> s \<notin> set focus) ranked)
      in \<lparr>dp_overdue = overdue, dp_due_today = due_today, dp_focus = focus, dp_upcoming = upcoming,
          dp_top = top_priorities (cf_daily_top_task_limit cf) ranked {} []\<rparr>)"

fun top_lines :: "nat \<Rightarrow> scored_task list \<Rightarrow> string list" where
  "top_lines i [] = []"
| "top_lines i (s # ss) =
     (''  '' @ nat_text i @ ''. '' @ tk_content (st_task s))
     # (if st_reasons s \<noteq> [] then [''     '' @ u_arrow @ '' '' @ py_join '', '' (slice_to 3 (st_reasons s))] else [])
     @ top_lines (Suc i) ss"

definition event_time_text :: "calendar_event \<Rightarrow> string" where
  "event_time_text e =
     (if ev_all_day e then ''All day''
      else case ev_start e of
             None \<Rightarrow> []
           | Some a \<Rightarrow> wall_text ''%H:%M'' a
               @ (case ev_end e of Some b \<Rightarrow> ''-'' @ wall_text ''%H:%M'' b | None \<Rightarrow> []))"

definition email_line :: "email_alert \<Rightarrow> string" where
  "email_line ea =
     (let sender_short = (if CHR ''<'' \<in> set (em_sender ea)
                          then py_strip (hd (py_split CHR ''<'' (em_sender ea))) else em_sender ea)
      in ''  '' @ u_mail @ '' '' @ sender_short @ '': '' @ em_subject ea)"

definition section_of :: "string \<Rightarrow> string list \<Rightarrow> string list" where
  "section_of title ls = (if ls = [] then [] else section_head title @ ls)"

definition daily_lines ::
    "date \<Rightarrow> settings \<Rightarrow> nat \<Rightarrow> daily_parts \<Rightarrow> calendar_event list \<Rightarrow> email_alert list \<Rightarrow> string list" where
  "daily_lines today cf n_tasks p events emails =
     (let line = format_task_line today False in
      [u_clipboard @ '' Daily Briefing '' @ u_emdash @ '' '' @ date_text ''%A, %B %d, %Y'' today,
       rule_line 50 CHR ''='',
       CHR 0x0A # u_chart @ '' '' @ nat_text n_tasks @ '' active tasks | '' @ nat_text (length (dp_overdue p))
         @ '' overdue | '' @ nat_text (length (dp_due_today p)) @ '' due today'']
      @ section_head (u_target @ '' TOP '' @ nat_text (length (dp_top p)) @ '' PRIORITIES'')
      @ top_lines 1 (dp_top p)
      @ (if dp_overdue p \<noteq> []
         then section_head (u_warn @ '' OVERDUE ('' @ nat_text (length (dp_overdue p)) @ '' tasks)'')
              @ map line (slice_to (cf_overdue_section_limit cf) (dp_overdue p)) else [])
      @ section_of (u_cal @ '' DUE TODAY ('' @ nat_text (length (dp_due_today p)) @ '' tasks)'')
          (map line (dp_due_today p))
      @ section_of (u_cal2 @ '' CALENDAR ('' @ nat_text (length events) @ '' events)'')
          (map (\<lambda>e. ''  '' @ u_clock @ '' '' @ event_time_text e @ ''  '' @ ev_summary e) events)
      @ section_of (u_target @ '' LONG-TERM PRIORITIES (@'' @ cf_todoist_focus_label cf @ '')'')
          (map line (slice_to 5 (dp_focus p)))
      @ section_of (u_cal2 @ '' COMING UP (next 7 days)'') (map line (dp_upcoming p))
      @ section_of (u_mailbox @ '' UNREAD IMPORTANT EMAILS ('' @ nat_text (length emails) @ '')'')
          (map email_line (slice_to 10 emails)))"

definition build_daily_digest ::
    "date \<Rightarrow> settings \<Rightarrow> task list \<Rightarrow> calendar_event list \<Rightarrow> email_alert list \<Rightarrow> digest_result" where
  "build_daily_digest today cf tasks events emails =
     (let p = daily_parts today cf (rank_tasks today cf False tasks)
      in \<lparr>dg_subject = u_brain @ '' Daily Briefing '' @ u_emdash @ '' '' @ date_text ''%a %b %d'' today
            @ '' | '' @ nat_text (length (dp_overdue p)) @ '' overdue, ''
            @ nat_text (length (dp_due_today p)) @ '' today'',
          dg_body_text = py_join [CHR 0x0A] (daily_lines today cf (length tasks) p events emails)\<rparr>)"

section \<open>The overdue alert\<close>

definition u_link :: string where
  "u_link = [CHR 0xF0, CHR 0x9F, CHR 0x94, CHR 0x97]"

definition build_overdue_alert :: "date \<Rightarrow> task list \<Rightarrow> string option" where
  "build_overdue_alert today tasks =
     (let overdue = sort_key (\<lambda>t. case tk_due_date t of Some d \<Rightarrow> d | None \<Rightarrow> today)
                      (filter (\<lambda>t. case tk_due_date t of Some d \<Rightarrow> d < today | None \<Rightarrow> False) tasks)
      in if overdue = [] then None
         else Some (py_join [CHR 0x0A]
           ([u_warn @ '' '' @ nat_text (length overdue) @ '' OVERDUE TASKS'', []]
            @ map (\<lambda>t. priority_icon (tk_priority t) @ '' '' @ tk_content t
                  @ (if tk_project_name t \<noteq> [] then '' ['' @ tk_project_name t @ '']'' else [])
                  @ '' ('' @ int_text (case tk_due_date t of Some d \<Rightarrow> today - d | None \<Rightarrow> 0) @ ''d late)'')
                (slice_to 10 overdue)
            @ (if length overdue > 10
               then [CHR 0x0A # ''... and '' @ nat_text (length overdue - 10) @ '' more''] else [])
            @ [CHR 0x0A # u_link @ '' Open Todoist to reschedule''])))"

section \<open>Lemmas\<close>

lemma rank_tasks_mset: "mset (map st_task (rank_tasks today cf w tasks)) = mset tasks"
proof -
  have "st_task \<circ> score_task today cf w = (\<lambda>t. t)"
    by (rule ext) (simp add: score_task_def Let_def)
  then show ?thesis by (simp add: rank_tasks_def multiset.map_comp)
qed

lemma due_points_range: "fst (due_points today t) \<in> {0, 4, 8, 16, 20, 25, 40, 60, 80, 100, 120, 140}"
proof (cases "tk_due_date t")
  case (Some due)
  show ?thesis
  proof (cases "due < today")
    case True
    then have "min (today - due) 7 \<in> {1, 2, 3, 4, 5, 6, 7}" by auto
    with True Some show ?thesis by (auto simp: due_points_def Let_def)
  qed (auto simp: due_points_def Some)
qed (simp add: due_points_def)

lemma section_points_range: "-30 \<le> fst (section_points t) \<and> fst (section_points t) \<le> 12"
  by (simp add: section_points_def Let_def)

definition sid :: "scored_task \<Rightarrow> string" where
  "sid s = tk_id (st_task s)"

lemma top_priorities_spec:
  "0 \<le> limit \<Longrightarrow> int (length acc) \<le> limit \<Longrightarrow> distinct (map sid acc) \<Longrightarrow>
   set (map sid acc) = seen \<Longrightarrow>
   (let res = top_priorities limit ss seen acc
    in int (length res) \<le> limit \<and> distinct (map sid res)
       \<and> (\<exists>more. res = acc @ more \<and> subseq more ss)
       \<and> (int (length res) < limit \<longrightarrow> sid ` set ss \<subseteq> sid ` set res))"
proof (induction limit ss seen acc rule: top_priorities.induct)
  case (1 limit seen acc)
  then show ?case by simp
next
  case (2 limit s ss seen acc)
  show ?case
  proof (cases "sid s \<notin> seen \<and> int (length acc) < limit")
    case True
    have "let res = top_priorities limit ss (insert (sid s) seen) (acc @ [s])
      in int (length res) \<le> limit \<and> distinct (map sid res)
       \<and> (\<exists>more. res = (acc @ [s]) @ more \<and> subseq more ss)
       \<and> (int (length res) < limit \<longrightarrow> sid ` set ss \<subseteq> sid ` set res)"
      by (rule 2(1) [folded sid_def, OF True]) (use True 2 in auto)
    with True show ?thesis by (auto simp: Let_def sid_def [symmetric])
  next
    case False
    have IH: "let res = top_priorities limit ss seen acc
      in int (length res) \<le> limit \<and> distinct (map sid res)
       \<and> (\<exists>more. res = acc @ more \<and> subseq more ss)
       \<and> (int (length res) < limit \<longrightarrow> sid ` set ss \<subseteq> sid ` set res)"
      by (rule 2(2) [folded sid_def, OF False]) (use 2 in auto)
    then obtain more where more: "top_priorities limit ss seen acc = acc @ more" "subseq more ss"
      by (auto simp: Let_def)
    have "sid s \<in> sid ` set (acc @ more)" if "int (length (acc @ more)) < limit"
      using False 2(6) that by auto
    with False IH more show ?thesis by (auto simp: Let_def sid_def [symmetric])
  qed
qed

section \<open>Properties\<close>



text \<open>Scores are bounded, and lateness dominates: a task overdue by at least six days, even in a blocked or
rejected section, scores above every task that is not overdue.\<close>

theorem score_bounds_and_lateness:
  "-40 \<le> st_score (score_task today cf w t) \<and> st_score (score_task today cf w t) \<le> 198
   \<and> (tk_due_date t = Some d \<and> d + 6 \<le> today
      \<and> (case tk_due_date u of Some d' \<Rightarrow> today \<le> d' | None \<Rightarrow> True)
      \<longrightarrow> st_score (score_task today cf w u) < st_score (score_task today cf w t))"
proof -
  have p: "0 \<le> fst (priority_rule t) \<and> fst (priority_rule t) \<le> 18" for t
    by (simp add: priority_rule_def priority_points_def Let_def)
  have f: "0 \<le> fst (focus_points cf t) \<and> fst (focus_points cf t) \<le> 14" for t by (simp add: focus_points_def)
  have wk: "0 \<le> fst (weekend_points cf w t) \<and> fst (weekend_points cf w t) \<le> 10" for t
    by (simp add: weekend_points_def)
  have du: "-6 \<le> fst (duration_points cf t) \<and> fst (duration_points cf t) \<le> 4" for t
    by (simp add: duration_points_def Let_def)
  have un: "-4 \<le> fst (undated_points cf t) \<and> fst (undated_points cf t) \<le> 0" for t
    by (simp add: undated_points_def)
  have dd: "0 \<le> fst (due_points today t) \<and> fst (due_points today t) \<le> 140" for t
    using due_points_range [of today t] by auto
  have sc: "st_score (score_task today cf w t) = fst (due_points today t) + fst (priority_rule t)
      + fst (focus_points cf t) + fst (weekend_points cf w t) + fst (duration_points cf t)
      + fst (undated_points cf t) + fst (section_points t)" for t
    by (simp add: score_task_def Let_def)
  have late: "120 \<le> fst (due_points today t)" "fst (undated_points cf t) = 0"
    if "tk_due_date t = Some d" "d + 6 \<le> today"
    using that by (simp_all add: due_points_def undated_points_def Let_def)
  have soon: "fst (due_points today u) \<le> 25"
    if "case tk_due_date u of Some d' \<Rightarrow> today \<le> d' | None \<Rightarrow> True"
    using that by (auto simp: due_points_def Let_def split: option.splits)
  show ?thesis
    using p [of t] f [of t] wk [of t] du [of t] un [of t] dd [of t] section_points_range [of t]
      p [of u] f [of u] wk [of u] du [of u] un [of u] section_points_range [of u] late soon
    unfolding sc by auto
qed

theorem score_bounds_and_lateness_witness:
  "st_score (score_task 738000 default_settings False (new_task ''1'' ''a''))
     < st_score (score_task 738000 default_settings False ((new_task ''2'' ''b'')\<lparr>tk_due_date := Some 737990\<rparr>))"
  using score_bounds_and_lateness [of 738000 default_settings False "(new_task ''2'' ''b'')\<lparr>tk_due_date := Some 737990\<rparr>"
      737990 "new_task ''1'' ''a''"]
  by (simp add: new_task_def)

text \<open>The daily digest lists no task twice among its overdue, due-today, focus and upcoming parts; the
overdue and due-today parts miss no such task; its top priorities are the best-ranked tasks, one per
id, as many as the limit allows. Upcoming tasks are at most seven, in no bounded time.\<close>

theorem daily_parts_correct:
  assumes "0 \<le> cf_daily_top_task_limit cf"
  shows "let ranked = rank_tasks today cf False tasks; p = daily_parts today cf ranked in
     set (dp_overdue p) \<inter> set (dp_due_today p) = {} \<and> set (dp_focus p) \<inter> (set (dp_overdue p) \<union> set (dp_due_today p)) = {}
   \<and> set (dp_upcoming p) \<inter> (set (dp_overdue p) \<union> set (dp_due_today p) \<union> set (dp_focus p)) = {}
   \<and> mset (map st_task (dp_overdue p)) = filter_mset (\<lambda>t. \<exists>d. tk_due_date t = Some d \<and> d < today) (mset tasks)
   \<and> mset (map st_task (dp_due_today p)) = filter_mset (\<lambda>t. tk_due_date t = Some today) (mset tasks)
   \<and> length (dp_upcoming p) \<le> 7 \<and> subseq (dp_top p) ranked \<and> distinct (map sid (dp_top p))
   \<and> int (length (dp_top p)) \<le> cf_daily_top_task_limit cf
   \<and> (int (length (dp_top p)) < cf_daily_top_task_limit cf \<longrightarrow> sid ` set ranked \<subseteq> sid ` set (dp_top p))"
proof -
  let ?r = "rank_tasks today cf False tasks"
  let ?p = "daily_parts today cf ?r"
  have part: "mset (map st_task (filter (P \<circ> st_task) ?r)) = filter_mset P (mset tasks)" for P
  proof -
    have "map st_task (filter (P \<circ> st_task) ?r) = filter P (map st_task ?r)" by (simp add: filter_map)
    then show ?thesis using rank_tasks_mset [of today cf False tasks] by (metis mset_filter)
  qed
  have od: "due_before today = (\<lambda>t. \<exists>d. tk_due_date t = Some d \<and> d < today) \<circ> st_task"
    by (rule ext) (simp add: due_before_def split: option.splits)
  have dt: "due_on today = (\<lambda>t. tk_due_date t = Some today) \<circ> st_task"
    by (rule ext) (simp add: due_on_def)
  have top: "int (length (dp_top ?p)) \<le> cf_daily_top_task_limit cf \<and> distinct (map sid (dp_top ?p))
      \<and> subseq (dp_top ?p) ?r
      \<and> (int (length (dp_top ?p)) < cf_daily_top_task_limit cf \<longrightarrow> sid ` set ?r \<subseteq> sid ` set (dp_top ?p))"
    using top_priorities_spec [of "cf_daily_top_task_limit cf" "[]" "{}" ?r] assms
    by (auto simp: daily_parts_def Let_def)
  have sub: "set (dp_upcoming ?p) \<subseteq> {s \<in> set ?r. due_after today s \<and> s \<notin> set (dp_focus ?p)}"
    using set_slice_to [of 7] by (fastforce simp: daily_parts_def Let_def)
  have ms: "mset (map st_task (dp_overdue ?p)) = filter_mset (\<lambda>t. \<exists>d. tk_due_date t = Some d \<and> d < today) (mset tasks)"
    "mset (map st_task (dp_due_today ?p)) = filter_mset (\<lambda>t. tk_due_date t = Some today) (mset tasks)"
    using part od dt by (simp_all add: daily_parts_def Let_def)
  have disj: "set (dp_overdue ?p) \<inter> set (dp_due_today ?p) = {}"
    "set (dp_focus ?p) \<inter> (set (dp_overdue ?p) \<union> set (dp_due_today ?p)) = {}"
    by (auto simp: daily_parts_def Let_def due_before_def due_on_def)
  have "set (dp_upcoming ?p) \<inter> (set (dp_overdue ?p) \<union> set (dp_due_today ?p) \<union> set (dp_focus ?p)) = {}"
  proof -
    have "due_before today s" if "s \<in> set (dp_overdue ?p)" for s using that by (simp add: daily_parts_def Let_def)
    moreover have "due_on today s" if "s \<in> set (dp_due_today ?p)" for s
      using that by (simp add: daily_parts_def Let_def)
    moreover have "\<not> (due_after today s \<and> due_before today s)" "\<not> (due_after today s \<and> due_on today s)" for s
      by (auto simp: due_before_def due_on_def due_after_def split: option.splits)
    ultimately show ?thesis using sub by blast
  qed
  moreover have "length (dp_upcoming ?p) \<le> 7" by (simp add: daily_parts_def Let_def slice_to_def)
  ultimately show ?thesis using top ms disj unfolding Let_def by blast
qed

theorem daily_parts_correct_witness:
  "let ranked = rank_tasks 738000 default_settings False [new_task ''1'' ''a'', new_task ''1'' ''b'']
   in length (dp_top (daily_parts 738000 default_settings ranked)) \<le> 5
      \<and> distinct (map sid (dp_top (daily_parts 738000 default_settings ranked)))"
  using daily_parts_correct [of default_settings 738000 "[new_task ''1'' ''a'', new_task ''1'' ''b'']"]
  by (simp add: Let_def default_settings_def)

text \<open>C1. What the heading "COMING UP (next 7 days)" promises does not hold: a task due a year from now is listed
under it.\<close>

theorem upcoming_not_limited_to_a_week:
  "let t = (new_task ''1'' ''a'')\<lparr>tk_due_date := Some (today + 365)\<rparr>
   in st_task ` set (dp_upcoming (daily_parts today default_settings
        (rank_tasks today default_settings False [t]))) = {t}"
  by (simp add: Let_def daily_parts_def rank_tasks_def score_task_def slice_to_def due_after_def
      default_settings_def new_task_def)

end
