(* ===== verification/PlannerDigests.thy ===== *)
theory PlannerDigests
  imports Planner
begin

text \<open>
  The weekend planner and the weekly review of \<open>src/brain/planner.py\<close>, with the prompt texts. The
  weekend plan allocates tasks greedily to the free minutes of Saturday and Sunday.
\<close>

section \<open>Symbols\<close>

definition u_map :: string where
  "u_map = [CHR 0xF0, CHR 0x9F, CHR 0x97, CHR 0x93, CHR 0xEF, CHR 0xB8, CHR 0x8F]"

definition u_alarm :: string where
  "u_alarm = [CHR 0xE2, CHR 0x8F, CHR 0xB0]"

definition u_hour :: string where
  "u_hour = [CHR 0xE2, CHR 0x8F, CHR 0xB3]"

definition u_family :: string where
  "u_family = [CHR 0xF0, CHR 0x9F, CHR 0x91, CHR 0xA8, CHR 0xE2, CHR 0x80, CHR 0x8D, CHR 0xF0, CHR 0x9F, CHR 0x91, CHR 0xA9, CHR 0xE2, CHR 0x80, CHR 0x8D, CHR 0xF0, CHR 0x9F, CHR 0x91, CHR 0xA7]"

definition u_check :: string where
  "u_check = [CHR 0xE2, CHR 0x9C, CHR 0x85]"

definition u_cross :: string where
  "u_cross = [CHR 0xE2, CHR 0x9C, CHR 0x93]"

definition u_folder :: string where
  "u_folder = [CHR 0xF0, CHR 0x9F, CHR 0x93, CHR 0x81]"

definition u_compass :: string where
  "u_compass = [CHR 0xF0, CHR 0x9F, CHR 0xA7, CHR 0xAD]"

definition u_trend :: string where
  "u_trend = [CHR 0xF0, CHR 0x9F, CHR 0x93, CHR 0x88]"

section \<open>The weekend allocation\<close>

definition days_to_saturday :: "date \<Rightarrow> int" where
  "days_to_saturday today =
     (let n = (5 - weekday today) mod 7 in if n = 0 \<and> weekday today \<noteq> 5 then 7 else n)"

definition event_on :: "date \<Rightarrow> calendar_event \<Rightarrow> bool" where
  "event_on d e \<longleftrightarrow> (case ev_start e of Some a \<Rightarrow> wall_date a = d | None \<Rightarrow> False)"

definition booked_minutes :: "calendar_event list \<Rightarrow> int res" where
  "booked_minutes events = rbind (rmap event_duration events) (\<lambda>ds. Inr (sum_list ds))"

record allocation =
  al_sat :: "scored_task list"
  al_sun :: "scored_task list"
  al_overflow :: "scored_task list"
  al_sat_used :: int
  al_sun_used :: int

definition empty_allocation :: allocation where
  "empty_allocation = \<lparr>al_sat = [], al_sun = [], al_overflow = [], al_sat_used = 0, al_sun_used = 0\<rparr>"

definition place_task :: "settings \<Rightarrow> int \<Rightarrow> int \<Rightarrow> scored_task \<Rightarrow> allocation \<Rightarrow> allocation" where
  "place_task cf sat_free sun_free s a =
     (let dur = task_duration cf (st_task s);
          prefer_sat = cf_todoist_focus_label cf \<in> set (tk_labels (st_task s));
          on_sat = a\<lparr>al_sat := al_sat a @ [s], al_sat_used := al_sat_used a + dur\<rparr>
      in if prefer_sat \<and> al_sat_used a + dur \<le> sat_free then on_sat
         else if al_sun_used a + dur \<le> sun_free
         then a\<lparr>al_sun := al_sun a @ [s], al_sun_used := al_sun_used a + dur\<rparr>
         else if al_sat_used a + dur \<le> sat_free then on_sat
         else a\<lparr>al_overflow := al_overflow a @ [s]\<rparr>)"

fun allocate :: "settings \<Rightarrow> int \<Rightarrow> int \<Rightarrow> scored_task list \<Rightarrow> allocation \<Rightarrow> allocation" where
  "allocate cf sat_free sun_free [] a = a"
| "allocate cf sat_free sun_free (s # ss) a =
     (let a' = place_task cf sat_free sun_free s a
      in if int (length (al_sat a') + length (al_sun a')) \<ge> cf_weekend_task_limit cf then a'
         else allocate cf sat_free sun_free ss a')"

section \<open>The weekend digest\<close>

definition weekend_event_line :: "calendar_event \<Rightarrow> string" where
  "weekend_event_line e =
     (let t = (case ev_start e of
                 Some a \<Rightarrow> if \<not> ev_all_day e then wall_text ''%H:%M'' a else ''All day''
               | None \<Rightarrow> ''All day'')
      in ''    '' @ u_clock @ '' '' @ t @ ''  '' @ ev_summary e)"

definition day_lines ::
    "date \<Rightarrow> string \<Rightarrow> string \<Rightarrow> date \<Rightarrow> calendar_event list \<Rightarrow> scored_task list \<Rightarrow> string list" where
  "day_lines today upper day d events tasks =
     section_head (u_cal @ '' '' @ upper @ '' '' @ u_emdash @ '' '' @ date_text ''%B %d'' d)
     @ (if events \<noteq> [] then ''  Events:'' # map weekend_event_line events else [])
     @ (if tasks \<noteq> [] then ''  Tasks:'' # map (format_task_line today False) tasks
        else if events = [] then [''  No tasks scheduled. Enjoy your '' @ day @ ''!''] else [])"

definition weekend_lines ::
    "date \<Rightarrow> settings \<Rightarrow> date \<Rightarrow> int \<Rightarrow> int \<Rightarrow> calendar_event list \<Rightarrow> calendar_event list \<Rightarrow> allocation \<Rightarrow>
     string list" where
  "weekend_lines today cf saturday sat_free sun_free sat_events sun_events a =
     [u_map @ '' Weekend Planner '' @ u_emdash @ '' '' @ date_text ''%B %d'' saturday @ ''-''
        @ date_text ''%d, %Y'' (saturday + 1),
      rule_line 50 CHR ''='',
      CHR 0x0A # u_alarm @ '' Capacity: '' @ int_text (cf_weekend_capacity_hours cf) @ ''h/day | Sat free: ''
        @ int_text sat_free @ ''min | Sun free: '' @ int_text sun_free @ ''min'']
     @ day_lines today ''SATURDAY'' ''Saturday'' saturday sat_events (al_sat a)
     @ day_lines today ''SUNDAY'' ''Sunday'' (saturday + 1) sun_events (al_sun a)
     @ (if al_overflow a \<noteq> []
        then section_head (u_hour @ '' DEFER OR SPLIT ('' @ nat_text (length (al_overflow a))
                             @ '' tasks didn'' @ [CHR 0x27] @ ''t fit)'')
             @ map (format_task_line today False) (slice_to 5 (al_overflow a))
             @ [CHR 0x0A # ''  '' @ u_bulb
                  @ '' Consider: splitting long tasks, moving to next week, or delegating.'']
        else [])
     @ section_head (u_family @ '' FAMILY TIME PROTECTION'')
     @ [''  Remember: Tasks are scheduled around events.'',
        ''  Demanding tasks '' @ u_arrow @ '' morning (peak energy).'',
        ''  Keep buffer time between tasks (30 min).'',
        ''  Family activities always take priority.'']"

definition free_minutes :: "settings \<Rightarrow> int \<Rightarrow> int" where
  "free_minutes cf booked = max 0 (cf_weekend_capacity_hours cf * 60 - booked)"

definition weekend_allocation ::
    "date \<Rightarrow> settings \<Rightarrow> task list \<Rightarrow> int \<Rightarrow> int \<Rightarrow> allocation" where
  "weekend_allocation today cf tasks sat_free sun_free =
     allocate cf sat_free sun_free
       (slice_to (cf_weekend_task_limit cf * 2) (rank_tasks today cf True tasks)) empty_allocation"

definition build_weekend_digest ::
    "date \<Rightarrow> settings \<Rightarrow> task list \<Rightarrow> calendar_event list \<Rightarrow> digest_result res" where
  "build_weekend_digest today cf tasks events =
     (let saturday = today + days_to_saturday today;
          sat_events = filter (event_on saturday) events;
          sun_events = filter (event_on (saturday + 1)) events
      in rbind (booked_minutes sat_events) (\<lambda>sat_booked.
         rbind (booked_minutes sun_events) (\<lambda>sun_booked.
           let sat_free = free_minutes cf sat_booked; sun_free = free_minutes cf sun_booked;
               a = weekend_allocation today cf tasks sat_free sun_free
           in Inr \<lparr>dg_subject = u_map @ '' Weekend Plan '' @ u_emdash @ '' '' @ date_text ''%b %d'' saturday
                     @ ''-'' @ date_text ''%d'' (saturday + 1) @ '' | ''
                     @ nat_text (length (al_sat a) + length (al_sun a)) @ '' tasks'',
                   dg_body_text = py_join [CHR 0x0A]
                     (weekend_lines today cf saturday sat_free sun_free sat_events sun_events a)\<rparr>)))"

section \<open>The weekly review\<close>

text \<open>The text of a completed item; \<open>text_of\<close> is \<open>str\<close> of a JSON value that is not a string.\<close>

definition json_text :: "(json \<Rightarrow> string) \<Rightarrow> json \<Rightarrow> string" where
  "json_text text_of v = (case v of JStr s \<Rightarrow> s | _ \<Rightarrow> text_of v)"

definition completed_name :: "(json \<Rightarrow> string) \<Rightarrow> json \<Rightarrow> string res" where
  "completed_name text_of item =
     (case item of
        JObj c \<Rightarrow>
          (case dget c ''task'' (JObj []) of
             JObj t \<Rightarrow> Inr (json_text text_of (dget c ''content'' (dget t ''content'' (JStr ''?''))))
           | _ \<Rightarrow> Inl (OtherError ''AttributeError''))
      | _ \<Rightarrow> Inl (OtherError ''AttributeError''))"

fun count_projects :: "scored_task list \<Rightarrow> (string \<times> int) list \<Rightarrow> (string \<times> int) list" where
  "count_projects [] projects = projects"
| "count_projects (s # ss) projects =
     (let name = (if tk_project_name (st_task s) \<noteq> [] then tk_project_name (st_task s) else ''No Project'')
      in count_projects ss
           (AList.update name ((case map_of projects name of Some n \<Rightarrow> n | None \<Rightarrow> 0) + 1) projects))"

definition project_counts :: "scored_task list \<Rightarrow> (string \<times> int) list" where
  "project_counts ranked = sort_key (\<lambda>(name, n). - n) (count_projects ranked [])"

definition next_week :: "date \<Rightarrow> scored_task list \<Rightarrow> scored_task list" where
  "next_week today ranked =
     filter (\<lambda>s. case tk_due_date (st_task s) of Some d \<Rightarrow> today < d \<and> d \<le> today + 7 | None \<Rightarrow> False) ranked"

definition review_lines ::
    "date \<Rightarrow> settings \<Rightarrow> scored_task list \<Rightarrow> nat \<Rightarrow> string list \<Rightarrow> string list" where
  "review_lines today cf ranked completed_count completed_names =
     (let overdue = filter (due_before today) ranked;
          high_priority = filter (\<lambda>s. tk_priority (st_task s) \<ge> 3) ranked;
          line = format_task_line today False
      in [u_chart @ '' Weekly Review '' @ u_emdash @ '' '' @ date_text ''%B %d'' (today - weekday today)
            @ '' to '' @ date_text ''%B %d, %Y'' today,
          rule_line 50 CHR ''='']
         @ section_head (u_trend @ '' WEEK SUMMARY'')
         @ [''  '' @ u_check @ '' Completed: '' @ nat_text completed_count @ '' tasks'',
            ''  '' @ u_clipboard @ '' Active: '' @ nat_text (length ranked) @ '' tasks'',
            ''  '' @ u_warn @ '' Overdue: '' @ nat_text (length overdue) @ '' tasks'',
            ''  '' @ u_red @ '' High priority: '' @ nat_text (length high_priority) @ '' tasks'']
         @ section_of (u_check @ '' COMPLETED THIS WEEK ('' @ nat_text completed_count @ '')'')
             (map (\<lambda>name. ''  '' @ u_cross @ '' '' @ name) completed_names)
         @ (if overdue \<noteq> []
            then section_head (u_warn @ '' FALLING BEHIND ('' @ nat_text (length overdue) @ '' overdue)'')
                 @ map line (slice_to 10 overdue)
                 @ [CHR 0x0A # ''  '' @ u_bulb @ '' Consider: reschedule, delegate, or break into smaller tasks.'']
            else [])
         @ section_of (u_folder @ '' PROJECT HEALTH'')
             (map (\<lambda>(proj, n). ''  '' @ proj @ '': '' @ int_text n @ '' active tasks'') (project_counts ranked))
         @ section_of (u_target @ '' NEXT WEEK PRIORITIES'') (map line (slice_to 7 (next_week today ranked)))
         @ section_of (u_compass @ '' LONG-TERM GOAL ALIGNMENT (@'' @ cf_todoist_focus_label cf @ '')'')
             (map line (slice_to 5 (filter (\<lambda>s. cf_todoist_focus_label cf \<in> set (tk_labels (st_task s))) ranked))))"

definition build_weekly_review ::
    "(json \<Rightarrow> string) \<Rightarrow> date \<Rightarrow> settings \<Rightarrow> task list \<Rightarrow> json list \<Rightarrow> digest_result res" where
  "build_weekly_review text_of today cf active_tasks completed_items =
     (let ranked = rank_tasks today cf False active_tasks
      in rbind (rmap (completed_name text_of) (slice_to 20 completed_items)) (\<lambda>names.
           Inr \<lparr>dg_subject = u_chart @ '' Weekly Review '' @ u_emdash @ '' ''
                  @ date_text ''%b %d'' (today - weekday today) @ ''-'' @ date_text ''%d'' today @ '' | ''
                  @ nat_text (length completed_items) @ '' done, ''
                  @ nat_text (length (filter (due_before today) ranked)) @ '' overdue'',
                dg_body_text = py_join [CHR 0x0A]
                  (review_lines today cf ranked (length completed_items) names)\<rparr>))"

section \<open>Prompts\<close>

definition default_prompts :: "(string \<times> string) list" where
  "default_prompts =
     [(''daily-summary'',
        ''You are a productivity coach. Rewrite this daily briefing to be scannable, ''
        @ ''actionable, and structured. Keep all facts. Use clear sections. Highlight the top 3 ''
        @ ''things to focus on. Keep it under 500 words.''),
      (''weekend-planner'',
        ''You are a weekend planning assistant. Rewrite this weekend plan to be realistic and ''
        @ ''well-structured. Protect personal commitments. Schedule demanding tasks in the ''
        @ ''morning. Add 30-min buffers between tasks. Keep it under 400 words.''),
      (''weekly-review'',
        ''You are a productivity coach reviewing someone'' @ [CHR 0x27] @ ''s week. Rewrite this review to ''
        @ ''highlight completed work, flag recurring deferrals, and suggest 3 concrete actions ''
        @ ''for next week. Be direct and data-driven. Keep it under 500 words.''),
      (''task-prioritization'',
        ''You are a task prioritization expert using the Eisenhower matrix. Analyze the tasks ''
        @ ''and categorize as: Urgent+Important, Important, Urgent, Neither. Be concise. Output ''
        @ ''a prioritized list.'')]"

text \<open>\<open>prompt_file\<close> is the text of a template file, when there is one.\<close>

definition load_prompt :: "(string \<Rightarrow> string option) \<Rightarrow> string \<Rightarrow> string" where
  "load_prompt prompt_file name =
     (case prompt_file (name @ ''.md'') of
        Some text \<Rightarrow> text
      | None \<Rightarrow> (case map_of default_prompts name of
                  Some text \<Rightarrow> text
                | None \<Rightarrow> ''Rewrite for clarity without changing facts.''))"

section \<open>Lemmas\<close>

text \<open>What the allocation keeps: the used minutes are those of the tasks placed and fit, every task
considered is in exactly one of the three lists.\<close>

definition minutes :: "settings \<Rightarrow> scored_task list \<Rightarrow> int" where
  "minutes cf ss = sum_list (map (\<lambda>s. task_duration cf (st_task s)) ss)"

definition alloc_ok :: "settings \<Rightarrow> int \<Rightarrow> int \<Rightarrow> scored_task multiset \<Rightarrow> allocation \<Rightarrow> bool" where
  "alloc_ok cf sat_free sun_free considered a \<longleftrightarrow>
     al_sat_used a = minutes cf (al_sat a) \<and> al_sun_used a = minutes cf (al_sun a)
     \<and> al_sat_used a \<le> sat_free \<and> al_sun_used a \<le> sun_free
     \<and> mset (al_sat a) + mset (al_sun a) + mset (al_overflow a) = considered"

lemma place_task_ok:
  "alloc_ok cf sat_free sun_free M a \<Longrightarrow> alloc_ok cf sat_free sun_free (add_mset s M) (place_task cf sat_free sun_free s a)"
  by (auto simp: alloc_ok_def place_task_def Let_def minutes_def)

lemma place_task_count:
  "length (al_sat (place_task cf x y s a)) + length (al_sun (place_task cf x y s a))
     \<le> Suc (length (al_sat a) + length (al_sun a))"
  by (simp add: place_task_def Let_def)

lemma allocate_ok:
  "alloc_ok cf sat_free sun_free M a \<Longrightarrow>
   \<exists>ts rest. ss = ts @ rest \<and> alloc_ok cf sat_free sun_free (M + mset ts) (allocate cf sat_free sun_free ss a)"
proof (induction ss arbitrary: M a)
  case Nil
  then show ?case by simp
next
  case (Cons s ss)
  let ?a = "place_task cf sat_free sun_free s a"
  note ok = place_task_ok [OF Cons.prems, of s]
  show ?case
  proof (cases "int (length (al_sat ?a) + length (al_sun ?a)) \<ge> cf_weekend_task_limit cf")
    case True
    with ok have "s # ss = [s] @ ss \<and>
        alloc_ok cf sat_free sun_free (M + mset [s]) (allocate cf sat_free sun_free (s # ss) a)"
      by (simp add: Let_def)
    then show ?thesis by blast
  next
    case False
    from Cons.IH [OF ok] obtain ts rest where "ss = ts @ rest"
      "alloc_ok cf sat_free sun_free (add_mset s M + mset ts) (allocate cf sat_free sun_free ss ?a)" by blast
    with False have "s # ss = (s # ts) @ rest \<and>
        alloc_ok cf sat_free sun_free (M + mset (s # ts)) (allocate cf sat_free sun_free (s # ss) a)"
      by (simp add: Let_def)
    then show ?thesis by blast
  qed
qed

lemma allocate_count:
  "int (length (al_sat a) + length (al_sun a)) < cf_weekend_task_limit cf \<Longrightarrow>
   int (length (al_sat (allocate cf x y ss a)) + length (al_sun (allocate cf x y ss a))) \<le> cf_weekend_task_limit cf"
proof (induction ss arbitrary: a)
  case Nil
  then show ?case by simp
next
  case (Cons s ss)
  let ?a = "place_task cf x y s a"
  have le: "int (length (al_sat ?a) + length (al_sun ?a)) \<le> cf_weekend_task_limit cf"
    using place_task_count [of cf x y s a] Cons.prems by linarith
  show ?case
  proof (cases "int (length (al_sat ?a) + length (al_sun ?a)) \<ge> cf_weekend_task_limit cf")
    case True
    with le show ?thesis by (simp add: Let_def)
  next
    case False
    with Cons.IH [of ?a] show ?thesis by (simp add: Let_def)
  qed
qed

lemma saturday_ahead:
  "weekday (today + days_to_saturday today) = 5" "0 \<le> days_to_saturday today" "days_to_saturday today \<le> 6"
proof -
  have n: "days_to_saturday today = (5 - weekday today) mod 7"
  proof -
    have "(5 - w) mod 7 = 0 \<longrightarrow> w = 5" if "0 \<le> w" "w < 7" for w :: int using that by presburger
    then show ?thesis using weekday_range [of today] by (simp add: days_to_saturday_def Let_def)
  qed
  show "weekday (today + days_to_saturday today) = 5"
    unfolding n weekday_def by presburger
  show "0 \<le> days_to_saturday today" "days_to_saturday today \<le> 6"
    using pos_mod_sign [of 7 "5 - weekday today"] pos_mod_bound [of 7 "5 - weekday today"] by (simp_all add: n)
qed

section \<open>Properties\<close>

text \<open>C14. The weekend plan never books a day beyond its free minutes, plans at most the limit of tasks, and puts
every task it considers, a prefix of the ranking, in exactly one of Saturday, Sunday and the deferred
ones; the Saturday it plans is the next one, today included.\<close>

theorem weekend_plan_fits:
  assumes "1 \<le> cf_weekend_task_limit cf"
  shows "let a = weekend_allocation today cf tasks (free_minutes cf b) (free_minutes cf b') in
     minutes cf (al_sat a) \<le> free_minutes cf b \<and> minutes cf (al_sun a) \<le> free_minutes cf b'
     \<and> int (length (al_sat a) + length (al_sun a)) \<le> cf_weekend_task_limit cf
     \<and> (\<exists>ts. prefix ts (rank_tasks today cf True tasks)
          \<and> mset (al_sat a) + mset (al_sun a) + mset (al_overflow a) = mset ts)
     \<and> weekday (today + days_to_saturday today) = 5 \<and> days_to_saturday today \<in> {0..6}"
proof -
  let ?r = "slice_to (cf_weekend_task_limit cf * 2) (rank_tasks today cf True tasks)"
  let ?a = "weekend_allocation today cf tasks (free_minutes cf b) (free_minutes cf b')"
  have "alloc_ok cf (free_minutes cf b) (free_minutes cf b') {#} empty_allocation"
    by (simp add: alloc_ok_def empty_allocation_def minutes_def free_minutes_def)
  from allocate_ok [OF this, of ?r] obtain ts rest where ts: "?r = ts @ rest"
    and ok: "alloc_ok cf (free_minutes cf b) (free_minutes cf b') (mset ts) ?a"
    by (auto simp: weekend_allocation_def)
  have "prefix ?r (rank_tasks today cf True tasks)" by (simp add: slice_to_def take_is_prefix)
  with ts have pre: "prefix ts (rank_tasks today cf True tasks)" by (metis prefixI prefix_order.trans)
  have "int (length (al_sat ?a) + length (al_sun ?a)) \<le> cf_weekend_task_limit cf"
    unfolding weekend_allocation_def
    by (rule allocate_count) (use assms in \<open>simp add: empty_allocation_def\<close>)
  with ok pre saturday_ahead [of today] show ?thesis by (auto simp: Let_def alloc_ok_def)
qed

theorem weekend_plan_fits_witness:
  "let a = weekend_allocation 738000 default_settings [new_task ''1'' ''a''] (free_minutes default_settings 170)
       (free_minutes default_settings 0)
   in minutes default_settings (al_sat a) \<le> 10 \<and> weekday (738000 + days_to_saturday 738000) = 5"
  using weekend_plan_fits [of default_settings 738000 "[new_task ''1'' ''a'']" 170 0]
  by (simp add: Let_def default_settings_def free_minutes_def)

end
