(* ===== verification/Pii.thy ===== *)
theory Pii
  imports PyText
begin

text \<open>
  \<open>src/brain/security/pii.py\<close>. The regular expressions are names; \<open>spans name text\<close> is what
  \<open>finditer\<close> of the pattern yields on the text, as pairs of start and end.
\<close>

section \<open>The detector\<close>

record pii_match =
  pm_pattern :: string
  pm_text :: string
  pm_start :: nat
  pm_end :: nat

type_synonym finder = "string \<Rightarrow> string \<Rightarrow> (nat \<times> nat) list"

definition pii_patterns :: "string list" where
  "pii_patterns =
     [''credit_card'', ''email'', ''phone_intl'', ''phone_us'', ''ssn_us'', ''iban'', ''nif_pt'']"

definition new_pii_detector :: "string list option \<Rightarrow> string list" where
  "new_pii_detector extra = (case extra of Some ps \<Rightarrow> pii_patterns @ ps | None \<Rightarrow> pii_patterns)"

definition pii_detect :: "finder \<Rightarrow> string list \<Rightarrow> string \<Rightarrow> pii_match list" where
  "pii_detect spans patterns text =
     concat (map (\<lambda>name. map (\<lambda>(a, b). \<lparr>pm_pattern = name, pm_text = drop a (take b text), pm_start = a, pm_end = b\<rparr>)
                           (spans name text)) patterns)"

definition has_pii :: "finder \<Rightarrow> string list \<Rightarrow> string \<Rightarrow> bool" where
  "has_pii spans patterns text \<longleftrightarrow> (\<exists>name \<in> set patterns. spans name text \<noteq> [])"

definition upper_char :: "char \<Rightarrow> char" where
  "upper_char c = (if CHR ''a'' \<le> c \<and> c \<le> CHR ''z'' then char_of (of_char c - 32 :: nat) else c)"

definition placeholder :: "pii_match \<Rightarrow> string" where
  "placeholder m = ''['' @ map upper_char (pm_pattern m) @ '']''"

definition replace_match :: "pii_match \<Rightarrow> string \<Rightarrow> string" where
  "replace_match m result = take (pm_start m) result @ placeholder m @ drop (pm_end m) result"

definition pii_mask :: "finder \<Rightarrow> string list \<Rightarrow> string \<Rightarrow> string" where
  "pii_mask spans patterns text =
     fold replace_match (sort_key (\<lambda>m. - int (pm_start m)) (pii_detect spans patterns text)) text"

section \<open>The intended result\<close>

text \<open>Copying the text from left to right with a placeholder in the place of each match.\<close>

fun masked_from :: "nat \<Rightarrow> string \<Rightarrow> pii_match list \<Rightarrow> string" where
  "masked_from pos text [] = drop pos text"
| "masked_from pos text (m # ms) =
     take (pm_start m - pos) (drop pos text) @ placeholder m @ masked_from (pm_end m) text ms"

text \<open>Matches from left to right that do not overlap, inside the text.\<close>

fun apart :: "nat \<Rightarrow> nat \<Rightarrow> pii_match list \<Rightarrow> bool" where
  "apart pos len [] \<longleftrightarrow> pos \<le> len"
| "apart pos len (m # ms) \<longleftrightarrow> pos \<le> pm_start m \<and> pm_start m < pm_end m \<and> apart (pm_end m) len ms"

lemma apart_le: "apart pos len ms \<Longrightarrow> pos \<le> len"
  by (induction ms arbitrary: pos) fastforce+

lemma replace_all: "apart pos (length text) ms \<Longrightarrow>
    foldr replace_match ms text = take pos text @ masked_from pos text ms"
proof (induction ms arbitrary: pos)
  case Nil
  then show ?case by simp
next
  case (Cons m ms)
  then have ap: "apart (pm_end m) (length text) ms" and le: "pos \<le> pm_start m" "pm_start m < pm_end m" by auto
  have len: "pm_end m \<le> length text" by (rule apart_le [OF ap])
  have "take (pm_start m) text = take pos text @ take (pm_start m - pos) (drop pos text)"
    using le(1) by (metis le_add_diff_inverse take_add)
  with Cons.IH [OF ap] le len show ?case by (simp add: replace_match_def min_def)
qed

lemma apart_sorted: "apart pos len ms \<Longrightarrow> sorted_wrt (\<lambda>m m'. pm_start m < pm_start m') ms
    \<and> (\<forall>m \<in> set ms. pos \<le> pm_start m)"
proof (induction ms arbitrary: pos)
  case Nil
  then show ?case by simp
next
  case (Cons m ms)
  then have "sorted_wrt (\<lambda>m m'. pm_start m < pm_start m') ms" "\<forall>m' \<in> set ms. pm_end m \<le> pm_start m'"
    by auto
  with Cons.prems show ?case by force
qed

lemma sort_apart:
  assumes "apart 0 len ms" and "set ms = set xs" and "distinct xs"
  shows "sort_key (\<lambda>m. - int (pm_start m)) xs = rev ms"
proof -
  from apart_sorted [OF assms(1)] have s: "sorted_wrt (\<lambda>m m'. pm_start m < pm_start m') ms" by simp
  then have "sorted_wrt (<) (map pm_start ms)" by (simp add: sorted_wrt_map)
  then have dist: "distinct (map pm_start ms)" by (simp add: strict_sorted_iff)
  have inj: "inj_on pm_start (set ms)" using dist by (simp add: distinct_map)
  have dxs: "distinct (map (\<lambda>m. - int (pm_start m)) xs)"
    using assms(2,3) inj by (auto simp: distinct_map inj_on_def)
  let ?k = "\<lambda>m. - int (pm_start m)"
  have "sorted_wrt (\<lambda>m m'. ?k m' \<le> ?k m) ms"
    by (rule sorted_wrt_mono_rel [OF _ s]) simp
  then have "sorted (map ?k (rev ms))" by (simp only: sorted_wrt_map sorted_wrt_rev)
  moreover have "distinct (map ?k (rev ms))" using dist by (auto simp: distinct_map inj_on_def rev_map [symmetric])
  moreover have "set (map ?k (rev ms)) = set (map ?k (sort_key ?k xs))" using assms(2) by auto
  ultimately have keys: "map ?k (rev ms) = map ?k (sort_key ?k xs)"
    using dxs by (intro sorted_distinct_set_unique) (simp_all add: distinct_map)
  have "inj_on ?k (set (rev ms) \<union> set (sort_key ?k xs))"
    using inj assms(2) by (auto simp: inj_on_def)
  from map_inj_on [OF keys this] show ?thesis by simp
qed

section \<open>Properties\<close>

text \<open>When the matches of all patterns do not overlap, masking copies the text with exactly the matches
replaced by their placeholders; and a text without matches is unchanged.\<close>

theorem mask_replaces_matches:
  assumes "apart 0 (length text) ms" and "set ms = set (pii_detect spans patterns text)"
    and "distinct (pii_detect spans patterns text)"
  shows "pii_mask spans patterns text = masked_from 0 text ms
    \<and> (\<not> has_pii spans patterns text \<longrightarrow> pii_mask spans patterns text = text)"
proof
  show "pii_mask spans patterns text = masked_from 0 text ms"
    using sort_apart [OF assms] replace_all [OF assms(1)] by (simp add: pii_mask_def foldr_conv_fold)
  show "\<not> has_pii spans patterns text \<longrightarrow> pii_mask spans patterns text = text"
    proof
    assume "\<not> has_pii spans patterns text"
    then have "pii_detect spans patterns text = []" by (auto simp: has_pii_def pii_detect_def)
    then show "pii_mask spans patterns text = text" by (simp add: pii_mask_def)
  qed
qed

theorem mask_replaces_matches_witness:
  "pii_mask (\<lambda>name text. if name = ''phone_us'' then [(3, 15)] else []) pii_patterns ''at 555-123-4567.''
     = ''at [PHONE_US].''"
proof -
  let ?spans = "\<lambda>name (text :: string). if name = ''phone_us'' then [(3, 15)] else ([] :: (nat \<times> nat) list)"
  let ?m = "\<lparr>pm_pattern = ''phone_us'', pm_text = ''555-123-4567'', pm_start = 3, pm_end = 15\<rparr>"
  have d: "pii_detect ?spans pii_patterns ''at 555-123-4567.'' = [?m]"
    by (simp add: pii_detect_def pii_patterns_def)
  have "pii_mask ?spans pii_patterns ''at 555-123-4567.'' = masked_from 0 ''at 555-123-4567.'' [?m]"
    using mask_replaces_matches [of "''at 555-123-4567.''" "[?m]" ?spans pii_patterns] d by simp
  then show ?thesis by (simp add: placeholder_def upper_char_def char_of_eq_iff)
qed

text \<open>C1. Overlapping matches break it: the end of the outer match is an index into the original text, but the
inner match has already been replaced, so text after the match is lost.\<close>

theorem mask_overlap_loses_text:
  "pii_mask (\<lambda>name text. if name = ''phone_us'' then [(3, 15)] else if name = ''phone_intl'' then [(0, 15)] else [])
     pii_patterns ''+1 555-123-4567 ok'' = ''[PHONE_INTL]k''"
  by (simp add: pii_mask_def pii_detect_def pii_patterns_def replace_match_def placeholder_def upper_char_def
      char_of_eq_iff)

end
