(* ===== verification/Silver.thy ===== *)
theory Silver
  imports StoreIO PlannerDigests Pii
begin

text \<open>
  \<open>src/brain/pipeline/silver.py\<close>: validating, deduplicating and normalising the raw records of the
  bronze layer. The environment holds what the layer takes from elsewhere: the PII matches, \<open>str\<close> of a
  JSON value that is not a string, SHA-256, and ISO texts. A project or section name that is not a
  string, and a container of another type than a list or dictionary, count as errors.
\<close>

record silver_env =
  se_spans :: finder
  se_patterns :: "string list"
  se_str :: "json \<Rightarrow> string"
  se_sha256hex :: "string \<Rightarrow> string"
  se_date_from_iso :: "string \<Rightarrow> date option"
  se_wall_from_iso :: "string \<Rightarrow> wall_time option"
  se_wall_iso :: "wall_time \<Rightarrow> string"

section \<open>Reading raw values\<close>

definition as_dict :: "json \<Rightarrow> jdict res" where
  "as_dict v = (case v of JObj d \<Rightarrow> Inr d | _ \<Rightarrow> Inl (OtherError ''AttributeError''))"

definition as_list :: "json \<Rightarrow> json list res" where
  "as_list v = (case v of JArr xs \<Rightarrow> Inr xs | _ \<Rightarrow> Inl (OtherError ''TypeError''))"

definition bronze_list :: "jdict \<Rightarrow> string \<Rightarrow> json list res" where
  "bronze_list data key =
     rbind (as_dict (dget data ''data'' (JObj []))) (\<lambda>d. as_list (dget d key (JArr [])))"

definition safe_int :: "json \<Rightarrow> int \<Rightarrow> int" where
  "safe_int v dflt =
     (case v of
        JInt i \<Rightarrow> i
      | JBool b \<Rightarrow> (if b then 1 else 0)
      | JReal x \<Rightarrow> (if x \<ge> 0 then \<lfloor>x\<rfloor> else \<lceil>x\<rceil>)
      | JStr s \<Rightarrow> (case py_int s of Some i \<Rightarrow> i | None \<Rightarrow> dflt)
      | _ \<Rightarrow> dflt)"

text \<open>Only \<open>ValueError\<close> is caught: slicing or parsing a value that is no text raises.\<close>

definition parse_date :: "silver_env \<Rightarrow> json \<Rightarrow> date option res" where
  "parse_date env v =
     (if \<not> jtruthy v then Inr None
      else case v of
             JStr s \<Rightarrow> Inr (se_date_from_iso env (take 10 s))
           | _ \<Rightarrow> Inl (OtherError ''TypeError''))"

definition parse_datetime :: "silver_env \<Rightarrow> json \<Rightarrow> wall_time option res" where
  "parse_datetime env v =
     (if \<not> jtruthy v then Inr None
      else case v of
             JStr s \<Rightarrow> Inr (se_wall_from_iso env s)
           | _ \<Rightarrow> Inl (OtherError ''TypeError''))"

definition parse_duration :: "json \<Rightarrow> int option res" where
  "parse_duration v =
     (case v of
        JNull \<Rightarrow> Inr None
      | JObj d \<Rightarrow>
          (case dget d ''amount'' JNull of
             JNull \<Rightarrow> Inr None
           | JStr s \<Rightarrow> rbind (int_of_text s) (\<lambda>i.
               Inr (Some (if dget d ''unit'' (JStr ''minute'') = JStr ''day'' then i * 1440 else i)))
           | JArr xs \<Rightarrow> Inl (OtherError ''TypeError'')
           | JObj e \<Rightarrow> Inl (OtherError ''TypeError'')
           | w \<Rightarrow> Inr (Some (if dget d ''unit'' (JStr ''minute'') = JStr ''day''
                              then safe_int w 0 * 1440 else safe_int w 0)))
      | JStr s \<Rightarrow> Inr (py_int s)
      | JArr xs \<Rightarrow> Inr None
      | w \<Rightarrow> Inr (Some (safe_int w 0)))"

section \<open>Tasks\<close>

text \<open>A dictionary key: numbers that are equal are one key; lists and dictionaries are no keys.\<close>

definition dict_key :: "json \<Rightarrow> json res" where
  "dict_key v =
     (case v of
        JBool b \<Rightarrow> Inr (JInt (if b then 1 else 0))
      | JReal x \<Rightarrow> Inr (if x = of_int \<lfloor>x\<rfloor> then JInt \<lfloor>x\<rfloor> else JReal x)
      | JArr xs \<Rightarrow> Inl (OtherError ''TypeError'')
      | JObj d \<Rightarrow> Inl (OtherError ''TypeError'')
      | w \<Rightarrow> Inr w)"

definition name_map :: "json list \<Rightarrow> (json \<times> json) list res" where
  "name_map raws =
     rfold (\<lambda>p m. rbind (as_dict p) (\<lambda>d.
              case map_of d ''id'' of
                None \<Rightarrow> Inl (KeyError ''id'')
              | Some i \<Rightarrow> rbind (dict_key i) (\<lambda>k. Inr (AList.update k (dget d ''name'' (JStr [])) m))))
       raws []"

definition name_lookup :: "(json \<times> json) list \<Rightarrow> jdict \<Rightarrow> string \<Rightarrow> string res" where
  "name_lookup m raw key =
     rbind (dict_key (dget raw key (JStr []))) (\<lambda>k.
       case map_of m k of
         None \<Rightarrow> Inr []
       | Some (JStr s) \<Rightarrow> Inr s
       | Some _ \<Rightarrow> Inl (OtherError ''TypeError''))"

definition str_get :: "silver_env \<Rightarrow> jdict \<Rightarrow> string \<Rightarrow> string" where
  "str_get env d key = json_text (se_str env) (dget d key (JStr []))"

text \<open>Records without the required fields, and records whose id was seen, are dropped.\<close>

definition task_valid :: "jdict \<Rightarrow> bool" where
  "task_valid d \<longleftrightarrow> has_key d ''id'' \<and> has_key d ''content''"

fun dedup :: "(jdict \<Rightarrow> bool) \<Rightarrow> (jdict \<Rightarrow> string) \<Rightarrow> json list \<Rightarrow> string set \<Rightarrow> jdict list res" where
  "dedup valid key [] seen = Inr []"
| "dedup valid key (raw # raws) seen =
     rbind (as_dict raw) (\<lambda>d.
       if \<not> valid d then dedup valid key raws seen
       else if key d \<in> seen then dedup valid key raws seen
       else rbind (dedup valid key raws (insert (key d) seen)) (\<lambda>ds. Inr (d # ds)))"

definition safe_labels :: "jdict \<Rightarrow> string list" where
  "safe_labels d =
     (case dget d ''labels'' (JArr []) of
        JArr ls \<Rightarrow> map (take 100) (concat (map (\<lambda>l. case l of JStr s \<Rightarrow> [s] | _ \<Rightarrow> []) (take 20 ls)))
      | _ \<Rightarrow> [])"

definition mask_pii :: "silver_env \<Rightarrow> string \<Rightarrow> string" where
  "mask_pii env text =
     (if has_pii (se_spans env) (se_patterns env) text
      then pii_mask (se_spans env) (se_patterns env) text else text)"

text \<open>The \<open>due\<close> dictionary, when there is one.\<close>

definition due_dict :: "jdict \<Rightarrow> jdict option res" where
  "due_dict d =
     (let due = dget d ''due'' JNull
      in if jtruthy due then rbind (as_dict due) (\<lambda>x. Inr (Some x)) else Inr None)"

definition normalize_task ::
    "silver_env \<Rightarrow> (json \<times> json) list \<Rightarrow> (json \<times> json) list \<Rightarrow> jdict \<Rightarrow> task res" where
  "normalize_task env projects sections d =
     rbind (name_lookup projects d ''project_id'') (\<lambda>project.
     rbind (name_lookup sections d ''section_id'') (\<lambda>sect.
     rbind (due_dict d) (\<lambda>due.
     rbind (case due of Some x \<Rightarrow> parse_date env (dget x ''date'' JNull) | None \<Rightarrow> Inr None) (\<lambda>due_date.
     rbind (case due of Some x \<Rightarrow> parse_datetime env (dget x ''datetime'' JNull) | None \<Rightarrow> Inr None) (\<lambda>due_datetime.
     rbind (parse_duration (dget d ''duration'' JNull)) (\<lambda>duration.
       Inr \<lparr>tk_id = str_get env d ''id'',
            tk_content = mask_pii env (take 2000 (str_get env d ''content'')),
            tk_description = mask_pii env (take 5000 (str_get env d ''description'')),
            tk_project_id = str_get env d ''project_id'', tk_project_name = project,
            tk_section_id = str_get env d ''section_id'', tk_section_name = sect,
            tk_priority = safe_int (dget d ''priority'' JNull) 1, tk_labels = safe_labels d,
            tk_due_date = due_date, tk_due_datetime = due_datetime,
            tk_due_has_time = (case due of Some x \<Rightarrow> jtruthy (dget x ''datetime'' JNull) | None \<Rightarrow> False),
            tk_duration_minutes = duration, tk_url = str_get env d ''url'',
            tk_is_recurring = (case due of Some x \<Rightarrow> jtruthy (dget x ''is_recurring'' (JBool False)) | None \<Rightarrow> False),
            tk_added_at = None,
            tk_parent_id = (if jtruthy (dget d ''parent_id'' JNull) then Some (str_get env d ''parent_id'') else None)\<rparr>))))))"

definition silver_tasks :: "silver_env \<Rightarrow> jdict \<Rightarrow> task list res" where
  "silver_tasks env data =
     rbind (bronze_list data ''tasks'') (\<lambda>raws.
     rbind (rbind (bronze_list data ''projects'') name_map) (\<lambda>projects.
     rbind (rbind (bronze_list data ''sections'') name_map) (\<lambda>sections.
     rbind (dedup task_valid (\<lambda>d. str_get env d ''id'') raws {}) (\<lambda>valid.
       rmap (normalize_task env projects sections) valid))))"

section \<open>Events and emails\<close>

definition bar_parts :: "silver_env \<Rightarrow> string list \<Rightarrow> jdict \<Rightarrow> string" where
  "bar_parts env keys d = take 16 (se_sha256hex env (py_join ''|'' (map (str_get env d) keys)))"

definition event_dedup_key :: "silver_env \<Rightarrow> jdict \<Rightarrow> string" where
  "event_dedup_key env d = bar_parts env [''summary'', ''start'', ''end''] d"

definition email_dedup_key :: "silver_env \<Rightarrow> jdict \<Rightarrow> string" where
  "email_dedup_key env d = bar_parts env [''subject'', ''sender'', ''sent_at''] d"

definition normalize_event :: "silver_env \<Rightarrow> jdict \<Rightarrow> calendar_event res" where
  "normalize_event env d =
     rbind (parse_datetime env (dget d ''start'' JNull)) (\<lambda>a.
     rbind (parse_datetime env (dget d ''end'' JNull)) (\<lambda>b.
       Inr \<lparr>ev_summary = mask_pii env (str_get env d ''summary''), ev_start = a, ev_end = b,
            ev_all_day = jtruthy (dget d ''all_day'' (JBool False))\<rparr>))"

definition normalize_email :: "silver_env \<Rightarrow> jdict \<Rightarrow> email_alert res" where
  "normalize_email env d =
     rbind (parse_datetime env (dget d ''sent_at'' JNull)) (\<lambda>t.
       Inr \<lparr>em_subject = mask_pii env (str_get env d ''subject''), em_sender = str_get env d ''sender'',
            em_sent_at = t\<rparr>)"

definition silver_events :: "silver_env \<Rightarrow> jdict \<Rightarrow> calendar_event list res" where
  "silver_events env data =
     rbind (bronze_list data ''events'') (\<lambda>raws.
     rbind (dedup (\<lambda>d. has_key d ''summary'') (event_dedup_key env) raws {}) (rmap (normalize_event env)))"

definition silver_emails :: "silver_env \<Rightarrow> jdict \<Rightarrow> email_alert list res" where
  "silver_emails env data =
     rbind (bronze_list data ''emails'') (\<lambda>raws.
     rbind (dedup (\<lambda>d. has_key d ''subject'' \<and> has_key d ''sender'') (email_dedup_key env) raws {})
       (rmap (normalize_email env)))"

section \<open>The stored output\<close>

definition opt_text :: "('a \<Rightarrow> string) \<Rightarrow> 'a option \<Rightarrow> json" where
  "opt_text f x = (case x of Some v \<Rightarrow> JStr (f v) | None \<Rightarrow> JNull)"

definition task_to_dict :: "silver_env \<Rightarrow> task \<Rightarrow> json" where
  "task_to_dict env t =
     JObj [(''id'', JStr (tk_id t)), (''content'', JStr (tk_content t)),
       (''description'', JStr (tk_description t)), (''project_id'', JStr (tk_project_id t)),
       (''project_name'', JStr (tk_project_name t)), (''section_id'', JStr (tk_section_id t)),
       (''section_name'', JStr (tk_section_name t)), (''priority'', JInt (tk_priority t)),
       (''labels'', JArr (map JStr (tk_labels t))), (''due_date'', opt_text date_iso (tk_due_date t)),
       (''due_datetime'', opt_text (se_wall_iso env) (tk_due_datetime t)),
       (''due_has_time'', JBool (tk_due_has_time t)),
       (''duration_minutes'', case tk_duration_minutes t of Some i \<Rightarrow> JInt i | None \<Rightarrow> JNull),
       (''url'', JStr (tk_url t)), (''is_recurring'', JBool (tk_is_recurring t)),
       (''parent_id'', opt_text id (tk_parent_id t))]"

definition event_to_dict :: "silver_env \<Rightarrow> calendar_event \<Rightarrow> json" where
  "event_to_dict env e =
     JObj [(''summary'', JStr (ev_summary e)), (''start'', opt_text (se_wall_iso env) (ev_start e)),
       (''end'', opt_text (se_wall_iso env) (ev_end e)), (''all_day'', JBool (ev_all_day e))]"

definition email_to_dict :: "silver_env \<Rightarrow> email_alert \<Rightarrow> json" where
  "email_to_dict env e =
     JObj [(''subject'', JStr (em_subject e)), (''sender'', JStr (em_sender e)),
       (''sent_at'', opt_text (se_wall_iso env) (em_sent_at e))]"

definition silver_doc :: "string \<Rightarrow> string \<Rightarrow> string \<Rightarrow> json list \<Rightarrow> json" where
  "silver_doc tid source now_iso records =
     JObj [(''tenant_id'', JStr tid), (''source'', JStr source), (''processed_at'', JStr now_iso),
       (''record_count'', JInt (int (length records))), (''records'', JArr records)]"

definition silver_path :: "string \<Rightarrow> string \<Rightarrow> string" where
  "silver_path tid rest = ''silver/'' @ tid @ ''/'' @ rest"

definition process_todoist :: "silver_env \<Rightarrow> 's backend \<Rightarrow> string \<Rightarrow> string \<Rightarrow> jdict \<Rightarrow> ('s, task list) io" where
  "process_todoist env be now_iso tid data =
     io_bind (io_res (silver_tasks env data)) (\<lambda>tasks.
     io_bind (io_write be (silver_path tid ''todoist/tasks.json'')
                (silver_doc tid ''todoist'' now_iso (map (task_to_dict env) tasks))) (\<lambda>_.
       io_ret tasks))"

definition process_calendar ::
    "silver_env \<Rightarrow> 's backend \<Rightarrow> string \<Rightarrow> string \<Rightarrow> jdict \<Rightarrow> ('s, calendar_event list) io" where
  "process_calendar env be now_iso tid data =
     io_bind (io_res (silver_events env data)) (\<lambda>events.
     io_bind (io_write be (silver_path tid ''calendar/events.json'')
                (silver_doc tid ''calendar'' now_iso (map (event_to_dict env) events))) (\<lambda>_.
       io_ret events))"

definition process_gmail ::
    "silver_env \<Rightarrow> 's backend \<Rightarrow> string \<Rightarrow> string \<Rightarrow> jdict \<Rightarrow> ('s, email_alert list) io" where
  "process_gmail env be now_iso tid data =
     io_bind (io_res (silver_emails env data)) (\<lambda>emails.
     io_bind (io_write be (silver_path tid ''gmail/emails.json'')
                (silver_doc tid ''gmail'' now_iso (map (email_to_dict env) emails))) (\<lambda>_.
       io_ret emails))"

section \<open>Lemmas\<close>

definition raw_dicts :: "json list \<Rightarrow> jdict list" where
  "raw_dicts raws = concat (map (\<lambda>r. case r of JObj d \<Rightarrow> [d] | _ \<Rightarrow> []) raws)"

lemma dedup_spec:
  "dedup valid key raws seen = Inr ds \<Longrightarrow>
   distinct (map key ds) \<and> set (map key ds) \<inter> seen = {}
   \<and> set (map key ds) = key ` {d \<in> set (raw_dicts raws). valid d} - seen
   \<and> subseq ds (filter valid (raw_dicts raws))"
proof (induction raws arbitrary: seen ds)
  case Nil
  then show ?case by (simp add: raw_dicts_def)
next
  case (Cons raw raws)
  from Cons.prems obtain d where d: "raw = JObj d" by (cases raw) (auto simp: as_dict_def)
  have rd: "raw_dicts (raw # raws) = d # raw_dicts raws" by (simp add: d raw_dicts_def)
  show ?case
  proof (cases "valid d \<and> key d \<notin> seen")
    case True
    with Cons.prems obtain ds' where rest: "dedup valid key raws (insert (key d) seen) = Inr ds'"
      and ds: "ds = d # ds'" by (auto simp: d as_dict_def)
    from Cons.IH [OF rest] True show ?thesis by (auto simp: ds rd)
  next
    case False
    with Cons.prems have rest: "dedup valid key raws seen = Inr ds" by (auto simp: d as_dict_def split: if_splits)
    from Cons.IH [OF rest] False show ?thesis by (auto simp: rd)
  qed
qed

lemma normalize_task_id: "normalize_task env ps ss d = Inr t \<Longrightarrow> tk_id t = str_get env d ''id''"
  by (auto simp: normalize_task_def)

lemma rmap_map: "rmap f xs = Inr ys \<Longrightarrow> (\<And>x y. f x = Inr y \<Longrightarrow> g y = h x) \<Longrightarrow> map g ys = map h xs"
  by (induction xs arbitrary: ys) auto

lemma safe_labels_bounds: "length (safe_labels d) \<le> 20 \<and> (\<forall>l \<in> set (safe_labels d). length l \<le> 100)"
proof -
  have len: "length (concat (map (\<lambda>l. case l of JStr s \<Rightarrow> [s] | _ \<Rightarrow> []) ls)) \<le> length ls" for ls
    by (induction ls) (auto split: json.splits)
  show ?thesis
  proof (cases "dget d ''labels'' (JArr [])")
    case (JArr ls)
    have "length (concat (map (\<lambda>l. case l of JStr s \<Rightarrow> [s] | _ \<Rightarrow> []) (take 20 ls))) \<le> 20"
      by (rule order_trans [OF len]) simp
    then show ?thesis by (auto simp: safe_labels_def JArr)
  qed (simp_all add: safe_labels_def)
qed

lemma normalize_task_bounds:
  "normalize_task env ps ss d = Inr t \<Longrightarrow>
   length (tk_labels t) \<le> 20 \<and> (\<forall>l \<in> set (tk_labels t). length l \<le> 100)
   \<and> tk_content t = mask_pii env (take 2000 (str_get env d ''content''))"
  using safe_labels_bounds [of d] by (auto simp: normalize_task_def)

section \<open>Properties\<close>


definition sample_silver :: silver_env where
  "sample_silver =
     \<lparr>se_spans = (\<lambda>_ _. []), se_patterns = pii_patterns, se_str = (\<lambda>_. ''None''), se_sha256hex = id,
      se_date_from_iso = (\<lambda>_. None), se_wall_from_iso = (\<lambda>_. None), se_wall_iso = (\<lambda>_. [])\<rparr>"


end
