(* ===== verification/Medallion.thy ===== *)
theory Medallion
  imports Silver TenantModels
begin

text \<open>
  The bronze and gold layers and the pipeline scheduler (\<open>src/brain/pipeline/bronze.py\<close>,
  \<open>gold.py\<close>, \<open>scheduler.py\<close>). The clock gives the reading at each call site of a run; \<open>str(exc)\<close> is
  the parameter \<open>pe_error_text\<close>. The stage executors catch every exception, so the handler around
  them in \<open>execute\<close> has nothing left to catch and is not modelled.
\<close>

record clock =
  ck_at :: "string \<Rightarrow> wall_time"
  ck_mono :: "string \<Rightarrow> real"
  ck_today :: date

record 's pipe_env =
  pe_be :: "'s backend"
  pe_silver :: silver_env
  pe_cf :: settings
  pe_error_text :: "py_error \<Rightarrow> string"

definition pe_iso :: "'s pipe_env \<Rightarrow> wall_time \<Rightarrow> string" where
  "pe_iso env t = se_wall_iso (pe_silver env) t"

section \<open>Bronze\<close>

definition stamp :: "wall_time \<Rightarrow> string" where
  "stamp t = wall_text ''%Y%m%dT%H%M%S'' t"

definition make_batch_id :: "wall_time \<Rightarrow> string \<Rightarrow> string \<Rightarrow> string" where
  "make_batch_id now tid source = source @ ''_'' @ tid @ ''_'' @ stamp now"

definition bronze_path :: "string \<Rightarrow> string \<Rightarrow> string \<Rightarrow> string" where
  "bronze_path tid source batch_id = py_join ''/'' [''bronze'', tid, source, batch_id @ ''.json'']"

definition ingest ::
    "'s pipe_env \<Rightarrow> wall_time \<Rightarrow> string \<Rightarrow> string \<Rightarrow> jdict \<Rightarrow> ('s, string) io" where
  "ingest env now tid source data =
     (let batch_id = make_batch_id now tid source
      in io_bind (io_write (pe_be env) (bronze_path tid source batch_id)
           (JObj [(''source'', JStr source), (''tenant_id'', JStr tid), (''ingested_at'', JStr (pe_iso env now)),
                  (''batch_id'', JStr batch_id), (''data'', JObj data)])) (\<lambda>_. io_ret batch_id))"

definition ingest_todoist ::
    "'s pipe_env \<Rightarrow> wall_time \<Rightarrow> string \<Rightarrow> json list \<Rightarrow> json list option \<Rightarrow> json list option \<Rightarrow> ('s, string) io" where
  "ingest_todoist env now tid raw_tasks raw_projects raw_sections =
     ingest env now tid ''todoist''
       [(''tasks'', JArr raw_tasks), (''projects'', JArr (case raw_projects of Some xs \<Rightarrow> xs | None \<Rightarrow> [])),
        (''sections'', JArr (case raw_sections of Some xs \<Rightarrow> xs | None \<Rightarrow> []))]"

definition ingest_calendar :: "'s pipe_env \<Rightarrow> wall_time \<Rightarrow> string \<Rightarrow> json list \<Rightarrow> ('s, string) io" where
  "ingest_calendar env now tid raw_events = ingest env now tid ''calendar'' [(''events'', JArr raw_events)]"

definition ingest_gmail :: "'s pipe_env \<Rightarrow> wall_time \<Rightarrow> string \<Rightarrow> json list \<Rightarrow> ('s, string) io" where
  "ingest_gmail env now tid raw_emails = ingest env now tid ''gmail'' [(''emails'', JArr raw_emails)]"

definition bronze_prefix :: "string \<Rightarrow> string \<Rightarrow> string" where
  "bronze_prefix tid source = ''bronze/'' @ tid @ ''/'' @ source @ ''/''"

definition read_latest :: "'s backend \<Rightarrow> string \<Rightarrow> string \<Rightarrow> ('s, json option) io" where
  "read_latest be tid source =
     io_bind (io_list be (bronze_prefix tid source)) (\<lambda>batches.
       if batches = [] then io_ret None else io_read be (last (sort batches)))"

definition list_batches :: "'s backend \<Rightarrow> string \<Rightarrow> string \<Rightarrow> ('s, string list) io" where
  "list_batches be tid source =
     io_bind (io_list be (bronze_prefix tid source)) (\<lambda>keys. io_ret (sort keys))"

section \<open>Gold\<close>

definition gold_record :: "scored_task \<Rightarrow> json" where
  "gold_record s =
     (let t = st_task s in
      JObj [(''task_id'', JStr (tk_id t)), (''content'', JStr (tk_content t)),
        (''project_name'', JStr (tk_project_name t)), (''section_name'', JStr (tk_section_name t)),
        (''priority'', JInt (tk_priority t)), (''score'', JInt (st_score s)),
        (''reasons'', JArr (map JStr (st_reasons s))), (''due_date'', opt_text date_iso (tk_due_date t)),
        (''labels'', JArr (map JStr (tk_labels t))),
        (''duration_minutes'', case tk_duration_minutes t of Some i \<Rightarrow> JInt i | None \<Rightarrow> JNull)])"

definition scored_path :: "string \<Rightarrow> string" where
  "scored_path tid = py_join ''/'' [''gold'', tid, ''scored_tasks.json'']"

definition digest_path :: "string \<Rightarrow> string" where
  "digest_path tid = py_join ''/'' [''gold'', tid, ''daily_digest.json'']"

definition scored_doc :: "string \<Rightarrow> string \<Rightarrow> bool \<Rightarrow> scored_task list \<Rightarrow> json" where
  "scored_doc tid now_iso weekend_mode scored =
     JObj [(''tenant_id'', JStr tid), (''layer'', JStr ''gold''), (''produced_at'', JStr now_iso),
       (''weekend_mode'', JBool weekend_mode), (''record_count'', JInt (int (length scored))),
       (''records'', JArr (map gold_record scored))]"

definition produce_scored_tasks ::
    "'s pipe_env \<Rightarrow> clock \<Rightarrow> string \<Rightarrow> task list \<Rightarrow> bool \<Rightarrow> ('s, scored_task list) io" where
  "produce_scored_tasks env ck tid tasks weekend_mode =
     (let scored = rank_tasks (ck_today ck) (pe_cf env) weekend_mode tasks
      in io_bind (io_write (pe_be env) (scored_path tid)
                    (scored_doc tid (pe_iso env (ck_at ck ''gold.scored'')) weekend_mode scored))
           (\<lambda>_. io_ret scored))"

definition produce_daily_digest ::
    "'s pipe_env \<Rightarrow> clock \<Rightarrow> string \<Rightarrow> task list \<Rightarrow> calendar_event list \<Rightarrow> email_alert list \<Rightarrow>
     ('s, digest_result) io" where
  "produce_daily_digest env ck tid tasks events emails =
     (let digest = build_daily_digest (ck_today ck) (pe_cf env) tasks events emails
      in io_bind (io_write (pe_be env) (digest_path tid)
           (JObj [(''tenant_id'', JStr tid), (''layer'', JStr ''gold''),
              (''produced_at'', JStr (pe_iso env (ck_at ck ''gold.digest''))), (''digest_type'', JStr ''daily''),
              (''subject'', JStr (dg_subject digest)), (''body_text'', JStr (dg_body_text digest))]))
           (\<lambda>_. io_ret digest))"

definition read_scored_tasks :: "'s backend \<Rightarrow> string \<Rightarrow> ('s, json option) io" where
  "read_scored_tasks be tid = io_read be (scored_path tid)"

definition read_daily_digest :: "'s backend \<Rightarrow> string \<Rightarrow> ('s, json option) io" where
  "read_daily_digest be tid = io_read be (digest_path tid)"

section \<open>The scheduler\<close>

datatype pipeline_stage = BRONZE | SILVER | GOLD

fun stage_value :: "pipeline_stage \<Rightarrow> string" where
  "stage_value BRONZE = ''bronze''"
| "stage_value SILVER = ''silver''"
| "stage_value GOLD = ''gold''"

datatype pipeline_status = PENDING | RUNNING | COMPLETED | FAILED

fun status_value :: "pipeline_status \<Rightarrow> string" where
  "status_value PENDING = ''pending''"
| "status_value RUNNING = ''running''"
| "status_value COMPLETED = ''completed''"
| "status_value FAILED = ''failed''"

record stage_result =
  sr_stage :: pipeline_stage
  sr_status :: pipeline_status
  sr_started_at :: wall_time
  sr_completed_at :: wall_time
  sr_record_count :: nat
  sr_error :: "string option"
  sr_duration_ms :: int

record pipeline_run =
  pr_run_id :: string
  pr_tenant_id :: string
  pr_status :: pipeline_status
  pr_started_at :: wall_time
  pr_completed_at :: wall_time
  pr_stages :: "stage_result list"
  pr_scored_tasks :: "scored_task list"

definition real_trunc :: "real \<Rightarrow> int" where
  "real_trunc x = (if x \<ge> 0 then \<lfloor>x\<rfloor> else \<lceil>x\<rceil>)"

text \<open>The result of a stage: completed with a number of records, or failed with the error's text.\<close>

definition stage_result_of ::
    "'s pipe_env \<Rightarrow> clock \<Rightarrow> pipeline_stage \<Rightarrow> nat res \<Rightarrow> stage_result" where
  "stage_result_of env ck stage outcome =
     (let name = stage_value stage in
      \<lparr>sr_stage = stage, sr_status = (case outcome of Inr _ \<Rightarrow> COMPLETED | Inl _ \<Rightarrow> FAILED),
       sr_started_at = ck_at ck (name @ ''.start''), sr_completed_at = ck_at ck (name @ ''.end''),
       sr_record_count = (case outcome of Inr n \<Rightarrow> n | Inl _ \<Rightarrow> 0),
       sr_error = (case outcome of Inr _ \<Rightarrow> None | Inl e \<Rightarrow> Some (pe_error_text env e)),
       sr_duration_ms = real_trunc ((ck_mono ck (name @ ''.end'') - ck_mono ck (name @ ''.start'')) * 1000)\<rparr>)"

text \<open>\<open>try: m except Exception\<close> as a value.\<close>

definition io_try :: "('s, 'a) io \<Rightarrow> ('s, 'a res) io" where
  "io_try m = (\<lambda>st. case m st of (r, st') \<Rightarrow> (Inr r, st'))"

definition execute_bronze ::
    "'s pipe_env \<Rightarrow> clock \<Rightarrow> string \<Rightarrow> json list \<Rightarrow> json list option \<Rightarrow> json list option \<Rightarrow> json list \<Rightarrow>
     json list \<Rightarrow> ('s, stage_result) io" where
  "execute_bronze env ck tid tasks projects sections events emails =
     io_bind (io_try
       (io_bind (if tasks \<noteq> []
                 then io_bind (ingest_todoist env (ck_at ck ''ingest.todoist'') tid tasks projects sections)
                        (\<lambda>_. io_ret (length tasks))
                 else io_ret 0) (\<lambda>n1.
        io_bind (if events \<noteq> []
                 then io_bind (ingest_calendar env (ck_at ck ''ingest.calendar'') tid events)
                        (\<lambda>_. io_ret (n1 + length events))
                 else io_ret n1) (\<lambda>n2.
        if emails \<noteq> []
        then io_bind (ingest_gmail env (ck_at ck ''ingest.gmail'') tid emails)
               (\<lambda>_. io_ret (n2 + length emails))
        else io_ret n2)))) (\<lambda>r. io_ret (stage_result_of env ck BRONZE r))"

text \<open>Reading the latest batch of a source and processing it, when there is one.\<close>

definition silver_step ::
    "'s backend \<Rightarrow> string \<Rightarrow> string \<Rightarrow> (jdict \<Rightarrow> ('s, 'a list) io) \<Rightarrow> ('s, 'a list) io" where
  "silver_step be tid source process =
     io_bind (read_latest be tid source) (\<lambda>batch.
       case batch of
         None \<Rightarrow> io_ret []
       | Some v \<Rightarrow> if jtruthy v then io_bind (io_res (as_dict v)) process else io_ret [])"

definition execute_silver ::
    "'s pipe_env \<Rightarrow> clock \<Rightarrow> string \<Rightarrow>
     ('s, stage_result \<times> task list \<times> calendar_event list \<times> email_alert list) io" where
  "execute_silver env ck tid =
     (let be = pe_be env; se = pe_silver env; failed = (\<lambda>e. stage_result_of env ck SILVER (Inl e)) in
      io_bind (io_try (silver_step be tid ''todoist''
                 (process_todoist se be (pe_iso env (ck_at ck ''silver.todoist'')) tid))) (\<lambda>r1.
      case r1 of Inl e \<Rightarrow> io_ret (failed e, [], [], []) | Inr tasks \<Rightarrow>
      io_bind (io_try (silver_step be tid ''calendar''
                 (process_calendar se be (pe_iso env (ck_at ck ''silver.calendar'')) tid))) (\<lambda>r2.
      case r2 of Inl e \<Rightarrow> io_ret (failed e, tasks, [], []) | Inr events \<Rightarrow>
      io_bind (io_try (silver_step be tid ''gmail''
                 (process_gmail se be (pe_iso env (ck_at ck ''silver.gmail'')) tid))) (\<lambda>r3.
      case r3 of Inl e \<Rightarrow> io_ret (failed e, tasks, events, []) | Inr emails \<Rightarrow>
      io_ret (stage_result_of env ck SILVER (Inr (length tasks + length events + length emails)),
              tasks, events, emails)))))"

definition execute_gold ::
    "'s pipe_env \<Rightarrow> clock \<Rightarrow> string \<Rightarrow> task list \<Rightarrow> calendar_event list \<Rightarrow> email_alert list \<Rightarrow> bool \<Rightarrow>
     ('s, stage_result \<times> scored_task list) io" where
  "execute_gold env ck tid tasks events emails weekend_mode =
     io_bind (io_try (produce_scored_tasks env ck tid tasks weekend_mode)) (\<lambda>r1.
     case r1 of Inl e \<Rightarrow> io_ret (stage_result_of env ck GOLD (Inl e), []) | Inr scored \<Rightarrow>
     io_bind (io_try (produce_daily_digest env ck tid tasks events emails)) (\<lambda>r2.
       io_ret (stage_result_of env ck GOLD (case r2 of Inl e \<Rightarrow> Inl e | Inr _ \<Rightarrow> Inr (length scored)), scored)))"

definition make_run_id :: "wall_time \<Rightarrow> string \<Rightarrow> string" where
  "make_run_id now tid = ''run_'' @ tid @ ''_'' @ stamp now"

definition run_duration_ms :: "pipeline_run \<Rightarrow> int" where
  "run_duration_ms run = trunc_div (wt_micros (pr_completed_at run) - wt_micros (pr_started_at run)) 1000"

definition run_path :: "pipeline_run \<Rightarrow> string" where
  "run_path run = py_join ''/'' [''runs'', pr_tenant_id run, pr_run_id run @ ''.json'']"

definition run_doc :: "'s pipe_env \<Rightarrow> pipeline_run \<Rightarrow> json" where
  "run_doc env run =
     JObj [(''run_id'', JStr (pr_run_id run)), (''tenant_id'', JStr (pr_tenant_id run)),
       (''status'', JStr (status_value (pr_status run))),
       (''started_at'', JStr (pe_iso env (pr_started_at run))),
       (''completed_at'', JStr (pe_iso env (pr_completed_at run))),
       (''duration_ms'', JInt (run_duration_ms run)),
       (''stages'', JArr (map (\<lambda>s. JObj [(''stage'', JStr (stage_value (sr_stage s))),
            (''status'', JStr (status_value (sr_status s))),
            (''record_count'', JInt (int (sr_record_count s))), (''duration_ms'', JInt (sr_duration_ms s)),
            (''error'', opt_text id (sr_error s))]) (pr_stages run)))]"

definition persist_run :: "'s pipe_env \<Rightarrow> pipeline_run \<Rightarrow> ('s, unit) io" where
  "persist_run env run = io_write (pe_be env) (run_path run) (run_doc env run)"

text \<open>The stages one after the other, stopping after the first that failed.\<close>

definition run_stages ::
    "'s pipe_env \<Rightarrow> clock \<Rightarrow> string \<Rightarrow> json list \<Rightarrow> json list option \<Rightarrow> json list option \<Rightarrow> json list \<Rightarrow>
     json list \<Rightarrow> bool \<Rightarrow> ('s, stage_result list \<times> scored_task list) io" where
  "run_stages env ck tid tasks projects sections events emails weekend_mode =
     io_bind (execute_bronze env ck tid tasks projects sections events emails) (\<lambda>b.
       if sr_status b = FAILED then io_ret ([b], []) else
     io_bind (execute_silver env ck tid) (\<lambda>(s, ts, evs, ems).
       if sr_status s = FAILED then io_ret ([b, s], []) else
     io_bind (execute_gold env ck tid ts evs ems weekend_mode) (\<lambda>(g, scored). io_ret ([b, s, g], scored))))"

definition execute ::
    "'s pipe_env \<Rightarrow> clock \<Rightarrow> string \<Rightarrow> json list \<Rightarrow> json list option \<Rightarrow> json list option \<Rightarrow> json list \<Rightarrow>
     json list \<Rightarrow> bool \<Rightarrow> ('s, pipeline_run) io" where
  "execute env ck tid tasks projects sections events emails weekend_mode =
     io_bind (run_stages env ck tid tasks projects sections events emails weekend_mode) (\<lambda>(stages, scored).
       let run = \<lparr>pr_run_id = make_run_id (ck_at ck ''run.id'') tid, pr_tenant_id = tid,
                  pr_status = (if sr_status (last stages) = FAILED then FAILED else COMPLETED),
                  pr_started_at = ck_at ck ''run.start'', pr_completed_at = ck_at ck ''run.end'',
                  pr_stages = stages, pr_scored_tasks = scored\<rparr>
       in io_bind (persist_run env run) (\<lambda>_. io_ret run))"

section \<open>Keys of a tenant's layers\<close>

text \<open>The tenant whose partition a key is in: layer, tenant, and something more.\<close>

definition key_tenant :: "string \<Rightarrow> string option" where
  "key_tenant key = (case py_split (CHR ''/'') key of l # t # r # rest \<Rightarrow> Some t | _ \<Rightarrow> None)"

definition part_ok :: "string \<Rightarrow> bool" where
  "part_ok w \<longleftrightarrow> w \<notin> {[], ''.'', ''..''} \<and> CHR ''/'' \<notin> set w \<and> CHR 0x5C \<notin> set w"

lemma split_join: "ws \<noteq> [] \<Longrightarrow> \<forall>w \<in> set ws. CHR ''/'' \<notin> set w \<Longrightarrow> py_split (CHR ''/'') (py_join ''/'' ws) = ws"
proof (induction ws rule: induct_list012)
  case (3 w w' ws)
  then show ?case using py_split_sep [of "CHR ''/''" w "py_join ''/'' (w' # ws)"] by simp
qed (simp_all add: py_split_no_sep)

lemma join_canonical:
  assumes "ws \<noteq> []" and "\<forall>w \<in> set ws. part_ok w" and "suffix ''.json'' (last ws)"
  shows "canonical_key (py_join ''/'' ws)"
proof -
  have sp: "py_split (CHR ''/'') (py_join ''/'' ws) = ws"
    using assms(1,2) by (intro split_join) (auto simp: part_ok_def)
  have "set (py_join ''/'' ws) \<subseteq> {CHR ''/''} \<union> \<Union> (set ` set ws)"
    using set_py_join [of "''/''" ws] by simp
  then have "CHR 0x5C \<notin> set (py_join ''/'' ws)" using assms(2) by (auto simp: part_ok_def)
  with sp assms show ?thesis by (auto simp: canonical_key_def part_ok_def)
qed

lemma part_json: "CHR ''/'' \<notin> set w \<Longrightarrow> CHR 0x5C \<notin> set w \<Longrightarrow> part_ok (w @ ''.json'')"
  by (auto simp: part_ok_def dest: arg_cong [where f = length])

lemma int_text_chars: "c \<in> set (int_text i) \<Longrightarrow> c \<noteq> CHR ''/'' \<and> c \<noteq> CHR 0x5C"
  using nat_text_digits [of c "nat i"] nat_text_digits [of c "nat (- i)"]
  by (auto simp: int_text_def split: if_splits)

lemma stamp_chars: "CHR ''/'' \<notin> set (stamp t)" "CHR 0x5C \<notin> set (stamp t)"
proof -
  have p: "c \<in> set (padded w i) \<Longrightarrow> c \<noteq> CHR ''/'' \<and> c \<noteq> CHR 0x5C" for c w i
    by (auto simp: padded_def Let_def dest: int_text_chars)
  show "CHR ''/'' \<notin> set (stamp t)" "CHR 0x5C \<notin> set (stamp t)"
    by (auto simp: stamp_def wall_text_def Let_def split: prod.splits dest: p)
qed

lemma tenant_key:
  assumes "part_ok tid" and "part_ok l" and "\<forall>w \<in> set ws. part_ok w" and "ws \<noteq> []" and "suffix ''.json'' (last ws)"
  shows "canonical_key (py_join ''/'' (l # tid # ws))" and "key_tenant (py_join ''/'' (l # tid # ws)) = Some tid"
proof -
  show "canonical_key (py_join ''/'' (l # tid # ws))" using assms by (intro join_canonical) auto
  have "py_split (CHR ''/'') (py_join ''/'' (l # tid # ws)) = l # tid # ws"
    using assms by (intro split_join) (auto simp: part_ok_def)
  then show "key_tenant (py_join ''/'' (l # tid # ws)) = Some tid"
    using assms(4) by (cases ws) (simp_all add: key_tenant_def)
qed

end
