(* ===== verification/Pipeline.thy ===== *)
theory Pipeline
  imports Medallion TenantGuarantees
begin

text \<open>
  What a pipeline run guarantees: it writes only below the tenant's own partitions, records its stages
  and its outcome, and leaves the ranking in the gold layer when it completes.
\<close>

section \<open>The keys a run writes\<close>

lemma io_keeps_try [intro]: "io_keeps P m \<Longrightarrow> io_keeps P (io_try m)"
  unfolding io_keeps_def io_try_def by (auto split: prod.splits)

lemma io_keeps_bind_prod: "io_keeps P m \<Longrightarrow> (\<And>x y. io_keeps P (f x y)) \<Longrightarrow> io_keeps P (io_bind m (\<lambda>(x, y). f x y))"
  by (rule io_keeps_bind) auto

text \<open>Whatever the writes below the tenant's partitions keep, the run keeps.\<close>

definition tenant_writes_keep :: "('s \<Rightarrow> bool) \<Rightarrow> 's backend \<Rightarrow> string \<Rightarrow> bool" where
  "tenant_writes_keep P be tid \<longleftrightarrow>
     (\<forall>key d. canonical_key key \<and> key_tenant key = Some tid \<longrightarrow> io_keeps P (io_write be key (JObj d)))"

lemma write_keep:
  assumes "tenant_writes_keep P be tid" and "part_ok tid" and "part_ok l" and "\<forall>w \<in> set ws. part_ok w"
    and "ws \<noteq> []" and "suffix ''.json'' (last ws)" and "k = py_join ''/'' (l # tid # ws)"
  shows "io_keeps P (io_write be k (JObj d))"
  using assms(1) tenant_key [OF assms(2-6)] unfolding assms(7) tenant_writes_keep_def by blast

lemma layer_parts: "part_ok ''bronze''" "part_ok ''silver''" "part_ok ''gold''" "part_ok ''runs''"
    "part_ok ''todoist''" "part_ok ''calendar''" "part_ok ''gmail''" "part_ok ''tasks.json''"
    "part_ok ''events.json''" "part_ok ''emails.json''" "part_ok ''scored_tasks.json''"
    "part_ok ''daily_digest.json''"
  by (simp_all add: part_ok_def)

lemma suffix_json: "suffix ''.json'' (w @ ''.json'')"
  by (simp add: suffix_def)

lemma ingest_keeps:
  assumes "tenant_writes_keep P (pe_be env) tid" and "part_ok tid" and "source \<in> {''todoist'', ''calendar'', ''gmail''}"
  shows "io_keeps P (ingest env now tid source d)"
proof -
  let ?b = "make_batch_id now tid source @ ''.json''"
  have "part_ok ?b"
    using assms(2,3) stamp_chars [of now] by (intro part_json) (auto simp: make_batch_id_def part_ok_def)
  then have "\<And>x. io_keeps P (io_write (pe_be env) (bronze_path tid source (make_batch_id now tid source)) (JObj x))"
    using assms(3) layer_parts suffix_json
    by (intro write_keep [OF assms(1,2) layer_parts(1), of "[source, ?b]"]) (auto simp: bronze_path_def)
  then show ?thesis unfolding ingest_def Let_def by (intro io_keeps_bind io_keeps_ret)
qed

lemma bronze_keeps:
  assumes "tenant_writes_keep P (pe_be env) tid" and "part_ok tid"
  shows "io_keeps P (execute_bronze env ck tid ts ps ss es ms)"
proof -
  have i: "io_keeps P (ingest_todoist env a tid x y z)" "io_keeps P (ingest_calendar env a tid x)"
      "io_keeps P (ingest_gmail env a tid x)" for a x y z
    unfolding ingest_todoist_def ingest_calendar_def ingest_gmail_def
    using ingest_keeps [OF assms] by blast+
  have r: "io_keeps P (io_bind m (\<lambda>_. io_ret v))" if "io_keeps P m" for m :: "('a, string) io" and v :: nat
    by (intro io_keeps_bind io_keeps_ret that)
  show ?thesis
    unfolding execute_bronze_def
    by (intro io_keeps_bind io_keeps_try io_keeps_ret) (simp_all add: io_keeps_ret r i)
qed

lemma read_latest_keeps: "io_keeps P (read_latest be tid source)"
  unfolding read_latest_def by (intro io_keeps_bind) (simp_all add: io_keeps_ret io_keeps_read io_keeps_list)

lemma silver_step_keeps: "(\<And>d. io_keeps P (process d)) \<Longrightarrow> io_keeps P (silver_step be tid source process)"
proof -
  assume p: "\<And>d. io_keeps P (process d)"
  have "io_keeps P (case batch of None \<Rightarrow> io_ret []
      | Some v \<Rightarrow> if jtruthy v then io_bind (io_res (as_dict v)) process else io_ret [])" for batch
    by (auto intro!: io_keeps_bind io_keeps_res io_keeps_ret p split: option.split)
  then show ?thesis unfolding silver_step_def by (intro io_keeps_bind read_latest_keeps)
qed

lemma process_keeps:
  assumes "tenant_writes_keep P be tid" and "part_ok tid"
  shows "io_keeps P (process_todoist se be now_iso tid d)" and "io_keeps P (process_calendar se be now_iso tid d)"
    and "io_keeps P (process_gmail se be now_iso tid d)"
proof -
  have w: "io_keeps P (io_write be (silver_path tid (source @ ''/'' @ fname)) (silver_doc tid source' i rs))"
    if "part_ok source" "part_ok fname" "suffix ''.json'' fname" for source source' fname i rs
    unfolding silver_doc_def
    by (rule write_keep [OF assms layer_parts(2), of "[source, fname]"]) (use that in \<open>simp_all add: silver_path_def\<close>)
  show "io_keeps P (process_todoist se be now_iso tid d)"
    unfolding process_todoist_def
    using w [of "''todoist''" "''tasks.json''"] layer_parts
    by (intro io_keeps_bind io_keeps_ret io_keeps_res) (simp_all add: suffix_def)
  show "io_keeps P (process_calendar se be now_iso tid d)"
    unfolding process_calendar_def
    using w [of "''calendar''" "''events.json''"] layer_parts
    by (intro io_keeps_bind io_keeps_ret io_keeps_res) (simp_all add: suffix_def)
  show "io_keeps P (process_gmail se be now_iso tid d)"
    unfolding process_gmail_def
    using w [of "''gmail''" "''emails.json''"] layer_parts
    by (intro io_keeps_bind io_keeps_ret io_keeps_res) (simp_all add: suffix_def)
qed

lemma silver_keeps:
  assumes "tenant_writes_keep P (pe_be env) tid" and "part_ok tid"
  shows "io_keeps P (execute_silver env ck tid)"
  unfolding execute_silver_def Let_def
  by (intro io_keeps_bind io_keeps_try silver_step_keeps process_keeps assms)
    (auto intro!: io_keeps_bind io_keeps_try silver_step_keeps process_keeps assms io_keeps_ret
      split: sum.splits)

lemma gold_keeps:
  assumes "tenant_writes_keep P (pe_be env) tid" and "part_ok tid"
  shows "io_keeps P (execute_gold env ck tid ts es ms w)"
proof -
  have g: "io_keeps P (io_write (pe_be env) (py_join ''/'' [''gold'', tid, fname]) (JObj d))"
    if "part_ok fname" "suffix ''.json'' fname" for fname d
    by (rule write_keep [OF assms layer_parts(3), of "[fname]"]) (use that in simp_all)
  have "io_keeps P (produce_scored_tasks env ck tid ts w)" "io_keeps P (produce_daily_digest env ck tid ts es ms)"
    unfolding produce_scored_tasks_def produce_daily_digest_def Let_def scored_doc_def scored_path_def digest_path_def
    using layer_parts by (intro io_keeps_bind io_keeps_ret g; simp add: suffix_def)+
  then show ?thesis
    unfolding execute_gold_def by (auto intro!: io_keeps_bind io_keeps_try io_keeps_ret split: sum.splits)
qed

lemma persist_keeps:
  assumes "tenant_writes_keep P (pe_be env) tid" and "part_ok tid" and "pr_tenant_id run = tid"
    and "pr_run_id run = make_run_id t tid"
  shows "io_keeps P (persist_run env run)"
proof -
  let ?f = "make_run_id t tid @ ''.json''"
  have "part_ok ?f"
    using assms(2) stamp_chars [of t] by (intro part_json) (auto simp: make_run_id_def part_ok_def)
  then show ?thesis
    unfolding persist_run_def run_doc_def
    using suffix_json
    by (intro write_keep [OF assms(1,2) layer_parts(4), of "[?f]"]) (simp_all add: run_path_def assms(3,4))
qed

lemma execute_keeps:
  assumes "tenant_writes_keep P (pe_be env) tid" and "part_ok tid"
  shows "io_keeps P (execute env ck tid ts ps ss es ms w)"
proof -
  have "io_keeps P (run_stages env ck tid ts ps ss es ms w)"
    unfolding run_stages_def
    by (auto intro!: io_keeps_bind io_keeps_ret bronze_keeps silver_keeps gold_keeps assms)
  then show ?thesis
    unfolding execute_def Let_def
    by (intro io_keeps_bind_prod io_keeps_bind io_keeps_ret) (auto intro: persist_keeps [OF assms])
qed

section \<open>What a run leaves behind\<close>

context storage_backend
begin

lemma write_keeps:
  assumes "key_ok p" and "doc_ok v" and "key_ok k" and "k \<noteq> p"
  shows "io_keeps (\<lambda>s. good s \<and> be_read_json be k s = x) (io_write be p v)"
  unfolding io_keeps_def
proof (intro allI impI)
  fix n s r n' s'
  assume P: "good s \<and> be_read_json be k s = x" and run: "io_write be p v (n, s) = (r, n', s')"
  then have w: "be_write_json be p v s = (r, s')" by (auto simp: io_write_def split: prod.splits)
  have "good s'"
  proof (cases r)
    case (Inl e)
    with w P assms write_error show ?thesis by blast
  next
    case (Inr u)
    with w P assms write_good show ?thesis by (cases u) blast
  qed
  with P write_frame [OF _ assms(1,2) w assms(3,4)] show "good s' \<and> be_read_json be k s' = x" by simp
qed

lemma run_keeps_others:
  assumes "\<And>k. canonical_key k \<Longrightarrow> key_ok k" and "\<And>d. doc_ok (JObj d)"
    and "canonical_key k" and "key_tenant k \<noteq> Some tid" and "pe_be env = be" and "part_ok tid"
  shows "io_keeps (\<lambda>s. good s \<and> be_read_json be k s = x) (execute env ck tid ts ps ss es ms w)"
proof (rule execute_keeps [OF _ assms(6)])
  show "tenant_writes_keep (\<lambda>s. good s \<and> be_read_json be k s = x) (pe_be env) tid"
    unfolding tenant_writes_keep_def assms(5)
    using assms(1-4) by (auto intro!: write_keeps)
qed

end

lemma stage_status: "sr_status (stage_result_of env ck stage r) = (case r of Inr _ \<Rightarrow> COMPLETED | Inl _ \<Rightarrow> FAILED)"
    "sr_stage (stage_result_of env ck stage r) = stage"
  by (simp_all add: stage_result_of_def Let_def)

text \<open>A stage executor never raises, and its result is that of its stage.\<close>

lemma execute_bronze_total:
  "\<exists>r st'. execute_bronze env ck tid ts ps ss es ms st = (Inr (stage_result_of env ck BRONZE r), st')"
  by (auto simp: execute_bronze_def io_bind_run io_try_def split: prod.splits)

lemma execute_silver_total:
  "\<exists>r x st'. execute_silver env ck tid st = (Inr (stage_result_of env ck SILVER r, x), st')"
  by (auto simp: execute_silver_def Let_def io_bind_run io_try_def split: prod.splits sum.splits)

lemma execute_gold_total:
  "\<exists>r x st'. execute_gold env ck tid ts es ms w st = (Inr (stage_result_of env ck GOLD r, x), st')"
  by (auto simp: execute_gold_def io_bind_run io_try_def split: prod.splits sum.splits)

definition stages_ok :: "stage_result list \<Rightarrow> bool" where
  "stages_ok stages \<longleftrightarrow>
     stages \<noteq> [] \<and> prefix (map sr_stage stages) [BRONZE, SILVER, GOLD]
     \<and> (\<forall>s \<in> set (butlast stages). sr_status s = COMPLETED)
     \<and> sr_status (last stages) \<in> {COMPLETED, FAILED}
     \<and> (sr_status (last stages) = COMPLETED \<longrightarrow> length stages = 3)"

lemma run_stages_total:
  "\<exists>stages scored st'. run_stages env ck tid ts ps ss es ms w st = (Inr (stages, scored), st') \<and> stages_ok stages"
proof -
  obtain rb st1 where b: "execute_bronze env ck tid ts ps ss es ms st = (Inr (stage_result_of env ck BRONZE rb), st1)"
    using execute_bronze_total by blast
  obtain rs tasks events emails st2 where s: "execute_silver env ck tid st1 =
      (Inr (stage_result_of env ck SILVER rs, tasks, events, emails), st2)"
    using execute_silver_total [of env ck tid st1] by (metis prod_cases3)
  obtain rg scored st3 where g: "execute_gold env ck tid tasks events emails w st2 =
      (Inr (stage_result_of env ck GOLD rg, scored), st3)"
    using execute_gold_total by blast
  show ?thesis
    using b s g
    by (cases rb; cases rs; cases rg)
      (simp_all add: run_stages_def io_bind_run stage_status stages_ok_def)
qed

text \<open>A run raises only when its record cannot be written.\<close>

lemma execute_result:
  assumes "execute env ck tid ts ps ss es ms w st = (r, st')"
  shows "\<exists>run st1. stages_ok (pr_stages run) \<and> pr_tenant_id run = tid
      \<and> pr_run_id run = make_run_id (ck_at ck ''run.id'') tid
      \<and> pr_status run = sr_status (last (pr_stages run))
      \<and> persist_run env run st1 = (map_sum id (\<lambda>_. ()) r, st') \<and> (r = Inr run \<or> (\<exists>e. r = Inl e))"
proof -
  obtain stages scored st1 where rs: "run_stages env ck tid ts ps ss es ms w st = (Inr (stages, scored), st1)"
    and ok: "stages_ok stages" using run_stages_total by blast
  define run where "run = \<lparr>pr_run_id = make_run_id (ck_at ck ''run.id'') tid, pr_tenant_id = tid,
      pr_status = (if sr_status (last stages) = FAILED then FAILED else COMPLETED),
      pr_started_at = ck_at ck ''run.start'', pr_completed_at = ck_at ck ''run.end'',
      pr_stages = stages, pr_scored_tasks = scored\<rparr>"
  have run: "io_bind (persist_run env run) (\<lambda>_. io_ret run) st1 = (r, st')"
    using assms by (simp add: execute_def io_bind_run rs Let_def run_def)
  obtain p st2 where p: "persist_run env run st1 = (p, st2)" by (cases "persist_run env run st1")
  have "st2 = st' \<and> map_sum id (\<lambda>_. ()) r = p \<and> (r = Inr run \<or> (\<exists>e. r = Inl e))"
  proof (cases p)
    case (Inl e)
    from run have "r = Inl e" "st' = st2" unfolding io_bind_run p Inl by simp_all
    with Inl show ?thesis by simp
  next
    case (Inr u)
    from run have "r = Inr run" "st' = st2" unfolding io_bind_run p Inr by simp_all
    with Inr show ?thesis by simp
  qed
  moreover have "stages_ok (pr_stages run)" "pr_tenant_id run = tid"
    "pr_run_id run = make_run_id (ck_at ck ''run.id'') tid" "pr_status run = sr_status (last (pr_stages run))"
    using ok by (auto simp: run_def stages_ok_def)
  ultimately show ?thesis using p by metis
qed

lemma gold_keys: "canonical_key (scored_path tid)" "canonical_key (digest_path tid)" if "part_ok tid"
  unfolding scored_path_def digest_path_def
  by (rule join_canonical; simp add: suffix_def that layer_parts)+

lemma gold_paths_differ: "scored_path tid \<noteq> digest_path tid" "scored_path tid \<noteq> run_path run"
  by (simp_all add: scored_path_def digest_path_def run_path_def)

lemma run_key: "part_ok (pr_tenant_id run) \<Longrightarrow> pr_run_id run = make_run_id t (pr_tenant_id run) \<Longrightarrow>
    canonical_key (run_path run)"
proof -
  assume a: "part_ok (pr_tenant_id run)" "pr_run_id run = make_run_id t (pr_tenant_id run)"
  then have "part_ok (pr_run_id run @ ''.json'')"
    using stamp_chars [of t] by (intro part_json) (auto simp: make_run_id_def part_ok_def)
  with a layer_parts suffix_json show "canonical_key (run_path run)"
    unfolding run_path_def by (intro join_canonical) auto
qed

lemma io_keepsD: "io_keeps P m \<Longrightarrow> P s \<Longrightarrow> m (n, s) = (r, n', s') \<Longrightarrow> P s'"
  unfolding io_keeps_def by blast

text \<open>The gold stage, when it completes, leaves the ranking under the tenant's key.\<close>

lemma gold_completed:
  assumes "pe_be env = local_backend parse render base" and "part_ok tid"
    and "execute_gold env ck tid ts es ms w (n, fs) = (Inr (g, scored), n', fs')" and "sr_status g = COMPLETED"
  shows "scored = rank_tasks (ck_today ck) (pe_cf env) w ts
    \<and> (\<exists>i. be_read_json (pe_be env) (scored_path tid) fs' = Inr (Some (scored_doc tid i w scored)))"
proof -
  let ?be = "local_backend parse render base"
  let ?i = "pe_iso env (ck_at ck ''gold.scored'')"
  obtain r1 n1 fs1 where r1: "produce_scored_tasks env ck tid ts w (n, fs) = (r1, n1, fs1)"
    by (cases "produce_scored_tasks env ck tid ts w (n, fs)")
  with assms(3,4) obtain sc where sc: "r1 = Inr sc"
    by (cases r1) (auto simp: execute_gold_def io_bind_run io_try_def stage_status)
  obtain r2 n2 fs2 where r2: "produce_daily_digest env ck tid ts es ms (n1, fs1) = (r2, n2, fs2)"
    by (cases "produce_daily_digest env ck tid ts es ms (n1, fs1)")
  have eq: "sc = scored" "fs2 = fs'"
    using assms(3) r1 r2 by (simp_all add: execute_gold_def io_bind_run io_try_def sc)
  from r1 sc have w1: "be_write_json ?be (scored_path tid) (scored_doc tid ?i w scored) fs = (Inr (), fs1)"
    and rank: "scored = rank_tasks (ck_today ck) (pe_cf env) w ts"
    by (auto simp: produce_scored_tasks_def Let_def io_bind_Inr io_write_run assms(1) eq)
  have rd: "be_read_json ?be (scored_path tid) fs1 = Inr (Some (scored_doc tid ?i w scored))"
    by (rule local_store.write_read [OF TrueI gold_keys(1) [OF assms(2)] TrueI w1])
  have "io_keeps (\<lambda>s. True \<and> be_read_json ?be (scored_path tid) s = Inr (Some (scored_doc tid ?i w scored)))
      (produce_daily_digest env ck tid ts es ms)"
    unfolding produce_daily_digest_def Let_def assms(1)
    by (intro io_keeps_bind io_keeps_ret local_store.write_keeps gold_keys assms(2) TrueI gold_paths_differ)
  from io_keepsD [OF this _ r2] rd show ?thesis using rank by (auto simp: assms(1) eq)
qed

section \<open>Properties\<close>

definition sample_clock :: clock where
  "sample_clock = \<lparr>ck_at = (\<lambda>_. \<lparr>wt_micros = 0, wt_offset = Some 0\<rparr>), ck_mono = (\<lambda>_. 0), ck_today = 738000\<rparr>"

definition sample_pipe :: "files pipe_env" where
  "sample_pipe =
     \<lparr>pe_be = sample_backend, pe_silver = sample_silver, pe_cf = default_settings, pe_error_text = (\<lambda>_. ''error'')\<rparr>"

lemma sample_pipe_be: "pe_be sample_pipe = local_backend (\<lambda>_. None) (\<lambda>_. []) (py_path ''/data'')"
  by (simp add: sample_pipe_def sample_backend_def)


text \<open>C2. A pipeline run of one tenant changes no document outside that tenant's own partitions: whatever it reads
and however it ends, every other document reads as before.\<close>

theorem pipeline_isolates_tenants:
  assumes "pe_be env = local_backend parse render base" and "part_ok tid"
    and "canonical_key k" and "key_tenant k \<noteq> Some tid"
    and "execute env ck tid ts ps ss es ms w (n, fs) = (r, n', fs')"
  shows "be_read_json (local_backend parse render base) k fs' = be_read_json (local_backend parse render base) k fs"
proof -
  have "io_keeps (\<lambda>s. True \<and> be_read_json (local_backend parse render base) k s =
      be_read_json (local_backend parse render base) k fs) (execute env ck tid ts ps ss es ms w)"
    by (rule local_store.run_keeps_others [OF _ _ assms(3,4,1,2)]) simp_all
  with assms(5) show ?thesis unfolding io_keeps_def by blast
qed

theorem pipeline_isolates_tenants_witness:
  "\<exists>r n fs. execute sample_pipe sample_clock ''tn_1'' [] None None [] [] False (0, sample_files) = (r, n, fs)
     \<and> be_read_json sample_backend ''tenants/tn_1.json'' fs = be_read_json sample_backend ''tenants/tn_1.json'' sample_files"
proof -
  obtain r n fs where run: "execute sample_pipe sample_clock ''tn_1'' [] None None [] [] False (0, sample_files) = (r, n, fs)"
    by (cases "execute sample_pipe sample_clock ''tn_1'' [] None None [] [] False (0, sample_files)")
  have "canonical_key ''tenants/tn_1.json''" "key_tenant ''tenants/tn_1.json'' \<noteq> Some ''tn_1''"
    by (simp_all add: canonical_key_def key_tenant_def suffix_def)
  from pipeline_isolates_tenants [OF sample_pipe_be _ this run] run show ?thesis
    by (simp add: part_ok_def sample_backend_def)
qed



lemma completed_run_ranking:
  assumes "pe_be env = local_backend parse render base" and "part_ok tid"
    and "execute env ck tid ts ps ss es ms w (n, fs) = (Inr run, n', fs')" and "pr_status run = COMPLETED"
  shows "\<exists>tasks i. pr_scored_tasks run = rank_tasks (ck_today ck) (pe_cf env) w tasks
    \<and> be_read_json (pe_be env) (scored_path tid) fs' = Inr (Some (scored_doc tid i w (pr_scored_tasks run)))"
proof -
  obtain rb st1 where b: "execute_bronze env ck tid ts ps ss es ms (n, fs) = (Inr (stage_result_of env ck BRONZE rb), st1)"
    using execute_bronze_total by blast
  obtain rs tasks evs ems st2 where s: "execute_silver env ck tid st1 =
      (Inr (stage_result_of env ck SILVER rs, tasks, evs, ems), st2)"
    using execute_silver_total [of env ck tid st1] by (metis prod_cases3)
  obtain rg scored n3 fs3 where g: "execute_gold env ck tid tasks evs ems w st2 =
      (Inr (stage_result_of env ck GOLD rg, scored), n3, fs3)"
    using execute_gold_total [of env ck tid tasks evs ems w st2] by (metis prod.exhaust)
  from assms(3,4) have ok: "isl rb = False" "isl rs = False" "isl rg = False"
    and sc: "pr_scored_tasks run = scored" and ids: "pr_tenant_id run = tid" "pr_run_id run = make_run_id (ck_at ck ''run.id'') tid"
    and pr: "persist_run env run (n3, fs3) = (Inr (), n', fs')"
    by (cases rb; cases rs; cases rg;
        auto simp: execute_def run_stages_def io_bind_run b s g stage_status Let_def split: sum.splits prod.splits)+
  obtain n2 fs2 where st2: "st2 = (n2, fs2)" by (cases st2)
  have "sr_status (stage_result_of env ck GOLD rg) = COMPLETED" using ok(3) by (cases rg) (simp_all add: stage_status)
  from gold_completed [OF assms(1,2) g [unfolded st2] this]
  obtain i where rank: "scored = rank_tasks (ck_today ck) (pe_cf env) w tasks"
    and rd: "be_read_json (pe_be env) (scored_path tid) fs3 = Inr (Some (scored_doc tid i w scored))" by blast
  have "canonical_key (run_path run)" by (rule run_key [of run "ck_at ck ''run.id''"]) (simp_all add: ids assms(2))
  then have "io_keeps (\<lambda>s. True \<and> be_read_json (local_backend parse render base) (scored_path tid) s =
      Inr (Some (scored_doc tid i w scored))) (persist_run env run)"
    unfolding persist_run_def assms(1)
    by (intro local_store.write_keeps gold_keys assms(2) TrueI gold_paths_differ)
  from io_keepsD [OF this _ pr] rd rank show ?thesis by (auto simp: assms(1) sc)
qed

text \<open>A completed run has ranked the tasks of the silver layer, and the ranking it returns is the one stored
in the tenant's gold layer.\<close>

theorem completed_run_stores_ranking:
  assumes "pe_be env = local_backend parse render base" and "part_ok tid"
    and "execute env ck tid ts ps ss es ms w (n, fs) = (Inr run, n', fs')" and "pr_status run = COMPLETED"
  shows "\<exists>tasks i. pr_scored_tasks run = rank_tasks (ck_today ck) (pe_cf env) w tasks
    \<and> be_read_json (pe_be env) (scored_path tid) fs' = Inr (Some (scored_doc tid i w (pr_scored_tasks run)))"
  by (rule completed_run_ranking [OF assms])

lemma sample_stamp: "stamp (ck_at sample_clock x) = ''00010101T000000''"
proof -
  have "stamp \<lparr>wt_micros = 0, wt_offset = Some 0\<rparr> = ''00010101T000000''" by code_simp
  then show ?thesis by (simp add: sample_clock_def)
qed

lemma sample_base: "py_path ''/data'' = \<lparr>pp_root = Slash, pp_parts = [''data'']\<rparr>"
  by (simp add: py_path_def leading_slashes_def)

lemma sample_writes:
  "be_write_json sample_backend ''gold/tn_1/scored_tasks.json'' v [] =
     (Inr (), [(\<lparr>pp_root = Slash, pp_parts = [''data'', ''gold'', ''tn_1'', ''scored_tasks.json'']\<rparr>, JsonFile v)])"
  "be_write_json sample_backend ''gold/tn_1/daily_digest.json'' v'
     [(\<lparr>pp_root = Slash, pp_parts = [''data'', ''gold'', ''tn_1'', ''scored_tasks.json'']\<rparr>, c)] =
     (Inr (), [(\<lparr>pp_root = Slash, pp_parts = [''data'', ''gold'', ''tn_1'', ''scored_tasks.json'']\<rparr>, c),
               (\<lparr>pp_root = Slash, pp_parts = [''data'', ''gold'', ''tn_1'', ''daily_digest.json'']\<rparr>, JsonFile v')])"
  "be_write_json sample_backend ''runs/tn_1/run_tn_1_00010101T000000.json'' v''
     [(\<lparr>pp_root = Slash, pp_parts = [''data'', ''gold'', ''tn_1'', ''scored_tasks.json'']\<rparr>, c),
      (\<lparr>pp_root = Slash, pp_parts = [''data'', ''gold'', ''tn_1'', ''daily_digest.json'']\<rparr>, c')] =
     (Inr (), [(\<lparr>pp_root = Slash, pp_parts = [''data'', ''gold'', ''tn_1'', ''scored_tasks.json'']\<rparr>, c),
               (\<lparr>pp_root = Slash, pp_parts = [''data'', ''gold'', ''tn_1'', ''daily_digest.json'']\<rparr>, c'),
               (\<lparr>pp_root = Slash, pp_parts = [''data'', ''runs'', ''tn_1'', ''run_tn_1_00010101T000000.json'']\<rparr>,
                JsonFile v'')])"
  by (simp_all add: sample_backend_def local_backend_def local_write_json_def local_write_def resolve_key_def
      py_path_def leading_slashes_def path_join_def path_text_def can_write_def is_dir_def strictly_under_def
      put_file_def tmp_path_def name_stem_def)

lemma sample_backend_pipe: "pe_be sample_pipe = sample_backend"
  by (simp add: sample_pipe_def)

lemma sample_gold:
  "\<exists>c c'. execute_gold sample_pipe sample_clock ''tn_1'' [] [] [] False (0, []) =
      (Inr (stage_result_of sample_pipe sample_clock GOLD (Inr 0), []), 0,
       [(\<lparr>pp_root = Slash, pp_parts = [''data'', ''gold'', ''tn_1'', ''scored_tasks.json'']\<rparr>, c),
        (\<lparr>pp_root = Slash, pp_parts = [''data'', ''gold'', ''tn_1'', ''daily_digest.json'']\<rparr>, c')])"
proof -
  have "rank_tasks today cf w [] = []" for today cf w by (simp add: rank_tasks_def)
  then show ?thesis
    by (simp add: execute_gold_def produce_scored_tasks_def produce_daily_digest_def Let_def io_bind_run
        io_try_def io_write_def sample_backend_pipe scored_path_def digest_path_def sample_writes)
qed

theorem completed_run_stores_ranking_witness:
  "\<exists>run n fs i. execute sample_pipe sample_clock ''tn_1'' [] None None [] [] False (0, []) = (Inr run, n, fs)
     \<and> pr_scored_tasks run = []
     \<and> be_read_json sample_backend ''gold/tn_1/scored_tasks.json'' fs = Inr (Some (scored_doc ''tn_1'' i False []))"
proof -
  let ?e = "execute sample_pipe sample_clock ''tn_1'' [] None None [] [] False (0, [])"
  have latest: "read_latest sample_backend ''tn_1'' source (0, []) = (Inr None, 0, [])"
    if "source \<in> {''todoist'', ''calendar'', ''gmail''}" for source
    using that
    by (auto simp: read_latest_def bronze_prefix_def io_bind_run io_list_def sample_backend_def local_backend_def
        local_list_keys_def resolve_key_def py_path_def leading_slashes_def path_join_def path_text_def
        is_dir_def strictly_under_def is_file_def)
  have s: "execute_silver sample_pipe sample_clock ''tn_1'' (0, []) =
      (Inr (stage_result_of sample_pipe sample_clock SILVER (Inr 0), [], [], []), 0, [])"
    using latest by (simp add: execute_silver_def Let_def io_bind_run io_try_def silver_step_def sample_pipe_def)
  have b: "execute_bronze sample_pipe sample_clock ''tn_1'' [] None None [] [] (0, []) =
      (Inr (stage_result_of sample_pipe sample_clock BRONZE (Inr 0)), 0, [])"
    by (simp add: execute_bronze_def io_bind_run io_try_def)
  obtain c c' where g: "execute_gold sample_pipe sample_clock ''tn_1'' [] [] [] False (0, []) =
      (Inr (stage_result_of sample_pipe sample_clock GOLD (Inr 0), []), 0,
       [(\<lparr>pp_root = Slash, pp_parts = [''data'', ''gold'', ''tn_1'', ''scored_tasks.json'']\<rparr>, c),
        (\<lparr>pp_root = Slash, pp_parts = [''data'', ''gold'', ''tn_1'', ''daily_digest.json'']\<rparr>, c')])"
    using sample_gold by blast
  have "\<exists>run n fs. ?e = (Inr run, n, fs) \<and> pr_status run = COMPLETED \<and> pr_scored_tasks run = []"
    by (simp add: execute_def run_stages_def io_bind_run b s g stage_status Let_def persist_run_def
        run_path_def make_run_id_def sample_stamp io_write_def sample_backend_pipe sample_writes)
  then obtain run n fs where run: "?e = (Inr run, n, fs)" "pr_status run = COMPLETED" "pr_scored_tasks run = []"
    by blast
  have "part_ok ''tn_1''" by (simp add: part_ok_def)
  from completed_run_stores_ranking [OF sample_pipe_be this run(1,2)] run show ?thesis
    by (auto simp: sample_pipe_def scored_path_def)
qed

end
