(* ===== verification/Worker.thy ===== *)
theory Worker
  imports Medallion TenantManager
begin

text \<open>
  \<open>src/brain/queue/worker.py\<close>: the daily usage counters, the settings of a tenant, the handler of each
  message type and the worker's loop. The state of a handler is the module's usage table and the
  storage. Language models and the vector store are outside: their answers are parameters. A
  payload field of another type than the handler expects counts as an error.
\<close>

section \<open>State\<close>

type_synonym usage_map = "(string \<times> jdict) list"

type_synonym 's work = "usage_map \<times> 's"

record 's worker_env =
  wk_tm :: "'s tm_env"
  wk_pipe :: "'s pipe_env"
  wk_rag_augment :: "string \<Rightarrow> string \<Rightarrow> string \<Rightarrow> string res"
  wk_local_llm :: "string \<Rightarrow> string \<Rightarrow> string option res"
  wk_call_llm :: "settings \<Rightarrow> string \<Rightarrow> string \<Rightarrow> string option res"
  wk_rag_ingest :: "string \<Rightarrow> string \<Rightarrow> string \<Rightarrow> json \<Rightarrow> int \<Rightarrow> int res"
  wk_rag_query :: "string \<Rightarrow> string \<Rightarrow> int \<Rightarrow> json list res"
  wk_rag_delete :: "string \<Rightarrow> string \<Rightarrow> int res"

definition on_store :: "('s, 'a) io \<Rightarrow> ('s work, 'a) io" where
  "on_store m = (\<lambda>(n, u, s). let (r, n', s') = m (n, s) in (r, n', u, s'))"

definition get_usage :: "('s work, usage_map) io" where
  "get_usage = (\<lambda>(n, u, s). (Inr u, n, u, s))"

definition put_usage :: "usage_map \<Rightarrow> ('s work, unit) io" where
  "put_usage u' = (\<lambda>(n, u, s). (Inr (), n, u', s))"

definition is_demo_expired :: "datetime \<Rightarrow> tenant \<Rightarrow> bool" where
  "is_demo_expired now t \<longleftrightarrow>
     tn_is_demo t \<and> (case tn_demo_expires_at t of None \<Rightarrow> False | Some x \<Rightarrow> dt_micros now \<ge> dt_micros x)"

section \<open>Settings of a tenant\<close>

definition text_or :: "string \<Rightarrow> string \<Rightarrow> string" where
  "text_or a b = (if a = [] then b else a)"

definition build_tenant_settings :: "'s worker_env \<Rightarrow> tenant \<Rightarrow> settings res" where
  "build_tenant_settings env t =
     (let c = tn_config t; gs = pe_cf (wk_pipe env); dec = decrypt_credential (wk_tm env) t in
     rbind (dec (tc_todoist_api_token_encrypted c) ''todoist_api_token'') (\<lambda>todoist_token.
     rbind (dec (tc_notion_api_token_encrypted c) ''notion_api_token'') (\<lambda>notion_token.
     rbind (dec (tc_gmail_imap_password_encrypted c) ''gmail_imap_password'') (\<lambda>gmail_password.
     rbind (dec (tc_litellm_proxy_token_encrypted c) ''litellm_proxy_token'') (\<lambda>litellm_token.
     rbind (dec (tc_gemini_api_key_encrypted c) ''gemini_api_key'') (\<lambda>gemini_key.
       Inr \<lparr>cf_todoist_api_token = text_or todoist_token (cf_todoist_api_token gs),
            cf_smtp_host = cf_smtp_host gs, cf_smtp_port = cf_smtp_port gs,
            cf_smtp_username = cf_smtp_username gs, cf_smtp_password = cf_smtp_password gs,
            cf_digest_from_email = cf_digest_from_email gs,
            cf_digest_to_email = cf_digest_to_email gs, cf_groq_api_key = cf_groq_api_key gs,
            cf_groq_model = cf_groq_model gs,
            cf_google_ai_api_key = text_or gemini_key (cf_google_ai_api_key gs),
            cf_google_ai_model = cf_google_ai_model gs,
            cf_google_ai_fallback_model = cf_google_ai_fallback_model gs,
            cf_google_ai_lite_model = cf_google_ai_lite_model gs,
            cf_callmebot_phone = cf_callmebot_phone gs,
            cf_callmebot_api_key = cf_callmebot_api_key gs,
            cf_callmebot_secondary_phone = cf_callmebot_secondary_phone gs,
            cf_callmebot_secondary_api_key = cf_callmebot_secondary_api_key gs,
            cf_gmail_imap_host = cf_gmail_imap_host gs,
            cf_gmail_imap_port = cf_gmail_imap_port gs,
            cf_gmail_imap_username = cf_gmail_imap_username gs,
            cf_gmail_imap_password = text_or gmail_password (cf_gmail_imap_password gs),
            cf_gmail_important_query = cf_gmail_important_query gs,
            cf_google_oauth_client_secrets_file = cf_google_oauth_client_secrets_file gs,
            cf_google_oauth_token_file = cf_google_oauth_token_file gs,
            cf_todoist_focus_label = cf_todoist_focus_label gs,
            cf_todoist_weekend_label = cf_todoist_weekend_label gs,
            cf_todoist_kanban_project_id = cf_todoist_kanban_project_id gs,
            cf_todoist_daily_planner_section_id = cf_todoist_daily_planner_section_id gs,
            cf_todoist_weekly_planner_section_id = cf_todoist_weekly_planner_section_id gs,
            cf_todoist_weekend_planner_section_id = cf_todoist_weekend_planner_section_id gs,
            cf_notion_api_token = text_or notion_token (cf_notion_api_token gs),
            cf_notion_root_page_id = cf_notion_root_page_id gs,
            cf_notion_command_center_id = cf_notion_command_center_id gs,
            cf_notion_daily_planner_db_id = cf_notion_daily_planner_db_id gs,
            cf_notion_weekly_planner_db_id = cf_notion_weekly_planner_db_id gs,
            cf_notion_weekend_planner_db_id = cf_notion_weekend_planner_db_id gs,
            cf_notion_board_db_id = cf_notion_board_db_id gs,
            cf_notebooklm_notebook_id = cf_notebooklm_notebook_id gs,
            cf_notebooklm_notebook_name = cf_notebooklm_notebook_name gs,
            cf_litellm_proxy_url = cf_litellm_proxy_url gs,
            cf_litellm_proxy_token = text_or litellm_token (cf_litellm_proxy_token gs),
            cf_litellm_proxy_model = cf_litellm_proxy_model gs,
            cf_demo_mode = (if todoist_token = [] then cf_demo_mode gs else False),
            cf_brain_read_only = cf_brain_read_only gs,
            cf_ollama_base_url = cf_ollama_base_url default_settings,
            cf_ollama_cpu_model = cf_ollama_cpu_model default_settings,
            cf_ollama_gpu_model = cf_ollama_gpu_model default_settings,
            cf_rag_duckdb_path = cf_rag_duckdb_path default_settings,
            cf_rag_chunk_size = cf_rag_chunk_size default_settings,
            cf_rag_chunk_overlap = cf_rag_chunk_overlap default_settings,
            cf_google_oauth_client_id = cf_google_oauth_client_id gs,
            cf_google_oauth_client_secret = cf_google_oauth_client_secret gs,
            cf_velaflow_owner_email = cf_velaflow_owner_email gs,
            cf_workday_start_hour = tc_workday_start_hour c,
            cf_workday_end_hour = tc_workday_end_hour c,
            cf_weekend_day_start_hour = cf_weekend_day_start_hour gs,
            cf_weekend_day_end_hour = cf_weekend_day_end_hour gs,
            cf_default_task_duration_minutes = cf_default_task_duration_minutes gs,
            cf_weekend_capacity_hours = cf_weekend_capacity_hours gs,
            cf_daily_top_task_limit = tc_daily_top_task_limit c,
            cf_overdue_section_limit = cf_overdue_section_limit gs,
            cf_weekend_task_limit = cf_weekend_task_limit gs, cf_tz = tc_timezone c,
            cf_velaflow_domain = cf_velaflow_domain default_settings,
            cf_velaflow_api_port = cf_velaflow_api_port default_settings,
            cf_log_level = cf_log_level default_settings,
            cf_log_dir = cf_log_dir default_settings,
            cf_log_max_size_mb = cf_log_max_size_mb default_settings,
            cf_log_retention_days = cf_log_retention_days default_settings\<rparr>))))))"

section \<open>Quotas\<close>

definition utc_day :: "datetime \<Rightarrow> string" where
  "utc_day now = date_iso (dt_micros now div day_micros + 719163)"

definition usage_path :: "string \<Rightarrow> string" where
  "usage_path tid = ''tenants/'' @ tid @ ''/daily_usage.json''"

definition stale_usage :: "string \<Rightarrow> string \<Rightarrow> usage_map \<Rightarrow> bool" where
  "stale_usage tid today u =
     (case map_of u tid of None \<Rightarrow> True | Some d \<Rightarrow> dget d ''date'' JNull \<noteq> JStr today)"

definition load_usage :: "'s worker_env \<Rightarrow> string \<Rightarrow> ('s work, unit) io" where
  "load_usage env tid =
     io_bind (on_store (io_read (te_be (wk_tm env)) (usage_path tid))) (\<lambda>data.
       case data of
         Some v \<Rightarrow> if jtruthy v
                   then io_bind (io_res (as_dict v)) (\<lambda>d. io_bind get_usage (\<lambda>u. put_usage (AList.update tid d u)))
                   else io_ret ()
       | None \<Rightarrow> io_ret ())"

definition persist_usage :: "'s worker_env \<Rightarrow> string \<Rightarrow> ('s work, unit) io" where
  "persist_usage env tid =
     io_bind get_usage (\<lambda>u.
       case map_of u tid of
         Some d \<Rightarrow> on_store (io_write (te_be (wk_tm env)) (usage_path tid) (JObj d))
       | None \<Rightarrow> io_ret ())"

definition new_usage :: "string \<Rightarrow> jdict" where
  "new_usage today = [(''pipeline_runs'', JInt 0), (''llm_calls'', JInt 0), (''date'', JStr today)]"

definition usage_count :: "jdict \<Rightarrow> string \<Rightarrow> int res" where
  "usage_count d k =
     (case map_of d k of
        Some (JInt i) \<Rightarrow> Inr i | Some _ \<Rightarrow> Inl (OtherError ''TypeError'') | None \<Rightarrow> Inl (KeyError k))"

text \<open>Counting one use against a limit.\<close>

definition count_use :: "string \<Rightarrow> string \<Rightarrow> int \<Rightarrow> usage_map \<Rightarrow> ('s work, bool) io" where
  "count_use tid k limit u =
     (case map_of u tid of
        None \<Rightarrow> io_raise (KeyError tid)
      | Some d \<Rightarrow>
          io_bind (io_res (usage_count d k)) (\<lambda>n.
            if n \<ge> limit then io_ret False
            else io_bind (put_usage (AList.update tid (AList.update k (JInt (n + 1)) d) u)) (\<lambda>_. io_ret True)))"

text \<open>Today's entry: the one in memory, else the stored one, else a new one.\<close>

definition refresh_usage :: "'s worker_env \<Rightarrow> string \<Rightarrow> string \<Rightarrow> ('s work, unit) io" where
  "refresh_usage env tid today =
     io_bind get_usage (\<lambda>u.
       if \<not> stale_usage tid today u then io_ret ()
       else io_bind (load_usage env tid) (\<lambda>_.
            io_bind get_usage (\<lambda>u'.
              if stale_usage tid today u' then put_usage (AList.update tid (new_usage today) u')
              else io_ret ())))"

definition check_quota :: "'s worker_env \<Rightarrow> datetime \<Rightarrow> tenant \<Rightarrow> string \<Rightarrow> ('s work, bool) io" where
  "check_quota env now t usage_type =
     io_bind (refresh_usage env (tn_tenant_id t) (utc_day now)) (\<lambda>_.
     io_bind get_usage (\<lambda>u.
       if usage_type = ''pipeline_run''
       then count_use (tn_tenant_id t) ''pipeline_runs'' (max_pipeline_runs_per_day (tn_quota t)) u
       else if usage_type = ''llm_call''
       then count_use (tn_tenant_id t) ''llm_calls'' (max_llm_calls_per_day (tn_quota t)) u
       else io_ret True))"

section \<open>Handlers\<close>

definition job_path :: "string \<Rightarrow> string \<Rightarrow> string" where
  "job_path tid mid = ''tenants/'' @ tid @ ''/job_results/'' @ mid @ ''.json''"

definition store_job_result :: "'s worker_env \<Rightarrow> queue_message \<Rightarrow> jdict \<Rightarrow> ('s work, unit) io" where
  "store_job_result env msg result =
     on_store (io_write (te_be (wk_tm env)) (job_path (qm_tenant_id msg) (qm_message_id msg)) (JObj result))"

definition job_status :: "string \<Rightarrow> string \<Rightarrow> jdict" where
  "job_status status err = [(''status'', JStr status), (''error'', JStr err)]"

definition with_tenant ::
    "'s worker_env \<Rightarrow> datetime \<Rightarrow> queue_message \<Rightarrow> (tenant \<Rightarrow> ('s work, unit) io) \<Rightarrow> ('s work, unit) io" where
  "with_tenant env now msg body =
     io_bind (on_store (get_tenant (wk_tm env) now (qm_tenant_id msg))) (\<lambda>found.
       case found of None \<Rightarrow> io_ret () | Some t \<Rightarrow> body t)"

text \<open>\<open>payload.get(k, [])\<close> handed to the pipeline, which takes an empty list for a falsy value.\<close>

definition list_arg :: "jdict \<Rightarrow> string \<Rightarrow> json list res" where
  "list_arg d k = (let v = dget d k (JArr []) in if \<not> jtruthy v then Inr [] else as_list v)"

definition run_pipeline ::
    "'s worker_env \<Rightarrow> clock \<Rightarrow> tenant \<Rightarrow> json list \<Rightarrow> json list \<Rightarrow> json list \<Rightarrow> json list \<Rightarrow> json list \<Rightarrow> bool \<Rightarrow>
     ('s work, pipeline_run) io" where
  "run_pipeline env ck t tasks projects sections events emails weekend_mode =
     on_store (execute (wk_pipe env) ck (tn_tenant_id t) tasks (Some projects) (Some sections) events emails
       weekend_mode)"

definition handle_pipeline_run ::
    "'s worker_env \<Rightarrow> datetime \<Rightarrow> clock \<Rightarrow> queue_message \<Rightarrow> ('s work, unit) io" where
  "handle_pipeline_run env now ck msg =
     with_tenant env now msg (\<lambda>t.
       if is_demo_expired now t
       then store_job_result env msg (job_status ''demo_expired'' ''Demo account has expired'')
       else io_bind (check_quota env now t ''pipeline_run'') (\<lambda>allowed.
       if \<not> allowed
       then store_job_result env msg (job_status ''quota_exceeded'' ''Daily pipeline run quota exceeded'')
       else io_bind get_usage (\<lambda>u.
       io_bind (if tn_is_demo t
                then io_res (int_field (case map_of u (qm_tenant_id msg) of Some d \<Rightarrow> d | None \<Rightarrow> []) ''pipeline_runs'' 0)
                else io_ret 0) (\<lambda>total_runs.
       if tn_is_demo t \<and> total_runs > tn_demo_cost_cap_pipeline t
       then store_job_result env msg (job_status ''demo_cost_cap'' ''Demo cost cap reached for pipeline runs'')
       else io_bind (io_res (build_tenant_settings env t)) (\<lambda>tenant_settings.
       io_bind (io_res (rmap (list_arg (qm_payload msg))
                  [''todoist_tasks'', ''todoist_projects'', ''todoist_sections'', ''calendar_events'', ''emails''])) (\<lambda>args.
       io_bind (run_pipeline env ck t (args ! 0) (args ! 1) (args ! 2) (args ! 3) (args ! 4)
                  (jtruthy (dget (qm_payload msg) ''weekend_mode'' (JBool False)))) (\<lambda>run.
       io_bind (persist_usage env (qm_tenant_id msg)) (\<lambda>_.
         store_job_result env msg
           [(''status'', JStr ''completed''), (''run_id'', JStr (pr_run_id run)),
            (''pipeline_status'', JStr (status_value (pr_status run))),
            (''duration_ms'', JInt (run_duration_ms run))]))))))))"

definition handle_digest_generate ::
    "'s worker_env \<Rightarrow> datetime \<Rightarrow> clock \<Rightarrow> queue_message \<Rightarrow> ('s work, unit) io" where
  "handle_digest_generate env now ck msg =
     with_tenant env now msg (\<lambda>t.
       io_bind (check_quota env now t ''pipeline_run'') (\<lambda>allowed.
       if \<not> allowed
       then store_job_result env msg (job_status ''quota_exceeded'' ''Daily pipeline run quota exceeded'')
       else io_bind (run_pipeline env ck t [] [] [] [] [] False) (\<lambda>run.
       io_bind (persist_usage env (qm_tenant_id msg)) (\<lambda>_.
         store_job_result env msg
           [(''status'', JStr ''completed''), (''run_id'', JStr (pr_run_id run)),
            (''pipeline_status'', JStr (status_value (pr_status run)))]))))"

text \<open>The system prompt, augmented when the tenant may use RAG; a failing augmentation is ignored.\<close>

definition augmented_prompt :: "'s worker_env \<Rightarrow> string \<Rightarrow> tenant \<Rightarrow> string \<Rightarrow> string \<Rightarrow> string" where
  "augmented_prompt env tid t prompt system_prompt =
     (if tc_rag_enabled (tn_config t) \<and> quota_rag_enabled (tn_quota t)
      then (case wk_rag_augment env prompt tid system_prompt of Inr s \<Rightarrow> s | Inl e \<Rightarrow> system_prompt)
      else system_prompt)"

definition local_answer :: "'s worker_env \<Rightarrow> bool \<Rightarrow> string \<Rightarrow> string \<Rightarrow> string option res" where
  "local_answer env use_local prompt system_prompt =
     (if use_local
      then (case wk_local_llm env prompt system_prompt of
              Inr r \<Rightarrow> Inr r
            | Inl (ValueError x) \<Rightarrow> Inr None
            | Inl e \<Rightarrow> if e = OtherError ''ImportError'' then Inr None else Inl e)
      else Inr None)"

definition handle_llm_generate ::
    "'s worker_env \<Rightarrow> datetime \<Rightarrow> queue_message \<Rightarrow> ('s work, unit) io" where
  "handle_llm_generate env now msg =
     with_tenant env now msg (\<lambda>t.
       if is_demo_expired now t
       then store_job_result env msg (job_status ''demo_expired'' ''Demo account has expired'')
       else io_bind (check_quota env now t ''llm_call'') (\<lambda>allowed.
       if \<not> allowed
       then store_job_result env msg (job_status ''quota_exceeded'' ''Daily LLM call quota exceeded'')
       else io_bind (io_res (str_field (qm_payload msg) ''prompt'' (Some []))) (\<lambda>prompt.
       io_bind (io_res (str_field (qm_payload msg) ''system_prompt'' (Some ''You are a helpful assistant.''))) (\<lambda>system.
       let system_prompt = augmented_prompt env (qm_tenant_id msg) t prompt system;
           use_local = jtruthy (dget (qm_payload msg) ''use_local'' (JBool False)) \<and> local_llm_enabled (tn_quota t)
       in io_bind (io_res (local_answer env use_local prompt system_prompt)) (\<lambda>local.
          io_bind (case local of
                     Some r \<Rightarrow> io_ret (Some r)
                   | None \<Rightarrow> io_bind (io_res (build_tenant_settings env t)) (\<lambda>cf.
                               io_res (wk_call_llm env cf prompt system_prompt))) (\<lambda>result.
          io_bind (persist_usage env (qm_tenant_id msg)) (\<lambda>_.
            store_job_result env msg
              [(''status'', JStr ''completed''), (''result'', JStr (case result of Some r \<Rightarrow> r | None \<Rightarrow> []))])))))))"

text \<open>The two handlers that only check the connection.\<close>

definition handle_notion_sync :: "'s worker_env \<Rightarrow> datetime \<Rightarrow> queue_message \<Rightarrow> ('s work, unit) io" where
  "handle_notion_sync env now msg =
     with_tenant env now msg (\<lambda>t.
       if tc_notion_api_token_encrypted (tn_config t) = []
       then store_job_result env msg
              (job_status ''error'' ''Notion not connected. Please connect Notion in your dashboard.'')
       else io_bind (io_res (build_tenant_settings env t)) (\<lambda>_.
              store_job_result env msg
                [(''status'', JStr ''completed''),
                 (''direction'', dget (qm_payload msg) ''direction'' (JStr ''todoist_to_notion''))]))"

definition handle_board_analysis :: "'s worker_env \<Rightarrow> datetime \<Rightarrow> queue_message \<Rightarrow> ('s work, unit) io" where
  "handle_board_analysis env now msg =
     with_tenant env now msg (\<lambda>t.
       if tc_todoist_api_token_encrypted (tn_config t) = []
       then store_job_result env msg
              (job_status ''error'' ''Todoist not connected. Please connect Todoist in your dashboard.'')
       else io_bind (io_res (build_tenant_settings env t)) (\<lambda>_.
              store_job_result env msg
                [(''status'', JStr ''completed''),
                 (''project_id'', dget (qm_payload msg) ''project_id'' (JStr ''all''))]))"

definition scoring_path :: "string \<Rightarrow> string" where
  "scoring_path tid = ''tenants/'' @ tid @ ''/scoring_config.json''"

definition handle_scoring_config :: "'s worker_env \<Rightarrow> datetime \<Rightarrow> queue_message \<Rightarrow> ('s work, unit) io" where
  "handle_scoring_config env now msg =
     with_tenant env now msg (\<lambda>t.
       on_store (io_write (te_be (wk_tm env)) (scoring_path (qm_tenant_id msg))
                   (JObj (qm_payload msg))))"

text \<open>The handlers that only log.\<close>

definition handle_tenant_operation :: "'s worker_env \<Rightarrow> datetime \<Rightarrow> queue_message \<Rightarrow> ('s work, unit) io" where
  "handle_tenant_operation env now msg = with_tenant env now msg (\<lambda>t. io_ret ())"

definition handle_notebooklm_extract :: "'s worker_env \<Rightarrow> datetime \<Rightarrow> queue_message \<Rightarrow> ('s work, unit) io" where
  "handle_notebooklm_extract env now msg = with_tenant env now msg (\<lambda>t. io_ret ())"

definition rag_action :: "'s worker_env \<Rightarrow> datetime \<Rightarrow> queue_message \<Rightarrow> tenant \<Rightarrow> ('s work, unit) io" where
  "rag_action env now msg t =
     (let payload = qm_payload msg; tid = qm_tenant_id msg; action = dget payload ''action'' (JStr ''query'') in
      if action = JStr ''ingest'' then
        io_bind (io_res (str_field payload ''text'' (Some []))) (\<lambda>text.
        io_bind (io_res (str_field payload ''document_id'' (Some []))) (\<lambda>doc.
        io_bind (io_res (wk_rag_ingest env text doc tid (dget payload ''metadata'' (JObj []))
                           (max_rag_documents (tn_quota t)))) (\<lambda>n.
          store_job_result env msg
            [(''status'', JStr ''completed''), (''action'', JStr ''ingest''), (''chunks_stored'', JInt n)])))
      else if action = JStr ''query'' then
        io_bind (io_res (str_field payload ''query'' (Some []))) (\<lambda>query.
        io_bind (io_res (int_field payload ''top_k'' 5)) (\<lambda>k.
        io_bind (check_quota env now t ''llm_call'') (\<lambda>allowed.
          if \<not> allowed
          then store_job_result env msg (job_status ''quota_exceeded'' ''Daily LLM/RAG query quota exceeded'')
          else io_bind (io_res (wk_rag_query env query tid (min k 10))) (\<lambda>results.
               io_bind (persist_usage env tid) (\<lambda>_.
                 store_job_result env msg
                   [(''status'', JStr ''completed''), (''action'', JStr ''query''), (''results'', JArr results)])))))
      else if action = JStr ''delete'' then
        io_bind (io_res (str_field payload ''document_id'' (Some []))) (\<lambda>doc.
        io_bind (io_res (wk_rag_delete env tid doc)) (\<lambda>n.
          store_job_result env msg
            [(''status'', JStr ''completed''), (''action'', JStr ''delete''), (''chunks_deleted'', JInt n)]))
      else store_job_result env msg
             (job_status ''error'' (''Unknown RAG action: '' @ json_text (se_str (pe_silver (wk_pipe env))) action)))"

definition handle_rag_query :: "'s worker_env \<Rightarrow> datetime \<Rightarrow> queue_message \<Rightarrow> ('s work, unit) io" where
  "handle_rag_query env now msg =
     with_tenant env now msg (\<lambda>t.
       if is_demo_expired now t
       then store_job_result env msg (job_status ''demo_expired'' ''Demo account has expired'')
       else if \<not> quota_rag_enabled (tn_quota t)
       then store_job_result env msg
              (job_status ''error'' ''Native RAG is not available for your tier. Upgrade to VIP.'')
       else io_catch (rag_action env now msg t) (\<lambda>e.
              store_job_result env msg
                (job_status ''error'' (case e of PermissionError x \<Rightarrow> x | _ \<Rightarrow> ''RAG operation failed''))))"

fun handle :: "'s worker_env \<Rightarrow> datetime \<Rightarrow> clock \<Rightarrow> queue_message \<Rightarrow> ('s work, unit) io" where
  "handle env now ck msg =
     (case qm_message_type msg of
        PIPELINE_RUN \<Rightarrow> handle_pipeline_run env now ck msg
      | DIGEST_GENERATE \<Rightarrow> handle_digest_generate env now ck msg
      | LLM_GENERATE \<Rightarrow> handle_llm_generate env now msg
      | NOTION_SYNC \<Rightarrow> handle_notion_sync env now msg
      | BOARD_ANALYSIS \<Rightarrow> handle_board_analysis env now msg
      | SCORING_CONFIG \<Rightarrow> handle_scoring_config env now msg
      | TENANT_OPERATION \<Rightarrow> handle_tenant_operation env now msg
      | NOTEBOOKLM_EXTRACT \<Rightarrow> handle_notebooklm_extract env now msg
      | RAG_QUERY \<Rightarrow> handle_rag_query env now msg)"

section \<open>The loop\<close>

text \<open>One turn: take a message, handle it, mark it done; an exception of either puts it back. The
handler is a function of the message and the state of the world.\<close>

definition worker_turn ::
    "(queue_message \<Rightarrow> 'w \<Rightarrow> unit res \<times> 'w) \<Rightarrow> task_queue \<times> 'w \<Rightarrow> task_queue \<times> 'w" where
  "worker_turn handler = (\<lambda>(q, w).
     case dequeue q of
       (None, q) \<Rightarrow> (q, w)
     | (Some msg, q) \<Rightarrow>
         (case handler msg w of
            (Inl e, w') \<Rightarrow> (snd (snd (requeue msg q)), w')
          | (Inr _, w') \<Rightarrow>
              (case mark_done q of
                 (Inr _, q') \<Rightarrow> (q', w')
               | (Inl e, q') \<Rightarrow> (snd (snd (requeue msg q')), w'))))"

fun worker_turns ::
    "nat \<Rightarrow> (queue_message \<Rightarrow> 'w \<Rightarrow> unit res \<times> 'w) \<Rightarrow> task_queue \<times> 'w \<Rightarrow> task_queue \<times> 'w" where
  "worker_turns 0 handler st = st"
| "worker_turns (Suc n) handler st = worker_turns n handler (worker_turn handler st)"

end
