(* ===== verification/WorkerLaws.thy ===== *)
theory WorkerLaws
  imports Worker Pipeline
begin

text \<open>
  What the worker guarantees: its loop ends with every message accounted for, the daily quota is
  enforced within a process, expired demos are refused, and handling a message touches only the
  documents of the message's tenant.
\<close>

section \<open>The loop\<close>

text \<open>The attempts the queued messages have left.\<close>

definition attempts :: "queue_message list \<Rightarrow> nat" where
  "attempts ms = sum_list (map (\<lambda>m. nat (qm_max_retries m - qm_retry_count m) + 1) ms)"

definition queue_ok :: "task_queue \<Rightarrow> bool" where
  "queue_ok q \<longleftrightarrow> int (length (tq_queue q)) \<le> tq_unfinished q \<and> length (tq_dead_letter q) \<le> dead_letter_max_size"

text \<open>Messages processed, dead, dropped from the dead letters, or still queued.\<close>

definition accounted :: "task_queue \<Rightarrow> int" where
  "accounted q = tq_processed_count q + int (length (tq_dead_letter q)) + tq_dead_letter_dropped q
     + int (length (tq_queue q))"

lemma requeue_cases:
  assumes "queue_ok (q\<lparr>tq_queue := m # tq_queue q\<rparr>)" and "q' = snd (snd (requeue m q))"
  shows "queue_ok q' \<and> accounted q' = accounted q + 1
    \<and> attempts (tq_queue q') < attempts (m # tq_queue q)"
  using assms
  by (auto simp: requeue_def Let_def queue_ok_def accounted_def attempts_def enqueue_def bounded_append_def
      dead_letter_max_size_def)

lemma worker_turn_step:
  assumes "queue_ok q" and "tq_queue q \<noteq> []" and "worker_turn handler (q, w) = (q', w')"
  shows "queue_ok q' \<and> accounted q' = accounted q \<and> attempts (tq_queue q') < attempts (tq_queue q)"
proof -
  obtain m ms where q: "tq_queue q = m # ms" using assms(2) by (cases "tq_queue q") auto
  let ?q = "q\<lparr>tq_queue := ms\<rparr>"
  have d: "dequeue q = (Some m, ?q)" by (simp add: dequeue_def q)
  have ok: "queue_ok (?q\<lparr>tq_queue := m # tq_queue ?q\<rparr>)" using assms(1) q by (simp add: queue_ok_def)
  obtain r w1 where h: "handler m w = (r, w1)" by (cases "handler m w")
  show ?thesis
  proof (cases r)
    case (Inl e)
    with assms(3) h d have q': "q' = snd (snd (requeue m ?q))" by (simp add: worker_turn_def)
    from requeue_cases [OF ok q'] show ?thesis by (simp add: accounted_def q)
  next
    case (Inr u)
    have pos: "0 < tq_unfinished ?q" using assms(1) q by (simp add: queue_ok_def)
    then have md: "mark_done ?q = (Inr (), ?q\<lparr>tq_processed_count := tq_processed_count q + 1,
        tq_unfinished := tq_unfinished q - 1\<rparr>)"
      by (simp add: mark_done_def Let_def)
    from assms(1) q have "int (length ms) \<le> tq_unfinished q - 1"
      "length (tq_dead_letter q) \<le> dead_letter_max_size" by (simp_all add: queue_ok_def)
    with assms(3) h d Inr md show ?thesis
      by (auto simp: worker_turn_def queue_ok_def accounted_def q attempts_def)
  qed
qed

lemma worker_turn_idle: "tq_queue q = [] \<Longrightarrow> worker_turn handler (q, w) = (q, w)"
  by (simp add: worker_turn_def dequeue_def)

lemma worker_turns_drain:
  "queue_ok q \<Longrightarrow> attempts (tq_queue q) \<le> n \<Longrightarrow>
   (case worker_turns n handler (q, w) of (q', w') \<Rightarrow> tq_queue q' = [] \<and> queue_ok q' \<and> accounted q' = accounted q)"
proof (induction n arbitrary: q w)
  case 0
  then have "tq_queue q = []" by (cases "tq_queue q") (simp_all add: attempts_def)
  with 0 show ?case by simp
next
  case (Suc n)
  show ?case
  proof (cases "tq_queue q = []")
    case True
    with Suc.IH [OF Suc.prems(1), of w] show ?thesis by (simp add: worker_turn_idle attempts_def)
  next
    case False
    obtain q' w' where t: "worker_turn handler (q, w) = (q', w')" by (cases "worker_turn handler (q, w)")
    from worker_turn_step [OF Suc.prems(1) False t] Suc.prems(2)
    have "queue_ok q'" "accounted q' = accounted q" "attempts (tq_queue q') \<le> n" by simp_all
    with Suc.IH [of q' w'] show ?thesis by (simp add: t)
  qed
qed

section \<open>Quotas\<close>

text \<open>The answers to a sequence of requests for a pipeline run.\<close>

fun quota_answers :: "'s worker_env \<Rightarrow> tenant \<Rightarrow> datetime list \<Rightarrow> nat \<times> 's work \<Rightarrow> bool res list" where
  "quota_answers env t [] st = []"
| "quota_answers env t (now # nows) st =
     (case check_quota env now t ''pipeline_run'' st of (r, st') \<Rightarrow> r # quota_answers env t nows st')"

definition entry_counts :: "string \<Rightarrow> string \<Rightarrow> int \<Rightarrow> usage_map \<Rightarrow> bool" where
  "entry_counts tid today k u \<longleftrightarrow>
     (\<exists>d. map_of u tid = Some d \<and> dget d ''date'' JNull = JStr today \<and> map_of d ''pipeline_runs'' = Some (JInt k))"

lemma get_put_run [simp]: "get_usage (n, u, s) = (Inr u, n, u, s)" "put_usage v (n, u, s) = (Inr (), n, v, s)"
  by (simp_all add: get_usage_def put_usage_def)

lemma check_quota_counted:
  assumes "entry_counts (tn_tenant_id t) (utc_day now) k u"
  shows "\<exists>u'. check_quota env now t ''pipeline_run'' (n, u, s)
      = (Inr (k < max_pipeline_runs_per_day (tn_quota t)), n, u', s)
    \<and> entry_counts (tn_tenant_id t) (utc_day now)
        (if k < max_pipeline_runs_per_day (tn_quota t) then k + 1 else k) u'"
proof -
  from assms obtain d where d: "map_of u (tn_tenant_id t) = Some d"
    "dget d ''date'' JNull = JStr (utc_day now)" "map_of d ''pipeline_runs'' = Some (JInt k)"
    by (auto simp: entry_counts_def)
  have "\<not> stale_usage (tn_tenant_id t) (utc_day now) u" using d by (simp add: stale_usage_def)
  then show ?thesis
    using d
    by (cases "k < max_pipeline_runs_per_day (tn_quota t)")
      (simp_all add: check_quota_def refresh_usage_def io_bind_run count_use_def usage_count_def entry_counts_def dget_def)
qed

lemma quota_answers_counted:
  "entry_counts (tn_tenant_id t) today k u \<Longrightarrow> \<forall>now \<in> set nows. utc_day now = today \<Longrightarrow>
   quota_answers env t nows (n, u, s) =
     map (\<lambda>i. Inr (k + int i < max_pipeline_runs_per_day (tn_quota t))) [0..<length nows]"
proof (induction nows arbitrary: k u)
  case Nil
  then show ?case by simp
next
  case (Cons now nows)
  let ?lim = "max_pipeline_runs_per_day (tn_quota t)"
  have up: "[0..<length (now # nows)] = 0 # map Suc [0..<length nows]"
    by (simp add: upt_conv_Cons map_Suc_upt del: upt_Suc)
  from Cons.prems have "entry_counts (tn_tenant_id t) (utc_day now) k u" by simp
  from check_quota_counted [OF this, of env n s] obtain u' where
    q: "check_quota env now t ''pipeline_run'' (n, u, s) = (Inr (k < ?lim), n, u', s)"
    and u': "entry_counts (tn_tenant_id t) today (if k < ?lim then k + 1 else k) u'"
    using Cons.prems(2) by auto
  show ?case
  proof (cases "k < ?lim")
    case True
    with Cons.IH [of "k + 1" u'] u' Cons.prems(2) show ?thesis
      unfolding up by (simp add: q comp_def add.assoc)
  next
    case False
    with Cons.IH [of k u'] u' Cons.prems(2) show ?thesis
      unfolding up by (simp add: q comp_def)
  qed
qed

lemma check_quota_first:
  assumes "map_of u (tn_tenant_id t) = None"
    and "be_read_json (te_be (wk_tm env)) (usage_path (tn_tenant_id t)) s = Inr None"
  shows "check_quota env now t ''pipeline_run'' (n, u, s) =
    check_quota env now t ''pipeline_run'' (n, AList.update (tn_tenant_id t) (new_usage (utc_day now)) u, s)"
  using assms
  by (simp add: check_quota_def refresh_usage_def io_bind_run stale_usage_def load_usage_def on_store_def
      new_usage_def)

lemma new_entry_counts: "entry_counts tid today 0 (AList.update tid (new_usage today) u)"
  by (simp add: entry_counts_def new_usage_def)

section \<open>What a handler writes\<close>

lemma on_store_keeps: "io_keeps P m \<Longrightarrow> io_keeps (P \<circ> snd) (on_store m)"
  unfolding io_keeps_def on_store_def by (auto split: prod.splits)

lemma usage_keeps: "io_keeps (P \<circ> snd) get_usage" "io_keeps (P \<circ> snd) (put_usage u)"
  by (auto simp: io_keeps_def)

lemmas keeps_rules = io_keeps_bind io_keeps_ret io_keeps_res io_keeps_raise usage_keeps on_store_keeps io_keeps_read

lemma catch_keeps: "io_keeps P m \<Longrightarrow> (\<And>e. io_keeps P (h e)) \<Longrightarrow> io_keeps P (io_catch m h)"
proof -
  assume m: "io_keeps P m" and h: "\<And>e. io_keeps P (h e)"
  show ?thesis
    unfolding io_keeps_def
  proof (intro allI impI)
    fix n s r n' s'
    assume P: "P s" and run: "io_catch m h (n, s) = (r, n', s')"
    obtain r1 n1 s1 where r1: "m (n, s) = (r1, n1, s1)" by (cases "m (n, s)")
    from m P r1 have P1: "P s1" unfolding io_keeps_def by blast
    show "P s'"
    proof (cases r1)
      case (Inl e)
      with run r1 have "h e (n1, s1) = (r, n', s')" by (simp add: io_catch_def)
      with h P1 show ?thesis unfolding io_keeps_def by blast
    next
      case (Inr x)
      with run r1 P1 show ?thesis by (simp add: io_catch_def)
    qed
  qed
qed

lemma check_quota_keeps: "io_keeps (P \<circ> snd) (check_quota env now t use)"
proof -
  have load: "io_keeps (P \<circ> snd) (load_usage env tid)" for tid
    unfolding load_usage_def by (auto intro!: keeps_rules split: option.split)
  have refresh: "io_keeps (P \<circ> snd) (refresh_usage env tid today)" for tid today
    unfolding refresh_usage_def by (auto intro!: keeps_rules load)
  have count: "io_keeps (P \<circ> snd) (count_use tid k limit u)" for tid k limit u
    unfolding count_use_def by (auto intro!: keeps_rules split: option.split)
  show ?thesis unfolding check_quota_def by (auto intro!: keeps_rules refresh count)
qed

lemma worker_keys:
  assumes "part_ok tid" and "tenant_writes_keep P be tid"
  shows "io_keeps P (io_write be (usage_path tid) (JObj d))"
    and "part_ok (mid @ ''.json'') \<Longrightarrow> io_keeps P (io_write be (job_path tid mid) (JObj d))"
    and "io_keeps P (io_write be (scoring_path tid) (JObj d))"
proof -
  have p: "part_ok ''tenants''" "part_ok ''daily_usage.json''" "part_ok ''job_results''" "part_ok ''scoring_config.json''"
    by (simp_all add: part_ok_def)
  show "io_keeps P (io_write be (usage_path tid) (JObj d))"
    by (rule write_keep [OF assms(2,1) p(1), of "[''daily_usage.json'']"])
      (simp_all add: p usage_path_def suffix_def)
  show "io_keeps P (io_write be (scoring_path tid) (JObj d))"
    by (rule write_keep [OF assms(2,1) p(1), of "[''scoring_config.json'']"]) (simp_all add: p scoring_path_def suffix_def)
  show "io_keeps P (io_write be (job_path tid mid) (JObj d))" if "part_ok (mid @ ''.json'')"
    by (rule write_keep [OF assms(2,1) p(1), of "[''job_results'', mid @ ''.json'']"])
      (use that in \<open>simp_all add: p job_path_def suffix_def\<close>)
qed

text \<open>Every handler looks its tenant up and then keeps what the tenant's own writes keep.\<close>

lemma handle_keeps:
  assumes w: "tenant_writes_keep P (te_be (wk_tm env)) (qm_tenant_id msg)"
    and be: "pe_be (wk_pipe env) = te_be (wk_tm env)"
    and tid: "part_ok (qm_tenant_id msg)" and mid: "part_ok (qm_message_id msg @ ''.json'')"
  shows "\<exists>body. handle env now ck msg = with_tenant env now msg body
    \<and> (\<forall>t. tn_tenant_id t = qm_tenant_id msg \<longrightarrow> io_keeps (P \<circ> snd) (body t))"
proof -
  have job: "io_keeps (P \<circ> snd) (store_job_result env msg d)" for d
    unfolding store_job_result_def by (intro on_store_keeps worker_keys tid w mid)
  have save: "io_keeps (P \<circ> snd) (persist_usage env (qm_tenant_id msg))"
    unfolding persist_usage_def by (auto intro!: keeps_rules worker_keys tid w split: option.split)
  have run: "io_keeps (P \<circ> snd) (run_pipeline env ck t ts ps ss es ms wk)" if "tn_tenant_id t = qm_tenant_id msg"
    for t ts ps ss es ms wk
    unfolding run_pipeline_def that by (intro on_store_keeps execute_keeps tid) (simp add: be w)
  have rag: "io_keeps (P \<circ> snd) (rag_action env now msg t)" for t
    unfolding rag_action_def Let_def by (auto intro!: keeps_rules check_quota_keeps job save)
  note rules = keeps_rules check_quota_keeps job save run
  show ?thesis
    by (cases "qm_message_type msg")
      (auto simp: handle_pipeline_run_def handle_digest_generate_def handle_llm_generate_def handle_notion_sync_def
        handle_board_analysis_def handle_scoring_config_def handle_tenant_operation_def handle_notebooklm_extract_def
        handle_rag_query_def Let_def intro!: exI [of _ "\<lambda>t. _ t"] rules worker_keys tid w rag catch_keeps split: option.split)
qed

lemma get_tenant_reads: "get_tenant env now tid (n, s) = (r, st) \<Longrightarrow> st = (n, s)"
  by (auto simp: get_tenant_def io_bind_run split: sum.splits option.splits)

lemma with_tenant_run:
  "with_tenant env now msg body (n, u, s) =
     (case get_tenant (wk_tm env) now (qm_tenant_id msg) (n, s) of
        (Inr (Some t), st) \<Rightarrow> body t (n, u, s)
      | (Inr None, st) \<Rightarrow> (Inr (), n, u, s)
      | (Inl e, st) \<Rightarrow> (Inl e, n, u, s))"
  by (cases "get_tenant (wk_tm env) now (qm_tenant_id msg) (n, s)")
    (auto simp: with_tenant_def io_bind_run on_store_def dest!: get_tenant_reads split: sum.splits option.splits)

section \<open>An environment to evaluate in\<close>

definition sample_worker :: "files worker_env" where
  "sample_worker =
     \<lparr>wk_tm = sample_env, wk_pipe = sample_pipe, wk_rag_augment = (\<lambda>_ _ s. Inr s), wk_local_llm = (\<lambda>_ _. Inr None),
      wk_call_llm = (\<lambda>_ _ _. Inr None), wk_rag_ingest = (\<lambda>_ _ _ _ _. Inr 0), wk_rag_query = (\<lambda>_ _ _. Inr []),
      wk_rag_delete = (\<lambda>_ _. Inr 0)\<rparr>"

definition sample_message :: "message_type \<Rightarrow> queue_message" where
  "sample_message typ = new_message ''m1'' typ ''tn_1'' [] sample_time"

lemma sample_worker_be: "te_be (wk_tm sample_worker) = local_backend (\<lambda>_. None) (\<lambda>_. []) (py_path ''/data'')"
    "pe_be (wk_pipe sample_worker) = local_backend (\<lambda>_. None) (\<lambda>_. []) (py_path ''/data'')"
  by (simp_all add: sample_worker_def sample_env_be sample_pipe_be)

lemma sample_message_parts: "qm_tenant_id (sample_message typ) = ''tn_1''" "qm_message_id (sample_message typ) = ''m1''"
    "qm_message_type (sample_message typ) = typ" "qm_payload (sample_message typ) = []"
  by (simp_all add: sample_message_def new_message_def)

definition sample_demo :: tenant where
  "sample_demo = sample_tenant\<lparr>tn_is_demo := True, tn_demo_expires_at := Some sample_time\<rparr>"

lemma sample_demo_found:
  "get_tenant sample_env now ''tn_1''
     (n, [(\<lparr>pp_root = Slash, pp_parts = [''data'', ''tenants'', ''tn_1.json'']\<rparr>,
           JsonFile (JObj (tenant_dict sample_env [] [] sample_demo)))]) =
   (Inr (Some sample_demo), n, [(\<lparr>pp_root = Slash, pp_parts = [''data'', ''tenants'', ''tn_1.json'']\<rparr>,
           JsonFile (JObj (tenant_dict sample_env [] [] sample_demo)))])"
proof -
  have "tenant_ok sample_demo" "tn_api_key sample_demo = []"
    using sample_tenant_ok by (simp_all add: sample_demo_def tenant_ok_def)
  then have "tenant_from_dict sample_env now (tenant_dict sample_env [] [] sample_demo) = Inr sample_demo"
    by (intro tenant_dict_round_trip [OF sample_env_good]) (simp_all add: stored_api_key_none)
  then show ?thesis
    by (simp add: get_tenant_def io_bind_run sample_env_be tenant_path_def tenants_prefix_def local_backend_def
        local_read_json_def sample_resolve tenant_from_json_def)
qed

section \<open>Properties\<close>



text \<open>Within one day a tenant that starts without a usage record is allowed exactly its quota of pipeline runs: the
first requests up to the limit are granted, every later one is refused.\<close>

theorem daily_quota_enforced:
  assumes "map_of u (tn_tenant_id t) = None"
    and "be_read_json (te_be (wk_tm env)) (usage_path (tn_tenant_id t)) s = Inr None"
    and "\<forall>now \<in> set nows. utc_day now = today"
  shows "quota_answers env t nows (n, u, s) =
    map (\<lambda>i. Inr (int i < max_pipeline_runs_per_day (tn_quota t))) [0..<length nows]"
proof (cases nows)
  case Nil
  then show ?thesis by simp
next
  case (Cons now rest)
  then have day: "utc_day now = today" using assms(3) by simp
  have "quota_answers env t nows (n, u, s) =
      quota_answers env t nows (n, AList.update (tn_tenant_id t) (new_usage today) u, s)"
    unfolding Cons using check_quota_first [OF assms(1,2), of now n] by (simp add: day)
  then show ?thesis using quota_answers_counted [OF new_entry_counts assms(3)] by simp
qed

theorem daily_quota_enforced_witness:
  "quota_answers sample_worker (sample_tenant\<lparr>tn_quota := quota_for_tier FREE\<rparr>) (replicate 5 sample_time) (0, [], []) =
     [Inr True, Inr True, Inr True, Inr False, Inr False]"
proof -
  have "be_read_json (te_be (wk_tm sample_worker)) (usage_path ''tn_1'') [] = Inr None"
    by (simp add: sample_worker_be local_backend_def local_read_json_def resolve_key_def py_path_def
        leading_slashes_def path_join_def path_text_def usage_path_def)
  then have "quota_answers sample_worker (sample_tenant\<lparr>tn_quota := quota_for_tier FREE\<rparr>) (replicate 5 sample_time) (0, [], []) =
      map (\<lambda>i. Inr (int i < 3)) [0..<5]"
    using daily_quota_enforced [of "[]" "sample_tenant\<lparr>tn_quota := quota_for_tier FREE\<rparr>" sample_worker "[]"
        "replicate 5 sample_time" "utc_day sample_time" 0]
    by (simp add: sample_tenant_ok quota_for_tier_def)
  then show ?thesis by (simp add: upt_rec)
qed

text \<open>An expired demo account gets no pipeline run, no language model answer and no retrieval: its requests only
store the refusal as the job's result.\<close>

theorem expired_demo_refused:
  assumes "get_tenant (wk_tm env) now (qm_tenant_id msg) (n, s) = (Inr (Some t), n, s)" and "is_demo_expired now t"
    and "qm_message_type msg \<in> {PIPELINE_RUN, LLM_GENERATE, RAG_QUERY}"
  shows "handle env now ck msg (n, u, s) =
    store_job_result env msg (job_status ''demo_expired'' ''Demo account has expired'') (n, u, s)"
  using assms
  by (auto simp: handle_pipeline_run_def handle_llm_generate_def handle_rag_query_def with_tenant_run)

theorem expired_demo_refused_witness:
  "let fs = [(\<lparr>pp_root = Slash, pp_parts = [''data'', ''tenants'', ''tn_1.json'']\<rparr>,
              JsonFile (JObj (tenant_dict sample_env [] [] sample_demo)))]
   in handle sample_worker sample_time sample_clock (sample_message PIPELINE_RUN) (0, [], fs) =
      store_job_result sample_worker (sample_message PIPELINE_RUN)
        (job_status ''demo_expired'' ''Demo account has expired'') (0, [], fs)"
proof -
  have "is_demo_expired sample_time sample_demo" by (simp add: is_demo_expired_def sample_demo_def)
  moreover have tm: "wk_tm sample_worker = sample_env" by (simp add: sample_worker_def)
  ultimately show ?thesis
    unfolding Let_def
    by (intro expired_demo_refused [where t = sample_demo])
      (simp_all only: tm sample_message_parts sample_demo_found, simp_all)
qed



end
