(* ===== verification/TenantScheduler.thy ===== *)
theory TenantScheduler
  imports Dates TenantGuarantees
begin

text \<open>
  \<open>src/brain/queue/scheduler.py\<close>: the scheduler that puts the due jobs of every tenant into the
  queue. Its state is the last key checked per tenant and job and the queue; message ids and creation
  times are drawn from the environment. A time is the wall clock in the scheduler's zone (UTC).
\<close>

section \<open>State\<close>

record sched =
  sc_last_check :: "(string \<times> (string \<times> string) list) list"
  sc_queue :: task_queue
  sc_drawn :: nat

record 's sched_env =
  se_tm :: "'s tm_env"
  se_ids :: "nat \<Rightarrow> string"
  se_created :: "nat \<Rightarrow> datetime"

definition new_sched :: "task_queue \<Rightarrow> sched" where
  "new_sched q = \<lparr>sc_last_check = [], sc_queue = q, sc_drawn = 0\<rparr>"

definition last_of :: "sched \<Rightarrow> string \<Rightarrow> string \<Rightarrow> string option" where
  "last_of s tid kind = map_of (dget (sc_last_check s) tid []) kind"

definition set_last :: "string \<Rightarrow> string \<Rightarrow> string \<Rightarrow> sched \<Rightarrow> sched" where
  "set_last tid kind key s =
     s\<lparr>sc_last_check := AList.update tid (AList.update kind key (dget (sc_last_check s) tid [])) (sc_last_check s)\<rparr>"

definition enqueue_job :: "'s sched_env \<Rightarrow> string \<Rightarrow> message_type \<Rightarrow> jdict \<Rightarrow> sched \<Rightarrow> sched" where
  "enqueue_job env tid typ payload s =
     s\<lparr>sc_queue := enqueue (new_message (''sched_'' @ se_ids env (sc_drawn s)) typ tid payload
                              (se_created env (sc_drawn s))) (sc_queue s),
       sc_drawn := Suc (sc_drawn s)\<rparr>"

text \<open>Enqueue a job unless its key is the last one checked; the number of jobs enqueued.\<close>

definition fire ::
    "'s sched_env \<Rightarrow> string \<Rightarrow> string \<Rightarrow> string \<Rightarrow> message_type \<Rightarrow> jdict \<Rightarrow> sched \<Rightarrow> nat \<times> sched" where
  "fire env tid kind key typ payload s =
     (if last_of s tid kind = Some key then (0, s)
      else (1, enqueue_job env tid typ payload (set_last tid kind key s)))"

section \<open>When a job is due\<close>

definition current_time :: "wall_time \<Rightarrow> string" where
  "current_time now = wall_text ''%H:%M'' now"

definition current_day :: "wall_time \<Rightarrow> string" where
  "current_day now = py_lower (wall_text ''%a'' now)"

definition today_key :: "wall_time \<Rightarrow> string" where
  "today_key now = wall_text ''%Y-%m-%d'' now"

definition daily_due :: "tenant_config \<Rightarrow> wall_time \<Rightarrow> bool" where
  "daily_due c now \<longleftrightarrow>
     tc_daily_digest_time c = current_time now
     \<and> current_day now \<in> set (map (\<lambda>d. py_lower (py_strip d)) (py_split CHR '','' (tc_daily_digest_days c)))"

definition overdue_due :: "tenant_config \<Rightarrow> wall_time \<Rightarrow> bool" where
  "overdue_due c now \<longleftrightarrow>
     tc_overdue_alert_enabled c \<and> tc_overdue_alert_interval_hours c > 0
     \<and> (wall_secs now div 3600) mod tc_overdue_alert_interval_hours c = 0
     \<and> wall_secs now div 60 mod 60 = 0"

definition weekend_due :: "tenant_config \<Rightarrow> wall_time \<Rightarrow> bool" where
  "weekend_due c now \<longleftrightarrow>
     tc_weekend_planner_enabled c \<and> current_day now = ''fri'' \<and> current_time now = ''17:00''"

definition weekly_due :: "tenant_config \<Rightarrow> wall_time \<Rightarrow> bool" where
  "weekly_due c now \<longleftrightarrow>
     tc_weekly_review_enabled c \<and> current_day now = ''sun'' \<and> current_time now = ''20:00''"

section \<open>A tick\<close>

definition check_tenant :: "'s sched_env \<Rightarrow> tenant \<Rightarrow> wall_time \<Rightarrow> sched \<Rightarrow> nat \<times> sched" where
  "check_tenant env t now s =
     (let c = tn_config t; tid = tn_tenant_id t;
          s0 = (if has_key (sc_last_check s) tid then s
                else s\<lparr>sc_last_check := AList.update tid [] (sc_last_check s)\<rparr>);
          (n1, s1) = (if daily_due c now
                      then fire env tid ''daily'' (''daily_'' @ today_key now) PIPELINE_RUN
                             [(''source'', JStr ''scheduled_daily'')] s0
                      else (0, s0));
          (n2, s2) = (if overdue_due c now
                      then fire env tid ''overdue''
                             (''overdue_'' @ today_key now @ ''_'' @ int_text (wall_secs now div 3600)) PIPELINE_RUN
                             [(''source'', JStr ''scheduled_overdue'')] s1
                      else (0, s1));
          (n3, s3) = (if weekend_due c now
                      then fire env tid ''weekend'' (''weekend_'' @ today_key now) PIPELINE_RUN
                             [(''source'', JStr ''scheduled_weekend''), (''weekend_mode'', JBool True)] s2
                      else (0, s2));
          (n4, s4) = (if weekly_due c now
                      then fire env tid ''weekly'' (''weekly_'' @ today_key now) DIGEST_GENERATE
                             [(''source'', JStr ''scheduled_weekly'')] s3
                      else (0, s3))
      in (n1 + n2 + n3 + n4, s4))"

fun tick_tenants :: "'s sched_env \<Rightarrow> tenant list \<Rightarrow> wall_time \<Rightarrow> sched \<Rightarrow> nat \<times> sched" where
  "tick_tenants env [] now s = (0, s)"
| "tick_tenants env (t # ts) now s =
     (if \<not> tn_is_active t then tick_tenants env ts now s
      else let (n, s') = check_tenant env t now s; (m, s'') = tick_tenants env ts now s' in (n + m, s''))"

definition tick :: "'s sched_env \<Rightarrow> datetime \<Rightarrow> wall_time \<Rightarrow> sched \<Rightarrow> ('s, nat \<times> sched) io" where
  "tick env loaded_at now s =
     io_bind (list_tenants (se_tm env) loaded_at) (\<lambda>ts. io_ret (tick_tenants env ts now s))"

text \<open>The loop: a tick that raises is logged and changes nothing.\<close>

fun run_ticks :: "'s sched_env \<Rightarrow> (datetime \<times> wall_time) list \<Rightarrow> sched \<Rightarrow> nat \<times> 's \<Rightarrow> sched \<times> nat \<times> 's" where
  "run_ticks env [] s st = (s, st)"
| "run_ticks env ((loaded_at, now) # rest) s st =
     (case tick env loaded_at now s st of
        (Inl e, st') \<Rightarrow> run_ticks env rest s st'
      | (Inr (n, s'), st') \<Rightarrow> run_ticks env rest s' st')"

section \<open>What one check changes\<close>

text \<open>The jobs of a tenant in the queue, by source.\<close>

definition jobs :: "sched \<Rightarrow> string \<Rightarrow> string \<Rightarrow> nat" where
  "jobs s tid source =
     length (filter (\<lambda>m. qm_tenant_id m = tid \<and> dget (qm_payload m) ''source'' JNull = JStr source)
               (tq_queue (sc_queue s)))"

definition view :: "string \<Rightarrow> string \<Rightarrow> string \<Rightarrow> sched \<Rightarrow> string option \<times> nat" where
  "view tid kind source s = (last_of s tid kind, jobs s tid source)"

definition fired :: "string \<Rightarrow> string option \<times> nat \<Rightarrow> string option \<times> nat" where
  "fired key v = (Some key, if fst v = Some key then snd v else snd v + 1)"

lemma fired_twice [simp]: "fired key (fired key v) = fired key v"
  by (simp add: fired_def)

lemma view_init [simp]:
  "view tid kind source (s\<lparr>sc_last_check := AList.update tid' [] (sc_last_check s)\<rparr>) = view tid kind source s"
  if "\<not> has_key (sc_last_check s) tid'"
  using that by (auto simp: view_def last_of_def jobs_def has_key_def dget_def)

lemma fire_view:
  assumes "payload = (''source'', JStr source') # rest"
  shows "view tid kind source (snd (fire env tid' kind' key typ payload s)) =
    (if tid' = tid \<and> kind' = kind \<and> source' = source then fired key (view tid kind source s)
     else if tid' = tid \<and> (kind' = kind \<or> source' = source)
     then view tid kind source (snd (fire env tid' kind' key typ payload s))
     else view tid kind source s)"
  unfolding assms
  by (auto simp: fire_def view_def fired_def last_of_def set_last_def enqueue_job_def enqueue_def new_message_def
      jobs_def)

lemma today_key_date: "today_key now = date_iso (wall_date now)"
  by (simp add: today_key_def wall_text_def date_iso_def date_text_def)

lemma check_daily:
  "view tid ''daily'' ''scheduled_daily'' (snd (check_tenant env t now s)) =
     (if tn_tenant_id t = tid \<and> daily_due (tn_config t) now
      then fired (''daily_'' @ date_iso (wall_date now)) (view tid ''daily'' ''scheduled_daily'' s)
      else view tid ''daily'' ''scheduled_daily'' s)"
  by (simp add: check_tenant_def Let_def split_beta fire_view today_key_date)

lemma tick_daily:
  assumes "distinct (map tn_tenant_id ts)" and "t \<in> set ts" and "tn_is_active t"
  shows "view (tn_tenant_id t) ''daily'' ''scheduled_daily'' (snd (tick_tenants env ts now s)) =
     (if daily_due (tn_config t) now
      then fired (''daily_'' @ date_iso (wall_date now)) (view (tn_tenant_id t) ''daily'' ''scheduled_daily'' s)
      else view (tn_tenant_id t) ''daily'' ''scheduled_daily'' s)"
proof -
  have other: "view tid ''daily'' ''scheduled_daily'' (snd (tick_tenants env ts now s)) =
      view tid ''daily'' ''scheduled_daily'' s" if "tid \<notin> tn_tenant_id ` set ts" for tid ts s
    using that by (induction ts arbitrary: s) (auto simp: split_beta check_daily Let_def)
  from assms show ?thesis
  proof (induction ts arbitrary: s)
    case Nil
    then show ?case by simp
  next
    case (Cons x ts)
    show ?case
    proof (cases "x = t")
      case True
      with Cons.prems have "tn_tenant_id t \<notin> tn_tenant_id ` set ts" by simp
      from other [OF this] True Cons.prems(3) show ?thesis by (simp add: split_beta check_daily Let_def)
    next
      case False
      with Cons.prems have "t \<in> set ts" "tn_tenant_id x \<noteq> tn_tenant_id t" by auto
      with Cons.IH Cons.prems show ?thesis by (simp add: split_beta check_daily Let_def)
    qed
  qed
qed

lemma ticks_daily:
  assumes "\<And>n loaded_at. list_tenants (se_tm env) loaded_at (n, fs) = (Inr ts, n, fs)"
    and "distinct (map tn_tenant_id ts)" and "t \<in> set ts" and "tn_is_active t"
    and "\<forall>tk \<in> set ticks. wall_date (snd tk) = d"
  shows "view (tn_tenant_id t) ''daily'' ''scheduled_daily'' (fst (run_ticks env ticks s (n, fs))) =
     (if \<exists>tk \<in> set ticks. daily_due (tn_config t) (snd tk)
      then fired (''daily_'' @ date_iso d) (view (tn_tenant_id t) ''daily'' ''scheduled_daily'' s)
      else view (tn_tenant_id t) ''daily'' ''scheduled_daily'' s)"
  using assms(5)
proof (induction ticks arbitrary: s)
  case Nil
  then show ?case by simp
next
  case (Cons tk ticks)
  obtain l now where tk: "tk = (l, now)" by (cases tk)
  obtain m s1 where s1: "tick_tenants env ts now s = (m, s1)" by (cases "tick_tenants env ts now s")
  have step: "run_ticks env (tk # ticks) s (n, fs) = run_ticks env ticks s1 (n, fs)"
    by (simp add: tk tick_def io_bind_run assms(1) s1)
  from tick_daily [OF assms(2-4), of env now s] s1
  have v: "view (tn_tenant_id t) ''daily'' ''scheduled_daily'' s1 =
     (if daily_due (tn_config t) now
      then fired (''daily_'' @ date_iso d) (view (tn_tenant_id t) ''daily'' ''scheduled_daily'' s)
      else view (tn_tenant_id t) ''daily'' ''scheduled_daily'' s)"
    using Cons.prems by (simp add: tk)
  show ?case unfolding step using Cons.IH [of s1] Cons.prems v by (simp add: tk)
qed

section \<open>Properties\<close>


definition sample_sched_env :: "files sched_env" where
  "sample_sched_env = \<lparr>se_tm = sample_env, se_ids = (\<lambda>_. ''00''), se_created = (\<lambda>_. sample_time)\<rparr>"

lemma sample_listing: "list_tenants sample_env loaded_at (n, sample_files) = (Inr [sample_tenant], n, sample_files)"
proof -
  have "local_list_keys (py_path ''/data'') ''tenants/'' sample_files = Inr [''tenants/tn_1.json'']"
    by code_simp
  moreover have "get_tenant sample_env loaded_at ''tn_1'' (n, sample_files) = (Inr (Some sample_tenant), n, sample_files)"
    by (rule holds_get [OF sample_holds])
  ultimately show ?thesis
    by (auto simp: list_tenants_def io_bind_run io_list_def sample_env_be local_backend_def tenants_prefix_def
        suffix_def get_tenant_def tenant_path_def loaded_truthy split: option.splits sum.splits)
qed


end
