(* ===== verification/UserManager.thy ===== *)
theory UserManager
  imports StoreIO TenantModels
begin

text \<open>
  \<open>src/brain/tenant/user_manager.py\<close>: the users on a storage backend, the index from Google subjects
  to user ids, and the invitations. New ids and codes and the current time are arguments; the lock
  around the index makes its update one step. A stored document whose values have other types than
  the writer's counts as an error.
\<close>

section \<open>The stored user\<close>

record 's um_env =
  um_be :: "'s backend"
  um_iso :: "datetime \<Rightarrow> string"
  um_from_iso :: "string \<Rightarrow> datetime option"

definition user_path :: "string \<Rightarrow> string" where
  "user_path uid = ''users/'' @ uid @ ''.json''"

definition index_key :: string where
  "index_key = ''users/_index.json''"

definition invite_path :: "string \<Rightarrow> string" where
  "invite_path code = ''invites/'' @ code @ ''.json''"

definition user_to_dict :: "'s um_env \<Rightarrow> user \<Rightarrow> jdict" where
  "user_to_dict env u =
     [(''user_id'', JStr (us_user_id u)), (''tenant_id'', JStr (us_tenant_id u)),
      (''google_sub'', JStr (us_google_sub u)), (''email'', JStr (us_email u)),
      (''name'', JStr (us_name u)), (''picture_url'', JStr (us_picture_url u)),
      (''user_role'', JStr (role_value (us_user_role u))), (''is_active'', JBool (us_is_active u)),
      (''created_at'', JStr (um_iso env (us_created_at u))),
      (''last_login'', case us_last_login u of Some t \<Rightarrow> JStr (um_iso env t) | None \<Rightarrow> JNull),
      (''login_count'', JInt (us_login_count u))]"

text \<open>\<open>datetime.fromisoformat(d[k]) if d.get(k) else ...\<close>.\<close>

definition stamp_field :: "'s um_env \<Rightarrow> jdict \<Rightarrow> string \<Rightarrow> datetime option res" where
  "stamp_field env d k =
     (let v = dget d k JNull in
      if \<not> jtruthy v then Inr None
      else case v of
             JStr s \<Rightarrow> rbind (iso_res (um_from_iso env) s) (\<lambda>x. Inr (Some x))
           | _ \<Rightarrow> Inl (OtherError ''TypeError''))"

definition user_from_dict :: "'s um_env \<Rightarrow> datetime \<Rightarrow> jdict \<Rightarrow> user res" where
  "user_from_dict env now d =
     rbind (str_field d ''user_id'' None) (\<lambda>uid.
     rbind (str_field d ''tenant_id'' None) (\<lambda>tid.
     rbind (str_field d ''google_sub'' None) (\<lambda>sub.
     rbind (str_field d ''email'' None) (\<lambda>email.
     rbind (str_field d ''name'' (Some [])) (\<lambda>name.
     rbind (str_field d ''picture_url'' (Some [])) (\<lambda>picture.
     rbind (rbind (str_field d ''user_role'' (Some ''member'')) role_of) (\<lambda>role.
     rbind (bool_field d ''is_active'' True) (\<lambda>active.
     rbind (stamp_field env d ''created_at'') (\<lambda>created.
     rbind (stamp_field env d ''last_login'') (\<lambda>last_login.
     rbind (int_field d ''login_count'' 0) (\<lambda>logins.
       Inr \<lparr>us_user_id = uid, us_tenant_id = tid, us_google_sub = sub, us_email = email, us_name = name,
            us_picture_url = picture, us_user_role = role, us_is_active = active,
            us_created_at = (case created of Some x \<Rightarrow> x | None \<Rightarrow> now),
            us_last_login = last_login, us_login_count = logins\<rparr>)))))))))))"

definition user_from_json :: "'s um_env \<Rightarrow> datetime \<Rightarrow> json \<Rightarrow> user res" where
  "user_from_json env now v =
     (case v of JObj d \<Rightarrow> user_from_dict env now d | _ \<Rightarrow> Inl (OtherError ''TypeError''))"

section \<open>Lookup\<close>

definition get_user :: "'s um_env \<Rightarrow> datetime \<Rightarrow> string \<Rightarrow> ('s, user option) io" where
  "get_user env now uid =
     io_bind (io_read (um_be env) (user_path uid)) (\<lambda>data.
       case data of
         None \<Rightarrow> io_ret None
       | Some v \<Rightarrow> io_bind (io_res (user_from_json env now v)) (\<lambda>u. io_ret (Some u)))"

text \<open>A stored value that is not a dictionary counts as an empty index.\<close>

definition read_index :: "'s um_env \<Rightarrow> ('s, jdict) io" where
  "read_index env =
     io_bind (io_read (um_be env) index_key) (\<lambda>data.
       io_ret (case data of Some (JObj d) \<Rightarrow> d | _ \<Rightarrow> []))"

definition update_index :: "'s um_env \<Rightarrow> string \<Rightarrow> string \<Rightarrow> ('s, unit) io" where
  "update_index env sub uid =
     io_bind (read_index env) (\<lambda>index.
       io_write (um_be env) index_key (JObj (AList.update sub (JStr uid) index)))"

definition get_user_by_google_sub :: "'s um_env \<Rightarrow> datetime \<Rightarrow> string \<Rightarrow> ('s, user option) io" where
  "get_user_by_google_sub env now sub =
     io_bind (read_index env) (\<lambda>index.
       case dget index sub JNull of
         JNull \<Rightarrow> io_ret None
       | JStr uid \<Rightarrow> get_user env now uid
       | _ \<Rightarrow> io_raise (OtherError ''TypeError''))"

text \<open>The users the index lists, one read after the other, that are found and satisfy a condition.\<close>

fun first_user :: "'s um_env \<Rightarrow> datetime \<Rightarrow> (user \<Rightarrow> bool) \<Rightarrow> jdict \<Rightarrow> ('s, user option) io" where
  "first_user env now P [] = io_ret None"
| "first_user env now P ((sub, v) # rest) =
     io_bind (io_res (case v of JStr uid \<Rightarrow> Inr uid | _ \<Rightarrow> Inl (OtherError ''TypeError''))) (\<lambda>uid.
     io_bind (get_user env now uid) (\<lambda>found.
       case found of
         Some u \<Rightarrow> if P u then io_ret (Some u) else first_user env now P rest
       | None \<Rightarrow> first_user env now P rest))"

fun all_users :: "'s um_env \<Rightarrow> datetime \<Rightarrow> (user \<Rightarrow> bool) \<Rightarrow> jdict \<Rightarrow> ('s, user list) io" where
  "all_users env now P [] = io_ret []"
| "all_users env now P ((sub, v) # rest) =
     io_bind (io_res (case v of JStr uid \<Rightarrow> Inr uid | _ \<Rightarrow> Inl (OtherError ''TypeError''))) (\<lambda>uid.
     io_bind (get_user env now uid) (\<lambda>found.
     io_bind (all_users env now P rest) (\<lambda>us.
       io_ret (case found of Some u \<Rightarrow> if P u then u # us else us | None \<Rightarrow> us))))"

definition get_user_by_email :: "'s um_env \<Rightarrow> datetime \<Rightarrow> string \<Rightarrow> ('s, user option) io" where
  "get_user_by_email env now email =
     io_bind (read_index env) (first_user env now (\<lambda>u. py_lower (us_email u) = py_lower email))"

definition list_users :: "'s um_env \<Rightarrow> datetime \<Rightarrow> string \<Rightarrow> ('s, user list) io" where
  "list_users env now tid = io_bind (read_index env) (all_users env now (\<lambda>u. us_tenant_id u = tid))"

section \<open>Create and update\<close>

definition save_user :: "'s um_env \<Rightarrow> user \<Rightarrow> ('s, unit) io" where
  "save_user env u = io_write (um_be env) (user_path (us_user_id u)) (JObj (user_to_dict env u))"

definition create_user ::
    "'s um_env \<Rightarrow> string \<Rightarrow> datetime \<Rightarrow> string \<Rightarrow> string \<Rightarrow> string \<Rightarrow> string \<Rightarrow> string \<Rightarrow> user_role \<Rightarrow> ('s, user) io" where
  "create_user env random_hex now tid sub email name picture role =
     (let uid = ''usr_'' @ random_hex;
          u = \<lparr>us_user_id = uid, us_tenant_id = tid, us_google_sub = sub, us_email = email, us_name = name,
               us_picture_url = picture, us_user_role = role, us_is_active = True, us_created_at = now,
               us_last_login = None, us_login_count = 0\<rparr>
      in io_bind (save_user env u) (\<lambda>_.
         io_bind (update_index env sub uid) (\<lambda>_. io_ret u)))"

definition update_user_role :: "'s um_env \<Rightarrow> datetime \<Rightarrow> string \<Rightarrow> user_role \<Rightarrow> ('s, user option) io" where
  "update_user_role env now uid role =
     io_bind (get_user env now uid) (\<lambda>found.
       case found of
         None \<Rightarrow> io_ret None
       | Some u \<Rightarrow> (let u = u\<lparr>us_user_role := role\<rparr>
                    in io_bind (save_user env u) (\<lambda>_. io_ret (Some u))))"

definition deactivate_user :: "'s um_env \<Rightarrow> datetime \<Rightarrow> string \<Rightarrow> ('s, bool) io" where
  "deactivate_user env now uid =
     io_bind (get_user env now uid) (\<lambda>found.
       case found of
         None \<Rightarrow> io_ret False
       | Some u \<Rightarrow> io_bind (save_user env (u\<lparr>us_is_active := False\<rparr>)) (\<lambda>_. io_ret True))"

definition record_login :: "'s um_env \<Rightarrow> datetime \<Rightarrow> user \<Rightarrow> ('s, user) io" where
  "record_login env now u =
     (let u = u\<lparr>us_last_login := Some now, us_login_count := us_login_count u + 1\<rparr>
      in io_bind (save_user env u) (\<lambda>_. io_ret u))"

definition find_or_create_user ::
    "'s um_env \<Rightarrow> string \<Rightarrow> datetime \<Rightarrow> string \<Rightarrow> string \<Rightarrow> string \<Rightarrow> string \<Rightarrow> string \<Rightarrow> user_role \<Rightarrow> ('s, user) io" where
  "find_or_create_user env random_hex now tid sub email name picture default_role =
     io_bind (get_user_by_google_sub env now sub) (\<lambda>existing.
       case existing of
         Some u \<Rightarrow> record_login env now
                     (u\<lparr>us_name := (if name = [] then us_name u else name),
                        us_picture_url := (if picture = [] then us_picture_url u else picture)\<rparr>)
       | None \<Rightarrow> io_bind (create_user env random_hex now tid sub email name picture default_role)
                   (record_login env now))"

section \<open>Invitations\<close>

definition create_invite ::
    "'s um_env \<Rightarrow> string \<Rightarrow> datetime \<Rightarrow> string \<Rightarrow> string \<Rightarrow> user_role \<Rightarrow> ('s, string) io" where
  "create_invite env code now tid email role =
     io_bind (io_write (um_be env) (invite_path code)
                (JObj [(''invite_code'', JStr code), (''tenant_id'', JStr tid), (''email'', JStr (py_lower email)),
                       (''role'', JStr (role_value role)), (''created_at'', JStr (um_iso env now)),
                       (''used'', JBool False)])) (\<lambda>_. io_ret code)"

definition redeem_invite ::
    "'s um_env \<Rightarrow> datetime \<Rightarrow> string \<Rightarrow> string \<Rightarrow> string \<Rightarrow> ('s, jdict option) io" where
  "redeem_invite env now code sub email =
     io_bind (io_read (um_be env) (invite_path code)) (\<lambda>data.
       case data of
         None \<Rightarrow> io_ret None
       | Some (JObj d) \<Rightarrow>
           if jtruthy (dget d ''used'' JNull) then io_ret None
           else io_bind (io_res (str_field d ''email'' (Some []))) (\<lambda>invited.
             if py_lower invited \<noteq> py_lower email then io_ret None
             else (let d = AList.update ''redeemed_at'' (JStr (um_iso env now))
                             (AList.update ''redeemed_by'' (JStr sub) (AList.update ''used'' (JBool True) d))
                   in io_bind (io_write (um_be env) (invite_path code) (JObj d)) (\<lambda>_. io_ret (Some d))))
       | Some _ \<Rightarrow> io_raise (OtherError ''AttributeError''))"

end
