(* ===== verification/UserGuarantees.thy ===== *)
theory UserGuarantees
  imports UserManager TenantGuarantees
begin

text \<open>
  What the user manager guarantees: the index keeps pointing every Google subject at its own user,
  a login finds or makes exactly that user, and an invitation is redeemed at most once.
\<close>

section \<open>The stored documents read back\<close>

definition iso_good :: "'s um_env \<Rightarrow> bool" where
  "iso_good env \<longleftrightarrow> (\<forall>x. um_from_iso env (um_iso env x) = Some x \<and> um_iso env x \<noteq> [])"

lemma user_round_trip: "iso_good env \<Longrightarrow> user_from_dict env now (user_to_dict env u) = Inr u"
  by (cases "us_last_login u")
    (simp_all add: user_from_dict_def user_to_dict_def stamp_field_def iso_good_def iso_res_def role_round_trip Let_def)

lemma user_paths_differ: "user_path a = user_path b \<longleftrightarrow> a = b"
    "simple_id b \<Longrightarrow> invite_path a \<noteq> user_path b" "user_path a \<noteq> invite_path b"
  by (simp_all add: user_path_def invite_path_def)

lemma user_path_not_index: "hd uid = CHR ''u'' \<Longrightarrow> user_path uid \<noteq> index_key"
  by (cases uid) (auto simp: user_path_def index_key_def)

lemma user_keys_canonical: "simple_id uid \<Longrightarrow> canonical_key (user_path uid)" "canonical_key index_key"
    "simple_id code \<Longrightarrow> canonical_key (invite_path code)"
  using canonical_two [of "''users''" uid] canonical_two [of "''users''" "''_index''"] canonical_two [of "''invites''" code]
  by (simp_all add: user_path_def index_key_def invite_path_def simple_id_def)

section \<open>The invariant of the index\<close>

definition index_doc :: "json option res \<Rightarrow> jdict res" where
  "index_doc r = (case r of Inr (Some (JObj d)) \<Rightarrow> Inr d | Inr _ \<Rightarrow> Inr [] | Inl e \<Rightarrow> Inl e)"

text \<open>What the storage holds, as a function of the key.\<close>

definition points :: "(string \<Rightarrow> json option res) \<Rightarrow> string \<Rightarrow> string \<Rightarrow> bool" where
  "points R sub uid \<longleftrightarrow> (\<exists>d. index_doc (R index_key) = Inr d \<and> map_of d sub = Some (JStr uid))"

definition user_id_ok :: "string \<Rightarrow> bool" where
  "user_id_ok uid \<longleftrightarrow> simple_id uid \<and> uid \<noteq> [] \<and> hd uid = CHR ''u''"

definition user_doc :: "'s um_env \<Rightarrow> user \<Rightarrow> json option res" where
  "user_doc env u = Inr (Some (JObj (user_to_dict env u)))"

definition users_ok :: "'s um_env \<Rightarrow> (string \<Rightarrow> json option res) \<Rightarrow> bool" where
  "users_ok env R \<longleftrightarrow>
     (\<exists>d. index_doc (R index_key) = Inr d)
     \<and> (\<forall>uid. user_id_ok uid \<longrightarrow> R (user_path uid) = Inr None
          \<or> (\<exists>u. R (user_path uid) = user_doc env u \<and> us_user_id u = uid))
     \<and> (\<forall>d sub v. index_doc (R index_key) = Inr d \<longrightarrow> map_of d sub = Some v \<longrightarrow>
         (\<exists>uid u. v = JStr uid \<and> user_id_ok uid \<and> R (user_path uid) = user_doc env u
            \<and> us_user_id u = uid \<and> us_google_sub u = sub))"

lemma users_ok_points:
  assumes "users_ok env R" and "points R sub uid"
  shows "user_id_ok uid \<and> (\<exists>u. R (user_path uid) = user_doc env u \<and> us_user_id u = uid \<and> us_google_sub u = sub)"
  using assms unfolding users_ok_def points_def by fastforce

lemma users_ok_cong:
  assumes "R' index_key = R index_key" and "\<And>uid. user_id_ok uid \<Longrightarrow> R' (user_path uid) = R (user_path uid)"
  shows "users_ok env R' \<longleftrightarrow> users_ok env R" and "points R' sub uid \<longleftrightarrow> points R sub uid"
  by (simp_all add: users_ok_def points_def assms cong: conj_cong)

text \<open>Replacing a user's document by one of the same id and of the subject that points at it, if any.\<close>

lemma users_ok_save:
  assumes "users_ok env R" and "R' index_key = R index_key"
    and "\<And>uid. user_id_ok uid \<Longrightarrow> R' (user_path uid) = (if uid = us_user_id u then user_doc env u else R (user_path uid))"
    and "\<And>sub. points R sub (us_user_id u) \<Longrightarrow> us_google_sub u = sub"
  shows "users_ok env R'"
  unfolding users_ok_def assms(2)
proof (intro conjI allI impI)
  show "\<exists>d. index_doc (R index_key) = Inr d" using assms(1) by (simp add: users_ok_def)
  fix uid assume "user_id_ok uid"
  with assms(3) [OF this] assms(1)
  show "R' (user_path uid) = Inr None \<or> (\<exists>u. R' (user_path uid) = user_doc env u \<and> us_user_id u = uid)"
    unfolding users_ok_def by (cases "uid = us_user_id u") auto
next
  fix d sub v assume d: "index_doc (R index_key) = Inr d" and v: "map_of d sub = Some v"
  with assms(1) obtain uid w where w: "v = JStr uid" "user_id_ok uid"
    "R (user_path uid) = user_doc env w" "us_user_id w = uid" "us_google_sub w = sub"
    unfolding users_ok_def by blast
  have "points R sub uid" using d v w(1) by (simp add: points_def)
  with assms(3) [OF w(2)] assms(4) w
  show "\<exists>uid u. v = JStr uid \<and> user_id_ok uid \<and> R' (user_path uid) = user_doc env u
      \<and> us_user_id u = uid \<and> us_google_sub u = sub"
    by (cases "uid = us_user_id u") auto
qed

lemma users_ok_index:
  assumes "users_ok env R" and "index_doc (R index_key) = Inr d"
    and "R' index_key = Inr (Some (JObj (AList.update sub (JStr uid) d)))"
    and "\<And>uid. user_id_ok uid \<Longrightarrow> R' (user_path uid) = R (user_path uid)"
    and "user_id_ok uid" and "R (user_path uid) = user_doc env u"
    and "us_user_id u = uid" and "us_google_sub u = sub"
  shows "users_ok env R'"
proof -
  have idx: "index_doc (R' index_key) = Inr (AList.update sub (JStr uid) d)" by (simp add: assms(3) index_doc_def)
  show ?thesis
    unfolding users_ok_def idx
  proof (intro conjI allI impI)
    fix x assume x: "user_id_ok x"
    with assms(1) show "R' (user_path x) = Inr None \<or> (\<exists>u. R' (user_path x) = user_doc env u \<and> us_user_id u = x)"
      unfolding users_ok_def assms(4) [OF x] by blast
  next
    fix e sub' v assume e: "Inr (AList.update sub (JStr uid) d) = Inr e" and v: "map_of e sub' = Some v"
    show "\<exists>uid u. v = JStr uid \<and> user_id_ok uid \<and> R' (user_path uid) = user_doc env u
        \<and> us_user_id u = uid \<and> us_google_sub u = sub'"
    proof (cases "sub' = sub")
      case True
      with e v have v: "v = JStr uid" by auto
      have "R' (user_path uid) = user_doc env u" using assms(4) [OF assms(5)] assms(6) by simp
      with v True assms(5,7,8) show ?thesis by (intro exI [of _ uid] exI [of _ u] conjI) simp_all
    next
      case False
      with e v have "map_of d sub' = Some v" by auto
      with assms(1,2) obtain x w where w: "v = JStr x" "user_id_ok x" "R (user_path x) = user_doc env w"
        "us_user_id w = x" "us_google_sub w = sub'" unfolding users_ok_def by blast
      with assms(4) [OF w(2)] show ?thesis by (intro exI [of _ x] exI [of _ w] conjI) simp_all
    qed
  qed simp
qed

section \<open>The operations\<close>

lemma lookup_points:
  assumes "iso_good env" and "points (\<lambda>k. be_read_json (um_be env) k s) sub uid"
    and "be_read_json (um_be env) (user_path uid) s = user_doc env u"
  shows "get_user_by_google_sub env now sub (n, s) = (Inr (Some u), n, s)"
  using assms
  by (auto simp: points_def get_user_by_google_sub_def read_index_def io_bind_run index_doc_def get_user_def
      user_doc_def user_from_json_def user_round_trip dget_def split: sum.splits option.splits json.splits)

lemma lookup_none:
  assumes "users_ok env (\<lambda>k. be_read_json (um_be env) k s)"
    and "\<nexists>uid. points (\<lambda>k. be_read_json (um_be env) k s) sub uid"
  shows "get_user_by_google_sub env now sub (n, s) = (Inr None, n, s)"
proof -
  obtain d where d: "index_doc (be_read_json (um_be env) index_key s) = Inr d"
    using assms(1) by (auto simp: users_ok_def)
  have "map_of d sub = None"
  proof (rule ccontr)
    assume "map_of d sub \<noteq> None"
    then obtain v where "map_of d sub = Some v" by blast
    with assms d show False unfolding users_ok_def points_def by blast
  qed
  with d show ?thesis
    by (auto simp: get_user_by_google_sub_def read_index_def io_bind_run index_doc_def dget_def
        split: sum.splits option.splits json.splits)
qed

context storage_backend
begin

abbreviation reads :: "'s \<Rightarrow> string \<Rightarrow> json option res" where
  "reads s k \<equiv> be_read_json be k s"

lemma write_step:
  assumes "good s" and "key_ok k" and "doc_ok v" and "io_write be k v (n, s) = (r, n', s')"
  shows "good s'" and "n' = n" and "key_ok k' \<Longrightarrow> reads s' k' =
    (if k' = k then (case r of Inr _ \<Rightarrow> Inr (Some v) | Inl _ \<Rightarrow> reads s k) else reads s k')"
proof -
  from assms(4) have w: "be_write_json be k v s = (r, s')" and n: "n' = n"
    by (auto simp: io_write_def split: prod.splits)
  show "n' = n" by (rule n)
  show "good s'"
    by (cases r) (use w write_good [OF assms(1-3)] write_error [OF assms(1-3)] in auto)
  show "key_ok k' \<Longrightarrow> reads s' k' =
    (if k' = k then (case r of Inr _ \<Rightarrow> Inr (Some v) | Inl _ \<Rightarrow> reads s k) else reads s k')"
    by (cases r) (use w write_read [OF assms(1-3)] write_error [OF assms(1-3)] write_frame [OF assms(1-3) w] in auto)
qed


text \<open>The backend keeps its promises for user ids, invitations and the index.\<close>

definition serves :: "'s um_env \<Rightarrow> bool" where
  "serves env \<longleftrightarrow> um_be env = be \<and> (\<forall>k. canonical_key k \<longrightarrow> key_ok k) \<and> (\<forall>d. doc_ok (JObj d))"

lemma serves_keys:
  "serves env \<Longrightarrow> user_id_ok uid \<Longrightarrow> key_ok (user_path uid)" "serves env \<Longrightarrow> key_ok index_key"
  "serves env \<Longrightarrow> simple_id code \<Longrightarrow> key_ok (invite_path code)"
  by (simp_all add: serves_def user_id_ok_def user_keys_canonical)

lemma user_not_index [simp]: "user_id_ok uid \<Longrightarrow> user_path uid \<noteq> index_key"
  by (simp add: user_id_ok_def user_path_not_index)

lemma save_step:
  assumes "serves env" and "good s" and "users_ok env (reads s)" and "user_id_ok (us_user_id u)"
    and "\<And>sub. points (reads s) sub (us_user_id u) \<Longrightarrow> us_google_sub u = sub"
    and "save_user env u (n, s) = (r, n', s')"
  shows "good s'" and "n' = n" and "users_ok env (reads s')" and "points (reads s') sub uid = points (reads s) sub uid"
    and "r = Inr () \<Longrightarrow> reads s' (user_path (us_user_id u)) = user_doc env u"
proof -
  have w: "io_write be (user_path (us_user_id u)) (JObj (user_to_dict env u)) (n, s) = (r, n', s')"
    using assms(1,6) by (simp add: save_user_def serves_def)
  have "doc_ok (JObj (user_to_dict env u))" using assms(1) by (simp add: serves_def)
  note st = write_step [OF assms(2) serves_keys(1) [OF assms(1,4)] this w]
  show "good s'" "n' = n" by (rule st)+
  have idx: "reads s' index_key = reads s index_key"
    using st(3) [OF serves_keys(2) [OF assms(1)]] user_not_index [OF assms(4)] by simp
  have usr: "reads s' (user_path uid) = (if uid = us_user_id u
      then (case r of Inr _ \<Rightarrow> user_doc env u | Inl _ \<Rightarrow> reads s (user_path uid)) else reads s (user_path uid))"
    if "user_id_ok uid" for uid
    using st(3) [OF serves_keys(1) [OF assms(1) that]] by (auto simp: user_paths_differ user_doc_def split: sum.split)
  show "points (reads s') sub uid = points (reads s) sub uid" by (simp add: points_def idx)
  show "users_ok env (reads s')"
  proof (cases r)
    case (Inl e)
    have "users_ok env (reads s') \<longleftrightarrow> users_ok env (reads s)"
      by (rule users_ok_cong(1) [where R' = "reads s'" and R = "reads s", OF idx]) (simp add: usr Inl)
    with assms(3) show ?thesis by simp
  next
    case (Inr x)
    show ?thesis
      by (rule users_ok_save [where R = "reads s" and R' = "reads s'" and u = u, OF assms(3) idx _ assms(5)])
        (simp_all add: usr Inr)
  qed
  show "r = Inr () \<Longrightarrow> reads s' (user_path (us_user_id u)) = user_doc env u" using usr [OF assms(4)] by simp
qed

lemma index_step:
  assumes "serves env" and "good s" and "users_ok env (reads s)" and "user_id_ok uid"
    and "reads s (user_path uid) = user_doc env u" and "us_user_id u = uid" and "us_google_sub u = sub"
    and "update_index env sub uid (n, s) = (r, n', s')" and "\<nexists>x. points (reads s) sub x"
  shows "good s'" and "n' = n" and "users_ok env (reads s')"
    and "points (reads s) sub' x \<Longrightarrow> points (reads s') sub' x"
    and "reads s' (user_path uid) = user_doc env u" and "r = Inr () \<Longrightarrow> points (reads s') sub uid"
proof -
  obtain d where d: "index_doc (reads s index_key) = Inr d" using assms(3) by (auto simp: users_ok_def)
  then have ri: "read_index env (n, s) = (Inr d, n, s)"
    using assms(1) by (auto simp: read_index_def io_bind_run serves_def index_doc_def
        split: sum.splits option.splits json.splits)
  let ?d = "AList.update sub (JStr uid) d"
  have w: "io_write be index_key (JObj ?d) (n, s) = (r, n', s')"
    using assms(1,8) by (simp add: update_index_def io_bind_run ri serves_def)
  have "doc_ok (JObj ?d)" using assms(1) by (simp add: serves_def)
  note st = write_step [OF assms(2) serves_keys(2) [OF assms(1)] this w]
  show "good s'" "n' = n" by (rule st)+
  have usr: "reads s' (user_path x) = reads s (user_path x)" if "user_id_ok x" for x
    using st(3) [OF serves_keys(1) [OF assms(1) that]] that by simp
  then show "reads s' (user_path uid) = user_doc env u" using assms(4,5) by simp
  have idx: "reads s' index_key = (case r of Inr _ \<Rightarrow> Inr (Some (JObj ?d)) | Inl _ \<Rightarrow> reads s index_key)"
    using st(3) [OF serves_keys(2) [OF assms(1)]] by simp
  have pts: "r = Inr () \<Longrightarrow> points (reads s') sub' x \<longleftrightarrow> map_of ?d sub' = Some (JStr x)" for sub' x
    by (simp add: points_def idx index_doc_def)
  show "r = Inr () \<Longrightarrow> points (reads s') sub uid" by (simp add: pts)
  show "points (reads s) sub' x \<Longrightarrow> points (reads s') sub' x"
  proof (cases r)
    case (Inr y)
    assume p: "points (reads s) sub' x"
    with assms(9) have "sub' \<noteq> sub" by blast
    with p d Inr pts show ?thesis by (simp add: points_def)
  qed (simp add: points_def idx)
  show "users_ok env (reads s')"
  proof (cases r)
    case (Inl e)
    have "users_ok env (reads s') \<longleftrightarrow> users_ok env (reads s)"
      by (rule users_ok_cong(1) [where R' = "reads s'" and R = "reads s"]) (simp_all add: usr idx Inl)
    with assms(3) show ?thesis by simp
  next
    case (Inr y)
    show ?thesis
      by (rule users_ok_index [where R = "reads s" and R' = "reads s'", OF assms(3) d _ _ assms(4-7)])
        (simp_all add: usr idx Inr)
  qed
qed


lemma pointed_subject:
  assumes "iso_good env" and "users_ok env R" and "R (user_path uid) = user_doc env u" and "points R sub uid"
  shows "us_google_sub u = sub"
proof -
  from users_ok_points [OF assms(2,4)] obtain w where "R (user_path uid) = user_doc env w" "us_google_sub w = sub" by blast
  then have "user_to_dict env w = user_to_dict env u" using assms(3) by (simp add: user_doc_def)
  with user_round_trip [OF assms(1)] have "w = u" by (metis sum.inject(2))
  with \<open>us_google_sub w = sub\<close> show ?thesis by simp
qed

text \<open>A login of a known subject.\<close>

lemma login_known:
  assumes "serves env" and "iso_good env" and "good s" and "users_ok env (reads s)" and "points (reads s) sub uid"
    and "find_or_create_user env hex now tid sub email name picture role (n, s) = (r, n', s')"
  shows "\<exists>u u'. reads s (user_path uid) = user_doc env u \<and> us_google_sub u = sub \<and> us_user_id u = uid
    \<and> get_user_by_google_sub env now sub (n, s) = (Inr (Some u), n, s)
    \<and> u' = u\<lparr>us_name := (if name = [] then us_name u else name),
             us_picture_url := (if picture = [] then us_picture_url u else picture),
             us_last_login := Some now, us_login_count := us_login_count u + 1\<rparr>
    \<and> good s' \<and> n' = n \<and> users_ok env (reads s') \<and> (\<forall>sub' x. points (reads s') sub' x = points (reads s) sub' x)
    \<and> (case r of Inr x \<Rightarrow> x = u' \<and> reads s' (user_path uid) = user_doc env u' | Inl _ \<Rightarrow> True)"
proof -
  from users_ok_points [OF assms(4,5)] obtain u where uid: "user_id_ok uid"
    and u: "reads s (user_path uid) = user_doc env u" "us_user_id u = uid" "us_google_sub u = sub" by blast
  define u' where "u' = u\<lparr>us_name := (if name = [] then us_name u else name),
             us_picture_url := (if picture = [] then us_picture_url u else picture),
             us_last_login := Some now, us_login_count := us_login_count u + 1\<rparr>"
  have be: "um_be env = be" using assms(1) by (simp add: serves_def)
  have get: "get_user_by_google_sub env now sub (n, s) = (Inr (Some u), n, s)"
    by (rule lookup_points [OF assms(2), of s sub uid]) (simp_all add: be assms(5) u)
  obtain rs n1 s1 where sv: "save_user env u' (n, s) = (rs, n1, s1)" by (cases "save_user env u' (n, s)")
  have r: "(r, n', s') = (map_sum id (\<lambda>_. u') rs, n1, s1)"
    using assms(6) sv
    by (auto simp: find_or_create_user_def io_bind_run get record_login_def u'_def Let_def map_sum_def split: sum.splits if_splits)
  have id': "us_user_id u' = uid" "us_google_sub u' = sub" by (simp_all add: u'_def u)
  have pts: "us_google_sub u' = x" if "points (reads s) x (us_user_id u')" for x
    using pointed_subject [OF assms(2,4) u(1)] that id' u(3) by simp
  have ok: "user_id_ok (us_user_id u')" using uid id' by simp
  note st = save_step [OF assms(1,3,4) ok pts sv]
  show ?thesis
    using u get st r id' by (intro exI [of _ u] exI [of _ u']) (cases rs; auto simp: u'_def)
qed

text \<open>A login of a new subject.\<close>

lemma login_new:
  assumes "serves env" and "iso_good env" and "good s" and "users_ok env (reads s)"
    and "\<nexists>uid. points (reads s) sub uid" and "user_id_ok (''usr_'' @ hex)"
    and "reads s (user_path (''usr_'' @ hex)) = Inr None"
    and "find_or_create_user env hex now tid sub email name picture role (n, s) = (r, n', s')"
  shows "good s' \<and> n' = n \<and> users_ok env (reads s')
    \<and> (\<forall>sub' x. points (reads s) sub' x \<longrightarrow> points (reads s') sub' x)
    \<and> (case r of Inr u \<Rightarrow> points (reads s') sub (''usr_'' @ hex) \<and> reads s' (user_path (''usr_'' @ hex)) = user_doc env u
          \<and> us_user_id u = ''usr_'' @ hex \<and> us_google_sub u = sub \<and> us_tenant_id u = tid
          \<and> us_user_role u = role \<and> us_login_count u = 1 | Inl _ \<Rightarrow> True)"
proof -
  let ?uid = "''usr_'' @ hex"
  have be: "um_be env = be" using assms(1) by (simp add: serves_def)
  define u where "u = \<lparr>us_user_id = ?uid, us_tenant_id = tid, us_google_sub = sub, us_email = email, us_name = name,
               us_picture_url = picture, us_user_role = role, us_is_active = True, us_created_at = now,
               us_last_login = None, us_login_count = 0\<rparr>"
  define u' where "u' = u\<lparr>us_last_login := Some now, us_login_count := 1\<rparr>"
  have get: "get_user_by_google_sub env now sub (n, s) = (Inr None, n, s)"
    by (rule lookup_none) (simp_all add: be assms(4,5))
  have run: "io_bind (save_user env u) (\<lambda>_. io_bind (update_index env sub ?uid) (\<lambda>_. io_bind (save_user env u') (\<lambda>_. io_ret u')))
      (n, s) = (r, n', s')"
    using assms(8) unfolding find_or_create_user_def io_bind_run [of "get_user_by_google_sub env now sub"] get
    by (simp add: create_user_def record_login_def u_def u'_def Let_def io_bind_assoc)
  have id: "us_user_id u = ?uid" "us_google_sub u = sub" "us_user_id u' = ?uid" "us_google_sub u' = sub"
    by (simp_all add: u_def u'_def)
  have none: "\<not> points (reads s) x ?uid" for x
    using users_ok_points [OF assms(4), of x ?uid] assms(7) by (auto simp: user_doc_def)
  obtain r1 n1 s1 where sv: "save_user env u (n, s) = (r1, n1, s1)" by (cases "save_user env u (n, s)")
  have ok: "user_id_ok (us_user_id u)" "user_id_ok (us_user_id u')" using assms(6) id by simp_all
  have np: "us_google_sub u = x" if "points (reads s) x (us_user_id u)" for x using that none id by simp
  note st1 = save_step [OF assms(1,3,4) ok(1) np sv]
  show ?thesis
  proof (cases r1)
    case (Inl e)
    with run sv st1 show ?thesis by (auto simp: io_bind_run)
  next
    case (Inr x)
    with st1(5) id have doc1: "reads s1 (user_path ?uid) = user_doc env u" by simp
    obtain r2 n2 s2 where up: "update_index env sub ?uid (n1, s1) = (r2, n2, s2)" by (cases "update_index env sub ?uid (n1, s1)")
    have "\<nexists>x. points (reads s1) sub x" using assms(5) st1(4) by simp
    note st2 = index_step [OF assms(1) st1(1,3) assms(6) doc1 id(1,2) up this]
    show ?thesis
    proof (cases r2)
      case (Inl e)
      with run sv Inr up st1 st2 show ?thesis by (auto simp: io_bind_run)
    next
      case r2: (Inr y)
      obtain r3 n3 s3 where sv3: "save_user env u' (n2, s2) = (r3, n3, s3)" by (cases "save_user env u' (n2, s2)")
      have np2: "us_google_sub u' = x" if "points (reads s2) x (us_user_id u')" for x
        using pointed_subject [OF assms(2) st2(3,5)] that id by simp
      note st3 = save_step [OF assms(1) st2(1,3) ok(2) np2 sv3]
      show ?thesis
        using run sv Inr up r2 sv3 st1(2,4) st2(2,4,6) st3 id
        by (cases r3) (auto simp: io_bind_run u'_def u_def)
    qed
  qed
qed

end

section \<open>Runs of operations\<close>

text \<open>A fresh random id names no stored user.\<close>

inductive user_step :: "'s um_env \<Rightarrow> nat \<times> 's \<Rightarrow> nat \<times> 's \<Rightarrow> bool" for env :: "'s um_env" where
  login: "user_id_ok (''usr_'' @ hex) \<Longrightarrow> be_read_json (um_be env) (user_path (''usr_'' @ hex)) s = Inr None \<Longrightarrow>
    find_or_create_user env hex now tid sub email name picture role (n, s) = (r, st') \<Longrightarrow> user_step env (n, s) st'"
| set_role: "user_id_ok uid \<Longrightarrow> update_user_role env now uid role (n, s) = (r', st') \<Longrightarrow> user_step env (n, s) st'"
| deactivate: "user_id_ok uid \<Longrightarrow> deactivate_user env now uid (n, s) = (b, st') \<Longrightarrow> user_step env (n, s) st'"

context storage_backend
begin

lemma get_user_cases:
  assumes "serves env" and "iso_good env" and "users_ok env (reads s)" and "user_id_ok uid"
  obtains "get_user env now uid (n, s) = (Inr None, n, s)"
  | u where "get_user env now uid (n, s) = (Inr (Some u), n, s)" "us_user_id u = uid"
      "reads s (user_path uid) = user_doc env u"
proof -
  have be: "um_be env = be" using assms(1) by (simp add: serves_def)
  have "reads s (user_path uid) = Inr None
    \<or> (\<exists>u. reads s (user_path uid) = user_doc env u \<and> us_user_id u = uid)"
    using assms(3,4) unfolding users_ok_def by blast
  then show ?thesis
    using that
    by (auto simp: get_user_def io_bind_run be user_doc_def user_from_json_def user_round_trip [OF assms(2)])
qed

text \<open>Saving a changed record of the same user.\<close>

lemma resave:
  assumes "serves env" and "iso_good env" and "good s" and "users_ok env (reads s)" and "user_id_ok uid"
    and "reads s (user_path uid) = user_doc env u" and "us_user_id u' = uid" and "us_google_sub u' = us_google_sub u"
    and "save_user env u' (n, s) = (r, n', s')"
  shows "good s' \<and> users_ok env (reads s') \<and> points (reads s') sub x = points (reads s) sub x"
proof -
  have ok: "user_id_ok (us_user_id u')" using assms(5,7) by simp
  have pts: "us_google_sub u' = y" if "points (reads s) y (us_user_id u')" for y
    using pointed_subject [OF assms(2,4,6)] that assms(7,8) by simp
  show ?thesis using save_step [OF assms(1,3,4) ok pts assms(9)] by simp
qed

lemma user_step_keeps:
  assumes "serves env" and "iso_good env" and "user_step env st st'" and "good (snd st)" and "users_ok env (reads (snd st))"
  shows "good (snd st') \<and> users_ok env (reads (snd st'))
    \<and> (\<forall>sub uid. points (reads (snd st)) sub uid \<longrightarrow> points (reads (snd st')) sub uid)"
  using assms(3-5)
proof (induction rule: user_step.induct)
  case (login hex s now tid sub email name picture role n r st')
  obtain n' s' where st': "st' = (n', s')" by (cases st')
  have free: "reads s (user_path (''usr_'' @ hex)) = Inr None" using login(2) assms(1) by (simp add: serves_def)
  from login(4,5) have ok: "good s" "users_ok env (reads s)" by simp_all
  show ?case
  proof (cases "\<exists>uid. points (reads s) sub uid")
    case True
    then obtain uid where "points (reads s) sub uid" by blast
    from login_known [OF assms(1,2) ok this login(3) [unfolded st']] show ?thesis by (auto simp: st')
  next
    case False
    from login_new [OF assms(1,2) ok False login(1) free login(3) [unfolded st']] show ?thesis by (auto simp: st')
  qed
next
  case (set_role uid now role n s r' st')
  from set_role(3,4) have ok: "good s" "users_ok env (reads s)" by simp_all
  show ?case
  proof (rule get_user_cases [OF assms(1,2) ok(2) set_role(1), of now n])
    assume "get_user env now uid (n, s) = (Inr None, n, s)"
    with set_role(2) ok show ?thesis by (auto simp: update_user_role_def io_bind_run)
  next
    fix u assume u: "get_user env now uid (n, s) = (Inr (Some u), n, s)" "us_user_id u = uid"
      "reads s (user_path uid) = user_doc env u"
    obtain rs n1 s1 where sv: "save_user env (u\<lparr>us_user_role := role\<rparr>) (n, s) = (rs, n1, s1)"
      by (cases "save_user env (u\<lparr>us_user_role := role\<rparr>) (n, s)")
    with set_role(2) u(1) have "st' = (n1, s1)" by (auto simp: update_user_role_def io_bind_run Let_def split: sum.splits)
    with resave [OF assms(1,2) ok set_role(1) u(3) _ _ sv] u(2) show ?thesis by simp
  qed
next
  case (deactivate uid now n s b st')
  from deactivate(3,4) have ok: "good s" "users_ok env (reads s)" by simp_all
  show ?case
  proof (rule get_user_cases [OF assms(1,2) ok(2) deactivate(1), of now n])
    assume "get_user env now uid (n, s) = (Inr None, n, s)"
    with deactivate(2) ok show ?thesis by (auto simp: deactivate_user_def io_bind_run)
  next
    fix u assume u: "get_user env now uid (n, s) = (Inr (Some u), n, s)" "us_user_id u = uid"
      "reads s (user_path uid) = user_doc env u"
    obtain rs n1 s1 where sv: "save_user env (u\<lparr>us_is_active := False\<rparr>) (n, s) = (rs, n1, s1)"
      by (cases "save_user env (u\<lparr>us_is_active := False\<rparr>) (n, s)")
    with deactivate(2) u(1) have "st' = (n1, s1)" by (auto simp: deactivate_user_def io_bind_run split: sum.splits)
    with resave [OF assms(1,2) ok deactivate(1) u(3) _ _ sv] u(2) show ?thesis by simp
  qed
qed

lemma user_steps_keep:
  assumes "serves env" and "iso_good env" and "(user_step env)\<^sup>*\<^sup>* st st'" and "good (snd st)"
    and "users_ok env (reads (snd st))"
  shows "good (snd st') \<and> users_ok env (reads (snd st'))
    \<and> (\<forall>sub uid. points (reads (snd st)) sub uid \<longrightarrow> points (reads (snd st')) sub uid)"
  using assms(3)
proof (induction rule: rtranclp_induct)
  case base
  with assms show ?case by simp
next
  case (step y z)
  with user_step_keeps [OF assms(1,2) step(2)] show ?case by blast
qed

end

section \<open>Invitations\<close>

lemma lower_char_idem: "lower_char (lower_char c) = lower_char c"
proof (cases "CHR ''A'' \<le> c \<and> c \<le> CHR ''Z''")
  case True
  then have "65 \<le> (of_char c :: nat)" "(of_char c :: nat) \<le> 90" by (simp_all add: less_eq_char_def)
  then have "(of_char (char_of (of_char c + 32 :: nat) :: char) :: nat) = of_char c + 32" by (simp add: of_char_of)
  with \<open>65 \<le> (of_char c :: nat)\<close> have "\<not> char_of (of_char c + 32 :: nat) \<le> CHR ''Z''" by (simp add: less_eq_char_def)
  with True show ?thesis by (simp add: lower_char_def)
next
  case False
  then have "lower_char c = c" unfolding lower_char_def by (rule if_not_P)
  then show ?thesis by simp
qed

lemma py_lower_idem: "py_lower (py_lower s) = py_lower s"
  by (simp add: py_lower_def lower_char_idem)

type_synonym attempt = "datetime \<times> string \<times> string \<times> string"

text \<open>Redemptions one after the other: time, code, subject, email.\<close>

fun run_redeems :: "'s um_env \<Rightarrow> attempt list \<Rightarrow> nat \<times> 's \<Rightarrow> jdict option res list" where
  "run_redeems env [] st = []"
| "run_redeems env ((now, code, sub, email) # rest) st =
     (case redeem_invite env now code sub email st of (r, st') \<Rightarrow> r # run_redeems env rest st')"

text \<open>The invitation as it was created, and whether it is used.\<close>

definition invited :: "string \<Rightarrow> string \<Rightarrow> user_role \<Rightarrow> bool \<Rightarrow> json option res \<Rightarrow> bool" where
  "invited tid email role used v \<longleftrightarrow>
     (\<exists>d. v = Inr (Some (JObj d)) \<and> map_of d ''tenant_id'' = Some (JStr tid) \<and> map_of d ''email'' = Some (JStr email)
        \<and> map_of d ''role'' = Some (JStr (role_value role)) \<and> map_of d ''used'' = Some (JBool used))"

text \<open>What a redemption of the invitation may answer.\<close>

definition redeemed :: "string \<Rightarrow> user_role \<Rightarrow> jdict option res \<Rightarrow> bool" where
  "redeemed tid role r \<longleftrightarrow>
     (\<exists>d. r = Inr (Some d) \<and> map_of d ''tenant_id'' = Some (JStr tid) \<and> map_of d ''role'' = Some (JStr (role_value role)))"

definition successes :: "string \<Rightarrow> (attempt \<times> jdict option res) list \<Rightarrow> (attempt \<times> jdict option res) list" where
  "successes code = filter (\<lambda>((now, c, sub, email), r). c = code \<and> (\<exists>d. r = Inr (Some d)))"

context storage_backend
begin

lemma redeem_other:
  assumes "serves env" and "good s" and "simple_id c" and "simple_id code" and "c \<noteq> code"
    and "redeem_invite env now c sub email (n, s) = (r, n', s')"
  shows "good s'" and "reads s' (invite_path code) = reads s (invite_path code)"
proof -
  have be: "um_be env = be" and doc: "doc_ok (JObj d)" for d using assms(1) by (simp_all add: serves_def)
  have ne: "invite_path code \<noteq> invite_path c" using assms(5) by (simp add: invite_path_def)
  have w: "good s1 \<and> reads s1 (invite_path code) = reads s (invite_path code)"
    if "io_write be (invite_path c) (JObj d) (n, s) = (x, n1, s1)" for d x n1 s1
    using write_step [OF assms(2) serves_keys(3) [OF assms(1,3)] doc that] serves_keys(3) [OF assms(1,4)] ne by simp
  show "good s'" "reads s' (invite_path code) = reads s (invite_path code)"
    using assms(2,6) w
    by (auto simp: redeem_invite_def io_bind_run be Let_def split: sum.splits option.splits json.splits if_splits prod.splits)
qed

lemma redeem_own:
  assumes "serves env" and "good s" and "simple_id code" and "invited tid invitee role used (reads s (invite_path code))"
    and "redeem_invite env now code sub email (n, s) = (r, n', s')"
  shows "good s' \<and> (if r = Inr None \<or> (\<exists>e. r = Inl e) then invited tid invitee role used (reads s' (invite_path code))
    else \<not> used \<and> redeemed tid role r \<and> py_lower invitee = py_lower email \<and> invited tid invitee role True (reads s' (invite_path code)))"
proof -
  have be: "um_be env = be" and doc: "doc_ok (JObj d)" for d using assms(1) by (simp_all add: serves_def)
  from assms(4) obtain d where d: "reads s (invite_path code) = Inr (Some (JObj d))"
    "map_of d ''tenant_id'' = Some (JStr tid)" "map_of d ''email'' = Some (JStr invitee)"
    "map_of d ''role'' = Some (JStr (role_value role))" "map_of d ''used'' = Some (JBool used)"
    by (auto simp: invited_def)
  let ?d = "AList.update ''redeemed_at'' (JStr (um_iso env now))
      (AList.update ''redeemed_by'' (JStr sub) (AList.update ''used'' (JBool True) d))"
  obtain rw n1 s1 where w: "io_write be (invite_path code) (JObj ?d) (n, s) = (rw, n1, s1)"
    by (cases "io_write be (invite_path code) (JObj ?d) (n, s)")
  note st = write_step [OF assms(2) serves_keys(3) [OF assms(1,3)] doc w]
  have run: "(r, n', s') = (if used \<or> py_lower invitee \<noteq> py_lower email then (Inr None, n, s)
      else (map_sum id (\<lambda>_. Some ?d) rw, n1, s1))"
    using assms(5) d w
    by (auto simp: redeem_invite_def io_bind_run be Let_def dget_def str_field_def split: sum.splits if_splits)
  show ?thesis
  proof (cases "used \<or> py_lower invitee \<noteq> py_lower email")
    case True
    with run assms(2,4) show ?thesis by simp
  next
    case False
    then show ?thesis
      using run st(1) st(3) [OF serves_keys(3) [OF assms(1,3)]] assms(4) d
      by (cases rw) (auto simp: redeemed_def invited_def)
  qed
qed

lemma redeems_once:
  "serves env \<Longrightarrow> good s \<Longrightarrow> simple_id code \<Longrightarrow> \<forall>(now, c, sub, email) \<in> set atts. simple_id c \<Longrightarrow>
   invited tid invitee role used (reads s (invite_path code)) \<Longrightarrow>
   (let ok = successes code (zip atts (run_redeems env atts (n, s))) in
      length ok \<le> (if used then 0 else 1)
      \<and> (\<forall>((now, c, sub, email), r) \<in> set ok. redeemed tid role r \<and> py_lower invitee = py_lower email))"
proof (induction atts arbitrary: s n used)
  case Nil
  then show ?case by (simp add: successes_def)
next
  case (Cons a atts)
  obtain now c sub email where a: "a = (now, c, sub, email)" by (cases a) auto
  obtain r n1 s1 where run: "redeem_invite env now c sub email (n, s) = (r, n1, s1)"
    by (cases "redeem_invite env now c sub email (n, s)")
  have c: "simple_id c" and rest: "\<forall>(now, c, sub, email) \<in> set atts. simple_id c" using Cons.prems(4) a by auto
  have split: "successes code (zip (a # atts) (run_redeems env (a # atts) (n, s))) =
      (if c = code \<and> (\<exists>d. r = Inr (Some d)) then [(a, r)] else []) @ successes code (zip atts (run_redeems env atts (n1, s1)))"
    by (simp add: a run successes_def)
  show ?case
  proof (cases "c = code")
    case False
    note st = redeem_other [OF Cons.prems(1,2) c Cons.prems(3) False run]
    from Cons.IH [OF Cons.prems(1) st(1) Cons.prems(3) rest, of used n1] Cons.prems(5) False show ?thesis
      unfolding split by (simp add: st(2))
  next
    case True
    from redeem_own [OF Cons.prems(1-3,5), of now sub email n r n1 s1] run True
    have own: "good s1 \<and> (if r = Inr None \<or> (\<exists>e. r = Inl e) then invited tid invitee role used (reads s1 (invite_path code))
      else \<not> used \<and> redeemed tid role r \<and> py_lower invitee = py_lower email \<and> invited tid invitee role True (reads s1 (invite_path code)))"
      by simp
    show ?thesis
    proof (cases "\<exists>d. r = Inr (Some d)")
      case True
      with own have "invited tid invitee role True (reads s1 (invite_path code))" "\<not> used" "redeemed tid role r"
        "py_lower invitee = py_lower email" by auto
      with Cons.IH [OF Cons.prems(1) _ Cons.prems(3) rest this(1), of n1] own True \<open>c = code\<close> show ?thesis
        unfolding split by (simp add: a Let_def)
    next
      case False
      then have "r = Inr None \<or> (\<exists>e. r = Inl e)" by (cases r) auto
      with own have "invited tid invitee role used (reads s1 (invite_path code))" by simp
      with Cons.IH [OF Cons.prems(1) _ Cons.prems(3) rest this, of n1] own False show ?thesis
        unfolding split by simp
    qed
  qed
qed

end

section \<open>An environment to evaluate in\<close>

lemma empty_reads:
  assumes "canonical_key k"
  shows "be_read_json sample_backend k [] = Inr None"
proof -
  have base: "py_path ''/data'' = \<lparr>pp_root = Slash, pp_parts = [''data'']\<rparr>"
    by (simp add: py_path_def leading_slashes_def)
  obtain w ws where "py_split (CHR ''/'') k = w # ws" by (cases "py_split (CHR ''/'') k") auto
  moreover have "''..'' \<notin> set (py_split (CHR ''/'') k)" using assms by (auto simp: canonical_key_def)
  ultimately have "\<exists>p. resolve_key (py_path ''/data'') k = Inr p"
    unfolding resolve_key_def canonical_path [OF assms] by (simp add: base path_join_def path_text_def)
  then show ?thesis by (auto simp: sample_backend_def local_backend_def local_read_json_def)
qed

definition sample_um :: "files um_env" where
  "sample_um = \<lparr>um_be = sample_backend, um_iso = unary_iso, um_from_iso = unary_from_iso\<rparr>"

lemma sample_um_good: "iso_good sample_um" "um_be sample_um = local_backend (\<lambda>_. None) (\<lambda>_. []) (py_path ''/data'')"
  by (simp_all add: iso_good_def sample_um_def unary_iso_round_trip unary_iso_nonempty sample_backend_def)

lemma local_serves: "um_be env = local_backend parse render base \<Longrightarrow> local_store.serves parse render base env"
  by (simp add: local_store.serves_def)

lemma empty_users_ok: "users_ok sample_um (\<lambda>k. be_read_json (um_be sample_um) k [])"
  using user_keys_canonical
  by (simp add: users_ok_def index_doc_def sample_um_def empty_reads user_id_ok_def)

lemma sample_login:
  "\<exists>u n fs. find_or_create_user sample_um ''07'' sample_time ''tn_1'' ''sub1'' ''a@b.c'' ''Ada'' [] MEMBER (0, []) = (Inr u, n, fs)"
proof -
  have base: "py_path ''/data'' = \<lparr>pp_root = Slash, pp_parts = [''data'']\<rparr>"
    by (simp add: py_path_def leading_slashes_def)
  show ?thesis
    by (simp add: find_or_create_user_def get_user_by_google_sub_def read_index_def update_index_def io_bind_run
        sample_um_def sample_backend_def local_backend_def local_read_json_def create_user_def save_user_def record_login_def
        Let_def io_write_def user_path_def index_key_def local_write_json_def local_write_def resolve_key_def base
        py_path_def leading_slashes_def path_join_def path_text_def can_write_def is_dir_def strictly_under_def
        put_file_def tmp_path_def name_stem_def)
qed

section \<open>Properties\<close>

text \<open>C32. Whatever logins, role changes and deactivations follow, failing or not, the index stays consistent: every
subject it lists points at a stored user of that subject, and a subject keeps the user id it once had.\<close>

theorem accounts_stay_with_subject:
  assumes "um_be env = local_backend parse render base" and "iso_good env"
    and "users_ok env (\<lambda>k. be_read_json (um_be env) k fs)" and "(user_step env)\<^sup>*\<^sup>* (n, fs) (n', fs')"
  shows "users_ok env (\<lambda>k. be_read_json (um_be env) k fs') \<and>
    (points (\<lambda>k. be_read_json (um_be env) k fs) sub uid \<longrightarrow> points (\<lambda>k. be_read_json (um_be env) k fs') sub uid)"
  using local_store.user_steps_keep [OF local_serves [OF assms(1)] assms(2,4)] assms(3) by (simp add: assms(1))

theorem accounts_stay_with_subject_witness:
  "\<exists>u n fs. find_or_create_user sample_um ''07'' sample_time ''tn_1'' ''sub1'' ''a@b.c'' ''Ada'' [] MEMBER (0, []) = (Inr u, n, fs)
     \<and> users_ok sample_um (\<lambda>k. be_read_json (um_be sample_um) k fs)"
proof -
  obtain u n fs where run: "find_or_create_user sample_um ''07'' sample_time ''tn_1'' ''sub1'' ''a@b.c'' ''Ada'' [] MEMBER (0, []) = (Inr u, n, fs)"
    using sample_login by blast
  have "user_id_ok (''usr_'' @ ''07'')" by (simp add: user_id_ok_def simple_id_def)
  moreover from this have "be_read_json (um_be sample_um) (user_path (''usr_'' @ ''07'')) [] = Inr None"
    by (simp add: sample_um_def empty_reads user_id_ok_def user_keys_canonical)
  ultimately have "user_step sample_um (0, []) (n, fs)" using run by (rule user_step.login)
  then have "(user_step sample_um)\<^sup>*\<^sup>* (0, []) (n, fs)" by blast
  from accounts_stay_with_subject [OF sample_um_good(2,1) empty_users_ok this] run show ?thesis by blast
qed

text \<open>A login returns the account of its own subject, and that account is what the subject's lookup returns
afterwards: the stored one with its id, tenant, role and activation unchanged and one more login, or a
new one with the fresh id, the given tenant and role, and one login.\<close>

theorem login_gives_own_account:
  assumes "um_be env = local_backend parse render base" and "iso_good env"
    and "users_ok env (\<lambda>k. be_read_json (um_be env) k fs)"
    and "user_id_ok (''usr_'' @ hex)" and "be_read_json (um_be env) (user_path (''usr_'' @ hex)) fs = Inr None"
    and "find_or_create_user env hex now tid sub email name picture role (n, fs) = (Inr u, n', fs')"
  shows "us_google_sub u = sub \<and> get_user_by_google_sub env now' sub (n', fs') = (Inr (Some u), n', fs')
    \<and> (case fst (get_user_by_google_sub env now sub (n, fs)) of
         Inr (Some old) \<Rightarrow> us_user_id u = us_user_id old \<and> us_tenant_id u = us_tenant_id old \<and> us_user_role u = us_user_role old
           \<and> us_is_active u = us_is_active old \<and> us_login_count u = us_login_count old + 1
       | _ \<Rightarrow> us_user_id u = ''usr_'' @ hex \<and> us_tenant_id u = tid \<and> us_user_role u = role \<and> us_login_count u = 1)"
proof (cases "\<exists>uid. points (\<lambda>k. be_read_json (um_be env) k fs) sub uid")
  case True
  then obtain uid where "points (\<lambda>k. be_read_json (local_backend parse render base) k fs) sub uid" by (auto simp: assms(1))
  from local_store.login_known [OF local_serves [OF assms(1)] assms(2) TrueI assms(3) [unfolded assms(1)] this assms(6)]
  obtain old where old: "get_user_by_google_sub env now sub (n, fs) = (Inr (Some old), n, fs)" "us_google_sub old = sub"
    "us_user_id old = uid"
    and u: "u = old\<lparr>us_name := (if name = [] then us_name old else name),
             us_picture_url := (if picture = [] then us_picture_url old else picture),
             us_last_login := Some now, us_login_count := us_login_count old + 1\<rparr>"
    and st: "n' = n" "points (\<lambda>k. be_read_json (um_be env) k fs') sub uid"
      "be_read_json (um_be env) (user_path uid) fs' = user_doc env u"
    using \<open>points (\<lambda>k. be_read_json (local_backend parse render base) k fs) sub uid\<close> by (auto simp: assms(1))
  from lookup_points [OF assms(2) st(2,3)] old u show ?thesis by simp
next
  case False
  then have none: "\<nexists>uid. points (\<lambda>k. be_read_json (local_backend parse render base) k fs) sub uid" by (simp add: assms(1))
  from local_store.login_new [OF local_serves [OF assms(1)] assms(2) TrueI assms(3) [unfolded assms(1)] none assms(4)
      assms(5) [unfolded assms(1)] assms(6)]
  have st: "points (\<lambda>k. be_read_json (um_be env) k fs') sub (''usr_'' @ hex)"
    "be_read_json (um_be env) (user_path (''usr_'' @ hex)) fs' = user_doc env u"
    and u: "us_user_id u = ''usr_'' @ hex" "us_google_sub u = sub" "us_tenant_id u = tid" "us_user_role u = role"
      "us_login_count u = 1" by (simp_all add: assms(1))
  from lookup_points [OF assms(2) st] lookup_none [OF assms(3) False] u show ?thesis by simp
qed

theorem login_gives_own_account_witness:
  "\<exists>u n fs. find_or_create_user sample_um ''07'' sample_time ''tn_1'' ''sub1'' ''a@b.c'' ''Ada'' [] MEMBER (0, []) = (Inr u, n, fs)
     \<and> get_user_by_google_sub sample_um sample_time ''sub1'' (n, fs) = (Inr (Some u), n, fs)"
proof -
  obtain u n fs where run: "find_or_create_user sample_um ''07'' sample_time ''tn_1'' ''sub1'' ''a@b.c'' ''Ada'' [] MEMBER (0, []) = (Inr u, n, fs)"
    using sample_login by blast
  have id: "user_id_ok (''usr_'' @ ''07'')" by (simp add: user_id_ok_def simple_id_def)
  then have "be_read_json (um_be sample_um) (user_path (''usr_'' @ ''07'')) [] = Inr None"
    by (simp add: sample_um_def empty_reads user_id_ok_def user_keys_canonical)
  from login_gives_own_account [OF sample_um_good(2,1) empty_users_ok id this run, of sample_time] run show ?thesis by blast
qed

text \<open>C16. However often it is tried, by whoever and among whatever other codes, an invitation is redeemed at most once,
only with the address it was made out to, up to case, and for the tenant and role it was made for.\<close>

theorem invite_redeemed_once:
  assumes "um_be env = local_backend parse render base" and "simple_id code"
    and "create_invite env code now tid email role (n, fs) = (Inr code', st)"
    and "\<forall>(now, c, sub, e) \<in> set atts. simple_id c"
  shows "length (successes code (zip atts (run_redeems env atts st))) \<le> 1 \<and>
    (\<forall>((now, c, sub, e), r) \<in> set (successes code (zip atts (run_redeems env atts st))).
       redeemed tid role r \<and> py_lower e = py_lower email)"
proof -
  have lower: "py_lower (py_lower s) = py_lower s" for s by (rule py_lower_idem)
  let ?d = "[(''invite_code'', JStr code), (''tenant_id'', JStr tid), (''email'', JStr (py_lower email)),
      (''role'', JStr (role_value role)), (''created_at'', JStr (um_iso env now)), (''used'', JBool False)]"
  obtain fs' where st: "st = (n, fs')" and w: "be_write_json (local_backend parse render base) (invite_path code) (JObj ?d) fs = (Inr (), fs')"
    using assms(3) by (auto simp: create_invite_def io_bind_Inr io_write_run assms(1))
  have "be_read_json (local_backend parse render base) (invite_path code) fs' = Inr (Some (JObj ?d))"
    by (rule local_store.write_read [OF TrueI user_keys_canonical(3) [OF assms(2)] TrueI w])
  then have "invited tid (py_lower email) role False (be_read_json (local_backend parse render base) (invite_path code) fs')"
    by (simp add: invited_def)
  from local_store.redeems_once [OF local_serves [OF assms(1)] TrueI assms(2,4) this, of n] show ?thesis
    by (auto simp: st Let_def lower)
qed

theorem invite_redeemed_once_witness:
  "\<exists>n fs. create_invite sample_um ''c1'' sample_time ''tn_1'' ''A@b.c'' ADMIN (0, []) = (Inr ''c1'', n, fs)
     \<and> length (successes ''c1'' (zip (replicate 3 (sample_time, ''c1'', ''sub1'', ''a@B.c''))
                (run_redeems sample_um (replicate 3 (sample_time, ''c1'', ''sub1'', ''a@B.c'')) (n, fs)))) \<le> 1"
proof -
  have base: "py_path ''/data'' = \<lparr>pp_root = Slash, pp_parts = [''data'']\<rparr>"
    by (simp add: py_path_def leading_slashes_def)
  have "\<exists>n fs. create_invite sample_um ''c1'' sample_time ''tn_1'' ''A@b.c'' ADMIN (0, []) = (Inr ''c1'', n, fs)"
    by (simp add: create_invite_def io_bind_run
        sample_um_def sample_backend_def local_backend_def io_write_def invite_path_def
        local_write_json_def local_write_def resolve_key_def base
        py_path_def leading_slashes_def path_join_def path_text_def can_write_def is_dir_def strictly_under_def
        put_file_def tmp_path_def name_stem_def)
  then obtain n fs where run: "create_invite sample_um ''c1'' sample_time ''tn_1'' ''A@b.c'' ADMIN (0, []) = (Inr ''c1'', n, fs)"
    by blast
  have "simple_id ''c1''" by (simp add: simple_id_def)
  with invite_redeemed_once [OF sample_um_good(2) this run, of "replicate 3 (sample_time, ''c1'', ''sub1'', ''a@B.c'')"] run
  show ?thesis by auto
qed

end
