(* ===== verification/DemoManager.thy ===== *)
theory DemoManager
  imports TenantManager Dates
begin

text \<open>
  \<open>src/brain/tenant/demo_manager.py\<close>: time-limited demo accounts. Every operation works on the raw
  tenant document and appends an encrypted event to the tenant's event log. The current time is an
  argument; \<open>dumps\<close> and \<open>loads\<close> are the text of a JSON document and its parsing.
\<close>

record 's demo_env =
  de_tm :: "'s tm_env"
  de_be :: "'s backend"
  de_dumps :: "json \<Rightarrow> string"
  de_loads :: "string \<Rightarrow> json option"

definition io_write_text :: "'s backend \<Rightarrow> string \<Rightarrow> string \<Rightarrow> ('s, unit) io" where
  "io_write_text be k v = (\<lambda>(n, s). let (r, s') = be_write_text be k v s in (r, n, s'))"

definition io_read_text :: "'s backend \<Rightarrow> string \<Rightarrow> ('s, string option) io" where
  "io_read_text be k = (\<lambda>(n, s). (be_read_text be k s, n, s))"

section \<open>The event log\<close>

definition events_path :: "string \<Rightarrow> string" where
  "events_path tid = ''tenants/'' @ tid @ ''/demo_events.jsonl''"

definition demo_event :: "'s demo_env \<Rightarrow> datetime \<Rightarrow> string \<Rightarrow> jdict \<Rightarrow> json" where
  "demo_event env now event_type data =
     JObj [(''event_type'', JStr event_type), (''timestamp'', JStr (te_iso (de_tm env) now)), (''data'', JObj data)]"

text \<open>A log that cannot be read counts as empty.\<close>

definition log_event :: "'s demo_env \<Rightarrow> datetime \<Rightarrow> string \<Rightarrow> string \<Rightarrow> jdict \<Rightarrow> ('s, unit) io" where
  "log_event env now tid event_type data =
     io_bind (io_draw (te_rnd (de_tm env))) (\<lambda>nonce.
       let encrypted = field_encrypt (te_crypto (de_tm env)) (te_master (de_tm env)) nonce
                         (de_dumps env (demo_event env now event_type data)) tid ''demo_audit''
       in io_bind (io_catch (io_read_text (de_be env) (events_path tid)) (\<lambda>_. io_ret None)) (\<lambda>existing.
            io_write_text (de_be env) (events_path tid)
              ((case existing of Some s \<Rightarrow> s | None \<Rightarrow> []) @ encrypted @ [CHR 0x0A])))"

text \<open>The events of the lines that decrypt and parse; the others are skipped.\<close>

definition load_line :: "'s demo_env \<Rightarrow> string \<Rightarrow> string \<Rightarrow> json list" where
  "load_line env tid line =
     (if py_strip line = [] then []
      else case field_decrypt (te_crypto (de_tm env)) (te_master (de_tm env)) (py_strip line) tid ''demo_audit'' of
             Inr plain \<Rightarrow> (case de_loads env plain of Some v \<Rightarrow> [v] | None \<Rightarrow> [])
           | Inl _ \<Rightarrow> [])"

definition load_events :: "'s demo_env \<Rightarrow> string \<Rightarrow> ('s, json list) io" where
  "load_events env tid =
     io_bind (io_catch (io_read_text (de_be env) (events_path tid)) (\<lambda>_. io_ret None)) (\<lambda>raw.
       io_ret (case raw of
                 Some s \<Rightarrow> if s = [] then [] else concat (map (load_line env tid) (py_split CHR 0x0A (py_strip s)))
               | None \<Rightarrow> []))"

section \<open>The raw tenant document\<close>

definition load_tenant_data :: "'s demo_env \<Rightarrow> string \<Rightarrow> ('s, json option) io" where
  "load_tenant_data env tid = io_catch (io_read (de_be env) (tenant_path tid)) (\<lambda>_. io_ret None)"

definition save_tenant_data :: "'s demo_env \<Rightarrow> string \<Rightarrow> jdict \<Rightarrow> ('s, unit) io" where
  "save_tenant_data env tid d = io_write (de_be env) (tenant_path tid) (JObj d)"

text \<open>A truthy document, as a dictionary.\<close>

definition demo_doc :: "json option \<Rightarrow> jdict option res" where
  "demo_doc data =
     (case data of
        None \<Rightarrow> Inr None
      | Some v \<Rightarrow> if \<not> jtruthy v then Inr None
                  else (case v of JObj d \<Rightarrow> Inr (Some d) | _ \<Rightarrow> Inl (OtherError ''AttributeError'')))"

text \<open>\<open>now + timedelta(days)\<close>, within the years 1 to 9999.\<close>

definition plus_days :: "datetime \<Rightarrow> int \<Rightarrow> datetime res" where
  "plus_days now days =
     (let m = dt_micros now + days * day_micros in
      if - 62135596800000000 \<le> m \<and> m \<le> 253402300799999999 then Inr (now\<lparr>dt_micros := m\<rparr>)
      else Inl (OtherError ''OverflowError''))"

definition demo_fields :: "'s demo_env \<Rightarrow> datetime \<Rightarrow> int \<Rightarrow> int \<Rightarrow> string \<Rightarrow> jdict \<Rightarrow> jdict" where
  "demo_fields env expires cap_pipeline cap_llm created_by d =
     AList.update ''demo_created_by'' (JStr created_by)
       (AList.update ''demo_cost_cap_llm'' (JInt cap_llm)
         (AList.update ''demo_cost_cap_pipeline'' (JInt cap_pipeline)
           (AList.update ''demo_expires_at'' (JStr (te_iso (de_tm env) expires))
             (AList.update ''is_demo'' (JBool True) d))))"

section \<open>The operations\<close>

definition bind_llm_proxy :: "'s demo_env \<Rightarrow> datetime \<Rightarrow> string \<Rightarrow> string \<Rightarrow> ('s, unit) io" where
  "bind_llm_proxy env now tid token =
     (if token = [] then io_ret ()
      else io_bind (bind_owner_sub (de_tm env) now tid (''demo:'' @ tid)) (\<lambda>_.
           io_bind (update_config (de_tm env) now tid (no_update\<lparr>cu_litellm_proxy_token := Some token\<rparr>)) (\<lambda>_.
             io_ret ())))"

text \<open>\<open>create_demo\<close> returns the tenant as \<open>create_tenant\<close> made it.\<close>

definition create_demo ::
    "'s demo_env \<Rightarrow> string \<Rightarrow> string \<Rightarrow> datetime \<Rightarrow> string \<Rightarrow> string \<Rightarrow> string \<Rightarrow> int \<Rightarrow> int \<Rightarrow> int \<Rightarrow> string \<Rightarrow>
     ('s, tenant) io" where
  "create_demo env random_hex api_key now name email created_by days cap_pipeline cap_llm token =
     io_bind (create_tenant (de_tm env) random_hex api_key now name email VIP) (\<lambda>t.
     io_bind (load_tenant_data env (tn_tenant_id t)) (\<lambda>data.
     io_bind (io_res (demo_doc data)) (\<lambda>doc.
     io_bind (case doc of
                Some d \<Rightarrow>
                  io_bind (io_res (plus_days now days)) (\<lambda>expires.
                    let d = demo_fields env expires cap_pipeline cap_llm created_by d
                    in io_bind (save_tenant_data env (tn_tenant_id t) d) (\<lambda>_. io_ret (dget d ''demo_expires_at'' (JStr []))))
              | None \<Rightarrow> io_ret (JStr [])) (\<lambda>expires_text.
     io_bind (bind_llm_proxy env now (tn_tenant_id t) token) (\<lambda>_.
     io_bind (log_event env now (tn_tenant_id t) ''demo_created''
                [(''created_by'', JStr created_by), (''duration_days'', JInt days),
                 (''cost_cap_pipeline'', JInt cap_pipeline), (''cost_cap_llm'', JInt cap_llm),
                 (''expires_at'', expires_text)]) (\<lambda>_.
       io_ret t))))))"

definition expire_demo :: "'s demo_env \<Rightarrow> datetime \<Rightarrow> string \<Rightarrow> jdict \<Rightarrow> ('s, unit) io" where
  "expire_demo env now tid d =
     io_bind (log_event env now tid ''demo_expired'' [(''expires_at'', dget d ''demo_expires_at'' (JStr []))]) (\<lambda>_.
     io_bind (deactivate_tenant (de_tm env) now tid) (\<lambda>_. io_ret ()))"

text \<open>The expiry of a document, when it has one; a naive time counts as UTC.\<close>

definition expiry_of :: "'s demo_env \<Rightarrow> jdict \<Rightarrow> datetime option res" where
  "expiry_of env d =
     rbind (str_field d ''demo_expires_at'' (Some [])) (\<lambda>s.
       if s \<noteq> [] then rbind (iso_res (te_from_iso (de_tm env)) s) (\<lambda>x. Inr (Some x)) else Inr None)"

definition check_expiry :: "'s demo_env \<Rightarrow> datetime \<Rightarrow> string \<Rightarrow> ('s, bool) io" where
  "check_expiry env now tid =
     io_bind (load_tenant_data env tid) (\<lambda>data.
     io_bind (io_res (demo_doc data)) (\<lambda>doc.
       case doc of
         None \<Rightarrow> io_ret False
       | Some d \<Rightarrow>
           if \<not> jtruthy (dget d ''is_demo'' JNull) then io_ret True
           else io_bind (io_res (expiry_of env d)) (\<lambda>expires.
             case expires of
               None \<Rightarrow> io_ret True
             | Some x \<Rightarrow> if dt_micros now \<ge> dt_micros x
                          then io_bind (expire_demo env now tid d) (\<lambda>_. io_ret False)
                          else io_ret True)))"

definition check_demo_cost_cap :: "'s demo_env \<Rightarrow> datetime \<Rightarrow> string \<Rightarrow> string \<Rightarrow> int \<Rightarrow> ('s, bool) io" where
  "check_demo_cost_cap env now tid usage_type count =
     io_bind (load_tenant_data env tid) (\<lambda>data.
     io_bind (io_res (demo_doc data)) (\<lambda>doc.
       let check = (\<lambda>cap. io_bind (io_res cap) (\<lambda>cap.
             if count \<ge> cap
             then io_bind (log_event env now tid ''demo_cost_cap_reached''
                    [(''usage_type'', JStr usage_type), (''count'', JInt count), (''cap'', JInt cap)]) (\<lambda>_. io_ret False)
             else io_ret True))
       in case doc of
            None \<Rightarrow> io_ret True
          | Some d \<Rightarrow>
              if \<not> jtruthy (dget d ''is_demo'' JNull) then io_ret True
              else if usage_type = ''pipeline_run'' then check (int_field d ''demo_cost_cap_pipeline'' 50)
              else if usage_type = ''llm_call'' then check (int_field d ''demo_cost_cap_llm'' 100)
              else io_ret True))"

definition log_demo_error :: "'s demo_env \<Rightarrow> datetime \<Rightarrow> string \<Rightarrow> string \<Rightarrow> string \<Rightarrow> jdict \<Rightarrow> ('s, unit) io" where
  "log_demo_error env now tid error_type error_detail context_data =
     log_event env now tid ''error''
       [(''error_type'', JStr error_type), (''error_detail'', JStr (take 1000 error_detail)),
        (''context'', JObj context_data)]"

section \<open>Reports\<close>

record analytics =
  an_total :: nat
  an_types :: "(string \<times> nat) list"
  an_errors :: "json list"
  an_last :: "string option"

definition str_less :: "string \<Rightarrow> string \<Rightarrow> bool" where
  "str_less a b = ord_class.lexordp a b"

text \<open>One event counted in.\<close>

definition count_event :: "json \<Rightarrow> analytics \<Rightarrow> analytics res" where
  "count_event v a =
     (case v of
        JObj e \<Rightarrow>
          rbind (str_field e ''event_type'' (Some ''unknown'')) (\<lambda>etype.
          rbind (str_field e ''timestamp'' (Some [])) (\<lambda>ts.
            Inr (a\<lparr>an_types := AList.update etype (dget (an_types a) etype 0 + 1) (an_types a),
                   an_errors := (if etype = ''error'' then an_errors a @ [v] else an_errors a),
                   an_last := (if ts \<noteq> [] \<and> (case an_last a of None \<Rightarrow> True | Some l \<Rightarrow> str_less l ts)
                               then Some ts else an_last a)\<rparr>)))
      | _ \<Rightarrow> Inl (OtherError ''AttributeError''))"

definition get_usage_analytics :: "'s demo_env \<Rightarrow> string \<Rightarrow> ('s, jdict \<times> analytics) io" where
  "get_usage_analytics env tid =
     io_bind (load_events env tid) (\<lambda>events.
     io_bind (load_tenant_data env tid) (\<lambda>data.
     io_bind (io_res (demo_doc data)) (\<lambda>doc.
     io_bind (io_res (rfold count_event events
                        \<lparr>an_total = length events, an_types = [], an_errors = [], an_last = None\<rparr>)) (\<lambda>a.
       let d = (case doc of Some d \<Rightarrow> d | None \<Rightarrow> [])
       in io_ret ([(''tenant_id'', JStr tid), (''is_demo'', dget d ''is_demo'' (JBool False)),
                   (''created_by'', dget d ''demo_created_by'' (JStr [])),
                   (''expires_at'', dget d ''demo_expires_at'' (JStr []))], a)))))"

fun demo_rows :: "'s demo_env \<Rightarrow> datetime \<Rightarrow> tenant list \<Rightarrow> ('s, jdict list) io" where
  "demo_rows env now [] = io_ret []"
| "demo_rows env now (t # ts) =
     io_bind (load_tenant_data env (tn_tenant_id t)) (\<lambda>data.
     io_bind (io_res (demo_doc data)) (\<lambda>doc.
     io_bind (case doc of
                Some d \<Rightarrow>
                  if jtruthy (dget d ''is_demo'' JNull)
                  then io_bind (io_res (expiry_of env d)) (\<lambda>expires.
                         io_ret [[(''tenant_id'', JStr (tn_tenant_id t)), (''name'', JStr (tn_name t)),
                                  (''email'', JStr (tn_email t)),
                                  (''created_by'', dget d ''demo_created_by'' (JStr [])),
                                  (''expires_at'', dget d ''demo_expires_at'' (JStr [])),
                                  (''is_expired'', JBool (case expires of Some x \<Rightarrow> dt_micros now \<ge> dt_micros x | None \<Rightarrow> False)),
                                  (''is_active'', JBool (tn_is_active t))]])
                  else io_ret []
              | None \<Rightarrow> io_ret []) (\<lambda>row.
     io_bind (demo_rows env now ts) (\<lambda>rows. io_ret (row @ rows)))))"

definition list_demo_accounts :: "'s demo_env \<Rightarrow> datetime \<Rightarrow> ('s, jdict list) io" where
  "list_demo_accounts env now = io_bind (list_tenants (de_tm env) now) (demo_rows env now)"

end
