(* ===== verification/DemoGuarantees.thy ===== *)
theory DemoGuarantees
  imports DemoManager TenantGuarantees AuditLog
begin

text \<open>
  What the demo manager guarantees: the events logged are the events loaded, in order; an expired
  demo is deactivated by its next expiry check and a live one is left alone; a new demo is stored
  with its flags.
\<close>

section \<open>The event log\<close>

definition log_text :: "'s demo_env \<Rightarrow> string \<Rightarrow> 's \<Rightarrow> string" where
  "log_text env tid s = (case be_read_text (de_be env) (events_path tid) s of Inr (Some x) \<Rightarrow> x | _ \<Rightarrow> [])"

text \<open>The log consists of lines that decrypt to the events.\<close>

definition logged :: "'s demo_env \<Rightarrow> string \<Rightarrow> 's \<Rightarrow> json list \<Rightarrow> bool" where
  "logged env tid s evs \<longleftrightarrow>
     (\<exists>ls. log_text env tid s = lines_text ls \<and> (\<forall>l \<in> set ls. clean_line l) \<and> concat (map (load_line env tid) ls) = evs)"

lemma load_logged: "logged env tid s evs \<Longrightarrow> load_events env tid (n, s) = (Inr evs, n, s)"
proof -
  assume "logged env tid s evs"
  then obtain ls where ls: "log_text env tid s = lines_text ls" "\<forall>l \<in> set ls. clean_line l"
    "concat (map (load_line env tid) ls) = evs" by (auto simp: logged_def)
  have "load_events env tid (n, s) = (Inr (concat (map (load_line env tid) (raw_lines (log_text env tid s)))), n, s)"
    by (auto simp: load_events_def io_bind_run io_catch_def io_read_text_def log_text_def raw_lines_def
        split: sum.splits option.splits)
  with ls raw_lines_text [OF ls(2)] show ?thesis by simp
qed

lemma text_written:
  assumes "io_write_text (local_backend parse render base) k v (n, fs) = (Inr (), n', fs')"
  shows "be_read_text (local_backend parse render base) k fs' = Inr (Some v)"
  using assms
  by (auto simp: io_write_text_def local_backend_def local_write_text_def local_write_def local_read_text_def
      put_file_lookup split: sum.splits if_splits prod.splits)

text \<open>Writing the log leaves the JSON documents alone.\<close>

lemma events_frame:
  assumes "io_write_text (local_backend parse render base) (events_path tid) v (n, fs) = (r, n', fs')" and "simple_id tid"
    and "canonical_key k"
  shows "n' = n \<and> be_read_json (local_backend parse render base) k fs' = be_read_json (local_backend parse render base) k fs"
proof (cases "resolve_key base (events_path tid)")
  case (Inl e)
  with assms(1) show ?thesis by (auto simp: io_write_text_def local_backend_def local_write_text_def local_write_def)
next
  case (Inr p)
  have bs: "map (\<lambda>c. if c = CHR 0x5C then CHR ''/'' else c) (events_path tid) = events_path tid"
    using assms(2) by (intro map_idI) (auto simp: events_path_def simple_id_def)
  have sp: "py_split (CHR ''/'') (events_path tid) = [''tenants'', tid, ''demo_events.jsonl'']"
    using py_split_sep [of "CHR ''/''" "''tenants''" "tid @ CHR ''/'' # ''demo_events.jsonl''"]
      py_split_sep [of "CHR ''/''" tid "''demo_events.jsonl''"] assms(2)
    by (simp add: events_path_def simple_id_def)
  have "last (pp_parts p) = ''demo_events.jsonl'' \<and> pp_parts p \<noteq> []"
    using Inr unfolding resolve_key_def bs py_path_def sp
    by (auto simp: Let_def path_join_def split: if_splits)
  then have l: "last (pp_parts p) = ''demo_events.jsonl''" "last (pp_parts (tmp_path p)) = ''demo_events.tmp''"
    by (simp_all add: tmp_path_def name_stem_def)
  show ?thesis
  proof (cases "resolve_key base k")
    case (Inl e)
    with assms(1) show ?thesis
      by (auto simp: io_write_text_def local_backend_def local_read_json_def split: prod.splits)
  next
    case q: (Inr q)
    have "suffix ''.json'' (last (pp_parts q))"
      using resolve_canonical [OF assms(3) q] assms(3) by (simp add: canonical_key_def)
    then have "q \<noteq> p" "q \<noteq> tmp_path p" using l by (auto simp: suffix_def)
    with assms(1) Inr q show ?thesis
      by (auto simp: io_write_text_def local_backend_def local_write_text_def local_write_def local_read_json_def
          put_file_lookup split: if_splits)
  qed
qed

lemma log_event_frame:
  assumes "de_be env = local_backend parse render base" and "simple_id tid" and "canonical_key k"
    and "log_event env now tid ety data (n, fs) = (r, n', fs')"
  shows "be_read_json (local_backend parse render base) k fs' = be_read_json (local_backend parse render base) k fs"
  using assms(4) events_frame [OF _ assms(2,3)]
  by (auto simp: log_event_def io_bind_run io_catch_def io_read_text_def assms(1) Let_def split: sum.splits)

lemma log_event_step:
  assumes "de_be env = local_backend parse render base" and "env_good (de_tm env)"
    and "de_loads env (de_dumps env (demo_event env now ety data)) = Some (demo_event env now ety data)"
    and "logged env tid fs evs" and "log_event env now tid ety data (n, fs) = (Inr (), n', fs')"
  shows "logged env tid fs' (evs @ [demo_event env now ety data])"
proof -
  let ?tm = "de_tm env"
  let ?enc = "field_encrypt (te_crypto ?tm) (te_master ?tm) (te_rnd ?tm n) (de_dumps env (demo_event env now ety data)) tid ''demo_audit''"
  have len: "length (te_rnd ?tm n) = 12" using assms(2) by (simp add: env_good_def)
  then have "te_rnd ?tm n \<noteq> []" by auto
  then have clean: "clean_line ?enc" using b64_encode_no_space by (auto simp: clean_line_def field_encrypt_def Let_def)
  have dec: "field_decrypt (te_crypto ?tm) (te_master ?tm) ?enc tid ''demo_audit'' = Inr (de_dumps env (demo_event env now ety data))"
    using assms(2) len field_decrypt_encrypt unfolding env_good_def by blast
  have "\<exists>n1. io_write_text (de_be env) (events_path tid) (log_text env tid fs @ ?enc @ [CHR 0x0A]) (n1, fs) = (Inr (), n', fs')"
    using assms(5)
    by (auto simp: log_event_def io_bind_run io_catch_def io_read_text_def log_text_def Let_def
        split: sum.splits option.splits)
  then have tx: "log_text env tid fs' = log_text env tid fs @ ?enc @ [CHR 0x0A]"
    using text_written by (auto simp: log_text_def assms(1))
  from assms(4) obtain ls where ls: "log_text env tid fs = lines_text ls" "\<forall>l \<in> set ls. clean_line l"
    "concat (map (load_line env tid) ls) = evs" by (auto simp: logged_def)
  have line: "load_line env tid ?enc = [demo_event env now ety data]"
    using clean dec assms(3) by (simp add: load_line_def strip_clean) (simp add: clean_line_def)
  show ?thesis
    unfolding logged_def tx
    by (intro exI [of _ "ls @ [?enc]"]) (use ls clean line in \<open>simp add: lines_text_def\<close>)
qed

type_synonym demo_entry = "datetime \<times> string \<times> jdict"

definition log_all :: "'s demo_env \<Rightarrow> string \<Rightarrow> demo_entry list \<Rightarrow> ('s, unit) io" where
  "log_all env tid es = io_each (\<lambda>(now, ety, data). log_event env now tid ety data) es"

lemma log_all_step:
  assumes "de_be env = local_backend parse render base" and "env_good (de_tm env)"
  shows "\<forall>(now, ety, data) \<in> set es. de_loads env (de_dumps env (demo_event env now ety data)) = Some (demo_event env now ety data) \<Longrightarrow>
    logged env tid fs evs \<Longrightarrow> log_all env tid es (n, fs) = (Inr (), n', fs') \<Longrightarrow>
    logged env tid fs' (evs @ map (\<lambda>(now, ety, data). demo_event env now ety data) es)"
proof (induction es arbitrary: evs n fs)
  case Nil
  then show ?case by (simp add: log_all_def)
next
  case (Cons e es)
  obtain now ety data where e: "e = (now, ety, data)" by (cases e) auto
  from Cons.prems(3) obtain n1 fs1 where one: "log_event env now tid ety data (n, fs) = (Inr (), n1, fs1)"
    and more: "log_all env tid es (n1, fs1) = (Inr (), n', fs')"
    by (auto simp: log_all_def e io_bind_Inr)
  have "logged env tid fs1 (evs @ [demo_event env now ety data])"
    by (rule log_event_step [OF assms _ Cons.prems(2) one]) (use Cons.prems(1) e in auto)
  from Cons.IH [OF _ this more] Cons.prems(1) show ?case by (simp add: e)
qed

section \<open>Demo tenants\<close>

lemma document_demo:
  assumes "tenant_from_dict env now d = Inr t"
  shows "bool_field d ''is_demo'' False = Inr (tn_is_demo t)"
    and "rbind (str_field d ''demo_expires_at'' (Some [])) (\<lambda>e.
           if e \<noteq> [] then rbind (iso_res (te_from_iso env) e) (\<lambda>x. Inr (Some x)) else Inr None) = Inr (tn_demo_expires_at t)"
  using assms unfolding tenant_from_dict_def rbind_Inr_iff tenant_post_init_def Let_def
  by (elim exE conjE; clarsimp split: if_splits)+

lemma truthy_bool: "bool_field d k False = Inr b \<Longrightarrow> jtruthy (dget d k JNull) = b"
  by (auto simp: bool_field_def dget_def split: option.splits json.splits)

lemma found_document:
  assumes "de_be env = te_be (de_tm env)" and "finds (de_tm env) tid fs t"
  shows "\<exists>d. be_read_json (de_be env) (tenant_path tid) fs = Inr (Some (JObj d)) \<and> d \<noteq> []
    \<and> tenant_from_dict (de_tm env) now d = Inr t"
proof -
  have "get_tenant (de_tm env) now tid (0, fs) = (Inr (Some t), 0, fs)" using assms(2) by (simp add: finds_def)
  then obtain v where v: "be_read_json (te_be (de_tm env)) (tenant_path tid) fs = Inr (Some v)"
    "tenant_from_json (de_tm env) now v = Inr t"
    by (auto simp: get_tenant_def io_bind_run split: sum.splits option.splits)
  from loaded_truthy [OF v(2)] v assms(1) show ?thesis by (cases v) (auto simp: tenant_from_json_def)
qed

lemma expiry_run:
  assumes "de_be env = te_be (de_tm env)" and "finds (de_tm env) tid fs t" and "tn_is_demo t"
    and "tn_demo_expires_at t = Some x"
  shows "\<exists>d. check_expiry env now tid (n, fs) =
    (if dt_micros now \<ge> dt_micros x then io_bind (expire_demo env now tid d) (\<lambda>_. io_ret False) (n, fs)
     else (Inr True, n, fs))"
proof -
  from found_document [OF assms(1,2), of now] obtain d
    where d: "be_read_json (de_be env) (tenant_path tid) fs = Inr (Some (JObj d))" "d \<noteq> []"
    and t: "tenant_from_dict (de_tm env) now d = Inr t" by blast
  have demo: "jtruthy (dget d ''is_demo'' JNull)" using truthy_bool [OF document_demo(1) [OF t]] assms(3) by simp
  have "expiry_of env d = Inr (tn_demo_expires_at t)" unfolding expiry_of_def by (rule document_demo(2) [OF t])
  then have ex: "expiry_of env d = Inr (Some x)" by (simp add: assms(4))
  show ?thesis
    by (intro exI [of _ d]) (simp add: check_expiry_def io_bind_run load_tenant_data_def io_catch_def d demo_doc_def demo ex)
qed

lemma saved_document:
  assumes "env_good tm" and "save_tenant tm t (n, s) = (Inr (), n', s')"
  shows "\<exists>enc h. be_write_json (te_be tm) (tenant_path (tn_tenant_id t)) (JObj (tenant_dict tm enc h t)) s = (Inr (), s')
    \<and> (\<forall>t'. tn_tenant_id t' = tn_tenant_id t \<and> tn_api_key t' = tn_api_key t \<longrightarrow>
          stored_api_key tm (tenant_dict tm enc h t') = Inr (tn_api_key t'))"
proof (cases "tn_api_key t = []")
  case True
  with assms(2) show ?thesis
    by (intro exI [of _ "[]"]) (auto simp: save_tenant_def tenant_to_dict_def io_write_run stored_api_key_none)
next
  case False
  let ?enc = "field_encrypt (te_crypto tm) (te_master tm) (te_rnd tm n) (tn_api_key t) (tn_tenant_id t) ''api_key''"
  have "stored_api_key tm (tenant_dict tm ?enc h t') = Inr (tn_api_key t')"
    if "tn_tenant_id t' = tn_tenant_id t" "tn_api_key t' = tn_api_key t" for t' h
    using stored_api_key_encrypted [OF assms(1), of n "tn_api_key t" t' h] that by simp
  with False assms(2) show ?thesis
    by (intro exI [of _ ?enc] exI [of _ "te_sha256hex tm (utf8_encode (tn_api_key t))"])
      (auto simp: save_tenant_def tenant_to_dict_def io_bind_run io_write_run)
qed

lemma demo_fields_dict:
  "demo_fields env expires cap_p cap_l by_whom (tenant_dict (de_tm env) enc h t) =
   tenant_dict (de_tm env) enc h (t\<lparr>tn_is_demo := True, tn_demo_expires_at := Some expires,
     tn_demo_cost_cap_pipeline := cap_p, tn_demo_cost_cap_llm := cap_l, tn_demo_created_by := by_whom\<rparr>)"
  by (simp add: demo_fields_def tenant_dict_def)

section \<open>An environment to evaluate in\<close>

definition sample_demo_env :: "files demo_env" where
  "sample_demo_env =
     \<lparr>de_tm = sample_env, de_be = sample_backend, de_dumps = (\<lambda>_. ''{}''),
      de_loads = (\<lambda>_. Some (JObj [(''event_type'', JStr ''error''), (''timestamp'', JStr (unary_iso sample_time)),
                                   (''data'', JObj [])]))\<rparr>"

definition expiring_tenant :: tenant where
  "expiring_tenant = sample_tenant\<lparr>tn_is_demo := True, tn_demo_expires_at := Some sample_time\<rparr>"

definition expiring_files :: files where
  "expiring_files = [(\<lparr>pp_root = Slash, pp_parts = [''data'', ''tenants'', ''tn_1.json'']\<rparr>,
     JsonFile (JObj (tenant_dict sample_env [] [] expiring_tenant)))]"

lemma sample_demo_be: "de_be sample_demo_env = local_backend (\<lambda>_. None) (\<lambda>_. []) (py_path ''/data'')"
    "te_be (de_tm sample_demo_env) = local_backend (\<lambda>_. None) (\<lambda>_. []) (py_path ''/data'')"
    "env_good (de_tm sample_demo_env)"
  by (simp_all add: sample_demo_env_def sample_env_be sample_backend_def sample_env_good)

lemma expiring_holds: "holds (de_tm sample_demo_env) ''tn_1'' expiring_files expiring_tenant"
proof -
  have ok: "tenant_ok expiring_tenant" "tn_tenant_id expiring_tenant = ''tn_1''" "tn_api_key expiring_tenant = []"
    using sample_tenant_ok by (simp_all add: expiring_tenant_def tenant_ok_def)
  have "tenant_from_dict sample_env now (tenant_dict sample_env [] [] expiring_tenant) = Inr expiring_tenant" for now
    by (rule tenant_dict_round_trip [OF sample_env_good ok(1)]) (simp add: stored_api_key_none ok)
  then show ?thesis
    by (simp add: holds_def finds_def get_tenant_def io_bind_run sample_demo_env_def sample_env_be ok
        tenant_path_def tenants_prefix_def local_backend_def local_read_json_def sample_resolve
        expiring_files_def tenant_from_json_def)
qed

lemma sample_demo_runs:
  "\<not> isl (fst (check_expiry sample_demo_env sample_time ''tn_1'' (0, expiring_files)))"
  "\<not> isl (fst (create_demo sample_demo_env ''07'' [] sample_time ''Ada'' ''a@b.c'' ''root'' 0 50 100 [] (0, [])))"
  "fst (log_all sample_demo_env ''tn_1'' [(sample_time, ''error'', [])] (0, [])) = Inr ()"
  by code_simp+

lemma not_left: "\<not> isl (fst r) \<Longrightarrow> \<exists>x n s. r = (Inr x, n, s)"
  by (cases r; cases "fst r") auto

section \<open>Properties\<close>

text \<open>The event log of a demo account gives back what was logged: after any sequence of events, each encrypted and
appended, the events loaded are exactly those, in order.\<close>

theorem demo_log_round_trip:
  assumes "de_be env = local_backend parse render base" and "env_good (de_tm env)"
    and "\<forall>(now, ety, data) \<in> set es. de_loads env (de_dumps env (demo_event env now ety data)) = Some (demo_event env now ety data)"
    and "be_read_text (de_be env) (events_path tid) fs = Inr None"
    and "log_all env tid es (n, fs) = (Inr (), n', fs')"
  shows "load_events env tid (n', fs') = (Inr (map (\<lambda>(now, ety, data). demo_event env now ety data) es), n', fs')"
proof -
  have "logged env tid fs []" by (simp add: logged_def log_text_def assms(4) lines_text_def exI [of _ "[]"])
  from log_all_step [OF assms(1-3) this assms(5)] show ?thesis by (simp add: load_logged)
qed

theorem demo_log_round_trip_witness:
  "\<exists>n fs. log_all sample_demo_env ''tn_1'' [(sample_time, ''error'', [])] (0, []) = (Inr (), n, fs)
     \<and> load_events sample_demo_env ''tn_1'' (n, fs) = (Inr [demo_event sample_demo_env sample_time ''error'' []], n, fs)"
proof -
  obtain n fs where run: "log_all sample_demo_env ''tn_1'' [(sample_time, ''error'', [])] (0, []) = (Inr (), n, fs)"
    using sample_demo_runs(3) by (metis prod.collapse)
  have "be_read_text (de_be sample_demo_env) (events_path ''tn_1'') [] = Inr None"
    by (simp add: sample_demo_be local_backend_def local_read_text_def resolve_key_def py_path_def leading_slashes_def
        path_join_def path_text_def events_path_def)
  from demo_log_round_trip [OF sample_demo_be(1,3) _ this run] run show ?thesis
    by (simp add: sample_demo_env_def demo_event_def sample_env_def)
qed

text \<open>An expiry check leaves a demo that has not expired alone and answers that it is active; one that has expired
is deactivated by the check, its credentials erased, and reported as expired.\<close>

theorem expired_demo_deactivated:
  assumes "de_be env = local_backend parse render base" and "te_be (de_tm env) = local_backend parse render base"
    and "env_good (de_tm env)" and "simple_id tid" and "holds (de_tm env) tid fs t"
    and "tn_is_demo t" and "tn_demo_expires_at t = Some x" and "check_expiry env now tid (n, fs) = (Inr b, n', fs')"
  shows "b = (dt_micros now < dt_micros x)
    \<and> finds (de_tm env) tid fs' (if b then t else t\<lparr>tn_is_active := False, tn_config := wipe_secrets (tn_config t)\<rparr>)"
proof -
  have f: "finds (de_tm env) tid fs t" using assms(5) by (simp add: holds_def)
  have be: "de_be env = te_be (de_tm env)" using assms(1,2) by simp
  from expiry_run [OF be f assms(6,7), of now n] obtain d where run: "check_expiry env now tid (n, fs) =
    (if dt_micros now \<ge> dt_micros x then io_bind (expire_demo env now tid d) (\<lambda>_. io_ret False) (n, fs)
     else (Inr True, n, fs))" by blast
  show ?thesis
  proof (cases "dt_micros now \<ge> dt_micros x")
    case False
    with run assms(8) f show ?thesis by simp
  next
    case True
    with run assms(8) have "io_bind (expire_demo env now tid d) (\<lambda>_. io_ret False) (n, fs) = (Inr b, n', fs')" by simp
    then obtain n1 fs1 y where b: "\<not> b"
      and lg: "log_event env now tid ''demo_expired'' [(''expires_at'', dget d ''demo_expires_at'' (JStr []))] (n, fs) = (Inr (), n1, fs1)"
      and de: "deactivate_tenant (de_tm env) now tid (n1, fs1) = (Inr y, n', fs')"
      by (auto simp: expire_demo_def io_bind_assoc io_bind_Inr)
    have rd: "be_read_json (local_backend parse render base) (tenant_path tid) fs1 =
        be_read_json (local_backend parse render base) (tenant_path tid) fs"
      by (rule log_event_frame [OF assms(1,4) tenant_path_canonical [OF assms(4)] lg])
    have h: "holds (de_tm env) tid fs1 t"
      using local_store.finds_cong [OF assms(2) rd] assms(5) by (simp add: holds_def)
    have "y = True" using de by (auto simp: deactivate_tenant_def holds_get [OF h] io_bind_run Let_def split: sum.splits prod.splits)
    with deactivate_record [OF assms(2-4) h] de True b show ?thesis by simp
  qed
qed

theorem expired_demo_deactivated_witness:
  "\<exists>n fs. check_expiry sample_demo_env sample_time ''tn_1'' (0, expiring_files) = (Inr False, n, fs)
     \<and> finds (de_tm sample_demo_env) ''tn_1'' fs
         (expiring_tenant\<lparr>tn_is_active := False, tn_config := wipe_secrets (tn_config expiring_tenant)\<rparr>)"
proof -
  obtain b n fs where run: "check_expiry sample_demo_env sample_time ''tn_1'' (0, expiring_files) = (Inr b, n, fs)"
    using not_left [OF sample_demo_runs(1)] by blast
  have "tn_is_demo expiring_tenant" "tn_demo_expires_at expiring_tenant = Some sample_time"
    by (simp_all add: expiring_tenant_def)
  from expired_demo_deactivated [OF sample_demo_be sample_simple expiring_holds this run] run show ?thesis by auto
qed

text \<open>A demo made without a proxy token is stored as an active VIP tenant with the demo flags, caps and expiry asked
for; the tenant returned to the caller is the one without them.\<close>

theorem created_demo_is_stored:
  assumes "de_be env = local_backend parse render base" and "te_be (de_tm env) = local_backend parse render base"
    and "env_good (de_tm env)" and "simple_id (''tn_'' @ hex)"
    and "create_demo env hex key now name email by_whom days cap_p cap_l [] (n, fs) = (Inr t, n', fs')"
  shows "\<not> tn_is_demo t \<and>
    finds (de_tm env) (''tn_'' @ hex) fs'
      (t\<lparr>tn_is_demo := True, tn_demo_expires_at := Some (now\<lparr>dt_micros := dt_micros now + days * day_micros\<rparr>),
         tn_demo_cost_cap_pipeline := cap_p, tn_demo_cost_cap_llm := cap_l, tn_demo_created_by := by_whom\<rparr>)
    \<and> tn_tier t = VIP \<and> tn_is_active t"
proof -
  let ?be = "local_backend parse render base" and ?tm = "de_tm env" and ?tid = "''tn_'' @ hex"
  let ?t = "make_tenant ?tid name email VIP (tier_value VIP) key now"
  have id: "tn_tenant_id ?t = ?tid" "tn_is_demo ?t = False" "tn_tier ?t = VIP" "tn_is_active ?t = True"
    by (simp_all add: make_tenant_def tenant_post_init_def Let_def)
  have key: "canonical_key (tenant_path ?tid)" by (rule tenant_path_canonical [OF assms(4)])
  define x where "x = now\<lparr>dt_micros := dt_micros now + days * day_micros\<rparr>"
  define t' where "t' = ?t\<lparr>tn_is_demo := True, tn_demo_expires_at := Some x,
         tn_demo_cost_cap_pipeline := cap_p, tn_demo_cost_cap_llm := cap_l, tn_demo_created_by := by_whom\<rparr>"
  from assms(5) obtain n1 fs1 where cr: "create_tenant ?tm hex key now name email VIP (n, fs) = (Inr t, n1, fs1)"
    and rest: "io_bind (load_tenant_data env (tn_tenant_id t)) (\<lambda>data. io_bind (io_res (demo_doc data)) (\<lambda>doc.
      io_bind (case doc of
                Some d \<Rightarrow>
                  io_bind (io_res (plus_days now days)) (\<lambda>expires.
                    let d = demo_fields env expires cap_p cap_l by_whom d
                    in io_bind (save_tenant_data env (tn_tenant_id t) d) (\<lambda>_. io_ret (dget d ''demo_expires_at'' (JStr []))))
              | None \<Rightarrow> io_ret (JStr [])) (\<lambda>expires_text.
      io_bind (log_event env now (tn_tenant_id t) ''demo_created''
                [(''created_by'', JStr by_whom), (''duration_days'', JInt days),
                 (''cost_cap_pipeline'', JInt cap_p), (''cost_cap_llm'', JInt cap_l),
                 (''expires_at'', expires_text)]) (\<lambda>_. io_ret t)))) (n1, fs1) = (Inr t, n', fs')"
    by (auto simp: create_demo_def io_bind_Inr bind_llm_proxy_def)
  from cr obtain na fsa where t: "t = ?t" and sv: "save_tenant ?tm ?t (na, fsa) = (Inr (), n1, fs1)"
    by (auto simp: create_tenant_def Let_def io_bind_Inr)
  have same: "tn_tenant_id t' = tn_tenant_id ?t" "tn_api_key t' = tn_api_key ?t" by (simp_all add: t'_def)
  from saved_document [OF assms(3) sv] obtain enc h
    where w0: "be_write_json (te_be ?tm) (tenant_path (tn_tenant_id ?t)) (JObj (tenant_dict ?tm enc h ?t)) fsa = (Inr (), fs1)"
      and api: "stored_api_key ?tm (tenant_dict ?tm enc h t') = Inr (tn_api_key t')"
    using same by blast
  note w = w0 [unfolded assms(2) id(1)]
  define tid d where "tid = ?tid" and "d = tenant_dict ?tm enc h ?t"
  have key': "canonical_key (tenant_path tid)" and simple: "simple_id tid" using key assms(4) by (simp_all add: tid_def)
  have rd: "be_read_json ?be (tenant_path tid) fs1 = Inr (Some (JObj d))"
    unfolding tid_def d_def by (rule local_store.write_read [OF TrueI key TrueI w])
  have ne: "d \<noteq> []" by (simp add: d_def tenant_dict_def)
  have df: "demo_fields env x cap_p cap_l by_whom d = tenant_dict ?tm enc h t'"
    unfolding d_def t'_def by (rule demo_fields_dict)
  have idt: "tn_tenant_id t = tid" unfolding t tid_def by (rule id(1))
  obtain x' where x': "plus_days now days = Inr x'"
    using rest by (cases "plus_days now days")
      (auto simp: io_bind_run load_tenant_data_def io_catch_def demo_doc_def idt assms(1) rd ne split: prod.splits)
  then have "x' = x" by (auto simp: plus_days_def x_def Let_def split: if_splits)
  with rest x' obtain fs2 ex where w2: "be_write_json ?be (tenant_path tid) (JObj (tenant_dict ?tm enc h t')) fs1 = (Inr (), fs2)"
    and lg: "log_event env now tid ''demo_created'' [(''created_by'', JStr by_whom), (''duration_days'', JInt days),
                 (''cost_cap_pipeline'', JInt cap_p), (''cost_cap_llm'', JInt cap_l),
                 (''expires_at'', ex)] (n1, fs2) = (Inr (), n', fs')"
    by (auto simp: io_bind_run load_tenant_data_def io_catch_def demo_doc_def idt assms(1) rd ne save_tenant_data_def
        df io_write_def Let_def split: prod.splits sum.splits)
  have ok: "tenant_ok t'"
    using tenant_post_init_ok by (simp_all add: t'_def make_tenant_def tenant_ok_def tenant_post_init_def Let_def)
  have "be_read_json ?be (tenant_path tid) fs2 = Inr (Some (JObj (tenant_dict ?tm enc h t')))"
    by (rule local_store.write_read [OF TrueI key' TrueI w2])
  then have "be_read_json ?be (tenant_path tid) fs' = Inr (Some (JObj (tenant_dict ?tm enc h t')))"
    using log_event_frame [OF assms(1) simple key' lg] by simp
  then have "finds ?tm tid fs' t'"
    using tenant_dict_round_trip [OF assms(3) ok api]
    by (simp add: finds_def get_tenant_def io_bind_run assms(2) tenant_from_json_def)
  then show ?thesis unfolding t tid_def using id unfolding t'_def x_def by blast
qed

theorem created_demo_is_stored_witness:
  "\<exists>t n fs. create_demo sample_demo_env ''07'' [] sample_time ''Ada'' ''a@b.c'' ''root'' 0 50 100 [] (0, []) = (Inr t, n, fs)
     \<and> (\<exists>t'. finds (de_tm sample_demo_env) ''tn_07'' fs t' \<and> tn_is_demo t' \<and> \<not> tn_is_demo t)"
proof -
  obtain t n fs where run: "create_demo sample_demo_env ''07'' [] sample_time ''Ada'' ''a@b.c'' ''root'' 0 50 100 [] (0, []) = (Inr t, n, fs)"
    using not_left [OF sample_demo_runs(2)] by blast
  have "simple_id (''tn_'' @ ''07'')" by (simp add: simple_id_def)
  from created_demo_is_stored [OF sample_demo_be this run] run show ?thesis by fastforce
qed

end
