(* ===== verification/Catalog.thy ===== *)
theory Catalog
  imports Storage TaskQueue
begin

text \<open>
  \<open>src/brain/catalog\<close>: the SQLite data catalog. Each SQL table is the list of its rows; a statement
  is a function of the tables with the constraints of the schema: primary keys, foreign keys
  (\<open>PRAGMA foreign_keys=ON\<close>) and 64-bit integers. Times are ISO texts made and parsed by the
  parameters of the environment, as is the JSON text of the columns. The order of rows that an
  \<open>ORDER BY\<close> leaves open is the order of insertion.
\<close>

section \<open>Models\<close>

datatype grant_level = SELECT_LEVEL | INSERT_LEVEL | UPDATE_LEVEL | DELETE_LEVEL | ALL_LEVEL

fun level_value :: "grant_level \<Rightarrow> string" where
  "level_value SELECT_LEVEL = ''SELECT''"
| "level_value INSERT_LEVEL = ''INSERT''"
| "level_value UPDATE_LEVEL = ''UPDATE''"
| "level_value DELETE_LEVEL = ''DELETE''"
| "level_value ALL_LEVEL = ''ALL''"

definition level_of :: "string \<Rightarrow> grant_level res" where
  "level_of s =
     (case map_of (map (\<lambda>l. (level_value l, l)) [SELECT_LEVEL, INSERT_LEVEL, UPDATE_LEVEL, DELETE_LEVEL, ALL_LEVEL]) s of
        Some l \<Rightarrow> Inr l
      | None \<Rightarrow> Inl (ValueError ''is not a valid GrantLevel''))"

record column_def =
  cd_name :: string
  cd_dtype :: string
  cd_nullable :: bool
  cd_description :: string

record catalog_namespace =
  cn_name :: string
  cn_owner :: string
  cn_created_at :: datetime

record catalog_schema =
  cs_namespace :: string
  cs_name :: string
  cs_description :: string
  cs_created_at :: datetime

record catalog_table =
  ct_namespace :: string
  ct_schema_name :: string
  ct_name :: string
  ct_columns :: "column_def list"
  ct_row_count :: int
  ct_size_bytes :: int
  ct_format :: string
  ct_description :: string
  ct_created_at :: datetime
  ct_updated_at :: datetime

definition table_full_name :: "catalog_table \<Rightarrow> string" where
  "table_full_name t = ct_namespace t @ ''.'' @ ct_schema_name t @ ''.'' @ ct_name t"

record catalog_grant =
  cg_role :: string
  cg_namespace :: string
  cg_schema_name :: string
  cg_level :: grant_level
  cg_granted_at :: datetime

record lineage_record =
  lr_source_table :: string
  lr_target_table :: string
  lr_pipeline_stage :: string
  lr_tenant_id :: string
  lr_transformed_at :: datetime
  lr_record_count :: int

section \<open>The database\<close>

record namespace_row =
  nr_name :: string
  nr_owner :: string
  nr_created_at :: string

record schema_row =
  sr_namespace :: string
  sr_name :: string
  sr_description :: string
  sr_created_at :: string

record table_row =
  tr_namespace :: string
  tr_schema_name :: string
  tr_name :: string
  tr_columns_json :: string
  tr_row_count :: int
  tr_size_bytes :: int
  tr_format :: string
  tr_description :: string
  tr_created_at :: string
  tr_updated_at :: string

record grant_row =
  gr_role :: string
  gr_namespace :: string
  gr_schema_name :: string
  gr_grant_level :: string
  gr_granted_at :: string

record lineage_row =
  lg_source_table :: string
  lg_target_table :: string
  lg_pipeline_stage :: string
  lg_tenant_id :: string
  lg_transformed_at :: string
  lg_record_count :: int

record catalog_db =
  db_namespaces :: "namespace_row list"
  db_schemas :: "schema_row list"
  db_tables :: "table_row list"
  db_grants :: "grant_row list"
  db_lineage :: "lineage_row list"

definition empty_catalog :: catalog_db where
  "empty_catalog = \<lparr>db_namespaces = [], db_schemas = [], db_tables = [], db_grants = [], db_lineage = []\<rparr>"

record catalog_env =
  ce_iso :: "datetime \<Rightarrow> string"
  ce_from_iso :: "string \<Rightarrow> datetime option"
  ce_dumps :: "json \<Rightarrow> string"
  ce_loads :: "string \<Rightarrow> json option"

abbreviation parse_time :: "catalog_env \<Rightarrow> string \<Rightarrow> datetime res" where
  "parse_time env s \<equiv> iso_res (ce_from_iso env) s"

text \<open>\<open>sqlite3\<close> refuses integers outside 64 bits.\<close>

definition sql_int :: "int \<Rightarrow> int res" where
  "sql_int i = (if - (2 ^ 63) \<le> i \<and> i < 2 ^ 63 then Inr i else Inl (OtherError ''OverflowError''))"

text \<open>\<open>INSERT OR IGNORE\<close>: a row whose primary key exists is ignored; a missing parent row raises.\<close>

definition insert_or_ignore :: "('r \<Rightarrow> 'k) \<Rightarrow> bool \<Rightarrow> 'r \<Rightarrow> 'r list \<Rightarrow> 'r list res" where
  "insert_or_ignore pk parent_exists r rs =
     (if pk r \<in> pk ` set rs then Inr rs
      else if \<not> parent_exists then Inl (IntegrityError ''FOREIGN KEY constraint failed'')
      else Inr (rs @ [r]))"

section \<open>Namespaces and schemas\<close>

definition create_namespace ::
    "catalog_env \<Rightarrow> datetime \<Rightarrow> string \<Rightarrow> string \<Rightarrow> catalog_db \<Rightarrow> catalog_namespace res \<times> catalog_db" where
  "create_namespace env now name owner db =
     (case insert_or_ignore nr_name True \<lparr>nr_name = name, nr_owner = owner, nr_created_at = ce_iso env now\<rparr>
             (db_namespaces db) of
        Inl e \<Rightarrow> (Inl e, db)
      | Inr rows \<Rightarrow>
          (rbind (parse_time env (ce_iso env now)) (\<lambda>t. Inr \<lparr>cn_name = name, cn_owner = owner, cn_created_at = t\<rparr>),
           db\<lparr>db_namespaces := rows\<rparr>))"

definition namespace_of_row :: "catalog_env \<Rightarrow> namespace_row \<Rightarrow> catalog_namespace res" where
  "namespace_of_row env r =
     rbind (parse_time env (nr_created_at r)) (\<lambda>t.
       Inr \<lparr>cn_name = nr_name r, cn_owner = nr_owner r, cn_created_at = t\<rparr>)"

definition get_namespace :: "catalog_env \<Rightarrow> string \<Rightarrow> catalog_db \<Rightarrow> catalog_namespace option res" where
  "get_namespace env name db =
     (case find (\<lambda>r. nr_name r = name) (db_namespaces db) of
        None \<Rightarrow> Inr None
      | Some r \<Rightarrow> rbind (namespace_of_row env r) (\<lambda>n. Inr (Some n)))"

definition list_namespaces :: "catalog_env \<Rightarrow> catalog_db \<Rightarrow> catalog_namespace list res" where
  "list_namespaces env db = rmap (namespace_of_row env) (sort_key nr_name (db_namespaces db))"

definition namespace_exists :: "string \<Rightarrow> catalog_db \<Rightarrow> bool" where
  "namespace_exists ns db \<longleftrightarrow> ns \<in> nr_name ` set (db_namespaces db)"

definition schema_key :: "schema_row \<Rightarrow> string \<times> string" where
  "schema_key r = (sr_namespace r, sr_name r)"

definition create_schema ::
    "catalog_env \<Rightarrow> datetime \<Rightarrow> string \<Rightarrow> string \<Rightarrow> string \<Rightarrow> catalog_db \<Rightarrow> catalog_schema res \<times> catalog_db" where
  "create_schema env now ns name description db =
     (case insert_or_ignore schema_key (namespace_exists ns db)
             \<lparr>sr_namespace = ns, sr_name = name, sr_description = description, sr_created_at = ce_iso env now\<rparr>
             (db_schemas db) of
        Inl e \<Rightarrow> (Inl e, db)
      | Inr rows \<Rightarrow>
          (rbind (parse_time env (ce_iso env now)) (\<lambda>t.
             Inr \<lparr>cs_namespace = ns, cs_name = name, cs_description = description, cs_created_at = t\<rparr>),
           db\<lparr>db_schemas := rows\<rparr>))"

definition list_schemas :: "catalog_env \<Rightarrow> string \<Rightarrow> catalog_db \<Rightarrow> catalog_schema list res" where
  "list_schemas env ns db =
     rmap (\<lambda>r. rbind (parse_time env (sr_created_at r)) (\<lambda>t.
             Inr \<lparr>cs_namespace = sr_namespace r, cs_name = sr_name r, cs_description = sr_description r,
                  cs_created_at = t\<rparr>))
       (sort_key sr_name (filter (\<lambda>r. sr_namespace r = ns) (db_schemas db)))"

section \<open>Tables\<close>

definition column_json :: "column_def \<Rightarrow> json" where
  "column_json c =
     JObj [(''name'', JStr (cd_name c)), (''dtype'', JStr (cd_dtype c)), (''nullable'', JBool (cd_nullable c)),
           (''description'', JStr (cd_description c))]"

definition column_of :: "bool \<Rightarrow> json \<Rightarrow> column_def res" where
  "column_of with_description v =
     (case v of
        JObj d \<Rightarrow>
          rbind (str_field d ''name'' None) (\<lambda>name.
          rbind (str_field d ''dtype'' None) (\<lambda>dtype.
          rbind (bool_field d ''nullable'' True) (\<lambda>nullable.
          rbind (if with_description then str_field d ''description'' (Some []) else Inr []) (\<lambda>description.
            Inr \<lparr>cd_name = name, cd_dtype = dtype, cd_nullable = nullable, cd_description = description\<rparr>))))
      | _ \<Rightarrow> Inl (OtherError ''TypeError''))"

definition columns_of :: "catalog_env \<Rightarrow> bool \<Rightarrow> string \<Rightarrow> column_def list res" where
  "columns_of env with_description s =
     (case ce_loads env s of
        None \<Rightarrow> Inl (ValueError ''JSONDecodeError'')
      | Some (JArr vs) \<Rightarrow> rmap (column_of with_description) vs
      | Some _ \<Rightarrow> Inl (OtherError ''TypeError''))"

definition table_key :: "table_row \<Rightarrow> string \<times> string \<times> string" where
  "table_key r = (tr_namespace r, tr_schema_name r, tr_name r)"

definition schema_exists :: "string \<Rightarrow> string \<Rightarrow> catalog_db \<Rightarrow> bool" where
  "schema_exists ns s db \<longleftrightarrow> (ns, s) \<in> schema_key ` set (db_schemas db)"

text \<open>\<open>ON CONFLICT DO UPDATE\<close>: the columns, the counts and the update time of the new row.\<close>

definition upsert_table :: "table_row \<Rightarrow> table_row list \<Rightarrow> table_row list" where
  "upsert_table new rows =
     (if table_key new \<in> table_key ` set rows
      then map (\<lambda>r. if table_key r = table_key new
                    then r\<lparr>tr_columns_json := tr_columns_json new, tr_row_count := tr_row_count new,
                           tr_size_bytes := tr_size_bytes new, tr_updated_at := tr_updated_at new\<rparr>
                    else r) rows
      else rows @ [new])"

definition register_table ::
    "catalog_env \<Rightarrow> datetime \<Rightarrow> string \<Rightarrow> string \<Rightarrow> string \<Rightarrow> column_def list \<Rightarrow> int \<Rightarrow> int \<Rightarrow> string \<Rightarrow> string \<Rightarrow>
     catalog_db \<Rightarrow> catalog_table res \<times> catalog_db" where
  "register_table env now ns s name columns row_count size_bytes fmt description db =
     (let text = ce_iso env now;
          row = \<lparr>tr_namespace = ns, tr_schema_name = s, tr_name = name,
                 tr_columns_json = ce_dumps env (JArr (map column_json columns)), tr_row_count = row_count,
                 tr_size_bytes = size_bytes, tr_format = fmt, tr_description = description,
                 tr_created_at = text, tr_updated_at = text\<rparr>
      in case rbind (sql_int row_count) (\<lambda>_. sql_int size_bytes) of
           Inl e \<Rightarrow> (Inl e, db)
         | Inr _ \<Rightarrow>
             if \<not> schema_exists ns s db then (Inl (IntegrityError ''FOREIGN KEY constraint failed''), db)
             else (rbind (parse_time env text) (\<lambda>t.
                     Inr \<lparr>ct_namespace = ns, ct_schema_name = s, ct_name = name, ct_columns = columns,
                          ct_row_count = row_count, ct_size_bytes = size_bytes, ct_format = fmt,
                          ct_description = description, ct_created_at = t, ct_updated_at = t\<rparr>),
                   db\<lparr>db_tables := upsert_table row (db_tables db)\<rparr>))"

definition table_of_row :: "catalog_env \<Rightarrow> bool \<Rightarrow> table_row \<Rightarrow> catalog_table res" where
  "table_of_row env with_description r =
     rbind (columns_of env with_description (tr_columns_json r)) (\<lambda>columns.
     rbind (parse_time env (tr_created_at r)) (\<lambda>created.
     rbind (parse_time env (tr_updated_at r)) (\<lambda>updated.
       Inr \<lparr>ct_namespace = tr_namespace r, ct_schema_name = tr_schema_name r, ct_name = tr_name r,
            ct_columns = columns, ct_row_count = tr_row_count r, ct_size_bytes = tr_size_bytes r,
            ct_format = tr_format r, ct_description = tr_description r, ct_created_at = created,
            ct_updated_at = updated\<rparr>)))"

definition get_table ::
    "catalog_env \<Rightarrow> string \<Rightarrow> string \<Rightarrow> string \<Rightarrow> catalog_db \<Rightarrow> catalog_table option res" where
  "get_table env ns s name db =
     (case find (\<lambda>r. table_key r = (ns, s, name)) (db_tables db) of
        None \<Rightarrow> Inr None
      | Some r \<Rightarrow> rbind (table_of_row env True r) (\<lambda>t. Inr (Some t)))"

definition list_tables :: "catalog_env \<Rightarrow> string \<Rightarrow> string \<Rightarrow> catalog_db \<Rightarrow> catalog_table list res" where
  "list_tables env ns s db =
     rmap (table_of_row env False)
       (sort_key tr_name (filter (\<lambda>r. tr_namespace r = ns \<and> tr_schema_name r = s) (db_tables db)))"

definition update_table_stats ::
    "catalog_env \<Rightarrow> datetime \<Rightarrow> string \<Rightarrow> string \<Rightarrow> string \<Rightarrow> int \<Rightarrow> int \<Rightarrow> catalog_db \<Rightarrow> unit res \<times> catalog_db" where
  "update_table_stats env now ns s name row_count size_bytes db =
     (case rbind (sql_int row_count) (\<lambda>_. sql_int size_bytes) of
        Inl e \<Rightarrow> (Inl e, db)
      | Inr _ \<Rightarrow>
          (Inr (), db\<lparr>db_tables :=
             map (\<lambda>r. if table_key r = (ns, s, name)
                      then r\<lparr>tr_row_count := row_count, tr_size_bytes := size_bytes,
                             tr_updated_at := ce_iso env now\<rparr>
                      else r) (db_tables db)\<rparr>))"

section \<open>Grants\<close>

definition grant_key :: "grant_row \<Rightarrow> string \<times> string \<times> string \<times> string" where
  "grant_key r = (gr_role r, gr_namespace r, gr_schema_name r, gr_grant_level r)"

definition grant_access ::
    "catalog_env \<Rightarrow> datetime \<Rightarrow> string \<Rightarrow> string \<Rightarrow> string \<Rightarrow> grant_level \<Rightarrow> catalog_db \<Rightarrow>
     catalog_grant res \<times> catalog_db" where
  "grant_access env now role ns s level db =
     (case insert_or_ignore grant_key True
             \<lparr>gr_role = role, gr_namespace = ns, gr_schema_name = s, gr_grant_level = level_value level,
              gr_granted_at = ce_iso env now\<rparr> (db_grants db) of
        Inl e \<Rightarrow> (Inl e, db)
      | Inr rows \<Rightarrow>
          (rbind (parse_time env (ce_iso env now)) (\<lambda>t.
             Inr \<lparr>cg_role = role, cg_namespace = ns, cg_schema_name = s, cg_level = level, cg_granted_at = t\<rparr>),
           db\<lparr>db_grants := rows\<rparr>))"

definition catalog_check_access :: "string \<Rightarrow> string \<Rightarrow> string \<Rightarrow> grant_level \<Rightarrow> catalog_db \<Rightarrow> bool" where
  "catalog_check_access role ns s level db \<longleftrightarrow>
     list_ex (\<lambda>r. gr_role r = role \<and> gr_namespace r = ns \<and> gr_schema_name r = s
                  \<and> (gr_grant_level r = level_value level \<or> gr_grant_level r = ''ALL'')) (db_grants db)"

definition list_grants :: "catalog_env \<Rightarrow> string \<Rightarrow> string \<Rightarrow> catalog_db \<Rightarrow> catalog_grant list res" where
  "list_grants env ns s db =
     rmap (\<lambda>r. rbind (level_of (gr_grant_level r)) (\<lambda>level.
               rbind (parse_time env (gr_granted_at r)) (\<lambda>t.
                 Inr \<lparr>cg_role = gr_role r, cg_namespace = gr_namespace r, cg_schema_name = gr_schema_name r,
                      cg_level = level, cg_granted_at = t\<rparr>)))
       (sort_key gr_role (filter (\<lambda>r. gr_namespace r = ns \<and> gr_schema_name r = s) (db_grants db)))"

definition revoke_access ::
    "string \<Rightarrow> string \<Rightarrow> string \<Rightarrow> grant_level \<Rightarrow> catalog_db \<Rightarrow> bool \<times> catalog_db" where
  "revoke_access role ns s level db =
     (let rows = filter (\<lambda>r. grant_key r \<noteq> (role, ns, s, level_value level)) (db_grants db)
      in (length rows < length (db_grants db), db\<lparr>db_grants := rows\<rparr>))"

section \<open>Lineage\<close>

definition record_lineage ::
    "catalog_env \<Rightarrow> datetime \<Rightarrow> string \<Rightarrow> string \<Rightarrow> string \<Rightarrow> string \<Rightarrow> int \<Rightarrow> catalog_db \<Rightarrow>
     lineage_record res \<times> catalog_db" where
  "record_lineage env now source target stage tid count db =
     (case sql_int count of
        Inl e \<Rightarrow> (Inl e, db)
      | Inr _ \<Rightarrow>
          (rbind (parse_time env (ce_iso env now)) (\<lambda>t.
             Inr \<lparr>lr_source_table = source, lr_target_table = target, lr_pipeline_stage = stage,
                  lr_tenant_id = tid, lr_transformed_at = t, lr_record_count = count\<rparr>),
           db\<lparr>db_lineage := db_lineage db @
             [\<lparr>lg_source_table = source, lg_target_table = target, lg_pipeline_stage = stage, lg_tenant_id = tid,
               lg_transformed_at = ce_iso env now, lg_record_count = count\<rparr>]\<rparr>))"

definition lineage_of_row :: "catalog_env \<Rightarrow> lineage_row \<Rightarrow> lineage_record res" where
  "lineage_of_row env r =
     rbind (parse_time env (lg_transformed_at r)) (\<lambda>t.
       Inr \<lparr>lr_source_table = lg_source_table r, lr_target_table = lg_target_table r,
            lr_pipeline_stage = lg_pipeline_stage r, lr_tenant_id = lg_tenant_id r, lr_transformed_at = t,
            lr_record_count = lg_record_count r\<rparr>)"

definition get_lineage :: "catalog_env \<Rightarrow> string \<Rightarrow> catalog_db \<Rightarrow> lineage_record list res" where
  "get_lineage env table db =
     rmap (lineage_of_row env)
       (rev (sort_key lg_transformed_at (filter (\<lambda>r. lg_target_table r = table) (db_lineage db))))"

definition get_full_lineage :: "catalog_env \<Rightarrow> string \<Rightarrow> catalog_db \<Rightarrow> lineage_record list res" where
  "get_full_lineage env tid db =
     rmap (lineage_of_row env) (sort_key lg_transformed_at (filter (\<lambda>r. lg_tenant_id r = tid) (db_lineage db)))"

section \<open>The default catalog\<close>

definition medallion_schemas :: "string list" where
  "medallion_schemas = [''bronze'', ''silver'', ''gold'']"

definition default_grants :: "(string \<times> string \<times> grant_level) list" where
  "default_grants =
     [(''free'', ''gold'', SELECT_LEVEL)]
     @ map (\<lambda>s. (''standard'', s, SELECT_LEVEL)) medallion_schemas
     @ [(''standard'', ''bronze'', INSERT_LEVEL)]
     @ map (\<lambda>s. (''premium'', s, ALL_LEVEL)) medallion_schemas
     @ map (\<lambda>s. (''admin'', s, ALL_LEVEL)) medallion_schemas"

text \<open>The statements run one after the other; one that raises ends the bootstrap.\<close>

definition then_db :: "(catalog_db \<Rightarrow> 'a res \<times> catalog_db) \<Rightarrow> unit res \<times> catalog_db \<Rightarrow> unit res \<times> catalog_db" where
  "then_db f st =
     (case st of
        (Inl e, db) \<Rightarrow> (Inl e, db)
      | (Inr _, db) \<Rightarrow> (case f db of (Inl e, db') \<Rightarrow> (Inl e, db') | (Inr _, db') \<Rightarrow> (Inr (), db')))"

definition bootstrap_velaflow :: "catalog_env \<Rightarrow> datetime \<Rightarrow> catalog_db \<Rightarrow> unit res \<times> catalog_db" where
  "bootstrap_velaflow env now db =
     fold (\<lambda>(role, s, level). then_db (grant_access env now role ''velaflow'' s level)) default_grants
       (then_db (create_schema env now ''velaflow'' ''gold'' ''Scored, enriched, AI-ready datasets'')
         (then_db (create_schema env now ''velaflow'' ''silver'' ''Cleaned, deduplicated, PII-masked data'')
           (then_db (create_schema env now ''velaflow'' ''bronze'' ''Raw ingested data from external APIs'')
             (then_db (create_namespace env now ''velaflow'' ''system'') (Inr (), db)))))"

end
