(* ===== verification/CatalogLaws.thy ===== *)
theory CatalogLaws
  imports Catalog TenantGuarantees
begin

text \<open>
  What the catalog guarantees: the constraints of its schema hold after every sequence of operations,
  grants behave as a set of permissions, a registered table reads back, and bootstrapping twice is
  bootstrapping once.
\<close>

section \<open>Runs of operations\<close>

datatype catalog_op =
    CreateNamespace datetime string string
  | CreateSchema datetime string string string
  | RegisterTable datetime string string string "column_def list" int int string string
  | UpdateStats datetime string string string int int
  | Grant datetime string string string grant_level
  | Revoke string string string grant_level
  | RecordLineage datetime string string string string int
  | Bootstrap datetime

fun run_op :: "catalog_env \<Rightarrow> catalog_op \<Rightarrow> catalog_db \<Rightarrow> catalog_db" where
  "run_op env (CreateNamespace now name owner) db = snd (create_namespace env now name owner db)"
| "run_op env (CreateSchema now ns name d) db = snd (create_schema env now ns name d db)"
| "run_op env (RegisterTable now ns s name cols rows bytes fmt d) db =
     snd (register_table env now ns s name cols rows bytes fmt d db)"
| "run_op env (UpdateStats now ns s name rows bytes) db = snd (update_table_stats env now ns s name rows bytes db)"
| "run_op env (Grant now role ns s level) db = snd (grant_access env now role ns s level db)"
| "run_op env (Revoke role ns s level) db = snd (revoke_access role ns s level db)"
| "run_op env (RecordLineage now a b stage tid n) db = snd (record_lineage env now a b stage tid n db)"
| "run_op env (Bootstrap now) db = snd (bootstrap_velaflow env now db)"

section \<open>The constraints of the schema\<close>

definition db_ok :: "catalog_db \<Rightarrow> bool" where
  "db_ok db \<longleftrightarrow>
     distinct (map nr_name (db_namespaces db)) \<and> distinct (map schema_key (db_schemas db))
     \<and> distinct (map table_key (db_tables db)) \<and> distinct (map grant_key (db_grants db))
     \<and> (\<forall>r \<in> set (db_schemas db). namespace_exists (sr_namespace r) db)
     \<and> (\<forall>r \<in> set (db_tables db). schema_exists (tr_namespace r) (tr_schema_name r) db)"

lemma insert_ok:
  assumes "insert_or_ignore pk parent r rs = Inr rs'" and "distinct (map pk rs)"
  shows "distinct (map pk rs')" and "set rs \<subseteq> set rs'" and "set rs' \<subseteq> insert r (set rs)"
    and "r' \<in> set rs' \<Longrightarrow> r' \<in> set rs \<or> r' = r \<and> parent" and "pk ` set rs' = insert (pk r) (pk ` set rs)"
  using assms by (auto simp: insert_or_ignore_def split: if_splits)

lemma namespace_keeps: "db_ok db \<Longrightarrow> db_ok (snd (create_namespace env now name owner db))"
  by (auto simp: create_namespace_def insert_or_ignore_def db_ok_def namespace_exists_def schema_exists_def)

lemma schema_keeps: "db_ok db \<Longrightarrow> db_ok (snd (create_schema env now ns name d db))"
  by (auto simp: create_schema_def insert_or_ignore_def db_ok_def namespace_exists_def schema_exists_def)

lemma upsert_keys: "map table_key (upsert_table new rows) =
    (if table_key new \<in> table_key ` set rows then map table_key rows else map table_key rows @ [table_key new])"
  by (auto simp: upsert_table_def table_key_def)

lemma upsert_schemas: "r \<in> set (upsert_table new rows) \<Longrightarrow>
    (tr_namespace r, tr_schema_name r) \<in> insert (tr_namespace new, tr_schema_name new)
      ((\<lambda>r. (tr_namespace r, tr_schema_name r)) ` set rows)"
  by (auto simp: upsert_table_def image_iff split: if_splits)

lemma register_keeps: "db_ok db \<Longrightarrow> db_ok (snd (register_table env now ns s name cols rows bytes fmt d db))"
proof -
  assume ok: "db_ok db"
  show ?thesis
  proof (cases "rbind (sql_int rows) (\<lambda>_. sql_int bytes)")
    case (Inr u)
    define row where "row = \<lparr>tr_namespace = ns, tr_schema_name = s, tr_name = name,
                 tr_columns_json = ce_dumps env (JArr (map column_json cols)), tr_row_count = rows,
                 tr_size_bytes = bytes, tr_format = fmt, tr_description = d,
                 tr_created_at = ce_iso env now, tr_updated_at = ce_iso env now\<rparr>"
    show ?thesis
    proof (cases "schema_exists ns s db")
      case True
      then have db': "snd (register_table env now ns s name cols rows bytes fmt d db) =
          db\<lparr>db_tables := upsert_table row (db_tables db)\<rparr>"
        unfolding register_table_def Let_def Inr row_def by simp
      have "schema_exists (tr_namespace r) (tr_schema_name r) db" if "r \<in> set (upsert_table row (db_tables db))" for r
        using upsert_schemas [OF that] ok True by (auto simp: db_ok_def row_def)
      then show ?thesis
        using ok unfolding db'
        by (auto simp: db_ok_def upsert_keys namespace_exists_def schema_exists_def)
    next
      case False
      then have "snd (register_table env now ns s name cols rows bytes fmt d db) = db"
        unfolding register_table_def Let_def Inr by simp
      then show ?thesis using ok by simp
    qed
  qed (use ok in \<open>simp add: register_table_def Let_def\<close>)
qed

lemma stats_keeps: "db_ok db \<Longrightarrow> db_ok (snd (update_table_stats env now ns s name rows bytes db))"
proof -
  assume ok: "db_ok db"
  have keys: "map table_key (map (\<lambda>r. if table_key r = k
        then r\<lparr>tr_row_count := rows, tr_size_bytes := bytes, tr_updated_at := u\<rparr> else r) xs) = map table_key xs" for k u xs
    by (simp add: table_key_def)
  show ?thesis
    using ok
    by (cases "rbind (sql_int rows) (\<lambda>_. sql_int bytes)")
      (auto simp: update_table_stats_def db_ok_def keys namespace_exists_def schema_exists_def simp del: map_map)
qed

lemma grant_keeps: "db_ok db \<Longrightarrow> db_ok (snd (grant_access env now role ns s level db))"
  by (auto simp: grant_access_def insert_or_ignore_def db_ok_def namespace_exists_def schema_exists_def)

lemma revoke_keeps: "db_ok db \<Longrightarrow> db_ok (snd (revoke_access role ns s level db))"
  by (auto simp: revoke_access_def Let_def db_ok_def namespace_exists_def schema_exists_def distinct_map_filter)

lemma lineage_keeps: "db_ok db \<Longrightarrow> db_ok (snd (record_lineage env now a b stage tid n db))"
  by (auto simp: record_lineage_def db_ok_def namespace_exists_def schema_exists_def split: sum.split)

lemma then_db_keeps: "(\<And>db. P db \<Longrightarrow> P (snd (f db))) \<Longrightarrow> P (snd st) \<Longrightarrow> P (snd (then_db f st))"
  by (cases st) (auto simp: then_db_def split: sum.splits prod.splits, (metis snd_conv)+)

lemma bootstrap_keeps:
  assumes "\<And>db name owner. P db \<Longrightarrow> P (snd (create_namespace env now name owner db))"
    and "\<And>db ns name d. P db \<Longrightarrow> P (snd (create_schema env now ns name d db))"
    and "\<And>db role ns s level. P db \<Longrightarrow> P (snd (grant_access env now role ns s level db))"
    and "P db"
  shows "P (snd (bootstrap_velaflow env now db))"
proof -
  note step = then_db_keeps [where P = P]
  have grants: "P (snd (fold (\<lambda>(role, s, level). then_db (grant_access env now role ''velaflow'' s level)) gs st))"
    if "P (snd st)" for gs st
    using that
  proof (induction gs arbitrary: st)
    case Nil
    then show ?case by simp
  next
    case (Cons g gs)
    obtain role s level where g: "g = (role, s, level)" by (cases g) auto
    from step [OF assms(3) Cons.prems] have "P (snd (then_db (grant_access env now role ''velaflow'' s level) st))" .
    from Cons.IH [OF this] show ?case by (simp add: g)
  qed
  show ?thesis
    unfolding bootstrap_velaflow_def
    by (rule grants, rule step [OF assms(2)], assumption, rule step [OF assms(2)], assumption,
        rule step [OF assms(2)], assumption, rule step [OF assms(1)], assumption) (simp add: assms(4))
qed

lemma run_op_keeps: "db_ok db \<Longrightarrow> db_ok (run_op env op db)"
  by (cases op) (simp_all add: namespace_keeps schema_keeps register_keeps stats_keeps grant_keeps revoke_keeps
      lineage_keeps bootstrap_keeps)

section \<open>Grants as a set\<close>

definition granted :: "catalog_db \<Rightarrow> (string \<times> string \<times> string \<times> grant_level) set" where
  "granted db = {(role, ns, s, level). (role, ns, s, level_value level) \<in> grant_key ` set (db_grants db)}"

fun abs_op :: "catalog_op \<Rightarrow> (string \<times> string \<times> string \<times> grant_level) set \<Rightarrow>
    (string \<times> string \<times> string \<times> grant_level) set" where
  "abs_op (Grant now role ns s level) A = insert (role, ns, s, level) A"
| "abs_op (Revoke role ns s level) A = A - {(role, ns, s, level)}"
| "abs_op (Bootstrap now) A = A \<union> {(role, ''velaflow'', s, level) | role s level. (role, s, level) \<in> set default_grants}"
| "abs_op _ A = A"

lemma level_value_inj [simp]: "level_value a = level_value b \<longleftrightarrow> a = b"
  by (cases a; cases b) simp_all

lemma level_round_trip: "level_of (level_value l) = Inr l"
  by (cases l) (simp_all add: level_of_def)

lemma granted_grant: "granted (snd (grant_access env now role ns s level db)) = insert (role, ns, s, level) (granted db)"
  by (auto simp: grant_access_def insert_or_ignore_def granted_def grant_key_def)

lemma granted_revoke: "granted (snd (revoke_access role ns s level db)) = granted db - {(role, ns, s, level)}"
  by (auto simp: revoke_access_def Let_def granted_def grant_key_def)

lemma granted_other [simp]:
  "granted (snd (create_namespace env now name owner db)) = granted db"
  "granted (snd (create_schema env now ns name d db)) = granted db"
  "granted (snd (register_table env now ns s name cols rows bytes fmt d db)) = granted db"
  "granted (snd (update_table_stats env now ns s name rows bytes db)) = granted db"
  "granted (snd (record_lineage env now a b stage tid n db)) = granted db"
  by (auto simp: create_namespace_def create_schema_def register_table_def update_table_stats_def record_lineage_def
      Let_def granted_def split: sum.splits)

definition times_parse :: "catalog_env \<Rightarrow> bool" where
  "times_parse env \<longleftrightarrow> (\<forall>t. ce_from_iso env (ce_iso env t) = Some t)"

lemma then_db_Inr: "fst st = Inr () \<Longrightarrow> (\<exists>x. fst (f (snd st)) = Inr x) \<Longrightarrow> then_db f st = (Inr (), snd (f (snd st)))"
  by (cases st) (auto simp: then_db_def split: prod.splits)

lemma statements_succeed:
  assumes "times_parse env"
  shows "\<exists>x. fst (create_namespace env now name owner db) = Inr x"
    and "namespace_exists ns db \<Longrightarrow> \<exists>x. fst (create_schema env now ns name d db) = Inr x"
    and "\<exists>x. fst (grant_access env now role ns s level db) = Inr x"
  using assms by (auto simp: create_namespace_def create_schema_def grant_access_def insert_or_ignore_def iso_res_def
      times_parse_def)

lemma namespace_created: "namespace_exists name (snd (create_namespace env now name owner db))"
  by (auto simp: create_namespace_def insert_or_ignore_def namespace_exists_def)

lemma schema_namespace: "namespace_exists x (snd (create_schema env now ns name d db)) = namespace_exists x db"
  by (auto simp: create_schema_def insert_or_ignore_def namespace_exists_def)

lemma bootstrap_run:
  assumes "times_parse env"
  shows "bootstrap_velaflow env now db =
    (Inr (), fold (\<lambda>(role, s, level) db. snd (grant_access env now role ''velaflow'' s level db)) default_grants
      (snd (create_schema env now ''velaflow'' ''gold'' ''Scored, enriched, AI-ready datasets''
        (snd (create_schema env now ''velaflow'' ''silver'' ''Cleaned, deduplicated, PII-masked data''
          (snd (create_schema env now ''velaflow'' ''bronze'' ''Raw ingested data from external APIs''
            (snd (create_namespace env now ''velaflow'' ''system'' db)))))))))"
proof -
  have grants: "fold (\<lambda>(role, s, level). then_db (grant_access env now role ''velaflow'' s level)) gs (Inr (), db) =
      (Inr (), fold (\<lambda>(role, s, level) db. snd (grant_access env now role ''velaflow'' s level db)) gs db)" for gs db
    by (induction gs arbitrary: db)
      (auto simp: then_db_Inr statements_succeed(3) [OF assms] split: prod.splits)
  have ns: "then_db (create_namespace env now ''velaflow'' ''system'') (Inr (), db) =
      (Inr (), snd (create_namespace env now ''velaflow'' ''system'' db))"
    by (simp add: then_db_Inr statements_succeed(1) [OF assms])
  have sc: "then_db (create_schema env now ''velaflow'' name d) (Inr (), db') = (Inr (), snd (create_schema env now ''velaflow'' name d db'))"
    if "namespace_exists ''velaflow'' db'" for name d db'
    using statements_succeed(2) [OF assms that] by (simp add: then_db_Inr)
  show ?thesis
    unfolding bootstrap_velaflow_def ns
    by (simp only: sc schema_namespace namespace_created grants)
qed

lemma granted_bootstrap:
  assumes "times_parse env"
  shows "granted (snd (bootstrap_velaflow env now db)) = abs_op (Bootstrap now) (granted db)"
proof -
  have "granted (fold (\<lambda>(role, s, level) db. snd (grant_access env now role ''velaflow'' s level db)) gs db) =
      granted db \<union> {(role, ''velaflow'', s, level) | role s level. (role, s, level) \<in> set gs}" for gs db
    by (induction gs arbitrary: db) (auto simp: granted_grant split: prod.splits)
  then show ?thesis unfolding bootstrap_run [OF assms] by simp
qed

lemma check_granted:
  "catalog_check_access role ns s level db \<longleftrightarrow> (role, ns, s, level) \<in> granted db \<or> (role, ns, s, ALL_LEVEL) \<in> granted db"
  by (auto simp: catalog_check_access_def granted_def list_ex_iff grant_key_def image_iff)

lemma granted_run:
  assumes "times_parse env"
  shows "granted (fold (run_op env) ops db) = fold abs_op ops (granted db)"
proof (induction ops arbitrary: db)
  case (Cons op ops)
  have "granted (run_op env op db) = abs_op op (granted db)"
    by (cases op) (simp_all add: granted_grant granted_revoke granted_bootstrap [OF assms])
  with Cons show ?case by simp
qed simp

section \<open>Tables\<close>

lemma columns_round_trip:
  "ce_loads env (ce_dumps env (JArr (map column_json cols))) = Some (JArr (map column_json cols)) \<Longrightarrow>
   columns_of env True (ce_dumps env (JArr (map column_json cols))) = Inr cols"
proof -
  have "rmap (column_of True) (map column_json cols) = Inr cols"
    by (induction cols) (simp_all add: column_of_def column_json_def)
  then show "ce_loads env (ce_dumps env (JArr (map column_json cols))) = Some (JArr (map column_json cols)) \<Longrightarrow> ?thesis"
    by (simp add: columns_of_def)
qed

lemma find_upsert:
  "find (\<lambda>r. table_key r = table_key new) (upsert_table new rows) =
    (case find (\<lambda>r. table_key r = table_key new) rows of
       None \<Rightarrow> Some new
     | Some r \<Rightarrow> Some (r\<lparr>tr_columns_json := tr_columns_json new, tr_row_count := tr_row_count new,
                         tr_size_bytes := tr_size_bytes new, tr_updated_at := tr_updated_at new\<rparr>))"
proof -
  let ?u = "\<lambda>r. r\<lparr>tr_columns_json := tr_columns_json new, tr_row_count := tr_row_count new,
                         tr_size_bytes := tr_size_bytes new, tr_updated_at := tr_updated_at new\<rparr>"
  have k: "table_key (?u r) = table_key r" for r by (simp add: table_key_def)
  have upd: "find (\<lambda>r. table_key r = table_key new) (map (\<lambda>r. if table_key r = table_key new then ?u r else r) xs) =
      map_option ?u (find (\<lambda>r. table_key r = table_key new) xs)" for xs
    by (induction xs) (simp_all add: k)
  have app: "table_key new \<notin> table_key ` set xs \<Longrightarrow>
      find (\<lambda>r. table_key r = table_key new) xs = None \<and>
      find (\<lambda>r. table_key r = table_key new) (xs @ [new]) = Some new" for xs
    by (induction xs) auto
  have "table_key new \<in> table_key ` set xs \<Longrightarrow> \<exists>r. find (\<lambda>r. table_key r = table_key new) xs = Some r" for xs
    by (induction xs) auto
  note found = this
  show ?thesis
  proof (cases "table_key new \<in> table_key ` set rows")
    case True
    with found [OF True] show ?thesis by (auto simp: upsert_table_def upd)
  next
    case False
    with app [OF False] show ?thesis by (simp add: upsert_table_def)
  qed
qed

section \<open>Bootstrapping twice\<close>

lemma present_same:
  "namespace_exists name db \<Longrightarrow> snd (create_namespace env now name owner db) = db"
  "schema_exists ns name db \<Longrightarrow> snd (create_schema env now ns name d db) = db"
  "(role, ns, s, level) \<in> granted db \<Longrightarrow> snd (grant_access env now role ns s level db) = db"
  by (auto simp: create_namespace_def create_schema_def grant_access_def insert_or_ignore_def namespace_exists_def
      schema_exists_def granted_def schema_key_def grant_key_def split: sum.split)

lemma schema_created:
  "namespace_exists ns db \<Longrightarrow> schema_exists ns' name' (snd (create_schema env now ns name d db)) \<longleftrightarrow>
     (ns', name') = (ns, name) \<or> schema_exists ns' name' db"
  by (auto simp: create_schema_def insert_or_ignore_def schema_exists_def schema_key_def)

lemma grants_keep_rest:
  "namespace_exists x (fold (\<lambda>(role, s, level) db. snd (grant_access env now role ''velaflow'' s level db)) gs db) =
     namespace_exists x db
   \<and> schema_exists x y (fold (\<lambda>(role, s, level) db. snd (grant_access env now role ''velaflow'' s level db)) gs db) =
     schema_exists x y db"
proof (induction gs arbitrary: db)
  case Nil
  then show ?case by simp
next
  case (Cons g gs)
  obtain role s level where g: "g = (role, s, level)" by (cases g) auto
  have "namespace_exists x (snd (grant_access env now role ''velaflow'' s level db)) = namespace_exists x db"
    "schema_exists x y (snd (grant_access env now role ''velaflow'' s level db)) = schema_exists x y db"
    by (auto simp: grant_access_def insert_or_ignore_def namespace_exists_def schema_exists_def)
  then show ?case using Cons.IH [of "snd (grant_access env now role ''velaflow'' s level db)"] by (simp add: g)
qed

lemma grants_present:
  "\<forall>(role, s, level) \<in> set gs. (role, ''velaflow'', s, level) \<in> granted db \<Longrightarrow>
   fold (\<lambda>(role, s, level) db. snd (grant_access env now role ''velaflow'' s level db)) gs db = db"
  by (induction gs) (auto simp: present_same)

section \<open>Properties\<close>

text \<open>Starting from the empty catalog, every sequence of operations, failing or not, keeps the constraints of the
schema: unique primary keys, every schema in an existing namespace, every table in an existing schema.\<close>

theorem catalog_constraints_hold: "db_ok (fold (run_op env) ops empty_catalog)"
proof -
  have "db_ok db \<Longrightarrow> db_ok (fold (run_op env) ops db)" for db
    by (induction ops arbitrary: db) (simp_all add: run_op_keeps)
  then show ?thesis by (simp add: db_ok_def empty_catalog_def)
qed

text \<open>Access checks refine a set of permissions: after any operations a role may access a schema at a level exactly
when the set, to which grants add and from which revocations remove, has that level or all of them.\<close>

theorem catalog_grants_refine:
  assumes "times_parse env"
  shows "catalog_check_access role ns s level (fold (run_op env) ops db) \<longleftrightarrow>
    (role, ns, s, level) \<in> fold abs_op ops (granted db) \<or> (role, ns, s, ALL_LEVEL) \<in> fold abs_op ops (granted db)"
  unfolding check_granted granted_run [OF assms] by (rule refl)

definition sample_columns :: "column_def list" where
  "sample_columns = [\<lparr>cd_name = ''id'', cd_dtype = ''TEXT'', cd_nullable = False, cd_description = ''key''\<rparr>]"

definition sample_catalog :: catalog_env where
  "sample_catalog = \<lparr>ce_iso = unary_iso, ce_from_iso = unary_from_iso, ce_dumps = (\<lambda>_. ''[]''),
     ce_loads = (\<lambda>_. Some (JArr (map column_json sample_columns)))\<rparr>"

lemma sample_catalog_times: "times_parse sample_catalog"
  by (simp add: times_parse_def sample_catalog_def unary_iso_round_trip)

theorem catalog_grants_refine_witness:
  "catalog_check_access ''free'' ''velaflow'' ''gold'' SELECT_LEVEL
     (fold (run_op sample_catalog) [Bootstrap sample_time, Revoke ''free'' ''velaflow'' ''bronze'' SELECT_LEVEL] empty_catalog)
   \<and> \<not> catalog_check_access ''free'' ''velaflow'' ''gold'' INSERT_LEVEL
     (fold (run_op sample_catalog) [Bootstrap sample_time] empty_catalog)"
  unfolding catalog_grants_refine [OF sample_catalog_times]
  by (simp add: default_grants_def medallion_schemas_def granted_def empty_catalog_def)

text \<open>A registered table is found with the columns and counts given; registering it again replaces these but keeps
the format, the description and the creation time of the first registration.\<close>

theorem registered_table_reads_back:
  assumes "times_parse env"
    and "ce_loads env (ce_dumps env (JArr (map column_json cols))) = Some (JArr (map column_json cols))"
    and "register_table env now ns s name cols rows bytes fmt d db = (Inr t, db')"
    and "get_table env ns s name db = Inr old"
  shows "get_table env ns s name db' = Inr (Some (case old of None \<Rightarrow> t
    | Some o' \<Rightarrow> t\<lparr>ct_format := ct_format o', ct_description := ct_description o', ct_created_at := ct_created_at o'\<rparr>))"
proof -
  define row where "row = \<lparr>tr_namespace = ns, tr_schema_name = s, tr_name = name,
                 tr_columns_json = ce_dumps env (JArr (map column_json cols)), tr_row_count = rows,
                 tr_size_bytes = bytes, tr_format = fmt, tr_description = d,
                 tr_created_at = ce_iso env now, tr_updated_at = ce_iso env now\<rparr>"
  have iso: "parse_time env (ce_iso env now) = Inr now" using assms(1) by (simp add: iso_res_def times_parse_def)
  from assms(3) have db': "db' = db\<lparr>db_tables := upsert_table row (db_tables db)\<rparr>"
    and t: "t = \<lparr>ct_namespace = ns, ct_schema_name = s, ct_name = name, ct_columns = cols, ct_row_count = rows,
                 ct_size_bytes = bytes, ct_format = fmt, ct_description = d, ct_created_at = now, ct_updated_at = now\<rparr>"
    by (auto simp: register_table_def Let_def row_def iso split: sum.splits if_splits)
  have key: "table_key row = (ns, s, name)" by (simp add: row_def table_key_def)
  note cols = columns_round_trip [OF assms(2)]
  note up = find_upsert [of row "db_tables db", unfolded key]
  have row: "table_of_row env True row = Inr t" by (simp add: table_of_row_def row_def cols iso t)
  show ?thesis
  proof (cases "find (\<lambda>r. table_key r = (ns, s, name)) (db_tables db)")
    case None
    with assms(4) have "old = None" by (simp add: get_table_def)
    then show ?thesis using up None by (simp add: get_table_def db' row)
  next
    case (Some r)
    then have "table_key r = (ns, s, name)" by (auto simp: find_Some_iff)
    then have r: "tr_namespace r = ns" "tr_schema_name r = s" "tr_name r = name" by (simp_all add: table_key_def)
    from assms(4) Some obtain o' where "old = Some o'" "table_of_row env True r = Inr o'"
      by (auto simp: get_table_def)
    then show ?thesis using up Some
      by (auto simp: get_table_def db' table_of_row_def row_def cols iso t r)
  qed
qed

theorem registered_table_reads_back_witness:
  "\<exists>t db. register_table sample_catalog sample_time ''velaflow'' ''gold'' ''tasks'' sample_columns 7 0 ''json'' []
       (snd (bootstrap_velaflow sample_catalog sample_time empty_catalog)) = (Inr t, db)
     \<and> get_table sample_catalog ''velaflow'' ''gold'' ''tasks'' db = Inr (Some t)"
proof -
  let ?db = "snd (bootstrap_velaflow sample_catalog sample_time empty_catalog)"
  have "schema_exists ''velaflow'' ''gold'' ?db"
    by (simp add: bootstrap_run [OF sample_catalog_times] grants_keep_rest schema_created schema_namespace namespace_created)
  then have "\<exists>t db. register_table sample_catalog sample_time ''velaflow'' ''gold'' ''tasks'' sample_columns 7 0 ''json'' [] ?db = (Inr t, db)"
    by (simp add: register_table_def Let_def sql_int_def iso_res_def sample_catalog_def unary_iso_round_trip)
  then obtain t db where run: "register_table sample_catalog sample_time ''velaflow'' ''gold'' ''tasks'' sample_columns 7 0 ''json'' [] ?db = (Inr t, db)"
    by blast
  have "db_tables ?db = []"
    by (rule bootstrap_keeps [where P = "\<lambda>db. db_tables db = []"])
      (auto simp: create_namespace_def create_schema_def grant_access_def empty_catalog_def split: sum.split)
  then have "get_table sample_catalog ''velaflow'' ''gold'' ''tasks'' ?db = Inr None" by (simp add: get_table_def)
  from registered_table_reads_back [OF sample_catalog_times _ run this] run show ?thesis
    by (simp add: sample_catalog_def)
qed

text \<open>Bootstrapping a catalog that is bootstrapped already changes nothing.\<close>

theorem bootstrap_idempotent:
  assumes "times_parse env"
  shows "bootstrap_velaflow env later (snd (bootstrap_velaflow env now db)) = (Inr (), snd (bootstrap_velaflow env now db))"
proof -
  let ?db = "snd (bootstrap_velaflow env now db)"
  have ns: "namespace_exists ''velaflow'' ?db"
    by (simp add: bootstrap_run [OF assms] grants_keep_rest schema_namespace namespace_created)
  have sc: "schema_exists ''velaflow'' ''bronze'' ?db" "schema_exists ''velaflow'' ''silver'' ?db" "schema_exists ''velaflow'' ''gold'' ?db"
    by (simp_all add: bootstrap_run [OF assms] grants_keep_rest schema_created schema_namespace namespace_created)
  have "\<forall>(role, s, level) \<in> set default_grants. (role, ''velaflow'', s, level) \<in> granted ?db"
    by (auto simp: granted_bootstrap [OF assms])
  note gr = grants_present [OF this]
  show ?thesis
    unfolding bootstrap_run [OF assms, of later ?db] present_same(1) [OF ns] present_same(2) [OF sc(1)]
      present_same(2) [OF sc(2)] present_same(2) [OF sc(3)] gr by (rule refl)
qed

theorem bootstrap_idempotent_witness:
  "bootstrap_velaflow sample_catalog sample_time (snd (bootstrap_velaflow sample_catalog sample_time empty_catalog)) =
     (Inr (), snd (bootstrap_velaflow sample_catalog sample_time empty_catalog))"
  by (rule bootstrap_idempotent [OF sample_catalog_times])

end
