(* ===== verification/ApiAuth.thy ===== *)
theory ApiAuth
  imports Encryption Rbac
begin

text \<open>
  The access tokens of \<open>src/brain/api/auth.py\<close>, the middleware that reads them
  (\<open>src/brain/api/middleware.py\<close>) and the request dependencies of
  \<open>src/brain/api/dependencies.py\<close> that guard the routes. HMAC-SHA256 and the JSON text of a document
  are the parameter \<open>jwt_lib\<close>; the module's secret, the clock and whether the environment is
  production are arguments. A claim is any JSON value, as the code takes it from the payload.
\<close>

section \<open>Tokens\<close>

record jwt_lib =
  jl_hmac :: "bytes \<Rightarrow> bytes \<Rightarrow> bytes"
  jl_dumps :: "jdict \<Rightarrow> string"
  jl_loads :: "string \<Rightarrow> json option"

definition default_expiry_seconds :: int where
  "default_expiry_seconds = 3600"

definition jwt_issuer :: string where
  "jwt_issuer = ''velaflow-api''"

definition jwt_audience :: string where
  "jwt_audience = ''velaflow-api''"

definition get_secret :: "string \<Rightarrow> string option \<Rightarrow> string res" where
  "get_secret env_secret override =
     (let secret = (case override of Some s \<Rightarrow> (if s \<noteq> [] then s else env_secret) | None \<Rightarrow> env_secret)
      in if secret = [] then Inl (RuntimeError ''JWT_SECRET environment variable is required.'')
         else Inr secret)"

record token_claims =
  tc_tenant_id :: json
  tc_role :: json
  tc_email :: json
  tc_exp :: json
  tc_iat :: json
  tc_user_id :: json
  tc_user_role :: json

text \<open>\<open>s.rstrip(c)\<close>.\<close>

definition rstrip_char :: "char \<Rightarrow> string \<Rightarrow> string" where
  "rstrip_char c s = rev (dropWhile (\<lambda>x. x = c) (rev s))"

definition b64url_encode_bytes :: "bytes \<Rightarrow> string" where
  "b64url_encode_bytes bs = rstrip_char (CHR ''='') (b64_encode bs)"

definition b64url_encode :: "string \<Rightarrow> string" where
  "b64url_encode s = b64url_encode_bytes (utf8_encode s)"

definition b64url_decode_bytes :: "string \<Rightarrow> bytes res" where
  "b64url_decode_bytes s =
     (let padding = 4 - length s mod 4;
          s = (if padding \<noteq> 4 then s @ replicate padding (CHR ''='') else s)
      in b64_decode s)"

definition b64url_decode :: "string \<Rightarrow> string res" where
  "b64url_decode s = rbind (b64url_decode_bytes s) utf8_decode"

definition token_header :: jdict where
  "token_header = [(''alg'', JStr ''HS256''), (''typ'', JStr ''JWT'')]"

definition token_payload ::
    "string \<Rightarrow> string \<Rightarrow> string \<Rightarrow> int \<Rightarrow> int \<Rightarrow> string \<Rightarrow> string \<Rightarrow> jdict" where
  "token_payload tenant_id role email now expiry_seconds user_id user_role =
     [(''tenant_id'', JStr tenant_id), (''role'', JStr role), (''email'', JStr email),
      (''iss'', JStr jwt_issuer), (''aud'', JStr jwt_audience), (''iat'', JInt now),
      (''exp'', JInt (now + expiry_seconds))]
     @ (if user_id \<noteq> [] then [(''user_id'', JStr user_id)] else [])
     @ (if user_role \<noteq> [] then [(''user_role'', JStr user_role)] else [])"

definition signing_input :: "string \<Rightarrow> string \<Rightarrow> bytes" where
  "signing_input header_b64 payload_b64 = utf8_encode (header_b64 @ CHR ''.'' # payload_b64)"

definition sign_payload :: "jwt_lib \<Rightarrow> string \<Rightarrow> jdict \<Rightarrow> string" where
  "sign_payload jl key payload =
     (let header_b64 = b64url_encode (jl_dumps jl token_header);
          payload_b64 = b64url_encode (jl_dumps jl payload);
          signature = jl_hmac jl (utf8_encode key) (signing_input header_b64 payload_b64)
      in header_b64 @ CHR ''.'' # payload_b64 @ CHR ''.'' # b64url_encode_bytes signature)"

definition create_access_token ::
    "jwt_lib \<Rightarrow> string \<Rightarrow> real \<Rightarrow> string \<Rightarrow> string \<Rightarrow> string \<Rightarrow> int \<Rightarrow> string option \<Rightarrow> string \<Rightarrow> string \<Rightarrow>
     string res" where
  "create_access_token jl env_secret now tenant_id role email expiry_seconds secret user_id user_role =
     rbind (get_secret env_secret secret) (\<lambda>key.
       Inr (sign_payload jl key
              (token_payload tenant_id role email \<lfloor>now\<rfloor> expiry_seconds user_id user_role)))"

text \<open>\<open>time.time() > exp\<close>, a comparison that raises when the claim is not a number.\<close>

fun after_claim :: "real \<Rightarrow> json \<Rightarrow> bool res" where
  "after_claim now (JInt i) = Inr (now > of_int i)"
| "after_claim now (JReal r) = Inr (now > r)"
| "after_claim now (JBool b) = Inr (now > of_bool b)"
| "after_claim now _ = Inl (OtherError ''TypeError'')"

definition claims_of :: "jdict \<Rightarrow> token_claims" where
  "claims_of d =
     \<lparr>tc_tenant_id = dget d ''tenant_id'' (JStr []), tc_role = dget d ''role'' (JStr []),
      tc_email = dget d ''email'' (JStr []), tc_exp = dget d ''exp'' (JInt 0),
      tc_iat = dget d ''iat'' (JInt 0), tc_user_id = dget d ''user_id'' (JStr []),
      tc_user_role = dget d ''user_role'' (JStr [])\<rparr>"

definition check_claims :: "real \<Rightarrow> json \<Rightarrow> token_claims option res" where
  "check_claims now payload =
     (case payload of
        JObj d \<Rightarrow>
          rbind (after_claim now (dget d ''exp'' (JInt 0))) (\<lambda>expired.
            Inr (if expired then None
                 else if dget d ''iss'' JNull \<noteq> JStr jwt_issuer \<or> dget d ''aud'' JNull \<noteq> JStr jwt_audience
                 then None
                 else Some (claims_of d)))
      | _ \<Rightarrow> Inl (OtherError ''AttributeError''))"

text \<open>A signature part that is not base64 raises: its decoding is outside the \<open>try\<close>.\<close>

definition verify_token ::
    "jwt_lib \<Rightarrow> string \<Rightarrow> real \<Rightarrow> string option \<Rightarrow> string \<Rightarrow> token_claims option res" where
  "verify_token jl env_secret now secret token =
     (case get_secret env_secret secret of
        Inl e \<Rightarrow> Inr None
      | Inr key \<Rightarrow>
          (case py_split (CHR ''.'') token of
             [header_b64, payload_b64, signature_b64] \<Rightarrow>
               rbind (b64url_decode_bytes signature_b64) (\<lambda>actual.
                 if jl_hmac jl (utf8_encode key) (signing_input header_b64 payload_b64) \<noteq> actual
                 then Inr None
                 else case b64url_decode payload_b64 of
                        Inl e \<Rightarrow> Inr None
                      | Inr t \<Rightarrow> (case jl_loads jl t of
                                   None \<Rightarrow> Inr None
                                 | Some payload \<Rightarrow> check_claims now payload))
           | _ \<Rightarrow> Inr None))"

section \<open>The middleware\<close>

record http_request =
  rq_method :: string
  rq_path :: string
  rq_authorization :: "string option"

record request_state =
  st_tenant_id :: json
  st_role :: json
  st_email :: json
  st_user_id :: json
  st_user_role :: json

datatype routing = Respond int string | CallNext "request_state option"

definition public_paths :: "string list" where
  "public_paths =
     [''/health'', ''/health/ready'', ''/health/live'', ''/metrics'', ''/status'',
      ''/api/v1/auth/google'', ''/api/v1/tenants'', ''/api/v1/tenants/login'',
      ''/api/v1/webhooks/stripe'']"

definition docs_paths :: "string list" where
  "docs_paths = [''/docs'', ''/redoc'', ''/openapi.json'']"

definition normal_path :: "string \<Rightarrow> string" where
  "normal_path p = (let q = rstrip_char (CHR ''/'') p in if q \<noteq> [] then q else ''/'')"

definition inject_claims :: "token_claims \<Rightarrow> request_state" where
  "inject_claims c =
     \<lparr>st_tenant_id = tc_tenant_id c, st_role = tc_role c, st_email = tc_email c,
      st_user_id = tc_user_id c, st_user_role = tc_user_role c\<rparr>"

definition dispatch :: "jwt_lib \<Rightarrow> string \<Rightarrow> bool \<Rightarrow> real \<Rightarrow> http_request \<Rightarrow> routing res" where
  "dispatch jl env_secret is_production now rq =
     (if rq_method rq = ''OPTIONS'' then Inr (CallNext None)
      else let path = normal_path (rq_path rq) in
        if path \<in> set public_paths then Inr (CallNext None)
        else if \<not> is_production \<and> path \<in> set docs_paths then Inr (CallNext None)
        else let auth_header = (case rq_authorization rq of Some h \<Rightarrow> h | None \<Rightarrow> []) in
          if \<not> prefix ''Bearer '' auth_header
          then Inr (Respond 401 ''Missing or invalid Authorization header'')
          else rbind (verify_token jl env_secret now None (drop 7 auth_header)) (\<lambda>claims.
            case claims of
              None \<Rightarrow> Inr (Respond 401 ''Invalid or expired token'')
            | Some c \<Rightarrow> Inr (CallNext (Some (inject_claims c)))))"

section \<open>Request dependencies\<close>

text \<open>The request state as the routes see it: the attributes are there when the middleware put them.\<close>

definition get_current_tenant_id :: "request_state option \<Rightarrow> json res" where
  "get_current_tenant_id st =
     (let tenant_id = (case st of Some s \<Rightarrow> st_tenant_id s | None \<Rightarrow> JNull)
      in if \<not> jtruthy tenant_id then Inl (HTTPException 401 ''No tenant context'') else Inr tenant_id)"

definition get_current_role :: "request_state option \<Rightarrow> json" where
  "get_current_role st = (case st of Some s \<Rightarrow> st_role s | None \<Rightarrow> JStr ''free'')"

text \<open>
  The role tables are dictionaries keyed by text: looking up a list or an object raises, any other
  value that is not a text is a role without permissions.
\<close>

fun tier_grants :: "rbac_policy \<Rightarrow> json \<Rightarrow> permission \<Rightarrow> bool res" where
  "tier_grants pol (JStr role) p = Inr (has_permission pol role p)"
| "tier_grants pol (JArr xs) p = Inl (OtherError ''TypeError'')"
| "tier_grants pol (JObj d) p = Inl (OtherError ''TypeError'')"
| "tier_grants pol _ p = Inr False"

fun user_grants :: "rbac_policy \<Rightarrow> json \<Rightarrow> permission \<Rightarrow> bool res" where
  "user_grants pol (JStr role) p = Inr (has_user_permission pol role p)"
| "user_grants pol (JArr xs) p = Inl (OtherError ''TypeError'')"
| "user_grants pol (JObj d) p = Inl (OtherError ''TypeError'')"
| "user_grants pol _ p = Inr False"

definition claims_access :: "rbac_policy \<Rightarrow> json \<Rightarrow> json \<Rightarrow> permission \<Rightarrow> bool res" where
  "claims_access pol tier_role user_role p =
     rbind (tier_grants pol tier_role p) (\<lambda>ok.
       if \<not> ok then Inr False
       else if \<not> jtruthy user_role then Inr True
       else user_grants pol user_role p)"

definition RequirePermission :: "rbac_policy \<Rightarrow> permission \<Rightarrow> request_state option \<Rightarrow> unit res" where
  "RequirePermission pol p st =
     (let tier_role = (case st of Some s \<Rightarrow> st_role s | None \<Rightarrow> JStr ''free'');
          user_role = (case st of Some s \<Rightarrow> st_user_role s | None \<Rightarrow> JStr [])
      in rbind (claims_access pol tier_role user_role p) (\<lambda>ok.
           if \<not> ok then Inl (HTTPException 403 (''Permission denied: '' @ permission_value p))
           else Inr ()))"

end
