(* ===== verification/ApiAuthLaws.thy ===== *)
theory ApiAuthLaws
  imports ApiAuth
begin

text \<open>
  What the API's authentication promises: a token reads back its claims until it expires, an accepted
  token was signed by the server over exactly its claims, and a route behind the dependencies runs
  only for a request that carries such a token with the permission.
\<close>

section \<open>The URL-safe encoding without padding\<close>

lemma rstrip_char_append:
  assumes "xs \<noteq> []" and "last xs \<noteq> c"
  shows "rstrip_char c (xs @ ys) = xs @ rstrip_char c ys"
proof -
  from assms have "rev xs \<noteq> []" "hd (rev xs) \<noteq> c" by (simp_all add: hd_rev)
  then have "dropWhile (\<lambda>x. x = c) (rev xs) = rev xs" by (cases "rev xs") auto
  then show ?thesis by (simp add: rstrip_char_def dropWhile_append)
qed

lemma rstrip_char_stop: "last xs \<noteq> c \<Longrightarrow> rstrip_char c xs = xs"
  using rstrip_char_append [of xs c "[]"] by (cases "xs = []") (simp_all add: rstrip_char_def)

lemma set_rstrip_char: "set (rstrip_char c xs) \<subseteq> set xs"
  using set_dropWhileD by (fastforce simp: rstrip_char_def)

definition unpad :: "string \<Rightarrow> string" where
  "unpad s = (let padding = 4 - length s mod 4
              in if padding \<noteq> 4 then s @ replicate padding (CHR ''='') else s)"

lemma unpad_quad: "length q = 4 \<Longrightarrow> unpad (q @ s) = q @ unpad s"
  by (simp add: unpad_def Let_def)

lemma unpad_rstrip: "unpad (rstrip_char (CHR ''='') (b64_encode bs)) = b64_encode bs"
proof (induction bs rule: b64_encode.induct)
  case 1
  then show ?case by (simp add: unpad_def rstrip_char_def)
next
  case (2 x)
  note v = sextet_bounds [OF nat_of_char_less_256 [of x] nat_of_char_less_256 nat_of_char_less_256]
  show ?case using b64_char_props(2) [OF v(2)]
    by (simp add: Let_def rstrip_char_def unpad_def numeral_2_eq_2)
next
  case (3 x y)
  note v = sextet_bounds [OF nat_of_char_less_256 [of x] nat_of_char_less_256 [of y] nat_of_char_less_256]
  show ?case using b64_char_props(2) [OF v(4)]
    by (simp add: Let_def rstrip_char_def unpad_def)
next
  case (4 x y z bs)
  note v = sextet_bounds [OF nat_of_char_less_256 [of x] nat_of_char_less_256 [of y]
      nat_of_char_less_256 [of z]]
  define q where "q = [b64_char (of_char x div 4), b64_char (of_char x mod 4 * 16 + of_char y div 16),
      b64_char (of_char y mod 16 * 4 + of_char z div 64), b64_char (of_char z mod 64)]"
  have enc: "b64_encode (x # y # z # bs) = q @ b64_encode bs" by (simp add: q_def Let_def)
  have "last q \<noteq> CHR ''=''" using b64_char_props(2) [OF v(6)] by (simp add: q_def)
  then have "rstrip_char (CHR ''='') (q @ b64_encode bs) = q @ rstrip_char (CHR ''='') (b64_encode bs)"
    by (intro rstrip_char_append) (simp_all add: q_def)
  moreover have "length q = 4" by (simp add: q_def)
  ultimately show ?case unfolding enc by (simp only: unpad_quad 4)
qed

lemma b64url_bytes_round_trip: "b64url_decode_bytes (b64url_encode_bytes bs) = Inr bs"
proof -
  have "b64url_decode_bytes s = b64_decode (unpad s)" for s
    by (simp add: b64url_decode_bytes_def unpad_def Let_def)
  then show ?thesis by (simp add: b64url_encode_bytes_def unpad_rstrip b64_round_trip)
qed

lemma b64url_round_trip: "b64url_decode (b64url_encode s) = Inr s"
  by (simp add: b64url_decode_def b64url_encode_def b64url_bytes_round_trip utf8_round_trip)

lemma b64url_no_dot: "CHR ''.'' \<notin> set (b64url_encode_bytes bs)"
proof -
  have "CHR ''.'' \<notin> set (CHR ''='' # b64_alphabet)" by code_simp
  then show ?thesis
    using b64_encode_chars [of bs] set_rstrip_char [of "CHR ''=''" "b64_encode bs"]
    by (auto simp: b64url_encode_bytes_def)
qed

lemma b64url_text_no_dot: "CHR ''.'' \<notin> set (b64url_encode s)"
  by (simp add: b64url_encode_def b64url_no_dot)

section \<open>Verification\<close>

lemma py_split_parts: "w \<in> set (py_split c s) \<Longrightarrow> c \<notin> set w"
proof (induction s arbitrary: w)
  case Nil
  then show ?case by simp
next
  case (Cons x s)
  obtain v vs where v: "py_split c s = v # vs" by (meson list.exhaust py_split_not_Nil)
  show ?case
  proof (cases "x = c")
    case True
    with Cons show ?thesis by auto
  next
    case False
    with Cons.prems v have "w = x # v \<or> w \<in> set vs" by simp
    with Cons.IH [of v] Cons.IH [of w] v False show ?thesis by auto
  qed
qed

lemma py_split_three: "c \<notin> set x \<Longrightarrow> c \<notin> set y \<Longrightarrow> c \<notin> set z \<Longrightarrow>
    py_split c (x @ c # y @ c # z) = [x, y, z]"
  by (simp add: py_split_sep py_split_no_sep)

lemma split_signed:
  "py_split (CHR ''.'') (sign_payload jl key d) =
     [b64url_encode (jl_dumps jl token_header), b64url_encode (jl_dumps jl d),
      b64url_encode_bytes (jl_hmac jl (utf8_encode key)
        (signing_input (b64url_encode (jl_dumps jl token_header)) (b64url_encode (jl_dumps jl d))))]"
  by (simp add: sign_payload_def Let_def py_split_three b64url_no_dot b64url_text_no_dot)

lemma verify_signed_token:
  assumes "get_secret env secret = Inr key"
  shows "verify_token jl env now secret (sign_payload jl key d) =
    (case jl_loads jl (jl_dumps jl d) of None \<Rightarrow> Inr None | Some v \<Rightarrow> check_claims now v)"
  unfolding verify_token_def assms sum.case split_signed
  by (simp add: b64url_bytes_round_trip b64url_round_trip)

lemma verify_token_Some:
  assumes "verify_token jl env now secret token = Inr (Some c)"
  obtains key h p s d where "get_secret env secret = Inr key" and "py_split (CHR ''.'') token = [h, p, s]"
    and "b64url_decode_bytes s = Inr (jl_hmac jl (utf8_encode key) (signing_input h p))"
    and "\<exists>t. b64url_decode p = Inr t \<and> jl_loads jl t = Some (JObj d)"
    and "check_claims now (JObj d) = Inr (Some c)"
proof -
  from assms obtain key where key: "get_secret env secret = Inr key"
    by (auto simp: verify_token_def split: sum.splits)
  from assms key obtain h p s where split: "py_split (CHR ''.'') token = [h, p, s]"
    by (auto simp: verify_token_def split: list.splits)
  from assms key split have sig: "b64url_decode_bytes s = Inr (jl_hmac jl (utf8_encode key) (signing_input h p))"
    by (auto simp: verify_token_def split: if_splits)
  with assms key split obtain t v where "b64url_decode p = Inr t" "jl_loads jl t = Some v"
      "check_claims now v = Inr (Some c)"
    by (auto simp: verify_token_def split: sum.splits option.splits)
  moreover then obtain d where "v = JObj d" by (auto simp: check_claims_def split: json.splits)
  ultimately show ?thesis using that [OF key split sig] by blast
qed

lemma check_claims_Some:
  "check_claims now (JObj d) = Inr (Some c) \<longleftrightarrow>
     after_claim now (dget d ''exp'' (JInt 0)) = Inr False
     \<and> dget d ''iss'' JNull = JStr jwt_issuer \<and> dget d ''aud'' JNull = JStr jwt_audience \<and> c = claims_of d"
  by (auto simp: check_claims_def)

lemma signing_input_inj:
  assumes "CHR ''.'' \<notin> set h" and "CHR ''.'' \<notin> set h'"
  shows "signing_input h p = signing_input h' p' \<longleftrightarrow> h = h' \<and> p = p'"
  using assms by (simp add: signing_input_def utf8_inj sep_inj)

lemma check_payload:
  "check_claims now (JObj (token_payload tid role email iat n uid urole)) =
     Inr (if now > of_int (iat + n) then None
          else Some (claims_of (token_payload tid role email iat n uid urole)))"
  by (simp add: check_claims_def token_payload_def)

lemma claims_of_payload:
  "claims_of (token_payload tid role email iat n uid urole) =
     \<lparr>tc_tenant_id = JStr tid, tc_role = JStr role, tc_email = JStr email, tc_exp = JInt (iat + n),
      tc_iat = JInt iat, tc_user_id = JStr uid, tc_user_role = JStr urole\<rparr>"
  by (simp add: claims_of_def token_payload_def)


definition token_input :: "jwt_lib \<Rightarrow> jdict \<Rightarrow> bytes" where
  "token_input jl d = signing_input (b64url_encode (jl_dumps jl token_header)) (b64url_encode (jl_dumps jl d))"

lemma dispatch_CallNext:
  assumes "dispatch jl env is_prod now rq = Inr (CallNext (Some st))"
  obtains token c where "rq_authorization rq = Some (''Bearer '' @ token)"
    and "verify_token jl env now None token = Inr (Some c)" and "st = inject_claims c"
proof -
  from assms obtain h c where h: "rq_authorization rq = Some h" "prefix ''Bearer '' h"
      and c: "verify_token jl env now None (drop 7 h) = Inr (Some c)" "st = inject_claims c"
    by (auto simp: dispatch_def Let_def split: if_splits option.splits)
  from h(2) obtain token where "h = ''Bearer '' @ token" by (auto simp: prefix_def)
  with h(1) c that show ?thesis by simp
qed

lemma dispatch_bearer:
  assumes "rq_method rq \<noteq> ''OPTIONS''" and "normal_path (rq_path rq) \<notin> set (public_paths @ docs_paths)"
    and "rq_authorization rq = Some (''Bearer '' @ token)"
    and "verify_token jl env now None token = Inr (Some c)"
  shows "dispatch jl env is_prod now rq = Inr (CallNext (Some (inject_claims c)))"
proof -
  have "prefix ''Bearer '' (''Bearer '' @ token)" by (rule prefixI) (rule refl)
  moreover have "drop 7 (''Bearer '' @ token) = token" by simp
  ultimately show ?thesis using assms unfolding dispatch_def Let_def by auto
qed

lemma RequirePermission_iff:
  "RequirePermission pol p (Some st) = Inr () \<longleftrightarrow> claims_access pol (st_role st) (st_user_role st) p = Inr True"
  by (auto simp: RequirePermission_def)

lemma claims_access_text:
  "claims_access pol (JStr role) (JStr urole) p = Inr (check_access pol role urole p)"
  by (auto simp: claims_access_def check_access_def)

definition sample_jwt :: jwt_lib where
  "sample_jwt =
     \<lparr>jl_hmac = (\<lambda>k m. k @ m),
      jl_dumps = (\<lambda>d. case map_of d ''tenant_id'' of Some (JStr t) \<Rightarrow> t | _ \<Rightarrow> ''h''),
      jl_loads = (\<lambda>t. Some (JObj (token_payload t ''vip'' ''a@b.pt'' 100 3600 ''u_1'' ''viewer'')))\<rparr>"

definition sample_payload :: jdict where
  "sample_payload = token_payload ''tn_1'' ''vip'' ''a@b.pt'' 100 3600 ''u_1'' ''viewer''"

definition sample_token :: string where
  "sample_token = sign_payload sample_jwt ''k'' sample_payload"

lemma sample_jwt_loads: "jl_loads sample_jwt (jl_dumps sample_jwt sample_payload) = Some (JObj sample_payload)"
  by (simp add: sample_jwt_def sample_payload_def token_payload_def)

lemma sample_token_made:
  "create_access_token sample_jwt ''k'' 100 ''tn_1'' ''vip'' ''a@b.pt'' 3600 None ''u_1'' ''viewer'' = Inr sample_token"
  by (simp add: create_access_token_def get_secret_def sample_token_def sample_payload_def)

lemma sample_verifies:
  "verify_token sample_jwt ''k'' 200 None sample_token = Inr (Some (claims_of sample_payload))"
proof -
  have "get_secret ''k'' None = Inr ''k''" by (simp add: get_secret_def)
  then show ?thesis
    unfolding sample_token_def verify_signed_token [OF \<open>get_secret ''k'' None = Inr ''k''\<close>] sample_jwt_loads option.case
    by (simp add: sample_payload_def check_payload)
qed

section \<open>Properties\<close>

text \<open>C6. An access token lives exactly as long as it says: verified with the secret it was made with, it
gives back the tenant, role, email and user it was issued for until its expiry second, and is refused at
every later time, provided the JSON text of its payload reads back.\<close>

theorem token_lifetime:
  assumes "create_access_token jl env issued tid role email n secret uid urole = Inr token"
    and "jl_loads jl (jl_dumps jl (token_payload tid role email \<lfloor>issued\<rfloor> n uid urole))
      = Some (JObj (token_payload tid role email \<lfloor>issued\<rfloor> n uid urole))"
  shows "verify_token jl env now secret token =
    Inr (if now > of_int (\<lfloor>issued\<rfloor> + n) then None
         else Some \<lparr>tc_tenant_id = JStr tid, tc_role = JStr role, tc_email = JStr email,
                    tc_exp = JInt (\<lfloor>issued\<rfloor> + n), tc_iat = JInt \<lfloor>issued\<rfloor>, tc_user_id = JStr uid,
                    tc_user_role = JStr urole\<rparr>)"
proof -
  from assms(1) obtain key where key: "get_secret env secret = Inr key"
      and token: "token = sign_payload jl key (token_payload tid role email \<lfloor>issued\<rfloor> n uid urole)"
    by (auto simp: create_access_token_def)
  show ?thesis
    unfolding token verify_signed_token [OF key] assms(2) option.case check_payload claims_of_payload ..
qed

theorem token_lifetime_witness:
  "verify_token sample_jwt ''k'' 3700 None sample_token \<noteq> Inr None
   \<and> verify_token sample_jwt ''k'' 3701 None sample_token = Inr None"
  using token_lifetime [OF sample_token_made, of 3700] token_lifetime [OF sample_token_made, of 3701]
    sample_jwt_loads by (simp add: sample_payload_def)

text \<open>C7. Agreement: when the only messages whose HMAC under the server's secret appears in a token are
those the server signed, an accepted token carries exactly the claims of a payload the server issued,
unexpired and for this issuer and audience.\<close>

theorem accepted_token_was_issued:
  assumes "verify_token jl env now secret token = Inr (Some c)"
    and "\<And>key h p s. get_secret env secret = Inr key \<Longrightarrow> py_split (CHR ''.'') token = [h, p, s] \<Longrightarrow>
      b64url_decode_bytes s = Inr (jl_hmac jl (utf8_encode key) (signing_input h p)) \<Longrightarrow>
      signing_input h p \<in> token_input jl ` issued"
    and "\<And>d. d \<in> issued \<Longrightarrow> jl_loads jl (jl_dumps jl d) = Some (JObj d)"
  shows "\<exists>d \<in> issued. c = claims_of d \<and> after_claim now (dget d ''exp'' (JInt 0)) = Inr False
    \<and> dget d ''iss'' JNull = JStr jwt_issuer \<and> dget d ''aud'' JNull = JStr jwt_audience"
proof -
  from assms(1) obtain key h p s d where key: "get_secret env secret = Inr key"
      and split: "py_split (CHR ''.'') token = [h, p, s]"
      and sig: "b64url_decode_bytes s = Inr (jl_hmac jl (utf8_encode key) (signing_input h p))"
      and load: "\<exists>t. b64url_decode p = Inr t \<and> jl_loads jl t = Some (JObj d)"
      and check: "check_claims now (JObj d) = Inr (Some c)"
    by (rule verify_token_Some)
  from assms(2) [OF key split sig] obtain d' where d': "d' \<in> issued" "signing_input h p = token_input jl d'"
    by blast
  have "CHR ''.'' \<notin> set h" using py_split_parts [of h "CHR ''.''" token] split by simp
  with d'(2) have "p = b64url_encode (jl_dumps jl d')"
    by (simp add: token_input_def signing_input_inj b64url_text_no_dot)
  with load assms(3) [OF d'(1)] have "d = d'" by (simp add: b64url_round_trip)
  with d'(1) check show ?thesis by (auto simp: check_claims_Some)
qed

theorem accepted_token_was_issued_witness:
  "\<exists>d \<in> {sample_payload}. claims_of sample_payload = claims_of d
     \<and> after_claim 200 (dget d ''exp'' (JInt 0)) = Inr False
     \<and> dget d ''iss'' JNull = JStr jwt_issuer \<and> dget d ''aud'' JNull = JStr jwt_audience"
proof (rule accepted_token_was_issued [OF sample_verifies])
  fix key h p s
  assume "py_split (CHR ''.'') sample_token = [h, p, s]"
  then have "h = b64url_encode (jl_dumps sample_jwt token_header)"
      "p = b64url_encode (jl_dumps sample_jwt sample_payload)"
    by (simp_all add: sample_token_def split_signed)
  then show "signing_input h p \<in> token_input sample_jwt ` {sample_payload}" by (simp add: token_input_def)
qed (simp add: sample_jwt_loads)

text \<open>C17. A guarded route runs only for an authenticated, permitted caller: when the middleware lets a
request through and the tenant and permission dependencies accept it, the request carries a bearer token
that verifies now, the tenant handed to the route is the token's, and the token's tier and user role both
grant the permission. A request let through without a token (a preflight, a public or a documentation
path) has no tenant.\<close>

theorem guarded_route_authenticated:
  assumes "dispatch jl env is_prod now rq = Inr (CallNext st)"
    and "get_current_tenant_id st = Inr tid" and "RequirePermission pol p st = Inr ()"
  shows "\<exists>token c. rq_authorization rq = Some (''Bearer '' @ token)
    \<and> verify_token jl env now None token = Inr (Some c) \<and> tid = tc_tenant_id c
    \<and> claims_access pol (tc_role c) (tc_user_role c) p = Inr True"
proof (cases st)
  case None
  with assms(2) show ?thesis by (simp add: get_current_tenant_id_def)
next
  case (Some s)
  with assms(1) obtain token c where "rq_authorization rq = Some (''Bearer '' @ token)"
      "verify_token jl env now None token = Inr (Some c)" and s: "s = inject_claims c"
    by (auto elim: dispatch_CallNext)
  moreover have "tid = tc_tenant_id c"
    using assms(2) by (auto simp: get_current_tenant_id_def Some s inject_claims_def Let_def split: if_splits)
  moreover have "claims_access pol (tc_role c) (tc_user_role c) p = Inr True"
    using assms(3) by (simp add: Some RequirePermission_iff s inject_claims_def)
  ultimately show ?thesis by blast
qed

definition sample_request :: "string \<Rightarrow> http_request" where
  "sample_request path =
     \<lparr>rq_method = ''GET'', rq_path = path, rq_authorization = Some (''Bearer '' @ sample_token)\<rparr>"

lemma sample_request_routed:
  "dispatch sample_jwt ''k'' True 200 (sample_request ''/api/v1/digests/daily'')
     = Inr (CallNext (Some (inject_claims (claims_of sample_payload))))"
  by (rule dispatch_bearer [OF _ _ _ sample_verifies])
    (simp_all add: sample_request_def normal_path_def rstrip_char_def public_paths_def docs_paths_def)

theorem guarded_route_authenticated_witness:
  "\<exists>token c. rq_authorization (sample_request ''/api/v1/digests/daily'') = Some (''Bearer '' @ token)
    \<and> verify_token sample_jwt ''k'' 200 None token = Inr (Some c) \<and> JStr ''tn_1'' = tc_tenant_id c
    \<and> claims_access \<lparr>custom_roles = []\<rparr> (tc_role c) (tc_user_role c) READ_GOLD = Inr True"
  by (rule guarded_route_authenticated [OF sample_request_routed])
    (simp_all add: get_current_tenant_id_def inject_claims_def claims_of_payload sample_payload_def
      RequirePermission_iff claims_access_text check_access_def has_permission_def get_permissions_def
      tier_roles_def all_permissions_def has_user_permission_def get_user_permissions_def
      user_role_perms_def)

text \<open>The whole path from issuing to access: with a token issued for a tenant, a tier role and a user
role, used unexpired on a path that needs authentication, the middleware hands exactly that tenant to the
route, and a permission is granted exactly when the role tables grant it to both roles.\<close>

theorem issued_token_opens_its_permissions:
  assumes "create_access_token jl env issued tid role email n None uid urole = Inr token" and "tid \<noteq> []"
    and "jl_loads jl (jl_dumps jl (token_payload tid role email \<lfloor>issued\<rfloor> n uid urole))
      = Some (JObj (token_payload tid role email \<lfloor>issued\<rfloor> n uid urole))"
    and "now \<le> of_int (\<lfloor>issued\<rfloor> + n)" and "rq_method rq \<noteq> ''OPTIONS''"
    and "normal_path (rq_path rq) \<notin> set (public_paths @ docs_paths)"
    and "rq_authorization rq = Some (''Bearer '' @ token)"
  shows "\<exists>st. dispatch jl env is_prod now rq = Inr (CallNext st)
    \<and> get_current_tenant_id st = Inr (JStr tid)
    \<and> (RequirePermission pol p st = Inr () \<longleftrightarrow> check_access pol role urole p)"
proof -
  define c where "c = claims_of (token_payload tid role email \<lfloor>issued\<rfloor> n uid urole)"
  from assms(1) obtain key where key: "get_secret env None = Inr key"
      and token: "token = sign_payload jl key (token_payload tid role email \<lfloor>issued\<rfloor> n uid urole)"
    by (auto simp: create_access_token_def)
  have "verify_token jl env now None token = Inr (Some c)"
    using assms(4) by (simp add: token verify_signed_token [OF key] assms(3) check_payload c_def)
  from dispatch_bearer [OF assms(5-7) this]
  have "dispatch jl env is_prod now rq = Inr (CallNext (Some (inject_claims c)))" .
  moreover have "get_current_tenant_id (Some (inject_claims c)) = Inr (JStr tid)"
    using assms(2) by (simp add: get_current_tenant_id_def inject_claims_def c_def claims_of_payload)
  moreover have "RequirePermission pol p (Some (inject_claims c)) = Inr () \<longleftrightarrow> check_access pol role urole p"
    by (simp add: RequirePermission_iff inject_claims_def c_def claims_of_payload claims_access_text)
  ultimately show ?thesis by blast
qed

theorem issued_token_opens_its_permissions_witness:
  "\<exists>st. dispatch sample_jwt ''k'' True 200 (sample_request ''/api/v1/auth/users/'') = Inr (CallNext st)
    \<and> get_current_tenant_id st = Inr (JStr ''tn_1'')
    \<and> (RequirePermission \<lparr>custom_roles = []\<rparr> MANAGE_USERS st = Inr ()
        \<longleftrightarrow> check_access \<lparr>custom_roles = []\<rparr> ''vip'' ''viewer'' MANAGE_USERS)"
  by (rule issued_token_opens_its_permissions [OF sample_token_made])
    (use sample_jwt_loads in \<open>simp_all add: sample_payload_def sample_request_def normal_path_def
      rstrip_char_def public_paths_def docs_paths_def\<close>)

end
