(* ===== verification/Regex.thy ===== *)
theory Regex
  imports PyText
begin

text \<open>
  The part of Python's \<open>re\<close> module the program uses, as a backtracking matcher: \<open>re_ends t r i\<close> lists
  the positions a match of \<open>r\<close> that starts at position \<open>i\<close> of the text \<open>t\<close> can end at, in the order
  the engine tries them (greedy runs longest first, lazy runs shortest first, alternatives left to
  right), so the first of them is the match Python takes. \<open>TextEnd\<close> is the dollar outside multi-line
  mode, which also matches before a final newline. Classes are the Unicode ones, exact for the
  code points below 256 a \<^typ>\<open>string\<close> holds.
\<close>

section \<open>Character classes\<close>

definition re_digit :: "char \<Rightarrow> bool" where
  "re_digit c \<longleftrightarrow> CHR ''0'' \<le> c \<and> c \<le> CHR ''9''"

definition ascii_letter :: "char \<Rightarrow> bool" where
  "ascii_letter c \<longleftrightarrow> (CHR ''a'' \<le> c \<and> c \<le> CHR ''z'') \<or> (CHR ''A'' \<le> c \<and> c \<le> CHR ''Z'')"

text \<open>\<open>\w\<close>: letters, digits and the other alphanumerics of Latin-1, and the underscore.\<close>

definition re_word :: "char \<Rightarrow> bool" where
  "re_word c \<longleftrightarrow>
     ascii_letter c \<or> re_digit c \<or> c = CHR ''_''
     \<or> c \<in> {CHR 0xAA, CHR 0xB2, CHR 0xB3, CHR 0xB5, CHR 0xB9, CHR 0xBA, CHR 0xBC, CHR 0xBD, CHR 0xBE}
     \<or> (CHR 0xC0 \<le> c \<and> c \<noteq> CHR 0xD7 \<and> c \<noteq> CHR 0xF7)"

text \<open>\<open>\s\<close>.\<close>

definition re_space :: "char \<Rightarrow> bool" where
  "re_space c \<longleftrightarrow> is_space c \<or> c \<in> {CHR 0x1C, CHR 0x1D, CHR 0x1E, CHR 0x1F, CHR 0x85, CHR 0xA0}"

text \<open>\<open>.\<close> without and with \<open>re.DOTALL\<close>.\<close>

definition re_dot :: "char \<Rightarrow> bool" where
  "re_dot c \<longleftrightarrow> c \<noteq> CHR 0x0A"

definition re_any :: "char \<Rightarrow> bool" where
  "re_any c \<longleftrightarrow> True"

section \<open>Expressions and their matches\<close>

datatype re =
    Eps
  | Chr "char \<Rightarrow> bool"
  | Rep nat "nat option" "char \<Rightarrow> bool"
  | LazyRep nat "char \<Rightarrow> bool"
  | Seq re re
  | Alt re re
  | WordBoundary
  | LineStart
  | TextEnd

definition word_at :: "string \<Rightarrow> nat \<Rightarrow> bool" where
  "word_at t i \<longleftrightarrow> i < length t \<and> re_word (t ! i)"

definition at_boundary :: "string \<Rightarrow> nat \<Rightarrow> bool" where
  "at_boundary t i \<longleftrightarrow> (i > 0 \<and> word_at t (i - 1)) \<noteq> word_at t i"

definition run_length :: "(char \<Rightarrow> bool) \<Rightarrow> string \<Rightarrow> nat \<Rightarrow> nat" where
  "run_length p t i = length (takeWhile p (drop i t))"

fun re_ends :: "string \<Rightarrow> re \<Rightarrow> nat \<Rightarrow> nat list" where
  "re_ends t Eps i = [i]"
| "re_ends t (Chr p) i = (if i < length t \<and> p (t ! i) then [Suc i] else [])"
| "re_ends t (Rep m n p) i =
     (let k = run_length p t i; k = (case n of None \<Rightarrow> k | Some n \<Rightarrow> min k n)
      in map ((+) i) (rev [m ..< Suc k]))"
| "re_ends t (LazyRep m p) i = map ((+) i) [m ..< Suc (run_length p t i)]"
| "re_ends t (Seq r s) i = concat (map (re_ends t s) (re_ends t r i))"
| "re_ends t (Alt r s) i = re_ends t r i @ re_ends t s i"
| "re_ends t WordBoundary i = (if at_boundary t i then [i] else [])"
| "re_ends t LineStart i = (if i = 0 \<or> t ! (i - 1) = CHR 0x0A then [i] else [])"
| "re_ends t TextEnd i =
     (if i = length t \<or> (Suc i = length t \<and> t ! i = CHR 0x0A) then [i] else [])"

text \<open>\<open>pattern.search(t) is not None\<close>.\<close>

definition re_search :: "re \<Rightarrow> string \<Rightarrow> bool" where
  "re_search r t \<longleftrightarrow> list_ex (\<lambda>i. re_ends t r i \<noteq> []) [0 ..< Suc (length t)]"

text \<open>\<open>pattern.match(t) is not None\<close>: a match at the start of the text.\<close>

definition re_match :: "re \<Rightarrow> string \<Rightarrow> bool" where
  "re_match r t \<longleftrightarrow> re_ends t r 0 \<noteq> []"

text \<open>\<open>pattern.sub("", t)\<close> for a pattern that matches no empty text.\<close>

function remove_from :: "re \<Rightarrow> string \<Rightarrow> nat \<Rightarrow> string" where
  "remove_from r t i =
     (if i \<ge> length t then []
      else case re_ends t r i of
             [] \<Rightarrow> t ! i # remove_from r t (Suc i)
           | j # _ \<Rightarrow> if j > i then remove_from r t j else t ! i # remove_from r t (Suc i))"
  by pat_completeness auto
termination by (relation "measure (\<lambda>(r, t, i). length t - i)") auto

declare remove_from.simps [simp del]

definition re_remove :: "re \<Rightarrow> string \<Rightarrow> string" where
  "re_remove r t = remove_from r t 0"

section \<open>Building expressions\<close>

definition same_letter :: "char \<Rightarrow> char \<Rightarrow> bool" where
  "same_letter c x \<longleftrightarrow> lower_char x = lower_char c"

definition seqs :: "re list \<Rightarrow> re" where
  "seqs rs = foldr Seq rs Eps"

fun alts :: "re list \<Rightarrow> re" where
  "alts [] = Chr (\<lambda>_. False)"
| "alts [r] = r"
| "alts (r # rs) = Alt r (alts rs)"

text \<open>A literal, a letter matching both its cases.\<close>

definition lit :: "string \<Rightarrow> re" where
  "lit s = seqs (map (\<lambda>c. Chr (same_letter c)) s)"

definition spaces :: re where
  "spaces = Rep 0 None re_space"

definition spaces1 :: re where
  "spaces1 = Rep 1 None re_space"

text \<open>\<open>.?\<close> and \<open>.{0,n}\<close>.\<close>

definition opt_dot :: re where
  "opt_dot = Rep 0 (Some 1) re_dot"

definition upto_dots :: "nat \<Rightarrow> re" where
  "upto_dots n = Rep 0 (Some n) re_dot"

text \<open>Words separated by \<open>\s+\<close>, and \<open>\b(...)\b\<close> around alternatives.\<close>

fun phrase :: "string list \<Rightarrow> re" where
  "phrase [] = Eps"
| "phrase [w] = lit w"
| "phrase (w # ws) = seqs [lit w, spaces1, phrase ws]"

definition bounded :: "re list \<Rightarrow> re" where
  "bounded rs = seqs [WordBoundary, alts rs, WordBoundary]"

section \<open>Lemmas\<close>

lemma run_length_le: "i \<le> length t \<Longrightarrow> i + run_length p t i \<le> length t"
  using length_takeWhile_le [of p "drop i t"] by (simp add: run_length_def)

text \<open>A match never ends before it starts nor after the text.\<close>

lemma re_ends_range: "j \<in> set (re_ends t r i) \<Longrightarrow> i \<le> length t \<Longrightarrow> i \<le> j \<and> j \<le> length t"
proof (induction r arbitrary: i j)
  case (Rep m n p)
  then show ?case using run_length_le [of i t p]
    by (auto simp: Let_def split: option.splits)
next
  case (LazyRep m p)
  then show ?case using run_length_le [of i t p] by auto
next
  case (Seq r s)
  then show ?case by fastforce
qed (auto split: if_splits)

lemma remove_from_unmatched:
  assumes "i < length t" and "re_ends t r i = []"
  shows "remove_from r t i = t ! i # remove_from r t (Suc i)"
  using assms by (subst remove_from.simps) simp

text \<open>Removing matches only leaves characters out.\<close>

lemma remove_from_subseq: "subseq (remove_from r t i) (drop i t)"
proof (induction r t i rule: remove_from.induct)
  case (1 r t i)
  show ?case
  proof (cases "i \<ge> length t")
    case True
    then show ?thesis by (simp add: remove_from.simps [of r t i])
  next
    case False
    then have cons: "drop i t = t ! i # drop (Suc i) t" by (simp add: Cons_nth_drop_Suc)
    show ?thesis
    proof (cases "\<exists>j js. re_ends t r i = j # js \<and> j > i")
      case True
      then obtain j js where j: "re_ends t r i = j # js" "j > i" by blast
      have "suffix (drop j t) (drop i t)"
        using j(2) by (metis add_diff_cancel_left' drop_drop less_imp_add_positive suffix_drop add.commute)
      then have "subseq (drop j t) (drop i t)" by (rule suffix_imp_subseq)
      with 1(2) [OF False j] False j show ?thesis
        by (subst remove_from.simps) (auto intro: subseq_order.trans)
    next
      case no: False
      then have "remove_from r t i = t ! i # remove_from r t (Suc i)"
        using False by (subst remove_from.simps) (auto split: list.splits)
      moreover have "subseq (remove_from r t (Suc i)) (drop (Suc i) t)"
      proof (cases "re_ends t r i")
        case Nil
        with 1(1) False show ?thesis by blast
      next
        case (Cons j js)
        with no 1(3) False show ?thesis by blast
      qed
      ultimately show ?thesis unfolding cons by simp
    qed
  qed
qed

lemma re_remove_subseq: "subseq (re_remove r t) t"
  using remove_from_subseq [of r t 0] by (simp add: re_remove_def)

lemma set_re_remove: "set (re_remove r t) \<subseteq> set t"
  using list_emb_set [OF re_remove_subseq [of r t]] by blast

lemma length_re_remove: "length (re_remove r t) \<le> length t"
  using re_remove_subseq by (rule list_emb_length)

lemma re_remove_nothing:
  assumes "\<And>i. i < length t \<Longrightarrow> re_ends t r i = []"
  shows "re_remove r t = t"
proof -
  have "remove_from r t i = drop i t" for i
  proof (induction "length t - i" arbitrary: i)
    case 0
    then show ?case by (subst remove_from.simps) simp
  next
    case (Suc n)
    then have i: "i < length t" by simp
    then have "drop i t = t ! i # drop (Suc i) t" by (simp add: Cons_nth_drop_Suc)
    with Suc(1) [of "Suc i"] Suc(2) i assms show ?case by (simp add: remove_from_unmatched)
  qed
  from this [of 0] show ?thesis by (simp add: re_remove_def)
qed

lemma re_remove_Nil [simp]: "re_remove r [] = []"
  by (rule re_remove_nothing) simp

end
