(* ===== verification/Sanitize.thy ===== *)
theory Sanitize
  imports Regex
begin

text \<open>
  The two modules every ingestion point sends user text through: \<open>src/brain/security/sanitization.py\<close>
  (control characters, HTML, length, prompt injection, labels) and
  \<open>src/brain/security/moderation.py\<close> (prohibited content). Their regular expressions are written out
  over the matcher of \<open>Regex\<close>.
\<close>

section \<open>Sanitization\<close>

definition MAX_TASK_CONTENT_LENGTH :: int where "MAX_TASK_CONTENT_LENGTH = 2000"
definition MAX_LABEL_LENGTH :: nat where "MAX_LABEL_LENGTH = 100"
definition MAX_LABELS_COUNT :: nat where "MAX_LABELS_COUNT = 20"
definition MAX_LLM_PROMPT_LENGTH :: nat where "MAX_LLM_PROMPT_LENGTH = 8000"
definition MAX_SCAN_LENGTH :: nat where "MAX_SCAN_LENGTH = 50000"

text \<open>\<open>[\x00-\x08\x0b\x0c\x0e-\x1f\x7f-\x9f]\<close>.\<close>

definition control_char :: "char \<Rightarrow> bool" where
  "control_char c \<longleftrightarrow>
     c \<le> CHR 0x08 \<or> c = CHR 0x0B \<or> c = CHR 0x0C \<or> (CHR 0x0E \<le> c \<and> c \<le> CHR 0x1F)
     \<or> (CHR 0x7F \<le> c \<and> c \<le> CHR 0x9F)"

definition strip_control :: "string \<Rightarrow> string" where
  "strip_control s = filter (\<lambda>c. \<not> control_char c) s"

definition html_tags :: re where
  "html_tags = seqs [lit ''<'', Rep 0 (Some 500) (\<lambda>c. c \<noteq> CHR ''>''), lit ''>'']"

definition script_pattern :: re where
  "script_pattern =
     seqs [lit ''<'', spaces, lit ''script'', Rep 0 None (\<lambda>c. c \<noteq> CHR ''>''), lit ''>'',
           LazyRep 0 re_any, lit ''<'', spaces, lit ''/'', spaces, lit ''script'', spaces, lit ''>'']"

definition quote_char :: "char \<Rightarrow> bool" where
  "quote_char c \<longleftrightarrow> c = CHR 0x22 \<or> c = CHR 0x27"

definition event_handler :: re where
  "event_handler =
     seqs [WordBoundary, lit ''on'', Rep 1 None re_word, spaces, lit ''='', spaces, Chr quote_char,
           Rep 0 None (\<lambda>c. \<not> quote_char c), Chr quote_char]"

definition prompt_injection_patterns :: "(string \<times> re) list" where
  "prompt_injection_patterns =
     [(''instruction_override'', seqs
         [bounded (map lit [''ignore'', ''disregard'', ''forget'', ''override'', ''bypass'']), upto_dots 30,
          bounded (map lit [''previous'', ''above'', ''all'', ''prior'', ''system'']), upto_dots 30,
          bounded (map lit [''instructions'', ''instruction'', ''rules'', ''rule'', ''prompts'', ''prompt'',
                            ''context'', ''constraints'', ''constraint''])]),
      (''role_hijack'', bounded
         (map phrase [[''you'', ''are'', ''now''], [''act'', ''as''], [''pretend'', ''to'', ''be''],
                      [''new'', ''role''], [''switch'', ''to''], [''from'', ''now'', ''on'', ''you'']])),
      (''system_impersonation'', seqs
         [LineStart, alts (map lit [''SYSTEM'', ''ASSISTANT'', ''AI'', ''GPT'', ''CLAUDE'', ''GEMINI'']),
          spaces, lit '':'']),
      (''delimiter_escape'', alts
         [seqs [lit ''--'', Rep 1 None ((=) (CHR ''-''))], seqs [lit ''=='', Rep 1 None ((=) (CHR ''=''))],
          seqs [lit ''**'', Rep 1 None ((=) (CHR ''*''))], lit (replicate 3 (CHR 0x60)),
          seqs [lit ''###'', spaces, lit ''SYSTEM''], seqs [lit ''###'', spaces, lit ''INSTRUCTION'']]),
      (''data_exfiltration'', seqs
         [bounded (map lit [''output'', ''reveal'', ''show'', ''display'', ''print'', ''leak'', ''extract'',
                            ''dump'']), upto_dots 30,
          bounded [seqs [lit ''api'', opt_dot, lit ''key''], lit ''secret'', lit ''token'', lit ''password'',
                   lit ''credential'', seqs [lit ''master'', opt_dot, lit ''key''], lit ''environment'',
                   seqs [lit ''env'', spaces, lit ''var''], lit ''config'', lit ''database'', lit ''private'']]),
      (''code_execution'', bounded
         [lit ''execute'', lit ''run'', lit ''eval'', lit ''exec'', phrase [''import'', ''os''],
          lit ''subprocess'', lit ''__import__'', seqs [lit ''system'', spaces, lit ''(''], lit ''os.popen'']),
      (''encoding_bypass'', seqs
         [alts [lit ''base64'', lit ''rot13'', lit ''hex'', lit ''unicode'',
                seqs [lit ''url'', opt_dot, lit ''encode'']], spaces,
          alts [lit ''decode'', lit ''encode'', phrase [''the'', ''following'']]])]"

definition injection_prefix :: string where
  "injection_prefix = ''[SANITIZED_USER_CONTENT] ''"

definition injection_suffix :: string where
  "injection_suffix = '' [/SANITIZED_USER_CONTENT]''"

record sanitization_result =
  sn_text :: string
  sn_was_modified :: bool
  sn_injection_detected :: bool
  sn_detected_patterns :: "string list option"
  sn_truncated :: bool

definition detect_injection :: "string \<Rightarrow> string list" where
  "detect_injection t = map fst (filter (\<lambda>(name, pattern). re_search pattern t) prompt_injection_patterns)"

definition strip_tags :: "string \<Rightarrow> string" where
  "strip_tags t = re_remove html_tags (re_remove event_handler (re_remove script_pattern t))"

definition sanitize_text :: "nat \<Rightarrow> bool \<Rightarrow> bool \<Rightarrow> string \<Rightarrow> sanitization_result" where
  "sanitize_text max_length check_injection strip_html input =
     (if input = []
      then \<lparr>sn_text = [], sn_was_modified = False, sn_injection_detected = False,
            sn_detected_patterns = None, sn_truncated = False\<rparr>
      else let cleaned = strip_control input;
               stripped = (if strip_html then strip_tags cleaned else cleaned);
               truncated = length stripped > max_length;
               cut = (if truncated then take max_length stripped else stripped);
               detected = (if check_injection then detect_injection cut else []);
               found = detected \<noteq> []
           in \<lparr>sn_text = (if found then injection_prefix @ cut @ injection_suffix else cut),
               sn_was_modified = (cleaned \<noteq> input \<or> (strip_html \<and> stripped \<noteq> cleaned) \<or> truncated \<or> found),
               sn_injection_detected = found,
               sn_detected_patterns = (if detected \<noteq> [] then Some detected else None),
               sn_truncated = truncated\<rparr>)"

text \<open>\<open>[^\w\s\-.]\<close> is what a label may not contain.\<close>

definition label_char :: "char \<Rightarrow> bool" where
  "label_char c \<longleftrightarrow> re_word c \<or> re_space c \<or> c = CHR ''-'' \<or> c = CHR ''.''"

definition strip_spaces :: "string \<Rightarrow> string" where
  "strip_spaces s = rev (dropWhile re_space (rev (dropWhile re_space s)))"

definition sanitize_label :: "string \<Rightarrow> string" where
  "sanitize_label label =
     (if label = [] then []
      else strip_spaces (take MAX_LABEL_LENGTH
             (filter label_char (re_remove html_tags (strip_control label)))))"

definition sanitize_labels :: "string list \<Rightarrow> string list" where
  "sanitize_labels labels = filter (\<lambda>l. l \<noteq> []) (map sanitize_label (take MAX_LABELS_COUNT labels))"

definition sanitize_for_llm :: "nat \<Rightarrow> string \<Rightarrow> string" where
  "sanitize_for_llm max_length input =
     (let result = sanitize_text max_length True True input
      in if \<not> sn_injection_detected result
         then ''[USER_DATA_BEGIN]'' @ CHR 0x0A # sn_text result @ CHR 0x0A # ''[USER_DATA_END]''
         else sn_text result)"

definition has_prompt_injection :: "string \<Rightarrow> bool" where
  "has_prompt_injection input =
     (if input = [] then False
      else let scan = take MAX_SCAN_LENGTH input
           in list_ex (\<lambda>(name, pattern). re_search pattern scan) prompt_injection_patterns)"

section \<open>Moderation\<close>

definition bounded_words :: "string list \<Rightarrow> re" where
  "bounded_words ws = bounded (map lit ws)"

definition illegal_patterns :: "(string \<times> re) list" where
  "illegal_patterns =
     [(''drugs_trafficking'', seqs [bounded_words [''sell'', ''buy'', ''ship'', ''deliver''], upto_dots 30,
         bounded_words [''cocaine'', ''heroin'', ''fentanyl'', ''meth'', ''mdma'', ''lsd'', ''ketamine'']]),
      (''weapons_trafficking'', seqs
         [bounded_words [''sell'', ''buy'', ''ship'', ''smuggle'', ''manufacture''], upto_dots 30,
          bounded_words [''firearm'', ''gun'', ''explosive'', ''bomb'', ''grenade'', ''silencer'']]),
      (''csam'', seqs [bounded_words [''child'', ''minor'', ''underage''], upto_dots 20,
         bounded_words [''porn'', ''exploit'', ''abuse'', ''nude'']]),
      (''human_trafficking'', seqs
         [bounded_words [''traffic'', ''smuggle'', ''kidnap'', ''enslave''], upto_dots 30,
          bounded_words [''person'', ''people'', ''human'', ''women'', ''children'']]),
      (''fraud'', bounded_words [''phish'', ''scam'', ''steal identity'', ''credit card fraud'',
                                 ''money launder'']),
      (''hacking_tools'', seqs
         [bounded [lit ''exploit'', lit ''ransomware'', lit ''malware'', lit ''rootkit'', lit ''keylogger'',
                   lit ''ddos'', seqs [lit ''brute'', opt_dot, lit ''force'']], upto_dots 20,
          bounded_words [''attack'', ''deploy'', ''create'', ''build'', ''write'']]),
      (''terrorism'', seqs [bounded_words [''terrorist'', ''jihad'', ''radicaliz''], upto_dots 30,
         bounded_words [''attack'', ''recruit'', ''plan'', ''bomb'']])]"

record moderation_result =
  md_is_allowed :: bool
  md_category :: string
  md_reason :: string

definition allowed :: moderation_result where
  "allowed = \<lparr>md_is_allowed = True, md_category = [], md_reason = []\<rparr>"

definition blocked :: "string \<Rightarrow> moderation_result" where
  "blocked category =
     \<lparr>md_is_allowed = False, md_category = category,
      md_reason = ''Content violates acceptable use policy ('' @ category @ '').''\<rparr>"

fun first_match :: "string \<Rightarrow> (string \<times> re) list \<Rightarrow> moderation_result" where
  "first_match t [] = allowed"
| "first_match t ((category, pattern) # ps) =
     (if re_search pattern t then blocked category else first_match t ps)"

definition check_content :: "string \<Rightarrow> moderation_result" where
  "check_content t = (if t = [] then allowed else first_match (take MAX_SCAN_LENGTH t) illegal_patterns)"

text \<open>Scanning the text fields of a batch of items, stopping at the first violation.\<close>

fun check_fields :: "jdict \<Rightarrow> string list \<Rightarrow> moderation_result" where
  "check_fields item [] = allowed"
| "check_fields item (k # keys) =
     (case map_of item k of
        Some (JStr value) \<Rightarrow>
          (let result = check_content value
           in if \<not> md_is_allowed result then result else check_fields item keys)
      | _ \<Rightarrow> check_fields item keys)"

fun check_bulk_content :: "jdict list \<Rightarrow> string list \<Rightarrow> moderation_result" where
  "check_bulk_content [] keys = allowed"
| "check_bulk_content (item # items) keys =
     (let result = check_fields item keys
      in if \<not> md_is_allowed result then result else check_bulk_content items keys)"

end
