(* ===== verification/SanitizeLaws.thy ===== *)
theory SanitizeLaws
  imports Sanitize
begin

text \<open>
  What sanitization and moderation guarantee: nothing but characters of the input survives, without
  control characters and within the length limit; a detected injection is always wrapped; labels come
  out clean and stable; moderation blocks exactly the texts one of its patterns matches.
\<close>

section \<open>Sanitized text\<close>

lemma strip_tags_subseq: "subseq (strip_tags t) t"
  unfolding strip_tags_def by (meson re_remove_subseq subseq_order.trans)

lemma subseq_take: "subseq (take n t) t"
  by (simp add: prefix_imp_subseq take_is_prefix)

lemma subseq_set: "subseq u t \<Longrightarrow> set u \<subseteq> set t"
  by (auto dest: list_emb_set)

text \<open>What is left of a text before the wrapping.\<close>

definition sanitized_body :: "nat \<Rightarrow> bool \<Rightarrow> string \<Rightarrow> string" where
  "sanitized_body n strip_html t = take n (if strip_html then strip_tags (strip_control t) else strip_control t)"

lemma sanitize_text_body:
  "sn_text (sanitize_text n ci html t) =
     (if sn_injection_detected (sanitize_text n ci html t)
      then injection_prefix @ sanitized_body n html t @ injection_suffix else sanitized_body n html t)"
  by (simp add: sanitize_text_def sanitized_body_def strip_control_def strip_tags_def Let_def)

lemma sanitize_text_detected:
  "sn_injection_detected (sanitize_text n ci html t) \<longleftrightarrow>
     t \<noteq> [] \<and> ci \<and> detect_injection (sanitized_body n html t) \<noteq> []"
  by (auto simp: sanitize_text_def sanitized_body_def Let_def)

lemma sanitized_body_subseq: "subseq (sanitized_body n html t) (strip_control t)"
  unfolding sanitized_body_def using subseq_order.trans [OF subseq_take strip_tags_subseq]
  by (simp add: subseq_take)

lemma strip_control_subseq: "subseq (strip_control t) t"
  by (simp add: strip_control_def)

lemma sanitized_body_clean: "list_all (\<lambda>c. \<not> control_char c) (sanitized_body n html t)"
  using subseq_set [OF sanitized_body_subseq [of n html t]] by (auto simp: list_all_iff strip_control_def)

lemma sanitize_text_unmodified:
  "sn_was_modified (sanitize_text n ci html t) \<or> sn_text (sanitize_text n ci html t) = t"
  by (auto simp: sanitize_text_def Let_def)

section \<open>Labels\<close>

definition clean_label :: "string \<Rightarrow> bool" where
  "clean_label l \<longleftrightarrow>
     l \<noteq> [] \<and> length l \<le> MAX_LABEL_LENGTH \<and> list_all (\<lambda>c. label_char c \<and> \<not> control_char c) l
     \<and> \<not> re_space (hd l) \<and> \<not> re_space (last l)"

lemma strip_spaces_subseq: "subseq (strip_spaces s) s"
proof -
  have "suffix (dropWhile re_space s) s" by (rule suffix_dropWhile)
  moreover have "prefix (strip_spaces s) (dropWhile re_space s)"
    by (metis suffix_dropWhile rev_rev_ident strip_spaces_def suffix_to_prefix)
  ultimately show ?thesis
    by (meson prefix_imp_subseq subseq_order.trans suffix_imp_subseq)
qed

lemma strip_spaces_ends:
  assumes "strip_spaces s \<noteq> []"
  shows "\<not> re_space (hd (strip_spaces s)) \<and> \<not> re_space (last (strip_spaces s))"
proof -
  define u where "u = dropWhile re_space s"
  define v where "v = dropWhile re_space (rev u)"
  have sv: "strip_spaces s = rev v" by (simp add: strip_spaces_def u_def v_def)
  with assms have v: "v \<noteq> []" by simp
  then have "\<not> re_space (hd v)" unfolding v_def by (rule hd_dropWhile)
  then have last_ok: "\<not> re_space (last (rev v))" by (simp add: last_rev)
  from v have "u \<noteq> []" by (auto simp: v_def)
  then have hdu: "\<not> re_space (hd u)" unfolding u_def by (rule hd_dropWhile)
  obtain w where "rev u = w @ v"
    unfolding v_def by (metis takeWhile_dropWhile_id)
  then have "u = rev v @ rev w" by (metis rev_append rev_rev_ident)
  with v hdu have "\<not> re_space (hd (rev v))" by (simp add: hd_append)
  with last_ok sv show ?thesis by simp
qed

lemma strip_spaces_stable:
  assumes "l \<noteq> []" and "\<not> re_space (hd l)" and "\<not> re_space (last l)"
  shows "strip_spaces l = l"
proof -
  have "dropWhile re_space l = l" using assms(1,2) by (cases l) auto
  moreover have "dropWhile re_space (rev l) = rev l"
    using assms(1,3) by (cases "rev l") (auto simp: last_conv_nth hd_rev [symmetric])
  ultimately show ?thesis by (simp add: strip_spaces_def)
qed

lemma sanitize_label_clean:
  assumes "sanitize_label l \<noteq> []"
  shows "clean_label (sanitize_label l)"
proof -
  define u where "u = filter label_char (re_remove html_tags (strip_control l))"
  from assms have s: "sanitize_label l = strip_spaces (take MAX_LABEL_LENGTH u)"
    by (auto simp: sanitize_label_def u_def)
  have sub: "subseq (sanitize_label l) (take MAX_LABEL_LENGTH u)"
    unfolding s by (rule strip_spaces_subseq)
  have len: "length (sanitize_label l) \<le> MAX_LABEL_LENGTH"
    using list_emb_length [OF sub] by simp
  have "set u \<subseteq> {c. label_char c \<and> \<not> control_char c}"
    using set_re_remove [of html_tags "strip_control l"] by (auto simp: u_def strip_control_def)
  then have "list_all (\<lambda>c. label_char c \<and> \<not> control_char c) (sanitize_label l)"
    using subseq_set [OF sub] set_take_subset [of MAX_LABEL_LENGTH u] by (auto simp: list_all_iff)
  with len show ?thesis
    using assms strip_spaces_ends [of "take MAX_LABEL_LENGTH u"] by (simp add: clean_label_def s)
qed

lemma html_needs_angle: "CHR ''<'' \<notin> set t \<Longrightarrow> re_remove html_tags t = t"
proof (rule re_remove_nothing)
  fix i
  assume t: "CHR ''<'' \<notin> set t" and i: "i < length t"
  then have "t ! i \<noteq> CHR ''<''" by (metis nth_mem)
  then have "\<not> same_letter (CHR ''<'') (t ! i)"
    by (auto simp: same_letter_def lower_char_def less_eq_char_def split: if_splits
        dest!: arg_cong [where f = "of_char :: char \<Rightarrow> nat"])
  with i show "re_ends t html_tags i = []"
    by (simp add: html_tags_def seqs_def lit_def)
qed

lemma sanitize_label_stable:
  assumes "clean_label l"
  shows "sanitize_label l = l"
proof -
  from assms have chars: "\<forall>c \<in> set l. label_char c \<and> \<not> control_char c" by (simp add: clean_label_def list_all_iff)
  then have "strip_control l = l" by (simp add: strip_control_def)
  moreover have "\<not> label_char (CHR ''<'')"
    by (simp add: label_char_def re_word_def ascii_letter_def re_digit_def re_space_def is_space_def less_eq_char_def)
  then have "re_remove html_tags l = l" using chars by (intro html_needs_angle) auto
  moreover have "filter label_char l = l" using chars by simp
  ultimately show ?thesis
    using assms by (simp add: sanitize_label_def clean_label_def strip_spaces_stable)
qed

lemma sanitize_labels_clean: "list_all clean_label (sanitize_labels ls)"
  by (auto simp: sanitize_labels_def list_all_iff intro: sanitize_label_clean)

lemma sanitize_labels_stable:
  assumes "list_all clean_label ls" and "length ls \<le> MAX_LABELS_COUNT"
  shows "sanitize_labels ls = ls"
proof -
  have "map sanitize_label ls = ls"
    using assms(1) by (simp add: list_all_iff sanitize_label_stable map_idI)
  moreover have "filter (\<lambda>l. l \<noteq> []) ls = ls"
    using assms(1) by (auto simp: list_all_iff clean_label_def)
  ultimately show ?thesis using assms(2) by (simp add: sanitize_labels_def)
qed

lemma sanitize_labels_length: "length (sanitize_labels ls) \<le> MAX_LABELS_COUNT"
proof -
  have "length (sanitize_labels ls) \<le> length (map sanitize_label (take MAX_LABELS_COUNT ls))"
    unfolding sanitize_labels_def by (rule length_filter_le)
  then show ?thesis by simp
qed

section \<open>Moderation\<close>

lemma first_match_allowed:
  "md_is_allowed (first_match t ps) \<longleftrightarrow> list_all (\<lambda>(c, p). \<not> re_search p t) ps"
  by (induction ps) (auto simp: allowed_def blocked_def split: if_splits)

lemma first_match_filter:
  "first_match t ps = (case filter (\<lambda>(c, p). re_search p t) ps of [] \<Rightarrow> allowed | (c, p) # _ \<Rightarrow> blocked c)"
  by (induction ps) auto

definition field_allowed :: "jdict \<Rightarrow> string \<Rightarrow> bool" where
  "field_allowed item k = (case map_of item k of Some (JStr v) \<Rightarrow> md_is_allowed (check_content v) | _ \<Rightarrow> True)"

lemma check_fields_allowed: "md_is_allowed (check_fields item ks) \<longleftrightarrow> list_all (field_allowed item) ks"
  by (induction ks) (auto simp: allowed_def field_allowed_def Let_def split: option.splits json.splits)

lemma check_bulk_allowed:
  "md_is_allowed (check_bulk_content items ks) \<longleftrightarrow> list_all (\<lambda>item. list_all (field_allowed item) ks) items"
  by (induction items) (auto simp: allowed_def check_fields_allowed Let_def)

section \<open>Properties\<close>

text \<open>Sanitized text is a subsequence of the input with no control character and at most the maximal
length, wrapped in the safety boundary exactly when an injection pattern matches what is left, and the
patterns reported are exactly those that match; a text reported unmodified is unchanged.\<close>

theorem sanitized_text_clean:
  "\<exists>body. subseq body t \<and> list_all (\<lambda>c. \<not> control_char c) body \<and> length body \<le> n
     \<and> sn_text (sanitize_text n ci html t) =
         (if t \<noteq> [] \<and> ci \<and> list_ex (\<lambda>(name, p). re_search p body) prompt_injection_patterns
          then injection_prefix @ body @ injection_suffix else body)
     \<and> sn_injection_detected (sanitize_text n ci html t) =
         (t \<noteq> [] \<and> ci \<and> list_ex (\<lambda>(name, p). re_search p body) prompt_injection_patterns)
     \<and> (sn_was_modified (sanitize_text n ci html t) \<or> sn_text (sanitize_text n ci html t) = t)"
proof -
  define b where "b = sanitized_body n html t"
  have "subseq b t"
    unfolding b_def using sanitized_body_subseq strip_control_subseq subseq_order.trans by blast
  moreover have "length b \<le> n" by (simp add: b_def sanitized_body_def)
  moreover have "list_all (\<lambda>c. \<not> control_char c) b" unfolding b_def by (rule sanitized_body_clean)
  moreover have "detect_injection b \<noteq> [] \<longleftrightarrow> list_ex (\<lambda>(name, p). re_search p b) prompt_injection_patterns"
    by (simp add: detect_injection_def filter_empty_conv list_ex_iff)
  ultimately show ?thesis
    using sanitize_text_body [of n ci html t] sanitize_text_detected [of n ci html t]
      sanitize_text_unmodified [of n ci html t]
    unfolding b_def [symmetric] by (intro exI [of _ b]) auto
qed

text \<open>Whatever the labels given, at most 20 labels come out, each non-empty, at most 100 characters
long, made of word characters, spaces, hyphens and dots without control characters and without spaces at
its ends; sanitizing them again changes nothing.\<close>

theorem sanitized_labels_clean_and_stable:
  "length (sanitize_labels ls) \<le> 20 \<and> list_all clean_label (sanitize_labels ls)
   \<and> sanitize_labels (sanitize_labels ls) = sanitize_labels ls"
  using sanitize_labels_length [of ls] sanitize_labels_clean [of ls]
    sanitize_labels_stable [OF sanitize_labels_clean sanitize_labels_length]
  by (simp add: MAX_LABELS_COUNT_def)

text \<open>Moderation blocks exactly what its patterns describe: a text is blocked when a pattern matches its
first 50000 characters, and then with the category of the first such pattern; a batch passes exactly when
every text field of every item does.\<close>

theorem moderation_exact:
  "check_content t =
     (case filter (\<lambda>(c, p). re_search p (take 50000 t)) (if t = [] then [] else illegal_patterns) of
        [] \<Rightarrow> allowed | (c, p) # _ \<Rightarrow> blocked c)
   \<and> md_is_allowed (check_bulk_content items ks)
       = list_all (\<lambda>item. list_all (field_allowed item) ks) items"
  by (simp add: check_content_def first_match_filter check_bulk_allowed MAX_SCAN_LENGTH_def)

text \<open>
  A gap the patterns leave, by evaluation: the word boundary after the stem \<open>radicaliz\<close> keeps it from
  matching any form of the word.
\<close>

lemma stem_needs_boundary:
  "md_is_allowed (check_content ''radicalize bomb'') \<and>
   \<not> md_is_allowed (check_content ''radicaliz bomb'')"
proof -
  have "md_is_allowed (first_match ''radicalize bomb'' illegal_patterns)
      \<and> \<not> md_is_allowed (first_match ''radicaliz bomb'' illegal_patterns)"
    by code_simp
  then show ?thesis by (simp add: check_content_def MAX_SCAN_LENGTH_def)
qed

end
