(* ===== verification/Webhooks.thy ===== *)
theory Webhooks
  imports ApiAuth Sanitize TaskQueue Resilience Catalog
begin

text \<open>
  \<open>src/brain/api/routes/webhooks.py\<close>: the endpoints n8n calls to queue work. The state is the process's:
  the rate limiter, the table of tracked jobs and the task queue. Each endpoint first solves its
  dependencies (permission, signature, tenant), then validates its body, then runs. HMAC-SHA256 in
  hexadecimal and ISO timestamps are parameters; the clocks and the random hexadecimal id of a call are
  part of the call. Tenant ids are texts, as in every token the server issues.
\<close>

section \<open>State\<close>

record tracked_job =
  jb_status :: string
  jb_tenant_id :: string
  jb_type :: string
  jb_created_at :: string

record webhook_state =
  ws_limiter :: rate_limiter
  ws_jobs :: "(string \<times> tracked_job) list"
  ws_queue :: task_queue

record webhook_env =
  we_mac :: "bytes \<Rightarrow> bytes \<Rightarrow> string"
  we_secret :: string
  we_iso :: "datetime \<Rightarrow> string"
  we_policy :: rbac_policy
  we_catalog :: catalog_env

record webhook_call =
  wc_state :: "request_state option"
  wc_body :: bytes
  wc_signature :: "string option"
  wc_clock :: real
  wc_now :: datetime
  wc_token_hex :: string

definition max_job_history :: nat where
  "max_job_history = 1000"

definition new_webhook_state :: "int \<Rightarrow> webhook_state" where
  "new_webhook_state limit =
     \<lparr>ws_limiter = new_rate_limiter limit 60, ws_jobs = [], ws_queue = new_task_queue\<rparr>"

section \<open>Guards\<close>

definition check_rate_limit :: "real \<Rightarrow> string \<Rightarrow> webhook_state \<Rightarrow> unit res \<times> webhook_state" where
  "check_rate_limit clock tenant_id s =
     (let (ok, rl) = rl_allow clock tenant_id (ws_limiter s) in
      if ok then (Inr (), s\<lparr>ws_limiter := rl\<rparr>)
      else let (remaining, rl) = rl_remaining clock tenant_id rl
           in (Inl (HTTPException 429
                 (''Rate limit exceeded ('' @ int_text remaining @ '' remaining). Try again in 60s.'')),
               s\<lparr>ws_limiter := rl\<rparr>))"

text \<open>\<open>hmac.compare_digest\<close> raises on a text with a non-ASCII character.\<close>

definition verify_webhook_signature ::
    "(bytes \<Rightarrow> bytes \<Rightarrow> string) \<Rightarrow> string \<Rightarrow> bytes \<Rightarrow> string option \<Rightarrow> unit res" where
  "verify_webhook_signature mac secret body signature =
     (if secret = [] then Inr ()
      else case signature of
             None \<Rightarrow> Inl (HTTPException 401 ''Missing X-Webhook-Signature header'')
           | Some given \<Rightarrow>
               if given = [] then Inl (HTTPException 401 ''Missing X-Webhook-Signature header'')
               else let expected = ''sha256='' @ mac (utf8_encode secret) body
                    in if \<exists>c \<in> set given. (of_char c :: nat) \<ge> 128 then Inl (OtherError ''TypeError'')
                       else if expected \<noteq> given
                       then Inl (HTTPException 401 ''Invalid webhook signature'')
                       else Inr ())"

definition tenant_text :: "request_state option \<Rightarrow> string res" where
  "tenant_text st =
     rbind (get_current_tenant_id st) (\<lambda>v.
       case v of JStr t \<Rightarrow> Inr t | _ \<Rightarrow> Inl (OtherError ''tenant id is not a text''))"

definition webhook_guard :: "webhook_env \<Rightarrow> permission \<Rightarrow> webhook_call \<Rightarrow> string res" where
  "webhook_guard env p call =
     rbind (RequirePermission (we_policy env) p (wc_state call)) (\<lambda>_.
     rbind (verify_webhook_signature (we_mac env) (we_secret env) (wc_body call) (wc_signature call)) (\<lambda>_.
       tenant_text (wc_state call)))"

definition unprocessable :: py_error where
  "unprocessable = HTTPException 422 ''Unprocessable Entity''"

section \<open>Tracking and queueing\<close>

definition track_job :: "string \<Rightarrow> string \<Rightarrow> string \<Rightarrow> string \<Rightarrow> (string \<times> tracked_job) list \<Rightarrow>
    (string \<times> tracked_job) list" where
  "track_job now_iso message_id tenant_id job_type jobs =
     (let oldest = (if length jobs \<ge> max_job_history
                    then map fst (take 100 (sort_key (\<lambda>(k, j). jb_created_at j) jobs)) else []);
          jobs = filter (\<lambda>(k, j). k \<notin> set oldest) jobs
      in AList.update message_id
           \<lparr>jb_status = ''queued'', jb_tenant_id = tenant_id, jb_type = job_type, jb_created_at = now_iso\<rparr>
           jobs)"

record webhook_response =
  wr_message_id :: string
  wr_status :: string
  wr_message :: string

definition submit_job ::
    "webhook_env \<Rightarrow> webhook_call \<Rightarrow> string \<Rightarrow> message_type \<Rightarrow> jdict \<Rightarrow> string \<Rightarrow> string \<Rightarrow> webhook_state \<Rightarrow>
     webhook_response res \<times> webhook_state" where
  "submit_job env call tenant_id typ payload job_type reply s =
     (let message_id = ''wh_'' @ wc_token_hex call;
          msg = new_message message_id typ tenant_id payload (wc_now call)
      in (Inr \<lparr>wr_message_id = message_id, wr_status = ''queued'', wr_message = reply\<rparr>,
          s\<lparr>ws_queue := enqueue msg (ws_queue s),
            ws_jobs := track_job (we_iso env (wc_now call)) message_id tenant_id job_type (ws_jobs s)\<rparr>))"

text \<open>The first line of every handler, then the rest of it.\<close>

definition rate_limited ::
    "webhook_call \<Rightarrow> string \<Rightarrow> (webhook_state \<Rightarrow> 'a res \<times> webhook_state) \<Rightarrow> webhook_state \<Rightarrow>
     'a res \<times> webhook_state" where
  "rate_limited call tenant_id rest s =
     (case check_rate_limit (wc_clock call) tenant_id s of
        (Inl e, s) \<Rightarrow> (Inl e, s)
      | (Inr _, s) \<Rightarrow> rest s)"

section \<open>Request bodies\<close>

record pipeline_request =
  wp_todoist_tasks :: "jdict list"
  wp_todoist_projects :: "jdict list"
  wp_todoist_sections :: "jdict list"
  wp_calendar_events :: "jdict list"
  wp_emails :: "jdict list"
  wp_weekend_mode :: bool

definition pipeline_valid :: "pipeline_request \<Rightarrow> bool" where
  "pipeline_valid b \<longleftrightarrow>
     length (wp_todoist_tasks b) \<le> 10000 \<and> length (wp_todoist_projects b) \<le> 1000
     \<and> length (wp_todoist_sections b) \<le> 1000 \<and> length (wp_calendar_events b) \<le> 10000
     \<and> length (wp_emails b) \<le> 5000"

definition pipeline_payload :: "pipeline_request \<Rightarrow> jdict" where
  "pipeline_payload b =
     [(''todoist_tasks'', JArr (map JObj (wp_todoist_tasks b))),
      (''todoist_projects'', JArr (map JObj (wp_todoist_projects b))),
      (''todoist_sections'', JArr (map JObj (wp_todoist_sections b))),
      (''calendar_events'', JArr (map JObj (wp_calendar_events b))),
      (''emails'', JArr (map JObj (wp_emails b))), (''weekend_mode'', JBool (wp_weekend_mode b))]"

record catalog_request =
  wq_action :: string
  wq_schema_name :: string
  wq_table_name :: string

record llm_request =
  wl_prompt :: string
  wl_system_prompt :: string
  wl_use_local :: bool

definition llm_valid :: "llm_request \<Rightarrow> bool" where
  "llm_valid b \<longleftrightarrow> 1 \<le> length (wl_prompt b) \<and> length (wl_prompt b) \<le> 4000 \<and> length (wl_system_prompt b) \<le> 2000"

definition llm_payload :: "llm_request \<Rightarrow> jdict" where
  "llm_payload b =
     [(''prompt'', JStr (sanitize_for_llm MAX_LLM_PROMPT_LENGTH (wl_prompt b))),
      (''system_prompt'', JStr (sanitize_for_llm MAX_LLM_PROMPT_LENGTH (wl_system_prompt b))),
      (''use_local'', JBool (wl_use_local b))]"

record tenant_request =
  wt_action :: string
  wt_config :: jdict

record notion_sync_request =
  wn_direction :: string
  wn_database_id :: string

record board_analysis_request =
  wb_project_id :: string
  wb_include_sections :: bool

record scoring_request =
  wk_priority_weight :: real
  wk_due_date_weight :: real
  wk_label_bonus :: real
  wk_overdue_penalty :: real

definition scoring_valid :: "scoring_request \<Rightarrow> bool" where
  "scoring_valid b \<longleftrightarrow>
     0 \<le> wk_priority_weight b \<and> wk_priority_weight b \<le> 5
     \<and> 0 \<le> wk_due_date_weight b \<and> wk_due_date_weight b \<le> 5
     \<and> 0 \<le> wk_label_bonus b \<and> wk_label_bonus b \<le> 3
     \<and> 0 \<le> wk_overdue_penalty b \<and> wk_overdue_penalty b \<le> 10"

record notebooklm_request =
  wz_source_type :: string
  wz_content :: string

section \<open>Handlers\<close>

definition webhook_trigger_pipeline ::
    "webhook_env \<Rightarrow> webhook_call \<Rightarrow> string \<Rightarrow> pipeline_request \<Rightarrow> webhook_state \<Rightarrow>
     webhook_response res \<times> webhook_state" where
  "webhook_trigger_pipeline env call tenant_id body =
     rate_limited call tenant_id (\<lambda>s.
       let mod_result = check_bulk_content (wp_todoist_tasks body) [''content'', ''description'']
       in if wp_todoist_tasks body \<noteq> [] \<and> \<not> md_is_allowed mod_result
          then (Inl (HTTPException 422 (''Content blocked: '' @ md_reason mod_result)), s)
          else submit_job env call tenant_id PIPELINE_RUN (pipeline_payload body) ''pipeline_run''
                 ''Pipeline run queued for async processing'' s)"

definition webhook_trigger_digest ::
    "webhook_env \<Rightarrow> webhook_call \<Rightarrow> string \<Rightarrow> webhook_state \<Rightarrow> webhook_response res \<times> webhook_state" where
  "webhook_trigger_digest env call tenant_id =
     rate_limited call tenant_id
       (submit_job env call tenant_id DIGEST_GENERATE [] ''digest_generate'' ''Digest generation queued'')"

definition catalog_answer :: "webhook_env \<Rightarrow> catalog_db \<Rightarrow> catalog_request \<Rightarrow> json res" where
  "catalog_answer env db body =
     (let iso = we_iso env; ce = we_catalog env in
      if wq_action body = ''list_tables'' then
        rbind (list_tables ce ''velaflow'' (wq_schema_name body) db) (\<lambda>tables.
          Inr (JObj [(''schema'', JStr (wq_schema_name body)),
            (''tables'', JArr (map (\<lambda>t. JObj [(''name'', JStr (ct_name t)), (''row_count'', JInt (ct_row_count t)),
               (''updated_at'', JStr (iso (ct_updated_at t)))]) tables))]))
      else if wq_action body = ''get_lineage'' then
        (let full_name = ''velaflow.'' @ wq_schema_name body @ ''.'' @ wq_table_name body in
         rbind (get_lineage ce full_name db) (\<lambda>records.
           Inr (JObj [(''table'', JStr full_name),
             (''lineage'', JArr (map (\<lambda>r. JObj [(''source'', JStr (lr_source_table r)),
                (''stage'', JStr (lr_pipeline_stage r)), (''records'', JInt (lr_record_count r))]) records))])))
      else if wq_action body = ''table_stats'' then
        rbind (get_table ce ''velaflow'' (wq_schema_name body) (wq_table_name body) db) (\<lambda>table.
          case table of
            None \<Rightarrow> Inr (JObj [(''error'', JStr ''Table not found'')])
          | Some t \<Rightarrow> Inr (JObj [(''table'', JStr (table_full_name t)), (''row_count'', JInt (ct_row_count t)),
              (''size_bytes'', JInt (ct_size_bytes t)), (''format'', JStr (ct_format t)),
              (''updated_at'', JStr (iso (ct_updated_at t)))]))
      else Inr (JObj [(''error'', JStr (''Unknown action: '' @ wq_action body))]))"

definition webhook_catalog_query ::
    "webhook_env \<Rightarrow> catalog_db \<Rightarrow> webhook_call \<Rightarrow> string \<Rightarrow> catalog_request \<Rightarrow> webhook_state \<Rightarrow>
     (string \<times> json) res \<times> webhook_state" where
  "webhook_catalog_query env db call tenant_id body =
     rate_limited call tenant_id (\<lambda>s.
       (rbind (catalog_answer env db body) (\<lambda>data. Inr (wq_action body, data)), s))"

definition webhook_trigger_llm ::
    "webhook_env \<Rightarrow> webhook_call \<Rightarrow> string \<Rightarrow> llm_request \<Rightarrow> webhook_state \<Rightarrow>
     webhook_response res \<times> webhook_state" where
  "webhook_trigger_llm env call tenant_id body =
     rate_limited call tenant_id (\<lambda>s.
       if has_prompt_injection (wl_system_prompt body)
       then (Inl (HTTPException 422 ''System prompt contains disallowed content''), s)
       else submit_job env call tenant_id LLM_GENERATE (llm_payload body) ''llm_generate''
              ''LLM generation queued'' s)"

definition webhook_tenant_operation ::
    "webhook_env \<Rightarrow> webhook_call \<Rightarrow> string \<Rightarrow> tenant_request \<Rightarrow> webhook_state \<Rightarrow>
     webhook_response res \<times> webhook_state" where
  "webhook_tenant_operation env call tenant_id body =
     rate_limited call tenant_id
       (submit_job env call tenant_id TENANT_OPERATION
          [(''action'', JStr (wt_action body)), (''config'', JObj (wt_config body))] ''tenant_operation''
          (''Tenant operation '' @ [CHR 0x27] @ wt_action body @ [CHR 0x27] @ '' queued''))"

definition webhook_notion_sync ::
    "webhook_env \<Rightarrow> webhook_call \<Rightarrow> string \<Rightarrow> notion_sync_request \<Rightarrow> webhook_state \<Rightarrow>
     webhook_response res \<times> webhook_state" where
  "webhook_notion_sync env call tenant_id body =
     rate_limited call tenant_id
       (submit_job env call tenant_id NOTION_SYNC
          [(''direction'', JStr (wn_direction body)), (''database_id'', JStr (wn_database_id body))]
          ''notion_sync'' (''Notion sync ('' @ wn_direction body @ '') queued''))"

definition webhook_board_analysis ::
    "webhook_env \<Rightarrow> webhook_call \<Rightarrow> string \<Rightarrow> board_analysis_request \<Rightarrow> webhook_state \<Rightarrow>
     webhook_response res \<times> webhook_state" where
  "webhook_board_analysis env call tenant_id body =
     rate_limited call tenant_id
       (submit_job env call tenant_id BOARD_ANALYSIS
          [(''project_id'', JStr (wb_project_id body)), (''include_sections'', JBool (wb_include_sections body))]
          ''board_analysis'' ''Board analysis queued'')"

definition webhook_scoring_config ::
    "webhook_env \<Rightarrow> webhook_call \<Rightarrow> string \<Rightarrow> scoring_request \<Rightarrow> webhook_state \<Rightarrow>
     webhook_response res \<times> webhook_state" where
  "webhook_scoring_config env call tenant_id body =
     rate_limited call tenant_id
       (submit_job env call tenant_id SCORING_CONFIG
          [(''priority_weight'', JReal (wk_priority_weight body)),
           (''due_date_weight'', JReal (wk_due_date_weight body)),
           (''label_bonus'', JReal (wk_label_bonus body)),
           (''overdue_penalty'', JReal (wk_overdue_penalty body))]
          ''scoring_config'' ''Scoring configuration update queued'')"

definition webhook_notebooklm ::
    "webhook_env \<Rightarrow> webhook_call \<Rightarrow> string \<Rightarrow> notebooklm_request \<Rightarrow> webhook_state \<Rightarrow>
     webhook_response res \<times> webhook_state" where
  "webhook_notebooklm env call tenant_id body =
     rate_limited call tenant_id
       (submit_job env call tenant_id NOTEBOOKLM_EXTRACT
          [(''source_type'', JStr (wz_source_type body)), (''content'', JStr (wz_content body))]
          ''notebooklm'' ''NotebookLM extraction queued'')"

definition webhook_job_status :: "string \<Rightarrow> string \<Rightarrow> webhook_state \<Rightarrow> (string \<times> string) list" where
  "webhook_job_status message_id tenant_id s =
     (let unknown = [(''message_id'', message_id), (''status'', ''unknown''),
                     (''message'', ''Job not found or expired'')]
      in case map_of (ws_jobs s) message_id of
           None \<Rightarrow> unknown
         | Some job \<Rightarrow>
             if jb_tenant_id job \<noteq> tenant_id then unknown
             else [(''message_id'', message_id), (''status'', jb_status job), (''tenant_id'', jb_tenant_id job),
                   (''type'', jb_type job), (''created_at'', jb_created_at job)])"

section \<open>The endpoints\<close>

datatype webhook_request =
    PipelineHook pipeline_request
  | DigestHook
  | CatalogHook catalog_request
  | LlmHook llm_request
  | TenantHook tenant_request
  | NotionHook notion_sync_request
  | BoardHook board_analysis_request
  | ScoringHook scoring_request
  | NotebookHook notebooklm_request

fun hook_permission :: "webhook_request \<Rightarrow> permission" where
  "hook_permission (PipelineHook b) = RUN_PIPELINE"
| "hook_permission DigestHook = GENERATE_DIGEST"
| "hook_permission (CatalogHook b) = READ_GOLD"
| "hook_permission (LlmHook b) = USE_LLM"
| "hook_permission (TenantHook b) = MANAGE_TENANT"
| "hook_permission (NotionHook b) = RUN_PIPELINE"
| "hook_permission (BoardHook b) = READ_GOLD"
| "hook_permission (ScoringHook b) = MANAGE_TENANT"
| "hook_permission (NotebookHook b) = USE_LLM"

fun hook_valid :: "webhook_request \<Rightarrow> bool" where
  "hook_valid (PipelineHook b) = pipeline_valid b"
| "hook_valid (LlmHook b) = llm_valid b"
| "hook_valid (ScoringHook b) = scoring_valid b"
| "hook_valid (NotebookHook b) = (length (wz_content b) \<le> 10000)"
| "hook_valid _ = True"

text \<open>The state after a handler; the answer is the handler's own.\<close>

fun handle_hook :: "webhook_env \<Rightarrow> catalog_db \<Rightarrow> webhook_call \<Rightarrow> string \<Rightarrow> webhook_request \<Rightarrow>
    webhook_state \<Rightarrow> webhook_state" where
  "handle_hook env db call t (PipelineHook b) s = snd (webhook_trigger_pipeline env call t b s)"
| "handle_hook env db call t DigestHook s = snd (webhook_trigger_digest env call t s)"
| "handle_hook env db call t (CatalogHook b) s = snd (webhook_catalog_query env db call t b s)"
| "handle_hook env db call t (LlmHook b) s = snd (webhook_trigger_llm env call t b s)"
| "handle_hook env db call t (TenantHook b) s = snd (webhook_tenant_operation env call t b s)"
| "handle_hook env db call t (NotionHook b) s = snd (webhook_notion_sync env call t b s)"
| "handle_hook env db call t (BoardHook b) s = snd (webhook_board_analysis env call t b s)"
| "handle_hook env db call t (ScoringHook b) s = snd (webhook_scoring_config env call t b s)"
| "handle_hook env db call t (NotebookHook b) s = snd (webhook_notebooklm env call t b s)"

definition endpoint ::
    "webhook_env \<Rightarrow> catalog_db \<Rightarrow> webhook_call \<Rightarrow> webhook_request \<Rightarrow> webhook_state \<Rightarrow> unit res \<times> webhook_state" where
  "endpoint env db call rq s =
     (case webhook_guard env (hook_permission rq) call of
        Inl e \<Rightarrow> (Inl e, s)
      | Inr tenant_id \<Rightarrow>
          if \<not> hook_valid rq then (Inl unprocessable, s)
          else (Inr (), handle_hook env db call tenant_id rq s))"

end
