(* ===== verification/WebhookLaws.thy ===== *)
theory WebhookLaws
  imports Webhooks ApiAuthLaws
begin

text \<open>
  Runs of the webhook endpoints, interleaved with the worker taking messages from the queue: every queued
  message and every tracked job goes back to a call that passed its guards, the content filters and the
  validation of its endpoint; the job table stays bounded; a status poll shows a tenant its own jobs only.
\<close>

section \<open>What an accepted call queues\<close>

fun hook_job :: "webhook_request \<Rightarrow> (message_type \<times> jdict \<times> string) option" where
  "hook_job (PipelineHook b) = Some (PIPELINE_RUN, pipeline_payload b, ''pipeline_run'')"
| "hook_job DigestHook = Some (DIGEST_GENERATE, [], ''digest_generate'')"
| "hook_job (CatalogHook b) = None"
| "hook_job (LlmHook b) = Some (LLM_GENERATE, llm_payload b, ''llm_generate'')"
| "hook_job (TenantHook b) =
     Some (TENANT_OPERATION, [(''action'', JStr (wt_action b)), (''config'', JObj (wt_config b))],
           ''tenant_operation'')"
| "hook_job (NotionHook b) =
     Some (NOTION_SYNC, [(''direction'', JStr (wn_direction b)), (''database_id'', JStr (wn_database_id b))],
           ''notion_sync'')"
| "hook_job (BoardHook b) =
     Some (BOARD_ANALYSIS,
           [(''project_id'', JStr (wb_project_id b)), (''include_sections'', JBool (wb_include_sections b))],
           ''board_analysis'')"
| "hook_job (ScoringHook b) =
     Some (SCORING_CONFIG,
           [(''priority_weight'', JReal (wk_priority_weight b)), (''due_date_weight'', JReal (wk_due_date_weight b)),
            (''label_bonus'', JReal (wk_label_bonus b)), (''overdue_penalty'', JReal (wk_overdue_penalty b))],
           ''scoring_config'')"
| "hook_job (NotebookHook b) =
     Some (NOTEBOOKLM_EXTRACT,
           [(''source_type'', JStr (wz_source_type b)), (''content'', JStr (wz_content b))], ''notebooklm'')"

fun content_ok :: "webhook_request \<Rightarrow> bool" where
  "content_ok (PipelineHook b) = md_is_allowed (check_bulk_content (wp_todoist_tasks b) [''content'', ''description''])"
| "content_ok (LlmHook b) = (\<not> has_prompt_injection (wl_system_prompt b))"
| "content_ok _ = True"

definition submitted :: "webhook_env \<Rightarrow> webhook_call \<Rightarrow> string \<Rightarrow> message_type \<times> jdict \<times> string \<Rightarrow>
    rate_limiter \<Rightarrow> webhook_state \<Rightarrow> webhook_state" where
  "submitted env call t job rl s =
     (case job of (mt, payload, jt) \<Rightarrow>
        s\<lparr>ws_limiter := rl,
          ws_queue := enqueue (new_message (''wh_'' @ wc_token_hex call) mt t payload (wc_now call)) (ws_queue s),
          ws_jobs := track_job (we_iso env (wc_now call)) (''wh_'' @ wc_token_hex call) t jt (ws_jobs s)\<rparr>)"

definition limited :: "webhook_state \<Rightarrow> webhook_state \<Rightarrow> bool" where
  "limited s s' \<longleftrightarrow> (\<exists>rl. s' = s\<lparr>ws_limiter := rl\<rparr>)"

lemma limited_fields:
  "limited s s' \<Longrightarrow> ws_queue s' = ws_queue s \<and> ws_jobs s' = ws_jobs s"
  by (auto simp: limited_def)

lemma limited_self: "limited s s"
  unfolding limited_def by (rule exI [of _ "ws_limiter s"]) simp

lemma rate_limited_submit:
  "limited s (snd (rate_limited call t (submit_job env call t mt payload jt reply) s))
   \<or> (\<exists>rl. snd (rate_limited call t (submit_job env call t mt payload jt reply) s)
        = submitted env call t (mt, payload, jt) rl s)"
  by (auto simp: rate_limited_def check_rate_limit_def submit_job_def submitted_def limited_def Let_def
      split: prod.splits sum.splits if_splits)

lemma rate_limited_guarded:
  "limited s (snd (rate_limited call t
       (\<lambda>s. if bad then (Inl e, s) else submit_job env call t mt payload jt reply s) s))
   \<or> \<not> bad \<and> (\<exists>rl. snd (rate_limited call t
        (\<lambda>s. if bad then (Inl e, s) else submit_job env call t mt payload jt reply s) s)
        = submitted env call t (mt, payload, jt) rl s)"
  by (auto simp: rate_limited_def check_rate_limit_def submit_job_def submitted_def limited_def Let_def
      split: prod.splits sum.splits if_splits)

lemma no_tasks_allowed: "check_bulk_content [] ks = allowed"
  by simp

lemma handle_hook_effect:
  "limited s (handle_hook env db call t rq s)
   \<or> (content_ok rq \<and> (\<exists>rl job. hook_job rq = Some job \<and> handle_hook env db call t rq s = submitted env call t job rl s))"
proof (cases rq)
  case (PipelineHook b)
  show ?thesis
    using rate_limited_guarded [of s call t "wp_todoist_tasks b \<noteq> [] \<and>
        \<not> md_is_allowed (check_bulk_content (wp_todoist_tasks b) [''content'', ''description''])"]
    unfolding PipelineHook handle_hook.simps webhook_trigger_pipeline_def Let_def
    by (fastforce simp: allowed_def)
next
  case (LlmHook b)
  show ?thesis
    using rate_limited_guarded [of s call t "has_prompt_injection (wl_system_prompt b)"]
    unfolding LlmHook handle_hook.simps webhook_trigger_llm_def by fastforce
next
  case (CatalogHook b)
  show ?thesis
    by (auto simp: CatalogHook webhook_catalog_query_def rate_limited_def check_rate_limit_def limited_def Let_def
        split: prod.splits sum.splits if_splits)
next
  case DigestHook
  show ?thesis using rate_limited_submit
    unfolding DigestHook handle_hook.simps webhook_trigger_digest_def by fastforce
next
  case (TenantHook b)
  show ?thesis using rate_limited_submit
    unfolding TenantHook handle_hook.simps webhook_tenant_operation_def by fastforce
next
  case (NotionHook b)
  show ?thesis using rate_limited_submit
    unfolding NotionHook handle_hook.simps webhook_notion_sync_def by fastforce
next
  case (BoardHook b)
  show ?thesis using rate_limited_submit
    unfolding BoardHook handle_hook.simps webhook_board_analysis_def by fastforce
next
  case (ScoringHook b)
  show ?thesis using rate_limited_submit
    unfolding ScoringHook handle_hook.simps webhook_scoring_config_def by fastforce
next
  case (NotebookHook b)
  show ?thesis using rate_limited_submit
    unfolding NotebookHook handle_hook.simps webhook_notebooklm_def by fastforce
qed

section \<open>The job table\<close>

lemma set_update_subset: "set (AList.update k v d) \<subseteq> insert (k, v) (set d)"
  by (induction d) auto

lemma track_job_set:
  "set (track_job ts mid t jt jobs) \<subseteq>
     insert (mid, \<lparr>jb_status = ''queued'', jb_tenant_id = t, jb_type = jt, jb_created_at = ts\<rparr>) (set jobs)"
  using set_update_subset by (fastforce simp: track_job_def Let_def)

lemma length_update_le: "length (AList.update k v d) \<le> Suc (length d)"
  by (induction d) auto

lemma filter_drops:
  assumes "ks \<subseteq> set d" and "distinct (map fst d)"
  shows "length (filter (\<lambda>(k, v). k \<notin> fst ` ks) d) + card ks \<le> length d"
proof -
  from assms(2) have dist: "distinct d" by (simp add: distinct_map)
  define kept where "kept = filter (\<lambda>(k, v). k \<notin> fst ` ks) d"
  have "set kept \<subseteq> set d - ks" unfolding kept_def by force
  moreover have "finite (set d - ks)" by simp
  ultimately have "card (set kept) \<le> card (set d - ks)" by (rule card_mono [rotated])
  moreover have "card (set d - ks) = card (set d) - card ks"
    using assms(1) by (simp add: card_Diff_subset finite_subset)
  moreover have "card ks \<le> card (set d)" using assms(1) by (simp add: card_mono)
  moreover have "distinct kept" using dist by (simp add: kept_def)
  ultimately show ?thesis using dist unfolding kept_def [symmetric] by (simp add: distinct_card)
qed

lemma track_job_length:
  assumes "distinct (map fst jobs)" and "length jobs \<le> 1000"
  shows "length (track_job ts mid t jt jobs) \<le> 1000"
proof (cases "length jobs \<ge> 1000")
  case False
  moreover have "length (AList.update mid v jobs) \<le> Suc (length jobs)" for v by (rule length_update_le)
  ultimately show ?thesis by (simp add: track_job_def max_job_history_def le_trans [OF length_update_le])
next
  case True
  define old where "old = take 100 (sort_key (\<lambda>(k, j). jb_created_at j) jobs)"
  define kept where "kept = filter (\<lambda>(k, j). k \<notin> fst ` set old) jobs"
  have "distinct old" unfolding old_def using assms(1) by (simp add: distinct_map)
  then have "card (set old) = 100" using True by (simp add: distinct_card) (simp add: old_def)
  moreover have "set old \<subseteq> set jobs" unfolding old_def using set_take_subset by fastforce
  ultimately have kept: "length kept + 100 \<le> length jobs" using filter_drops [OF _ assms(1), of "set old"] by (simp add: kept_def)
  have "track_job ts mid t jt jobs = AList.update mid
      \<lparr>jb_status = ''queued'', jb_tenant_id = t, jb_type = jt, jb_created_at = ts\<rparr> kept"
    using True by (simp add: track_job_def max_job_history_def kept_def old_def)
  moreover have "length (AList.update mid v kept) \<le> Suc (length kept)" for v by (rule length_update_le)
  ultimately have "length (track_job ts mid t jt jobs) \<le> Suc (length kept)" by simp
  with kept assms(2) show ?thesis by linarith
qed

lemma track_job_distinct: "distinct (map fst jobs) \<Longrightarrow> distinct (map fst (track_job ts mid t jt jobs))"
  by (simp add: track_job_def Let_def distinct_update distinct_map_fst_filter)

section \<open>Runs\<close>

datatype hook_event = HookCall webhook_call webhook_request | WorkerTakes

fun hook_step :: "webhook_env \<Rightarrow> catalog_db \<Rightarrow> hook_event \<Rightarrow> webhook_state \<Rightarrow> webhook_state" where
  "hook_step env db (HookCall call rq) s = snd (endpoint env db call rq s)"
| "hook_step env db WorkerTakes s = s\<lparr>ws_queue := snd (dequeue (ws_queue s))\<rparr>"

fun hooks_run :: "webhook_env \<Rightarrow> catalog_db \<Rightarrow> hook_event list \<Rightarrow> webhook_state \<Rightarrow> webhook_state" where
  "hooks_run env db [] s = s"
| "hooks_run env db (ev # evs) s = hooks_run env db evs (hook_step env db ev s)"

text \<open>The call accepted for a tenant: it passed the guard, the validation and the content filter.\<close>

definition accepted_call :: "webhook_env \<Rightarrow> webhook_call \<Rightarrow> webhook_request \<Rightarrow> string \<Rightarrow> bool" where
  "accepted_call env call rq t \<longleftrightarrow>
     webhook_guard env (hook_permission rq) call = Inr t \<and> hook_valid rq \<and> content_ok rq"

definition queues_message :: "webhook_call \<Rightarrow> webhook_request \<Rightarrow> string \<Rightarrow> queue_message \<Rightarrow> bool" where
  "queues_message call rq t m \<longleftrightarrow>
     (case hook_job rq of None \<Rightarrow> False
      | Some (mt, payload, jt) \<Rightarrow> m = new_message (''wh_'' @ wc_token_hex call) mt t payload (wc_now call))"

definition tracks_job :: "webhook_env \<Rightarrow> webhook_call \<Rightarrow> webhook_request \<Rightarrow> string \<Rightarrow> string \<times> tracked_job \<Rightarrow> bool" where
  "tracks_job env call rq t kj \<longleftrightarrow>
     (case hook_job rq of None \<Rightarrow> False
      | Some (mt, payload, jt) \<Rightarrow>
          kj = (''wh_'' @ wc_token_hex call,
                \<lparr>jb_status = ''queued'', jb_tenant_id = t, jb_type = jt, jb_created_at = we_iso env (wc_now call)\<rparr>))"

definition from_calls :: "webhook_env \<Rightarrow> hook_event set \<Rightarrow> webhook_state \<Rightarrow> bool" where
  "from_calls env evs s \<longleftrightarrow>
     (\<forall>m \<in> set (tq_queue (ws_queue s)). \<exists>call rq t.
        HookCall call rq \<in> evs \<and> accepted_call env call rq t \<and> queues_message call rq t m)
     \<and> (\<forall>kj \<in> set (ws_jobs s). \<exists>call rq t.
        HookCall call rq \<in> evs \<and> accepted_call env call rq t \<and> tracks_job env call rq t kj)
     \<and> distinct (map fst (ws_jobs s)) \<and> length (ws_jobs s) \<le> 1000"

lemma from_calls_mono: "from_calls env evs s \<Longrightarrow> evs \<subseteq> evs' \<Longrightarrow> from_calls env evs' s"
  unfolding from_calls_def by (meson subsetD)

lemma from_calls_fields:
  "from_calls env evs s \<Longrightarrow> set (tq_queue (ws_queue s')) \<subseteq> set (tq_queue (ws_queue s)) \<Longrightarrow>
   ws_jobs s' = ws_jobs s \<Longrightarrow> from_calls env evs s'"
  unfolding from_calls_def by auto

lemma from_calls_submitted:
  assumes "from_calls env evs s" and "HookCall call rq \<in> evs" and "accepted_call env call rq t"
    and "hook_job rq = Some job"
  shows "from_calls env evs (submitted env call t job rl s)"
proof -
  obtain mt payload jt where job: "job = (mt, payload, jt)" by (cases job)
  define m where "m = new_message (''wh_'' @ wc_token_hex call) mt t payload (wc_now call)"
  have m: "queues_message call rq t m" by (simp add: queues_message_def assms(4) job m_def)
  define kj where "kj = (''wh_'' @ wc_token_hex call,
      \<lparr>jb_status = ''queued'', jb_tenant_id = t, jb_type = jt, jb_created_at = we_iso env (wc_now call)\<rparr>)"
  have kj: "tracks_job env call rq t kj" by (simp add: tracks_job_def assms(4) job kj_def)
  have jobs: "set (ws_jobs (submitted env call t job rl s)) \<subseteq> insert kj (set (ws_jobs s))"
    using track_job_set unfolding kj_def by (simp add: submitted_def job)
  have queue: "set (tq_queue (ws_queue (submitted env call t job rl s))) = insert m (set (tq_queue (ws_queue s)))"
    by (simp add: submitted_def job m_def enqueue_def)
  have "distinct (map fst (ws_jobs (submitted env call t job rl s)))
      \<and> length (ws_jobs (submitted env call t job rl s)) \<le> 1000"
    using assms(1) by (simp add: submitted_def job from_calls_def track_job_distinct track_job_length)
  with assms(1-3) m kj jobs show ?thesis
    unfolding from_calls_def queue by (auto 4 4)
qed

lemma hook_step_from_calls:
  assumes "from_calls env evs s" and "ev \<in> evs"
  shows "from_calls env evs (hook_step env db ev s)"
proof (cases ev)
  case WorkerTakes
  have "set (tq_queue (snd (dequeue q))) \<subseteq> set (tq_queue q)" for q
    by (auto simp: dequeue_def split: list.splits)
  with assms(1) show ?thesis by (simp add: WorkerTakes from_calls_fields)
next
  case (HookCall call rq)
  show ?thesis
  proof (cases "\<exists>t. webhook_guard env (hook_permission rq) call = Inr t \<and> hook_valid rq")
    case False
    then have "hook_step env db ev s = s"
      by (auto simp: HookCall endpoint_def split: sum.splits)
    with assms(1) show ?thesis by simp
  next
    case True
    then obtain t where t: "webhook_guard env (hook_permission rq) call = Inr t" "hook_valid rq" by blast
    then have step: "hook_step env db ev s = handle_hook env db call t rq s"
      by (simp add: HookCall endpoint_def)
    from handle_hook_effect [of s env db call t rq] show ?thesis
    proof
      assume "limited s (handle_hook env db call t rq s)"
      with assms(1) show ?thesis unfolding step
        using limited_fields [of s "handle_hook env db call t rq s"] by (metis from_calls_fields order_refl)
    next
      assume "content_ok rq \<and> (\<exists>rl job. hook_job rq = Some job
        \<and> handle_hook env db call t rq s = submitted env call t job rl s)"
      then obtain rl job where "content_ok rq" "hook_job rq = Some job"
          "handle_hook env db call t rq s = submitted env call t job rl s" by blast
      with t assms(2) from_calls_submitted [OF assms(1), of call rq t job rl] show ?thesis
        unfolding step by (simp add: HookCall accepted_call_def)
    qed
  qed
qed

lemma hooks_run_from_calls:
  "from_calls env evs s \<Longrightarrow> set es \<subseteq> evs \<Longrightarrow> from_calls env evs (hooks_run env db es s)"
  by (induction es arbitrary: s) (auto intro: hook_step_from_calls)

lemma new_state_from_calls: "from_calls env evs (new_webhook_state limit)"
  by (simp add: from_calls_def new_webhook_state_def new_task_queue_def)

lemma run_from_calls: "from_calls env (set evs) (hooks_run env db evs (new_webhook_state limit))"
  by (intro hooks_run_from_calls new_state_from_calls) simp

definition sample_hooks :: webhook_env where
  "sample_hooks =
     \<lparr>we_mac = (\<lambda>k m. ''00''), we_secret = ''s'', we_iso = (\<lambda>d. ''2026-01-01''),
      we_policy = \<lparr>custom_roles = []\<rparr>,
      we_catalog = \<lparr>ce_iso = (\<lambda>d. ''t''), ce_from_iso = (\<lambda>t. None), ce_dumps = (\<lambda>v. []), ce_loads = (\<lambda>t. None)\<rparr>\<rparr>"

definition sample_call :: webhook_call where
  "sample_call =
     \<lparr>wc_state = Some (inject_claims (claims_of (token_payload ''tn_1'' ''free'' ''a@b.pt'' 1 60 [] []))),
      wc_body = [], wc_signature = Some ''sha256=00'', wc_clock = 1, wc_now = \<lparr>dt_micros = 0, dt_aware = True\<rparr>,
      wc_token_hex = ''ab''\<rparr>"

definition sample_hook_message :: queue_message where
  "sample_hook_message = new_message ''wh_ab'' DIGEST_GENERATE ''tn_1'' [] \<lparr>dt_micros = 0, dt_aware = True\<rparr>"

lemma sample_hook_run:
  "tq_queue (ws_queue (hooks_run sample_hooks empty_catalog [HookCall sample_call DigestHook] (new_webhook_state 20)))
     = [sample_hook_message]"
  by (simp add: endpoint_def webhook_guard_def RequirePermission_def sample_call_def sample_hooks_def
      inject_claims_def claims_of_payload claims_access_text check_access_def has_permission_def
      get_permissions_def tier_roles_def verify_webhook_signature_def tenant_text_def
      get_current_tenant_id_def webhook_trigger_digest_def rate_limited_def check_rate_limit_def
      new_webhook_state_def new_rate_limiter_def rl_allow_def prune_idle_keys_def rl_idle_def
      submit_job_def enqueue_def new_task_queue_def sample_hook_message_def Let_def)

section \<open>Properties\<close>

text \<open>C3. Whatever the webhook endpoints are sent, interleaved with a worker that takes messages: every
message waiting in the queue was put there by one of the calls, made with a token of the message's own
tenant that holds the endpoint's permission and with a valid signature, and it carries exactly that
call's payload, moderated (pipeline) or sanitized and free of injection in its system prompt (LLM).\<close>

theorem queued_work_is_authorised:
  assumes "m \<in> set (tq_queue (ws_queue (hooks_run env db evs (new_webhook_state limit))))"
  shows "\<exists>call rq. HookCall call rq \<in> set evs \<and> webhook_guard env (hook_permission rq) call = Inr (qm_tenant_id m)
    \<and> hook_valid rq \<and> content_ok rq \<and> queues_message call rq (qm_tenant_id m) m"
proof -
  from run_from_calls [of env evs db limit] assms obtain call rq t where
    c: "HookCall call rq \<in> set evs" "accepted_call env call rq t" "queues_message call rq t m"
    unfolding from_calls_def by blast
  from c(3) have "qm_tenant_id m = t"
    by (auto simp: queues_message_def new_message_def split: option.splits)
  with c show ?thesis unfolding accepted_call_def by blast
qed

theorem queued_work_is_authorised_witness:
  "\<exists>call rq. HookCall call rq \<in> {HookCall sample_call DigestHook}
    \<and> webhook_guard sample_hooks (hook_permission rq) call = Inr (qm_tenant_id sample_hook_message)
    \<and> hook_valid rq \<and> content_ok rq \<and> queues_message call rq (qm_tenant_id sample_hook_message) sample_hook_message"
  using queued_work_is_authorised [of sample_hook_message sample_hooks empty_catalog
      "[HookCall sample_call DigestHook]" 20]
  unfolding sample_hook_run by simp

text \<open>Polling a job: after any run of the endpoints the table holds at most 1000 jobs, and a status poll
by a tenant either says the job is unknown or shows a job that an accepted call of that very tenant
created, with the status queued and nothing else.\<close>

theorem job_status_is_own_and_queued:
  "length (ws_jobs (hooks_run env db evs (new_webhook_state limit))) \<le> 1000
   \<and> (webhook_job_status mid tid (hooks_run env db evs (new_webhook_state limit))
        = [(''message_id'', mid), (''status'', ''unknown''), (''message'', ''Job not found or expired'')]
     \<or> (\<exists>call rq mt payload jt. HookCall call rq \<in> set evs
          \<and> webhook_guard env (hook_permission rq) call = Inr tid
          \<and> hook_job rq = Some (mt, payload, jt) \<and> mid = ''wh_'' @ wc_token_hex call
          \<and> webhook_job_status mid tid (hooks_run env db evs (new_webhook_state limit))
              = [(''message_id'', mid), (''status'', ''queued''), (''tenant_id'', tid), (''type'', jt),
                 (''created_at'', we_iso env (wc_now call))]))"
proof -
  define s where "s = hooks_run env db evs (new_webhook_state limit)"
  have inv: "from_calls env (set evs) s" unfolding s_def by (rule run_from_calls)
  show ?thesis
  proof (cases "\<exists>j. map_of (ws_jobs s) mid = Some j \<and> jb_tenant_id j = tid")
    case False
    then have "webhook_job_status mid tid s
        = [(''message_id'', mid), (''status'', ''unknown''), (''message'', ''Job not found or expired'')]"
      by (auto simp: webhook_job_status_def Let_def split: option.splits)
    with inv show ?thesis by (simp add: s_def from_calls_def)
  next
    case True
    then obtain j where j: "map_of (ws_jobs s) mid = Some j" "jb_tenant_id j = tid" by blast
    then have "(mid, j) \<in> set (ws_jobs s)" by (simp add: map_of_SomeD)
    with inv obtain call rq t where c: "HookCall call rq \<in> set evs" "accepted_call env call rq t"
        "tracks_job env call rq t (mid, j)"
      unfolding from_calls_def by blast
    from c(3) obtain mt payload jt where job: "hook_job rq = Some (mt, payload, jt)"
        "mid = ''wh_'' @ wc_token_hex call"
        "j = \<lparr>jb_status = ''queued'', jb_tenant_id = t, jb_type = jt, jb_created_at = we_iso env (wc_now call)\<rparr>"
      by (auto simp: tracks_job_def split: option.splits)
    have "webhook_job_status mid tid s = [(''message_id'', mid), (''status'', ''queued''), (''tenant_id'', tid),
        (''type'', jt), (''created_at'', we_iso env (wc_now call))]"
      using j by (simp add: webhook_job_status_def job(3))
    with c(1,2) job(1,2) j(2) job(3) inv show ?thesis
      unfolding s_def [symmetric] by (auto simp: accepted_call_def from_calls_def)
  qed
qed

end
