(* ===== verification/Accounts.thy ===== *)
theory Accounts
  imports ApiAuth UserManager TenantManager Ban Resilience
begin

text \<open>
  Signing in and managing users: \<open>src/brain/api/routes/auth.py\<close> and
  \<open>src/brain/security/google_auth.py\<close>. The checks that need the process's state alone (bans, rate
  limit, the Google token) come first, as the function \<open>google_gate\<close>; the rest runs on the storage.
  Google's verification of an ID token is the parameter \<open>ae_google\<close>; clocks, new ids and keys are
  arguments.
\<close>

section \<open>Environment and process state\<close>

record 's api_env =
  ae_tm :: "'s tm_env"
  ae_um :: "'s um_env"
  ae_jwt :: jwt_lib
  ae_jwt_secret :: string
  ae_policy :: rbac_policy
  ae_owner_email :: string
  ae_google_client_id :: string
  ae_google :: "string \<Rightarrow> string \<Rightarrow> jdict option"

record auth_process =
  ap_bans :: ban_manager
  ap_auth_limiter :: rate_limiter

text \<open>What a call draws from its surroundings: three clocks and fresh random values.\<close>

record fresh =
  fr_clock :: real
  fr_time :: real
  fr_now :: datetime
  fr_user_hex :: string
  fr_tenant_hex :: string
  fr_api_key :: string
  fr_code :: string

section \<open>Google identities\<close>

record google_identity =
  gi_sub :: string
  gi_email :: string
  gi_email_verified :: bool
  gi_name :: string
  gi_picture :: string

definition verify_google_id_token :: "'s api_env \<Rightarrow> string \<Rightarrow> google_identity option res" where
  "verify_google_id_token env token =
     (if ae_google_client_id env = [] then Inr None
      else case ae_google env token (ae_google_client_id env) of
             None \<Rightarrow> Inr None
           | Some idinfo \<Rightarrow>
               if \<not> jtruthy (dget idinfo ''email_verified'' (JBool False)) then Inr None
               else rbind (str_field idinfo ''sub'' None) (\<lambda>sub.
                    rbind (str_field idinfo ''email'' None) (\<lambda>email.
                    rbind (str_field idinfo ''name'' (Some [])) (\<lambda>name.
                    rbind (str_field idinfo ''picture'' (Some [])) (\<lambda>picture.
                      Inr (Some \<lparr>gi_sub = sub, gi_email = email, gi_email_verified = True, gi_name = name,
                                 gi_picture = picture\<rparr>))))))"

section \<open>Login\<close>

record google_auth_response =
  ga_access_token :: string
  ga_tenant_id :: string
  ga_user_id :: string
  ga_user_role :: string
  ga_is_new_user :: bool

text \<open>A permanent ban has an infinite remainder, and \<open>int(inf)\<close> raises.\<close>

definition banned_error :: "ban_remaining \<Rightarrow> py_error" where
  "banned_error remaining =
     (case remaining of
        Forever \<Rightarrow> OtherError ''OverflowError''
      | Seconds r \<Rightarrow> HTTPException 403 (''Temporarily banned. Try again in '' @ int_text \<lfloor>r\<rfloor> @ ''s.''))"

definition google_gate ::
    "'s api_env \<Rightarrow> bool \<Rightarrow> real \<Rightarrow> string \<Rightarrow> string \<Rightarrow> auth_process \<Rightarrow> google_identity res \<times> auth_process" where
  "google_gate env wr clock client_ip id_token p =
     (if is_banned clock client_ip (ap_bans p)
      then (Inl (banned_error (get_ban_remaining clock client_ip (ap_bans p))), p)
      else let (ok, rl) = rl_allow clock client_ip (ap_auth_limiter p); p = p\<lparr>ap_auth_limiter := rl\<rparr> in
        if \<not> ok then (Inl (HTTPException 429 ''Too many authentication attempts. Try again later.''), p)
        else case verify_google_id_token env id_token of
               Inl e \<Rightarrow> (Inl e, p)
             | Inr None \<Rightarrow>
                 (Inl (HTTPException 401 ''Invalid Google ID token. Ensure you're using the correct Google account.''),
                  p\<lparr>ap_bans := ban_record_failure wr clock client_ip (ap_bans p)\<rparr>)
             | Inr (Some identity) \<Rightarrow>
                 (Inr identity, p\<lparr>ap_bans := ban_record_success client_ip (ap_bans p)\<rparr>))"

definition access_token :: "'s api_env \<Rightarrow> real \<Rightarrow> string \<Rightarrow> string \<Rightarrow> user \<Rightarrow> string res" where
  "access_token env time tenant_id role u =
     create_access_token (ae_jwt env) (ae_jwt_secret env) time tenant_id role (us_email u)
       default_expiry_seconds None (us_user_id u) (role_value (us_user_role u))"

definition auth_response :: "string \<Rightarrow> string \<Rightarrow> user \<Rightarrow> bool \<Rightarrow> google_auth_response" where
  "auth_response token tenant_id u is_new =
     \<lparr>ga_access_token = token, ga_tenant_id = tenant_id, ga_user_id = us_user_id u,
      ga_user_role = role_value (us_user_role u), ga_is_new_user = is_new\<rparr>"

definition login_existing :: "'s api_env \<Rightarrow> fresh \<Rightarrow> user \<Rightarrow> ('s, google_auth_response) io" where
  "login_existing env fr existing =
     (if \<not> us_is_active existing then io_raise (HTTPException 403 ''Account deactivated'')
      else io_bind (record_login (ae_um env) (fr_now fr) existing) (\<lambda>u.
           io_bind (get_tenant (ae_tm env) (fr_now fr) (us_tenant_id u)) (\<lambda>found.
             case found of
               None \<Rightarrow> io_raise (HTTPException 403 ''Tenant deactivated'')
             | Some t \<Rightarrow>
                 if \<not> tn_is_active t then io_raise (HTTPException 403 ''Tenant deactivated'')
                 else io_bind (io_res (access_token env (fr_time fr) (tn_tenant_id t) (tn_role t) u)) (\<lambda>token.
                      io_ret (auth_response token (tn_tenant_id t) u False)))))"

definition from_invite ::
    "'s api_env \<Rightarrow> fresh \<Rightarrow> google_identity \<Rightarrow> string option \<Rightarrow> ('s, string option \<times> user_role) io" where
  "from_invite env fr identity invite_code =
     (case invite_code of
        Some code \<Rightarrow>
          if code = [] then io_ret (None, MEMBER)
          else io_bind (redeem_invite (ae_um env) (fr_now fr) code (gi_sub identity) (gi_email identity)) (\<lambda>invite.
                 case invite of
                   None \<Rightarrow> io_raise (HTTPException 400 ''Invalid or expired invite code.'')
                 | Some d \<Rightarrow>
                     io_bind (io_res (str_field d ''tenant_id'' None)) (\<lambda>tenant_id.
                     io_bind (io_res (rbind (str_field d ''role'' (Some ''member'')) role_of)) (\<lambda>role.
                       io_ret (Some tenant_id, role))))
      | None \<Rightarrow> io_ret (None, MEMBER))"

definition owner_tenant :: "'s api_env \<Rightarrow> fresh \<Rightarrow> google_identity \<Rightarrow> ('s, string) io" where
  "owner_tenant env fr identity =
     io_bind (list_tenants (ae_tm env) (fr_now fr)) (\<lambda>tenants.
       case find (\<lambda>t. py_lower (tn_email t) = py_lower (ae_owner_email env)) tenants of
         Some t \<Rightarrow> io_ret (tn_tenant_id t)
       | None \<Rightarrow> io_bind (create_tenant (ae_tm env) (fr_tenant_hex fr) (fr_api_key fr) (fr_now fr)
                            ''Platform Owner'' (gi_email identity) VIP) (\<lambda>t. io_ret (tn_tenant_id t)))"

definition pin_owner_sub :: "'s api_env \<Rightarrow> fresh \<Rightarrow> string \<Rightarrow> string \<Rightarrow> user_role \<Rightarrow> ('s, unit) io" where
  "pin_owner_sub env fr tenant_id sub role =
     (if role = OWNER \<or> role = ADMIN
      then io_catch (io_bind (bind_owner_sub (ae_tm env) (fr_now fr) tenant_id sub) (\<lambda>_. io_ret ()))
             (\<lambda>_. io_ret ())
      else io_ret ())"

definition enrol ::
    "'s api_env \<Rightarrow> fresh \<Rightarrow> google_identity \<Rightarrow> string \<Rightarrow> user_role \<Rightarrow> ('s, google_auth_response) io" where
  "enrol env fr identity tenant_id role =
     io_bind (create_user (ae_um env) (fr_user_hex fr) (fr_now fr) tenant_id (gi_sub identity)
                (gi_email identity) (gi_name identity) (gi_picture identity) role) (\<lambda>u.
     io_bind (record_login (ae_um env) (fr_now fr) u) (\<lambda>u.
     io_bind (pin_owner_sub env fr tenant_id (gi_sub identity) role) (\<lambda>_.
     io_bind (get_tenant (ae_tm env) (fr_now fr) tenant_id) (\<lambda>found.
     io_bind (io_res (access_token env (fr_time fr) tenant_id
                        (case found of Some t \<Rightarrow> tn_role t | None \<Rightarrow> ''free'') u)) (\<lambda>token.
       io_ret (auth_response token tenant_id u True))))))"

definition login_new_user ::
    "'s api_env \<Rightarrow> fresh \<Rightarrow> google_identity \<Rightarrow> string option \<Rightarrow> ('s, google_auth_response) io" where
  "login_new_user env fr identity invite_code =
     io_bind (from_invite env fr identity invite_code) (\<lambda>(tenant_id, role).
     io_bind (if tenant_id = None \<and> py_lower (gi_email identity) = py_lower (ae_owner_email env)
              then io_bind (owner_tenant env fr identity) (\<lambda>tid. io_ret (Some tid, OWNER))
              else io_ret (tenant_id, role)) (\<lambda>(tenant_id, role).
       case tenant_id of
         None \<Rightarrow> io_raise (HTTPException 403 ''No invite code provided. Ask the platform owner for an invite.'')
       | Some tid \<Rightarrow> enrol env fr identity tid role))"

definition login_identity ::
    "'s api_env \<Rightarrow> fresh \<Rightarrow> google_identity \<Rightarrow> string option \<Rightarrow> ('s, google_auth_response) io" where
  "login_identity env fr identity invite_code =
     io_bind (get_user_by_google_sub (ae_um env) (fr_now fr) (gi_sub identity)) (\<lambda>existing.
       case existing of
         Some u \<Rightarrow> login_existing env fr u
       | None \<Rightarrow> login_new_user env fr identity invite_code)"

definition google_login ::
    "'s api_env \<Rightarrow> bool \<Rightarrow> fresh \<Rightarrow> string \<Rightarrow> string \<Rightarrow> string option \<Rightarrow> auth_process \<Rightarrow>
     auth_process \<times> ('s, google_auth_response) io" where
  "google_login env wr fr client_ip id_token invite_code p =
     (let (r, p') = google_gate env wr (fr_clock fr) client_ip id_token p
      in (p', case r of Inl e \<Rightarrow> io_raise e | Inr identity \<Rightarrow> login_identity env fr identity invite_code))"

section \<open>Users\<close>

record user_response =
  ur_user_id :: string
  ur_tenant_id :: string
  ur_email :: string
  ur_name :: string
  ur_user_role :: string
  ur_is_active :: bool

definition user_response_of :: "user \<Rightarrow> user_response" where
  "user_response_of u =
     \<lparr>ur_user_id = us_user_id u, ur_tenant_id = us_tenant_id u, ur_email = us_email u, ur_name = us_name u,
      ur_user_role = role_value (us_user_role u), ur_is_active = us_is_active u\<rparr>"

definition caller_user_id :: "request_state option \<Rightarrow> json" where
  "caller_user_id st = (case st of Some s \<Rightarrow> st_user_id s | None \<Rightarrow> JStr [])"

definition text_id :: "json \<Rightarrow> string res" where
  "text_id v = (case v of JStr t \<Rightarrow> Inr t | _ \<Rightarrow> Inl (OtherError ''id is not a text''))"

definition current_tenant :: "request_state option \<Rightarrow> string res" where
  "current_tenant st = rbind (get_current_tenant_id st) text_id"

definition permitted :: "'s api_env \<Rightarrow> permission \<Rightarrow> request_state option \<Rightarrow> ('s, 'a) io \<Rightarrow> ('s, 'a) io" where
  "permitted env p st handler = io_bind (io_res (RequirePermission (ae_policy env) p st)) (\<lambda>_. handler)"

definition get_current_user :: "'s api_env \<Rightarrow> fresh \<Rightarrow> request_state option \<Rightarrow> ('s, user_response) io" where
  "get_current_user env fr st =
     (if \<not> jtruthy (caller_user_id st) then io_raise (HTTPException 401 ''Not authenticated as a user'')
      else io_bind (io_res (text_id (caller_user_id st))) (\<lambda>uid.
           io_bind (get_user (ae_um env) (fr_now fr) uid) (\<lambda>found.
             case found of
               None \<Rightarrow> io_raise (HTTPException 404 ''User not found'')
             | Some u \<Rightarrow> io_ret (user_response_of u))))"

definition list_users_route :: "'s api_env \<Rightarrow> fresh \<Rightarrow> request_state option \<Rightarrow> ('s, user_response list) io" where
  "list_users_route env fr st =
     permitted env MANAGE_USERS st
       (io_bind (io_res (current_tenant st)) (\<lambda>tid.
        io_bind (list_users (ae_um env) (fr_now fr) tid) (\<lambda>users. io_ret (map user_response_of users))))"

definition parse_role :: "string \<Rightarrow> user_role res" where
  "parse_role s = (case role_of s of Inr r \<Rightarrow> Inr r | Inl _ \<Rightarrow> Inl (HTTPException 400 ''Invalid role. Must be one of: owner, admin, member, viewer, demo''))"

definition create_invite_route ::
    "'s api_env \<Rightarrow> fresh \<Rightarrow> request_state option \<Rightarrow> string \<Rightarrow> string \<Rightarrow> ('s, string \<times> string \<times> string) io" where
  "create_invite_route env fr st email role_text =
     permitted env INVITE_USERS st
       (io_bind (io_res (current_tenant st)) (\<lambda>tid.
        io_bind (io_res (parse_role role_text)) (\<lambda>role.
        io_bind (create_invite (ae_um env) (fr_code fr) (fr_now fr) tid email role) (\<lambda>code.
          io_ret (code, email, role_value role)))))"

definition update_user_role_route ::
    "'s api_env \<Rightarrow> fresh \<Rightarrow> request_state option \<Rightarrow> string \<Rightarrow> string \<Rightarrow> ('s, string \<times> string) io" where
  "update_user_role_route env fr st user_id role_text =
     permitted env MANAGE_USERS st
       (io_bind (io_res (parse_role role_text)) (\<lambda>new_role.
          if caller_user_id st = JStr user_id
          then io_raise (HTTPException 400 ''Cannot change your own role'')
          else io_bind (update_user_role (ae_um env) (fr_now fr) user_id new_role) (\<lambda>found.
                 case found of
                   None \<Rightarrow> io_raise (HTTPException 404 ''User not found'')
                 | Some u \<Rightarrow> io_ret (user_id, role_value new_role))))"

definition deactivate_user_route ::
    "'s api_env \<Rightarrow> fresh \<Rightarrow> request_state option \<Rightarrow> string \<Rightarrow> ('s, string) io" where
  "deactivate_user_route env fr st user_id =
     permitted env MANAGE_USERS st
       (if caller_user_id st = JStr user_id
        then io_raise (HTTPException 400 ''Cannot deactivate yourself'')
        else io_bind (deactivate_user (ae_um env) (fr_now fr) user_id) (\<lambda>ok.
               if \<not> ok then io_raise (HTTPException 404 ''User not found'') else io_ret user_id))"

section \<open>Bans\<close>

definition list_bans_route :: "'s api_env \<Rightarrow> real \<Rightarrow> request_state option \<Rightarrow> ban_manager \<Rightarrow> (string \<times> ban_info) list res" where
  "list_bans_route env clock st bm =
     rbind (RequirePermission (ae_policy env) ADMIN_ALL st) (\<lambda>_. Inr (list_bans clock bm))"

definition set_ban_route ::
    "'s api_env \<Rightarrow> bool \<Rightarrow> request_state option \<Rightarrow> string \<Rightarrow> string \<Rightarrow> ban_manager \<Rightarrow> string res \<times> ban_manager" where
  "set_ban_route env wr st key reason bm =
     (case RequirePermission (ae_policy env) ADMIN_ALL st of
        Inl e \<Rightarrow> (Inl e, bm)
      | Inr _ \<Rightarrow> (Inr key, ban_permanent wr key reason bm))"

definition remove_ban_route ::
    "'s api_env \<Rightarrow> bool \<Rightarrow> request_state option \<Rightarrow> string \<Rightarrow> ban_manager \<Rightarrow> string res \<times> ban_manager" where
  "remove_ban_route env wr st key bm =
     (case RequirePermission (ae_policy env) ADMIN_ALL st of
        Inl e \<Rightarrow> (Inl e, bm)
      | Inr _ \<Rightarrow>
          (let (found, bm') = unban wr key bm
           in (if \<not> found then Inl (HTTPException 404 ''No ban found for this key'') else Inr key, bm')))"

end
