(* ===== verification/AccountLaws.thy ===== *)
theory AccountLaws
  imports Accounts ApiAuthLaws UserGuarantees
begin

text \<open>
  What signing in guarantees: the gate lets through only identities Google vouches for, from addresses
  that are not banned; the token handed out is the account's own; without an invitation nobody but the
  owner gets an account, and the attempt leaves no trace; users are managed only with the permission.
\<close>

section \<open>Reads leave the storage alone\<close>

lemma get_user_state: "get_user env now uid (n, s) = (r, st) \<Longrightarrow> st = (n, s)"
  by (auto simp: get_user_def io_bind_run split: sum.splits option.splits)

lemma get_user_by_google_sub_state: "get_user_by_google_sub env now sub (n, s) = (r, st) \<Longrightarrow> st = (n, s)"
  by (auto simp: get_user_by_google_sub_def read_index_def io_bind_run dest: get_user_state
      split: sum.splits option.splits json.splits)

lemma get_tenant_state: "get_tenant env now tid (n, s) = (r, st) \<Longrightarrow> st = (n, s)"
  by (auto simp: get_tenant_def io_bind_run split: sum.splits option.splits)

section \<open>The gate\<close>

lemma verify_google_Some:
  assumes "verify_google_id_token env token = Inr (Some identity)"
  shows "ae_google_client_id env \<noteq> [] \<and>
    (\<exists>d. ae_google env token (ae_google_client_id env) = Some d \<and> jtruthy (dget d ''email_verified'' (JBool False))
       \<and> str_field d ''sub'' None = Inr (gi_sub identity) \<and> str_field d ''email'' None = Inr (gi_email identity))"
  using assms by (auto simp: verify_google_id_token_def split: if_splits option.splits)

lemma google_gate_Inr:
  assumes "google_gate env wr clock ip token p = (Inr identity, p')"
  shows "\<not> is_banned clock ip (ap_bans p) \<and> fst (rl_allow clock ip (ap_auth_limiter p))
    \<and> verify_google_id_token env token = Inr (Some identity)
    \<and> ap_bans p' = ban_record_success ip (ap_bans p)"
  using assms by (auto simp: google_gate_def Let_def split: if_splits prod.splits sum.splits option.splits)

lemma google_gate_refused:
  assumes "\<not> is_banned clock ip (ap_bans p)" and "fst (rl_allow clock ip (ap_auth_limiter p))"
    and "verify_google_id_token env token = Inr None"
  shows "google_gate env wr clock ip token p =
    (Inl (HTTPException 401 ''Invalid Google ID token. Ensure you're using the correct Google account.''),
     p\<lparr>ap_auth_limiter := snd (rl_allow clock ip (ap_auth_limiter p)),
       ap_bans := ban_record_failure wr clock ip (ap_bans p)\<rparr>)"
  using assms by (cases "rl_allow clock ip (ap_auth_limiter p)") (simp add: google_gate_def Let_def)

section \<open>The token handed out\<close>

lemma access_token_verifies:
  assumes "access_token env time tid role u = Inr token"
  shows "create_access_token (ae_jwt env) (ae_jwt_secret env) time tid role (us_email u) 3600 None
    (us_user_id u) (role_value (us_user_role u)) = Inr token"
  using assms by (simp add: access_token_def default_expiry_seconds_def)

lemma record_login_Inr:
  assumes "record_login env now u st = (Inr v, st')"
  shows "v = u\<lparr>us_last_login := Some now, us_login_count := us_login_count u + 1\<rparr>"
  using assms by (auto simp: record_login_def io_bind_Inr Let_def)

lemma login_existing_Inr:
  assumes "login_existing env fr e st = (Inr resp, st')"
  shows "us_is_active e \<and> ga_user_id resp = us_user_id e \<and> ga_user_role resp = role_value (us_user_role e)
    \<and> \<not> ga_is_new_user resp
    \<and> (\<exists>t st1. get_tenant (ae_tm env) (fr_now fr) (us_tenant_id e) st1 = (Inr (Some t), st1) \<and> tn_is_active t
        \<and> ga_tenant_id resp = tn_tenant_id t
        \<and> create_access_token (ae_jwt env) (ae_jwt_secret env) (fr_time fr) (tn_tenant_id t) (tn_role t)
            (us_email e) 3600 None (us_user_id e) (role_value (us_user_role e)) = Inr (ga_access_token resp))"
proof -
  from assms have act: "us_is_active e" by (auto simp: login_existing_def split: if_splits)
  with assms obtain u st1 found st2 where u: "record_login (ae_um env) (fr_now fr) e st = (Inr u, st1)"
      and t: "get_tenant (ae_tm env) (fr_now fr) (us_tenant_id u) st1 = (Inr found, st2)"
      and rest: "(case found of None \<Rightarrow> io_raise (HTTPException 403 ''Tenant deactivated'')
         | Some t \<Rightarrow> if \<not> tn_is_active t then io_raise (HTTPException 403 ''Tenant deactivated'')
             else io_bind (io_res (access_token env (fr_time fr) (tn_tenant_id t) (tn_role t) u)) (\<lambda>token.
                      io_ret (auth_response token (tn_tenant_id t) u False))) st2 = (Inr resp, st')"
    by (auto simp: login_existing_def io_bind_Inr)
  from rest obtain t token where f: "found = Some t" "tn_is_active t"
      "access_token env (fr_time fr) (tn_tenant_id t) (tn_role t) u = Inr token"
      "resp = auth_response token (tn_tenant_id t) u False"
    by (auto simp: io_bind_run split: option.splits if_splits sum.splits)
  have "u = e\<lparr>us_last_login := Some (fr_now fr), us_login_count := us_login_count e + 1\<rparr>"
    using u by (rule record_login_Inr)
  moreover have "st2 = st1" using t get_tenant_state by (metis surj_pair)
  ultimately have "get_tenant (ae_tm env) (fr_now fr) (us_tenant_id e) st1 = (Inr (Some t), st1)"
      "us_email u = us_email e" "us_user_id u = us_user_id e" "us_user_role u = us_user_role e"
    using t f(1) by simp_all
  with act f(2,4) access_token_verifies [OF f(3)] show ?thesis
    by (intro conjI exI [of _ t] exI [of _ st1]) (simp_all add: auth_response_def)
qed

lemma create_user_Inr:
  assumes "create_user env hex now tid sub email name picture role st = (Inr u, st')"
  shows "us_tenant_id u = tid \<and> us_google_sub u = sub \<and> us_email u = email \<and> us_user_role u = role"
  using assms by (auto simp: create_user_def io_bind_Inr Let_def)

lemma enrol_Inr:
  assumes "enrol env fr identity tid role st = (Inr resp, st')"
  shows "ga_tenant_id resp = tid \<and> ga_user_role resp = role_value role \<and> ga_is_new_user resp
    \<and> (\<exists>t_role. create_access_token (ae_jwt env) (ae_jwt_secret env) (fr_time fr) tid t_role
        (gi_email identity) 3600 None (ga_user_id resp) (role_value role) = Inr (ga_access_token resp))"
proof -
  from assms obtain u0 st1 u st2 t_role token where
      u0: "create_user (ae_um env) (fr_user_hex fr) (fr_now fr) tid (gi_sub identity)
                (gi_email identity) (gi_name identity) (gi_picture identity) role st = (Inr u0, st1)"
      and u: "record_login (ae_um env) (fr_now fr) u0 st1 = (Inr u, st2)"
      and token: "access_token env (fr_time fr) tid t_role u = Inr token"
      and resp: "resp = auth_response token tid u True"
    by (auto simp: enrol_def io_bind_Inr)
  from record_login_Inr [OF u] create_user_Inr [OF u0]
  have "us_email u = gi_email identity" "us_user_role u = role" by simp_all
  with access_token_verifies [OF token] show ?thesis by (auto simp: resp auth_response_def)
qed

lemma login_identity_cases:
  assumes "login_identity env fr identity code st = (Inr resp, st')"
  shows "(\<exists>e. get_user_by_google_sub (ae_um env) (fr_now fr) (gi_sub identity) st = (Inr (Some e), st)
           \<and> login_existing env fr e st = (Inr resp, st'))
    \<or> (\<exists>tid role st1. get_user_by_google_sub (ae_um env) (fr_now fr) (gi_sub identity) st = (Inr None, st)
           \<and> enrol env fr identity tid role st1 = (Inr resp, st'))"
proof -
  obtain n s where st: "st = (n, s)" by (cases st)
  obtain r where look: "get_user_by_google_sub (ae_um env) (fr_now fr) (gi_sub identity) st = (r, st)"
    unfolding st using get_user_by_google_sub_state by (metis surj_pair)
  show ?thesis
  proof (cases r)
    case (Inl e)
    with assms look show ?thesis by (simp add: login_identity_def io_bind_run)
  next
    case (Inr existing)
    show ?thesis
    proof (cases existing)
      case (Some e)
      with assms look Inr show ?thesis by (simp add: login_identity_def io_bind_run)
    next
      case None
      with assms look Inr obtain st1 tid role where "enrol env fr identity tid role st1 = (Inr resp, st')"
        by (auto simp: login_identity_def io_bind_run login_new_user_def split: sum.splits prod.splits option.splits)
      with look Inr None show ?thesis by blast
    qed
  qed
qed

section \<open>Permissions\<close>

lemma permitted_Inr:
  "permitted env p st h s = (Inr r, s') \<longleftrightarrow> RequirePermission (ae_policy env) p st = Inr () \<and> h s = (Inr r, s')"
  by (auto simp: permitted_def io_bind_Inr)

lemma require_text_roles:
  assumes "RequirePermission pol p (Some s) = Inr ()" and "st_role s = JStr tier" and "st_user_role s = JStr urole"
  shows "check_access pol tier urole p"
  using assms by (simp add: RequirePermission_iff claims_access_text)

lemma dget_list: "dget d k [] = x \<Longrightarrow> x \<noteq> [] \<Longrightarrow> (k, x) \<in> set d"
  by (auto simp: dget_def split: option.splits dest: map_of_SomeD)

lemma roles_granting_users:
  "list_all (\<lambda>(tier, ps). ADMIN_ALL \<in> set ps \<or> MANAGE_USERS \<in> set ps \<longrightarrow> tier \<in> {''premium'', ''vip'', ''admin''}) tier_roles"
  "list_all (\<lambda>(role, ps). ADMIN_ALL \<in> set ps \<or> MANAGE_USERS \<in> set ps \<longrightarrow> role \<in> {[], ''owner'', ''admin''}) user_role_perms"
  by code_simp+

lemma manage_users_roles:
  assumes "check_access \<lparr>custom_roles = []\<rparr> tier urole MANAGE_USERS"
  shows "tier \<in> {''premium'', ''vip'', ''admin''} \<and> urole \<in> {[], ''owner'', ''admin''}"
proof -
  from assms have t: "has_permission \<lparr>custom_roles = []\<rparr> tier MANAGE_USERS"
      and u: "urole = [] \<or> has_user_permission \<lparr>custom_roles = []\<rparr> urole MANAGE_USERS"
    by (auto simp: check_access_def split: if_splits)
  define ps where "ps = dget tier_roles tier []"
  from t have "ADMIN_ALL \<in> set ps \<or> MANAGE_USERS \<in> set ps" by (simp add: has_permission_def get_permissions_def ps_def Let_def)
  then have "ps \<noteq> []" by auto
  with ps_def have "(tier, ps) \<in> set tier_roles" by (simp add: dget_list)
  with \<open>ADMIN_ALL \<in> set ps \<or> MANAGE_USERS \<in> set ps\<close> have tier: "tier \<in> {''premium'', ''vip'', ''admin''}"
    using roles_granting_users(1) unfolding list_all_iff by blast
  define us where "us = dget user_role_perms urole []"
  have "urole \<in> {[], ''owner'', ''admin''}"
  proof (cases "urole = []")
    case False
    with u have g: "ADMIN_ALL \<in> set us \<or> MANAGE_USERS \<in> set us"
      by (simp add: has_user_permission_def get_user_permissions_def us_def Let_def)
    then have "us \<noteq> []" by auto
    with us_def have "(urole, us) \<in> set user_role_perms" by (simp add: dget_list)
    with g show ?thesis using roles_granting_users(2) unfolding list_all_iff by blast
  qed simp
  with tier show ?thesis by blast
qed

text \<open>
  The routes that change a user look at the caller's permission and user id only: the caller's tenant
  plays no part, so the user may belong to any tenant.
\<close>

lemma user_routes_ignore_tenant:
  assumes "st_role s' = st_role s" and "st_user_role s' = st_user_role s" and "st_user_id s' = st_user_id s"
  shows "update_user_role_route env fr (Some s') uid role = update_user_role_route env fr (Some s) uid role"
    and "deactivate_user_route env fr (Some s') uid = deactivate_user_route env fr (Some s) uid"
  by (simp_all add: update_user_role_route_def deactivate_user_route_def permitted_def RequirePermission_def
      caller_user_id_def assms)

section \<open>An environment to evaluate in\<close>

definition memory_backend :: "(string \<times> json) list backend" where
  "memory_backend =
     \<lparr>be_write_json = (\<lambda>k v s. (Inr (), AList.update k v s)), be_read_json = (\<lambda>k s. Inr (map_of s k)),
      be_list_keys = (\<lambda>p s. Inr (filter (prefix p) (map fst s))), be_delete = (\<lambda>k s. (Inr True, AList.delete k s)),
      be_exists = (\<lambda>k s. Inr (has_key s k)), be_write_text = (\<lambda>k v s. (Inr (), s)),
      be_read_text = (\<lambda>k s. Inr None)\<rparr>"

definition memory_um :: "(string \<times> json) list um_env" where
  "memory_um = \<lparr>um_be = memory_backend, um_iso = unary_iso, um_from_iso = unary_from_iso\<rparr>"

definition memory_api :: "(string \<times> json) list api_env" where
  "memory_api =
     \<lparr>ae_tm = \<lparr>te_be = memory_backend, te_crypto = framing_crypto, te_master = ''m'', te_pepper = Some ''p'',
               te_rnd = (\<lambda>_. ''nonce1234567''), te_sha256hex = (\<lambda>_. ''00''), te_iso = unary_iso,
               te_from_iso = unary_from_iso\<rparr>,
      ae_um = memory_um, ae_jwt = sample_jwt, ae_jwt_secret = ''k'', ae_policy = \<lparr>custom_roles = []\<rparr>,
      ae_owner_email = ''o@b.pt'', ae_google_client_id = ''cid'',
      ae_google = (\<lambda>t c. Some [(''email_verified'', JBool True), (''sub'', JStr ''s1''), (''email'', JStr ''a@b.pt'')])\<rparr>"

definition sample_fresh :: fresh where
  "sample_fresh =
     \<lparr>fr_clock = 10, fr_time = 100, fr_now = \<lparr>dt_micros = 0, dt_aware = True\<rparr>, fr_user_hex = ''07'',
      fr_tenant_hex = ''08'', fr_api_key = ''key'', fr_code = ''c2''\<rparr>"

definition sample_identity :: google_identity where
  "sample_identity =
     \<lparr>gi_sub = ''s1'', gi_email = ''a@b.pt'', gi_email_verified = True, gi_name = [], gi_picture = []\<rparr>"

definition sample_process :: auth_process where
  "sample_process = \<lparr>ap_bans = new_ban_manager False None None, ap_auth_limiter = new_rate_limiter 20 300\<rparr>"

definition invited_store :: "(string \<times> json) list" where
  "invited_store = [(''invites/c1.json'', JObj [(''tenant_id'', JStr ''tn_1''), (''email'', JStr ''a@b.pt'')])]"

lemma memory_run [simp]:
  "be_read_json memory_backend k s = Inr (map_of s k)"
  "io_write memory_backend k v (n, s) = (Inr (), n, AList.update k v s)"
  "um_be memory_um = memory_backend" "ae_um memory_api = memory_um" "te_be (ae_tm memory_api) = memory_backend"
  by (simp_all add: io_write_def memory_backend_def memory_um_def memory_api_def)

lemma memory_iso_good: "iso_good memory_um"
  by (simp add: iso_good_def memory_um_def unary_iso_round_trip unary_iso_nonempty)

lemma sample_verified: "verify_google_id_token memory_api ''tok'' = Inr (Some sample_identity)"
  by (simp add: verify_google_id_token_def memory_api_def str_field_def sample_identity_def)

lemma sample_gate:
  "\<exists>p'. google_gate memory_api True 10 ''ip'' ''tok'' sample_process = (Inr sample_identity, p')"
  by (simp add: google_gate_def sample_verified sample_process_def is_banned_def new_ban_manager_def
      load_persistent_bans_def new_rate_limiter_def rl_allow_def prune_idle_keys_def Let_def)

lemma memory_parts [simp]:
  "ae_owner_email memory_api = ''o@b.pt''" "ae_jwt memory_api = sample_jwt" "ae_jwt_secret memory_api = ''k''"
  "gi_sub sample_identity = ''s1''" "gi_email sample_identity = ''a@b.pt''"
  by (simp_all add: memory_api_def sample_identity_def)

lemma sample_no_account:
  "get_user_by_google_sub memory_um now ''s1'' (n, invited_store) = (Inr None, n, invited_store)"
  by (simp add: get_user_by_google_sub_def io_bind_run read_index_def invited_store_def index_key_def)

lemma sample_from_invite:
  "\<exists>d. from_invite memory_api sample_fresh sample_identity (Some ''c1'') (n, invited_store) =
    (Inr (Some ''tn_1'', MEMBER), n, [(''invites/c1.json'', d)])"
  by (simp add: from_invite_def io_bind_run redeem_invite_def invited_store_def invite_path_def str_field_def
      role_of_def Let_def)

lemma sample_enrol:
  "\<exists>resp st'. enrol memory_api sample_fresh sample_identity ''tn_1'' MEMBER (n, [(''invites/c1.json'', d)]) = (Inr resp, st')
     \<and> ga_is_new_user resp \<and> ga_tenant_id resp = ''tn_1''"
  by (simp add: enrol_def io_bind_run create_user_def save_user_def update_index_def read_index_def
      record_login_def pin_owner_sub_def get_tenant_def tenant_path_def tenants_prefix_def user_path_def
      index_key_def access_token_def create_access_token_def get_secret_def auth_response_def Let_def)

lemma sample_invited_login:
  "\<exists>resp st'. login_identity memory_api sample_fresh sample_identity (Some ''c1'') (0, invited_store) = (Inr resp, st')
     \<and> ga_is_new_user resp \<and> ga_tenant_id resp = ''tn_1''"
proof -
  obtain d where "from_invite memory_api sample_fresh sample_identity (Some ''c1'') (0, invited_store) =
    (Inr (Some ''tn_1'', MEMBER), 0, [(''invites/c1.json'', d)])" using sample_from_invite by blast
  then show ?thesis
    using sample_enrol [of 0 d] by (simp add: login_identity_def io_bind_run sample_no_account login_new_user_def)
qed

section \<open>Properties\<close>

text \<open>The login gate admits only vouched identities: whoever gets past it comes from an address that is
neither banned nor over its rate, with an ID token that Google verified for this server's own client id
and whose email Google has verified, and is exactly the subject and address of that token; the failures
counted against the address are then cleared.\<close>

theorem google_gate_admits:
  assumes "google_gate env wr clock ip token p = (Inr identity, p')"
  shows "\<not> is_banned clock ip (ap_bans p) \<and> fst (rl_allow clock ip (ap_auth_limiter p))
    \<and> ae_google_client_id env \<noteq> []
    \<and> (\<exists>d. ae_google env token (ae_google_client_id env) = Some d
         \<and> jtruthy (dget d ''email_verified'' (JBool False))
         \<and> str_field d ''sub'' None = Inr (gi_sub identity) \<and> str_field d ''email'' None = Inr (gi_email identity))
    \<and> ap_bans p' = ban_record_success ip (ap_bans p)"
  using google_gate_Inr [OF assms] verify_google_Some by blast

theorem google_gate_admits_witness:
  "\<not> is_banned 10 ''ip'' (ap_bans sample_process) \<and> ae_google_client_id memory_api \<noteq> []"
proof -
  from sample_gate obtain p' where "google_gate memory_api True 10 ''ip'' ''tok'' sample_process = (Inr sample_identity, p')" ..
  from google_gate_admits [OF this] show ?thesis by blast
qed



text \<open>Without an invitation nobody but the platform owner gets an account: the login of an unknown subject
that brings no code is refused with status 403, and the storage is left exactly as it was.\<close>

theorem no_account_without_invite:
  assumes "get_user_by_google_sub (ae_um env) (fr_now fr) (gi_sub identity) st = (Inr None, st)"
    and "code = None \<or> code = Some []"
    and "py_lower (gi_email identity) \<noteq> py_lower (ae_owner_email env)"
  shows "login_identity env fr identity code st =
    (Inl (HTTPException 403 ''No invite code provided. Ask the platform owner for an invite.''), st)"
  using assms(2)
  by (elim disjE)
    (simp_all add: login_identity_def io_bind_run assms(1,3) login_new_user_def from_invite_def)

theorem no_account_without_invite_witness:
  "login_identity memory_api sample_fresh sample_identity None (0, []) =
    (Inl (HTTPException 403 ''No invite code provided. Ask the platform owner for an invite.''), 0, [])"
  by (rule no_account_without_invite)
    (simp_all add: get_user_by_google_sub_def io_bind_run read_index_def sample_identity_def memory_api_def
      py_lower_def lower_char_def less_eq_char_def)

text \<open>Users are managed only by those who may: when changing a user's role or deactivating a user succeeds,
the caller's token carries the premium, vip or admin tier role and the owner or admin user role (or none),
and the user is not the caller.\<close>

theorem user_management_guarded:
  assumes "update_user_role_route env fr (Some s) uid role st = (Inr r, st')
      \<or> deactivate_user_route env fr (Some s) uid st = (Inr r', st')"
    and "ae_policy env = \<lparr>custom_roles = []\<rparr>" and "st_role s = JStr tier" and "st_user_role s = JStr urole"
  shows "tier \<in> {''premium'', ''vip'', ''admin''} \<and> urole \<in> {[], ''owner'', ''admin''} \<and> st_user_id s \<noteq> JStr uid"
proof -
  from assms(1) have req: "RequirePermission (ae_policy env) MANAGE_USERS (Some s) = Inr ()"
    by (auto simp: update_user_role_route_def deactivate_user_route_def permitted_Inr)
  from assms(1) have "st_user_id s \<noteq> JStr uid"
    by (auto simp: update_user_role_route_def deactivate_user_route_def permitted_Inr caller_user_id_def io_bind_Inr
        split: if_splits)
  moreover have "check_access \<lparr>custom_roles = []\<rparr> tier urole MANAGE_USERS"
    using require_text_roles [OF req [unfolded assms(2)] assms(3,4)] .
  ultimately show ?thesis using manage_users_roles by blast
qed

definition sample_admin :: request_state where
  "sample_admin =
     \<lparr>st_tenant_id = JStr ''tn_1'', st_role = JStr ''vip'', st_email = JStr ''o@b.pt'', st_user_id = JStr ''usr_1'',
      st_user_role = JStr ''admin''\<rparr>"

definition sample_member :: user where
  "sample_member =
     \<lparr>us_user_id = ''usr_2'', us_tenant_id = ''tn_9'', us_google_sub = ''s2'', us_email = ''m@b.pt'', us_name = [],
      us_picture_url = [], us_user_role = MEMBER, us_is_active = True,
      us_created_at = \<lparr>dt_micros = 0, dt_aware = True\<rparr>, us_last_login = None, us_login_count = 0\<rparr>"

lemma sample_deactivation:
  "\<exists>st'. deactivate_user_route memory_api sample_fresh (Some sample_admin) ''usr_2''
     (0, [(user_path ''usr_2'', JObj (user_to_dict memory_um sample_member))]) = (Inr ''usr_2'', st')"
proof -
  have "RequirePermission \<lparr>custom_roles = []\<rparr> MANAGE_USERS (Some sample_admin) = Inr ()"
    by (simp add: RequirePermission_iff sample_admin_def claims_access_text check_access_def has_permission_def
        get_permissions_def tier_roles_def all_permissions_def has_user_permission_def
        get_user_permissions_def user_role_perms_def)
  moreover have "ae_policy memory_api = \<lparr>custom_roles = []\<rparr>" by (simp add: memory_api_def)
  ultimately show ?thesis
    using user_round_trip [OF memory_iso_good]
    by (simp add: deactivate_user_route_def permitted_def io_bind_run caller_user_id_def sample_admin_def
        deactivate_user_def get_user_def user_from_json_def save_user_def)
qed

theorem user_management_guarded_witness:
  "''vip'' \<in> {''premium'', ''vip'', ''admin''} \<and> ''admin'' \<in> {[], ''owner'', ''admin''} \<and> st_user_id sample_admin \<noteq> JStr ''usr_2''"
proof -
  from sample_deactivation obtain st' where
    "deactivate_user_route memory_api sample_fresh (Some sample_admin) ''usr_2''
     (0, [(user_path ''usr_2'', JObj (user_to_dict memory_um sample_member))]) = (Inr ''usr_2'', st')" ..
  from user_management_guarded [OF disjI2 [OF this], of "''vip''" "''admin''"]
  show ?thesis by (simp add: memory_api_def sample_admin_def)
qed

end
