(* ===== verification/TenantRoutes.thy ===== *)
theory TenantRoutes
  imports Accounts Regex DemoManager
begin

text \<open>
  The routes on tenants: registration, API-key login, profile and configuration
  (\<open>src/brain/api/routes/tenants.py\<close>), billing (\<open>src/brain/api/routes/billing.py\<close>) and the
  administration of demo accounts (\<open>src/brain/api/routes/demos.py\<close>). The calls of the Stripe package and
  the splitting of a URL are parameters; a Stripe object is the dictionary it is.
\<close>

section \<open>Registration and login\<close>

record tenant_process =
  tp_registration_limiter :: rate_limiter
  tp_login_limiter :: rate_limiter

definition new_tenant_process :: tenant_process where
  "new_tenant_process =
     \<lparr>tp_registration_limiter = new_rate_limiter 5 300, tp_login_limiter = new_rate_limiter 10 300\<rparr>"

definition name_char :: "char \<Rightarrow> bool" where
  "name_char c \<longleftrightarrow> re_word c \<or> re_space c \<or> c = CHR ''.'' \<or> c = CHR ''@'' \<or> c = CHR ''-''"

definition safe_name :: re where
  "safe_name = Seq (Rep 1 (Some 128) name_char) TextEnd"

definition email_local_char :: "char \<Rightarrow> bool" where
  "email_local_char c \<longleftrightarrow> ascii_letter c \<or> re_digit c \<or> c \<in> {CHR ''.'', CHR ''_'', CHR ''%'', CHR ''+'', CHR ''-''}"

definition email_domain_char :: "char \<Rightarrow> bool" where
  "email_domain_char c \<longleftrightarrow> ascii_letter c \<or> re_digit c \<or> c = CHR ''.'' \<or> c = CHR ''-''"

definition valid_email :: re where
  "valid_email =
     seqs [Rep 1 None email_local_char, lit ''@'', Rep 1 None email_domain_char, lit ''.'',
           Rep 2 None ascii_letter, TextEnd]"

record token_response =
  to_access_token :: string
  to_tenant_id :: string
  to_api_key :: "string option"

definition tenant_token :: "'s api_env \<Rightarrow> real \<Rightarrow> tenant \<Rightarrow> string res" where
  "tenant_token env time t =
     create_access_token (ae_jwt env) (ae_jwt_secret env) time (tn_tenant_id t) (tn_role t) (tn_email t)
       default_expiry_seconds None [] []"

definition register_checks :: "string \<Rightarrow> string \<Rightarrow> bool \<Rightarrow> unit res" where
  "register_checks name email accept_tos =
     (if \<not> accept_tos then Inl (HTTPException 400 (''You must accept the Terms of Service (accept_tos=true).''
         @ '' VelaFlow prohibits illegal content, abuse, and data exfiltration.''))
      else if \<not> re_match safe_name name
      then Inl (HTTPException 400 ''Invalid tenant name. Use 1-128 alphanumeric characters.'')
      else if \<not> re_match valid_email email then Inl (HTTPException 400 ''Invalid email address format.'')
      else Inr ())"

definition create_tenant_route ::
    "'s api_env \<Rightarrow> bool \<Rightarrow> fresh \<Rightarrow> string \<Rightarrow> string \<Rightarrow> string \<Rightarrow> bool \<Rightarrow> tenant_process \<Rightarrow>
     tenant_process \<times> ('s, token_response) io" where
  "create_tenant_route env disabled fr client_ip name email accept_tos p =
     (if disabled then (p, io_raise (HTTPException 403 ''Open registration disabled. Use Google OAuth at /api/v1/auth/google.''))
      else let (ok, rl) = rl_allow (fr_clock fr) client_ip (tp_registration_limiter p);
               p = p\<lparr>tp_registration_limiter := rl\<rparr>
           in (p, if \<not> ok then io_raise (HTTPException 429 ''Too many registration attempts. Try again later.'')
                  else io_bind (io_res (register_checks name email accept_tos)) (\<lambda>_.
                       io_bind (create_tenant (ae_tm env) (fr_tenant_hex fr) (fr_api_key fr) (fr_now fr)
                                  name email FREE) (\<lambda>t.
                       io_bind (io_res (tenant_token env (fr_time fr) t)) (\<lambda>token.
                         io_ret \<lparr>to_access_token = token, to_tenant_id = tn_tenant_id t,
                                 to_api_key = Some (tn_api_key t)\<rparr>)))))"

text \<open>Comparing two texts with \<open>compare_digest\<close> raises on a non-ASCII character.\<close>

definition keys_equal :: "string \<Rightarrow> string \<Rightarrow> bool res" where
  "keys_equal a b =
     (if \<exists>c \<in> set a \<union> set b. (of_char c :: nat) \<ge> 128 then Inl (OtherError ''TypeError'') else Inr (a = b))"

definition check_login :: "string \<Rightarrow> string \<Rightarrow> tenant option \<Rightarrow> tenant res" where
  "check_login email api_key found =
     (let bad = Inl (HTTPException 401 ''Invalid credentials'') in
      case found of
        None \<Rightarrow> bad
      | Some t \<Rightarrow>
          if utf8_encode (tn_email t) \<noteq> utf8_encode email \<or> \<not> tn_is_active t then bad
          else if tn_api_key t = [] then bad
          else rbind (keys_equal (tn_api_key t) api_key) (\<lambda>same. if \<not> same then bad else Inr t))"

definition login_tenant_route ::
    "'s api_env \<Rightarrow> fresh \<Rightarrow> string \<Rightarrow> string \<Rightarrow> string \<Rightarrow> string \<Rightarrow> tenant_process \<Rightarrow>
     tenant_process \<times> ('s, token_response) io" where
  "login_tenant_route env fr client_ip tenant_id email api_key p =
     (let (ok, rl) = rl_allow (fr_clock fr) client_ip (tp_login_limiter p);
          p = p\<lparr>tp_login_limiter := rl\<rparr>
      in (p, if \<not> ok then io_raise (HTTPException 429 ''Too many login attempts. Try again later.'')
             else io_bind (get_tenant (ae_tm env) (fr_now fr) tenant_id) (\<lambda>found.
                  io_bind (io_res (check_login email api_key found)) (\<lambda>t.
                  io_bind (io_res (tenant_token env (fr_time fr) t)) (\<lambda>token.
                    io_ret \<lparr>to_access_token = token, to_tenant_id = tn_tenant_id t, to_api_key = None\<rparr>)))))"

section \<open>Profile and configuration\<close>

record tenant_response =
  ts_tenant_id :: string
  ts_name :: string
  ts_email :: string
  ts_tier :: string
  ts_role :: string
  ts_is_active :: bool

definition get_current_tenant :: "'s api_env \<Rightarrow> fresh \<Rightarrow> request_state option \<Rightarrow> ('s, tenant_response) io" where
  "get_current_tenant env fr st =
     io_bind (io_res (current_tenant st)) (\<lambda>tid.
     io_bind (get_tenant (ae_tm env) (fr_now fr) tid) (\<lambda>found.
       case found of
         None \<Rightarrow> io_raise (HTTPException 404 ''Tenant not found'')
       | Some t \<Rightarrow>
           io_ret \<lparr>ts_tenant_id = tn_tenant_id t, ts_name = tn_name t, ts_email = tn_email t,
                   ts_tier = tier_value (tn_tier t), ts_role = tn_role t, ts_is_active = tn_is_active t\<rparr>))"

definition tier_gate ::
    "'s api_env \<Rightarrow> fresh \<Rightarrow> string \<Rightarrow> bool option \<Rightarrow> tenant_tier list \<Rightarrow> string \<Rightarrow> ('s, unit) io" where
  "tier_gate env fr tid wanted tiers detail =
     (if wanted \<noteq> Some True then io_ret ()
      else io_bind (get_tenant (ae_tm env) (fr_now fr) tid) (\<lambda>found.
             case found of
               None \<Rightarrow> io_ret ()
             | Some t \<Rightarrow> if tn_tier t \<notin> set tiers then io_raise (HTTPException 403 detail) else io_ret ()))"

definition update_tenant_config ::
    "'s api_env \<Rightarrow> fresh \<Rightarrow> request_state option \<Rightarrow> config_update \<Rightarrow> ('s, unit) io" where
  "update_tenant_config env fr st body =
     permitted env MANAGE_API_KEYS st
       (io_bind (io_res (current_tenant st)) (\<lambda>tid.
        io_bind (tier_gate env fr tid (cu_use_local_llm body) [PREMIUM, VIP]
                   ''Local LLM requires Premium or VIP tier'') (\<lambda>_.
        io_bind (tier_gate env fr tid (cu_rag_enabled body) [VIP] ''Native RAG requires VIP tier'') (\<lambda>_.
        io_bind (update_config (ae_tm env) (fr_now fr) tid body) (\<lambda>found.
          case found of
            None \<Rightarrow> io_raise (HTTPException 404 ''Tenant not found'')
          | Some t \<Rightarrow> io_ret ())))))"

section \<open>Billing\<close>

record stripe_env =
  se_secret_key :: string
  se_webhook_secret :: string
  se_prices :: "(string \<times> string) list"
  se_installed :: bool
  se_urlparse :: "string \<Rightarrow> string option \<times> string"
  se_create_customer :: "string \<Rightarrow> string \<Rightarrow> string"
  se_create_session :: "string \<Rightarrow> string \<Rightarrow> string \<Rightarrow> string \<Rightarrow> string \<Rightarrow> string"
  se_construct_event :: "bytes \<Rightarrow> string \<Rightarrow> string \<Rightarrow> jdict option"
  se_subscription :: "json \<Rightarrow> jdict"

definition allowed_redirect_hosts :: "string list" where
  "allowed_redirect_hosts = [''app.velaflow.com'', ''localhost'']"

definition validate_redirect_url :: "stripe_env \<Rightarrow> string \<Rightarrow> string res" where
  "validate_redirect_url se url =
     (let (hostname, scheme) = se_urlparse se url in
      if (case hostname of None \<Rightarrow> True | Some h \<Rightarrow> h \<notin> set allowed_redirect_hosts)
      then Inl (HTTPException 400 ''Redirect URL host not allowed'')
      else if scheme \<notin> {''https'', ''http''}
      then Inl (HTTPException 400 ''Only HTTP(S) redirect URLs allowed'')
      else Inr url)"

definition stripe_customer :: "'s api_env \<Rightarrow> stripe_env \<Rightarrow> string \<Rightarrow> tenant \<Rightarrow> ('s, string) io" where
  "stripe_customer env se tid t =
     (if tn_stripe_customer_id t \<noteq> [] then io_ret (tn_stripe_customer_id t)
      else let customer_id = se_create_customer se (tn_email t) tid
           in io_bind (save_tenant (ae_tm env) (t\<lparr>tn_stripe_customer_id := customer_id\<rparr>)) (\<lambda>_.
              io_ret customer_id))"

definition create_checkout ::
    "'s api_env \<Rightarrow> stripe_env \<Rightarrow> fresh \<Rightarrow> request_state option \<Rightarrow> string \<Rightarrow> string \<Rightarrow> string \<Rightarrow> ('s, string) io" where
  "create_checkout env se fr st tier success_url cancel_url =
     io_bind (io_res (current_tenant st)) (\<lambda>tid.
       case map_of (se_prices se) tier of
         None \<Rightarrow> io_raise (HTTPException 400 (''Invalid tier: '' @ tier))
       | Some price_id \<Rightarrow>
           if price_id = [] \<or> se_secret_key se = [] then io_raise (HTTPException 503 ''Billing not configured'')
           else io_bind (get_tenant (ae_tm env) (fr_now fr) tid) (\<lambda>found.
             case found of
               None \<Rightarrow> io_raise (HTTPException 404 ''Tenant not found'')
             | Some t \<Rightarrow>
                 if \<not> se_installed se then io_raise (HTTPException 503 ''Stripe SDK not installed'')
                 else io_bind (stripe_customer env se tid t) (\<lambda>customer_id.
                      io_bind (io_res (validate_redirect_url se success_url)) (\<lambda>safe_success.
                      io_bind (io_res (validate_redirect_url se cancel_url)) (\<lambda>safe_cancel.
                        io_ret (se_create_session se customer_id price_id safe_success safe_cancel tid))))))"

text \<open>\<open>d.get(k, default)\<close> on a value that must be a dictionary.\<close>

definition get_in :: "json \<Rightarrow> string \<Rightarrow> json \<Rightarrow> json res" where
  "get_in v k dflt = (case v of JObj d \<Rightarrow> Inr (dget d k dflt) | _ \<Rightarrow> Inl (OtherError ''AttributeError''))"

text \<open>The same where the code first tests for a dictionary.\<close>

definition get_or_empty :: "json \<Rightarrow> string \<Rightarrow> json" where
  "get_or_empty v k = (case v of JObj d \<Rightarrow> dget d k (JObj []) | _ \<Rightarrow> JObj [])"

definition event_tenant :: "json \<Rightarrow> json res" where
  "event_tenant obj = get_in (get_or_empty obj ''metadata'') ''velaflow_tenant_id'' JNull"

definition price_tier :: "stripe_env \<Rightarrow> json \<Rightarrow> tenant_tier res" where
  "price_tier se price_id =
     (let tier_map = dict_update [] (map (\<lambda>(tier, price). (price, tier)) (filter (\<lambda>(tier, price). price \<noteq> []) (se_prices se)))
      in tier_of (case price_id of JStr p \<Rightarrow> dget tier_map p ''standard'' | _ \<Rightarrow> ''standard''))"

definition first_price :: "jdict \<Rightarrow> json option res" where
  "first_price sub =
     (case get_or_empty (JObj sub) ''items'' of
        JObj items \<Rightarrow>
          (case dget items ''data'' (JArr []) of
             JArr [] \<Rightarrow> Inr None
           | JArr (item # _) \<Rightarrow>
               rbind (get_in item ''price'' (JObj [])) (\<lambda>price.
               rbind (get_in price ''id'' (JStr [])) (\<lambda>pid. Inr (Some pid)))
           | v \<Rightarrow> if jtruthy v then Inl (OtherError ''TypeError'') else Inr None)
      | _ \<Rightarrow> Inr None)"

definition set_subscription :: "'s api_env \<Rightarrow> json \<Rightarrow> tenant option \<Rightarrow> ('s, unit) io" where
  "set_subscription env subscription_id found =
     (case found of
        None \<Rightarrow> io_ret ()
      | Some t \<Rightarrow>
          io_bind (io_res (text_id subscription_id)) (\<lambda>sid.
            save_tenant (ae_tm env) (t\<lparr>tn_stripe_subscription_id := sid\<rparr>)))"

definition checkout_completed :: "'s api_env \<Rightarrow> stripe_env \<Rightarrow> fresh \<Rightarrow> json \<Rightarrow> ('s, unit) io" where
  "checkout_completed env se fr obj =
     io_bind (io_res (event_tenant obj)) (\<lambda>tenant_id.
       if \<not> jtruthy tenant_id then io_ret ()
       else io_bind (io_res (get_in obj ''subscription'' (JStr []))) (\<lambda>subscription_id.
            io_bind (io_res (first_price (se_subscription se subscription_id))) (\<lambda>price.
              case price of
                None \<Rightarrow> io_ret ()
              | Some price_id \<Rightarrow>
                  io_bind (io_res (price_tier se price_id)) (\<lambda>new_tier.
                  io_bind (io_res (text_id tenant_id)) (\<lambda>tid.
                  io_bind (update_tier (ae_tm env) (fr_now fr) tid new_tier) (\<lambda>found.
                    set_subscription env subscription_id found))))))"

definition subscription_deleted :: "'s api_env \<Rightarrow> fresh \<Rightarrow> json \<Rightarrow> ('s, unit) io" where
  "subscription_deleted env fr obj =
     io_bind (io_res (event_tenant obj)) (\<lambda>tenant_id.
       if \<not> jtruthy tenant_id then io_ret ()
       else io_bind (io_res (text_id tenant_id)) (\<lambda>tid.
            io_bind (update_tier (ae_tm env) (fr_now fr) tid FREE) (\<lambda>_. io_ret ())))"

definition payment_failed :: "'s api_env \<Rightarrow> fresh \<Rightarrow> json \<Rightarrow> ('s, unit) io" where
  "payment_failed env fr obj =
     io_bind (io_res (get_in obj ''subscription'' (JStr []))) (\<lambda>_.
     io_bind (list_tenants (ae_tm env) (fr_now fr)) (\<lambda>_. io_ret ()))"

definition stripe_event :: "'s api_env \<Rightarrow> stripe_env \<Rightarrow> fresh \<Rightarrow> jdict \<Rightarrow> ('s, unit) io" where
  "stripe_event env se fr event =
     (let event_type = dget event ''type'' (JStr []);
          obj = get_or_empty (dget event ''data'' (JObj [])) ''object''
      in if event_type = JStr ''checkout.session.completed'' then checkout_completed env se fr obj
         else if event_type = JStr ''customer.subscription.deleted'' then subscription_deleted env fr obj
         else if event_type = JStr ''invoice.payment_failed'' then payment_failed env fr obj
         else io_ret ())"

definition stripe_webhook ::
    "'s api_env \<Rightarrow> stripe_env \<Rightarrow> fresh \<Rightarrow> bytes \<Rightarrow> string \<Rightarrow> ('s, unit) io" where
  "stripe_webhook env se fr payload sig_header =
     (if se_webhook_secret se = [] then io_raise (HTTPException 503 ''Stripe webhooks not configured'')
      else if \<not> se_installed se then io_raise (HTTPException 503 ''Stripe SDK not installed'')
      else case se_construct_event se payload sig_header (se_webhook_secret se) of
             None \<Rightarrow> io_raise (HTTPException 400 ''Invalid webhook signature'')
           | Some event \<Rightarrow> stripe_event env se fr event)"

section \<open>Demo accounts\<close>

definition create_demo_route ::
    "'s api_env \<Rightarrow> 's demo_env \<Rightarrow> fresh \<Rightarrow> request_state option \<Rightarrow> string \<Rightarrow> string \<Rightarrow> int \<Rightarrow> int \<Rightarrow> int \<Rightarrow> string \<Rightarrow>
     ('s, string \<times> string \<times> string) io" where
  "create_demo_route env de fr st name email days cap_pipeline cap_llm token =
     permitted env ADMIN_ALL st
       (io_bind (io_res (current_tenant st)) (\<lambda>tid.
        io_bind (create_demo de (fr_tenant_hex fr) (fr_api_key fr) (fr_now fr) name email tid days
                   cap_pipeline cap_llm token) (\<lambda>t.
          io_ret (tn_tenant_id t, tn_api_key t, tier_value (tn_tier t)))))"

definition list_demos_route :: "'s api_env \<Rightarrow> 's demo_env \<Rightarrow> fresh \<Rightarrow> request_state option \<Rightarrow> ('s, jdict list) io" where
  "list_demos_route env de fr st = permitted env ADMIN_ALL st (list_demo_accounts de (fr_now fr))"

definition demo_analytics_route ::
    "'s api_env \<Rightarrow> 's demo_env \<Rightarrow> request_state option \<Rightarrow> string \<Rightarrow> ('s, jdict \<times> analytics) io" where
  "demo_analytics_route env de st demo_tid = permitted env ADMIN_ALL st (get_usage_analytics de demo_tid)"

definition check_demo_expiry_route ::
    "'s api_env \<Rightarrow> 's demo_env \<Rightarrow> fresh \<Rightarrow> request_state option \<Rightarrow> string \<Rightarrow> ('s, string \<times> bool) io" where
  "check_demo_expiry_route env de fr st demo_tid =
     permitted env ADMIN_ALL st
       (io_bind (check_expiry de (fr_now fr) demo_tid) (\<lambda>active. io_ret (demo_tid, active)))"

end
