(* ===== verification/TenantRouteLaws.thy ===== *)
theory TenantRouteLaws
  imports TenantRoutes AccountLaws TenantGuarantees
begin

text \<open>
  What the tenant routes guarantee: who may register and with which names and addresses, what an API-key
  login proves, which tiers may turn a feature on, and that a tier changes only on a Stripe event whose
  signature was verified, to the tier whose price was paid.
\<close>

section \<open>Names and addresses\<close>

lemma takeWhile_reach: "i \<le> length (takeWhile p t) \<longleftrightarrow> i \<le> length t \<and> list_all p (take i t)"
proof (induction t arbitrary: i)
  case Nil
  then show ?case by simp
next
  case (Cons c t)
  then show ?case by (cases i) auto
qed

lemma rep_ends:
  "j \<in> set (re_ends t (Rep m n p) i) \<longleftrightarrow>
     (\<exists>k. j = i + k \<and> m \<le> k \<and> k \<le> length (drop i t) \<and> list_all p (take k (drop i t))
        \<and> (case n of None \<Rightarrow> True | Some n \<Rightarrow> k \<le> n))"
proof -
  have "j \<in> set (re_ends t (Rep m n p) i) \<longleftrightarrow>
     (\<exists>k. j = i + k \<and> m \<le> k \<and> k \<le> run_length p t i \<and> (case n of None \<Rightarrow> True | Some n \<Rightarrow> k \<le> n))"
    by (cases n) (auto simp: Let_def image_iff less_Suc_eq_le)
  then show ?thesis by (simp only: run_length_def takeWhile_reach conj_assoc)
qed

lemma re_match_iff: "re_match r t \<longleftrightarrow> (\<exists>j. j \<in> set (re_ends t r 0))"
  by (cases "re_ends t r 0") (auto simp: re_match_def)

lemma text_end_ends:
  "j \<in> set (re_ends t TextEnd i) \<longleftrightarrow> j = i \<and> (i = length t \<or> Suc i = length t \<and> t ! i = CHR 0x0A)"
  by auto

lemma seq_ends: "j \<in> set (re_ends t (Seq r s) i) \<longleftrightarrow> (\<exists>k \<in> set (re_ends t r i). j \<in> set (re_ends t s k))"
  by simp

text \<open>What a run of the matcher reads, as a split of the text.\<close>

lemma rep_reads:
  assumes "j \<in> set (re_ends t (Rep m None p) i)"
  shows "\<exists>u. drop i t = u @ drop j t \<and> m \<le> length u \<and> list_all p u"
proof -
  from assms obtain k where k: "j = i + k" "m \<le> k" "k \<le> length (drop i t)" "list_all p (take k (drop i t))"
    unfolding rep_ends by auto
  have "drop i t = take k (drop i t) @ drop j t"
    by (metis append_take_drop_id drop_drop k(1) add.commute)
  with k show ?thesis by (metis length_take min.absorb2)
qed

lemma chr_reads:
  assumes "j \<in> set (re_ends t (Chr p) i)"
  shows "\<exists>c. drop i t = c # drop j t \<and> p c"
proof -
  from assms have "j = Suc i" "i < length t" "p (t ! i)" by (auto split: if_splits)
  then show ?thesis using Cons_nth_drop_Suc [of i t] by metis
qed

lemma same_letter_sign:
  "same_letter (CHR ''@'') c \<longleftrightarrow> c = CHR ''@''" "same_letter (CHR ''.'') c \<longleftrightarrow> c = CHR ''.''"
proof -
  have l: "lower_char x = lower_char c \<longleftrightarrow> c = x" if "x = CHR ''@'' \<or> x = CHR ''.''" for x
  proof (cases "CHR ''A'' \<le> c \<and> c \<le> CHR ''Z''")
    case True
    then have b: "65 \<le> (of_char c :: nat)" "(of_char c :: nat) \<le> 90" by (simp_all add: less_eq_char_def)
    then have "(of_char (lower_char c) :: nat) = of_char c + 32"
      using True by (simp add: lower_char_def of_char_of)
    moreover have "(of_char x :: nat) < 65" using that by auto
    ultimately have "lower_char c \<noteq> x" "c \<noteq> x" using b by auto
    moreover have "lower_char x = x" using that by (auto simp: lower_char_def less_eq_char_def)
    ultimately show ?thesis by simp
  next
    case False
    moreover have "lower_char x = x" using that by (auto simp: lower_char_def less_eq_char_def)
    ultimately show ?thesis by (auto simp: lower_char_def)
  qed
  show "same_letter (CHR ''@'') c \<longleftrightarrow> c = CHR ''@''" "same_letter (CHR ''.'') c \<longleftrightarrow> c = CHR ''.''"
    unfolding same_letter_def using l by (metis (no_types))+
qed

lemma valid_email_shape:
  assumes "re_match valid_email t"
  shows "\<exists>a b c r. t = a @ ''@'' @ b @ ''.'' @ c @ r \<and> a \<noteq> [] \<and> b \<noteq> [] \<and> 2 \<le> length c
    \<and> list_all email_local_char a \<and> list_all email_domain_char b \<and> list_all ascii_letter c
    \<and> r \<in> {[], [CHR 0x0A]}"
proof -
  from assms obtain j where "j \<in> set (re_ends t valid_email 0)" by (auto simp only: re_match_iff)
  then obtain i1 i2 i3 i4 i5 where
    m: "i1 \<in> set (re_ends t (Rep 1 None email_local_char) 0)"
       "i2 \<in> set (re_ends t (Chr (same_letter (CHR ''@''))) i1)"
       "i3 \<in> set (re_ends t (Rep 1 None email_domain_char) i2)"
       "i4 \<in> set (re_ends t (Chr (same_letter (CHR ''.''))) i3)"
       "i5 \<in> set (re_ends t (Rep 2 None ascii_letter) i4)" "j \<in> set (re_ends t TextEnd i5)"
    unfolding valid_email_def seqs_def lit_def foldr.simps list.map comp_def id_def seq_ends re_ends.simps(1)
    by auto
  obtain a where a: "t = a @ drop i1 t" "1 \<le> length a" "list_all email_local_char a"
    using rep_reads [OF m(1)] by auto
  obtain b where b: "drop i2 t = b @ drop i3 t" "1 \<le> length b" "list_all email_domain_char b"
    using rep_reads [OF m(3)] by auto
  obtain c where c: "drop i4 t = c @ drop i5 t" "2 \<le> length c" "list_all ascii_letter c"
    using rep_reads [OF m(5)] by auto
  have at: "drop i1 t = CHR ''@'' # drop i2 t" and dot: "drop i3 t = CHR ''.'' # drop i4 t"
    using chr_reads [OF m(2)] chr_reads [OF m(4)] same_letter_sign by auto
  have "drop i5 t \<in> {[], [CHR 0x0A]}"
    using m(6) Cons_nth_drop_Suc [of i5 t] unfolding text_end_ends by auto
  moreover have "t = a @ ''@'' @ b @ ''.'' @ c @ drop i5 t" using a(1) at b(1) dot c(1) by simp
  ultimately show ?thesis using a b c by (metis length_0_conv not_one_le_zero)
qed

text \<open>A name of 1 to 128 characters of the class; one newline more is also let through.\<close>

lemma safe_name_shape:
  "re_match safe_name t \<longleftrightarrow>
     t \<noteq> [] \<and> list_all name_char t \<and> (length t \<le> 128 \<or> length t = 129 \<and> last t = CHR 0x0A)"
proof
  assume "re_match safe_name t"
  then obtain j k where "j \<in> set (re_ends t (Rep 1 (Some 128) name_char) 0)" "k \<in> set (re_ends t TextEnd j)"
    unfolding re_match_iff safe_name_def seq_ends by blast
  then have j: "1 \<le> j" "j \<le> 128" "j \<le> length t" "list_all name_char (take j t)"
      "j = length t \<or> Suc j = length t \<and> t ! j = CHR 0x0A"
    unfolding rep_ends text_end_ends by auto
  show "t \<noteq> [] \<and> list_all name_char t \<and> (length t \<le> 128 \<or> length t = 129 \<and> last t = CHR 0x0A)"
  proof (cases "j = length t")
    case False
    then have l: "Suc j = length t" "t ! j = CHR 0x0A" using j(5) by auto
    then have t: "t = take j t @ [CHR 0x0A]" by (metis lessI take_Suc_conv_app_nth take_all_iff order_refl)
    have "name_char (CHR 0x0A)" by (simp add: name_char_def re_space_def is_space_def)
    with j(4) have "list_all name_char (take j t @ [CHR 0x0A])" by simp
    then have "list_all name_char t" using t by simp
    moreover have "last t = CHR 0x0A" using t by (metis last_snoc)
    moreover have "length t \<le> 128 \<or> length t = 129" using l(1) j(2) by linarith
    ultimately show ?thesis using l(1) by auto
  qed (use j in auto)
next
  assume t: "t \<noteq> [] \<and> list_all name_char t \<and> (length t \<le> 128 \<or> length t = 129 \<and> last t = CHR 0x0A)"
  define j where "j = (if length t \<le> 128 then length t else 128)"
  from t have "1 \<le> j" "j \<le> 128" "j \<le> length t" unfolding j_def by (cases t; auto)+
  moreover have "list_all name_char (take j t)" using t by (auto simp: list_all_iff dest: in_set_takeD)
  ultimately have "j \<in> set (re_ends t (Rep 1 (Some 128) name_char) 0)"
    unfolding rep_ends by auto
  moreover have "j \<in> set (re_ends t TextEnd j)"
    unfolding text_end_ends using t by (cases "length t \<le> 128") (auto simp: j_def last_conv_nth)
  ultimately show "re_match safe_name t"
    unfolding re_match_iff safe_name_def seq_ends by blast
qed

section \<open>Registration and login\<close>

lemma register_checks_Inr:
  "register_checks name email tos = Inr () \<longleftrightarrow> tos \<and> re_match safe_name name \<and> re_match valid_email email"
  by (simp add: register_checks_def)

lemma tenant_token_Inr:
  "tenant_token env time t = Inr token \<longleftrightarrow>
     create_access_token (ae_jwt env) (ae_jwt_secret env) time (tn_tenant_id t) (tn_role t) (tn_email t) 3600
       None [] [] = Inr token"
  by (simp add: tenant_token_def default_expiry_seconds_def)

lemma check_login_Inr:
  "check_login email key found = Inr t \<longleftrightarrow>
     found = Some t \<and> tn_email t = email \<and> tn_is_active t \<and> tn_api_key t \<noteq> []
     \<and> tn_api_key t = key \<and> list_all (\<lambda>c. (of_char c :: nat) < 128) key"
proof -
  have "(\<exists>c \<in> set a \<union> set a. (of_char c :: nat) \<ge> 128) \<longleftrightarrow> \<not> list_all (\<lambda>c. (of_char c :: nat) < 128) a" for a
    by (auto simp: list_all_iff not_less)
  then have "keys_equal a b = Inr True \<longleftrightarrow> a = b \<and> list_all (\<lambda>c. (of_char c :: nat) < 128) b" for a b
    by (auto simp: keys_equal_def list_all_iff not_le)
  then show ?thesis by (cases found) (auto simp: check_login_def Let_def utf8_inj)
qed

lemma create_tenant_Inr:
  assumes "create_tenant env hex key now name email tier st = (Inr t, st')"
  shows "t = make_tenant (''tn_'' @ hex) name email tier (tier_value tier) key now"
  using assms by (auto simp: create_tenant_def Let_def io_bind_Inr)

lemma make_tenant_fields:
  "tn_tenant_id (make_tenant tid name email FREE ''free'' key now) = tid"
  "tn_name (make_tenant tid name email FREE ''free'' key now) = name"
  "tn_email (make_tenant tid name email FREE ''free'' key now) = email"
  "tn_tier (make_tenant tid name email FREE ''free'' key now) = FREE"
  "tn_role (make_tenant tid name email FREE ''free'' key now) = ''free''"
  "tn_api_key (make_tenant tid name email FREE ''free'' key now) = key"
  by (simp_all add: make_tenant_def tenant_post_init_def Let_def)

lemma create_tenant_route_Inr:
  assumes "create_tenant_route env disabled fr ip name email tos p = (p', m)" and "m st = (Inr resp, st')"
  shows "\<not> disabled \<and> fst (rl_allow (fr_clock fr) ip (tp_registration_limiter p))
    \<and> register_checks name email tos = Inr ()
    \<and> (\<exists>t. create_tenant (ae_tm env) (fr_tenant_hex fr) (fr_api_key fr) (fr_now fr) name email FREE st = (Inr t, st')
         \<and> tenant_token env (fr_time fr) t = Inr (to_access_token resp) \<and> to_tenant_id resp = tn_tenant_id t
         \<and> to_api_key resp = Some (tn_api_key t))"
  using assms
  by (cases "rl_allow (fr_clock fr) ip (tp_registration_limiter p)")
    (auto simp: create_tenant_route_def io_bind_Inr Let_def split: if_splits)

section \<open>Features and tiers\<close>

lemma tier_gate_Inr:
  assumes "tier_gate env fr tid (Some True) tiers detail (n, s) = (Inr (), st)"
    and "get_tenant (ae_tm env) (fr_now fr) tid (n, s) = (Inr (Some t), st')"
  shows "tn_tier t \<in> set tiers"
  using assms by (auto simp: tier_gate_def io_bind_run split: if_splits)

lemma tier_gate_state:
  assumes "tier_gate env fr tid wanted tiers detail (n, s) = (r, st)"
  shows "st = (n, s)"
  using assms
  by (auto simp: tier_gate_def io_bind_run dest: get_tenant_state split: if_splits prod.splits sum.splits option.splits)

lemma load_tenants_state: "load_tenants env now keys (n, s) = (r, st) \<Longrightarrow> st = (n, s)"
proof (induction keys arbitrary: r st)
  case Nil
  then show ?case by simp
next
  case (Cons k keys)
  obtain r2 st2 where l: "load_tenants env now keys (n, s) = (r2, st2)" by (cases "load_tenants env now keys (n, s)")
  with Cons.IH have "st2 = (n, s)" by blast
  with Cons.prems l show ?case
    by (auto simp: io_bind_run split: if_splits sum.splits option.splits)
qed

lemma list_tenants_state: "list_tenants env now (n, s) = (r, st) \<Longrightarrow> st = (n, s)"
  by (auto simp: list_tenants_def io_bind_run io_list_def dest: load_tenants_state split: sum.splits)

lemma payment_failed_state: "payment_failed env fr obj (n, s) = (r, st) \<Longrightarrow> st = (n, s)"
  by (auto simp: payment_failed_def io_bind_run dest: list_tenants_state split: sum.splits prod.splits)

lemma price_tier_paid:
  assumes "distinct (map snd (se_prices se))" and "(tier_value tier, price) \<in> set (se_prices se)" and "price \<noteq> []"
  shows "price_tier se (JStr price) = Inr tier"
proof -
  define ps where "ps = map (\<lambda>(tier, price). (price, tier)) (filter (\<lambda>(tier, price). price \<noteq> []) (se_prices se))"
  have fst: "map fst ps = filter (\<lambda>p. p \<noteq> []) (map snd (se_prices se))"
    by (simp add: ps_def filter_map comp_def case_prod_unfold)
  have d: "distinct (map fst ps)" unfolding fst using assms(1) by (rule distinct_filter)
  have "(price, tier_value tier) \<in> set ps" using assms(2,3) by (force simp: ps_def)
  then have "map_of ps price = Some (tier_value tier)" by (rule map_of_is_SomeI [OF d])
  then have "dget (dict_update [] ps) price ''standard'' = tier_value tier"
    by (simp add: dget_def map_of_dict_update [OF d])
  then show ?thesis by (simp add: price_tier_def ps_def [symmetric] tier_round_trip)
qed

section \<open>Paying for a tier\<close>

text \<open>What a completed checkout makes of the tenant: the paid tier, and the subscription it came from.\<close>

definition paid :: "tenant_tier \<Rightarrow> string \<Rightarrow> tenant \<Rightarrow> tenant" where
  "paid tier sid t =
     t\<lparr>tn_tier := tier, tn_role := tier_value tier, tn_quota := quota_for_tier tier,
       tn_stripe_subscription_id := sid\<rparr>"

context storage_backend
begin

lemma checkout_holds:
  assumes env: "te_be (ae_tm env) = be" "env_good (ae_tm env)" "\<And>d. doc_ok (JObj d)" "key_ok (tenant_path tid)"
    and good: "good s" and h: "holds (ae_tm env) tid s t"
    and obj: "event_tenant obj = Inr (JStr tid)" "tid \<noteq> []" "get_in obj ''subscription'' (JStr []) = Inr (JStr sid)"
    and price: "first_price (se_subscription se (JStr sid)) = Inr (Some (JStr price))"
      "(tier_value tier, price) \<in> set (se_prices se)" "price \<noteq> []" "distinct (map snd (se_prices se))"
    and run: "checkout_completed env se fr obj (n, s) = (Inr (), n', s')"
  shows "holds (ae_tm env) tid s' (paid tier sid t)"
proof -
  have tier: "price_tier se (JStr price) = Inr tier" by (rule price_tier_paid [OF price(4,2,3)])
  obtain r n1 s1 where u: "update_tier (ae_tm env) (fr_now fr) tid tier (n, s) = (r, n1, s1)"
    by (cases "update_tier (ae_tm env) (fr_now fr) tid tier (n, s)")
  have op: "tenant_op_run (ae_tm env) tid (SetTier tier) (fr_now fr) (n, s) = (r, n1, s1)" using u by simp
  have res: "good s1 \<and> (case r of
      Inr (Some t') \<Rightarrow> op_result (SetTier tier) t t' \<and> holds (ae_tm env) tid s1 t'
    | _ \<Rightarrow> holds (ae_tm env) tid s1 t)"
    using op_holds [OF env good h op] .
  from run u have run': "(case r of Inl e \<Rightarrow> (Inl e, n1, s1) | Inr found \<Rightarrow> set_subscription env (JStr sid) found (n1, s1))
      = (Inr (), n', s')"
    by (simp add: checkout_completed_def obj price(1) tier text_id_def io_bind_run)
  have "r \<noteq> Inr None"
    using u by (auto simp: update_tier_def io_bind_run holds_get [OF h] Let_def split: prod.splits sum.splits)
  with run' obtain t1 where t1: "r = Inr (Some t1)"
    by (cases r) (auto split: option.splits)
  with res have t1': "t1 = t\<lparr>tn_tier := tier, tn_role := tier_value tier, tn_quota := quota_for_tier tier\<rparr>"
      and h1: "holds (ae_tm env) tid s1 t1" and "good s1" by (auto simp: op_result_def)
  define t2 where "t2 = t1\<lparr>tn_stripe_subscription_id := sid\<rparr>"
  have ok: "tenant_ok t2" "tn_tenant_id t2 = tid" using h1 by (simp_all add: holds_def tenant_ok_def t2_def)
  from run' t1 have "save_tenant (ae_tm env) t2 (n1, s1) = (Inr (), n', s')"
    by (simp add: set_subscription_def text_id_def t2_def)
  from save_holds [OF env(1-3) \<open>good s1\<close> env(4) h1 ok this] show ?thesis
    by (simp add: t2_def t1' paid_def)
qed

end

section \<open>Environments to evaluate in\<close>

definition rich_tenant :: tenant where
  "rich_tenant = make_tenant ''tn_1'' ''Ada'' ''a@b.pt'' VIP ''vip'' ''key'' (fr_now sample_fresh)"

definition rich_document :: jdict where
  "rich_document = tenant_dict (ae_tm memory_api)
     (field_encrypt framing_crypto ''m'' ''nonce1234567'' ''key'' ''tn_1'' ''api_key'') ''00'' rich_tenant"

lemma memory_good: "env_good (ae_tm memory_api)"
  using unary_iso_round_trip unary_iso_nonempty framing_crypto_ok by (simp add: env_good_def memory_api_def)

lemma rich_fields:
  "tn_tenant_id rich_tenant = ''tn_1''" "tn_api_key rich_tenant = ''key''" "tn_email rich_tenant = ''a@b.pt''"
  "tn_is_active rich_tenant" "tn_tier rich_tenant = VIP" "tenant_ok rich_tenant"
  by (simp_all add: rich_tenant_def make_tenant_def tenant_post_init_ok) (simp_all add: tenant_post_init_def Let_def)

lemma rich_found:
  "get_tenant (ae_tm memory_api) now ''tn_1'' (n, [(''tenants/tn_1.json'', JObj rich_document)]) =
    (Inr (Some rich_tenant), n, [(''tenants/tn_1.json'', JObj rich_document)])"
proof -
  have tm: "te_crypto (ae_tm memory_api) = framing_crypto" "te_master (ae_tm memory_api) = ''m''"
    "te_rnd (ae_tm memory_api) 0 = ''nonce1234567''" by (simp_all add: memory_api_def)
  have "tenant_from_dict (ae_tm memory_api) now rich_document = Inr rich_tenant"
    unfolding rich_document_def
    by (rule tenant_dict_round_trip [OF memory_good rich_fields(6)])
      (use stored_api_key_encrypted [OF memory_good, of 0 "''key''" rich_tenant] in \<open>simp add: tm rich_fields\<close>)
  then show ?thesis
    by (simp add: get_tenant_def io_bind_run tenant_path_def tenants_prefix_def tenant_from_json_def)
qed

lemma memory_saves: "\<exists>st'. save_tenant (ae_tm memory_api) t (n, s) = (Inr (), st')"
  by (simp add: save_tenant_def tenant_to_dict_def io_bind_run split: prod.splits)

lemma fresh_limiter: "fst (rl_allow 10 ''ip'' (tp_registration_limiter new_tenant_process))"
    "fst (rl_allow 10 ''ip'' (tp_login_limiter new_tenant_process))"
  by (simp_all add: new_tenant_process_def new_rate_limiter_def rl_allow_def prune_idle_keys_def Let_def)

definition sample_caller :: request_state where
  "sample_caller =
     \<lparr>st_tenant_id = JStr ''tn_1'', st_role = JStr ''vip'', st_email = JStr ''a@b.pt'', st_user_id = JStr [],
      st_user_role = JStr []\<rparr>"

lemma memory_creates: "\<exists>t st'. create_tenant (ae_tm memory_api) hex key now name email tier (n, s) = (Inr t, st')"
proof -
  obtain s1 where "io_each (\<lambda>layer. io_write memory_backend (layer @ ''/'' @ (''tn_'' @ hex) @ ''/.partition'')
      (JObj [(''tenant_id'', JStr (''tn_'' @ hex)), (''layer'', JStr layer),
             (''created_at'', JStr (te_iso (ae_tm memory_api) now))]))
      [''bronze'', ''silver'', ''gold'', ''runs''] (n, s) = (Inr (), n, s1)"
    by (simp add: io_bind_run)
  moreover obtain st' where "save_tenant (ae_tm memory_api)
      (make_tenant (''tn_'' @ hex) name email tier (tier_value tier) key now) (n, s1) = (Inr (), st')"
    using memory_saves by blast
  ultimately show ?thesis by (simp add: create_tenant_def Let_def io_bind_run)
qed

lemma memory_token: "\<exists>token. tenant_token memory_api time t = Inr token"
  by (simp add: tenant_token_def create_access_token_def get_secret_def)

lemma sample_registration:
  "\<exists>p' m resp st'. create_tenant_route memory_api False sample_fresh ''ip'' ''Ada'' ''a@b.pt'' True new_tenant_process = (p', m)
     \<and> m (0, []) = (Inr resp, st')"
proof -
  have checks: "register_checks ''Ada'' ''a@b.pt'' True = Inr ()" by code_simp
  obtain rl where rl: "rl_allow (fr_clock sample_fresh) ''ip'' (tp_registration_limiter new_tenant_process) = (True, rl)"
    using fresh_limiter(1) by (cases "rl_allow 10 ''ip'' (tp_registration_limiter new_tenant_process)")
      (simp add: sample_fresh_def)
  obtain t st' where "create_tenant (ae_tm memory_api) (fr_tenant_hex sample_fresh) (fr_api_key sample_fresh)
      (fr_now sample_fresh) ''Ada'' ''a@b.pt'' FREE (0, []) = (Inr t, st')" using memory_creates by blast
  moreover obtain token where "tenant_token memory_api (fr_time sample_fresh) t = Inr token" using memory_token by blast
  ultimately show ?thesis by (simp add: create_tenant_route_def rl checks io_bind_run Let_def)
qed

lemma sample_key_login:
  "\<exists>p' m resp st'. login_tenant_route memory_api sample_fresh ''ip'' ''tn_1'' ''a@b.pt'' ''key'' new_tenant_process = (p', m)
     \<and> m (0, [(''tenants/tn_1.json'', JObj rich_document)]) = (Inr resp, st')"
proof -
  obtain rl where rl: "rl_allow (fr_clock sample_fresh) ''ip'' (tp_login_limiter new_tenant_process) = (True, rl)"
    using fresh_limiter(2) by (cases "rl_allow 10 ''ip'' (tp_login_limiter new_tenant_process)")
      (simp add: sample_fresh_def)
  have "check_login ''a@b.pt'' ''key'' (Some rich_tenant) = Inr rich_tenant"
    by (simp add: check_login_Inr rich_fields)
  moreover obtain token where "tenant_token memory_api (fr_time sample_fresh) rich_tenant = Inr token"
    using memory_token by blast
  ultimately show ?thesis by (simp add: login_tenant_route_def rl rich_found io_bind_run Let_def)
qed

lemma sample_feature_update:
  "\<exists>st'. update_tenant_config memory_api sample_fresh (Some sample_caller)
       (no_update\<lparr>cu_use_local_llm := Some True, cu_rag_enabled := Some True\<rparr>)
       (0, [(''tenants/tn_1.json'', JObj rich_document)]) = (Inr (), st')"
proof -
  have "RequirePermission \<lparr>custom_roles = []\<rparr> MANAGE_API_KEYS (Some sample_caller) = Inr ()"
    by (simp add: RequirePermission_iff sample_caller_def claims_access_text check_access_def has_permission_def
        get_permissions_def tier_roles_def all_permissions_def)
  moreover have "ae_policy memory_api = \<lparr>custom_roles = []\<rparr>" by (simp add: memory_api_def)
  moreover have "current_tenant (Some sample_caller) = Inr ''tn_1''"
    by (simp add: current_tenant_def get_current_tenant_id_def sample_caller_def text_id_def)
  moreover have "\<not> gives_secret (no_update\<lparr>cu_use_local_llm := Some True, cu_rag_enabled := Some True\<rparr>)"
    by (simp add: gives_secret_def secret_fields_def no_update_def)
  moreover obtain st' where "save_tenant (ae_tm memory_api) (rich_tenant\<lparr>tn_config := set_plain_fields
      (no_update\<lparr>cu_use_local_llm := Some True, cu_rag_enabled := Some True\<rparr>) (tn_config rich_tenant)\<rparr>)
      (0, [(''tenants/tn_1.json'', JObj rich_document)]) = (Inr (), st')" using memory_saves by blast
  ultimately show ?thesis
    by (simp add: update_tenant_config_def permitted_def io_bind_run tier_gate_def rich_found rich_fields
        update_config_def no_update_def Let_def)
qed

definition disk_api :: "files api_env" where
  "disk_api =
     \<lparr>ae_tm = sample_env, ae_um = \<lparr>um_be = sample_backend, um_iso = unary_iso, um_from_iso = unary_from_iso\<rparr>,
      ae_jwt = sample_jwt, ae_jwt_secret = ''k'', ae_policy = \<lparr>custom_roles = []\<rparr>, ae_owner_email = ''o@b.pt'',
      ae_google_client_id = [], ae_google = (\<lambda>t c. None)\<rparr>"

definition sample_checkout :: json where
  "sample_checkout =
     JObj [(''metadata'', JObj [(''velaflow_tenant_id'', JStr ''tn_1'')]), (''subscription'', JStr ''sub_9'')]"

definition sample_stripe :: stripe_env where
  "sample_stripe =
     \<lparr>se_secret_key = ''sk'', se_webhook_secret = ''wh'',
      se_prices = [(''standard'', ''p1''), (''premium'', ''p2''), (''vip'', ''p3'')], se_installed = True,
      se_urlparse = (\<lambda>u. (None, [])), se_create_customer = (\<lambda>e t. ''cus''),
      se_create_session = (\<lambda>a b c d e. ''url''),
      se_construct_event = (\<lambda>payload sig secret. if sig = ''v1''
         then Some [(''type'', JStr ''checkout.session.completed''), (''data'', JObj [(''object'', sample_checkout)])]
         else None),
      se_subscription = (\<lambda>sid. [(''items'', JObj [(''data'', JArr [JObj [(''price'', JObj [(''id'', JStr ''p3'')])]])])])\<rparr>"

lemma sample_event:
  "event_tenant sample_checkout = Inr (JStr ''tn_1'')"
  "get_in sample_checkout ''subscription'' (JStr []) = Inr (JStr ''sub_9'')"
  "first_price (se_subscription sample_stripe sid) = Inr (Some (JStr ''p3''))"
  by (simp_all add: sample_checkout_def event_tenant_def get_in_def get_or_empty_def first_price_def sample_stripe_def)

lemma sample_prices:
  "(tier_value VIP, ''p3'') \<in> set (se_prices sample_stripe)" "distinct (map snd (se_prices sample_stripe))"
  by (simp_all add: sample_stripe_def)

lemma sample_checkout_runs:
  "checkout_completed disk_api sample_stripe sample_fresh sample_checkout (0, sample_files) =
    (Inr (), 0, [(\<lparr>pp_root = Slash, pp_parts = [''data'', ''tenants'', ''tn_1.json'']\<rparr>,
                  JsonFile (JObj (tenant_dict sample_env [] [] (paid VIP ''sub_9'' sample_tenant))))])"
proof -
  have "price_tier sample_stripe (JStr ''p3'') = Inr VIP"
    by (rule price_tier_paid [OF sample_prices(2,1)]) simp
  moreover have tm: "ae_tm disk_api = sample_env" by (simp add: disk_api_def)
  ultimately show ?thesis
    by (simp add: checkout_completed_def sample_event text_id_def io_bind_run update_tier_def
        holds_get [OF sample_holds] sample_save sample_save_over sample_tenant_ok set_subscription_def
        paid_def Let_def)
qed

section \<open>Properties\<close>

text \<open>Registration is checked: an account is only made where open registration is on, the address is under
its rate, the terms were accepted, the name has 1 to 128 word, space, dot, at or dash characters (one final
newline more slips through) and the address has the form of an email; it is on the free tier with that name
and address, and the token handed out is signed for it with the free role.\<close>

theorem registration_guarded:
  assumes "create_tenant_route env disabled fr ip name email tos p = (p', m)" and "m st = (Inr resp, st')"
  shows "\<not> disabled \<and> fst (rl_allow (fr_clock fr) ip (tp_registration_limiter p)) \<and> tos
    \<and> name \<noteq> [] \<and> list_all name_char name \<and> (length name \<le> 128 \<or> length name = 129 \<and> last name = CHR 0x0A)
    \<and> (\<exists>a b c r. email = a @ ''@'' @ b @ ''.'' @ c @ r \<and> a \<noteq> [] \<and> b \<noteq> [] \<and> 2 \<le> length c
         \<and> list_all email_local_char a \<and> list_all email_domain_char b \<and> list_all ascii_letter c
         \<and> r \<in> {[], [CHR 0x0A]})
    \<and> (\<exists>t. create_tenant (ae_tm env) (fr_tenant_hex fr) (fr_api_key fr) (fr_now fr) name email FREE st = (Inr t, st')
         \<and> tn_tier t = FREE \<and> tn_name t = name \<and> tn_email t = email \<and> to_tenant_id resp = tn_tenant_id t
         \<and> create_access_token (ae_jwt env) (ae_jwt_secret env) (fr_time fr) (tn_tenant_id t) ''free'' email 3600
             None [] [] = Inr (to_access_token resp))"
proof -
  note r = create_tenant_route_Inr [OF assms]
  then have checks: "tos" "re_match safe_name name" "re_match valid_email email" by (simp_all add: register_checks_Inr)
  from r obtain t where t: "create_tenant (ae_tm env) (fr_tenant_hex fr) (fr_api_key fr) (fr_now fr) name email FREE st = (Inr t, st')"
      "tenant_token env (fr_time fr) t = Inr (to_access_token resp)" "to_tenant_id resp = tn_tenant_id t" by blast
  have "t = make_tenant (''tn_'' @ fr_tenant_hex fr) name email FREE ''free'' (fr_api_key fr) (fr_now fr)"
    using create_tenant_Inr [OF t(1)] by simp
  then have f: "tn_tier t = FREE" "tn_name t = name" "tn_email t = email" "tn_role t = ''free''"
    by (simp_all add: make_tenant_fields)
  from t(2) [unfolded tenant_token_Inr] have "create_access_token (ae_jwt env) (ae_jwt_secret env) (fr_time fr)
      (tn_tenant_id t) ''free'' email 3600 None [] [] = Inr (to_access_token resp)" by (simp add: f)
  with t f have acc: "\<exists>t. create_tenant (ae_tm env) (fr_tenant_hex fr) (fr_api_key fr) (fr_now fr) name email FREE st = (Inr t, st')
         \<and> tn_tier t = FREE \<and> tn_name t = name \<and> tn_email t = email \<and> to_tenant_id resp = tn_tenant_id t
         \<and> create_access_token (ae_jwt env) (ae_jwt_secret env) (fr_time fr) (tn_tenant_id t) ''free'' email 3600
             None [] [] = Inr (to_access_token resp)" by blast
  from r safe_name_shape checks(2) valid_email_shape [OF checks(3)] checks(1) acc show ?thesis by blast
qed

theorem registration_guarded_witness:
  "\<exists>(resp :: token_response) t st'. to_tenant_id resp = tn_tenant_id t \<and> tn_tier t = FREE
     \<and> create_tenant (ae_tm memory_api) ''08'' ''key'' (fr_now sample_fresh) ''Ada'' ''a@b.pt'' FREE (0, []) = (Inr t, st')"
proof -
  from sample_registration obtain p' m resp st' where
    "create_tenant_route memory_api False sample_fresh ''ip'' ''Ada'' ''a@b.pt'' True new_tenant_process = (p', m)"
    "m (0, []) = (Inr resp, st')" by blast
  from registration_guarded [OF this] obtain t where
    t: "create_tenant (ae_tm memory_api) (fr_tenant_hex sample_fresh) (fr_api_key sample_fresh) (fr_now sample_fresh)
      ''Ada'' ''a@b.pt'' FREE (0, []) = (Inr t, st')" "tn_tier t = FREE" "to_tenant_id resp = tn_tenant_id t" by blast
  have f: "fr_tenant_hex sample_fresh = ''08''" "fr_api_key sample_fresh = ''key''" by (simp_all add: sample_fresh_def)
  show ?thesis using t(1) [unfolded f] t(2,3) by blast
qed

text \<open>An API-key login proves possession of the key: it succeeds only under the address's rate limit, for a
stored, active tenant whose email is the given one and whose non-empty stored key is the given one; the
token handed out is signed for that tenant with its role, and the storage is not changed.\<close>

theorem tenant_login_needs_key:
  assumes "login_tenant_route env fr ip tid email key p = (p', m)" and "m (n, s) = (Inr resp, st')"
  shows "fst (rl_allow (fr_clock fr) ip (tp_login_limiter p)) \<and> st' = (n, s)
    \<and> (\<exists>t. get_tenant (ae_tm env) (fr_now fr) tid (n, s) = (Inr (Some t), n, s)
         \<and> tn_is_active t \<and> tn_email t = email \<and> key \<noteq> [] \<and> tn_api_key t = key \<and> to_tenant_id resp = tn_tenant_id t
         \<and> create_access_token (ae_jwt env) (ae_jwt_secret env) (fr_time fr) (tn_tenant_id t) (tn_role t) email
             3600 None [] [] = Inr (to_access_token resp))"
proof -
  from assms have rate: "fst (rl_allow (fr_clock fr) ip (tp_login_limiter p))"
    by (cases "rl_allow (fr_clock fr) ip (tp_login_limiter p)")
      (auto simp: login_tenant_route_def Let_def split: if_splits)
  with assms obtain found st1 t token where get: "get_tenant (ae_tm env) (fr_now fr) tid (n, s) = (Inr found, st1)"
      and t: "check_login email key found = Inr t" "tenant_token env (fr_time fr) t = Inr token" and st': "st' = st1"
      and resp: "resp = \<lparr>to_access_token = token, to_tenant_id = tn_tenant_id t, to_api_key = None\<rparr>"
    by (cases "rl_allow (fr_clock fr) ip (tp_login_limiter p)")
      (auto simp: login_tenant_route_def Let_def io_bind_Inr)
  from get have "st1 = (n, s)" by (rule get_tenant_state)
  with get t st' rate resp show ?thesis by (auto simp: check_login_Inr tenant_token_Inr)
qed

theorem tenant_login_needs_key_witness:
  "\<exists>t. get_tenant (ae_tm memory_api) (fr_now sample_fresh) ''tn_1'' (0, [(''tenants/tn_1.json'', JObj rich_document)])
       = (Inr (Some t), 0, [(''tenants/tn_1.json'', JObj rich_document)]) \<and> tn_is_active t \<and> tn_api_key t = ''key''"
proof -
  from sample_key_login obtain p' m resp st' where
    "login_tenant_route memory_api sample_fresh ''ip'' ''tn_1'' ''a@b.pt'' ''key'' new_tenant_process = (p', m)"
    "m (0, [(''tenants/tn_1.json'', JObj rich_document)]) = (Inr resp, st')" by blast
  from tenant_login_needs_key [OF this] show ?thesis by auto
qed

text \<open>Paid features need their tier: a configuration update that turns the local model on succeeds only for
a premium or VIP tenant, and one that turns RAG on only for a VIP tenant, whatever else it carries.\<close>

theorem paid_features_need_their_tier:
  assumes "update_tenant_config env fr (Some rs) body (n, s) = (Inr (), st')"
    and "st_tenant_id rs = JStr tid" and "get_tenant (ae_tm env) (fr_now fr) tid (n, s) = (Inr (Some t), n, s)"
  shows "RequirePermission (ae_policy env) MANAGE_API_KEYS (Some rs) = Inr ()
    \<and> (cu_use_local_llm body = Some True \<longrightarrow> tn_tier t \<in> {PREMIUM, VIP})
    \<and> (cu_rag_enabled body = Some True \<longrightarrow> tn_tier t = VIP)"
proof -
  from assms(1,2) obtain tid' st1 st2 where req: "RequirePermission (ae_policy env) MANAGE_API_KEYS (Some rs) = Inr ()"
    and tid: "current_tenant (Some rs) = Inr tid'"
    and g1: "tier_gate env fr tid' (cu_use_local_llm body) [PREMIUM, VIP] ''Local LLM requires Premium or VIP tier'' (n, s) = (Inr (), st1)"
    and g2: "tier_gate env fr tid' (cu_rag_enabled body) [VIP] ''Native RAG requires VIP tier'' st1 = (Inr (), st2)"
    by (auto simp: update_tenant_config_def permitted_Inr io_bind_Inr)
  have "tid' = tid"
    using tid assms(2) by (auto simp: current_tenant_def get_current_tenant_id_def text_id_def split: if_splits)
  moreover have "st1 = (n, s)" using g1 by (rule tier_gate_state)
  ultimately show ?thesis using req g1 g2 tier_gate_Inr assms(3) by fastforce
qed

theorem paid_features_need_their_tier_witness:
  "RequirePermission (ae_policy memory_api) MANAGE_API_KEYS (Some sample_caller) = Inr () \<and> tn_tier rich_tenant = VIP"
proof -
  from sample_feature_update obtain st' where u: "update_tenant_config memory_api sample_fresh (Some sample_caller)
       (no_update\<lparr>cu_use_local_llm := Some True, cu_rag_enabled := Some True\<rparr>)
       (0, [(''tenants/tn_1.json'', JObj rich_document)]) = (Inr (), st')" ..
  show ?thesis
    using paid_features_need_their_tier [OF u _ rich_found] by (simp add: sample_caller_def no_update_def)
qed

text \<open>Nothing but Stripe changes a tier through the webhook: a webhook call that changes the storage carried a
payload whose signature verified under the configured secret, and its event is a completed checkout or a
deleted subscription that names a tenant.\<close>

theorem webhook_changes_need_signature:
  assumes "stripe_webhook env se fr payload sig (n, s) = (r, n', s')" and "s' \<noteq> s"
  shows "se_webhook_secret se \<noteq> [] \<and> (\<exists>event tenant_id.
      se_construct_event se payload sig (se_webhook_secret se) = Some event
    \<and> dget event ''type'' (JStr []) \<in> {JStr ''checkout.session.completed'', JStr ''customer.subscription.deleted''}
    \<and> event_tenant (get_or_empty (dget event ''data'' (JObj [])) ''object'') = Inr tenant_id \<and> jtruthy tenant_id)"
proof -
  obtain event where e: "se_webhook_secret se \<noteq> []" "se_construct_event se payload sig (se_webhook_secret se) = Some event"
      "stripe_event env se fr event (n, s) = (r, n', s')"
    using assms by (auto simp: stripe_webhook_def split: if_splits option.splits)
  define obj where "obj = get_or_empty (dget event ''data'' (JObj [])) ''object''"
  have "dget event ''type'' (JStr []) \<in> {JStr ''checkout.session.completed'', JStr ''customer.subscription.deleted''}"
    using e(3) assms(2) payment_failed_state [of env fr obj n s r "(n', s')"]
    by (auto simp: stripe_event_def obj_def Let_def split: if_splits)
  moreover from this obtain tenant_id where "event_tenant obj = Inr tenant_id" "jtruthy tenant_id"
    using e(3) assms(2)
    by (cases "event_tenant obj")
      (auto simp: stripe_event_def obj_def [symmetric] Let_def checkout_completed_def subscription_deleted_def
        split: if_splits)
  ultimately show ?thesis using e(1,2) unfolding obj_def by blast
qed

theorem webhook_changes_need_signature_witness:
  "se_webhook_secret sample_stripe \<noteq> [] \<and> (\<exists>e. se_construct_event sample_stripe [] ''v1'' ''wh'' = Some e)"
proof -
  have run: "stripe_webhook disk_api sample_stripe sample_fresh [] ''v1'' (0, sample_files) =
    (Inr (), 0, [(\<lparr>pp_root = Slash, pp_parts = [''data'', ''tenants'', ''tn_1.json'']\<rparr>,
                  JsonFile (JObj (tenant_dict sample_env [] [] (paid VIP ''sub_9'' sample_tenant))))])"
    using sample_checkout_runs
    by (simp add: stripe_webhook_def stripe_event_def get_or_empty_def sample_stripe_def [THEN arg_cong, of se_construct_event]
        sample_stripe_def [THEN arg_cong, of se_webhook_secret] sample_stripe_def [THEN arg_cong, of se_installed])
  have "[(\<lparr>pp_root = Slash, pp_parts = [''data'', ''tenants'', ''tn_1.json'']\<rparr>,
      JsonFile (JObj (tenant_dict sample_env [] [] (paid VIP ''sub_9'' sample_tenant))))] \<noteq> sample_files"
    by (simp add: sample_files_def tenant_dict_def paid_def sample_tenant_def make_tenant_def tenant_post_init_def Let_def)
  from webhook_changes_need_signature [OF run this] show ?thesis by (auto simp: sample_stripe_def)
qed

text \<open>C33. The tier that was paid for is the tier the tenant gets: after a completed checkout, on the file system,
the tenant named in the event's metadata has the tier whose configured price the subscription bears, with
that tier's role and quota and the subscription's id, and is otherwise unchanged.\<close>

theorem paid_tier_is_set:
  assumes "te_be (ae_tm env) = local_backend parse render base" and "env_good (ae_tm env)" and "simple_id tid"
    and "holds (ae_tm env) tid fs t"
    and "event_tenant obj = Inr (JStr tid)" and "tid \<noteq> []"
    and "get_in obj ''subscription'' (JStr []) = Inr (JStr sid)"
    and "first_price (se_subscription se (JStr sid)) = Inr (Some (JStr price))"
    and "(tier_value tier, price) \<in> set (se_prices se)" and "price \<noteq> []" and "distinct (map snd (se_prices se))"
    and "checkout_completed env se fr obj (n, fs) = (Inr (), n', fs')"
  shows "holds (ae_tm env) tid fs' (paid tier sid t)"
  by (rule local_store.checkout_holds [OF assms(1,2) TrueI tenant_path_canonical [OF assms(3)] TrueI assms(4-12)])

theorem paid_tier_is_set_witness:
  "\<exists>fs. holds sample_env ''tn_1'' fs (paid VIP ''sub_9'' sample_tenant)"
proof -
  have tm: "ae_tm disk_api = sample_env" by (simp add: disk_api_def)
  have "holds (ae_tm disk_api) ''tn_1'' [(\<lparr>pp_root = Slash, pp_parts = [''data'', ''tenants'', ''tn_1.json'']\<rparr>,
      JsonFile (JObj (tenant_dict sample_env [] [] (paid VIP ''sub_9'' sample_tenant))))] (paid VIP ''sub_9'' sample_tenant)"
    by (rule paid_tier_is_set [OF _ _ sample_simple _ sample_event(1) _ sample_event(2,3) sample_prices(1) _
        sample_prices(2) sample_checkout_runs])
      (simp_all add: tm sample_env_be sample_env_good sample_holds)
  then show ?thesis unfolding tm by blast
qed

end
