(* ===== verification/Rag.thy ===== *)
theory Rag
  imports Sanitize Accounts
begin

text \<open>
  Retrieval over a tenant's documents: \<open>src/brain/rag.py\<close> (chunker, vector store, hashing embedder,
  pipeline) and its routes \<open>src/brain/api/routes/rag.py\<close>. The vector table is the association list from
  chunk ids to rows its primary key makes of it. Parameters stand for the hash functions, for what DuckDB
  computes (the similarity of two vectors, and the order it reads a table in, which breaks ties of the
  score) and for the text of a score; floats are real numbers and a row holds its metadata as the document.
\<close>

section \<open>Chunks\<close>

definition DEFAULT_CHUNK_SIZE :: nat where "DEFAULT_CHUNK_SIZE = 512"
definition DEFAULT_CHUNK_OVERLAP :: nat where "DEFAULT_CHUNK_OVERLAP = 64"
definition MAX_DOCUMENT_SIZE_BYTES :: nat where "MAX_DOCUMENT_SIZE_BYTES = 5 * 1024 * 1024"

record document_chunk =
  dk_chunk_id :: string
  dk_document_id :: string
  dk_tenant_id :: string
  dk_content :: string
  dk_metadata :: jdict
  dk_embedding :: "real list"

record retrieval_result =
  rr_chunk_id :: string
  rr_document_id :: string
  rr_content :: string
  rr_score :: real
  rr_metadata :: jdict

text \<open>What the module calls and does not define.\<close>

record rag_lib =
  rg_sha256hex :: "string \<Rightarrow> string"
  rg_md5 :: "string \<Rightarrow> nat"
  rg_similarity :: "real list \<Rightarrow> real list \<Rightarrow> real"
  rg_scan :: "(string \<times> document_chunk) list \<Rightarrow> (string \<times> document_chunk) list"
  rg_score_text :: "real \<Rightarrow> string"

record chunker =
  ck_size :: nat
  ck_overlap :: nat

definition new_chunker :: "nat \<Rightarrow> nat \<Rightarrow> chunker res" where
  "new_chunker chunk_size overlap =
     (if chunk_size \<le> overlap then Inl (ValueError ''chunk_size must be greater than chunk_overlap'')
      else Inr \<lparr>ck_size = chunk_size, ck_overlap = overlap\<rparr>)"

definition sentence_end :: "char \<Rightarrow> bool" where
  "sentence_end c \<longleftrightarrow> c = CHR ''.'' \<or> c = CHR ''!'' \<or> c = CHR ''?''"

text \<open>\<open>re.split(r"(?<=[.!?])\s+", text)\<close>: a run of white space after an end mark separates. The first
  argument says whether the character before is an end mark.\<close>

function split_sentences :: "bool \<Rightarrow> string \<Rightarrow> string list" where
  "split_sentences ended [] = [[]]"
| "split_sentences ended (c # s) =
     (if ended \<and> re_space c then [] # split_sentences False (dropWhile re_space s)
      else case split_sentences (sentence_end c) s of
             w # ws \<Rightarrow> (c # w) # ws
           | [] \<Rightarrow> [[c]])"
  by pat_completeness auto
termination
  by (relation "measure (\<lambda>(e, s). length s)") (auto simp: length_dropWhile_le le_imp_less_Suc)

abbreviation join_sentences :: "string list \<Rightarrow> string" where
  "join_sentences ws \<equiv> py_join '' '' ws"

text \<open>The trailing sentences repeated in the next chunk; the list is traversed from its end.\<close>

fun keep_overlap :: "nat \<Rightarrow> string list \<Rightarrow> string list \<Rightarrow> string list" where
  "keep_overlap overlap [] kept = kept"
| "keep_overlap overlap (s # rest) kept =
     (if length (join_sentences kept) + length s > overlap then kept
      else keep_overlap overlap rest (s # kept))"

text \<open>The contents of the chunks, from the sentences left, the current chunk and its length.\<close>

fun pack :: "nat \<Rightarrow> nat \<Rightarrow> string list \<Rightarrow> string list \<Rightarrow> nat \<Rightarrow> string list" where
  "pack chunk_size overlap [] current len = (if current \<noteq> [] then [join_sentences current] else [])"
| "pack chunk_size overlap (s # ss) current len =
     (if len + length s > chunk_size \<and> current \<noteq> []
      then join_sentences current #
             (let kept = keep_overlap overlap (rev current) []
              in pack chunk_size overlap ss (kept @ [s]) (length (join_sentences kept) + length s))
      else pack chunk_size overlap ss (current @ [s]) (len + length s))"

definition make_chunk_id :: "rag_lib \<Rightarrow> string \<Rightarrow> nat \<Rightarrow> string" where
  "make_chunk_id lib document_id index =
     take 16 (rg_sha256hex lib (document_id @ '':'' @ int_text (int index)))"

definition chunk ::
    "rag_lib \<Rightarrow> chunker \<Rightarrow> string \<Rightarrow> string \<Rightarrow> string \<Rightarrow> jdict \<Rightarrow> document_chunk list res" where
  "chunk lib ck t document_id tenant_id metadata =
     (if strip_spaces t = [] then Inr []
      else if length (utf8_encode t) > MAX_DOCUMENT_SIZE_BYTES
      then Inl (ValueError ''Document exceeds 5242880 byte limit'')
      else Inr (map (\<lambda>(i, content).
                  \<lparr>dk_chunk_id = make_chunk_id lib document_id i, dk_document_id = document_id,
                   dk_tenant_id = tenant_id, dk_content = content, dk_metadata = metadata, dk_embedding = []\<rparr>)
                (enumerate 0 (pack (ck_size ck) (ck_overlap ck) (split_sentences False (strip_spaces t)) [] 0))))"

section \<open>The vector store\<close>

type_synonym rag_table = "(string \<times> document_chunk) list"

definition store_chunks :: "document_chunk list \<Rightarrow> rag_table \<Rightarrow> int \<times> rag_table" where
  "store_chunks chunks tab =
     (int (length chunks), fold (\<lambda>c. AList.update (dk_chunk_id c) c) chunks tab)"

definition scored :: "rag_lib \<Rightarrow> real list \<Rightarrow> document_chunk \<Rightarrow> retrieval_result" where
  "scored lib q c =
     \<lparr>rr_chunk_id = dk_chunk_id c, rr_document_id = dk_document_id c, rr_content = dk_content c,
      rr_score = rg_similarity lib (dk_embedding c) q, rr_metadata = dk_metadata c\<rparr>"

definition search :: "rag_lib \<Rightarrow> string \<Rightarrow> real list \<Rightarrow> nat \<Rightarrow> rag_table \<Rightarrow> retrieval_result list" where
  "search lib tenant_id q top_k tab =
     (if q = [] then []
      else take top_k (sort_key (\<lambda>r. - rr_score r)
             (map (scored lib q \<circ> snd)
                (filter (\<lambda>(k, c). dk_tenant_id c = tenant_id \<and> dk_embedding c \<noteq> []) (rg_scan lib tab)))))"

definition delete_document :: "string \<Rightarrow> string \<Rightarrow> rag_table \<Rightarrow> int \<times> rag_table" where
  "delete_document tenant_id document_id tab =
     (let hit = (\<lambda>(k, c). dk_tenant_id c = tenant_id \<and> dk_document_id c = document_id)
      in (int (length (filter hit tab)), filter (\<lambda>row. \<not> hit row) tab))"

definition count_documents :: "string \<Rightarrow> rag_table \<Rightarrow> int" where
  "count_documents tenant_id tab =
     int (length (remdups (map (dk_document_id \<circ> snd) (filter (\<lambda>(k, c). dk_tenant_id c = tenant_id) tab))))"

definition purge_tenant :: "string \<Rightarrow> rag_table \<Rightarrow> int \<times> rag_table" where
  "purge_tenant tenant_id tab =
     (let hit = (\<lambda>(k, c). dk_tenant_id c = tenant_id)
      in (int (length (filter hit tab)), filter (\<lambda>row. \<not> hit row) tab))"

section \<open>The embedder\<close>

text \<open>\<open>str.split\<close> on white space.\<close>

fun words_of :: "string \<Rightarrow> string list" where
  "words_of [] = []"
| "words_of (c # s) =
     (if re_space c then words_of s
      else case s of
             [] \<Rightarrow> [[c]]
           | d # _ \<Rightarrow> if re_space d then [c] # words_of s
                     else (case words_of s of w # ws \<Rightarrow> (c # w) # ws | [] \<Rightarrow> [[c]]))"

definition trigrams :: "string \<Rightarrow> string list" where
  "trigrams token = map (\<lambda>j. take 3 (drop j token)) [0 ..< length token - 2]"

definition add_trigram :: "rag_lib \<Rightarrow> nat \<Rightarrow> nat \<Rightarrow> string \<Rightarrow> real list \<Rightarrow> real list" where
  "add_trigram lib dimension i trigram v =
     (let idx = rg_md5 lib trigram mod dimension
      in v[idx := v ! idx + 1 / (1 + real i * (1 / 100))])"

definition raw_vector :: "rag_lib \<Rightarrow> nat \<Rightarrow> string \<Rightarrow> real list" where
  "raw_vector lib dimension t =
     fold (\<lambda>(i, token) v. fold (add_trigram lib dimension i) (trigrams token) v)
       (enumerate 0 (words_of (map lower_latin t))) (replicate dimension 0)"

definition normalize :: "real list \<Rightarrow> real list" where
  "normalize v =
     (let norm = sqrt (sum_list (map (\<lambda>x. x * x) v))
      in if norm > 0 then map (\<lambda>x. x / norm) v else v)"

definition embed :: "rag_lib \<Rightarrow> nat \<Rightarrow> string \<Rightarrow> real list" where
  "embed lib dimension t = (if t = [] then replicate dimension 0 else normalize (raw_vector lib dimension t))"

definition embed_batch :: "rag_lib \<Rightarrow> nat \<Rightarrow> string list \<Rightarrow> real list list" where
  "embed_batch lib dimension texts = map (embed lib dimension) texts"

section \<open>The pipeline\<close>

record rag_pipeline =
  rp_lib :: rag_lib
  rp_dim :: nat
  rp_chunker :: chunker

definition ingest ::
    "rag_pipeline \<Rightarrow> string \<Rightarrow> string \<Rightarrow> string \<Rightarrow> jdict \<Rightarrow> int \<Rightarrow> rag_table \<Rightarrow> int res \<times> rag_table" where
  "ingest rp t document_id tenant_id metadata max_documents tab =
     (let current = count_documents tenant_id tab in
      if max_documents > 0 \<and> current \<ge> max_documents
      then (Inl (PermissionError (''Document quota exceeded: '' @ int_text current @ ''/'' @ int_text max_documents)), tab)
      else case chunk (rp_lib rp) (rp_chunker rp) (sanitize_for_llm MAX_LLM_PROMPT_LENGTH t) document_id
                  tenant_id metadata of
             Inl e \<Rightarrow> (Inl e, tab)
           | Inr chunks \<Rightarrow>
               (let (n, tab') = store_chunks
                      (map (\<lambda>c. c\<lparr>dk_embedding := embed (rp_lib rp) (rp_dim rp) (dk_content c)\<rparr>) chunks) tab
                in (Inr n, tab')))"

definition query :: "rag_pipeline \<Rightarrow> string \<Rightarrow> string \<Rightarrow> nat \<Rightarrow> rag_table \<Rightarrow> retrieval_result list" where
  "query rp query_text tenant_id top_k tab =
     search (rp_lib rp) tenant_id
       (embed (rp_lib rp) (rp_dim rp) (sanitize_for_llm MAX_LLM_PROMPT_LENGTH query_text)) top_k tab"

definition source_block :: "rag_pipeline \<Rightarrow> nat \<times> retrieval_result \<Rightarrow> string" where
  "source_block rp = (\<lambda>(i, r).
     ''[Source '' @ int_text (int i) @ ''] (relevance: '' @ rg_score_text (rp_lib rp) (rr_score r) @ '')''
       @ CHR 0x0A # rr_content r)"

definition augment_prompt :: "rag_pipeline \<Rightarrow> string \<Rightarrow> string \<Rightarrow> string \<Rightarrow> nat \<Rightarrow> rag_table \<Rightarrow> string" where
  "augment_prompt rp query_text tenant_id system_prompt top_k tab =
     (let results = query rp query_text tenant_id top_k tab in
      if results = [] then system_prompt
      else system_prompt @ [CHR 0x0A, CHR 0x0A] @ ''--- Retrieved Context (RAG) ---'' @ [CHR 0x0A]
             @ ''Use the following sources to ground your response. ''
             @ ''Cite source numbers when referencing specific information.'' @ [CHR 0x0A, CHR 0x0A]
             @ py_join [CHR 0x0A, CHR 0x0A] (map (source_block rp) (enumerate 1 results))
             @ [CHR 0x0A] @ ''--- End Retrieved Context ---'')"

section \<open>Routes\<close>

definition doc_quota_by_tier :: "(string \<times> int) list" where
  "doc_quota_by_tier = [(''demo'', 5), (''vip'', 1000), (''admin'', 0)]"

definition tenant_quota_for :: "string \<Rightarrow> int" where
  "tenant_quota_for role = dget doc_quota_by_tier role 0"

text \<open>The role the quota is read for. The configuration of a tenant has no field \<open>tier\<close>, so
  \<open>getattr(tenant.config, "tier", None)\<close> is \<open>None\<close>.\<close>

definition config_tier :: "tenant_config \<Rightarrow> tenant_tier option" where
  "config_tier c = None"

definition current_role_for_quota :: "'s api_env \<Rightarrow> fresh \<Rightarrow> string \<Rightarrow> ('s, string) io" where
  "current_role_for_quota env fr tid =
     io_catch
       (io_bind (get_tenant (ae_tm env) (fr_now fr) tid) (\<lambda>found.
          io_ret (case found of
             None \<Rightarrow> ''free''
           | Some t \<Rightarrow> (case config_tier (tn_config t) of Some tier \<Rightarrow> tier_value tier | None \<Rightarrow> ''free''))))
       (\<lambda>_. io_ret ''premium'')"

record ingest_request =
  ig_document_id :: string
  ig_text :: string
  ig_metadata :: jdict

definition ingest_valid :: "ingest_request \<Rightarrow> bool" where
  "ingest_valid b \<longleftrightarrow> 1 \<le> length (ig_document_id b) \<and> length (ig_document_id b) \<le> 256 \<and> ig_text b \<noteq> []"

record query_request =
  qr_query :: string
  qr_top_k :: int

definition query_valid :: "query_request \<Rightarrow> bool" where
  "query_valid b \<longleftrightarrow> 1 \<le> length (qr_query b) \<and> length (qr_query b) \<le> 4096 \<and> 1 \<le> qr_top_k b \<and> qr_top_k b \<le> 20"

text \<open>Every route: the permission, the tenant of the token, then the body, which is given the tenant and
  the role for the quota. The table is part of the state.\<close>

definition rag_caller :: "'s api_env \<Rightarrow> request_state option \<Rightarrow> string res" where
  "rag_caller env st = rbind (RequirePermission (ae_policy env) USE_RAG st) (\<lambda>_. current_tenant st)"

definition ingest_error :: "py_error \<Rightarrow> py_error" where
  "ingest_error e =
     (case e of PermissionError m \<Rightarrow> HTTPException 429 m | ValueError m \<Rightarrow> HTTPException 400 m | _ \<Rightarrow> e)"

definition ingest_document ::
    "'s api_env \<Rightarrow> rag_pipeline \<Rightarrow> fresh \<Rightarrow> request_state option \<Rightarrow> ingest_request \<Rightarrow> nat \<times> 's \<Rightarrow> rag_table \<Rightarrow>
     (string \<times> int) res \<times> rag_table" where
  "ingest_document env rp fr st body store tab =
     (if \<not> ingest_valid body then (Inl (HTTPException 422 ''Validation error''), tab)
      else case rag_caller env st of
             Inl e \<Rightarrow> (Inl e, tab)
           | Inr tid \<Rightarrow>
               (case fst (current_role_for_quota env fr tid store) of
                  Inl e \<Rightarrow> (Inl e, tab)
                | Inr role \<Rightarrow>
                    (case ingest rp (ig_text body) (ig_document_id body) tid (ig_metadata body)
                            (tenant_quota_for role) tab of
                       (Inl e, tab') \<Rightarrow> (Inl (ingest_error e), tab')
                     | (Inr n, tab') \<Rightarrow> (Inr (ig_document_id body, n), tab'))))"

definition query_documents ::
    "'s api_env \<Rightarrow> rag_pipeline \<Rightarrow> request_state option \<Rightarrow> query_request \<Rightarrow> rag_table \<Rightarrow> retrieval_result list res" where
  "query_documents env rp st body tab =
     (if \<not> query_valid body then Inl (HTTPException 422 ''Validation error'')
      else rbind (rag_caller env st) (\<lambda>tid. Inr (query rp (qr_query body) tid (nat (qr_top_k body)) tab)))"

definition rag_stats ::
    "'s api_env \<Rightarrow> fresh \<Rightarrow> request_state option \<Rightarrow> nat \<times> 's \<Rightarrow> rag_table \<Rightarrow> (int \<times> int) res" where
  "rag_stats env fr st store tab =
     rbind (rag_caller env st) (\<lambda>tid.
     rbind (fst (current_role_for_quota env fr tid store)) (\<lambda>role.
       Inr (count_documents tid tab, tenant_quota_for role)))"

definition delete_document_route ::
    "'s api_env \<Rightarrow> request_state option \<Rightarrow> string \<Rightarrow> rag_table \<Rightarrow> (string \<times> int) res \<times> rag_table" where
  "delete_document_route env st document_id tab =
     (case rag_caller env st of
        Inl e \<Rightarrow> (Inl e, tab)
      | Inr tid \<Rightarrow> (let (n, tab') = delete_document tid document_id tab in (Inr (document_id, n), tab')))"

end
