(* ===== verification/RagLaws.thy ===== *)
theory RagLaws
  imports Rag SanitizeLaws TenantRouteLaws "HOL-Library.Multiset"
begin

text \<open>
  What the retrieval pipeline guarantees: a query returns the best rows of the caller's tenant and of no
  other; the chunks of a document hold all its sentences in order, overlapping as configured; an ingest
  writes exactly the rows of its chunk ids, which do not depend on the tenant; vectors have length one; and
  the document quota is never enforced.
\<close>

section \<open>Searching\<close>

definition own_rows :: "string \<Rightarrow> rag_table \<Rightarrow> rag_table" where
  "own_rows tid tab = filter (\<lambda>(k, c). dk_tenant_id c = tid \<and> dk_embedding c \<noteq> []) tab"

lemma sorted_take_drop:
  assumes "sorted (map f xs)" and "x \<in> set (take n xs)" and "y \<in> set (drop n xs)"
  shows "f x \<le> f y"
proof -
  have "sorted (map f (take n xs) @ map f (drop n xs))"
    using assms(1) by (metis append_take_drop_id map_append)
  with assms(2,3) show ?thesis by (auto simp: sorted_append)
qed

lemma search_best:
  assumes "mset (rg_scan lib tab) = mset tab"
  shows "length (search lib tid q k tab) \<le> k
    \<and> sorted (map (\<lambda>r. - rr_score r) (search lib tid q k tab))
    \<and> (\<exists>rest. q \<noteq> [] \<longrightarrow> mset (search lib tid q k tab @ rest) = image_mset (scored lib q \<circ> snd) (mset (own_rows tid tab))
         \<and> (rest \<noteq> [] \<longrightarrow> length (search lib tid q k tab) = k)
         \<and> (\<forall>r \<in> set (search lib tid q k tab). \<forall>r' \<in> set rest. rr_score r' \<le> rr_score r))"
proof (cases "q = []")
  case True
  then show ?thesis by (simp add: search_def)
next
  case False
  define rows where "rows = map (scored lib q \<circ> snd) (own_rows tid (rg_scan lib tab))"
  define ranked where "ranked = sort_key (\<lambda>r. - rr_score r) rows"
  have s: "search lib tid q k tab = take k ranked"
    using False by (simp add: search_def ranked_def rows_def own_rows_def)
  have sorted: "sorted (map (\<lambda>r. - rr_score r) ranked)" by (simp add: ranked_def)
  have "mset (own_rows tid (rg_scan lib tab)) = mset (own_rows tid tab)"
    by (simp add: own_rows_def mset_filter assms)
  then have "mset ranked = image_mset (scored lib q \<circ> snd) (mset (own_rows tid tab))"
    by (simp add: ranked_def rows_def mset_map)
  then have m: "mset (take k ranked @ drop k ranked) = image_mset (scored lib q \<circ> snd) (mset (own_rows tid tab))"
    by simp
  have "\<forall>r \<in> set (take k ranked). \<forall>r' \<in> set (drop k ranked). rr_score r' \<le> rr_score r"
    using sorted_take_drop [OF sorted, of _ k] by auto
  with m sorted show ?thesis
    unfolding s by (intro conjI exI [of _ "drop k ranked"] impI) (auto simp: sorted_wrt_take take_map [symmetric])
qed

lemma search_own:
  assumes "mset (rg_scan lib tab) = mset tab" and "r \<in> set (search lib tid q k tab)"
  shows "\<exists>key c. (key, c) \<in> set tab \<and> dk_tenant_id c = tid \<and> r = scored lib q c"
proof -
  have "set (rg_scan lib tab) = set tab" using assms(1) by (rule mset_eq_setD)
  then obtain key c where "(key, c) \<in> set tab" "dk_tenant_id c = tid" "r = scored lib q c"
    using assms(2) by (auto simp: search_def dest!: in_set_takeD split: if_splits)
  then show ?thesis by blast
qed

section \<open>Sentences and chunks\<close>

definition visible :: "string \<Rightarrow> string" where
  "visible s = filter (\<lambda>c. \<not> re_space c) s"

lemma visible_append [simp]: "visible (s @ t) = visible s @ visible t"
  by (simp add: visible_def)

lemma visible_Cons [simp]: "visible (c # s) = (if re_space c then visible s else c # visible s)" "visible [] = []"
  by (simp_all add: visible_def)

lemma visible_dropWhile [simp]: "visible (dropWhile re_space s) = visible s"
  by (induction s) auto

lemma visible_strip [simp]: "visible (strip_spaces s) = visible s"
proof -
  have rev: "visible (rev s) = rev (visible s)" for s by (simp add: visible_def rev_filter)
  show ?thesis by (simp add: strip_spaces_def rev)
qed

lemma split_sentences_not_Nil [simp]: "split_sentences e s \<noteq> []"
  by (induction e s rule: split_sentences.induct) (auto split: list.splits)

lemma visible_sentences: "visible (concat (split_sentences e s)) = visible s"
proof (induction e s rule: split_sentences.induct)
  case (1 e)
  show ?case by simp
next
  case (2 e c s)
  show ?case
  proof (cases "e \<and> re_space c")
    case True
    with 2(1) show ?thesis by simp
  next
    case False
    then obtain w ws where "split_sentences (sentence_end c) s = w # ws"
      by (cases "split_sentences (sentence_end c) s") auto
    with 2(2) False show ?thesis by simp
  qed
qed

text \<open>A chunk is its overlap with the chunk before it and its new sentences. Consecutive chunks are linked when
  the overlap is the tail of the chunk before and no longer than configured.\<close>

type_synonym block = "string list \<times> string list"

fun linked :: "nat \<Rightarrow> string list \<Rightarrow> block list \<Rightarrow> bool" where
  "linked overlap before [] = True"
| "linked overlap before ((kept, new) # bs) =
     (suffix kept before \<and> length (join_sentences kept) \<le> overlap \<and> new \<noteq> [] \<and> linked overlap (kept @ new) bs)"

definition fits :: "nat \<Rightarrow> block \<Rightarrow> bool" where
  "fits sz b \<longleftrightarrow> length (snd b) = 1 \<or> length (join_sentences (fst b)) + sum_list (map length (snd b)) \<le> sz"

definition block_text :: "block \<Rightarrow> string" where
  "block_text b = join_sentences (fst b @ snd b)"

lemma keep_overlap_suffix: "\<exists>u. keep_overlap ov rs kept = u @ kept \<and> suffix (u @ kept) (rev rs @ kept)"
proof (induction rs arbitrary: kept)
  case Nil
  then show ?case by simp
next
  case (Cons s rs)
  show ?case
  proof (cases "length (join_sentences kept) + length s > ov")
    case True
    then show ?thesis by (simp add: suffix_def)
  next
    case False
    from Cons [of "s # kept"] obtain u where
      "keep_overlap ov rs (s # kept) = u @ s # kept" "suffix (u @ s # kept) (rev rs @ s # kept)" by blast
    with False show ?thesis by (intro exI [of _ "u @ [s]"]) simp
  qed
qed

lemma length_join_Cons: "length (join_sentences (s # ws)) \<le> length s + 1 + length (join_sentences ws)"
  by (cases ws) auto

lemma keep_overlap_length:
  "length (join_sentences kept) \<le> ov + 1 \<Longrightarrow> length (join_sentences (keep_overlap ov rs kept)) \<le> ov + 1"
proof (induction rs arbitrary: kept)
  case Nil
  then show ?case by simp
next
  case (Cons s rs)
  show ?case
  proof (cases "length (join_sentences kept) + length s > ov")
    case True
    with Cons.prems show ?thesis by simp
  next
    case False
    then have "length (join_sentences (s # kept)) \<le> ov + 1"
      using length_join_Cons [of s kept] by linarith
    from Cons.IH [OF this] False show ?thesis by simp
  qed
qed

lemma pack_blocks:
  assumes "new \<noteq> []" and "len = length (join_sentences kept) + sum_list (map length new)"
    and "length new = 1 \<or> len \<le> sz"
  shows "\<exists>bs. pack sz ov ss (kept @ new) len = map block_text bs \<and> concat (map snd bs) = new @ ss
    \<and> (\<forall>b \<in> set bs. fits sz b) \<and> (\<exists>n bs'. bs = (kept, n) # bs' \<and> n \<noteq> [] \<and> linked (ov + 1) (kept @ n) bs')"
  using assms
proof (induction ss arbitrary: kept new len)
  case Nil
  then show ?case by (intro exI [of _ "[(kept, new)]"]) (auto simp: block_text_def fits_def)
next
  case (Cons s ss)
  show ?case
  proof (cases "len + length s > sz")
    case True
    define k where "k = keep_overlap ov (rev (kept @ new)) []"
    have suf: "suffix k (kept @ new)" using keep_overlap_suffix [of ov "rev (kept @ new)" "[]"] by (auto simp: k_def)
    have short: "length (join_sentences k) \<le> ov + 1" unfolding k_def by (rule keep_overlap_length) simp
    have step: "pack sz ov (s # ss) (kept @ new) len =
        join_sentences (kept @ new) # pack sz ov ss (k @ [s]) (length (join_sentences k) + length s)"
      using True Cons.prems(1) by (simp add: k_def Let_def)
    from Cons.IH [of "[s]" "length (join_sentences k) + length s" k] obtain bs n bs' where
      "pack sz ov ss (k @ [s]) (length (join_sentences k) + length s) = map block_text bs"
      "concat (map snd bs) = s # ss" "\<forall>b \<in> set bs. fits sz b" "bs = (k, n) # bs'" "n \<noteq> []"
      "linked (ov + 1) (k @ n) bs'" by auto
    with step suf short Cons.prems show ?thesis
      by (intro exI [of _ "(kept, new) # bs"]) (auto simp: block_text_def fits_def)
  next
    case False
    then have "pack sz ov (s # ss) (kept @ new) len = pack sz ov ss (kept @ (new @ [s])) (len + length s)" by simp
    with Cons.IH [of "new @ [s]" "len + length s" kept] Cons.prems(2) False show ?thesis by simp
  qed
qed

section \<open>Storing\<close>

lemma fold_update_frame:
  "k \<notin> dk_chunk_id ` set cs \<Longrightarrow>
   map_of (fold (\<lambda>c. AList.update (dk_chunk_id c) c) cs tab) k = map_of tab k"
  by (induction cs arbitrary: tab) auto

lemma fold_update_found:
  "k \<in> dk_chunk_id ` set cs \<Longrightarrow>
   \<exists>c \<in> set cs. dk_chunk_id c = k \<and> map_of (fold (\<lambda>c. AList.update (dk_chunk_id c) c) cs tab) k = Some c"
proof (induction cs arbitrary: tab)
  case Nil
  then show ?case by simp
next
  case (Cons c cs)
  show ?case
  proof (cases "k \<in> dk_chunk_id ` set cs")
    case True
    with Cons.IH [of "AList.update (dk_chunk_id c) c tab"] show ?thesis by auto
  next
    case False
    with Cons.prems fold_update_frame [OF False, of "AList.update (dk_chunk_id c) c tab"] show ?thesis by auto
  qed
qed

lemma utf8_length: "length (utf8_encode s) \<le> 2 * length s"
  by (induction s) (auto simp: utf8_encode_def utf8_char_def Let_def)

lemma sanitized_length: "length (sanitize_for_llm n t) \<le> n + 60"
proof -
  have body: "length (sanitized_body n True t) \<le> n" by (simp add: sanitized_body_def)
  show ?thesis
    using body by (simp add: sanitize_for_llm_def Let_def sanitize_text_body injection_prefix_def injection_suffix_def)
qed

lemma chunk_small:
  assumes "length t \<le> 10000"
  shows "\<exists>cs. chunk lib ck t doc tid md = Inr cs"
proof -
  have "length (utf8_encode t) \<le> MAX_DOCUMENT_SIZE_BYTES"
    using utf8_length [of t] assms unfolding MAX_DOCUMENT_SIZE_BYTES_def by linarith
  then show ?thesis by (simp add: chunk_def)
qed

lemma sanitized_chunk: "\<exists>cs. chunk lib ck (sanitize_for_llm MAX_LLM_PROMPT_LENGTH t) doc tid md = Inr cs"
  using chunk_small sanitized_length [of MAX_LLM_PROMPT_LENGTH t] unfolding MAX_LLM_PROMPT_LENGTH_def by simp

lemma chunk_Inr:
  assumes "chunk lib ck t doc tid md = Inr cs"
  shows "map dk_chunk_id cs = map (make_chunk_id lib doc) [0 ..< length cs]
    \<and> (\<forall>c \<in> set cs. dk_tenant_id c = tid \<and> dk_document_id c = doc \<and> dk_metadata c = md)
    \<and> map dk_content cs = (if strip_spaces t = [] then []
         else pack (ck_size ck) (ck_overlap ck) (split_sentences False (strip_spaces t)) [] 0)"
proof (cases "strip_spaces t = []")
  case True
  with assms show ?thesis by (simp add: chunk_def)
next
  case False
  define texts where "texts = pack (ck_size ck) (ck_overlap ck) (split_sentences False (strip_spaces t)) [] 0"
  define made where "made = (\<lambda>(i, content). \<lparr>dk_chunk_id = make_chunk_id lib doc i, dk_document_id = doc,
      dk_tenant_id = tid, dk_content = content, dk_metadata = md, dk_embedding = []\<rparr>)"
  have cs: "cs = map made (enumerate 0 texts)"
    using assms False by (simp add: chunk_def texts_def [symmetric] made_def split: if_splits)
  have "dk_chunk_id \<circ> made = make_chunk_id lib doc \<circ> fst" "dk_content \<circ> made = snd"
    by (auto simp: made_def fun_eq_iff)
  then have "map dk_chunk_id cs = map (make_chunk_id lib doc) (map fst (enumerate 0 texts))"
      "map dk_content cs = map snd (enumerate 0 texts)" by (simp_all add: cs del: map_fst_enumerate)
  moreover have "length cs = length texts" by (simp add: cs)
  ultimately show ?thesis using False by (auto simp: cs made_def texts_def)
qed

section \<open>Vectors\<close>

lemma add_trigram_length [simp]: "length (add_trigram lib d i g v) = length v"
  by (simp add: add_trigram_def Let_def)

lemma add_trigram_nonneg:
  assumes "0 < d" and "length v = d" and "\<forall>x \<in> set v. 0 \<le> x"
  shows "\<forall>x \<in> set (add_trigram lib d i g v). 0 \<le> x"
proof -
  have "rg_md5 lib g mod d < length v" using assms(1,2) by simp
  then have "0 \<le> v ! (rg_md5 lib g mod d)" using assms(3) by simp
  then have "0 \<le> v ! (rg_md5 lib g mod d) + 1 / (1 + real i * (1 / 100))" by simp
  then show ?thesis
    using assms(3) set_update_subset_insert [of v "rg_md5 lib g mod d"] unfolding add_trigram_def Let_def by blast
qed

lemma raw_vector_inv:
  assumes "0 < d"
  shows "length (raw_vector lib d t) = d \<and> (\<forall>x \<in> set (raw_vector lib d t). 0 \<le> x)"
proof -
  let ?good = "\<lambda>v. length v = d \<and> (\<forall>x \<in> set v. (0 :: real) \<le> x)"
  have step: "?good (add_trigram lib d i g v)" if "?good v" for i g v
    using that add_trigram_nonneg [OF assms] by (metis add_trigram_length)
  have inner: "?good v \<Longrightarrow> ?good (fold (add_trigram lib d i) gs v)" for i gs v
  proof (induction gs arbitrary: v)
    case (Cons g gs)
    from Cons.IH [OF step [OF Cons.prems]] show ?case by simp
  qed simp
  have outer: "?good v \<Longrightarrow> ?good (fold (\<lambda>(i, token) v. fold (add_trigram lib d i) (trigrams token) v) ts v)" for ts v
  proof (induction ts arbitrary: v)
    case (Cons t ts)
    from Cons.IH [OF inner [OF Cons.prems, of "fst t" "trigrams (snd t)"]] show ?case
      by (simp add: case_prod_unfold)
  qed simp
  show ?thesis unfolding raw_vector_def by (rule outer) simp
qed

definition sum_squares :: "real list \<Rightarrow> real" where
  "sum_squares v = sum_list (map (\<lambda>x. x * x) v)"

lemma sum_squares_nonneg: "0 \<le> sum_squares v"
  by (auto simp: sum_squares_def intro!: sum_list_nonneg)

lemma sum_squares_scale: "sum_squares (map (\<lambda>x. x / a) v) = sum_squares v / (a * a)"
  by (induction v) (simp_all add: sum_squares_def add_divide_distrib)

lemma normalize_unit: "sum_squares (normalize v) = 1 \<or> normalize v = v \<and> sum_squares v = 0"
proof (cases "sqrt (sum_squares v) > 0")
  case True
  then have "sqrt (sum_squares v) * sqrt (sum_squares v) = sum_squares v" "sum_squares v \<noteq> 0"
    using sum_squares_nonneg by auto
  with True show ?thesis
    by (simp add: normalize_def sum_squares_def [symmetric] sum_squares_scale Let_def)
next
  case False
  then have "sum_squares v = 0" using sum_squares_nonneg [of v] by (simp add: not_less)
  with False show ?thesis by (simp add: normalize_def sum_squares_def [symmetric] Let_def)
qed

section \<open>The quota\<close>

lemma role_for_quota:
  "\<exists>role. fst (current_role_for_quota env fr tid st) = Inr role \<and> tenant_quota_for role = 0"
proof -
  have q: "tenant_quota_for ''free'' = 0" "tenant_quota_for ''premium'' = 0"
    by (simp_all add: tenant_quota_for_def doc_quota_by_tier_def)
  obtain r st' where "get_tenant (ae_tm env) (fr_now fr) tid st = (r, st')"
    by (cases "get_tenant (ae_tm env) (fr_now fr) tid st")
  then show ?thesis
    by (cases r) (auto simp: current_role_for_quota_def io_catch_def io_bind_run config_tier_def q split: option.splits)
qed

section \<open>A pipeline to evaluate\<close>

definition sample_rag :: rag_pipeline where
  "sample_rag =
     \<lparr>rp_lib = \<lparr>rg_sha256hex = (\<lambda>s. s), rg_md5 = length, rg_similarity = (\<lambda>v q. 1), rg_scan = (\<lambda>tab. tab),
                rg_score_text = (\<lambda>x. ''1.00'')\<rparr>,
      rp_dim = 2, rp_chunker = \<lparr>ck_size = 512, ck_overlap = 64\<rparr>\<rparr>"

lemma rag_user_calls: "rag_caller memory_api (Some sample_caller) = Inr ''tn_1''"
proof -
  have "RequirePermission \<lparr>custom_roles = []\<rparr> USE_RAG (Some sample_caller) = Inr ()"
    by (simp add: RequirePermission_iff sample_caller_def claims_access_text check_access_def has_permission_def
        get_permissions_def tier_roles_def all_permissions_def)
  then show ?thesis
    by (simp add: rag_caller_def memory_api_def current_tenant_def get_current_tenant_id_def sample_caller_def text_id_def)
qed

lemma ingest_unlimited:
  "\<exists>n tab'. ingest rp t doc tid md 0 tab = (Inr n, tab')"
  using sanitized_chunk [of "rp_lib rp" "rp_chunker rp" t doc tid md]
  by (auto simp: ingest_def Let_def split: prod.splits)

section \<open>Properties\<close>



text \<open>Chunking loses nothing: the chunks of a document are blocks of its sentences in order, each an overlap
that is a tail of the block before (at most one character over the configured length) followed by at least
one new sentence; together the new sentences have all the visible characters of the text, in order; and a
block of more than one new sentence is within the chunk size, not counting the spaces between them.\<close>

theorem chunks_cover_document:
  assumes "chunk lib ck t doc tid md = Inr cs"
  shows "\<exists>bs. map dk_content cs = map block_text bs \<and> linked (ck_overlap ck + 1) [] bs
    \<and> (\<forall>b \<in> set bs. fits (ck_size ck) b) \<and> visible (concat (concat (map snd bs))) = visible t"
proof (cases "strip_spaces t = []")
  case True
  then have "visible t = []" by (metis visible_Cons(2) visible_strip)
  with True chunk_Inr [OF assms] show ?thesis by (intro exI [of _ "[]"]) simp
next
  case False
  obtain s ss where split: "split_sentences False (strip_spaces t) = s # ss"
    by (cases "split_sentences False (strip_spaces t)") auto
  from pack_blocks [of "[s]" "length s" "[]" "ck_size ck" "ck_overlap ck" ss] obtain bs n bs' where
    "pack (ck_size ck) (ck_overlap ck) ss [s] (length s) = map block_text bs" "concat (map snd bs) = s # ss"
    "\<forall>b \<in> set bs. fits (ck_size ck) b" "bs = ([], n) # bs'" "n \<noteq> []" "linked (ck_overlap ck + 1) n bs'" by auto
  moreover have "visible (concat (s # ss)) = visible t"
    using visible_sentences [of False "strip_spaces t"] split by simp
  ultimately show ?thesis
    using chunk_Inr [OF assms] False split by (intro exI [of _ bs]) simp
qed

theorem chunks_cover_document_witness:
  "\<exists>cs bs. chunk (rp_lib sample_rag) \<lparr>ck_size = 5, ck_overlap = 4\<rparr> ''Hi. You. Go.'' ''d'' ''tn_1'' [] = Inr cs
     \<and> map dk_content cs = map block_text bs \<and> visible (concat (concat (map snd bs))) = ''Hi.You.Go.''"
proof -
  have "length ''Hi. You. Go.'' \<le> 10000" by simp
  from chunk_small [OF this] obtain cs where
    c: "chunk (rp_lib sample_rag) \<lparr>ck_size = 5, ck_overlap = 4\<rparr> ''Hi. You. Go.'' ''d'' ''tn_1'' [] = Inr cs" by blast
  have "visible ''Hi. You. Go.'' = ''Hi.You.Go.''" by code_simp
  with c chunks_cover_document [OF c] show ?thesis by auto
qed

text \<open>An ingest writes exactly the rows of its document's chunk ids: afterwards each of them holds a chunk of
this document and this tenant, whoever's row it was before, since the ids do not depend on the tenant; every
other row, of any tenant, is as it was.\<close>

theorem ingest_writes_its_rows:
  assumes "ingest rp t doc tid md quota tab = (Inr n, tab')"
  shows "0 \<le> n
    \<and> (\<forall>i < nat n. \<exists>c. map_of tab' (make_chunk_id (rp_lib rp) doc i) = Some c \<and> dk_tenant_id c = tid
         \<and> dk_document_id c = doc \<and> dk_embedding c = embed (rp_lib rp) (rp_dim rp) (dk_content c))
    \<and> (\<forall>k. k \<notin> make_chunk_id (rp_lib rp) doc ` {..< nat n} \<longrightarrow> map_of tab' k = map_of tab k)"
proof -
  let ?e = "\<lambda>c. c\<lparr>dk_embedding := embed (rp_lib rp) (rp_dim rp) (dk_content c)\<rparr>"
  from assms obtain cs where cs: "chunk (rp_lib rp) (rp_chunker rp) (sanitize_for_llm MAX_LLM_PROMPT_LENGTH t) doc tid md = Inr cs"
      and n: "n = int (length cs)" and tab': "tab' = fold (\<lambda>c. AList.update (dk_chunk_id c) c) (map ?e cs) tab"
    by (auto simp: ingest_def store_chunks_def Let_def split: if_splits sum.splits)
  have "map dk_chunk_id (map ?e cs) = map dk_chunk_id cs" by simp
  then have "map dk_chunk_id (map ?e cs) = map (make_chunk_id (rp_lib rp) doc) [0 ..< length cs]"
    using chunk_Inr [OF cs] by simp
  then have ids: "dk_chunk_id ` set (map ?e cs) = make_chunk_id (rp_lib rp) doc ` {..< nat n}"
    using n by (metis atLeast_upt list.set_map nat_int)
  have "\<exists>c. map_of tab' (make_chunk_id (rp_lib rp) doc i) = Some c \<and> dk_tenant_id c = tid
         \<and> dk_document_id c = doc \<and> dk_embedding c = embed (rp_lib rp) (rp_dim rp) (dk_content c)" if "i < nat n" for i
  proof -
    have "make_chunk_id (rp_lib rp) doc i \<in> dk_chunk_id ` set (map ?e cs)" unfolding ids using that by blast
    from fold_update_found [OF this, of tab] chunk_Inr [OF cs] show ?thesis unfolding tab' by auto
  qed
  moreover have "map_of tab' k = map_of tab k" if "k \<notin> make_chunk_id (rp_lib rp) doc ` {..< nat n}" for k
    using fold_update_frame [of k "map ?e cs" tab] that unfolding tab' ids by blast
  ultimately show ?thesis using n by simp
qed

theorem ingest_writes_its_rows_witness:
  "\<exists>n tab'. ingest sample_rag ''Hello.'' ''d'' ''tn_2'' [] 0 [(''d:9'', c)] = (Inr n, tab') \<and> 0 \<le> n"
proof -
  obtain n tab' where i: "ingest sample_rag ''Hello.'' ''d'' ''tn_2'' [] 0 [(''d:9'', c)] = (Inr n, tab')"
    using ingest_unlimited by blast
  from ingest_writes_its_rows [OF i] i show ?thesis by blast
qed

text \<open>The document quota is never enforced: a valid ingest request of a permitted caller succeeds whatever
the tenant's tier, whatever the tenant manager answers and however many documents the tenant has, because the
quota is always that of the free or premium role, which has none, and the size limit cannot be reached.\<close>

theorem rag_quota_never_enforced:
  assumes "ingest_valid body" and "rag_caller env st = Inr tid"
  shows "\<exists>n tab'. ingest_document env rp fr st body store tab = (Inr (ig_document_id body, n), tab')"
proof -
  obtain role where r: "fst (current_role_for_quota env fr tid store) = Inr role" "tenant_quota_for role = 0"
    using role_for_quota by blast
  obtain n tab' where "ingest rp (ig_text body) (ig_document_id body) tid (ig_metadata body) 0 tab = (Inr n, tab')"
    using ingest_unlimited by blast
  with assms r show ?thesis by (simp add: ingest_document_def)
qed

theorem rag_quota_never_enforced_witness:
  "\<exists>n tab'. ingest_document memory_api sample_rag sample_fresh (Some sample_caller)
     \<lparr>ig_document_id = ''d'', ig_text = ''Hello.'', ig_metadata = []\<rparr> (0, []) tab = (Inr (''d'', n), tab')"
  using rag_quota_never_enforced [OF _ rag_user_calls, of "\<lparr>ig_document_id = ''d'', ig_text = ''Hello.'', ig_metadata = []\<rparr>"]
  by (simp add: ingest_valid_def)

text \<open>Every vector has the configured dimension, no negative entry, and length one, except that a text
without a word of three letters has the zero vector.\<close>

theorem embedding_is_unit:
  assumes "0 < d"
  shows "length (embed lib d t) = d \<and> (\<forall>x \<in> set (embed lib d t). 0 \<le> x)
    \<and> (sum_squares (embed lib d t) = 1 \<or> (\<forall>x \<in> set (embed lib d t). x = 0))"
proof (cases "t = []")
  case True
  then show ?thesis by (simp add: embed_def)
next
  case False
  define v where "v = raw_vector lib d t"
  have v: "length v = d" "\<forall>x \<in> set v. 0 \<le> x" using raw_vector_inv [OF assms] by (simp_all add: v_def)
  have "embed lib d t = normalize v" using False by (simp add: embed_def v_def)
  moreover have "length (normalize v) = d \<and> (\<forall>x \<in> set (normalize v). 0 \<le> x)"
    using v by (auto simp: normalize_def Let_def)
  moreover have "\<forall>x \<in> set v. x = 0" if "sum_squares v = 0"
  proof -
    have "x \<in> set (map (\<lambda>x. x * x) v) \<Longrightarrow> 0 \<le> x" for x by auto
    from sum_list_nonneg_eq_0_iff [of "map (\<lambda>x. x * x) v", OF this] that show ?thesis by (simp add: sum_squares_def)
  qed
  ultimately show ?thesis using normalize_unit [of v] by auto
qed

theorem embedding_is_unit_witness:
  "length (embed (rp_lib sample_rag) 2 ''abc'') = 2"
  using embedding_is_unit [of 2] by simp

end
