(* ===== verification/Http.thy ===== *)
theory Http
  imports StoreIO
begin

text \<open>
  HTTP requests as the program's clients make them with the \<open>requests\<close> package. The other side is a
  parameter: what a server answers to a request, and how its state changes. Every request made is kept in
  a log, newest last. \<open>raise_for_status\<close> raises from status 400 on; the package's exceptions are
  \<open>request_error\<close>.
\<close>

datatype http_method = GET | POST | PATCH

record http_request =
  hr_method :: http_method
  hr_url :: string
  hr_headers :: jdict
  hr_params :: jdict
  hr_body :: jdict

type_synonym 's web = "http_request list \<times> 's"

text \<open>The answer: a status and what \<open>json()\<close> makes of the body, or an exception.\<close>

type_synonym 's server = "http_request \<Rightarrow> 's \<Rightarrow> (int \<times> json res) res \<times> 's"

definition request_error :: py_error where
  "request_error = OtherError ''RequestException''"

definition http_send :: "'s server \<Rightarrow> http_request \<Rightarrow> ('s web, int \<times> json res) io" where
  "http_send server req =
     (\<lambda>(n, reqs, s). let (r, s') = server req s in (r, n, reqs @ [req], s'))"

definition raise_for_status :: "int \<times> json res \<Rightarrow> json res" where
  "raise_for_status resp = (if fst resp \<ge> 400 then Inl request_error else snd resp)"

text \<open>The requests an operation adds to the log, whatever it returns.\<close>

definition sends_only :: "(http_request \<Rightarrow> bool) \<Rightarrow> ('s web, 'a) io \<Rightarrow> bool" where
  "sends_only P m \<longleftrightarrow>
     (\<forall>n reqs s r n' reqs' s'. m (n, reqs, s) = (r, n', reqs', s') \<longrightarrow> (\<exists>new. reqs' = reqs @ new \<and> list_all P new))"

section \<open>What is sent\<close>

lemma sends_only_ret [intro]: "sends_only P (io_ret x)"
  by (simp add: sends_only_def)

lemma sends_only_raise [intro]: "sends_only P (io_raise e)"
  by (simp add: sends_only_def)

lemma sends_only_res [intro]: "sends_only P (io_res r)"
  by (simp add: sends_only_def)

lemma sends_only_send: "P req \<Longrightarrow> sends_only P (http_send server req)"
  by (auto simp: sends_only_def http_send_def Let_def split: prod.splits)

lemma sends_only_trans:
  assumes "\<exists>new. reqs1 = reqs @ new \<and> list_all P new" and "\<exists>new. reqs2 = reqs1 @ new \<and> list_all P new"
  shows "\<exists>new. reqs2 = reqs @ new \<and> list_all P new"
  using assms by fastforce

lemma sends_only_bind [intro]:
  assumes "sends_only P m" and "\<And>x. sends_only P (f x)"
  shows "sends_only P (io_bind m f)"
  unfolding sends_only_def
proof (intro allI impI)
  fix n reqs s r n' reqs' s'
  assume run: "io_bind m f (n, reqs, s) = (r, n', reqs', s')"
  obtain r1 n1 reqs1 s1 where m: "m (n, reqs, s) = (r1, n1, reqs1, s1)" by (cases "m (n, reqs, s)")
  with assms(1) have first: "\<exists>new. reqs1 = reqs @ new \<and> list_all P new" unfolding sends_only_def by blast
  show "\<exists>new. reqs' = reqs @ new \<and> list_all P new"
  proof (cases r1)
    case (Inl e)
    with run m first show ?thesis by (simp add: io_bind_run)
  next
    case (Inr x)
    with run m have "f x (n1, reqs1, s1) = (r, n', reqs', s')" by (simp add: io_bind_run)
    with assms(2) have "\<exists>new. reqs' = reqs1 @ new \<and> list_all P new" unfolding sends_only_def by blast
    from sends_only_trans [OF first this] show ?thesis .
  qed
qed

lemma sends_only_catch [intro]:
  assumes "sends_only P m" and "\<And>e. sends_only P (h e)"
  shows "sends_only P (io_catch m h)"
  unfolding sends_only_def
proof (intro allI impI)
  fix n reqs s r n' reqs' s'
  assume run: "io_catch m h (n, reqs, s) = (r, n', reqs', s')"
  obtain r1 n1 reqs1 s1 where m: "m (n, reqs, s) = (r1, n1, reqs1, s1)" by (cases "m (n, reqs, s)")
  with assms(1) have first: "\<exists>new. reqs1 = reqs @ new \<and> list_all P new" unfolding sends_only_def by blast
  show "\<exists>new. reqs' = reqs @ new \<and> list_all P new"
  proof (cases r1)
    case (Inl e)
    with run m have "h e (n1, reqs1, s1) = (r, n', reqs', s')" by (simp add: io_catch_def)
    with assms(2) have "\<exists>new. reqs' = reqs1 @ new \<and> list_all P new" unfolding sends_only_def by blast
    from sends_only_trans [OF first this] show ?thesis .
  next
    case (Inr x)
    with run m first show ?thesis by (simp add: io_catch_def)
  qed
qed

lemma sends_onlyD:
  "sends_only P m \<Longrightarrow> m (n, reqs, s) = (r, n', reqs', s') \<Longrightarrow> \<exists>new. reqs' = reqs @ new \<and> list_all P new"
  unfolding sends_only_def by blast

lemma sends_only_mono: "sends_only P m \<Longrightarrow> (\<And>r. P r \<Longrightarrow> Q r) \<Longrightarrow> sends_only Q m"
  unfolding sends_only_def list_all_iff by meson

end
