(* ===== verification/Llm.thy ===== *)
theory Llm
  imports Http Sanitize Config
begin

text \<open>
  \<open>src/brain/llm.py\<close>: asking a language model through a chain of providers, the LiteLLM proxy first, then
  the Gemini models, then Groq. The servers, the splitting of a URL, the resolution of a host name and the
  classes of an address are parameters. An answer is the JSON value the code returns, \<open>JNull\<close> for None.
\<close>

section \<open>Environment\<close>

record address_class =
  ad_is_private :: bool
  ad_is_loopback :: bool
  ad_is_link_local :: bool
  ad_is_reserved :: bool

record 's llm_env =
  le_server :: "'s server"
  le_hostname :: "string \<Rightarrow> string option"
  le_resolve :: "string \<Rightarrow> address_class list option"

definition GROQ_URL :: string where
  "GROQ_URL = ''https://api.groq.com/openai/v1/chat/completions''"

definition google_ai_url :: "string \<Rightarrow> string" where
  "google_ai_url model =
     ''https://generativelanguage.googleapis.com/v1beta/models/'' @ model @ '':generateContent''"

section \<open>SSRF guard\<close>

definition resolves_to_private_ip :: "'s llm_env \<Rightarrow> string \<Rightarrow> bool" where
  "resolves_to_private_ip env url =
     (case le_hostname env url of
        None \<Rightarrow> True
      | Some host \<Rightarrow>
          if host = [] then True
          else case le_resolve env host of
                 None \<Rightarrow> True
               | Some addrs \<Rightarrow>
                   list_ex (\<lambda>a. ad_is_private a \<or> ad_is_loopback a \<or> ad_is_link_local a \<or> ad_is_reserved a) addrs)"

section \<open>Reading an answer\<close>

definition index_error :: py_error where
  "index_error = OtherError ''IndexError''"

text \<open>\<open>v[k]\<close>, \<open>v[0]\<close> and \<open>v.get(k, default)\<close>.\<close>

definition at_key :: "json \<Rightarrow> string \<Rightarrow> json res" where
  "at_key v k =
     (case v of
        JObj d \<Rightarrow> (case map_of d k of Some x \<Rightarrow> Inr x | None \<Rightarrow> Inl (KeyError k))
      | _ \<Rightarrow> Inl (OtherError ''TypeError''))"

definition at_zero :: "json \<Rightarrow> json res" where
  "at_zero v =
     (case v of
        JArr xs \<Rightarrow> (case xs of [] \<Rightarrow> Inl index_error | x # _ \<Rightarrow> Inr x)
      | JStr s \<Rightarrow> (case s of [] \<Rightarrow> Inl index_error | c # _ \<Rightarrow> Inr (JStr [c]))
      | JObj d \<Rightarrow> Inl (KeyError ''0'')
      | _ \<Rightarrow> Inl (OtherError ''TypeError''))"

definition get_key :: "json \<Rightarrow> string \<Rightarrow> json \<Rightarrow> json res" where
  "get_key v k dflt = (case v of JObj d \<Rightarrow> Inr (dget d k dflt) | _ \<Rightarrow> Inl (OtherError ''AttributeError''))"

text \<open>\<open>data["choices"][0]["message"]["content"]\<close>.\<close>

definition chat_content :: "json \<Rightarrow> json res" where
  "chat_content data =
     rbind (at_key data ''choices'') (\<lambda>cs. rbind (at_zero cs) (\<lambda>c.
     rbind (at_key c ''message'') (\<lambda>m. at_key m ''content'')))"

definition gemini_text :: "json \<Rightarrow> json res" where
  "gemini_text data =
     rbind (get_key data ''candidates'' (JArr [])) (\<lambda>candidates.
       if \<not> jtruthy candidates then Inr JNull
       else rbind (at_zero candidates) (\<lambda>c.
            rbind (get_key c ''content'' (JObj [])) (\<lambda>content.
            rbind (get_key content ''parts'' (JArr [])) (\<lambda>parts.
              if \<not> jtruthy parts then Inr JNull
              else rbind (at_zero parts) (\<lambda>p. get_key p ''text'' (JStr []))))))"

text \<open>\<open>except (requests.RequestException, KeyError, IndexError)\<close>: no answer.\<close>

definition provider_error :: "py_error \<Rightarrow> bool" where
  "provider_error e \<longleftrightarrow> e = request_error \<or> e = index_error \<or> (case e of KeyError _ \<Rightarrow> True | _ \<Rightarrow> False)"

definition or_none :: "('s, json) io \<Rightarrow> ('s, json) io" where
  "or_none m = io_catch m (\<lambda>e. if provider_error e then io_ret JNull else io_raise e)"

section \<open>Providers\<close>

definition chat_payload :: "string \<Rightarrow> string \<Rightarrow> string \<Rightarrow> jdict" where
  "chat_payload model t system_prompt =
     [(''model'', JStr model),
      (''messages'', JArr [JObj [(''role'', JStr ''system''), (''content'', JStr system_prompt)],
                           JObj [(''role'', JStr ''user''), (''content'', JStr t)]]),
      (''temperature'', JReal (4 / 10)), (''max_tokens'', JInt 2500)]"

definition bearer_headers :: "string \<Rightarrow> jdict" where
  "bearer_headers key =
     [(''Authorization'', JStr (''Bearer '' @ key)), (''Content-Type'', JStr ''application/json'')]"

text \<open>The statuses a provider answers None to, and what it reads from a good answer.\<close>

definition ask :: "'s llm_env \<Rightarrow> http_request \<Rightarrow> int list \<Rightarrow> (json \<Rightarrow> json res) \<Rightarrow> ('s web, json) io" where
  "ask env req refusals content =
     or_none
       (io_bind (http_send (le_server env) req) (\<lambda>resp.
          if fst resp \<in> set refusals then io_ret JNull
          else io_res (rbind (raise_for_status resp) content)))"

definition rstrip_slash :: "string \<Rightarrow> string" where
  "rstrip_slash s = rev (dropWhile (\<lambda>c. c = CHR ''/'') (rev s))"

definition call_proxy :: "'s llm_env \<Rightarrow> settings \<Rightarrow> string \<Rightarrow> string \<Rightarrow> ('s web, json) io" where
  "call_proxy env cfg t system_prompt =
     (let proxy_url = strip_spaces (cf_litellm_proxy_url cfg) in
      if \<not> prefix ''https://'' proxy_url then io_ret JNull
      else if resolves_to_private_ip env proxy_url then io_ret JNull
      else ask env
             \<lparr>hr_method = POST, hr_url = rstrip_slash proxy_url @ ''/v1/chat/completions'',
              hr_headers = bearer_headers (cf_litellm_proxy_token cfg), hr_params = [],
              hr_body = chat_payload (cf_litellm_proxy_model cfg) t system_prompt\<rparr>
             [429, 401] chat_content)"

definition call_groq :: "'s llm_env \<Rightarrow> settings \<Rightarrow> string \<Rightarrow> string \<Rightarrow> ('s web, json) io" where
  "call_groq env cfg t system_prompt =
     ask env
       \<lparr>hr_method = POST, hr_url = GROQ_URL, hr_headers = bearer_headers (cf_groq_api_key cfg), hr_params = [],
        hr_body = chat_payload (cf_groq_model cfg) t system_prompt\<rparr>
       [429] chat_content"

definition gemini_payload :: "string \<Rightarrow> string \<Rightarrow> jdict" where
  "gemini_payload t system_prompt =
     [(''system_instruction'', JObj [(''parts'', JArr [JObj [(''text'', JStr system_prompt)]])]),
      (''contents'', JArr [JObj [(''role'', JStr ''user''), (''parts'', JArr [JObj [(''text'', JStr t)]])]]),
      (''generationConfig'', JObj [(''temperature'', JReal (4 / 10)), (''maxOutputTokens'', JInt 2500)])]"

definition call_google_ai :: "'s llm_env \<Rightarrow> settings \<Rightarrow> string \<Rightarrow> string \<Rightarrow> string \<Rightarrow> ('s web, json) io" where
  "call_google_ai env cfg t system_prompt model =
     (let model = (if model = [] then cf_google_ai_model cfg else model)
      in ask env
           \<lparr>hr_method = POST, hr_url = google_ai_url model, hr_headers = [],
            hr_params = [(''key'', JStr (cf_google_ai_api_key cfg))], hr_body = gemini_payload t system_prompt\<rparr>
           [429, 503, 404] gemini_text)"

definition gemini_model_chain :: "settings \<Rightarrow> string list" where
  "gemini_model_chain cfg =
     filter (\<lambda>m. m \<noteq> []) [cf_google_ai_model cfg, cf_google_ai_fallback_model cfg, cf_google_ai_lite_model cfg]"

section \<open>The chains\<close>

definition proxy_configured :: "settings \<Rightarrow> bool" where
  "proxy_configured cfg \<longleftrightarrow> cf_litellm_proxy_url cfg \<noteq> [] \<and> cf_litellm_proxy_token cfg \<noteq> []"

text \<open>The loop over the Gemini models: the first true answer, or None.\<close>

fun try_models :: "'s llm_env \<Rightarrow> settings \<Rightarrow> string \<Rightarrow> string \<Rightarrow> string list \<Rightarrow> ('s web, json) io" where
  "try_models env cfg t system_prompt [] = io_ret JNull"
| "try_models env cfg t system_prompt (model # models) =
     io_bind (call_google_ai env cfg t system_prompt model) (\<lambda>result.
       if jtruthy result then io_ret result else try_models env cfg t system_prompt models)"

definition polish_direct :: "'s llm_env \<Rightarrow> settings \<Rightarrow> string \<Rightarrow> string \<Rightarrow> string \<Rightarrow> ('s web, json) io" where
  "polish_direct env cfg raw_text t system_prompt =
     io_bind (if cf_google_ai_api_key cfg \<noteq> []
              then try_models env cfg t system_prompt (gemini_model_chain cfg) else io_ret JNull) (\<lambda>result.
       if jtruthy result then io_ret result
       else io_bind (if cf_groq_api_key cfg \<noteq> [] then call_groq env cfg t system_prompt else io_ret JNull) (\<lambda>result.
              if jtruthy result then io_ret result else io_ret (JStr raw_text)))"

definition polish_digest :: "'s llm_env \<Rightarrow> settings \<Rightarrow> string \<Rightarrow> string \<Rightarrow> ('s web, json) io" where
  "polish_digest env cfg raw_text system_prompt =
     (let t = sanitize_for_llm MAX_LLM_PROMPT_LENGTH raw_text in
      if proxy_configured cfg
      then io_bind (call_proxy env cfg t system_prompt) (\<lambda>result.
             if jtruthy result then io_ret result
             else if cf_demo_mode cfg then io_ret (JStr raw_text)
             else polish_direct env cfg raw_text t system_prompt)
      else polish_direct env cfg raw_text t system_prompt)"

definition call_direct :: "'s llm_env \<Rightarrow> settings \<Rightarrow> string \<Rightarrow> string \<Rightarrow> bool \<Rightarrow> ('s web, json) io" where
  "call_direct env cfg t system_prompt prefer_quality =
     (let models = gemini_model_chain cfg;
          models = (if \<not> prefer_quality \<and> length models > 1 then drop 1 models else models)
      in io_bind (if cf_google_ai_api_key cfg \<noteq> [] then try_models env cfg t system_prompt models
                  else io_ret JNull) (\<lambda>result.
           if jtruthy result then io_ret result
           else if cf_groq_api_key cfg \<noteq> [] then call_groq env cfg t system_prompt
           else io_ret JNull))"

definition call_llm :: "'s llm_env \<Rightarrow> settings \<Rightarrow> string \<Rightarrow> string \<Rightarrow> bool \<Rightarrow> ('s web, json) io" where
  "call_llm env cfg user_text system_prompt prefer_quality =
     (let t = sanitize_for_llm MAX_LLM_PROMPT_LENGTH user_text in
      if proxy_configured cfg
      then io_bind (call_proxy env cfg t system_prompt) (\<lambda>result.
             if jtruthy result then io_ret result
             else if cf_demo_mode cfg then io_ret JNull
             else call_direct env cfg t system_prompt prefer_quality)
      else call_direct env cfg t system_prompt prefer_quality)"

end
