(* ===== verification/LlmLaws.thy ===== *)
theory LlmLaws
  imports Llm SanitizeLaws
begin

text \<open>
  What the chain of model providers guarantees: it is the first true answer of the configured providers
  in order; only sanitized text leaves the program; in demo mode with a proxy nothing is sent anywhere
  else; and the proxy is only asked over HTTPS at an address that is not internal.
\<close>

section \<open>The providers in order\<close>

datatype provider = Proxy | Gemini string | Groq

definition direct_providers :: "settings \<Rightarrow> string list \<Rightarrow> provider list" where
  "direct_providers cfg models =
     (if cf_google_ai_api_key cfg \<noteq> [] then map Gemini models else [])
     @ (if cf_groq_api_key cfg \<noteq> [] then [Groq] else [])"

definition providers :: "settings \<Rightarrow> string list \<Rightarrow> provider list" where
  "providers cfg models =
     (if \<not> proxy_configured cfg then direct_providers cfg models
      else Proxy # (if cf_demo_mode cfg then [] else direct_providers cfg models))"

fun ask_provider :: "'s llm_env \<Rightarrow> settings \<Rightarrow> string \<Rightarrow> string \<Rightarrow> provider \<Rightarrow> ('s web, json) io" where
  "ask_provider env cfg t sp Proxy = call_proxy env cfg t sp"
| "ask_provider env cfg t sp (Gemini model) = call_google_ai env cfg t sp model"
| "ask_provider env cfg t sp Groq = call_groq env cfg t sp"

fun first_answer :: "'s llm_env \<Rightarrow> settings \<Rightarrow> string \<Rightarrow> string \<Rightarrow> provider list \<Rightarrow> ('s web, json) io" where
  "first_answer env cfg t sp [] = io_ret JNull"
| "first_answer env cfg t sp (p # ps) =
     io_bind (ask_provider env cfg t sp p) (\<lambda>r. if jtruthy r then io_ret r else first_answer env cfg t sp ps)"

text \<open>An answer, with what stands for it when it is false.\<close>

definition or_else :: "('s, json) io \<Rightarrow> json \<Rightarrow> ('s, json) io" where
  "or_else m x = io_bind m (\<lambda>r. io_ret (if jtruthy r then r else x))"

definition models_for :: "settings \<Rightarrow> bool \<Rightarrow> string list" where
  "models_for cfg prefer_quality =
     (if \<not> prefer_quality \<and> length (gemini_model_chain cfg) > 1 then drop 1 (gemini_model_chain cfg)
      else gemini_model_chain cfg)"

lemma io_bind_cong:
  assumes "\<And>x. f x = g x"
  shows "io_bind m f = io_bind m g"
proof -
  have "f = g" by (rule ext) (rule assms)
  then show ?thesis by simp
qed

lemma try_models_first: "try_models env cfg t sp ms = first_answer env cfg t sp (map Gemini ms)"
proof (induction ms)
  case Nil
  show ?case unfolding try_models.simps list.map first_answer.simps ..
next
  case (Cons m ms)
  show ?case
    unfolding try_models.simps list.map first_answer.simps ask_provider.simps Cons ..
qed

lemma first_answer_append:
  "first_answer env cfg t sp (ps @ qs) =
     io_bind (first_answer env cfg t sp ps) (\<lambda>r. if jtruthy r then io_ret r else first_answer env cfg t sp qs)"
proof (induction ps)
  case Nil
  have "(if jtruthy JNull then io_ret JNull else first_answer env cfg t sp qs) = first_answer env cfg t sp qs" by simp
  then show ?case unfolding append.simps first_answer.simps io_bind_ret by simp
next
  case (Cons p ps)
  show ?case
    unfolding append.simps first_answer.simps io_bind_assoc Cons
    by (rule io_bind_cong) (simp split: if_split del: io_ret_run)
qed

lemma direct_first:
  "io_bind (if cf_google_ai_api_key cfg \<noteq> [] then try_models env cfg t sp ms else io_ret JNull)
     (\<lambda>r. if jtruthy r then io_ret r else first_answer env cfg t sp (if cf_groq_api_key cfg \<noteq> [] then [Groq] else []))
   = first_answer env cfg t sp (direct_providers cfg ms)"
  by (simp add: direct_providers_def first_answer_append try_models_first)

lemma bind_or_else:
  "io_bind m (\<lambda>r. if jtruthy r then io_ret r else or_else (f r) x) =
     or_else (io_bind m (\<lambda>r. if jtruthy r then io_ret r else f r)) x"
  by (auto simp: or_else_def io_bind_assoc intro!: io_bind_cong simp del: io_ret_run)

lemma polish_direct_first:
  "polish_direct env cfg raw t sp =
     or_else (first_answer env cfg t sp (direct_providers cfg (gemini_model_chain cfg))) (JStr raw)"
proof -
  have groq: "io_bind (if cf_groq_api_key cfg \<noteq> [] then call_groq env cfg t sp else io_ret JNull)
      (\<lambda>r. if jtruthy r then io_ret r else io_ret (JStr raw)) =
    or_else (first_answer env cfg t sp (if cf_groq_api_key cfg \<noteq> [] then [Groq] else [])) (JStr raw)"
    by (auto simp: or_else_def io_bind_assoc intro!: io_bind_cong simp del: io_ret_run)
  show ?thesis unfolding polish_direct_def groq bind_or_else direct_first ..
qed

lemma call_direct_first:
  "or_else (call_direct env cfg t sp q) JNull =
     or_else (first_answer env cfg t sp (direct_providers cfg (models_for cfg q))) JNull"
proof -
  have groq: "or_else (if cf_groq_api_key cfg \<noteq> [] then call_groq env cfg t sp else io_ret JNull) JNull =
    or_else (first_answer env cfg t sp (if cf_groq_api_key cfg \<noteq> [] then [Groq] else [])) JNull"
    by (auto simp: or_else_def io_bind_assoc intro!: io_bind_cong simp del: io_ret_run)
  show ?thesis
    unfolding call_direct_def Let_def models_for_def [symmetric] bind_or_else [symmetric] direct_first [symmetric]
    by (intro io_bind_cong) (use groq in simp)
qed

lemma polish_digest_first:
  "polish_digest env cfg raw sp =
     or_else (first_answer env cfg (sanitize_for_llm MAX_LLM_PROMPT_LENGTH raw) sp
                (providers cfg (gemini_model_chain cfg))) (JStr raw)"
  by (auto simp: polish_digest_def polish_direct_first providers_def or_else_def io_bind_assoc Let_def
      intro!: io_bind_cong simp del: io_ret_run)

lemma call_llm_first:
  "or_else (call_llm env cfg user sp q) JNull =
     or_else (first_answer env cfg (sanitize_for_llm MAX_LLM_PROMPT_LENGTH user) sp
                (providers cfg (models_for cfg q))) JNull"
proof -
  have "or_else (io_ret JNull) JNull = io_ret JNull" by (simp add: or_else_def del: io_ret_run)
  then show ?thesis
    by (auto simp: call_llm_def call_direct_first providers_def bind_or_else [symmetric] Let_def
        intro!: io_bind_cong simp del: io_ret_run)
qed

section \<open>What is sent\<close>

text \<open>The text of the user in a request body.\<close>

definition asks_with :: "string \<Rightarrow> string \<Rightarrow> http_request \<Rightarrow> bool" where
  "asks_with t sp req \<longleftrightarrow> hr_body req = gemini_payload t sp \<or> (\<exists>model. hr_body req = chat_payload model t sp)"

definition to_proxy :: "'s llm_env \<Rightarrow> settings \<Rightarrow> http_request \<Rightarrow> bool" where
  "to_proxy env cfg req \<longleftrightarrow>
     hr_url req = rstrip_slash (strip_spaces (cf_litellm_proxy_url cfg)) @ ''/v1/chat/completions''
     \<and> prefix ''https://'' (strip_spaces (cf_litellm_proxy_url cfg))
     \<and> \<not> resolves_to_private_ip env (strip_spaces (cf_litellm_proxy_url cfg))
     \<and> hr_headers req = bearer_headers (cf_litellm_proxy_token cfg) \<and> hr_params req = []"

definition to_provider :: "'s llm_env \<Rightarrow> settings \<Rightarrow> http_request \<Rightarrow> bool" where
  "to_provider env cfg req \<longleftrightarrow>
     (proxy_configured cfg \<and> to_proxy env cfg req)
     \<or> (\<not> (proxy_configured cfg \<and> cf_demo_mode cfg)
        \<and> (hr_url req = GROQ_URL \<or> (\<exists>model. hr_url req = google_ai_url model)))"

definition llm_request :: "'s llm_env \<Rightarrow> settings \<Rightarrow> string \<Rightarrow> string \<Rightarrow> http_request \<Rightarrow> bool" where
  "llm_request env cfg t sp req \<longleftrightarrow> hr_method req = POST \<and> asks_with t sp req \<and> to_provider env cfg req"

lemma ask_sends: "P req \<Longrightarrow> sends_only P (ask env req refusals content)"
  unfolding ask_def or_none_def by (intro sends_only_catch sends_only_bind) (auto intro: sends_only_send)

lemma provider_sends:
  assumes "p = Proxy \<longrightarrow> proxy_configured cfg" and "p \<noteq> Proxy \<longrightarrow> \<not> (proxy_configured cfg \<and> cf_demo_mode cfg)"
  shows "sends_only (llm_request env cfg t sp) (ask_provider env cfg t sp p)"
proof (cases p)
  case Proxy
  then show ?thesis
    using assms(1)
    by (auto simp: call_proxy_def Let_def llm_request_def asks_with_def to_provider_def to_proxy_def
        intro!: ask_sends)
next
  case (Gemini model)
  then show ?thesis
    using assms(2)
    by (auto simp: call_google_ai_def Let_def llm_request_def asks_with_def to_provider_def intro!: ask_sends)
next
  case Groq
  then show ?thesis
    using assms(2)
    by (auto simp: call_groq_def llm_request_def asks_with_def to_provider_def intro!: ask_sends)
qed

lemma providers_sends:
  assumes "set ps \<subseteq> set (providers cfg ms)"
  shows "sends_only (llm_request env cfg t sp) (first_answer env cfg t sp ps)"
  using assms
proof (induction ps)
  case Nil
  show ?case unfolding first_answer.simps by (rule sends_only_ret)
next
  case (Cons p ps)
  have "p \<in> set (providers cfg ms)" using Cons.prems by simp
  then have "sends_only (llm_request env cfg t sp) (ask_provider env cfg t sp p)"
    by (intro provider_sends) (auto simp: providers_def direct_providers_def split: if_splits)
  with Cons show ?case by (auto intro!: sends_only_bind)
qed

text \<open>What is sent does not depend on what is made of the answer.\<close>

lemma sends_only_or_else: "sends_only P (or_else m x) \<longleftrightarrow> sends_only P m"
proof
  assume s: "sends_only P (or_else m x)"
  show "sends_only P m"
    unfolding sends_only_def
  proof (intro allI impI)
    fix n reqs s0 r n' reqs' s'
    assume "m (n, reqs, s0) = (r, n', reqs', s')"
    then have "\<exists>r'. or_else m x (n, reqs, s0) = (r', n', reqs', s')"
      by (cases r) (auto simp: or_else_def io_bind_run)
    with s show "\<exists>new. reqs' = reqs @ new \<and> list_all P new" unfolding sends_only_def by blast
  qed
qed (auto simp: or_else_def)

lemma polish_digest_sends:
  "sends_only (llm_request env cfg (sanitize_for_llm MAX_LLM_PROMPT_LENGTH raw) sp) (polish_digest env cfg raw sp)"
  unfolding polish_digest_first sends_only_or_else by (rule providers_sends) (rule order_refl)

lemma call_llm_sends:
  "sends_only (llm_request env cfg (sanitize_for_llm MAX_LLM_PROMPT_LENGTH user) sp) (call_llm env cfg user sp q)"
  using sends_only_or_else call_llm_first providers_sends by (metis order_refl)

section \<open>A configuration to evaluate\<close>

definition sample_llm :: "unit llm_env" where
  "sample_llm =
     \<lparr>le_server = (\<lambda>req s. (Inr (200, Inr (JObj [(''choices'', JArr [JObj [(''message'',
                   JObj [(''content'', JStr ''Done.'')])]])])), s)),
      le_hostname = (\<lambda>u. Some ''llm.example''), le_resolve = (\<lambda>h. Some [])\<rparr>"

definition sample_demo_settings :: settings where
  "sample_demo_settings =
     default_settings\<lparr>cf_litellm_proxy_url := ''https://llm.example'', cf_litellm_proxy_token := ''demo'',
                      cf_demo_mode := True, cf_groq_api_key := ''gk''\<rparr>"

lemma sample_llm_call:
  "\<exists>new. call_llm sample_llm sample_demo_settings ''Hi'' ''Be brief.'' False (0, [], ()) =
    (Inr (JStr ''Done.''), 0, new, ()) \<and> new \<noteq> []"
proof -
  have url: "strip_spaces (cf_litellm_proxy_url sample_demo_settings) = ''https://llm.example''" by code_simp
  have conf: "proxy_configured sample_demo_settings" by code_simp
  have "\<not> resolves_to_private_ip sample_llm ''https://llm.example''"
    by (simp add: resolves_to_private_ip_def sample_llm_def)
  then show ?thesis
    by (simp add: call_llm_def conf call_proxy_def url ask_def or_none_def io_catch_def io_bind_run http_send_def
        sample_llm_def raise_for_status_def chat_content_def at_key_def at_zero_def Let_def)
qed

section \<open>Properties\<close>

text \<open>The chain of providers is what its documentation lists: polishing a digest gives the first true answer
of the configured providers in order (proxy, then unless in demo mode the Gemini models, then Groq) to the
sanitized text, or else the raw text; a general call gives the same first answer, where a call that does
not prefer quality leaves out the first of several models.\<close>

theorem llm_chain_is_first_answer:
  "polish_digest env cfg raw sp =
     or_else (first_answer env cfg (sanitize_for_llm MAX_LLM_PROMPT_LENGTH raw) sp
                (providers cfg (gemini_model_chain cfg))) (JStr raw)
   \<and> or_else (call_llm env cfg user sp q) JNull =
     or_else (first_answer env cfg (sanitize_for_llm MAX_LLM_PROMPT_LENGTH user) sp
                (providers cfg (models_for cfg q))) JNull"
  by (intro conjI polish_digest_first call_llm_first)

text \<open>C34. Only sanitized text leaves, and in demo mode only to the proxy: every request a model call makes is a
POST whose body carries the sanitized text and the given system prompt; the proxy is asked over HTTPS, at an
address the guard lets through, with the proxy token; and when a proxy is configured in demo mode every
request goes to it, none with a direct key.\<close>

theorem llm_requests_are_guarded:
  assumes "call_llm env cfg user sp q (n, reqs, s) = (r, n', reqs', s')
      \<or> polish_digest env cfg user sp (n, reqs, s) = (r, n', reqs', s')"
  shows "\<exists>new. reqs' = reqs @ new \<and> (\<forall>req \<in> set new.
      hr_method req = POST \<and> asks_with (sanitize_for_llm MAX_LLM_PROMPT_LENGTH user) sp req
    \<and> (to_proxy env cfg req \<or> hr_url req = GROQ_URL \<or> (\<exists>model. hr_url req = google_ai_url model))
    \<and> (proxy_configured cfg \<and> cf_demo_mode cfg \<longrightarrow> to_proxy env cfg req))"
proof -
  let ?P = "llm_request env cfg (sanitize_for_llm MAX_LLM_PROMPT_LENGTH user) sp"
  have "sends_only ?P (polish_digest env cfg user sp)" and "sends_only ?P (call_llm env cfg user sp q)"
    by (rule polish_digest_sends, rule call_llm_sends)
  then obtain new where "reqs' = reqs @ new" "list_all ?P new"
    using assms sends_onlyD by meson
  then show ?thesis
    by (auto simp: list_all_iff llm_request_def to_provider_def)
qed

theorem llm_requests_are_guarded_witness:
  "\<exists>new. new \<noteq> [] \<and> (\<forall>req \<in> set new. to_proxy sample_llm sample_demo_settings req)"
proof -
  from sample_llm_call obtain new where
    c: "call_llm sample_llm sample_demo_settings ''Hi'' ''Be brief.'' False (0, [], ()) = (Inr (JStr ''Done.''), 0, new, ())"
    and "new \<noteq> []" by blast
  have "proxy_configured sample_demo_settings \<and> cf_demo_mode sample_demo_settings" by code_simp
  with llm_requests_are_guarded [OF disjI1 [OF c]] \<open>new \<noteq> []\<close> show ?thesis by auto
qed

end
