(* ===== verification/Todoist.thy ===== *)
theory Todoist
  imports Http Silver Sanitize TaskQueue
begin

text \<open>
  \<open>src/brain/todoist.py\<close>: the client that reads and updates tasks over HTTP, and the parsing of a task
  document. Parameters stand for \<open>str\<close> of a JSON value that is no string and for reading ISO texts. The
  loop over the pages runs on fuel, since a server may go on giving cursors; running out is an error of
  its own. Texts are code points below 256. A document whose field has another type than the API
  promises (a label, a priority, a parent that is no text or number) counts as an error.
\<close>

section \<open>The client\<close>

record 's todoist_env =
  td_server :: "'s server"
  td_token :: string
  td_str :: "json \<Rightarrow> string"
  td_date_from_iso :: "string \<Rightarrow> date option"
  td_wall_from_iso :: "string \<Rightarrow> wall_time option"

definition API_BASE :: string where
  "API_BASE = ''https://api.todoist.com/api/v1''"

definition todoist_headers :: "'s todoist_env \<Rightarrow> jdict" where
  "todoist_headers env =
     [(''Authorization'', JStr (''Bearer '' @ td_token env)), (''Content-Type'', JStr ''application/json'')]"

definition todoist_get :: "'s todoist_env \<Rightarrow> string \<Rightarrow> jdict \<Rightarrow> ('s web, json) io" where
  "todoist_get env url params =
     io_bind (http_send (td_server env)
                \<lparr>hr_method = GET, hr_url = url, hr_headers = todoist_headers env, hr_params = params, hr_body = []\<rparr>)
       (\<lambda>resp. io_res (raise_for_status resp))"

definition todoist_post :: "'s todoist_env \<Rightarrow> string \<Rightarrow> jdict \<Rightarrow> ('s web, json) io" where
  "todoist_post env url body =
     io_bind (http_send (td_server env)
                \<lparr>hr_method = POST, hr_url = url, hr_headers = todoist_headers env, hr_params = [], hr_body = body\<rparr>)
       (\<lambda>resp. io_res (raise_for_status resp))"

definition no_fuel :: py_error where
  "no_fuel = OtherError ''more pages than fuel''"

text \<open>The rows of one page and the cursor of the next.\<close>

definition read_page :: "json \<Rightarrow> (json list \<times> json) res" where
  "read_page data =
     rbind (as_dict data) (\<lambda>d.
     rbind (as_list (dget d ''results'' (JArr []))) (\<lambda>rows. Inr (rows, dget d ''next_cursor'' JNull)))"

fun pages :: "'s todoist_env \<Rightarrow> nat \<Rightarrow> string \<Rightarrow> jdict \<Rightarrow> json list \<Rightarrow> ('s web, json list) io" where
  "pages env 0 url params results = io_raise no_fuel"
| "pages env (Suc fuel) url params results =
     io_bind (todoist_get env url params) (\<lambda>data.
     io_bind (io_res (read_page data)) (\<lambda>(rows, cursor).
       if \<not> jtruthy cursor then io_ret (results @ rows)
       else pages env fuel url (AList.update ''cursor'' cursor params) (results @ rows)))"

definition paginate :: "'s todoist_env \<Rightarrow> nat \<Rightarrow> string \<Rightarrow> jdict \<Rightarrow> ('s web, json list) io" where
  "paginate env fuel url params =
     pages env fuel url (if has_key params ''limit'' then params else params @ [(''limit'', JInt 200)]) []"

section \<open>Projects and sections\<close>

text \<open>\<open>{p["id"]: p["name"] for p in rows}\<close>.\<close>

definition id_name_map :: "json list \<Rightarrow> (json \<times> json) list res" where
  "id_name_map rows =
     rfold (\<lambda>p m. rbind (as_dict p) (\<lambda>d.
              case map_of d ''id'' of
                None \<Rightarrow> Inl (KeyError ''id'')
              | Some i \<Rightarrow>
                  (case map_of d ''name'' of
                     None \<Rightarrow> Inl (KeyError ''name'')
                   | Some name \<Rightarrow> rbind (dict_key i) (\<lambda>k. Inr (AList.update k name m)))))
       rows []"

definition get_project_map :: "'s todoist_env \<Rightarrow> nat \<Rightarrow> ('s web, (json \<times> json) list) io" where
  "get_project_map env fuel =
     io_bind (paginate env fuel (API_BASE @ ''/projects'') []) (\<lambda>rows. io_res (id_name_map rows))"

definition opt_param :: "string \<Rightarrow> string \<Rightarrow> jdict" where
  "opt_param key v = (if v = [] then [] else [(key, JStr v)])"

definition get_sections :: "'s todoist_env \<Rightarrow> nat \<Rightarrow> string \<Rightarrow> ('s web, json list) io" where
  "get_sections env fuel project_id =
     paginate env fuel (API_BASE @ ''/sections'') (opt_param ''project_id'' project_id)"

definition get_section_map :: "'s todoist_env \<Rightarrow> nat \<Rightarrow> string \<Rightarrow> ('s web, (json \<times> json) list) io" where
  "get_section_map env fuel project_id =
     io_bind (get_sections env fuel project_id) (\<lambda>rows. io_res (id_name_map rows))"

section \<open>Parsing a task\<close>

definition clean_iso :: "string \<Rightarrow> string" where
  "clean_iso s =
     (let cleaned = concat (map (\<lambda>c. if c = CHR ''Z'' then ''+00:00'' else [c]) s)
      in if CHR ''+'' \<notin> set cleaned \<and> CHR ''-'' \<notin> set (drop 10 cleaned) then cleaned @ ''+00:00'' else cleaned)"

definition parse_due ::
    "'s todoist_env \<Rightarrow> jdict \<Rightarrow> (date option \<times> wall_time option \<times> bool \<times> bool) res" where
  "parse_due env due =
     (let recurring = jtruthy (dget due ''is_recurring'' (JBool False)) in
      rbind (str_field due ''date'' (Some [])) (\<lambda>date_str.
        if CHR ''T'' \<in> set date_str
        then (case td_wall_from_iso env (clean_iso date_str) of
                Some w \<Rightarrow> Inr (Some (wall_date w), Some w, True, recurring)
              | None \<Rightarrow> Inr (None, None, True, recurring))
        else if date_str \<noteq> [] then Inr (td_date_from_iso env date_str, None, False, recurring)
        else Inr (None, None, False, recurring)))"

definition parse_task_due ::
    "'s todoist_env \<Rightarrow> json \<Rightarrow> (date option \<times> wall_time option \<times> bool \<times> bool) res" where
  "parse_task_due env due =
     (if \<not> jtruthy due then Inr (None, None, False, False) else rbind (as_dict due) (parse_due env))"

definition parse_task_duration :: "json \<Rightarrow> int option res" where
  "parse_task_duration v =
     (if \<not> jtruthy v then Inr None
      else rbind (as_dict v) (\<lambda>d.
             let unit = dget d ''unit'' (JStr ''minute'');
                 factor = (if unit = JStr ''minute'' then 1 else if unit = JStr ''hour'' then 60
                           else if unit = JStr ''day'' then 480 else (0 :: int))
             in if factor = 0 then Inr None
                else case dget d ''amount'' (JInt 0) of
                       JInt i \<Rightarrow> Inr (Some (i * factor))
                     | _ \<Rightarrow> Inl (OtherError ''TypeError'')))"

definition parse_added :: "'s todoist_env \<Rightarrow> jdict \<Rightarrow> wall_time option res" where
  "parse_added env raw =
     (let a = dget raw ''added_at'' JNull;
          added = (if jtruthy a then a else dget raw ''created_at'' JNull)
      in if \<not> jtruthy added then Inr None
         else case added of
                JStr s \<Rightarrow> Inr (td_wall_from_iso env (concat (map (\<lambda>c. if c = CHR ''Z'' then ''+00:00'' else [c]) s)))
              | _ \<Rightarrow> Inl (OtherError ''AttributeError''))"

text \<open>A text field through \<open>sanitize_text\<close>: an empty value is the empty text, another type raises.\<close>

definition safe_field :: "nat \<Rightarrow> json \<Rightarrow> string res" where
  "safe_field limit v =
     (if \<not> jtruthy v then Inr []
      else case v of
             JStr s \<Rightarrow> Inr (sn_text (sanitize_text limit True True s))
           | _ \<Rightarrow> Inl (OtherError ''TypeError''))"

definition MAX_TASK_DESCRIPTION_LENGTH :: nat where "MAX_TASK_DESCRIPTION_LENGTH = 5000"

definition label_texts :: "json \<Rightarrow> string list res" where
  "label_texts v =
     rbind (as_list v) (\<lambda>ls.
       rmap (\<lambda>l. if \<not> jtruthy l then Inr []
                 else case l of JStr s \<Rightarrow> Inr s | _ \<Rightarrow> Inl (OtherError ''TypeError'')) (take MAX_LABELS_COUNT ls))"

text \<open>A name from a map, where a name that is no text counts as an error.\<close>

definition map_name :: "(json \<times> json) list \<Rightarrow> string \<Rightarrow> string res" where
  "map_name m key =
     (case map_of m (JStr key) of
        None \<Rightarrow> Inr []
      | Some (JStr s) \<Rightarrow> Inr s
      | Some _ \<Rightarrow> Inl (OtherError ''TypeError''))"

definition parse_task ::
    "'s todoist_env \<Rightarrow> (json \<times> json) list \<Rightarrow> (json \<times> json) list \<Rightarrow> jdict \<Rightarrow> task res" where
  "parse_task env projects sections raw =
     rbind (parse_task_due env (dget raw ''due'' JNull)) (\<lambda>(due_date, due_datetime, has_time, recurring).
     rbind (parse_task_duration (dget raw ''duration'' JNull)) (\<lambda>minutes.
     rbind (parse_added env raw) (\<lambda>added.
     let project = dget raw ''project_id'' (JStr []);
         section = dget raw ''section_id'' (JStr []);
         project_id = json_text (td_str env) project;
         section_id = (if jtruthy section then json_text (td_str env) section else []) in
     rbind (safe_field (nat MAX_TASK_CONTENT_LENGTH) (dget raw ''content'' (JStr []))) (\<lambda>content.
     rbind (safe_field MAX_TASK_DESCRIPTION_LENGTH (dget raw ''description'' (JStr []))) (\<lambda>description.
     rbind (label_texts (dget raw ''labels'' (JArr []))) (\<lambda>labels.
     rbind (case map_of raw ''id'' of None \<Rightarrow> Inl (KeyError ''id'') | Some i \<Rightarrow> Inr (json_text (td_str env) i)) (\<lambda>i.
     rbind (map_name projects project_id) (\<lambda>project_name.
     rbind (if section_id = [] then Inr [] else map_name sections section_id) (\<lambda>section_name.
     rbind (case dget raw ''priority'' (JInt 1) of
              JInt p \<Rightarrow> Inr p | JBool b \<Rightarrow> Inr (of_bool b) | _ \<Rightarrow> Inl (OtherError ''TypeError'')) (\<lambda>priority.
     rbind (case dget raw ''url'' JNull of
              JStr s \<Rightarrow> Inr (if s = [] then ''https://app.todoist.com/app/task/'' @ i else s)
            | v \<Rightarrow> if jtruthy v then Inl (OtherError ''TypeError'')
                   else Inr (''https://app.todoist.com/app/task/'' @ i)) (\<lambda>url.
     rbind (case dget raw ''parent_id'' JNull of
              JNull \<Rightarrow> Inr None | JStr s \<Rightarrow> Inr (Some s) | _ \<Rightarrow> Inl (OtherError ''TypeError'')) (\<lambda>parent.
       Inr \<lparr>tk_id = i, tk_content = content, tk_description = description, tk_project_id = project_id,
            tk_project_name = project_name, tk_section_id = section_id, tk_section_name = section_name,
            tk_priority = priority, tk_labels = sanitize_labels labels, tk_due_date = due_date,
            tk_due_datetime = due_datetime, tk_due_has_time = has_time, tk_duration_minutes = minutes,
            tk_url = url, tk_is_recurring = recurring, tk_added_at = added, tk_parent_id = parent\<rparr>))))))))))))"

definition parse_tasks ::
    "'s todoist_env \<Rightarrow> (json \<times> json) list \<Rightarrow> (json \<times> json) list \<Rightarrow> json list \<Rightarrow> task list res" where
  "parse_tasks env projects sections rows =
     rmap (\<lambda>row. rbind (as_dict row) (parse_task env projects sections)) rows"

section \<open>Reading tasks\<close>

definition get_tasks ::
    "'s todoist_env \<Rightarrow> nat \<Rightarrow> string \<Rightarrow> string \<Rightarrow> string \<Rightarrow> ('s web, task list) io" where
  "get_tasks env fuel project_id section_id label =
     io_bind (paginate env fuel (API_BASE @ ''/tasks'')
                (opt_param ''project_id'' project_id @ opt_param ''section_id'' section_id @ opt_param ''label'' label)) (\<lambda>rows.
     io_bind (get_project_map env fuel) (\<lambda>projects.
     io_bind (get_section_map env fuel project_id) (\<lambda>sections.
       io_res (parse_tasks env projects sections rows))))"

text \<open>\<open>except requests.RequestException\<close>: the fallback, and any other exception goes through.\<close>

definition or_on_request_error :: "('s, 'a) io \<Rightarrow> 'a \<Rightarrow> ('s, 'a) io" where
  "or_on_request_error m x = io_catch m (\<lambda>e. if e = request_error then io_ret x else io_raise e)"

definition page_rows :: "'s todoist_env \<Rightarrow> string \<Rightarrow> jdict \<Rightarrow> ('s web, json list option) io" where
  "page_rows env url params =
     or_on_request_error
       (io_bind (todoist_get env url params) (\<lambda>data.
        io_bind (io_res (as_dict data)) (\<lambda>d.
        io_bind (io_res (as_list (dget d ''results'' (JArr [])))) (\<lambda>rows. io_ret (Some rows)))))
       None"

definition get_filtered_tasks :: "'s todoist_env \<Rightarrow> nat \<Rightarrow> string \<Rightarrow> ('s web, task list) io" where
  "get_filtered_tasks env fuel filter_query =
     io_bind (page_rows env (API_BASE @ ''/tasks/filter'')
                [(''query'', JStr filter_query), (''limit'', JInt 200)]) (\<lambda>found.
       case found of
         None \<Rightarrow> io_ret []
       | Some rows \<Rightarrow>
           io_bind (get_project_map env fuel) (\<lambda>projects. io_res (parse_tasks env projects [] rows)))"

definition get_overdue_tasks :: "'s todoist_env \<Rightarrow> nat \<Rightarrow> ('s web, task list) io" where
  "get_overdue_tasks env fuel = get_filtered_tasks env fuel ''overdue''"

definition get_today_tasks :: "'s todoist_env \<Rightarrow> nat \<Rightarrow> ('s web, task list) io" where
  "get_today_tasks env fuel = get_filtered_tasks env fuel ''today | overdue''"

definition get_upcoming_tasks :: "'s todoist_env \<Rightarrow> nat \<Rightarrow> int \<Rightarrow> ('s web, task list) io" where
  "get_upcoming_tasks env fuel days = get_filtered_tasks env fuel (int_text days @ '' days'')"

definition get_weekend_tasks :: "'s todoist_env \<Rightarrow> nat \<Rightarrow> ('s web, task list) io" where
  "get_weekend_tasks env fuel = get_filtered_tasks env fuel ''saturday | sunday''"

definition get_completed_tasks :: "'s todoist_env \<Rightarrow> string \<Rightarrow> ('s web, json list) io" where
  "get_completed_tasks env since =
     io_bind (page_rows env (API_BASE @ ''/tasks/completed/by_completion_date'')
                ((''limit'', JInt 200) # opt_param ''since'' since)) (\<lambda>found.
       io_ret (case found of None \<Rightarrow> [] | Some rows \<Rightarrow> rows))"

section \<open>Writing\<close>

definition blocked_fields :: "string list" where
  "blocked_fields = [''is_deleted'', ''checked'', ''in_history'']"

definition task_url :: "string \<Rightarrow> string" where
  "task_url task_id = API_BASE @ ''/tasks/'' @ task_id"

definition update_task :: "'s todoist_env \<Rightarrow> string \<Rightarrow> jdict \<Rightarrow> ('s web, json) io" where
  "update_task env task_id changes =
     (if \<exists>k \<in> set blocked_fields. has_key changes k
      then io_raise (ValueError ''SAFETY: Refusing to send destructive fields.'')
      else todoist_post env (task_url task_id) changes)"

definition delete_task :: "('s web, json) io" where
  "delete_task = io_raise (OtherError ''NotImplementedError'')"

definition close_task :: "('s web, json) io" where
  "close_task = io_raise (OtherError ''NotImplementedError'')"

definition move_task :: "'s todoist_env \<Rightarrow> string \<Rightarrow> string \<Rightarrow> ('s web, json) io" where
  "move_task env task_id section_id =
     todoist_post env (task_url task_id @ ''/move'') [(''section_id'', JStr section_id)]"

definition create_section :: "'s todoist_env \<Rightarrow> string \<Rightarrow> string \<Rightarrow> int option \<Rightarrow> ('s web, json) io" where
  "create_section env project_id name order =
     todoist_post env (API_BASE @ ''/sections'')
       ([(''name'', JStr name), (''project_id'', JStr project_id)]
        @ (case order of None \<Rightarrow> [] | Some i \<Rightarrow> [(''order'', JInt i)]))"

end
