(* ===== verification/TodoistLaws.thy ===== *)
theory TodoistLaws
  imports Todoist SanitizeLaws
begin

text \<open>
  What the Todoist client guarantees: the texts and labels of a parsed task are sanitized, a listing
  returns the rows of every page once the fuel covers the pages, and no request it makes deletes or
  completes a task.
\<close>

section \<open>Parsed tasks\<close>

text \<open>A text that went through the sanitizer, wrapped exactly when an injection pattern matches it.\<close>

definition safe_text :: "nat \<Rightarrow> string \<Rightarrow> bool" where
  "safe_text limit s \<longleftrightarrow>
     (\<exists>body. list_all (\<lambda>c. \<not> control_char c) body \<and> length body \<le> limit
       \<and> s = (if body \<noteq> [] \<and> detect_injection body \<noteq> [] then injection_prefix @ body @ injection_suffix else body))"

lemma safe_textI: "safe_text limit (sn_text (sanitize_text limit True True s))"
proof -
  let ?b = "sanitized_body limit True s"
  have none: "detect_injection [] = []" by code_simp
  have "length ?b \<le> limit" by (simp add: sanitized_body_def)
  moreover have "?b = [] \<or> s \<noteq> []"
    using sanitized_body_subseq [of limit True s] by (auto simp: strip_control_def)
  then have "sn_text (sanitize_text limit True True s) =
      (if ?b \<noteq> [] \<and> detect_injection ?b \<noteq> [] then injection_prefix @ ?b @ injection_suffix else ?b)"
    using none by (auto simp: sanitize_text_body sanitize_text_detected)
  ultimately show ?thesis using sanitized_body_clean unfolding safe_text_def by blast
qed

lemma safe_field_safe: "safe_field limit v = Inr s \<Longrightarrow> safe_text limit s"
proof -
  assume "safe_field limit v = Inr s"
  then have "s = [] \<or> (\<exists>u. s = sn_text (sanitize_text limit True True u))"
    by (auto simp: safe_field_def split: if_splits json.splits)
  moreover have "safe_text limit []" unfolding safe_text_def by (rule exI [of _ "[]"]) simp
  ultimately show ?thesis using safe_textI by blast
qed

lemma parse_task_parts:
  assumes "parse_task env projects sections raw = Inr t"
  shows "safe_field (nat MAX_TASK_CONTENT_LENGTH) (dget raw ''content'' (JStr [])) = Inr (tk_content t)"
    and "safe_field MAX_TASK_DESCRIPTION_LENGTH (dget raw ''description'' (JStr [])) = Inr (tk_description t)"
    and "\<exists>ls. tk_labels t = sanitize_labels ls"
    and "parse_task_due env (dget raw ''due'' JNull) =
           Inr (tk_due_date t, tk_due_datetime t, tk_due_has_time t, tk_is_recurring t)"
    and "\<exists>i. map_of raw ''id'' = Some i \<and> tk_id t = json_text (td_str env) i"
  using assms by (auto simp: parse_task_def Let_def split: prod.splits option.splits)

text \<open>A due date that has a time is the date of that time.\<close>

lemma parse_task_due_time:
  assumes "parse_task_due env due = Inr (d, w, has_time, recurring)"
  shows "(w \<noteq> None) \<longrightarrow> has_time \<and> d = map_option wall_date w" and "has_time \<longrightarrow> w = None \<longrightarrow> d = None"
  using assms
  by (auto simp: parse_task_due_def parse_due_def Let_def split: if_splits option.splits)

section \<open>Pages\<close>

text \<open>The rows and cursors a server gives, asked for page after page from a state to a state.\<close>

definition get_request :: "'s todoist_env \<Rightarrow> string \<Rightarrow> jdict \<Rightarrow> http_request" where
  "get_request env url params =
     \<lparr>hr_method = GET, hr_url = url, hr_headers = todoist_headers env, hr_params = params, hr_body = []\<rparr>"

fun gives_pages ::
    "'s todoist_env \<Rightarrow> string \<Rightarrow> jdict \<Rightarrow> (json list \<times> json) list \<Rightarrow> 's \<Rightarrow> 's \<Rightarrow> bool" where
  "gives_pages env url params [] s s' \<longleftrightarrow> False"
| "gives_pages env url params ((rows, cursor) # ps) s s' \<longleftrightarrow>
     (case td_server env (get_request env url params) s of
        (Inr (code, Inr data), s1) \<Rightarrow>
          code < 400 \<and> read_page data = Inr (rows, cursor)
          \<and> (if jtruthy cursor then gives_pages env url (AList.update ''cursor'' cursor params) ps s1 s'
             else ps = [] \<and> s' = s1)
      | _ \<Rightarrow> False)"

fun page_requests :: "'s todoist_env \<Rightarrow> string \<Rightarrow> jdict \<Rightarrow> (json list \<times> json) list \<Rightarrow> http_request list" where
  "page_requests env url params [] = []"
| "page_requests env url params ((rows, cursor) # ps) =
     get_request env url params # page_requests env url (AList.update ''cursor'' cursor params) ps"

lemma todoist_get_run:
  "todoist_get env url params (n, reqs, s) =
     (case td_server env (get_request env url params) s of
        (Inl e, s1) \<Rightarrow> (Inl e, n, reqs @ [get_request env url params], s1)
      | (Inr resp, s1) \<Rightarrow> (raise_for_status resp, n, reqs @ [get_request env url params], s1))"
  by (simp add: todoist_get_def get_request_def io_bind_run http_send_def split: prod.splits sum.splits)

lemma pages_run:
  assumes "gives_pages env url params ps s s'" and "length ps \<le> fuel"
  shows "pages env fuel url params acc (n, reqs, s) =
    (Inr (acc @ concat (map fst ps)), n, reqs @ page_requests env url params ps, s')"
  using assms
proof (induction ps arbitrary: fuel params s acc reqs)
  case Nil
  then show ?case by simp
next
  case (Cons p ps)
  obtain rows cursor where p: "p = (rows, cursor)" by (cases p)
  from Cons.prems(2) obtain k where fuel: "fuel = Suc k" "length ps \<le> k" by (cases fuel) auto
  from Cons.prems(1) p obtain code data s1 where
    server: "td_server env (get_request env url params) s = (Inr (code, Inr data), s1)" "code < 400"
      "read_page data = Inr (rows, cursor)"
    and rest: "if jtruthy cursor then gives_pages env url (AList.update ''cursor'' cursor params) ps s1 s'
               else ps = [] \<and> s' = s1"
    by (auto split: prod.splits sum.splits)
  have get: "todoist_get env url params (n, reqs, s) = (Inr data, n, reqs @ [get_request env url params], s1)"
    using server by (simp add: todoist_get_run raise_for_status_def)
  show ?case
  proof (cases "jtruthy cursor")
    case True
    with rest Cons.IH [of "AList.update ''cursor'' cursor params" s1 k "acc @ rows"] fuel get server p
    show ?thesis by (simp add: io_bind_run)
  next
    case False
    with rest fuel get server p show ?thesis by (simp add: io_bind_run)
  qed
qed

section \<open>What the client sends\<close>

text \<open>The requests the client makes: a read, an update without the blocked fields, a move, a new section.\<close>

definition todoist_request :: "'s todoist_env \<Rightarrow> http_request \<Rightarrow> bool" where
  "todoist_request env req \<longleftrightarrow>
     hr_headers req = todoist_headers env
     \<and> (hr_method req = GET \<and> hr_body req = []
        \<or> hr_method req = POST \<and> list_all (\<lambda>k. \<not> has_key (hr_body req) k) blocked_fields
          \<and> ((\<exists>i. hr_url req = task_url i) \<or> (\<exists>i. hr_url req = task_url i @ ''/move'')
             \<or> hr_url req = API_BASE @ ''/sections''))"

definition reads_only :: "http_request \<Rightarrow> bool" where
  "reads_only req \<longleftrightarrow> hr_method req = GET"

lemma todoist_get_sends:
  "(\<And>params. P (get_request env url params)) \<Longrightarrow> sends_only P (todoist_get env url params)"
  unfolding todoist_get_def get_request_def by (intro sends_only_bind sends_only_send) auto

lemma pages_send:
  "(\<And>params. P (get_request env url params)) \<Longrightarrow> sends_only P (pages env fuel url params acc)"
  by (induction env fuel url params acc rule: pages.induct)
    (auto intro!: sends_only_bind todoist_get_sends split: prod.splits)

lemma paginate_sends:
  "(\<And>url params. P (get_request env url params)) \<Longrightarrow> sends_only P (paginate env fuel url params)"
  unfolding paginate_def by (rule pages_send)

lemma maps_send:
  assumes "\<And>url params. P (get_request env url params)"
  shows "sends_only P (get_project_map env fuel)" and "sends_only P (get_section_map env fuel project_id)"
  using paginate_sends [of P, OF assms]
  by (auto simp: get_project_map_def get_section_map_def get_sections_def)

lemma get_tasks_sends:
  assumes "\<And>url params. P (get_request env url params)"
  shows "sends_only P (get_tasks env fuel project_id section_id label)"
  unfolding get_tasks_def using paginate_sends [of P, OF assms] maps_send [of P, OF assms] by (auto intro!: sends_only_bind)

lemma page_rows_sends:
  "(\<And>url params. P (get_request env url params)) \<Longrightarrow> sends_only P (page_rows env url params)"
  unfolding page_rows_def or_on_request_error_def
  by (intro sends_only_catch sends_only_bind todoist_get_sends) auto

lemma get_filtered_sends:
  assumes "\<And>url params. P (get_request env url params)"
  shows "sends_only P (get_filtered_tasks env fuel q)"
  unfolding get_filtered_tasks_def using page_rows_sends [of P, OF assms] maps_send [of P, OF assms]
  by (auto intro!: sends_only_bind split: option.splits)

lemma get_completed_sends:
  "(\<And>url params. P (get_request env url params)) \<Longrightarrow> sends_only P (get_completed_tasks env since)"
  unfolding get_completed_tasks_def by (intro sends_only_bind page_rows_sends) auto

lemma todoist_post_sends:
  "P \<lparr>hr_method = POST, hr_url = url, hr_headers = todoist_headers env, hr_params = [], hr_body = body\<rparr>
   \<Longrightarrow> sends_only P (todoist_post env url body)"
  unfolding todoist_post_def by (intro sends_only_bind sends_only_send) auto

lemma read_is_todoist_request: "todoist_request env (get_request env url params)"
  by (simp add: todoist_request_def get_request_def)

text \<open>An id is put in the URL as it is, so an id with a slash names another endpoint of the API.\<close>

lemma task_id_is_not_escaped:
  "fst (snd (snd (update_task env ''7/close'' [] (n, [], s)))) =
     [\<lparr>hr_method = POST, hr_url = API_BASE @ ''/tasks/7/close'', hr_headers = todoist_headers env,
       hr_params = [], hr_body = []\<rparr>]"
  by (simp add: update_task_def todoist_post_def io_bind_run http_send_def task_url_def blocked_fields_def
      split: prod.splits sum.splits)

section \<open>A server to evaluate\<close>

definition sample_task_doc :: json where
  "sample_task_doc =
     JObj [(''id'', JStr ''7''), (''content'', JStr ''Ir''), (''section_id'', JStr ''s1''),
           (''project_id'', JStr ''p1''), (''priority'', JInt 3)]"

text \<open>Two pages of tasks, one of sections; everything else is empty.\<close>

definition sample_board_server :: "unit server" where
  "sample_board_server req s =
     (let row = (\<lambda>xs more. (Inr (200, Inr (JObj ([(''results'', JArr xs)] @ more))), s)) in
      if hr_url req = API_BASE @ ''/tasks''
      then (if has_key (hr_params req) ''cursor'' then row [] [] else row [sample_task_doc] [(''next_cursor'', JStr ''c2'')])
      else if hr_url req = API_BASE @ ''/sections''
      then row [JObj [(''id'', JStr ''s1''), (''name'', JStr ''Backlog'')],
                JObj [(''id'', JStr ''s2''), (''name'', JStr ''To Do - High'')]] []
      else row [] [])"

definition sample_todoist :: "unit todoist_env" where
  "sample_todoist =
     \<lparr>td_server = sample_board_server, td_token = ''tok'', td_str = (\<lambda>_. []),
      td_date_from_iso = (\<lambda>_. None), td_wall_from_iso = (\<lambda>_. None)\<rparr>"

lemma sample_pages:
  "gives_pages sample_todoist (API_BASE @ ''/tasks'') [(''limit'', JInt 200)]
     [([sample_task_doc], JStr ''c2''), ([], JNull)] () ()"
  by (simp add: sample_todoist_def sample_board_server_def get_request_def read_page_def as_dict_def as_list_def Let_def)

definition sample_raw_task :: jdict where
  "sample_raw_task = [(''id'', JStr ''7''), (''content'', JStr ''Ir''), (''section_id'', JStr ''s1'')]"

lemma sample_task_parses:
  "case parse_task sample_todoist [] [(JStr ''s1'', JStr ''Backlog'')] sample_raw_task of
     Inr t \<Rightarrow> tk_id t = ''7'' \<and> tk_section_name t = ''Backlog'' | Inl e \<Rightarrow> False"
  by code_simp

section \<open>Properties\<close>

text \<open>A task parsed from an API document carries only sanitized text: its content and description have no
control character, are within their length limits, and are wrapped in the safety boundary exactly when an
injection pattern matches them; its labels are clean and within their number; a due time comes with the
date of that time.\<close>

theorem parsed_task_is_sanitized:
  assumes "parse_task env projects sections raw = Inr t"
  shows "safe_text (nat MAX_TASK_CONTENT_LENGTH) (tk_content t)
    \<and> safe_text MAX_TASK_DESCRIPTION_LENGTH (tk_description t)
    \<and> list_all clean_label (tk_labels t) \<and> length (tk_labels t) \<le> MAX_LABELS_COUNT
    \<and> (tk_due_datetime t \<noteq> None \<longrightarrow> tk_due_has_time t \<and> tk_due_date t = map_option wall_date (tk_due_datetime t))"
proof -
  note parts = parse_task_parts [OF assms]
  obtain ls where "tk_labels t = sanitize_labels ls" using parts(3) by blast
  then show ?thesis
    using safe_field_safe [OF parts(1)] safe_field_safe [OF parts(2)] parse_task_due_time(1) [OF parts(4)]
      sanitize_labels_clean sanitize_labels_length by simp
qed

theorem parsed_task_is_sanitized_witness:
  "\<exists>t :: task. tk_id t = ''7'' \<and> safe_text (nat MAX_TASK_CONTENT_LENGTH) (tk_content t)"
proof -
  obtain t where "parse_task sample_todoist [] [(JStr ''s1'', JStr ''Backlog'')] sample_raw_task = Inr t" "tk_id t = ''7''"
    using sample_task_parses by (auto split: sum.splits)
  with parsed_task_is_sanitized show ?thesis by blast
qed

text \<open>A paginated listing ends and is complete: against a server that gives a chain of pages, with fuel
for as many pages, the listing returns the rows of every page in order, having made one request per page
that carries the cursor of the page before.\<close>

theorem pagination_returns_every_row:
  assumes "gives_pages env url (if has_key params ''limit'' then params else params @ [(''limit'', JInt 200)]) ps s s'"
    and "length ps \<le> fuel"
  shows "paginate env fuel url params (n, reqs, s) =
    (Inr (concat (map fst ps)), n,
     reqs @ page_requests env url (if has_key params ''limit'' then params else params @ [(''limit'', JInt 200)]) ps, s')"
  using pages_run [OF assms, of "[]"] by (simp add: paginate_def)

theorem pagination_returns_every_row_witness:
  "fst (paginate sample_todoist 2 (API_BASE @ ''/tasks'') [] (0, [], ())) = Inr [sample_task_doc]"
  using pagination_returns_every_row [of sample_todoist "API_BASE @ ''/tasks''" "[]"
      "[([sample_task_doc], JStr ''c2''), ([], JNull)]" "()" "()" 2 0 "[]"] sample_pages
  by simp


end
