(* ===== verification/Organizer.thy ===== *)
theory Organizer
  imports Todoist Llm
begin

text \<open>
  \<open>src/brain/organizer.py\<close>: labels inferred from task names, the section a task belongs to, the analysis
  of a board and its reorganization through the Todoist client. Texts are code points below 256; the dash
  of one literal is written as its UTF-8 bytes. Today's date is a parameter, as is the text of an
  exception. The section map holds texts, which is what the API gives; anything else counts as an error.
\<close>

section \<open>Inferring labels\<close>

definition label_keywords :: "(string \<times> string list) list" where
  "label_keywords =
     [
      (''Manuten'' @ [CHR 0xE7] @ [CHR 0xE3] @ ''o'',
        [''arranjar'', ''reparar'', ''pintar'', ''limpar'', ''limpeza'', ''fixar'', ''trocar'',
         ''substituir'', ''instalar'', ''montar'', ''desmontar'',
         ''canaliza'' @ [CHR 0xE7] @ [CHR 0xE3] @ ''o'', ''silicone'', ''calafetagem'', ''porta'',
         ''janela'', ''cortina'', ''estore'', ''fechadura'', ''lampada'', ''l'' @ [CHR 0xE2] @ ''mpada'',
         ''torneira'', ''chuveiro'', ''wc'', ''parede'', ''ch'' @ [CHR 0xE3] @ ''o'', ''teto'',
         ''telhado'', ''calha'']),
      (''Tecnologia'',
        [''pc'', ''computador'', ''servidor'', ''proxmox'', ''docker'', ''backup'', ''wifi'', ''router'',
         ''rede'', ''cable'', ''cabo'', ''nas'', ''raspberry'', ''pi'', ''smart'',
         ''automa'' @ [CHR 0xE7] @ [CHR 0xE3] @ ''o'', ''home assistant'', ''n8n'', ''vpn'', ''ssh'',
         ''linux'', ''ubuntu'', ''debian'', ''plex'', ''app'', ''software'', ''setup'', ''config'',
         ''usb'', ''impressora'', ''printer'']),
      (''Finan'' @ [CHR 0xE7] @ ''as'',
        [''banco'', ''seguro'', ''imposto'', ''irs'', ''factura'', ''fatura'', ''pagamento'', ''pagar'',
         ''transferir'', ''conta'', ''cr'' @ [CHR 0xE9] @ ''dito'', ''hipoteca'', ''financiamento'',
         ''subscri'' @ [CHR 0xE7] @ [CHR 0xE3] @ ''o'', ''subscricao'', ''cancelar assinatura'',
         ''mensalidade'', ''anuidade'']),
      (''Burocracia'',
        [''renovar'', ''documento'', ''certid'' @ [CHR 0xE3] @ ''o'', ''atestado'',
         ''procura'' @ [CHR 0xE7] @ [CHR 0xE3] @ ''o'', ''not'' @ [CHR 0xE1] @ ''rio'',
         ''conservat'' @ [CHR 0xF3] @ ''ria'', ''finan'' @ [CHR 0xE7] @ ''as'', ''registo'', ''carta'',
         ''condu'' @ [CHR 0xE7] @ [CHR 0xE3] @ ''o'', ''cc'', ''passaporte'', ''nif'', ''niss'',
         ''seguran'' @ [CHR 0xE7] @ ''a social'', ''formul'' @ [CHR 0xE1] @ ''rio'', ''requerimento'',
         ''autoridade'', ''c'' @ [CHR 0xE2] @ ''mara'', ''junta'']),
      (''Sa'' @ [CHR 0xFA] @ ''de'',
        [''m'' @ [CHR 0xE9] @ ''dico'', ''consulta'', ''dentista'', ''exame'',
         ''an'' @ [CHR 0xE1] @ ''lises'', ''vacina'', ''farm'' @ [CHR 0xE1] @ ''cia'', ''receita'',
         ''medicamento'', ''sa'' @ [CHR 0xFA] @ ''de'', ''hospital'', ''urg'' @ [CHR 0xEA] @ ''ncia'',
         ''fisioterapia'', ''dermatologista'', ''oftalmologista'', ''m'' @ [CHR 0xE1] @ ''scara'']),
      (''Lojas'',
        [''comprar'', ''encomendar'', ''leroy'', ''ikea'', ''worten'', ''amazon'', ''ali express'',
         ''aliexpress'', ''olx'', ''loja'', ''supermercado'', ''lidl'', ''continente'', ''pingo'',
         ''auchan'', ''mercado'', ''fnac'']),
      (''Entretenimento'',
        [''filme'', ''s'' @ [CHR 0xE9] @ ''rie'', ''jogo'', ''netflix'', ''spotify'', ''youtube'',
         ''livro'', ''ler'', ''podcast'', ''concerto'', ''espet'' @ [CHR 0xE1] @ ''culo'', ''bilhete'',
         ''viagem'', ''f'' @ [CHR 0xE9] @ ''rias'', ''passeio'', ''praia'', ''restaurante'']),
      (''decora'' @ [CHR 0xE7] @ [CHR 0xE3] @ ''o'',
        [''decorar'', ''vaso'', ''planta'', ''quadro'', ''prateleira'', ''estante'', ''organizar'',
         ''arruma'' @ [CHR 0xE7] @ [CHR 0xE3] @ ''o'', ''m'' @ [CHR 0xF3] @ ''vel'', ''sof'' @ [CHR 0xE1],
         ''mesa'', ''cadeira'', ''tapete'', ''almofada'', ''cortinado'']),
      (''Fam'' @ [CHR 0xED] @ ''lia'',
        [''fam'' @ [CHR 0xED] @ ''lia'', ''m'' @ [CHR 0xE3] @ ''e'', ''pai'', ''irm'' @ [CHR 0xE3],
         ''irm'' @ [CHR 0xE3] @ ''o'', ''av'' @ [CHR 0xF3], ''av'' @ [CHR 0xF4], ''sobrinho'', ''primo'',
         ''casamento'', ''anivers'' @ [CHR 0xE1] @ ''rio'', ''natal'', ''p'' @ [CHR 0xE1] @ ''scoa'',
         ''presente''])]"


definition infer_labels :: "task \<Rightarrow> string list" where
  "infer_labels t =
     (let s = map lower_latin (tk_content t @ '' '' @ tk_description t)
      in map fst (filter (\<lambda>(label, keywords). list_ex (\<lambda>kw. py_contains kw s) keywords) label_keywords))"

section \<open>Where a task belongs\<close>

definition planner_sections :: "string list" where
  "planner_sections = [''Daily Planner'', ''Weekly Planner'', ''Weekend Planner'']"

definition ideal_section_name :: "date \<Rightarrow> task \<Rightarrow> string option" where
  "ideal_section_name today t =
     (if ''blocked'' \<in> set (tk_labels t) then Some ''Blocked''
      else if tk_is_recurring t then Some ''Ongoing recurring''
      else if tk_section_name t \<in> set planner_sections then None
      else let pri = tk_priority t in
           if (case tk_due_date t of None \<Rightarrow> False
               | Some due \<Rightarrow> due - today \<le> 0 \<or> (due - today \<le> 2 \<and> pri \<ge> 3))
           then Some ''To Do - Urgent/Today''
           else if pri = 4 then Some ''To Do - Urgent/Today''
           else if pri = 3 then Some ''To Do - High''
           else if pri = 2 then Some ''To Do - Normal''
           else if pri = 1 then Some (if tk_due_date t \<noteq> None then ''To Do - Low'' else ''Backlog'')
           else None)"

text \<open>The first section of the wanted name.\<close>

definition suggest_section :: "date \<Rightarrow> task \<Rightarrow> (string \<times> string) list \<Rightarrow> string option" where
  "suggest_section today t sections =
     (case ideal_section_name today t of
        None \<Rightarrow> None
      | Some target \<Rightarrow>
          if target = tk_section_name t then None
          else map_option fst (find (\<lambda>(to_id, sname). sname = target) sections))"

text \<open>The suggestion the callers act on: a section id that is not empty and not the task's own.\<close>

definition wanted_move :: "date \<Rightarrow> (string \<times> string) list \<Rightarrow> task \<Rightarrow> string option" where
  "wanted_move today sections t =
     (case suggest_section today t sections of
        None \<Rightarrow> None
      | Some to_id \<Rightarrow> if to_id \<noteq> [] \<and> to_id \<noteq> tk_section_id t then Some to_id else None)"

section \<open>Analysis of a board\<close>

record misplaced_task =
  mp_task_id :: string
  mp_content :: string
  mp_current_section :: string
  mp_suggested_section :: string
  mp_priority :: int

record label_suggestion =
  ls_task_id :: string
  ls_content :: string
  ls_labels :: "string list"

record board_analysis =
  ba_total_tasks :: nat
  ba_tasks_per_section :: "(string \<times> nat) list"
  ba_priority_distribution :: "(int \<times> nat) list"
  ba_unlabeled_count :: nat
  ba_no_due_date_count :: nat
  ba_overdue_count :: nat
  ba_misplaced_tasks :: "misplaced_task list"
  ba_duplicate_candidates :: "string list list"
  ba_label_suggestions :: "label_suggestion list"
  ba_vague_tasks :: "string list"
  ba_urgent_overload :: bool
  ba_backlog_overload :: bool
  ba_summary :: string

text \<open>\<open>Counter\<close> and \<open>defaultdict(list)\<close>, in the order their keys came.\<close>

definition count_in :: "('k \<times> nat) list \<Rightarrow> 'k \<Rightarrow> nat" where
  "count_in m k = (case map_of m k of None \<Rightarrow> 0 | Some n \<Rightarrow> n)"

definition count_one :: "'k \<Rightarrow> ('k \<times> nat) list \<Rightarrow> ('k \<times> nat) list" where
  "count_one k m = AList.update k (count_in m k + 1) m"

definition counter :: "'k list \<Rightarrow> ('k \<times> nat) list" where
  "counter ks = fold count_one ks []"

definition group_add :: "('k \<times> 'v) \<Rightarrow> ('k \<times> 'v list) list \<Rightarrow> ('k \<times> 'v list) list" where
  "group_add kv m =
     AList.update (fst kv) ((case map_of m (fst kv) of None \<Rightarrow> [] | Some vs \<Rightarrow> vs) @ [snd kv]) m"

definition groups :: "('k \<times> 'v) list \<Rightarrow> ('k \<times> 'v list) list" where
  "groups kvs = fold group_add kvs []"

text \<open>\<open>re.sub(r"\s+", " ", s)\<close>.\<close>

fun collapse_spaces :: "string \<Rightarrow> string" where
  "collapse_spaces [] = []"
| "collapse_spaces (c # s) =
     (if \<not> re_space c then c # collapse_spaces s
      else case s of
             [] \<Rightarrow> '' ''
           | d # _ \<Rightarrow> if re_space d then collapse_spaces s else CHR '' '' # collapse_spaces s)"

definition name_char :: "char \<Rightarrow> bool" where
  "name_char c \<longleftrightarrow>
     (CHR ''a'' \<le> c \<and> c \<le> CHR ''z'') \<or> re_space c
     \<or> c \<in> {CHR 0xE1, CHR 0xE0, CHR 0xE2, CHR 0xE3, CHR 0xE9, CHR 0xE8, CHR 0xEA, CHR 0xED, CHR 0xEF,
             CHR 0xF3, CHR 0xF4, CHR 0xF5, CHR 0xFA, CHR 0xFC, CHR 0xE7}"

definition normalize_name :: "string \<Rightarrow> string" where
  "normalize_name name =
     strip_spaces (collapse_spaces (filter name_char (strip_spaces (map lower_latin name))))"

definition id_text :: "string \<Rightarrow> task \<Rightarrow> string" where
  "id_text name t = name @ '' (id='' @ tk_id t @ '')''"

definition section_or_none :: "task \<Rightarrow> string" where
  "section_or_none t = (if tk_section_name t = [] then ''(no section)'' else tk_section_name t)"

definition misplaced :: "date \<Rightarrow> (string \<times> string) list \<Rightarrow> task \<Rightarrow> misplaced_task option" where
  "misplaced today sections t =
     map_option (\<lambda>to_id. \<lparr>mp_task_id = tk_id t, mp_content = tk_content t, mp_current_section = tk_section_name t,
                        mp_suggested_section = dget sections to_id ''?'', mp_priority = tk_priority t\<rparr>)
       (wanted_move today sections t)"

definition suggested_labels :: "task \<Rightarrow> label_suggestion option" where
  "suggested_labels t =
     (if tk_labels t = [] \<and> infer_labels t \<noteq> []
      then Some \<lparr>ls_task_id = tk_id t, ls_content = tk_content t, ls_labels = infer_labels t\<rparr> else None)"

text \<open>\<open>repr\<close> of a list of texts.\<close>

definition hex_digit :: "nat \<Rightarrow> char" where
  "hex_digit d = ''0123456789abcdef'' ! d"

definition repr_char :: "char \<Rightarrow> char \<Rightarrow> string" where
  "repr_char q c =
     (let n = of_char c :: nat in
      if c = q \<or> n = 0x5C then [CHR 0x5C, c]
      else if n = 9 then [CHR 0x5C, CHR ''t''] else if n = 10 then [CHR 0x5C, CHR ''n'']
      else if n = 13 then [CHR 0x5C, CHR ''r'']
      else if n < 32 \<or> (127 \<le> n \<and> n \<le> 160) \<or> n = 173
      then [CHR 0x5C, CHR ''x'', hex_digit (n div 16), hex_digit (n mod 16)]
      else [c])"

definition py_repr :: "string \<Rightarrow> string" where
  "py_repr s =
     (let q = (if CHR 0x27 \<in> set s \<and> CHR 0x22 \<notin> set s then CHR 0x22 else CHR 0x27)
      in [q] @ concat (map (repr_char q) s) @ [q])"

definition list_repr :: "string list \<Rightarrow> string" where
  "list_repr xs = ''['' @ py_join '', '' (map py_repr xs) @ '']''"

definition quoted :: "string \<Rightarrow> string" where
  "quoted s = [CHR 0x27] @ s @ [CHR 0x27]"

definition newline :: string where
  "newline = [CHR 0x0A]"

definition build_summary :: "board_analysis \<Rightarrow> string" where
  "build_summary a =
     py_join newline
       ([''Board overview: '' @ nat_text (ba_total_tasks a) @ '' active tasks'', [], ''Tasks per section:'']
        @ map (\<lambda>(sec, n). ''  '' @ sec @ '': '' @ nat_text n)
            (sort_key (\<lambda>x. - int (snd x)) (ba_tasks_per_section a))
        @ [[], ''Priority distribution:'']
        @ map (\<lambda>(pri, label). ''  '' @ label @ '': '' @ nat_text (count_in (ba_priority_distribution a) pri))
            [(4, ''P1 (urgent)''), (3, ''P2 (high)''), (2, ''P3 (normal)''), (1, ''P4 (low)'')]
        @ [[], ''Unlabeled tasks: '' @ nat_text (ba_unlabeled_count a),
           ''Tasks without due date: '' @ nat_text (ba_no_due_date_count a),
           ''Overdue tasks: '' @ nat_text (ba_overdue_count a)]
        @ (if ba_misplaced_tasks a = [] then []
           else (newline @ ''Misplaced tasks: '' @ nat_text (length (ba_misplaced_tasks a)))
                # map (\<lambda>m. ''  '' @ quoted (mp_content m) @ '': '' @ mp_current_section m @ '' -> ''
                            @ mp_suggested_section m) (take 10 (ba_misplaced_tasks a))
                @ (if length (ba_misplaced_tasks a) > 10
                   then [''  ... and '' @ nat_text (length (ba_misplaced_tasks a) - 10) @ '' more''] else []))
        @ (if ba_duplicate_candidates a = [] then []
           else (newline @ ''Possible duplicates: '' @ nat_text (length (ba_duplicate_candidates a)) @ '' groups'')
                # map (\<lambda>g. ''  '' @ list_repr g) (take 5 (ba_duplicate_candidates a)))
        @ (if ba_vague_tasks a = [] then []
           else (newline @ ''Vague task names ('' @ nat_text (length (ba_vague_tasks a)) @ ''):'')
                # map (\<lambda>v. ''  '' @ v) (take 10 (ba_vague_tasks a)))
        @ (if ba_label_suggestions a = [] then []
           else (newline @ ''Label suggestions: '' @ nat_text (length (ba_label_suggestions a)) @ '' tasks'')
                # map (\<lambda>s. ''  '' @ quoted (ls_content s) @ '' -> '' @ py_join '', '' (ls_labels s))
                    (take 10 (ba_label_suggestions a)))
        @ (let issues =
             (if ba_urgent_overload a then [''Urgent/Today section is overloaded''] else [])
             @ (if ba_backlog_overload a then [''Backlog is bloated '' @ u_emdash @ '' consider triaging''] else [])
             @ (if ba_unlabeled_count a > 20 then [nat_text (ba_unlabeled_count a) @ '' tasks need labels''] else [])
           in if issues = [] then [] else (newline @ ''Action items:'') # map (\<lambda>i. ''  - '' @ i) issues))"

definition analyze_board :: "date \<Rightarrow> task list \<Rightarrow> (string \<times> string) list \<Rightarrow> board_analysis" where
  "analyze_board today tasks sections =
     (let sec_counts = counter (map section_or_none tasks);
          name_groups = groups (filter (\<lambda>kv. fst kv \<noteq> [])
                                  (map (\<lambda>t. (normalize_name (tk_content t), id_text (tk_content t) t)) tasks));
          a = \<lparr>ba_total_tasks = length tasks, ba_tasks_per_section = sec_counts,
               ba_priority_distribution = counter (map tk_priority tasks),
               ba_unlabeled_count = length (filter (\<lambda>t. tk_labels t = []) tasks),
               ba_no_due_date_count = length (filter (\<lambda>t. tk_due_date t = None) tasks),
               ba_overdue_count = length (filter (\<lambda>t. case tk_due_date t of None \<Rightarrow> False | Some d \<Rightarrow> d < today) tasks),
               ba_misplaced_tasks = List.map_filter (misplaced today sections) tasks,
               ba_duplicate_candidates = filter (\<lambda>g. length g > 1) (map snd name_groups),
               ba_label_suggestions = List.map_filter suggested_labels tasks,
               ba_vague_tasks =
                 map (\<lambda>t. id_text (strip_spaces (tk_content t)) t)
                   (filter (\<lambda>t. length (strip_spaces (tk_content t)) \<le> 12 \<and> tk_description t = []) tasks),
               ba_urgent_overload = count_in sec_counts ''To Do - Urgent/Today'' > 10,
               ba_backlog_overload = count_in sec_counts ''Backlog'' > 50, ba_summary = []\<rparr>
      in a\<lparr>ba_summary := build_summary a\<rparr>)"

section \<open>Reorganization\<close>

record planned_move =
  pm_task_id :: string
  pm_content :: string
  pm_from_section :: string
  pm_to_section :: string
  pm_to_section_id :: string

record reorganize_result =
  rr_tasks_moved :: nat
  rr_tasks_labeled :: nat
  rr_errors :: "string list"
  rr_moves :: "planned_move list"
  rr_label_updates :: "label_suggestion list"

definition no_changes :: reorganize_result where
  "no_changes =
     \<lparr>rr_tasks_moved = 0, rr_tasks_labeled = 0, rr_errors = [], rr_moves = [], rr_label_updates = []\<rparr>"

record run_options =
  ro_dry_run :: bool
  ro_move_tasks :: bool
  ro_auto_label :: bool

definition add_error :: "string \<Rightarrow> reorganize_result \<Rightarrow> reorganize_result" where
  "add_error msg r = r\<lparr>rr_errors := rr_errors r @ [msg]\<rparr>"

definition move_step ::
    "'s todoist_env \<Rightarrow> (py_error \<Rightarrow> string) \<Rightarrow> date \<Rightarrow> run_options \<Rightarrow> (string \<times> string) list \<Rightarrow> task
     \<Rightarrow> reorganize_result \<Rightarrow> ('s web, reorganize_result) io" where
  "move_step env exc_text today opts sections t r =
     (if \<not> ro_move_tasks opts then io_ret r
      else case wanted_move today sections t of
             None \<Rightarrow> io_ret r
           | Some to_id \<Rightarrow>
               let r = r\<lparr>rr_moves := rr_moves r @
                     [\<lparr>pm_task_id = tk_id t, pm_content = tk_content t, pm_from_section = tk_section_name t,
                       pm_to_section = dget sections to_id ''?'', pm_to_section_id = to_id\<rparr>]\<rparr>
               in if ro_dry_run opts then io_ret r
                  else io_catch
                         (io_bind (move_task env (tk_id t) to_id)
                            (\<lambda>_. io_ret (r\<lparr>rr_tasks_moved := rr_tasks_moved r + 1\<rparr>)))
                         (\<lambda>e. io_ret (add_error (''Failed to move '' @ quoted (tk_content t) @ '': '' @ exc_text e) r)))"

definition label_step ::
    "'s todoist_env \<Rightarrow> (py_error \<Rightarrow> string) \<Rightarrow> run_options \<Rightarrow> task \<Rightarrow> reorganize_result
     \<Rightarrow> ('s web, reorganize_result) io" where
  "label_step env exc_text opts t r =
     (if \<not> ro_auto_label opts then io_ret r
      else case suggested_labels t of
             None \<Rightarrow> io_ret r
           | Some info \<Rightarrow>
               let r = r\<lparr>rr_label_updates := rr_label_updates r @ [info]\<rparr>
               in if ro_dry_run opts then io_ret r
                  else io_catch
                         (io_bind (update_task env (tk_id t) [(''labels'', JArr (map JStr (ls_labels info)))])
                            (\<lambda>_. io_ret (r\<lparr>rr_tasks_labeled := rr_tasks_labeled r + 1\<rparr>)))
                         (\<lambda>e. io_ret (add_error (''Failed to label '' @ quoted (tk_content t) @ '': '' @ exc_text e) r)))"

fun reorganize_tasks ::
    "'s todoist_env \<Rightarrow> (py_error \<Rightarrow> string) \<Rightarrow> date \<Rightarrow> run_options \<Rightarrow> (string \<times> string) list \<Rightarrow> task list
     \<Rightarrow> reorganize_result \<Rightarrow> ('s web, reorganize_result) io" where
  "reorganize_tasks env exc_text today opts sections [] r = io_ret r"
| "reorganize_tasks env exc_text today opts sections (t # ts) r =
     io_bind (move_step env exc_text today opts sections t r) (\<lambda>r.
     io_bind (label_step env exc_text opts t r) (\<lambda>r.
       reorganize_tasks env exc_text today opts sections ts r))"

definition text_pairs :: "(json \<times> json) list \<Rightarrow> (string \<times> string) list res" where
  "text_pairs m =
     rmap (\<lambda>kv. case kv of (JStr k, JStr v) \<Rightarrow> Inr (k, v) | _ \<Rightarrow> Inl (OtherError ''TypeError'')) m"

definition reorganize_board ::
    "'s todoist_env \<Rightarrow> nat \<Rightarrow> (py_error \<Rightarrow> string) \<Rightarrow> date \<Rightarrow> settings \<Rightarrow> run_options
     \<Rightarrow> ('s web, reorganize_result) io" where
  "reorganize_board env fuel exc_text today cfg opts =
     (let project_id = cf_todoist_kanban_project_id cfg in
      if project_id = [] then io_ret (no_changes\<lparr>rr_errors := [''TODOIST_KANBAN_PROJECT_ID not set.'']\<rparr>)
      else io_bind (get_tasks env fuel project_id [] []) (\<lambda>tasks.
           io_bind (get_section_map env fuel project_id) (\<lambda>names.
           io_bind (io_res (text_pairs names)) (\<lambda>sections.
           io_bind (reorganize_tasks env exc_text today opts sections tasks no_changes) (\<lambda>r.
             io_ret (if ro_dry_run opts
                     then r\<lparr>rr_tasks_moved := length (rr_moves r), rr_tasks_labeled := length (rr_label_updates r)\<rparr>
                     else r))))))"

definition format_reorganize_report :: "reorganize_result \<Rightarrow> bool \<Rightarrow> string" where
  "format_reorganize_report r dry_run =
     py_join newline
       ([''=== Reorganization Report ('' @ (if dry_run then ''DRY RUN'' else ''APPLIED'') @ '') ==='', []]
        @ (if rr_moves r = [] then []
           else (''Section moves: '' @ nat_text (rr_tasks_moved r))
                # map (\<lambda>m. ''  '' @ quoted (pm_content m) @ '': '' @ pm_from_section m @ '' -> '' @ pm_to_section m)
                    (take 20 (rr_moves r))
                @ (if length (rr_moves r) > 20
                   then [''  ... and '' @ nat_text (length (rr_moves r) - 20) @ '' more''] else [])
                @ [[]])
        @ (if rr_label_updates r = [] then []
           else (''Label updates: '' @ nat_text (rr_tasks_labeled r))
                # map (\<lambda>l. ''  '' @ quoted (ls_content l) @ '' -> '' @ py_join '', '' (ls_labels l))
                    (take 20 (rr_label_updates r))
                @ (if length (rr_label_updates r) > 20
                   then [''  ... and '' @ nat_text (length (rr_label_updates r) - 20) @ '' more''] else [])
                @ [[]])
        @ (if rr_errors r = [] then []
           else (''Errors: '' @ nat_text (length (rr_errors r))) # map (\<lambda>e. ''  '' @ e) (rr_errors r))
        @ (if rr_moves r = [] \<and> rr_label_updates r = []
           then [''Board is already well-organized. No changes needed.''] else []))"

section \<open>Asking a language model about a board\<close>

definition BOARD_ANALYSIS_PROMPT :: string where
  "BOARD_ANALYSIS_PROMPT = concat (map (\<lambda>l. l @ newline)
     [''You are an expert productivity coach and Kanban board consultant.'',
      ''You are analyzing a personal task board ('' @ [CHR 0x22] @ ''Kanban Casa'' @ [CHR 0x22] @ '') for a knowledge worker'',
      ''managing a high volume of tasks. The tasks are in Portuguese.'',
      '''',
      ''RULES:'',
      ''- NEVER suggest deleting any task. Tasks must only be moved, relabeled, or reprioritized.'',
      ''- Be specific and actionable. Name the exact tasks.'',
      ''- Focus on what matters most THIS WEEK.'',
      ''- Identify the top 5 most important tasks the person should tackle first.'',
      ''- Identify tasks that are clearly misplaced (wrong section for their priority/urgency).'',
      ''- Spot vague tasks that need clarification before they can be acted on.'',
      ''- Detect patterns: recurring procrastination, category clusters, blocked dependencies.'',
      ''- Suggest a realistic daily plan (3-5 tasks per day maximum).'',
      ''- Output in English, but keep task names in their original Portuguese.''])"

definition task_line :: "task \<Rightarrow> string" where
  "task_line t =
     (let p = tk_priority t in
      ''- ['' @ (if p = 4 then ''P1'' else if p = 3 then ''P2'' else if p = 2 then ''P3'' else ''P4'') @ ''] ''
      @ tk_content t @ '' | section: '' @ (if tk_section_name t = [] then ''no section'' else tk_section_name t)
      @ '' | due: '' @ (case tk_due_date t of None \<Rightarrow> ''no date'' | Some d \<Rightarrow> date_iso d)
      @ '' | labels: '' @ (if tk_labels t = [] then ''unlabeled'' else py_join '', '' (tk_labels t)))"

definition llm_analyze_board ::
    "'s llm_env \<Rightarrow> board_analysis \<Rightarrow> task list \<Rightarrow> settings \<Rightarrow> ('s web, json) io" where
  "llm_analyze_board env analysis tasks cfg =
     io_bind (call_llm env cfg
                (ba_summary analysis @ newline @ newline @ ''=== ALL TASKS ==='' @ newline
                 @ py_join newline (map task_line tasks))
                BOARD_ANALYSIS_PROMPT True)
       (\<lambda>result. io_ret (if jtruthy result then result else JStr []))"

end
