(* ===== verification/OrganizerLaws.thy ===== *)
theory OrganizerLaws
  imports Organizer TodoistLaws "HOL-Library.Multiset"
begin

text \<open>
  What a reorganization of the board guarantees: what it plans, that a dry run predicts an applied run and
  only reads, which requests an applied run makes, and that it converges: a board on which the plan was
  carried out has an empty plan. The analysis of a board counts exactly.
\<close>

section \<open>The plan\<close>

definition planned_move :: "date \<Rightarrow> (string \<times> string) list \<Rightarrow> task \<Rightarrow> planned_move option" where
  "planned_move today sections t =
     map_option (\<lambda>to_id. \<lparr>pm_task_id = tk_id t, pm_content = tk_content t, pm_from_section = tk_section_name t,
                        pm_to_section = dget sections to_id ''?'', pm_to_section_id = to_id\<rparr>)
       (wanted_move today sections t)"

definition planned_moves :: "run_options \<Rightarrow> date \<Rightarrow> (string \<times> string) list \<Rightarrow> task list \<Rightarrow> planned_move list" where
  "planned_moves opts today sections tasks =
     (if ro_move_tasks opts then List.map_filter (planned_move today sections) tasks else [])"

definition planned_labels :: "run_options \<Rightarrow> task list \<Rightarrow> label_suggestion list" where
  "planned_labels opts tasks = (if ro_auto_label opts then List.map_filter suggested_labels tasks else [])"

definition post_request :: "'s todoist_env \<Rightarrow> string \<Rightarrow> jdict \<Rightarrow> http_request" where
  "post_request env url body =
     \<lparr>hr_method = POST, hr_url = url, hr_headers = todoist_headers env, hr_params = [], hr_body = body\<rparr>"

definition move_request :: "'s todoist_env \<Rightarrow> planned_move \<Rightarrow> http_request" where
  "move_request env m =
     post_request env (task_url (pm_task_id m) @ ''/move'') [(''section_id'', JStr (pm_to_section_id m))]"

definition label_request :: "'s todoist_env \<Rightarrow> label_suggestion \<Rightarrow> http_request" where
  "label_request env l =
     post_request env (task_url (ls_task_id l)) [(''labels'', JArr (map JStr (ls_labels l)))]"

text \<open>The requests of an applied run, task after task: the move, then the labels.\<close>

definition plan_requests ::
    "'s todoist_env \<Rightarrow> run_options \<Rightarrow> date \<Rightarrow> (string \<times> string) list \<Rightarrow> task list \<Rightarrow> http_request list" where
  "plan_requests env opts today sections tasks =
     concat (map (\<lambda>t. map (move_request env) (planned_moves opts today sections [t])
                      @ map (label_request env) (planned_labels opts [t])) tasks)"

lemma planned_append:
  "planned_moves opts today sections (xs @ ys) =
     planned_moves opts today sections xs @ planned_moves opts today sections ys"
  "planned_labels opts (xs @ ys) = planned_labels opts xs @ planned_labels opts ys"
  by (simp_all add: planned_moves_def planned_labels_def List.map_filter_def)

lemma planned_moves_Cons:
  "planned_moves opts today sections (t # ts) =
     planned_moves opts today sections [t] @ planned_moves opts today sections ts"
  using planned_append(1) [where xs = "[t]" and ys = ts] by simp

lemma planned_labels_Cons: "planned_labels opts (t # ts) = planned_labels opts [t] @ planned_labels opts ts"
  using planned_append(2) [where xs = "[t]" and ys = ts] by simp

lemma planned_Nil [simp]: "planned_moves opts today sections [] = []" "planned_labels opts [] = []"
  by (simp_all add: planned_moves_def planned_labels_def List.map_filter_def)

section \<open>Running it\<close>

text \<open>A step reports its part of the plan. A dry step sends nothing; an applied one makes one request per
planned change and counts it as done or as an error.\<close>

definition done_count :: "reorganize_result \<Rightarrow> nat" where
  "done_count r = rr_tasks_moved r + rr_tasks_labeled r + length (rr_errors r)"

definition reports :: "reorganize_result \<Rightarrow> planned_move list \<Rightarrow> label_suggestion list \<Rightarrow> reorganize_result \<Rightarrow> bool" where
  "reports r ms ls r' \<longleftrightarrow>
     rr_moves r' = rr_moves r @ ms \<and> rr_label_updates r' = rr_label_updates r @ ls
     \<and> rr_tasks_moved r' \<le> rr_tasks_moved r + length ms \<and> rr_tasks_labeled r' \<le> rr_tasks_labeled r + length ls"

lemma todoist_post_run:
  "\<exists>res s'. todoist_post env url body (n, reqs, s) = (res, n, reqs @ [post_request env url body], s')"
  by (simp add: todoist_post_def post_request_def io_bind_run http_send_def split: prod.splits sum.splits)

lemma update_labels_run:
  "\<exists>res s'. update_task env i [(''labels'', v)] (n, reqs, s) =
     (res, n, reqs @ [post_request env (task_url i) [(''labels'', v)]], s')"
  using todoist_post_run [of env "task_url i" "[(''labels'', v)]"] by (simp add: update_task_def blocked_fields_def)

lemma move_step_run:
  "\<exists>r' s'. move_step env x today opts sections t r (n, reqs, s) =
       (Inr r', n, reqs @ (if ro_dry_run opts then [] else map (move_request env) (planned_moves opts today sections [t])), s')
     \<and> (ro_dry_run opts \<longrightarrow> s' = s \<and> done_count r' = done_count r)
     \<and> reports r (planned_moves opts today sections [t]) [] r'
     \<and> (\<not> ro_dry_run opts \<longrightarrow> done_count r' = done_count r + length (planned_moves opts today sections [t]))"
proof (cases "ro_move_tasks opts \<and> wanted_move today sections t \<noteq> None \<and> \<not> ro_dry_run opts")
  case True
  then obtain to_id where w: "wanted_move today sections t = Some to_id" by auto
  obtain res s' where post: "move_task env (tk_id t) to_id (n, reqs, s) =
      (res, n, reqs @ [post_request env (task_url (tk_id t) @ ''/move'') [(''section_id'', JStr to_id)]], s')"
    using todoist_post_run [of env "task_url (tk_id t) @ ''/move''" "[(''section_id'', JStr to_id)]" n reqs s]
    unfolding move_task_def by (elim exE)
  from True w show ?thesis
    by (cases res) (simp_all add: move_step_def Let_def io_catch_def io_bind_run post planned_moves_def planned_move_def
        List.map_filter_def move_request_def reports_def done_count_def add_error_def)
next
  case False
  then show ?thesis
    by (auto simp: move_step_def Let_def planned_moves_def planned_move_def List.map_filter_def reports_def
        done_count_def)
qed

lemma label_step_run:
  "\<exists>r' s'. label_step env x opts t r (n, reqs, s) =
       (Inr r', n, reqs @ (if ro_dry_run opts then [] else map (label_request env) (planned_labels opts [t])), s')
     \<and> (ro_dry_run opts \<longrightarrow> s' = s \<and> done_count r' = done_count r)
     \<and> reports r [] (planned_labels opts [t]) r'
     \<and> (\<not> ro_dry_run opts \<longrightarrow> done_count r' = done_count r + length (planned_labels opts [t]))"
proof (cases "ro_auto_label opts \<and> suggested_labels t \<noteq> None \<and> \<not> ro_dry_run opts")
  case True
  then obtain info where w: "suggested_labels t = Some info" by auto
  then have i: "ls_task_id info = tk_id t" by (auto simp: suggested_labels_def split: if_splits)
  obtain res s' where post: "update_task env (tk_id t) [(''labels'', JArr (map JStr (ls_labels info)))] (n, reqs, s) =
      (res, n, reqs @ [post_request env (task_url (tk_id t)) [(''labels'', JArr (map JStr (ls_labels info)))]], s')"
    using update_labels_run [of env "tk_id t" "JArr (map JStr (ls_labels info))" n reqs s] by (elim exE)
  from True w i show ?thesis
    by (cases res) (simp_all add: label_step_def Let_def io_catch_def io_bind_run post planned_labels_def
        List.map_filter_def label_request_def reports_def done_count_def add_error_def)
next
  case False
  then show ?thesis
    by (auto simp: label_step_def Let_def planned_labels_def List.map_filter_def reports_def done_count_def)
qed

lemma reports_trans:
  "reports r ms ls r1 \<Longrightarrow> reports r1 ms' ls' r2 \<Longrightarrow> reports r (ms @ ms') (ls @ ls') r2"
  by (simp add: reports_def)

lemma reorganize_tasks_run:
  "\<exists>r' s'. reorganize_tasks env x today opts sections ts r (n, reqs, s) =
       (Inr r', n, reqs @ (if ro_dry_run opts then [] else plan_requests env opts today sections ts), s')
     \<and> (ro_dry_run opts \<longrightarrow> s' = s \<and> done_count r' = done_count r)
     \<and> reports r (planned_moves opts today sections ts) (planned_labels opts ts) r'
     \<and> (\<not> ro_dry_run opts \<longrightarrow> done_count r' = done_count r
           + length (planned_moves opts today sections ts) + length (planned_labels opts ts))"
proof (induction ts arbitrary: r reqs s)
  case Nil
  show ?case by (simp add: plan_requests_def reports_def)
next
  case (Cons t ts)
  obtain r1 s1 where m: "move_step env x today opts sections t r (n, reqs, s) =
       (Inr r1, n, reqs @ (if ro_dry_run opts then [] else map (move_request env) (planned_moves opts today sections [t])), s1)"
    and m': "ro_dry_run opts \<longrightarrow> s1 = s \<and> done_count r1 = done_count r"
      "reports r (planned_moves opts today sections [t]) [] r1"
      "\<not> ro_dry_run opts \<longrightarrow> done_count r1 = done_count r + length (planned_moves opts today sections [t])"
    using move_step_run [of env x today opts sections t r n reqs s] by (elim exE conjE)
  define reqs1 where "reqs1 = reqs @ (if ro_dry_run opts then []
    else map (move_request env) (planned_moves opts today sections [t]))"
  define reqs2 where "reqs2 = reqs1 @ (if ro_dry_run opts then [] else map (label_request env) (planned_labels opts [t]))"
  obtain r2 s2 where l: "label_step env x opts t r1 (n, reqs1, s1) = (Inr r2, n, reqs2, s2)"
    and l': "ro_dry_run opts \<longrightarrow> s2 = s1 \<and> done_count r2 = done_count r1"
      "reports r1 [] (planned_labels opts [t]) r2"
      "\<not> ro_dry_run opts \<longrightarrow> done_count r2 = done_count r1 + length (planned_labels opts [t])"
    using label_step_run [of env x opts t r1 n reqs1 s1] unfolding reqs2_def by (elim exE conjE)
  from Cons.IH [of r2 reqs2 s2] obtain r3 s3 where
    rest: "reorganize_tasks env x today opts sections ts r2 (n, reqs2, s2) =
       (Inr r3, n, reqs2 @ (if ro_dry_run opts then [] else plan_requests env opts today sections ts), s3)"
    and rest': "ro_dry_run opts \<longrightarrow> s3 = s2 \<and> done_count r3 = done_count r2"
      "reports r2 (planned_moves opts today sections ts) (planned_labels opts ts) r3"
      "\<not> ro_dry_run opts \<longrightarrow> done_count r3 = done_count r2
           + length (planned_moves opts today sections ts) + length (planned_labels opts ts)"
    by blast
  have "reports r (planned_moves opts today sections (t # ts)) (planned_labels opts (t # ts)) r3"
    using reports_trans [OF reports_trans [OF m'(2) l'(2)] rest'(2)] by (simp add: planned_moves_Cons [of opts today sections t ts] planned_labels_Cons [of opts t ts])
  moreover have "reorganize_tasks env x today opts sections (t # ts) r (n, reqs, s) =
      (Inr r3, n, reqs2 @ (if ro_dry_run opts then [] else plan_requests env opts today sections ts), s3)"
    by (simp add: io_bind_run m [folded reqs1_def] l rest)
  moreover have "reqs2 @ (if ro_dry_run opts then [] else plan_requests env opts today sections ts) =
      reqs @ (if ro_dry_run opts then [] else plan_requests env opts today sections (t # ts))"
    by (simp add: reqs1_def reqs2_def plan_requests_def)
  ultimately show ?case
    using m'(1,3) l'(1,3) rest'(1,3)
    by (intro exI [of _ r3] exI [of _ s3])
      (cases "ro_dry_run opts";
       simp add: planned_moves_Cons [of opts today sections t ts] planned_labels_Cons [of opts t ts])
qed

lemma plan_requests_all:
  "mset (plan_requests env opts today sections tasks) =
     mset (map (move_request env) (planned_moves opts today sections tasks)
           @ map (label_request env) (planned_labels opts tasks))"
proof (induction tasks)
  case Nil
  show ?case by (simp add: plan_requests_def)
next
  case (Cons t ts)
  have "plan_requests env opts today sections (t # ts) =
      map (move_request env) (planned_moves opts today sections [t])
      @ map (label_request env) (planned_labels opts [t]) @ plan_requests env opts today sections ts"
    by (simp add: plan_requests_def)
  with Cons show ?case
    unfolding planned_moves_Cons [of opts today sections t ts] planned_labels_Cons [of opts t ts] by simp
qed

text \<open>The tasks and the sections a run works on, and the whole run.\<close>

definition read_board ::
    "'s todoist_env \<Rightarrow> nat \<Rightarrow> settings \<Rightarrow> ('s web, task list \<times> (string \<times> string) list) io" where
  "read_board env fuel cfg =
     io_bind (get_tasks env fuel (cf_todoist_kanban_project_id cfg) [] []) (\<lambda>tasks.
     io_bind (get_section_map env fuel (cf_todoist_kanban_project_id cfg)) (\<lambda>names.
     io_bind (io_res (text_pairs names)) (\<lambda>sections. io_ret (tasks, sections))))"

lemma read_board_sends: "sends_only reads_only (read_board env fuel cfg)"
proof -
  have reads: "\<And>url params. reads_only (get_request env url params)" by (simp add: reads_only_def get_request_def)
  show ?thesis
    unfolding read_board_def
    by (intro sends_only_bind get_tasks_sends [of reads_only, OF reads] maps_send [of reads_only, OF reads]
        sends_only_res sends_only_ret)
qed

lemma reorganize_board_run:
  assumes "cf_todoist_kanban_project_id cfg \<noteq> []"
  shows "reorganize_board env fuel x today cfg opts =
    io_bind (read_board env fuel cfg) (\<lambda>(tasks, sections).
      io_bind (reorganize_tasks env x today opts sections tasks no_changes) (\<lambda>r.
        io_ret (if ro_dry_run opts
                then r\<lparr>rr_tasks_moved := length (rr_moves r), rr_tasks_labeled := length (rr_label_updates r)\<rparr>
                else r)))"
  using assms by (simp add: reorganize_board_def read_board_def Let_def io_bind_assoc del: io_ret_run)

section \<open>Convergence\<close>

text \<open>A task after its part of the plan was carried out.\<close>

definition settled :: "date \<Rightarrow> (string \<times> string) list \<Rightarrow> task \<Rightarrow> task" where
  "settled today sections t =
     (let t' = (case wanted_move today sections t of
                  None \<Rightarrow> t
                | Some to_id \<Rightarrow> t\<lparr>tk_section_id := to_id, tk_section_name := dget sections to_id []\<rparr>)
      in case suggested_labels t of None \<Rightarrow> t' | Some l \<Rightarrow> t'\<lparr>tk_labels := ls_labels l\<rparr>)"

lemma blocked_is_never_inferred: "''blocked'' \<notin> set (infer_labels t)"
proof -
  have "list_all (\<lambda>l. l \<noteq> ''blocked'') (map fst label_keywords)" by code_simp
  then show ?thesis by (auto simp: infer_labels_def Let_def list_all_iff)
qed

lemma ideal_same:
  assumes "''blocked'' \<in> set (tk_labels t') \<longleftrightarrow> ''blocked'' \<in> set (tk_labels t)"
    and "tk_is_recurring t' = tk_is_recurring t" "tk_priority t' = tk_priority t" "tk_due_date t' = tk_due_date t"
    and "tk_section_name t' \<in> set planner_sections \<longleftrightarrow> tk_section_name t \<in> set planner_sections"
  shows "ideal_section_name today t' = ideal_section_name today t"
  using assms by (simp add: ideal_section_name_def Let_def split: option.split)

lemma ideal_not_planner:
  assumes "ideal_section_name today t = Some target"
  shows "target \<notin> set planner_sections"
  using assms by (auto simp: ideal_section_name_def planner_sections_def Let_def split: if_splits)

lemma settled_labels:
  "tk_labels (settled today sections t) = (case suggested_labels t of None \<Rightarrow> tk_labels t | Some l \<Rightarrow> ls_labels l)"
  "tk_section_name (settled today sections t) =
     (case wanted_move today sections t of None \<Rightarrow> tk_section_name t | Some to_id \<Rightarrow> dget sections to_id [])"
  "tk_section_id (settled today sections t) =
     (case wanted_move today sections t of None \<Rightarrow> tk_section_id t | Some to_id \<Rightarrow> to_id)"
  "tk_is_recurring (settled today sections t) = tk_is_recurring t"
  "tk_priority (settled today sections t) = tk_priority t" "tk_due_date (settled today sections t) = tk_due_date t"
  "tk_content (settled today sections t) = tk_content t" "tk_description (settled today sections t) = tk_description t"
  by (auto simp: settled_def Let_def split: option.splits)

lemma settled_blocked:
  "''blocked'' \<in> set (tk_labels (settled today sections t)) \<longleftrightarrow> ''blocked'' \<in> set (tk_labels t)"
  using blocked_is_never_inferred [of t]
  by (auto simp: settled_labels suggested_labels_def split: option.splits if_splits)

lemma settled_is_labeled: "suggested_labels (settled today sections t) = None"
proof -
  have "infer_labels (settled today sections t) = infer_labels t" by (simp add: infer_labels_def settled_labels)
  then show ?thesis
    by (auto simp: suggested_labels_def settled_labels split: option.splits if_splits)
qed

lemma wanted_target:
  assumes "wanted_move today sections t = Some to_id" and "distinct (map fst sections)"
  shows "\<exists>target. ideal_section_name today t = Some target \<and> dget sections to_id [] = target
    \<and> target \<noteq> tk_section_name t"
proof -
  from assms(1) obtain target where ideal: "ideal_section_name today t = Some target" "target \<noteq> tk_section_name t"
    and "map_option fst (find (\<lambda>(i, sname). sname = target) sections) = Some to_id"
    by (auto simp: wanted_move_def suggest_section_def split: option.splits if_splits)
  then have "(to_id, target) \<in> set sections" by (auto simp: find_Some_iff in_set_conv_nth)
  with assms(2) have "dget sections to_id [] = target" by (simp add: dget_def)
  with ideal show ?thesis by blast
qed

lemma wanted_move_same:
  "ideal_section_name today t' = ideal_section_name today t \<Longrightarrow> tk_section_name t' = tk_section_name t
   \<Longrightarrow> tk_section_id t' = tk_section_id t \<Longrightarrow> wanted_move today sections t' = wanted_move today sections t"
  by (simp only: wanted_move_def suggest_section_def)

lemma settled_is_placed:
  assumes "distinct (map fst sections)"
  shows "wanted_move today sections (settled today sections t) = None"
proof (cases "wanted_move today sections t")
  case None
  then have "ideal_section_name today (settled today sections t) = ideal_section_name today t"
    by (intro ideal_same settled_blocked) (simp_all add: settled_labels)
  moreover have "tk_section_name (settled today sections t) = tk_section_name t"
    "tk_section_id (settled today sections t) = tk_section_id t" by (simp_all add: settled_labels None)
  ultimately show ?thesis using None wanted_move_same [of today "settled today sections t" t sections] by simp
next
  case (Some to_id)
  from wanted_target [OF this assms] obtain target where target: "ideal_section_name today t = Some target"
    "dget sections to_id [] = target" "target \<noteq> tk_section_name t" by blast
  have "ideal_section_name today (settled today sections t) = Some target"
  proof (cases "''blocked'' \<in> set (tk_labels t) \<or> tk_is_recurring t")
    case True
    with target show ?thesis
      using settled_blocked [of today sections t] by (auto simp: ideal_section_name_def settled_labels)
  next
    case False
    with target(1) have "tk_section_name t \<notin> set planner_sections" by (auto simp: ideal_section_name_def)
    then have "ideal_section_name today (settled today sections t) = ideal_section_name today t"
      using ideal_not_planner [OF target(1)] target(2)
      by (intro ideal_same settled_blocked) (simp_all add: settled_labels Some)
    with target(1) show ?thesis by simp
  qed
  moreover have "tk_section_name (settled today sections t) = target" using target(2) by (simp add: settled_labels Some)
  ultimately show ?thesis by (simp add: wanted_move_def suggest_section_def)
qed

text \<open>The maps the client builds have distinct keys.\<close>

lemma rfold_invariant:
  assumes "rfold f xs s = Inr s'" and "P s" and "\<And>x s s'. P s \<Longrightarrow> f x s = Inr s' \<Longrightarrow> P s'"
  shows "P s'"
  using assms(1,2)
proof (induction xs arbitrary: s)
  case Nil
  then show ?case by simp
next
  case (Cons x xs)
  then obtain s1 where "f x s = Inr s1" "rfold f xs s1 = Inr s'" by auto
  with Cons assms(3) show ?case by blast
qed

lemma id_name_map_distinct:
  assumes "id_name_map rows = Inr m"
  shows "distinct (map fst m)"
  using assms unfolding id_name_map_def
proof (rule rfold_invariant [where P = "\<lambda>m. distinct (map fst m)"])
  show "distinct (map fst [])" by simp
next
  fix p and s s' :: "(json \<times> json) list"
  assume s: "distinct (map fst s)"
    and step: "rbind (as_dict p) (\<lambda>d. case map_of d ''id'' of None \<Rightarrow> Inl (KeyError ''id'')
       | Some i \<Rightarrow> (case map_of d ''name'' of None \<Rightarrow> Inl (KeyError ''name'')
                    | Some name \<Rightarrow> rbind (dict_key i) (\<lambda>k. Inr (AList.update k name s)))) = Inr s'"
  then obtain d where d: "as_dict p = Inr d" by (cases "as_dict p") auto
  with step obtain i name where "map_of d ''id'' = Some i" "map_of d ''name'' = Some name"
    by (cases "map_of d ''id''"; cases "map_of d ''name''") auto
  with step d s show "distinct (map fst s')" by (auto simp: distinct_update)
qed

lemma text_pairs_distinct:
  assumes "text_pairs m = Inr sections" and "distinct (map fst m)"
  shows "distinct (map fst sections)"
proof -
  have "map (\<lambda>kv. (JStr (fst kv), JStr (snd kv))) sections = m"
    using assms(1) unfolding text_pairs_def rmap_Inr_iff
    by (induction rule: list_all2_induct) (auto split: prod.splits json.splits)
  with assms(2) have "distinct (map (\<lambda>kv. JStr (fst kv)) sections)" by (auto simp: comp_def)
  then show ?thesis by (auto simp: distinct_map inj_on_def)
qed

lemma read_board_distinct:
  assumes "read_board env fuel cfg st = (Inr (tasks, sections), st1)"
  shows "distinct (map fst sections)"
proof -
  from assms obtain names st2 st3 where names: "get_section_map env fuel (cf_todoist_kanban_project_id cfg) st2 = (Inr names, st3)"
    and pairs: "text_pairs names = Inr sections"
    by (auto simp: read_board_def io_bind_Inr)
  from names have "\<exists>rows. id_name_map rows = Inr names"
    by (auto simp: get_section_map_def io_bind_Inr)
  with pairs show ?thesis using id_name_map_distinct text_pairs_distinct by blast
qed

text \<open>Work in progress is not left alone: an undated task of the lowest priority that is being done is moved
to the backlog. And a keyword matches inside a word: painting gets the label of a computer.\<close>

lemma doing_is_moved:
  "ideal_section_name today ((new_task i name)\<lparr>tk_section_name := ''Doing''\<rparr>) = Some ''Backlog''"
  by (simp add: ideal_section_name_def new_task_def planner_sections_def)

lemma keyword_inside_word: "''Tecnologia'' \<in> set (infer_labels (new_task [] ''pintar''))"
  by code_simp

section \<open>Counting\<close>

lemma count_in_one: "count_in (count_one k m) k' = (if k' = k then count_in m k + 1 else count_in m k')"
  by (simp add: count_in_def count_one_def)

lemma count_in_fold: "count_in (fold count_one ks m) k = count_in m k + length (filter (\<lambda>x. x = k) ks)"
  by (induction ks arbitrary: m) (auto simp: count_in_one)

lemma counter_counts: "count_in (counter ks) k = length (filter (\<lambda>x. x = k) ks)"
  by (simp add: counter_def count_in_fold) (simp add: count_in_def)

lemma group_add_lookup:
  "map_of (group_add (k, v) m) k' =
     (if k' = k then Some ((case map_of m k of None \<Rightarrow> [] | Some vs \<Rightarrow> vs) @ [v]) else map_of m k')"
  by (simp add: group_add_def)

definition group_of :: "('k \<times> 'v) list \<Rightarrow> 'k \<Rightarrow> 'v list" where
  "group_of kvs k = map snd (filter (\<lambda>kv. fst kv = k) kvs)"

lemma group_fold:
  "map_of (fold group_add kvs m) k =
     (case map_of m k of
        Some vs \<Rightarrow> Some (vs @ group_of kvs k)
      | None \<Rightarrow> if group_of kvs k = [] then None else Some (group_of kvs k))"
proof (induction kvs arbitrary: m)
  case Nil
  show ?case by (simp add: group_of_def split: option.split)
next
  case (Cons kv kvs)
  obtain a v where kv: "kv = (a, v)" by (cases kv)
  show ?case
    using Cons.IH [of "group_add kv m"]
    by (cases "k = a"; cases "map_of m a") (simp_all add: kv group_add_lookup group_of_def split: option.split)
qed

lemma groups_lookup: "map_of (groups kvs) k = (if group_of kvs k = [] then None else Some (group_of kvs k))"
  by (simp add: groups_def group_fold)

lemma groups_distinct: "distinct (map fst (groups kvs))"
proof -
  have "distinct (map fst m) \<Longrightarrow> distinct (map fst (fold group_add kvs m))" for m :: "('a \<times> 'b list) list"
    by (induction kvs arbitrary: m) (simp_all add: group_add_def distinct_update)
  then show ?thesis by (simp add: groups_def)
qed

lemma groups_set: "snd ` set (groups kvs) = {g. g \<noteq> [] \<and> (\<exists>k. g = group_of kvs k)}"
proof -
  have "(k, g) \<in> set (groups kvs) \<longleftrightarrow> g \<noteq> [] \<and> g = group_of kvs k" for k g
    using groups_lookup [of kvs k] map_of_eq_Some_iff [OF groups_distinct [of kvs], of k g] by (auto split: if_splits)
  then show ?thesis by force
qed

text \<open>The tasks with a normalized name, as the analysis groups them.\<close>

definition named_tasks :: "task list \<Rightarrow> (string \<times> string) list" where
  "named_tasks tasks =
     filter (\<lambda>kv. fst kv \<noteq> []) (map (\<lambda>t. (normalize_name (tk_content t), id_text (tk_content t) t)) tasks)"

lemma named_tasks_group:
  "group_of (named_tasks tasks) name =
     (if name = [] then []
      else map (\<lambda>t. id_text (tk_content t) t) (filter (\<lambda>t. normalize_name (tk_content t) = name) tasks))"
  by (induction tasks) (auto simp: named_tasks_def group_of_def)

section \<open>A board to evaluate\<close>

definition sample_board_settings :: settings where
  "sample_board_settings = default_settings\<lparr>cf_todoist_kanban_project_id := ''p1''\<rparr>"

definition run_all :: "bool \<Rightarrow> run_options" where
  "run_all dry = \<lparr>ro_dry_run = dry, ro_move_tasks = True, ro_auto_label = True\<rparr>"

lemma sample_board_reads:
  "case read_board sample_todoist 2 sample_board_settings (0, [], ()) of
     (Inr (tasks, sections), st) \<Rightarrow> map tk_id tasks = [''7''] \<and> planned_moves (run_all False) 0 sections tasks \<noteq> []
   | (Inl e, st) \<Rightarrow> False"
  by code_simp

lemma sample_dry_run:
  "case reorganize_board sample_todoist 2 (\<lambda>_. []) 0 sample_board_settings (run_all True) (0, [], ()) of
     (Inr r, st) \<Rightarrow> rr_tasks_moved r = 1 \<and> rr_tasks_labeled r = 0 | (Inl e, st) \<Rightarrow> False"
  by code_simp

lemma sample_run_ends:
  "\<exists>r :: reorganize_result. \<exists>n reqs s.
     reorganize_board sample_todoist 2 (\<lambda>_. []) 0 sample_board_settings (run_all True) (0, [], ()) = (Inr r, n, reqs, s)
     \<and> rr_tasks_moved r = 1 \<and> rr_tasks_labeled r = 0"
  using sample_dry_run by (auto split: prod.splits sum.splits)

section \<open>Properties\<close>

text \<open>C20. A dry run predicts the applied run and changes nothing: when a dry run on a board returns a report,
the applied run from the same state, whatever the server then answers to its writes, returns a report with
the same moves and label updates; it counts no more moves and labels than the dry run announced, every
announced change is counted as done or as an error, and its requests are those of the dry run, all reads,
followed by one write for each announced change.\<close>

theorem organizer_dry_run_predicts:
  assumes "reorganize_board env fuel x today cfg (opts\<lparr>ro_dry_run := True\<rparr>) (n, reqs, s) = (Inr d, n1, reqs1, s1)"
    and "cf_todoist_kanban_project_id cfg \<noteq> []"
  shows "\<exists>a reads changes s2.
      reorganize_board env fuel x today cfg (opts\<lparr>ro_dry_run := False\<rparr>) (n, reqs, s) = (Inr a, n1, reqs1 @ changes, s2)
    \<and> rr_moves a = rr_moves d \<and> rr_label_updates a = rr_label_updates d
    \<and> rr_tasks_moved a \<le> rr_tasks_moved d \<and> rr_tasks_labeled a \<le> rr_tasks_labeled d
    \<and> done_count a = rr_tasks_moved d + rr_tasks_labeled d
    \<and> reqs1 = reqs @ reads \<and> list_all reads_only reads
    \<and> mset changes = mset (map (move_request env) (rr_moves d) @ map (label_request env) (rr_label_updates d))"
proof -
  let ?dry = "opts\<lparr>ro_dry_run := True\<rparr>" and ?wet = "opts\<lparr>ro_dry_run := False\<rparr>"
  obtain res n0 reqs0 s0 where read: "read_board env fuel cfg (n, reqs, s) = (res, n0, reqs0, s0)"
    by (cases "read_board env fuel cfg (n, reqs, s)")
  with assms obtain tasks sections where res: "res = Inr (tasks, sections)"
    by (cases res) (auto simp: reorganize_board_run io_bind_run)
  let ?ms = "planned_moves ?dry today sections tasks" and ?ls = "planned_labels ?dry tasks"
  obtain r s' where dry: "reorganize_tasks env x today ?dry sections tasks no_changes (n0, reqs0, s0) = (Inr r, n0, reqs0, s')"
    and r: "reports no_changes ?ms ?ls r"
    using reorganize_tasks_run [of env x today ?dry sections tasks no_changes n0 reqs0 s0] by auto
  obtain a s2 where wet: "reorganize_tasks env x today ?wet sections tasks no_changes (n0, reqs0, s0) =
      (Inr a, n0, reqs0 @ plan_requests env ?wet today sections tasks, s2)"
    and a: "reports no_changes (planned_moves ?wet today sections tasks) (planned_labels ?wet tasks) a"
      "done_count a = done_count no_changes + length (planned_moves ?wet today sections tasks)
         + length (planned_labels ?wet tasks)"
    using reorganize_tasks_run [of env x today ?wet sections tasks no_changes n0 reqs0 s0] by auto
  have same: "planned_moves ?wet today sections ts = planned_moves ?dry today sections ts"
    "planned_labels ?wet ts = planned_labels ?dry ts" for ts by (simp_all add: planned_moves_def planned_labels_def)
  have d: "d = r\<lparr>rr_tasks_moved := length (rr_moves r), rr_tasks_labeled := length (rr_label_updates r)\<rparr>"
    "n1 = n0" "reqs1 = reqs0"
    using assms by (auto simp: reorganize_board_run io_bind_run read res dry)
  obtain reads where "reqs0 = reqs @ reads" "list_all reads_only reads"
    using sends_onlyD [OF read_board_sends read] by blast
  moreover have "reorganize_board env fuel x today cfg ?wet (n, reqs, s) =
      (Inr a, n1, reqs1 @ plan_requests env ?wet today sections tasks, s2)"
    using assms(2) by (simp add: reorganize_board_run io_bind_run read res wet d(2,3))
  ultimately show ?thesis
    using r a plan_requests_all [of env ?wet today sections tasks]
    by (intro exI [of _ a] exI [of _ reads] exI [of _ "plan_requests env ?wet today sections tasks"] exI [of _ s2])
      (simp add: d reports_def no_changes_def done_count_def same)
qed

theorem organizer_dry_run_predicts_witness:
  "\<exists>a :: reorganize_result. \<exists>st.
     reorganize_board sample_todoist 2 (\<lambda>_. []) 0 sample_board_settings (run_all False) (0, [], ()) = (Inr a, st)
     \<and> done_count a = 1"
proof -
  have dry: "run_all True = run_all True\<lparr>ro_dry_run := True\<rparr>" by (simp add: run_all_def)
  have wet: "run_all True\<lparr>ro_dry_run := False\<rparr> = run_all False" by (simp add: run_all_def)
  obtain r :: reorganize_result and n reqs s where
    run: "reorganize_board sample_todoist 2 (\<lambda>_. []) 0 sample_board_settings (run_all True\<lparr>ro_dry_run := True\<rparr>) (0, [], ())
      = (Inr r, n, reqs, s)" and counts: "rr_tasks_moved r = 1" "rr_tasks_labeled r = 0"
    using sample_run_ends dry by metis
  have "cf_todoist_kanban_project_id sample_board_settings \<noteq> []" by code_simp
  from organizer_dry_run_predicts [OF run this] counts show ?thesis unfolding wet by auto
qed

text \<open>Reorganizing converges: on the tasks and sections a run read, once every planned change is carried out
(each task in the section and with the labels the run gave it) a further run on the same day plans nothing.\<close>

theorem organizer_converges:
  assumes "read_board env fuel cfg st = (Inr (tasks, sections), st1)"
  shows "planned_moves opts today sections (map (settled today sections) tasks) = []
    \<and> planned_labels opts (map (settled today sections) tasks) = []"
  using settled_is_placed [OF read_board_distinct [OF assms]] settled_is_labeled
  by (simp add: planned_moves_def planned_labels_def planned_move_def List.map_filter_def filter_empty_conv)

theorem organizer_converges_witness:
  "\<exists>tasks sections. tasks \<noteq> [] \<and> planned_moves (run_all False) 0 sections tasks \<noteq> []
     \<and> planned_moves (run_all False) 0 sections (map (settled 0 sections) tasks) = []"
proof -
  obtain tasks sections st where read: "read_board sample_todoist 2 sample_board_settings (0, [], ()) = (Inr (tasks, sections), st)"
    and plan: "planned_moves (run_all False) 0 sections tasks \<noteq> []"
    using sample_board_reads by (auto split: prod.splits sum.splits)
  have "tasks \<noteq> []" using plan by auto
  with plan organizer_converges [OF read] show ?thesis by blast
qed

text \<open>The analysis of a board counts exactly: tasks per section and per priority, unlabeled, undated and
overdue tasks; the misplaced tasks and label suggestions are those a reorganization would change; and the
duplicate candidates are exactly the groups of two or more tasks whose normalized names agree and are not
empty.\<close>

theorem board_analysis_counts:
  "ba_total_tasks (analyze_board today tasks sections) = length tasks
   \<and> count_in (ba_tasks_per_section (analyze_board today tasks sections)) sec =
       length (filter (\<lambda>t. section_or_none t = sec) tasks)
   \<and> count_in (ba_priority_distribution (analyze_board today tasks sections)) pri =
       length (filter (\<lambda>t. tk_priority t = pri) tasks)
   \<and> map mp_task_id (ba_misplaced_tasks (analyze_board today tasks sections)) =
       map pm_task_id (planned_moves (run_all True) today sections tasks)
   \<and> ba_label_suggestions (analyze_board today tasks sections) = planned_labels (run_all True) tasks
   \<and> set (ba_duplicate_candidates (analyze_board today tasks sections)) =
       {g. length g > 1 \<and> (\<exists>name. name \<noteq> [] \<and>
             g = map (\<lambda>t. id_text (tk_content t) t) (filter (\<lambda>t. normalize_name (tk_content t) = name) tasks))}"
proof -
  let ?a = "analyze_board today tasks sections"
  have counts: "ba_tasks_per_section ?a = counter (map section_or_none tasks)"
    "ba_priority_distribution ?a = counter (map tk_priority tasks)"
    "ba_misplaced_tasks ?a = List.map_filter (misplaced today sections) tasks"
    "ba_label_suggestions ?a = List.map_filter suggested_labels tasks"
    "ba_total_tasks ?a = length tasks"
    "ba_duplicate_candidates ?a = filter (\<lambda>g. length g > 1) (map snd (groups (named_tasks tasks)))"
    by (simp_all add: analyze_board_def Let_def named_tasks_def)
  have misplaced: "map mp_task_id (List.map_filter (misplaced today sections) ts) =
      map pm_task_id (List.map_filter (planned_move today sections) ts)" for ts
    by (induction ts) (auto simp: List.map_filter_def misplaced_def planned_move_def)
  have "set (ba_duplicate_candidates ?a) = {g. length g > 1 \<and> g \<in> snd ` set (groups (named_tasks tasks))}"
    unfolding counts(6) by auto
  also have "\<dots> = {g. length g > 1 \<and> (\<exists>name. name \<noteq> [] \<and>
      g = map (\<lambda>t. id_text (tk_content t) t) (filter (\<lambda>t. normalize_name (tk_content t) = name) tasks))}"
    unfolding groups_set named_tasks_group by (auto split: if_splits)
  finally show ?thesis
    by (simp add: counts(1-5) counter_counts length_filter_map misplaced planned_moves_def planned_labels_def run_all_def o_def)
qed

end
