(* ===== verification/Notion.thy ===== *)
theory Notion
  imports Todoist Llm
begin

text \<open>
  \<open>src/brain/notion.py\<close>: the Notion client, its blocks, and the sync of tasks into a Notion database. The
  server and the ISO text of a time are parameters; loops over pages run on fuel, as in the Todoist
  client, and an id or a name of the API that is no text counts as an error. Texts of tasks are code points
  below 256; characters of the literals above that are written as their UTF-8 bytes.
\<close>

section \<open>Texts\<close>

definition notion_text :: "string \<Rightarrow> nat \<Rightarrow> string" where
  "notion_text s max_len = take max_len (strip_control s)"

definition section_color_map :: "(string \<times> string) list" where
  "section_color_map =
     [(''urgent'', ''red''), (''high'', ''orange''), (''normal'', ''yellow''), (''low'', ''default''),
      (''backlog'', ''gray''), (''daily'', ''blue''), (''weekly'', ''purple''), (''weekend'', ''green''),
      (''doing'', ''pink''), (''done'', ''green''), (''blocked'', ''red''), (''recurring'', ''brown''),
      (''rejected'', ''gray'')]"

definition section_color :: "string \<Rightarrow> string" where
  "section_color name =
     (case find (\<lambda>(keyword, color). py_contains keyword (map lower_latin name)) section_color_map of
        None \<Rightarrow> ''default'' | Some (keyword, color) \<Rightarrow> color)"

definition p1_urgent :: string where "p1_urgent = [CHR 0xF0, CHR 0x9F, CHR 0x94, CHR 0xB4] @ '' P1 Urgent''"
definition p2_high :: string where "p2_high = [CHR 0xF0, CHR 0x9F, CHR 0x9F, CHR 0xA0] @ '' P2 High''"
definition p3_normal :: string where "p3_normal = [CHR 0xF0, CHR 0x9F, CHR 0x9F, CHR 0xA1] @ '' P3 Normal''"
definition p4_low :: string where "p4_low = [CHR 0xE2, CHR 0x9A, CHR 0xAA] @ '' P4 Low''"
definition st_todo :: string where "st_todo = [CHR 0xF0, CHR 0x9F, CHR 0x93, CHR 0x8B] @ '' Todo''"
definition st_done :: string where "st_done = [CHR 0xE2, CHR 0x9C, CHR 0x85] @ '' Done''"

definition select_option :: "string \<Rightarrow> string \<Rightarrow> json" where
  "select_option name color = JObj [(''name'', JStr name), (''color'', JStr color)]"

definition priority_options :: "json list" where
  "priority_options =
     [select_option p1_urgent ''red'', select_option p2_high ''orange'', select_option p3_normal ''yellow'',
      select_option p4_low ''default'']"

definition priority_map :: "(int \<times> string) list" where
  "priority_map = [(4, p1_urgent), (3, p2_high), (2, p3_normal), (1, p4_low)]"

definition status_options :: "json list" where
  "status_options =
     [select_option st_todo ''gray'', select_option ([CHR 0xE2, CHR 0x9A, CHR 0xA1] @ '' Doing'') ''blue'',
      select_option st_done ''green'', select_option ([CHR 0xF0, CHR 0x9F, CHR 0x9A, CHR 0xA7] @ '' Blocked'') ''red'']"

definition label_colors :: "string list" where
  "label_colors =
     [''blue'', ''brown'', ''default'', ''gray'', ''green'', ''orange'', ''pink'', ''purple'', ''red'', ''yellow'']"

section \<open>Blocks\<close>

definition rich_text :: "string \<Rightarrow> json" where
  "rich_text content =
     JArr [JObj [(''type'', JStr ''text''), (''text'', JObj [(''content'', JStr content)])]]"

definition block :: "string \<Rightarrow> jdict \<Rightarrow> json" where
  "block kind body = JObj [(''object'', JStr ''block''), (''type'', JStr kind), (kind, JObj body)]"

definition emoji_prefix :: "string \<Rightarrow> string" where
  "emoji_prefix emoji = (if emoji = [] then [] else emoji @ '' '')"

definition heading_block :: "nat \<Rightarrow> string \<Rightarrow> string \<Rightarrow> json" where
  "heading_block level s emoji =
     block (''heading_'' @ nat_text level) [(''rich_text'', rich_text (emoji_prefix emoji @ s))]"

definition paragraph_block :: "string \<Rightarrow> json" where
  "paragraph_block s = block ''paragraph'' [(''rich_text'', rich_text s)]"

definition emoji_icon :: "string \<Rightarrow> json" where
  "emoji_icon emoji = JObj [(''type'', JStr ''emoji''), (''emoji'', JStr emoji)]"

definition callout_body :: "string \<Rightarrow> string \<Rightarrow> string \<Rightarrow> jdict" where
  "callout_body s emoji color =
     [(''rich_text'', rich_text s), (''icon'', emoji_icon emoji), (''color'', JStr color)]"

definition callout_block :: "string \<Rightarrow> string \<Rightarrow> string \<Rightarrow> json" where
  "callout_block s emoji color = block ''callout'' (callout_body s emoji color)"

definition divider_block :: json where
  "divider_block = block ''divider'' []"

definition toggle_block :: "string \<Rightarrow> json list \<Rightarrow> string \<Rightarrow> json" where
  "toggle_block title children emoji =
     block ''toggle'' [(''rich_text'', rich_text (emoji_prefix emoji @ title)), (''children'', JArr children)]"

definition bullet_block :: "string \<Rightarrow> json" where
  "bullet_block s = block ''bulleted_list_item'' [(''rich_text'', rich_text s)]"

definition quote_block :: "string \<Rightarrow> json" where
  "quote_block s = block ''quote'' [(''rich_text'', rich_text s)]"

definition toc_block :: json where
  "toc_block = block ''table_of_contents'' [(''color'', JStr ''default'')]"

definition code_block :: "string \<Rightarrow> string \<Rightarrow> json" where
  "code_block s language = block ''code'' [(''rich_text'', rich_text s), (''language'', JStr language)]"

definition numbered_block :: "string \<Rightarrow> json" where
  "numbered_block s = block ''numbered_list_item'' [(''rich_text'', rich_text s)]"

definition columns_block :: "json list list \<Rightarrow> json" where
  "columns_block cols =
     block ''column_list''
       [(''children'', JArr (map (\<lambda>col. JObj [(''type'', JStr ''column''),
                                              (''column'', JObj [(''children'', JArr col)])]) cols))]"

section \<open>The client\<close>

record 's notion_env =
  nt_server :: "'s server"
  nt_token :: string
  nt_iso :: "wall_time \<Rightarrow> string"

definition NOTION_API_BASE :: string where
  "NOTION_API_BASE = ''https://api.notion.com/v1''"

definition NOTION_VERSION :: string where
  "NOTION_VERSION = ''2022-06-28''"

definition notion_request :: "'s notion_env \<Rightarrow> http_method \<Rightarrow> string \<Rightarrow> jdict \<Rightarrow> jdict \<Rightarrow> http_request" where
  "notion_request env kind path params body =
     \<lparr>hr_method = kind, hr_url = NOTION_API_BASE @ path,
      hr_headers = [(''Authorization'', JStr (''Bearer '' @ nt_token env)), (''Notion-Version'', JStr NOTION_VERSION),
                    (''Content-Type'', JStr ''application/json'')],
      hr_params = params, hr_body = body\<rparr>"

definition notion_send :: "'s notion_env \<Rightarrow> http_method \<Rightarrow> string \<Rightarrow> jdict \<Rightarrow> jdict \<Rightarrow> ('s web, json) io" where
  "notion_send env kind path params body =
     io_bind (http_send (nt_server env) (notion_request env kind path params body))
       (\<lambda>resp. io_res (raise_for_status resp))"

definition notion_get :: "'s notion_env \<Rightarrow> string \<Rightarrow> jdict \<Rightarrow> ('s web, json) io" where
  "notion_get env path params = notion_send env GET path params []"

definition notion_post :: "'s notion_env \<Rightarrow> string \<Rightarrow> jdict \<Rightarrow> ('s web, json) io" where
  "notion_post env path body = notion_send env POST path [] body"

definition notion_patch :: "'s notion_env \<Rightarrow> string \<Rightarrow> jdict \<Rightarrow> ('s web, json) io" where
  "notion_patch env path body = notion_send env PATCH path [] body"

text \<open>The rows of a page, and the cursor to go on with, when there is more.\<close>

definition notion_page :: "json \<Rightarrow> (json list \<times> json option) res" where
  "notion_page data =
     rbind (as_dict data) (\<lambda>d.
     rbind (as_list (dget d ''results'' (JArr []))) (\<lambda>rows.
       if \<not> jtruthy (dget d ''has_more'' JNull) then Inr (rows, None)
       else rbind (at_key data ''next_cursor'') (\<lambda>cursor. Inr (rows, Some cursor))))"

fun block_pages :: "'s notion_env \<Rightarrow> nat \<Rightarrow> string \<Rightarrow> jdict \<Rightarrow> json list \<Rightarrow> ('s web, json list) io" where
  "block_pages env 0 path params results = io_raise no_fuel"
| "block_pages env (Suc fuel) path params results =
     io_bind (notion_get env path params) (\<lambda>data.
     io_bind (io_res (notion_page data)) (\<lambda>(rows, next).
       case next of
         None \<Rightarrow> io_ret (results @ rows)
       | Some cursor \<Rightarrow>
           block_pages env fuel path (AList.update ''start_cursor'' cursor params) (results @ rows)))"

definition paginate_blocks :: "'s notion_env \<Rightarrow> nat \<Rightarrow> string \<Rightarrow> ('s web, json list) io" where
  "paginate_blocks env fuel block_id =
     block_pages env fuel (''/blocks/'' @ block_id @ ''/children'') [(''page_size'', JInt 100)] []"

fun query_pages :: "'s notion_env \<Rightarrow> nat \<Rightarrow> string \<Rightarrow> jdict \<Rightarrow> json list \<Rightarrow> ('s web, json list) io" where
  "query_pages env 0 path body results = io_raise no_fuel"
| "query_pages env (Suc fuel) path body results =
     io_bind (notion_post env path body) (\<lambda>data.
     io_bind (io_res (notion_page data)) (\<lambda>(rows, next).
       case next of
         None \<Rightarrow> io_ret (results @ rows)
       | Some cursor \<Rightarrow>
           query_pages env fuel path (AList.update ''start_cursor'' cursor body) (results @ rows)))"

definition query_database :: "'s notion_env \<Rightarrow> nat \<Rightarrow> string \<Rightarrow> jdict \<Rightarrow> ('s web, json list) io" where
  "query_database env fuel db_id filter_body =
     query_pages env fuel (''/databases/'' @ db_id @ ''/query'')
       ([(''page_size'', JInt 100)] @ (if filter_body = [] then [] else [(''filter'', JObj filter_body)])) []"

definition page_parent :: "string \<Rightarrow> json" where
  "page_parent page_id = JObj [(''type'', JStr ''page_id''), (''page_id'', JStr page_id)]"

definition icon_field :: "string \<Rightarrow> jdict" where
  "icon_field emoji = (if emoji = [] then [] else [(''icon'', emoji_icon emoji)])"

definition create_page :: "'s notion_env \<Rightarrow> string \<Rightarrow> string \<Rightarrow> string \<Rightarrow> ('s web, json) io" where
  "create_page env parent_page_id title emoji =
     notion_post env ''/pages''
       ([(''parent'', page_parent parent_page_id),
         (''properties'', JObj [(''title'', JObj [(''title'', rich_text title)])])] @ icon_field emoji)"

text \<open>\<open>for i in range(0, len(blocks), 100): ... blocks[i : i + 100]\<close>.\<close>

function chunks_of :: "nat \<Rightarrow> 'a list \<Rightarrow> 'a list list" where
  "chunks_of n xs = (if xs = [] \<or> n = 0 then [] else take n xs # chunks_of n (drop n xs))"
  by pat_completeness auto
termination by (relation "measure (\<lambda>(n, xs). length xs)") auto

declare chunks_of.simps [simp del]

definition append_part :: "'s notion_env \<Rightarrow> string \<Rightarrow> json list \<Rightarrow> ('s web, unit) io" where
  "append_part env block_id part =
     io_bind (notion_patch env (''/blocks/'' @ block_id @ ''/children'') [(''children'', JArr part)]) (\<lambda>_. io_ret ())"

definition append_blocks :: "'s notion_env \<Rightarrow> string \<Rightarrow> json list \<Rightarrow> ('s web, unit) io" where
  "append_blocks env block_id blocks =
     io_each (append_part env block_id) (chunks_of 100 blocks)"

definition create_database ::
    "'s notion_env \<Rightarrow> string \<Rightarrow> string \<Rightarrow> jdict \<Rightarrow> string \<Rightarrow> bool \<Rightarrow> ('s web, json) io" where
  "create_database env parent_page_id title properties emoji is_inline =
     notion_post env ''/databases''
       ([(''parent'', page_parent parent_page_id), (''title'', rich_text title), (''is_inline'', JBool is_inline),
         (''properties'', JObj properties)] @ icon_field emoji)"

definition update_page :: "'s notion_env \<Rightarrow> string \<Rightarrow> jdict \<Rightarrow> ('s web, json) io" where
  "update_page env page_id properties =
     notion_patch env (''/pages/'' @ page_id) [(''properties'', JObj properties)]"

text \<open>\<open>except requests.RequestException\<close> around one request: the loop goes on.\<close>

definition json_str :: "json \<Rightarrow> string res" where
  "json_str v = (case v of JStr s \<Rightarrow> Inr s | _ \<Rightarrow> Inl (OtherError ''TypeError''))"

definition archive_block :: "'s notion_env \<Rightarrow> json \<Rightarrow> ('s web, unit) io" where
  "archive_block env blk =
     io_bind (io_res (get_key blk ''type'' JNull)) (\<lambda>kind.
       if kind \<in> {JStr ''child_page'', JStr ''child_database''} then io_ret ()
       else or_on_request_error
              (io_bind (io_res (rbind (at_key blk ''id'') json_str)) (\<lambda>i.
               io_bind (notion_patch env (''/blocks/'' @ i) [(''archived'', JBool True)]) (\<lambda>_. io_ret ())))
              ())"

definition archive_blocks :: "'s notion_env \<Rightarrow> nat \<Rightarrow> string \<Rightarrow> ('s web, unit) io" where
  "archive_blocks env fuel block_id =
     io_bind (paginate_blocks env fuel block_id) (\<lambda>blocks. io_each (archive_block env) blocks)"

section \<open>Schemas and properties\<close>

definition default_label_options :: "json list" where
  "default_label_options =
     [select_option (''Sa'' @ [CHR 0xFA] @ ''de'') ''green'', select_option ''Tecnologia'' ''blue'',
      select_option (''Finan'' @ [CHR 0xE7] @ ''as'') ''yellow'', select_option ''Burocracia'' ''gray'',
      select_option (''Manuten'' @ [CHR 0xE7, CHR 0xE3] @ ''o'') ''orange'', select_option ''Lojas'' ''pink'',
      select_option (''Fam'' @ [CHR 0xED] @ ''lia'') ''purple'', select_option ''Trabalho'' ''red'',
      select_option ''Entretenimento'' ''brown'', select_option (''decora'' @ [CHR 0xE7, CHR 0xE3] @ ''o'') ''default'']"

text \<open>The labels are those given, in the order of a Python set, which is up to the caller of this model.\<close>

definition task_db_schema :: "string list \<Rightarrow> jdict" where
  "task_db_schema labels =
     (let options = map (\<lambda>(i, l). select_option l (label_colors ! (i mod length label_colors))) (enumerate 0 labels)
      in [(''Name'', JObj [(''title'', JObj [])]),
          (''Priority'', JObj [(''select'', JObj [(''options'', JArr priority_options)])]),
          (''Due Date'', JObj [(''date'', JObj [])]),
          (''Labels'', JObj [(''multi_select'',
              JObj [(''options'', JArr (if options = [] then default_label_options else options))])]),
          (''Status'', JObj [(''select'', JObj [(''options'', JArr status_options)])]),
          (''Todoist ID'', JObj [(''rich_text'', JObj [])]), (''Todoist URL'', JObj [(''url'', JObj [])]),
          (''Duration (min)'', JObj [(''number'', JObj [])]), (''Notes'', JObj [(''rich_text'', JObj [])])])"

definition select_prop :: "string \<Rightarrow> json" where
  "select_prop name = JObj [(''select'', JObj [(''name'', JStr name)])]"

definition due_prop :: "'s notion_env \<Rightarrow> task \<Rightarrow> jdict" where
  "due_prop env t =
     (case tk_due_date t of
        None \<Rightarrow> []
      | Some d \<Rightarrow>
          [(''Due Date'', JObj [(''date'', JObj [(''start'', JStr
             (case tk_due_datetime t of
                Some w \<Rightarrow> (if tk_due_has_time t then nt_iso env w else date_iso d)
              | None \<Rightarrow> date_iso d))])])])"

definition task_to_properties :: "'s notion_env \<Rightarrow> task \<Rightarrow> bool \<Rightarrow> jdict" where
  "task_to_properties env t include_section =
     [(''Name'', JObj [(''title'', rich_text (notion_text (tk_content t) 2000))]),
      (''Priority'', select_prop (case map_of priority_map (tk_priority t) of None \<Rightarrow> p4_low | Some p \<Rightarrow> p)),
      (''Status'', select_prop st_todo),
      (''Todoist ID'', JObj [(''rich_text'', rich_text (notion_text (tk_id t) 100))]),
      (''Todoist URL'', JObj [(''url'', if tk_url t = [] then JNull else JStr (tk_url t))])]
     @ due_prop env t
     @ (if tk_labels t = [] then []
        else [(''Labels'', JObj [(''multi_select'',
                JArr (map (\<lambda>l. JObj [(''name'', JStr (notion_text l 100))]) (tk_labels t)))])])
     @ (case tk_duration_minutes t of
          None \<Rightarrow> [] | Some m \<Rightarrow> if m = 0 then [] else [(''Duration (min)'', JObj [(''number'', JInt m)])])
     @ (if tk_description t = [] then []
        else [(''Notes'', JObj [(''rich_text'', rich_text (notion_text (tk_description t) 2000))])])
     @ (if include_section
        then [(''Section'', select_prop (notion_text (if tk_section_name t = [] then ''No Section''
                                                      else tk_section_name t) 100))]
        else [])"

definition board_db_schema :: jdict where
  "board_db_schema =
     AList.update ''Section'' (JObj [(''select'', JObj [(''options'', JArr [])])]) (task_db_schema [])"

section \<open>Syncing tasks into a database\<close>

text \<open>\<open>item.get("properties", {}).get("Todoist ID", {}).get("rich_text", [])\<close> and the first plain text in it.\<close>

definition first_plain_text :: "json \<Rightarrow> json res" where
  "first_plain_text rt = (if jtruthy rt then rbind (at_zero rt) (\<lambda>r. get_key r ''plain_text'' (JStr [])) else Inr (JStr []))"

definition todoist_id_of :: "json \<Rightarrow> json res" where
  "todoist_id_of item =
     rbind (get_key item ''properties'' (JObj [])) (\<lambda>props.
     rbind (get_key props ''Todoist ID'' (JObj [])) (\<lambda>tid_prop.
     rbind (get_key tid_prop ''rich_text'' (JArr [])) first_plain_text))"

definition existing_map :: "json list \<Rightarrow> (string \<times> string) list res" where
  "existing_map items =
     rfold (\<lambda>item m. rbind (todoist_id_of item) (\<lambda>tid.
              if \<not> jtruthy tid then Inr m
              else rbind (json_str tid) (\<lambda>tid.
                   rbind (at_key item ''id'') (\<lambda>i. rbind (json_str i) (\<lambda>i. Inr (AList.update tid i m))))))
       items []"

definition create_item :: "'s notion_env \<Rightarrow> string \<Rightarrow> jdict \<Rightarrow> ('s web, json) io" where
  "create_item env db_id props =
     notion_post env ''/pages'' [(''parent'', JObj [(''database_id'', JStr db_id)]), (''properties'', JObj props)]"

fun sync_each ::
    "'s notion_env \<Rightarrow> string \<Rightarrow> bool \<Rightarrow> (string \<times> string) list \<Rightarrow> task list \<Rightarrow> nat \<Rightarrow> nat
     \<Rightarrow> ('s web, nat \<times> nat) io" where
  "sync_each env db_id include_section existing [] created updated = io_ret (created, updated)"
| "sync_each env db_id include_section existing (t # ts) created updated =
     io_bind
       (let props = task_to_properties env t include_section in
        or_on_request_error
          (case map_of existing (tk_id t) of
             Some page_id \<Rightarrow> io_bind (update_page env page_id props) (\<lambda>_. io_ret (created, updated + 1))
           | None \<Rightarrow> io_bind (create_item env db_id props) (\<lambda>_. io_ret (created + 1, updated)))
          (created, updated))
       (\<lambda>(created, updated). sync_each env db_id include_section existing ts created updated)"

definition done_props :: jdict where
  "done_props = [(''Status'', select_prop st_done)]"

definition mark_done :: "'s notion_env \<Rightarrow> string \<times> string \<Rightarrow> ('s web, unit) io" where
  "mark_done env item =
     or_on_request_error (io_bind (update_page env (snd item) done_props) (\<lambda>_. io_ret ())) ()"

definition stale_items :: "(string \<times> string) list \<Rightarrow> task list \<Rightarrow> (string \<times> string) list" where
  "stale_items existing tasks = filter (\<lambda>(tid, page_id). tid \<notin> tk_id ` set tasks) existing"

definition sync_tasks_to_database ::
    "'s notion_env \<Rightarrow> nat \<Rightarrow> string \<Rightarrow> task list \<Rightarrow> bool \<Rightarrow> bool \<Rightarrow> ('s web, nat \<times> nat) io" where
  "sync_tasks_to_database env fuel db_id tasks include_section mark_stale_done =
     (if tasks = [] \<and> \<not> mark_stale_done then io_ret (0, 0)
      else io_bind (query_database env fuel db_id []) (\<lambda>items.
           io_bind (io_res (existing_map items)) (\<lambda>existing.
           io_bind (sync_each env db_id include_section existing tasks 0 0) (\<lambda>counts.
           io_bind (if mark_stale_done
                    then io_each (mark_done env) (stale_items existing tasks)
                    else io_ret ()) (\<lambda>_. io_ret counts)))))"

definition section_options :: "string list \<Rightarrow> (string \<times> string) list" where
  "section_options names =
     (let unique = fold (\<lambda>raw m. let name = notion_text raw 100
                                in if name = [] then m else AList.update name (section_color name) m) names []
      in if unique = [] then [(''No Section'', ''gray'')] else unique)"

definition sync_board_to_database ::
    "'s notion_env \<Rightarrow> nat \<Rightarrow> string \<Rightarrow> task list \<Rightarrow> (string \<times> string) list \<Rightarrow> ('s web, nat \<times> nat) io" where
  "sync_board_to_database env fuel db_id tasks sections =
     io_bind (or_on_request_error
                (io_bind (notion_patch env (''/databases/'' @ db_id)
                   [(''properties'', JObj [(''Section'', JObj [(''select'', JObj [(''options'',
                       JArr (map (\<lambda>(name, color). select_option name color) (section_options (map snd sections))))])])])])
                   (\<lambda>_. io_ret ())) ())
       (\<lambda>_. sync_tasks_to_database env fuel db_id tasks True True)"

definition get_notion_only_tasks :: "'s notion_env \<Rightarrow> nat \<Rightarrow> string \<Rightarrow> ('s web, json list) io" where
  "get_notion_only_tasks env fuel db_id =
     io_bind (query_database env fuel db_id []) (\<lambda>items.
     io_res (rfold (\<lambda>item found. rbind (todoist_id_of item) (\<lambda>tid. Inr (if jtruthy tid then found else found @ [item])))
               items []))"

section \<open>From Notion to Todoist\<close>

text \<open>\<open>opt.get("name", "")\<close> of every option of a multi-select.\<close>

definition option_names :: "json \<Rightarrow> json list res" where
  "option_names v = rbind (as_list v) (rmap (\<lambda>opt. get_key opt ''name'' (JStr [])))"

definition prop_path :: "json \<Rightarrow> string \<Rightarrow> string \<Rightarrow> json \<Rightarrow> json res" where
  "prop_path props name kind dflt = rbind (get_key props name (JObj [])) (\<lambda>p. get_key p kind dflt)"

definition priority_of_name :: "json \<Rightarrow> int" where
  "priority_of_name name =
     (if name = JStr p1_urgent then 4 else if name = JStr p2_high then 3 else if name = JStr p3_normal then 2 else 1)"

definition notion_item_to_task_fields :: "(json \<Rightarrow> string) \<Rightarrow> json \<Rightarrow> jdict res" where
  "notion_item_to_task_fields str_of item =
     rbind (get_key item ''properties'' (JObj [])) (\<lambda>props.
     rbind (prop_path props ''Name'' ''title'' (JArr [])) (\<lambda>name_prop.
     rbind (first_plain_text name_prop) (\<lambda>name.
     let content = (if jtruthy name_prop then notion_text (json_text str_of name) 2000 else []) in
     rbind (prop_path props ''Priority'' ''select'' (JObj [])) (\<lambda>prio.
     rbind (if jtruthy prio then rbind (get_key prio ''name'' (JStr [])) (\<lambda>n. Inr (priority_of_name n)) else Inr 1) (\<lambda>priority.
     rbind (prop_path props ''Due Date'' ''date'' JNull) (\<lambda>date_prop.
     rbind (if jtruthy date_prop then get_key date_prop ''start'' JNull else Inr JNull) (\<lambda>due.
     rbind (prop_path props ''Labels'' ''multi_select'' (JArr [])) (\<lambda>opts.
     rbind (option_names opts) (\<lambda>labels.
     rbind (prop_path props ''Notes'' ''rich_text'' (JArr [])) (\<lambda>notes_rt.
     rbind (first_plain_text notes_rt) (\<lambda>notes.
       Inr ([(''content'', JStr content), (''priority'', JInt priority), (''labels'', JArr labels)]
            @ (if jtruthy due then [(''due_string'', due)] else [])
            @ (if jtruthy notes then [(''description'', notes)] else [])))))))))))))"

end
