(* ===== verification/NotionPages.thy ===== *)
theory NotionPages
  imports Notion
begin

text \<open>
  The pages \<open>src/brain/notion.py\<close> lays out in Notion: the root page, the command center, the planners, the
  board and the notes; the set up and the rebuilding of the whole dashboard; and the update of the sync
  status. The time of day is a parameter.
\<close>

section \<open>Layouts\<close>

definition root_page_blocks :: "json list" where
  "root_page_blocks =
     [callout_block (''VelaFlow '' @ [CHR 0xE2, CHR 0x80, CHR 0x94]
         @ '' Self-hosted productivity automation system.'' @ [CHR 0x0A]
         @ ''Todoist is your task engine. Notion is your control panel. Gemini AI runs every morning to plan your day, week, and weekend automatically.'') [CHR 0xF0, CHR 0x9F, CHR 0xA7, CHR 0xA0] ''purple_background'',
      divider_block,
      heading_block 2 ''Navigation'' [CHR 0xF0, CHR 0x9F, CHR 0x97, CHR 0xBA, CHR 0xEF, CHR 0xB8, CHR 0x8F],
      columns_block
       [[callout_block ([CHR 0xF0, CHR 0x9F, CHR 0xA7, CHR 0xA0] @ '' Command Center'' @ [CHR 0x0A]
           @ ''System status, CLI reference, and how-it-works guide.'') [CHR 0xE2, CHR 0x9A, CHR 0x99, CHR 0xEF, CHR 0xB8, CHR 0x8F] ''gray_background'',
         callout_block ([CHR 0xF0, CHR 0x9F, CHR 0x93, CHR 0x85] @ '' Daily Planner'' @ [CHR 0x0A]
             @ ''AI picks your top tasks every morning at 7:00.'') [CHR 0xE2, CHR 0x98, CHR 0x80, CHR 0xEF, CHR 0xB8, CHR 0x8F] ''blue_background'',
         callout_block ([CHR 0xF0, CHR 0x9F, CHR 0x93, CHR 0x86] @ '' Weekly Planner'' @ [CHR 0x0A]
             @ ''This week'' @ [CHR 0x27]
             @ ''s priority stack. Sunday review trigger.'') [CHR 0xF0, CHR 0x9F, CHR 0x93, CHR 0x8C] ''yellow_background''],
        [callout_block ([CHR 0xF0, CHR 0x9F, CHR 0x8F, CHR 0x96, CHR 0xEF, CHR 0xB8, CHR 0x8F]
            @ '' Weekend Planner'' @ [CHR 0x0A]
            @ ''Capacity-aware Saturday/Sunday plan. Max 3h.'') [CHR 0xF0, CHR 0x9F, CHR 0x8C, CHR 0xB4] ''green_background'',
         callout_block ([CHR 0xF0, CHR 0x9F, CHR 0x93, CHR 0x8A] @ '' Task Board'' @ [CHR 0x0A]
             @ ''Full Todoist board mirrored here. Read-only overview.'') [CHR 0xF0, CHR 0x9F, CHR 0x93, CHR 0x8B] ''orange_background'',
         callout_block ([CHR 0xF0, CHR 0x9F, CHR 0x93, CHR 0x9D] @ '' Blog & Notes'' @ [CHR 0x0A]
             @ ''Braindumps, articles, ideas, and reference notes.'') [CHR 0xE2, CHR 0x9C, CHR 0x8D, CHR 0xEF, CHR 0xB8, CHR 0x8F] ''pink_background'']],
      divider_block,
      heading_block 2 ''Quick Start'' [CHR 0xF0, CHR 0x9F, CHR 0x9A, CHR 0x80],
      columns_block
       [[heading_block 3 ''Daily Workflow'' [CHR 0xE2, CHR 0x98, CHR 0x80, CHR 0xEF, CHR 0xB8, CHR 0x8F],
         numbered_block (''AI runs '' @ [CHR 0x27] @ ''brain daily'' @ [CHR 0x27] @ '' at 07:00 automatically.''),
         numbered_block (''Top tasks land in Daily Planner '' @ [CHR 0xE2, CHR 0x86, CHR 0x92] @ '' Notion DB.''),
         numbered_block (''Work through tasks '' @ [CHR 0xE2, CHR 0x80, CHR 0x94]
             @ '' check off in Todoist or Notion.''),
         numbered_block (''Run '' @ [CHR 0x27] @ ''brain notion-sync'' @ [CHR 0x27]
             @ '' if you added tasks in Notion.'')],
        [heading_block 3 ''Weekly Workflow'' [CHR 0xF0, CHR 0x9F, CHR 0x93, CHR 0x86],
         numbered_block (''Run '' @ [CHR 0x27] @ ''brain weekly'' @ [CHR 0x27] @ '' Sunday evening for a review.''),
         numbered_block (''AI scores and loads next week'' @ [CHR 0x27] @ ''s top tasks.''),
         numbered_block (''Weekend plan builds on Friday via '' @ [CHR 0x27] @ ''brain weekend'' @ [CHR 0x27]
             @ ''.''),
         numbered_block ''Check architecture docs if you need to extend the system.'']],
      divider_block,
      heading_block 2 ''CLI Cheat Sheet'' [CHR 0xF0, CHR 0x9F, CHR 0x92, CHR 0xBB],
      code_block (''brain daily              # morning briefing + Daily Planner sync'' @ [CHR 0x0A]
          @ ''brain weekly             # weekly review + Weekly Planner sync'' @ [CHR 0x0A]
          @ ''brain weekend            # weekend plan + Weekend Planner sync'' @ [CHR 0x0A]
          @ ''brain analyze            # AI analysis of your Todoist board'' @ [CHR 0x0A]
          @ ''brain organize --apply   # reorganise tasks by priority'' @ [CHR 0x0A]
          @ ''brain notion-sync        # two-way sync Notion '' @ [CHR 0xE2, CHR 0x86, CHR 0x94]
          @ '' Todoist'' @ [CHR 0x0A]
          @ ''brain notion-rebuild     # rebuild root page + Command Center layout'' @ [CHR 0x0A]
          @ ''brain alerts             # check overdue tasks '' @ [CHR 0xE2, CHR 0x86, CHR 0x92]
          @ '' WhatsApp'') ''shell'',
      divider_block,
      heading_block 2 ''Productivity Ground Rules'' ''target'',
      callout_block (''3-Task Rule: pick only 3 non-negotiable tasks per day. Everything else is bonus.''
          @ [CHR 0x0A]
          @ ''2-Week Rule: if a task has been in Backlog for 14+ days, schedule it or delete it.''
          @ [CHR 0x0A] @ ''Blocked Rule: add '' @ [CHR 0x27] @ ''blocked'' @ [CHR 0x27]
          @ '' label in Todoist and the AI will deprioritise it automatically.'') [CHR 0xF0, CHR 0x9F, CHR 0x92, CHR 0xA1] ''green_background'']"

definition command_center_blocks :: "string \<Rightarrow> json list" where
  "command_center_blocks now =
     [callout_block (''VelaFlow '' @ [CHR 0xE2, CHR 0x80, CHR 0x94]
         @ '' Self-hosted productivity automation system.'' @ [CHR 0x0A]
         @ ''This page is your system dashboard. All critical operations, status, and configuration live here. Sub-pages are managed automatically.'') [CHR 0xF0, CHR 0x9F, CHR 0xA7, CHR 0xA0] ''purple_background'',
      divider_block,
      heading_block 2 ''System Status'' [CHR 0xF0, CHR 0x9F, CHR 0x9F, CHR 0xA2],
      columns_block
       [[callout_block (''Last synced: '' @ now @ [CHR 0x0A] @ ''Status: '' @ [CHR 0xE2, CHR 0x9C, CHR 0x85]
           @ '' Online'') [CHR 0xF0, CHR 0x9F, CHR 0x95, CHR 0x90] ''yellow_background'',
         callout_block (''AI Engine: Gemini 2.5 Pro'' @ [CHR 0x0A] @ ''Fallback: Flash ''
             @ [CHR 0xE2, CHR 0x86, CHR 0x92] @ '' Flash-Lite '' @ [CHR 0xE2, CHR 0x86, CHR 0x92]
             @ '' Groq'') [CHR 0xF0, CHR 0x9F, CHR 0xA4, CHR 0x96] ''blue_background''],
        [callout_block (''Task Source: Todoist'' @ [CHR 0x0A] @ ''Sync: Two-way (Notion ''
            @ [CHR 0xE2, CHR 0x86, CHR 0x94] @ '' Todoist)'') [CHR 0xE2, CHR 0x9C, CHR 0x85] ''green_background'',
         callout_block (''Notifications: Gmail digest + WhatsApp'' @ [CHR 0x0A]
             @ ''Schedule: Cron on Proxmox LXC'') [CHR 0xF0, CHR 0x9F, CHR 0x93, CHR 0xA8] ''gray_background'']],
      divider_block,
      heading_block 2 ''How It Works'' [CHR 0xF0, CHR 0x9F, CHR 0x94, CHR 0x84],
      columns_block
       [[heading_block 3 ''Morning Flow (07:00)'' [CHR 0xE2, CHR 0x98, CHR 0x80, CHR 0xEF, CHR 0xB8, CHR 0x8F],
         numbered_block (''Cron triggers '' @ [CHR 0x27] @ ''brain daily'' @ [CHR 0x27]
             @ '' on the LXC container.''),
         numbered_block ''AI reads all Todoist tasks and scores by urgency + priority.'',
         numbered_block (''Top tasks are moved into the '' @ [CHR 0x27] @ ''Daily Planner'' @ [CHR 0x27]
             @ '' Todoist section.''),
         numbered_block ''brain notion-sync pushes those tasks to the Notion Daily DB.'',
         numbered_block ''Email digest + WhatsApp message sent with the day plan.''],
        [heading_block 3 ''Sync Architecture'' [CHR 0xF0, CHR 0x9F, CHR 0x94, CHR 0x81],
         numbered_block ''Todoist is the source of truth for task data.'',
         numbered_block ''Notion databases mirror planner sections via Todoist IDs.'',
         numbered_block ''Tasks added in Notion (no Todoist ID) sync back to Todoist.'',
         numbered_block (''Run '' @ [CHR 0x27] @ ''brain notion-sync'' @ [CHR 0x27]
             @ '' at any time to force a sync.''),
         numbered_block ''Kanban board sections control AI prioritisation logic.'']],
      divider_block,
      heading_block 2 ''CLI Reference'' [CHR 0xF0, CHR 0x9F, CHR 0x92, CHR 0xBB],
      code_block (''# Planning commands'' @ [CHR 0x0A]
          @ ''brain daily              # morning briefing + Daily Planner sync'' @ [CHR 0x0A]
          @ ''brain weekly             # weekly review + Weekly Planner sync'' @ [CHR 0x0A]
          @ ''brain weekend            # weekend plan + Weekend Planner sync'' @ [CHR 0x0A, CHR 0x0A]
          @ ''# Board management'' @ [CHR 0x0A]
          @ ''brain analyze            # AI deep-analysis of your Todoist board'' @ [CHR 0x0A]
          @ ''brain organize --apply   # reorganise tasks by priority (live)'' @ [CHR 0x0A]
          @ ''brain organize           # dry-run (show what would change)'' @ [CHR 0x0A, CHR 0x0A]
          @ ''# Notion'' @ [CHR 0x0A] @ ''brain notion-sync        # two-way sync Notion ''
          @ [CHR 0xE2, CHR 0x86, CHR 0x94] @ '' Todoist'' @ [CHR 0x0A]
          @ ''brain notion-sync --full # also sync full board DB'' @ [CHR 0x0A]
          @ ''brain notion-rebuild     # rebuild root page + Command Center content'' @ [CHR 0x0A]
          @ ''brain notion-setup       # first-time setup (creates pages + Todoist sections)''
          @ [CHR 0x0A, CHR 0x0A] @ ''# Alerts'' @ [CHR 0x0A]
          @ ''brain alerts             # check overdue tasks '' @ [CHR 0xE2, CHR 0x86, CHR 0x92]
          @ '' WhatsApp'') ''shell'',
      divider_block,
      heading_block 2 ''Key Configuration'' [CHR 0xE2, CHR 0x9A, CHR 0x99, CHR 0xEF, CHR 0xB8, CHR 0x8F],
      toggle_block ''Environment Variables (config/.env)''
        [code_block (''TODOIST_API_TOKEN=<your-token>'' @ [CHR 0x0A] @ ''GOOGLE_AI_API_KEY=<gemini-key>''
            @ [CHR 0x0A] @ ''NOTION_API_TOKEN=<integration-token>'' @ [CHR 0x0A]
            @ ''NOTION_ROOT_PAGE_ID=<2nd-brain-page-id>'' @ [CHR 0x0A, CHR 0x0A] @ ''# ''
            @ [CHR 0xE2, CHR 0x94, CHR 0x80, CHR 0xE2, CHR 0x94, CHR 0x80]
            @ '' Demo / Zero-Trust Proxy (optional) ''
            @ [CHR 0xE2, CHR 0x94, CHR 0x80, CHR 0xE2, CHR 0x94, CHR 0x80, CHR 0x0A]
            @ ''LITELLM_PROXY_URL=https://your-proxy.example.com'' @ [CHR 0x0A]
            @ ''LITELLM_PROXY_TOKEN=<your-proxy-token>'' @ [CHR 0x0A]
            @ ''LITELLM_PROXY_MODEL=gemini/gemini-2.5-flash'') ''shell''] [CHR 0xF0, CHR 0x9F, CHR 0x94, CHR 0x91],
      toggle_block ''Proxmox LXC Cron Schedule''
        [code_block (''0  7 * * 1-5  brain daily    # weekdays 07:00'' @ [CHR 0x0A]
            @ ''30 7 * * 1-5  brain notion-sync'' @ [CHR 0x0A]
            @ ''0 18 * * 5    brain weekend  # friday 18:00'' @ [CHR 0x0A]
            @ ''0 20 * * 0    brain weekly   # sunday  20:00'' @ [CHR 0x0A]
            @ ''0  * * * *    brain alerts   # hourly overdue check'') ''shell''] [CHR 0xE2, CHR 0x8F, CHR 0xB0],
      divider_block,
      heading_block 2 ''Productivity Ground Rules'' ''target'',
      callout_block (''3-Task Rule: pick only 3 non-negotiable tasks per day. Everything else is bonus.''
          @ [CHR 0x0A]
          @ ''2-Week Rule: if a task has been in Backlog for 14+ days, schedule it or delete it.''
          @ [CHR 0x0A] @ ''Blocked Rule: add '' @ [CHR 0x27] @ ''blocked'' @ [CHR 0x27]
          @ '' label in Todoist '' @ [CHR 0xE2, CHR 0x86, CHR 0x92] @ '' AI deprioritises it automatically.''
          @ [CHR 0x0A]
          @ ''Energy Rule: high-priority tasks in the morning when focus is peak.'') [CHR 0xF0, CHR 0x9F, CHR 0x92, CHR 0xA1] ''green_background'']"

definition board_page_blocks :: "json list" where
  "board_page_blocks =
     [callout_block (''Full Todoist board mirrored here. Sections are synced dynamically ''
         @ [CHR 0xE2, CHR 0x80, CHR 0x94]
         @ '' add or rename sections in Todoist and the next sync updates this database automatically. Run: brain notion-sync --full'') [CHR 0xF0, CHR 0x9F, CHR 0x93, CHR 0x8A] ''gray_background'',
      callout_block (''To see this as a Kanban board matching Todoist:'' @ [CHR 0x0A] @ ''1. Click the ''
          @ [CHR 0x22] @ ''All Tasks'' @ [CHR 0x22] @ '' database below'' @ [CHR 0x0A] @ ''2. Click ''
          @ [CHR 0x22] @ ''Add a view'' @ [CHR 0x22] @ '' at the top'' @ [CHR 0x0A] @ ''3. Choose ''
          @ [CHR 0x22] @ ''Board'' @ [CHR 0x22, CHR 0x0A] @ ''4. In the board settings, set Group by ''
          @ [CHR 0xE2, CHR 0x86, CHR 0x92]
          @ '' Section'') [CHR 0xF0, CHR 0x9F, CHR 0x93, CHR 0x8B] ''blue_background'',
      divider_block,
      heading_block 2 ''Sections (live from Todoist)'' [CHR 0xF0, CHR 0x9F, CHR 0x93, CHR 0x8C],
      paragraph_block (''The '' @ [CHR 0x27] @ ''Section'' @ [CHR 0x27]
          @ '' column is populated from your live Todoist board sections. If you delete or rename a section in Todoist, the next '' @ [CHR 0x27] @ ''brain notion-sync --full'' @ [CHR 0x27] @ '' will update the options automatically. Existing tasks are never deleted '' @ [CHR 0xE2, CHR 0x80, CHR 0x94] @ '' they are updated in place.''),
      divider_block,
      heading_block 2 ''All Active Tasks'' [CHR 0xF0, CHR 0x9F, CHR 0x93, CHR 0x8A]]"

definition blog_page_blocks :: "json list" where
  "blog_page_blocks =
     [callout_block (''Personal knowledge base and writing space. Create sub-pages for blog posts, technical notes, and project ideas. This page is manually managed '' @ [CHR 0xE2, CHR 0x80, CHR 0x94] @ '' not synced with Todoist.'') [CHR 0xE2, CHR 0x9C, CHR 0x8D, CHR 0xEF, CHR 0xB8, CHR 0x8F] ''purple_background'',
      divider_block,
      columns_block
       [[heading_block 2 ''Blog Posts'' [CHR 0xF0, CHR 0x9F, CHR 0x93, CHR 0xB0],
         paragraph_block ''Create one sub-page per article. Use H1 for title, H2 for sections. Add cover image and icon for polish.'',
         callout_block ''Tip: write the TL;DR first, then expand each point.'' [CHR 0xE2, CHR 0x9A, CHR 0xA1] ''yellow_background''],
        [heading_block 2 ''Braindump'' [CHR 0xF0, CHR 0x9F, CHR 0xA7, CHR 0xA0],
         paragraph_block ''Raw thoughts, half-baked ideas, and unprocessed notes. Review weekly and move actionable items to Todoist.'',
         callout_block (''Tip: date your braindumps. Use '' @ [CHR 0x27] @ ''YYYY-MM-DD: topic'' @ [CHR 0x27]
             @ '' as title.'') [CHR 0xF0, CHR 0x9F, CHR 0x93, CHR 0x85] ''gray_background'']],
      divider_block,
      columns_block
       [[heading_block 2 ''Ideas & Projects'' [CHR 0xF0, CHR 0x9F, CHR 0x92, CHR 0xA1],
         paragraph_block ''Quick ideas not yet in Todoist. Rate each: High/Medium/Low potential before scheduling.''],
        [heading_block 2 ''Reference Notes'' [CHR 0xF0, CHR 0x9F, CHR 0x93, CHR 0x9A],
         paragraph_block ''Links, quotes, and reference material. Tag with topic: [AI], [Infra], [Finance], [Health].'']]]"

definition planner_page_blocks :: "string \<Rightarrow> string \<Rightarrow> string \<Rightarrow> string list \<Rightarrow> json list" where
  "planner_page_blocks description title emoji instructions =
     [callout_block description emoji ''blue_background'',
      divider_block,
      heading_block 2 ''How to use this planner'' [CHR 0xE2, CHR 0x84, CHR 0xB9, CHR 0xEF, CHR 0xB8, CHR 0x8F],
      columns_block
       [[heading_block 3 ''Automated'' [CHR 0xF0, CHR 0x9F, CHR 0xA4, CHR 0x96]] @ map numbered_block instructions,
        [heading_block 3 ''Manual (in Notion)'' [CHR 0xE2, CHR 0x9C, CHR 0x8F, CHR 0xEF, CHR 0xB8, CHR 0x8F],
         numbered_block (''Click '' @ [CHR 0x27] @ ''+ New'' @ [CHR 0x27]
             @ '' in the database below to add a task.''),
         numbered_block ''Fill in Name, Priority, and Due Date.'',
         numbered_block (''Leave Todoist ID blank '' @ [CHR 0xE2, CHR 0x80, CHR 0x94]
             @ '' it will be created on next sync.''),
         numbered_block ''Run: brain notion-sync to push it to Todoist.'']]]"

section \<open>Pages\<close>

definition populate_root_page :: "'s notion_env \<Rightarrow> string \<Rightarrow> ('s web, unit) io" where
  "populate_root_page env page_id = append_blocks env page_id root_page_blocks"

definition utc_text :: "wall_time \<Rightarrow> string" where
  "utc_text now = wall_text ''%Y-%m-%d %H:%M UTC'' now"

definition populate_command_center :: "'s notion_env \<Rightarrow> wall_time \<Rightarrow> string \<Rightarrow> ('s web, unit) io" where
  "populate_command_center env now page_id = append_blocks env page_id (command_center_blocks (utc_text now))"

definition light_bulb :: string where
  "light_bulb = [CHR 0xF0, CHR 0x9F, CHR 0x92, CHR 0xA1]"

definition create_planner_page ::
    "'s notion_env \<Rightarrow> string \<Rightarrow> string \<Rightarrow> string \<Rightarrow> string \<Rightarrow> string list \<Rightarrow> string \<Rightarrow> ('s web, json) io" where
  "create_planner_page env page_id title description emoji instructions extra_tip =
     io_bind (append_blocks env page_id
                (planner_page_blocks description title emoji instructions
                 @ (if extra_tip = [] then [] else [callout_block extra_tip light_bulb ''green_background''])
                 @ [divider_block, heading_block 2 title emoji]))
       (\<lambda>_. create_database env page_id title (task_db_schema []) emoji True)"

definition create_daily_page ::
    "'s notion_env \<Rightarrow> string \<Rightarrow> ('s web, json) io" where
  "create_daily_page env page_id = create_planner_page env page_id
    ''Daily Tasks''
    (''AI-managed daily plan. Every weekday at 07:00 the '' @ [CHR 0x27] @ ''brain daily'' @ [CHR 0x27]
        @ '' command scores all your Todoist tasks and moves the top picks into this section. Edit freely here '' @ [CHR 0xE2, CHR 0x80, CHR 0x94] @ '' changes sync back to Todoist automatically.'')
    [CHR 0xF0, CHR 0x9F, CHR 0x93, CHR 0x85]
    [(''Cron runs '' @ [CHR 0x27] @ ''brain daily'' @ [CHR 0x27] @ '' on the LXC at 07:00 (Mon''
        @ [CHR 0xE2, CHR 0x80, CHR 0x93] @ ''Fri).''),
      ''AI scores tasks by urgency, priority, and due date.'',
      (''Top tasks land in the Todoist '' @ [CHR 0x27] @ ''Daily Planner'' @ [CHR 0x27] @ '' section.''),
      ([CHR 0x27] @ ''brain notion-sync'' @ [CHR 0x27] @ '' pushes them into this Notion database.'')]
    ''3-Task Rule: identify your 3 non-negotiable tasks and mark them P1. Complete those first before anything else.''"

definition create_weekly_page ::
    "'s notion_env \<Rightarrow> string \<Rightarrow> ('s web, json) io" where
  "create_weekly_page env page_id = create_planner_page env page_id
    ''Weekly Tasks''
    (''AI-managed weekly plan. Run '' @ [CHR 0x27] @ ''brain weekly'' @ [CHR 0x27]
        @ '' on Sunday evenings to score and load next week'' @ [CHR 0x27]
        @ ''s top tasks. Synced with the Todoist '' @ [CHR 0x27] @ ''Weekly Planner'' @ [CHR 0x27] @ '' section.'')
    [CHR 0xF0, CHR 0x9F, CHR 0x93, CHR 0x86]
    [(''Run '' @ [CHR 0x27] @ ''brain weekly'' @ [CHR 0x27] @ '' on Sunday evening (or cron at 20:00).''),
      ''AI scores and prioritises tasks across the full Todoist board.'',
      (''Top tasks are moved to the Todoist '' @ [CHR 0x27] @ ''Weekly Planner'' @ [CHR 0x27] @ '' section.''),
      ([CHR 0x27] @ ''brain notion-sync'' @ [CHR 0x27] @ '' pushes them into this Notion database.'')]
    ''Review the weekly plan each Monday morning. Adjust priorities if anything changed over the weekend.''"

definition create_weekend_page ::
    "'s notion_env \<Rightarrow> int \<Rightarrow> string \<Rightarrow> ('s web, json) io" where
  "create_weekend_page env hours page_id = create_planner_page env page_id
    ''Weekend Tasks''
    (''AI-curated weekend plan. Hard-capped at '' @ int_text hours @ ''h total. Run '' @ [CHR 0x27]
        @ ''brain weekend'' @ [CHR 0x27] @ '' on Friday evening to generate a realistic Saturday/Sunday plan.'')
    [CHR 0xF0, CHR 0x9F, CHR 0x8F, CHR 0x96, CHR 0xEF, CHR 0xB8, CHR 0x8F]
    [(''Cron runs '' @ [CHR 0x27] @ ''brain weekend'' @ [CHR 0x27] @ '' on Friday at 18:00.''),
      (''AI selects tasks that fit within the '' @ int_text hours @ ''h capacity budget.''),
      (''Tasks land in the Todoist '' @ [CHR 0x27] @ ''Weekend Planner'' @ [CHR 0x27] @ '' section.''),
      ([CHR 0x27] @ ''brain notion-sync'' @ [CHR 0x27] @ '' pushes them into this Notion database.'')]
    (''Protect family time. The AI respects the weekend capacity limit '' @ [CHR 0xE2, CHR 0x80, CHR 0x94]
        @ '' don'' @ [CHR 0x27] @ ''t add more tasks manually unless you adjust the budget.'')"

definition create_board_page :: "'s notion_env \<Rightarrow> string \<Rightarrow> ('s web, json) io" where
  "create_board_page env page_id =
     io_bind (append_blocks env page_id board_page_blocks)
       (\<lambda>_. create_database env page_id ''All Tasks'' board_db_schema [CHR 0xF0, CHR 0x9F, CHR 0x93, CHR 0x8B] True)"

definition populate_blog_page :: "'s notion_env \<Rightarrow> string \<Rightarrow> ('s web, unit) io" where
  "populate_blog_page env page_id = append_blocks env page_id blog_page_blocks"

text \<open>\<open>page["id"]\<close> of what the API answered.\<close>

definition id_of :: "json \<Rightarrow> ('s, string) io" where
  "id_of v = io_res (rbind (at_key v ''id'') json_str)"

definition sub_page :: "'s notion_env \<Rightarrow> string \<Rightarrow> string \<Rightarrow> string \<Rightarrow> ('s web, string) io" where
  "sub_page env root_page_id emoji title =
     io_bind (create_page env root_page_id (emoji @ '' '' @ title) emoji) id_of"

definition setup_dashboard ::
    "'s notion_env \<Rightarrow> wall_time \<Rightarrow> int \<Rightarrow> string \<Rightarrow> ('s web, (string \<times> string) list) io" where
  "setup_dashboard env now hours root_page_id =
     io_bind (populate_root_page env root_page_id) (\<lambda>_.
     io_bind (sub_page env root_page_id [CHR 0xF0, CHR 0x9F, CHR 0xA7, CHR 0xA0] ''Command Center'') (\<lambda>cc.
     io_bind (populate_command_center env now cc) (\<lambda>_.
     io_bind (sub_page env root_page_id [CHR 0xF0, CHR 0x9F, CHR 0x93, CHR 0x85] ''Daily Planner'') (\<lambda>dp.
     io_bind (create_daily_page env dp) (\<lambda>dp_db. io_bind (id_of dp_db) (\<lambda>dp_db.
     io_bind (sub_page env root_page_id [CHR 0xF0, CHR 0x9F, CHR 0x93, CHR 0x86] ''Weekly Planner'') (\<lambda>wp.
     io_bind (create_weekly_page env wp) (\<lambda>wp_db. io_bind (id_of wp_db) (\<lambda>wp_db.
     io_bind (sub_page env root_page_id [CHR 0xF0, CHR 0x9F, CHR 0x8F, CHR 0x96, CHR 0xEF, CHR 0xB8, CHR 0x8F]
                ''Weekend Planner'') (\<lambda>wkp.
     io_bind (create_weekend_page env hours wkp) (\<lambda>wkp_db. io_bind (id_of wkp_db) (\<lambda>wkp_db.
     io_bind (sub_page env root_page_id [CHR 0xF0, CHR 0x9F, CHR 0x93, CHR 0x8A] ''Task Board'') (\<lambda>bp.
     io_bind (create_board_page env bp) (\<lambda>bp_db. io_bind (id_of bp_db) (\<lambda>bp_db.
     io_bind (sub_page env root_page_id [CHR 0xF0, CHR 0x9F, CHR 0x93, CHR 0x9D] ''Blog & Notes'') (\<lambda>blog.
     io_bind (populate_blog_page env blog) (\<lambda>_.
       io_ret [(''command_center_id'', cc), (''daily_planner_page_id'', dp), (''daily_planner_db_id'', dp_db),
               (''weekly_planner_page_id'', wp), (''weekly_planner_db_id'', wp_db),
               (''weekend_planner_page_id'', wkp), (''weekend_planner_db_id'', wkp_db),
               (''board_page_id'', bp), (''board_db_id'', bp_db), (''blog_page_id'', blog)])))))))))))))))))"

section \<open>Status and rebuilding\<close>

text \<open>The first callout whose text starts with the mark is rewritten.\<close>

definition status_text :: "json \<Rightarrow> json res" where
  "status_text blk =
     rbind (get_key blk ''callout'' (JObj [])) (\<lambda>c. rbind (get_key c ''rich_text'' (JArr [])) first_plain_text)"

fun rewrite_status :: "'s notion_env \<Rightarrow> string \<Rightarrow> json list \<Rightarrow> ('s web, unit) io" where
  "rewrite_status env now [] = io_ret ()"
| "rewrite_status env now (blk # blks) =
     io_bind (io_res (get_key blk ''type'' JNull)) (\<lambda>kind.
       if kind \<noteq> JStr ''callout'' then rewrite_status env now blks
       else io_bind (io_res (rbind (status_text blk) json_str)) (\<lambda>s.
            if \<not> prefix ''Last updated:'' s then rewrite_status env now blks
            else io_bind (id_of blk) (\<lambda>i.
                 io_bind (notion_patch env (''/blocks/'' @ i)
                   [(''callout'', JObj (callout_body (''Last updated: '' @ now) [CHR 0xF0, CHR 0x9F, CHR 0x95, CHR 0x90]
                                          ''yellow_background''))])
                   (\<lambda>_. io_ret ()))))"

definition update_sync_status :: "'s notion_env \<Rightarrow> nat \<Rightarrow> wall_time \<Rightarrow> string \<Rightarrow> ('s web, unit) io" where
  "update_sync_status env fuel now command_center_id =
     or_on_request_error
       (io_bind (paginate_blocks env fuel command_center_id) (rewrite_status env (utc_text now))) ()"

definition rebuild_dashboard :: "'s notion_env \<Rightarrow> nat \<Rightarrow> wall_time \<Rightarrow> settings \<Rightarrow> ('s web, unit) io" where
  "rebuild_dashboard env fuel now cfg =
     (let rootp = cf_notion_root_page_id cfg; cc = cf_notion_command_center_id cfg in
      io_bind (if rootp = [] then io_ret ()
               else io_bind (archive_blocks env fuel rootp) (\<lambda>_. populate_root_page env rootp)) (\<lambda>_.
      io_bind (if cc = [] then io_ret ()
               else io_bind (archive_blocks env fuel cc) (\<lambda>_. populate_command_center env now cc)) (\<lambda>_.
        if rootp = [] then io_ret ()
        else update_sync_status env fuel now (if cc = [] then rootp else cc))))"

end
