(* ===== verification/NotionLaws.thy ===== *)
theory NotionLaws
  imports NotionPages
begin

text \<open>
  What the Notion client guarantees: a sync makes exactly one request per task and per stale item whatever
  the answers, and never creates an item for a task that has one; appending blocks sends all of them in
  order, at most a hundred at a time; rebuilding the dashboard only touches blocks, and never archives a
  child page or database; and reading back an item written from a task gives the fields of that task.
\<close>

section \<open>One request at a time\<close>

text \<open>The server answers, or fails with an exception of the \<open>requests\<close> package.\<close>

definition fails_softly :: "'s notion_env \<Rightarrow> bool" where
  "fails_softly env \<longleftrightarrow>
     (\<forall>req s. case fst (nt_server env req s) of
                Inl e \<Rightarrow> e = request_error
              | Inr (code, body) \<Rightarrow> (case body of Inl e \<Rightarrow> e = request_error | Inr v \<Rightarrow> True))"

lemma notion_send_run:
  assumes "fails_softly env"
  shows "\<exists>res s'. notion_send env kind path params body (n, reqs, s) =
      (res, n, reqs @ [notion_request env kind path params body], s') \<and> (res = Inl request_error \<or> (\<exists>v. res = Inr v))"
proof -
  let ?req = "notion_request env kind path params body"
  obtain r s' where server: "nt_server env ?req s = (r, s')" by (cases "nt_server env ?req s")
  have ok: "case r of Inl e \<Rightarrow> e = request_error
      | Inr (code, body) \<Rightarrow> (case body of Inl e \<Rightarrow> e = request_error | Inr v \<Rightarrow> True)"
    using assms server unfolding fails_softly_def by (metis fst_conv)
  show ?thesis
  proof (cases r)
    case (Inl e)
    with ok server show ?thesis by (simp add: notion_send_def io_bind_run http_send_def)
  next
    case (Inr resp)
    with ok server show ?thesis
      by (cases resp; cases "snd resp")
        (auto simp: notion_send_def io_bind_run http_send_def raise_for_status_def)
  qed
qed

text \<open>A request whose failure is skipped.\<close>

lemma softly_run:
  assumes "fails_softly env"
  shows "\<exists>s' r. or_on_request_error (io_bind (notion_send env kind path params body) (\<lambda>_. io_ret x)) y (n, reqs, s) =
      (Inr r, n, reqs @ [notion_request env kind path params body], s') \<and> (r = x \<or> r = y)"
proof -
  obtain res s' where send: "notion_send env kind path params body (n, reqs, s) =
      (res, n, reqs @ [notion_request env kind path params body], s')" "res = Inl request_error \<or> (\<exists>v. res = Inr v)"
    using notion_send_run [OF assms, of kind path params body n reqs s] by (elim exE conjE)
  then show ?thesis by (auto simp: or_on_request_error_def io_catch_def io_bind_run)
qed

section \<open>Syncing\<close>

definition sync_request ::
    "'s notion_env \<Rightarrow> string \<Rightarrow> bool \<Rightarrow> (string \<times> string) list \<Rightarrow> task \<Rightarrow> http_request" where
  "sync_request env db_id include_section existing t =
     (let props = task_to_properties env t include_section in
      case map_of existing (tk_id t) of
        Some page_id \<Rightarrow> notion_request env PATCH (''/pages/'' @ page_id) [] [(''properties'', JObj props)]
      | None \<Rightarrow> notion_request env POST ''/pages'' []
                  [(''parent'', JObj [(''database_id'', JStr db_id)]), (''properties'', JObj props)])"

definition done_request :: "'s notion_env \<Rightarrow> string \<times> string \<Rightarrow> http_request" where
  "done_request env item = notion_request env PATCH (''/pages/'' @ snd item) [] [(''properties'', JObj done_props)]"

definition missing_tasks :: "(string \<times> string) list \<Rightarrow> task list \<Rightarrow> task list" where
  "missing_tasks existing tasks = filter (\<lambda>t. map_of existing (tk_id t) = None) tasks"

definition present_tasks :: "(string \<times> string) list \<Rightarrow> task list \<Rightarrow> task list" where
  "present_tasks existing tasks = filter (\<lambda>t. map_of existing (tk_id t) \<noteq> None) tasks"

lemma sync_each_run:
  assumes "fails_softly env"
  shows "\<exists>c' u' s'. sync_each env db_id incl existing ts c u (n, reqs, s) =
      (Inr (c', u'), n, reqs @ map (sync_request env db_id incl existing) ts, s')
    \<and> c' \<le> c + length (missing_tasks existing ts) \<and> u' \<le> u + length (present_tasks existing ts)"
proof (induction ts arbitrary: c u reqs s)
  case Nil
  show ?case by simp
next
  case (Cons t ts)
  let ?req = "sync_request env db_id incl existing t"
  have "\<exists>c1 u1 s1. or_on_request_error
        (case map_of existing (tk_id t) of
           Some page_id \<Rightarrow> io_bind (update_page env page_id (task_to_properties env t incl)) (\<lambda>_. io_ret (c, u + 1))
         | None \<Rightarrow> io_bind (create_item env db_id (task_to_properties env t incl)) (\<lambda>_. io_ret (c + 1, u)))
        (c, u) (n, reqs, s) = (Inr (c1, u1), n, reqs @ [?req], s1)
      \<and> c1 \<le> c + (if map_of existing (tk_id t) = None then 1 else 0)
      \<and> u1 \<le> u + (if map_of existing (tk_id t) = None then 0 else 1)"
    using softly_run [OF assms, of PATCH _ "[]" _ "(c, u + 1)" "(c, u)" n reqs s]
      softly_run [OF assms, of POST _ "[]" _ "(c + 1, u)" "(c, u)" n reqs s]
    by (cases "map_of existing (tk_id t)")
      (fastforce simp: sync_request_def update_page_def create_item_def notion_patch_def notion_post_def Let_def)+
  then obtain c1 u1 s1 where step: "or_on_request_error
        (case map_of existing (tk_id t) of
           Some page_id \<Rightarrow> io_bind (update_page env page_id (task_to_properties env t incl)) (\<lambda>_. io_ret (c, u + 1))
         | None \<Rightarrow> io_bind (create_item env db_id (task_to_properties env t incl)) (\<lambda>_. io_ret (c + 1, u)))
        (c, u) (n, reqs, s) = (Inr (c1, u1), n, reqs @ [?req], s1)"
    and counts: "c1 \<le> c + (if map_of existing (tk_id t) = None then 1 else 0)"
      "u1 \<le> u + (if map_of existing (tk_id t) = None then 0 else 1)" by (elim exE conjE)
  obtain c2 u2 s2 where rest: "sync_each env db_id incl existing ts c1 u1 (n, reqs @ [?req], s1) =
      (Inr (c2, u2), n, (reqs @ [?req]) @ map (sync_request env db_id incl existing) ts, s2)"
    and counts2: "c2 \<le> c1 + length (missing_tasks existing ts)" "u2 \<le> u1 + length (present_tasks existing ts)"
    using Cons.IH [of c1 u1 "reqs @ [?req]" s1] by (elim exE conjE)
  have "sync_each env db_id incl existing (t # ts) c u (n, reqs, s) =
      (Inr (c2, u2), n, reqs @ map (sync_request env db_id incl existing) (t # ts), s2)"
    using step rest by (simp add: io_bind_run Let_def)
  then show ?case
    using counts counts2 by (intro exI [of _ c2] exI [of _ u2] exI [of _ s2])
      (auto simp: missing_tasks_def present_tasks_def split: if_splits)
qed

lemma mark_done_run:
  assumes "fails_softly env"
  shows "\<exists>s'. io_each (mark_done env) items (n, reqs, s) = (Inr (), n, reqs @ map (done_request env) items, s')"
proof (induction items arbitrary: reqs s)
  case Nil
  show ?case by simp
next
  case (Cons item items)
  obtain s1 where "mark_done env item (n, reqs, s) = (Inr (), n, reqs @ [done_request env item], s1)"
    using softly_run [OF assms, of PATCH "''/pages/'' @ snd item" "[]" "[(''properties'', JObj done_props)]" "()" "()" n reqs s]
    unfolding mark_done_def update_page_def notion_patch_def done_request_def by auto
  then show ?case using Cons.IH [of "reqs @ [done_request env item]" s1] by (simp add: io_bind_run)
qed

section \<open>Appending\<close>

lemma chunks_of_concat: "n > 0 \<Longrightarrow> concat (chunks_of n xs) = xs"
proof (induction n xs rule: chunks_of.induct)
  case (1 n xs)
  show ?case
  proof (cases "xs = []")
    case False
    with 1 have "concat (chunks_of n (drop n xs)) = drop n xs" by simp
    with False 1(2) show ?thesis by (simp add: chunks_of.simps [of n xs])
  qed (simp add: chunks_of.simps)
qed

lemma chunks_of_bounds: "list_all (\<lambda>part. part \<noteq> [] \<and> length part \<le> n) (chunks_of n xs)"
proof (induction n xs rule: chunks_of.induct)
  case (1 n xs)
  then show ?case by (cases "xs = [] \<or> n = 0") (auto simp: chunks_of.simps [of n xs])
qed

definition part_request :: "'s notion_env \<Rightarrow> string \<Rightarrow> json list \<Rightarrow> http_request" where
  "part_request env block_id part =
     notion_request env PATCH (''/blocks/'' @ block_id @ ''/children'') [] [(''children'', JArr part)]"

lemma notion_send_logs:
  "notion_send env kind path params body (n, reqs, s) = (r, n', reqs', s') \<Longrightarrow>
   reqs' = reqs @ [notion_request env kind path params body]"
  by (auto simp: notion_send_def io_bind_run http_send_def split: prod.splits sum.splits)

lemma append_run:
  "io_each (append_part env block_id) parts (n, reqs, s) = (Inr u, n', reqs', s') \<Longrightarrow>
   reqs' = reqs @ map (part_request env block_id) parts"
proof (induction parts arbitrary: n reqs s)
  case Nil
  then show ?case by simp
next
  case (Cons part parts)
  from Cons.prems obtain v n1 reqs1 s1 where
    part: "append_part env block_id part (n, reqs, s) = (Inr v, n1, reqs1, s1)"
    and rest: "io_each (append_part env block_id) parts (n1, reqs1, s1) = (Inr u, n', reqs', s')"
    unfolding io_each.simps io_bind_Inr by (auto simp: prod_eq_iff)
  have "reqs1 = reqs @ [part_request env block_id part]"
    using part notion_send_logs
    unfolding append_part_def notion_patch_def part_request_def io_bind_Inr by fastforce
  with Cons.IH [OF rest] show ?case by simp
qed

section \<open>Rebuilding\<close>

definition touches_blocks :: "http_request \<Rightarrow> bool" where
  "touches_blocks req \<longleftrightarrow>
     hr_method req = GET \<or> (hr_method req = PATCH \<and> prefix (NOTION_API_BASE @ ''/blocks/'') (hr_url req))"

lemma notion_sends:
  "P (notion_request env kind path params body) \<Longrightarrow> sends_only P (notion_send env kind path params body)"
  unfolding notion_send_def by (intro sends_only_bind sends_only_send) auto

lemma patch_block_touches: "sends_only touches_blocks (notion_patch env (''/blocks/'' @ path) body)"
  unfolding notion_patch_def by (rule notion_sends) (simp add: touches_blocks_def notion_request_def)

lemma get_touches: "sends_only touches_blocks (notion_get env path params)"
  unfolding notion_get_def by (rule notion_sends) (simp add: touches_blocks_def notion_request_def)

lemma block_pages_touch: "sends_only touches_blocks (block_pages env fuel path params acc)"
  by (induction env fuel path params acc rule: block_pages.induct)
    (auto intro!: sends_only_bind get_touches simp del: io_ret_run io_raise_run split: prod.splits option.splits)

lemma sends_only_each: "(\<And>x. x \<in> set xs \<Longrightarrow> sends_only P (f x)) \<Longrightarrow> sends_only P (io_each f xs)"
proof (induction xs)
  case Nil
  show ?case unfolding io_each.simps by (rule sends_only_ret)
next
  case (Cons x xs)
  then show ?case unfolding io_each.simps by (intro sends_only_bind) simp_all
qed

lemma append_touches: "sends_only touches_blocks (append_blocks env block_id blocks)"
  unfolding append_blocks_def append_part_def
  by (intro sends_only_each sends_only_bind patch_block_touches sends_only_ret)

definition archive_request :: "'s notion_env \<Rightarrow> string \<Rightarrow> http_request" where
  "archive_request env i = notion_request env PATCH (''/blocks/'' @ i) [] [(''archived'', JBool True)]"

definition content_block :: "json \<Rightarrow> bool" where
  "content_block blk \<longleftrightarrow> get_key blk ''type'' JNull \<notin> {Inr (JStr ''child_page''), Inr (JStr ''child_database'')}"

lemma archive_block_sends:
  "sends_only (\<lambda>req. content_block blk \<and> (\<exists>i. at_key blk ''id'' = Inr (JStr i) \<and> req = archive_request env i))
     (archive_block env blk)"
proof (cases "content_block blk \<and> (\<exists>i. at_key blk ''id'' = Inr (JStr i))")
  case True
  then obtain i where i: "at_key blk ''id'' = Inr (JStr i)" "content_block blk" by blast
  show ?thesis
    unfolding archive_block_def or_on_request_error_def using i
    by (intro sends_only_bind sends_only_res)
      (auto simp: json_str_def notion_patch_def archive_request_def intro!: sends_only_catch sends_only_bind notion_sends)
next
  case False
  show ?thesis
  proof (cases "content_block blk")
    case True
    with False have "\<exists>e. rbind (at_key blk ''id'') json_str = Inl e"
      by (cases "at_key blk ''id''") (auto simp: json_str_def split: json.splits)
    then obtain e where "rbind (at_key blk ''id'') json_str = Inl e" ..
    then show ?thesis
      unfolding archive_block_def or_on_request_error_def
      by (intro sends_only_bind sends_only_res) (auto intro!: sends_only_catch)
  next
    case False
    then obtain k where k: "get_key blk ''type'' JNull = Inr k" "k \<in> {JStr ''child_page'', JStr ''child_database''}"
      by (auto simp: content_block_def)
    then have "archive_block env blk = io_ret ()" unfolding archive_block_def by (simp del: io_ret_run)
    then show ?thesis by (simp add: sends_only_ret del: io_ret_run)
  qed
qed

lemma archive_touches: "sends_only touches_blocks (archive_blocks env fuel block_id)"
  unfolding archive_blocks_def paginate_blocks_def
proof (intro sends_only_bind block_pages_touch sends_only_each)
  fix x blk
  show "sends_only touches_blocks (archive_block env blk)"
    by (rule sends_only_mono [OF archive_block_sends])
      (auto simp: archive_request_def touches_blocks_def notion_request_def)
qed

lemma rewrite_status_touches: "sends_only touches_blocks (rewrite_status env now blks)"
proof (induction blks)
  case Nil
  show ?case unfolding rewrite_status.simps by (rule sends_only_ret)
next
  case (Cons blk blks)
  show ?case
    unfolding rewrite_status.simps id_of_def
    by (intro sends_only_bind sends_only_res)
      (simp del: io_ret_run add: Cons, intro impI sends_only_bind sends_only_res,
       simp del: io_ret_run add: Cons, intro impI sends_only_bind sends_only_res patch_block_touches [simplified] sends_only_ret)
qed

section \<open>What Notion gives back\<close>

text \<open>As its documentation says, Notion gives back the properties written, each rich text with its plain text.\<close>

definition plain_text_of :: "jdict \<Rightarrow> jdict" where
  "plain_text_of d =
     (case map_of d ''text'' of Some (JObj t) \<Rightarrow> [(''plain_text'', dget t ''content'' (JStr []))] | _ \<Rightarrow> [])"

fun echo :: "json \<Rightarrow> json" and echo_list :: "json list \<Rightarrow> json list" and echo_dict :: "jdict \<Rightarrow> jdict" where
  "echo (JObj d) = JObj (echo_dict d @ plain_text_of d)"
| "echo (JArr xs) = JArr (echo_list xs)"
| "echo v = v"
| "echo_list [] = []"
| "echo_list (x # xs) = echo x # echo_list xs"
| "echo_dict [] = []"
| "echo_dict ((k, v) # d) = (k, echo v) # echo_dict d"

definition notion_item :: "'s notion_env \<Rightarrow> string \<Rightarrow> task \<Rightarrow> bool \<Rightarrow> json" where
  "notion_item env i t include_section =
     JObj [(''id'', JStr i), (''properties'', JObj (echo_dict (task_to_properties env t include_section)))]"

lemma echo_rich_text:
  "echo (rich_text s) = JArr [JObj [(''type'', JStr ''text''), (''text'', JObj [(''content'', JStr s)]),
                                   (''plain_text'', JStr s)]]"
  by (simp add: rich_text_def plain_text_of_def)

lemma first_plain_text_echo: "first_plain_text (echo (rich_text s)) = Inr (JStr s)"
  by (simp add: echo_rich_text first_plain_text_def at_zero_def get_key_def)

lemma echo_dict_append [simp]: "echo_dict (d @ e) = echo_dict d @ echo_dict e"
  by (induction d) auto

lemma map_of_echo_dict: "map_of (echo_dict d) k = map_option echo (map_of d k)"
  by (induction d) auto

lemma dget_echo: "dget (echo_dict d) k x = (case map_of d k of None \<Rightarrow> x | Some v \<Rightarrow> echo v)"
  by (simp add: dget_def map_of_echo_dict split: option.split)

definition due_text :: "'s notion_env \<Rightarrow> task \<Rightarrow> string" where
  "due_text env t =
     (case tk_due_date t of
        None \<Rightarrow> []
      | Some d \<Rightarrow> (case tk_due_datetime t of
                    Some w \<Rightarrow> (if tk_due_has_time t then nt_iso env w else date_iso d)
                  | None \<Rightarrow> date_iso d))"

lemma properties_written:
  "map_of (task_to_properties env t incl) ''Name'' =
     Some (JObj [(''title'', rich_text (notion_text (tk_content t) 2000))])"
  "map_of (task_to_properties env t incl) ''Priority'' =
     Some (select_prop (case map_of priority_map (tk_priority t) of None \<Rightarrow> p4_low | Some p \<Rightarrow> p))"
  "map_of (task_to_properties env t incl) ''Todoist ID'' =
     Some (JObj [(''rich_text'', rich_text (notion_text (tk_id t) 100))])"
  by (simp_all add: task_to_properties_def)

lemma properties_optional:
  "map_of (task_to_properties env t incl) ''Due Date'' =
     (if tk_due_date t = None then None
      else Some (JObj [(''date'', JObj [(''start'', JStr (due_text env t))])]))"
  "map_of (task_to_properties env t incl) ''Labels'' =
     (if tk_labels t = [] then None
      else Some (JObj [(''multi_select'', JArr (map (\<lambda>l. JObj [(''name'', JStr (notion_text l 100))]) (tk_labels t)))]))"
  "map_of (task_to_properties env t incl) ''Notes'' =
     (if tk_description t = [] then None
      else Some (JObj [(''rich_text'', rich_text (notion_text (tk_description t) 2000))]))"
  by (auto simp: task_to_properties_def due_prop_def due_text_def map_add_def split: option.split)

lemma echo_list_options:
  "echo_list (map (\<lambda>l. JObj [(''name'', JStr (notion_text l 100))]) ls) =
     map (\<lambda>l. JObj [(''name'', JStr (notion_text l 100))]) ls"
  by (induction ls) (simp_all add: plain_text_of_def)

lemma option_names_read:
  "option_names (JArr (map (\<lambda>l. JObj [(''name'', JStr (notion_text l 100))]) ls)) =
     Inr (map (\<lambda>l. JStr (notion_text l 100)) ls)"
proof -
  have "rmap (\<lambda>opt. get_key opt ''name'' (JStr [])) (map (\<lambda>l. JObj [(''name'', JStr (notion_text l 100))]) ls) =
      Inr (map (\<lambda>l. JStr (notion_text l 100)) ls)"
    by (induction ls) (simp_all add: get_key_def)
  then show ?thesis by (simp add: option_names_def as_list_def)
qed

lemma notion_text_stable: "notion_text (notion_text s n) n = notion_text s n"
proof -
  have "filter (\<lambda>c. \<not> control_char c) (take n (strip_control s)) = take n (strip_control s)"
    by (rule filter_True) (auto simp: strip_control_def dest: in_set_takeD)
  then show ?thesis by (simp add: notion_text_def strip_control_def)
qed

lemma written_id: "todoist_id_of (notion_item env i t incl) = Inr (JStr (notion_text (tk_id t) 100))"
  by (simp add: todoist_id_of_def notion_item_def get_key_def dget_echo properties_written plain_text_of_def
      first_plain_text_echo)

lemma priority_read:
  "prop_path (JObj (echo_dict (task_to_properties env t incl))) ''Priority'' ''select'' (JObj []) =
     Inr (JObj [(''name'', JStr (case map_of priority_map (tk_priority t) of None \<Rightarrow> p4_low | Some p \<Rightarrow> p))])"
  by (simp add: prop_path_def get_key_def dget_echo properties_written select_prop_def plain_text_of_def)

lemma priority_names:
  "priority_of_name (JStr (case map_of priority_map p of None \<Rightarrow> p4_low | Some n \<Rightarrow> n)) =
     (if p \<in> {2, 3, 4} then p else 1)"
proof -
  have "distinct [p1_urgent, p2_high, p3_normal, p4_low]" by code_simp
  then show ?thesis by (auto simp: priority_of_name_def priority_map_def)
qed

lemma name_read:
  "prop_path (JObj (echo_dict (task_to_properties env t incl))) ''Name'' ''title'' (JArr []) =
     Inr (echo (rich_text (notion_text (tk_content t) 2000)))"
  by (simp add: prop_path_def get_key_def dget_echo properties_written plain_text_of_def)

lemma due_read:
  "prop_path (JObj (echo_dict (task_to_properties env t incl))) ''Due Date'' ''date'' JNull =
     Inr (if tk_due_date t = None then JNull else JObj [(''start'', JStr (due_text env t))])"
  by (simp add: prop_path_def get_key_def dget_echo properties_optional plain_text_of_def)

lemma labels_read:
  "prop_path (JObj (echo_dict (task_to_properties env t incl))) ''Labels'' ''multi_select'' (JArr []) =
     Inr (JArr (map (\<lambda>l. JObj [(''name'', JStr (notion_text l 100))]) (tk_labels t)))"
  by (simp add: prop_path_def get_key_def dget_echo properties_optional plain_text_of_def echo_list_options)

lemma notes_read:
  "\<exists>rt. prop_path (JObj (echo_dict (task_to_properties env t incl))) ''Notes'' ''rich_text'' (JArr []) = Inr rt
     \<and> first_plain_text rt = Inr (JStr (notion_text (tk_description t) 2000))"
proof (cases "tk_description t = []")
  case True
  then have "prop_path (JObj (echo_dict (task_to_properties env t incl))) ''Notes'' ''rich_text'' (JArr []) = Inr (JArr [])"
    by (simp add: prop_path_def get_key_def dget_echo properties_optional)
  then show ?thesis using True by (simp add: first_plain_text_def notion_text_def strip_control_def)
next
  case False
  then show ?thesis
    by (simp add: prop_path_def get_key_def dget_echo properties_optional plain_text_of_def first_plain_text_echo)
qed

section \<open>Finding the items again\<close>

lemma existing_map_finds:
  assumes "existing_map items = Inr m" and "item \<in> set items"
    and "todoist_id_of item = Inr (JStr tid)" and "tid \<noteq> []"
  shows "map_of m tid \<noteq> None"
proof -
  let ?step = "\<lambda>item m. rbind (todoist_id_of item) (\<lambda>tid. if \<not> jtruthy tid then Inr m
      else rbind (json_str tid) (\<lambda>tid. rbind (at_key item ''id'') (\<lambda>i. rbind (json_str i) (\<lambda>i. Inr (AList.update tid i m)))))"
  have keep: "map_of m' tid \<noteq> None" if "?step item' m0 = Inr m'" "map_of m0 tid \<noteq> None" for item' m0 m'
    using that by (auto split: if_splits)
  have stays: "map_of m' tid \<noteq> None" if "rfold ?step xs m0 = Inr m'" "map_of m0 tid \<noteq> None" for xs m0 m'
    using that
  proof (induction xs arbitrary: m0)
    case (Cons x xs)
    from Cons.prems(1) obtain m1 where "?step x m0 = Inr m1" "rfold ?step xs m1 = Inr m'" by auto
    with keep Cons.prems(2) Cons.IH show ?case by blast
  qed simp
  have "rfold ?step items m0 = Inr m \<Longrightarrow> map_of m tid \<noteq> None" for m0
    using assms(2)
  proof (induction items arbitrary: m0)
    case (Cons x xs)
    from Cons.prems(1) obtain m1 where step: "?step x m0 = Inr m1" "rfold ?step xs m1 = Inr m" by auto
    show ?case
    proof (cases "x = item")
      case True
      with step(1) assms(3,4) have "map_of m1 tid \<noteq> None" by (auto simp: json_str_def)
      with stays step(2) show ?thesis by blast
    next
      case False
      with Cons step(2) show ?thesis by auto
    qed
  qed simp
  then show ?thesis using assms(1) by (simp add: existing_map_def)
qed

text \<open>Blocks the status update passes over.\<close>

lemma rewrite_status_skips:
  assumes "list_all (\<lambda>blk. get_key blk ''type'' JNull \<noteq> Inr (JStr ''callout'') \<and> (\<exists>k. get_key blk ''type'' JNull = Inr k)
      \<or> (get_key blk ''type'' JNull = Inr (JStr ''callout'')
         \<and> (\<exists>t. status_text blk = Inr (JStr t) \<and> \<not> prefix ''Last updated:'' t))) blks"
  shows "rewrite_status env now blks = io_ret ()"
  using assms
proof (induction blks)
  case Nil
  show ?case by (simp only: rewrite_status.simps)
next
  case (Cons blk blks)
  then have rest: "rewrite_status env now blks = io_ret ()" by (simp del: io_ret_run)
  from Cons.prems show ?case
    unfolding rewrite_status.simps by (auto simp: rest json_str_def simp del: io_ret_run)
qed

lemma block_type: "get_key (echo (block k body)) ''type'' JNull = Inr (JStr k)"
  by (simp add: block_def get_key_def)

lemma callout_type: "get_key (echo (callout_block s emoji color)) ''type'' JNull = Inr (JStr ''callout'')"
  by (simp only: callout_block_def block_type)

lemma status_of_callout: "status_text (echo (callout_block s emoji color)) = Inr (JStr s)"
  by (simp add: status_text_def callout_block_def callout_body_def block_def get_key_def plain_text_of_def
      first_plain_text_echo del: echo.simps(2))

text \<open>The command center as the set up writes it has no such callout, so its status is never rewritten.\<close>

lemma command_center_is_never_marked:
  "rewrite_status env now (map echo (command_center_blocks written)) = io_ret ()"
proof (rule rewrite_status_skips)
  show "list_all (\<lambda>blk. get_key blk ''type'' JNull \<noteq> Inr (JStr ''callout'') \<and> (\<exists>k. get_key blk ''type'' JNull = Inr k)
      \<or> (get_key blk ''type'' JNull = Inr (JStr ''callout'')
         \<and> (\<exists>t. status_text blk = Inr (JStr t) \<and> \<not> prefix ''Last updated:'' t)))
      (map echo (command_center_blocks written))"
    unfolding command_center_blocks_def
    by (simp add: status_of_callout
        divider_block_def heading_block_def columns_block_def code_block_def toggle_block_def callout_type block_type)
qed

section \<open>A database to evaluate\<close>

text \<open>A database that holds what was created, and answers a query with all of it.\<close>

definition sample_notion_server :: "json list server" where
  "sample_notion_server req s =
     (if hr_url req = NOTION_API_BASE @ ''/databases/db/query''
      then (Inr (200, Inr (JObj [(''results'', JArr s), (''has_more'', JBool False)])), s)
      else if hr_url req = NOTION_API_BASE @ ''/pages''
      then (Inr (200, Inr (JObj [])),
            s @ [JObj [(''id'', JStr ''p''), (''properties'', echo (dget (hr_body req) ''properties'' JNull))]])
      else (Inr (200, Inr (JObj [])), s))"

definition sample_notion :: "json list notion_env" where
  "sample_notion = \<lparr>nt_server = sample_notion_server, nt_token = ''nt'', nt_iso = (\<lambda>_. ''noon'')\<rparr>"

definition sample_notion_task :: task where
  "sample_notion_task = (new_task ''7'' ''Ir'')\<lparr>tk_priority := 3\<rparr>"

lemma sample_notion_soft: "fails_softly sample_notion"
  by (auto simp: fails_softly_def sample_notion_def sample_notion_server_def)

lemma sample_query:
  "query_database sample_notion 1 ''db'' [] (0, [], s) =
     (Inr s, 0, [notion_request sample_notion POST ''/databases/db/query'' [] [(''page_size'', JInt 100)]], s)"
  by (simp add: query_database_def notion_post_def notion_send_def io_bind_run http_send_def sample_notion_def
      sample_notion_server_def notion_request_def raise_for_status_def notion_page_def as_dict_def as_list_def)

section \<open>Properties\<close>

text \<open>C35. A sync does exactly its plan, whatever fails on the way: once the items of the database are read, it makes
one request for each task in order, an update of the item that carries its id or a creation when there is
none, and then, when stale items are to be marked, one update to done for each item whose task is no longer
active; a failed request stops nothing, and the counts returned never exceed the tasks without and with an
item.\<close>

theorem notion_sync_is_exact:
  assumes "fails_softly env" and "tasks \<noteq> [] \<or> mark_stale"
    and "query_database env fuel db_id [] st = (Inr items, n, reqs, s)" and "existing_map items = Inr existing"
  shows "\<exists>created updated s'.
      sync_tasks_to_database env fuel db_id tasks incl mark_stale st =
        (Inr (created, updated), n,
         reqs @ map (sync_request env db_id incl existing) tasks
              @ (if mark_stale then map (done_request env) (stale_items existing tasks) else []), s')
    \<and> created \<le> length (missing_tasks existing tasks) \<and> updated \<le> length (present_tasks existing tasks)"
proof -
  obtain c u s1 where sync: "sync_each env db_id incl existing tasks 0 0 (n, reqs, s) =
      (Inr (c, u), n, reqs @ map (sync_request env db_id incl existing) tasks, s1)"
    and counts: "c \<le> length (missing_tasks existing tasks)" "u \<le> length (present_tasks existing tasks)"
    using sync_each_run [OF assms(1), of db_id incl existing tasks 0 0 n reqs s] by auto
  obtain s2 where stale: "io_each (mark_done env) (stale_items existing tasks)
      (n, reqs @ map (sync_request env db_id incl existing) tasks, s1) =
      (Inr (), n, (reqs @ map (sync_request env db_id incl existing) tasks)
                  @ map (done_request env) (stale_items existing tasks), s2)"
    using mark_done_run [OF assms(1)] by blast
  show ?thesis
    using assms(2-4) sync stale counts
    by (cases mark_stale) (auto simp: sync_tasks_to_database_def io_bind_run)
qed

theorem notion_sync_is_exact_witness:
  "\<exists>created updated s'. sync_tasks_to_database sample_notion 1 ''db'' [sample_notion_task] False True (0, [], []) =
     (Inr (created, updated), 0,
      [notion_request sample_notion POST ''/databases/db/query'' [] [(''page_size'', JInt 100)]]
      @ [sync_request sample_notion ''db'' False [] sample_notion_task], s')
     \<and> created \<le> 1"
  using notion_sync_is_exact [OF sample_notion_soft _ sample_query, of "[sample_notion_task]" True "[]" "[]" False]
  by (auto simp: existing_map_def missing_tasks_def stale_items_def new_task_def sample_notion_task_def)

text \<open>C36. A sync converges: when the database shows an item for each task, as it does after a sync that created
them, a further sync creates nothing and only updates, provided the ids of the tasks are short texts without
control characters, which the ids of the task service are.\<close>

theorem notion_sync_converges:
  assumes "fails_softly env"
    and "query_database env fuel db_id [] st = (Inr items, n, reqs, s)" and "existing_map items = Inr existing"
    and "list_all (\<lambda>t. tk_id t \<noteq> [] \<and> notion_text (tk_id t) 100 = tk_id t
                     \<and> list_ex (\<lambda>item. \<exists>i incl. item = notion_item env i t incl) items) tasks"
  shows "\<exists>updated s'.
      sync_tasks_to_database env fuel db_id tasks incl True st =
        (Inr (0, updated), n,
         reqs @ map (sync_request env db_id incl existing) tasks @ map (done_request env) (stale_items existing tasks), s')
    \<and> list_all (\<lambda>req. hr_method req = PATCH) (map (sync_request env db_id incl existing) tasks)"
proof -
  have present: "map_of existing (tk_id t) \<noteq> None" if t: "t \<in> set tasks" for t
  proof -
    from assms(4) t obtain i incl' where item: "notion_item env i t incl' \<in> set items"
      and ids: "tk_id t \<noteq> []" "notion_text (tk_id t) 100 = tk_id t"
      by (auto simp: list_all_iff list_ex_iff)
    show ?thesis
      using existing_map_finds [OF assms(3) item written_id] ids by simp
  qed
  then have none: "missing_tasks existing tasks = []" by (auto simp: missing_tasks_def filter_empty_conv)
  obtain c u s1 where sync: "sync_each env db_id incl existing tasks 0 0 (n, reqs, s) =
      (Inr (c, u), n, reqs @ map (sync_request env db_id incl existing) tasks, s1)"
    and "c \<le> length (missing_tasks existing tasks)"
    using sync_each_run [OF assms(1), of db_id incl existing tasks 0 0 n reqs s] by auto
  with none have c: "c = 0" by simp
  obtain s2 where stale: "io_each (mark_done env) (stale_items existing tasks)
      (n, reqs @ map (sync_request env db_id incl existing) tasks, s1) =
      (Inr (), n, (reqs @ map (sync_request env db_id incl existing) tasks)
                  @ map (done_request env) (stale_items existing tasks), s2)"
    using mark_done_run [OF assms(1)] by blast
  have "list_all (\<lambda>req. hr_method req = PATCH) (map (sync_request env db_id incl existing) tasks)"
    using present by (force simp: list_all_iff sync_request_def notion_request_def)
  then show ?thesis
    using assms(2,3) sync stale c by (simp add: sync_tasks_to_database_def io_bind_run)
qed

theorem notion_sync_converges_witness:
  "\<exists>updated st. sync_tasks_to_database sample_notion 1 ''db'' [sample_notion_task] False True
     (0, [], [notion_item sample_notion ''p'' sample_notion_task False]) = (Inr (0, updated), st)"
proof -
  have ids: "tk_id sample_notion_task = ''7''" "notion_text ''7'' 100 = ''7''"
    by (simp_all add: sample_notion_task_def new_task_def notion_text_def strip_control_def control_char_def less_eq_char_def)
  then have "todoist_id_of (notion_item sample_notion ''p'' sample_notion_task False) = Inr (JStr ''7'')"
    by (simp add: written_id)
  then have m: "existing_map [notion_item sample_notion ''p'' sample_notion_task False] = Inr [(''7'', ''p'')]"
    by (simp add: existing_map_def json_str_def) (simp add: notion_item_def at_key_def json_str_def)
  show ?thesis
    using notion_sync_converges [OF sample_notion_soft sample_query m, of "[sample_notion_task]" False] ids by auto
qed

text \<open>Reading an item back gives the task: what Notion gives back of an item written from a task is read as
the content and the labels without control characters and cut to their limits, the priority (1 for one out
of range), the due text when there is one and the description when there is one.\<close>

theorem notion_item_roundtrip:
  "notion_item_to_task_fields str_of (notion_item env i t incl) =
     Inr ([(''content'', JStr (notion_text (tk_content t) 2000)),
           (''priority'', JInt (if tk_priority t \<in> {2, 3, 4} then tk_priority t else 1)),
           (''labels'', JArr (map (\<lambda>l. JStr (notion_text l 100)) (tk_labels t)))]
          @ (if due_text env t = [] then [] else [(''due_string'', JStr (due_text env t))])
          @ (if notion_text (tk_description t) 2000 = [] then []
             else [(''description'', JStr (notion_text (tk_description t) 2000))]))"
proof -
  let ?P = "JObj (echo_dict (task_to_properties env t incl))"
  obtain rt where read: "prop_path ?P ''Notes'' ''rich_text'' (JArr []) = Inr rt"
    "first_plain_text rt = Inr (JStr (notion_text (tk_description t) 2000))"
    using notes_read by blast
  have props: "get_key (notion_item env i t incl) ''properties'' (JObj []) = Inr ?P"
    by (simp add: notion_item_def get_key_def)
  have title: "jtruthy (echo (rich_text (notion_text (tk_content t) 2000)))" by (simp add: echo_rich_text)
  have none: "tk_due_date t = None \<Longrightarrow> due_text env t = []" by (simp add: due_text_def)
  show ?thesis
    unfolding notion_item_to_task_fields_def Let_def props name_read first_plain_text_echo rbind.simps priority_read
      due_read labels_read read option_names_read
    using title none
    by (auto simp: priority_names notion_text_stable json_text_def get_key_def)
qed

text \<open>Appending sends every block: when an append returns, its requests carry all the blocks in order, each
request at least one and at most a hundred of them, which is what the API accepts.\<close>

theorem append_sends_every_block:
  assumes "append_blocks env block_id blocks (n, reqs, s) = (Inr u, n', reqs', s')"
  shows "\<exists>parts. reqs' = reqs @ map (part_request env block_id) parts \<and> concat parts = blocks
    \<and> list_all (\<lambda>part. part \<noteq> [] \<and> length part \<le> 100) parts"
  using append_run [OF assms [unfolded append_blocks_def]] chunks_of_concat [of 100 blocks]
    chunks_of_bounds [of 100 blocks]
  by (intro exI [of _ "chunks_of 100 blocks"]) simp

theorem append_sends_every_block_witness:
  "\<exists>parts. concat parts = [divider_block] \<and> list_all (\<lambda>part. part \<noteq> [] \<and> length part \<le> 100) parts"
proof -
  obtain n' reqs' s' where run: "append_blocks sample_notion ''b'' [divider_block] (0, [], []) = (Inr (), n', reqs', s')"
    by (simp add: append_blocks_def chunks_of.simps append_part_def notion_patch_def notion_send_def io_bind_run
        http_send_def sample_notion_def sample_notion_server_def notion_request_def raise_for_status_def NOTION_API_BASE_def)
  from append_sends_every_block [OF run] show ?thesis by blast
qed

text \<open>Rebuilding keeps the data: whatever the answers, rebuilding the dashboard only reads, or changes blocks;
it creates no page and no database and updates no database item; and emptying a page archives only content
blocks, never a child page or a database.\<close>

theorem rebuild_touches_only_blocks:
  "sends_only touches_blocks (rebuild_dashboard env fuel now cfg)
   \<and> sends_only (\<lambda>req. content_block blk \<and> (\<exists>i. at_key blk ''id'' = Inr (JStr i) \<and> req = archive_request env i))
       (archive_block env blk)"
proof
  have status: "sends_only touches_blocks (update_sync_status env fuel now i)" for i
    unfolding update_sync_status_def or_on_request_error_def paginate_blocks_def
    by (intro sends_only_catch sends_only_bind block_pages_touch rewrite_status_touches) auto
  show "sends_only touches_blocks (rebuild_dashboard env fuel now cfg)"
    unfolding rebuild_dashboard_def Let_def populate_root_page_def populate_command_center_def
    by (intro sends_only_bind) (auto simp del: io_ret_run intro!: sends_only_bind archive_touches append_touches status)
qed (rule archive_block_sends)

end
