(* ===== verification/Delivery.thy ===== *)
theory Delivery
  imports Http PlannerDigests Llm Silver
begin

text \<open>
  The program's smaller integrations: e-mail delivery (\<open>src/brain/email_sender.py\<close>), WhatsApp messages
  (\<open>src/brain/whatsapp.py\<close>), unread mail (\<open>src/brain/gmail.py\<close>) and calendar events
  (\<open>src/brain/calendar_ctx.py\<close>). The mail servers, the decoding of a header, the calendar service and its
  authorization are parameters.
\<close>

section \<open>E-mail\<close>

record email_message =
  ml_subject :: string
  ml_from :: string
  ml_to :: string
  ml_body :: string

text \<open>What the SMTP server does: a connection that fails at once, or the code it answers STARTTLS with and
whether logging in and sending go through.\<close>

type_synonym smtp = "settings \<Rightarrow> email_message \<Rightarrow> (int \<times> bool) option"

text \<open>The result, and the message when the server took it.\<close>

definition send_digest :: "smtp \<Rightarrow> settings \<Rightarrow> digest_result \<Rightarrow> string \<Rightarrow> bool \<times> email_message option" where
  "send_digest smtp cfg digest recipient =
     (if cf_smtp_username cfg = [] \<or> cf_smtp_password cfg = [] then (False, None)
      else let to_addr = (if recipient = [] then cf_digest_to_email cfg else recipient) in
           if to_addr = [] then (False, None)
           else let msg = \<lparr>ml_subject = dg_subject digest,
                           ml_from = (if cf_digest_from_email cfg = [] then cf_smtp_username cfg
                                      else cf_digest_from_email cfg),
                           ml_to = to_addr, ml_body = dg_body_text digest\<rparr>
                in case smtp cfg msg of
                     None \<Rightarrow> (False, None)
                   | Some (code, sent) \<Rightarrow>
                       if code \<noteq> 220 then (False, None) else if sent then (True, Some msg) else (False, None))"

section \<open>WhatsApp\<close>

definition CALLMEBOT_URL :: string where
  "CALLMEBOT_URL = ''https://api.callmebot.com/whatsapp.php''"

definition short_message :: "string \<Rightarrow> string" where
  "short_message s =
     (if length s > 3900 then take 3900 s @ [CHR 0x0A, CHR 0x0A] @ ''... (truncated)'' else s)"

definition send_whatsapp :: "'s server \<Rightarrow> string \<Rightarrow> string \<Rightarrow> string \<Rightarrow> ('s web, bool) io" where
  "send_whatsapp server phone api_key message =
     (if phone = [] \<or> api_key = [] then io_ret False
      else io_catch
             (io_bind (http_send server
                \<lparr>hr_method = GET, hr_url = CALLMEBOT_URL, hr_headers = [],
                 hr_params = [(''phone'', JStr phone), (''apikey'', JStr api_key),
                              (''text'', JStr (short_message message))],
                 hr_body = []\<rparr>)
                (\<lambda>resp. io_ret (fst resp = 200)))
             (\<lambda>e. if e = request_error then io_ret False else io_raise e))"

definition send_to_user :: "'s server \<Rightarrow> settings \<Rightarrow> string \<Rightarrow> ('s web, bool) io" where
  "send_to_user server cfg message =
     send_whatsapp server (cf_callmebot_phone cfg) (cf_callmebot_api_key cfg) message"

definition send_to_secondary :: "'s server \<Rightarrow> settings \<Rightarrow> string \<Rightarrow> ('s web, bool) io" where
  "send_to_secondary server cfg message =
     send_whatsapp server (cf_callmebot_secondary_phone cfg) (cf_callmebot_secondary_api_key cfg) message"

section \<open>Unread mail\<close>

definition MAX_ALERTS :: int where
  "MAX_ALERTS = 25"

text \<open>A session with the IMAP server: the status and the ids a search gives (\<open>None\<close> when the server rejects the
query), and the headers of a message (\<open>None\<close> when fetching or reading it fails, or there is no data).\<close>

record imap_session =
  im_search :: "string \<Rightarrow> (string \<times> string list) option"
  im_search_since :: "string \<Rightarrow> string \<times> string list"
  im_headers :: "string \<Rightarrow> email_alert option"

definition get_unread_alerts ::
    "(settings \<Rightarrow> imap_session option) \<Rightarrow> wall_time \<Rightarrow> settings \<Rightarrow> int \<Rightarrow> email_alert list" where
  "get_unread_alerts connect now cfg hours =
     (if cf_gmail_imap_username cfg = [] \<or> cf_gmail_imap_password cfg = [] then []
      else case connect cfg of
             None \<Rightarrow> []
           | Some conn \<Rightarrow>
               let (status, ids) =
                 (case im_search conn (cf_gmail_important_query cfg) of
                    Some r \<Rightarrow> r
                  | None \<Rightarrow>
                      im_search_since conn
                        (''UNSEEN SINCE ''
                         @ wall_text ''%d-%b-%Y'' (now\<lparr>wt_micros := wt_micros now - hours * 3600000000\<rparr>)))
               in if status \<noteq> ''OK'' \<or> ids = [] then []
                  else List.map_filter (im_headers conn) (last_n MAX_ALERTS ids))"

section \<open>Calendar\<close>

definition parse_calendar_time :: "(string \<Rightarrow> wall_time option) \<Rightarrow> json \<Rightarrow> wall_time option res" where
  "parse_calendar_time from_iso v =
     (if \<not> jtruthy v then Inr None
      else case v of
             JStr s \<Rightarrow> Inr (from_iso (concat (map (\<lambda>c. if c = CHR ''Z'' then ''+00:00'' else [c]) s)))
           | _ \<Rightarrow> Inl (OtherError ''AttributeError''))"

definition time_field :: "jdict \<Rightarrow> json" where
  "time_field d = (let t = dget d ''dateTime'' JNull in if jtruthy t then t else dget d ''date'' JNull)"

definition parse_event :: "(string \<Rightarrow> wall_time option) \<Rightarrow> json \<Rightarrow> calendar_event res" where
  "parse_event from_iso item =
     rbind (get_key item ''start'' (JObj [])) (\<lambda>start_raw. rbind (as_dict start_raw) (\<lambda>start_raw.
     rbind (get_key item ''end'' (JObj [])) (\<lambda>end_raw. rbind (as_dict end_raw) (\<lambda>end_raw.
     rbind (parse_calendar_time from_iso (time_field start_raw)) (\<lambda>event_start.
     rbind (parse_calendar_time from_iso (time_field end_raw)) (\<lambda>event_end.
     rbind (get_key item ''summary'' (JStr ''(No title)'')) (\<lambda>summary.
     case summary of
       JStr s \<Rightarrow> Inr \<lparr>ev_summary = s, ev_start = event_start, ev_end = event_end,
                     ev_all_day = has_key start_raw ''date'' \<and> \<not> has_key start_raw ''dateTime''\<rparr>
     | _ \<Rightarrow> Inl (OtherError ''TypeError''))))))))"

text \<open>The service is \<open>None\<close> when its packages are missing or no authorization is obtained; a query from a time
to a time answers with a document or fails.\<close>

definition get_events ::
    "(wall_time \<Rightarrow> wall_time \<Rightarrow> json option) option \<Rightarrow> (string \<Rightarrow> wall_time option) \<Rightarrow> wall_time
     \<Rightarrow> wall_time option \<Rightarrow> wall_time option \<Rightarrow> calendar_event list res" where
  "get_events service from_iso now start_at end_at =
     (case service of
        None \<Rightarrow> Inr []
      | Some query \<Rightarrow>
          let first = (case start_at of Some w \<Rightarrow> w | None \<Rightarrow> now);
              last = (case end_at of Some w \<Rightarrow> w | None \<Rightarrow> first\<lparr>wt_micros := wt_micros first + day_micros\<rparr>)
          in case query first last of
               None \<Rightarrow> Inr []
             | Some result \<Rightarrow>
                 rbind (get_key result ''items'' (JArr [])) (\<lambda>items.
                 rbind (as_list items) (rmap (parse_event from_iso))))"

end
