(* ===== verification/Cli.thy ===== *)
theory Cli
  imports Organizer NotionPages Delivery
begin

text \<open>
  \<open>src/brain/cli.py\<close>: the commands of the command line, which put the clients together. A command ends with an
  exit code, what it printed and the mails it had sent; its HTTP requests are in the log. One server stands
  for every service. The mail and calendar services, the reading of prompt files, the day and the time are
  parameters; so is the NotebookLM command. Digest texts contain symbols written as UTF-8 bytes (see
  \<open>Planner\<close>), so what the sanitizer makes of these bytes before a language model is asked is not what it makes
  of the symbols.
\<close>

section \<open>Arguments, environment and results\<close>

record cli_args =
  ca_stdout :: bool
  ca_no_llm :: bool
  ca_apply :: bool
  ca_no_move :: bool
  ca_no_label :: bool
  ca_full :: bool

record 's cli_env =
  cl_server :: "'s server"
  cl_hostname :: "string \<Rightarrow> string option"
  cl_resolve :: "string \<Rightarrow> address_class list option"
  cl_str :: "json \<Rightarrow> string"
  cl_date_from_iso :: "string \<Rightarrow> date option"
  cl_from_iso :: "string \<Rightarrow> wall_time option"
  cl_iso :: "wall_time \<Rightarrow> string"
  cl_smtp :: smtp
  cl_imap :: "settings \<Rightarrow> imap_session option"
  cl_calendar :: "(wall_time \<Rightarrow> wall_time \<Rightarrow> json option) option"
  cl_prompt_file :: "string \<Rightarrow> string option"
  cl_exc_text :: "py_error \<Rightarrow> string"
  cl_today :: date
  cl_now :: wall_time
  cl_fuel :: nat

datatype cli_output = Printed string | Mailed email_message

type_synonym 's command = "('s web, int \<times> cli_output list) io"

definition todoist_client :: "'s cli_env \<Rightarrow> settings \<Rightarrow> 's todoist_env" where
  "todoist_client env cfg =
     \<lparr>td_server = cl_server env, td_token = cf_todoist_api_token cfg, td_str = cl_str env,
      td_date_from_iso = cl_date_from_iso env, td_wall_from_iso = cl_from_iso env\<rparr>"

definition notion_client :: "'s cli_env \<Rightarrow> settings \<Rightarrow> 's notion_env" where
  "notion_client env cfg =
     \<lparr>nt_server = cl_server env, nt_token = cf_notion_api_token cfg, nt_iso = cl_iso env\<rparr>"

definition llm_client :: "'s cli_env \<Rightarrow> 's llm_env" where
  "llm_client env =
     \<lparr>le_server = cl_server env, le_hostname = cl_hostname env, le_resolve = cl_resolve env\<rparr>"

definition refused :: "'s command" where
  "refused = io_ret (1, [])"

section \<open>Digests\<close>

text \<open>\<open>_get_calendar_events\<close>: any failure counts as no events.\<close>

definition calendar_events :: "'s cli_env \<Rightarrow> wall_time option \<Rightarrow> wall_time option \<Rightarrow> calendar_event list" where
  "calendar_events env start_at end_at =
     (case get_events (cl_calendar env) (cl_from_iso env) (cl_now env) start_at end_at of
        Inl e \<Rightarrow> [] | Inr evs \<Rightarrow> evs)"

text \<open>\<open>seen = {t.id for t in tasks}\<close>, then appending those of the other list that are new.\<close>

fun merge_tasks :: "task list \<Rightarrow> task list \<Rightarrow> task list" where
  "merge_tasks ts [] = ts"
| "merge_tasks ts (u # us) =
     (if tk_id u \<in> tk_id ` set ts then merge_tasks ts us else merge_tasks (ts @ [u]) us)"

definition polished ::
    "'s cli_env \<Rightarrow> settings \<Rightarrow> cli_args \<Rightarrow> string \<Rightarrow> digest_result \<Rightarrow> ('s web, digest_result) io" where
  "polished env cfg args prompt digest =
     (if ca_no_llm args then io_ret digest
      else io_bind (polish_digest (llm_client env) cfg (dg_body_text digest) (load_prompt (cl_prompt_file env) prompt))
             (\<lambda>answer. io_bind (io_res (json_str answer)) (\<lambda>s. io_ret (digest\<lparr>dg_body_text := s\<rparr>))))"

definition print_digest :: "digest_result \<Rightarrow> int \<times> cli_output list" where
  "print_digest digest = (0, [Printed (dg_subject digest), Printed [], Printed (dg_body_text digest)])"

definition mail_result :: "'s cli_env \<Rightarrow> settings \<Rightarrow> digest_result \<Rightarrow> int \<times> cli_output list" where
  "mail_result env cfg digest =
     (case send_digest (cl_smtp env) cfg digest [] of
        (success, sent) \<Rightarrow> (if success then 0 else 1, case sent of None \<Rightarrow> [] | Some m \<Rightarrow> [Mailed m]))"

definition cmd_daily :: "'s cli_env \<Rightarrow> settings \<Rightarrow> cli_args \<Rightarrow> 's command" where
  "cmd_daily env cfg args =
     (let client = todoist_client env cfg in
      io_bind (get_today_tasks client (cl_fuel env)) (\<lambda>tasks.
      io_bind (get_upcoming_tasks client (cl_fuel env) 7) (\<lambda>upcoming.
      let digest = build_daily_digest (cl_today env) cfg (merge_tasks tasks upcoming)
                     (calendar_events env None None) (get_unread_alerts (cl_imap env) (cl_now env) cfg 24) in
      io_bind (polished env cfg args ''daily-summary'' digest) (\<lambda>digest.
        if ca_stdout args then io_ret (print_digest digest)
        else let mail = mail_result env cfg digest in
             io_bind (send_to_user (cl_server env) cfg (dg_body_text digest)) (\<lambda>_. io_ret mail)))))"

definition utc_midnight :: "date \<Rightarrow> wall_time" where
  "utc_midnight d = \<lparr>wt_micros = (d - 1) * day_micros, wt_offset = Some 0\<rparr>"

definition cmd_weekend :: "'s cli_env \<Rightarrow> settings \<Rightarrow> cli_args \<Rightarrow> 's command" where
  "cmd_weekend env cfg args =
     (let client = todoist_client env cfg;
          sat = cl_today env + days_to_saturday (cl_today env) in
      io_bind (get_weekend_tasks client (cl_fuel env)) (\<lambda>tasks.
      io_bind (get_overdue_tasks client (cl_fuel env)) (\<lambda>overdue.
      let events = calendar_events env (Some (utc_midnight sat)) (Some (utc_midnight (sat + 2))) in
      io_bind (io_res (build_weekend_digest (cl_today env) cfg (merge_tasks tasks overdue) events)) (\<lambda>digest.
      io_bind (polished env cfg args ''weekend-planner'' digest) (\<lambda>digest.
        if ca_stdout args then io_ret (print_digest digest)
        else let mail = mail_result env cfg digest in
             io_bind (send_to_user (cl_server env) cfg (dg_body_text digest)) (\<lambda>_.
             io_bind (send_to_secondary (cl_server env) cfg (dg_body_text digest)) (\<lambda>_. io_ret mail)))))))"

definition cmd_weekly :: "'s cli_env \<Rightarrow> settings \<Rightarrow> cli_args \<Rightarrow> 's command" where
  "cmd_weekly env cfg args =
     (let client = todoist_client env cfg;
          week_ago = cl_iso env ((cl_now env)\<lparr>wt_micros := wt_micros (cl_now env) - 7 * day_micros\<rparr>) in
      io_bind (get_tasks client (cl_fuel env) [] [] []) (\<lambda>active.
      io_bind (get_completed_tasks client week_ago) (\<lambda>completed.
      io_bind (io_res (build_weekly_review (cl_str env) (cl_today env) cfg active completed)) (\<lambda>digest.
      io_bind (polished env cfg args ''weekly-review'' digest) (\<lambda>digest.
        io_ret (if ca_stdout args then print_digest digest else mail_result env cfg digest))))))"

definition cmd_alerts :: "'s cli_env \<Rightarrow> settings \<Rightarrow> cli_args \<Rightarrow> 's command" where
  "cmd_alerts env cfg args =
     io_bind (get_overdue_tasks (todoist_client env cfg) (cl_fuel env)) (\<lambda>tasks.
       case build_overdue_alert (cl_today env) tasks of
         None \<Rightarrow> io_ret (0, [])
       | Some message \<Rightarrow>
           if message = [] then io_ret (0, [])
           else if ca_stdout args then io_ret (0, [Printed message])
           else io_bind (send_to_user (cl_server env) cfg message) (\<lambda>_. io_ret (0, [])))"

section \<open>The board\<close>

definition insights :: "string \<Rightarrow> string \<Rightarrow> string" where
  "insights summary ai =
     (let line = replicate 50 CHR ''='' in
      summary @ newline @ newline @ line @ newline @ ''AI INSIGHTS (Gemini)'' @ newline @ line @ newline @ newline @ ai)"

definition cmd_analyze :: "'s cli_env \<Rightarrow> settings \<Rightarrow> cli_args \<Rightarrow> 's command" where
  "cmd_analyze env cfg args =
     (let project_id = cf_todoist_kanban_project_id cfg; client = todoist_client env cfg in
      if project_id = [] then refused
      else io_bind (get_tasks client (cl_fuel env) project_id [] []) (\<lambda>tasks.
           io_bind (get_section_map client (cl_fuel env) project_id) (\<lambda>names.
           io_bind (io_res (text_pairs names)) (\<lambda>sections.
           let analysis = analyze_board (cl_today env) tasks sections in
           io_bind (if ca_no_llm args then io_ret (JStr [])
                    else llm_analyze_board (llm_client env) analysis tasks cfg) (\<lambda>ai.
           let shown = (if jtruthy ai then insights (ba_summary analysis) (json_text (cl_str env) ai)
                         else ba_summary analysis) in
             if ca_stdout args then io_ret (0, [Printed shown])
             else io_bind (send_to_user (cl_server env) cfg shown) (\<lambda>_. io_ret (0, [])))))))"

definition cmd_organize :: "'s cli_env \<Rightarrow> settings \<Rightarrow> cli_args \<Rightarrow> 's command" where
  "cmd_organize env cfg args =
     (if cf_todoist_kanban_project_id cfg = [] then refused
      else let dry_run = \<not> ca_apply args in
           io_bind (reorganize_board (todoist_client env cfg) (cl_fuel env) (cl_exc_text env) (cl_today env) cfg
                      \<lparr>ro_dry_run = dry_run, ro_move_tasks = \<not> ca_no_move args, ro_auto_label = \<not> ca_no_label args\<rparr>)
             (\<lambda>r. let report = format_reorganize_report r dry_run in
                  if ca_stdout args then io_ret (0, [Printed report])
                  else io_bind (send_to_user (cl_server env) cfg report)
                         (\<lambda>_. io_ret (if rr_errors r = [] then 0 else 1, []))))"

section \<open>Setting up Notion\<close>

text \<open>The sections that exist: their names, and the ids of the planner sections among them.\<close>

definition section_names :: "json list \<Rightarrow> json list res" where
  "section_names rows = rmap (\<lambda>s. at_key s ''name'') rows"

definition planner_ids :: "json list \<Rightarrow> (string \<times> json) list res" where
  "planner_ids rows =
     rfold (\<lambda>s ids. rbind (at_key s ''name'') (\<lambda>name.
              case name of
                JStr n \<Rightarrow> if n \<in> set planner_sections then rbind (at_key s ''id'') (\<lambda>i. Inr (AList.update n i ids))
                         else Inr ids
              | _ \<Rightarrow> Inr ids)) rows []"

fun create_missing ::
    "'s todoist_env \<Rightarrow> string \<Rightarrow> json list \<Rightarrow> string list \<Rightarrow> (string \<times> json) list \<Rightarrow> ('s web, (string \<times> json) list) io" where
  "create_missing client project_id existing [] ids = io_ret ids"
| "create_missing client project_id existing (name # names) ids =
     (if JStr name \<in> set existing then create_missing client project_id existing names ids
      else io_bind (create_section client project_id name None) (\<lambda>created.
           io_bind (io_res (at_key created ''id'')) (\<lambda>i.
             create_missing client project_id existing names (AList.update name i ids))))"

definition env_line :: "string \<Rightarrow> string \<Rightarrow> cli_output" where
  "env_line var v = Printed (var @ ''='' @ v)"

definition setup_report :: "(json \<Rightarrow> string) \<Rightarrow> string \<Rightarrow> (string \<times> json) list \<Rightarrow> (string \<times> string) list \<Rightarrow> cli_output list" where
  "setup_report str_of root_page_id ids notion_ids =
     (let line = replicate 60 CHR ''=''; sec = (\<lambda>name. json_text str_of (dget ids name (JStr ''MISSING''))) in
      [Printed (newline @ line), Printed (''SETUP COMPLETE '' @ u_emdash @ '' add these to your config/.env:''), Printed line,
       env_line ''TODOIST_DAILY_PLANNER_SECTION_ID'' (sec ''Daily Planner''),
       env_line ''TODOIST_WEEKLY_PLANNER_SECTION_ID'' (sec ''Weekly Planner''),
       env_line ''TODOIST_WEEKEND_PLANNER_SECTION_ID'' (sec ''Weekend Planner''), Printed [],
       env_line ''NOTION_ROOT_PAGE_ID'' root_page_id,
       env_line ''NOTION_COMMAND_CENTER_ID'' (dget notion_ids ''command_center_id'' []),
       env_line ''NOTION_DAILY_PLANNER_DB_ID'' (dget notion_ids ''daily_planner_db_id'' []),
       env_line ''NOTION_WEEKLY_PLANNER_DB_ID'' (dget notion_ids ''weekly_planner_db_id'' []),
       env_line ''NOTION_WEEKEND_PLANNER_DB_ID'' (dget notion_ids ''weekend_planner_db_id'' []),
       env_line ''NOTION_BOARD_DB_ID'' (dget notion_ids ''board_db_id'' []), Printed line,
       Printed (''NOTE: Drag '' @ quoted ''Weekend Planner'' @ '', '' @ quoted ''Weekly Planner'' @ '', '' @ quoted ''Daily Planner''),
       Printed (''      sections above '' @ quoted ''Doing'' @ '' in your Todoist board.''), Printed (line @ newline)])"

definition cmd_notion_setup :: "'s cli_env \<Rightarrow> settings \<Rightarrow> 's command" where
  "cmd_notion_setup env cfg =
     (let project_id = cf_todoist_kanban_project_id cfg; client = todoist_client env cfg in
      if cf_notion_api_token cfg = [] then refused
      else if project_id = [] then refused
      else io_bind (get_sections client (cl_fuel env) project_id) (\<lambda>rows.
           io_bind (io_res (section_names rows)) (\<lambda>existing.
           io_bind (io_res (planner_ids rows)) (\<lambda>ids.
           io_bind (create_missing client project_id existing [''Weekend Planner'', ''Weekly Planner'', ''Daily Planner''] ids) (\<lambda>ids.
             if cf_notion_root_page_id cfg = [] then refused
             else io_bind (setup_dashboard (notion_client env cfg) (cl_now env) (cf_weekend_capacity_hours cfg)
                             (cf_notion_root_page_id cfg)) (\<lambda>notion_ids.
                  io_ret (0, setup_report (cl_str env) (cf_notion_root_page_id cfg) ids notion_ids)))))))"

section \<open>Syncing Notion\<close>

record sync_counts =
  sc_created :: nat
  sc_updated :: nat
  sc_errors :: nat

definition add_error_count :: "sync_counts \<Rightarrow> sync_counts" where
  "add_error_count c = c\<lparr>sc_errors := sc_errors c + 1\<rparr>"

definition add_counts :: "sync_counts \<Rightarrow> nat \<times> nat \<Rightarrow> sync_counts" where
  "add_counts c cu = c\<lparr>sc_created := sc_created c + fst cu, sc_updated := sc_updated c + snd cu\<rparr>"

text \<open>The planners with a section and a database: the others are skipped.\<close>

definition planner_map :: "settings \<Rightarrow> (string \<times> string) list" where
  "planner_map cfg =
     filter (\<lambda>(section_id, db_id). section_id \<noteq> [] \<and> db_id \<noteq> [])
       [(cf_todoist_daily_planner_section_id cfg, cf_notion_daily_planner_db_id cfg),
        (cf_todoist_weekly_planner_section_id cfg, cf_notion_weekly_planner_db_id cfg),
        (cf_todoist_weekend_planner_section_id cfg, cf_notion_weekend_planner_db_id cfg)]"

text \<open>\<open>try: ... except Exception: errors += 1\<close>.\<close>

definition counting :: "('s web, nat \<times> nat) io \<Rightarrow> sync_counts \<Rightarrow> ('s web, sync_counts) io" where
  "counting m c = io_catch (io_bind m (\<lambda>cu. io_ret (add_counts c cu))) (\<lambda>e. io_ret (add_error_count c))"

fun push_planners :: "'s cli_env \<Rightarrow> settings \<Rightarrow> (string \<times> string) list \<Rightarrow> sync_counts \<Rightarrow> ('s web, sync_counts) io" where
  "push_planners env cfg [] c = io_ret c"
| "push_planners env cfg ((section_id, db_id) # ps) c =
     io_bind (counting
                (io_bind (get_tasks (todoist_client env cfg) (cl_fuel env) (cf_todoist_kanban_project_id cfg) section_id [])
                   (\<lambda>tasks. sync_tasks_to_database (notion_client env cfg) (cl_fuel env) db_id tasks False False)) c)
       (push_planners env cfg ps)"

definition push_board :: "'s cli_env \<Rightarrow> settings \<Rightarrow> cli_args \<Rightarrow> sync_counts \<Rightarrow> ('s web, sync_counts) io" where
  "push_board env cfg args c =
     (let project_id = cf_todoist_kanban_project_id cfg; client = todoist_client env cfg in
      if \<not> (ca_full args \<and> cf_notion_board_db_id cfg \<noteq> [] \<and> project_id \<noteq> []) then io_ret c
      else counting
             (io_bind (get_tasks client (cl_fuel env) project_id [] []) (\<lambda>tasks.
              io_bind (get_section_map client (cl_fuel env) project_id) (\<lambda>names.
              io_bind (io_res (text_pairs names)) (\<lambda>sections.
                sync_board_to_database (notion_client env cfg) (cl_fuel env) (cf_notion_board_db_id cfg) tasks sections)))) c)"

definition new_task_body :: "string \<Rightarrow> string \<Rightarrow> json \<Rightarrow> jdict \<Rightarrow> jdict" where
  "new_task_body project_id section_id content fields_left =
     [(''content'', content), (''project_id'', JStr project_id), (''section_id'', JStr section_id)]
     @ filter (\<lambda>(k, v). jtruthy v) fields_left"

definition pull_item :: "'s cli_env \<Rightarrow> settings \<Rightarrow> string \<Rightarrow> json \<Rightarrow> jdict \<Rightarrow> sync_counts \<Rightarrow> ('s web, sync_counts) io" where
  "pull_item env cfg section_id item data c =
     (let content = dget data ''content'' (JStr []) in
      if \<not> jtruthy content then io_ret c
      else io_catch
             (io_bind (todoist_post (todoist_client env cfg) (API_BASE @ ''/tasks'')
                         (new_task_body (cf_todoist_kanban_project_id cfg) section_id content
                            (AList.delete ''content'' data))) (\<lambda>new_task.
              io_bind (io_res (get_key new_task ''id'' (JStr []))) (\<lambda>task_id.
              io_bind
                (if \<not> jtruthy task_id then io_ret JNull
                 else io_bind (io_res (rbind (at_key item ''id'') json_str)) (\<lambda>page_id.
                      io_bind (io_res (get_key new_task ''url'' JNull)) (\<lambda>url.
                        update_page (notion_client env cfg) page_id
                          [(''Todoist ID'', JObj [(''rich_text'', rich_text (json_text (cl_str env) task_id))]),
                           (''Todoist URL'', JObj [(''url'', url)])])))
                (\<lambda>_. io_ret (c\<lparr>sc_created := sc_created c + 1\<rparr>)))))
             (\<lambda>e. io_ret (add_error_count c)))"

text \<open>An item that cannot be read ends the loop of its planner with one error.\<close>

fun pull_items :: "'s cli_env \<Rightarrow> settings \<Rightarrow> string \<Rightarrow> json list \<Rightarrow> sync_counts \<Rightarrow> ('s web, sync_counts) io" where
  "pull_items env cfg section_id [] c = io_ret c"
| "pull_items env cfg section_id (item # items) c =
     (case notion_item_to_task_fields (cl_str env) item of
        Inl e \<Rightarrow> io_ret (add_error_count c)
      | Inr data \<Rightarrow> io_bind (pull_item env cfg section_id item data c) (pull_items env cfg section_id items))"

fun pull_planners :: "'s cli_env \<Rightarrow> settings \<Rightarrow> (string \<times> string) list \<Rightarrow> sync_counts \<Rightarrow> ('s web, sync_counts) io" where
  "pull_planners env cfg [] c = io_ret c"
| "pull_planners env cfg ((section_id, db_id) # ps) c =
     io_bind (io_catch
                (io_bind (get_notion_only_tasks (notion_client env cfg) (cl_fuel env) db_id) (\<lambda>items. io_ret (Some items)))
                (\<lambda>e. io_ret None)) (\<lambda>found.
     io_bind (case found of None \<Rightarrow> io_ret (add_error_count c)
              | Some items \<Rightarrow> pull_items env cfg section_id items c)
       (pull_planners env cfg ps))"

definition sync_summary :: "sync_counts \<Rightarrow> string" where
  "sync_summary c =
     ''Notion sync complete '' @ u_emdash @ '' '' @ nat_text (sc_created c) @ '' created, '' @ nat_text (sc_updated c)
     @ '' updated'' @ (if sc_errors c = 0 then [] else '', '' @ nat_text (sc_errors c) @ '' errors'')"

definition cmd_notion_sync :: "'s cli_env \<Rightarrow> settings \<Rightarrow> cli_args \<Rightarrow> 's command" where
  "cmd_notion_sync env cfg args =
     (if cf_notion_api_token cfg = [] then refused
      else io_bind (push_planners env cfg (planner_map cfg) \<lparr>sc_created = 0, sc_updated = 0, sc_errors = 0\<rparr>) (\<lambda>c.
           io_bind (push_board env cfg args c) (\<lambda>c.
           io_bind (if cf_brain_read_only cfg then io_ret c else pull_planners env cfg (planner_map cfg) c) (\<lambda>c.
           io_bind (if cf_notion_command_center_id cfg = [] then io_ret ()
                    else update_sync_status (notion_client env cfg) (cl_fuel env) (cl_now env)
                           (cf_notion_command_center_id cfg)) (\<lambda>_.
             io_ret (if sc_errors c = 0 then 0 else 1,
                     if ca_stdout args then [Printed (sync_summary c)] else []))))))"

definition cmd_notion_rebuild :: "'s cli_env \<Rightarrow> settings \<Rightarrow> 's command" where
  "cmd_notion_rebuild env cfg =
     (if cf_notion_api_token cfg = [] then refused
      else if cf_notion_root_page_id cfg = [] then refused
      else io_catch (io_bind (rebuild_dashboard (notion_client env cfg) (cl_fuel env) (cl_now env) cfg)
                       (\<lambda>_. io_ret (0, []))) (\<lambda>e. refused))"

section \<open>Dispatch\<close>

datatype cli_command =
    Daily | Weekend | Weekly | Alerts | Analyze | Organize | NotionSetup | NotionSync | NotionRebuild | NotebooklmSync

definition run_command ::
    "'s cli_env \<Rightarrow> (settings \<Rightarrow> cli_args \<Rightarrow> 's command) \<Rightarrow> settings \<Rightarrow> cli_args \<Rightarrow> cli_command option \<Rightarrow> 's command" where
  "run_command env notebooklm_sync cfg args cmd =
     (case cmd of
        None \<Rightarrow> refused
      | Some c \<Rightarrow>
          if cf_todoist_api_token cfg = [] then refused
          else (case c of
                  Daily \<Rightarrow> cmd_daily env cfg args
                | Weekend \<Rightarrow> cmd_weekend env cfg args
                | Weekly \<Rightarrow> cmd_weekly env cfg args
                | Alerts \<Rightarrow> cmd_alerts env cfg args
                | Analyze \<Rightarrow> cmd_analyze env cfg args
                | Organize \<Rightarrow> cmd_organize env cfg args
                | NotionSetup \<Rightarrow> cmd_notion_setup env cfg
                | NotionSync \<Rightarrow> cmd_notion_sync env cfg args
                | NotionRebuild \<Rightarrow> cmd_notion_rebuild env cfg
                | NotebooklmSync \<Rightarrow> notebooklm_sync cfg args))"

end
