(* ===== verification/CliLaws.thy ===== *)
theory CliLaws
  imports Cli OrganizerLaws NotionLaws LlmLaws
begin

text \<open>
  What the commands guarantee together: none of them sends a request that deletes or completes a task, the
  read-only flag keeps a Notion sync from writing to the task service, reorganizing without \<open>--apply\<close> only
  reads, and printing instead of sending delivers nothing.
\<close>

section \<open>Requests that are allowed\<close>

definition harmless_body :: "jdict \<Rightarrow> bool" where
  "harmless_body body \<longleftrightarrow> list_all (\<lambda>k. \<not> has_key body k) blocked_fields"

definition harmless :: "http_request \<Rightarrow> bool" where
  "harmless req \<longleftrightarrow> harmless_body (hr_body req)"

definition todoist_read :: "http_request \<Rightarrow> bool" where
  "todoist_read req \<longleftrightarrow> prefix API_BASE (hr_url req) \<longrightarrow> hr_method req = GET"

lemmas harmless_body_simps = harmless_body_def blocked_fields_def

lemma harmless_body_update:
  "harmless_body body \<Longrightarrow> k \<notin> set blocked_fields \<Longrightarrow> harmless_body (AList.update k v body)"
  by (auto simp: harmless_body_def list_all_iff)

lemma item_fields_keys:
  assumes "notion_item_to_task_fields f item = Inr data"
  shows "fst ` set data \<subseteq> {''content'', ''priority'', ''labels'', ''due_string'', ''description''}"
proof -
  obtain content priority labels due nts where
    "[(''content'', content), (''priority'', priority), (''labels'', labels)]
       @ (if jtruthy due then [(''due_string'', due)] else [])
       @ (if jtruthy nts then [(''description'', nts)] else []) = data"
    using assms unfolding notion_item_to_task_fields_def Let_def rbind_Inr_iff sum.inject
    by (elim exE conjE) (rule that)
  then show ?thesis by (auto split: if_splits)
qed

text \<open>The reads of the task service and the requests to Notion are allowed.\<close>

locale allowed_requests =
  fixes ok :: "http_request \<Rightarrow> bool" and env :: "'s cli_env" and cfg :: settings
  assumes reads: "ok (get_request (todoist_client env cfg) url params)"
    and notion: "harmless_body body \<Longrightarrow> ok (notion_request (notion_client env cfg) kind path params body)"
begin

lemma tasks_ok: "sends_only ok (get_tasks (todoist_client env cfg) fuel project_id section_id label)"
  by (rule get_tasks_sends) (rule reads)

lemma filtered_ok: "sends_only ok (get_filtered_tasks (todoist_client env cfg) fuel q)"
  by (rule get_filtered_sends) (rule reads)

lemma completed_ok: "sends_only ok (get_completed_tasks (todoist_client env cfg) since)"
  by (rule get_completed_sends) (rule reads)

lemma sections_ok: "sends_only ok (get_sections (todoist_client env cfg) fuel project_id)"
  unfolding get_sections_def by (rule paginate_sends) (rule reads)

lemma section_map_ok: "sends_only ok (get_section_map (todoist_client env cfg) fuel project_id)"
  by (rule maps_send(2)) (rule reads)

lemma send_ok: "harmless_body body \<Longrightarrow> sends_only ok (notion_send (notion_client env cfg) kind path params body)"
  by (intro notion_sends notion)

lemma get_ok: "sends_only ok (notion_get (notion_client env cfg) path params)"
  unfolding notion_get_def by (rule send_ok) (simp add: harmless_body_simps)

lemma post_ok: "harmless_body body \<Longrightarrow> sends_only ok (notion_post (notion_client env cfg) path body)"
  unfolding notion_post_def by (rule send_ok)

lemma patch_ok: "harmless_body body \<Longrightarrow> sends_only ok (notion_patch (notion_client env cfg) path body)"
  unfolding notion_patch_def by (rule send_ok)

lemma block_pages_ok: "sends_only ok (block_pages (notion_client env cfg) fuel path params acc)"
proof (induction fuel arbitrary: params acc)
  case 0
  show ?case unfolding block_pages.simps by (rule sends_only_raise)
next
  case (Suc fuel)
  show ?case
    unfolding block_pages.simps
    by (intro sends_only_bind get_ok sends_only_res)
      (auto intro: Suc sends_only_ret simp del: io_ret_run split: prod.splits option.splits)
qed

lemma query_pages_ok:
  "harmless_body body \<Longrightarrow> sends_only ok (query_pages (notion_client env cfg) fuel path body acc)"
proof (induction fuel arbitrary: body acc)
  case 0
  show ?case unfolding query_pages.simps by (rule sends_only_raise)
next
  case (Suc fuel)
  have "harmless_body (AList.update ''start_cursor'' cursor body)" for cursor
    using Suc.prems by (rule harmless_body_update) (simp add: blocked_fields_def)
  then show ?case
    unfolding query_pages.simps using Suc.prems
    by (intro sends_only_bind post_ok sends_only_res)
      (auto intro: Suc.IH sends_only_ret simp del: io_ret_run split: prod.splits option.splits)
qed

lemma query_ok: "sends_only ok (query_database (notion_client env cfg) fuel db_id filter_body)"
  unfolding query_database_def by (rule query_pages_ok) (simp add: harmless_body_simps)

lemma softly_ok: "sends_only ok m \<Longrightarrow> sends_only ok (or_on_request_error m x)"
  unfolding or_on_request_error_def by (intro sends_only_catch) (auto simp del: io_ret_run)

lemma update_page_ok: "sends_only ok (update_page (notion_client env cfg) page_id props)"
  unfolding update_page_def by (rule patch_ok) (simp add: harmless_body_simps)

lemma sync_each_ok: "sends_only ok (sync_each (notion_client env cfg) db_id incl existing ts c u)"
proof (induction ts arbitrary: c u)
  case Nil
  show ?case unfolding sync_each.simps by (rule sends_only_ret)
next
  case (Cons t ts)
  have "sends_only ok (create_item (notion_client env cfg) db_id props)" for props
    unfolding create_item_def by (rule post_ok) (simp add: harmless_body_simps)
  then show ?case
    unfolding sync_each.simps Let_def
    by (intro sends_only_bind softly_ok)
      (auto intro!: sends_only_bind update_page_ok Cons simp del: io_ret_run split: option.splits)
qed

lemma sync_tasks_ok: "sends_only ok (sync_tasks_to_database (notion_client env cfg) fuel db_id tasks incl stale)"
proof -
  have each: "sends_only ok (io_each (mark_done (notion_client env cfg)) items)" for items
    unfolding mark_done_def
    by (intro sends_only_each softly_ok sends_only_bind update_page_ok sends_only_ret)
  show ?thesis
    unfolding sync_tasks_to_database_def
    by (cases "tasks = [] \<and> \<not> stale"; simp only: if_True if_False)
      (auto intro!: sends_only_bind query_ok sync_each_ok each simp del: io_ret_run)
qed

lemma sync_board_ok: "sends_only ok (sync_board_to_database (notion_client env cfg) fuel db_id tasks sections)"
  unfolding sync_board_to_database_def
  by (intro sends_only_bind softly_ok patch_ok sends_only_ret sync_tasks_ok) (simp add: harmless_body_simps)

lemma notion_only_ok: "sends_only ok (get_notion_only_tasks (notion_client env cfg) fuel db_id)"
  unfolding get_notion_only_tasks_def by (intro sends_only_bind query_ok sends_only_res)

lemma rewrite_status_ok: "sends_only ok (rewrite_status (notion_client env cfg) now blks)"
proof (induction blks)
  case Nil
  show ?case unfolding rewrite_status.simps by (rule sends_only_ret)
next
  case (Cons blk blks)
  have patch: "sends_only ok (notion_patch (notion_client env cfg) path [(''callout'', v)])" for path v
    by (rule patch_ok) (simp add: harmless_body_simps)
  show ?case
    unfolding rewrite_status.simps id_of_def
    by (intro sends_only_bind sends_only_res)
      (auto intro!: sends_only_bind patch sends_only_res Cons simp del: io_ret_run io_res_run)
qed

lemma update_status_ok: "sends_only ok (update_sync_status (notion_client env cfg) fuel now i)"
  unfolding update_sync_status_def paginate_blocks_def
  by (intro softly_ok sends_only_bind block_pages_ok rewrite_status_ok)

lemma counting_ok: "sends_only ok m \<Longrightarrow> sends_only ok (counting m c)"
  unfolding counting_def by (intro sends_only_catch sends_only_bind) auto

lemma push_planners_ok: "sends_only ok (push_planners env cfg ps c)"
proof (induction ps arbitrary: c)
  case Nil
  show ?case unfolding push_planners.simps by (rule sends_only_ret)
next
  case (Cons p ps)
  obtain section_id db_id where "p = (section_id, db_id)" by (cases p)
  then show ?case
    by (auto intro!: sends_only_bind counting_ok tasks_ok sync_tasks_ok Cons)
qed

lemma push_board_ok: "sends_only ok (push_board env cfg args c)"
  unfolding push_board_def Let_def
  by (auto intro!: counting_ok sends_only_bind tasks_ok section_map_ok sync_board_ok simp del: io_ret_run io_res_run)

lemma sync_ok:
  assumes "cf_brain_read_only cfg \<or> (\<forall>c. sends_only ok (pull_planners env cfg (planner_map cfg) c))"
  shows "sends_only ok (cmd_notion_sync env cfg args)"
  unfolding cmd_notion_sync_def refused_def
  using assms
  by (auto intro!: sends_only_bind push_planners_ok push_board_ok update_status_ok simp del: io_ret_run)

end

text \<open>Writes to the task service are allowed too, when they carry none of the blocked fields.\<close>

locale writing_requests = allowed_requests +
  assumes posts: "harmless_body body \<Longrightarrow> ok (post_request (todoist_client env cfg) url body)"
begin

lemma todoist_post_ok: "harmless_body body \<Longrightarrow> sends_only ok (todoist_post (todoist_client env cfg) url body)"
  by (rule todoist_post_sends) (rule posts [unfolded post_request_def])

lemma move_ok: "sends_only ok (move_task (todoist_client env cfg) i section_id)"
  unfolding move_task_def by (rule todoist_post_ok) (simp add: harmless_body_simps)

lemma labels_ok: "sends_only ok (update_task (todoist_client env cfg) i [(''labels'', v)])"
  unfolding update_task_def
  by (simp add: blocked_fields_def) (rule todoist_post_ok, simp add: harmless_body_simps)

lemma reorganize_tasks_ok: "sends_only ok (reorganize_tasks (todoist_client env cfg) x today opts sections ts r)"
proof (induction ts arbitrary: r)
  case Nil
  show ?case unfolding reorganize_tasks.simps by (rule sends_only_ret)
next
  case (Cons t ts)
  have "sends_only ok (move_step (todoist_client env cfg) x today opts sections t r')" for r'
    unfolding move_step_def Let_def
    by (auto intro!: sends_only_catch sends_only_bind move_ok simp del: io_ret_run split: option.splits)
  moreover have "sends_only ok (label_step (todoist_client env cfg) x opts t r')" for r'
    unfolding label_step_def Let_def
    by (auto intro!: sends_only_catch sends_only_bind labels_ok simp del: io_ret_run split: option.splits)
  ultimately show ?case unfolding reorganize_tasks.simps by (intro sends_only_bind Cons)
qed

lemma reorganize_ok: "sends_only ok (reorganize_board (todoist_client env cfg) fuel x today cfg opts)"
  unfolding reorganize_board_def Let_def
  by (auto intro!: sends_only_bind tasks_ok section_map_ok reorganize_tasks_ok simp del: io_ret_run io_res_run)

lemma create_missing_ok: "sends_only ok (create_missing (todoist_client env cfg) project_id existing names ids)"
proof (induction names arbitrary: ids)
  case Nil
  show ?case unfolding create_missing.simps by (rule sends_only_ret)
next
  case (Cons name names)
  have "sends_only ok (create_section (todoist_client env cfg) project_id name None)"
    unfolding create_section_def by (rule todoist_post_ok) (simp add: harmless_body_simps)
  then show ?case unfolding create_missing.simps by (auto intro!: sends_only_bind Cons simp del: io_res_run)
qed

lemma pull_item_ok:
  assumes "notion_item_to_task_fields f item = Inr data"
  shows "sends_only ok (pull_item env cfg section_id item data c)"
proof -
  have "fst ` set data \<subseteq> {''content'', ''priority'', ''labels'', ''due_string'', ''description''}"
    using assms by (rule item_fields_keys)
  then have "harmless_body (new_task_body project_id section_id content (AList.delete ''content'' data))"
    for project_id content
    by (auto simp: harmless_body_simps new_task_body_def has_key_iff_fst AList.delete_eq)
  then show ?thesis
    unfolding pull_item_def Let_def
    by (auto intro!: sends_only_catch sends_only_bind todoist_post_ok update_page_ok simp del: io_ret_run io_res_run)
qed

lemma pull_items_ok: "sends_only ok (pull_items env cfg section_id items c)"
proof (induction items arbitrary: c)
  case Nil
  show ?case unfolding pull_items.simps by (rule sends_only_ret)
next
  case (Cons item items)
  then show ?case
    unfolding pull_items.simps
    by (auto intro!: sends_only_bind pull_item_ok simp del: io_ret_run split: sum.splits)
qed

lemma pull_planners_ok: "sends_only ok (pull_planners env cfg ps c)"
proof (induction ps arbitrary: c)
  case Nil
  show ?case unfolding pull_planners.simps by (rule sends_only_ret)
next
  case (Cons p ps)
  obtain section_id db_id where "p = (section_id, db_id)" by (cases p)
  then show ?case
    by (auto intro!: sends_only_bind sends_only_catch notion_only_ok pull_items_ok Cons
        simp del: io_ret_run split: option.splits)
qed

lemma append_ok: "sends_only ok (append_blocks (notion_client env cfg) i blocks)"
  unfolding append_blocks_def append_part_def
  by (intro sends_only_each sends_only_bind patch_ok sends_only_ret) (simp add: harmless_body_simps)

lemma sub_page_ok: "sends_only ok (sub_page (notion_client env cfg) i emoji title)"
  unfolding sub_page_def create_page_def id_of_def
  by (intro sends_only_bind post_ok sends_only_res) (auto simp: harmless_body_simps icon_field_def)

lemma create_database_ok: "sends_only ok (create_database (notion_client env cfg) i title props emoji is_inline)"
  unfolding create_database_def by (rule post_ok) (auto simp: harmless_body_simps icon_field_def)

lemma planner_page_ok: "sends_only ok (create_planner_page (notion_client env cfg) i title d emoji ins tip)"
  unfolding create_planner_page_def by (intro sends_only_bind append_ok create_database_ok)

lemma setup_ok: "sends_only ok (setup_dashboard (notion_client env cfg) now hours i)"
  unfolding setup_dashboard_def populate_root_page_def populate_command_center_def create_daily_page_def
    create_weekly_page_def create_weekend_page_def create_board_page_def populate_blog_page_def id_of_def
  by (intro sends_only_bind append_ok sub_page_ok planner_page_ok create_database_ok sends_only_res sends_only_ret)

lemma archive_ok: "sends_only ok (archive_blocks (notion_client env cfg) fuel i)"
  unfolding archive_blocks_def paginate_blocks_def
proof (intro sends_only_bind block_pages_ok sends_only_each)
  fix x blk
  show "sends_only ok (archive_block (notion_client env cfg) blk)"
    by (rule sends_only_mono [OF archive_block_sends])
      (auto simp: archive_request_def harmless_body_simps intro!: notion)
qed

lemma rebuild_ok: "sends_only ok (rebuild_dashboard (notion_client env cfg) fuel now cfg)"
  unfolding rebuild_dashboard_def Let_def populate_root_page_def populate_command_center_def
  by (intro sends_only_bind) (auto simp del: io_ret_run intro!: sends_only_bind archive_ok append_ok update_status_ok)

end

section \<open>What is allowed\<close>

interpretation hl: writing_requests harmless env cfg for env cfg
  by unfold_locales
    (simp_all add: harmless_def get_request_def notion_request_def post_request_def harmless_body_simps)

lemma notion_is_not_todoist: "\<not> prefix API_BASE (NOTION_API_BASE @ path)"
  by (simp add: API_BASE_def NOTION_API_BASE_def)

interpretation rd: allowed_requests todoist_read env cfg for env cfg
  by unfold_locales (simp_all add: todoist_read_def get_request_def notion_request_def notion_is_not_todoist)

section \<open>Models and messages\<close>

lemma llm_request_harmless: "llm_request env cfg t sp req \<Longrightarrow> harmless req"
  by (auto simp: llm_request_def asks_with_def harmless_def harmless_body_simps gemini_payload_def chat_payload_def)

lemma polish_harmless: "sends_only harmless (polish_digest env cfg raw sp)"
  by (rule sends_only_mono [OF polish_digest_sends llm_request_harmless])

lemma call_llm_harmless: "sends_only harmless (call_llm env cfg user sp q)"
  by (rule sends_only_mono [OF call_llm_sends llm_request_harmless])

definition message_request :: "http_request \<Rightarrow> bool" where
  "message_request req \<longleftrightarrow> hr_method req = GET \<and> hr_url req = CALLMEBOT_URL \<and> hr_headers req = [] \<and> hr_body req = []"

interpretation nm: writing_requests "\<lambda>req. \<not> message_request req" env cfg for env cfg
  by unfold_locales
    (simp_all add: message_request_def get_request_def notion_request_def post_request_def todoist_headers_def)

lemma whatsapp_sends: "sends_only message_request (send_whatsapp server phone key message)"
  unfolding send_whatsapp_def
  by (auto intro!: sends_only_catch sends_only_bind sends_only_send simp: message_request_def
      simp del: io_ret_run io_raise_run)

lemma message_sends:
  assumes "\<And>req. message_request req \<Longrightarrow> P req"
  shows "sends_only P (send_to_user server cfg message)" and "sends_only P (send_to_secondary server cfg message)"
  unfolding send_to_user_def send_to_secondary_def by (rule sends_only_mono [OF whatsapp_sends assms], assumption)+

section \<open>The reading commands\<close>

text \<open>The commands that build a text read the tasks, may ask a language model, and print or send the result.\<close>

lemma digest_sends:
  assumes reads: "\<And>url params. P (get_request (todoist_client env cfg) url params)"
    and polish: "\<And>raw sp. sends_only P (polish_digest (llm_client env) cfg raw sp)"
    and model: "\<And>user sp q. sends_only P (call_llm (llm_client env) cfg user sp q)"
    and message: "\<not> ca_stdout args \<Longrightarrow> (\<And>req. message_request req \<Longrightarrow> P req)"
  shows "sends_only P (cmd_daily env cfg args)" and "sends_only P (cmd_weekend env cfg args)"
    and "sends_only P (cmd_weekly env cfg args)" and "sends_only P (cmd_alerts env cfg args)"
    and "sends_only P (cmd_analyze env cfg args)"
proof -
  note tasks = get_tasks_sends [of P, OF reads] get_filtered_sends [of P, OF reads] get_completed_sends [of P, OF reads]
    maps_send(2) [of P, OF reads]
  note queries = get_today_tasks_def get_upcoming_tasks_def get_weekend_tasks_def get_overdue_tasks_def
  have pol: "sends_only P (polished env cfg args prompt digest)" for prompt digest
    unfolding polished_def by (auto intro!: sends_only_bind polish simp del: io_ret_run io_res_run)
  have msg: "\<not> ca_stdout args \<Longrightarrow> sends_only P (send_to_user (cl_server env) cfg m)"
    "\<not> ca_stdout args \<Longrightarrow> sends_only P (send_to_secondary (cl_server env) cfg m)" for m
    using message by (auto intro!: message_sends)
  show "sends_only P (cmd_daily env cfg args)"
    unfolding cmd_daily_def Let_def queries
    by (intro sends_only_bind tasks pol) (auto intro!: sends_only_bind msg simp del: io_ret_run)
  show "sends_only P (cmd_weekend env cfg args)"
    unfolding cmd_weekend_def Let_def queries
    by (intro sends_only_bind tasks pol sends_only_res) (auto intro!: sends_only_bind msg simp del: io_ret_run)
  show "sends_only P (cmd_weekly env cfg args)"
    unfolding cmd_weekly_def Let_def by (intro sends_only_bind tasks pol sends_only_res sends_only_ret)
  show "sends_only P (cmd_alerts env cfg args)"
    unfolding cmd_alerts_def queries
    by (intro sends_only_bind tasks) (auto intro!: sends_only_bind msg simp del: io_ret_run split: option.splits)
  have board: "sends_only P (llm_analyze_board (llm_client env) a ts cfg)" for a ts
    unfolding llm_analyze_board_def by (intro sends_only_bind model sends_only_ret)
  show "sends_only P (cmd_analyze env cfg args)"
    unfolding cmd_analyze_def Let_def refused_def
    by (auto intro!: sends_only_bind tasks board msg simp del: io_ret_run io_res_run)
qed

text \<open>Reorganizing the board sends what the board code sends, and a message.\<close>

lemma organize_sends:
  assumes "\<And>opts. ro_dry_run opts = (\<not> ca_apply args) \<Longrightarrow>
      sends_only P (reorganize_board (todoist_client env cfg) (cl_fuel env) (cl_exc_text env) (cl_today env) cfg opts)"
    and "\<not> ca_stdout args \<Longrightarrow> (\<And>req. message_request req \<Longrightarrow> P req)"
  shows "sends_only P (cmd_organize env cfg args)"
proof -
  have msg: "\<not> ca_stdout args \<Longrightarrow> sends_only P (send_to_user (cl_server env) cfg m)" for m
    using assms(2) by (auto intro!: message_sends)
  show ?thesis
    unfolding cmd_organize_def Let_def refused_def
    by (auto intro!: sends_only_bind assms(1) msg simp del: io_ret_run)
qed

lemma dry_run_reads:
  assumes "ro_dry_run opts"
  shows "sends_only reads_only (reorganize_board env fuel x today cfg opts)"
proof (cases "cf_todoist_kanban_project_id cfg = []")
  case True
  then show ?thesis by (simp add: reorganize_board_def sends_only_ret del: io_ret_run)
next
  case False
  have "sends_only reads_only (reorganize_tasks env x today opts sections ts r)" for sections ts r
    unfolding sends_only_def
  proof (intro allI impI)
    fix n reqs s res n' reqs' s'
    assume "reorganize_tasks env x today opts sections ts r (n, reqs, s) = (res, n', reqs', s')"
    then have "reqs' = reqs" using reorganize_tasks_run [of env x today opts sections ts r n reqs s] assms by auto
    then show "\<exists>new. reqs' = reqs @ new \<and> list_all reads_only new" by simp
  qed
  then show ?thesis
    unfolding reorganize_board_run [OF False]
    by (auto intro!: sends_only_bind read_board_sends simp del: io_ret_run split: prod.splits)
qed

section \<open>What is printed\<close>

definition prints_only :: "'s command \<Rightarrow> bool" where
  "prints_only m \<longleftrightarrow> (\<forall>st c out st'. m st = (Inr (c, out), st') \<longrightarrow> list_all (\<lambda>x. \<exists>t. x = Printed t) out)"

lemma prints_only_ret: "list_all (\<lambda>x. \<exists>t. x = Printed t) out \<Longrightarrow> prints_only (io_ret (c, out))"
  by (simp add: prints_only_def)

lemma prints_only_bind: "(\<And>x. prints_only (f x)) \<Longrightarrow> prints_only (io_bind m f)"
  unfolding prints_only_def io_bind_Inr by blast

lemma commands_print:
  assumes "ca_stdout args"
  shows "prints_only (cmd_daily env cfg args)" and "prints_only (cmd_weekend env cfg args)"
    and "prints_only (cmd_weekly env cfg args)" and "prints_only (cmd_alerts env cfg args)"
    and "prints_only (cmd_analyze env cfg args)" and "prints_only (cmd_organize env cfg args)"
  unfolding cmd_daily_def cmd_weekend_def cmd_weekly_def cmd_alerts_def cmd_analyze_def cmd_organize_def Let_def
    refused_def print_digest_def
  using assms
  by (auto intro!: prints_only_bind prints_only_ret simp del: io_ret_run split: option.splits)

section \<open>A command line to evaluate\<close>

definition sample_cli :: "unit cli_env" where
  "sample_cli =
     \<lparr>cl_server = sample_board_server, cl_hostname = (\<lambda>_. None), cl_resolve = (\<lambda>_. None), cl_str = (\<lambda>_. []),
      cl_date_from_iso = (\<lambda>_. None), cl_from_iso = (\<lambda>_. None), cl_iso = (\<lambda>_. []), cl_smtp = (\<lambda>_ _. None),
      cl_imap = (\<lambda>_. None), cl_calendar = None, cl_prompt_file = (\<lambda>_. None), cl_exc_text = (\<lambda>_. []),
      cl_today = 738000, cl_now = \<lparr>wt_micros = 0, wt_offset = Some 0\<rparr>, cl_fuel = 2\<rparr>"

definition sample_args :: cli_args where
  "sample_args =
     \<lparr>ca_stdout = True, ca_no_llm = True, ca_apply = False, ca_no_move = False, ca_no_label = False, ca_full = True\<rparr>"

text \<open>The read-only flag is not consulted by the reorganization, so \<open>organize --apply\<close> writes in spite of it.\<close>

lemma organize_ignores_read_only:
  "reorganize_board env fuel x today (cfg\<lparr>cf_brain_read_only := b\<rparr>) opts = reorganize_board env fuel x today cfg opts"
  by (simp add: reorganize_board_def)

section \<open>Properties\<close>



text \<open>The read-only modes do not write to the task service: with the flag \<open>BRAIN_READ_ONLY\<close> set every request
a Notion sync sends to the task service is a read, whatever the servers answer; and reorganizing the board
without \<open>--apply\<close> sends nothing but reads.\<close>

theorem read_only_modes_never_write:
  assumes "cf_brain_read_only cfg" and "\<not> ca_apply args"
  shows "sends_only todoist_read (cmd_notion_sync env cfg args) \<and> sends_only reads_only (cmd_organize env cfg args)"
proof
  show "sends_only todoist_read (cmd_notion_sync env cfg args)" using assms(1) by (intro rd.sync_ok) simp
  show "sends_only reads_only (cmd_organize env cfg args)"
    using assms(2)
    by (intro organize_sends dry_run_reads) (simp_all add: message_request_def reads_only_def)
qed

theorem read_only_modes_never_write_witness:
  "sends_only todoist_read
     (cmd_notion_sync sample_cli (sample_board_settings\<lparr>cf_brain_read_only := True\<rparr>) sample_args)"
  using read_only_modes_never_write [of "sample_board_settings\<lparr>cf_brain_read_only := True\<rparr>" sample_args sample_cli]
  by (simp add: sample_args_def)

text \<open>Printing delivers nothing: with \<open>--stdout\<close> the digests, the alerts, the analysis and the reorganization
send no WhatsApp message and no mail, whatever the servers answer; all they produce is printed.\<close>

theorem printing_delivers_nothing:
  assumes "ca_stdout args"
    and "cmd \<in> {cmd_daily env cfg args, cmd_weekend env cfg args, cmd_weekly env cfg args, cmd_alerts env cfg args,
                 cmd_analyze env cfg args, cmd_organize env cfg args}"
  shows "sends_only (\<lambda>req. \<not> message_request req) cmd \<and> prints_only cmd"
proof -
  let ?P = "\<lambda>req. \<not> message_request req"
  have model: "llm_request env' cfg t sp req \<Longrightarrow> ?P req" for env' :: "'a llm_env" and t sp req
    by (simp add: llm_request_def message_request_def)
  have polish: "sends_only ?P (polish_digest (llm_client env) cfg raw sp)" for raw sp
    by (rule sends_only_mono [OF polish_digest_sends model])
  have call: "sends_only ?P (call_llm (llm_client env) cfg user sp q)" for user sp q
    by (rule sends_only_mono [OF call_llm_sends model])
  have printing: "\<not> ca_stdout args \<Longrightarrow> message_request req \<Longrightarrow> ?P req" for req using assms(1) by simp
  note digests = digest_sends [of ?P, OF nm.reads polish call printing]
  have "sends_only ?P (cmd_organize env cfg args)" by (rule organize_sends) (rule nm.reorganize_ok, rule printing)
  then show ?thesis
    using assms(2) digests commands_print [OF assms(1), of env cfg]
    by (elim insertE emptyE) (simp_all only: simp_thms)
qed

theorem printing_delivers_nothing_witness:
  "sends_only (\<lambda>req. \<not> message_request req) (cmd_alerts sample_cli sample_board_settings sample_args)"
  using printing_delivers_nothing [of sample_args "cmd_alerts sample_cli sample_board_settings sample_args" sample_cli
      sample_board_settings]
  by (simp add: sample_args_def)

end
