(* ===== verification/Vault.thy ===== *)
theory Vault
  imports Accounts Regex
begin

text \<open>
  The vault of personal API keys, \<open>src/brain/api/routes/vault.py\<close>: each key is a document below
  \<open>vault/<tenant>/<user>/\<close> whose value is encrypted for the tenant and the key's name. A stored key
  reads back for its user whatever the other users do, and no request without a user and the
  permission gets anywhere.
\<close>

section \<open>Names and paths\<close>

definition vault_prefix :: string where
  "vault_prefix = ''vault/''"

definition key_name_char :: "char \<Rightarrow> bool" where
  "key_name_char c \<longleftrightarrow> ascii_letter c \<or> re_digit c \<or> c = CHR ''_'' \<or> c = CHR ''-''"

definition key_name_pattern :: re where
  "key_name_pattern = Seq (Rep 1 (Some 64) key_name_char) TextEnd"

definition vault_user_prefix :: "string \<Rightarrow> string \<Rightarrow> string" where
  "vault_user_prefix tenant_id user_id = vault_prefix @ tenant_id @ CHR ''/'' # user_id @ ''/''"

definition vault_path :: "string \<Rightarrow> string \<Rightarrow> string \<Rightarrow> string" where
  "vault_path tenant_id user_id key_name =
     vault_prefix @ tenant_id @ CHR ''/'' # user_id @ CHR ''/'' # key_name @ ''.json''"

definition vault_field :: "string \<Rightarrow> string" where
  "vault_field key_name = ''vault_'' @ key_name"

section \<open>Routes\<close>

record key_list_item =
  kl_name :: string
  kl_description :: string
  kl_updated_at :: string

definition vault_user :: "request_state option \<Rightarrow> string res" where
  "vault_user st =
     (if \<not> jtruthy (caller_user_id st) then Inl (HTTPException 401 ''User context required'')
      else text_id (caller_user_id st))"

definition key_item :: "json \<Rightarrow> key_list_item option res" where
  "key_item data =
     (case data of
        JObj d \<Rightarrow>
          if d = [] then Inr None
          else rbind (str_field d ''name'' (Some [])) (\<lambda>name.
               rbind (str_field d ''description'' (Some [])) (\<lambda>description.
               rbind (str_field d ''updated_at'' (Some [])) (\<lambda>updated_at.
                 Inr (Some \<lparr>kl_name = name, kl_description = description, kl_updated_at = updated_at\<rparr>))))
      | v \<Rightarrow> if jtruthy v then Inl (OtherError ''AttributeError'') else Inr None)"

definition read_key_item :: "'s backend \<Rightarrow> string \<Rightarrow> ('s, key_list_item list) io" where
  "read_key_item be path =
     io_bind (io_read be path) (\<lambda>data.
       case data of
         None \<Rightarrow> io_ret []
       | Some v \<Rightarrow> io_bind (io_res (key_item v)) (\<lambda>item.
           io_ret (case item of Some i \<Rightarrow> [i] | None \<Rightarrow> [])))"

definition list_vault_keys :: "'s api_env \<Rightarrow> request_state option \<Rightarrow> ('s, key_list_item list) io" where
  "list_vault_keys env st =
     permitted env MANAGE_API_KEYS st
       (io_bind (io_res (current_tenant st)) (\<lambda>tid.
        io_bind (io_res (vault_user st)) (\<lambda>uid.
        io_bind (io_list (te_be (ae_tm env)) (vault_user_prefix tid uid)) (\<lambda>paths.
        io_bind (io_map (read_key_item (te_be (ae_tm env))) paths) (\<lambda>items. io_ret (concat items))))))"

definition vault_document ::
    "string \<Rightarrow> string \<Rightarrow> string \<Rightarrow> string \<Rightarrow> string \<Rightarrow> string \<Rightarrow> jdict" where
  "vault_document name description encrypted tid uid updated_at =
     [(''name'', JStr name), (''description'', JStr description), (''encrypted_value'', JStr encrypted),
      (''tenant_id'', JStr tid), (''user_id'', JStr uid), (''updated_at'', JStr updated_at)]"

definition store_vault_key ::
    "'s api_env \<Rightarrow> fresh \<Rightarrow> request_state option \<Rightarrow> string \<Rightarrow> string \<Rightarrow> string \<Rightarrow> ('s, string) io" where
  "store_vault_key env fr st name v description =
     permitted env MANAGE_API_KEYS st
       (io_bind (io_res (current_tenant st)) (\<lambda>tid.
        io_bind (io_res (vault_user st)) (\<lambda>uid.
          if \<not> re_match key_name_pattern name
          then io_raise (HTTPException 400 ''Key name must be 1-64 chars: alphanumeric, underscore, hyphen only.'')
          else if v = [] \<or> length v > 4096
          then io_raise (HTTPException 400 ''Key value must be 1-4096 characters.'')
          else io_bind (io_draw (te_rnd (ae_tm env))) (\<lambda>nonce.
               let encrypted = field_encrypt (te_crypto (ae_tm env)) (te_master (ae_tm env)) nonce v tid
                                 (vault_field name)
               in io_bind (io_write (te_be (ae_tm env)) (vault_path tid uid name)
                             (JObj (vault_document name description encrypted tid uid
                                      (te_iso (ae_tm env) (fr_now fr))))) (\<lambda>_.
                    io_ret name)))))"

definition vault_entry :: "'s api_env \<Rightarrow> string \<Rightarrow> ('s, json) io" where
  "vault_entry env path =
     io_bind (io_read (te_be (ae_tm env)) path) (\<lambda>data.
       case data of
         None \<Rightarrow> io_raise (HTTPException 404 ''Key not found in vault'')
       | Some JNull \<Rightarrow> io_raise (HTTPException 404 ''Key not found in vault'')
       | Some v \<Rightarrow> io_ret v)"

text \<open>Whatever goes wrong while decrypting, a missing field included, is the same answer.\<close>

definition open_vault_value :: "'s api_env \<Rightarrow> string \<Rightarrow> string \<Rightarrow> json \<Rightarrow> string res" where
  "open_vault_value env tid key_name data =
     (let failed = Inl (HTTPException 500 ''Failed to decrypt vault key. Master key may have changed.'') in
      case data of
        JObj d \<Rightarrow>
          (case map_of d ''encrypted_value'' of
             Some (JStr c) \<Rightarrow>
               (case field_decrypt (te_crypto (ae_tm env)) (te_master (ae_tm env)) c tid (vault_field key_name) of
                  Inr v \<Rightarrow> Inr v | Inl e \<Rightarrow> failed)
           | _ \<Rightarrow> failed)
      | _ \<Rightarrow> failed)"

definition get_vault_key :: "'s api_env \<Rightarrow> request_state option \<Rightarrow> string \<Rightarrow> ('s, string \<times> string) io" where
  "get_vault_key env st key_name =
     permitted env MANAGE_API_KEYS st
       (io_bind (io_res (current_tenant st)) (\<lambda>tid.
        io_bind (io_res (vault_user st)) (\<lambda>uid.
          if \<not> re_match key_name_pattern key_name
          then io_raise (HTTPException 400 ''Invalid key name format'')
          else io_bind (vault_entry env (vault_path tid uid key_name)) (\<lambda>data.
               io_bind (io_res (open_vault_value env tid key_name data)) (\<lambda>v. io_ret (key_name, v))))))"

definition delete_vault_key :: "'s api_env \<Rightarrow> request_state option \<Rightarrow> string \<Rightarrow> ('s, string) io" where
  "delete_vault_key env st key_name =
     permitted env MANAGE_API_KEYS st
       (io_bind (io_res (current_tenant st)) (\<lambda>tid.
        io_bind (io_res (vault_user st)) (\<lambda>uid.
          if \<not> re_match key_name_pattern key_name
          then io_raise (HTTPException 400 ''Invalid key name format'')
          else io_bind (vault_entry env (vault_path tid uid key_name)) (\<lambda>data.
               io_bind (io_delete (te_be (ae_tm env)) (vault_path tid uid key_name)) (\<lambda>_.
                 io_ret key_name)))))"

end
