(* ===== verification/VaultLaws.thy ===== *)
theory VaultLaws
  imports Vault TenantRouteLaws Pipeline
begin

text \<open>
  What the vault guarantees: a stored key reads back for the user who stored it, whatever requests the
  other users of the service make afterwards; a request without the permission or without a user changes
  nothing; names cannot leave the user's directory.
\<close>

section \<open>Names and paths\<close>

lemma run_then_end:
  assumes "re_match (Seq (Rep m (Some n) p) TextEnd) t"
  shows "m \<le> length t \<and> length t \<le> Suc n \<and> (\<forall>c \<in> set t. p c \<or> c = CHR 0x0A)"
proof -
  from assms obtain j k where kj: "k \<in> set (re_ends t (Rep m (Some n) p) 0)" and j: "j \<in> set (re_ends t TextEnd k)"
    unfolding re_match_iff seq_ends by blast
  from kj have k: "m \<le> k" "k \<le> length t" "list_all p (take k t)" "k \<le> n"
    unfolding rep_ends by (simp_all only: add_0 drop_0 option.case ex_simps) blast+
  from j have e: "k = length t \<or> Suc k = length t \<and> t ! k = CHR 0x0A" unfolding text_end_ends by blast
  have "set (drop k t) \<subseteq> {CHR 0x0A}"
  proof (cases "k = length t")
    case False
    with e have "drop k t = [t ! k]" by (metis Cons_nth_drop_Suc drop_all le_refl lessI)
    with e False show ?thesis by simp
  qed simp
  moreover have "set t = set (take k t) \<union> set (drop k t)" by (metis append_take_drop_id set_append)
  ultimately show ?thesis using k e by (auto simp: list_all_iff)
qed

lemma key_name_chars:
  assumes "re_match key_name_pattern name"
  shows "name \<noteq> [] \<and> CHR ''/'' \<notin> set name \<and> CHR 0x5C \<notin> set name \<and> CHR ''.'' \<notin> set name"
  using run_then_end [OF assms [unfolded key_name_pattern_def]]
  by (auto simp: key_name_char_def ascii_letter_def re_digit_def less_eq_char_def)

text \<open>The dollar of the pattern lets one final newline through.\<close>

lemma key_name_final_newline: "re_match key_name_pattern (''a'' @ [CHR 0x0A])"
  by (simp add: key_name_pattern_def re_match_def key_name_char_def ascii_letter_def re_digit_def run_length_def
      Let_def less_eq_char_def upt_rec)

lemma vault_path_join: "vault_path t u name = py_join ''/'' [''vault'', t, u, name @ ''.json'']"
  by (simp add: vault_path_def vault_prefix_def)

lemma vault_path_canonical:
  assumes "part_ok t" and "part_ok u" and "re_match key_name_pattern name"
  shows "canonical_key (vault_path t u name)"
proof -
  have "part_ok (name @ ''.json'')" using key_name_chars [OF assms(3)] by (intro part_json) simp_all
  moreover have "part_ok ''vault''" by (simp add: part_ok_def)
  ultimately show ?thesis unfolding vault_path_join
    using assms by (intro join_canonical) (simp_all add: suffix_def)
qed

lemma vault_path_inj:
  assumes "part_ok t" and "part_ok t'" and "part_ok u" and "part_ok u'"
    and "vault_path t u name = vault_path t' u' name'"
  shows "t = t' \<and> u = u' \<and> name = name'"
proof -
  have "t @ CHR ''/'' # u @ CHR ''/'' # name @ ''.json'' = t' @ CHR ''/'' # u' @ CHR ''/'' # name' @ ''.json''"
    using assms(5) by (simp add: vault_path_def vault_prefix_def)
  moreover have "CHR ''/'' \<notin> set t" "CHR ''/'' \<notin> set t'" "CHR ''/'' \<notin> set u" "CHR ''/'' \<notin> set u'"
    using assms(1-4) by (simp_all add: part_ok_def)
  ultimately show ?thesis by (simp add: sep_inj)
qed

section \<open>Operations of other users\<close>

datatype vault_op = VaultList | VaultStore string string string | VaultGet string | VaultDelete string

fun vault_step :: "'s api_env \<Rightarrow> fresh \<Rightarrow> request_state option \<Rightarrow> vault_op \<Rightarrow> nat \<times> 's \<Rightarrow> nat \<times> 's" where
  "vault_step env fr st VaultList ns = snd (list_vault_keys env st ns)"
| "vault_step env fr st (VaultStore name v descr) ns = snd (store_vault_key env fr st name v descr ns)"
| "vault_step env fr st (VaultGet name) ns = snd (get_vault_key env st name ns)"
| "vault_step env fr st (VaultDelete name) ns = snd (delete_vault_key env st name ns)"

fun vault_run :: "'s api_env \<Rightarrow> (fresh \<times> request_state option \<times> vault_op) list \<Rightarrow> nat \<times> 's \<Rightarrow> nat \<times> 's" where
  "vault_run env [] ns = ns"
| "vault_run env ((fr, st, op) # ops) ns = vault_run env ops (vault_step env fr st op ns)"

definition vault_caller :: "request_state option \<Rightarrow> string \<Rightarrow> string \<Rightarrow> bool" where
  "vault_caller st t u \<longleftrightarrow> current_tenant st = Inr t \<and> vault_user st = Inr u"

definition someone_else :: "string \<Rightarrow> string \<Rightarrow> request_state option \<Rightarrow> bool" where
  "someone_else t u st \<longleftrightarrow> (\<forall>t' u'. vault_caller st t' u' \<longrightarrow> part_ok t' \<and> part_ok u' \<and> (t', u') \<noteq> (t, u))"

lemma io_keeps_map [intro]: "(\<And>x. x \<in> set xs \<Longrightarrow> io_keeps P (f x)) \<Longrightarrow> io_keeps P (io_map f xs)"
proof (induction xs)
  case Nil
  show ?case unfolding io_map.simps by (rule io_keeps_ret)
next
  case (Cons x xs)
  then show ?case unfolding io_map.simps by (intro io_keeps_bind io_keeps_ret) simp_all
qed

lemma io_keeps_end: "io_keeps P m \<Longrightarrow> P s \<Longrightarrow> P (snd (snd (m (n, s))))"
  unfolding io_keeps_def by (metis surjective_pairing)

lemma io_keeps_caller:
  assumes "\<And>t u. vault_caller st t u \<Longrightarrow> io_keeps P (f t u)"
  shows "io_keeps P (io_bind (io_res (current_tenant st)) (\<lambda>tid. io_bind (io_res (vault_user st)) (f tid)))"
  using assms by (cases "current_tenant st"; cases "vault_user st")
    (simp_all add: vault_caller_def io_keeps_raise del: io_raise_run io_ret_run io_res_run)

lemma io_keeps_permitted: "io_keeps P h \<Longrightarrow> io_keeps P (permitted env p st h)"
  unfolding permitted_def by (intro io_keeps_bind io_keeps_res)

lemma vault_entry_keeps: "io_keeps P (vault_entry env path)"
  unfolding vault_entry_def by (auto intro!: io_keeps_bind io_keeps_read io_keeps_raise io_keeps_ret split: option.splits json.splits)

lemma read_key_item_keeps: "io_keeps P (read_key_item be path)"
  unfolding read_key_item_def by (auto intro!: io_keeps_bind io_keeps_read io_keeps_res io_keeps_ret split: option.splits)

lemma local_write_keeps:
  assumes "canonical_key p" and "canonical_key k" and "k \<noteq> p"
  shows "io_keeps (\<lambda>s. be_read_json (local_backend parse render base) k s = x)
    (io_write (local_backend parse render base) p v)"
  using local_store.write_keeps [OF assms(1) TrueI assms(2,3)] by simp

lemma local_delete_keeps:
  assumes "canonical_key p" and "canonical_key k" and "k \<noteq> p"
  shows "io_keeps (\<lambda>s. be_read_json (local_backend parse render base) k s = x)
    (io_delete (local_backend parse render base) p)"
  using local_store.delete_frame [OF TrueI assms(1) _ assms(2,3)]
  by (auto simp: io_keeps_def io_delete_def split: prod.splits)

lemma vault_step_keeps:
  assumes be: "te_be (ae_tm env) = local_backend parse render base"
    and key: "part_ok t" "part_ok u" "re_match key_name_pattern name" and other: "someone_else t u st"
  shows "be_read_json (te_be (ae_tm env)) (vault_path t u name) (snd (vault_step env fr st op (n, s))) =
    be_read_json (te_be (ae_tm env)) (vault_path t u name) s"
proof -
  define P where "P = (\<lambda>s'. be_read_json (te_be (ae_tm env)) (vault_path t u name) s' =
    be_read_json (te_be (ae_tm env)) (vault_path t u name) s)"
  have puts: "io_keeps P (io_write (te_be (ae_tm env)) (vault_path t' u' m) v)"
      "io_keeps P (io_delete (te_be (ae_tm env)) (vault_path t' u' m))"
    if c: "vault_caller st t' u'" and m: "re_match key_name_pattern m" for t' u' m v
  proof -
    from other c have ok: "part_ok t'" "part_ok u'" "(t', u') \<noteq> (t, u)" by (auto simp: someone_else_def)
    then have "vault_path t u name \<noteq> vault_path t' u' m" using vault_path_inj [OF key(1) ok(1) key(2) ok(2)] by blast
    note paths = vault_path_canonical [OF ok(1,2) m] vault_path_canonical [OF key] this
    show "io_keeps P (io_write (te_be (ae_tm env)) (vault_path t' u' m) v)"
        "io_keeps P (io_delete (te_be (ae_tm env)) (vault_path t' u' m))"
      unfolding P_def be using local_write_keeps [OF paths] local_delete_keeps [OF paths] by blast+
  qed
  have "io_keeps P (list_vault_keys env st)"
    unfolding list_vault_keys_def
    by (rule io_keeps_permitted, rule io_keeps_caller)
      (intro io_keeps_bind io_keeps_list io_keeps_map read_key_item_keeps io_keeps_ret)
  moreover have "io_keeps P (store_vault_key env fr st m v d)" for m v d
    unfolding store_vault_key_def Let_def
    by (rule io_keeps_permitted, rule io_keeps_caller, split if_split, intro conjI impI io_keeps_raise,
        split if_split, intro conjI impI io_keeps_raise io_keeps_bind io_keeps_draw io_keeps_ret puts(1)) simp_all
  moreover have "io_keeps P (get_vault_key env st m)" for m
    unfolding get_vault_key_def
    by (rule io_keeps_permitted, rule io_keeps_caller, split if_split,
        intro conjI impI io_keeps_raise io_keeps_bind io_keeps_res io_keeps_ret vault_entry_keeps)
  moreover have "io_keeps P (delete_vault_key env st m)" for m
    unfolding delete_vault_key_def
    by (rule io_keeps_permitted, rule io_keeps_caller, split if_split,
        intro conjI impI io_keeps_raise io_keeps_bind io_keeps_ret vault_entry_keeps puts(2)) simp_all
  moreover have "P s" by (simp add: P_def)
  ultimately have "P (snd (vault_step env fr st op (n, s)))"
    by (cases op) (simp_all add: io_keeps_end)
  then show ?thesis by (simp add: P_def)
qed

lemma vault_run_keeps:
  assumes be: "te_be (ae_tm env) = local_backend parse render base"
    and key: "part_ok t" "part_ok u" "re_match key_name_pattern name"
    and others: "\<forall>(fr, st, op) \<in> set ops. someone_else t u st"
  shows "be_read_json (te_be (ae_tm env)) (vault_path t u name) (snd (vault_run env ops ns)) =
    be_read_json (te_be (ae_tm env)) (vault_path t u name) (snd ns)"
  using others
proof (induction ops arbitrary: ns)
  case (Cons x ops)
  obtain fr st op where x: "x = (fr, st, op)" by (cases x)
  with Cons.prems vault_step_keeps [OF be key, of st fr op "fst ns" "snd ns"] Cons.IH show ?case by auto
qed simp

lemma store_vault_key_Inr:
  assumes "store_vault_key env fr st name v descr (n, s) = (Inr r, n', s')" and "vault_caller st t u"
  shows "RequirePermission (ae_policy env) MANAGE_API_KEYS st = Inr () \<and> re_match key_name_pattern name
    \<and> be_write_json (te_be (ae_tm env)) (vault_path t u name)
        (JObj (vault_document name descr (field_encrypt (te_crypto (ae_tm env)) (te_master (ae_tm env))
           (te_rnd (ae_tm env) n) v t (vault_field name)) t u (te_iso (ae_tm env) (fr_now fr)))) s = (Inr (), s')"
proof -
  have c: "current_tenant st = Inr t" "vault_user st = Inr u" using assms(2) by (simp_all add: vault_caller_def)
  from assms(1) show ?thesis
    unfolding store_vault_key_def permitted_Inr
    by (auto simp: c io_bind_Inr io_write_run Let_def split: if_splits)
qed

lemma vault_reads_back:
  assumes "env_good (ae_tm env)" and "vault_caller st t u"
    and "RequirePermission (ae_policy env) MANAGE_API_KEYS st = Inr ()" and "re_match key_name_pattern name"
    and "be_read_json (te_be (ae_tm env)) (vault_path t u name) s =
      Inr (Some (JObj (vault_document name descr (field_encrypt (te_crypto (ae_tm env)) (te_master (ae_tm env))
           (te_rnd (ae_tm env) m) v t (vault_field name)) t u iso_text)))"
  shows "get_vault_key env st name (n, s) = (Inr (name, v), n, s)"
proof -
  have "field_decrypt (te_crypto (ae_tm env)) (te_master (ae_tm env)) (field_encrypt (te_crypto (ae_tm env))
      (te_master (ae_tm env)) (te_rnd (ae_tm env) m) v t (vault_field name)) t (vault_field name) = Inr v"
    using assms(1) field_decrypt_encrypt by (simp add: env_good_def)
  then have "open_vault_value env t name (JObj (vault_document name descr (field_encrypt (te_crypto (ae_tm env))
      (te_master (ae_tm env)) (te_rnd (ae_tm env) m) v t (vault_field name)) t u iso_text)) = Inr v"
    by (simp add: open_vault_value_def vault_document_def)
  with assms(2-5) show ?thesis
    by (simp add: get_vault_key_def permitted_def vault_caller_def vault_entry_def io_bind_run)
qed

text \<open>Without the permission, or with a token that names no user, a request changes nothing.\<close>

lemma vault_refuses:
  assumes "RequirePermission (ae_policy env) MANAGE_API_KEYS st \<noteq> Inr () \<or> \<not> jtruthy (caller_user_id st)"
  shows "vault_step env fr st op ns = ns"
  using assms
  by (cases "RequirePermission (ae_policy env) MANAGE_API_KEYS st"; cases "current_tenant st"; cases op)
    (auto simp: list_vault_keys_def store_vault_key_def get_vault_key_def delete_vault_key_def permitted_def
      io_bind_run vault_user_def)

text \<open>A token from an API-key login names no user, so it never opens the vault.\<close>

lemma vault_refuses_api_key_login: "vault_step env fr (Some sample_caller) op ns = ns"
  by (rule vault_refuses) (simp add: caller_user_id_def sample_caller_def)

section \<open>A concrete vault\<close>

definition vault_member :: "string \<Rightarrow> request_state" where
  "vault_member u = sample_caller\<lparr>st_user_id := JStr u\<rparr>"

lemma vault_member_caller:
  "u \<noteq> [] \<Longrightarrow> vault_caller (Some (vault_member u)) t' u' \<longleftrightarrow> t' = ''tn_1'' \<and> u' = u"
  by (auto simp: vault_caller_def current_tenant_def get_current_tenant_id_def vault_user_def caller_user_id_def
      vault_member_def sample_caller_def text_id_def)

lemma vault_member_permitted: "RequirePermission \<lparr>custom_roles = []\<rparr> MANAGE_API_KEYS (Some (vault_member u)) = Inr ()"
  by (simp add: RequirePermission_iff vault_member_def sample_caller_def claims_access_text check_access_def
      has_permission_def get_permissions_def tier_roles_def all_permissions_def)

lemma disk_parts: "te_be (ae_tm disk_api) = local_backend (\<lambda>_. None) (\<lambda>_. []) (py_path ''/data'')"
    "env_good (ae_tm disk_api)" "ae_policy disk_api = \<lparr>custom_roles = []\<rparr>"
  by (simp_all add: disk_api_def sample_env_be sample_env_good)

lemma sample_vault_store:
  "\<exists>n fs. store_vault_key disk_api sample_fresh (Some (vault_member ''u1'')) ''groq'' ''k3y'' [] (0, []) = (Inr ''groq'', n, fs)"
proof -
  have "vault_caller (Some (vault_member ''u1'')) ''tn_1'' ''u1''" by (simp add: vault_member_caller)
  then have c: "current_tenant (Some (vault_member ''u1'')) = Inr ''tn_1''" "vault_user (Some (vault_member ''u1'')) = Inr ''u1''"
    by (simp_all add: vault_caller_def)
  have m: "re_match key_name_pattern ''groq''"
    by (simp add: key_name_pattern_def re_match_def key_name_char_def ascii_letter_def re_digit_def run_length_def
        Let_def less_eq_char_def upt_rec)
  have "\<exists>n fs. io_write (local_backend (\<lambda>_. None) (\<lambda>_. []) (py_path ''/data'')) (vault_path ''tn_1'' ''u1'' ''groq'') v (k, []) =
      (Inr (), n, fs)" for v k
    by (simp add: io_write_def local_backend_def local_write_json_def local_write_def resolve_key_def py_path_def
        leading_slashes_def path_join_def path_text_def can_write_def is_dir_def strictly_under_def put_file_def
        tmp_path_def name_stem_def vault_path_def vault_prefix_def)
  note w = this
  let ?doc = "\<lambda>nonce. JObj (vault_document ''groq'' [] (field_encrypt (te_crypto (ae_tm disk_api))
      (te_master (ae_tm disk_api)) nonce ''k3y'' ''tn_1'' (vault_field ''groq'')) ''tn_1'' ''u1''
      (te_iso (ae_tm disk_api) (fr_now sample_fresh)))"
  have "store_vault_key disk_api sample_fresh (Some (vault_member ''u1'')) ''groq'' ''k3y'' [] (0, []) =
      io_bind (io_write (local_backend (\<lambda>_. None) (\<lambda>_. []) (py_path ''/data'')) (vault_path ''tn_1'' ''u1'' ''groq'')
        (?doc (te_rnd (ae_tm disk_api) 0))) (\<lambda>_. io_ret ''groq'') (Suc 0, [])"
    by (simp add: store_vault_key_def permitted_def vault_member_permitted disk_parts c m io_bind_run Let_def)
  with w [of "?doc (te_rnd (ae_tm disk_api) 0)" "Suc 0"] show ?thesis by (auto simp: io_bind_run)
qed

section \<open>Properties\<close>

text \<open>C22. A key a user stored in the vault reads back as the value given, for that user, whatever requests
other users and tenants make to the vault in between.\<close>

theorem vault_key_reads_back:
  assumes "te_be (ae_tm env) = local_backend parse render base" and "env_good (ae_tm env)"
    and "vault_caller st t u" and "part_ok t" and "part_ok u"
    and "store_vault_key env fr st name v descr (n, s) = (Inr r, n', s')"
    and "\<forall>(fr, st', op) \<in> set ops. someone_else t u st'"
    and "vault_run env ops (n', s') = (n2, s2)"
  shows "get_vault_key env st name (n2, s2) = (Inr (name, v), n2, s2)"
proof -
  note w = store_vault_key_Inr [OF assms(6,3)]
  then have name: "re_match key_name_pattern name" by simp
  note key = vault_path_canonical [OF assms(4,5) name]
  have stored: "be_read_json (te_be (ae_tm env)) (vault_path t u name) s' =
      Inr (Some (JObj (vault_document name descr (field_encrypt (te_crypto (ae_tm env)) (te_master (ae_tm env))
           (te_rnd (ae_tm env) n) v t (vault_field name)) t u (te_iso (ae_tm env) (fr_now fr)))))"
    using w unfolding assms(1) by (elim conjE) (rule local_store.write_read [OF TrueI key TrueI])
  show ?thesis
  proof (rule vault_reads_back [OF assms(2,3) _ name])
    show "RequirePermission (ae_policy env) MANAGE_API_KEYS st = Inr ()" using w by simp
    show "be_read_json (te_be (ae_tm env)) (vault_path t u name) s2 =
      Inr (Some (JObj (vault_document name descr (field_encrypt (te_crypto (ae_tm env)) (te_master (ae_tm env))
           (te_rnd (ae_tm env) n) v t (vault_field name)) t u (te_iso (ae_tm env) (fr_now fr)))))"
      using vault_run_keeps [OF assms(1,4,5) name assms(7), of "(n', s')"] stored by (simp add: assms(8))
  qed
qed

theorem vault_key_reads_back_witness:
  "\<exists>ns. fst (get_vault_key disk_api (Some (vault_member ''u1'')) ''groq''
     (vault_run disk_api [(sample_fresh, Some (vault_member ''u2''), VaultStore ''groq'' ''other'' []),
                          (sample_fresh, Some (vault_member ''u2''), VaultDelete ''groq'')] ns)) = Inr (''groq'', ''k3y'')"
proof -
  let ?ops = "[(sample_fresh, Some (vault_member ''u2''), VaultStore ''groq'' ''other'' []),
               (sample_fresh, Some (vault_member ''u2''), VaultDelete ''groq'')]"
  obtain n fs where st: "store_vault_key disk_api sample_fresh (Some (vault_member ''u1'')) ''groq'' ''k3y'' [] (0, []) =
      (Inr ''groq'', n, fs)" using sample_vault_store by blast
  obtain n2 fs2 where run: "vault_run disk_api ?ops (n, fs) = (n2, fs2)" by (cases "vault_run disk_api ?ops (n, fs)")
  have else': "\<forall>(fr, st', op) \<in> set ?ops. someone_else ''tn_1'' ''u1'' st'"
    by (simp add: someone_else_def vault_member_caller part_ok_def)
  have "vault_caller (Some (vault_member ''u1'')) ''tn_1'' ''u1''" by (simp add: vault_member_caller)
  moreover have "part_ok ''tn_1''" "part_ok ''u1''" by (simp_all add: part_ok_def)
  ultimately have "get_vault_key disk_api (Some (vault_member ''u1'')) ''groq'' (n2, fs2) = (Inr (''groq'', ''k3y''), n2, fs2)"
    by (rule vault_key_reads_back [OF disk_parts(1,2) _ _ _ st else' run])
  with run have "fst (get_vault_key disk_api (Some (vault_member ''u1'')) ''groq'' (vault_run disk_api ?ops (n, fs))) =
      Inr (''groq'', ''k3y'')" by simp
  then show ?thesis by blast
qed

end
