(* ===== verification/DataRoutes.thy ===== *)
theory DataRoutes
  imports Accounts Regex Medallion
begin

text \<open>
  Reading the layers over HTTP: the data explorer (\<open>src/brain/api/routes/data_explorer.py\<close>), the
  ranked tasks (\<open>routes/tasks.py\<close>) and the daily digest (\<open>routes/digests.py\<close>). A document of
  another shape than the layers write, and a field of another type, raises; the conversions pydantic
  makes between types are left out. The text of the set of layers in an error message depends on the
  hash seed and is the argument \<open>shown\<close>.
\<close>

section \<open>Text replacement\<close>

text \<open>\<open>s.replace(old, new)\<close> for a nonempty \<open>old\<close>.\<close>

function replace_all_text :: "string \<Rightarrow> string \<Rightarrow> string \<Rightarrow> string" where
  "replace_all_text old new s =
     (if old = [] \<or> s = [] then s
      else if prefix old s then new @ replace_all_text old new (drop (length old) s)
      else hd s # replace_all_text old new (tl s))"
  by pat_completeness auto
termination by (relation "measure (\<lambda>(old, new, s). length s)") auto

declare replace_all_text.simps [simp del]

definition replace_char :: "char \<Rightarrow> char \<Rightarrow> string \<Rightarrow> string" where
  "replace_char a b s = map (\<lambda>c. if c = a then b else c) s"

section \<open>Layers\<close>

record layer_info =
  li_name :: string
  li_description :: string
  li_permission_required :: string

record dataset_info =
  di_name :: string
  di_layer :: string
  di_path :: string

record dataset_page =
  dp_layer :: string
  dp_dataset :: string
  dp_records :: "jdict list"
  dp_count :: nat
  dp_page :: int
  dp_page_size :: int

record dataset_stats =
  ds_layer :: string
  ds_dataset :: string
  ds_record_count :: nat
  ds_keys :: "string list"
  ds_processed_at :: "string option"

definition valid_layers :: "string list" where
  "valid_layers = [''bronze'', ''silver'', ''gold'']"

definition max_page_size :: int where
  "max_page_size = 100"

definition layer_permission :: "string \<Rightarrow> permission" where
  "layer_permission layer =
     (if layer = ''bronze'' then READ_BRONZE else if layer = ''silver'' then READ_SILVER else READ_GOLD)"

definition layer_description :: "string \<Rightarrow> string" where
  "layer_description layer =
     (if layer = ''bronze'' then ''Raw data as received from sources (Todoist, Notion, Calendar, Gmail)''
      else if layer = ''silver'' then ''Validated, deduplicated, PII-masked data with schema enforcement''
      else ''Scored tasks, daily digests, and aggregated insights'')"

definition list_layers :: "request_state option \<Rightarrow> layer_info list res" where
  "list_layers st =
     rbind (get_current_tenant_id st) (\<lambda>_.
       Inr (map (\<lambda>name. \<lparr>li_name = name, li_description = layer_description name,
                         li_permission_required = permission_value (layer_permission name)\<rparr>) valid_layers))"

text \<open>The checks every dataset route starts with; the policy is a new one, without custom roles.\<close>

definition layer_gate :: "string \<Rightarrow> request_state option \<Rightarrow> string \<Rightarrow> unit res" where
  "layer_gate shown st layer =
     (if layer \<notin> set valid_layers then Inl (HTTPException 400 (''Invalid layer. Must be one of: '' @ shown))
      else let role = (case st of Some s \<Rightarrow> st_role s | None \<Rightarrow> JStr ''free'');
               user_role = (case st of Some s \<Rightarrow> st_user_role s | None \<Rightarrow> JStr [])
           in rbind (claims_access \<lparr>custom_roles = []\<rparr> role user_role (layer_permission layer)) (\<lambda>ok.
                if \<not> ok then Inl (HTTPException 403 (''No access to '' @ layer @ '' layer'')) else Inr ()))"

definition layer_prefix :: "string \<Rightarrow> string \<Rightarrow> string" where
  "layer_prefix layer tenant_id = layer @ CHR ''/'' # tenant_id @ ''/''"

definition dataset_name :: "string \<Rightarrow> string \<Rightarrow> string" where
  "dataset_name pre path =
     replace_all_text ''.json'' [] (replace_char (CHR ''/'') (CHR ''_'') (replace_all_text pre [] path))"

definition list_datasets ::
    "'s api_env \<Rightarrow> string \<Rightarrow> request_state option \<Rightarrow> string \<Rightarrow> ('s, dataset_info list) io" where
  "list_datasets env shown st layer =
     io_bind (io_res (current_tenant st)) (\<lambda>tid.
     io_bind (io_res (layer_gate shown st layer)) (\<lambda>_.
     io_bind (io_list (te_be (ae_tm env)) (layer_prefix layer tid)) (\<lambda>paths.
       io_ret (map (\<lambda>path. \<lparr>di_name = dataset_name (layer_prefix layer tid) path, di_layer = layer, di_path = path\<rparr>)
                 (filter (suffix ''.json'') paths)))))"

section \<open>Datasets\<close>

definition dataset_char :: "char \<Rightarrow> bool" where
  "dataset_char c \<longleftrightarrow> ascii_letter c \<or> re_digit c \<or> c = CHR ''_'' \<or> c = CHR ''-''"

definition dataset_pattern :: re where
  "dataset_pattern = Seq (Rep 1 (Some 128) dataset_char) TextEnd"

definition known_datasets :: "string \<Rightarrow> string \<Rightarrow> (string \<times> string) list" where
  "known_datasets layer tid =
     (let pre = layer_prefix layer tid in
      [(''todoist_tasks'', pre @ ''todoist/tasks.json''), (''calendar_events'', pre @ ''calendar/events.json''),
       (''gmail_alerts'', pre @ ''gmail/alerts.json''), (''scored_tasks'', pre @ ''scored_tasks.json''),
       (''daily_digest'', pre @ ''daily_digest.json''), (''weekly_review'', pre @ ''weekly_review.json'')])"

definition resolve_dataset_path :: "string \<Rightarrow> string \<Rightarrow> string \<Rightarrow> string res" where
  "resolve_dataset_path layer tid dataset =
     (if \<not> re_match dataset_pattern dataset then Inl (HTTPException 400 ''Invalid dataset name'')
      else Inr (case map_of (known_datasets layer tid) dataset of
                  Some path \<Rightarrow> path
                | None \<Rightarrow> layer_prefix layer tid @ replace_char (CHR ''_'') (CHR ''/'') dataset @ ''.json''))"

definition dataset_document ::
    "'s api_env \<Rightarrow> string \<Rightarrow> request_state option \<Rightarrow> string \<Rightarrow> string \<Rightarrow> ('s, json) io" where
  "dataset_document env shown st layer dataset =
     io_bind (io_res (current_tenant st)) (\<lambda>tid.
     io_bind (io_res (layer_gate shown st layer)) (\<lambda>_.
     io_bind (io_res (resolve_dataset_path layer tid dataset)) (\<lambda>path.
     io_bind (io_read (te_be (ae_tm env)) path) (\<lambda>data.
       case data of
         None \<Rightarrow> io_raise (HTTPException 404 ''Dataset not found'')
       | Some JNull \<Rightarrow> io_raise (HTTPException 404 ''Dataset not found'')
       | Some v \<Rightarrow> io_ret v))))"

text \<open>\<open>data.get\<close> comes first, so a document that is a list raises before it is looked at as one.\<close>

definition document_records :: "json \<Rightarrow> json res" where
  "document_records data = rbind (as_dict data) (\<lambda>d. Inr (dget d ''records'' (JArr [])))"

definition page_of :: "string \<Rightarrow> string \<Rightarrow> int \<Rightarrow> int \<Rightarrow> json \<Rightarrow> dataset_page res" where
  "page_of layer dataset page page_size data =
     rbind (document_records data) (\<lambda>records.
     rbind (as_list records) (\<lambda>rows.
       let start = nat ((page - 1) * page_size); stop = start + nat page_size
       in rbind (rmap as_dict (drop start (take stop rows))) (\<lambda>ds.
            Inr \<lparr>dp_layer = layer, dp_dataset = dataset, dp_records = ds, dp_count = length rows,
                 dp_page = page, dp_page_size = page_size\<rparr>)))"

definition read_dataset ::
    "'s api_env \<Rightarrow> string \<Rightarrow> request_state option \<Rightarrow> string \<Rightarrow> string \<Rightarrow> int \<Rightarrow> int \<Rightarrow> ('s, dataset_page) io" where
  "read_dataset env shown st layer dataset page page_size =
     io_bind (io_res (get_current_tenant_id st)) (\<lambda>_.
       if page < 1 \<or> page > 10000 \<or> page_size < 1 \<or> page_size > max_page_size
       then io_raise (HTTPException 422 ''Unprocessable Entity'')
       else io_bind (dataset_document env shown st layer dataset) (\<lambda>data.
              io_res (page_of layer dataset page page_size data)))"

definition record_keys :: "json \<Rightarrow> (nat \<times> string list) res" where
  "record_keys records =
     (case records of
        JArr (JObj d # rows) \<Rightarrow> Inr (Suc (length rows), map fst d)
      | JArr [] \<Rightarrow> Inr (0, [])
      | JObj [] \<Rightarrow> Inr (0, [])
      | JStr [] \<Rightarrow> Inr (0, [])
      | JArr _ \<Rightarrow> Inl (OtherError ''AttributeError'')
      | _ \<Rightarrow> Inl (OtherError ''TypeError''))"

definition stats_of :: "string \<Rightarrow> string \<Rightarrow> json \<Rightarrow> dataset_stats res" where
  "stats_of layer dataset data =
     rbind (as_dict data) (\<lambda>d.
     rbind (record_keys (dget d ''records'' (JArr []))) (\<lambda>(n, keys).
     rbind (case dget d ''processed_at'' JNull of
              JNull \<Rightarrow> Inr None | JStr t \<Rightarrow> Inr (Some t) | _ \<Rightarrow> Inl (OtherError ''TypeError'')) (\<lambda>processed_at.
       Inr \<lparr>ds_layer = layer, ds_dataset = dataset, ds_record_count = n, ds_keys = keys,
            ds_processed_at = processed_at\<rparr>)))"

definition dataset_stats_route ::
    "'s api_env \<Rightarrow> string \<Rightarrow> request_state option \<Rightarrow> string \<Rightarrow> string \<Rightarrow> ('s, dataset_stats) io" where
  "dataset_stats_route env shown st layer dataset =
     io_bind (dataset_document env shown st layer dataset) (\<lambda>data. io_res (stats_of layer dataset data))"

section \<open>Ranked tasks\<close>

record scored_response =
  rp_task_id :: string
  rp_content :: string
  rp_project_name :: string
  rp_section_name :: string
  rp_priority :: int
  rp_score :: int
  rp_reasons :: "string list"
  rp_due_date :: "string option"
  rp_labels :: "string list"
  rp_duration_minutes :: "int option"

record scored_list_response =
  sl_tenant_id :: string
  sl_record_count :: nat
  sl_weekend_mode :: bool
  sl_tasks :: "scored_response list"

definition as_text :: "json \<Rightarrow> string res" where
  "as_text v = (case v of JStr s \<Rightarrow> Inr s | _ \<Rightarrow> Inl (OtherError ''ValidationError''))"

definition text_list :: "json \<Rightarrow> string list res" where
  "text_list v = (case v of JArr xs \<Rightarrow> rmap as_text xs | _ \<Rightarrow> Inl (OtherError ''ValidationError''))"

definition scored_row :: "json \<Rightarrow> scored_response res" where
  "scored_row r =
     rbind (as_dict r) (\<lambda>r.
     rbind (str_field r ''task_id'' None) (\<lambda>task_id.
     rbind (str_field r ''content'' None) (\<lambda>content.
     rbind (str_field r ''project_name'' (Some [])) (\<lambda>project_name.
     rbind (str_field r ''section_name'' (Some [])) (\<lambda>section_name.
     rbind (int_field r ''priority'' 1) (\<lambda>priority.
     rbind (if has_key r ''score'' then int_field r ''score'' 0 else Inl (KeyError ''score'')) (\<lambda>score.
     rbind (text_list (dget r ''reasons'' (JArr []))) (\<lambda>reasons.
     rbind (case dget r ''due_date'' JNull of JNull \<Rightarrow> Inr None | v \<Rightarrow> rbind (as_text v) (\<lambda>t. Inr (Some t))) (\<lambda>due_date.
     rbind (text_list (dget r ''labels'' (JArr []))) (\<lambda>labels.
     rbind (case dget r ''duration_minutes'' JNull of
              JNull \<Rightarrow> Inr None | JInt i \<Rightarrow> Inr (Some i) | _ \<Rightarrow> Inl (OtherError ''ValidationError'')) (\<lambda>duration.
       Inr \<lparr>rp_task_id = task_id, rp_content = content, rp_project_name = project_name,
            rp_section_name = section_name, rp_priority = priority, rp_score = score, rp_reasons = reasons,
            rp_due_date = due_date, rp_labels = labels, rp_duration_minutes = duration\<rparr>)))))))))))"

definition scored_answer :: "string \<Rightarrow> json \<Rightarrow> scored_list_response res" where
  "scored_answer tid data =
     rbind (as_dict data) (\<lambda>d.
     rbind (as_list (dget d ''records'' (JArr []))) (\<lambda>rows.
     rbind (rmap scored_row rows) (\<lambda>tasks.
     rbind (bool_field d ''weekend_mode'' False) (\<lambda>weekend.
       Inr \<lparr>sl_tenant_id = tid, sl_record_count = length tasks, sl_weekend_mode = weekend, sl_tasks = tasks\<rparr>))))"

text \<open>Answering from a stored document, or with a 404.\<close>

definition from_stored :: "string \<Rightarrow> (json \<Rightarrow> 'a res) \<Rightarrow> json option \<Rightarrow> ('s, 'a) io" where
  "from_stored missing answer data =
     (case data of
        None \<Rightarrow> io_raise (HTTPException 404 missing)
      | Some JNull \<Rightarrow> io_raise (HTTPException 404 missing)
      | Some v \<Rightarrow> io_res (answer v))"

definition get_scored_tasks :: "'s api_env \<Rightarrow> request_state option \<Rightarrow> ('s, scored_list_response) io" where
  "get_scored_tasks env st =
     permitted env READ_GOLD st
       (io_bind (io_res (current_tenant st)) (\<lambda>tid.
        io_bind (read_scored_tasks (te_be (ae_tm env)) tid)
          (from_stored ''No scored tasks found. Run the pipeline first.'' (scored_answer tid))))"

section \<open>Digests\<close>

record digest_response =
  dr_tenant_id :: string
  dr_digest_type :: string
  dr_subject :: string
  dr_body_text :: string
  dr_produced_at :: "string option"

definition digest_answer :: "string \<Rightarrow> json \<Rightarrow> digest_response res" where
  "digest_answer tid data =
     rbind (as_dict data) (\<lambda>d.
     rbind (str_field d ''digest_type'' (Some ''daily'')) (\<lambda>digest_type.
     rbind (str_field d ''subject'' (Some [])) (\<lambda>subject.
     rbind (str_field d ''body_text'' (Some [])) (\<lambda>body_text.
     rbind (case dget d ''produced_at'' JNull of JNull \<Rightarrow> Inr None | v \<Rightarrow> rbind (as_text v) (\<lambda>t. Inr (Some t))) (\<lambda>produced_at.
       Inr \<lparr>dr_tenant_id = tid, dr_digest_type = digest_type, dr_subject = subject, dr_body_text = body_text,
            dr_produced_at = produced_at\<rparr>)))))"

definition get_daily_digest :: "'s api_env \<Rightarrow> request_state option \<Rightarrow> ('s, digest_response) io" where
  "get_daily_digest env st =
     permitted env GENERATE_DIGEST st
       (io_bind (io_res (current_tenant st)) (\<lambda>tid.
        io_bind (read_daily_digest (te_be (ae_tm env)) tid)
          (from_stored ''No digest found. Run the pipeline first.'' (digest_answer tid))))"

end
