(* ===== verification/PipelineRoutes.thy ===== *)
theory PipelineRoutes
  imports DataRoutes Worker Sanitize Breaker
begin

text \<open>
  Running the pipeline over HTTP (\<open>src/brain/api/routes/pipelines.py\<close>), the dashboard
  (\<open>routes/dashboard.py\<close>) and the health probes (\<open>routes/health.py\<close>). The module keeps a count of
  runs per tenant and day, which a request raises under a lock before its payload is looked at.
\<close>

section \<open>Triggering a run\<close>

record run_request =
  pq_todoist_tasks :: "jdict list"
  pq_todoist_projects :: "jdict list"
  pq_todoist_sections :: "jdict list"
  pq_calendar_events :: "jdict list"
  pq_emails :: "jdict list"
  pq_weekend_mode :: bool

definition run_request_valid :: "run_request \<Rightarrow> bool" where
  "run_request_valid b \<longleftrightarrow>
     length (pq_todoist_tasks b) \<le> 10000 \<and> length (pq_todoist_projects b) \<le> 1000
     \<and> length (pq_todoist_sections b) \<le> 1000 \<and> length (pq_calendar_events b) \<le> 10000
     \<and> length (pq_emails b) \<le> 5000"

record stage_response =
  sp_stage :: string
  sp_status :: string
  sp_record_count :: nat
  sp_duration_ms :: int
  sp_error :: "string option"

record run_response =
  rr_run_id :: string
  rr_tenant_id :: string
  rr_status :: string
  rr_duration_ms :: int
  rr_stages :: "stage_response list"

type_synonym run_counts = "(string \<times> string \<times> int) list"

definition count_run :: "tenant \<Rightarrow> string \<Rightarrow> string \<Rightarrow> run_counts \<Rightarrow> unit res \<times> run_counts" where
  "count_run t tid today counts =
     (let (cached_date, n) = (case map_of counts tid of Some e \<Rightarrow> e | None \<Rightarrow> ([], 0));
          n = (if cached_date \<noteq> today then 0 else n);
          limit = max_pipeline_runs_per_day (tn_quota t)
      in if n \<ge> limit
         then (Inl (HTTPException 429 (''Daily pipeline run quota exceeded ('' @ int_text limit @ ''/day for ''
                 @ tier_value (tn_tier t) @ '' tier).'')), counts)
         else (Inr (), AList.update tid (today, n + 1) counts))"

definition payload_items :: "run_request \<Rightarrow> int" where
  "payload_items b =
     int (length (pq_todoist_tasks b) + length (pq_todoist_projects b) + length (pq_todoist_sections b)
          + length (pq_calendar_events b) + length (pq_emails b))"

definition moderated_keys :: "string list" where
  "moderated_keys = [''content'', ''subject'', ''summary'', ''name'', ''description'']"

fun moderate :: "jdict list list \<Rightarrow> unit res" where
  "moderate [] = Inr ()"
| "moderate (items # rest) =
     (let mod_result = check_bulk_content items moderated_keys
      in if \<not> md_is_allowed mod_result
         then Inl (HTTPException 451 (''Content blocked: '' @ md_reason mod_result)) else moderate rest)"

definition payload_checks :: "tenant \<Rightarrow> run_request \<Rightarrow> unit res" where
  "payload_checks t b =
     (if payload_items b > max_tasks (tn_quota t)
      then Inl (HTTPException 413 (''Payload exceeds task quota ('' @ int_text (payload_items b) @ '' items, max ''
             @ int_text (max_tasks (tn_quota t)) @ '' for '' @ tier_value (tn_tier t) @ '' tier).''))
      else moderate [pq_todoist_tasks b, pq_calendar_events b, pq_emails b])"

definition run_response_of :: "pipeline_run \<Rightarrow> run_response" where
  "run_response_of run =
     \<lparr>rr_run_id = pr_run_id run, rr_tenant_id = pr_tenant_id run, rr_status = status_value (pr_status run),
      rr_duration_ms = run_duration_ms run,
      rr_stages = map (\<lambda>s. \<lparr>sp_stage = stage_value (sr_stage s), sp_status = status_value (sr_status s),
                           sp_record_count = sr_record_count s, sp_duration_ms = sr_duration_ms s,
                           sp_error = sr_error s\<rparr>) (pr_stages run)\<rparr>"

definition find_tenant :: "'s api_env \<Rightarrow> fresh \<Rightarrow> string \<Rightarrow> ('s, tenant) io" where
  "find_tenant env fr tid =
     io_bind (get_tenant (ae_tm env) (fr_now fr) tid) (\<lambda>found.
       case found of None \<Rightarrow> io_raise (HTTPException 404 ''Tenant not found'') | Some t \<Rightarrow> io_ret t)"

definition admit_trigger :: "'s api_env \<Rightarrow> fresh \<Rightarrow> request_state option \<Rightarrow> run_request \<Rightarrow> ('s, string \<times> tenant) io" where
  "admit_trigger env fr st body =
     permitted env RUN_PIPELINE st
       (io_bind (io_res (current_tenant st)) (\<lambda>tid.
          if \<not> run_request_valid body then io_raise (HTTPException 422 ''Unprocessable Entity'')
          else io_bind (find_tenant env fr tid) (\<lambda>t. io_ret (tid, t))))"

definition run_payload :: "'s pipe_env \<Rightarrow> clock \<Rightarrow> tenant \<Rightarrow> run_request \<Rightarrow> ('s, run_response) io" where
  "run_payload penv ck t b =
     io_bind (io_res (payload_checks t b)) (\<lambda>_.
     io_bind (execute penv ck (tn_tenant_id t) (map JObj (pq_todoist_tasks b))
                (Some (map JObj (pq_todoist_projects b))) (Some (map JObj (pq_todoist_sections b)))
                (map JObj (pq_calendar_events b)) (map JObj (pq_emails b)) (pq_weekend_mode b)) (\<lambda>run.
       io_ret (run_response_of run)))"

definition trigger_pipeline ::
    "'s api_env \<Rightarrow> 's pipe_env \<Rightarrow> fresh \<Rightarrow> clock \<Rightarrow> request_state option \<Rightarrow> run_request \<Rightarrow>
     run_counts \<Rightarrow> nat \<times> 's \<Rightarrow> run_response res \<times> run_counts \<times> nat \<times> 's" where
  "trigger_pipeline env penv fr ck st body counts ns =
     (case admit_trigger env fr st body ns of
        (Inl e, ns) \<Rightarrow> (Inl e, counts, ns)
      | (Inr (tid, t), ns) \<Rightarrow>
          (case count_run t tid (date_iso (ck_today ck)) counts of
             (Inl e, counts) \<Rightarrow> (Inl e, counts, ns)
           | (Inr _, counts) \<Rightarrow> (case run_payload penv ck t body ns of (r, ns) \<Rightarrow> (r, counts, ns))))"

section \<open>Past runs\<close>

definition read_run :: "'s backend \<Rightarrow> string \<Rightarrow> ('s, jdict list) io" where
  "read_run be key =
     (if suffix ''.partition'' key then io_ret []
      else io_bind (io_read be key) (\<lambda>data.
             case data of
               None \<Rightarrow> io_ret []
             | Some v \<Rightarrow> if \<not> jtruthy v then io_ret []
                         else io_bind (io_res (as_dict v)) (\<lambda>d. io_ret [d])))"

definition started_at :: "jdict \<Rightarrow> string res" where
  "started_at r = str_field r ''started_at'' (Some [])"

text \<open>\<open>sorted(..., reverse=True)\<close> keeps the order of equal keys; a single run is not compared.\<close>

definition newest_first :: "jdict list \<Rightarrow> jdict list res" where
  "newest_first runs =
     (if length runs \<le> 1 then Inr runs
      else rbind (rmap started_at runs) (\<lambda>_.
             Inr (rev (sort_key (\<lambda>r. case started_at r of Inr t \<Rightarrow> t | Inl _ \<Rightarrow> []) (rev runs)))))"

definition list_pipeline_runs :: "'s api_env \<Rightarrow> request_state option \<Rightarrow> ('s, jdict list) io" where
  "list_pipeline_runs env st =
     permitted env VIEW_PIPELINE_RUNS st
       (io_bind (io_res (current_tenant st)) (\<lambda>tid.
        io_bind (io_list (te_be (ae_tm env)) (''runs/'' @ tid @ ''/'')) (\<lambda>keys.
        io_bind (io_map (read_run (te_be (ae_tm env))) keys) (\<lambda>runs. io_res (newest_first (concat runs))))))"

section \<open>The dashboard\<close>

record connection_status =
  cs_todoist :: bool
  cs_notion :: bool
  cs_google_calendar :: bool
  cs_gmail :: bool
  cs_whatsapp :: bool

record pipeline_config =
  pc_daily_digest_time :: string
  pc_daily_digest_days :: string
  pc_overdue_alert_enabled :: bool
  pc_overdue_alert_interval_hours :: int
  pc_weekend_planner_enabled :: bool
  pc_weekly_review_enabled :: bool
  pc_delivery_email :: bool
  pc_delivery_whatsapp :: bool
  pc_delivery_notion :: bool
  pc_source_todoist :: bool
  pc_source_google_calendar :: bool
  pc_source_gmail :: bool
  pc_use_local_llm :: bool

record usage_stats =
  ug_pipeline_runs_today :: int
  ug_pipeline_runs_limit :: int
  ug_llm_calls_today :: int
  ug_llm_calls_limit :: int
  ug_tasks_count :: int
  ug_tasks_limit :: int
  ug_tier :: string

record dashboard_overview =
  do_connections :: connection_status
  do_pipeline :: pipeline_config
  do_usage :: usage_stats

definition connections_of :: "tenant_config \<Rightarrow> connection_status" where
  "connections_of cfg =
     \<lparr>cs_todoist = (tc_todoist_api_token_encrypted cfg \<noteq> []), cs_notion = (tc_notion_api_token_encrypted cfg \<noteq> []),
      cs_google_calendar = (tc_google_oauth_token_encrypted cfg \<noteq> []),
      cs_gmail = (tc_gmail_imap_password_encrypted cfg \<noteq> []), cs_whatsapp = (tc_whatsapp_phone cfg \<noteq> [])\<rparr>"

definition pipeline_config_of :: "tenant_config \<Rightarrow> pipeline_config" where
  "pipeline_config_of cfg =
     \<lparr>pc_daily_digest_time = tc_daily_digest_time cfg, pc_daily_digest_days = tc_daily_digest_days cfg,
      pc_overdue_alert_enabled = tc_overdue_alert_enabled cfg,
      pc_overdue_alert_interval_hours = tc_overdue_alert_interval_hours cfg,
      pc_weekend_planner_enabled = tc_weekend_planner_enabled cfg,
      pc_weekly_review_enabled = tc_weekly_review_enabled cfg, pc_delivery_email = tc_delivery_email cfg,
      pc_delivery_whatsapp = tc_delivery_whatsapp cfg, pc_delivery_notion = tc_delivery_notion cfg,
      pc_source_todoist = tc_source_todoist cfg, pc_source_google_calendar = tc_source_google_calendar cfg,
      pc_source_gmail = tc_source_gmail cfg, pc_use_local_llm = tc_use_local_llm cfg\<rparr>"

text \<open>The counts shown are the worker's; an entry of another day counts as none.\<close>

definition usage_of :: "datetime \<Rightarrow> usage_map \<Rightarrow> string \<Rightarrow> tenant \<Rightarrow> usage_stats res" where
  "usage_of now u tid t =
     (let d = (case map_of u tid of Some d \<Rightarrow> d | None \<Rightarrow> []);
          d = (if dget d ''date'' JNull \<noteq> JStr (utc_day now)
               then [(''pipeline_runs'', JInt 0), (''llm_calls'', JInt 0)] else d)
      in rbind (int_field d ''pipeline_runs'' 0) (\<lambda>runs.
         rbind (int_field d ''llm_calls'' 0) (\<lambda>calls.
           Inr \<lparr>ug_pipeline_runs_today = runs, ug_pipeline_runs_limit = max_pipeline_runs_per_day (tn_quota t),
                ug_llm_calls_today = calls, ug_llm_calls_limit = max_llm_calls_per_day (tn_quota t),
                ug_tasks_count = 0, ug_tasks_limit = max_tasks (tn_quota t), ug_tier = tier_value (tn_tier t)\<rparr>)))"

definition get_dashboard ::
    "'s api_env \<Rightarrow> fresh \<Rightarrow> usage_map \<Rightarrow> request_state option \<Rightarrow> ('s, dashboard_overview) io" where
  "get_dashboard env fr u st =
     io_bind (io_res (current_tenant st)) (\<lambda>tid.
     io_bind (find_tenant env fr tid) (\<lambda>t.
     io_bind (io_res (usage_of (fr_now fr) u tid t)) (\<lambda>usage.
       io_ret \<lparr>do_connections = connections_of (tn_config t), do_pipeline = pipeline_config_of (tn_config t),
               do_usage = usage\<rparr>)))"

section \<open>Health probes\<close>

definition health :: "(string \<times> string) list" where
  "health = [(''status'', ''healthy''), (''service'', ''velaflow-enterprise'')]"

definition liveness :: "(string \<times> string) list" where
  "liveness = [(''status'', ''alive'')]"

text \<open>The status code, the status text and the registry's report.\<close>

definition readiness ::
    "(nat \<Rightarrow> real) \<Rightarrow> health_registry \<Rightarrow> breakers \<Rightarrow> (int \<times> string \<times> health_status) \<times> breakers" where
  "readiness clk reg bs =
     (let (status, bs') = health_get_status clk reg bs
      in ((if hs_ready status then (200, ''ready'', status) else (503, ''degraded'', status)), bs'))"

end
