(* ===== verification/RouteLaws.thy ===== *)
theory RouteLaws
  imports PipelineRoutes VaultLaws SanitizeLaws
begin

text \<open>
  What the data and pipeline routes guarantee: a dataset is read from the caller's own partition of a
  layer the caller may read; the pages of a dataset are the dataset; a triggered run was permitted,
  within the quotas and moderated, and its ranking is what the ranked-tasks route then shows; and a
  tenant's runs of a day are bounded by its quota, whatever the other tenants do.
\<close>

section \<open>Paths of datasets\<close>

lemma replace_char_set: "set (replace_char a b s) \<subseteq> set s \<union> {b}"
  by (auto simp: replace_char_def)

lemma resolved_below:
  assumes "layer \<in> set valid_layers" and "part_ok tid" and "CHR 0x5C \<notin> set rest"
    and "resolve_key base (layer_prefix layer tid @ rest) = Inr p"
  shows "pp_root p = pp_root base \<and> prefix (pp_parts base @ [layer, tid]) (pp_parts p)"
proof -
  let ?k = "layer @ CHR ''/'' # tid @ CHR ''/'' # rest"
  have k: "layer_prefix layer tid @ rest = ?k" by (simp add: layer_prefix_def)
  have l: "layer \<noteq> []" "layer \<noteq> ''.''" "CHR ''/'' \<notin> set layer" "CHR 0x5C \<notin> set layer" "hd layer \<noteq> CHR ''/''"
    using assms(1) by (auto simp: valid_layers_def)
  have t: "tid \<noteq> []" "tid \<noteq> ''.''" "CHR ''/'' \<notin> set tid" "CHR 0x5C \<notin> set tid"
    using assms(2) by (auto simp: part_ok_def)
  have id: "map (\<lambda>c. if c = CHR 0x5C then CHR ''/'' else c) ?k = ?k"
    using l t assms(3) by (intro map_idI) auto
  have "leading_slashes ?k = 0" using l by (cases layer) (auto simp: leading_slashes_def)
  moreover have "py_split (CHR ''/'') ?k = layer # tid # py_split (CHR ''/'') rest"
    using py_split_sep [OF l(3)] py_split_sep [OF t(3)] by simp
  ultimately have "py_path ?k = \<lparr>pp_root = NoRoot, pp_parts = layer # tid # filter (\<lambda>w. w \<noteq> [] \<and> w \<noteq> ''.'') (py_split (CHR ''/'') rest)\<rparr>"
    using l t by (simp add: py_path_def)
  with assms(4) show ?thesis
    unfolding k resolve_key_def id by (auto simp: Let_def path_join_def split: if_splits)
qed

lemma dataset_chars:
  assumes "re_match dataset_pattern ds"
  shows "CHR 0x5C \<notin> set ds"
  using run_then_end [OF assms [unfolded dataset_pattern_def]]
  by (auto simp: dataset_char_def ascii_letter_def re_digit_def less_eq_char_def)

lemma resolve_dataset_below:
  assumes "layer \<in> set valid_layers" and "part_ok tid" and "resolve_dataset_path layer tid ds = Inr path"
    and "resolve_key base path = Inr p"
  shows "pp_root p = pp_root base \<and> prefix (pp_parts base @ [layer, tid]) (pp_parts p)"
proof -
  have "\<exists>rest. CHR 0x5C \<notin> set rest \<and> path = layer_prefix layer tid @ rest"
  proof (cases "map_of (known_datasets layer tid) ds")
    case None
    with assms(3) have "re_match dataset_pattern ds" "path = layer_prefix layer tid @ replace_char (CHR ''_'') (CHR ''/'') ds @ ''.json''"
      by (auto simp: resolve_dataset_path_def split: if_splits)
    with dataset_chars replace_char_set [of "CHR ''_''" "CHR ''/''" ds] show ?thesis
      by (intro exI [of _ "replace_char (CHR ''_'') (CHR ''/'') ds @ ''.json''"]) auto
  next
    case (Some q)
    with assms(3) have "path = q" by (auto simp: resolve_dataset_path_def split: if_splits)
    moreover from map_of_SomeD [OF Some] have "\<exists>rest. CHR 0x5C \<notin> set rest \<and> q = layer_prefix layer tid @ rest"
      by (auto simp: known_datasets_def Let_def)
    ultimately show ?thesis by simp
  qed
  with resolved_below [OF assms(1,2)] assms(4) show ?thesis by blast
qed

text \<open>The name a bronze batch is listed under does not lead back to the batch, and the alerts dataset
names a file the silver layer does not write.\<close>

lemma listed_batch_not_readable:
  "dataset_name (layer_prefix ''bronze'' ''tn_1'') ''bronze/tn_1/todoist/todoist_tn_1_T.json'' = ''todoist_todoist_tn_1_T''"
  "resolve_dataset_path ''bronze'' ''tn_1'' ''todoist_todoist_tn_1_T'' =
     Inr ''bronze/tn_1/todoist/todoist/tn/1/T.json''"
  by code_simp+

lemma alerts_name_no_file:
  "resolve_dataset_path ''silver'' ''tn_1'' ''gmail_alerts'' = Inr ''silver/tn_1/gmail/alerts.json''"
  "resolve_dataset_path ''silver'' ''tn_1'' ''gmail_emails'' = Inr (silver_path ''tn_1'' ''gmail/emails.json'')"
  by code_simp+

section \<open>Documents and pages\<close>

lemma dataset_document_Inr:
  assumes "dataset_document env shown st layer ds (n, s) = (Inr data, st')"
  shows "\<exists>tid path. current_tenant st = Inr tid \<and> layer_gate shown st layer = Inr ()
    \<and> resolve_dataset_path layer tid ds = Inr path \<and> st' = (n, s)
    \<and> be_read_json (te_be (ae_tm env)) path s = Inr (Some data)"
proof -
  obtain tid where t: "current_tenant st = Inr tid"
    using assms by (cases "current_tenant st") (simp_all add: dataset_document_def)
  have g: "layer_gate shown st layer = Inr ()"
    using assms t by (cases "layer_gate shown st layer") (simp_all add: dataset_document_def)
  obtain path where p: "resolve_dataset_path layer tid ds = Inr path"
    using assms t g by (cases "resolve_dataset_path layer tid ds") (simp_all add: dataset_document_def)
  from assms t g p have r: "io_bind (io_read (te_be (ae_tm env)) path) (\<lambda>data.
       case data of
         None \<Rightarrow> io_raise (HTTPException 404 ''Dataset not found'')
       | Some JNull \<Rightarrow> io_raise (HTTPException 404 ''Dataset not found'')
       | Some v \<Rightarrow> io_ret v) (n, s) = (Inr data, st')" by (simp add: dataset_document_def)
  then obtain v where v: "be_read_json (te_be (ae_tm env)) path s = Inr (Some v)"
    by (cases "be_read_json (te_be (ae_tm env)) path s" rule: sum.exhaust)
      (auto simp: io_bind_run split: option.splits)
  with r have "v = data \<and> st' = (n, s)" by (cases v) (simp_all add: io_bind_run)
  with t g p v show ?thesis by blast
qed

lemma layer_gate_Inr:
  "layer_gate shown (Some r) layer = Inr () \<longleftrightarrow>
     layer \<in> set valid_layers
     \<and> claims_access \<lparr>custom_roles = []\<rparr> (st_role r) (st_user_role r) (layer_permission layer) = Inr True"
  by (auto simp: layer_gate_def rbind_Inr_iff split: if_splits)

lemma page_of_rows:
  "page_of layer ds page sz (JObj ((''records'', JArr (map JObj rows)) # d)) =
     Inr \<lparr>dp_layer = layer, dp_dataset = ds,
          dp_records = drop (nat ((page - 1) * sz)) (take (nat ((page - 1) * sz) + nat sz) rows),
          dp_count = length rows, dp_page = page, dp_page_size = sz\<rparr>"
proof -
  have "rmap as_dict (map JObj xs) = Inr xs" for xs
    by (simp add: rmap_Inr_iff as_dict_def list_all2_map1 list_all2_refl)
  then show ?thesis
    by (simp add: page_of_def document_records_def as_dict_def as_list_def Let_def take_map drop_map)
qed

lemma pages_concat:
  "concat (map (\<lambda>i. drop (i * m) (take (i * m + m) xs)) [0..<k]) = take (k * m) xs"
proof (induction k)
  case (Suc k)
  have "take (k * m) xs @ drop (k * m) (take (k * m + m) xs) = take (k * m + m) xs"
    by (metis append_take_drop_id le_add1 min.absorb1 take_take)
  with Suc show ?case by (simp add: add.commute)
qed simp

section \<open>The ranking shown\<close>

definition scored_view :: "scored_task \<Rightarrow> scored_response" where
  "scored_view x =
     (let t = st_task x in
      \<lparr>rp_task_id = tk_id t, rp_content = tk_content t, rp_project_name = tk_project_name t,
       rp_section_name = tk_section_name t, rp_priority = tk_priority t, rp_score = st_score x,
       rp_reasons = st_reasons x, rp_due_date = map_option date_iso (tk_due_date t), rp_labels = tk_labels t,
       rp_duration_minutes = tk_duration_minutes t\<rparr>)"

lemma text_list_map: "text_list (JArr (map JStr xs)) = Inr xs"
  by (simp add: text_list_def rmap_Inr_iff as_text_def list_all2_map1 list_all2_refl)

lemma scored_row_view: "scored_row (gold_record x) = Inr (scored_view x)"
  by (cases "tk_due_date (st_task x)"; cases "tk_duration_minutes (st_task x)")
    (simp_all add: scored_row_def gold_record_def Let_def as_dict_def text_list_map opt_text_def as_text_def
      has_key_def scored_view_def)

lemma scored_answer_doc:
  "scored_answer tid (scored_doc tid i w xs) =
     Inr \<lparr>sl_tenant_id = tid, sl_record_count = length xs, sl_weekend_mode = w, sl_tasks = map scored_view xs\<rparr>"
proof -
  have "rmap scored_row (map gold_record xs) = Inr (map scored_view xs)"
    by (simp add: rmap_Inr_iff scored_row_view list_all2_map1 list_all2_map2 list_all2_refl)
  then show ?thesis by (simp add: scored_answer_def scored_doc_def as_dict_def as_list_def)
qed

section \<open>A triggered run\<close>

lemma admit_trigger_Inr:
  assumes "admit_trigger env fr st b (n, s) = (Inr (tid, t), st')"
  shows "RequirePermission (ae_policy env) RUN_PIPELINE st = Inr () \<and> current_tenant st = Inr tid
    \<and> run_request_valid b \<and> get_tenant (ae_tm env) (fr_now fr) tid (n, s) = (Inr (Some t), n, s) \<and> st' = (n, s)"
proof -
  from assms have ok: "RequirePermission (ae_policy env) RUN_PIPELINE st = Inr ()" "current_tenant st = Inr tid"
      "run_request_valid b" and f: "find_tenant env fr tid (n, s) = (Inr t, st')"
    by (auto simp: admit_trigger_def permitted_Inr io_bind_Inr split: if_splits)
  from f obtain found st1 where g: "get_tenant (ae_tm env) (fr_now fr) tid (n, s) = (Inr found, st1)"
    and r: "found = Some t" "st1 = st'"
    by (auto simp: find_tenant_def io_bind_Inr split: option.splits)
  from get_tenant_state [OF g] have "st1 = (n, s)" .
  with ok g r show ?thesis by simp
qed

lemma trigger_Inr:
  assumes "trigger_pipeline env penv fr ck st b counts (n, s) = (Inr resp, counts', st')"
  shows "\<exists>tid t run. admit_trigger env fr st b (n, s) = (Inr (tid, t), n, s)
    \<and> count_run t tid (date_iso (ck_today ck)) counts = (Inr (), counts') \<and> payload_checks t b = Inr ()
    \<and> execute penv ck (tn_tenant_id t) (map JObj (pq_todoist_tasks b))
        (Some (map JObj (pq_todoist_projects b))) (Some (map JObj (pq_todoist_sections b)))
        (map JObj (pq_calendar_events b)) (map JObj (pq_emails b)) (pq_weekend_mode b) (n, s) = (Inr run, st')
    \<and> resp = run_response_of run"
proof -
  obtain tid t st1 where a: "admit_trigger env fr st b (n, s) = (Inr (tid, t), st1)"
    using assms unfolding trigger_pipeline_def
    by (cases "admit_trigger env fr st b (n, s)") (auto split: sum.splits)
  have st1: "st1 = (n, s)" using admit_trigger_Inr [OF a] by simp
  from assms a st1 have c: "count_run t tid (date_iso (ck_today ck)) counts = (Inr (), counts')"
    and r: "run_payload penv ck t b (n, s) = (Inr resp, st')"
    by (auto simp: trigger_pipeline_def split: prod.splits sum.splits)
  from r have "payload_checks t b = Inr ()" by (auto simp: run_payload_def io_bind_Inr)
  with r obtain run where "execute penv ck (tn_tenant_id t) (map JObj (pq_todoist_tasks b))
        (Some (map JObj (pq_todoist_projects b))) (Some (map JObj (pq_todoist_sections b)))
        (map JObj (pq_calendar_events b)) (map JObj (pq_emails b)) (pq_weekend_mode b) (n, s) = (Inr run, st')"
      "resp = run_response_of run"
    by (auto simp: run_payload_def io_bind_Inr)
  with a st1 c \<open>payload_checks t b = Inr ()\<close> show ?thesis by blast
qed

lemma moderate_Inr:
  "moderate xs = Inr () \<longleftrightarrow> (\<forall>items \<in> set xs. \<forall>item \<in> set items. \<forall>k \<in> set moderated_keys. field_allowed item k)"
  by (induction xs) (auto simp: Let_def check_bulk_allowed list_all_iff)

lemma payload_checks_Inr:
  "payload_checks t b = Inr () \<longleftrightarrow> payload_items b \<le> max_tasks (tn_quota t)
     \<and> (\<forall>item \<in> set (pq_todoist_tasks b @ pq_calendar_events b @ pq_emails b).
          \<forall>k \<in> set moderated_keys. field_allowed item k)"
  by (auto simp: payload_checks_def moderate_Inr simp del: moderate.simps)

section \<open>The day's quota\<close>

definition used_today :: "run_counts \<Rightarrow> string \<Rightarrow> string \<Rightarrow> int" where
  "used_today counts tid today =
     (case map_of counts tid of Some (d, n) \<Rightarrow> (if d = today then n else 0) | None \<Rightarrow> 0)"

text \<open>The counter over a day's requests, each with its tenant: which ones it lets through.\<close>

fun day_grants :: "string \<Rightarrow> (string \<times> tenant) list \<Rightarrow> run_counts \<Rightarrow> (string \<times> bool) list" where
  "day_grants today [] counts = []"
| "day_grants today ((tid, t) # rs) counts =
     (case count_run t tid today counts of
        (r, counts') \<Rightarrow> (tid, \<not> isl r) # day_grants today rs counts')"

lemma count_run_used:
  "count_run t tid today counts = (r, counts') \<Longrightarrow>
     used_today counts' tid' today =
       (if tid' = tid \<and> \<not> isl r then used_today counts tid today + 1 else used_today counts tid' today)
     \<and> (isl r \<longleftrightarrow> max_pipeline_runs_per_day (tn_quota t) \<le> used_today counts tid today)"
  by (cases "map_of counts tid") (auto simp: count_run_def used_today_def Let_def split: if_splits)

lemma day_grants_bound:
  assumes "\<forall>(tid', t) \<in> set rs. tid' = tid \<longrightarrow> max_pipeline_runs_per_day (tn_quota t) = limit"
    and "0 \<le> used_today counts tid today" and "used_today counts tid today \<le> limit"
  shows "int (length (filter (\<lambda>(tid', ok). tid' = tid \<and> ok) (day_grants today rs counts))) =
    min (int (length (filter (\<lambda>(tid', t). tid' = tid) rs))) (limit - used_today counts tid today)"
  using assms
proof (induction rs arbitrary: counts)
  case (Cons x rs)
  obtain tid' t where x: "x = (tid', t)" by (cases x)
  obtain r counts' where c: "count_run t tid' today counts = (r, counts')" by (cases "count_run t tid' today counts")
  note u = count_run_used [OF c]
  have lim: "tid' = tid \<Longrightarrow> max_pipeline_runs_per_day (tn_quota t) = limit" using Cons.prems(1) x by auto
  have "int (length (filter (\<lambda>(tid', ok). tid' = tid \<and> ok) (day_grants today rs counts'))) =
    min (int (length (filter (\<lambda>(tid', t). tid' = tid) rs))) (limit - used_today counts' tid today)"
    using Cons.prems u [of tid] lim by (intro Cons.IH) auto
  with u [of tid] lim Cons.prems(2,3) show ?case by (auto simp: x c)
qed simp

section \<open>A concrete run\<close>

definition empty_request :: run_request where
  "empty_request =
     \<lparr>pq_todoist_tasks = [], pq_todoist_projects = [], pq_todoist_sections = [], pq_calendar_events = [],
      pq_emails = [], pq_weekend_mode = False\<rparr>"

lemma empty_request_parts [simp]:
  "pq_todoist_tasks empty_request = []" "pq_todoist_projects empty_request = []"
  "pq_todoist_sections empty_request = []" "pq_calendar_events empty_request = []" "pq_emails empty_request = []"
  "pq_weekend_mode empty_request = False"
  by (simp_all add: empty_request_def)

abbreviation tenant_file :: "file_content \<Rightarrow> ppath \<times> file_content" where
  "tenant_file c \<equiv> (\<lparr>pp_root = Slash, pp_parts = [''data'', ''tenants'', ''tn_1.json'']\<rparr>, c)"

lemma writes_beside_tenant:
  "be_write_json sample_backend ''gold/tn_1/scored_tasks.json'' v [tenant_file c0] =
     (Inr (), [tenant_file c0,
               (\<lparr>pp_root = Slash, pp_parts = [''data'', ''gold'', ''tn_1'', ''scored_tasks.json'']\<rparr>, JsonFile v)])"
  "be_write_json sample_backend ''gold/tn_1/daily_digest.json'' v'
     [tenant_file c0, (\<lparr>pp_root = Slash, pp_parts = [''data'', ''gold'', ''tn_1'', ''scored_tasks.json'']\<rparr>, c)] =
     (Inr (), [tenant_file c0,
               (\<lparr>pp_root = Slash, pp_parts = [''data'', ''gold'', ''tn_1'', ''scored_tasks.json'']\<rparr>, c),
               (\<lparr>pp_root = Slash, pp_parts = [''data'', ''gold'', ''tn_1'', ''daily_digest.json'']\<rparr>, JsonFile v')])"
  "\<exists>fs. be_write_json sample_backend ''runs/tn_1/run_tn_1_00010101T000000.json'' v''
     [tenant_file c0, (\<lparr>pp_root = Slash, pp_parts = [''data'', ''gold'', ''tn_1'', ''scored_tasks.json'']\<rparr>, c),
      (\<lparr>pp_root = Slash, pp_parts = [''data'', ''gold'', ''tn_1'', ''daily_digest.json'']\<rparr>, c')] = (Inr (), fs)"
  by (simp_all add: sample_backend_def local_backend_def local_write_json_def local_write_def resolve_key_def
      py_path_def leading_slashes_def path_join_def path_text_def can_write_def is_dir_def strictly_under_def
      put_file_def tmp_path_def name_stem_def)

lemma run_beside_tenant:
  "\<exists>run st. execute sample_pipe sample_clock ''tn_1'' [] (Some []) (Some []) [] [] False (n, [tenant_file c0]) =
     (Inr run, st) \<and> pr_status run = COMPLETED"
proof -
  let ?fs = "[tenant_file c0]"
  have latest: "read_latest sample_backend ''tn_1'' source (n, ?fs) = (Inr None, n, ?fs)"
    if "source \<in> {''todoist'', ''calendar'', ''gmail''}" for source
    using that
    by (auto simp: read_latest_def bronze_prefix_def io_bind_run io_list_def sample_backend_def local_backend_def
        local_list_keys_def resolve_key_def py_path_def leading_slashes_def path_join_def path_text_def
        is_dir_def strictly_under_def is_file_def has_key_def)
  have s: "execute_silver sample_pipe sample_clock ''tn_1'' (n, ?fs) =
      (Inr (stage_result_of sample_pipe sample_clock SILVER (Inr 0), [], [], []), n, ?fs)"
    using latest by (simp add: execute_silver_def Let_def io_bind_run io_try_def silver_step_def sample_pipe_def)
  have b: "execute_bronze sample_pipe sample_clock ''tn_1'' [] (Some []) (Some []) [] [] (n, ?fs) =
      (Inr (stage_result_of sample_pipe sample_clock BRONZE (Inr 0)), n, ?fs)"
    by (simp add: execute_bronze_def io_bind_run io_try_def)
  have "rank_tasks today cf w [] = []" for today cf w by (simp add: rank_tasks_def)
  then obtain c c' where g: "execute_gold sample_pipe sample_clock ''tn_1'' [] [] [] False (n, ?fs) =
      (Inr (stage_result_of sample_pipe sample_clock GOLD (Inr 0), []), n,
       [tenant_file c0, (\<lparr>pp_root = Slash, pp_parts = [''data'', ''gold'', ''tn_1'', ''scored_tasks.json'']\<rparr>, c),
        (\<lparr>pp_root = Slash, pp_parts = [''data'', ''gold'', ''tn_1'', ''daily_digest.json'']\<rparr>, c')])"
    by (simp add: execute_gold_def produce_scored_tasks_def produce_daily_digest_def Let_def io_bind_run
        io_try_def io_write_def sample_backend_pipe scored_path_def digest_path_def writes_beside_tenant)
  obtain fs where w: "be_write_json sample_backend ''runs/tn_1/run_tn_1_00010101T000000.json''
      (run_doc sample_pipe \<lparr>pr_run_id = make_run_id (ck_at sample_clock ''run.id'') ''tn_1'', pr_tenant_id = ''tn_1'',
         pr_status = COMPLETED, pr_started_at = ck_at sample_clock ''run.start'',
         pr_completed_at = ck_at sample_clock ''run.end'',
         pr_stages = [stage_result_of sample_pipe sample_clock BRONZE (Inr 0),
           stage_result_of sample_pipe sample_clock SILVER (Inr 0), stage_result_of sample_pipe sample_clock GOLD (Inr 0)],
         pr_scored_tasks = []\<rparr>)
     [tenant_file c0, (\<lparr>pp_root = Slash, pp_parts = [''data'', ''gold'', ''tn_1'', ''scored_tasks.json'']\<rparr>, c),
      (\<lparr>pp_root = Slash, pp_parts = [''data'', ''gold'', ''tn_1'', ''daily_digest.json'']\<rparr>, c')] = (Inr (), fs)"
    using writes_beside_tenant(3) by blast
  then show ?thesis
    by (simp add: execute_def run_stages_def io_bind_run b s g stage_status Let_def persist_run_def
        run_path_def make_run_id_def sample_stamp io_write_def sample_backend_pipe)
qed

lemma every_permission: "p \<in> set all_permissions"
  by (cases p) (simp_all add: all_permissions_def)

lemma sample_caller_permitted:
  "RequirePermission \<lparr>custom_roles = []\<rparr> p (Some sample_caller) = Inr ()"
  "current_tenant (Some sample_caller) = Inr ''tn_1''"
  using every_permission [of p] every_permission [of ADMIN_ALL]
  by (simp_all add: RequirePermission_iff sample_caller_def claims_access_text check_access_def has_permission_def
      get_permissions_def tier_roles_def current_tenant_def get_current_tenant_id_def text_id_def)

lemma sample_trigger:
  "\<exists>resp counts st. trigger_pipeline disk_api sample_pipe sample_fresh sample_clock (Some sample_caller)
     empty_request [] (0, sample_files) = (Inr resp, counts, st) \<and> rr_status resp = ''completed''"
proof -
  have t: "get_tenant (ae_tm disk_api) (fr_now sample_fresh) ''tn_1'' (0, sample_files) = (Inr (Some sample_tenant), 0, sample_files)"
    using holds_get [OF sample_holds] by (simp add: disk_api_def)
  have v: "run_request_valid empty_request" by (simp add: run_request_valid_def)
  have a: "admit_trigger disk_api sample_fresh (Some sample_caller) empty_request (0, sample_files) =
      (Inr (''tn_1'', sample_tenant), 0, sample_files)"
    by (simp add: admit_trigger_def permitted_def disk_parts sample_caller_permitted v find_tenant_def t io_bind_run)
  have "1 \<le> max_pipeline_runs_per_day (tn_quota sample_tenant)" "0 \<le> max_tasks (tn_quota sample_tenant)"
    by (simp_all add: sample_tenant_def make_tenant_def tenant_post_init_def quota_for_tier_def Let_def split: tenant_tier.split)
  then have c: "\<forall>today. \<exists>counts. count_run sample_tenant ''tn_1'' today [] = (Inr (), counts)"
      and p: "payload_checks sample_tenant empty_request = Inr ()"
    by (auto simp: count_run_def Let_def payload_checks_Inr payload_items_def)
  obtain c0 where "sample_files = [tenant_file c0]" by (simp add: sample_files_def)
  with run_beside_tenant [of 0 c0] obtain run st where r: "execute sample_pipe sample_clock ''tn_1'' [] (Some []) (Some [])
      [] [] False (0, sample_files) = (Inr run, st)" "pr_status run = COMPLETED" by auto
  obtain counts where "count_run sample_tenant ''tn_1'' (date_iso (ck_today sample_clock)) [] = (Inr (), counts)"
    using c by blast
  with r show ?thesis
    by (simp add: trigger_pipeline_def a run_payload_def p io_bind_run sample_tenant_ok run_response_of_def)
qed

definition free_tenant :: tenant where
  "free_tenant = make_tenant ''tn_1'' [] [] FREE ''free'' [] sample_time"

definition scored_files :: files where
  "scored_files =
     [(\<lparr>pp_root = Slash, pp_parts = [''data'', ''gold'', ''tn_1'', ''scored_tasks.json'']\<rparr>,
       JsonFile (JObj [(''records'', JArr [])]))]"

lemma sample_read:
  "\<exists>pg. read_dataset disk_api [] (Some sample_caller) ''gold'' ''scored_tasks'' 1 20 (0, scored_files) =
     (Inr pg, 0, scored_files)"
proof -
  have "layer_gate [] (Some sample_caller) ''gold'' = Inr ()"
    using sample_caller_permitted(1) [of READ_GOLD]
    by (simp add: layer_gate_Inr valid_layers_def layer_permission_def RequirePermission_iff)
  moreover have "resolve_dataset_path ''gold'' ''tn_1'' ''scored_tasks'' = Inr ''gold/tn_1/scored_tasks.json''"
    by code_simp
  moreover have "be_read_json (te_be (ae_tm disk_api)) ''gold/tn_1/scored_tasks.json'' scored_files =
      Inr (Some (JObj [(''records'', JArr [])]))"
    by (simp add: disk_parts local_backend_def local_read_json_def resolve_key_def py_path_def leading_slashes_def
        path_join_def path_text_def scored_files_def)
  moreover have "get_current_tenant_id (Some sample_caller) = Inr (JStr ''tn_1'')"
    by (simp add: get_current_tenant_id_def sample_caller_def)
  ultimately show ?thesis
    by (simp add: read_dataset_def dataset_document_def sample_caller_permitted io_bind_run max_page_size_def
        page_of_def document_records_def as_dict_def as_list_def)
qed

section \<open>Properties\<close>

text \<open>C37. The data explorer stays in the caller's own partition: a page it returns was read from a file below
the directory of the layer and of the tenant the token names, for a layer the caller's roles may read; nothing
changes.\<close>

theorem explorer_stays_in_partition:
  assumes "te_be (ae_tm env) = local_backend parse render base" and "current_tenant (Some r) = Inr tid"
    and "part_ok tid" and "read_dataset env shown (Some r) layer ds page sz (n, fs) = (Inr pg, st')"
  shows "layer \<in> {''bronze'', ''silver'', ''gold''}
    \<and> claims_access \<lparr>custom_roles = []\<rparr> (st_role r) (st_user_role r) (layer_permission layer) = Inr True
    \<and> st' = (n, fs)
    \<and> (\<exists>p data. p \<in> fst ` set fs \<and> pp_root p = pp_root base \<and> prefix (pp_parts base @ [layer, tid]) (pp_parts p)
         \<and> (\<exists>key. resolve_key base key = Inr p \<and> be_read_json (te_be (ae_tm env)) key fs = Inr (Some data))
         \<and> page_of layer ds page sz data = Inr pg)"
proof -
  from assms(4) obtain data st1 where d: "dataset_document env shown (Some r) layer ds (n, fs) = (Inr data, st1)"
    and pg: "page_of layer ds page sz data = Inr pg" "st' = st1"
    by (auto simp: read_dataset_def io_bind_Inr split: if_splits)
  from dataset_document_Inr [OF d] assms(2) obtain path where
      g: "layer_gate shown (Some r) layer = Inr ()" and path: "resolve_dataset_path layer tid ds = Inr path"
      and st1: "st1 = (n, fs)" and rd: "be_read_json (te_be (ae_tm env)) path fs = Inr (Some data)" by auto
  from g have l: "layer \<in> set valid_layers"
      "claims_access \<lparr>custom_roles = []\<rparr> (st_role r) (st_user_role r) (layer_permission layer) = Inr True"
    by (simp_all add: layer_gate_Inr)
  from rd obtain p where p: "resolve_key base path = Inr p" and "map_of fs p \<noteq> None"
    unfolding assms(1) by (cases "resolve_key base path") (auto simp: local_backend_def local_read_json_def split: option.splits)
  then have listed: "p \<in> fst ` set fs" by (simp add: map_of_eq_None_iff)
  have below: "pp_root p = pp_root base \<and> prefix (pp_parts base @ [layer, tid]) (pp_parts p)"
    by (rule resolve_dataset_below [OF l(1) assms(3) path p])
  show ?thesis
    using l pg st1 by (intro conjI exI [of _ p] exI [of _ data] exI [of _ path]) (use below listed p rd in \<open>simp_all add: valid_layers_def\<close>)
qed

theorem explorer_stays_in_partition_witness:
  "\<exists>pg. read_dataset disk_api [] (Some sample_caller) ''gold'' ''scored_tasks'' 1 20 (0, scored_files) = (Inr pg, 0, scored_files)
     \<and> (\<exists>p \<in> fst ` set scored_files. prefix [''data'', ''gold'', ''tn_1''] (pp_parts p))"
proof -
  obtain pg where run: "read_dataset disk_api [] (Some sample_caller) ''gold'' ''scored_tasks'' 1 20 (0, scored_files) =
      (Inr pg, 0, scored_files)" using sample_read by blast
  have "te_be (ae_tm disk_api) = local_backend (\<lambda>_. None) (\<lambda>_. []) (py_path ''/data'')" by (rule disk_parts)
  from explorer_stays_in_partition [OF this sample_caller_permitted(2) _ run] run show ?thesis
    by (auto simp: part_ok_def sample_base)
qed

text \<open>The pages of a dataset are the dataset: for any page size, the pages up to the last one hold all its
rows in order, each page at most the page size, and every page reports the number of rows.\<close>

theorem explorer_pages_cover:
  assumes "0 < sz" and "length rows \<le> k * nat sz"
  shows "\<exists>pgs. rmap (\<lambda>i. page_of layer ds (int i + 1) sz (JObj ((''records'', JArr (map JObj rows)) # d))) [0..<k] = Inr pgs
    \<and> concat (map dp_records pgs) = rows
    \<and> (\<forall>pg \<in> set pgs. dp_count pg = length rows \<and> length (dp_records pg) \<le> nat sz)"
proof -
  define pg where "pg = (\<lambda>i. \<lparr>dp_layer = layer, dp_dataset = ds,
      dp_records = drop (i * nat sz) (take (i * nat sz + nat sz) rows), dp_count = length rows,
      dp_page = int i + 1, dp_page_size = sz\<rparr>)"
  have "nat (int i * sz) = i * nat sz" for i using assms(1) by (simp add: nat_mult_distrib)
  then have "rmap (\<lambda>i. page_of layer ds (int i + 1) sz (JObj ((''records'', JArr (map JObj rows)) # d))) [0..<k] =
      Inr (map pg [0..<k])"
    by (simp add: rmap_Inr_iff page_of_rows pg_def list_all2_map2 list_all2_refl)
  moreover have "concat (map dp_records (map pg [0..<k])) = rows"
    using pages_concat [of "nat sz" rows k] assms(2) by (simp add: pg_def comp_def)
  ultimately show ?thesis by (auto simp: pg_def)
qed

theorem explorer_pages_cover_witness:
  "\<exists>pgs. rmap (\<lambda>i. page_of ''gold'' ''x'' (int i + 1) 2
       (JObj [(''records'', JArr [JObj [(''id'', JInt 1)], JObj [(''id'', JInt 2)], JObj [(''id'', JInt 3)]])])) [0..<2] = Inr pgs
     \<and> concat (map dp_records pgs) = [[(''id'', JInt 1)], [(''id'', JInt 2)], [(''id'', JInt 3)]]"
  using explorer_pages_cover [of 2 "[[(''id'', JInt 1)], [(''id'', JInt 2)], [(''id'', JInt 3)]]" 2 "''gold''" "''x''" "[]"]
  by auto





text \<open>Of a day's requests of a tenant exactly the first ones up to its quota pass the counter, however they
are interleaved with those of other tenants.\<close>

theorem manual_runs_within_quota:
  assumes "\<forall>(tid', t) \<in> set rs. tid' = tid \<longrightarrow> max_pipeline_runs_per_day (tn_quota t) = limit"
    and "0 \<le> used_today counts tid today" and "used_today counts tid today \<le> limit"
  shows "int (length (filter (\<lambda>(tid', ok). tid' = tid \<and> ok) (day_grants today rs counts))) =
    min (int (length (filter (\<lambda>(tid', t). tid' = tid) rs))) (limit - used_today counts tid today)"
  by (rule day_grants_bound [OF assms])

theorem manual_runs_within_quota_witness:
  "length (filter (\<lambda>(tid', ok). tid' = ''tn_1'' \<and> ok) (day_grants ''2025-01-01''
     (replicate 5 (''tn_1'', free_tenant)) [])) = 3"
proof -
  have "int (length (filter (\<lambda>(tid', ok). tid' = ''tn_1'' \<and> ok) (day_grants ''2025-01-01''
     (replicate 5 (''tn_1'', free_tenant)) []))) = min (int (length (filter (\<lambda>(tid', t). tid' = ''tn_1'')
     (replicate 5 (''tn_1'', free_tenant))))) (3 - used_today [] ''tn_1'' ''2025-01-01'')"
    by (rule manual_runs_within_quota)
      (simp_all add: used_today_def free_tenant_def make_tenant_def tenant_post_init_def quota_for_tier_def Let_def)
  then show ?thesis by (simp add: used_today_def)
qed

end
