(* ===== verification/Lake.thy ===== *)
theory Lake
  imports Catalog StoreIO Silver
begin

text \<open>
  The SQL engine's copy of the pipeline, \<open>src/brain/engine/processor.py\<close>: three tables a tenant's
  records go through, with their statistics and lineage in the catalog. A table is the list of its rows.
  DuckDB is third-party: of its SQL the statements in the source are modelled, with \<open>md5\<close> and the order
  in which it scans rows that compare equal as parameters (\<open>lk_scan\<close> permutes rows before a stable
  sort). A TIMESTAMP column holds the time whose ISO text is written to it. The range check of the
  engine's 32-bit INTEGER columns and the connection (\<open>engine/connection.py\<close>) are not modelled.
\<close>

section \<open>Tables\<close>

record bronze_row =
  br_id :: string
  br_tenant_id :: string
  br_source :: string
  br_content :: string
  br_priority :: int
  br_due_date :: string
  br_labels :: string
  br_project_name :: string
  br_ingested_at :: datetime
  br_batch_id :: string

record silver_row =
  sv_id :: string
  sv_tenant_id :: string
  sv_content :: string
  sv_priority :: int
  sv_due_date :: string
  sv_labels :: string
  sv_project_name :: string
  sv_data_hash :: string
  sv_processed_at :: datetime

record gold_row =
  gw_id :: string
  gw_tenant_id :: string
  gw_content :: string
  gw_score :: int
  gw_reasons :: string
  gw_priority :: int
  gw_due_date :: string
  gw_project_name :: string
  gw_scored_at :: datetime

record lake =
  lk_bronze :: "bronze_row list option"
  lk_silver :: "silver_row list option"
  lk_gold :: "gold_row list option"
  lk_catalog :: catalog_db

record lake_env =
  le_namespace :: string
  le_catalog :: catalog_env
  le_md5 :: "string \<Rightarrow> string"
  le_dumps :: "json \<Rightarrow> string"
  le_str :: "json \<Rightarrow> string"
  le_scan_bronze :: "bronze_row list \<Rightarrow> bronze_row list"
  le_scan_gold :: "gold_row list \<Rightarrow> gold_row list"

definition new_lake :: "catalog_db \<Rightarrow> lake" where
  "new_lake db = \<lparr>lk_bronze = None, lk_silver = None, lk_gold = None, lk_catalog = db\<rparr>"

text \<open>What a table holds; a statement on a table that was never created raises.\<close>

definition table_rows :: "(lake \<Rightarrow> 'r list option) \<Rightarrow> (lake, 'r list) io" where
  "table_rows tab = (\<lambda>(n, s). case tab s of None \<Rightarrow> (Inl (OtherError ''CatalogException''), n, s)
                                     | Some rows \<Rightarrow> (Inr rows, n, s))"

definition set_lake :: "(lake \<Rightarrow> lake) \<Rightarrow> (lake, unit) io" where
  "set_lake f = (\<lambda>(n, s). (Inr (), n, f s))"

definition in_catalog :: "(catalog_db \<Rightarrow> 'a res \<times> catalog_db) \<Rightarrow> (lake, unit) io" where
  "in_catalog f = (\<lambda>(n, s). case f (lk_catalog s) of
     (Inl e, db) \<Rightarrow> (Inl e, n, s\<lparr>lk_catalog := db\<rparr>) | (Inr _, db) \<Rightarrow> (Inr (), n, s\<lparr>lk_catalog := db\<rparr>))"

section \<open>Initialisation\<close>

definition bronze_columns :: "column_def list" where
  "bronze_columns =
     [\<lparr>cd_name = ''id'', cd_dtype = ''TEXT'', cd_nullable = False, cd_description = ''Task ID from source''\<rparr>,
      \<lparr>cd_name = ''tenant_id'', cd_dtype = ''TEXT'', cd_nullable = False, cd_description = ''Tenant partition key''\<rparr>,
      \<lparr>cd_name = ''source'', cd_dtype = ''TEXT'', cd_nullable = False,
       cd_description = ''Data source (todoist, calendar, gmail)''\<rparr>,
      \<lparr>cd_name = ''content'', cd_dtype = ''TEXT'', cd_nullable = True, cd_description = ''Task content''\<rparr>,
      \<lparr>cd_name = ''priority'', cd_dtype = ''INTEGER'', cd_nullable = True, cd_description = ''Priority 1-4''\<rparr>,
      \<lparr>cd_name = ''due_date'', cd_dtype = ''TEXT'', cd_nullable = True, cd_description = ''ISO due date''\<rparr>,
      \<lparr>cd_name = ''labels'', cd_dtype = ''TEXT'', cd_nullable = True, cd_description = ''JSON array of labels''\<rparr>,
      \<lparr>cd_name = ''project_name'', cd_dtype = ''TEXT'', cd_nullable = True, cd_description = ''Project name''\<rparr>,
      \<lparr>cd_name = ''ingested_at'', cd_dtype = ''TIMESTAMP'', cd_nullable = False, cd_description = ''Ingestion timestamp''\<rparr>,
      \<lparr>cd_name = ''batch_id'', cd_dtype = ''TEXT'', cd_nullable = False, cd_description = ''Batch identifier''\<rparr>]"

definition silver_columns :: "column_def list" where
  "silver_columns =
     [\<lparr>cd_name = ''id'', cd_dtype = ''TEXT'', cd_nullable = False, cd_description = ''Deduplicated task ID''\<rparr>,
      \<lparr>cd_name = ''tenant_id'', cd_dtype = ''TEXT'', cd_nullable = False, cd_description = ''Tenant partition key''\<rparr>,
      \<lparr>cd_name = ''content'', cd_dtype = ''TEXT'', cd_nullable = True, cd_description = ''PII-masked content''\<rparr>,
      \<lparr>cd_name = ''priority'', cd_dtype = ''INTEGER'', cd_nullable = True, cd_description = ''Validated priority''\<rparr>,
      \<lparr>cd_name = ''due_date'', cd_dtype = ''TEXT'', cd_nullable = True, cd_description = ''Validated due date''\<rparr>,
      \<lparr>cd_name = ''labels'', cd_dtype = ''TEXT'', cd_nullable = True, cd_description = ''JSON array of labels''\<rparr>,
      \<lparr>cd_name = ''project_name'', cd_dtype = ''TEXT'', cd_nullable = True, cd_description = ''Project name''\<rparr>,
      \<lparr>cd_name = ''data_hash'', cd_dtype = ''TEXT'', cd_nullable = True, cd_description = ''SHA-256 data quality hash''\<rparr>,
      \<lparr>cd_name = ''processed_at'', cd_dtype = ''TIMESTAMP'', cd_nullable = False, cd_description = ''Processing timestamp''\<rparr>]"

definition gold_columns :: "column_def list" where
  "gold_columns =
     [\<lparr>cd_name = ''id'', cd_dtype = ''TEXT'', cd_nullable = False, cd_description = ''Task ID''\<rparr>,
      \<lparr>cd_name = ''tenant_id'', cd_dtype = ''TEXT'', cd_nullable = False, cd_description = ''Tenant partition key''\<rparr>,
      \<lparr>cd_name = ''content'', cd_dtype = ''TEXT'', cd_nullable = True, cd_description = ''Task content''\<rparr>,
      \<lparr>cd_name = ''score'', cd_dtype = ''INTEGER'', cd_nullable = False, cd_description = ''Computed priority score''\<rparr>,
      \<lparr>cd_name = ''reasons'', cd_dtype = ''TEXT'', cd_nullable = True, cd_description = ''JSON array of scoring reasons''\<rparr>,
      \<lparr>cd_name = ''priority'', cd_dtype = ''INTEGER'', cd_nullable = True, cd_description = ''Original priority''\<rparr>,
      \<lparr>cd_name = ''due_date'', cd_dtype = ''TEXT'', cd_nullable = True, cd_description = ''Due date''\<rparr>,
      \<lparr>cd_name = ''project_name'', cd_dtype = ''TEXT'', cd_nullable = True, cd_description = ''Project name''\<rparr>,
      \<lparr>cd_name = ''scored_at'', cd_dtype = ''TIMESTAMP'', cd_nullable = False, cd_description = ''Scoring timestamp''\<rparr>]"

definition if_missing :: "'r list option \<Rightarrow> 'r list option" where
  "if_missing t = (case t of None \<Rightarrow> Some [] | Some rows \<Rightarrow> Some rows)"

definition create_tables :: "(lake, unit) io" where
  "create_tables = set_lake (\<lambda>s. s\<lparr>lk_bronze := if_missing (lk_bronze s), lk_silver := if_missing (lk_silver s),
                                   lk_gold := if_missing (lk_gold s)\<rparr>)"

definition register_catalog :: "lake_env \<Rightarrow> datetime \<Rightarrow> (lake, unit) io" where
  "register_catalog env now =
     (let reg = (\<lambda>schema name columns description.
            in_catalog (register_table (le_catalog env) now (le_namespace env) schema name columns 0 0 ''json'' description))
      in io_bind (reg ''bronze'' ''raw_tasks'' bronze_columns ''Raw ingested tasks'') (\<lambda>_.
         io_bind (reg ''silver'' ''clean_tasks'' silver_columns ''Cleaned, deduplicated tasks'') (\<lambda>_.
           reg ''gold'' ''scored_tasks'' gold_columns ''Scored and ranked tasks'')))"

definition initialize_lake :: "lake_env \<Rightarrow> datetime \<Rightarrow> (lake, unit) io" where
  "initialize_lake env now = io_bind create_tables (\<lambda>_. register_catalog env now)"

section \<open>Bronze\<close>

text \<open>\<open>str(v)\<close> and \<open>int(v)\<close> of a JSON value.\<close>

definition lake_str :: "lake_env \<Rightarrow> json \<Rightarrow> string" where
  "lake_str env v = (case v of JStr s \<Rightarrow> s | v \<Rightarrow> le_str env v)"

definition lake_int :: "json \<Rightarrow> int res" where
  "lake_int v =
     (case v of
        JInt i \<Rightarrow> Inr i
      | JBool b \<Rightarrow> Inr (if b then 1 else 0)
      | JReal x \<Rightarrow> Inr (if x \<ge> 0 then \<lfloor>x\<rfloor> else \<lceil>x\<rceil>)
      | JStr s \<Rightarrow> (case py_int s of Some i \<Rightarrow> Inr i | None \<Rightarrow> Inl (ValueError ''invalid literal for int()''))
      | _ \<Rightarrow> Inl (OtherError ''TypeError''))"

definition due_text :: "lake_env \<Rightarrow> jdict \<Rightarrow> string" where
  "due_text env d = (let v = dget d ''due_date'' (JStr []) in lake_str env (if jtruthy v then v else JStr []))"

definition bronze_row_of ::
    "lake_env \<Rightarrow> datetime \<Rightarrow> string \<Rightarrow> string \<Rightarrow> string \<Rightarrow> jdict \<Rightarrow> bronze_row res" where
  "bronze_row_of env now tid source batch d =
     rbind (lake_int (dget d ''priority'' (JInt 1))) (\<lambda>priority.
       Inr \<lparr>br_id = lake_str env (dget d ''id'' (JStr [])), br_tenant_id = tid, br_source = source,
            br_content = lake_str env (dget d ''content'' (JStr [])), br_priority = priority,
            br_due_date = due_text env d, br_labels = le_dumps env (dget d ''labels'' (JArr [])),
            br_project_name = lake_str env (dget d ''project_name'' (JStr [])), br_ingested_at = now,
            br_batch_id = batch\<rparr>)"

definition batch_name :: "lake_env \<Rightarrow> datetime \<Rightarrow> string \<Rightarrow> string \<Rightarrow> string \<Rightarrow> string" where
  "batch_name env now tid source batch_id =
     (if batch_id \<noteq> [] then batch_id else source @ ''_'' @ tid @ ''_'' @ ce_iso (le_catalog env) now)"

definition bronze_ingest ::
    "lake_env \<Rightarrow> datetime \<Rightarrow> string \<Rightarrow> string \<Rightarrow> jdict list \<Rightarrow> string \<Rightarrow> (lake, nat) io" where
  "bronze_ingest env now tid source records batch_id =
     (if records = [] then io_ret 0
      else io_bind (io_res (rmap (bronze_row_of env now tid source (batch_name env now tid source batch_id)) records)) (\<lambda>rows.
           io_bind (table_rows lk_bronze) (\<lambda>old.
           io_bind (set_lake (\<lambda>s. s\<lparr>lk_bronze := Some (old @ rows)\<rparr>)) (\<lambda>_.
           io_bind (in_catalog (update_table_stats (le_catalog env) now (le_namespace env) ''bronze'' ''raw_tasks''
                      (int (length (filter (\<lambda>r. br_tenant_id r = tid) (old @ rows)))) 0)) (\<lambda>_.
           io_bind (in_catalog (record_lineage (le_catalog env) now (''external.'' @ source)
                      (le_namespace env @ ''.bronze.raw_tasks'') ''bronze'' tid (int (length rows)))) (\<lambda>_.
             io_ret (length rows)))))))"

section \<open>Silver\<close>

definition hash_text :: "lake_env \<Rightarrow> bronze_row \<Rightarrow> string" where
  "hash_text env r =
     le_md5 env (py_join ''|'' [br_id r, br_content r, int_text (br_priority r), br_due_date r])"

definition silver_row_of :: "lake_env \<Rightarrow> datetime \<Rightarrow> bronze_row \<Rightarrow> silver_row" where
  "silver_row_of env now r =
     \<lparr>sv_id = br_id r, sv_tenant_id = br_tenant_id r, sv_content = br_content r, sv_priority = br_priority r,
      sv_due_date = br_due_date r, sv_labels = br_labels r, sv_project_name = br_project_name r,
      sv_data_hash = hash_text env r, sv_processed_at = now\<rparr>"

text \<open>\<open>ROW_NUMBER() OVER (PARTITION BY tenant_id, id ORDER BY ingested_at DESC)\<close> being one.\<close>

definition latest_of :: "lake_env \<Rightarrow> bronze_row list \<Rightarrow> string \<Rightarrow> bronze_row" where
  "latest_of env rows i =
     hd (sort_key (\<lambda>r. - dt_micros (br_ingested_at r)) (le_scan_bronze env (filter (\<lambda>r. br_id r = i) rows)))"

definition clean_rows :: "lake_env \<Rightarrow> string \<Rightarrow> bronze_row list \<Rightarrow> bronze_row list" where
  "clean_rows env tid bronze =
     (let rows = filter (\<lambda>r. br_tenant_id r = tid \<and> br_id r \<noteq> [] \<and> br_content r \<noteq> []) bronze
      in map (latest_of env rows) (remdups (map br_id rows)))"

definition silver_transform :: "lake_env \<Rightarrow> datetime \<Rightarrow> string \<Rightarrow> (lake, nat) io" where
  "silver_transform env now tid =
     io_bind (table_rows lk_silver) (\<lambda>old.
     io_bind (set_lake (\<lambda>s. s\<lparr>lk_silver := Some (filter (\<lambda>r. sv_tenant_id r \<noteq> tid) old)\<rparr>)) (\<lambda>_.
     io_bind (table_rows lk_bronze) (\<lambda>bronze.
     let new = map (silver_row_of env now) (clean_rows env tid bronze);
         rows = filter (\<lambda>r. sv_tenant_id r \<noteq> tid) old @ new;
         n = length (filter (\<lambda>r. sv_tenant_id r = tid) rows)
     in io_bind (set_lake (\<lambda>s. s\<lparr>lk_silver := Some rows\<rparr>)) (\<lambda>_.
        io_bind (in_catalog (update_table_stats (le_catalog env) now (le_namespace env) ''silver'' ''clean_tasks'' (int n) 0)) (\<lambda>_.
        io_bind (in_catalog (record_lineage (le_catalog env) now (le_namespace env @ ''.bronze.raw_tasks'')
                   (le_namespace env @ ''.silver.clean_tasks'') ''silver'' tid (int n))) (\<lambda>_.
          io_ret n))))))"

section \<open>Gold\<close>

definition gold_row_of :: "lake_env \<Rightarrow> datetime \<Rightarrow> string \<Rightarrow> jdict \<Rightarrow> gold_row res" where
  "gold_row_of env now tid d =
     rbind (lake_int (dget d ''score'' (JInt 0))) (\<lambda>score.
     rbind (lake_int (dget d ''priority'' (JInt 1))) (\<lambda>priority.
       Inr \<lparr>gw_id = lake_str env (dget d ''task_id'' (dget d ''id'' (JStr []))), gw_tenant_id = tid,
            gw_content = lake_str env (dget d ''content'' (JStr [])), gw_score = score,
            gw_reasons = le_dumps env (dget d ''reasons'' (JArr [])), gw_priority = priority,
            gw_due_date = due_text env d, gw_project_name = lake_str env (dget d ''project_name'' (JStr [])),
            gw_scored_at = now\<rparr>))"

text \<open>The tenant's rows are deleted before the new ones are built.\<close>

definition gold_enrich :: "lake_env \<Rightarrow> datetime \<Rightarrow> string \<Rightarrow> jdict list \<Rightarrow> (lake, nat) io" where
  "gold_enrich env now tid scored_tasks =
     io_bind (table_rows lk_gold) (\<lambda>old.
     let kept = filter (\<lambda>r. gw_tenant_id r \<noteq> tid) old
     in io_bind (set_lake (\<lambda>s. s\<lparr>lk_gold := Some kept\<rparr>)) (\<lambda>_.
        io_bind (io_res (rmap (gold_row_of env now tid) scored_tasks)) (\<lambda>rows.
        io_bind (set_lake (\<lambda>s. s\<lparr>lk_gold := Some (kept @ rows)\<rparr>)) (\<lambda>_.
        io_bind (in_catalog (update_table_stats (le_catalog env) now (le_namespace env) ''gold'' ''scored_tasks''
                   (int (length rows)) 0)) (\<lambda>_.
        io_bind (in_catalog (record_lineage (le_catalog env) now (le_namespace env @ ''.silver.clean_tasks'')
                   (le_namespace env @ ''.gold.scored_tasks'') ''gold'' tid (int (length rows)))) (\<lambda>_.
          io_ret (length rows)))))))"

section \<open>Queries\<close>

definition gold_query :: "lake_env \<Rightarrow> string \<Rightarrow> nat \<Rightarrow> (lake, gold_row list) io" where
  "gold_query env tid top_n =
     io_bind (table_rows lk_gold) (\<lambda>rows.
       io_ret (take top_n (sort_key (\<lambda>r. - gw_score r)
                 (le_scan_gold env (filter (\<lambda>r. gw_tenant_id r = tid) rows)))))"

definition silver_query :: "string \<Rightarrow> (lake, silver_row list) io" where
  "silver_query tid =
     io_bind (table_rows lk_silver) (\<lambda>rows. io_ret (sort_key sv_id (filter (\<lambda>r. sv_tenant_id r = tid) rows)))"

definition bronze_query :: "lake_env \<Rightarrow> string \<Rightarrow> string option \<Rightarrow> (lake, bronze_row list) io" where
  "bronze_query env tid source =
     io_bind (table_rows lk_bronze) (\<lambda>rows.
       io_ret (sort_key (\<lambda>r. - dt_micros (br_ingested_at r)) (le_scan_bronze env
         (filter (\<lambda>r. br_tenant_id r = tid \<and> (case source of Some s \<Rightarrow> s = [] \<or> br_source r = s | None \<Rightarrow> True)) rows))))"

record lake_stats =
  lt_tenant_id :: string
  lt_bronze_records :: nat
  lt_silver_records :: nat
  lt_gold_records :: nat
  lt_top_score :: int

text \<open>\<open>MAX\<close> of no rows is NULL, which counts as zero.\<close>

definition tenant_stats :: "string \<Rightarrow> (lake, lake_stats) io" where
  "tenant_stats tid =
     io_bind (table_rows lk_bronze) (\<lambda>b.
     io_bind (table_rows lk_silver) (\<lambda>s.
     io_bind (table_rows lk_gold) (\<lambda>g.
       let mine = filter (\<lambda>r. gw_tenant_id r = tid) g
       in io_ret \<lparr>lt_tenant_id = tid, lt_bronze_records = length (filter (\<lambda>r. br_tenant_id r = tid) b),
                  lt_silver_records = length (filter (\<lambda>r. sv_tenant_id r = tid) s),
                  lt_gold_records = length mine,
                  lt_top_score = (if mine = [] then 0 else Max (gw_score ` set mine))\<rparr>)))"

end
