(* ===== verification/LakeLaws.thy ===== *)
theory LakeLaws
  imports Lake CatalogLaws Pipeline
begin

text \<open>
  What the SQL pipeline guarantees: the silver table has one row per valid task of the tenant, made from
  a latest record of it; a query returns the best rows; and the operations of one tenant leave the rows
  of the others alone.
\<close>

section \<open>Running the steps\<close>

lemma table_rows_run: "table_rows tab (n, s) = (case tab s of None \<Rightarrow> (Inl (OtherError ''CatalogException''), n, s) | Some rows \<Rightarrow> (Inr rows, n, s))"
  by (simp add: table_rows_def)

lemma table_rows_Inr: "table_rows tab (n, s) = (Inr rows, st') \<longleftrightarrow> tab s = Some rows \<and> st' = (n, s)"
  by (auto simp: table_rows_def split: option.splits)

lemma set_lake_run [simp]: "set_lake f (n, s) = (Inr (), n, f s)"
  by (simp add: set_lake_def)

definition tables_of :: "lake \<Rightarrow> bronze_row list option \<times> silver_row list option \<times> gold_row list option" where
  "tables_of s = (lk_bronze s, lk_silver s, lk_gold s)"

lemma in_catalog_tables: "in_catalog f (n, s) = (r, n', s') \<Longrightarrow> n' = n \<and> tables_of s' = tables_of s"
  by (cases "f (lk_catalog s)") (auto simp: in_catalog_def tables_of_def split: sum.splits)

text \<open>Two updates of the catalog leave the tables alone.\<close>

lemma catalog_twice:
  assumes "io_bind (in_catalog f) (\<lambda>_. io_bind (in_catalog g) (\<lambda>_. io_ret x)) (n, s) = (r, n', s')"
  shows "tables_of s' = tables_of s \<and> (case r of Inr y \<Rightarrow> y = x | Inl _ \<Rightarrow> True)"
proof -
  obtain r1 n1 s1 where a: "in_catalog f (n, s) = (r1, n1, s1)" by (cases "in_catalog f (n, s)")
  obtain r2 n2 s2 where b: "in_catalog g (n1, s1) = (r2, n2, s2)" by (cases "in_catalog g (n1, s1)")
  from assms in_catalog_tables [OF a, THEN conjunct2] in_catalog_tables [OF b, THEN conjunct2] show ?thesis
    by (cases r1; cases r2) (auto simp: io_bind_run a b)
qed

section \<open>Silver\<close>

definition scans :: "lake_env \<Rightarrow> bool" where
  "scans env \<longleftrightarrow> (\<forall>xs. mset (le_scan_bronze env xs) = mset xs) \<and> (\<forall>xs. mset (le_scan_gold env xs) = mset xs)"

lemma scan_set: "scans env \<Longrightarrow> set (le_scan_bronze env xs) = set xs"
  by (metis scans_def set_mset_mset)

lemma hd_sort_key_least:
  fixes f :: "'a \<Rightarrow> 'b :: linorder"
  assumes "xs \<noteq> []"
  shows "hd (sort_key f xs) \<in> set xs \<and> (\<forall>x \<in> set xs. f (hd (sort_key f xs)) \<le> f x)"
proof -
  have ne: "sort_key f xs \<noteq> []" using assms by (metis length_0_conv length_sort)
  then obtain y ys where s: "sort_key f xs = y # ys" by (cases "sort_key f xs") auto
  have "sorted (map f (sort_key f xs))" by simp
  with s have "\<forall>x \<in> set (y # ys). f y \<le> f x" by simp
  moreover have "set (y # ys) = set xs" by (metis s set_sort)
  ultimately show ?thesis using s by auto
qed

lemma latest_of_member:
  assumes "scans env" and "i \<in> br_id ` set rows"
  shows "latest_of env rows i \<in> set rows \<and> br_id (latest_of env rows i) = i
    \<and> (\<forall>r \<in> set rows. br_id r = i \<longrightarrow> dt_micros (br_ingested_at r) \<le> dt_micros (br_ingested_at (latest_of env rows i)))"
proof -
  let ?xs = "le_scan_bronze env (filter (\<lambda>r. br_id r = i) rows)"
  have set: "set ?xs = {r \<in> set rows. br_id r = i}" using scan_set [OF assms(1)] by auto
  obtain r where "r \<in> set rows" "br_id r = i" using assms(2) by blast
  then have "r \<in> set ?xs" unfolding set by simp
  then have "?xs \<noteq> []" by (cases ?xs) simp_all
  from hd_sort_key_least [OF this, of "\<lambda>r. - dt_micros (br_ingested_at r)"] show ?thesis
    unfolding set latest_of_def by auto
qed

definition valid_row :: "string \<Rightarrow> bronze_row \<Rightarrow> bool" where
  "valid_row tid r \<longleftrightarrow> br_tenant_id r = tid \<and> br_id r \<noteq> [] \<and> br_content r \<noteq> []"

lemma clean_rows_exact:
  assumes "scans env"
  shows "map br_id (clean_rows env tid bronze) = remdups (map br_id (filter (valid_row tid) bronze))"
    and "\<forall>r \<in> set (clean_rows env tid bronze). r \<in> set bronze \<and> valid_row tid r
      \<and> (\<forall>r' \<in> set bronze. valid_row tid r' \<and> br_id r' = br_id r \<longrightarrow> dt_micros (br_ingested_at r') \<le> dt_micros (br_ingested_at r))"
proof -
  define rows where "rows = filter (valid_row tid) bronze"
  have c: "clean_rows env tid bronze = map (latest_of env rows) (remdups (map br_id rows))"
    by (simp add: clean_rows_def rows_def valid_row_def [abs_def] Let_def)
  note m = latest_of_member [OF assms, of _ rows]
  have "map (\<lambda>i. br_id (latest_of env rows i)) (remdups (map br_id rows)) = remdups (map br_id rows)"
    using m by (intro map_idI) auto
  then show "map br_id (clean_rows env tid bronze) = remdups (map br_id (filter (valid_row tid) bronze))"
    by (simp add: c comp_def rows_def)
  show "\<forall>r \<in> set (clean_rows env tid bronze). r \<in> set bronze \<and> valid_row tid r
      \<and> (\<forall>r' \<in> set bronze. valid_row tid r' \<and> br_id r' = br_id r \<longrightarrow> dt_micros (br_ingested_at r') \<le> dt_micros (br_ingested_at r))"
  proof
    fix r assume "r \<in> set (clean_rows env tid bronze)"
    then obtain i where i: "i \<in> br_id ` set rows" "r = latest_of env rows i" unfolding c by auto
    from m [OF i(1)] show "r \<in> set bronze \<and> valid_row tid r
      \<and> (\<forall>r' \<in> set bronze. valid_row tid r' \<and> br_id r' = br_id r \<longrightarrow> dt_micros (br_ingested_at r') \<le> dt_micros (br_ingested_at r))"
      unfolding i(2) by (auto simp: rows_def)
  qed
qed

lemma silver_transform_tables:
  assumes "silver_transform env now tid (n, s) = (r, n', s')" and "lk_bronze s = Some bronze" and "lk_silver s = Some old"
  shows "lk_bronze s' = Some bronze \<and> lk_gold s' = lk_gold s
    \<and> lk_silver s' = Some (filter (\<lambda>r. sv_tenant_id r \<noteq> tid) old @ map (silver_row_of env now) (clean_rows env tid bronze))
    \<and> (\<forall>k. r = Inr k \<longrightarrow> k = length (filter (\<lambda>r. sv_tenant_id r = tid)
        (filter (\<lambda>r. sv_tenant_id r \<noteq> tid) old @ map (silver_row_of env now) (clean_rows env tid bronze))))"
proof -
  let ?rows = "filter (\<lambda>r. sv_tenant_id r \<noteq> tid) old @ map (silver_row_of env now) (clean_rows env tid bronze)"
  let ?k = "length (filter (\<lambda>r. sv_tenant_id r = tid) ?rows)"
  from assms have "io_bind (in_catalog (update_table_stats (le_catalog env) now (le_namespace env) ''silver'' ''clean_tasks'' (int ?k) 0)) (\<lambda>_.
        io_bind (in_catalog (record_lineage (le_catalog env) now (le_namespace env @ ''.bronze.raw_tasks'')
                   (le_namespace env @ ''.silver.clean_tasks'') ''silver'' tid (int ?k))) (\<lambda>_.
          io_ret ?k)) (n, s\<lparr>lk_silver := Some ?rows\<rparr>) = (r, n', s')"
    by (simp add: silver_transform_def io_bind_run table_rows_run Let_def)
  from catalog_twice [OF this] assms(2) show ?thesis by (cases r) (auto simp: tables_of_def)
qed

section \<open>The other tenants\<close>

definition lake_view :: "string \<Rightarrow> lake \<Rightarrow> bronze_row list option \<times> silver_row list option \<times> gold_row list option" where
  "lake_view tid s =
     (map_option (filter (\<lambda>r. br_tenant_id r = tid)) (lk_bronze s),
      map_option (filter (\<lambda>r. sv_tenant_id r = tid)) (lk_silver s),
      map_option (filter (\<lambda>r. gw_tenant_id r = tid)) (lk_gold s))"

lemma lake_view_catalog [simp]: "lake_view tid (s\<lparr>lk_catalog := db\<rparr>) = lake_view tid s"
  by (simp add: lake_view_def)

lemma view_keeps_catalog: "io_keeps (\<lambda>s. lake_view tid s = x) (in_catalog f)"
  by (auto simp: io_keeps_def in_catalog_def split: sum.splits prod.splits)

lemma view_keeps_rows: "io_keeps P (table_rows tab)"
  by (auto simp: io_keeps_def table_rows_def split: option.splits)

datatype lake_op = LakeIngest string "jdict list" string | LakeTransform | LakeEnrich "jdict list"

fun lake_step :: "lake_env \<Rightarrow> datetime \<Rightarrow> string \<Rightarrow> lake_op \<Rightarrow> (lake, nat) io" where
  "lake_step env now tid (LakeIngest source records batch) = bronze_ingest env now tid source records batch"
| "lake_step env now tid LakeTransform = silver_transform env now tid"
| "lake_step env now tid (LakeEnrich tasks) = gold_enrich env now tid tasks"

fun lake_run :: "lake_env \<Rightarrow> (datetime \<times> string \<times> lake_op) list \<Rightarrow> nat \<times> lake \<Rightarrow> nat \<times> lake" where
  "lake_run env [] st = st"
| "lake_run env ((now, tid, op) # ops) st = lake_run env ops (snd (lake_step env now tid op st))"

lemma bronze_row_tenant: "bronze_row_of env now tid source batch d = Inr r \<Longrightarrow> br_tenant_id r = tid"
  by (auto simp: bronze_row_of_def rbind_Inr_iff)

lemma gold_row_tenant: "gold_row_of env now tid d = Inr r \<Longrightarrow> gw_tenant_id r = tid"
  by (auto simp: gold_row_of_def rbind_Inr_iff)

lemma set_lake_keeps: "(\<And>s. P s \<Longrightarrow> P (f s)) \<Longrightarrow> io_keeps P (set_lake f)"
  by (auto simp: io_keeps_def)

text \<open>A step that replaces a table it has read.\<close>

lemma read_then_keeps:
  assumes "\<And>rows n s r n' s'. tab s = Some rows \<Longrightarrow> P s \<Longrightarrow> f rows (n, s) = (r, n', s') \<Longrightarrow> P s'"
  shows "io_keeps P (io_bind (table_rows tab) f)"
  unfolding io_keeps_def
  by (auto simp: io_bind_run table_rows_run split: option.splits intro: assms)

lemma filter_others: "tid' \<noteq> tid \<Longrightarrow> filter (\<lambda>r. f r = tid) (filter (\<lambda>r. f r \<noteq> tid') xs) = filter (\<lambda>r. f r = tid) xs"
  by (induction xs) auto

text \<open>What the operations of one tenant leave of another's rows: everything.\<close>

lemma lake_step_keeps:
  assumes "tid' \<noteq> tid" and "scans env"
  shows "io_keeps (\<lambda>s. lake_view tid s = x) (lake_step env now tid' op)"
proof (cases op)
  case (LakeIngest source records batch)
  have "io_keeps (\<lambda>s. lake_view tid s = x)
      (io_bind (table_rows lk_bronze) (\<lambda>old. io_bind (set_lake (\<lambda>s. s\<lparr>lk_bronze := Some (old @ rows)\<rparr>)) (\<lambda>_.
         io_bind (in_catalog (f old)) (\<lambda>_. io_bind (in_catalog g) (\<lambda>_. io_ret (length rows))))))"
    if rows: "\<forall>r \<in> set rows. br_tenant_id r \<noteq> tid" for rows f g
  proof (rule read_then_keeps)
    fix old n s r n' s'
    assume b: "lk_bronze s = Some old" and P: "lake_view tid s = x"
      and run: "io_bind (set_lake (\<lambda>s. s\<lparr>lk_bronze := Some (old @ rows)\<rparr>)) (\<lambda>_.
         io_bind (in_catalog (f old)) (\<lambda>_. io_bind (in_catalog g) (\<lambda>_. io_ret (length rows)))) (n, s) = (r, n', s')"
    have "filter (\<lambda>r. br_tenant_id r = tid) rows = []" using rows by (simp add: filter_empty_conv)
    with b P have P': "lake_view tid (s\<lparr>lk_bronze := Some (old @ rows)\<rparr>) = x" by (auto simp: lake_view_def)
    have "io_keeps (\<lambda>s. lake_view tid s = x)
        (io_bind (in_catalog (f old)) (\<lambda>_. io_bind (in_catalog g) (\<lambda>_. io_ret (length rows))))"
      by (intro io_keeps_bind view_keeps_catalog io_keeps_ret)
    from io_keepsD [OF this P'] run show "lake_view tid s' = x" by (simp add: io_bind_run)
  qed
  note keeps = this
  show ?thesis
  proof (cases "rmap (bronze_row_of env now tid' source (batch_name env now tid' source batch)) records")
    case (Inl e)
    then show ?thesis unfolding LakeIngest lake_step.simps bronze_ingest_def
      by (simp del: io_ret_run io_raise_run add: io_keeps_ret io_keeps_raise)
  next
    case (Inr rows)
    have "\<forall>r \<in> set rows. br_tenant_id r \<noteq> tid"
      using rmap_member [OF Inr] bronze_row_tenant assms(1) by blast
    note k = keeps [OF this]
    show ?thesis
    proof (cases "records = []")
      case True
      then show ?thesis unfolding LakeIngest lake_step.simps bronze_ingest_def
        by (simp del: io_ret_run io_raise_run add: io_keeps_ret)
    next
      case False
      show ?thesis unfolding LakeIngest lake_step.simps bronze_ingest_def Inr io_bind_res if_not_P [OF False]
        by (rule k)
    qed
  qed
next
  case LakeTransform
  show ?thesis unfolding LakeTransform lake_step.simps io_keeps_def
  proof (intro allI impI)
    fix n s r n' s'
    assume P: "lake_view tid s = x" and run: "silver_transform env now tid' (n, s) = (r, n', s')"
    show "lake_view tid s' = x"
    proof (cases "lk_silver s")
      case None
      with run P show ?thesis by (simp add: silver_transform_def io_bind_run table_rows_run)
    next
      case (Some old)
      have f: "filter (\<lambda>r. sv_tenant_id r = tid) (filter (\<lambda>r. sv_tenant_id r \<noteq> tid') old) = filter (\<lambda>r. sv_tenant_id r = tid) old"
        by (rule filter_others [OF assms(1)])
      show ?thesis
      proof (cases "lk_bronze s")
        case None
        with run P Some f show ?thesis by (simp add: silver_transform_def io_bind_run table_rows_run lake_view_def) auto
      next
        case b: (Some bronze)
        have "filter (\<lambda>r. sv_tenant_id r = tid) (map (silver_row_of env now) (clean_rows env tid' bronze)) = []"
          using clean_rows_exact(2) [OF assms(2), of tid' bronze] assms(1)
          by (auto simp: filter_empty_conv silver_row_of_def valid_row_def)
        with silver_transform_tables [OF run b Some] P f Some b show ?thesis by (auto simp: lake_view_def)
      qed
    qed
  qed
next
  case (LakeEnrich tasks)
  show ?thesis unfolding LakeEnrich lake_step.simps gold_enrich_def Let_def
  proof (rule read_then_keeps)
    let ?kept = "\<lambda>old. filter (\<lambda>r. gw_tenant_id r \<noteq> tid') old"
    let ?tail = "\<lambda>rows. io_bind (in_catalog (update_table_stats (le_catalog env) now (le_namespace env) ''gold'' ''scored_tasks''
                   (int (length rows)) 0)) (\<lambda>_.
        io_bind (in_catalog (record_lineage (le_catalog env) now (le_namespace env @ ''.silver.clean_tasks'')
                   (le_namespace env @ ''.gold.scored_tasks'') ''gold'' tid' (int (length rows)))) (\<lambda>_.
          io_ret (length rows)))"
    fix old n s r n' s'
    assume g: "lk_gold s = Some old" and P: "lake_view tid s = x"
      and run: "io_bind (set_lake (\<lambda>s. s\<lparr>lk_gold := Some (?kept old)\<rparr>)) (\<lambda>_.
        io_bind (io_res (rmap (gold_row_of env now tid') tasks)) (\<lambda>rows.
        io_bind (set_lake (\<lambda>s. s\<lparr>lk_gold := Some (?kept old @ rows)\<rparr>)) (\<lambda>_. ?tail rows))) (n, s) = (r, n', s')"
    note f = filter_others [OF assms(1), of gw_tenant_id old]
    show "lake_view tid s' = x"
    proof (cases "rmap (gold_row_of env now tid') tasks")
      case (Inl e)
      with run P g f show ?thesis by (auto simp: io_bind_run lake_view_def)
    next
      case (Inr rows)
      have "filter (\<lambda>r. gw_tenant_id r = tid) rows = []"
        using rmap_member [OF Inr] gold_row_tenant assms(1) by (fastforce simp: filter_empty_conv)
      with g P f have P': "lake_view tid (s\<lparr>lk_gold := Some (?kept old @ rows)\<rparr>) = x" by (auto simp: lake_view_def)
      from run Inr have run': "?tail rows (n, s\<lparr>lk_gold := Some (?kept old @ rows)\<rparr>) = (r, n', s')"
        by (simp add: io_bind_run)
      have "io_keeps (\<lambda>s. lake_view tid s = x) (?tail rows)"
        by (intro io_keeps_bind view_keeps_catalog io_keeps_ret)
      from io_keepsD [OF this P' run'] show ?thesis .
    qed
  qed
qed

lemma lake_run_keeps:
  assumes "scans env" and "\<forall>(now, tid', op) \<in> set ops. tid' \<noteq> tid"
  shows "lake_view tid (snd (lake_run env ops st)) = lake_view tid (snd st)"
  using assms(2)
proof (induction ops arbitrary: st)
  case (Cons x ops)
  obtain now tid' op where x: "x = (now, tid', op)" by (cases x)
  with Cons.prems have o: "tid' \<noteq> tid" by simp
  obtain r n' s' where step: "lake_step env now tid' op (fst st, snd st) = (r, n', s')"
    by (cases "lake_step env now tid' op (fst st, snd st)")
  from io_keepsD [OF lake_step_keeps [OF o assms(1)] refl step]
  have "lake_view tid (snd (snd (lake_step env now tid' op st))) = lake_view tid (snd st)"
    using step by simp
  with Cons.IH [of "snd (lake_step env now tid' op st)"] Cons.prems show ?case by (simp add: x)
qed simp

section \<open>The best rows\<close>

lemma gold_query_run:
  "lk_gold s = Some rows \<Longrightarrow> gold_query env tid k (n, s) =
     (Inr (take k (sort_key (\<lambda>r. - gw_score r) (le_scan_gold env (filter (\<lambda>r. gw_tenant_id r = tid) rows)))), n, s)"
  by (simp add: gold_query_def io_bind_run table_rows_run)

lemma best_rows:
  fixes f :: "'a \<Rightarrow> int" and xs :: "'a list"
  defines "ys \<equiv> sort_key (\<lambda>r. - f r) xs"
  shows "sorted_wrt (\<lambda>a b. f a \<ge> f b) (take k ys) \<and> mset (take k ys) \<subseteq># mset xs
    \<and> length (take k ys) = min k (length xs)
    \<and> (\<forall>a \<in># mset xs - mset (take k ys). \<forall>b \<in> set (take k ys). f a \<le> f b)"
proof (intro conjI ballI)
  have s: "sorted_wrt (\<lambda>a b. f a \<ge> f b) ys"
  proof -
    have "sorted (map (\<lambda>r. - f r) ys)" by (simp add: ys_def)
    then show ?thesis by (simp add: sorted_map)
  qed
  then show "sorted_wrt (\<lambda>a b. f a \<ge> f b) (take k ys)" by (rule sorted_wrt_take)
  have m: "mset (take k ys) + mset (drop k ys) = mset xs"
    by (metis append_take_drop_id mset_append mset_sort ys_def)
  then show "mset (take k ys) \<subseteq># mset xs" by (metis mset_subset_eq_add_left)
  show "length (take k ys) = min k (length xs)" by (simp add: ys_def)
  fix a b assume "a \<in># mset xs - mset (take k ys)" and b: "b \<in> set (take k ys)"
  then have a: "a \<in> set (drop k ys)" using m by (metis add_diff_cancel_left' set_mset_mset)
  from s have "sorted_wrt (\<lambda>a b. f a \<ge> f b) (take k ys @ drop k ys)" by simp
  with a b show "f a \<le> f b" unfolding sorted_wrt_append by blast
qed

text \<open>The statistics of a shared table follow the tenant that was transformed last.\<close>

lemma stats_count_one_tenant:
  assumes "silver_transform env now tid (n, s) = (Inr k, n', s')"
    and "row \<in> set (db_tables (lk_catalog s'))" and "table_key row = (le_namespace env, ''silver'', ''clean_tasks'')"
  shows "tr_row_count row = int k"
proof -
  from assms(1) obtain st1 where r: "io_bind (in_catalog (update_table_stats (le_catalog env) now (le_namespace env)
        ''silver'' ''clean_tasks'' (int k) 0)) (\<lambda>_.
      io_bind (in_catalog (record_lineage (le_catalog env) now (le_namespace env @ ''.bronze.raw_tasks'')
                   (le_namespace env @ ''.silver.clean_tasks'') ''silver'' tid (int k))) (\<lambda>_. io_ret k)) st1 = (Inr k, n', s')"
    by (auto simp: silver_transform_def io_bind_Inr Let_def)
  obtain n1 s1 where st1: "st1 = (n1, s1)" by (cases st1)
  from r obtain s2 where u: "in_catalog (update_table_stats (le_catalog env) now (le_namespace env)
        ''silver'' ''clean_tasks'' (int k) 0) (n1, s1) = (Inr (), n1, s2)"
    and l: "in_catalog (record_lineage (le_catalog env) now (le_namespace env @ ''.bronze.raw_tasks'')
                   (le_namespace env @ ''.silver.clean_tasks'') ''silver'' tid (int k)) (n1, s2) = (Inr (), n', s')"
    by (auto simp: io_bind_Inr st1 dest: in_catalog_tables)
  from l have "db_tables (lk_catalog s') = db_tables (lk_catalog s2)"
    by (auto simp: in_catalog_def record_lineage_def split: sum.splits if_splits)
  moreover from u have "db_tables (lk_catalog s2) = map (\<lambda>r. if table_key r = (le_namespace env, ''silver'', ''clean_tasks'')
      then r\<lparr>tr_row_count := int k, tr_size_bytes := 0, tr_updated_at := ce_iso (le_catalog env) now\<rparr> else r)
      (db_tables (lk_catalog s1))"
    by (auto simp: in_catalog_def update_table_stats_def split: sum.splits)
  ultimately show ?thesis using assms(2,3) by (auto simp: table_key_def split: if_splits)
qed

section \<open>A concrete lake\<close>

definition sample_lake_env :: lake_env where
  "sample_lake_env =
     \<lparr>le_namespace = ''velaflow'', le_catalog = sample_catalog, le_md5 = id, le_dumps = (\<lambda>_. ''[]''), le_str = (\<lambda>_. ''None''),
      le_scan_bronze = id, le_scan_gold = id\<rparr>"

lemma sample_scans: "scans sample_lake_env"
  by (simp add: scans_def sample_lake_env_def)

definition sample_bronze :: "int \<Rightarrow> string \<Rightarrow> string \<Rightarrow> bronze_row" where
  "sample_bronze t tid content =
     \<lparr>br_id = ''7'', br_tenant_id = tid, br_source = ''todoist'', br_content = content, br_priority = 1, br_due_date = [],
      br_labels = ''[]'', br_project_name = [], br_ingested_at = \<lparr>dt_micros = t, dt_aware = True\<rparr>, br_batch_id = ''b''\<rparr>"

definition sample_gold :: "int \<Rightarrow> gold_row" where
  "sample_gold k =
     \<lparr>gw_id = int_text k, gw_tenant_id = ''tn_1'', gw_content = ''a'', gw_score = k, gw_reasons = ''[]'', gw_priority = 1,
      gw_due_date = [], gw_project_name = [], gw_scored_at = sample_time\<rparr>"

definition sample_lake :: lake where
  "sample_lake =
     \<lparr>lk_bronze = Some [sample_bronze 1 ''tn_1'' ''old'', sample_bronze 2 ''tn_1'' ''new'', sample_bronze 3 ''tn_2'' ''other''],
      lk_silver = Some [], lk_gold = Some (map sample_gold [1, 3, 2]), lk_catalog = empty_catalog\<rparr>"

lemma catalog_updates_succeed:
  assumes "times_parse (le_catalog env)" and "int k < 2 ^ 63"
  shows "\<exists>s'. io_bind (in_catalog (update_table_stats (le_catalog env) now ns sch name (int k) 0)) (\<lambda>_.
    io_bind (in_catalog (record_lineage (le_catalog env) now src tgt stage tid (int k))) (\<lambda>_. io_ret x)) (n, s) = (Inr x, n, s')"
proof -
  have i: "sql_int (int k) = Inr (int k)" "sql_int 0 = Inr 0" using assms(2) by (simp_all add: sql_int_def)
  have t: "parse_time (le_catalog env) (ce_iso (le_catalog env) now) = Inr now"
    using assms(1) by (simp add: times_parse_def iso_res_def)
  show ?thesis by (simp add: io_bind_run in_catalog_def update_table_stats_def record_lineage_def i t)
qed

lemma sample_transform: "\<exists>k s. silver_transform sample_lake_env sample_time ''tn_1'' (0, sample_lake) = (Inr k, 0, s)"
proof -
  let ?b = "[sample_bronze 1 ''tn_1'' ''old'', sample_bronze 2 ''tn_1'' ''new'', sample_bronze 3 ''tn_2'' ''other'']"
  let ?new = "map (silver_row_of sample_lake_env sample_time) (clean_rows sample_lake_env ''tn_1'' ?b)"
  let ?k = "length (filter (\<lambda>r. sv_tenant_id r = ''tn_1'') ?new)"
  have "map br_id (clean_rows sample_lake_env ''tn_1'' ?b) = [''7'']"
    unfolding clean_rows_exact(1) [OF sample_scans] by (simp add: valid_row_def sample_bronze_def)
  from arg_cong [OF this, of length] have "length ?new = 1" by simp
  then have k: "int ?k < 2 ^ 63" using length_filter_le [of "\<lambda>r. sv_tenant_id r = ''tn_1''" ?new] by simp
  have "times_parse (le_catalog sample_lake_env)" by (simp add: sample_lake_env_def sample_catalog_times)
  from catalog_updates_succeed [OF this k, of sample_time "le_namespace sample_lake_env" "''silver''" "''clean_tasks''"
      "le_namespace sample_lake_env @ ''.bronze.raw_tasks''" "le_namespace sample_lake_env @ ''.silver.clean_tasks''" "''silver''"
      "''tn_1''" ?k 0 "sample_lake\<lparr>lk_silver := Some ?new\<rparr>"]
  obtain s' where "io_bind (in_catalog (update_table_stats (le_catalog sample_lake_env) sample_time (le_namespace sample_lake_env)
        ''silver'' ''clean_tasks'' (int ?k) 0)) (\<lambda>_.
      io_bind (in_catalog (record_lineage (le_catalog sample_lake_env) sample_time (le_namespace sample_lake_env @ ''.bronze.raw_tasks'')
        (le_namespace sample_lake_env @ ''.silver.clean_tasks'') ''silver'' ''tn_1'' (int ?k))) (\<lambda>_. io_ret ?k))
      (0, sample_lake\<lparr>lk_silver := Some ?new\<rparr>) = (Inr ?k, 0, s')" by (elim exE) (rule that)
  moreover have "lk_silver sample_lake = Some []" "lk_bronze sample_lake = Some ?b"
      "lk_bronze (lk_silver_update f sample_lake) = Some ?b"
      "lk_silver_update g (lk_silver_update f sample_lake) = lk_silver_update (g \<circ> f) sample_lake" for f g
    by (simp_all add: sample_lake_def)
  ultimately show ?thesis by (simp add: silver_transform_def io_bind_run table_rows_run Let_def comp_def)
qed

section \<open>Properties\<close>

text \<open>After a silver transformation the tenant has exactly one silver row per id of its valid bronze
records, made from one of the latest records of that id; the other tenants' rows are untouched and the count
returned is the number of the tenant's rows.\<close>

theorem lake_silver_exact:
  assumes "scans env" and "lk_bronze s = Some bronze" and "lk_silver s = Some old"
    and "silver_transform env now tid (n, s) = (Inr k, n', s')"
  shows "\<exists>rows clean. lk_silver s' = Some rows \<and> filter (\<lambda>r. sv_tenant_id r = tid) rows = map (silver_row_of env now) clean
    \<and> k = length clean
    \<and> map br_id clean = remdups (map br_id (filter (valid_row tid) bronze))
    \<and> (\<forall>r \<in> set clean. r \<in> set bronze \<and> valid_row tid r
         \<and> (\<forall>r' \<in> set bronze. valid_row tid r' \<and> br_id r' = br_id r \<longrightarrow>
              dt_micros (br_ingested_at r') \<le> dt_micros (br_ingested_at r)))
    \<and> filter (\<lambda>r. sv_tenant_id r \<noteq> tid) rows = filter (\<lambda>r. sv_tenant_id r \<noteq> tid) old
    \<and> lk_bronze s' = Some bronze \<and> lk_gold s' = lk_gold s"
proof -
  let ?clean = "clean_rows env tid bronze"
  let ?new = "map (silver_row_of env now) ?clean"
  have "\<forall>r \<in> set ?new. sv_tenant_id r = tid"
    using clean_rows_exact(2) [OF assms(1)] by (auto simp: silver_row_of_def valid_row_def)
  then have f: "filter (\<lambda>r. sv_tenant_id r = tid) ?new = ?new" "filter (\<lambda>r. sv_tenant_id r \<noteq> tid) ?new = []"
    by (simp_all add: filter_empty_conv)
  have g: "filter (\<lambda>r. sv_tenant_id r = tid) (filter (\<lambda>r. sv_tenant_id r \<noteq> tid) old) = []" by (simp add: filter_empty_conv)
  from silver_transform_tables [OF assms(4,2,3)] show ?thesis
    by (intro exI [of _ "filter (\<lambda>r. sv_tenant_id r \<noteq> tid) old @ ?new"] exI [of _ ?clean])
      (use clean_rows_exact [OF assms(1), of tid bronze] f g in \<open>simp_all add: filter_empty_conv\<close>)
qed

theorem lake_silver_exact_witness:
  "\<exists>k s. silver_transform sample_lake_env sample_time ''tn_1'' (0, sample_lake) = (Inr k, 0, s) \<and> k = 1
     \<and> (\<exists>rows. lk_silver s = Some rows \<and> map sv_content (filter (\<lambda>r. sv_tenant_id r = ''tn_1'') rows) = [''new''])"
proof -
  obtain k s where run: "silver_transform sample_lake_env sample_time ''tn_1'' (0, sample_lake) = (Inr k, 0, s)"
    using sample_transform by blast
  have "lk_bronze sample_lake = Some [sample_bronze 1 ''tn_1'' ''old'', sample_bronze 2 ''tn_1'' ''new'', sample_bronze 3 ''tn_2'' ''other'']"
    "lk_silver sample_lake = Some []" by (simp_all add: sample_lake_def)
  from lake_silver_exact [OF sample_scans this run] obtain rows clean where rows: "lk_silver s = Some rows"
      and new: "filter (\<lambda>r. sv_tenant_id r = ''tn_1'') rows = map (silver_row_of sample_lake_env sample_time) clean" "k = length clean"
      and ids: "map br_id clean = remdups (map br_id (filter (valid_row ''tn_1'')
        [sample_bronze 1 ''tn_1'' ''old'', sample_bronze 2 ''tn_1'' ''new'', sample_bronze 3 ''tn_2'' ''other'']))"
      and latest: "\<forall>r \<in> set clean. r \<in> set [sample_bronze 1 ''tn_1'' ''old'', sample_bronze 2 ''tn_1'' ''new'', sample_bronze 3 ''tn_2'' ''other'']
         \<and> valid_row ''tn_1'' r \<and> (\<forall>r' \<in> set [sample_bronze 1 ''tn_1'' ''old'', sample_bronze 2 ''tn_1'' ''new'', sample_bronze 3 ''tn_2'' ''other''].
           valid_row ''tn_1'' r' \<and> br_id r' = br_id r \<longrightarrow> dt_micros (br_ingested_at r') \<le> dt_micros (br_ingested_at r))"
    by (elim exE conjE) (rule that)
  from ids have "map br_id clean = [''7'']" by (simp add: valid_row_def sample_bronze_def)
  then obtain r where r: "clean = [r]" by (cases clean) auto
  from latest [unfolded r] have "r = sample_bronze 2 ''tn_1'' ''new''"
    by (simp add: valid_row_def sample_bronze_def) fastforce
  with rows new r have "k = 1" "map sv_content (filter (\<lambda>r. sv_tenant_id r = ''tn_1'') rows) = [''new'']"
    by (simp_all add: silver_row_of_def sample_bronze_def)
  with run rows show ?thesis by (intro exI [of _ k] exI [of _ s] conjI exI [of _ rows])
qed

text \<open>Whatever operations run for other tenants, failing or not, a tenant's rows in the three tables stay
as they are.\<close>

theorem lake_isolates_tenants:
  assumes "scans env" and "\<forall>(now, tid', op) \<in> set ops. tid' \<noteq> tid"
  shows "lake_view tid (snd (lake_run env ops st)) = lake_view tid (snd st)"
  by (rule lake_run_keeps [OF assms])

theorem lake_isolates_tenants_witness:
  "lake_view ''tn_2'' (snd (lake_run sample_lake_env
     [(sample_time, ''tn_1'', LakeTransform), (sample_time, ''tn_1'', LakeEnrich []),
      (sample_time, ''tn_1'', LakeIngest ''todoist'' [[(''id'', JStr ''9'')]] [])] (0, sample_lake))) = lake_view ''tn_2'' sample_lake"
  using lake_isolates_tenants [OF sample_scans, of "[(sample_time, ''tn_1'', LakeTransform), (sample_time, ''tn_1'', LakeEnrich []),
      (sample_time, ''tn_1'', LakeIngest ''todoist'' [[(''id'', JStr ''9'')]] [])]" "''tn_2''" "(0, sample_lake)"] by simp

text \<open>A query for the top rows returns rows of the tenant only, best first, as many as asked for or all
there are, and no row left out scores higher than one returned.\<close>

theorem gold_query_returns_best:
  assumes "scans env" and "lk_gold s = Some rows" and "gold_query env tid k (n, s) = (r, st')"
  shows "\<exists>best. r = Inr best \<and> st' = (n, s) \<and> sorted_wrt (\<lambda>a b. gw_score a \<ge> gw_score b) best
    \<and> mset best \<subseteq># mset (filter (\<lambda>r. gw_tenant_id r = tid) rows)
    \<and> length best = min k (length (filter (\<lambda>r. gw_tenant_id r = tid) rows))
    \<and> (\<forall>a \<in># mset (filter (\<lambda>r. gw_tenant_id r = tid) rows) - mset best. \<forall>b \<in> set best. gw_score a \<le> gw_score b)"
proof -
  let ?xs = "le_scan_gold env (filter (\<lambda>r. gw_tenant_id r = tid) rows)"
  have m: "mset ?xs = mset (filter (\<lambda>r. gw_tenant_id r = tid) rows)" using assms(1) by (simp add: scans_def)
  have len: "length ?xs = length (filter (\<lambda>r. gw_tenant_id r = tid) rows)" using m by (rule mset_eq_length)
  from assms(3) have "r = Inr (take k (sort_key (\<lambda>r. - gw_score r) ?xs))" "st' = (n, s)"
    by (simp_all add: gold_query_run [OF assms(2)])
  with best_rows [where f = gw_score and xs = ?xs and k = k] show ?thesis unfolding m len by blast
qed

theorem gold_query_returns_best_witness:
  "\<exists>best. gold_query sample_lake_env ''tn_1'' 2 (0, sample_lake) = (Inr best, 0, sample_lake) \<and> length best = 2"
proof -
  have g: "lk_gold sample_lake = Some (map sample_gold [1, 3, 2])" by (simp add: sample_lake_def)
  obtain r st' where run: "gold_query sample_lake_env ''tn_1'' 2 (0, sample_lake) = (r, st')"
    by (cases "gold_query sample_lake_env ''tn_1'' 2 (0, sample_lake)")
  have "length (filter (\<lambda>r. gw_tenant_id r = ''tn_1'') (map sample_gold [1, 3, 2])) = 3" by (simp add: sample_gold_def)
  with gold_query_returns_best [OF sample_scans g run] run show ?thesis by auto
qed

end
