(* ===== verification/Notebook.thy ===== *)
theory Notebook
  imports Cli
begin

text \<open>
  \<open>src/brain/notebooklm.py\<close>, and the command of \<open>src/brain/cli.py\<close> that runs it: the export of the Notion
  workspace and of the active tasks to a NotebookLM notebook. The NotebookLM package is a parameter, with its
  own state; each call of it is logged. Pages of children are followed down to \<open>MAX_DEPTH\<close>. Running out
  of the fuel of a page listing is never caught, since the code would not return. A title that is no text
  counts as its \<open>str\<close>; the dash in the note on a skipped page is written as its UTF-8 bytes, and the causes
  in the texts of exceptions are left out.
\<close>

section \<open>Blocks as Markdown\<close>

definition MAX_SOURCE_CHARS :: nat where "MAX_SOURCE_CHARS = 200000"
definition MAX_DEPTH :: nat where "MAX_DEPTH = 4"
definition MAX_DB_ROWS :: nat where "MAX_DB_ROWS = 200"

definition plain_rt :: "json \<Rightarrow> string res" where
  "plain_rt v =
     (if \<not> jtruthy v then Inr []
      else rbind (as_list v) (\<lambda>segs.
           rbind (rmap (\<lambda>seg. rbind (get_key seg ''plain_text'' (JStr [])) json_str) segs) (\<lambda>texts.
             Inr (concat texts))))"

text \<open>\<open>blk.get(btype, {})\<close>, where the type may be any value.\<close>

definition get_any :: "json \<Rightarrow> json \<Rightarrow> json \<Rightarrow> json res" where
  "get_any v key dflt =
     rbind (as_dict v) (\<lambda>d. rbind (dict_key key) (\<lambda>k.
       case k of JStr s \<Rightarrow> Inr (dget d s dflt) | _ \<Rightarrow> Inr dflt))"

definition block_lines :: "(json \<Rightarrow> string) \<Rightarrow> json \<Rightarrow> string list res" where
  "block_lines str_of blk =
     rbind (get_key blk ''type'' (JStr [])) (\<lambda>btype.
     rbind (get_any blk btype (JObj [])) (\<lambda>data.
     rbind (get_key data ''rich_text'' (JArr [])) (\<lambda>rt.
     rbind (plain_rt rt) (\<lambda>s.
       if btype = JStr ''heading_1'' then Inr [''# '' @ s]
       else if btype = JStr ''heading_2'' then Inr [''## '' @ s]
       else if btype = JStr ''heading_3'' then Inr [''### '' @ s]
       else if btype = JStr ''paragraph'' then Inr [s]
       else if btype = JStr ''bulleted_list_item'' then Inr [''- '' @ s]
       else if btype = JStr ''numbered_list_item'' then Inr [''1. '' @ s]
       else if btype = JStr ''quote'' then Inr [''> '' @ s]
       else if btype = JStr ''callout'' then Inr [''> '' @ s]
       else if btype = JStr ''toggle'' then Inr [''**'' @ s @ ''**'']
       else if btype = JStr ''code'' then
         rbind (get_key data ''language'' (JStr [])) (\<lambda>lang.
           Inr [''```'' @ json_text str_of lang @ newline @ s @ newline @ ''```''])
       else if btype = JStr ''divider'' then Inr [''---'']
       else Inr []))))"

definition blocks_to_md :: "(json \<Rightarrow> string) \<Rightarrow> json list \<Rightarrow> string res" where
  "blocks_to_md str_of blocks =
     rbind (rmap (block_lines str_of) blocks) (\<lambda>lines. Inr (py_join newline (concat lines)))"

text \<open>The value of a property, as it is tested and then printed.\<close>

definition falsy_or :: "json \<Rightarrow> json \<Rightarrow> json" where
  "falsy_or v dflt = (if jtruthy v then v else dflt)"

definition prop_value :: "(json \<Rightarrow> string) \<Rightarrow> json \<Rightarrow> json res" where
  "prop_value str_of p =
     rbind (get_key p ''type'' (JStr [])) (\<lambda>ptype.
       if ptype = JStr ''title'' then
         rbind (get_key p ''title'' (JArr [])) (\<lambda>rt. rbind (plain_rt rt) (\<lambda>s. Inr (JStr s)))
       else if ptype = JStr ''rich_text'' then
         rbind (get_key p ''rich_text'' (JArr [])) (\<lambda>rt. rbind (plain_rt rt) (\<lambda>s. Inr (JStr s)))
       else if ptype = JStr ''select'' then
         rbind (get_key p ''select'' JNull) (\<lambda>v. get_key (falsy_or v (JObj [])) ''name'' (JStr []))
       else if ptype = JStr ''multi_select'' then
         rbind (get_key p ''multi_select'' (JArr [])) (\<lambda>v.
         rbind (option_names v) (\<lambda>names. rbind (rmap json_str names) (\<lambda>ss. Inr (JStr (py_join '', '' ss)))))
       else if ptype = JStr ''date'' then
         rbind (get_key p ''date'' JNull) (\<lambda>v. get_key (falsy_or v (JObj [])) ''start'' (JStr []))
       else if ptype = JStr ''number'' then
         rbind (get_key p ''number'' (JStr [])) (\<lambda>v. Inr (JStr (json_text str_of v)))
       else if ptype = JStr ''checkbox'' then
         rbind (get_key p ''checkbox'' (JStr [])) (\<lambda>v. Inr (JStr (json_text str_of v)))
       else if ptype = JStr ''url'' then
         rbind (get_key p ''url'' (JStr [])) (\<lambda>v. Inr (falsy_or v (JStr [])))
       else Inr (JStr []))"

definition db_entry_to_text :: "(json \<Rightarrow> string) \<Rightarrow> json \<Rightarrow> string res" where
  "db_entry_to_text str_of entry =
     rbind (get_key entry ''properties'' (JObj [])) (\<lambda>props. rbind (as_dict props) (\<lambda>d.
     rbind (rmap (\<lambda>(name, p). rbind (prop_value str_of p) (\<lambda>v.
              Inr (if jtruthy v then [name @ '': '' @ json_text str_of v] else []))) d) (\<lambda>parts.
       Inr (py_join '' | '' (concat parts)))))"

section \<open>The Notion workspace\<close>

record source_bundle =
  sb_title :: string
  sb_sections :: "string list"

definition full_text :: "source_bundle \<Rightarrow> string" where
  "full_text b = take MAX_SOURCE_CHARS (py_join (newline @ newline) (sb_sections b))"

text \<open>\<open>except Exception\<close> around a loop over pages.\<close>

definition or_on_error :: "('s, 'a) io \<Rightarrow> 'a \<Rightarrow> ('s, 'a) io" where
  "or_on_error m x = io_catch m (\<lambda>e. if e = no_fuel then io_raise e else io_ret x)"

definition heading_marks :: "nat \<Rightarrow> string" where
  "heading_marks depth = replicate (min depth 6) CHR ''#''"

definition child_title :: "(json \<Rightarrow> string) \<Rightarrow> json \<Rightarrow> string \<Rightarrow> string \<Rightarrow> string res" where
  "child_title str_of blk kind dflt =
     rbind (get_key blk kind (JObj [])) (\<lambda>c. rbind (get_key c ''title'' (JStr dflt)) (\<lambda>t. Inr (json_text str_of t)))"

definition child_id :: "json \<Rightarrow> string res" where
  "child_id blk = rbind (at_key blk ''id'') json_str"

text \<open>The lines of the rows of a database. They are appended one by one, so a row that cannot be read leaves
those before it, which come with a flag for the failure.\<close>

fun row_lines :: "(json \<Rightarrow> string) \<Rightarrow> json list \<Rightarrow> string list \<times> bool" where
  "row_lines str_of [] = ([], True)"
| "row_lines str_of (row # rows) =
     (case db_entry_to_text str_of row of
        Inl e \<Rightarrow> ([], False)
      | Inr s \<Rightarrow> (case row_lines str_of rows of (ls, ok) \<Rightarrow> ((if s = [] then [] else [''- '' @ s]) @ ls, ok)))"

text \<open>The identifier of the database is read inside the \<open>try\<close> too.\<close>

definition database_lines ::
    "'s notion_env \<Rightarrow> nat \<Rightarrow> (json \<Rightarrow> string) \<Rightarrow> json \<Rightarrow> ('s web, string list \<times> bool) io" where
  "database_lines env fuel str_of blk =
     or_on_error
       (io_bind (io_res (child_id blk)) (\<lambda>i.
        io_bind (query_database env fuel i []) (\<lambda>rows. io_ret (row_lines str_of (take MAX_DB_ROWS rows)))))
       ([], False)"

definition skipped_page :: "nat \<Rightarrow> string \<Rightarrow> string" where
  "skipped_page depth title =
     heading_marks depth @ '' '' @ title @ newline @ ''_(subpage skipped '' @ u_emdash @ '' max depth reached)_''"

text \<open>What one child of a page adds; \<open>extract\<close> stands for the call on a child page.\<close>

definition child_part ::
    "'s notion_env \<Rightarrow> nat \<Rightarrow> (json \<Rightarrow> string) \<Rightarrow> (string \<Rightarrow> string \<Rightarrow> ('s web, string) io) \<Rightarrow> nat \<Rightarrow> json
     \<Rightarrow> ('s web, string list) io" where
  "child_part env fuel str_of extract depth blk =
     io_bind (io_res (get_key blk ''type'' (JStr []))) (\<lambda>btype.
       if btype = JStr ''child_page'' then
         io_bind (io_res (child_title str_of blk ''child_page'' ''Untitled'')) (\<lambda>title.
         io_bind (io_res (child_id blk)) (\<lambda>i.
         io_bind (extract i title) (\<lambda>md. io_ret (if md = [] then [] else [md]))))
       else if btype = JStr ''child_database'' then
         io_bind (io_res (child_title str_of blk ''child_database'' ''Database'')) (\<lambda>title.
         io_bind (database_lines env fuel str_of blk) (\<lambda>(ls, ok).
           io_ret [py_join newline ((heading_marks (depth + 1) @ '' '' @ title @ '' (database)'') # ls
                     @ (if ok then [] else [''_(database unavailable)_'']))]))
       else io_ret [])"

primrec extract_levels ::
    "'s notion_env \<Rightarrow> nat \<Rightarrow> (json \<Rightarrow> string) \<Rightarrow> nat \<Rightarrow> nat \<Rightarrow> string \<Rightarrow> string \<Rightarrow> ('s web, string) io" where
  "extract_levels env fuel str_of 0 = (\<lambda>depth page_id title. io_ret (skipped_page depth title))"
| "extract_levels env fuel str_of (Suc levels) =
     (\<lambda>depth page_id title.
       io_bind (or_on_error (io_bind (paginate_blocks env fuel page_id) (\<lambda>bs. io_ret (Some bs))) None) (\<lambda>found.
         case found of
           None \<Rightarrow> io_ret (heading_marks depth @ '' '' @ title @ newline @ ''_(content unavailable)_'')
         | Some blocks \<Rightarrow>
             io_bind (io_res (blocks_to_md str_of blocks)) (\<lambda>flat.
             io_bind (io_map (child_part env fuel str_of (extract_levels env fuel str_of levels (depth + 1)) depth) blocks)
               (\<lambda>parts.
               io_ret (py_join (newline @ newline)
                 ((heading_marks depth @ '' '' @ title)
                  # (if py_strip flat = [] then [] else [flat]) @ concat parts))))))"

definition extract_page_md ::
    "'s notion_env \<Rightarrow> nat \<Rightarrow> (json \<Rightarrow> string) \<Rightarrow> string \<Rightarrow> string \<Rightarrow> nat \<Rightarrow> ('s web, string) io" where
  "extract_page_md env fuel str_of page_id title depth =
     extract_levels env fuel str_of (Suc MAX_DEPTH - depth) depth page_id title"

definition top_bundle :: "'s notion_env \<Rightarrow> nat \<Rightarrow> (json \<Rightarrow> string) \<Rightarrow> json \<Rightarrow> ('s web, source_bundle list) io" where
  "top_bundle env fuel str_of blk =
     io_bind (io_res (get_key blk ''type'' (JStr []))) (\<lambda>btype.
       if btype = JStr ''child_page'' then
         io_bind (io_res (child_title str_of blk ''child_page'' ''Untitled'')) (\<lambda>title.
         io_bind (io_res (child_id blk)) (\<lambda>i.
         io_bind (extract_page_md env fuel str_of i title 1) (\<lambda>md.
           io_ret [\<lparr>sb_title = title, sb_sections = [md]\<rparr>])))
       else if btype = JStr ''child_database'' then
         io_bind (io_res (child_title str_of blk ''child_database'' ''Database'')) (\<lambda>title.
         io_bind (database_lines env fuel str_of blk) (\<lambda>(ls, ok).
           io_ret [\<lparr>sb_title = title, sb_sections = [py_join newline ((''# '' @ title @ '' (database)'') # ls)]\<rparr>]))
       else io_ret [])"

definition build_source_bundles ::
    "'s notion_env \<Rightarrow> nat \<Rightarrow> (json \<Rightarrow> string) \<Rightarrow> string \<Rightarrow> ('s web, source_bundle list) io" where
  "build_source_bundles env fuel str_of root_page_id =
     io_bind (io_catch (paginate_blocks env fuel root_page_id)
                (\<lambda>e. io_raise (if e = no_fuel then e else RuntimeError (''Cannot read root Notion page '' @ root_page_id)))) (\<lambda>blocks.
     io_bind (io_map (top_bundle env fuel str_of) blocks) (\<lambda>bundles. io_ret (concat bundles)))"

section \<open>The active tasks\<close>

definition PRIORITY_LABEL :: "(int \<times> string) list" where
  "PRIORITY_LABEL = [(4, ''P1''), (3, ''P2''), (2, ''P3''), (1, [])]"

definition project_of :: "task \<Rightarrow> string" where
  "project_of t = (if tk_project_name t = [] then ''Inbox'' else tk_project_name t)"

text \<open>\<open>grouped[pname][sname].append(t)\<close> on a dictionary of dictionaries with default values.\<close>

type_synonym grouped_tasks = "(string \<times> (string \<times> task list) list) list"

definition add_grouped :: "task \<Rightarrow> grouped_tasks \<Rightarrow> grouped_tasks" where
  "add_grouped t grouped =
     AList.update (project_of t)
       (group_add (tk_section_name t, t) (case map_of grouped (project_of t) of None \<Rightarrow> [] | Some secs \<Rightarrow> secs)) grouped"

definition task_order :: "task \<Rightarrow> int \<times> string" where
  "task_order t = (- tk_priority t, case tk_due_date t of None \<Rightarrow> ''9999'' | Some d \<Rightarrow> date_iso d)"

definition task_meta :: "task \<Rightarrow> string list" where
  "task_meta t =
     (case map_of PRIORITY_LABEL (tk_priority t) of None \<Rightarrow> [] | Some l \<Rightarrow> if l = [] then [] else [l])
     @ (case tk_due_date t of None \<Rightarrow> [] | Some d \<Rightarrow> [''due:'' @ date_iso d])
     @ (if tk_labels t = [] then [] else [''labels:'' @ py_join '','' (tk_labels t)])
     @ (if tk_is_recurring t then [''recurring''] else [])"

definition task_lines :: "task \<Rightarrow> string list" where
  "task_lines t =
     (''- '' @ tk_content t @ (if task_meta t = [] then [] else '' ('' @ py_join '' '' (task_meta t) @ '')''))
     # (if tk_description t = [] then [] else [''  '' @ tk_description t])"

definition section_lines :: "string \<times> task list \<Rightarrow> string list" where
  "section_lines sec =
     (if fst sec = [] then [] else [''### '' @ fst sec]) @ concat (map task_lines (sort_key task_order (snd sec)))"

definition project_lines :: "string \<times> (string \<times> task list) list \<Rightarrow> string list" where
  "project_lines p = (''## '' @ fst p) # concat (map section_lines (sort_key fst (snd p))) @ [[]]"

definition todoist_lines :: "task list \<Rightarrow> string list" where
  "todoist_lines tasks =
     [''# Todoist Active Tasks'', []] @ concat (map project_lines (sort_key fst (fold add_grouped tasks [])))"

definition build_todoist_bundle :: "'s todoist_env \<Rightarrow> nat \<Rightarrow> settings \<Rightarrow> ('s web, source_bundle option) io" where
  "build_todoist_bundle env fuel cfg =
     (if cf_todoist_api_token cfg = [] then io_ret None
      else io_bind (or_on_error (get_tasks env fuel [] [] []) []) (\<lambda>tasks.
           io_ret (if tasks = [] then None
                   else Some \<lparr>sb_title = ''Todoist Active Tasks'', sb_sections = [py_join newline (todoist_lines tasks)]\<rparr>)))"

section \<open>The notebook\<close>

record 't nb_service =
  nb_connect :: "'t \<Rightarrow> unit res \<times> 't"
  nb_create :: "string \<Rightarrow> 't \<Rightarrow> string res \<times> 't"
  nb_list :: "string \<Rightarrow> 't \<Rightarrow> string list res \<times> 't"
  nb_delete :: "string \<Rightarrow> string \<Rightarrow> 't \<Rightarrow> unit res \<times> 't"
  nb_add_text :: "string \<Rightarrow> string \<Rightarrow> string \<Rightarrow> 't \<Rightarrow> unit res \<times> 't"

datatype nb_call =
    NbConnect | NbCreate string | NbList string | NbDelete string string | NbAddText string string string

type_synonym 't notebooks = "nb_call list \<times> 't"

definition rpc_error :: py_error where
  "rpc_error = OtherError ''RPCError''"

definition nb_do :: "nb_call \<Rightarrow> ('t \<Rightarrow> 'a res \<times> 't) \<Rightarrow> ('t notebooks, 'a) io" where
  "nb_do call f = (\<lambda>(n, calls, t). case f t of (r, t') \<Rightarrow> (r, n, calls @ [call], t'))"

definition or_on_rpc_error :: "('s, 'a) io \<Rightarrow> 'a \<Rightarrow> ('s, 'a) io" where
  "or_on_rpc_error m x = io_catch m (\<lambda>e. if e = rpc_error then io_ret x else io_raise e)"

definition notebook_id :: "'t nb_service \<Rightarrow> settings \<Rightarrow> ('t notebooks, string) io" where
  "notebook_id svc cfg =
     (if cf_notebooklm_notebook_id cfg \<noteq> [] then io_ret (cf_notebooklm_notebook_id cfg)
      else let name = (if cf_notebooklm_notebook_name cfg = [] then ''VelaFlow'' else cf_notebooklm_notebook_name cfg)
           in io_catch (nb_do (NbCreate name) (nb_create svc name))
                (\<lambda>e. io_raise (if e = rpc_error then RuntimeError (''Failed to create notebook '' @ name) else e)))"

fun delete_sources :: "'t nb_service \<Rightarrow> string \<Rightarrow> string list \<Rightarrow> nat \<Rightarrow> ('t notebooks, nat) io" where
  "delete_sources svc nb [] deleted = io_ret deleted"
| "delete_sources svc nb (src # srcs) deleted =
     io_bind (or_on_rpc_error (io_bind (nb_do (NbDelete nb src) (nb_delete svc nb src)) (\<lambda>_. io_ret (deleted + 1))) deleted)
       (delete_sources svc nb srcs)"

definition clear_notebook :: "'t nb_service \<Rightarrow> string \<Rightarrow> ('t notebooks, nat) io" where
  "clear_notebook svc nb =
     io_bind (or_on_rpc_error (nb_do (NbList nb) (nb_list svc nb)) []) (\<lambda>srcs. delete_sources svc nb srcs 0)"

fun add_sources :: "'t nb_service \<Rightarrow> string \<Rightarrow> source_bundle list \<Rightarrow> nat \<Rightarrow> ('t notebooks, nat) io" where
  "add_sources svc nb [] added = io_ret added"
| "add_sources svc nb (b # bs) added =
     (if py_strip (full_text b) = [] then add_sources svc nb bs added
      else io_bind (or_on_rpc_error
             (io_bind (nb_do (NbAddText nb (sb_title b) (full_text b)) (nb_add_text svc nb (sb_title b) (full_text b)))
                (\<lambda>_. io_ret (added + 1))) added)
             (add_sources svc nb bs))"

record nb_result =
  nr_added :: nat
  nr_deleted :: nat
  nr_notebook_id :: string

definition upload :: "'t nb_service \<Rightarrow> settings \<Rightarrow> bool \<Rightarrow> source_bundle list \<Rightarrow> ('t notebooks, nb_result) io" where
  "upload svc cfg rebuild bundles =
     io_bind (nb_do NbConnect (nb_connect svc)) (\<lambda>_.
     io_bind (notebook_id svc cfg) (\<lambda>nb.
     io_bind (if rebuild then clear_notebook svc nb else io_ret 0) (\<lambda>deleted.
     io_bind (add_sources svc nb bundles 0) (\<lambda>added.
       io_ret \<lparr>nr_added = added, nr_deleted = deleted, nr_notebook_id = nb\<rparr>))))"

text \<open>Operations on one half of the state.\<close>

definition on_web :: "('s, 'a) io \<Rightarrow> ('s \<times> 't, 'a) io" where
  "on_web m = (\<lambda>(n, s, t). case m (n, s) of (r, n', s') \<Rightarrow> (r, n', s', t))"

definition on_notebooks :: "('t, 'a) io \<Rightarrow> ('s \<times> 't, 'a) io" where
  "on_notebooks m = (\<lambda>(n, s, t). case m (n, t) of (r, n', t') \<Rightarrow> (r, n', s, t'))"

text \<open>The service is \<open>None\<close> when the package is not installed.\<close>

definition notebook_bundles :: "'s cli_env \<Rightarrow> settings \<Rightarrow> ('s web, source_bundle list) io" where
  "notebook_bundles env cfg =
     io_bind (build_source_bundles (notion_client env cfg) (cl_fuel env) (cl_str env) (cf_notion_root_page_id cfg)) (\<lambda>bundles.
       if bundles = [] then io_ret []
       else io_bind (build_todoist_bundle (todoist_client env cfg) (cl_fuel env) cfg) (\<lambda>b.
              io_ret (bundles @ (case b of None \<Rightarrow> [] | Some b \<Rightarrow> [b]))))"

definition sync_notion_to_notebooklm ::
    "'s cli_env \<Rightarrow> 't nb_service option \<Rightarrow> settings \<Rightarrow> bool \<Rightarrow> ('s web \<times> 't notebooks, nb_result) io" where
  "sync_notion_to_notebooklm env service cfg rebuild =
     (case service of
        None \<Rightarrow> io_raise (RuntimeError ''notebooklm-py is not installed.'')
      | Some svc \<Rightarrow>
          if cf_notion_root_page_id cfg = []
          then io_raise (ValueError ''NOTION_ROOT_PAGE_ID is not configured in config/.env.'')
          else io_bind (on_web (notebook_bundles env cfg)) (\<lambda>bundles.
               if bundles = [] then io_ret \<lparr>nr_added = 0, nr_deleted = 0, nr_notebook_id = []\<rparr>
               else on_notebooks (upload svc cfg rebuild bundles)))"

definition notebook_summary :: "nb_result \<Rightarrow> string" where
  "notebook_summary r =
     ''NotebookLM sync complete '' @ u_emdash @ '' '' @ nat_text (nr_added r) @ '' sources added, ''
     @ nat_text (nr_deleted r) @ '' deleted. Notebook: '' @ nr_notebook_id r"

definition cmd_notebooklm_sync ::
    "'s cli_env \<Rightarrow> 't nb_service option \<Rightarrow> bool \<Rightarrow> settings \<Rightarrow> cli_args \<Rightarrow> ('s web \<times> 't notebooks, int \<times> cli_output list) io"
    where
  "cmd_notebooklm_sync env service no_rebuild cfg args =
     (if cf_notion_api_token cfg = [] then io_ret (1, [])
      else if cf_notion_root_page_id cfg = [] then io_ret (1, [])
      else io_catch
             (io_bind (sync_notion_to_notebooklm env service cfg (\<not> no_rebuild)) (\<lambda>r.
                io_ret (0, if ca_stdout args then [Printed (notebook_summary r)] else [])))
             (\<lambda>e. case e of RuntimeError m \<Rightarrow> io_ret (1, []) | ValueError m \<Rightarrow> io_ret (1, []) | _ \<Rightarrow> io_raise e))"

section \<open>The whole command line\<close>

definition run_program ::
    "'s cli_env \<Rightarrow> 't nb_service option \<Rightarrow> bool \<Rightarrow> settings \<Rightarrow> cli_args \<Rightarrow> cli_command option
     \<Rightarrow> ('s web \<times> 't notebooks, int \<times> cli_output list) io" where
  "run_program env service no_rebuild cfg args cmd =
     (if cmd = Some NotebooklmSync \<and> cf_todoist_api_token cfg \<noteq> []
      then cmd_notebooklm_sync env service no_rebuild cfg args
      else on_web (run_command env (\<lambda>_ _. refused) cfg args cmd))"

end
