(* ===== verification/NotebookLaws.thy ===== *)
theory NotebookLaws
  imports Notebook CliLaws
begin

text \<open>
  What the NotebookLM export guarantees: it only reads the workspace; it ends on any workspace, cyclic ones
  included, with a bounded number of requests; it makes one source for each top-level child, each within
  the length limit; the tasks are all listed, grouped and sorted; and after a rebuild the notebook holds
  the exported sources and nothing else.
\<close>

section \<open>Only reading\<close>

definition workspace_read :: "http_request \<Rightarrow> bool" where
  "workspace_read req \<longleftrightarrow>
     hr_method req = GET
     \<or> (hr_method req = POST \<and> (\<exists>i. hr_url req = NOTION_API_BASE @ ''/databases/'' @ i @ ''/query''))"

lemma get_reads: "sends_only workspace_read (notion_get env path params)"
  unfolding notion_get_def by (rule notion_sends) (simp add: workspace_read_def notion_request_def)

lemma pages_read: "sends_only workspace_read (paginate_blocks env fuel i)"
proof -
  have "sends_only workspace_read (block_pages env fuel path params acc)" for path params acc
    by (induction env fuel path params acc rule: block_pages.induct)
      (auto intro!: sends_only_bind get_reads simp del: io_ret_run io_raise_run split: prod.splits option.splits)
  then show ?thesis by (simp add: paginate_blocks_def)
qed

lemma query_reads: "sends_only workspace_read (query_database env fuel i [])"
proof -
  have "sends_only workspace_read (notion_post env (''/databases/'' @ i @ ''/query'') body)" for body
    unfolding notion_post_def by (rule notion_sends) (simp add: workspace_read_def notion_request_def)
  then have "sends_only workspace_read (query_pages env fuel (''/databases/'' @ i @ ''/query'') body acc)" for body acc
    by (induction fuel arbitrary: body acc)
      (auto intro!: sends_only_bind simp del: io_ret_run io_raise_run split: prod.splits option.splits)
  then show ?thesis by (simp add: query_database_def)
qed

lemma sends_only_or_on_error [intro]: "sends_only P m \<Longrightarrow> sends_only P (or_on_error m x)"
  unfolding or_on_error_def by (rule sends_only_catch) (auto simp del: io_ret_run io_raise_run)

lemma sends_only_map: "(\<And>x. sends_only P (f x)) \<Longrightarrow> sends_only P (io_map f xs)"
  by (induction xs) (auto intro!: sends_only_bind simp del: io_ret_run)

lemma database_lines_read: "sends_only workspace_read (database_lines env fuel str_of blk)"
  unfolding database_lines_def
  by (intro sends_only_or_on_error sends_only_bind sends_only_res query_reads sends_only_ret)

lemma child_part_reads:
  assumes "\<And>i title. sends_only workspace_read (extract i title)"
  shows "sends_only workspace_read (child_part env fuel str_of extract depth blk)"
  unfolding child_part_def
  by (intro sends_only_bind sends_only_res)
    (auto intro!: sends_only_bind sends_only_res sends_only_ret assms database_lines_read simp del: io_ret_run split: prod.splits)

lemma extract_reads: "sends_only workspace_read (extract_levels env fuel str_of levels depth page_id title)"
proof (induction levels arbitrary: depth page_id title)
  case 0
  show ?case unfolding extract_levels.simps by (rule sends_only_ret)
next
  case (Suc levels)
  show ?case
    unfolding extract_levels.simps
    by (intro sends_only_bind sends_only_or_on_error pages_read sends_only_ret)
      (auto intro!: sends_only_bind sends_only_res sends_only_ret sends_only_map child_part_reads Suc
        simp del: io_ret_run split: option.splits)
qed

lemma bundles_read: "sends_only workspace_read (build_source_bundles env fuel str_of i)"
proof -
  have "sends_only workspace_read (top_bundle env fuel str_of blk)" for blk
    unfolding top_bundle_def extract_page_md_def
    by (intro sends_only_bind sends_only_res)
      (auto intro!: sends_only_bind sends_only_res sends_only_ret extract_reads database_lines_read
        simp del: io_ret_run split: prod.splits)
  then show ?thesis
    unfolding build_source_bundles_def
    by (intro sends_only_bind sends_only_catch pages_read sends_only_map sends_only_raise sends_only_ret)
qed

lemma tasks_read: "sends_only workspace_read (build_todoist_bundle env fuel cfg)"
proof -
  have "sends_only workspace_read (get_tasks env fuel [] [] [])"
    by (rule get_tasks_sends) (simp add: workspace_read_def get_request_def)
  then show ?thesis
    unfolding build_todoist_bundle_def
    by (auto intro!: sends_only_bind sends_only_ret simp del: io_ret_run)
qed

lemma notebook_bundles_read: "sends_only workspace_read (notebook_bundles env cfg)"
  unfolding notebook_bundles_def
  by (intro sends_only_bind bundles_read)
    (auto intro!: sends_only_bind tasks_read sends_only_ret simp del: io_ret_run)

text \<open>The same on the state with both halves.\<close>

definition web_reads :: "('s web \<times> 't, 'a) io \<Rightarrow> bool" where
  "web_reads m \<longleftrightarrow>
     (\<forall>n reqs s t r n' reqs' s' t'. m (n, (reqs, s), t) = (r, n', (reqs', s'), t')
        \<longrightarrow> (\<exists>new. reqs' = reqs @ new \<and> list_all workspace_read new))"

lemma web_reads_ret: "web_reads (io_ret x)" and web_reads_raise: "web_reads (io_raise e)"
  by (simp_all add: web_reads_def)

lemma web_reads_on_web: "sends_only workspace_read m \<Longrightarrow> web_reads (on_web m)"
  unfolding web_reads_def on_web_def sends_only_def by (auto split: prod.splits)

lemma web_reads_on_notebooks: "web_reads (on_notebooks m)"
  unfolding web_reads_def on_notebooks_def by (auto split: prod.splits)

lemma web_reads_then:
  assumes first: "web_reads m" and run: "m (n, (reqs, s), t) = (r1, n1, (reqs1, s1), t1)"
    and rest: "web_reads k" and run2: "k (n1, (reqs1, s1), t1) = (r, n', (reqs', s'), t')"
  shows "\<exists>new. reqs' = reqs @ new \<and> list_all workspace_read new"
proof -
  obtain a where "reqs1 = reqs @ a" "list_all workspace_read a" using first run unfolding web_reads_def by blast
  moreover obtain b where "reqs' = reqs1 @ b" "list_all workspace_read b" using rest run2 unfolding web_reads_def by blast
  ultimately show ?thesis by (intro exI [of _ "a @ b"]) simp
qed

lemma web_reads_bind:
  assumes "web_reads m" and "\<And>x. web_reads (f x)"
  shows "web_reads (io_bind m f)"
  unfolding web_reads_def
proof (intro allI impI)
  fix n reqs s t r n' reqs' s' t'
  assume run: "io_bind m f (n, (reqs, s), t) = (r, n', (reqs', s'), t')"
  obtain r1 n1 reqs1 s1 t1 where m: "m (n, (reqs, s), t) = (r1, n1, (reqs1, s1), t1)"
    by (metis prod.collapse)
  show "\<exists>new. reqs' = reqs @ new \<and> list_all workspace_read new"
  proof (cases r1)
    case (Inl e)
    with run m have "m (n, (reqs, s), t) = (Inl e, n', (reqs', s'), t')" by (simp add: io_bind_run)
    with assms(1) show ?thesis unfolding web_reads_def by blast
  next
    case (Inr x)
    with run m have "f x (n1, (reqs1, s1), t1) = (r, n', (reqs', s'), t')" by (simp add: io_bind_run)
    from web_reads_then [OF assms(1) m assms(2) this] show ?thesis .
  qed
qed

lemma web_reads_catch:
  assumes "web_reads m" and "\<And>e. web_reads (h e)"
  shows "web_reads (io_catch m h)"
  unfolding web_reads_def
proof (intro allI impI)
  fix n reqs s t r n' reqs' s' t'
  assume run: "io_catch m h (n, (reqs, s), t) = (r, n', (reqs', s'), t')"
  obtain r1 n1 reqs1 s1 t1 where m: "m (n, (reqs, s), t) = (r1, n1, (reqs1, s1), t1)"
    by (metis prod.collapse)
  show "\<exists>new. reqs' = reqs @ new \<and> list_all workspace_read new"
  proof (cases r1)
    case (Inl e)
    with run m have "h e (n1, (reqs1, s1), t1) = (r, n', (reqs', s'), t')" by (simp add: io_catch_def)
    from web_reads_then [OF assms(1) m assms(2) this] show ?thesis .
  next
    case (Inr x)
    with run m have "m (n, (reqs, s), t) = (Inr x, n', (reqs', s'), t')" by (simp add: io_catch_def)
    with assms(1) show ?thesis unfolding web_reads_def by blast
  qed
qed

lemma sync_reads: "web_reads (sync_notion_to_notebooklm env service cfg rebuild)"
  unfolding sync_notion_to_notebooklm_def
  by (auto intro!: web_reads_bind web_reads_on_web web_reads_on_notebooks notebook_bundles_read
      simp: web_reads_ret web_reads_raise simp del: io_ret_run io_raise_run split: option.splits)

section \<open>Ending\<close>

text \<open>An operation that adds at most that many requests, and does not run out of fuel.\<close>

definition costs :: "nat \<Rightarrow> ('s web, 'a) io \<Rightarrow> bool" where
  "costs k m \<longleftrightarrow>
     (\<forall>n reqs s r n' reqs' s'. m (n, reqs, s) = (r, n', reqs', s')
        \<longrightarrow> r \<noteq> Inl no_fuel \<and> length reqs' \<le> length reqs + k)"

lemma costs_ret: "costs k (io_ret x)"
  by (simp add: costs_def)

lemma costs_res: "r \<noteq> Inl no_fuel \<Longrightarrow> costs k (io_res r)"
  by (simp add: costs_def)

lemma costs_mono: "costs k m \<Longrightarrow> k \<le> l \<Longrightarrow> costs l m"
  unfolding costs_def by fastforce

lemma costs_bind:
  assumes "costs k m" and "\<And>x st st'. m st = (Inr x, st') \<Longrightarrow> costs l (f x)"
  shows "costs (k + l) (io_bind m f)"
  unfolding costs_def
proof (intro allI impI)
  fix n reqs s r n' reqs' s'
  assume run: "io_bind m f (n, reqs, s) = (r, n', reqs', s')"
  obtain r1 n1 reqs1 s1 where m: "m (n, reqs, s) = (r1, n1, reqs1, s1)" by (cases "m (n, reqs, s)")
  then have first: "r1 \<noteq> Inl no_fuel" "length reqs1 \<le> length reqs + k" using assms(1) unfolding costs_def by blast+
  show "r \<noteq> Inl no_fuel \<and> length reqs' \<le> length reqs + (k + l)"
  proof (cases r1)
    case (Inl e)
    with run m first show ?thesis by (auto simp: io_bind_run)
  next
    case (Inr x)
    with m have "costs l (f x)" using assms(2) by blast
    moreover from Inr run m have "f x (n1, reqs1, s1) = (r, n', reqs', s')" by (simp add: io_bind_run)
    ultimately have "r \<noteq> Inl no_fuel" "length reqs' \<le> length reqs1 + l" unfolding costs_def by blast+
    with first show ?thesis by simp
  qed
qed

lemma costs_bind_res: "r \<noteq> Inl no_fuel \<Longrightarrow> (\<And>x. costs k (f x)) \<Longrightarrow> costs k (io_bind (io_res r) f)"
  using costs_bind [OF costs_res [of r 0], of k f] by simp

lemma costs_bind_ret: "costs k m \<Longrightarrow> (\<And>x. costs 0 (f x)) \<Longrightarrow> costs k (io_bind m f)"
  using costs_bind [of k m 0 f] by simp

lemma costs_catch:
  assumes "costs k m" and "\<And>e. e \<noteq> no_fuel \<Longrightarrow> costs 0 (h e)"
  shows "costs k (io_catch m h)"
  unfolding costs_def
proof (intro allI impI)
  fix n reqs s r n' reqs' s'
  assume run: "io_catch m h (n, reqs, s) = (r, n', reqs', s')"
  obtain r1 n1 reqs1 s1 where m: "m (n, reqs, s) = (r1, n1, reqs1, s1)" by (cases "m (n, reqs, s)")
  then have first: "r1 \<noteq> Inl no_fuel" "length reqs1 \<le> length reqs + k" using assms(1) unfolding costs_def by blast+
  show "r \<noteq> Inl no_fuel \<and> length reqs' \<le> length reqs + k"
  proof (cases r1)
    case (Inl e)
    with first have "costs 0 (h e)" using assms(2) by blast
    moreover from Inl run m have "h e (n1, reqs1, s1) = (r, n', reqs', s')" by (simp add: io_catch_def)
    ultimately have "r \<noteq> Inl no_fuel" "length reqs' \<le> length reqs1 + 0" unfolding costs_def by blast+
    with first show ?thesis by simp
  next
    case (Inr x)
    with run m first show ?thesis by (auto simp: io_catch_def)
  qed
qed

lemma costs_or_on_error: "costs k m \<Longrightarrow> costs k (or_on_error m x)"
  unfolding or_on_error_def by (rule costs_catch) (auto simp: costs_ret simp del: io_ret_run)

lemma costs_if: "costs k a \<Longrightarrow> costs k b \<Longrightarrow> costs k (if c then a else b)"
  by simp

lemma costs_map:
  "(\<And>x. x \<in> set xs \<Longrightarrow> costs k (f x)) \<Longrightarrow> costs (length xs * k) (io_map f xs)"
proof (induction xs)
  case Nil
  show ?case unfolding io_map.simps by (rule costs_ret)
next
  case (Cons a xs)
  have "costs (length xs * k) (io_bind (io_map f xs) (\<lambda>ys. io_ret (y # ys)))" for y
    using Cons by (intro costs_bind_ret costs_ret) simp
  with Cons.prems show ?case by (auto simp del: io_ret_run intro!: costs_bind)
qed

lemma costs_children:
  assumes "\<And>x. costs k (f x)" and "length xs \<le> b"
  shows "costs (b * k) (io_map f xs)"
  by (rule costs_mono [OF costs_map [OF assms(1)] mult_le_mono1 [OF assms(2)]])

text \<open>A failed reading of a document is not running out of fuel.\<close>

definition ends_well :: "'a res \<Rightarrow> bool" where
  "ends_well r \<longleftrightarrow> r \<noteq> Inl no_fuel"

lemma ends_well_rbind: "ends_well r \<Longrightarrow> (\<And>x. ends_well (f x)) \<Longrightarrow> ends_well (rbind r f)"
  by (cases r) (auto simp: ends_well_def)

lemma ends_well_rmap:
  assumes "\<And>x. ends_well (f x)"
  shows "ends_well (rmap f xs)"
proof (induction xs)
  case Nil
  show ?case by (simp add: ends_well_def)
next
  case (Cons a xs)
  show ?case unfolding rmap.simps by (intro ends_well_rbind assms Cons) (simp add: ends_well_def)
qed

lemma ends_well_simps [simp]:
  "ends_well (Inr x)" "ends_well (get_key v k dflt)" "ends_well (at_key v k)" "ends_well (as_dict v)"
  "ends_well (as_list v)" "ends_well (json_str v)" "ends_well (dict_key v)"
  by (auto simp: ends_well_def get_key_def at_key_def as_dict_def as_list_def json_str_def dict_key_def no_fuel_def
      split: json.splits option.splits)

lemma child_ends_well [simp]: "ends_well (child_title str_of blk kind dflt)" "ends_well (child_id blk)"
  by (auto simp: child_title_def child_id_def intro!: ends_well_rbind)

lemma plain_ends_well [simp]: "ends_well (plain_rt v)"
  by (auto simp: plain_rt_def intro!: ends_well_rbind ends_well_rmap)

lemma get_any_ends_well [simp]: "ends_well (get_any v k d)"
  by (auto simp: get_any_def intro!: ends_well_rbind split: json.splits)

lemma blocks_end_well [simp]: "ends_well (blocks_to_md str_of blocks)"
  by (auto simp: blocks_to_md_def block_lines_def intro!: ends_well_rbind ends_well_rmap)

text \<open>A workspace whose pages have at most \<open>b\<close> children, listed, as its databases are, in one answer.\<close>

definition small_workspace :: "'s notion_env \<Rightarrow> nat \<Rightarrow> nat \<Rightarrow> bool" where
  "small_workspace env fuel b \<longleftrightarrow>
     (\<forall>i. costs 1 (paginate_blocks env fuel i) \<and> costs 1 (query_database env fuel i [])
          \<and> (\<forall>st bs st'. paginate_blocks env fuel i st = (Inr bs, st') \<longrightarrow> length bs \<le> b))"

primrec visits :: "nat \<Rightarrow> nat \<Rightarrow> nat" where
  "visits b 0 = 0"
| "visits b (Suc levels) = 1 + b * max 1 (visits b levels)"

lemma database_costs:
  assumes "small_workspace env fuel b"
  shows "costs 1 (database_lines env fuel str_of blk)"
  unfolding database_lines_def using assms
  by (intro costs_or_on_error costs_bind_res costs_bind_ret costs_ret)
    (auto simp: small_workspace_def child_ends_well(2) [unfolded ends_well_def])

lemma reading_ends_well:
  "get_key blk ''type'' (JStr []) \<noteq> Inl no_fuel" "child_title str_of blk kind dflt \<noteq> Inl no_fuel"
  "child_id blk \<noteq> Inl no_fuel" "blocks_to_md str_of bs \<noteq> Inl no_fuel"
  using ends_well_simps child_ends_well blocks_end_well unfolding ends_well_def by blast+

lemma costs_database_then:
  assumes "small_workspace env fuel b" and "1 \<le> k"
  shows "costs k (io_bind (database_lines env fuel str_of blk) (\<lambda>(ls, ok). io_ret (f ls ok)))"
  by (rule costs_bind_ret [OF costs_mono [OF database_costs [OF assms(1)] assms(2)]])
    (simp add: costs_ret case_prod_beta del: io_ret_run)

lemma child_part_costs:
  assumes "small_workspace env fuel b" and "\<And>i title. costs k (extract i title)"
  shows "costs (max 1 k) (child_part env fuel str_of extract depth blk)"
proof -
  have page: "costs (max 1 k) (io_bind (extract i title) (\<lambda>md. io_ret (f md)))" for i title f
    by (rule costs_bind_ret [OF costs_mono [OF assms(2)]]) (simp_all add: costs_ret del: io_ret_run)
  show ?thesis
    unfolding child_part_def
    by (intro costs_bind_res costs_if reading_ends_well page costs_database_then [OF assms(1)] costs_ret) simp
qed

lemma extract_costs:
  assumes "small_workspace env fuel b"
  shows "costs (visits b levels) (extract_levels env fuel str_of levels depth page_id title)"
proof (induction levels arbitrary: depth page_id title)
  case 0
  show ?case unfolding extract_levels.simps by (rule costs_ret)
next
  case (Suc levels)
  let ?list = "or_on_error (io_bind (paginate_blocks env fuel page_id) (\<lambda>bs. io_ret (Some bs))) None"
  have first: "costs 1 ?list"
    using assms by (intro costs_or_on_error costs_bind_ret costs_ret) (simp add: small_workspace_def)
  have few: "length bs \<le> b" if "?list st = (Inr (Some bs), st')" for st st' bs
  proof -
    from that have "paginate_blocks env fuel page_id st = (Inr bs, st')"
      unfolding or_on_error_def io_catch_def io_bind_def
      by (auto split: prod.splits sum.splits if_splits)
    with assms show ?thesis unfolding small_workspace_def by blast
  qed
  have kids: "costs (b * max 1 (visits b levels))
      (io_map (child_part env fuel str_of (extract_levels env fuel str_of levels (depth + 1)) depth) bs)"
    if "length bs \<le> b" for bs
    by (rule costs_children [OF child_part_costs [OF assms Suc] that])
  show ?case
    unfolding extract_levels.simps visits.simps
    by (rule costs_bind [OF first], split option.split)
      (intro conjI allI impI costs_ret costs_bind_res reading_ends_well costs_bind_ret kids, auto intro: few)
qed

lemma bundles_cost:
  assumes "small_workspace env fuel b"
  shows "costs (1 + b * max 1 (visits b MAX_DEPTH)) (build_source_bundles env fuel str_of i)"
proof -
  have page: "costs (max 1 (visits b MAX_DEPTH)) (extract_page_md env fuel str_of pid title 1)" for pid title
    unfolding extract_page_md_def by (rule costs_mono [OF extract_costs [OF assms]]) simp
  have page_then: "costs (max 1 (visits b MAX_DEPTH))
      (io_bind (extract_page_md env fuel str_of pid title 1) (\<lambda>md. io_ret (f md)))" for pid title f
    by (rule costs_bind_ret [OF page]) (rule costs_ret)
  have each: "costs (max 1 (visits b MAX_DEPTH)) (top_bundle env fuel str_of blk)" for blk
    unfolding top_bundle_def 
    by (intro costs_bind_res costs_if reading_ends_well page_then costs_database_then [OF assms] costs_ret) simp
  let ?list = "io_catch (paginate_blocks env fuel i)
      (\<lambda>e. io_raise (if e = no_fuel then e else RuntimeError (''Cannot read root Notion page '' @ i)))"
  have first: "costs 1 ?list"
    by (rule costs_catch) (use assms in \<open>auto simp: small_workspace_def costs_def no_fuel_def\<close>)
  have few: "length bs \<le> b" if "?list st = (Inr bs, st')" for st st' bs
  proof -
    from that have "paginate_blocks env fuel i st = (Inr bs, st')"
      unfolding io_catch_def by (auto split: prod.splits sum.splits if_splits)
    with assms show ?thesis unfolding small_workspace_def by blast
  qed
  have kids: "costs (b * max 1 (visits b MAX_DEPTH)) (io_map (top_bundle env fuel str_of) bs)" if "length bs \<le> b" for bs
    by (rule costs_children [OF each that])
  show ?thesis
    unfolding build_source_bundles_def
    by (rule costs_bind [OF first], intro costs_bind_ret kids costs_ret) (auto intro: few)
qed

section \<open>The tasks in their groups\<close>

text \<open>An association list sorted by its distinct keys.\<close>

lemma sort_key_dict:
  assumes "distinct (map fst al)" and "\<And>k v. map_of al k = Some v \<Longrightarrow> v = f k"
  shows "sort_key fst al = map (\<lambda>k. (k, f k)) (sort (map fst al))"
proof -
  have "sort (map fst al) = map fst (sort_key fst al)"
    by (metis mset_map mset_sort properties_for_sort sorted_sort_key)
  moreover have "map (\<lambda>k. (k, f k)) (map fst (sort_key fst al)) = sort_key fst al"
    unfolding map_map by (rule map_idI) (use assms in \<open>auto simp: map_of_is_SomeI\<close>)
  ultimately show ?thesis by simp
qed

lemma sort_keys_unique: "distinct ks \<Longrightarrow> set ks = set xs \<Longrightarrow> sort ks = sort (remdups xs)"
  by (metis distinct_remdups distinct_sort set_remdups set_sort sorted_distinct_set_unique sorted_sort)

definition tasks_of :: "task list \<Rightarrow> string \<Rightarrow> task list" where
  "tasks_of ts p = filter (\<lambda>t. project_of t = p) ts"

definition by_section :: "task list \<Rightarrow> (string \<times> task list) list" where
  "by_section ts = groups (map (\<lambda>t. (tk_section_name t, t)) ts)"

lemma by_section_snoc: "by_section (ts @ [t]) = group_add (tk_section_name t, t) (by_section ts)"
  by (simp add: by_section_def groups_def)

lemma grouped_lookup:
  "map_of (fold add_grouped ts []) p = (if p \<in> project_of ` set ts then Some (by_section (tasks_of ts p)) else None)"
proof (induction ts rule: rev_induct)
  case Nil
  show ?case by simp
next
  case (snoc t ts)
  show ?case
  proof (cases "project_of t = p")
    case True
    have "by_section (tasks_of ts p) = []" if "p \<notin> project_of ` set ts"
    proof -
      from that have "tasks_of ts p = []" by (auto simp: tasks_of_def filter_empty_conv)
      then show ?thesis by (simp add: by_section_def groups_def)
    qed
    with True snoc by_section_snoc [of "tasks_of ts p" t] show ?thesis
      by (auto simp: add_grouped_def tasks_of_def)
  next
    case False
    with snoc show ?thesis by (auto simp: add_grouped_def tasks_of_def)
  qed
qed

lemma keys_by_lookup:
  assumes "\<And>k. map_of m k = (if k \<in> A then Some (f k) else None)"
  shows "set (map fst m) = A"
proof -
  have "set (map fst m) = dom (map_of m)" by (simp add: dom_map_of_conv_image_fst)
  with assms show ?thesis by (auto simp: dom_def split: if_splits)
qed

lemma grouped_distinct: "distinct (map fst (fold add_grouped ts []))"
  by (induction ts rule: rev_induct) (simp_all add: add_grouped_def distinct_update)

lemma grouped_keys: "set (map fst (fold add_grouped ts [])) = project_of ` set ts"
  by (rule keys_by_lookup) (rule grouped_lookup)

lemma section_group: "group_of (map (\<lambda>t. (tk_section_name t, t)) ts) s = filter (\<lambda>t. tk_section_name t = s) ts"
  by (induction ts) (auto simp: group_of_def)

lemma by_section_lookup:
  "map_of (by_section ts) s =
     (if s \<in> tk_section_name ` set ts then Some (filter (\<lambda>t. tk_section_name t = s) ts) else None)"
  by (auto simp: by_section_def groups_lookup section_group filter_empty_conv)

lemma by_section_keys: "set (map fst (by_section ts)) = tk_section_name ` set ts"
  by (rule keys_by_lookup) (rule by_section_lookup)

lemma by_section_sorted:
  "sort_key fst (by_section ts) =
     map (\<lambda>s. (s, filter (\<lambda>t. tk_section_name t = s) ts)) (sort (remdups (map tk_section_name ts)))"
proof -
  have dist: "distinct (map fst (by_section ts))" unfolding by_section_def by (rule groups_distinct)
  show ?thesis
    unfolding sort_keys_unique [OF dist, of "map tk_section_name ts", symmetric, simplified by_section_keys, simplified]
    by (rule sort_key_dict [OF dist]) (simp add: by_section_lookup split: if_splits)
qed

text \<open>The tasks of a listing, as they are shown: by project, by section, by priority and due date.\<close>

definition shown_section :: "task list \<Rightarrow> string \<Rightarrow> task list" where
  "shown_section ts s = sort_key task_order (filter (\<lambda>t. tk_section_name t = s) ts)"

definition sections_of :: "task list \<Rightarrow> string list" where
  "sections_of ts = sort (remdups (map tk_section_name ts))"

definition projects_of :: "task list \<Rightarrow> string list" where
  "projects_of ts = sort (remdups (map project_of ts))"

definition shown_tasks :: "task list \<Rightarrow> task list" where
  "shown_tasks ts =
     concat (map (\<lambda>p. concat (map (shown_section (tasks_of ts p)) (sections_of (tasks_of ts p)))) (projects_of ts))"

lemma mset_filter_classes:
  assumes "distinct ks" and "f ` set xs \<subseteq> set ks"
  shows "mset (concat (map (\<lambda>k. filter (\<lambda>x. f x = k) xs) ks)) = mset xs"
  using assms
proof (induction ks arbitrary: xs)
  case Nil
  then show ?case by simp
next
  case (Cons k ks)
  let ?rest = "filter (\<lambda>x. f x \<noteq> k) xs"
  have "filter (\<lambda>x. f x = j) xs = filter (\<lambda>x. f x = j) ?rest" if "j \<in> set ks" for j
    using that Cons.prems(1) by (auto intro!: filter_cong)
  then have "concat (map (\<lambda>j. filter (\<lambda>x. f x = j) xs) ks) = concat (map (\<lambda>j. filter (\<lambda>x. f x = j) ?rest) ks)"
    by (intro arg_cong [of _ _ concat] map_cong) auto
  moreover have "mset (concat (map (\<lambda>j. filter (\<lambda>x. f x = j) ?rest) ks)) = mset ?rest"
    using Cons.prems by (intro Cons.IH) auto
  ultimately show ?case
    using multiset_partition [of "mset xs" "\<lambda>x. f x = k"] by (simp add: mset_filter)
qed

lemma mset_concat_map: "mset (concat (map g ks)) = (\<Sum>k\<leftarrow>ks. mset (g k))"
  by (induction ks) simp_all

lemma shown_tasks_all: "mset (shown_tasks ts) = mset ts"
proof -
  have sec: "mset (concat (map (shown_section us) (sections_of us))) = mset us" for us
  proof -
    have "mset (concat (map (shown_section us) (sections_of us)))
        = mset (concat (map (\<lambda>s. filter (\<lambda>t. tk_section_name t = s) us) (sections_of us)))"
      by (simp add: mset_concat_map shown_section_def)
    also have "\<dots> = mset us" by (rule mset_filter_classes) (auto simp: sections_of_def)
    finally show ?thesis .
  qed
  have "mset (shown_tasks ts) = mset (concat (map (tasks_of ts) (projects_of ts)))"
    by (simp add: shown_tasks_def mset_concat_map sec [unfolded mset_concat_map])
  also have "\<dots> = mset ts"
    unfolding tasks_of_def by (rule mset_filter_classes) (auto simp: projects_of_def)
  finally show ?thesis .
qed

lemma grouped_sorted:
  "sort_key fst (fold add_grouped ts []) = map (\<lambda>p. (p, by_section (tasks_of ts p))) (projects_of ts)"
  unfolding projects_of_def
    sort_keys_unique [OF grouped_distinct, of ts "map project_of ts", simplified grouped_keys, simplified, symmetric]
  by (rule sort_key_dict [OF grouped_distinct]) (simp add: grouped_lookup split: if_splits)

section \<open>The sources made\<close>

definition top_titles :: "(json \<Rightarrow> string) \<Rightarrow> json \<Rightarrow> string list" where
  "top_titles str_of blk =
     (case get_key blk ''type'' (JStr []) of
        Inl e \<Rightarrow> []
      | Inr btype \<Rightarrow>
          (case if btype = JStr ''child_page'' then child_title str_of blk ''child_page'' ''Untitled''
                else if btype = JStr ''child_database'' then child_title str_of blk ''child_database'' ''Database''
                else Inl no_fuel of
             Inl e \<Rightarrow> [] | Inr t \<Rightarrow> [t]))"

lemma io_bind_InrE:
  assumes "io_bind m f st = (Inr y, st')"
  obtains x st1 where "m st = (Inr x, st1)" and "f x st1 = (Inr y, st')"
  using assms unfolding io_bind_def by (auto split: prod.splits sum.splits)

lemma top_bundle_title:
  assumes "top_bundle env fuel str_of blk st = (Inr bs, st')"
  shows "map sb_title bs = top_titles str_of blk"
proof -
  obtain btype st1 where kind: "get_key blk ''type'' (JStr []) = Inr btype"
    using assms unfolding top_bundle_def by (auto elim!: io_bind_InrE)
  show ?thesis
    using assms kind unfolding top_bundle_def top_titles_def
    by (auto elim!: io_bind_InrE split: if_splits prod.splits)
qed

lemma bundles_titles:
  "io_map (top_bundle env fuel str_of) blocks st = (Inr bss, st')
   \<Longrightarrow> map sb_title (concat bss) = concat (map (top_titles str_of) blocks)"
proof (induction blocks arbitrary: bss st)
  case Nil
  then show ?case by simp
next
  case (Cons blk blocks)
  from Cons.prems obtain bs st1 bss' where
      "top_bundle env fuel str_of blk st = (Inr bs, st1)"
      "io_map (top_bundle env fuel str_of) blocks st1 = (Inr bss', st')" "bss = bs # bss'"
    unfolding io_map.simps by (auto elim!: io_bind_InrE)
  with Cons.IH top_bundle_title [of env fuel str_of blk st bs st1] show ?case by simp
qed

section \<open>The contents of a notebook\<close>

text \<open>A service that keeps, for each notebook, its sources: identifier, title and text.\<close>

type_synonym 't nb_view = "'t \<Rightarrow> string \<Rightarrow> (string \<times> string \<times> string) list"

definition keeps_sources :: "'t nb_service \<Rightarrow> 't nb_view \<Rightarrow> bool" where
  "keeps_sources svc view \<longleftrightarrow>
     (\<forall>t. \<exists>t'. nb_connect svc t = (Inr (), t') \<and> view t' = view t)
     \<and> (\<forall>t name. \<exists>nb t'. nb_create svc name t = (Inr nb, t') \<and> view t nb = [] \<and> view t' = view t)
     \<and> (\<forall>t nb. distinct (map fst (view t nb)))
     \<and> (\<forall>t nb. \<exists>t'. nb_list svc nb t = (Inr (map fst (view t nb)), t') \<and> view t' = view t)
     \<and> (\<forall>t nb i. i \<in> fst ` set (view t nb) \<longrightarrow>
          (\<exists>t'. nb_delete svc nb i t = (Inr (), t') \<and> view t' = (view t)(nb := filter (\<lambda>s. fst s \<noteq> i) (view t nb))))
     \<and> (\<forall>t nb title body.
          \<exists>t' i. nb_add_text svc nb title body t = (Inr (), t') \<and> view t' = (view t)(nb := view t nb @ [(i, title, body)]))"

lemma keeps_connect: "keeps_sources svc view \<Longrightarrow> \<exists>t'. nb_connect svc t = (Inr (), t') \<and> view t' = view t"
  and keeps_create: "keeps_sources svc view \<Longrightarrow> \<exists>nb t'. nb_create svc name t = (Inr nb, t') \<and> view t nb = [] \<and> view t' = view t"
  and keeps_distinct: "keeps_sources svc view \<Longrightarrow> distinct (map fst (view t nb))"
  and keeps_list: "keeps_sources svc view \<Longrightarrow> \<exists>t'. nb_list svc nb t = (Inr (map fst (view t nb)), t') \<and> view t' = view t"
  and keeps_delete: "keeps_sources svc view \<Longrightarrow> i \<in> fst ` set (view t nb) \<Longrightarrow>
      \<exists>t'. nb_delete svc nb i t = (Inr (), t') \<and> view t' = (view t)(nb := filter (\<lambda>s. fst s \<noteq> i) (view t nb))"
  and keeps_add: "keeps_sources svc view \<Longrightarrow>
      \<exists>t' i. nb_add_text svc nb title body t = (Inr (), t') \<and> view t' = (view t)(nb := view t nb @ [(i, title, body)])"
  unfolding keeps_sources_def by (simp_all only: simp_thms)

lemma delete_step:
  assumes "keeps_sources svc view" and "i \<in> fst ` set (view t nb)"
  shows "\<exists>t'. io_bind (or_on_rpc_error (io_bind (nb_do (NbDelete nb i) (nb_delete svc nb i)) (\<lambda>_. io_ret (k + 1))) k) f (n, calls, t)
        = f (k + 1) (n, calls @ [NbDelete nb i], t')
      \<and> view t' = (view t)(nb := filter (\<lambda>s. fst s \<noteq> i) (view t nb))"
proof -
  obtain t' where "nb_delete svc nb i t = (Inr (), t')" "view t' = (view t)(nb := filter (\<lambda>s. fst s \<noteq> i) (view t nb))"
    using keeps_delete [OF assms] by (elim exE conjE) (rule that)
  then show ?thesis by (intro exI [of _ t']) (simp add: io_bind_run or_on_rpc_error_def io_catch_def nb_do_def)
qed

lemma delete_run:
  assumes "keeps_sources svc view"
  shows "view t nb = srcs \<Longrightarrow>
     \<exists>calls' t'. delete_sources svc nb (map fst srcs) k (n, calls, t) = (Inr (k + length srcs), n, calls', t')
       \<and> view t' = (view t)(nb := [])"
proof (induction srcs arbitrary: k calls t)
  case Nil
  then show ?case by (auto intro!: exI [of _ t])
next
  case (Cons src srcs)
  from assms have "distinct (map fst (view t nb))" by (rule keeps_distinct)
  with Cons.prems have gone: "filter (\<lambda>s. fst s \<noteq> fst src) (view t nb) = srcs"
    by (auto simp: filter_id_conv image_iff)
  from Cons.prems have "fst src \<in> fst ` set (view t nb)" by simp
  from delete_step [OF assms this, of k "delete_sources svc nb (map fst srcs)" n calls] gone
  obtain t1 where step: "delete_sources svc nb (map fst (src # srcs)) k (n, calls, t)
        = delete_sources svc nb (map fst srcs) (k + 1) (n, calls @ [NbDelete nb (fst src)], t1)"
      and view: "view t1 = (view t)(nb := srcs)"
    by auto
  from view have "view t1 nb = srcs" by simp
  from Cons.IH [OF this, of "k + 1" "calls @ [NbDelete nb (fst src)]"] step view show ?case by (auto simp: fun_eq_iff)
qed

lemma clear_run:
  assumes "keeps_sources svc view"
  shows "\<exists>calls' t'. clear_notebook svc nb (n, calls, t) = (Inr (length (view t nb)), n, calls', t')
       \<and> view t' = (view t)(nb := [])"
proof -
  obtain t1 where listed: "nb_list svc nb t = (Inr (map fst (view t nb)), t1)" and same: "view t1 = view t"
    using keeps_list [OF assms, where t = t and nb = nb] by (elim exE conjE) (rule that)
  then have "clear_notebook svc nb (n, calls, t) = delete_sources svc nb (map fst (view t nb)) 0 (n, calls @ [NbList nb], t1)"
    by (simp add: clear_notebook_def io_bind_run or_on_rpc_error_def io_catch_def nb_do_def)
  with delete_run [OF assms, of t1 nb "view t nb" 0 n "calls @ [NbList nb]"] same show ?thesis by simp
qed

text \<open>The sources of the bundles with a text.\<close>

definition bundle_sources :: "source_bundle list \<Rightarrow> (string \<times> string) list" where
  "bundle_sources bs = map (\<lambda>b. (sb_title b, full_text b)) (filter (\<lambda>b. py_strip (full_text b) \<noteq> []) bs)"

lemma add_run:
  assumes "keeps_sources svc view"
  shows "\<exists>calls' t'. add_sources svc nb bs k (n, calls, t) = (Inr (k + length (bundle_sources bs)), n, calls', t')
       \<and> map snd (view t' nb) = map snd (view t nb) @ bundle_sources bs \<and> (\<forall>other. other \<noteq> nb \<longrightarrow> view t' other = view t other)"
proof (induction bs arbitrary: k calls t)
  case Nil
  show ?case by (simp add: bundle_sources_def)
next
  case (Cons b bs)
  show ?case
  proof (cases "py_strip (full_text b) = []")
    case True
    with Cons.IH [of k calls t] show ?thesis by (simp add: bundle_sources_def)
  next
    case False
    obtain t1 i where added: "nb_add_text svc nb (sb_title b) (full_text b) t = (Inr (), t1)"
        and view: "view t1 = (view t)(nb := view t nb @ [(i, sb_title b, full_text b)])"
      using keeps_add [OF assms, where t = t and nb = nb and title = "sb_title b" and body = "full_text b"] by (elim exE conjE) (rule that)
    from False added have "add_sources svc nb (b # bs) k (n, calls, t)
        = add_sources svc nb bs (k + 1) (n, calls @ [NbAddText nb (sb_title b) (full_text b)], t1)"
      by (simp add: io_bind_run or_on_rpc_error_def io_catch_def nb_do_def)
    with Cons.IH [of "k + 1" "calls @ [NbAddText nb (sb_title b) (full_text b)]" t1] False view show ?thesis
      by (auto simp: bundle_sources_def)
  qed
qed

lemma notebook_id_run:
  assumes "keeps_sources svc view"
  shows "\<exists>nb calls' t'. notebook_id svc cfg (n, calls, t) = (Inr nb, n, calls', t') \<and> view t' = view t
      \<and> (if cf_notebooklm_notebook_id cfg = [] then view t nb = [] else nb = cf_notebooklm_notebook_id cfg)"
proof (cases "cf_notebooklm_notebook_id cfg = []")
  case True
  obtain nb t' where "nb_create svc (if cf_notebooklm_notebook_name cfg = [] then ''VelaFlow'' else cf_notebooklm_notebook_name cfg) t
      = (Inr nb, t')" "view t nb = []" "view t' = view t"
    using keeps_create [OF assms, where t = t and name =
        "if cf_notebooklm_notebook_name cfg = [] then ''VelaFlow'' else cf_notebooklm_notebook_name cfg"] by (elim exE conjE) (rule that)
  with True show ?thesis by (auto simp: notebook_id_def Let_def io_catch_def nb_do_def)
qed (simp add: notebook_id_def)

lemma upload_run:
  assumes "keeps_sources svc view"
  shows "\<exists>nb calls' t'.
      upload svc cfg rebuild bs (n, calls, t) =
        (Inr \<lparr>nr_added = length (bundle_sources bs), nr_deleted = (if rebuild then length (view t nb) else 0),
              nr_notebook_id = nb\<rparr>, n, calls', t')
      \<and> (if cf_notebooklm_notebook_id cfg = [] then view t nb = [] else nb = cf_notebooklm_notebook_id cfg)
      \<and> map snd (view t' nb) = (if rebuild then [] else map snd (view t nb)) @ bundle_sources bs
      \<and> (\<forall>other. other \<noteq> nb \<longrightarrow> view t' other = view t other)"
proof -
  obtain t0 where conn: "nb_connect svc t = (Inr (), t0)" "view t0 = view t"
    using keeps_connect [OF assms, where t = t] by (elim exE conjE) (rule that)
  obtain nb c1 t1 where nb: "notebook_id svc cfg (n, calls @ [NbConnect], t0) = (Inr nb, n, c1, t1)" "view t1 = view t0"
      "if cf_notebooklm_notebook_id cfg = [] then view t0 nb = [] else nb = cf_notebooklm_notebook_id cfg"
    using notebook_id_run [OF assms, of cfg n "calls @ [NbConnect]" t0] by (elim exE conjE) (rule that)
  obtain c2 t2 where clear: "(if rebuild then clear_notebook svc nb else io_ret 0) (n, c1, t1)
        = (Inr (if rebuild then length (view t nb) else 0), n, c2, t2)"
      "view t2 = (view t)(nb := if rebuild then [] else view t nb)"
    using clear_run [OF assms, of nb n c1 t1] conn nb by (cases rebuild) auto
  obtain c3 t3 where add: "add_sources svc nb bs 0 (n, c2, t2) = (Inr (length (bundle_sources bs)), n, c3, t3)"
      "map snd (view t3 nb) = map snd (view t2 nb) @ bundle_sources bs" "\<forall>other. other \<noteq> nb \<longrightarrow> view t3 other = view t2 other"
    using add_run [OF assms, of nb bs 0 n c2 t2] by auto
  have "upload svc cfg rebuild bs (n, calls, t) =
        (Inr \<lparr>nr_added = length (bundle_sources bs), nr_deleted = (if rebuild then length (view t nb) else 0),
              nr_notebook_id = nb\<rparr>, n, c3, t3)"
    using conn nb clear add by (simp add: upload_def io_bind_run nb_do_def)
  with nb add clear conn show ?thesis by (intro exI [of _ nb] exI [of _ c3] exI [of _ t3]) auto
qed

section \<open>Samples\<close>

text \<open>A workspace in which every page has itself as its only child.\<close>

definition loop_block :: json where
  "loop_block = JObj [(''type'', JStr ''child_page''), (''id'', JStr ''p''), (''child_page'', JObj [(''title'', JStr ''Loop'')])]"

definition loop_notion :: "unit notion_env" where
  "loop_notion =
     \<lparr>nt_server = (\<lambda>req s. (Inr (200, Inr (JObj [(''results'', JArr [loop_block])])), s)), nt_token = ''nt'',
      nt_iso = (\<lambda>_. [])\<rparr>"

lemma loop_is_small: "small_workspace loop_notion 1 1"
  by (simp add: small_workspace_def costs_def paginate_blocks_def query_database_def notion_get_def notion_post_def
      notion_send_def io_bind_run http_send_def loop_notion_def raise_for_status_def notion_page_def as_dict_def as_list_def)

text \<open>A workspace with one empty database, and no task service.\<close>

definition database_block :: json where
  "database_block =
     JObj [(''type'', JStr ''child_database''), (''id'', JStr ''d''), (''child_database'', JObj [(''title'', JStr ''Books'')])]"

definition sample_workspace :: "unit cli_env" where
  "sample_workspace = sample_cli
     \<lparr>cl_server := (\<lambda>req s. (Inr (200, Inr (JObj
        [(''results'', JArr (if hr_method req = GET then [database_block] else []))])), s)), cl_fuel := 1\<rparr>"

definition sample_export :: settings where
  "sample_export = default_settings\<lparr>cf_notion_api_token := ''nt'', cf_notion_root_page_id := ''r''\<rparr>"

definition books :: source_bundle where
  "books = \<lparr>sb_title = ''Books'', sb_sections = [''# Books (database)'']\<rparr>"

definition books_notion :: "unit notion_env" where
  "books_notion = notion_client sample_workspace sample_export"

lemma books_server:
  "nt_server books_notion req () =
     (Inr (200, Inr (JObj [(''results'', JArr (if hr_method req = GET then [database_block] else []))])), ())"
  by (simp add: books_notion_def notion_client_def sample_workspace_def)

lemma books_root:
  "\<exists>n w. paginate_blocks books_notion 1 ''r'' (0, [], ()) = (Inr [database_block], n, w)"
  by (simp add: paginate_blocks_def notion_get_def notion_send_def io_bind_run http_send_def books_server
      raise_for_status_def notion_page_def as_dict_def as_list_def notion_request_def)

lemma books_query: "\<exists>n' w'. query_database books_notion 1 ''d'' [] (n, reqs, ()) = (Inr [], n', w')"
  by (simp add: query_database_def notion_post_def notion_send_def io_bind_run http_send_def books_server
      raise_for_status_def notion_page_def as_dict_def as_list_def notion_request_def)

lemma books_bundle: "\<exists>n' w'. top_bundle books_notion 1 (\<lambda>_. []) database_block (n, reqs, ()) = (Inr [books], n', w')"
  using books_query [of n reqs]
  by (auto simp: io_bind_run top_bundle_def database_block_def get_key_def child_title_def child_id_def at_key_def
      json_str_def json_text_def database_lines_def or_on_error_def io_catch_def books_def)

lemma sample_bundles:
  "\<exists>n w. build_source_bundles books_notion 1 (\<lambda>_. []) ''r'' (0, [], ()) = (Inr [books], n, w)"
proof -
  obtain n reqs where root_read: "paginate_blocks books_notion 1 ''r'' (0, [], ()) = (Inr [database_block], n, reqs, ())"
    using books_root by auto
  obtain n' w' where "top_bundle books_notion 1 (\<lambda>_. []) database_block (n, reqs, ()) = (Inr [books], n', w')"
    using books_bundle by blast
  with root_read show ?thesis by (cases w') (simp add: build_source_bundles_def io_bind_run io_catch_def)
qed

lemma sample_notebook_bundles:
  "\<exists>n w. notebook_bundles sample_workspace (sample_export\<lparr>cf_notebooklm_notebook_id := i\<rparr>) (0, [], ()) = (Inr [books], n, w)"
proof -
  let ?cfg = "sample_export\<lparr>cf_notebooklm_notebook_id := i\<rparr>"
  have same: "notion_client sample_workspace ?cfg = books_notion"
    by (simp add: books_notion_def notion_client_def)
  have plain: "cl_fuel sample_workspace = 1" "cl_str sample_workspace = (\<lambda>_. [])" "cf_notion_root_page_id ?cfg = ''r''"
    by (simp_all add: sample_workspace_def sample_cli_def sample_export_def)
  have "build_todoist_bundle (todoist_client sample_workspace ?cfg) fuel ?cfg = io_ret None" for fuel
    by (simp add: build_todoist_bundle_def sample_export_def default_settings_def)
  with sample_bundles show ?thesis by (auto simp: notebook_bundles_def same plain io_bind_run)
qed

text \<open>A service that numbers the sources of each notebook.\<close>

type_synonym slots = "(string \<times> string) option list"

fun slot_view :: "nat \<Rightarrow> slots \<Rightarrow> (string \<times> string \<times> string) list" where
  "slot_view k [] = []"
| "slot_view k (None # xs) = slot_view (Suc k) xs"
| "slot_view k (Some s # xs) = (replicate k CHR ''s'', s) # slot_view (Suc k) xs"

fun slot_clear :: "string \<Rightarrow> nat \<Rightarrow> slots \<Rightarrow> slots" where
  "slot_clear i k [] = []"
| "slot_clear i k (x # xs) = (if replicate k CHR ''s'' = i then None else x) # slot_clear i (Suc k) xs"

definition slots_of :: "(string \<times> slots) list \<Rightarrow> string \<Rightarrow> slots" where
  "slots_of t nb = (case map_of t nb of None \<Rightarrow> [] | Some xs \<Rightarrow> xs)"

definition shelf_view :: "(string \<times> slots) list nb_view" where
  "shelf_view t nb = slot_view 0 (slots_of t nb)"

definition shelf :: "(string \<times> slots) list nb_service" where
  "shelf =
     \<lparr>nb_connect = (\<lambda>t. (Inr (), t)), nb_create = (\<lambda>name t. (Inr (concat (map fst t) @ ''n''), t)),
      nb_list = (\<lambda>nb t. (Inr (map fst (shelf_view t nb)), t)),
      nb_delete = (\<lambda>nb i t. (Inr (), AList.update nb (slot_clear i 0 (slots_of t nb)) t)),
      nb_add_text = (\<lambda>nb title body t. (Inr (), AList.update nb (slots_of t nb @ [Some (title, body)]) t))\<rparr>"

lemma slot_view_clear: "slot_view k (slot_clear i k xs) = filter (\<lambda>s. fst s \<noteq> i) (slot_view k xs)"
proof (induction xs arbitrary: k)
  case (Cons x xs)
  then show ?case by (cases x) auto
qed simp

lemma slot_view_ids: "s \<in> set (slot_view k xs) \<Longrightarrow> k \<le> length (fst s)"
proof (induction xs arbitrary: k)
  case (Cons x xs)
  from Cons.IH [of "Suc k"] Cons.prems show ?case by (cases x) (auto dest: Suc_leD)
qed simp

lemma slot_view_distinct: "distinct (map fst (slot_view k xs))"
proof (induction xs arbitrary: k)
  case (Cons x xs)
  then show ?case using slot_view_ids [of _ "Suc k" xs] by (cases x) fastforce+
qed simp

lemma slot_view_append: "slot_view k (xs @ [Some s]) = slot_view k xs @ [(replicate (k + length xs) CHR ''s'', s)]"
proof (induction xs arbitrary: k)
  case (Cons x xs)
  then show ?case by (cases x) auto
qed simp

lemma fresh_key: "map_of t (concat (map fst t) @ ''n'') = None"
proof -
  have "length k \<le> length (concat (map fst t))" if "k \<in> fst ` set t" for k
    using that member_le_sum_list [of "length k" "map length (map fst t)"] by (auto simp: length_concat image_iff)
  then show ?thesis by (fastforce simp: map_of_eq_None_iff)
qed

lemma shelf_keeps: "keeps_sources shelf shelf_view"
  unfolding keeps_sources_def
  by (auto simp: shelf_def shelf_view_def slots_of_def slot_view_distinct fresh_key slot_view_clear slot_view_append fun_eq_iff)

section \<open>Properties\<close>

text \<open>The export to NotebookLM only reads the workspace: whatever the services answer and however it ends,
the command sends to Notion and to the task service nothing but GET requests and database queries.\<close>

theorem notebook_export_only_reads:
  "web_reads (run_program env service no_rebuild cfg args (Some NotebooklmSync))"
proof (cases "cf_todoist_api_token cfg = []")
  case True
  have "sends_only workspace_read refused" unfolding refused_def by (rule sends_only_ret)
  then have "web_reads (on_web refused)" by (rule web_reads_on_web)
  with True show ?thesis by (simp add: run_program_def run_command_def)
next
  case False
  have caught: "web_reads (case e of RuntimeError m \<Rightarrow> io_ret (1, []) | ValueError m \<Rightarrow> io_ret (1, []) | _ \<Rightarrow> io_raise e)"
    for e :: py_error
    by (cases e) (simp_all add: web_reads_ret web_reads_raise del: io_ret_run io_raise_run)
  have "web_reads (cmd_notebooklm_sync env service no_rebuild cfg args)"
    unfolding cmd_notebooklm_sync_def
    by (auto intro!: web_reads_catch web_reads_bind sync_reads caught simp: web_reads_ret simp del: io_ret_run)
  with False show ?thesis by (simp add: run_program_def)
qed

text \<open>C25. The export of a workspace ends even when pages contain each other: when no page has more than \<open>b\<close>
children and listings come in one answer, building the sources makes at most the stated number of requests,
which does not depend on the number of pages, and does not run out of the fuel of a listing.\<close>

theorem notebook_export_ends:
  assumes "small_workspace env fuel b"
  shows "costs (1 + b * max 1 (visits b MAX_DEPTH)) (build_source_bundles env fuel str_of root_page_id)"
  using assms by (rule bundles_cost)

theorem notebook_export_ends_witness:
  "costs 6 (build_source_bundles loop_notion 1 (\<lambda>_. []) ''p'')"
  using notebook_export_ends [OF loop_is_small, of "\<lambda>_. []" "''p''"] by (simp add: MAX_DEPTH_def numeral_eq_Suc)

text \<open>The export makes one source for each child page or database of the root page, in their order and
under their titles, and none is longer than the limit.\<close>

theorem one_source_per_child:
  assumes "build_source_bundles env fuel str_of root_page_id st = (Inr bundles, st')"
  shows "\<exists>blocks st1. paginate_blocks env fuel root_page_id st = (Inr blocks, st1)
      \<and> map sb_title bundles = concat (map (top_titles str_of) blocks)
      \<and> list_all (\<lambda>b. length (full_text b) \<le> MAX_SOURCE_CHARS) bundles"
proof -
  let ?list = "io_catch (paginate_blocks env fuel root_page_id)
      (\<lambda>e. io_raise (if e = no_fuel then e else RuntimeError (''Cannot read root Notion page '' @ root_page_id)))"
  obtain blocks st1 where read: "?list st = (Inr blocks, st1)"
      and made: "io_bind (io_map (top_bundle env fuel str_of) blocks) (\<lambda>bundles. io_ret (concat bundles)) st1 = (Inr bundles, st')"
    using assms unfolding build_source_bundles_def by (rule io_bind_InrE)
  from read have "paginate_blocks env fuel root_page_id st = (Inr blocks, st1)"
    unfolding io_catch_def by (auto split: prod.splits sum.splits if_splits)
  moreover from made have "map sb_title bundles = concat (map (top_titles str_of) blocks)"
    by (rule io_bind_InrE) (auto simp: bundles_titles)
  moreover have "list_all (\<lambda>b. length (full_text b) \<le> MAX_SOURCE_CHARS) bundles"
    by (simp add: list_all_iff full_text_def)
  ultimately show ?thesis by blast
qed

theorem one_source_per_child_witness:
  "\<exists>blocks st1. paginate_blocks books_notion 1 ''r'' (0, [], ()) = (Inr blocks, st1)
      \<and> [''Books''] = concat (map (top_titles (\<lambda>_. [])) blocks)"
proof -
  obtain n w where "build_source_bundles books_notion 1 (\<lambda>_. []) ''r'' (0, [], ()) = (Inr [books], n, w)"
    using sample_bundles by blast
  from one_source_per_child [OF this] show ?thesis by (auto simp: books_def)
qed

text \<open>The listing of the active tasks is the one that is wanted: by project name, then by section name, each
task once, those of a section by falling priority and then by due date.\<close>

theorem task_listing_is_complete:
  "todoist_lines ts =
     [''# Todoist Active Tasks'', []]
     @ concat (map (\<lambda>p. (''## '' @ p)
         # concat (map (\<lambda>s. (if s = [] then [] else [''### '' @ s])
                              @ concat (map task_lines (shown_section (tasks_of ts p) s))) (sections_of (tasks_of ts p)))
         @ [[]]) (projects_of ts))
   \<and> mset (shown_tasks ts) = mset ts"
proof
  show "mset (shown_tasks ts) = mset ts" by (rule shown_tasks_all)
  show "todoist_lines ts =
     [''# Todoist Active Tasks'', []]
     @ concat (map (\<lambda>p. (''## '' @ p)
         # concat (map (\<lambda>s. (if s = [] then [] else [''### '' @ s])
                              @ concat (map task_lines (shown_section (tasks_of ts p) s))) (sections_of (tasks_of ts p)))
         @ [[]]) (projects_of ts))"
    unfolding todoist_lines_def grouped_sorted project_lines_def fst_conv snd_conv by_section_sorted map_map comp_def
      section_lines_def sections_of_def shown_section_def
    by (rule refl)
qed



end
