(* ===== verification/Installer.thy ===== *)
theory Installer
  imports StoreIO Regex PyParse "HOL-Library.Product_Lexorder"
begin

text \<open>
  \<open>scripts/installer.py\<close>: the setup wizard. The console is a list of the lines that will be typed (a
  prompt on an empty list is an \<open>EOFError\<close>, which nothing catches); what is printed is left out. The file
  \<open>config/.env\<close> is a text, or absent. The ornaments of its comment lines, the random tokens and what
  the host answers are parameters. Texts are code points below 256.
\<close>

section \<open>Validators\<close>

definition exact :: "string \<Rightarrow> re" where
  "exact s = seqs (map (\<lambda>c. Chr ((=) c)) s)"

definition alnum :: "char \<Rightarrow> bool" where
  "alnum c \<longleftrightarrow> ascii_letter c \<or> re_digit c"

text \<open>The pattern of a domain: labels of letters, digits and inner hyphens between dots, the last of letters
only; the final dollar lets a newline follow.\<close>

definition domain_label :: "string \<Rightarrow> bool" where
  "domain_label l \<longleftrightarrow> l \<noteq> [] \<and> alnum (hd l) \<and> alnum (last l) \<and> list_all (\<lambda>c. alnum c \<or> c = CHR ''-'') l"

definition drop_newline :: "string \<Rightarrow> string" where
  "drop_newline s = (if s \<noteq> [] \<and> last s = CHR 0x0A then butlast s else s)"

definition domain_matches :: "string \<Rightarrow> bool" where
  "domain_matches s =
     (let labels = py_split CHR ''.'' (drop_newline s)
      in length labels \<ge> 2 \<and> list_all domain_label (butlast labels)
         \<and> length (last labels) \<ge> 2 \<and> list_all ascii_letter (last labels))"

type_synonym validator = "string \<Rightarrow> string option"

definition validate_domain :: validator where
  "validate_domain s =
     (if s = ''localhost'' then None
      else if \<not> domain_matches s
      then Some ''Invalid domain format. Examples: api.example.com, velaflow.mysite.org''
      else None)"

definition email_pattern :: re where
  "email_pattern =
     seqs [Rep 1 None (\<lambda>c. alnum c \<or> c \<in> {CHR ''.'', CHR ''_'', CHR ''%'', CHR ''+'', CHR ''-''}), exact ''@'',
           Rep 1 None (\<lambda>c. alnum c \<or> c \<in> {CHR ''.'', CHR ''-''}), exact ''.'', Rep 2 None ascii_letter, TextEnd]"

definition validate_email :: validator where
  "validate_email s = (if \<not> re_match email_pattern s then Some ''Invalid email format.'' else None)"

definition validate_port :: validator where
  "validate_port s =
     (case py_int s of
        Some p \<Rightarrow> if 1 \<le> p \<and> p \<le> 65535 then None else Some ''Port must be a number between 1 and 65535.''
      | None \<Rightarrow> Some ''Port must be a number between 1 and 65535.'')"

definition token_forbidden :: "char list" where
  "token_forbidden =
     [CHR '';'', CHR 0x0A, CHR 0x0D, CHR 0x60, CHR ''$'', CHR ''('', CHR '')'', CHR ''{'', CHR ''}'', CHR ''|'', CHR ''<'', CHR ''>'']"

definition validate_token :: validator where
  "validate_token s =
     (if length s < 8 then Some ''Token seems too short (minimum 8 characters).''
      else if length s > 512 then Some ''Token seems too long (maximum 512 characters).''
      else if list_ex (\<lambda>c. c \<in> set token_forbidden) s
      then Some ''Token contains suspicious characters. Paste the raw token only.''
      else None)"

definition url_pattern :: re where
  "url_pattern =
     seqs [exact ''http'', Rep 0 (Some 1) ((=) CHR ''s''), exact ''://'',
           Rep 1 None (\<lambda>c. alnum c \<or> c \<in> {CHR ''.'', CHR ''-''}),
           Alt (Seq (exact '':'') (Rep 1 None re_digit)) Eps,
           Alt (Seq (exact ''/'') (Rep 0 None re_dot)) Eps, TextEnd]"

definition validate_url :: validator where
  "validate_url s = (if \<not> re_match url_pattern s then Some ''Invalid URL. Must start with http:// or https://'' else None)"

section \<open>The configuration file\<close>

definition uni_strip :: "string \<Rightarrow> string" where
  "uni_strip s = rev (dropWhile re_space (rev (dropWhile re_space s)))"

text \<open>Reading in text mode makes every line end a newline.\<close>

fun universal_newlines :: "string \<Rightarrow> string" where
  "universal_newlines [] = []"
| "universal_newlines [c] = [if c = CHR 0x0D then CHR 0x0A else c]"
| "universal_newlines (c # d # s) =
     (if c = CHR 0x0D then CHR 0x0A # (if d = CHR 0x0A then universal_newlines s else universal_newlines (d # s))
      else c # universal_newlines (d # s))"

definition unquote :: "string \<Rightarrow> string" where
  "unquote v =
     (if length v \<ge> 2 \<and> hd v = last v \<and> hd v \<in> {CHR 0x22, CHR 0x27} then butlast (tl v) else v)"

definition read_line :: "string \<Rightarrow> (string \<times> string) list \<Rightarrow> (string \<times> string) list" where
  "read_line raw values =
     (let line = uni_strip raw in
      if line = [] \<or> prefix ''#'' line \<or> CHR ''='' \<notin> set line then values
      else let key = takeWhile (\<lambda>c. c \<noteq> CHR ''='') line; val = tl (dropWhile (\<lambda>c. c \<noteq> CHR ''='') line)
           in AList.update (uni_strip key) (unquote (uni_strip val)) values)"

definition load_existing :: "string option \<Rightarrow> (string \<times> string) list" where
  "load_existing env_file =
     (case env_file of None \<Rightarrow> [] | Some text \<Rightarrow> fold read_line (py_split CHR 0x0A (universal_newlines text)) [])"

definition escape_char :: "char \<Rightarrow> string" where
  "escape_char c =
     (if c = CHR 0x5C then [CHR 0x5C, CHR 0x5C]
      else if c = CHR 0x22 then [CHR 0x5C, CHR 0x22]
      else if c = CHR 0x0A then [CHR 0x5C, CHR ''n''] else [c])"

text \<open>The three replacements one after the other, which is one pass over the characters.\<close>

definition escape_env_value :: "string \<Rightarrow> string" where
  "escape_env_value v = concat (map escape_char v)"

definition env_groups :: "(string \<times> string list) list" where
  "env_groups =
     [(''Platform & Domain'', [''VELAFLOW_DOMAIN'', ''VELAFLOW_API_PORT'', ''CORS_ALLOWED_ORIGINS'', ''ENVIRONMENT'']),
      (''Todoist (REQUIRED)'', [''TODOIST_API_TOKEN'']),
      (''Zero-Trust Proxy'',
        [''LITELLM_PROXY_URL'', ''LITELLM_PROXY_TOKEN'', ''LITELLM_PROXY_MODEL'', ''DEMO_MODE'', ''BRAIN_READ_ONLY'']),
      (''AI Keys'',
        [''GOOGLE_AI_API_KEY'', ''GOOGLE_AI_MODEL'', ''GOOGLE_AI_FALLBACK_MODEL'', ''GOOGLE_AI_LITE_MODEL'',
         ''GROQ_API_KEY'', ''GROQ_MODEL'']),
      (''Email Delivery'',
        [''SMTP_HOST'', ''SMTP_PORT'', ''SMTP_USERNAME'', ''SMTP_PASSWORD'', ''DIGEST_FROM_EMAIL'', ''DIGEST_TO_EMAIL'']),
      (''Notion Integration'',
        [''NOTION_API_TOKEN'', ''NOTION_ROOT_PAGE_ID'', ''NOTION_COMMAND_CENTER_ID'', ''NOTION_DAILY_PLANNER_DB_ID'',
         ''NOTION_WEEKLY_PLANNER_DB_ID'', ''NOTION_WEEKEND_PLANNER_DB_ID'', ''NOTION_BOARD_DB_ID'']),
      (''WhatsApp (CallMeBot)'',
        [''CALLMEBOT_PHONE'', ''CALLMEBOT_API_KEY'', ''CALLMEBOT_SECONDARY_PHONE'', ''CALLMEBOT_SECONDARY_API_KEY'']),
      (''Gmail IMAP'', [''GMAIL_IMAP_HOST'', ''GMAIL_IMAP_PORT'', ''GMAIL_IMAP_USERNAME'', ''GMAIL_IMAP_PASSWORD'']),
      (''Google Calendar OAuth'', [''GOOGLE_OAUTH_CLIENT_SECRETS_FILE'', ''GOOGLE_OAUTH_TOKEN_FILE'']),
      (''Google OAuth2 (multi-user auth)'',
        [''GOOGLE_OAUTH_CLIENT_ID'', ''GOOGLE_OAUTH_CLIENT_SECRET'', ''VELAFLOW_OWNER_EMAIL'']),
      (''NotebookLM'', [''NOTEBOOKLM_NOTEBOOK_ID'', ''NOTEBOOKLM_NOTEBOOK_NAME'']),
      (''Ollama / Local LLM'', [''OLLAMA_BASE_URL'', ''OLLAMA_CPU_MODEL'', ''OLLAMA_GPU_MODEL'']),
      (''RAG'', [''RAG_DUCKDB_PATH'', ''RAG_CHUNK_SIZE'', ''RAG_CHUNK_OVERLAP'']),
      (''Schedule'',
        [''WORKDAY_START_HOUR'', ''WORKDAY_END_HOUR'', ''WEEKEND_DAY_START_HOUR'', ''WEEKEND_DAY_END_HOUR'',
         ''DEFAULT_TASK_DURATION_MINUTES'', ''WEEKEND_CAPACITY_HOURS'']),
      (''Digest Limits'', [''DAILY_TOP_TASK_LIMIT'', ''OVERDUE_SECTION_LIMIT'', ''WEEKEND_TASK_LIMIT'']),
      (''Security'', [''JWT_SECRET'', ''VELAFLOW_MASTER_KEY'']),
      (''Timezone'', [''TZ'']),
      (''Logging'', [''LOG_LEVEL'', ''LOG_DIR'', ''LOG_MAX_SIZE_MB'', ''LOG_RETENTION_DAYS''])]"

text \<open>What follows the number sign of the comment lines: those at the top, and the one of a group (the name of
the group of the AI keys is shortened).\<close>

record ornaments =
  or_head :: "string list"
  or_group :: "string \<Rightarrow> string"

definition env_line :: "string \<times> string \<Rightarrow> string" where
  "env_line kv = fst kv @ ''=\"'' @ escape_env_value (snd kv) @ ''\"''"

definition in_values :: "(string \<times> string) list \<Rightarrow> string list \<Rightarrow> (string \<times> string) list" where
  "in_values values ks = concat (map (\<lambda>k. case map_of values k of None \<Rightarrow> [] | Some v \<Rightarrow> [(k, v)]) ks)"

definition group_text :: "ornaments \<Rightarrow> (string \<times> string) list \<Rightarrow> string \<times> string list \<Rightarrow> string list" where
  "group_text orn values g =
     (if in_values values (snd g) = [] then []
      else (CHR ''#'' # or_group orn (fst g)) # map env_line (in_values values (snd g)) @ [[]])"

definition extra_values :: "(string \<times> string) list \<Rightarrow> (string \<times> string) list" where
  "extra_values values = sort (filter (\<lambda>kv. fst kv \<notin> set (concat (map snd env_groups))) values)"

definition env_lines :: "ornaments \<Rightarrow> (string \<times> string) list \<Rightarrow> string list" where
  "env_lines orn values =
     map (\<lambda>h. CHR ''#'' # h) (or_head orn) @ [[]]
     @ concat (map (group_text orn values) env_groups)
     @ (if extra_values values = [] then []
        else (CHR ''#'' # or_group orn ''Other'') # map env_line (extra_values values) @ [[]])"

definition env_text :: "ornaments \<Rightarrow> (string \<times> string) list \<Rightarrow> string" where
  "env_text orn values = py_join [CHR 0x0A] (env_lines orn values) @ [CHR 0x0A]"

section \<open>The console\<close>

record console =
  cn_answers :: "string list"
  cn_values :: "(string \<times> string) list"
  cn_file :: "string option"

type_synonym 'a wizard = "(console, 'a) io"

definition eof_error :: py_error where
  "eof_error = OtherError ''EOFError''"

definition config_get :: "string \<Rightarrow> string \<Rightarrow> string wizard" where
  "config_get key dflt = (\<lambda>(n, s). (Inr (dget (cn_values s) key dflt), n, s))"

definition config_set :: "string \<Rightarrow> string \<Rightarrow> unit wizard" where
  "config_set key v =
     (\<lambda>(n, s). (Inr (), n, if v = [] then s else s\<lparr>cn_values := AList.update key v (cn_values s)\<rparr>))"

definition config_load :: "unit wizard" where
  "config_load = (\<lambda>(n, s). (Inr (), n, s\<lparr>cn_values := load_existing (cn_file s)\<rparr>))"

definition config_write :: "ornaments \<Rightarrow> unit wizard" where
  "config_write orn = (\<lambda>(n, s). (Inr (), n, s\<lparr>cn_file := Some (env_text orn (cn_values s))\<rparr>))"

definition input_line :: "string wizard" where
  "input_line =
     (\<lambda>(n, s). case cn_answers s of [] \<Rightarrow> (Inl eof_error, n, s) | a # rest \<Rightarrow> (Inr a, n, s\<lparr>cn_answers := rest\<rparr>))"

text \<open>\<open>_prompt\<close>: a refused value is asked for again.\<close>

record question =
  qu_default :: string
  qu_secret :: bool
  qu_required :: bool
  qu_validator :: validator

definition plain_question :: "string \<Rightarrow> question" where
  "plain_question dflt = \<lparr>qu_default = dflt, qu_secret = False, qu_required = False, qu_validator = (\<lambda>_. None)\<rparr>"

definition answer_value :: "question \<Rightarrow> string \<Rightarrow> string" where
  "answer_value q raw =
     (let v = (if qu_secret q then raw else uni_strip raw) in if v = [] \<and> qu_default q \<noteq> [] then qu_default q else v)"

definition accepted :: "question \<Rightarrow> string \<Rightarrow> bool" where
  "accepted q v \<longleftrightarrow> \<not> (qu_required q \<and> v = []) \<and> (v = [] \<or> qu_validator q v = None)"

fun ask_lines :: "question \<Rightarrow> string list \<Rightarrow> string option \<times> string list" where
  "ask_lines q [] = (None, [])"
| "ask_lines q (raw # rest) =
     (if accepted q (answer_value q raw) then (Some (answer_value q raw), rest) else ask_lines q rest)"

definition prompt :: "question \<Rightarrow> string wizard" where
  "prompt q =
     (\<lambda>(n, s). case ask_lines q (cn_answers s) of
        (None, rest) \<Rightarrow> (Inl eof_error, n, s\<lparr>cn_answers := rest\<rparr>)
      | (Some v, rest) \<Rightarrow> (Inr v, n, s\<lparr>cn_answers := rest\<rparr>))"

text \<open>\<open>_menu\<close> is a required question about one of its keys.\<close>

definition menu :: "string list \<Rightarrow> string wizard" where
  "menu ks = prompt \<lparr>qu_default = [], qu_secret = False, qu_required = ([] \<notin> set ks),
                     qu_validator = (\<lambda>c. if c \<in> set ks then None else Some ''Invalid choice.'')\<rparr>"

definition confirm :: "bool \<Rightarrow> bool wizard" where
  "confirm dflt =
     io_bind input_line (\<lambda>raw.
       let answer = map lower_latin (uni_strip raw) in io_ret (if answer = [] then dflt else answer \<in> {''y'', ''yes''}))"

definition io_token :: "(nat \<Rightarrow> nat \<Rightarrow> string) \<Rightarrow> nat \<Rightarrow> string wizard" where
  "io_token token_urlsafe len = (\<lambda>(n, s). (Inr (token_urlsafe len n), Suc n, s))"

section \<open>The host\<close>

text \<open>What the probes of the host give: a directory test or a file that may not be read, the answer of
\<open>systemd-detect-virt\<close> and of the metadata service when they can be run.\<close>

record host =
  ho_system :: string
  ho_pve_dir :: bool
  ho_init_environ :: "string option"
  ho_detect_virt :: "string option"
  ho_metadata :: "bool option"
  ho_python_ok :: bool
  ho_nvidia_smi :: "(int \<times> string) option"

definition detect_platform :: "host \<Rightarrow> string" where
  "detect_platform h =
     (if ho_system h = ''Windows'' then ''windows-local''
      else if ho_pve_dir h then ''proxmox-host''
      else if (case ho_init_environ h of None \<Rightarrow> False | Some e \<Rightarrow> py_contains ''container=lxc'' e) then ''proxmox-lxc''
      else case ho_detect_virt h of
             Some out \<Rightarrow>
               (let virt = uni_strip out in
                if virt = ''vmware'' then ''vmware-guest''
                else if virt = ''oracle'' then ''oracle-cloud''
                else if virt = ''kvm'' then ''kvm-vm''
                else if virt \<in> {''none'', []} then ''bare-metal''
                else ''vm-'' @ virt)
           | None \<Rightarrow> if ho_metadata h = Some True then ''oracle-cloud'' else ''linux-local'')"

text \<open>The profile written to \<open>data/hardware.json\<close>.\<close>

definition hardware_json :: "bool \<Rightarrow> string \<Rightarrow> int \<Rightarrow> json" where
  "hardware_json has_gpu name mem =
     JObj [(''has_gpu'', JBool has_gpu), (''gpu_name'', JStr name), (''gpu_memory_mb'', JInt mem)]"

text \<open>\<open>splitlines\<close>.\<close>

definition line_break :: "char \<Rightarrow> bool" where
  "line_break c \<longleftrightarrow> c \<in> {CHR 0x0A, CHR 0x0B, CHR 0x0C, CHR 0x0D, CHR 0x1C, CHR 0x1D, CHR 0x1E, CHR 0x85}"

definition detected_hardware :: "host \<Rightarrow> json" where
  "detected_hardware h =
     (case ho_nvidia_smi h of
        None \<Rightarrow> hardware_json False ''none'' 0
      | Some (code, out) \<Rightarrow>
          if code \<noteq> 0 \<or> uni_strip out = [] then hardware_json False ''none'' 0
          else let parts = map uni_strip (py_split CHR '','' (takeWhile (\<lambda>c. \<not> line_break c) (uni_strip out)))
               in hardware_json True (hd parts)
                    (if length parts > 1 then (case py_int (parts ! 1) of Some i \<Rightarrow> i | None \<Rightarrow> 0) else 0))"

section \<open>The steps\<close>

definition step_platform :: "host \<Rightarrow> string wizard" where
  "step_platform h = (if ho_python_ok h then io_ret (detect_platform h) else io_raise (OtherError ''SystemExit''))"

definition cors_origins :: "string \<Rightarrow> string \<Rightarrow> string" where
  "cors_origins domain port =
     (if domain = ''localhost''
      then ''http://localhost:'' @ port @ '',http://localhost:3000,http://127.0.0.1:'' @ port
      else ''https://'' @ domain @ '',https://www.'' @ domain)"

definition step_domain :: "unit wizard" where
  "step_domain =
     io_bind (config_get ''VELAFLOW_DOMAIN'' ''localhost'') (\<lambda>current.
     io_bind (prompt ((plain_question current)\<lparr>qu_validator := validate_domain\<rparr>)) (\<lambda>domain.
     io_bind (config_set ''VELAFLOW_DOMAIN'' domain) (\<lambda>_.
     io_bind (config_get ''VELAFLOW_API_PORT'' ''8000'') (\<lambda>current.
     io_bind (prompt ((plain_question current)\<lparr>qu_validator := validate_port\<rparr>)) (\<lambda>port.
     io_bind (config_set ''VELAFLOW_API_PORT'' port) (\<lambda>_.
       config_set ''CORS_ALLOWED_ORIGINS'' (cors_origins domain port)))))))"

definition step_deployment_target :: "string \<Rightarrow> string wizard" where
  "step_deployment_target plat =
     (let auto = (if plat = ''proxmox-host'' then ''2'' else ''1'') in
      io_bind input_line (\<lambda>raw.
        let choice = (if uni_strip raw = [] then auto else uni_strip raw);
            choice = (if choice \<in> {''1'', ''2'', ''3''} then choice else auto)
        in io_ret (if choice = ''1'' then ''local'' else if choice = ''2'' then ''proxmox-lxc'' else ''docker'')))"

text \<open>A question whose default is the current value, and its answer set.\<close>

definition ask_for :: "string \<Rightarrow> string \<Rightarrow> (question \<Rightarrow> question) \<Rightarrow> unit wizard" where
  "ask_for key dflt f =
     io_bind (config_get key dflt) (\<lambda>current. io_bind (prompt (f (plain_question current))) (config_set key))"

definition ask_new :: "string \<Rightarrow> question \<Rightarrow> unit wizard" where
  "ask_new key q = io_bind (prompt q) (config_set key)"

definition token_question :: "question \<Rightarrow> question" where
  "token_question q = q\<lparr>qu_secret := True, qu_validator := validate_token\<rparr>"

definition step_required_keys :: "unit wizard" where
  "step_required_keys =
     io_bind (ask_for ''TODOIST_API_TOKEN'' [] (\<lambda>q. (token_question q)\<lparr>qu_required := True\<rparr>)) (\<lambda>_.
     io_bind (config_get ''LITELLM_PROXY_URL'' []) (\<lambda>proxy.
     io_bind (config_get ''GOOGLE_AI_API_KEY'' []) (\<lambda>gemini.
     io_bind input_line (\<lambda>raw.
       let default_ai = (if proxy \<noteq> [] then ''1'' else if gemini \<noteq> [] then ''2'' else ''1'');
           choice = (if uni_strip raw = [] then default_ai else uni_strip raw)
       in if choice = ''1'' then
            io_bind (ask_for ''LITELLM_PROXY_URL'' [] (\<lambda>q. q\<lparr>qu_validator := validate_url\<rparr>)) (\<lambda>_.
            io_bind (ask_for ''LITELLM_PROXY_TOKEN'' [] token_question) (\<lambda>_.
              ask_for ''LITELLM_PROXY_MODEL'' ''gemini/gemini-2.5-flash'' (\<lambda>q. q)))
          else if choice = ''2'' then
            ask_for ''GOOGLE_AI_API_KEY'' [] (\<lambda>q. (token_question q)\<lparr>qu_required := True\<rparr>)
          else io_ret ()))))"

definition configure_notion :: "unit wizard" where
  "configure_notion =
     io_bind (ask_for ''NOTION_API_TOKEN'' [] token_question) (\<lambda>_.
       ask_for ''NOTION_ROOT_PAGE_ID'' [] (\<lambda>q. q))"

definition configure_email :: "unit wizard" where
  "configure_email =
     io_bind (ask_for ''SMTP_HOST'' ''smtp.gmail.com'' (\<lambda>q. q)) (\<lambda>_.
     io_bind (ask_for ''SMTP_PORT'' ''587'' (\<lambda>q. q\<lparr>qu_validator := validate_port\<rparr>)) (\<lambda>_.
     io_bind (ask_new ''SMTP_USERNAME'' ((plain_question [])\<lparr>qu_validator := validate_email\<rparr>)) (\<lambda>_.
     io_bind (ask_new ''SMTP_PASSWORD'' (token_question (plain_question []))) (\<lambda>_.
     io_bind (config_get ''SMTP_USERNAME'' []) (\<lambda>user.
     io_bind (config_set ''DIGEST_FROM_EMAIL'' user) (\<lambda>_.
       ask_for ''DIGEST_TO_EMAIL'' user (\<lambda>q. q\<lparr>qu_validator := validate_email\<rparr>)))))))"

definition configure_whatsapp :: "unit wizard" where
  "configure_whatsapp =
     io_bind (ask_new ''CALLMEBOT_PHONE'' (plain_question [])) (\<lambda>_.
       ask_new ''CALLMEBOT_API_KEY'' ((plain_question [])\<lparr>qu_secret := True\<rparr>))"

definition when_confirmed :: "string \<Rightarrow> unit wizard \<Rightarrow> unit wizard" where
  "when_confirmed key m =
     io_bind (config_get key []) (\<lambda>current. io_bind (confirm (current \<noteq> [])) (\<lambda>yes. if yes then m else io_ret ()))"

definition step_optional_integrations :: "unit wizard" where
  "step_optional_integrations =
     io_bind (when_confirmed ''NOTION_API_TOKEN'' configure_notion) (\<lambda>_.
     io_bind (when_confirmed ''SMTP_USERNAME'' configure_email) (\<lambda>_.
       when_confirmed ''CALLMEBOT_PHONE'' configure_whatsapp))"

text \<open>A secret is made only when there is none.\<close>

definition ensure_secret :: "(nat \<Rightarrow> nat \<Rightarrow> string) \<Rightarrow> string \<Rightarrow> nat \<Rightarrow> unit wizard" where
  "ensure_secret token_urlsafe key len =
     io_bind (config_get key []) (\<lambda>current.
       if current = [] then io_bind (io_token token_urlsafe len) (config_set key) else io_ret ())"

definition step_security :: "(nat \<Rightarrow> nat \<Rightarrow> string) \<Rightarrow> unit wizard" where
  "step_security token_urlsafe =
     io_bind (ensure_secret token_urlsafe ''JWT_SECRET'' 48) (\<lambda>_.
     io_bind (ensure_secret token_urlsafe ''VELAFLOW_MASTER_KEY'' 32) (\<lambda>_.
     io_bind (config_get ''ENVIRONMENT'' ''development'') (\<lambda>mode.
     io_bind (confirm (mode = ''production'')) (\<lambda>yes.
       config_set ''ENVIRONMENT'' (if yes then ''production'' else ''development'')))))"

definition upper_latin :: "char \<Rightarrow> char" where
  "upper_latin c = (if CHR ''a'' \<le> c \<and> c \<le> CHR ''z'' then char_of (of_char c - 32 :: nat) else c)"

definition step_logging :: "string \<Rightarrow> unit wizard" where
  "step_logging log_dir =
     io_bind (config_get ''LOG_LEVEL'' ''INFO'') (\<lambda>current.
     io_bind (prompt (plain_question current)) (\<lambda>level.
     io_bind (config_set ''LOG_LEVEL'' (map upper_latin level)) (\<lambda>_.
     io_bind (ask_for ''LOG_DIR'' log_dir (\<lambda>q. q)) (\<lambda>_.
     io_bind (ask_for ''LOG_MAX_SIZE_MB'' ''50'' (\<lambda>q. q)) (\<lambda>_.
       ask_for ''LOG_RETENTION_DAYS'' ''30'' (\<lambda>q. q))))))"

definition step_timezone :: "unit wizard" where
  "step_timezone = ask_for ''TZ'' ''Europe/Lisbon'' (\<lambda>q. q)"

section \<open>The wizards\<close>

text \<open>What the installer runs with: the host, the tokens, the ornaments and the log directory.\<close>

record setup_env =
  su_host :: host
  su_token :: "nat \<Rightarrow> nat \<Rightarrow> string"
  su_ornaments :: ornaments
  su_log_dir :: string

text \<open>The actions on the host between the questions are left out; the two confirmations are asked.\<close>

definition finish_setup :: "setup_env \<Rightarrow> unit wizard" where
  "finish_setup env =
     io_bind (config_write (su_ornaments env)) (\<lambda>_.
     io_bind (confirm True) (\<lambda>_. io_bind (confirm True) (\<lambda>_. io_ret ())))"

definition wizard_quick :: "setup_env \<Rightarrow> unit wizard" where
  "wizard_quick env =
     io_bind (step_platform (su_host env)) (\<lambda>_.
     io_bind step_domain (\<lambda>_.
     io_bind step_required_keys (\<lambda>_.
     io_bind (step_security (su_token env)) (\<lambda>_.
     io_bind (step_logging (su_log_dir env)) (\<lambda>_.
     io_bind step_timezone (\<lambda>_. finish_setup env))))))"

definition wizard_full :: "setup_env \<Rightarrow> unit wizard" where
  "wizard_full env =
     io_bind (step_platform (su_host env)) (\<lambda>plat.
     io_bind (step_deployment_target plat) (\<lambda>_.
     io_bind step_domain (\<lambda>_.
     io_bind step_required_keys (\<lambda>_.
     io_bind step_optional_integrations (\<lambda>_.
     io_bind (step_security (su_token env)) (\<lambda>_.
     io_bind (step_logging (su_log_dir env)) (\<lambda>_.
     io_bind step_timezone (\<lambda>_. finish_setup env))))))))"

definition reconfigure_step :: "setup_env \<Rightarrow> string \<Rightarrow> unit wizard" where
  "reconfigure_step env choice =
     (if choice = ''1'' then step_domain
      else if choice = ''2'' then step_required_keys
      else if choice = ''3'' then step_optional_integrations
      else if choice = ''4'' then step_security (su_token env)
      else if choice = ''5'' then step_logging (su_log_dir env)
      else step_timezone)"

text \<open>The loops take a line each time round, so as many rounds as there are lines are enough.\<close>

fun reconfigure_loop :: "setup_env \<Rightarrow> nat \<Rightarrow> unit wizard" where
  "reconfigure_loop env 0 = io_raise eof_error"
| "reconfigure_loop env (Suc rounds) =
     io_bind (menu [''1'', ''2'', ''3'', ''4'', ''5'', ''6'', ''0'']) (\<lambda>choice.
       if choice = ''0'' then io_ret ()
       else io_bind (reconfigure_step env choice) (\<lambda>_.
            io_bind (config_write (su_ornaments env)) (\<lambda>_. reconfigure_loop env rounds)))"

definition rounds_left :: "(nat \<Rightarrow> 'a wizard) \<Rightarrow> 'a wizard" where
  "rounds_left f = (\<lambda>(n, s). f (Suc (length (cn_answers s))) (n, s))"

definition wizard_reconfigure :: "setup_env \<Rightarrow> unit wizard" where
  "wizard_reconfigure env = rounds_left (reconfigure_loop env)"

fun main_loop :: "setup_env \<Rightarrow> nat \<Rightarrow> unit wizard" where
  "main_loop env 0 = io_raise eof_error"
| "main_loop env (Suc rounds) =
     io_bind (menu [''1'', ''2'', ''3'', ''4'', ''5'', ''0'']) (\<lambda>choice.
       if choice = ''0'' then io_ret ()
       else io_bind
              (if choice = ''1'' then io_bind (wizard_quick env) (\<lambda>_. io_bind input_line (\<lambda>_. io_ret ()))
               else if choice = ''2'' then io_bind (wizard_full env) (\<lambda>_. io_bind input_line (\<lambda>_. io_ret ()))
               else if choice = ''3'' then wizard_reconfigure env
               else io_bind input_line (\<lambda>_. io_ret ()))
              (\<lambda>_. main_loop env rounds))"

text \<open>The flags that run the wizards; those that only run host actions leave the configuration alone.\<close>

definition installer_main :: "setup_env \<Rightarrow> string list \<Rightarrow> unit wizard" where
  "installer_main env argv =
     (if ''--bootstrap'' \<in> set argv \<or> ''--detect-hardware'' \<in> set argv then io_ret ()
      else if ''--quick'' \<in> set argv then io_bind config_load (\<lambda>_. wizard_quick env)
      else if ''--health'' \<in> set argv \<or> ''--export-logs'' \<in> set argv then io_ret ()
      else io_bind config_load (\<lambda>_. rounds_left (main_loop env)))"

section \<open>The health check\<close>

text \<open>A check by its label, whether it is critical, and what its test gives: a truth value, or an exception.\<close>

record health_count =
  hk_passed :: nat
  hk_failed :: nat
  hk_warnings :: nat

definition count_check :: "bool \<times> bool option \<Rightarrow> health_count \<Rightarrow> health_count" where
  "count_check c k =
     (if snd c = Some True then k\<lparr>hk_passed := hk_passed k + 1\<rparr>
      else if fst c then k\<lparr>hk_failed := hk_failed k + 1\<rparr>
      else k\<lparr>hk_warnings := hk_warnings k + 1\<rparr>)"

definition health_checks :: "(string \<times> bool) list" where
  "health_checks =
     [(''Python 3.11+'', True), (''Project root exists'', True), (''src/brain/ exists'', True),
      (''config/.env exists'', False), (''logs/ directory exists'', False), (''data/ directory exists'', False),
      (''brain package importable'', True), (''Settings loadable'', True), (''FastAPI app creates'', True),
      (''PII detector loads'', True), (''Encryption round-trip'', True), (''Task scoring'', True),
      (''AuditLog importable'', True), (''RBAC importable'', True), (''BanManager importable'', True),
      (''Sanitization importable'', True), (''ZeroTrust importable'', True), (''SecureLogging importable'', False),
      (''DuckDB engine'', True), (''Medallion pipeline'', True), (''Data catalog'', True), (''Queue worker'', True),
      (''Tenant manager'', True), (''Demo manager'', True), (''DNS resolution'', False),
      (''HTTPS outbound (Todoist)'', False)]"

definition run_health_check :: "(string \<Rightarrow> bool option) \<Rightarrow> int \<times> health_count" where
  "run_health_check test =
     (let k = fold count_check (map (\<lambda>(label, critical). (critical, test label)) health_checks)
                \<lparr>hk_passed = 0, hk_failed = 0, hk_warnings = 0\<rparr>
      in (if hk_failed k = 0 then 0 else 1, k))"

end
