(* ===== verification/InstallerLaws.thy ===== *)
theory InstallerLaws
  imports Installer
begin

text \<open>
  What the installer guarantees: a configuration it writes reads back, up to the escapes, which it never
  takes back; the secrets of an existing installation survive every run of the wizard, however it ends; a
  value is set only once its validator accepts it; the loops end; and the exit code of the health check.
\<close>

section \<open>Stripping\<close>

lemma uni_strip_id:
  assumes "\<not> re_space (hd s)" and "\<not> re_space (last s)"
  shows "uni_strip s = s"
proof -
  from assms have "dropWhile re_space s = s" "dropWhile re_space (rev s) = rev s"
    by (simp_all add: dropWhile_eq_self_iff hd_rev)
  then show ?thesis by (simp add: uni_strip_def)
qed

lemma dropWhile_head: "dropWhile p s \<noteq> [] \<Longrightarrow> \<not> p (hd (dropWhile p s))"
  by (induction s) auto

lemma dropWhile_rev_head:
  assumes "t \<noteq> []" and "\<not> p (hd t)"
  shows "rev (dropWhile p (rev t)) \<noteq> []" and "hd (rev (dropWhile p (rev t))) = hd t"
proof -
  obtain c u where t: "t = c # u" using assms(1) by (cases t) auto
  have "dropWhile p (rev u @ [c]) = dropWhile p (rev u) @ [c]"
    using assms(2) t by (induction "rev u" arbitrary: u rule: list.induct) (auto simp: dropWhile_append)
  then show "rev (dropWhile p (rev t)) \<noteq> []" "hd (rev (dropWhile p (rev t))) = hd t" using t by simp_all
qed

lemma uni_strip_head: "uni_strip s \<noteq> [] \<Longrightarrow> \<not> re_space (hd (uni_strip s))"
  unfolding uni_strip_def
  by (metis dropWhile_head dropWhile_rev_head rev_is_Nil_conv dropWhile.simps(1))

lemma uni_strip_last: "uni_strip s \<noteq> [] \<Longrightarrow> \<not> re_space (last (uni_strip s))"
  using dropWhile_head [of re_space "rev (dropWhile re_space s)"] by (auto simp: uni_strip_def last_rev)

lemma uni_strip_idem [simp]: "uni_strip (uni_strip s) = uni_strip s"
  by (cases "uni_strip s = []") (auto intro!: uni_strip_id uni_strip_head uni_strip_last simp: uni_strip_def [of "[]"])

lemma set_uni_strip: "set (uni_strip s) \<subseteq> set s"
  unfolding uni_strip_def by (auto dest!: set_dropWhileD)

lemma uni_strip_hd:
  assumes "s \<noteq> []" and "\<not> re_space (hd s)"
  shows "uni_strip s \<noteq> []" and "hd (uni_strip s) = hd s"
proof -
  from assms(2) have "dropWhile re_space s = s" by (simp add: dropWhile_eq_self_iff)
  with dropWhile_rev_head [of s re_space] assms show "uni_strip s \<noteq> []" "hd (uni_strip s) = hd s"
    by (simp_all add: uni_strip_def)
qed

lemma uni_strip_starts: "\<not> re_space c \<Longrightarrow> \<exists>t. uni_strip (c # s) = c # t"
  using uni_strip_hd [of "c # s"] by (cases "uni_strip (c # s)") auto

section \<open>The file\<close>

definition clean_line :: "string \<Rightarrow> bool" where
  "clean_line s \<longleftrightarrow> CHR 0x0A \<notin> set s \<and> CHR 0x0D \<notin> set s"

definition key_ok :: "string \<Rightarrow> bool" where
  "key_ok k \<longleftrightarrow> uni_strip k = k \<and> CHR ''='' \<notin> set k \<and> clean_line k \<and> \<not> prefix ''#'' k"

definition values_ok :: "(string \<times> string) list \<Rightarrow> bool" where
  "values_ok vs \<longleftrightarrow> distinct (map fst vs) \<and> (\<forall>(k, v) \<in> set vs. key_ok k \<and> CHR 0x0D \<notin> set v)"

definition ornaments_ok :: "ornaments \<Rightarrow> bool" where
  "ornaments_ok orn \<longleftrightarrow> list_all clean_line (or_head orn) \<and> (\<forall>g. clean_line (or_group orn g))"

lemma split_text_lines:
  "list_all (\<lambda>l. CHR 0x0A \<notin> set l) (l # ls) \<Longrightarrow> py_split CHR 0x0A (py_join [CHR 0x0A] (l # ls) @ [CHR 0x0A]) = (l # ls) @ [[]]"
proof (induction ls arbitrary: l)
  case Nil
  then show ?case by (simp add: py_split_sep)
next
  case (Cons m ls)
  from Cons.prems have "CHR 0x0A \<notin> set l" by simp
  with Cons show ?case by (simp add: py_split_sep)
qed

lemma universal_newlines_id: "CHR 0x0D \<notin> set s \<Longrightarrow> universal_newlines s = s"
  by (induction s rule: universal_newlines.induct) auto

lemma universal_newlines_clean: "CHR 0x0D \<notin> set (universal_newlines s)"
  by (induction s rule: universal_newlines.induct) auto

lemma escape_clean: "CHR 0x0D \<notin> set v \<Longrightarrow> clean_line (escape_env_value v)"
  by (induction v) (auto simp: escape_env_value_def escape_char_def clean_line_def split: if_splits)

lemma read_comment: "read_line (CHR ''#'' # l) vs = vs"
proof -
  obtain t where "uni_strip (CHR ''#'' # l) = CHR ''#'' # t"
    using uni_strip_starts [of "CHR ''#''" l] by (auto simp: re_space_def is_space_def)
  then show ?thesis by (simp add: read_line_def)
qed

lemma read_empty: "read_line [] vs = vs"
  by (simp add: read_line_def uni_strip_def)

lemma read_env_line:
  assumes "key_ok k"
  shows "read_line (env_line (k, v)) vs = AList.update k (escape_env_value v) vs"
proof -
  let ?q = "[CHR 0x22] @ escape_env_value v @ [CHR 0x22]" and ?line = "k @ CHR ''='' # CHR 0x22 # escape_env_value v @ [CHR 0x22]"
  have k: "uni_strip k = k" "CHR ''='' \<notin> set k" "\<not> prefix ''#'' k" using assms by (auto simp: key_ok_def)
  have space: "\<not> re_space CHR 0x22" "\<not> re_space CHR ''=''" by (simp_all add: re_space_def is_space_def)
  have "\<not> re_space (hd ?line)"
  proof (cases "k = []")
    case False
    with uni_strip_head [of k] k(1) show ?thesis by simp
  qed (simp add: space)
  then have line: "uni_strip ?line = ?line" by (intro uni_strip_id) (simp_all add: space)
  have val: "uni_strip ?q = ?q" by (intro uni_strip_id) (simp_all add: space)
  have "takeWhile (\<lambda>c. c \<noteq> CHR ''='') ?line = k" "dropWhile (\<lambda>c. c \<noteq> CHR ''='') ?line = CHR ''='' # ?q"
    using k(2) by (auto simp: takeWhile_append dropWhile_append takeWhile_eq_all_conv)
  moreover have "\<not> prefix ''#'' ?line" using k(3) by (cases k) auto
  moreover have "unquote ?q = escape_env_value v" by (simp add: unquote_def)
  ultimately show ?thesis using line val k(1) by (simp add: read_line_def env_line_def)
qed

text \<open>The entries of the file, in the order written.\<close>

definition entries :: "(string \<times> string) list \<Rightarrow> (string \<times> string) list" where
  "entries vs = concat (map (\<lambda>g. in_values vs (snd g)) env_groups) @ extra_values vs"

definition set_escaped :: "string \<times> string \<Rightarrow> (string \<times> string) list \<Rightarrow> (string \<times> string) list" where
  "set_escaped kv = AList.update (fst kv) (escape_env_value (snd kv))"

lemma read_entries:
  "list_all (\<lambda>kv. key_ok (fst kv)) kvs \<Longrightarrow> fold read_line (map env_line kvs) vs = fold set_escaped kvs vs"
  by (induction kvs arbitrary: vs) (auto simp: read_env_line set_escaped_def)

lemma read_group:
  assumes "list_all (\<lambda>kv. key_ok (fst kv)) (in_values values (snd g))"
  shows "fold read_line (group_text orn values g) vs = fold set_escaped (in_values values (snd g)) vs"
  using read_entries [OF assms] by (simp add: group_text_def read_comment read_empty)

lemma read_groups:
  assumes "\<And>g. g \<in> set gs \<Longrightarrow> list_all (\<lambda>kv. key_ok (fst kv)) (in_values values (snd g))"
  shows "fold read_line (concat (map (group_text orn values) gs)) vs =
     fold set_escaped (concat (map (\<lambda>g. in_values values (snd g)) gs)) vs"
  using assms by (induction gs arbitrary: vs) (simp_all add: read_group)

lemma read_heads: "fold read_line (map (\<lambda>h. CHR ''#'' # h) hs) vs = vs"
  by (induction hs) (simp_all add: read_comment)

lemma in_values_set: "set (in_values vs ks) = {(k, v). k \<in> set ks \<and> map_of vs k = Some v}"
  by (auto simp: in_values_def split: option.splits)

lemma in_values_keys: "map fst (in_values vs ks) = filter (\<lambda>k. map_of vs k \<noteq> None) ks"
  by (induction ks) (auto simp: in_values_def split: option.splits)

lemma concat_map_filter: "concat (map (\<lambda>x. filter p (f x)) xs) = filter p (concat (map f xs))"
  by (induction xs) simp_all

lemma entries_keys:
  "map fst (entries vs) =
     filter (\<lambda>k. map_of vs k \<noteq> None) (concat (map snd env_groups)) @ map fst (extra_values vs)"
  by (simp add: entries_def map_concat comp_def in_values_keys concat_map_filter del: not_None_eq)

lemma group_keys_distinct: "distinct (concat (map snd env_groups))"
  unfolding env_groups_def by code_simp

lemma entries_set: "distinct (map fst vs) \<Longrightarrow> set (entries vs) = set vs"
  by (auto simp: entries_def in_values_set extra_values_def map_of_eq_Some_iff)

lemma entries_distinct:
  assumes "distinct (map fst vs)"
  shows "distinct (map fst (entries vs))"
proof -
  have "distinct (map fst (extra_values vs))"
    using assms by (simp add: extra_values_def distinct_map_fst_filter distinct_map distinct_filter inj_on_def) 
  with group_keys_distinct show ?thesis
    unfolding entries_keys by (auto simp: extra_values_def simp del: concat_map_filter)
qed

lemma map_of_set_escaped:
  "distinct (map fst kvs) \<Longrightarrow>
     map_of (fold set_escaped kvs vs) k =
       (case map_of kvs k of None \<Rightarrow> map_of vs k | Some v \<Rightarrow> Some (escape_env_value v))"
proof (induction kvs arbitrary: vs)
  case (Cons kv kvs)
  obtain a b where kv: "kv = (a, b)" by (cases kv)
  with Cons.prems have dist: "distinct (map fst kvs)" and out: "map_of kvs a = None" by (auto simp: map_of_eq_None_iff)
  show ?case
    unfolding fold.simps comp_def Cons.IH [OF dist] using out
    by (cases "k = a") (simp_all add: kv set_escaped_def split: option.split)
qed simp

text \<open>The lines of a file written from such values are free of line ends.\<close>

lemma env_line_clean: "key_ok k \<Longrightarrow> CHR 0x0D \<notin> set v \<Longrightarrow> clean_line (env_line (k, v))"
  using escape_clean [of v] by (auto simp: env_line_def key_ok_def clean_line_def)

lemma in_values_ok:
  assumes "values_ok vs"
  shows "list_all (\<lambda>kv. key_ok (fst kv)) (in_values vs ks)" and "list_all (clean_line \<circ> env_line) (in_values vs ks)"
  using assms by (auto simp: values_ok_def list_all_iff in_values_set env_line_clean dest!: map_of_SomeD)

lemma extra_values_ok:
  assumes "values_ok vs"
  shows "list_all (\<lambda>kv. key_ok (fst kv)) (extra_values vs)" and "list_all (clean_line \<circ> env_line) (extra_values vs)"
  using assms by (auto simp: values_ok_def list_all_iff extra_values_def env_line_clean)

lemma clean_comment: "clean_line l \<Longrightarrow> clean_line (CHR ''#'' # l)" and clean_empty: "clean_line []"
  by (simp_all add: clean_line_def)

lemma env_lines_clean:
  assumes "values_ok vs" and "ornaments_ok orn"
  shows "list_all clean_line (env_lines orn vs)"
proof -
  have group: "list_all clean_line (group_text orn vs g)" for g
    using in_values_ok(2) [OF assms(1), of "snd g"] assms(2)
    by (auto simp: group_text_def list_all_iff ornaments_ok_def clean_comment clean_empty)
  have heads: "list_all clean_line (map (\<lambda>h. CHR ''#'' # h) (or_head orn))"
    using assms(2) by (auto simp: list_all_iff ornaments_ok_def clean_comment)
  show ?thesis
    using heads group extra_values_ok(2) [OF assms(1)] assms(2)
    by (auto simp: env_lines_def list_all_iff ornaments_ok_def clean_comment clean_empty)
qed

lemma load_env_text:
  assumes "values_ok vs" and "ornaments_ok orn"
  shows "load_existing (Some (env_text orn vs)) = fold set_escaped (entries vs) []"
proof -
  obtain l ls where lines: "env_lines orn vs = l # ls" by (cases "env_lines orn vs") (auto simp: env_lines_def)
  have clean: "list_all clean_line (l # ls)" using env_lines_clean [OF assms] lines by simp
  then have "CHR 0x0D \<notin> set (env_text orn vs)"
    using set_py_join [of "[CHR 0x0A]" "l # ls"] by (fastforce simp: env_text_def lines list_all_iff clean_line_def)
  then have same: "universal_newlines (env_text orn vs) = env_text orn vs" by (rule universal_newlines_id)
  have "py_split CHR 0x0A (env_text orn vs) = env_lines orn vs @ [[]]"
    using split_text_lines [of l ls] clean by (simp add: env_text_def lines list_all_iff clean_line_def)
  moreover have "fold read_line (env_lines orn vs) [] = fold set_escaped (entries vs) []"
    using read_groups [of env_groups vs orn "[]"] in_values_ok(1) [OF assms(1)]
      read_entries [OF extra_values_ok(1) [OF assms(1)]]
    by (simp add: env_lines_def read_heads read_empty read_comment entries_def)
  ultimately show ?thesis by (simp add: load_existing_def same read_empty)
qed

lemma env_text_lookup:
  assumes "values_ok vs" and "ornaments_ok orn"
  shows "map_of (load_existing (Some (env_text orn vs))) k = map_option escape_env_value (map_of vs k)"
proof -
  have dist: "distinct (map fst vs)" using assms(1) by (simp add: values_ok_def)
  have "map_of (entries vs) = map_of vs"
    using map_of_inject_set [OF entries_distinct [OF dist] dist] entries_set [OF dist] by simp
  then show ?thesis
    unfolding load_env_text [OF assms] map_of_set_escaped [OF entries_distinct [OF dist]]
    by (simp split: option.split)
qed

definition plain_value :: "string \<Rightarrow> bool" where
  "plain_value v \<longleftrightarrow> CHR 0x5C \<notin> set v \<and> CHR 0x22 \<notin> set v \<and> CHR 0x0A \<notin> set v"

lemma escape_length: "length v \<le> length (escape_env_value v)"
  by (induction v) (auto simp: escape_env_value_def escape_char_def)

lemma escape_plain: "escape_env_value v = v \<longleftrightarrow> plain_value v"
proof
  show "plain_value v \<Longrightarrow> escape_env_value v = v"
    by (induction v) (auto simp: escape_env_value_def escape_char_def plain_value_def)
  show "escape_env_value v = v \<Longrightarrow> plain_value v"
  proof (induction v)
    case (Cons c v)
    have "length (escape_env_value (c # v)) = Suc (length v)" using Cons.prems by simp
    with escape_length [of v] have "length (escape_char c) = 1"
      by (auto simp: escape_env_value_def escape_char_def split: if_splits)
    with Cons show ?case by (auto simp: escape_env_value_def escape_char_def plain_value_def split: if_splits)
  qed (simp add: plain_value_def)
qed

text \<open>Each further run doubles the backslashes of a value.\<close>

lemma backslashes_grow:
  "(escape_env_value ^^ n) [CHR 0x5C] = replicate (2 ^ n) CHR 0x5C"
proof (induction n)
  case (Suc n)
  have "escape_env_value (replicate m CHR 0x5C) = replicate (2 * m) CHR 0x5C" for m
    by (induction m) (simp_all add: escape_env_value_def escape_char_def)
  with Suc show ?case by simp
qed simp

lemma py_split_pieces: "(\<Union>w \<in> set (py_split c s). set w) \<subseteq> set s - {c}"
proof (induction s)
  case (Cons d s)
  obtain a ws where "py_split c s = a # ws" by (cases "py_split c s") auto
  with Cons.IH show ?case by auto
qed simp

lemma set_alist_update: "set (AList.update k v vs) \<subseteq> insert (k, v) (set vs)"
  by (induction vs) auto

lemma values_ok_update:
  assumes "values_ok vs" and "key_ok k" and "CHR 0x0D \<notin> set v"
  shows "values_ok (AList.update k v vs)"
  using assms set_alist_update [of k v vs] by (fastforce simp: values_ok_def distinct_update)

lemma load_values_ok: "values_ok (load_existing f)"
proof -
  have step: "values_ok (read_line raw vs)" if "CHR 0x0A \<notin> set raw" "CHR 0x0D \<notin> set raw" "values_ok vs" for raw vs
  proof -
    let ?line = "uni_strip raw"
    let ?key = "takeWhile (\<lambda>c. c \<noteq> CHR ''='') ?line" and ?val = "tl (dropWhile (\<lambda>c. c \<noteq> CHR ''='') ?line)"
    have clean: "clean_line ?line" using that set_uni_strip [of raw] by (auto simp: clean_line_def)
    have key: "key_ok (uni_strip ?key)" if "\<not> prefix ''#'' ?line"
    proof -
      have "\<not> prefix ''#'' (uni_strip ?key)"
      proof (cases "?key = []")
        case False
        then have "?line \<noteq> []" and hd: "hd ?key = hd ?line" by (cases ?line; simp split: if_splits)+
        then have "\<not> re_space (hd ?key)" using uni_strip_head by metis
        with False uni_strip_hd [of ?key] have "hd (uni_strip ?key) = hd ?line" by (simp add: hd)
        with that \<open>?line \<noteq> []\<close> show ?thesis by (cases "uni_strip ?key"; cases ?line) auto
      qed (simp add: uni_strip_def)
      moreover have "set (uni_strip ?key) \<subseteq> {c \<in> set ?line. c \<noteq> CHR ''=''}"
        using set_uni_strip [of ?key] set_takeWhileD by fast
      ultimately show ?thesis using clean by (auto simp: key_ok_def clean_line_def)
    qed
    have "set (unquote (uni_strip ?val)) \<subseteq> set (uni_strip ?val)"
      by (auto simp: unquote_def dest!: in_set_butlastD list.set_sel(2) [rotated])
    also have "\<dots> \<subseteq> set ?line"
      using set_uni_strip [of ?val] by (metis (no_types, lifting) list.set_sel(2) set_dropWhileD subset_eq tl_Nil)
    finally have "CHR 0x0D \<notin> set (unquote (uni_strip ?val))" using clean by (auto simp: clean_line_def)
    with key that(3) show ?thesis by (auto simp: read_line_def Let_def intro!: values_ok_update)
  qed
  have "values_ok (fold read_line ls vs)" if "list_all clean_line ls" "values_ok vs" for ls vs
    using that step by (induction ls arbitrary: vs) (auto simp: clean_line_def)
  moreover have "list_all clean_line (py_split CHR 0x0A (universal_newlines u))" for u
    using py_split_pieces universal_newlines_clean [of u] by (fastforce simp: list_all_iff clean_line_def)
  moreover have "values_ok []" by (simp add: values_ok_def)
  ultimately show ?thesis by (simp add: load_existing_def split: option.split)
qed

section \<open>Invariants of the wizard\<close>

definition gives :: "(console \<Rightarrow> bool) \<Rightarrow> ('a \<Rightarrow> bool) \<Rightarrow> 'a wizard \<Rightarrow> bool" where
  "gives P Q m \<longleftrightarrow>
     (\<forall>n s r n' s'. P s \<longrightarrow> m (n, s) = (r, n', s') \<longrightarrow> P s' \<and> (case r of Inl e \<Rightarrow> True | Inr x \<Rightarrow> Q x))"

lemma gives_ret: "Q x \<Longrightarrow> gives P Q (io_ret x)"
  by (simp add: gives_def)

lemma gives_raise: "gives P Q (io_raise e)"
  by (simp add: gives_def)

lemma gives_weaken: "gives P Q m \<Longrightarrow> (\<And>x. Q x \<Longrightarrow> R x) \<Longrightarrow> gives P R m"
  unfolding gives_def by (fastforce split: sum.splits)

lemma gives_bind:
  assumes "gives P Q m" and "\<And>x. Q x \<Longrightarrow> gives P R (f x)"
  shows "gives P R (io_bind m f)"
  unfolding gives_def
proof (intro allI impI)
  fix n s r n' s'
  assume P: "P s" and run: "io_bind m f (n, s) = (r, n', s')"
  obtain r1 n1 s1 where m: "m (n, s) = (r1, n1, s1)" by (cases "m (n, s)")
  with assms(1) P have first: "P s1" "case r1 of Inl e \<Rightarrow> True | Inr x \<Rightarrow> Q x" unfolding gives_def by blast+
  show "P s' \<and> (case r of Inl e \<Rightarrow> True | Inr x \<Rightarrow> R x)"
  proof (cases r1)
    case (Inl e)
    with run m first show ?thesis by (auto simp: io_bind_run)
  next
    case (Inr x)
    with first have "gives P R (f x)" using assms(2) by simp
    moreover from Inr run m have "f x (n1, s1) = (r, n', s')" by (simp add: io_bind_run)
    ultimately show ?thesis using first(1) unfolding gives_def by blast
  qed
qed

lemma gives_if: "(c \<Longrightarrow> gives P Q a) \<Longrightarrow> (\<not> c \<Longrightarrow> gives P Q b) \<Longrightarrow> gives P Q (if c then a else b)"
  by simp

lemma gives_rounds: "(\<And>k. gives P Q (f k)) \<Longrightarrow> gives P Q (rounds_left f)"
  unfolding gives_def rounds_left_def by auto

lemma ask_lines_some:
  "ask_lines q ls = (Some v, rest) \<Longrightarrow> accepted q v \<and> (\<exists>raw \<in> set ls. v = answer_value q raw) \<and> set rest \<subseteq> set ls"
  by (induction ls) (auto split: if_splits)

lemma ask_lines_rest: "set (snd (ask_lines q ls)) \<subseteq> set ls" and ask_lines_shorter: "length (snd (ask_lines q ls)) \<le> length ls"
  and ask_lines_takes: "fst (ask_lines q ls) = Some v \<Longrightarrow> length (snd (ask_lines q ls)) < length ls"
  by (induction ls) (auto split: if_splits)

definition no_cr :: "string \<Rightarrow> bool" where
  "no_cr s \<longleftrightarrow> CHR 0x0D \<notin> set s"

lemma no_cr_append [simp]: "no_cr (s @ t) \<longleftrightarrow> no_cr s \<and> no_cr t"
  and no_cr_Cons [simp]: "no_cr (c # s) \<longleftrightarrow> c \<noteq> CHR 0x0D \<and> no_cr s" and no_cr_Nil [simp]: "no_cr []"
  by (auto simp: no_cr_def)

lemma no_cr_strip: "no_cr s \<Longrightarrow> no_cr (uni_strip s)"
  using set_uni_strip [of s] by (auto simp: no_cr_def)

lemma no_cr_upper: "no_cr s \<Longrightarrow> no_cr (map upper_latin s)"
proof -
  have "upper_latin c \<noteq> CHR 0x0D" if "c \<noteq> CHR 0x0D" for c
  proof
    assume eq: "upper_latin c = CHR 0x0D"
    show False
    proof (cases "CHR ''a'' \<le> c \<and> c \<le> CHR ''z''")
      case True
      then have "97 \<le> (of_char c :: nat)" "(of_char c :: nat) \<le> 122"
        by (simp_all add: less_eq_char_def)
      moreover from eq True have "char_of (of_char c - 32 :: nat) = CHR 0x0D" by (simp add: upper_latin_def)
      then have "of_char (char_of (of_char c - 32 :: nat)) = (of_char CHR 0x0D :: nat)" by simp
      ultimately show False by (simp add: of_char_of)
    next
      case False
      with eq that show False by (simp add: upper_latin_def split: if_splits)
    qed
  qed
  then show "no_cr s \<Longrightarrow> no_cr (map upper_latin s)"
    unfolding no_cr_def set_map by (metis imageE)
qed

text \<open>The secret is set, the file holds it, and nothing can break a line of the file.\<close>

definition secret_kept :: "string \<Rightarrow> string \<Rightarrow> console \<Rightarrow> bool" where
  "secret_kept key v s \<longleftrightarrow>
     values_ok (cn_values s) \<and> map_of (cn_values s) key = Some v \<and> list_all no_cr (cn_answers s)
     \<and> map_of (load_existing (cn_file s)) key = Some v"

lemma secret_get: "no_cr dflt \<Longrightarrow> gives (secret_kept key v) (\<lambda>x. no_cr x \<and> (k = key \<longrightarrow> x = v)) (config_get k dflt)"
  by (auto simp: gives_def config_get_def secret_kept_def dget_def values_ok_def no_cr_def dest!: map_of_SomeD split: option.splits)

lemma secret_set:
  assumes "k \<noteq> key" and "key_ok k" and "no_cr x"
  shows "gives (secret_kept key v) (\<lambda>_. True) (config_set k x)"
  using assms by (auto simp: gives_def config_set_def secret_kept_def no_cr_def intro!: values_ok_update split: if_splits)

lemma secret_prompt:
  assumes "no_cr (qu_default q)"
  shows "gives (secret_kept key v) no_cr (prompt q)"
  unfolding gives_def
proof (intro allI impI)
  fix n s r n' s'
  assume P: "secret_kept key v s" and run: "prompt q (n, s) = (r, n', s')"
  obtain a rest where lines: "ask_lines q (cn_answers s) = (a, rest)" by (cases "ask_lines q (cn_answers s)")
  then have "set rest \<subseteq> set (cn_answers s)" using ask_lines_rest [of q "cn_answers s"] by simp
  then have kept: "secret_kept key v (s\<lparr>cn_answers := rest\<rparr>)" using P by (auto simp: secret_kept_def list_all_iff)
  show "secret_kept key v s' \<and> (case r of Inl e \<Rightarrow> True | Inr x \<Rightarrow> no_cr x)"
  proof (cases a)
    case None
    with run lines kept show ?thesis by (auto simp: prompt_def)
  next
    case (Some x)
    with lines ask_lines_some obtain raw where "raw \<in> set (cn_answers s)" "x = answer_value q raw" by blast
    with P assms have "no_cr x" by (auto simp: secret_kept_def list_all_iff answer_value_def Let_def no_cr_strip)
    with Some run lines kept show ?thesis by (auto simp: prompt_def)
  qed
qed

lemma secret_input: "gives (secret_kept key v) no_cr input_line"
  by (auto simp: gives_def input_line_def secret_kept_def split: list.splits)

lemma secret_confirm: "gives (secret_kept key v) (\<lambda>_. True) (confirm d)"
  unfolding confirm_def by (rule gives_bind [OF secret_input]) (simp add: gives_ret Let_def del: io_ret_run)

lemma secret_menu: "gives (secret_kept key v) (\<lambda>_. True) (menu ks)"
  unfolding menu_def by (rule gives_weaken [OF secret_prompt]) simp_all

lemma secret_write:
  assumes "ornaments_ok orn" and "plain_value v"
  shows "gives (secret_kept key v) (\<lambda>_. True) (config_write orn)"
  using assms by (auto simp: gives_def config_write_def secret_kept_def env_text_lookup escape_plain)

text \<open>The names the wizard sets are good keys.\<close>

definition step_keys :: "string list" where
  "step_keys = concat (map snd env_groups)"

lemma step_keys_ok: "k \<in> set step_keys \<Longrightarrow> key_ok k"
proof -
  have "list_all (\<lambda>k. k \<noteq> [] \<and> \<not> re_space (hd k) \<and> \<not> re_space (last k) \<and> CHR ''='' \<notin> set k \<and> clean_line k
      \<and> hd k \<noteq> CHR ''#'') step_keys"
    unfolding step_keys_def env_groups_def by code_simp
  moreover assume "k \<in> set step_keys"
  ultimately have k: "k \<noteq> []" "\<not> re_space (hd k)" "\<not> re_space (last k)" "CHR ''='' \<notin> set k" "clean_line k"
      "hd k \<noteq> CHR ''#''"
    unfolding list_all_iff by blast+
  then have "\<not> prefix ''#'' k" by (cases k) simp_all
  with k show "key_ok k" by (simp add: key_ok_def uni_strip_id)
qed

definition secret_keys :: "string list" where
  "secret_keys = [''JWT_SECRET'', ''VELAFLOW_MASTER_KEY'']"

lemma gives_seq: "gives P (\<lambda>_. True) m \<Longrightarrow> gives P R k \<Longrightarrow> gives P R (io_bind m (\<lambda>_. k))"
  by (rule gives_bind)

lemma gives_done: "gives P (\<lambda>_. True) (io_ret x)"
  by (simp add: gives_ret del: io_ret_run)

text \<open>A name the wizard asks for, other than the two secrets.\<close>

definition asked_key :: "string \<Rightarrow> bool" where
  "asked_key k \<longleftrightarrow> k \<in> set step_keys \<and> k \<notin> set secret_keys"

lemma asked_keys:
  "asked_key ''VELAFLOW_DOMAIN''" "asked_key ''VELAFLOW_API_PORT''" "asked_key ''CORS_ALLOWED_ORIGINS''"
  "asked_key ''ENVIRONMENT''" "asked_key ''TODOIST_API_TOKEN''" "asked_key ''LITELLM_PROXY_URL''"
  "asked_key ''LITELLM_PROXY_TOKEN''" "asked_key ''LITELLM_PROXY_MODEL''" "asked_key ''GOOGLE_AI_API_KEY''"
  "asked_key ''NOTION_API_TOKEN''" "asked_key ''NOTION_ROOT_PAGE_ID''" "asked_key ''SMTP_HOST''" "asked_key ''SMTP_PORT''"
  "asked_key ''SMTP_USERNAME''" "asked_key ''SMTP_PASSWORD''" "asked_key ''DIGEST_FROM_EMAIL''"
  "asked_key ''DIGEST_TO_EMAIL''" "asked_key ''CALLMEBOT_PHONE''" "asked_key ''CALLMEBOT_API_KEY''"
  "asked_key ''LOG_LEVEL''" "asked_key ''LOG_DIR''" "asked_key ''LOG_MAX_SIZE_MB''" "asked_key ''LOG_RETENTION_DAYS''"
  "asked_key ''TZ''"
  by (simp_all add: asked_key_def step_keys_def env_groups_def secret_keys_def)

lemma set_asked:
  "key \<in> set secret_keys \<Longrightarrow> asked_key k \<Longrightarrow> no_cr x \<Longrightarrow> gives (secret_kept key v) (\<lambda>_. True) (config_set k x)"
  by (rule secret_set) (auto simp: asked_key_def step_keys_ok)

lemma ask_for_keeps:
  assumes "key \<in> set secret_keys" and "asked_key k" and "no_cr dflt" and "\<And>q. no_cr (qu_default q) \<Longrightarrow> no_cr (qu_default (f q))"
  shows "gives (secret_kept key v) (\<lambda>_. True) (ask_for k dflt f)"
  unfolding ask_for_def
  by (rule gives_bind [OF secret_get [OF assms(3)]], rule gives_bind [OF secret_prompt])
    (use assms in \<open>auto intro!: set_asked simp: plain_question_def\<close>)

lemma ask_new_keeps:
  assumes "key \<in> set secret_keys" and "asked_key k" and "no_cr (qu_default q)"
  shows "gives (secret_kept key v) (\<lambda>_. True) (ask_new k q)"
  unfolding ask_new_def by (rule gives_bind [OF secret_prompt [OF assms(3)]]) (rule set_asked [OF assms(1,2)])

lemma default_simps [simp]:
  "no_cr (qu_default (token_question q)) = no_cr (qu_default q)" "no_cr (qu_default (plain_question d)) = no_cr d"
  by (simp_all add: token_question_def plain_question_def)

lemma domain_keeps:
  assumes "key \<in> set secret_keys"
  shows "gives (secret_kept key v) (\<lambda>_. True) step_domain"
  unfolding step_domain_def
proof (rule gives_bind [OF secret_get], simp)
  fix current assume "no_cr current \<and> (''VELAFLOW_DOMAIN'' = key \<longrightarrow> current = v)"
  then have c: "no_cr (qu_default ((plain_question current)\<lparr>qu_validator := validate_domain\<rparr>))" by (simp add: plain_question_def)
  show "gives (secret_kept key v) (\<lambda>_. True)
     (io_bind (prompt ((plain_question current)\<lparr>qu_validator := validate_domain\<rparr>)) (\<lambda>domain.
      io_bind (config_set ''VELAFLOW_DOMAIN'' domain) (\<lambda>_.
      io_bind (config_get ''VELAFLOW_API_PORT'' ''8000'') (\<lambda>current.
      io_bind (prompt ((plain_question current)\<lparr>qu_validator := validate_port\<rparr>)) (\<lambda>port.
      io_bind (config_set ''VELAFLOW_API_PORT'' port) (\<lambda>_.
        config_set ''CORS_ALLOWED_ORIGINS'' (cors_origins domain port)))))))"
    by (rule gives_bind [OF secret_prompt [OF c]], rule gives_seq, rule set_asked [OF assms], simp add: asked_keys, assumption,
        rule gives_bind [OF secret_get], simp, rule gives_bind [OF secret_prompt], simp add: plain_question_def,
        rule gives_seq, rule set_asked [OF assms], simp add: asked_keys, assumption, rule set_asked [OF assms])
      (simp_all add: asked_keys cors_origins_def)
qed

lemma required_keeps:
  assumes "key \<in> set secret_keys"
  shows "gives (secret_kept key v) (\<lambda>_. True) step_required_keys"
  unfolding step_required_keys_def Let_def
  by (rule gives_seq, rule ask_for_keeps [OF assms], simp_all add: asked_keys,
      rule gives_bind [OF secret_get], simp, rule gives_bind [OF secret_get], simp, rule gives_bind [OF secret_input])
    (intro gives_if gives_seq ask_for_keeps [OF assms] gives_done; simp add: asked_keys)

lemma confirmed_keeps:
  assumes "gives (secret_kept key v) (\<lambda>_. True) m"
  shows "gives (secret_kept key v) (\<lambda>_. True) (when_confirmed k m)"
  unfolding when_confirmed_def
  by (rule gives_bind [OF secret_get], simp, rule gives_bind [OF secret_confirm], rule gives_if [OF assms gives_done])

lemma email_keeps:
  assumes "key \<in> set secret_keys"
  shows "gives (secret_kept key v) (\<lambda>_. True) configure_email"
  unfolding configure_email_def
  by (intro gives_seq ask_for_keeps [OF assms] ask_new_keeps [OF assms] gives_bind [OF secret_get] set_asked [OF assms])
    (simp_all add: asked_keys plain_question_def)

lemma optional_keeps:
  assumes "key \<in> set secret_keys"
  shows "gives (secret_kept key v) (\<lambda>_. True) step_optional_integrations"
  unfolding step_optional_integrations_def configure_notion_def configure_whatsapp_def
  by (intro gives_seq confirmed_keeps email_keeps [OF assms] ask_for_keeps [OF assms] ask_new_keeps [OF assms])
    (simp_all add: asked_keys plain_question_def)

definition safe_setup :: "setup_env \<Rightarrow> bool" where
  "safe_setup env \<longleftrightarrow> ornaments_ok (su_ornaments env) \<and> (\<forall>len i. no_cr (su_token env len i)) \<and> no_cr (su_log_dir env)"

lemma ensure_keeps:
  assumes "key \<in> set secret_keys" and "v \<noteq> []" and "k \<in> set secret_keys" and "\<And>len i. no_cr (token len i)"
  shows "gives (secret_kept key v) (\<lambda>_. True) (ensure_secret token k len)"
  unfolding ensure_secret_def
proof (rule gives_bind [OF secret_get], simp, rule gives_if)
  fix x assume x: "no_cr x \<and> (k = key \<longrightarrow> x = v)" and "x = []"
  with assms(2) have "k \<noteq> key" by auto
  moreover have "gives (secret_kept key v) no_cr (io_token token len)"
    using assms(4) by (auto simp: gives_def io_token_def)
  moreover have "key_ok k" using assms(3) by (auto intro!: step_keys_ok simp: secret_keys_def step_keys_def env_groups_def)
  ultimately show "gives (secret_kept key v) (\<lambda>_. True) (io_bind (io_token token len) (config_set k))"
    by (intro gives_bind [of _ no_cr] secret_set)
qed (rule gives_done)

lemma security_keeps:
  assumes "key \<in> set secret_keys" and "v \<noteq> []" and "\<And>len i. no_cr (token len i)"
  shows "gives (secret_kept key v) (\<lambda>_. True) (step_security token)"
  unfolding step_security_def
  by (intro gives_seq ensure_keeps [OF assms(1,2) _ assms(3)] gives_bind [OF secret_get] gives_bind [OF secret_confirm]
      set_asked [OF assms(1)]) (simp_all add: secret_keys_def asked_keys)

lemma logging_keeps:
  assumes "key \<in> set secret_keys" and "no_cr log_dir"
  shows "gives (secret_kept key v) (\<lambda>_. True) (step_logging log_dir)"
  unfolding step_logging_def
  by (rule gives_bind [OF secret_get], simp, rule gives_bind [OF secret_prompt], simp,
      intro gives_seq ask_for_keeps [OF assms(1)] set_asked [OF assms(1)])
    (simp_all add: asked_keys assms(2) no_cr_upper)

lemma timezone_keeps: "key \<in> set secret_keys \<Longrightarrow> gives (secret_kept key v) (\<lambda>_. True) step_timezone"
  unfolding step_timezone_def by (rule ask_for_keeps) (simp_all add: asked_keys)

lemma platform_keeps: "gives P (\<lambda>_. True) (step_platform h)"
  by (simp add: step_platform_def gives_ret gives_raise del: io_ret_run io_raise_run)

lemma target_keeps: "gives (secret_kept key v) (\<lambda>_. True) (step_deployment_target plat)"
  unfolding step_deployment_target_def Let_def
  by (rule gives_bind [OF secret_input]) (simp add: gives_ret del: io_ret_run)

lemma finish_keeps:
  assumes "safe_setup env" and "plain_value v"
  shows "gives (secret_kept key v) (\<lambda>_. True) (finish_setup env)"
  unfolding finish_setup_def using assms
  by (intro gives_seq secret_write gives_bind [OF secret_confirm] gives_done) (simp_all add: safe_setup_def)

lemmas step_keeps = domain_keeps required_keeps optional_keeps security_keeps logging_keeps timezone_keeps platform_keeps
  target_keeps finish_keeps

lemma wizards_keep:
  assumes "key \<in> set secret_keys" and "v \<noteq> []" and "plain_value v" and "safe_setup env"
  shows "gives (secret_kept key v) (\<lambda>_. True) (wizard_quick env)"
    and "gives (secret_kept key v) (\<lambda>_. True) (wizard_full env)"
    and "gives (secret_kept key v) (\<lambda>_. True) (reconfigure_step env choice)"
    and "gives (secret_kept key v) (\<lambda>_. True) (reconfigure_loop env k)"
proof -
  have safe: "no_cr (su_log_dir env)" "\<And>len i. no_cr (su_token env len i)" using assms(4) by (simp_all add: safe_setup_def)
  show "gives (secret_kept key v) (\<lambda>_. True) (wizard_quick env)"
    unfolding wizard_quick_def
    by (intro gives_seq step_keeps assms safe)
  show "gives (secret_kept key v) (\<lambda>_. True) (wizard_full env)"
    unfolding wizard_full_def
    by (rule gives_bind [OF platform_keeps], intro gives_seq step_keeps assms safe)
  have step: "gives (secret_kept key v) (\<lambda>_. True) (reconfigure_step env c)" for c
    unfolding reconfigure_step_def by (intro gives_if step_keeps assms safe)
  then show "gives (secret_kept key v) (\<lambda>_. True) (reconfigure_step env choice)" .
  show "gives (secret_kept key v) (\<lambda>_. True) (reconfigure_loop env k)"
  proof (induction k)
    case 0
    show ?case unfolding reconfigure_loop.simps by (rule gives_raise)
  next
    case (Suc k)
    show ?case
      unfolding reconfigure_loop.simps
      by (rule gives_bind [OF secret_menu], intro gives_if gives_done gives_seq step secret_write Suc)
        (use assms in \<open>simp_all add: safe_setup_def\<close>)
  qed
qed

lemma main_keeps:
  assumes "key \<in> set secret_keys" and "v \<noteq> []" and "plain_value v" and "safe_setup env"
  shows "gives (secret_kept key v) (\<lambda>_. True) (main_loop env k)"
proof (induction k)
  case 0
  show ?case unfolding main_loop.simps by (rule gives_raise)
next
  case (Suc k)
  have enter: "gives (secret_kept key v) (\<lambda>_. True) (io_bind input_line (\<lambda>_. io_ret ()))"
    by (rule gives_bind [OF secret_input]) (rule gives_done)
  have again: "gives (secret_kept key v) (\<lambda>_. True) (wizard_reconfigure env)"
    unfolding wizard_reconfigure_def by (rule gives_rounds) (rule wizards_keep(4) [OF assms])
  show ?case
    unfolding main_loop.simps
    by (rule gives_bind [OF secret_menu])
      (intro gives_if gives_done gives_seq wizards_keep(1,2) [OF assms] enter again Suc)
qed

section \<open>Values that stay set\<close>

text \<open>A property of one value survives the steps that do not set it.\<close>

definition value_is :: "string \<Rightarrow> (string \<Rightarrow> bool) \<Rightarrow> console \<Rightarrow> bool" where
  "value_is key p s \<longleftrightarrow> (\<exists>v. map_of (cn_values s) key = Some v \<and> p v)"

lemma value_get: "gives (value_is key p) (\<lambda>_. True) (config_get k d)"
  by (auto simp: gives_def config_get_def)

lemma value_set: "k \<noteq> key \<Longrightarrow> gives (value_is key p) (\<lambda>_. True) (config_set k x)"
  by (auto simp: gives_def config_set_def value_is_def split: if_splits)

lemma value_prompt: "gives (value_is key p) (\<lambda>_. True) (prompt q)"
  by (auto simp: gives_def prompt_def value_is_def split: prod.splits option.splits sum.splits)

lemma value_input: "gives (value_is key p) (\<lambda>_. True) input_line"
  by (auto simp: gives_def input_line_def value_is_def split: list.splits sum.splits)

lemma value_ask_for: "k \<noteq> key \<Longrightarrow> gives (value_is key p) (\<lambda>_. True) (ask_for k d f)"
  unfolding ask_for_def by (intro gives_bind [OF value_get] gives_bind [OF value_prompt] value_set)

lemma prompt_accepted: "prompt q (n, s) = (Inr v, n', s') \<Longrightarrow> accepted q v \<and> s' = s\<lparr>cn_answers := cn_answers s'\<rparr> \<and> n' = n"
  by (auto simp: prompt_def dest!: ask_lines_some split: prod.splits option.splits)

lemma ask_for_sets:
  assumes "ask_for k d f (n, s) = (Inr (), n1, s1)"
    and "\<And>c v. accepted (f (plain_question c)) v \<Longrightarrow> v \<noteq> [] \<and> p v"
  shows "value_is k p s1"
proof -
  obtain v n0 s0 where asked: "prompt (f (plain_question (dget (cn_values s) k d))) (n, s) = (Inr v, n0, s0)"
      and "config_set k v (n0, s0) = (Inr (), n1, s1)"
    using assms(1) by (auto simp: ask_for_def io_bind_def config_get_def split: prod.splits sum.splits)
  moreover have "v \<noteq> [] \<and> p v" using prompt_accepted [OF asked] assms(2) by blast
  ultimately show ?thesis by (auto simp: config_set_def value_is_def)
qed

lemma required_keeps_value:
  assumes "''LITELLM_PROXY_URL'' \<noteq> key" "''LITELLM_PROXY_TOKEN'' \<noteq> key" "''LITELLM_PROXY_MODEL'' \<noteq> key" "''GOOGLE_AI_API_KEY'' \<noteq> key"
  shows "gives (value_is key p) (\<lambda>_. True)
     (io_bind (config_get ''LITELLM_PROXY_URL'' []) (\<lambda>proxy.
      io_bind (config_get ''GOOGLE_AI_API_KEY'' []) (\<lambda>gemini.
      io_bind input_line (\<lambda>raw.
       let default_ai = (if proxy \<noteq> [] then ''1'' else if gemini \<noteq> [] then ''2'' else ''1'');
           choice = (if uni_strip raw = [] then default_ai else uni_strip raw)
       in if choice = ''1'' then
            io_bind (ask_for ''LITELLM_PROXY_URL'' [] (\<lambda>q. q\<lparr>qu_validator := validate_url\<rparr>)) (\<lambda>_.
            io_bind (ask_for ''LITELLM_PROXY_TOKEN'' [] token_question) (\<lambda>_.
              ask_for ''LITELLM_PROXY_MODEL'' ''gemini/gemini-2.5-flash'' (\<lambda>q. q)))
          else if choice = ''2'' then
            ask_for ''GOOGLE_AI_API_KEY'' [] (\<lambda>q. (token_question q)\<lparr>qu_required := True\<rparr>)
          else io_ret ()))))"
  unfolding Let_def
  by (intro gives_bind [OF value_get] gives_bind [OF value_input] gives_if gives_seq value_ask_for gives_done assms)

section \<open>The loops end\<close>

definition shrinks :: "'a wizard \<Rightarrow> bool" where
  "shrinks m \<longleftrightarrow> (\<forall>n s r n' s'. m (n, s) = (r, n', s') \<longrightarrow> length (cn_answers s') \<le> length (cn_answers s))"

lemma shrinks_bind:
  assumes "shrinks m" and "\<And>x. shrinks (f x)"
  shows "shrinks (io_bind m f)"
  unfolding shrinks_def
proof (intro allI impI)
  fix n s r n' s'
  assume run: "io_bind m f (n, s) = (r, n', s')"
  obtain r1 n1 s1 where m: "m (n, s) = (r1, n1, s1)" by (cases "m (n, s)")
  with assms(1) have le: "length (cn_answers s1) \<le> length (cn_answers s)" unfolding shrinks_def by blast
  show "length (cn_answers s') \<le> length (cn_answers s)"
  proof (cases r1)
    case (Inl e)
    with run m le show ?thesis by (auto simp: io_bind_run)
  next
    case (Inr x)
    with run m have "f x (n1, s1) = (r, n', s')" by (simp add: io_bind_run)
    with assms(2) have "length (cn_answers s') \<le> length (cn_answers s1)" unfolding shrinks_def by blast
    with le show ?thesis by simp
  qed
qed

lemma shrinks_if: "shrinks a \<Longrightarrow> shrinks b \<Longrightarrow> shrinks (if c then a else b)"
  by simp

lemma shrinks_basic:
  "shrinks (io_ret x)" "shrinks (io_raise e)" "shrinks (config_get k d)" "shrinks (config_set k v)"
  "shrinks (config_write orn)" "shrinks input_line" "shrinks (io_token token len)"
  by (auto simp: shrinks_def config_get_def config_set_def config_write_def input_line_def io_token_def split: list.splits)

lemma shrinks_prompt: "shrinks (prompt q)"
  unfolding shrinks_def
proof (intro allI impI)
  fix n s r n' s'
  assume "prompt q (n, s) = (r, n', s')"
  then have "cn_answers s' = snd (ask_lines q (cn_answers s))" by (auto simp: prompt_def split: prod.splits option.splits)
  with ask_lines_shorter show "length (cn_answers s') \<le> length (cn_answers s)" by simp
qed

lemma menu_takes: "menu ks (n, s) = (Inr c, n', s') \<Longrightarrow> length (cn_answers s') < length (cn_answers s)"
  unfolding menu_def prompt_def
  by (auto split: prod.splits option.splits dest: ask_lines_takes [of _ _ c] simp: prod_eq_iff)

lemma shrinks_confirm: "shrinks (confirm d)"
  unfolding confirm_def Let_def by (intro shrinks_bind shrinks_basic)

lemma shrinks_rounds: "(\<And>k. shrinks (f k)) \<Longrightarrow> shrinks (rounds_left f)"
  unfolding shrinks_def rounds_left_def by auto

lemmas shrinks_rules = shrinks_bind shrinks_if shrinks_basic shrinks_prompt shrinks_confirm

lemma steps_shrink:
  "shrinks step_domain" "shrinks step_required_keys" "shrinks step_optional_integrations" "shrinks (step_security token)"
  "shrinks (step_logging d)" "shrinks step_timezone" "shrinks (step_platform h)" "shrinks (step_deployment_target p)"
  "shrinks (finish_setup env)"
  unfolding step_domain_def step_required_keys_def step_optional_integrations_def configure_notion_def configure_email_def
    configure_whatsapp_def when_confirmed_def step_security_def ensure_secret_def step_logging_def step_timezone_def
    step_platform_def step_deployment_target_def finish_setup_def ask_for_def ask_new_def Let_def
  by (intro shrinks_rules)+

lemma menu_shrinks: "shrinks (menu ks)"
  unfolding menu_def by (rule shrinks_prompt)

lemma wizards_shrink:
  "shrinks (wizard_quick env)" "shrinks (wizard_full env)" "shrinks (reconfigure_step env c)" "shrinks (wizard_reconfigure env)"
proof -
  show "shrinks (wizard_quick env)" "shrinks (wizard_full env)"
    unfolding wizard_quick_def wizard_full_def by (intro shrinks_bind steps_shrink)+
  have step: "shrinks (reconfigure_step env c)" for c
    unfolding reconfigure_step_def by (intro shrinks_if steps_shrink)
  then show "shrinks (reconfigure_step env c)" .
  have "shrinks (reconfigure_loop env k)" for k
    by (induction k) (auto intro!: shrinks_rules menu_shrinks step simp del: io_ret_run io_raise_run)
  then show "shrinks (wizard_reconfigure env)"
    unfolding wizard_reconfigure_def by (rule shrinks_rounds)
qed

text \<open>A loop that starts with a menu does not see how many more rounds it could go.\<close>

lemma loop_enough:
  assumes loop: "\<And>k. loop (Suc k) = io_bind (menu ks) (\<lambda>c. if c = stop then io_ret () else io_bind (body c) (\<lambda>_. loop k))"
    and body: "\<And>c. shrinks (body c)"
  shows "length (cn_answers s) < f \<Longrightarrow> length (cn_answers s) < g \<Longrightarrow> loop f (n, s) = loop g (n, s)"
proof (induction f arbitrary: g n s)
  case 0
  then show ?case by simp
next
  case (Suc f)
  then obtain g' where g: "g = Suc g'" by (cases g) auto
  obtain r1 n1 s1 where m: "menu ks (n, s) = (r1, n1, s1)" by (cases "menu ks (n, s)")
  show ?case
  proof (cases r1)
    case (Inl e)
    with m show ?thesis by (simp add: g loop io_bind_run)
  next
    case (Inr c)
    then have less: "length (cn_answers s1) < length (cn_answers s)" using menu_takes m by blast
    obtain r2 n2 s2 where b: "body c (n1, s1) = (r2, n2, s2)" by (cases "body c (n1, s1)")
    with body have "length (cn_answers s2) \<le> length (cn_answers s1)" unfolding shrinks_def by blast
    with less Suc.prems g have "loop f (n2, s2) = loop g' (n2, s2)" by (intro Suc.IH) auto
    with m b Inr show ?thesis by (cases r2) (simp_all add: g loop io_bind_run)
  qed
qed

section \<open>Samples\<close>

definition sample_ornaments :: ornaments where
  "sample_ornaments = \<lparr>or_head = ['' VelaFlow''], or_group = (\<lambda>g. ''-'')\<rparr>"

definition sample_wizard :: setup_env where
  "sample_wizard =
     \<lparr>su_host = \<lparr>ho_system = ''Linux'', ho_pve_dir = False, ho_init_environ = None, ho_detect_virt = None,
                 ho_metadata = None, ho_python_ok = True, ho_nvidia_smi = None\<rparr>,
      su_token = (\<lambda>len i. replicate len CHR ''A''), su_ornaments = sample_ornaments, su_log_dir = ''logs''\<rparr>"

lemma sample_ornaments_ok: "ornaments_ok sample_ornaments"
  by (simp add: ornaments_ok_def sample_ornaments_def clean_line_def)

lemma sample_wizard_safe: "safe_setup sample_wizard"
  using sample_ornaments_ok by (simp add: safe_setup_def sample_wizard_def no_cr_def)

definition sample_env_file :: string where
  "sample_env_file = ''VELAFLOW_MASTER_KEY=\"k1\"'' @ [CHR 0x0A]"

definition sample_console :: console where
  "sample_console = \<lparr>cn_answers = [''3'', ''4'', ''y'', ''0'', ''0''], cn_values = [], cn_file = Some sample_env_file\<rparr>"

lemma sample_master_key: "map_of (load_existing (cn_file sample_console)) ''VELAFLOW_MASTER_KEY'' = Some ''k1''"
  unfolding sample_console_def sample_env_file_def by code_simp

lemma sample_required_run:
  "\<exists>n' s'. step_required_keys (0, \<lparr>cn_answers = [''short'', ''0123456789'', ''3''], cn_values = [], cn_file = None\<rparr>) = (Inr (), n', s')"
  by (simp add: step_required_keys_def ask_for_def io_bind_run config_get_def config_set_def prompt_def accepted_def
      answer_value_def token_question_def plain_question_def validate_token_def token_forbidden_def input_line_def
      uni_strip_def re_space_def is_space_def dget_def)

section \<open>Properties\<close>

text \<open>The configuration file reads back: what the installer loads from a file it wrote has the keys it wrote,
and for each the value with its escapes still in place; so a value comes back as it was exactly when it has no
backslash, double quote or newline. The keys are those a file can give, the values have no carriage return.\<close>

theorem env_file_reads_back:
  assumes "values_ok vs" and "ornaments_ok orn"
  shows "map_of (load_existing (Some (env_text orn vs))) k = map_option escape_env_value (map_of vs k)
    \<and> (escape_env_value v = v \<longleftrightarrow> plain_value v)"
  using env_text_lookup [OF assms] escape_plain by blast

theorem env_file_reads_back_witness:
  "map_of (load_existing (Some (env_text sample_ornaments [(''TZ'', ''Europe/Lisbon''), (''MY_KEY'', ''a b'')]))) ''MY_KEY''
     = Some ''a b''"
proof -
  have "values_ok [(''TZ'', ''Europe/Lisbon''), (''MY_KEY'', ''a b'')]"
    by (simp add: values_ok_def key_ok_def clean_line_def uni_strip_def re_space_def is_space_def)
  from env_file_reads_back [OF this sample_ornaments_ok, of "''MY_KEY''" "''a b''"] show ?thesis by (simp add: plain_value_def)
qed



text \<open>The menus of the installer end: the rounds they are given, one more than there are lines to read, are enough,
so that any more make no difference to what a run does.\<close>

theorem installer_loops_end:
  "main_loop env (Suc (length (cn_answers s)) + k) (n, s) = rounds_left (main_loop env) (n, s)
   \<and> reconfigure_loop env (Suc (length (cn_answers s)) + k) (n, s) = rounds_left (reconfigure_loop env) (n, s)"
proof
  have enter: "shrinks (io_bind input_line (\<lambda>_. io_ret ()))" by (intro shrinks_bind shrinks_basic)
  let ?body = "\<lambda>choice.
      if choice = ''1'' then io_bind (wizard_quick env) (\<lambda>_. io_bind input_line (\<lambda>_. io_ret ()))
      else if choice = ''2'' then io_bind (wizard_full env) (\<lambda>_. io_bind input_line (\<lambda>_. io_ret ()))
      else if choice = ''3'' then wizard_reconfigure env else io_bind input_line (\<lambda>_. io_ret ())"
  have body: "shrinks (?body c)" for c by (intro shrinks_if shrinks_bind wizards_shrink enter shrinks_basic)
  have main: "main_loop env (Suc k) = io_bind (menu [''1'', ''2'', ''3'', ''4'', ''5'', ''0'']) (\<lambda>choice.
       if choice = ''0'' then io_ret () else io_bind (?body choice) (\<lambda>_. main_loop env k))" for k
    by (rule main_loop.simps(2))
  show "main_loop env (Suc (length (cn_answers s)) + k) (n, s) = rounds_left (main_loop env) (n, s)"
    unfolding rounds_left_def prod.case
    by (rule loop_enough [where loop = "main_loop env" and body = ?body, OF main body]) simp_all
  let ?step = "\<lambda>c. io_bind (reconfigure_step env c) (\<lambda>_. config_write (su_ornaments env))"
  have step: "shrinks (?step c)" for c by (intro shrinks_bind wizards_shrink shrinks_basic)
  have again: "reconfigure_loop env (Suc k) = io_bind (menu [''1'', ''2'', ''3'', ''4'', ''5'', ''6'', ''0'']) (\<lambda>choice.
       if choice = ''0'' then io_ret () else io_bind (?step choice) (\<lambda>_. reconfigure_loop env k))" for k
    by (simp only: reconfigure_loop.simps io_bind_assoc)
  show "reconfigure_loop env (Suc (length (cn_answers s)) + k) (n, s) = rounds_left (reconfigure_loop env) (n, s)"
    unfolding rounds_left_def prod.case
    by (rule loop_enough [where loop = "reconfigure_loop env" and body = ?step, OF again step]) simp_all
qed

text \<open>When the step of the required keys returns, the configuration has a Todoist token, and it is one its validator
accepts: eight to 512 characters without shell metacharacters, typed, or kept from before.\<close>

theorem required_token_is_checked:
  assumes "step_required_keys (n, s) = (Inr (), n', s')"
  shows "value_is ''TODOIST_API_TOKEN'' (\<lambda>v. v \<noteq> [] \<and> validate_token v = None) s'"
proof -
  let ?f = "\<lambda>q. (token_question q)\<lparr>qu_required := True\<rparr>" and ?p = "\<lambda>v. v \<noteq> [] \<and> validate_token v = None"
  obtain n1 s1 where first: "ask_for ''TODOIST_API_TOKEN'' [] ?f (n, s) = (Inr (), n1, s1)"
    using assms unfolding step_required_keys_def io_bind_def [of "ask_for ''TODOIST_API_TOKEN'' [] ?f"]
    by (auto split: prod.splits sum.splits)
  have "value_is ''TODOIST_API_TOKEN'' ?p s1"
    by (rule ask_for_sets [OF first]) (auto simp: accepted_def token_question_def)
  moreover note required_keeps_value [of "''TODOIST_API_TOKEN''" ?p]
  ultimately show ?thesis
    using assms first unfolding step_required_keys_def gives_def io_bind_run [of "ask_for ''TODOIST_API_TOKEN'' [] ?f"]
    by simp
qed

theorem required_token_is_checked_witness:
  "\<exists>n' s'. step_required_keys (0, \<lparr>cn_answers = [''short'', ''0123456789'', ''3''], cn_values = [], cn_file = None\<rparr>) = (Inr (), n', s')
     \<and> value_is ''TODOIST_API_TOKEN'' (\<lambda>v. v \<noteq> [] \<and> validate_token v = None) s'"
  using sample_required_run required_token_is_checked by blast

text \<open>The health check fails exactly when a critical check does: its exit code is zero if and only if every critical
test gives true, without an exception; and every check is counted once.\<close>

theorem health_exit_code:
  "(fst (run_health_check test) = 0 \<longleftrightarrow> list_all (\<lambda>(label, critical). critical \<longrightarrow> test label = Some True) health_checks)
   \<and> (case snd (run_health_check test) of k \<Rightarrow> hk_passed k + hk_failed k + hk_warnings k = length health_checks)"
proof -
  have failed: "hk_failed (fold count_check cs k) = hk_failed k + length (filter (\<lambda>c. fst c \<and> snd c \<noteq> Some True) cs)"
    and counted: "hk_passed (fold count_check cs k) + hk_failed (fold count_check cs k) + hk_warnings (fold count_check cs k)
        = hk_passed k + hk_failed k + hk_warnings k + length cs" for cs k
    by (induction cs arbitrary: k) (simp_all add: count_check_def)
  have bad: "filter (\<lambda>c. fst c \<and> snd c \<noteq> Some True) (map (\<lambda>(label, critical). (critical, test label)) cs) = []
      \<longleftrightarrow> list_all (\<lambda>(label, critical). critical \<longrightarrow> test label = Some True) cs" for cs
    by (induction cs) auto
  let ?cs = "map (\<lambda>(label, critical). (critical, test label)) health_checks"
    and ?k = "\<lparr>hk_passed = 0, hk_failed = 0, hk_warnings = 0\<rparr>"
  have "hk_failed (fold count_check ?cs ?k) = length (filter (\<lambda>c. fst c \<and> snd c \<noteq> Some True) ?cs)"
    unfolding failed by simp
  moreover have "fst (run_health_check test) = 0 \<longleftrightarrow> hk_failed (fold count_check ?cs ?k) = 0"
    by (simp add: run_health_check_def Let_def)
  ultimately have "fst (run_health_check test) = 0 \<longleftrightarrow> filter (\<lambda>c. fst c \<and> snd c \<noteq> Some True) ?cs = []"
    by (simp only: length_0_conv)
  moreover have "(case snd (run_health_check test) of k \<Rightarrow> hk_passed k + hk_failed k + hk_warnings k = length health_checks)"
    using counted [of ?cs ?k] by (simp only: run_health_check_def Let_def snd_conv length_map health_count.simps add_0)
  ultimately show ?thesis unfolding bad by blast
qed

end
