(* ===== verification/Backup.thy ===== *)
theory Backup
  imports StoreIO PyParse
begin

text \<open>
  \<open>scripts/drive_backup.py\<close>: encrypted backups on Google Drive, and their restoration. Parameters are
  AES-GCM and SHA-256 (as in \<open>Encryption\<close>), the Drive service with its own state, the bytes of a
  tar archive of given members, the files of the host and the texts of the time. The waits between attempts
  are logged. The effects of restoring are what the file system is asked for, in order; a host that refuses one
  stops the run there. \<open>download\<close> is called by nothing and is left out. Paths are resolved as in \<open>SafePath\<close>, so a target without symbolic links is assumed; restoring
  makes none.
\<close>

section \<open>The key and the envelope\<close>

definition MAGIC :: bytes where "MAGIC = ''VFBKUP01''"
definition NONCE_SIZE :: nat where "NONCE_SIZE = 12"
definition DEFAULT_RETENTION :: int where "DEFAULT_RETENTION = 30"

definition hex_value :: "char \<Rightarrow> nat" where
  "hex_value c =
     (let n = (of_char c :: nat) in if n < 58 then n - 48 else if n < 71 then n - 55 else n - 87)"

definition hex_char :: "char \<Rightarrow> bool" where
  "hex_char c \<longleftrightarrow> c \<in> set ''0123456789abcdefABCDEF''"

fun from_hex :: "string \<Rightarrow> bytes" where
  "from_hex (a # b # s) = byte (16 * hex_value a + hex_value b) # from_hex s"
| "from_hex _ = []"

definition load_backup_key :: "string \<Rightarrow> bytes res" where
  "load_backup_key env_value =
     (let raw = py_strip env_value in
      if raw = [] then Inl (RuntimeError ''VELAFLOW_BACKUP_KEY is required.'')
      else rbind (if length raw = 64 \<and> list_all hex_char raw then Inr (from_hex raw)
                  else case b64_decode (pad_b64 raw) of
                         Inl e \<Rightarrow> Inl (RuntimeError ''VELAFLOW_BACKUP_KEY is not valid base64url or hex'')
                       | Inr k \<Rightarrow> Inr k) (\<lambda>key.
           if length key \<noteq> 32 then Inl (RuntimeError ''VELAFLOW_BACKUP_KEY must decode to 32 bytes'')
           else Inr key))"

definition hex_digit :: "nat \<Rightarrow> char" where
  "hex_digit d = ''0123456789abcdef'' ! d"

definition to_hex :: "bytes \<Rightarrow> string" where
  "to_hex bs = concat (map (\<lambda>c. let n = (of_char c :: nat) in [hex_digit (n div 16), hex_digit (n mod 16)]) bs)"

definition key_fingerprint :: "crypto \<Rightarrow> bytes \<Rightarrow> string" where
  "key_fingerprint cr key = take 16 (to_hex (cr_sha256 cr key))"

definition encrypt_stream :: "crypto \<Rightarrow> bytes \<Rightarrow> bytes \<Rightarrow> bytes \<Rightarrow> bytes" where
  "encrypt_stream cr nonce plaintext key = MAGIC @ nonce @ cr_seal cr key nonce (Some MAGIC) plaintext"

definition invalid_tag :: py_error where
  "invalid_tag = OtherError ''InvalidTag''"

definition decrypt_stream :: "crypto \<Rightarrow> bytes \<Rightarrow> bytes \<Rightarrow> bytes res" where
  "decrypt_stream cr envelope key =
     (if length envelope < length MAGIC + NONCE_SIZE + 16
      then Inl (RuntimeError ''Envelope too short to be a valid VelaFlow backup'')
      else if take (length MAGIC) envelope \<noteq> MAGIC
      then Inl (RuntimeError ''Backup magic bytes mismatch'')
      else let nonce = take NONCE_SIZE (drop (length MAGIC) envelope);
               ciphertext = drop (length MAGIC + NONCE_SIZE) envelope
           in case cr_open cr key nonce (Some MAGIC) ciphertext of None \<Rightarrow> Inl invalid_tag | Some p \<Rightarrow> Inr p)"

section \<open>The Drive client\<close>

text \<open>One call: a result, an error status, or any other exception.\<close>

datatype 'a attempt = Got 'a | HttpError int | TransportError

record 'd drive_service =
  dv_create :: "string \<Rightarrow> string \<Rightarrow> bytes \<Rightarrow> 'd \<Rightarrow> string attempt \<times> 'd"
  dv_list :: "string \<Rightarrow> 'd \<Rightarrow> (string \<times> string) list attempt \<times> 'd"
  dv_trash :: "string \<Rightarrow> 'd \<Rightarrow> unit attempt \<times> 'd"

text \<open>The state: the waits so far, in seconds, and the service.\<close>

type_synonym ('d, 'a) drive_io = "(real list \<times> 'd, 'a) io"

definition MAX_RETRIES :: nat where "MAX_RETRIES = 5"
definition BACKOFF_BASE :: real where "BACKOFF_BASE = 3 / 2"
definition BACKOFF_MAX :: real where "BACKOFF_MAX = 60"

definition drive_call :: "('d \<Rightarrow> 'a attempt \<times> 'd) \<Rightarrow> ('d, 'a attempt) drive_io" where
  "drive_call fn = (\<lambda>(n, waits, d). case fn d of (r, d') \<Rightarrow> (Inr r, n, waits, d'))"

definition drive_sleep :: "real \<Rightarrow> ('d, unit) drive_io" where
  "drive_sleep t = (\<lambda>(n, waits, d). (Inr (), n, waits @ [t], d))"

text \<open>\<open>secrets.randbelow(1000)\<close>; the draws are numbered.\<close>

definition rand_below :: "(nat \<Rightarrow> nat) \<Rightarrow> ('d, nat) drive_io" where
  "rand_below rnd = (\<lambda>(n, s). (Inr (rnd n mod 1000), Suc n, s))"

definition retryable :: "int \<Rightarrow> bool" where
  "retryable status \<longleftrightarrow> status \<in> {403, 429} \<or> (500 \<le> status \<and> status < 600)"

definition http_error :: py_error where
  "http_error = OtherError ''HttpError''"

fun retry_from :: "(nat \<Rightarrow> nat) \<Rightarrow> string \<Rightarrow> ('d \<Rightarrow> 'a attempt \<times> 'd) \<Rightarrow> nat \<Rightarrow> nat \<Rightarrow> ('d, 'a) drive_io" where
  "retry_from rnd op_name fn attempt 0 = io_raise (RuntimeError (''Drive '' @ op_name @ '' failed after retries''))"
| "retry_from rnd op_name fn attempt (Suc left) =
     io_bind (drive_call fn) (\<lambda>r.
       case r of
         Got x \<Rightarrow> io_ret x
       | HttpError status \<Rightarrow>
           if retryable status
           then io_bind (rand_below rnd) (\<lambda>jitter.
                io_bind (drive_sleep (min (BACKOFF_BASE ^ attempt + real jitter / 1000) BACKOFF_MAX)) (\<lambda>_.
                  retry_from rnd op_name fn (attempt + 1) left))
           else io_raise http_error
       | TransportError \<Rightarrow>
           io_bind (drive_sleep (min (BACKOFF_BASE ^ attempt) BACKOFF_MAX)) (\<lambda>_.
             retry_from rnd op_name fn (attempt + 1) left))"

definition with_retry :: "(nat \<Rightarrow> nat) \<Rightarrow> string \<Rightarrow> ('d \<Rightarrow> 'a attempt \<times> 'd) \<Rightarrow> ('d, 'a) drive_io" where
  "with_retry rnd op_name fn = retry_from rnd op_name fn 0 MAX_RETRIES"

definition escape_quotes :: "string \<Rightarrow> string" where
  "escape_quotes s = concat (map (\<lambda>c. if c = CHR 0x27 then [CHR 0x5C, CHR 0x27] else [c]) s)"

definition backup_query :: "string \<Rightarrow> string \<Rightarrow> string" where
  "backup_query folder_id name_prefix =
     [CHR 0x27] @ folder_id @ [CHR 0x27] @ '' in parents and name contains '' @ [CHR 0x27] @ escape_quotes name_prefix
     @ [CHR 0x27] @ '' and trashed = false''"

definition drive_upload ::
    "(nat \<Rightarrow> nat) \<Rightarrow> 'd drive_service \<Rightarrow> string \<Rightarrow> string \<Rightarrow> bytes \<Rightarrow> ('d, string) drive_io" where
  "drive_upload rnd svc folder_id name data = with_retry rnd ''upload'' (dv_create svc folder_id name data)"

definition list_backups ::
    "(nat \<Rightarrow> nat) \<Rightarrow> 'd drive_service \<Rightarrow> string \<Rightarrow> string \<Rightarrow> ('d, (string \<times> string) list) drive_io" where
  "list_backups rnd svc folder_id name_prefix = with_retry rnd ''list'' (dv_list svc (backup_query folder_id name_prefix))"

definition drive_trash :: "(nat \<Rightarrow> nat) \<Rightarrow> 'd drive_service \<Rightarrow> string \<Rightarrow> ('d, unit) drive_io" where
  "drive_trash rnd svc file_id = with_retry rnd ''trash'' (dv_trash svc file_id)"

section \<open>Making a backup\<close>

text \<open>The members of an archive; special files are devices and pipes.\<close>

datatype member_kind = Directory | RegularFile bytes | SymbolicLink string | HardLink string | SpecialFile

record tar_member =
  tm_name :: string
  tm_kind :: member_kind

text \<open>The host: its environment, which paths are files, what is at a path and below it, with the names relative to it, the
bytes of an archive and of a JSON text, the random nonce, the time as ISO text and as in a name, the name of the host, and
what connecting to Drive gives.\<close>

record 'd backup_env =
  bk_vars :: "(string \<times> string) list"
  bk_is_file :: "string \<Rightarrow> bool"
  bk_tree :: "string \<Rightarrow> (string \<times> member_kind) list option"
  bk_tar :: "tar_member list \<Rightarrow> bytes"
  bk_json :: "json \<Rightarrow> bytes"
  bk_crypto :: crypto
  bk_nonce :: "nat \<Rightarrow> bytes"
  bk_rand :: "nat \<Rightarrow> nat"
  bk_iso :: string
  bk_stamp :: string
  bk_hostname :: string
  bk_connect :: "string \<Rightarrow> 'd drive_service res"

definition backup_sources :: "ppath \<Rightarrow> ppath \<Rightarrow> string list" where
  "backup_sources data_dir config_dir =
     [path_text data_dir, path_text config_dir,
      path_text (path_join (data_dir\<lparr>pp_parts := butlast (pp_parts data_dir)\<rparr>) (py_path ''tenants.db''))]"

definition backup_manifest :: "'d backup_env \<Rightarrow> string list \<Rightarrow> string \<Rightarrow> int \<Rightarrow> json" where
  "backup_manifest env sources fp retention =
     JObj [(''version'', JInt 1), (''created_at'', JStr (bk_iso env)), (''hostname'', JStr (bk_hostname env)),
           (''key_fingerprint'', JStr fp), (''sources'', JArr (map JStr sources)), (''retention'', JInt retention)]"

text \<open>A path that does not exist is skipped; everything below the others goes under the last component of the path.\<close>

definition path_name :: "string \<Rightarrow> string" where
  "path_name p = (let ws = pp_parts (py_path p) in if ws = [] then [] else last ws)"

definition source_members :: "'d backup_env \<Rightarrow> string \<Rightarrow> tar_member list" where
  "source_members env src =
     (case bk_tree env src of
        None \<Rightarrow> []
      | Some entries \<Rightarrow>
          map (\<lambda>(rel, kind). \<lparr>tm_name = if rel = [] then path_name src else path_name src @ ''/'' @ rel, tm_kind = kind\<rparr>) entries)"

definition build_tarball :: "'d backup_env \<Rightarrow> string list \<Rightarrow> json \<Rightarrow> tar_member list" where
  "build_tarball env sources manifest =
     \<lparr>tm_name = ''MANIFEST.json'', tm_kind = RegularFile (bk_json env manifest)\<rparr> # concat (map (source_members env) sources)"

text \<open>\<open>existing[retention:]\<close>.\<close>

definition slice_from :: "int \<Rightarrow> 'a list \<Rightarrow> 'a list" where
  "slice_from i xs = (if i \<ge> 0 then drop (nat i) xs else drop (length xs - nat (- i)) xs)"

definition backup_name :: "'d backup_env \<Rightarrow> string" where
  "backup_name env = dget (bk_vars env) ''VELAFLOW_BACKUP_NAME_PREFIX'' ''velaflow-backup-'' @ bk_stamp env @ ''.tar.gz.enc''"

definition retention_of :: "'d backup_env \<Rightarrow> int res" where
  "retention_of env =
     (case map_of (bk_vars env) ''VELAFLOW_BACKUP_RETENTION'' of
        None \<Rightarrow> Inr DEFAULT_RETENTION | Some s \<Rightarrow> int_of_text s)"

definition backup_members :: "'d backup_env \<Rightarrow> bytes \<Rightarrow> int \<Rightarrow> tar_member list" where
  "backup_members env key retention =
     (let sources = backup_sources (py_path (dget (bk_vars env) ''VELAFLOW_DATA_DIR'' ''/opt/velaflow/data''))
                      (py_path (dget (bk_vars env) ''VELAFLOW_CONFIG_DIR'' ''/opt/velaflow/config''))
      in build_tarball env sources (backup_manifest env sources (key_fingerprint (bk_crypto env) key) retention))"

definition run_backup :: "'d backup_env \<Rightarrow> ('d, int) drive_io" where
  "run_backup env =
     (let folder_id = py_strip (dget (bk_vars env) ''VELAFLOW_BACKUP_FOLDER_ID'' []);
          sa_json = py_strip (dget (bk_vars env) ''VELAFLOW_BACKUP_SA_JSON'' []) in
      io_bind (io_res (retention_of env)) (\<lambda>retention.
        if folder_id = [] then io_ret 2
        else if sa_json = [] \<or> \<not> bk_is_file env sa_json then io_ret 2
        else io_bind (io_res (load_backup_key (dget (bk_vars env) ''VELAFLOW_BACKUP_KEY'' []))) (\<lambda>key.
             io_bind (io_draw (bk_nonce env)) (\<lambda>nonce.
             let envelope = encrypt_stream (bk_crypto env) nonce (bk_tar env (backup_members env key retention)) key in
             io_bind (io_res (bk_connect env sa_json)) (\<lambda>svc.
             io_bind (drive_upload (bk_rand env) svc folder_id (backup_name env) envelope) (\<lambda>file_id.
             io_bind (list_backups (bk_rand env) svc folder_id
                        (dget (bk_vars env) ''VELAFLOW_BACKUP_NAME_PREFIX'' ''velaflow-backup-'')) (\<lambda>existing.
             io_bind (io_each (\<lambda>old. drive_trash (bk_rand env) svc (fst old)) (slice_from retention existing)) (\<lambda>_.
               io_ret 0))))))))"

section \<open>Restoring\<close>

definition member_path :: "ppath \<Rightarrow> string \<Rightarrow> ppath" where
  "member_path target name = path_join target (py_path name)"

definition inside :: "ppath \<Rightarrow> ppath \<Rightarrow> ppath \<Rightarrow> bool" where
  "inside cwd target p \<longleftrightarrow> \<not> isl (safe_resolve cwd (\<lambda>_. True) (Some (path_text p)) [target] False False)"

definition link_inside :: "ppath \<Rightarrow> ppath \<Rightarrow> tar_member \<Rightarrow> string \<Rightarrow> bool" where
  "link_inside cwd target m link =
     (let p = member_path target (tm_name m)
      in inside cwd target (path_join (p\<lparr>pp_parts := butlast (pp_parts p)\<rparr>) (py_path link)))"

definition member_ok :: "ppath \<Rightarrow> ppath \<Rightarrow> tar_member \<Rightarrow> bool" where
  "member_ok cwd target m \<longleftrightarrow>
     \<not> prefix ''/'' (tm_name m) \<and> ''..'' \<notin> set (pp_parts (py_path (tm_name m)))
     \<and> inside cwd target (member_path target (tm_name m))
     \<and> (case tm_kind m of SymbolicLink l \<Rightarrow> link_inside cwd target m l | HardLink l \<Rightarrow> link_inside cwd target m l | _ \<Rightarrow> True)"

datatype fs_effect = MakeDir ppath | WriteFile ppath bytes

text \<open>The extraction, with the effects so far: it stops with code 3 at a path outside the target.\<close>

fun extract_members :: "ppath \<Rightarrow> ppath \<Rightarrow> tar_member list \<Rightarrow> fs_effect list \<Rightarrow> int \<times> fs_effect list" where
  "extract_members cwd target [] done = (0, done)"
| "extract_members cwd target (m # ms) done =
     (let out = normalize_path cwd (member_path target (tm_name m)) in
      if \<not> assert_within out (normalize_path cwd target) then (3, done)
      else case tm_kind m of
             Directory \<Rightarrow> extract_members cwd target ms (done @ [MakeDir out])
           | RegularFile data \<Rightarrow>
               extract_members cwd target ms
                 (done @ [MakeDir (out\<lparr>pp_parts := butlast (pp_parts out)\<rparr>), WriteFile out data])
           | _ \<Rightarrow> extract_members cwd target ms done)"

record restore_env =
  rs_cwd :: ppath
  rs_bases :: "ppath list"
  rs_exists :: "ppath \<Rightarrow> bool"
  rs_read :: "ppath \<Rightarrow> bytes option"
  rs_untar :: "bytes \<Rightarrow> tar_member list option"
  rs_crypto :: crypto
  rs_key :: string

definition restore_members :: "restore_env \<Rightarrow> ppath \<Rightarrow> tar_member list \<Rightarrow> fs_effect list \<Rightarrow> int \<times> fs_effect list" where
  "restore_members env target members done =
     (if list_all (member_ok (rs_cwd env) target) members
      then extract_members (rs_cwd env) target members done else (3, done))"

definition run_restore :: "restore_env \<Rightarrow> string \<Rightarrow> string \<Rightarrow> int res \<times> fs_effect list" where
  "run_restore env envelope_path target_dir =
     (case safe_resolve (rs_cwd env) (rs_exists env) (Some envelope_path) (rs_bases env) True False of
        Inl e \<Rightarrow> (Inr 3, [])
      | Inr (safe_envelope, _) \<Rightarrow>
          (case safe_resolve (rs_cwd env) (\<lambda>_. True) (Some target_dir) (rs_bases env) False True of
             Inl e \<Rightarrow> (Inr 3, [])
           | Inr (target, parent) \<Rightarrow>
               let made = (case parent of None \<Rightarrow> [] | Some p \<Rightarrow> [MakeDir p]) in
               (case load_backup_key (rs_key env) of
                  Inl e \<Rightarrow> (Inl e, made)
                | Inr key \<Rightarrow>
                    (case rs_read env safe_envelope of
                       None \<Rightarrow> (Inl (OSError ''read''), made)
                     | Some envelope \<Rightarrow>
                         (case decrypt_stream (rs_crypto env) envelope key of
                            Inl e \<Rightarrow> (Inl e, made)
                          | Inr plaintext \<Rightarrow>
                              (case rs_untar env plaintext of
                                 None \<Rightarrow> (Inl (OtherError ''ReadError''), made @ [MakeDir target])
                               | Some members \<Rightarrow>
                                   (case restore_members env target members (made @ [MakeDir target]) of
                                      (code, effects) \<Rightarrow> (Inr code, effects))))))))"

end
