(* ===== verification/BackupLaws.thy ===== *)
theory BackupLaws
  imports Backup
begin

text \<open>
  What the backups guarantee: an envelope opens again, with its own key only; a call of Drive is
  tried at most five times, with bounded waits, and gives the first settled reply; a backup that returns leaves
  on Drive the newest backups, itself included; and restoring writes nothing outside the target, and
  nothing at all when a member of the archive is unsafe.
\<close>

section \<open>Retrying\<close>

definition settled :: "'a attempt \<Rightarrow> bool" where
  "settled r \<longleftrightarrow> (case r of Got x \<Rightarrow> True | HttpError status \<Rightarrow> \<not> retryable status | TransportError \<Rightarrow> False)"

text \<open>The number of calls before the first with a settled reply, among as many as are allowed, and that reply.\<close>

fun first_settled :: "('d \<Rightarrow> 'a attempt \<times> 'd) \<Rightarrow> 'd \<Rightarrow> nat \<Rightarrow> (nat \<times> 'a attempt) option" where
  "first_settled fn d 0 = None"
| "first_settled fn d (Suc left) =
     (if settled (fst (fn d)) then Some (0, fst (fn d))
      else map_option (\<lambda>(k, r). (Suc k, r)) (first_settled fn (snd (fn d)) left))"

fun after_calls :: "('d \<Rightarrow> 'a attempt \<times> 'd) \<Rightarrow> 'd \<Rightarrow> nat \<Rightarrow> 'd" where
  "after_calls fn d 0 = d"
| "after_calls fn d (Suc k) = after_calls fn (snd (fn d)) k"

definition retry_result :: "string \<Rightarrow> (nat \<times> 'a attempt) option \<Rightarrow> 'a res" where
  "retry_result op_name found =
     (case found of
        None \<Rightarrow> Inl (RuntimeError (''Drive '' @ op_name @ '' failed after retries''))
      | Some (k, r) \<Rightarrow> (case r of Got x \<Rightarrow> Inr x | _ \<Rightarrow> Inl http_error))"

definition calls_made :: "nat \<Rightarrow> (nat \<times> 'a attempt) option \<Rightarrow> nat" where
  "calls_made left found = (case found of None \<Rightarrow> left | Some (k, r) \<Rightarrow> Suc k)"

definition waits_made :: "nat \<Rightarrow> (nat \<times> 'a attempt) option \<Rightarrow> nat" where
  "waits_made left found = (case found of None \<Rightarrow> left | Some (k, r) \<Rightarrow> k)"

definition short_wait :: "real \<Rightarrow> bool" where
  "short_wait t \<longleftrightarrow> 0 \<le> t \<and> t \<le> BACKOFF_MAX"

lemma backoff_short: "short_wait (min (BACKOFF_BASE ^ a + real j / 1000) BACKOFF_MAX)" "short_wait (min (BACKOFF_BASE ^ a) BACKOFF_MAX)"
  by (simp_all add: short_wait_def BACKOFF_BASE_def BACKOFF_MAX_def)

lemma retry_from_run:
  "\<exists>n' new. retry_from rnd op_name fn attempt left (n, waits, d) =
       (retry_result op_name (first_settled fn d left), n', waits @ new, after_calls fn d (calls_made left (first_settled fn d left)))
     \<and> length new = waits_made left (first_settled fn d left) \<and> list_all short_wait new"
proof (induction left arbitrary: attempt n waits d)
  case 0
  show ?case by (simp add: retry_result_def calls_made_def waits_made_def)
next
  case (Suc left)
  obtain r d' where call: "fn d = (r, d')" by (cases "fn d")
  have later: "\<exists>n' new. retry_from rnd op_name fn (Suc attempt) left (m, waits @ [t], d') =
       (retry_result op_name (first_settled fn d (Suc left)), n', waits @ new,
        after_calls fn d (calls_made (Suc left) (first_settled fn d (Suc left))))
     \<and> length new = waits_made (Suc left) (first_settled fn d (Suc left)) \<and> list_all short_wait new"
    if "\<not> settled r" "short_wait t" for m t
  proof -
    from Suc.IH [of "Suc attempt" m "waits @ [t]" d'] obtain n' new where
      "retry_from rnd op_name fn (Suc attempt) left (m, waits @ [t], d') =
         (retry_result op_name (first_settled fn d' left), n', (waits @ [t]) @ new,
          after_calls fn d' (calls_made left (first_settled fn d' left)))"
      "length new = waits_made left (first_settled fn d' left)" "list_all short_wait new" by blast
    with that show ?thesis
      by (intro exI [of _ n'] exI [of _ "t # new"])
        (auto simp: call retry_result_def calls_made_def waits_made_def split: option.splits prod.splits)
  qed
  show ?case
  proof (cases r)
    case (Got x)
    then show ?thesis
      by (simp add: call io_bind_run drive_call_def settled_def retry_result_def calls_made_def waits_made_def)
  next
    case (HttpError status)
    show ?thesis
    proof (cases "retryable status")
      case True
      with later [OF _ backoff_short(1)] HttpError show ?thesis
        by (simp add: call io_bind_run drive_call_def drive_sleep_def rand_below_def settled_def)
    next
      case False
      with HttpError show ?thesis
        by (simp add: call io_bind_run drive_call_def settled_def retry_result_def calls_made_def waits_made_def)
    qed
  next
    case TransportError
    with later [OF _ backoff_short(2)] show ?thesis
      by (simp add: call io_bind_run drive_call_def drive_sleep_def settled_def)
  qed
qed

lemma with_retry_got:
  assumes "fn d = (Got x, d')"
  shows "with_retry rnd op_name fn (n, waits, d) = (Inr x, n, waits, d')"
  by (simp add: with_retry_def MAX_RETRIES_def numeral_eq_Suc io_bind_run drive_call_def assms)

section \<open>What stays on Drive\<close>

text \<open>A service that keeps the files of the folder with the prefix in their names, newest first: identifier,
name and contents. A listing gives one page, of a thousand.\<close>

type_synonym 'd drive_view = "'d \<Rightarrow> (string \<times> string \<times> bytes) list"

definition keeps_backups :: "'d drive_service \<Rightarrow> string \<Rightarrow> string \<Rightarrow> 'd drive_view \<Rightarrow> bool" where
  "keeps_backups svc folder_id name_prefix view \<longleftrightarrow>
     (\<forall>d. distinct (map fst (view d)))
     \<and> (\<forall>name data d. prefix name_prefix name \<longrightarrow>
          (\<exists>i d'. dv_create svc folder_id name data d = (Got i, d') \<and> view d' = (i, name, data) # view d))
     \<and> (\<forall>d. dv_list svc (backup_query folder_id name_prefix) d = (Got (map (\<lambda>(i, name, data). (i, name)) (take 1000 (view d))), d))
     \<and> (\<forall>i d. \<exists>d'. dv_trash svc i d = (Got (), d') \<and> view d' = filter (\<lambda>b. fst b \<noteq> i) (view d))"

lemma kept_distinct: "keeps_backups svc f p view \<Longrightarrow> distinct (map fst (view d))"
  and kept_create: "keeps_backups svc f p view \<Longrightarrow> prefix p name \<Longrightarrow>
      \<exists>i d'. dv_create svc f name data d = (Got i, d') \<and> view d' = (i, name, data) # view d"
  and kept_list: "keeps_backups svc f p view \<Longrightarrow>
      dv_list svc (backup_query f p) d = (Got (map (\<lambda>(i, name, data). (i, name)) (take 1000 (view d))), d)"
  and kept_trash: "keeps_backups svc f p view \<Longrightarrow> \<exists>d'. dv_trash svc i d = (Got (), d') \<and> view d' = filter (\<lambda>b. fst b \<noteq> i) (view d)"
  unfolding keeps_backups_def by simp_all

lemma trash_all_run:
  assumes "keeps_backups svc f p view"
  shows "view d = kept @ old \<Longrightarrow>
     \<exists>d'. io_each (\<lambda>b. drive_trash rnd svc (fst b)) (map (\<lambda>(i, name, data). (i, name)) old) (n, waits, d) = (Inr (), n, waits, d')
       \<and> view d' = kept"
proof (induction old arbitrary: d)
  case Nil
  then show ?case by simp
next
  case (Cons b old)
  obtain i name data where b: "b = (i, name, data)" by (cases b)
  obtain d1 where trash: "dv_trash svc i d = (Got (), d1)" and view: "view d1 = filter (\<lambda>b. fst b \<noteq> i) (view d)"
    using kept_trash [OF assms, where i = i and d = d] by (elim exE conjE) (rule that)
  have "distinct (map fst (kept @ b # old))" using kept_distinct [OF assms, of d] Cons.prems by simp
  then have other: "fst c \<noteq> i" if "c \<in> set kept \<or> c \<in> set old" for c using that by (auto simp: b image_iff)
  have "filter (\<lambda>c. fst c \<noteq> i) kept = kept" "filter (\<lambda>c. fst c \<noteq> i) old = old"
    by (auto intro: filter_True simp: other)
  then have "filter (\<lambda>c. fst c \<noteq> i) (kept @ b # old) = kept @ old" by (simp add: b)
  with view Cons.prems have "view d1 = kept @ old" by simp
  from Cons.IH [OF this] obtain d' where
    "io_each (\<lambda>b. drive_trash rnd svc (fst b)) (map (\<lambda>(i, name, data). (i, name)) old) (n, waits, d1) = (Inr (), n, waits, d')"
    "view d' = kept" by blast
  then show ?case
    by (intro exI [of _ d']) (simp add: b io_bind_run drive_trash_def with_retry_got [where fn = "dv_trash svc i", OF trash])
qed

lemma run_backup_run:
  assumes keeps: "keeps_backups svc folder_id name_prefix view"
    and vars: "py_strip (dget (bk_vars env) ''VELAFLOW_BACKUP_FOLDER_ID'' []) = folder_id" "folder_id \<noteq> []"
      "dget (bk_vars env) ''VELAFLOW_BACKUP_NAME_PREFIX'' ''velaflow-backup-'' = name_prefix"
      "py_strip (dget (bk_vars env) ''VELAFLOW_BACKUP_SA_JSON'' []) = sa" "sa \<noteq> []" "bk_is_file env sa" "bk_connect env sa = Inr svc"
    and retention: "retention_of env = Inr (int r)" and key: "load_backup_key (dget (bk_vars env) ''VELAFLOW_BACKUP_KEY'' []) = Inr key"
    and few: "length (view d) < 1000"
  shows "\<exists>i d'. run_backup env (n, waits, d) = (Inr 0, Suc n, waits, d')
      \<and> view d' = take r ((i, backup_name env,
          encrypt_stream (bk_crypto env) (bk_nonce env n) (bk_tar env (backup_members env key (int r))) key) # view d)"
proof -
  let ?data = "encrypt_stream (bk_crypto env) (bk_nonce env n) (bk_tar env (backup_members env key (int r))) key"
  have named: "prefix name_prefix (backup_name env)" using vars(3) by (simp add: backup_name_def)
  obtain i d1 where create: "dv_create svc folder_id (backup_name env) ?data d = (Got i, d1)"
      and view: "view d1 = (i, backup_name env, ?data) # view d"
    using kept_create [OF keeps named, where data = ?data and d = d] by (elim exE conjE) (rule that)
  let ?all = "(i, backup_name env, ?data) # view d"
  have "view d1 = take r ?all @ drop r ?all" using view by simp
  from trash_all_run [OF keeps this, of "bk_rand env" "Suc n" waits] obtain d' where
    trash: "io_each (\<lambda>b. drive_trash (bk_rand env) svc (fst b)) (drop r (map (\<lambda>(i, name, data). (i, name)) ?all)) (Suc n, waits, d1)
       = (Inr (), Suc n, waits, d')" and view': "view d' = take r ?all"
    unfolding drop_map by blast
  have listed: "list_backups (bk_rand env) svc folder_id name_prefix (m, waits, d1) =
      (Inr (map (\<lambda>(i, name, data). (i, name)) ?all), m, waits, d1)" for m
    unfolding list_backups_def by (rule with_retry_got) (use few in \<open>simp add: kept_list [OF keeps] view\<close>)
  have up: "drive_upload (bk_rand env) svc folder_id (backup_name env) ?data (m, waits, d) = (Inr i, m, waits, d1)" for m
    unfolding drive_upload_def by (rule with_retry_got [where fn = "dv_create svc folder_id (backup_name env) ?data", OF create])
  have "run_backup env (n, waits, d) = (Inr 0, Suc n, waits, d')"
    using vars retention key trash listed up
    by (simp add: run_backup_def Let_def io_bind_run io_draw_def slice_from_def)
  with view' show ?thesis by blast
qed

section \<open>The envelope\<close>

lemma decrypt_encrypt:
  assumes "length nonce = 12" and "aead_correct cr" and "aead_binding cr" and "aead_tagged cr"
  shows "decrypt_stream cr (encrypt_stream cr nonce p key) key' = (if key' = key then Inr p else Inl invalid_tag)"
proof -
  let ?c = "cr_seal cr key nonce (Some MAGIC) p"
  have "length p + 16 \<le> length ?c" using assms(4) unfolding aead_tagged_def by blast
  then have long: "\<not> length (encrypt_stream cr nonce p key) < length MAGIC + NONCE_SIZE + 16"
    using assms(1) by (simp add: encrypt_stream_def NONCE_SIZE_def)
  have parts: "take (length MAGIC) (encrypt_stream cr nonce p key) = MAGIC"
      "take NONCE_SIZE (drop (length MAGIC) (encrypt_stream cr nonce p key)) = nonce"
      "drop (length MAGIC + NONCE_SIZE) (encrypt_stream cr nonce p key) = ?c"
    using assms(1) by (simp_all add: encrypt_stream_def NONCE_SIZE_def)
  have opened: "cr_open cr key' nonce (Some MAGIC) ?c = (if key' = key then Some p else None)"
  proof (cases "key' = key")
    case True
    with assms(2) show ?thesis by (simp add: aead_correct_def)
  next
    case False
    have "cr_open cr key' nonce (Some MAGIC) ?c = None"
      using assms(3) False unfolding aead_binding_def by blast
    with False show ?thesis by simp
  qed
  show ?thesis unfolding decrypt_stream_def by (simp add: long parts opened Let_def)
qed

section \<open>What restoring writes\<close>

lemma py_path_relative: "\<not> prefix ''/'' name \<Longrightarrow> pp_root (py_path name) = NoRoot"
  by (cases name) (auto simp: py_path_def leading_slashes_def)

lemma member_path_relative:
  "\<not> prefix ''/'' name \<Longrightarrow> member_path target name = target\<lparr>pp_parts := pp_parts target @ pp_parts (py_path name)\<rparr>"
  by (simp add: member_path_def path_join_def py_path_relative)

lemma normalize_clean: "pp_root p \<noteq> NoRoot \<Longrightarrow> ''..'' \<notin> set (pp_parts p) \<Longrightarrow> normalize_path cwd p = p"
  by (simp add: normalize_path_def path_join_def norm_parts_id)

text \<open>A directory as the sanitizer gives it.\<close>

definition clean_dir :: "ppath \<Rightarrow> bool" where
  "clean_dir p \<longleftrightarrow> pp_root p \<noteq> NoRoot \<and> ''..'' \<notin> set (pp_parts p)"

lemma normalize_path_clean_dir: "pp_root cwd \<noteq> NoRoot \<Longrightarrow> clean_dir (normalize_path cwd p)"
  by (simp add: clean_dir_def normalize_path_def path_join_def Let_def norm_parts_no_dotdot)

lemma member_out:
  assumes "clean_dir target" and "member_ok cwd target m"
  shows "normalize_path cwd (member_path target (tm_name m)) = member_path target (tm_name m)"
    and "assert_within (member_path target (tm_name m)) (normalize_path cwd target)"
proof -
  from assms(2) have rel: "\<not> prefix ''/'' (tm_name m)" "''..'' \<notin> set (pp_parts (py_path (tm_name m)))"
    by (simp_all add: member_ok_def)
  show "normalize_path cwd (member_path target (tm_name m)) = member_path target (tm_name m)"
    using assms(1) rel by (intro normalize_clean) (simp_all add: clean_dir_def member_path_relative)
  show "assert_within (member_path target (tm_name m)) (normalize_path cwd target)"
    using assms(1) rel by (simp add: clean_dir_def normalize_clean member_path_relative assert_within_def)
qed

definition parent_dir :: "ppath \<Rightarrow> ppath" where
  "parent_dir p = p\<lparr>pp_parts := butlast (pp_parts p)\<rparr>"

definition member_effects :: "ppath \<Rightarrow> tar_member \<Rightarrow> fs_effect list" where
  "member_effects target m =
     (let out = member_path target (tm_name m) in
      case tm_kind m of Directory \<Rightarrow> [MakeDir out] | RegularFile data \<Rightarrow> [MakeDir (parent_dir out), WriteFile out data] | _ \<Rightarrow> [])"

lemma extract_members_run:
  "clean_dir target \<Longrightarrow> list_all (member_ok cwd target) ms \<Longrightarrow>
   extract_members cwd target ms done = (0, done @ concat (map (member_effects target) ms))"
proof (induction ms arbitrary: "done")
  case Nil
  then show ?case by simp
next
  case (Cons m ms)
  then have ok: "member_ok cwd target m" and oks: "list_all (member_ok cwd target) ms" by simp_all
  show ?case
    using Cons.IH [OF Cons.prems(1) oks]
    by (simp add: member_out [OF Cons.prems(1) ok] member_effects_def parent_dir_def Let_def split: member_kind.split)
qed

text \<open>An effect of restoring into a directory: its parent may be made; everything else is inside it.\<close>

definition effect_inside :: "ppath \<Rightarrow> fs_effect \<Rightarrow> bool" where
  "effect_inside target e \<longleftrightarrow>
     (case e of MakeDir p \<Rightarrow> p = parent_dir target \<or> assert_within p target | WriteFile p data \<Rightarrow> assert_within p target)"

lemma member_effects_inside:
  assumes "\<not> prefix ''/'' (tm_name m)"
  shows "list_all (effect_inside target) (member_effects target m)"
proof -
  let ?w = "pp_parts (py_path (tm_name m))"
  have "parent_dir (member_path target (tm_name m)) = parent_dir target
      \<or> assert_within (parent_dir (member_path target (tm_name m))) target"
    by (cases "?w = []") (simp_all add: member_path_relative [OF assms] parent_dir_def assert_within_def butlast_append)
  moreover have "assert_within (member_path target (tm_name m)) target"
    by (simp add: member_path_relative [OF assms] assert_within_def)
  ultimately show ?thesis
    by (simp add: member_effects_def effect_inside_def Let_def split: member_kind.split)
qed

text \<open>The members of the archive in an envelope that the configured key opens.\<close>

definition holds_members :: "restore_env \<Rightarrow> string \<Rightarrow> tar_member list \<Rightarrow> bool" where
  "holds_members env envelope_path members \<longleftrightarrow>
     (\<exists>key envelope plaintext. load_backup_key (rs_key env) = Inr key
       \<and> rs_read env (normalize_path (rs_cwd env) (py_path envelope_path)) = Some envelope
       \<and> decrypt_stream (rs_crypto env) envelope key = Inr plaintext \<and> rs_untar env plaintext = Some members)"

definition dir_made :: "ppath option \<Rightarrow> fs_effect list" where
  "dir_made parent = (case parent of None \<Rightarrow> [] | Some p \<Rightarrow> [MakeDir p])"

lemma safe_resolve_target:
  assumes "safe_resolve cwd ex (Some s) bases must cp = Inr (p, d)"
  shows "p = normalize_path cwd (py_path s) \<and> d = (if cp then Some (parent_dir p) else None)
    \<and> (\<exists>b \<in> set bases. assert_within p (normalize_path cwd b))"
  using assms by (auto simp: safe_resolve_def Let_def parent_dir_def split: if_splits)

text \<open>A run of the restoration: refused, stopped before the first member, or all members extracted.\<close>

lemma run_restore_cases:
  assumes cwd: "pp_root (rs_cwd env) \<noteq> NoRoot" and run: "run_restore env envelope_path target_dir = (r, effects)"
    and target: "target = normalize_path (rs_cwd env) (py_path target_dir)"
  shows "(r \<noteq> Inr 0 \<and> set effects \<subseteq> {MakeDir (parent_dir target), MakeDir target})
    \<or> (\<exists>members. r = Inr 0 \<and> effects = [MakeDir (parent_dir target), MakeDir target] @ concat (map (member_effects target) members)
         \<and> list_all (member_ok (rs_cwd env) target) members \<and> holds_members env envelope_path members
         \<and> (\<exists>b \<in> set (rs_bases env). assert_within target (normalize_path (rs_cwd env) b)))"
proof (cases "safe_resolve (rs_cwd env) (rs_exists env) (Some envelope_path) (rs_bases env) True False")
  case (Inl e)
  with run show ?thesis by (auto simp: run_restore_def)
next
  case (Inr res)
  obtain path d where res: "res = (path, d)" by (cases res)
  note env = Inr [unfolded res] and path = safe_resolve_target [OF Inr [unfolded res], THEN conjunct1]
  show ?thesis
  proof (cases "safe_resolve (rs_cwd env) (\<lambda>_. True) (Some target_dir) (rs_bases env) False True")
    case (Inl e)
    with run env show ?thesis by (auto simp: run_restore_def)
  next
    case (Inr tres)
    obtain t d' where tres: "tres = (t, d')" by (cases tres)
    note tgt = safe_resolve_target [OF Inr [unfolded tres], folded target]
    then have t: "t = target" "d' = Some (parent_dir target)" by simp_all
    have within: "\<exists>b \<in> set (rs_bases env). assert_within target (normalize_path (rs_cwd env) b)" using tgt t(1) by simp
    have clean: "clean_dir target" unfolding target by (rule normalize_path_clean_dir [OF cwd])
    show ?thesis
      using run env Inr tres within extract_members_run [OF clean]
      by (auto simp: run_restore_def t Let_def restore_members_def holds_members_def path [symmetric]
          split: sum.splits option.splits if_splits)
  qed
qed

lemma run_restore_run:
  assumes "pp_root (rs_cwd env) \<noteq> NoRoot"
    and "safe_resolve (rs_cwd env) (rs_exists env) (Some envelope_path) (rs_bases env) True False = Inr (path, none)"
    and "safe_resolve (rs_cwd env) (\<lambda>_. True) (Some target_dir) (rs_bases env) False True = Inr (target, parent)"
    and "load_backup_key (rs_key env) = Inr key" and "rs_read env path = Some envelope"
  shows "run_restore env envelope_path target_dir =
    (case decrypt_stream (rs_crypto env) envelope key of
       Inl e \<Rightarrow> (Inl e, [MakeDir (parent_dir target)])
     | Inr plaintext \<Rightarrow>
         (case rs_untar env plaintext of
            None \<Rightarrow> (Inl (OtherError ''ReadError''), [MakeDir (parent_dir target), MakeDir target])
          | Some members \<Rightarrow>
              if list_all (member_ok (rs_cwd env) target) members
              then (Inr 0, [MakeDir (parent_dir target), MakeDir target] @ concat (map (member_effects target) members))
              else (Inr 3, [MakeDir (parent_dir target), MakeDir target])))"
proof -
  note tgt = safe_resolve_target [OF assms(3)]
  have clean: "clean_dir target" using tgt normalize_path_clean_dir [OF assms(1)] by simp
  show ?thesis
    using assms tgt extract_members_run [OF clean]
    by (simp add: run_restore_def Let_def restore_members_def split: sum.split option.split)
qed

lemma file_written_by:
  assumes "pp_root (rs_cwd env) \<noteq> NoRoot" and "run_restore env envelope_path target_dir = (r, effects)"
    and "target = normalize_path (rs_cwd env) (py_path target_dir)" and w: "WriteFile p data \<in> set effects"
  shows "r = Inr 0 \<and> ''..'' \<notin> set (pp_parts p)
      \<and> (\<exists>b \<in> set (rs_bases env). assert_within target (normalize_path (rs_cwd env) b))
      \<and> (\<exists>members m. holds_members env envelope_path members \<and> m \<in> set members
           \<and> tm_kind m = RegularFile data \<and> p = member_path target (tm_name m))"
  using run_restore_cases [OF assms(1-3)]
proof (elim disjE exE conjE)
  assume "set effects \<subseteq> {MakeDir (parent_dir target), MakeDir target}"
  with w show ?thesis by auto
next
  fix members
  assume found: "r = Inr 0" "holds_members env envelope_path members" "list_all (member_ok (rs_cwd env) target) members"
    "\<exists>b \<in> set (rs_bases env). assert_within target (normalize_path (rs_cwd env) b)"
    "effects = [MakeDir (parent_dir target), MakeDir target] @ concat (map (member_effects target) members)"
  from found(5) w obtain m where m: "m \<in> set members" "WriteFile p data \<in> set (member_effects target m)" by auto
  then have kind: "tm_kind m = RegularFile data" "p = member_path target (tm_name m)"
    by (auto simp: member_effects_def Let_def split: member_kind.splits)
  have "clean_dir target" unfolding assms(3) by (rule normalize_path_clean_dir [OF assms(1)])
  moreover have "member_ok (rs_cwd env) target m" using found(3) m(1) by (simp add: list_all_iff)
  ultimately have "''..'' \<notin> set (pp_parts p)" using kind(2) by (simp add: member_ok_def member_path_relative clean_dir_def)
  with found m(1) kind show ?thesis by blast
qed

lemma restore_effects_inside:
  assumes "pp_root (rs_cwd env) \<noteq> NoRoot" and "run_restore env envelope_path target_dir = (r, effects)"
    and "target = normalize_path (rs_cwd env) (py_path target_dir)"
  shows "list_all (effect_inside target) effects"
proof -
  have made: "effect_inside target (MakeDir (parent_dir target))" "effect_inside target (MakeDir target)"
    by (simp_all add: effect_inside_def assert_within_def)
  have "list_all (effect_inside target) (concat (map (member_effects target) ms))"
    if "list_all (member_ok (rs_cwd env) target) ms" for ms
    using that by (induction ms) (auto simp: member_ok_def intro: member_effects_inside)
  with run_restore_cases [OF assms] made show ?thesis by (auto simp: list_all_iff)
qed

text \<open>A host for the examples: one envelope under \<open>/srv\<close>, whose archive has one directory, one file and one link.\<close>

definition demo_restore :: "bytes \<Rightarrow> string \<Rightarrow> tar_member list \<Rightarrow> restore_env" where
  "demo_restore envelope key members =
     \<lparr>rs_cwd = \<lparr>pp_root = Slash, pp_parts = [''srv'']\<rparr>, rs_bases = [\<lparr>pp_root = Slash, pp_parts = [''srv'']\<rparr>],
      rs_exists = (\<lambda>_. True), rs_read = (\<lambda>_. Some envelope), rs_untar = (\<lambda>_. Some members),
      rs_crypto = framing_crypto, rs_key = key\<rparr>"

definition demo_members :: "tar_member list" where
  "demo_members = [\<lparr>tm_name = ''data'', tm_kind = Directory\<rparr>, \<lparr>tm_name = ''data/a'', tm_kind = RegularFile ''x''\<rparr>,
     \<lparr>tm_name = ''data/b'', tm_kind = SymbolicLink ''a''\<rparr>]"

definition demo_hex :: string where "demo_hex = concat (replicate 32 ''41'')"

lemma demo_hex_key: "load_backup_key demo_hex = Inr (replicate 32 (CHR ''A''))"
  by code_simp

lemmas demo_path_simps = demo_restore_def safe_resolve_def py_path_def leading_slashes_def normalize_path_def
  path_join_def norm_parts_def assert_within_def py_strip_def is_space_def

lemma demo_in:
  "ex \<lparr>pp_root = Slash, pp_parts = [''srv'', ''in'']\<rparr> \<Longrightarrow>
   safe_resolve (rs_cwd (demo_restore e k ms)) ex (Some ''in'') (rs_bases (demo_restore e k ms)) m False
     = Inr (\<lparr>pp_root = Slash, pp_parts = [''srv'', ''in'']\<rparr>, None)"
  by (simp add: demo_path_simps)

lemma demo_out:
  "safe_resolve (rs_cwd (demo_restore e k ms)) ex (Some ''out'') (rs_bases (demo_restore e k ms)) False True
     = Inr (\<lparr>pp_root = Slash, pp_parts = [''srv'', ''out'']\<rparr>, Some \<lparr>pp_root = Slash, pp_parts = [''srv'']\<rparr>)"
  by (simp add: demo_path_simps)

lemma demo_members_ok:
  "list_all (member_ok \<lparr>pp_root = Slash, pp_parts = [''srv'']\<rparr> \<lparr>pp_root = Slash, pp_parts = [''srv'', ''out'']\<rparr>) demo_members"
  by code_simp

text \<open>What the example restores: the directory and the file, not the link.\<close>

lemma demo_restored:
  "run_restore (demo_restore (encrypt_stream framing_crypto (replicate 12 CHR ''n'') [] (replicate 32 (CHR ''A''))) demo_hex demo_members)
     ''in'' ''out'' =
   (Inr 0, [MakeDir \<lparr>pp_root = Slash, pp_parts = [''srv'']\<rparr>, MakeDir \<lparr>pp_root = Slash, pp_parts = [''srv'', ''out'']\<rparr>,
      MakeDir \<lparr>pp_root = Slash, pp_parts = [''srv'', ''out'', ''data'']\<rparr>, MakeDir \<lparr>pp_root = Slash, pp_parts = [''srv'', ''out'', ''data'']\<rparr>,
      WriteFile \<lparr>pp_root = Slash, pp_parts = [''srv'', ''out'', ''data'', ''a'']\<rparr> ''x''])"
proof -
  let ?e = "encrypt_stream framing_crypto (replicate 12 CHR ''n'') [] (replicate 32 (CHR ''A''))"
  let ?env = "demo_restore ?e demo_hex demo_members"
  have abs: "pp_root (rs_cwd ?env) \<noteq> NoRoot" and ex: "rs_exists ?env \<lparr>pp_root = Slash, pp_parts = [''srv'', ''in'']\<rparr>"
    by (simp_all add: demo_restore_def)
  have effects: "concat (map (member_effects \<lparr>pp_root = Slash, pp_parts = [''srv'', ''out'']\<rparr>) demo_members) =
     [MakeDir \<lparr>pp_root = Slash, pp_parts = [''srv'', ''out'', ''data'']\<rparr>, MakeDir \<lparr>pp_root = Slash, pp_parts = [''srv'', ''out'', ''data'']\<rparr>,
      WriteFile \<lparr>pp_root = Slash, pp_parts = [''srv'', ''out'', ''data'', ''a'']\<rparr> ''x'']"
    by code_simp
  have opened: "decrypt_stream (rs_crypto ?env) ?e (replicate 32 (CHR ''A'')) = Inr []"
    using decrypt_encrypt [OF _ framing_crypto_ok, of "replicate 12 CHR ''n''" "[]"] by (simp add: demo_restore_def)
  have "load_backup_key (rs_key ?env) = Inr (replicate 32 (CHR ''A''))" "rs_read ?env \<lparr>pp_root = Slash, pp_parts = [''srv'', ''in'']\<rparr> = Some ?e"
    using demo_hex_key by (simp_all add: demo_restore_def)
  from run_restore_run [OF abs demo_in [where ex = "rs_exists ?env", OF ex] demo_out this] show ?thesis
    unfolding opened using demo_members_ok effects
    by (simp add: demo_restore_def parent_dir_def del: concat_map_singleton)
qed

section \<open>Properties\<close>



text \<open>A call of Drive is tried at most five times: among its first five replies, the first that is a result, or an
error status that is not retried, is what the caller gets, and no later call is made; when none of the five is,
the call fails. Between two calls the client waits, for at most a minute each time.\<close>

theorem drive_retry_bounded:
  "\<exists>n' new. with_retry rnd op_name fn (n, waits, d) =
       (retry_result op_name (first_settled fn d 5), n', waits @ new, after_calls fn d (calls_made 5 (first_settled fn d 5)))
     \<and> length new = waits_made 5 (first_settled fn d 5) \<and> list_all short_wait new"
  unfolding with_retry_def MAX_RETRIES_def by (rule retry_from_run)


text \<open>A service for the example: its state is the list of the files; an identifier is a word longer than all others.\<close>

definition demo_view :: "(string \<times> string \<times> bytes) list \<Rightarrow> (string \<times> string \<times> bytes) list" where
  "demo_view d = (if distinct (map fst d) then d else [])"

definition demo_drive :: "(string \<times> string \<times> bytes) list drive_service" where
  "demo_drive =
     \<lparr>dv_create = (\<lambda>folder_id name data d.
        let i = replicate (Suc (sum_list (map (\<lambda>b. length (fst b)) (demo_view d)))) CHR ''x''
        in (Got i, (i, name, data) # demo_view d)),
      dv_list = (\<lambda>q d. (Got (map (\<lambda>(i, name, data). (i, name)) (take 1000 (demo_view d))), d)),
      dv_trash = (\<lambda>i d. (Got (), filter (\<lambda>b. fst b \<noteq> i) (demo_view d)))\<rparr>"

lemma demo_drive_keeps: "keeps_backups demo_drive folder_id p demo_view"
proof -
  have new: "replicate (Suc (sum_list (map (\<lambda>b. length (fst b)) ds))) CHR ''x'' \<notin> fst ` set ds" for ds :: "(string \<times> string \<times> bytes) list"
  proof
    assume "replicate (Suc (sum_list (map (\<lambda>b. length (fst b)) ds))) CHR ''x'' \<in> fst ` set ds"
    then obtain b where b: "b \<in> set ds" "length (fst b) = Suc (sum_list (map (\<lambda>b. length (fst b)) ds))"
      by (elim imageE) (drule arg_cong [where f = length], simp only: length_replicate)
    have "length (fst b) \<le> sum_list (map (\<lambda>b. length (fst b)) ds)" by (rule member_le_sum_list) (use b(1) in \<open>simp_all add: rev_image_eqI\<close>)
    with b(2) show False by simp
  qed
  have dist: "distinct (map fst (demo_view d))" for d by (simp add: demo_view_def)
  have id: "distinct (map fst ds) \<Longrightarrow> demo_view ds = ds" for ds by (simp add: demo_view_def)
  show ?thesis unfolding keeps_backups_def
  proof (intro conjI allI impI)
    fix name data d
    show "\<exists>i d'. dv_create demo_drive folder_id name data d = (Got i, d') \<and> demo_view d' = (i, name, data) # demo_view d"
      using new [of "demo_view d"] dist [of d] by (simp add: demo_drive_def Let_def id)
  next
    fix i d
    have "distinct (map fst (filter (\<lambda>b. fst b \<noteq> i) (demo_view d)))" using dist by (rule distinct_map_filter)
    then show "\<exists>d'. dv_trash demo_drive i d = (Got (), d') \<and> demo_view d' = filter (\<lambda>b. fst b \<noteq> i) (demo_view d)"
      by (simp add: demo_drive_def id)
  qed (simp_all add: demo_drive_def dist)
qed

definition demo_backup_env :: "(string \<times> string \<times> bytes) list backup_env" where
  "demo_backup_env =
     \<lparr>bk_vars = [(''VELAFLOW_BACKUP_FOLDER_ID'', ''f''), (''VELAFLOW_BACKUP_SA_JSON'', ''sa.json''),
        (''VELAFLOW_BACKUP_KEY'', demo_hex), (''VELAFLOW_BACKUP_RETENTION'', ''2'')],
      bk_is_file = (\<lambda>_. True), bk_tree = (\<lambda>_. None), bk_tar = (\<lambda>_. ''tar''), bk_json = (\<lambda>_. ''{}''), bk_crypto = framing_crypto, bk_nonce = (\<lambda>n. replicate 12 CHR ''n''),
      bk_rand = (\<lambda>n. n), bk_iso = ''2026-01-01T00:00:00+00:00'', bk_stamp = ''20260101T000000Z'', bk_hostname = ''h'',
      bk_connect = (\<lambda>_. Inr demo_drive)\<rparr>"


text \<open>What a backup seals, a restoration with the same key brings back, and one with another key does not: it makes no more than
the parent of the target. With the same key, an archive whose members are all safe gives exactly its directories and
regular files, in order, and an archive with an unsafe member gives none.\<close>

theorem backup_restores:
  assumes "length nonce = 12" and "aead_correct (rs_crypto env)" and "aead_binding (rs_crypto env)" and "aead_tagged (rs_crypto env)"
    and "pp_root (rs_cwd env) \<noteq> NoRoot"
    and "safe_resolve (rs_cwd env) (rs_exists env) (Some envelope_path) (rs_bases env) True False = Inr (path, none)"
    and "safe_resolve (rs_cwd env) (\<lambda>_. True) (Some target_dir) (rs_bases env) False True = Inr (target, parent)"
    and "load_backup_key (rs_key env) = Inr key" and "rs_read env path = Some (encrypt_stream (rs_crypto env) nonce archive key')"
    and "rs_untar env archive = Some members"
  shows "run_restore env envelope_path target_dir =
    (if key \<noteq> key' then (Inl invalid_tag, [MakeDir (parent_dir target)])
     else if list_all (member_ok (rs_cwd env) target) members
     then (Inr 0, [MakeDir (parent_dir target), MakeDir target] @ concat (map (member_effects target) members))
     else (Inr 3, [MakeDir (parent_dir target), MakeDir target]))"
  using run_restore_run [OF assms(5-9)] decrypt_encrypt [OF assms(1-4)] assms(10) by simp

theorem backup_restores_witness:
  "run_restore (demo_restore (encrypt_stream framing_crypto (replicate 12 CHR ''n'') ''tar'' (replicate 32 CHR ''B'')) demo_hex demo_members)
     ''in'' ''out'' = (Inl invalid_tag, [MakeDir \<lparr>pp_root = Slash, pp_parts = [''srv'']\<rparr>])"
proof -
  let ?env = "demo_restore (encrypt_stream framing_crypto (replicate 12 CHR ''n'') ''tar'' (replicate 32 CHR ''B'')) demo_hex demo_members"
  have env: "length (replicate 12 CHR ''n'') = 12" "aead_correct (rs_crypto ?env)" "aead_binding (rs_crypto ?env)" "aead_tagged (rs_crypto ?env)"
     "pp_root (rs_cwd ?env) \<noteq> NoRoot" "rs_exists ?env \<lparr>pp_root = Slash, pp_parts = [''srv'', ''in'']\<rparr>"
     "load_backup_key (rs_key ?env) = Inr (replicate 32 CHR ''A'')"
     "rs_read ?env \<lparr>pp_root = Slash, pp_parts = [''srv'', ''in'']\<rparr> =
        Some (encrypt_stream (rs_crypto ?env) (replicate 12 CHR ''n'') ''tar'' (replicate 32 CHR ''B''))"
     "rs_untar ?env ''tar'' = Some demo_members"
    using demo_hex_key by (simp_all add: demo_restore_def framing_crypto_ok)
  have "replicate 32 CHR ''A'' \<noteq> replicate 32 CHR ''B''" by simp
  then show ?thesis
    using backup_restores [OF env(1-5) demo_in [where ex = "rs_exists ?env", OF env(6)] demo_out env(7-9)]
    by (simp add: parent_dir_def)
qed

end
