(* ===== verification/LocalLlm.thy ===== *)
theory LocalLlm
  imports Llm Silver
begin

text \<open>
  \<open>src/brain/llm_local.py\<close>: the client of a model served on the premises. Parameters are the server, the
  environment, what the hardware cache holds, the text of a value and the check of a bracketed host. The
  splitting of a URL is the one of \<open>urllib.parse\<close>; timeouts and the log are left out. \<open>JNull\<close> is None.
\<close>

section \<open>Splitting a URL\<close>

text \<open>Leading control characters and spaces, and tabs and line ends anywhere, are dropped first.\<close>

definition url_clean :: "string \<Rightarrow> string" where
  "url_clean s = filter (\<lambda>c. c \<notin> {CHR 0x09, CHR 0x0A, CHR 0x0D}) (dropWhile (\<lambda>c. (of_char c :: nat) \<le> 32) s)"

definition scheme_char :: "char \<Rightarrow> bool" where
  "scheme_char c \<longleftrightarrow> ascii_letter c \<or> re_digit c \<or> c \<in> {CHR ''+'', CHR ''-'', CHR ''.''}"

definition split_scheme :: "string \<Rightarrow> string \<times> string" where
  "split_scheme url =
     (let s = takeWhile (\<lambda>c. c \<noteq> CHR '':'') url in
      if CHR '':'' \<in> set url \<and> s \<noteq> [] \<and> ascii_letter (hd s) \<and> list_all scheme_char s
      then (map lower_char s, drop (Suc (length s)) url) else ([], url))"

definition netloc_of :: "string \<Rightarrow> string" where
  "netloc_of rest =
     (if prefix ''//'' rest then takeWhile (\<lambda>c. c \<notin> {CHR ''/'', CHR ''?'', CHR ''#''}) (drop 2 rest) else [])"

definition after_last :: "char \<Rightarrow> string \<Rightarrow> string" where
  "after_last c s = rev (takeWhile (\<lambda>x. x \<noteq> c) (rev s))"

definition host_part :: "string \<Rightarrow> string" where
  "host_part netloc =
     (let info = after_last CHR ''@'' netloc in
      if CHR ''['' \<in> set info
      then takeWhile (\<lambda>c. c \<noteq> CHR '']'') (tl (dropWhile (\<lambda>c. c \<noteq> CHR ''['') info))
      else takeWhile (\<lambda>c. c \<noteq> CHR '':'') info)"

definition hostname_of :: "string \<Rightarrow> string option" where
  "hostname_of netloc =
     (let h = host_part netloc in
      if h = [] then None
      else Some (map lower_char (takeWhile (\<lambda>c. c \<noteq> CHR ''%'') h) @ dropWhile (\<lambda>c. c \<noteq> CHR ''%'') h))"

definition url_parse :: "(string \<Rightarrow> bool) \<Rightarrow> string \<Rightarrow> (string \<times> string option) res" where
  "url_parse bracket_ok url =
     (case split_scheme (url_clean url) of
        (scheme, rest) \<Rightarrow>
          (let netloc = netloc_of rest in
           if (CHR ''['' \<in> set netloc) \<noteq> (CHR '']'' \<in> set netloc) then Inl (ValueError ''Invalid IPv6 URL'')
           else if CHR ''['' \<in> set netloc \<and> \<not> bracket_ok netloc then Inl (ValueError ''Invalid IPv6 URL'')
           else Inr (scheme, hostname_of netloc)))"

section \<open>The hardware profile\<close>

record hardware_profile =
  hw_has_gpu :: bool
  hw_gpu_name :: string
  hw_gpu_memory_mb :: int
  hw_recommended_model :: string

record 's local_env =
  lo_server :: "'s server"
  lo_vars :: "(string \<times> string) list"
  lo_cache :: "string \<Rightarrow> json res option"
  lo_str :: "json \<Rightarrow> string"
  lo_bracket_ok :: "string \<Rightarrow> bool"

definition DEFAULT_MODEL :: string where "DEFAULT_MODEL = ''qwen2:1.5b''"
definition DEFAULT_OLLAMA_URL :: string where "DEFAULT_OLLAMA_URL = ''http://localhost:11434''"
definition HARDWARE_CACHE_DEFAULT :: string where "HARDWARE_CACHE_DEFAULT = ''data/hardware.json''"

definition device_label :: "hardware_profile \<Rightarrow> string" where
  "device_label hw =
     (if hw_has_gpu hw then ''GPU ('' @ hw_gpu_name hw @ '', '' @ int_text (hw_gpu_memory_mb hw) @ '' MB)'' else ''CPU-only'')"

definition cpu_profile :: hardware_profile where
  "cpu_profile = \<lparr>hw_has_gpu = False, hw_gpu_name = ''none'', hw_gpu_memory_mb = 0, hw_recommended_model = DEFAULT_MODEL\<rparr>"

definition model_for_memory :: "int \<Rightarrow> string" where
  "model_for_memory mem =
     (if mem \<ge> 8000 then ''llama3.2:3b'' else if mem \<ge> 4000 then ''phi3:3.8b'' else DEFAULT_MODEL)"

text \<open>Only a missing file, an unreadable one and a text that is no JSON are caught.\<close>

definition cache_error :: "py_error \<Rightarrow> bool" where
  "cache_error e \<longleftrightarrow> (case e of OSError _ \<Rightarrow> True | ValueError _ \<Rightarrow> True | _ \<Rightarrow> False)"

definition detect_hardware :: "'s local_env \<Rightarrow> hardware_profile res" where
  "detect_hardware env =
     (case lo_cache env (dget (lo_vars env) ''VELAFLOW_HARDWARE_JSON'' HARDWARE_CACHE_DEFAULT) of
        None \<Rightarrow> Inr cpu_profile
      | Some (Inl e) \<Rightarrow> if cache_error e then Inr cpu_profile else Inl e
      | Some (Inr data) \<Rightarrow>
          rbind (get_key data ''has_gpu'' (JBool False)) (\<lambda>has_gpu.
            if \<not> jtruthy has_gpu then Inr cpu_profile
            else rbind (get_key data ''gpu_name'' (JStr ''unknown'')) (\<lambda>name.
                 rbind (get_key data ''gpu_memory_mb'' (JInt 0)) (\<lambda>v.
                   let mem = safe_int v 0 in
                   Inr \<lparr>hw_has_gpu = True, hw_gpu_name = (case name of JStr s \<Rightarrow> s | _ \<Rightarrow> lo_str env name),
                        hw_gpu_memory_mb = mem, hw_recommended_model = model_for_memory mem\<rparr>))))"

section \<open>The client\<close>

record local_client =
  lm_base_url :: string
  lm_model :: string
  lm_hardware :: hardware_profile

definition given_or :: "string option \<Rightarrow> string \<Rightarrow> string" where
  "given_or x dflt = (case x of None \<Rightarrow> dflt | Some s \<Rightarrow> if s = [] then dflt else s)"

definition local_hosts :: "string option list" where
  "local_hosts = [Some ''localhost'', Some ''127.0.0.1'', Some ''::1'']"

definition plain_http_elsewhere :: "string \<times> string option \<Rightarrow> bool" where
  "plain_http_elsewhere parsed \<longleftrightarrow> fst parsed = ''http'' \<and> snd parsed \<notin> set local_hosts"

definition new_local_client :: "'s local_env \<Rightarrow> string option \<Rightarrow> string option \<Rightarrow> local_client res" where
  "new_local_client env base_url model =
     (let base_url = rstrip_slash (given_or base_url (dget (lo_vars env) ''PREMIUM_LLM_URL'' DEFAULT_OLLAMA_URL)) in
      rbind (url_parse (lo_bracket_ok env) base_url) (\<lambda>parsed.
        if plain_http_elsewhere parsed
        then Inl (ValueError (''Plain HTTP to non-local LLM endpoint is forbidden: '' @ base_url))
        else rbind (detect_hardware env) (\<lambda>hw.
               Inr \<lparr>lm_base_url = base_url,
                    lm_model = given_or model (dget (lo_vars env) ''PREMIUM_LLM_MODEL'' DEFAULT_MODEL), lm_hardware = hw\<rparr>)))"

section \<open>Its operations\<close>

text \<open>A request, and what is caught around it.\<close>

definition local_request :: "local_client \<Rightarrow> http_method \<Rightarrow> string \<Rightarrow> jdict \<Rightarrow> http_request" where
  "local_request c method path body =
     \<lparr>hr_method = method, hr_url = lm_base_url c @ path, hr_headers = [], hr_params = [], hr_body = body\<rparr>"

definition on_request_error :: "'a \<Rightarrow> ('s, 'a) io \<Rightarrow> ('s, 'a) io" where
  "on_request_error x m = io_catch m (\<lambda>e. if e = request_error then io_ret x else io_raise e)"

text \<open>\<open>for m in v\<close> and \<open>p in m\<close>.\<close>

definition iterated :: "json \<Rightarrow> json list res" where
  "iterated v =
     (case v of
        JArr xs \<Rightarrow> Inr xs
      | JStr s \<Rightarrow> Inr (map (\<lambda>c. JStr [c]) s)
      | JObj d \<Rightarrow> Inr (map (\<lambda>(k, _). JStr k) d)
      | _ \<Rightarrow> Inl (OtherError ''TypeError''))"

definition holds_text :: "string \<Rightarrow> json \<Rightarrow> bool res" where
  "holds_text p v =
     (case v of
        JStr s \<Rightarrow> Inr (py_contains p s)
      | JArr xs \<Rightarrow> Inr (JStr p \<in> set xs)
      | JObj d \<Rightarrow> Inr (has_key d p)
      | _ \<Rightarrow> Inl (OtherError ''TypeError''))"

fun any_holds :: "string \<Rightarrow> json list \<Rightarrow> bool res" where
  "any_holds p [] = Inr False"
| "any_holds p (v # vs) = rbind (holds_text p v) (\<lambda>b. if b then Inr True else any_holds p vs)"

definition model_family :: "local_client \<Rightarrow> string" where
  "model_family c = takeWhile (\<lambda>x. x \<noteq> CHR '':'') (lm_model c)"

definition is_available :: "'s local_env \<Rightarrow> local_client \<Rightarrow> ('s web, bool) io" where
  "is_available env c =
     io_catch
       (io_bind (http_send (lo_server env) (local_request c GET ''/api/tags'' [])) (\<lambda>resp.
          if fst resp \<noteq> 200 then io_ret False
          else io_res (rbind (snd resp) (\<lambda>data. rbind (get_key data ''models'' (JArr [])) (\<lambda>ms. rbind (iterated ms) (\<lambda>ms.
                 rbind (rmap (\<lambda>m. get_key m ''name'' (JStr [])) ms) (any_holds (model_family c))))))))
       (\<lambda>e. if e = request_error \<or> (case e of ValueError _ \<Rightarrow> True | _ \<Rightarrow> False) then io_ret False else io_raise e)"

definition generate_payload :: "local_client \<Rightarrow> string \<Rightarrow> string \<Rightarrow> real \<Rightarrow> jdict" where
  "generate_payload c prompt system temperature =
     [(''model'', JStr (lm_model c)), (''prompt'', JStr prompt), (''stream'', JBool False),
      (''options'', JObj [(''temperature'', JReal temperature), (''num_ctx'', JInt 2048)])]
     @ (if system \<noteq> [] then [(''system'', JStr system)] else [])"

definition local_generate :: "'s local_env \<Rightarrow> local_client \<Rightarrow> string \<Rightarrow> string \<Rightarrow> real \<Rightarrow> ('s web, json) io" where
  "local_generate env c prompt system temperature =
     on_request_error JNull
       (io_bind (http_send (lo_server env) (local_request c POST ''/api/generate'' (generate_payload c prompt system temperature)))
          (\<lambda>resp. io_res (rbind (raise_for_status resp) (\<lambda>data. get_key data ''response'' (JStr [])))))"

definition pull_model :: "'s local_env \<Rightarrow> local_client \<Rightarrow> ('s web, bool) io" where
  "pull_model env c =
     on_request_error False
       (io_bind (http_send (lo_server env)
                   (local_request c POST ''/api/pull'' [(''name'', JStr (lm_model c)), (''stream'', JBool False)]))
          (\<lambda>resp. io_ret (fst resp = 200)))"

definition local_chat_payload :: "local_client \<Rightarrow> string \<Rightarrow> string \<Rightarrow> real \<Rightarrow> jdict" where
  "local_chat_payload c user_text system_prompt temperature =
     [(''model'', JStr (lm_model c)),
      (''messages'', JArr [JObj [(''role'', JStr ''system''), (''content'', JStr system_prompt)],
                           JObj [(''role'', JStr ''user''), (''content'', JStr user_text)]]),
      (''stream'', JBool False),
      (''options'', JObj [(''temperature'', JReal temperature), (''num_predict'', JInt 2500)])]"

definition local_chat :: "'s local_env \<Rightarrow> local_client \<Rightarrow> string \<Rightarrow> string \<Rightarrow> real \<Rightarrow> ('s web, json) io" where
  "local_chat env c user_text system_prompt temperature =
     on_request_error JNull
       (io_bind (http_send (lo_server env)
                   (local_request c POST ''/api/chat'' (local_chat_payload c user_text system_prompt temperature)))
          (\<lambda>resp. if fst resp \<noteq> 200 then io_ret JNull
                  else io_res (rbind (snd resp) (\<lambda>data. rbind (get_key data ''message'' (JObj [])) (\<lambda>msg.
                         rbind (get_key msg ''content'' (JStr [])) (\<lambda>content.
                           Inr (if jtruthy content then content else JNull)))))))"

definition local_embed :: "'s local_env \<Rightarrow> local_client \<Rightarrow> string \<Rightarrow> ('s web, json) io" where
  "local_embed env c s =
     on_request_error JNull
       (io_bind (http_send (lo_server env)
                   (local_request c POST ''/api/embeddings'' [(''model'', JStr (lm_model c)), (''prompt'', JStr s)]))
          (\<lambda>resp. if fst resp \<noteq> 200 then io_ret JNull
                  else io_res (rbind (snd resp) (\<lambda>data. get_key data ''embedding'' JNull))))"

end
