(* ===== verification/LocalLlmLaws.thy ===== *)
theory LocalLlmLaws
  imports LocalLlm Installer
begin

text \<open>
  What the local client guarantees: it never speaks plain HTTP to another host, as the URL is split here,
  and every request goes to one of five paths below its base URL; a server that cannot be reached gives no
  answer and no exception; and the profile it works with is the one the installer found.
\<close>

section \<open>Where requests go\<close>

definition local_paths :: "string list" where
  "local_paths = [''/api/tags'', ''/api/generate'', ''/api/pull'', ''/api/chat'', ''/api/embeddings'']"

definition at_home :: "local_client \<Rightarrow> http_request \<Rightarrow> bool" where
  "at_home c req \<longleftrightarrow> hr_url req \<in> set (map ((@) (lm_base_url c)) local_paths) \<and> hr_headers req = [] \<and> hr_params req = []"

lemma at_home_request: "path \<in> set local_paths \<Longrightarrow> at_home c (local_request c method path body)"
  by (simp add: at_home_def local_request_def)

lemma sends_only_on_error: "sends_only P m \<Longrightarrow> sends_only P (on_request_error x m)"
  unfolding on_request_error_def by (intro sends_only_catch) (auto simp: sends_only_ret sends_only_raise)

lemmas home_rules = sends_only_on_error sends_only_bind sends_only_send at_home_request

lemma local_operations_at_home:
  "sends_only (at_home c) (is_available env c)" "sends_only (at_home c) (local_generate env c p s t)"
  "sends_only (at_home c) (pull_model env c)" "sends_only (at_home c) (local_chat env c p s t)"
  "sends_only (at_home c) (local_embed env c p)"
  unfolding is_available_def local_generate_def pull_model_def local_chat_def local_embed_def
  by (intro home_rules sends_only_catch; auto simp: local_paths_def sends_only_ret sends_only_res sends_only_raise)+

lemma new_local_client_Inr:
  assumes "new_local_client env base_url model = Inr c"
  shows "\<exists>parsed. url_parse (lo_bracket_ok env) (lm_base_url c) = Inr parsed
      \<and> (fst parsed = ''http'' \<longrightarrow> snd parsed \<in> {Some ''localhost'', Some ''127.0.0.1'', Some ''::1''})"
  using assms by (auto simp: new_local_client_def Let_def rbind_Inr_iff plain_http_elsewhere_def local_hosts_def split: if_splits)

lemma new_local_client_refuses:
  assumes "url_parse (lo_bracket_ok env) (rstrip_slash u) = Inr (''http'', host)" and "u \<noteq> []"
    and "host \<notin> {Some ''localhost'', Some ''127.0.0.1'', Some ''::1''}"
  shows "new_local_client env (Some u) model =
    Inl (ValueError (''Plain HTTP to non-local LLM endpoint is forbidden: '' @ rstrip_slash u))"
  using assms by (simp add: new_local_client_def Let_def given_or_def plain_http_elsewhere_def local_hosts_def)

section \<open>A server that cannot be reached\<close>

definition unreachable :: "'s server \<Rightarrow> bool" where
  "unreachable server \<longleftrightarrow> (\<forall>req s. fst (server req s) = Inl request_error)"

lemma send_unreachable:
  assumes "unreachable server"
  shows "\<exists>s'. http_send server req (n, reqs, s) = (Inl request_error, n, reqs @ [req], s')"
  using assms by (cases "server req s") (auto simp: http_send_def unreachable_def, metis fst_conv)

lemma on_error_unreachable:
  assumes "unreachable server"
  shows "fst (on_request_error x (io_bind (http_send server req) f) (n, reqs, s)) = Inr x"
proof -
  obtain s' where "http_send server req (n, reqs, s) = (Inl request_error, n, reqs @ [req], s')"
    using send_unreachable [OF assms] by blast
  then show ?thesis by (simp add: on_request_error_def io_catch_def io_bind_run)
qed

lemma available_unreachable:
  assumes "unreachable (lo_server env)"
  shows "fst (is_available env c (n, reqs, s)) = Inr False"
proof -
  obtain s' where "http_send (lo_server env) (local_request c GET ''/api/tags'' []) (n, reqs, s)
      = (Inl request_error, n, reqs @ [local_request c GET ''/api/tags'' []], s')"
    using send_unreachable [OF assms] by blast
  then show ?thesis by (simp add: is_available_def io_catch_def io_bind_run)
qed

section \<open>The profile\<close>

text \<open>What the installer saw: the line of the card, when the tool ran and printed one.\<close>

definition seen_gpu :: "host \<Rightarrow> string option" where
  "seen_gpu h =
     (case ho_nvidia_smi h of
        None \<Rightarrow> None
      | Some (code, out) \<Rightarrow> if code = 0 \<and> uni_strip out \<noteq> [] then Some (takeWhile (\<lambda>c. \<not> line_break c) (uni_strip out)) else None)"

definition gpu_memory :: "string \<Rightarrow> int" where
  "gpu_memory line =
     (case map uni_strip (py_split CHR '','' line) of
        name # mem # rest \<Rightarrow> (case py_int mem of Some i \<Rightarrow> i | None \<Rightarrow> 0) | _ \<Rightarrow> 0)"

lemma second_part: "(if length xs > 1 then (case py_int (xs ! 1) of Some i \<Rightarrow> i | None \<Rightarrow> 0) else 0) =
    (case xs of name # mem # rest \<Rightarrow> (case py_int mem of Some i \<Rightarrow> i | None \<Rightarrow> 0) | _ \<Rightarrow> 0)"
  by (cases xs; cases "tl xs") auto

lemma detected_hardware_seen:
  "detected_hardware h =
     (case seen_gpu h of
        None \<Rightarrow> hardware_json False ''none'' 0
      | Some line \<Rightarrow> hardware_json True (uni_strip (hd (py_split CHR '','' line))) (gpu_memory line))"
  unfolding gpu_memory_def second_part [symmetric]
  by (auto simp: detected_hardware_def seen_gpu_def Let_def hd_map split: option.split)

lemma detect_hardware_json:
  assumes "lo_cache env (dget (lo_vars env) ''VELAFLOW_HARDWARE_JSON'' HARDWARE_CACHE_DEFAULT) = Some (Inr (hardware_json gpu name mem))"
  shows "detect_hardware env = Inr (if gpu then \<lparr>hw_has_gpu = True, hw_gpu_name = name, hw_gpu_memory_mb = mem,
      hw_recommended_model = model_for_memory mem\<rparr> else cpu_profile)"
  using assms by (simp add: detect_hardware_def hardware_json_def get_key_def safe_int_def Let_def)

definition demo_local_env :: "json res option \<Rightarrow> unit local_env" where
  "demo_local_env cache =
     \<lparr>lo_server = (\<lambda>req s. (Inl request_error, s)), lo_vars = [], lo_cache = (\<lambda>_. cache), lo_str = (\<lambda>_. []), lo_bracket_ok = (\<lambda>_. True)\<rparr>"

lemma demo_local_client:
  "new_local_client (demo_local_env None) None None =
     Inr \<lparr>lm_base_url = ''http://localhost:11434'', lm_model = ''qwen2:1.5b'', lm_hardware = cpu_profile\<rparr>"
  by code_simp

definition demo_gpu_host :: host where
  "demo_gpu_host =
     \<lparr>ho_system = ''Linux'', ho_pve_dir = False, ho_init_environ = None, ho_detect_virt = None, ho_metadata = None,
      ho_python_ok = True, ho_nvidia_smi = Some (0, ''RTX, 6144'')\<rparr>"

lemma demo_gpu_seen: "seen_gpu demo_gpu_host = Some ''RTX, 6144''" "gpu_memory ''RTX, 6144'' = 6144"
  by code_simp+

section \<open>Properties\<close>

text \<open>The local client stays where it was sent: a client that exists has a base URL that is not plain HTTP, or whose
host, as the code splits the URL, is the machine itself; and everything its operations send, whatever they
return, goes to one of its five paths below that base URL, without headers or query.\<close>

theorem local_llm_stays_home:
  assumes "new_local_client env base_url model = Inr c"
  shows "(\<exists>parsed. url_parse (lo_bracket_ok env) (lm_base_url c) = Inr parsed
        \<and> (fst parsed = ''http'' \<longrightarrow> snd parsed \<in> {Some ''localhost'', Some ''127.0.0.1'', Some ''::1''}))
    \<and> sends_only (at_home c) (is_available env c) \<and> sends_only (at_home c) (local_generate env c p sys t)
    \<and> sends_only (at_home c) (pull_model env c) \<and> sends_only (at_home c) (local_chat env c p sys t)
    \<and> sends_only (at_home c) (local_embed env c p)"
  using new_local_client_Inr [OF assms] local_operations_at_home by blast

theorem local_llm_stays_home_witness:
  "sends_only (at_home \<lparr>lm_base_url = ''http://localhost:11434'', lm_model = ''qwen2:1.5b'', lm_hardware = cpu_profile\<rparr>)
     (local_chat (demo_local_env None) \<lparr>lm_base_url = ''http://localhost:11434'', lm_model = ''qwen2:1.5b'', lm_hardware = cpu_profile\<rparr>
        ''plan my day'' ''be short'' 0)"
  using local_llm_stays_home [OF demo_local_client] by blast

text \<open>A server that cannot be reached gives no answer and no exception: the client says that the model is not available and
was not pulled, and generation, chat and embedding return None, so that the caller goes on to its fallback.\<close>

theorem local_llm_falls_back:
  assumes "unreachable (lo_server env)"
  shows "fst (is_available env c w) = Inr False \<and> fst (pull_model env c w) = Inr False
    \<and> fst (local_generate env c p sys t w) = Inr JNull \<and> fst (local_chat env c p sys t w) = Inr JNull
    \<and> fst (local_embed env c p w) = Inr JNull"
proof -
  obtain n reqs s where w: "w = (n, reqs, s)" by (cases w)
  show ?thesis
    unfolding w pull_model_def local_generate_def local_chat_def local_embed_def
    by (simp only: available_unreachable [OF assms] on_error_unreachable [OF assms])
qed

theorem local_llm_falls_back_witness:
  "fst (local_chat (demo_local_env None) \<lparr>lm_base_url = ''http://localhost:11434'', lm_model = ''qwen2:1.5b'', lm_hardware = cpu_profile\<rparr>
     ''p'' ''s'' 0 (0, [], ())) = Inr JNull"
  using local_llm_falls_back [of "demo_local_env None"] by (simp add: unreachable_def demo_local_env_def)

text \<open>The profile the product works with is the one the installer found: when the file at the configured path is what the installer
writes for a host, there is a GPU exactly when the tool ran and printed a line, with the name and the memory on that line, and
the model is the largest that the memory carries; no profile of the installer makes the product fail.\<close>

theorem installer_profile_is_used:
  assumes "lo_cache env (dget (lo_vars env) ''VELAFLOW_HARDWARE_JSON'' HARDWARE_CACHE_DEFAULT) = Some (Inr (detected_hardware h))"
  shows "\<exists>hw. detect_hardware env = Inr hw \<and> (hw_has_gpu hw \<longleftrightarrow> seen_gpu h \<noteq> None)
    \<and> (\<forall>line. seen_gpu h = Some line \<longrightarrow>
         hw_gpu_name hw = uni_strip (hd (py_split CHR '','' line)) \<and> hw_gpu_memory_mb hw = gpu_memory line)
    \<and> (hw_recommended_model hw = ''llama3.2:3b'' \<longleftrightarrow> 8000 \<le> hw_gpu_memory_mb hw)
    \<and> (hw_recommended_model hw = ''phi3:3.8b'' \<longleftrightarrow> 4000 \<le> hw_gpu_memory_mb hw \<and> hw_gpu_memory_mb hw < 8000)
    \<and> (hw_recommended_model hw = DEFAULT_MODEL \<longleftrightarrow> hw_gpu_memory_mb hw < 4000)"
proof (cases "seen_gpu h")
  case None
  with assms have "detect_hardware env = Inr cpu_profile"
    using detect_hardware_json [of env False] by (simp add: detected_hardware_seen)
  with None show ?thesis by (simp add: cpu_profile_def DEFAULT_MODEL_def)
next
  case (Some line)
  with assms have "detect_hardware env = Inr \<lparr>hw_has_gpu = True, hw_gpu_name = uni_strip (hd (py_split CHR '','' line)),
      hw_gpu_memory_mb = gpu_memory line, hw_recommended_model = model_for_memory (gpu_memory line)\<rparr>"
    using detect_hardware_json [of env True] by (simp add: detected_hardware_seen)
  with Some show ?thesis by (auto simp: model_for_memory_def DEFAULT_MODEL_def)
qed

theorem installer_profile_is_used_witness:
  "\<exists>hw. detect_hardware (demo_local_env (Some (Inr (detected_hardware demo_gpu_host)))) = Inr hw
     \<and> hw_has_gpu hw \<and> hw_gpu_memory_mb hw = 6144 \<and> hw_recommended_model hw = ''phi3:3.8b''"
proof -
  have "lo_cache (demo_local_env (Some (Inr (detected_hardware demo_gpu_host))))
      (dget (lo_vars (demo_local_env (Some (Inr (detected_hardware demo_gpu_host))))) ''VELAFLOW_HARDWARE_JSON'' HARDWARE_CACHE_DEFAULT)
      = Some (Inr (detected_hardware demo_gpu_host))"
    by (simp add: demo_local_env_def)
  from installer_profile_is_used [OF this] obtain hw where
    hw: "detect_hardware (demo_local_env (Some (Inr (detected_hardware demo_gpu_host)))) = Inr hw"
      "hw_has_gpu hw" "hw_gpu_memory_mb hw = 6144"
      "hw_recommended_model hw = ''phi3:3.8b'' \<longleftrightarrow> 4000 \<le> hw_gpu_memory_mb hw \<and> hw_gpu_memory_mb hw < 8000"
    by (auto simp: demo_gpu_seen)
  then show ?thesis by auto
qed

end
